(* ===== verification/Campaign_Prelude.thy ===== *)
theory Campaign_Prelude
  imports Complex_Main "HOL-Library.List_Lexorder" "HOL-Library.Char_ord"
    "HOL-Library.Product_Lexorder"
begin

text \<open>
  The prelude of the campaign-platform development: the error values and the
  state-and-exception programs every operation is written in, the fragment of
  JavaScript string handling the server uses, relational tables with their
  SELECT, INSERT, UPDATE, DELETE and upsert statements, and the proof rules
  the component theories share (\<open>run_simps\<close> executes programs, \<open>follows_intros\<close>
  and \<open>preserves_intros\<close> carry relations and invariants through them). The locale
  \<open>table_lens\<close> is the contract between a table descriptor and the state that holds
  the table.
\<close>

named_theorems run_simps \<open>execution of the program combinators\<close>
named_theorems follows_intros \<open>a transition relation holds along a program\<close>
named_theorems preserves_intros \<open>an invariant is kept by a program\<close>
named_theorems table_simps \<open>effect of the table statements\<close>

section \<open>Errors\<close>

text \<open>
  What the server throws: a \<open>TRPCError\<close> with its code and message, an error raised by
  PostgreSQL while it executes a statement, or a plain JavaScript \<open>Error\<close>.
  Message texts are kept up to their first sentence, in ASCII.
\<close>

datatype trpc_code =
    UNAUTHORIZED | FORBIDDEN | BAD_REQUEST | NOT_FOUND | CONFLICT | TOO_MANY_REQUESTS
  | INTERNAL_SERVER_ERROR

datatype pg_violation =
    CheckViolation \<comment> \<open>a value that does not fit its column, or a missing referenced row\<close>
  | UniqueViolation
  | ForeignKeyViolation \<comment> \<open>a DELETE of a row that others still reference\<close>
  | InvalidEnumValue

datatype error =
    TRPC trpc_code string
  | PgError pg_violation
  | PlainError string
  | OtherError string \<comment> \<open>an exception of another class, as \<open>String(e)\<close> prints it\<close>

section \<open>Programs over a state\<close>

text \<open>
  An \<open>async\<close> function of the server is a state transformer that either returns a value
  or throws. The state survives a throw: the statements executed before it stay
  executed, unless they ran inside a transaction.
\<close>

type_synonym ('s, 'a) proc = "'s \<Rightarrow> (error + 'a) \<times> 's"

definition returnE :: "'a \<Rightarrow> ('s, 'a) proc" where
  "returnE x s = (Inr x, s)"

definition throwE :: "error \<Rightarrow> ('s, 'a) proc" where
  "throwE e s = (Inl e, s)"

definition bindE :: "('s, 'a) proc \<Rightarrow> ('a \<Rightarrow> ('s, 'b) proc) \<Rightarrow> ('s, 'b) proc" where
  "bindE m f s = (case m s of (Inl e, s') \<Rightarrow> (Inl e, s') | (Inr x, s') \<Rightarrow> f x s')"

definition seqE :: "('s, 'a) proc \<Rightarrow> ('s, 'b) proc \<Rightarrow> ('s, 'b) proc" where
  "seqE m n = bindE m (\<lambda>_. n)"

definition getE :: "('s \<Rightarrow> 'a) \<Rightarrow> ('s, 'a) proc" where
  "getE f s = (Inr (f s), s)"

definition modifyE :: "('s \<Rightarrow> 's) \<Rightarrow> ('s, unit) proc" where
  "modifyE f s = (Inr (), f s)"

definition guardE :: "bool \<Rightarrow> error \<Rightarrow> ('s, unit) proc" where
  "guardE b e = (if b then returnE () else throwE e)"

definition catchE :: "('s, 'a) proc \<Rightarrow> (error \<Rightarrow> ('s, 'a) proc) \<Rightarrow> ('s, 'a) proc" where
  "catchE m h s = (case m s of (Inl e, s') \<Rightarrow> h e s' | (Inr x, s') \<Rightarrow> (Inr x, s'))"

text \<open>\<open>db.transaction\<close>: an error inside rolls the state back.\<close>

definition transactionE :: "('s, 'a) proc \<Rightarrow> ('s, 'a) proc" where
  "transactionE m s = (case m s of (Inl e, s') \<Rightarrow> (Inl e, s) | (Inr x, s') \<Rightarrow> (Inr x, s'))"

text \<open>A \<open>for ... of\<close> loop that awaits its body.\<close>

primrec forE :: "'a list \<Rightarrow> ('a \<Rightarrow> ('s, 'b) proc) \<Rightarrow> ('s, unit) proc" where
  "forE [] f = returnE ()"
| "forE (x # xs) f = seqE (f x) (forE xs f)"

definition voidE :: "('s, 'a) proc \<Rightarrow> ('s, unit) proc" where
  "voidE m = bindE m (\<lambda>_. returnE ())"

lemma returnE_run [run_simps]: "returnE x s = (Inr x, s)"
  by (simp add: returnE_def)

lemma throwE_run [run_simps]: "throwE e s = (Inl e, s)"
  by (simp add: throwE_def)

lemma getE_run [run_simps]: "getE f s = (Inr (f s), s)"
  by (simp add: getE_def)

lemma modifyE_run [run_simps]: "modifyE f s = (Inr (), f s)"
  by (simp add: modifyE_def)

lemma guardE_run [run_simps]: "guardE b e s = ((if b then Inr () else Inl e), s)"
  by (simp add: guardE_def run_simps)

lemma bindE_run [run_simps]:
  "bindE m f s = (case m s of (Inl e, s') \<Rightarrow> (Inl e, s') | (Inr x, s') \<Rightarrow> f x s')"
  by (simp add: bindE_def)

lemma seqE_run [run_simps]:
  "seqE m n s = (case m s of (Inl e, s') \<Rightarrow> (Inl e, s') | (Inr x, s') \<Rightarrow> n s')"
  by (simp add: seqE_def bindE_def)

lemma voidE_run [run_simps]:
  "voidE m s = (case m s of (Inl e, s') \<Rightarrow> (Inl e, s') | (Inr x, s') \<Rightarrow> (Inr (), s'))"
  by (simp add: voidE_def run_simps split: prod.splits sum.splits)

lemma forE_run [run_simps]:
  "forE [] f s = (Inr (), s)"
  "forE (x # xs) f s = seqE (f x) (forE xs f) s"
  by (simp_all add: run_simps)

lemma bindE_assoc: "bindE (bindE m f) g = bindE m (\<lambda>x. bindE (f x) g)"
  by (rule ext) (simp add: run_simps split: prod.splits sum.splits)

lemma forE_append: "forE (xs @ ys) f = seqE (forE xs f) (forE ys f)"
proof (induction xs)
  case Nil
  show ?case by (rule ext) (simp add: run_simps)
next
  case (Cons x xs)
  then show ?case
    by (intro ext) (simp add: seqE_run split: prod.splits sum.splits)
qed

lemma bindE_InrE:
  assumes "bindE m f s = (Inr y, s'')"
  obtains x s' where "m s = (Inr x, s')" and "f x s' = (Inr y, s'')"
  using assms by (auto simp: bindE_run split: prod.splits sum.splits)

lemma seqE_InrE:
  assumes "seqE m n s = (Inr y, s'')"
  obtains x s' where "m s = (Inr x, s')" and "n s' = (Inr y, s'')"
  using assms by (auto simp: seqE_run split: prod.splits sum.splits)

lemma voidE_InrE:
  assumes "voidE m s = (Inr y, s')"
  obtains x where "m s = (Inr x, s')"
  using assms by (auto simp: voidE_run split: prod.splits sum.splits)

section \<open>Relations and invariants along programs\<close>

text \<open>
  \<open>follows R m\<close>: whatever \<open>m\<close> returns or throws, \<open>R\<close> relates the state before and
  after it. For a reflexive and transitive \<open>R\<close> it composes.
\<close>

definition follows :: "('s \<Rightarrow> 's \<Rightarrow> bool) \<Rightarrow> ('s, 'a) proc \<Rightarrow> bool" where
  "follows R m \<longleftrightarrow> (\<forall>s. R s (snd (m s)))"

definition preserves :: "('s \<Rightarrow> bool) \<Rightarrow> ('s, 'a) proc \<Rightarrow> bool" where
  "preserves P m \<longleftrightarrow> (\<forall>s. P s \<longrightarrow> P (snd (m s)))"

lemma followsD: "follows R m \<Longrightarrow> R s (snd (m s))"
  by (simp add: follows_def)

lemma follows_stepD: "follows R m \<Longrightarrow> m s = (r, s') \<Longrightarrow> R s s'"
  using followsD [of R m s] by simp

lemma preservesD: "preserves P m \<Longrightarrow> P s \<Longrightarrow> P (snd (m s))"
  by (simp add: preserves_def)

lemma preserves_stepD: "preserves P m \<Longrightarrow> P s \<Longrightarrow> m s = (r, s') \<Longrightarrow> P s'"
  using preservesD [of P m s] by simp

lemma preserves_returnE [preserves_intros]: "preserves P (returnE x)"
  and preserves_throwE [preserves_intros]: "preserves P (throwE e)"
  and preserves_getE [preserves_intros]: "preserves P (getE f)"
  and preserves_guardE [preserves_intros]: "preserves P (guardE b e)"
  by (simp_all add: preserves_def run_simps)

lemma preserves_bindE [preserves_intros]:
  assumes "preserves P m" and "\<And>x. preserves P (f x)"
  shows "preserves P (bindE m f)"
  using assms by (fastforce simp: preserves_def bindE_run split: prod.splits sum.splits)

lemma preserves_seqE [preserves_intros]:
  "preserves P m \<Longrightarrow> preserves P n \<Longrightarrow> preserves P (seqE m n)"
  unfolding seqE_def by (rule preserves_bindE)

lemma preserves_voidE [preserves_intros]: "preserves P m \<Longrightarrow> preserves P (voidE m)"
  unfolding voidE_def by (intro preserves_bindE preserves_returnE)

lemma preserves_catchE [preserves_intros]:
  assumes "preserves P m" and "\<And>e. preserves P (h e)"
  shows "preserves P (catchE m h)"
  using assms by (fastforce simp: preserves_def catchE_def split: prod.splits sum.splits)

lemma preserves_transactionE [preserves_intros]:
  "preserves P m \<Longrightarrow> preserves P (transactionE m)"
  by (fastforce simp: preserves_def transactionE_def split: prod.splits sum.splits)

lemma preserves_forE [preserves_intros]:
  "(\<And>x. x \<in> set xs \<Longrightarrow> preserves P (f x)) \<Longrightarrow> preserves P (forE xs f)"
  by (induction xs) (auto intro: preserves_intros)

lemma preserves_if [preserves_intros]:
  "(b \<Longrightarrow> preserves P m) \<Longrightarrow> (\<not> b \<Longrightarrow> preserves P n) \<Longrightarrow> preserves P (if b then m else n)"
  by simp

lemma preserves_case_option [preserves_intros]:
  "(x = None \<Longrightarrow> preserves P m) \<Longrightarrow> (\<And>y. x = Some y \<Longrightarrow> preserves P (f y)) \<Longrightarrow>
   preserves P (case x of None \<Rightarrow> m | Some y \<Rightarrow> f y)"
  by (cases x) auto

lemma preserves_case_list [preserves_intros]:
  "(xs = [] \<Longrightarrow> preserves P m) \<Longrightarrow> (\<And>y ys. xs = y # ys \<Longrightarrow> preserves P (f y ys)) \<Longrightarrow>
   preserves P (case xs of [] \<Rightarrow> m | y # ys \<Rightarrow> f y ys)"
  by (cases xs) auto

text \<open>A text argument of a statement that PostgreSQL converts to an enum.\<close>

definition enumArg ::
  "(string \<Rightarrow> 'e option) \<Rightarrow> string option \<Rightarrow> ('e option \<Rightarrow> ('s, 'a) proc) \<Rightarrow> ('s, 'a) proc" where
  "enumArg conv x k =
     (case x of
        None \<Rightarrow> k None
      | Some t \<Rightarrow> (case conv t of None \<Rightarrow> throwE (PgError InvalidEnumValue) | Some v \<Rightarrow> k (Some v)))"

lemma preserves_enumArg [preserves_intros]:
  "(\<And>v. preserves P (k v)) \<Longrightarrow> preserves P (enumArg conv x k)"
  by (simp add: enumArg_def preserves_throwE split: option.splits)

locale transition_preorder =
  fixes R :: "'s \<Rightarrow> 's \<Rightarrow> bool"
  assumes refl: "R s s"
    and trans: "R s t \<Longrightarrow> R t u \<Longrightarrow> R s u"
begin

lemma returnE: "follows R (returnE x)"
  and throwE: "follows R (throwE e)"
  and getE: "follows R (getE f)"
  and guardE: "follows R (guardE b e)"
  by (simp_all add: follows_def run_simps refl)

lemma bindE:
  assumes "follows R m" and "\<And>x. follows R (f x)"
  shows "follows R (bindE m f)"
proof -
  have "R s (snd (bindE m f s))" for s
  proof (cases "m s")
    case (Pair r s')
    with assms(1) have "R s s'" by (rule follows_stepD)
    with Pair show ?thesis
      by (cases r) (auto simp: bindE_run intro: trans [OF _ followsD [OF assms(2)]])
  qed
  then show ?thesis by (simp add: follows_def)
qed

lemma bindE_at:
  assumes "R s (snd (m s))" and "\<And>x. follows R (f x)"
  shows "R s (snd (bindE m f s))"
proof (cases "m s")
  case (Pair r s')
  with assms(1) have "R s s'" by simp
  with Pair show ?thesis
    by (cases r) (auto simp: bindE_run intro: trans [OF _ followsD [OF assms(2)]])
qed

lemma voidE_at: "R s (snd (m s)) \<Longrightarrow> R s (snd (voidE m s))"
  unfolding voidE_def by (intro bindE_at returnE)

lemma seqE: "follows R m \<Longrightarrow> follows R n \<Longrightarrow> follows R (seqE m n)"
  unfolding seqE_def by (rule bindE)

lemma voidE: "follows R m \<Longrightarrow> follows R (voidE m)"
  unfolding voidE_def by (intro bindE returnE)

lemma catchE:
  assumes "follows R m" and "\<And>e. follows R (h e)"
  shows "follows R (catchE m h)"
proof -
  have "R s (snd (catchE m h s))" for s
  proof (cases "m s")
    case (Pair r s')
    with assms(1) have "R s s'" by (rule follows_stepD)
    with Pair show ?thesis
      by (cases r) (auto simp: catchE_def intro: trans [OF _ followsD [OF assms(2)]])
  qed
  then show ?thesis by (simp add: follows_def)
qed

lemma transactionE: "follows R m \<Longrightarrow> follows R (transactionE m)"
  by (auto simp: follows_def transactionE_def refl split: prod.splits sum.splits) (metis snd_conv)

lemma forE: "(\<And>x. x \<in> set xs \<Longrightarrow> follows R (f x)) \<Longrightarrow> follows R (forE xs f)"
  by (induction xs) (auto intro: returnE seqE)

lemma cond: "(b \<Longrightarrow> follows R m) \<Longrightarrow> (\<not> b \<Longrightarrow> follows R n) \<Longrightarrow> follows R (if b then m else n)"
  by simp

lemma case_option:
  "(x = None \<Longrightarrow> follows R m) \<Longrightarrow> (\<And>y. x = Some y \<Longrightarrow> follows R (f y)) \<Longrightarrow>
   follows R (case x of None \<Rightarrow> m | Some y \<Rightarrow> f y)"
  by (cases x) auto

lemma case_list:
  "(xs = [] \<Longrightarrow> follows R m) \<Longrightarrow> (\<And>y ys. xs = y # ys \<Longrightarrow> follows R (f y ys)) \<Longrightarrow>
   follows R (case xs of [] \<Rightarrow> m | y # ys \<Rightarrow> f y ys)"
  by (cases xs) auto

lemma enumArg: "(\<And>v. follows R (k v)) \<Longrightarrow> follows R (enumArg conv x k)"
  by (simp add: enumArg_def throwE split: option.splits)

lemmas intros = returnE throwE getE guardE bindE seqE voidE catchE transactionE forE
  cond case_option case_list enumArg

end

section \<open>JavaScript strings and numbers\<close>

text \<open>
  Strings are character lists over code points below 256. \<open>trim\<close> removes the white
  space JavaScript removes in that range, \<open>toLowerCase\<close> maps the ASCII letters.
\<close>

type_synonym time = int \<comment> \<open>milliseconds since the epoch, \<open>Date.now()\<close>\<close>
type_synonym date = int \<comment> \<open>days since the epoch, a DATE column or the date part of an ISO string\<close>

definition is_space :: "char \<Rightarrow> bool" where
  "is_space c \<longleftrightarrow> of_char c \<in> {9, 10, 11, 12, 13, 32, 160 :: nat}"

definition is_digit :: "char \<Rightarrow> bool" where
  "is_digit c \<longleftrightarrow> (48 :: nat) \<le> of_char c \<and> of_char c \<le> (57 :: nat)"

definition is_lower :: "char \<Rightarrow> bool" where
  "is_lower c \<longleftrightarrow> (97 :: nat) \<le> of_char c \<and> of_char c \<le> (122 :: nat)"

definition is_upper :: "char \<Rightarrow> bool" where
  "is_upper c \<longleftrightarrow> (65 :: nat) \<le> of_char c \<and> of_char c \<le> (90 :: nat)"

definition lower_char :: "char \<Rightarrow> char" where
  "lower_char c = (if is_upper c then char_of (of_char c + 32 :: nat) else c)"

definition toLowerCase :: "string \<Rightarrow> string" where
  "toLowerCase s = map lower_char s"

definition trimLeft :: "string \<Rightarrow> string" where
  "trimLeft s = dropWhile is_space s"

definition trim :: "string \<Rightarrow> string" where
  "trim s = rev (trimLeft (rev (trimLeft s)))"

text \<open>\<open>s.replace(/[^p]+/g, r)\<close> with \<open>r\<close> a fixed string: every maximal run of characters in
  the class becomes \<open>r\<close>.\<close>

fun replaceRuns :: "(char \<Rightarrow> bool) \<Rightarrow> string \<Rightarrow> bool \<Rightarrow> string \<Rightarrow> string" where
  "replaceRuns p r inRun [] = []"
| "replaceRuns p r inRun (c # cs) =
     (if p c then (if inRun then replaceRuns p r True cs else r @ replaceRuns p r True cs)
      else c # replaceRuns p r False cs)"

text \<open>\<open>xs.join(sep)\<close>, and \<open>s.replace(/c/g, d)\<close> for single characters.\<close>

fun join :: "string \<Rightarrow> string list \<Rightarrow> string" where
  "join sep [] = []"
| "join sep [x] = x"
| "join sep (x # y # xs) = x @ sep @ join sep (y # xs)"

definition replaceChar :: "char \<Rightarrow> char \<Rightarrow> string \<Rightarrow> string" where
  "replaceChar c d s = map (\<lambda>x. if x = c then d else x) s"

fun digits_rev :: "nat \<Rightarrow> string" where
  "digits_rev n = (if n < 10 then [char_of (n + 48)]
     else char_of (n mod 10 + 48) # digits_rev (n div 10))"

declare digits_rev.simps [simp del]

definition show_int :: "int \<Rightarrow> string" where
  "show_int i = (if i < 0 then CHR ''-'' # rev (digits_rev (nat (- i))) else rev (digits_rev (nat i)))"

text \<open>\<open>v ?? d\<close> on a value that may be \<open>null\<close> or \<open>undefined\<close>, and \<open>s || d\<close> on a string.\<close>

definition nullish :: "'a option \<Rightarrow> 'a \<Rightarrow> 'a" where
  "nullish x d = (case x of None \<Rightarrow> d | Some v \<Rightarrow> v)"

definition str_or :: "string option \<Rightarrow> string \<Rightarrow> string" where
  "str_or x d = (case x of None \<Rightarrow> d | Some v \<Rightarrow> if v = [] then d else v)"

text \<open>The truth value of an optional string or id: absent, empty and 0 are falsy.\<close>

definition truthy_str :: "string option \<Rightarrow> bool" where
  "truthy_str x \<longleftrightarrow> x \<noteq> None \<and> x \<noteq> Some []"

definition truthy_id :: "int option \<Rightarrow> bool" where
  "truthy_id x \<longleftrightarrow> x \<noteq> None \<and> x \<noteq> Some 0"

definition day_ms :: int where "day_ms = 86400000"

definition date_of :: "time \<Rightarrow> date" where
  "date_of t = t div day_ms"

text \<open>\<open>Math.round\<close> of a rational, and PostgreSQL's rounding to \<open>numeric(15,2)\<close> (half away from
  zero).\<close>

definition math_round :: "rat \<Rightarrow> int" where
  "math_round x = \<lfloor>x + 1 / 2\<rfloor>"

definition money :: "rat \<Rightarrow> rat" where
  "money x = (if 0 \<le> x then of_int \<lfloor>x * 100 + 1 / 2\<rfloor> / 100 else - (of_int \<lfloor>(- x) * 100 + 1 / 2\<rfloor> / 100))"

lemma nullish_simps [simp]: "nullish None d = d" "nullish (Some v) d = v"
  by (simp_all add: nullish_def)

lemma truthy_id_simps [simp]: "\<not> truthy_id None" "truthy_id (Some i) \<longleftrightarrow> i \<noteq> 0"
  by (simp_all add: truthy_id_def)

lemma truthy_str_simps [simp]: "\<not> truthy_str None" "truthy_str (Some v) \<longleftrightarrow> v \<noteq> []"
  by (simp_all add: truthy_str_def)

lemma truthy_idE: "truthy_id x \<Longrightarrow> (\<And>i. x = Some i \<Longrightarrow> i \<noteq> 0 \<Longrightarrow> thesis) \<Longrightarrow> thesis"
  by (cases x) auto

lemma digits_rev_nonempty: "digits_rev n \<noteq> []"
  by (subst digits_rev.simps) simp

section \<open>Tables\<close>

text \<open>
  A table is its rows in insertion order and the next value of its \<open>serial\<close> sequence.
  Every row has an \<open>id\<close>; the rows of a tenant table also carry the \<open>profileId\<close> of the
  campaign that owns them (\<open>None\<close> is SQL's NULL).
\<close>

record 'r table =
  trows :: "'r list"
  nextId :: int

record row =
  row_id :: int

record trow = row +
  profileId :: "int option"

text \<open>
  The descriptor of a table inside a state: how to read and replace it, the column and
  reference constraints a row has to satisfy, when two rows clash on a UNIQUE constraint
  other than the primary key, and whether a row is free of references from other tables.
\<close>

record ('s, 'r) tbl =
  tget :: "'s \<Rightarrow> 'r table"
  tput :: "'r table \<Rightarrow> 's \<Rightarrow> 's"
  tchk :: "'s \<Rightarrow> 'r \<Rightarrow> bool"
  tclash :: "'r \<Rightarrow> 'r \<Rightarrow> bool"
  tfree :: "'s \<Rightarrow> 'r \<Rightarrow> bool"

definition rows_of :: "('s, 'r) tbl \<Rightarrow> 's \<Rightarrow> 'r list" where
  "rows_of D s = trows (tget D s)"

text \<open>\<open>SELECT ... WHERE P\<close>, in insertion order.\<close>

definition selectRows :: "('s, 'r) tbl \<Rightarrow> ('r \<Rightarrow> bool) \<Rightarrow> ('s, 'r list) proc" where
  "selectRows D P s = (Inr (filter P (rows_of D s)), s)"

text \<open>
  \<open>INSERT ... RETURNING *\<close>: the id is the caller's, or the next of the sequence, which
  advances even when the statement fails.
\<close>

definition insertRow ::
  "('s, 'z row_scheme) tbl \<Rightarrow> int option \<Rightarrow> (int \<Rightarrow> 'z row_scheme) \<Rightarrow> ('s, 'z row_scheme) proc"
where
  "insertRow D eid mk s =
     (let t = tget D s;
          i = (case eid of None \<Rightarrow> nextId t | Some k \<Rightarrow> k);
          t' = (case eid of None \<Rightarrow> t\<lparr>nextId := nextId t + 1\<rparr> | Some k \<Rightarrow> t);
          r = (mk i)\<lparr>row_id := i\<rparr>
      in if \<not> tchk D s r then (Inl (PgError CheckViolation), tput D t' s)
         else if list_ex (\<lambda>x. row_id x = i \<or> tclash D x r) (trows t)
           then (Inl (PgError UniqueViolation), tput D t' s)
         else (Inr r, tput D (t'\<lparr>trows := trows t @ [r]\<rparr>) s))"

text \<open>\<open>UPDATE ... SET f WHERE P RETURNING *\<close>. No statement of the program updates a primary key
  or a column of a UNIQUE constraint, so only the column constraints are checked.\<close>

definition updateRows ::
  "('s, 'z row_scheme) tbl \<Rightarrow> ('z row_scheme \<Rightarrow> bool) \<Rightarrow> ('z row_scheme \<Rightarrow> 'z row_scheme) \<Rightarrow>
   ('s, 'z row_scheme list) proc"
where
  "updateRows D P f s =
     (let t = tget D s; hit = map f (filter P (trows t))
      in if list_all (tchk D s) hit
         then (Inr hit, tput D (t\<lparr>trows := map (\<lambda>r. if P r then f r else r) (trows t)\<rparr>) s)
         else (Inl (PgError CheckViolation), s))"

text \<open>\<open>DELETE ... WHERE P RETURNING *\<close>.\<close>

definition deleteRows :: "('s, 'r) tbl \<Rightarrow> ('r \<Rightarrow> bool) \<Rightarrow> ('s, 'r list) proc" where
  "deleteRows D P s =
     (let t = tget D s; hit = filter P (trows t)
      in if list_all (tfree D s) hit
         then (Inr hit, tput D (t\<lparr>trows := filter (\<lambda>r. \<not> P r) (trows t)\<rparr>) s)
         else (Inl (PgError ForeignKeyViolation), s))"

text \<open>\<open>INSERT ... ON CONFLICT DO UPDATE SET f RETURNING *\<close> and \<open>ON CONFLICT DO NOTHING\<close>: \<open>c\<close> says
  which existing rows conflict on the conflict target.\<close>

definition upsertRow ::
  "('s, 'z row_scheme) tbl \<Rightarrow> ('z row_scheme \<Rightarrow> bool) \<Rightarrow> (int \<Rightarrow> 'z row_scheme) \<Rightarrow>
   ('z row_scheme \<Rightarrow> 'z row_scheme) \<Rightarrow> ('s, 'z row_scheme list) proc"
where
  "upsertRow D c mk f =
     bindE (selectRows D c) (\<lambda>old.
       if old = [] then bindE (insertRow D None mk) (\<lambda>r. returnE [r])
       else updateRows D c f)"

definition insertIfAbsent ::
  "('s, 'z row_scheme) tbl \<Rightarrow> ('z row_scheme \<Rightarrow> bool) \<Rightarrow> (int \<Rightarrow> 'z row_scheme) \<Rightarrow> ('s, unit) proc"
where
  "insertIfAbsent D c mk =
     bindE (selectRows D c) (\<lambda>old.
       if old = [] then voidE (insertRow D None mk) else returnE ())"

text \<open>\<open>INSERT ... VALUES (...), (...) RETURNING *\<close>: one statement, so all rows or none; the values
  the sequence gave out are spent either way.\<close>

primrec insertAll ::
  "('s, 'z row_scheme) tbl \<Rightarrow> (int \<Rightarrow> 'z row_scheme) list \<Rightarrow> ('s, 'z row_scheme list) proc" where
  "insertAll D [] = returnE []"
| "insertAll D (mk # mks) =
     bindE (insertRow D None mk) (\<lambda>r. bindE (insertAll D mks) (\<lambda>rs. returnE (r # rs)))"

definition insertRows ::
  "('s, 'z row_scheme) tbl \<Rightarrow> (int \<Rightarrow> 'z row_scheme) list \<Rightarrow> ('s, 'z row_scheme list) proc" where
  "insertRows D mks s =
     (case insertAll D mks s of
        (Inr rs, s') \<Rightarrow> (Inr rs, s')
      | (Inl e, s') \<Rightarrow> (Inl e, tput D ((tget D s)\<lparr>nextId := nextId (tget D s')\<rparr>) s))"

text \<open>\<open>rows[0]\<close>: the first row, or \<open>undefined\<close>.\<close>

definition first_row :: "'r list \<Rightarrow> 'r option" where
  "first_row rs = (case rs of [] \<Rightarrow> None | r # _ \<Rightarrow> Some r)"

lemma first_row_simps [simp]: "first_row [] = None" "first_row (r # rs) = Some r"
  by (simp_all add: first_row_def)

lemma first_row_SomeD: "first_row rs = Some r \<Longrightarrow> r \<in> set rs"
  by (cases rs) auto

lemma first_row_None [simp]: "first_row rs = None \<longleftrightarrow> rs = []"
  by (cases rs) auto

text \<open>\<open>ORDER BY\<close>: ascending with NULLs last, descending on a NOT NULL timestamp.\<close>

definition nulls_last :: "'a :: zero option \<Rightarrow> bool \<times> 'a" where
  "nulls_last x = (case x of None \<Rightarrow> (True, 0) | Some v \<Rightarrow> (False, v))"

definition text_key :: "string option \<Rightarrow> bool \<times> string" where
  "text_key x = (case x of None \<Rightarrow> (True, []) | Some v \<Rightarrow> (False, v))"

definition order_by :: "('r \<Rightarrow> 'k :: linorder) \<Rightarrow> 'r list \<Rightarrow> 'r list" where
  "order_by k rs = sort_key k rs"

definition order_desc :: "('r \<Rightarrow> int) \<Rightarrow> 'r list \<Rightarrow> 'r list" where
  "order_desc k rs = sort_key (\<lambda>r. - k r) rs"

lemma set_order_by [simp]: "set (order_by k rs) = set rs"
  by (simp add: order_by_def)

lemma set_order_desc [simp]: "set (order_desc k rs) = set rs"
  by (simp add: order_desc_def)

lemma length_order_desc [simp]: "length (order_desc k rs) = length rs"
  by (simp add: order_desc_def)

text \<open>Column constraints: \<open>varchar(n)\<close>, \<open>integer\<close> and \<open>numeric(15,2)\<close>.\<close>

definition vc :: "nat \<Rightarrow> string \<Rightarrow> bool" where
  "vc n s \<longleftrightarrow> length s \<le> n"

definition vco :: "nat \<Rightarrow> string option \<Rightarrow> bool" where
  "vco n x \<longleftrightarrow> (case x of None \<Rightarrow> True | Some s \<Rightarrow> length s \<le> n)"

definition int4 :: "int \<Rightarrow> bool" where
  "int4 i \<longleftrightarrow> - 2147483648 \<le> i \<and> i \<le> 2147483647"

definition int4o :: "int option \<Rightarrow> bool" where
  "int4o x \<longleftrightarrow> (case x of None \<Rightarrow> True | Some i \<Rightarrow> int4 i)"

definition num15 :: "rat \<Rightarrow> bool" where
  "num15 x \<longleftrightarrow> \<bar>x\<bar> < 10000000000000"

definition num15o :: "rat option \<Rightarrow> bool" where
  "num15o x \<longleftrightarrow> (case x of None \<Rightarrow> True | Some v \<Rightarrow> num15 v)"

subsection \<open>The contract of a table descriptor\<close>

text \<open>
  A descriptor is a lens into the state. Its client lemmas say what the statements do
  to the table's own rows; what they leave alone is stated per relation below.
\<close>

definition ids_distinct :: "'z row_scheme list \<Rightarrow> bool" where
  "ids_distinct rs \<longleftrightarrow> distinct (map row_id rs)"

locale table_lens =
  fixes D :: "('s, 'z row_scheme) tbl"
  assumes get_put: "tget D (tput D t s) = t"
    and put_get: "tput D (tget D s) s = s"
    and put_put: "tput D t (tput D t' s) = tput D t s"
begin

lemma rows_put: "rows_of D (tput D t s) = trows t"
  by (simp add: rows_of_def get_put)

lemma select_state: "snd (selectRows D P s) = s"
  by (simp add: selectRows_def)

lemma insert_rows:
  "rows_of D (snd (insertRow D eid mk s)) =
     (case fst (insertRow D eid mk s) of Inl e \<Rightarrow> rows_of D s | Inr r \<Rightarrow> rows_of D s @ [r])"
  by (auto simp: insertRow_def Let_def rows_of_def get_put split: option.splits)

text \<open>A statement changes its own table only.\<close>

lemma insert_frame: "\<exists>t. snd (insertRow D eid mk s) = tput D t s"
  by (auto simp: insertRow_def Let_def)

lemma insertAll_frame: "\<exists>t. snd (insertAll D mks s) = tput D t s"
proof (induction mks arbitrary: s)
  case Nil
  show ?case by (metis insertAll.simps(1) put_get returnE_run snd_conv)
next
  case (Cons mk mks)
  obtain t where t: "snd (insertRow D None mk s) = tput D t s" using insert_frame by blast
  obtain t' where t': "snd (insertAll D mks (tput D t s)) = tput D t' s"
    using Cons [of "tput D t s"] by (auto simp: put_put)
  show ?case
    using t t' by (cases "insertRow D None mk s")
      (auto simp: bindE_run returnE_run put_put split: sum.splits prod.splits)
qed

lemma insertRows_frame: "\<exists>t. snd (insertRows D mks s) = tput D t s"
  using insertAll_frame [of mks s] by (auto simp: insertRows_def split: prod.splits sum.splits)

lemma update_frame: "\<exists>t. snd (updateRows D P f s) = tput D t s"
  by (simp add: updateRows_def Let_def) (metis put_get)

lemma delete_frame: "\<exists>t. snd (deleteRows D P s) = tput D t s"
  by (simp add: deleteRows_def Let_def) (metis put_get)

lemma insert_ids: "preserves (\<lambda>s. ids_distinct (rows_of D s)) (insertRow D eid mk)"
  by (auto simp: preserves_def insertRow_def Let_def rows_of_def get_put ids_distinct_def
      list_ex_iff split: option.splits)

lemma insert_Inr:
  "insertRow D eid mk s = (Inr r, s') \<Longrightarrow>
   rows_of D s' = rows_of D s @ [r] \<and> r = (mk (row_id r))\<lparr>row_id := row_id r\<rparr> \<and> tchk D s r \<and>
   (\<forall>x \<in> set (rows_of D s). row_id x \<noteq> row_id r \<and> \<not> tclash D x r)"
  by (auto simp: insertRow_def Let_def rows_of_def get_put list_ex_iff split: option.splits if_splits)

lemma insertAll_Inr:
  "insertAll D mks s = (Inr rs, s') \<Longrightarrow>
   rows_of D s' = rows_of D s @ rs \<and> list_all2 (\<lambda>mk r. \<exists>i. r = (mk i)\<lparr>row_id := i\<rparr>) mks rs"
proof (induction mks arbitrary: s rs)
  case Nil
  then show ?case by (simp add: run_simps)
next
  case (Cons mk mks)
  from Cons.prems obtain r s1 rs' where
    first: "insertRow D None mk s = (Inr r, s1)" and rest: "insertAll D mks s1 = (Inr rs', s')"
    and rs: "rs = r # rs'"
    by (auto simp: bindE_run returnE_run split: prod.splits sum.splits)
  show ?case using insert_Inr [OF first] Cons.IH [OF rest] rs by auto
qed

lemma insertRows_Inr:
  "insertRows D mks s = (Inr rs, s') \<Longrightarrow>
   rows_of D s' = rows_of D s @ rs \<and> list_all2 (\<lambda>mk r. \<exists>i. r = (mk i)\<lparr>row_id := i\<rparr>) mks rs"
  using insertAll_Inr [of mks s] by (auto simp: insertRows_def split: prod.splits sum.splits)

lemma insertRows_Inl: "insertRows D mks s = (Inl e, s') \<Longrightarrow> rows_of D s' = rows_of D s"
  by (auto simp: insertRows_def rows_of_def get_put split: prod.splits sum.splits)

lemma update_Inr:
  "updateRows D P f s = (Inr rs, s') \<Longrightarrow>
   rs = map f (filter P (rows_of D s)) \<and>
   rows_of D s' = map (\<lambda>r. if P r then f r else r) (rows_of D s) \<and> list_all (tchk D s) rs"
  by (auto simp: updateRows_def Let_def rows_of_def get_put split: if_splits)

lemma update_Inl: "updateRows D P f s = (Inl e, s') \<Longrightarrow> s' = s"
  by (auto simp: updateRows_def Let_def split: if_splits)

lemma update_none:
  assumes "updateRows D P f s = (Inr [], s')"
  shows "s' = s"
proof -
  have "\<not> P r" if "r \<in> set (trows (tget D s))" for r
    using that assms by (auto simp: updateRows_def Let_def filter_empty_conv split: if_splits)
  then have "map (\<lambda>r. if P r then f r else r) (trows (tget D s)) = trows (tget D s)"
    by (simp add: map_idI)
  with assms show ?thesis by (auto simp: updateRows_def Let_def put_get split: if_splits)
qed

lemma update_ids:
  assumes "\<And>r. row_id (f r) = row_id r"
  shows "preserves (\<lambda>s. ids_distinct (rows_of D s)) (updateRows D P f)"
proof -
  have "map row_id (map (\<lambda>r. if P r then f r else r) rs) = map row_id rs" for rs
    using assms by simp
  then show ?thesis
    by (simp add: preserves_def updateRows_def Let_def rows_of_def get_put ids_distinct_def
        del: map_map)
qed

lemma delete_Inr:
  "deleteRows D P s = (Inr rs, s') \<Longrightarrow>
   rs = filter P (rows_of D s) \<and> rows_of D s' = filter (\<lambda>r. \<not> P r) (rows_of D s)"
  by (auto simp: deleteRows_def Let_def rows_of_def get_put split: if_splits)

lemma delete_Inl: "deleteRows D P s = (Inl e, s') \<Longrightarrow> s' = s"
  by (auto simp: deleteRows_def Let_def split: if_splits)

lemma delete_ids: "preserves (\<lambda>s. ids_distinct (rows_of D s)) (deleteRows D P)"
  by (auto simp: preserves_def deleteRows_def Let_def rows_of_def get_put ids_distinct_def
      intro: distinct_map_filter)

end

lemma follows_selectRows:
  assumes "\<And>s. R s s"
  shows "follows R (selectRows D P)"
  using assms by (simp add: follows_def selectRows_def)

lemma preserves_selectRows [preserves_intros]: "preserves I (selectRows D P)"
  by (simp add: preserves_def selectRows_def)

lemma selectRows_run [run_simps]: "selectRows D P s = (Inr (filter P (rows_of D s)), s)"
  by (simp add: selectRows_def)

end
