(* ===== verification/Campaign_Schema.thy ===== *)
theory Campaign_Schema
  imports Campaign_Prelude
begin

text \<open>
  The data model of \<^verbatim>\<open>campaign-platform/drizzle/schema.ts\<close>: its enums as datatypes and
  every table's row as a record. A column keeps its TypeScript name behind a two-letter
  prefix for its table, since record fields share one name space; the
  columns \<open>id\<close> and \<open>profile_id\<close> are the fields \<open>row_id\<close> and \<open>profileId\<close> of the record
  a row extends. A nullable column is an \<open>option\<close>; a NOT NULL \<open>profile_id\<close> is required
  by the table's constraints. Timestamps are milliseconds and dates
  are days; \<open>numeric(15,2)\<close>, \<open>real\<close> and \<open>double precision\<close> values are exact rationals.
\<close>

section \<open>Enums\<close>

datatype officeType = President | Governor | Senator | House | LGA

datatype priorityLevel = Low | Medium | High | Critical

datatype itemStatus = Active | Inactive | Pending | Completed | Cancelled

datatype incidentStatus = IncidentOpen | Escalated | Resolved

datatype incidentSeverity = SevLow | SevMedium | SevHigh | SevCritical

datatype agentStatus = AgentActive | AgentSilent | AgentSos | AgentOffline

datatype complianceStatus = Compliant | ComplianceWarning | NonCompliant | CompliancePending

datatype petitionStatus = PetitionDraft | PetitionActive | PetitionClosed

datatype profileRole = Owner | Manager | Viewer

datatype volunteerTaskStatus = TaskPending | TaskInProgress | TaskCompleted | TaskCancelled

datatype volunteerTaskType =
    Canvassing | PollingUnitTask | DataEntry | Logistics | SecurityTask | MediaTask | OtherTask

datatype lawfulBasis =
    Consent | Contract | LegalObligation | VitalInterest | PublicInterest | LegitimateInterest

datatype subjectTable =
    SubjVoterRegistrations | SubjDiasporaContacts | SubjStakeholderContacts
  | SubjVolunteers | SubjPetitionSignatures | SubjCampaignMembers

text \<open>
  A text value bound to an enum column is converted by PostgreSQL, which raises on a label
  the enum does not have (\<open>None\<close> here).
\<close>

definition itemStatus_of :: "string \<Rightarrow> itemStatus option" where
  "itemStatus_of t =
     (if t = ''active'' then Some Active else if t = ''inactive'' then Some Inactive
      else if t = ''pending'' then Some Pending else if t = ''completed'' then Some Completed
      else if t = ''cancelled'' then Some Cancelled else None)"

definition incidentStatus_of :: "string \<Rightarrow> incidentStatus option" where
  "incidentStatus_of t =
     (if t = ''open'' then Some IncidentOpen else if t = ''escalated'' then Some Escalated
      else if t = ''resolved'' then Some Resolved else None)"

definition agentStatus_of :: "string \<Rightarrow> agentStatus option" where
  "agentStatus_of t =
     (if t = ''active'' then Some AgentActive else if t = ''silent'' then Some AgentSilent
      else if t = ''sos'' then Some AgentSos else if t = ''offline'' then Some AgentOffline
      else None)"

definition officeType_of :: "string \<Rightarrow> officeType option" where
  "officeType_of t =
     (if t = ''President'' then Some President else if t = ''Governor'' then Some Governor
      else if t = ''Senator'' then Some Senator else if t = ''House'' then Some House
      else if t = ''LGA'' then Some LGA else None)"

fun show_incidentStatus :: "incidentStatus \<Rightarrow> string" where
  "show_incidentStatus IncidentOpen = ''open''"
| "show_incidentStatus Escalated = ''escalated''"
| "show_incidentStatus Resolved = ''resolved''"

fun show_incidentSeverity :: "incidentSeverity \<Rightarrow> string" where
  "show_incidentSeverity SevLow = ''low''"
| "show_incidentSeverity SevMedium = ''medium''"
| "show_incidentSeverity SevHigh = ''high''"
| "show_incidentSeverity SevCritical = ''critical''"

fun show_profileRole :: "profileRole \<Rightarrow> string" where
  "show_profileRole Owner = ''owner''"
| "show_profileRole Manager = ''manager''"
| "show_profileRole Viewer = ''viewer''"

lemma incidentStatus_roundtrip: "incidentStatus_of (show_incidentStatus st) = Some st"
  by (cases st) (simp_all add: incidentStatus_of_def)

section \<open>Rows\<close>

record user = row +
  u_username :: string
  u_passwordHash :: string
  u_fullName :: string
  u_role :: string
  u_staffId :: "string option"
  u_stateCode :: "string option"
  u_lgaCode :: "string option"
  u_pollingUnitCode :: "string option"
  u_createdAt :: time
  u_isActive :: "int option"
  u_partyId :: "int option"
  u_kycStatus :: "string option"

record candidateProfile = row +
  cp_userId :: "int option"
  cp_candidateName :: string
  cp_partyName :: "string option"
  cp_partyColor :: "string option"
  cp_stateCode :: "string option"
  cp_stateName :: "string option"
  cp_office :: "officeType option"
  cp_religion :: "string option"
  cp_gender :: "string option"
  cp_geopoliticalZone :: "string option"
  cp_isActive :: "bool option"
  cp_isSeeded :: "bool option"
  cp_createdAt :: time
  cp_updatedAt :: time

record timelineEvent = trow +
  te_title :: string
  te_description :: "string option"
  te_eventDate :: date
  te_category :: "string option"
  te_status :: "itemStatus option"
  te_location :: "string option"
  te_priority :: "priorityLevel option"
  te_createdAt :: time
  te_lastAlertedAt :: "time option"

record voterRegistration = trow +
  vr_fullName :: string
  vr_vin :: "string option"
  vr_stateCode :: "string option"
  vr_lga :: "string option"
  vr_ward :: "string option"
  vr_pollingUnit :: "string option"
  vr_phone :: "string option"
  vr_accessibilityNeeds :: "string option"
  vr_registeredAt :: time
  vr_isVerified :: "bool option"

record pollingUnit = row +
  pu_code :: string
  pu_name :: string
  pu_wardCode :: string
  pu_registeredVoters :: "int option"
  pu_latitude :: "rat option"
  pu_longitude :: "rat option"

record campaignPuAssignment = trow +
  pa_puCode :: string
  pa_agentName :: "string option"
  pa_agentPhone :: "string option"
  pa_status :: "string option"
  pa_notes :: "string option"
  pa_pwdAccessible :: "bool option"
  pa_createdAt :: time

record volunteer = trow +
  vo_fullName :: string
  vo_phone :: "string option"
  vo_email :: "string option"
  vo_lga :: "string option"
  vo_ward :: "string option"
  vo_role :: "string option"
  vo_skills :: "string option"
  vo_status :: "itemStatus option"
  vo_joinedAt :: time

record pressRelease = trow +
  pr_title :: string
  pr_body :: string
  pr_template :: "string option"
  pr_publishedAt :: "time option"
  pr_status :: "itemStatus option"
  pr_createdAt :: time

record socialMediaPost = trow +
  sm_platform :: string
  sm_content :: string
  sm_hashtags :: "string option"
  sm_scheduledAt :: "time option"
  sm_publishedAt :: "time option"
  sm_status :: "itemStatus option"
  sm_impressions :: "int option"
  sm_engagements :: "int option"
  sm_createdAt :: time

record complianceItem = trow +
  ci_title :: string
  ci_category :: "string option"
  ci_description :: "string option"
  ci_status :: "complianceStatus option"
  ci_deadline :: "date option"
  ci_notes :: "string option"
  ci_updatedAt :: time

record oppositionEntry = trow +
  op_opponentName :: string
  op_party :: "string option"
  op_strength :: "string option"
  op_weakness :: "string option"
  op_keyIssues :: "string list option"
  op_threatLevel :: "priorityLevel option"
  op_notes :: "string option"
  op_updatedAt :: time

record warRoomIncident = trow +
  wi_reportedBy :: "string option"
  wi_lga :: "string option"
  wi_ward :: "string option"
  wi_puName :: "string option"
  wi_incidentType :: "string option"
  wi_description :: string
  wi_severity :: "incidentSeverity option"
  wi_status :: "incidentStatus option"
  wi_latitude :: "rat option"
  wi_longitude :: "rat option"
  wi_evidenceUrl :: "string option"
  wi_occurredAt :: "time option"
  wi_assignedTo :: "string option"
  wi_escalatedTo :: "string option"
  wi_escalatedAt :: "time option"
  wi_escalationNote :: "string option"
  wi_oppositionEntryId :: "int option"
  wi_reportedAt :: time
  wi_resolvedAt :: "time option"

record warRoomIncidentAuditEntry = row +
  wa_incidentId :: int
  wa_action :: string
  wa_actor :: "string option"
  wa_fromStatus :: "string option"
  wa_toStatus :: "string option"
  wa_detail :: "string option"
  wa_createdAt :: time

record fieldAgent = trow +
  fa_name :: string
  fa_phone :: "string option"
  fa_assignedPu :: "string option"
  fa_lga :: "string option"
  fa_agentStatus :: "agentStatus option"
  fa_votersCounted :: "int option"
  fa_lastCheckin :: "time option"
  fa_createdAt :: time

record electionResult = trow +
  er_lga :: string
  er_ward :: "string option"
  er_candidateName :: string
  er_party :: "string option"
  er_votes :: "int option"
  er_reportedAt :: time
  er_isProjected :: "bool option"

record manifestoSection = trow +
  ms_sectionTitle :: string
  ms_summary :: "string option"
  ms_commitments :: "string list option"
  ms_timeline :: "string option"
  ms_budget :: "string option"
  ms_priority :: "priorityLevel option"
  ms_sortOrder :: "int option"
  ms_updatedAt :: time

record petition = trow +
  pt_title :: string
  pt_description :: "string option"
  pt_targetSignatures :: "int option"
  pt_status :: "petitionStatus option"
  pt_createdAt :: time

record petitionSignature = row +
  ps_petitionId :: "int option"
  ps_signerName :: string
  ps_phone :: "string option"
  ps_lga :: "string option"
  ps_signerHash :: "string option"
  ps_verificationStatus :: string
  ps_verifiedAt :: "time option"
  ps_verifiedBy :: "string option"
  ps_signedAt :: time

record diasporaContact = trow +
  dc_name :: string
  dc_country :: "string option"
  dc_city :: "string option"
  dc_email :: "string option"
  dc_phone :: "string option"
  dc_organization :: "string option"
  dc_status :: "itemStatus option"
  dc_pledgedAmount :: "rat option"
  dc_notes :: "string option"
  dc_createdAt :: time

record endorsement = trow +
  en_endorserName :: string
  en_title :: "string option"
  en_organization :: "string option"
  en_category :: "string option"
  en_statement :: "string option"
  en_isPublic :: "bool option"
  en_endorsedAt :: time

record fundraisingTransaction = trow +
  ft_donorName :: "string option"
  ft_amount :: rat
  ft_currency :: "string option"
  ft_source :: "string option"
  ft_category :: "string option"
  ft_notes :: "string option"
  ft_transactedAt :: time
  ft_isVerified :: "bool option"
  ft_donorType :: "string option"
  ft_sourceAttested :: "bool option"

record budgetItem = trow +
  bi_category :: string
  bi_description :: string
  bi_budgetedAmount :: rat
  bi_spentAmount :: "rat option"
  bi_priority :: "priorityLevel option"
  bi_notes :: "string option"
  bi_createdAt :: time

record budgetSpendLedgerEntry = trow +
  bl_budgetItemId :: "int option"
  bl_changeType :: string
  bl_previousBudgeted :: "rat option"
  bl_newBudgeted :: "rat option"
  bl_previousSpent :: "rat option"
  bl_newSpent :: "rat option"
  bl_changedBy :: "string option"
  bl_note :: "string option"
  bl_createdAt :: time

record mediaItem = trow +
  mi_source :: string
  mi_headline :: string
  mi_sentiment :: "string option"
  mi_sourceType :: "string option"
  mi_reach :: "int option"
  mi_zone :: "string option"
  mi_url :: "string option"
  mi_publishedAt :: "time option"
  mi_notes :: "string option"
  mi_complianceStatus :: "string option"
  mi_complianceNotes :: "string option"
  mi_createdAt :: time

record debatePrepNote = trow +
  dn_topic :: string
  dn_keyMessage :: "string option"
  dn_counterArguments :: "string list option"
  dn_statistics :: "string list option"
  dn_practiceScore :: "int option"
  dn_notes :: "string option"
  dn_updatedAt :: time

record simulationRun = trow +
  sr_scenario :: "string option"
  sr_stateCode :: "string option"
  sr_iterations :: "int option"
  sr_weatherSeverity :: "int option"
  sr_securityThreat :: "int option"
  sr_bvasReliability :: "int option"
  sr_staffTraining :: "int option"
  sr_projectedTurnout :: "rat option"
  sr_validVotesCast :: "int option"
  sr_bvasFailureRate :: "rat option"
  sr_certificationEta :: "int option"
  sr_logisticsScore :: "int option"
  sr_securityIndex :: "int option"
  sr_rejectedBallots :: "int option"
  sr_monteCarloP50 :: "rat option"
  sr_monteCarloP5 :: "rat option"
  sr_monteCarloP95 :: "rat option"
  sr_modelConfidence :: "rat option"
  sr_disruptions :: "string list option"
  sr_runAt :: time
  sr_aiNarrative :: "string option"
  sr_label :: "string option"

record campaignMember = trow +
  cm_userId :: "int option"
  cm_name :: string
  cm_email :: string
  cm_role :: profileRole
  cm_invitedAt :: time
  cm_acceptedAt :: "time option"
  cm_inviteToken :: "string option"

record volunteerTask = trow +
  vt_volunteerId :: "int option"
  vt_title :: string
  vt_description :: "string option"
  vt_taskType :: "volunteerTaskType option"
  vt_status :: "volunteerTaskStatus option"
  vt_dueDate :: "time option"
  vt_completedAt :: "time option"
  vt_createdAt :: time

record debatePracticeScore = trow +
  ds_topic :: string
  ds_score :: int
  ds_maxScore :: "int option"
  ds_notes :: "string option"
  ds_scoredAt :: time

record stakeholderContact = trow +
  sc_name :: string
  sc_title :: "string option"
  sc_organization :: "string option"
  sc_category :: "string option"
  sc_phone :: "string option"
  sc_email :: "string option"
  sc_state :: "string option"
  sc_lga :: "string option"
  sc_influenceLevel :: "priorityLevel option"
  sc_relationship :: "string option"
  sc_lastContact :: "date option"
  sc_nextAction :: "string option"
  sc_notes :: "string option"
  sc_createdAt :: time

record consentRecord = trow +
  cr_subjectTable :: subjectTable
  cr_subjectId :: int
  cr_lawfulBasis :: lawfulBasis
  cr_purpose :: string
  cr_consentMethod :: "string option"
  cr_consentGranted :: bool
  cr_consentedAt :: "time option"
  cr_withdrawnAt :: "time option"
  cr_retentionUntil :: "date option"
  cr_notes :: "string option"
  cr_createdAt :: time
  cr_updatedAt :: time

record provenanceEntry = trow +
  pl_subjectTable :: subjectTable
  pl_subjectId :: int
  pl_source :: string
  pl_collectedBy :: "string option"
  pl_collectedAt :: time
  pl_lawfulBasis :: lawfulBasis
  pl_notes :: "string option"
  pl_createdAt :: time

record dataAccessEntry = trow +
  da_actorId :: "int option"
  da_actorName :: "string option"
  da_subjectTable :: subjectTable
  da_action :: string
  da_rowCount :: "int option"
  da_purpose :: "string option"
  da_createdAt :: time

record dataSubjectRequest = trow +
  dr_requestType :: string
  dr_subjectName :: string
  dr_subjectContact :: "string option"
  dr_subjectTable :: "subjectTable option"
  dr_subjectId :: "int option"
  dr_status :: string
  dr_receivedAt :: time
  dr_dueAt :: date
  dr_fulfilledAt :: "time option"
  dr_rejectionReason :: "string option"
  dr_notes :: "string option"
  dr_createdAt :: time
  dr_updatedAt :: time

record surveyPanelist = trow +
  sp_consentId :: int
  sp_fullName :: string
  sp_stateCode :: "string option"
  sp_lga :: "string option"
  sp_ward :: "string option"
  sp_ageBand :: "string option"
  sp_gender :: "string option"
  sp_status :: string
  sp_createdAt :: time

record surveyResponse = row +
  sv_panelistId :: int
  sv_instrument :: string
  sv_itemKey :: string
  sv_score :: int
  sv_respondedAt :: time

record messageTest = trow +
  mt_name :: string
  mt_channel :: "string option"
  mt_status :: string
  mt_createdAt :: time

record messageVariant = row +
  mv_testId :: int
  mv_label :: string
  mv_body :: string
  mv_createdAt :: time

record messageEvent = row +
  me_variantId :: int
  me_eventType :: string
  me_occurredAt :: time

record electionPetition = trow +
  ep_electionName :: string
  ep_petitionType :: string
  ep_court :: "string option"
  ep_caseNumber :: "string option"
  ep_petitioner :: "string option"
  ep_respondent :: "string option"
  ep_counsel :: "string option"
  ep_filedAt :: "time option"
  ep_hearingDate :: "time option"
  ep_status :: string
  ep_outcome :: "string option"
  ep_notes :: "string option"
  ep_createdAt :: time
  ep_updatedAt :: time

text \<open>The two tables without a serial id: the statutory caps are keyed by office, the
  rate-limit counters by key and window.\<close>

record budgetStatutoryCap =
  bc_office :: officeType
  bc_capAmount :: rat
  bc_notes :: "string option"
  bc_updatedAt :: time

record rateLimit =
  rl_key :: string
  rl_windowStart :: time
  rl_count :: int

end
