(* ===== verification/Campaign_World.thy ===== *)
theory Campaign_World
  imports Campaign_Schema
begin

text \<open>
  The state of the running server: the database with one field per table, whether a
  connection is configured (\<open>getDb\<close> of \<^verbatim>\<open>server/db.ts\<close> returns \<open>null\<close> otherwise), the
  clock, the runtime mode, the in-memory rate-limit windows, the outcomes of the coming
  \<open>Math.random() < 0.01\<close> tests, whether the rate-limit statement succeeds, whether
  the query builder refuses a SET clause without columns and a string for a timestamp
  column, whether the notification service is configured and reachable, and what left the
  process (owner notifications and war-room broadcasts). The constraints of every table are the
  \<open>_chk\<close> predicates; the descriptors \<open>...D\<close> tie them to the table statements, and one
  interpretation of \<open>table_lens\<close> per table discharges the statement laws for it.
\<close>

section \<open>State\<close>

record world =
  conn :: bool
  clock :: time
  production :: bool
  notifyConfigured :: bool
  notifyUp :: bool
  outbox :: "(string \<times> string) list"
  broadcasts :: "int list"
  memoryWindows :: "(string \<times> int \<times> int) list"
  coins :: "bool list"
  limiterUp :: bool
  refusesEmptySet :: bool
  refusesStringDates :: bool
  rateLimitsT :: "rateLimit list"
  budgetStatutoryCapsT :: "budgetStatutoryCap list"
  usersT :: "user table"
  candidateProfilesT :: "candidateProfile table"
  timelineEventsT :: "timelineEvent table"
  voterRegistrationsT :: "voterRegistration table"
  pollingUnitsT :: "pollingUnit table"
  campaignPuAssignmentsT :: "campaignPuAssignment table"
  volunteersT :: "volunteer table"
  pressReleasesT :: "pressRelease table"
  socialMediaPostsT :: "socialMediaPost table"
  complianceItemsT :: "complianceItem table"
  oppositionResearchT :: "oppositionEntry table"
  warRoomIncidentsT :: "warRoomIncident table"
  warRoomIncidentAuditT :: "warRoomIncidentAuditEntry table"
  fieldAgentsT :: "fieldAgent table"
  electionResultsT :: "electionResult table"
  manifestoSectionsT :: "manifestoSection table"
  petitionsT :: "petition table"
  petitionSignaturesT :: "petitionSignature table"
  diasporaContactsT :: "diasporaContact table"
  endorsementsT :: "endorsement table"
  fundraisingTransactionsT :: "fundraisingTransaction table"
  budgetItemsT :: "budgetItem table"
  budgetSpendLedgerT :: "budgetSpendLedgerEntry table"
  mediaItemsT :: "mediaItem table"
  debatePrepNotesT :: "debatePrepNote table"
  simulationRunsT :: "simulationRun table"
  campaignMembersT :: "campaignMember table"
  volunteerTasksT :: "volunteerTask table"
  debatePracticeScoresT :: "debatePracticeScore table"
  stakeholderContactsT :: "stakeholderContact table"
  consentRecordsT :: "consentRecord table"
  dataProvenanceLedgerT :: "provenanceEntry table"
  dataAccessAuditT :: "dataAccessEntry table"
  dataSubjectRequestsT :: "dataSubjectRequest table"
  surveyPanelistsT :: "surveyPanelist table"
  surveyResponsesT :: "surveyResponse table"
  messageTestsT :: "messageTest table"
  messageVariantsT :: "messageVariant table"
  messageEventsT :: "messageEvent table"
  electionPetitionsT :: "electionPetition table"

definition no_rows :: "'r table" where
  "no_rows = \<lparr>trows = [], nextId = 1\<rparr>"

definition empty_world :: world where
  "empty_world = \<lparr>conn = True, clock = 0, production = True, notifyConfigured = True, notifyUp = True, outbox = [],
     broadcasts = [], memoryWindows = [], coins = [], limiterUp = True, refusesEmptySet = True,
     refusesStringDates = True,
     rateLimitsT = [], budgetStatutoryCapsT = [],
     usersT = no_rows, candidateProfilesT = no_rows, timelineEventsT = no_rows,
     voterRegistrationsT = no_rows, pollingUnitsT = no_rows, campaignPuAssignmentsT = no_rows,
     volunteersT = no_rows, pressReleasesT = no_rows, socialMediaPostsT = no_rows,
     complianceItemsT = no_rows, oppositionResearchT = no_rows, warRoomIncidentsT = no_rows,
     warRoomIncidentAuditT = no_rows, fieldAgentsT = no_rows, electionResultsT = no_rows,
     manifestoSectionsT = no_rows, petitionsT = no_rows, petitionSignaturesT = no_rows,
     diasporaContactsT = no_rows, endorsementsT = no_rows, fundraisingTransactionsT = no_rows,
     budgetItemsT = no_rows, budgetSpendLedgerT = no_rows, mediaItemsT = no_rows,
     debatePrepNotesT = no_rows, simulationRunsT = no_rows, campaignMembersT = no_rows,
     volunteerTasksT = no_rows, debatePracticeScoresT = no_rows,
     stakeholderContactsT = no_rows, consentRecordsT = no_rows,
     dataProvenanceLedgerT = no_rows, dataAccessAuditT = no_rows,
     dataSubjectRequestsT = no_rows, surveyPanelistsT = no_rows, surveyResponsesT = no_rows,
     messageTestsT = no_rows, messageVariantsT = no_rows, messageEventsT = no_rows,
     electionPetitionsT = no_rows\<rparr>"

section \<open>Constraints\<close>

definition fk :: "'z row_scheme table \<Rightarrow> int \<Rightarrow> bool" where
  "fk t i \<longleftrightarrow> list_ex (\<lambda>x. row_id x = i) (trows t)"

definition fko :: "'z row_scheme table \<Rightarrow> int option \<Rightarrow> bool" where
  "fko t x \<longleftrightarrow> (case x of None \<Rightarrow> True | Some i \<Rightarrow> fk t i)"

definition users_chk :: "world \<Rightarrow> user \<Rightarrow> bool" where
  "users_chk s r \<longleftrightarrow>
     int4o (u_isActive r) \<and> int4o (u_partyId r)"

definition candidateProfiles_chk :: "world \<Rightarrow> candidateProfile \<Rightarrow> bool" where
  "candidateProfiles_chk s r \<longleftrightarrow>
     fko (usersT s) (cp_userId r) \<and> vc 200 (cp_candidateName r) \<and>
     vco 100 (cp_partyName r) \<and> vco 20 (cp_partyColor r) \<and>
     vco 10 (cp_stateCode r) \<and> vco 100 (cp_stateName r) \<and> vco 50 (cp_religion r) \<and>
     vco 20 (cp_gender r) \<and> vco 50 (cp_geopoliticalZone r)"

definition timelineEvents_chk :: "world \<Rightarrow> timelineEvent \<Rightarrow> bool" where
  "timelineEvents_chk s r \<longleftrightarrow>
     fko (candidateProfilesT s) (profileId r) \<and> vc 300 (te_title r) \<and>
     vco 100 (te_category r) \<and> vco 200 (te_location r)"

definition voterRegistrations_chk :: "world \<Rightarrow> voterRegistration \<Rightarrow> bool" where
  "voterRegistrations_chk s r \<longleftrightarrow>
     fko (candidateProfilesT s) (profileId r) \<and> vc 200 (vr_fullName r) \<and>
     vco 50 (vr_vin r) \<and> vco 10 (vr_stateCode r) \<and> vco 100 (vr_lga r) \<and>
     vco 100 (vr_ward r) \<and> vco 200 (vr_pollingUnit r) \<and> vco 20 (vr_phone r) \<and>
     vco 120 (vr_accessibilityNeeds r)"

definition pollingUnits_chk :: "world \<Rightarrow> pollingUnit \<Rightarrow> bool" where
  "pollingUnits_chk s r \<longleftrightarrow>
     int4o (pu_registeredVoters r)"

definition campaignPuAssignments_chk :: "world \<Rightarrow> campaignPuAssignment \<Rightarrow> bool" where
  "campaignPuAssignments_chk s r \<longleftrightarrow>
     fko (candidateProfilesT s) (profileId r) \<and> profileId r \<noteq> None \<and>
     list_ex (\<lambda>p. pu_code p = pa_puCode r) (trows (pollingUnitsT s)) \<and>
     vco 200 (pa_agentName r) \<and> vco 20 (pa_agentPhone r) \<and> vco 50 (pa_status r)"

definition volunteers_chk :: "world \<Rightarrow> volunteer \<Rightarrow> bool" where
  "volunteers_chk s r \<longleftrightarrow>
     fko (candidateProfilesT s) (profileId r) \<and> vc 200 (vo_fullName r) \<and>
     vco 20 (vo_phone r) \<and> vco 320 (vo_email r) \<and> vco 100 (vo_lga r) \<and>
     vco 100 (vo_ward r) \<and> vco 100 (vo_role r)"

definition pressReleases_chk :: "world \<Rightarrow> pressRelease \<Rightarrow> bool" where
  "pressReleases_chk s r \<longleftrightarrow>
     fko (candidateProfilesT s) (profileId r) \<and> vc 400 (pr_title r) \<and>
     vco 100 (pr_template r)"

definition socialMediaPosts_chk :: "world \<Rightarrow> socialMediaPost \<Rightarrow> bool" where
  "socialMediaPosts_chk s r \<longleftrightarrow>
     fko (candidateProfilesT s) (profileId r) \<and> vc 50 (sm_platform r) \<and>
     int4o (sm_impressions r) \<and> int4o (sm_engagements r)"

definition complianceItems_chk :: "world \<Rightarrow> complianceItem \<Rightarrow> bool" where
  "complianceItems_chk s r \<longleftrightarrow>
     fko (candidateProfilesT s) (profileId r) \<and> vc 300 (ci_title r) \<and>
     vco 100 (ci_category r)"

definition oppositionResearch_chk :: "world \<Rightarrow> oppositionEntry \<Rightarrow> bool" where
  "oppositionResearch_chk s r \<longleftrightarrow>
     fko (candidateProfilesT s) (profileId r) \<and> vc 200 (op_opponentName r) \<and>
     vco 100 (op_party r)"

definition warRoomIncidents_chk :: "world \<Rightarrow> warRoomIncident \<Rightarrow> bool" where
  "warRoomIncidents_chk s r \<longleftrightarrow>
     fko (candidateProfilesT s) (profileId r) \<and> vco 200 (wi_reportedBy r) \<and>
     vco 100 (wi_lga r) \<and> vco 100 (wi_ward r) \<and> vco 300 (wi_puName r) \<and>
     vco 100 (wi_incidentType r) \<and> vco 200 (wi_assignedTo r) \<and>
     vco 100 (wi_escalatedTo r) \<and> fko (oppositionResearchT s) (wi_oppositionEntryId r)"

definition warRoomIncidentAudit_chk :: "world \<Rightarrow> warRoomIncidentAuditEntry \<Rightarrow> bool" where
  "warRoomIncidentAudit_chk s r \<longleftrightarrow>
     fk (warRoomIncidentsT s) (wa_incidentId r) \<and> vc 30 (wa_action r) \<and>
     vco 200 (wa_actor r) \<and> vco 20 (wa_fromStatus r) \<and> vco 20 (wa_toStatus r)"

definition fieldAgents_chk :: "world \<Rightarrow> fieldAgent \<Rightarrow> bool" where
  "fieldAgents_chk s r \<longleftrightarrow>
     fko (candidateProfilesT s) (profileId r) \<and> vc 200 (fa_name r) \<and>
     vco 20 (fa_phone r) \<and> vco 300 (fa_assignedPu r) \<and> vco 100 (fa_lga r) \<and>
     int4o (fa_votersCounted r)"

definition electionResults_chk :: "world \<Rightarrow> electionResult \<Rightarrow> bool" where
  "electionResults_chk s r \<longleftrightarrow>
     fko (candidateProfilesT s) (profileId r) \<and> vc 100 (er_lga r) \<and>
     vco 100 (er_ward r) \<and> vc 200 (er_candidateName r) \<and> vco 100 (er_party r) \<and>
     int4o (er_votes r)"

definition manifestoSections_chk :: "world \<Rightarrow> manifestoSection \<Rightarrow> bool" where
  "manifestoSections_chk s r \<longleftrightarrow>
     fko (candidateProfilesT s) (profileId r) \<and> vc 200 (ms_sectionTitle r) \<and>
     vco 100 (ms_timeline r) \<and> vco 100 (ms_budget r) \<and> int4o (ms_sortOrder r)"

definition petitions_chk :: "world \<Rightarrow> petition \<Rightarrow> bool" where
  "petitions_chk s r \<longleftrightarrow>
     fko (candidateProfilesT s) (profileId r) \<and> vc 400 (pt_title r) \<and>
     int4o (pt_targetSignatures r)"

definition petitionSignatures_chk :: "world \<Rightarrow> petitionSignature \<Rightarrow> bool" where
  "petitionSignatures_chk s r \<longleftrightarrow>
     fko (petitionsT s) (ps_petitionId r) \<and> vc 200 (ps_signerName r) \<and>
     vco 20 (ps_phone r) \<and> vco 100 (ps_lga r) \<and> vco 64 (ps_signerHash r) \<and>
     vc 20 (ps_verificationStatus r) \<and> vco 200 (ps_verifiedBy r)"

definition diasporaContacts_chk :: "world \<Rightarrow> diasporaContact \<Rightarrow> bool" where
  "diasporaContacts_chk s r \<longleftrightarrow>
     fko (candidateProfilesT s) (profileId r) \<and> vc 200 (dc_name r) \<and>
     vco 100 (dc_country r) \<and> vco 100 (dc_city r) \<and> vco 320 (dc_email r) \<and>
     vco 30 (dc_phone r) \<and> vco 200 (dc_organization r) \<and> num15o (dc_pledgedAmount r)"

definition endorsements_chk :: "world \<Rightarrow> endorsement \<Rightarrow> bool" where
  "endorsements_chk s r \<longleftrightarrow>
     fko (candidateProfilesT s) (profileId r) \<and> vc 200 (en_endorserName r) \<and>
     vco 200 (en_title r) \<and> vco 200 (en_organization r) \<and> vco 100 (en_category r)"

definition fundraisingTransactions_chk :: "world \<Rightarrow> fundraisingTransaction \<Rightarrow> bool" where
  "fundraisingTransactions_chk s r \<longleftrightarrow>
     fko (candidateProfilesT s) (profileId r) \<and> vco 200 (ft_donorName r) \<and>
     num15 (ft_amount r) \<and> vco 10 (ft_currency r) \<and> vco 100 (ft_source r) \<and>
     vco 100 (ft_category r) \<and> vco 20 (ft_donorType r)"

definition budgetItems_chk :: "world \<Rightarrow> budgetItem \<Rightarrow> bool" where
  "budgetItems_chk s r \<longleftrightarrow>
     fko (candidateProfilesT s) (profileId r) \<and> vc 100 (bi_category r) \<and>
     vc 300 (bi_description r) \<and> num15 (bi_budgetedAmount r) \<and>
     num15o (bi_spentAmount r)"

definition budgetSpendLedger_chk :: "world \<Rightarrow> budgetSpendLedgerEntry \<Rightarrow> bool" where
  "budgetSpendLedger_chk s r \<longleftrightarrow>
     fko (candidateProfilesT s) (profileId r) \<and> profileId r \<noteq> None \<and>
     int4o (bl_budgetItemId r) \<and> vc 20 (bl_changeType r) \<and>
     num15o (bl_previousBudgeted r) \<and> num15o (bl_newBudgeted r) \<and>
     num15o (bl_previousSpent r) \<and> num15o (bl_newSpent r) \<and> vco 200 (bl_changedBy r)"

definition mediaItems_chk :: "world \<Rightarrow> mediaItem \<Rightarrow> bool" where
  "mediaItems_chk s r \<longleftrightarrow>
     fko (candidateProfilesT s) (profileId r) \<and> vc 200 (mi_source r) \<and>
     vco 20 (mi_sentiment r) \<and> vco 20 (mi_sourceType r) \<and> int4o (mi_reach r) \<and>
     vco 100 (mi_zone r) \<and> vco 20 (mi_complianceStatus r)"

definition debatePrepNotes_chk :: "world \<Rightarrow> debatePrepNote \<Rightarrow> bool" where
  "debatePrepNotes_chk s r \<longleftrightarrow>
     fko (candidateProfilesT s) (profileId r) \<and> vc 200 (dn_topic r) \<and>
     int4o (dn_practiceScore r)"

definition simulationRuns_chk :: "world \<Rightarrow> simulationRun \<Rightarrow> bool" where
  "simulationRuns_chk s r \<longleftrightarrow>
     fko (candidateProfilesT s) (profileId r) \<and> vco 50 (sr_scenario r) \<and>
     vco 10 (sr_stateCode r) \<and> int4o (sr_iterations r) \<and>
     int4o (sr_weatherSeverity r) \<and> int4o (sr_securityThreat r) \<and>
     int4o (sr_bvasReliability r) \<and> int4o (sr_staffTraining r) \<and>
     int4o (sr_validVotesCast r) \<and> int4o (sr_certificationEta r) \<and>
     int4o (sr_logisticsScore r) \<and> int4o (sr_securityIndex r) \<and>
     int4o (sr_rejectedBallots r) \<and> vco 120 (sr_label r)"

definition campaignMembers_chk :: "world \<Rightarrow> campaignMember \<Rightarrow> bool" where
  "campaignMembers_chk s r \<longleftrightarrow>
     fko (candidateProfilesT s) (profileId r) \<and> profileId r \<noteq> None \<and>
     fko (usersT s) (cm_userId r) \<and> vc 200 (cm_name r) \<and> vc 320 (cm_email r) \<and>
     vco 64 (cm_inviteToken r)"

definition volunteerTasks_chk :: "world \<Rightarrow> volunteerTask \<Rightarrow> bool" where
  "volunteerTasks_chk s r \<longleftrightarrow>
     fko (candidateProfilesT s) (profileId r) \<and>
     fko (volunteersT s) (vt_volunteerId r) \<and> vc 300 (vt_title r)"

definition debatePracticeScores_chk :: "world \<Rightarrow> debatePracticeScore \<Rightarrow> bool" where
  "debatePracticeScores_chk s r \<longleftrightarrow>
     fko (candidateProfilesT s) (profileId r) \<and> vc 200 (ds_topic r) \<and>
     int4 (ds_score r) \<and> int4o (ds_maxScore r)"

definition stakeholderContacts_chk :: "world \<Rightarrow> stakeholderContact \<Rightarrow> bool" where
  "stakeholderContacts_chk s r \<longleftrightarrow>
     fko (candidateProfilesT s) (profileId r) \<and> vc 200 (sc_name r) \<and>
     vco 200 (sc_title r) \<and> vco 200 (sc_organization r) \<and>
     vco 100 (sc_category r) \<and> vco 30 (sc_phone r) \<and> vco 320 (sc_email r) \<and>
     vco 100 (sc_state r) \<and> vco 100 (sc_lga r) \<and> vco 50 (sc_relationship r)"

definition consentRecords_chk :: "world \<Rightarrow> consentRecord \<Rightarrow> bool" where
  "consentRecords_chk s r \<longleftrightarrow>
     fko (candidateProfilesT s) (profileId r) \<and> profileId r \<noteq> None \<and>
     int4 (cr_subjectId r) \<and> vc 120 (cr_purpose r) \<and> vco 20 (cr_consentMethod r)"

definition dataProvenanceLedger_chk :: "world \<Rightarrow> provenanceEntry \<Rightarrow> bool" where
  "dataProvenanceLedger_chk s r \<longleftrightarrow>
     fko (candidateProfilesT s) (profileId r) \<and> profileId r \<noteq> None \<and>
     int4 (pl_subjectId r) \<and> vc 40 (pl_source r) \<and> vco 200 (pl_collectedBy r)"

definition dataAccessAudit_chk :: "world \<Rightarrow> dataAccessEntry \<Rightarrow> bool" where
  "dataAccessAudit_chk s r \<longleftrightarrow>
     fko (candidateProfilesT s) (profileId r) \<and> profileId r \<noteq> None \<and>
     int4o (da_actorId r) \<and> vco 200 (da_actorName r) \<and> vc 30 (da_action r) \<and>
     int4o (da_rowCount r) \<and> vco 200 (da_purpose r)"

definition dataSubjectRequests_chk :: "world \<Rightarrow> dataSubjectRequest \<Rightarrow> bool" where
  "dataSubjectRequests_chk s r \<longleftrightarrow>
     fko (candidateProfilesT s) (profileId r) \<and> profileId r \<noteq> None \<and>
     vc 20 (dr_requestType r) \<and> vc 200 (dr_subjectName r) \<and>
     vco 320 (dr_subjectContact r) \<and> int4o (dr_subjectId r) \<and> vc 20 (dr_status r)"

definition surveyPanelists_chk :: "world \<Rightarrow> surveyPanelist \<Rightarrow> bool" where
  "surveyPanelists_chk s r \<longleftrightarrow>
     fko (candidateProfilesT s) (profileId r) \<and> profileId r \<noteq> None \<and>
     fk (consentRecordsT s) (sp_consentId r) \<and> vc 200 (sp_fullName r) \<and>
     vco 10 (sp_stateCode r) \<and> vco 100 (sp_lga r) \<and> vco 100 (sp_ward r) \<and>
     vco 10 (sp_ageBand r) \<and> vco 20 (sp_gender r) \<and> vc 20 (sp_status r)"

definition surveyResponses_chk :: "world \<Rightarrow> surveyResponse \<Rightarrow> bool" where
  "surveyResponses_chk s r \<longleftrightarrow>
     fk (surveyPanelistsT s) (sv_panelistId r) \<and> vc 40 (sv_instrument r) \<and>
     vc 20 (sv_itemKey r) \<and> int4 (sv_score r)"

definition messageTests_chk :: "world \<Rightarrow> messageTest \<Rightarrow> bool" where
  "messageTests_chk s r \<longleftrightarrow>
     fko (candidateProfilesT s) (profileId r) \<and> profileId r \<noteq> None \<and>
     vc 200 (mt_name r) \<and> vco 40 (mt_channel r) \<and> vc 20 (mt_status r)"

definition messageVariants_chk :: "world \<Rightarrow> messageVariant \<Rightarrow> bool" where
  "messageVariants_chk s r \<longleftrightarrow>
     fk (messageTestsT s) (mv_testId r) \<and> vc 40 (mv_label r)"

definition messageEvents_chk :: "world \<Rightarrow> messageEvent \<Rightarrow> bool" where
  "messageEvents_chk s r \<longleftrightarrow>
     fk (messageVariantsT s) (me_variantId r) \<and> vc 20 (me_eventType r)"

definition electionPetitions_chk :: "world \<Rightarrow> electionPetition \<Rightarrow> bool" where
  "electionPetitions_chk s r \<longleftrightarrow>
     fko (candidateProfilesT s) (profileId r) \<and> vc 200 (ep_electionName r) \<and>
     vc 20 (ep_petitionType r) \<and> vco 200 (ep_court r) \<and>
     vco 100 (ep_caseNumber r) \<and> vco 200 (ep_petitioner r) \<and>
     vco 200 (ep_respondent r) \<and> vco 200 (ep_counsel r) \<and> vc 30 (ep_status r)"

section \<open>Table descriptors\<close>

definition usersD :: "(world, user) tbl" where
  "usersD = \<lparr>tget = usersT, tput = \<lambda>t s. s\<lparr>usersT := t\<rparr>, tchk = users_chk,
     tclash = \<lambda>x y. u_username x = u_username y \<or> u_staffId x \<noteq> None \<and> u_staffId x = u_staffId y,
     tfree = \<lambda>_ _. True\<rparr>"

definition candidateProfilesD :: "(world, candidateProfile) tbl" where
  "candidateProfilesD = \<lparr>tget = candidateProfilesT, tput = \<lambda>t s. s\<lparr>candidateProfilesT := t\<rparr>, tchk = candidateProfiles_chk,
     tclash = \<lambda>x y. cp_userId x \<noteq> None \<and> cp_userId x = cp_userId y,
     tfree = \<lambda>_ _. True\<rparr>"

definition timelineEventsD :: "(world, timelineEvent) tbl" where
  "timelineEventsD = \<lparr>tget = timelineEventsT, tput = \<lambda>t s. s\<lparr>timelineEventsT := t\<rparr>, tchk = timelineEvents_chk,
     tclash = \<lambda>_ _. False,
     tfree = \<lambda>_ _. True\<rparr>"

definition voterRegistrationsD :: "(world, voterRegistration) tbl" where
  "voterRegistrationsD = \<lparr>tget = voterRegistrationsT, tput = \<lambda>t s. s\<lparr>voterRegistrationsT := t\<rparr>, tchk = voterRegistrations_chk,
     tclash = \<lambda>_ _. False,
     tfree = \<lambda>_ _. True\<rparr>"

definition pollingUnitsD :: "(world, pollingUnit) tbl" where
  "pollingUnitsD = \<lparr>tget = pollingUnitsT, tput = \<lambda>t s. s\<lparr>pollingUnitsT := t\<rparr>, tchk = pollingUnits_chk,
     tclash = \<lambda>x y. pu_code x = pu_code y,
     tfree = \<lambda>_ _. True\<rparr>"

definition campaignPuAssignmentsD :: "(world, campaignPuAssignment) tbl" where
  "campaignPuAssignmentsD = \<lparr>tget = campaignPuAssignmentsT, tput = \<lambda>t s. s\<lparr>campaignPuAssignmentsT := t\<rparr>, tchk = campaignPuAssignments_chk,
     tclash = \<lambda>x y. profileId x = profileId y \<and> pa_puCode x = pa_puCode y,
     tfree = \<lambda>_ _. True\<rparr>"

definition volunteersD :: "(world, volunteer) tbl" where
  "volunteersD = \<lparr>tget = volunteersT, tput = \<lambda>t s. s\<lparr>volunteersT := t\<rparr>, tchk = volunteers_chk,
     tclash = \<lambda>_ _. False,
     tfree = \<lambda>s r. \<not> list_ex (\<lambda>v. vt_volunteerId v = Some (row_id r)) (trows (volunteerTasksT s))\<rparr>"

definition pressReleasesD :: "(world, pressRelease) tbl" where
  "pressReleasesD = \<lparr>tget = pressReleasesT, tput = \<lambda>t s. s\<lparr>pressReleasesT := t\<rparr>, tchk = pressReleases_chk,
     tclash = \<lambda>_ _. False,
     tfree = \<lambda>_ _. True\<rparr>"

definition socialMediaPostsD :: "(world, socialMediaPost) tbl" where
  "socialMediaPostsD = \<lparr>tget = socialMediaPostsT, tput = \<lambda>t s. s\<lparr>socialMediaPostsT := t\<rparr>, tchk = socialMediaPosts_chk,
     tclash = \<lambda>_ _. False,
     tfree = \<lambda>_ _. True\<rparr>"

definition complianceItemsD :: "(world, complianceItem) tbl" where
  "complianceItemsD = \<lparr>tget = complianceItemsT, tput = \<lambda>t s. s\<lparr>complianceItemsT := t\<rparr>, tchk = complianceItems_chk,
     tclash = \<lambda>_ _. False,
     tfree = \<lambda>_ _. True\<rparr>"

definition oppositionResearchD :: "(world, oppositionEntry) tbl" where
  "oppositionResearchD = \<lparr>tget = oppositionResearchT, tput = \<lambda>t s. s\<lparr>oppositionResearchT := t\<rparr>, tchk = oppositionResearch_chk,
     tclash = \<lambda>_ _. False,
     tfree = \<lambda>s r. \<not> list_ex (\<lambda>w. wi_oppositionEntryId w = Some (row_id r)) (trows (warRoomIncidentsT s))\<rparr>"

definition warRoomIncidentsD :: "(world, warRoomIncident) tbl" where
  "warRoomIncidentsD = \<lparr>tget = warRoomIncidentsT, tput = \<lambda>t s. s\<lparr>warRoomIncidentsT := t\<rparr>, tchk = warRoomIncidents_chk,
     tclash = \<lambda>_ _. False,
     tfree = \<lambda>s r. \<not> list_ex (\<lambda>a. wa_incidentId a = row_id r) (trows (warRoomIncidentAuditT s))\<rparr>"

definition warRoomIncidentAuditD :: "(world, warRoomIncidentAuditEntry) tbl" where
  "warRoomIncidentAuditD = \<lparr>tget = warRoomIncidentAuditT, tput = \<lambda>t s. s\<lparr>warRoomIncidentAuditT := t\<rparr>, tchk = warRoomIncidentAudit_chk,
     tclash = \<lambda>_ _. False,
     tfree = \<lambda>_ _. True\<rparr>"

definition fieldAgentsD :: "(world, fieldAgent) tbl" where
  "fieldAgentsD = \<lparr>tget = fieldAgentsT, tput = \<lambda>t s. s\<lparr>fieldAgentsT := t\<rparr>, tchk = fieldAgents_chk,
     tclash = \<lambda>_ _. False,
     tfree = \<lambda>_ _. True\<rparr>"

definition electionResultsD :: "(world, electionResult) tbl" where
  "electionResultsD = \<lparr>tget = electionResultsT, tput = \<lambda>t s. s\<lparr>electionResultsT := t\<rparr>, tchk = electionResults_chk,
     tclash = \<lambda>_ _. False,
     tfree = \<lambda>_ _. True\<rparr>"

definition manifestoSectionsD :: "(world, manifestoSection) tbl" where
  "manifestoSectionsD = \<lparr>tget = manifestoSectionsT, tput = \<lambda>t s. s\<lparr>manifestoSectionsT := t\<rparr>, tchk = manifestoSections_chk,
     tclash = \<lambda>_ _. False,
     tfree = \<lambda>_ _. True\<rparr>"

definition petitionsD :: "(world, petition) tbl" where
  "petitionsD = \<lparr>tget = petitionsT, tput = \<lambda>t s. s\<lparr>petitionsT := t\<rparr>, tchk = petitions_chk,
     tclash = \<lambda>_ _. False,
     tfree = \<lambda>s r. \<not> list_ex (\<lambda>g. ps_petitionId g = Some (row_id r)) (trows (petitionSignaturesT s))\<rparr>"

definition petitionSignaturesD :: "(world, petitionSignature) tbl" where
  "petitionSignaturesD = \<lparr>tget = petitionSignaturesT, tput = \<lambda>t s. s\<lparr>petitionSignaturesT := t\<rparr>, tchk = petitionSignatures_chk,
     tclash = \<lambda>x y. ps_signerHash x \<noteq> None \<and> ps_petitionId x \<noteq> None \<and> ps_petitionId x = ps_petitionId y \<and> ps_signerHash x = ps_signerHash y,
     tfree = \<lambda>_ _. True\<rparr>"

definition diasporaContactsD :: "(world, diasporaContact) tbl" where
  "diasporaContactsD = \<lparr>tget = diasporaContactsT, tput = \<lambda>t s. s\<lparr>diasporaContactsT := t\<rparr>, tchk = diasporaContacts_chk,
     tclash = \<lambda>_ _. False,
     tfree = \<lambda>_ _. True\<rparr>"

definition endorsementsD :: "(world, endorsement) tbl" where
  "endorsementsD = \<lparr>tget = endorsementsT, tput = \<lambda>t s. s\<lparr>endorsementsT := t\<rparr>, tchk = endorsements_chk,
     tclash = \<lambda>_ _. False,
     tfree = \<lambda>_ _. True\<rparr>"

definition fundraisingTransactionsD :: "(world, fundraisingTransaction) tbl" where
  "fundraisingTransactionsD = \<lparr>tget = fundraisingTransactionsT, tput = \<lambda>t s. s\<lparr>fundraisingTransactionsT := t\<rparr>, tchk = fundraisingTransactions_chk,
     tclash = \<lambda>_ _. False,
     tfree = \<lambda>_ _. True\<rparr>"

definition budgetItemsD :: "(world, budgetItem) tbl" where
  "budgetItemsD = \<lparr>tget = budgetItemsT, tput = \<lambda>t s. s\<lparr>budgetItemsT := t\<rparr>, tchk = budgetItems_chk,
     tclash = \<lambda>_ _. False,
     tfree = \<lambda>_ _. True\<rparr>"

definition budgetSpendLedgerD :: "(world, budgetSpendLedgerEntry) tbl" where
  "budgetSpendLedgerD = \<lparr>tget = budgetSpendLedgerT, tput = \<lambda>t s. s\<lparr>budgetSpendLedgerT := t\<rparr>, tchk = budgetSpendLedger_chk,
     tclash = \<lambda>_ _. False,
     tfree = \<lambda>_ _. False\<rparr>"

definition mediaItemsD :: "(world, mediaItem) tbl" where
  "mediaItemsD = \<lparr>tget = mediaItemsT, tput = \<lambda>t s. s\<lparr>mediaItemsT := t\<rparr>, tchk = mediaItems_chk,
     tclash = \<lambda>_ _. False,
     tfree = \<lambda>_ _. True\<rparr>"

definition debatePrepNotesD :: "(world, debatePrepNote) tbl" where
  "debatePrepNotesD = \<lparr>tget = debatePrepNotesT, tput = \<lambda>t s. s\<lparr>debatePrepNotesT := t\<rparr>, tchk = debatePrepNotes_chk,
     tclash = \<lambda>_ _. False,
     tfree = \<lambda>_ _. True\<rparr>"

definition simulationRunsD :: "(world, simulationRun) tbl" where
  "simulationRunsD = \<lparr>tget = simulationRunsT, tput = \<lambda>t s. s\<lparr>simulationRunsT := t\<rparr>, tchk = simulationRuns_chk,
     tclash = \<lambda>_ _. False,
     tfree = \<lambda>_ _. True\<rparr>"

definition campaignMembersD :: "(world, campaignMember) tbl" where
  "campaignMembersD = \<lparr>tget = campaignMembersT, tput = \<lambda>t s. s\<lparr>campaignMembersT := t\<rparr>, tchk = campaignMembers_chk,
     tclash = \<lambda>_ _. False,
     tfree = \<lambda>_ _. True\<rparr>"

definition volunteerTasksD :: "(world, volunteerTask) tbl" where
  "volunteerTasksD = \<lparr>tget = volunteerTasksT, tput = \<lambda>t s. s\<lparr>volunteerTasksT := t\<rparr>, tchk = volunteerTasks_chk,
     tclash = \<lambda>_ _. False,
     tfree = \<lambda>_ _. True\<rparr>"

definition debatePracticeScoresD :: "(world, debatePracticeScore) tbl" where
  "debatePracticeScoresD = \<lparr>tget = debatePracticeScoresT, tput = \<lambda>t s. s\<lparr>debatePracticeScoresT := t\<rparr>, tchk = debatePracticeScores_chk,
     tclash = \<lambda>_ _. False,
     tfree = \<lambda>_ _. True\<rparr>"

definition stakeholderContactsD :: "(world, stakeholderContact) tbl" where
  "stakeholderContactsD = \<lparr>tget = stakeholderContactsT, tput = \<lambda>t s. s\<lparr>stakeholderContactsT := t\<rparr>, tchk = stakeholderContacts_chk,
     tclash = \<lambda>_ _. False,
     tfree = \<lambda>_ _. True\<rparr>"

definition consentRecordsD :: "(world, consentRecord) tbl" where
  "consentRecordsD = \<lparr>tget = consentRecordsT, tput = \<lambda>t s. s\<lparr>consentRecordsT := t\<rparr>, tchk = consentRecords_chk,
     tclash = \<lambda>_ _. False,
     tfree = \<lambda>s r. \<not> list_ex (\<lambda>p. sp_consentId p = row_id r) (trows (surveyPanelistsT s))\<rparr>"

definition dataProvenanceLedgerD :: "(world, provenanceEntry) tbl" where
  "dataProvenanceLedgerD = \<lparr>tget = dataProvenanceLedgerT, tput = \<lambda>t s. s\<lparr>dataProvenanceLedgerT := t\<rparr>, tchk = dataProvenanceLedger_chk,
     tclash = \<lambda>_ _. False,
     tfree = \<lambda>_ _. True\<rparr>"

definition dataAccessAuditD :: "(world, dataAccessEntry) tbl" where
  "dataAccessAuditD = \<lparr>tget = dataAccessAuditT, tput = \<lambda>t s. s\<lparr>dataAccessAuditT := t\<rparr>, tchk = dataAccessAudit_chk,
     tclash = \<lambda>_ _. False,
     tfree = \<lambda>_ _. True\<rparr>"

definition dataSubjectRequestsD :: "(world, dataSubjectRequest) tbl" where
  "dataSubjectRequestsD = \<lparr>tget = dataSubjectRequestsT, tput = \<lambda>t s. s\<lparr>dataSubjectRequestsT := t\<rparr>, tchk = dataSubjectRequests_chk,
     tclash = \<lambda>_ _. False,
     tfree = \<lambda>_ _. True\<rparr>"

definition surveyPanelistsD :: "(world, surveyPanelist) tbl" where
  "surveyPanelistsD = \<lparr>tget = surveyPanelistsT, tput = \<lambda>t s. s\<lparr>surveyPanelistsT := t\<rparr>, tchk = surveyPanelists_chk,
     tclash = \<lambda>_ _. False,
     tfree = \<lambda>s r. \<not> list_ex (\<lambda>v. sv_panelistId v = row_id r) (trows (surveyResponsesT s))\<rparr>"

definition surveyResponsesD :: "(world, surveyResponse) tbl" where
  "surveyResponsesD = \<lparr>tget = surveyResponsesT, tput = \<lambda>t s. s\<lparr>surveyResponsesT := t\<rparr>, tchk = surveyResponses_chk,
     tclash = \<lambda>_ _. False,
     tfree = \<lambda>_ _. True\<rparr>"

definition messageTestsD :: "(world, messageTest) tbl" where
  "messageTestsD = \<lparr>tget = messageTestsT, tput = \<lambda>t s. s\<lparr>messageTestsT := t\<rparr>, tchk = messageTests_chk,
     tclash = \<lambda>_ _. False,
     tfree = \<lambda>s r. \<not> list_ex (\<lambda>v. mv_testId v = row_id r) (trows (messageVariantsT s))\<rparr>"

definition messageVariantsD :: "(world, messageVariant) tbl" where
  "messageVariantsD = \<lparr>tget = messageVariantsT, tput = \<lambda>t s. s\<lparr>messageVariantsT := t\<rparr>, tchk = messageVariants_chk,
     tclash = \<lambda>_ _. False,
     tfree = \<lambda>s r. \<not> list_ex (\<lambda>e. me_variantId e = row_id r) (trows (messageEventsT s))\<rparr>"

definition messageEventsD :: "(world, messageEvent) tbl" where
  "messageEventsD = \<lparr>tget = messageEventsT, tput = \<lambda>t s. s\<lparr>messageEventsT := t\<rparr>, tchk = messageEvents_chk,
     tclash = \<lambda>_ _. False,
     tfree = \<lambda>_ _. True\<rparr>"

definition electionPetitionsD :: "(world, electionPetition) tbl" where
  "electionPetitionsD = \<lparr>tget = electionPetitionsT, tput = \<lambda>t s. s\<lparr>electionPetitionsT := t\<rparr>, tchk = electionPetitions_chk,
     tclash = \<lambda>_ _. False,
     tfree = \<lambda>_ _. True\<rparr>"

text \<open>Every descriptor is a lens into the state.\<close>

interpretation usersL: table_lens usersD
  by unfold_locales (simp_all add: usersD_def)

interpretation candidateProfilesL: table_lens candidateProfilesD
  by unfold_locales (simp_all add: candidateProfilesD_def)

interpretation timelineEventsL: table_lens timelineEventsD
  by unfold_locales (simp_all add: timelineEventsD_def)

interpretation voterRegistrationsL: table_lens voterRegistrationsD
  by unfold_locales (simp_all add: voterRegistrationsD_def)

interpretation pollingUnitsL: table_lens pollingUnitsD
  by unfold_locales (simp_all add: pollingUnitsD_def)

interpretation campaignPuAssignmentsL: table_lens campaignPuAssignmentsD
  by unfold_locales (simp_all add: campaignPuAssignmentsD_def)

interpretation volunteersL: table_lens volunteersD
  by unfold_locales (simp_all add: volunteersD_def)

interpretation pressReleasesL: table_lens pressReleasesD
  by unfold_locales (simp_all add: pressReleasesD_def)

interpretation socialMediaPostsL: table_lens socialMediaPostsD
  by unfold_locales (simp_all add: socialMediaPostsD_def)

interpretation complianceItemsL: table_lens complianceItemsD
  by unfold_locales (simp_all add: complianceItemsD_def)

interpretation oppositionResearchL: table_lens oppositionResearchD
  by unfold_locales (simp_all add: oppositionResearchD_def)

interpretation warRoomIncidentsL: table_lens warRoomIncidentsD
  by unfold_locales (simp_all add: warRoomIncidentsD_def)

interpretation warRoomIncidentAuditL: table_lens warRoomIncidentAuditD
  by unfold_locales (simp_all add: warRoomIncidentAuditD_def)

interpretation fieldAgentsL: table_lens fieldAgentsD
  by unfold_locales (simp_all add: fieldAgentsD_def)

interpretation electionResultsL: table_lens electionResultsD
  by unfold_locales (simp_all add: electionResultsD_def)

interpretation manifestoSectionsL: table_lens manifestoSectionsD
  by unfold_locales (simp_all add: manifestoSectionsD_def)

interpretation petitionsL: table_lens petitionsD
  by unfold_locales (simp_all add: petitionsD_def)

interpretation petitionSignaturesL: table_lens petitionSignaturesD
  by unfold_locales (simp_all add: petitionSignaturesD_def)

interpretation diasporaContactsL: table_lens diasporaContactsD
  by unfold_locales (simp_all add: diasporaContactsD_def)

interpretation endorsementsL: table_lens endorsementsD
  by unfold_locales (simp_all add: endorsementsD_def)

interpretation fundraisingTransactionsL: table_lens fundraisingTransactionsD
  by unfold_locales (simp_all add: fundraisingTransactionsD_def)

interpretation budgetItemsL: table_lens budgetItemsD
  by unfold_locales (simp_all add: budgetItemsD_def)

interpretation budgetSpendLedgerL: table_lens budgetSpendLedgerD
  by unfold_locales (simp_all add: budgetSpendLedgerD_def)

interpretation mediaItemsL: table_lens mediaItemsD
  by unfold_locales (simp_all add: mediaItemsD_def)

interpretation debatePrepNotesL: table_lens debatePrepNotesD
  by unfold_locales (simp_all add: debatePrepNotesD_def)

interpretation simulationRunsL: table_lens simulationRunsD
  by unfold_locales (simp_all add: simulationRunsD_def)

interpretation campaignMembersL: table_lens campaignMembersD
  by unfold_locales (simp_all add: campaignMembersD_def)

interpretation volunteerTasksL: table_lens volunteerTasksD
  by unfold_locales (simp_all add: volunteerTasksD_def)

interpretation debatePracticeScoresL: table_lens debatePracticeScoresD
  by unfold_locales (simp_all add: debatePracticeScoresD_def)

interpretation stakeholderContactsL: table_lens stakeholderContactsD
  by unfold_locales (simp_all add: stakeholderContactsD_def)

interpretation consentRecordsL: table_lens consentRecordsD
  by unfold_locales (simp_all add: consentRecordsD_def)

interpretation dataProvenanceLedgerL: table_lens dataProvenanceLedgerD
  by unfold_locales (simp_all add: dataProvenanceLedgerD_def)

interpretation dataAccessAuditL: table_lens dataAccessAuditD
  by unfold_locales (simp_all add: dataAccessAuditD_def)

interpretation dataSubjectRequestsL: table_lens dataSubjectRequestsD
  by unfold_locales (simp_all add: dataSubjectRequestsD_def)

interpretation surveyPanelistsL: table_lens surveyPanelistsD
  by unfold_locales (simp_all add: surveyPanelistsD_def)

interpretation surveyResponsesL: table_lens surveyResponsesD
  by unfold_locales (simp_all add: surveyResponsesD_def)

interpretation messageTestsL: table_lens messageTestsD
  by unfold_locales (simp_all add: messageTestsD_def)

interpretation messageVariantsL: table_lens messageVariantsD
  by unfold_locales (simp_all add: messageVariantsD_def)

interpretation messageEventsL: table_lens messageEventsD
  by unfold_locales (simp_all add: messageEventsD_def)

interpretation electionPetitionsL: table_lens electionPetitionsD
  by unfold_locales (simp_all add: electionPetitionsD_def)

lemma table_access [simp]:
  "tget usersD = usersT" "tput usersD = (\<lambda>t s. s\<lparr>usersT := t\<rparr>)"
  "tget candidateProfilesD = candidateProfilesT" "tput candidateProfilesD = (\<lambda>t s. s\<lparr>candidateProfilesT := t\<rparr>)"
  "tget timelineEventsD = timelineEventsT" "tput timelineEventsD = (\<lambda>t s. s\<lparr>timelineEventsT := t\<rparr>)"
  "tget voterRegistrationsD = voterRegistrationsT" "tput voterRegistrationsD = (\<lambda>t s. s\<lparr>voterRegistrationsT := t\<rparr>)"
  "tget pollingUnitsD = pollingUnitsT" "tput pollingUnitsD = (\<lambda>t s. s\<lparr>pollingUnitsT := t\<rparr>)"
  "tget campaignPuAssignmentsD = campaignPuAssignmentsT" "tput campaignPuAssignmentsD = (\<lambda>t s. s\<lparr>campaignPuAssignmentsT := t\<rparr>)"
  "tget volunteersD = volunteersT" "tput volunteersD = (\<lambda>t s. s\<lparr>volunteersT := t\<rparr>)"
  "tget pressReleasesD = pressReleasesT" "tput pressReleasesD = (\<lambda>t s. s\<lparr>pressReleasesT := t\<rparr>)"
  "tget socialMediaPostsD = socialMediaPostsT" "tput socialMediaPostsD = (\<lambda>t s. s\<lparr>socialMediaPostsT := t\<rparr>)"
  "tget complianceItemsD = complianceItemsT" "tput complianceItemsD = (\<lambda>t s. s\<lparr>complianceItemsT := t\<rparr>)"
  "tget oppositionResearchD = oppositionResearchT" "tput oppositionResearchD = (\<lambda>t s. s\<lparr>oppositionResearchT := t\<rparr>)"
  "tget warRoomIncidentsD = warRoomIncidentsT" "tput warRoomIncidentsD = (\<lambda>t s. s\<lparr>warRoomIncidentsT := t\<rparr>)"
  "tget warRoomIncidentAuditD = warRoomIncidentAuditT" "tput warRoomIncidentAuditD = (\<lambda>t s. s\<lparr>warRoomIncidentAuditT := t\<rparr>)"
  "tget fieldAgentsD = fieldAgentsT" "tput fieldAgentsD = (\<lambda>t s. s\<lparr>fieldAgentsT := t\<rparr>)"
  "tget electionResultsD = electionResultsT" "tput electionResultsD = (\<lambda>t s. s\<lparr>electionResultsT := t\<rparr>)"
  "tget manifestoSectionsD = manifestoSectionsT" "tput manifestoSectionsD = (\<lambda>t s. s\<lparr>manifestoSectionsT := t\<rparr>)"
  "tget petitionsD = petitionsT" "tput petitionsD = (\<lambda>t s. s\<lparr>petitionsT := t\<rparr>)"
  "tget petitionSignaturesD = petitionSignaturesT" "tput petitionSignaturesD = (\<lambda>t s. s\<lparr>petitionSignaturesT := t\<rparr>)"
  "tget diasporaContactsD = diasporaContactsT" "tput diasporaContactsD = (\<lambda>t s. s\<lparr>diasporaContactsT := t\<rparr>)"
  "tget endorsementsD = endorsementsT" "tput endorsementsD = (\<lambda>t s. s\<lparr>endorsementsT := t\<rparr>)"
  "tget fundraisingTransactionsD = fundraisingTransactionsT" "tput fundraisingTransactionsD = (\<lambda>t s. s\<lparr>fundraisingTransactionsT := t\<rparr>)"
  "tget budgetItemsD = budgetItemsT" "tput budgetItemsD = (\<lambda>t s. s\<lparr>budgetItemsT := t\<rparr>)"
  "tget budgetSpendLedgerD = budgetSpendLedgerT" "tput budgetSpendLedgerD = (\<lambda>t s. s\<lparr>budgetSpendLedgerT := t\<rparr>)"
  "tget mediaItemsD = mediaItemsT" "tput mediaItemsD = (\<lambda>t s. s\<lparr>mediaItemsT := t\<rparr>)"
  "tget debatePrepNotesD = debatePrepNotesT" "tput debatePrepNotesD = (\<lambda>t s. s\<lparr>debatePrepNotesT := t\<rparr>)"
  "tget simulationRunsD = simulationRunsT" "tput simulationRunsD = (\<lambda>t s. s\<lparr>simulationRunsT := t\<rparr>)"
  "tget campaignMembersD = campaignMembersT" "tput campaignMembersD = (\<lambda>t s. s\<lparr>campaignMembersT := t\<rparr>)"
  "tget volunteerTasksD = volunteerTasksT" "tput volunteerTasksD = (\<lambda>t s. s\<lparr>volunteerTasksT := t\<rparr>)"
  "tget debatePracticeScoresD = debatePracticeScoresT" "tput debatePracticeScoresD = (\<lambda>t s. s\<lparr>debatePracticeScoresT := t\<rparr>)"
  "tget stakeholderContactsD = stakeholderContactsT" "tput stakeholderContactsD = (\<lambda>t s. s\<lparr>stakeholderContactsT := t\<rparr>)"
  "tget consentRecordsD = consentRecordsT" "tput consentRecordsD = (\<lambda>t s. s\<lparr>consentRecordsT := t\<rparr>)"
  "tget dataProvenanceLedgerD = dataProvenanceLedgerT" "tput dataProvenanceLedgerD = (\<lambda>t s. s\<lparr>dataProvenanceLedgerT := t\<rparr>)"
  "tget dataAccessAuditD = dataAccessAuditT" "tput dataAccessAuditD = (\<lambda>t s. s\<lparr>dataAccessAuditT := t\<rparr>)"
  "tget dataSubjectRequestsD = dataSubjectRequestsT" "tput dataSubjectRequestsD = (\<lambda>t s. s\<lparr>dataSubjectRequestsT := t\<rparr>)"
  "tget surveyPanelistsD = surveyPanelistsT" "tput surveyPanelistsD = (\<lambda>t s. s\<lparr>surveyPanelistsT := t\<rparr>)"
  "tget surveyResponsesD = surveyResponsesT" "tput surveyResponsesD = (\<lambda>t s. s\<lparr>surveyResponsesT := t\<rparr>)"
  "tget messageTestsD = messageTestsT" "tput messageTestsD = (\<lambda>t s. s\<lparr>messageTestsT := t\<rparr>)"
  "tget messageVariantsD = messageVariantsT" "tput messageVariantsD = (\<lambda>t s. s\<lparr>messageVariantsT := t\<rparr>)"
  "tget messageEventsD = messageEventsT" "tput messageEventsD = (\<lambda>t s. s\<lparr>messageEventsT := t\<rparr>)"
  "tget electionPetitionsD = electionPetitionsT" "tput electionPetitionsD = (\<lambda>t s. s\<lparr>electionPetitionsT := t\<rparr>)"
  by (simp_all add:
    usersD_def candidateProfilesD_def timelineEventsD_def voterRegistrationsD_def
    pollingUnitsD_def campaignPuAssignmentsD_def volunteersD_def pressReleasesD_def
    socialMediaPostsD_def complianceItemsD_def oppositionResearchD_def warRoomIncidentsD_def
    warRoomIncidentAuditD_def fieldAgentsD_def electionResultsD_def manifestoSectionsD_def
    petitionsD_def petitionSignaturesD_def diasporaContactsD_def endorsementsD_def
    fundraisingTransactionsD_def budgetItemsD_def budgetSpendLedgerD_def mediaItemsD_def
    debatePrepNotesD_def simulationRunsD_def campaignMembersD_def volunteerTasksD_def
    debatePracticeScoresD_def stakeholderContactsD_def consentRecordsD_def
    dataProvenanceLedgerD_def dataAccessAuditD_def dataSubjectRequestsD_def
    surveyPanelistsD_def surveyResponsesD_def messageTestsD_def messageVariantsD_def
    messageEventsD_def electionPetitionsD_def)

lemma table_constraints [table_simps]:
  "tchk usersD = users_chk"
  "tchk candidateProfilesD = candidateProfiles_chk"
  "tchk timelineEventsD = timelineEvents_chk"
  "tchk voterRegistrationsD = voterRegistrations_chk"
  "tchk pollingUnitsD = pollingUnits_chk"
  "tchk campaignPuAssignmentsD = campaignPuAssignments_chk"
  "tchk volunteersD = volunteers_chk"
  "tchk pressReleasesD = pressReleases_chk"
  "tchk socialMediaPostsD = socialMediaPosts_chk"
  "tchk complianceItemsD = complianceItems_chk"
  "tchk oppositionResearchD = oppositionResearch_chk"
  "tchk warRoomIncidentsD = warRoomIncidents_chk"
  "tchk warRoomIncidentAuditD = warRoomIncidentAudit_chk"
  "tchk fieldAgentsD = fieldAgents_chk"
  "tchk electionResultsD = electionResults_chk"
  "tchk manifestoSectionsD = manifestoSections_chk"
  "tchk petitionsD = petitions_chk"
  "tchk petitionSignaturesD = petitionSignatures_chk"
  "tchk diasporaContactsD = diasporaContacts_chk"
  "tchk endorsementsD = endorsements_chk"
  "tchk fundraisingTransactionsD = fundraisingTransactions_chk"
  "tchk budgetItemsD = budgetItems_chk"
  "tchk budgetSpendLedgerD = budgetSpendLedger_chk"
  "tchk mediaItemsD = mediaItems_chk"
  "tchk debatePrepNotesD = debatePrepNotes_chk"
  "tchk simulationRunsD = simulationRuns_chk"
  "tchk campaignMembersD = campaignMembers_chk"
  "tchk volunteerTasksD = volunteerTasks_chk"
  "tchk debatePracticeScoresD = debatePracticeScores_chk"
  "tchk stakeholderContactsD = stakeholderContacts_chk"
  "tchk consentRecordsD = consentRecords_chk"
  "tchk dataProvenanceLedgerD = dataProvenanceLedger_chk"
  "tchk dataAccessAuditD = dataAccessAudit_chk"
  "tchk dataSubjectRequestsD = dataSubjectRequests_chk"
  "tchk surveyPanelistsD = surveyPanelists_chk"
  "tchk surveyResponsesD = surveyResponses_chk"
  "tchk messageTestsD = messageTests_chk"
  "tchk messageVariantsD = messageVariants_chk"
  "tchk messageEventsD = messageEvents_chk"
  "tchk electionPetitionsD = electionPetitions_chk"
  by (simp_all add:
    usersD_def candidateProfilesD_def timelineEventsD_def voterRegistrationsD_def
    pollingUnitsD_def campaignPuAssignmentsD_def volunteersD_def pressReleasesD_def
    socialMediaPostsD_def complianceItemsD_def oppositionResearchD_def warRoomIncidentsD_def
    warRoomIncidentAuditD_def fieldAgentsD_def electionResultsD_def manifestoSectionsD_def
    petitionsD_def petitionSignaturesD_def diasporaContactsD_def endorsementsD_def
    fundraisingTransactionsD_def budgetItemsD_def budgetSpendLedgerD_def mediaItemsD_def
    debatePrepNotesD_def simulationRunsD_def campaignMembersD_def volunteerTasksD_def
    debatePracticeScoresD_def stakeholderContactsD_def consentRecordsD_def
    dataProvenanceLedgerD_def dataAccessAuditD_def dataSubjectRequestsD_def
    surveyPanelistsD_def surveyResponsesD_def messageTestsD_def messageVariantsD_def
    messageEventsD_def electionPetitionsD_def)

lemma rows_of_simps [simp]:
  "rows_of usersD s = trows (usersT s)"
  "rows_of candidateProfilesD s = trows (candidateProfilesT s)"
  "rows_of timelineEventsD s = trows (timelineEventsT s)"
  "rows_of voterRegistrationsD s = trows (voterRegistrationsT s)"
  "rows_of pollingUnitsD s = trows (pollingUnitsT s)"
  "rows_of campaignPuAssignmentsD s = trows (campaignPuAssignmentsT s)"
  "rows_of volunteersD s = trows (volunteersT s)"
  "rows_of pressReleasesD s = trows (pressReleasesT s)"
  "rows_of socialMediaPostsD s = trows (socialMediaPostsT s)"
  "rows_of complianceItemsD s = trows (complianceItemsT s)"
  "rows_of oppositionResearchD s = trows (oppositionResearchT s)"
  "rows_of warRoomIncidentsD s = trows (warRoomIncidentsT s)"
  "rows_of warRoomIncidentAuditD s = trows (warRoomIncidentAuditT s)"
  "rows_of fieldAgentsD s = trows (fieldAgentsT s)"
  "rows_of electionResultsD s = trows (electionResultsT s)"
  "rows_of manifestoSectionsD s = trows (manifestoSectionsT s)"
  "rows_of petitionsD s = trows (petitionsT s)"
  "rows_of petitionSignaturesD s = trows (petitionSignaturesT s)"
  "rows_of diasporaContactsD s = trows (diasporaContactsT s)"
  "rows_of endorsementsD s = trows (endorsementsT s)"
  "rows_of fundraisingTransactionsD s = trows (fundraisingTransactionsT s)"
  "rows_of budgetItemsD s = trows (budgetItemsT s)"
  "rows_of budgetSpendLedgerD s = trows (budgetSpendLedgerT s)"
  "rows_of mediaItemsD s = trows (mediaItemsT s)"
  "rows_of debatePrepNotesD s = trows (debatePrepNotesT s)"
  "rows_of simulationRunsD s = trows (simulationRunsT s)"
  "rows_of campaignMembersD s = trows (campaignMembersT s)"
  "rows_of volunteerTasksD s = trows (volunteerTasksT s)"
  "rows_of debatePracticeScoresD s = trows (debatePracticeScoresT s)"
  "rows_of stakeholderContactsD s = trows (stakeholderContactsT s)"
  "rows_of consentRecordsD s = trows (consentRecordsT s)"
  "rows_of dataProvenanceLedgerD s = trows (dataProvenanceLedgerT s)"
  "rows_of dataAccessAuditD s = trows (dataAccessAuditT s)"
  "rows_of dataSubjectRequestsD s = trows (dataSubjectRequestsT s)"
  "rows_of surveyPanelistsD s = trows (surveyPanelistsT s)"
  "rows_of surveyResponsesD s = trows (surveyResponsesT s)"
  "rows_of messageTestsD s = trows (messageTestsT s)"
  "rows_of messageVariantsD s = trows (messageVariantsT s)"
  "rows_of messageEventsD s = trows (messageEventsT s)"
  "rows_of electionPetitionsD s = trows (electionPetitionsT s)"
  by (simp_all add: rows_of_def)

section \<open>Database access\<close>

text \<open>\<open>const db = getDb(); if (!db) return d\<close>.\<close>

definition withDb :: "'a \<Rightarrow> (world, 'a) proc \<Rightarrow> (world, 'a) proc" where
  "withDb d m s = (if conn s then m s else (Inr d, s))"

definition withDbOrThrow :: "error \<Rightarrow> (world, 'a) proc \<Rightarrow> (world, 'a) proc" where
  "withDbOrThrow e m s = (if conn s then m s else (Inl e, s))"

lemma withDb_run [run_simps]: "withDb d m s = (if conn s then m s else (Inr d, s))"
  by (simp add: withDb_def)

lemma withDbOrThrow_run [run_simps]:
  "withDbOrThrow e m s = (if conn s then m s else (Inl e, s))"
  by (simp add: withDbOrThrow_def)

lemma preserves_withDb [preserves_intros]: "preserves I m \<Longrightarrow> preserves I (withDb d m)"
  by (simp add: preserves_def withDb_def)

lemma preserves_withDbOrThrow [preserves_intros]:
  "preserves I m \<Longrightarrow> preserves I (withDbOrThrow e m)"
  by (simp add: preserves_def withDbOrThrow_def)

lemma follows_withDb: "follows R m \<Longrightarrow> (\<And>s. R s s) \<Longrightarrow> follows R (withDb d m)"
  by (simp add: follows_def withDb_def)

lemma follows_withDbOrThrow: "follows R m \<Longrightarrow> (\<And>s. R s s) \<Longrightarrow> follows R (withDbOrThrow e m)"
  by (simp add: follows_def withDbOrThrow_def)

text \<open>\<open>assertUpdated\<close>: no matched row is NOT\_FOUND, never a silent no-op.\<close>

definition assertUpdated :: "'r list \<Rightarrow> string \<Rightarrow> (world, 'r) proc" where
  "assertUpdated rows label =
     (case rows of [] \<Rightarrow> throwE (TRPC NOT_FOUND (label @ '' not found'')) | r # _ \<Rightarrow> returnE r)"

text \<open>\<open>requireTenantId\<close>: the argument is a number or absent, and numbers are integers here.\<close>

definition requireTenantId :: "int option \<Rightarrow> (world, int) proc" where
  "requireTenantId p =
     (case p of None \<Rightarrow> throwE (TRPC BAD_REQUEST ''profileId is required'') | Some i \<Rightarrow> returnE i)"

lemma assertUpdated_run [run_simps]:
  "assertUpdated rows label s =
     ((case rows of [] \<Rightarrow> Inl (TRPC NOT_FOUND (label @ '' not found'')) | r # _ \<Rightarrow> Inr r), s)"
  by (simp add: assertUpdated_def run_simps split: list.splits)

lemma requireTenantId_run [run_simps]:
  "requireTenantId p s =
     ((case p of None \<Rightarrow> Inl (TRPC BAD_REQUEST ''profileId is required'') | Some i \<Rightarrow> Inr i), s)"
  by (simp add: requireTenantId_def run_simps split: option.splits)

lemma bind_requireTenantId: "bindE (requireTenantId (Some p)) g = g p"
  by (rule ext) (simp add: run_simps)

lemma preserves_assertUpdated [preserves_intros]: "preserves I (assertUpdated rows label)"
  and preserves_requireTenantId [preserves_intros]: "preserves I (requireTenantId p)"
  by (simp_all add: preserves_def run_simps)

text \<open>
  The shape shared by the upserts of the content tables: with a truthy id, a tenant-guarded
  UPDATE that never sets \<open>profileId\<close> and is NOT\_FOUND when nothing matched; otherwise an
  INSERT (an id of 0 is passed on to it).
\<close>

definition tenantUpsert ::
  "(world, 'z trow_scheme) tbl \<Rightarrow> string \<Rightarrow> int option \<Rightarrow> int option \<Rightarrow>
   ('z trow_scheme \<Rightarrow> 'z trow_scheme) \<Rightarrow> (int \<Rightarrow> 'z trow_scheme) \<Rightarrow> (world, 'z trow_scheme option) proc"
where
  "tenantUpsert D label eid pid upd mk =
     (if truthy_id eid
      then bindE (requireTenantId pid) (\<lambda>p.
           bindE (updateRows D (\<lambda>r. Some (row_id r) = eid \<and> profileId r = Some p) upd) (\<lambda>rows.
           bindE (assertUpdated rows label) (\<lambda>r. returnE (Some r))))
      else bindE (insertRow D eid mk) (\<lambda>r. returnE (Some r)))"

end
