(* ===== verification/Tenancy.thy ===== *)
theory Tenancy
  imports Campaign_World
begin

text \<open>
  Two facts about states that the whole development rests on. \<open>wf_ids\<close>: ids are
  unique in every table. \<open>same_tenant q\<close>: two states agree on everything the campaign
  profile \<open>q\<close> owns, its profile row and its rows of every tenant table. The locale
  \<open>world_table\<close> says how the statements on one table act on \<open>wf_ids\<close>; \<open>tenant_table\<close>
  and \<open>shared_table\<close> extend it with how they act on \<open>same_tenant\<close>. Each is
  interpreted on every table of the schema.
\<close>

definition tenant_rows :: "(world, 'z trow_scheme) tbl \<Rightarrow> int \<Rightarrow> world \<Rightarrow> 'z trow_scheme list" where
  "tenant_rows D q s = filter (\<lambda>r. profileId r = Some q) (rows_of D s)"

definition profile_rows :: "int \<Rightarrow> world \<Rightarrow> candidateProfile list" where
  "profile_rows q s = filter (\<lambda>r. row_id r = q) (rows_of candidateProfilesD s)"

definition same_tenant :: "int \<Rightarrow> world \<Rightarrow> world \<Rightarrow> bool" where
  "same_tenant q s s' \<longleftrightarrow>
     profile_rows q s' = profile_rows q s \<and>
     tenant_rows timelineEventsD q s' = tenant_rows timelineEventsD q s \<and>
     tenant_rows voterRegistrationsD q s' = tenant_rows voterRegistrationsD q s \<and>
     tenant_rows campaignPuAssignmentsD q s' = tenant_rows campaignPuAssignmentsD q s \<and>
     tenant_rows volunteersD q s' = tenant_rows volunteersD q s \<and>
     tenant_rows pressReleasesD q s' = tenant_rows pressReleasesD q s \<and>
     tenant_rows socialMediaPostsD q s' = tenant_rows socialMediaPostsD q s \<and>
     tenant_rows complianceItemsD q s' = tenant_rows complianceItemsD q s \<and>
     tenant_rows oppositionResearchD q s' = tenant_rows oppositionResearchD q s \<and>
     tenant_rows warRoomIncidentsD q s' = tenant_rows warRoomIncidentsD q s \<and>
     tenant_rows fieldAgentsD q s' = tenant_rows fieldAgentsD q s \<and>
     tenant_rows electionResultsD q s' = tenant_rows electionResultsD q s \<and>
     tenant_rows manifestoSectionsD q s' = tenant_rows manifestoSectionsD q s \<and>
     tenant_rows petitionsD q s' = tenant_rows petitionsD q s \<and>
     tenant_rows diasporaContactsD q s' = tenant_rows diasporaContactsD q s \<and>
     tenant_rows endorsementsD q s' = tenant_rows endorsementsD q s \<and>
     tenant_rows fundraisingTransactionsD q s' = tenant_rows fundraisingTransactionsD q s \<and>
     tenant_rows budgetItemsD q s' = tenant_rows budgetItemsD q s \<and>
     tenant_rows budgetSpendLedgerD q s' = tenant_rows budgetSpendLedgerD q s \<and>
     tenant_rows mediaItemsD q s' = tenant_rows mediaItemsD q s \<and>
     tenant_rows debatePrepNotesD q s' = tenant_rows debatePrepNotesD q s \<and>
     tenant_rows simulationRunsD q s' = tenant_rows simulationRunsD q s \<and>
     tenant_rows campaignMembersD q s' = tenant_rows campaignMembersD q s \<and>
     tenant_rows volunteerTasksD q s' = tenant_rows volunteerTasksD q s \<and>
     tenant_rows debatePracticeScoresD q s' = tenant_rows debatePracticeScoresD q s \<and>
     tenant_rows stakeholderContactsD q s' = tenant_rows stakeholderContactsD q s \<and>
     tenant_rows consentRecordsD q s' = tenant_rows consentRecordsD q s \<and>
     tenant_rows dataProvenanceLedgerD q s' = tenant_rows dataProvenanceLedgerD q s \<and>
     tenant_rows dataAccessAuditD q s' = tenant_rows dataAccessAuditD q s \<and>
     tenant_rows dataSubjectRequestsD q s' = tenant_rows dataSubjectRequestsD q s \<and>
     tenant_rows surveyPanelistsD q s' = tenant_rows surveyPanelistsD q s \<and>
     tenant_rows messageTestsD q s' = tenant_rows messageTestsD q s \<and>
     tenant_rows electionPetitionsD q s' = tenant_rows electionPetitionsD q s"

definition wf_ids :: "world \<Rightarrow> bool" where
  "wf_ids s \<longleftrightarrow>
     ids_distinct (rows_of usersD s) \<and>
     ids_distinct (rows_of candidateProfilesD s) \<and>
     ids_distinct (rows_of timelineEventsD s) \<and>
     ids_distinct (rows_of voterRegistrationsD s) \<and>
     ids_distinct (rows_of pollingUnitsD s) \<and>
     ids_distinct (rows_of campaignPuAssignmentsD s) \<and>
     ids_distinct (rows_of volunteersD s) \<and>
     ids_distinct (rows_of pressReleasesD s) \<and>
     ids_distinct (rows_of socialMediaPostsD s) \<and>
     ids_distinct (rows_of complianceItemsD s) \<and>
     ids_distinct (rows_of oppositionResearchD s) \<and>
     ids_distinct (rows_of warRoomIncidentsD s) \<and>
     ids_distinct (rows_of warRoomIncidentAuditD s) \<and>
     ids_distinct (rows_of fieldAgentsD s) \<and>
     ids_distinct (rows_of electionResultsD s) \<and>
     ids_distinct (rows_of manifestoSectionsD s) \<and>
     ids_distinct (rows_of petitionsD s) \<and>
     ids_distinct (rows_of petitionSignaturesD s) \<and>
     ids_distinct (rows_of diasporaContactsD s) \<and>
     ids_distinct (rows_of endorsementsD s) \<and>
     ids_distinct (rows_of fundraisingTransactionsD s) \<and>
     ids_distinct (rows_of budgetItemsD s) \<and>
     ids_distinct (rows_of budgetSpendLedgerD s) \<and>
     ids_distinct (rows_of mediaItemsD s) \<and>
     ids_distinct (rows_of debatePrepNotesD s) \<and>
     ids_distinct (rows_of simulationRunsD s) \<and>
     ids_distinct (rows_of campaignMembersD s) \<and>
     ids_distinct (rows_of volunteerTasksD s) \<and>
     ids_distinct (rows_of debatePracticeScoresD s) \<and>
     ids_distinct (rows_of stakeholderContactsD s) \<and>
     ids_distinct (rows_of consentRecordsD s) \<and>
     ids_distinct (rows_of dataProvenanceLedgerD s) \<and>
     ids_distinct (rows_of dataAccessAuditD s) \<and>
     ids_distinct (rows_of dataSubjectRequestsD s) \<and>
     ids_distinct (rows_of surveyPanelistsD s) \<and>
     ids_distinct (rows_of surveyResponsesD s) \<and>
     ids_distinct (rows_of messageTestsD s) \<and>
     ids_distinct (rows_of messageVariantsD s) \<and>
     ids_distinct (rows_of messageEventsD s) \<and>
     ids_distinct (rows_of electionPetitionsD s)"

lemma same_tenant_refl [simp]: "same_tenant q s s"
  by (simp add: same_tenant_def)

lemma same_tenant_trans: "same_tenant q s t \<Longrightarrow> same_tenant q t u \<Longrightarrow> same_tenant q s u"
  unfolding same_tenant_def by simp

interpretation tenant_step: transition_preorder "same_tenant q"
  by unfold_locales (simp, rule same_tenant_trans)

declare tenant_step.intros [follows_intros]

lemma tenant_selectRows [follows_intros]: "follows (same_tenant q) (selectRows D P)"
  by (rule follows_selectRows) simp

lemma tenant_withDb [follows_intros]:
  "follows (same_tenant q) m \<Longrightarrow> follows (same_tenant q) (withDb d m)"
  by (rule follows_withDb) simp_all

lemma tenant_withDbOrThrow [follows_intros]:
  "follows (same_tenant q) m \<Longrightarrow> follows (same_tenant q) (withDbOrThrow e m)"
  by (rule follows_withDbOrThrow) simp_all

lemma tenant_assertUpdated [follows_intros]: "follows (same_tenant q) (assertUpdated rows label)"
  and tenant_requireTenantId [follows_intros]: "follows (same_tenant q) (requireTenantId p)"
  by (simp_all add: follows_def run_simps)

section \<open>One table of the world\<close>

locale world_table = table_lens D for D :: "(world, 'z row_scheme) tbl" +
  assumes wf_put: "wf_ids s \<Longrightarrow> ids_distinct (trows t) \<Longrightarrow> wf_ids (tput D t s)"
    and wf_get: "wf_ids s \<Longrightarrow> ids_distinct (rows_of D s)"
begin

lemma wf_insert: "preserves wf_ids (insertRow D eid mk)"
proof -
  have "wf_ids (snd (insertRow D eid mk s))" if "wf_ids s" for s
  proof -
    have old: "distinct (map row_id (trows (tget D s)))"
      using wf_get [OF that] by (simp add: rows_of_def ids_distinct_def)
    have new: "distinct (map row_id (trows (tget D s)) @ [i])"
      if "\<not> list_ex (\<lambda>x. row_id x = i \<or> c x) (trows (tget D s))" for i c
      using that old by (auto simp: list_ex_iff)
    show ?thesis
      using that old new by (simp add: insertRow_def Let_def ids_distinct_def wf_put split: option.splits)
  qed
  then show ?thesis by (simp add: preserves_def)
qed

lemma wf_insertRows: "preserves wf_ids (insertRows D mks)"
proof -
  have all: "preserves wf_ids (insertAll D mks)"
    by (induction mks) (auto intro!: preserves_intros wf_insert)
  have "wf_ids (snd (insertRows D mks s))" if "wf_ids s" for s
    using preservesD [OF all that] wf_get [OF that] that
    by (auto simp: insertRows_def rows_of_def intro!: wf_put split: prod.splits sum.splits)
  then show ?thesis by (simp add: preserves_def)
qed

lemma wf_update: "(\<And>r. row_id (f r) = row_id r) \<Longrightarrow> preserves wf_ids (updateRows D P f)"
proof -
  assume f: "\<And>r. row_id (f r) = row_id r"
  have "wf_ids (snd (updateRows D P f s))" if "wf_ids s" for s
  proof -
    have "map row_id (map (\<lambda>r. if P r then f r else r) rs) = map row_id rs" for rs
      using f by simp
    then have "ids_distinct (map (\<lambda>r. if P r then f r else r) (rows_of D s))"
      using wf_get [OF that] by (simp add: ids_distinct_def del: map_map)
    with that show ?thesis
      by (auto simp: updateRows_def Let_def rows_of_def intro!: wf_put)
  qed
  then show ?thesis by (simp add: preserves_def)
qed

lemma wf_delete: "preserves wf_ids (deleteRows D P)"
proof -
  have "wf_ids (snd (deleteRows D P s))" if "wf_ids s" for s
    using wf_get [OF that] that
    by (auto simp: deleteRows_def Let_def rows_of_def ids_distinct_def
        intro!: wf_put distinct_map_filter)
  then show ?thesis by (simp add: preserves_def)
qed

lemma wf_upsert:
  "(\<And>r. row_id (f r) = row_id r) \<Longrightarrow> preserves wf_ids (upsertRow D c mk f)"
  unfolding upsertRow_def by (intro preserves_intros wf_insert wf_update)

lemma wf_insertIfAbsent: "preserves wf_ids (insertIfAbsent D c mk)"
  unfolding insertIfAbsent_def by (intro preserves_intros wf_insert)

lemma id_unique:
  "wf_ids s \<Longrightarrow> x \<in> set (rows_of D s) \<Longrightarrow> y \<in> set (rows_of D s) \<Longrightarrow> row_id x = row_id y \<Longrightarrow> x = y"
  using wf_get by (auto simp: ids_distinct_def distinct_map inj_on_def)

lemmas wf_statements = wf_insert wf_insertRows wf_update wf_delete wf_upsert wf_insertIfAbsent

end

section \<open>Tables whose rows belong to a campaign\<close>

locale tenant_table = world_table D for D :: "(world, 'z trow_scheme) tbl" +
  assumes isolated: "tenant_rows D q (tput D t s) = tenant_rows D q s \<Longrightarrow> same_tenant q s (tput D t s)"
begin

lemma tenant_put:
  "filter (\<lambda>r. profileId r = Some q) (trows t) = tenant_rows D q s \<Longrightarrow> same_tenant q s (tput D t s)"
  by (rule isolated) (simp add: tenant_rows_def rows_put)

lemma insert_same:
  assumes "\<And>i. profileId (mk i) \<noteq> Some q"
  shows "follows (same_tenant q) (insertRow D eid mk)"
proof -
  have "same_tenant q s (snd (insertRow D eid mk s))" for s
    using assms
    by (auto simp: insertRow_def Let_def tenant_rows_def rows_of_def split: option.splits
        intro!: tenant_put)
  then show ?thesis by (simp add: follows_def)
qed

lemma insertRows_same:
  assumes "\<And>mk i. mk \<in> set mks \<Longrightarrow> profileId (mk i) \<noteq> Some q"
  shows "follows (same_tenant q) (insertRows D mks)"
proof -
  have all: "follows (same_tenant q) (insertAll D mks)"
    using assms by (induction mks) (auto intro!: tenant_step.intros insert_same)
  have "same_tenant q s (snd (insertRows D mks s))" for s
    using followsD [OF all, of s]
    by (auto simp: insertRows_def tenant_rows_def rows_of_def intro!: tenant_put
        split: prod.splits sum.splits)
  then show ?thesis by (simp add: follows_def)
qed

lemma update_same_at:
  assumes "\<And>r. r \<in> set (rows_of D s) \<Longrightarrow> P r \<Longrightarrow> profileId r \<noteq> Some q"
    and "\<And>r. profileId (f r) = profileId r"
  shows "same_tenant q s (snd (updateRows D P f s))"
proof -
  have "filter (\<lambda>r. profileId r = Some q) (map (\<lambda>r. if P r then f r else r) rs) =
        filter (\<lambda>r. profileId r = Some q) rs" if "set rs \<subseteq> set (rows_of D s)" for rs
    using that assms by (induction rs) auto
  then show ?thesis
    by (auto simp: updateRows_def Let_def tenant_rows_def rows_of_def intro!: tenant_put)
qed

lemma update_same:
  assumes "\<And>r. P r \<Longrightarrow> profileId r \<noteq> Some q" and "\<And>r. profileId (f r) = profileId r"
  shows "follows (same_tenant q) (updateRows D P f)"
  using assms by (auto simp: follows_def intro: update_same_at)

lemma delete_same_at:
  assumes "\<And>r. r \<in> set (rows_of D s) \<Longrightarrow> P r \<Longrightarrow> profileId r \<noteq> Some q"
  shows "same_tenant q s (snd (deleteRows D P s))"
proof -
  have "filter (\<lambda>r. profileId r = Some q) (filter (\<lambda>r. \<not> P r) rs) =
        filter (\<lambda>r. profileId r = Some q) rs" if "set rs \<subseteq> set (rows_of D s)" for rs
    using that assms by (induction rs) auto
  then show ?thesis
    by (auto simp: deleteRows_def Let_def tenant_rows_def rows_of_def intro!: tenant_put)
qed

lemma delete_same:
  "(\<And>r. P r \<Longrightarrow> profileId r \<noteq> Some q) \<Longrightarrow> follows (same_tenant q) (deleteRows D P)"
  by (auto simp: follows_def intro: delete_same_at)

lemma upsert_same:
  assumes "\<And>i. profileId (mk i) \<noteq> Some q" and "\<And>r. c r \<Longrightarrow> profileId r \<noteq> Some q"
    and "\<And>r. profileId (f r) = profileId r"
  shows "follows (same_tenant q) (upsertRow D c mk f)"
  unfolding upsertRow_def using assms
  by (intro tenant_step.intros tenant_selectRows insert_same update_same) auto

lemma tenantUpsert_same:
  assumes "\<And>i. profileId (mk i) = pid" and "\<And>r. profileId (upd r) = profileId r"
    and "pid \<noteq> Some q"
  shows "follows (same_tenant q) (tenantUpsert D label eid pid upd mk)"
proof -
  have guarded: "follows (same_tenant q)
      (updateRows D (\<lambda>r. Some (row_id r) = eid \<and> profileId r = Some p) upd)" if "p \<noteq> q" for p
    using that assms(2) by (intro update_same) auto
  show ?thesis
  proof (cases pid)
    case None
    have eq: "bindE (requireTenantId None) g = throwE (TRPC BAD_REQUEST ''profileId is required'')"
      for g :: "int \<Rightarrow> (world, 'w) proc"
      by (rule ext) (simp add: run_simps)
    show ?thesis
      unfolding tenantUpsert_def None eq using assms None
      by (intro tenant_step.intros insert_same) auto
  next
    case (Some p)
    with assms(3) have "p \<noteq> q" by simp
    have eq: "bindE (requireTenantId (Some p)) g = g p" for g :: "int \<Rightarrow> (world, 'w) proc"
      by (rule ext) (simp add: run_simps)
    show ?thesis
      unfolding tenantUpsert_def Some eq using assms Some
      by (intro tenant_step.intros tenant_assertUpdated insert_same guarded [OF \<open>p \<noteq> q\<close>]) auto
  qed
qed

lemma tenantUpsert_wf:
  assumes "\<And>r. row_id (upd r) = row_id r"
  shows "preserves wf_ids (tenantUpsert D label eid pid upd mk)"
  unfolding tenantUpsert_def using assms by (intro preserves_intros wf_insert wf_update)

lemmas tenant_statements =
  insert_same insertRows_same update_same delete_same upsert_same tenantUpsert_same

text \<open>A row that a tenant lookup by id found is the only one with its id.\<close>

lemma lookup_owner:
  assumes "wf_ids s" and "r \<in> set (rows_of D s)" and "profileId r = Some p" and "p \<noteq> q"
    and "x \<in> set (rows_of D s)" and "row_id x = row_id r"
  shows "profileId x \<noteq> Some q"
  using id_unique [OF assms(1,5,2,6)] assms(3,4) by simp

end

section \<open>Tables no campaign owns\<close>

locale shared_table = world_table D for D :: "(world, 'z row_scheme) tbl" +
  assumes untouched: "same_tenant q s (tput D t s)"
begin

lemma insert_shared: "follows (same_tenant q) (insertRow D eid mk)"
  by (simp add: follows_def insertRow_def Let_def untouched)

lemma insertRows_shared: "follows (same_tenant q) (insertRows D mks)"
proof -
  have all: "follows (same_tenant q) (insertAll D mks)"
    by (induction mks) (auto intro!: tenant_step.intros insert_shared)
  have "same_tenant q s (snd (insertRows D mks s))" for s
    using followsD [OF all, of s] by (auto simp: insertRows_def untouched split: prod.splits sum.splits)
  then show ?thesis by (simp add: follows_def)
qed

lemma update_shared: "follows (same_tenant q) (updateRows D P f)"
  by (simp add: follows_def updateRows_def Let_def untouched)

lemma delete_shared: "follows (same_tenant q) (deleteRows D P)"
  by (simp add: follows_def deleteRows_def Let_def untouched)

lemma upsert_shared: "follows (same_tenant q) (upsertRow D c mk f)"
  unfolding upsertRow_def
  by (intro tenant_step.intros tenant_selectRows insert_shared update_shared)

lemma insertIfAbsent_shared: "follows (same_tenant q) (insertIfAbsent D c mk)"
  unfolding insertIfAbsent_def by (intro tenant_step.intros tenant_selectRows insert_shared)

lemmas shared_statements =
  insert_shared insertRows_shared update_shared delete_shared upsert_shared insertIfAbsent_shared

end

section \<open>The tables of the schema\<close>

interpretation timelineEventsT: tenant_table timelineEventsD
  by unfold_locales
    (simp_all add: wf_ids_def same_tenant_def tenant_rows_def profile_rows_def)

interpretation voterRegistrationsT: tenant_table voterRegistrationsD
  by unfold_locales
    (simp_all add: wf_ids_def same_tenant_def tenant_rows_def profile_rows_def)

interpretation campaignPuAssignmentsT: tenant_table campaignPuAssignmentsD
  by unfold_locales
    (simp_all add: wf_ids_def same_tenant_def tenant_rows_def profile_rows_def)

interpretation volunteersT: tenant_table volunteersD
  by unfold_locales
    (simp_all add: wf_ids_def same_tenant_def tenant_rows_def profile_rows_def)

interpretation pressReleasesT: tenant_table pressReleasesD
  by unfold_locales
    (simp_all add: wf_ids_def same_tenant_def tenant_rows_def profile_rows_def)

interpretation socialMediaPostsT: tenant_table socialMediaPostsD
  by unfold_locales
    (simp_all add: wf_ids_def same_tenant_def tenant_rows_def profile_rows_def)

interpretation complianceItemsT: tenant_table complianceItemsD
  by unfold_locales
    (simp_all add: wf_ids_def same_tenant_def tenant_rows_def profile_rows_def)

interpretation oppositionResearchT: tenant_table oppositionResearchD
  by unfold_locales
    (simp_all add: wf_ids_def same_tenant_def tenant_rows_def profile_rows_def)

interpretation warRoomIncidentsT: tenant_table warRoomIncidentsD
  by unfold_locales
    (simp_all add: wf_ids_def same_tenant_def tenant_rows_def profile_rows_def)

interpretation fieldAgentsT: tenant_table fieldAgentsD
  by unfold_locales
    (simp_all add: wf_ids_def same_tenant_def tenant_rows_def profile_rows_def)

interpretation electionResultsT: tenant_table electionResultsD
  by unfold_locales
    (simp_all add: wf_ids_def same_tenant_def tenant_rows_def profile_rows_def)

interpretation manifestoSectionsT: tenant_table manifestoSectionsD
  by unfold_locales
    (simp_all add: wf_ids_def same_tenant_def tenant_rows_def profile_rows_def)

interpretation petitionsT: tenant_table petitionsD
  by unfold_locales
    (simp_all add: wf_ids_def same_tenant_def tenant_rows_def profile_rows_def)

interpretation diasporaContactsT: tenant_table diasporaContactsD
  by unfold_locales
    (simp_all add: wf_ids_def same_tenant_def tenant_rows_def profile_rows_def)

interpretation endorsementsT: tenant_table endorsementsD
  by unfold_locales
    (simp_all add: wf_ids_def same_tenant_def tenant_rows_def profile_rows_def)

interpretation fundraisingTransactionsT: tenant_table fundraisingTransactionsD
  by unfold_locales
    (simp_all add: wf_ids_def same_tenant_def tenant_rows_def profile_rows_def)

interpretation budgetItemsT: tenant_table budgetItemsD
  by unfold_locales
    (simp_all add: wf_ids_def same_tenant_def tenant_rows_def profile_rows_def)

interpretation budgetSpendLedgerT: tenant_table budgetSpendLedgerD
  by unfold_locales
    (simp_all add: wf_ids_def same_tenant_def tenant_rows_def profile_rows_def)

interpretation mediaItemsT: tenant_table mediaItemsD
  by unfold_locales
    (simp_all add: wf_ids_def same_tenant_def tenant_rows_def profile_rows_def)

interpretation debatePrepNotesT: tenant_table debatePrepNotesD
  by unfold_locales
    (simp_all add: wf_ids_def same_tenant_def tenant_rows_def profile_rows_def)

interpretation simulationRunsT: tenant_table simulationRunsD
  by unfold_locales
    (simp_all add: wf_ids_def same_tenant_def tenant_rows_def profile_rows_def)

interpretation campaignMembersT: tenant_table campaignMembersD
  by unfold_locales
    (simp_all add: wf_ids_def same_tenant_def tenant_rows_def profile_rows_def)

interpretation volunteerTasksT: tenant_table volunteerTasksD
  by unfold_locales
    (simp_all add: wf_ids_def same_tenant_def tenant_rows_def profile_rows_def)

interpretation debatePracticeScoresT: tenant_table debatePracticeScoresD
  by unfold_locales
    (simp_all add: wf_ids_def same_tenant_def tenant_rows_def profile_rows_def)

interpretation stakeholderContactsT: tenant_table stakeholderContactsD
  by unfold_locales
    (simp_all add: wf_ids_def same_tenant_def tenant_rows_def profile_rows_def)

interpretation consentRecordsT: tenant_table consentRecordsD
  by unfold_locales
    (simp_all add: wf_ids_def same_tenant_def tenant_rows_def profile_rows_def)

interpretation dataProvenanceLedgerT: tenant_table dataProvenanceLedgerD
  by unfold_locales
    (simp_all add: wf_ids_def same_tenant_def tenant_rows_def profile_rows_def)

interpretation dataAccessAuditT: tenant_table dataAccessAuditD
  by unfold_locales
    (simp_all add: wf_ids_def same_tenant_def tenant_rows_def profile_rows_def)

interpretation dataSubjectRequestsT: tenant_table dataSubjectRequestsD
  by unfold_locales
    (simp_all add: wf_ids_def same_tenant_def tenant_rows_def profile_rows_def)

interpretation surveyPanelistsT: tenant_table surveyPanelistsD
  by unfold_locales
    (simp_all add: wf_ids_def same_tenant_def tenant_rows_def profile_rows_def)

interpretation messageTestsT: tenant_table messageTestsD
  by unfold_locales
    (simp_all add: wf_ids_def same_tenant_def tenant_rows_def profile_rows_def)

interpretation electionPetitionsT: tenant_table electionPetitionsD
  by unfold_locales
    (simp_all add: wf_ids_def same_tenant_def tenant_rows_def profile_rows_def)

interpretation usersT: shared_table usersD
  by unfold_locales
    (simp_all add: wf_ids_def same_tenant_def tenant_rows_def profile_rows_def)

interpretation pollingUnitsT: shared_table pollingUnitsD
  by unfold_locales
    (simp_all add: wf_ids_def same_tenant_def tenant_rows_def profile_rows_def)

interpretation warRoomIncidentAuditT: shared_table warRoomIncidentAuditD
  by unfold_locales
    (simp_all add: wf_ids_def same_tenant_def tenant_rows_def profile_rows_def)

interpretation petitionSignaturesT: shared_table petitionSignaturesD
  by unfold_locales
    (simp_all add: wf_ids_def same_tenant_def tenant_rows_def profile_rows_def)

interpretation surveyResponsesT: shared_table surveyResponsesD
  by unfold_locales
    (simp_all add: wf_ids_def same_tenant_def tenant_rows_def profile_rows_def)

interpretation messageVariantsT: shared_table messageVariantsD
  by unfold_locales
    (simp_all add: wf_ids_def same_tenant_def tenant_rows_def profile_rows_def)

interpretation messageEventsT: shared_table messageEventsD
  by unfold_locales
    (simp_all add: wf_ids_def same_tenant_def tenant_rows_def profile_rows_def)

interpretation candidateProfilesT: world_table candidateProfilesD
  by unfold_locales (simp_all add: wf_ids_def)

lemmas wf_table_statements [preserves_intros] =
  usersT.wf_statements
  candidateProfilesT.wf_statements
  timelineEventsT.wf_statements
  voterRegistrationsT.wf_statements
  pollingUnitsT.wf_statements
  campaignPuAssignmentsT.wf_statements
  volunteersT.wf_statements
  pressReleasesT.wf_statements
  socialMediaPostsT.wf_statements
  complianceItemsT.wf_statements
  oppositionResearchT.wf_statements
  warRoomIncidentsT.wf_statements
  warRoomIncidentAuditT.wf_statements
  fieldAgentsT.wf_statements
  electionResultsT.wf_statements
  manifestoSectionsT.wf_statements
  petitionsT.wf_statements
  petitionSignaturesT.wf_statements
  diasporaContactsT.wf_statements
  endorsementsT.wf_statements
  fundraisingTransactionsT.wf_statements
  budgetItemsT.wf_statements
  budgetSpendLedgerT.wf_statements
  mediaItemsT.wf_statements
  debatePrepNotesT.wf_statements
  simulationRunsT.wf_statements
  campaignMembersT.wf_statements
  volunteerTasksT.wf_statements
  debatePracticeScoresT.wf_statements
  stakeholderContactsT.wf_statements
  consentRecordsT.wf_statements
  dataProvenanceLedgerT.wf_statements
  dataAccessAuditT.wf_statements
  dataSubjectRequestsT.wf_statements
  surveyPanelistsT.wf_statements
  surveyResponsesT.wf_statements
  messageTestsT.wf_statements
  messageVariantsT.wf_statements
  messageEventsT.wf_statements
  electionPetitionsT.wf_statements
  timelineEventsT.tenantUpsert_wf
  voterRegistrationsT.tenantUpsert_wf
  campaignPuAssignmentsT.tenantUpsert_wf
  volunteersT.tenantUpsert_wf
  pressReleasesT.tenantUpsert_wf
  socialMediaPostsT.tenantUpsert_wf
  complianceItemsT.tenantUpsert_wf
  oppositionResearchT.tenantUpsert_wf
  warRoomIncidentsT.tenantUpsert_wf
  fieldAgentsT.tenantUpsert_wf
  electionResultsT.tenantUpsert_wf
  manifestoSectionsT.tenantUpsert_wf
  petitionsT.tenantUpsert_wf
  diasporaContactsT.tenantUpsert_wf
  endorsementsT.tenantUpsert_wf
  fundraisingTransactionsT.tenantUpsert_wf
  budgetItemsT.tenantUpsert_wf
  budgetSpendLedgerT.tenantUpsert_wf
  mediaItemsT.tenantUpsert_wf
  debatePrepNotesT.tenantUpsert_wf
  simulationRunsT.tenantUpsert_wf
  campaignMembersT.tenantUpsert_wf
  volunteerTasksT.tenantUpsert_wf
  debatePracticeScoresT.tenantUpsert_wf
  stakeholderContactsT.tenantUpsert_wf
  consentRecordsT.tenantUpsert_wf
  dataProvenanceLedgerT.tenantUpsert_wf
  dataAccessAuditT.tenantUpsert_wf
  dataSubjectRequestsT.tenantUpsert_wf
  surveyPanelistsT.tenantUpsert_wf
  messageTestsT.tenantUpsert_wf
  electionPetitionsT.tenantUpsert_wf

lemmas shared_table_statements [follows_intros] =
  usersT.shared_statements
  pollingUnitsT.shared_statements
  warRoomIncidentAuditT.shared_statements
  petitionSignaturesT.shared_statements
  surveyResponsesT.shared_statements
  messageVariantsT.shared_statements
  messageEventsT.shared_statements

lemmas tenant_table_statements [follows_intros] =
  timelineEventsT.tenant_statements
  voterRegistrationsT.tenant_statements
  campaignPuAssignmentsT.tenant_statements
  volunteersT.tenant_statements
  pressReleasesT.tenant_statements
  socialMediaPostsT.tenant_statements
  complianceItemsT.tenant_statements
  oppositionResearchT.tenant_statements
  warRoomIncidentsT.tenant_statements
  fieldAgentsT.tenant_statements
  electionResultsT.tenant_statements
  manifestoSectionsT.tenant_statements
  petitionsT.tenant_statements
  diasporaContactsT.tenant_statements
  endorsementsT.tenant_statements
  fundraisingTransactionsT.tenant_statements
  budgetItemsT.tenant_statements
  budgetSpendLedgerT.tenant_statements
  mediaItemsT.tenant_statements
  debatePrepNotesT.tenant_statements
  simulationRunsT.tenant_statements
  campaignMembersT.tenant_statements
  volunteerTasksT.tenant_statements
  debatePracticeScoresT.tenant_statements
  stakeholderContactsT.tenant_statements
  consentRecordsT.tenant_statements
  dataProvenanceLedgerT.tenant_statements
  dataAccessAuditT.tenant_statements
  dataSubjectRequestsT.tenant_statements
  surveyPanelistsT.tenant_statements
  messageTestsT.tenant_statements
  electionPetitionsT.tenant_statements

end
