(* ===== verification/Rate_Limit.thy ===== *)
theory Rate_Limit
  imports Tenancy
begin

text \<open>
  The fixed-window rate limiter of \<^verbatim>\<open>server/_core/rateLimit.ts\<close>: the Postgres counter used in
  production, the in-memory counter used elsewhere, and the policy that denies a hit when
  the counter is not available. The locale \<open>window_counter\<close> states what a counter
  promises (a hit reports how often its key was hit in the running window); both
  stores interpret it, and the bound on the admitted hits is proved once inside it.
\<close>

section \<open>Windows\<close>

definition windowStartMs :: "int \<Rightarrow> time \<Rightarrow> time" where
  "windowStartMs windowSeconds nowMs = (let w = windowSeconds * 1000 in nowMs div w * w)"

definition retryAfter :: "int \<Rightarrow> time \<Rightarrow> int" where
  "retryAfter windowSeconds nowMs =
     - ((- (windowStartMs windowSeconds nowMs + windowSeconds * 1000 - nowMs)) div 1000)"

record rateLimitResult =
  allowed :: bool
  hitCount :: int
  hitLimit :: int
  retryAfterSeconds :: int

section \<open>The in-memory store\<close>

definition memory_entry :: "string \<Rightarrow> (string \<times> int \<times> int) list \<Rightarrow> (int \<times> int) option" where
  "memory_entry key m = map_of m key"

text \<open>\<open>Map.set\<close>: an existing key keeps its place, a new one goes last.\<close>

definition memory_set :: "string \<Rightarrow> int \<times> int \<Rightarrow> (string \<times> int \<times> int) list \<Rightarrow> (string \<times> int \<times> int) list"
where
  "memory_set key v m =
     (if map_of m key = None then m @ [(key, v)]
      else map (\<lambda>e. if fst e = key then (key, v) else e) m)"

definition hitInMemory :: "string \<Rightarrow> int \<Rightarrow> int \<Rightarrow> (world, rateLimitResult) proc" where
  "hitInMemory key windowSeconds maxHits s =
     (let now = clock s;
          start = windowStartMs windowSeconds now;
          n = (case memory_entry key (memoryWindows s) of
                 None \<Rightarrow> 1
               | Some (st, c) \<Rightarrow> if st \<noteq> start then 1 else c + 1);
          m = memory_set key (start, n) (memoryWindows s);
          m' = (if length m > 10000
                then filter (\<lambda>(k, st, c). \<not> (st \<noteq> start \<and> now - st > windowSeconds * 1000)) m
                else m)
      in (Inr \<lparr>allowed = n \<le> maxHits, hitCount = n, hitLimit = maxHits,
               retryAfterSeconds = retryAfter windowSeconds now\<rparr>,
          s\<lparr>memoryWindows := m'\<rparr>))"

section \<open>The Postgres store\<close>

definition same_window :: "string \<Rightarrow> time \<Rightarrow> rateLimit \<Rightarrow> bool" where
  "same_window key start r \<longleftrightarrow> rl_key r = key \<and> rl_windowStart r = start"

text \<open>\<open>INSERT ... ON CONFLICT (key, window_start) DO UPDATE SET count = count + 1\<close>.\<close>

definition count_hit :: "string \<Rightarrow> time \<Rightarrow> rateLimit list \<Rightarrow> rateLimit list" where
  "count_hit key start rs =
     (if list_ex (same_window key start) rs
      then map (\<lambda>r. if same_window key start r then r\<lparr>rl_count := rl_count r + 1\<rparr> else r) rs
      else rs @ [\<lparr>rl_key = key, rl_windowStart = start, rl_count = 1\<rparr>])"

definition window_count :: "string \<Rightarrow> time \<Rightarrow> rateLimit list \<Rightarrow> int" where
  "window_count key start rs =
     (case filter (same_window key start) rs of [] \<Rightarrow> 0 | r # _ \<Rightarrow> rl_count r)"

definition two_days_ms :: int where "two_days_ms = 2 * day_ms"

definition prune_windows :: "time \<Rightarrow> rateLimit list \<Rightarrow> rateLimit list" where
  "prune_windows now rs = filter (\<lambda>r. \<not> rl_windowStart r < now - two_days_ms) rs"

text \<open>\<open>Math.random() < 0.01\<close> takes the next outcome.\<close>

definition hitPostgres :: "string \<Rightarrow> int \<Rightarrow> int \<Rightarrow> (world, rateLimitResult) proc" where
  "hitPostgres key windowSeconds maxHits s =
     (let now = clock s;
          start = windowStartMs windowSeconds now;
          rs = count_hit key start (rateLimitsT s);
          n = window_count key start rs;
          rs' = (if coins s \<noteq> [] \<and> hd (coins s) then prune_windows now rs else rs)
      in (Inr \<lparr>allowed = n \<le> maxHits, hitCount = n, hitLimit = maxHits,
               retryAfterSeconds = retryAfter windowSeconds now\<rparr>,
          s\<lparr>rateLimitsT := rs', coins := tl (coins s)\<rparr>))"

definition denyHit :: "int \<Rightarrow> int \<Rightarrow> (world, rateLimitResult) proc" where
  "denyHit windowSeconds maxHits =
     returnE \<lparr>allowed = False, hitCount = maxHits + 1, hitLimit = maxHits, retryAfterSeconds = windowSeconds\<rparr>"

definition hitRateLimit :: "string \<Rightarrow> int \<Rightarrow> int \<Rightarrow> (world, rateLimitResult) proc" where
  "hitRateLimit key windowSeconds maxHits s =
     (if \<not> production s \<and> \<not> conn s then hitInMemory key windowSeconds maxHits s
      else if \<not> conn s then denyHit windowSeconds maxHits s
      else if \<not> production s then hitInMemory key windowSeconds maxHits s
      else if limiterUp s then hitPostgres key windowSeconds maxHits s
      else denyHit windowSeconds maxHits s)"

definition resetRateLimit :: "string \<Rightarrow> (world, unit) proc" where
  "resetRateLimit key s =
     (if \<not> production s \<or> \<not> conn s
      then (Inr (), s\<lparr>memoryWindows := filter (\<lambda>e. fst e \<noteq> key) (memoryWindows s)\<rparr>)
      else if limiterUp s
      then (Inr (), s\<lparr>rateLimitsT := filter (\<lambda>r. rl_key r \<noteq> key) (rateLimitsT s)\<rparr>)
      else (Inr (), s))"

section \<open>What a counter promises\<close>

text \<open>A sequence of hits, each a key and a time, with the reported numbers, and how many of
  the hits on key \<open>k\<close> in window \<open>w\<close> stay within the limit.\<close>

fun run_hits :: "(string \<Rightarrow> time \<Rightarrow> 's \<Rightarrow> int \<times> 's) \<Rightarrow> (string \<times> time) list \<Rightarrow> 's \<Rightarrow> int list" where
  "run_hits hit [] s = []"
| "run_hits hit ((k, t) # es) s = (let (n, s') = hit k t s in n # run_hits hit es s')"

definition admitted ::
  "(string \<Rightarrow> time \<Rightarrow> 's \<Rightarrow> int \<times> 's) \<Rightarrow> (time \<Rightarrow> int) \<Rightarrow> string \<Rightarrow> int \<Rightarrow> int \<Rightarrow>
   (string \<times> time) list \<Rightarrow> 's \<Rightarrow> nat"
where
  "admitted hit win k w maxHits es s =
     length (filter (\<lambda>((k', t), n). k' = k \<and> win t = w \<and> n \<le> maxHits) (zip es (run_hits hit es s)))"

text \<open>
  A counter over states \<open>'s\<close>: \<open>hits s k t\<close> is the number it reports for key \<open>k\<close> in the
  window of time \<open>t\<close>, \<open>fits t s\<close> that \<open>s\<close> can have arisen by time \<open>t\<close>. A hit at \<open>t\<close> reports
  the next number and leaves the counts of the running and of later windows of the
  other keys alone; time only moves forward.
\<close>

locale window_counter =
  fixes hit :: "string \<Rightarrow> time \<Rightarrow> 's \<Rightarrow> int \<times> 's"
    and hits :: "'s \<Rightarrow> string \<Rightarrow> time \<Rightarrow> int"
    and win :: "time \<Rightarrow> int"
    and fits :: "time \<Rightarrow> 's \<Rightarrow> bool"
  assumes win_mono: "t \<le> u \<Longrightarrow> win t \<le> win u"
    and hits_win: "win t = win u \<Longrightarrow> hits s k t = hits s k u"
    and fits_later: "fits t s \<Longrightarrow> t \<le> u \<Longrightarrow> fits u s"
    and fits_hit: "fits t s \<Longrightarrow> fits t (snd (hit k t s))"
    and hit_reports: "fits t s \<Longrightarrow> fst (hit k t s) = hits s k t + 1"
    and hit_counts: "fits t s \<Longrightarrow> t \<le> u \<Longrightarrow>
      hits (snd (hit k t s)) k' u = hits s k' u + (if k' = k \<and> win u = win t then 1 else 0)"
begin

text \<open>In every window a key is admitted exactly as often as it asks, up to what the limit leaves.\<close>

lemma admitted_eq:
  assumes "sorted (map snd es)" and "\<And>e. e \<in> set es \<Longrightarrow> t0 \<le> snd e"
    and "fits t0 s" and "t0 \<le> u" and "win u = w"
    and "0 \<le> hits s k u"
  shows "int (admitted hit win k w maxHits es s) =
    max 0 (min (int (length (filter (\<lambda>(k', t). k' = k \<and> win t = w) es))) (maxHits - hits s k u))"
  using assms
proof (induction es arbitrary: s t0 u)
  case Nil
  then show ?case by (simp add: admitted_def)
next
  case (Cons e es)
  obtain k' t where e: "e = (k', t)" by (cases e)
  have t: "t0 \<le> t" using Cons.prems(2) e by fastforce
  have later: "\<And>e. e \<in> set es \<Longrightarrow> t \<le> snd e" using Cons.prems(1) e by auto
  have fit: "fits t s" using fits_later [OF Cons.prems(3) t] .
  obtain n s' where h: "hit k' t s = (n, s')" by (cases "hit k' t s")
  have n: "n = hits s k' t + 1" using hit_reports [OF fit, of k'] h by simp
  have fit': "fits t s'" using fits_hit [OF fit, of k'] h by simp
  have sorted: "sorted (map snd es)" using Cons.prems(1) by simp
  have adm: "admitted hit win k w maxHits (e # es) s =
      admitted hit win k w maxHits es s' + (if k' = k \<and> win t = w \<and> n \<le> maxHits then 1 else 0)"
    using e h by (simp add: admitted_def)
  show ?case
  proof (cases "t \<le> u")
    case True
    have c: "hits s' k u = hits s k u + (if k = k' \<and> win u = win t then 1 else 0)"
      using hit_counts [OF fit True, of k' k] h by simp
    have ih: "int (admitted hit win k w maxHits es s') =
        max 0 (min (int (length (filter (\<lambda>(k', t). k' = k \<and> win t = w) es))) (maxHits - hits s' k u))"
      using Cons.IH [OF sorted later fit' True Cons.prems(5)] c Cons.prems(6) by simp
    show ?thesis
    proof (cases "k' = k \<and> win t = w")
      case True
      then have "hits s k' t = hits s k u" using hits_win [of t u s k] Cons.prems(5) by simp
      then show ?thesis using adm ih c e n True Cons.prems(5) Cons.prems(6) by (simp split: if_splits)
    next
      case False
      then show ?thesis using adm ih c e Cons.prems(5) by auto
    qed
  next
    case False
    then have "u \<le> t" by simp
    then have wt: "w \<le> win t" using win_mono Cons.prems(5) by blast
    show ?thesis
    proof (cases "win t = w")
      case True
      have c: "hits s' k t = hits s k t + (if k = k' then 1 else 0)"
        using hit_counts [OF fit order_refl, of k' k] h by simp
      have eq: "hits s k t = hits s k u" using hits_win True Cons.prems(5) by simp
      have "int (admitted hit win k w maxHits es s') =
          max 0 (min (int (length (filter (\<lambda>(k', t). k' = k \<and> win t = w) es))) (maxHits - hits s' k t))"
        using Cons.IH [OF sorted later fit' order_refl True] c eq Cons.prems(6) by simp
      then show ?thesis using adm c e eq n True Cons.prems(6) by (auto split: if_splits)
    next
      case False
      then have gt: "w < win t" using wt by simp
      have none: "win (snd e') \<noteq> w" if "e' \<in> set (e # es)" for e'
        using that later win_mono [of t "snd e'"] e gt by fastforce
      have "filter (\<lambda>(k', t). k' = k \<and> win t = w) (e # es) = []"
        using none by (fastforce simp: filter_empty_conv)
      moreover have "admitted hit win k w maxHits (e # es) s = 0"
        using none by (fastforce simp: admitted_def filter_empty_conv dest: set_zip_leftD)
      ultimately show ?thesis by (simp del: filter.simps)
    qed
  qed
qed

end

section \<open>The two stores\<close>

lemma windowStart_bounds:
  assumes "0 < ws"
  shows "windowStartMs ws t \<le> t" and "t < windowStartMs ws t + ws * 1000"
proof -
  have "0 \<le> t mod (ws * 1000)" and "t mod (ws * 1000) < ws * 1000" using assms by simp_all
  moreover have "windowStartMs ws t = t - t mod (ws * 1000)"
    by (simp add: windowStartMs_def Let_def minus_mod_eq_div_mult)
  ultimately show "windowStartMs ws t \<le> t" and "t < windowStartMs ws t + ws * 1000" by simp_all
qed

lemma windowStart_mono: "0 < ws \<Longrightarrow> t \<le> u \<Longrightarrow> windowStartMs ws t \<le> windowStartMs ws u"
  by (simp add: windowStartMs_def Let_def zdiv_mono1 mult_right_mono)

lemma filter_bump:
  "filter (same_window k st)
     (map (\<lambda>r. if same_window key start r then r\<lparr>rl_count := rl_count r + 1\<rparr> else r) rs) =
   (if k = key \<and> st = start
    then map (\<lambda>r. r\<lparr>rl_count := rl_count r + 1\<rparr>) (filter (same_window k st) rs)
    else filter (same_window k st) rs)"
  by (induction rs) (auto simp: same_window_def [abs_def])

lemma window_count_hit:
  "window_count k st (count_hit key start rs) =
     window_count k st rs + (if k = key \<and> st = start then 1 else 0)"
proof (cases "list_ex (same_window key start) rs")
  case True
  then have "filter (same_window key start) rs \<noteq> []"
    by (auto simp: list_ex_iff filter_empty_conv)
  with True show ?thesis
    unfolding window_count_def count_hit_def by (simp add: filter_bump split: list.splits)
next
  case False
  then have "filter (same_window key start) rs = []"
    by (auto simp: list_ex_iff filter_empty_conv)
  with False show ?thesis
    unfolding window_count_def count_hit_def
    by (cases "filter (same_window k st) rs") (auto simp: same_window_def)
qed

lemma window_count_prune:
  "now - two_days_ms \<le> st \<Longrightarrow> window_count k st (prune_windows now rs) = window_count k st rs"
proof -
  assume st: "now - two_days_ms \<le> st"
  have "filter (same_window k st) (prune_windows now rs) = filter (same_window k st) rs"
    unfolding prune_windows_def filter_filter using st
    by (intro filter_cong) (auto simp: same_window_def)
  then show ?thesis by (simp add: window_count_def)
qed

definition pg_hit :: "int \<Rightarrow> string \<Rightarrow> time \<Rightarrow> world \<Rightarrow> int \<times> world" where
  "pg_hit ws k t s =
     (case hitPostgres k ws 0 (s\<lparr>clock := t\<rparr>) of (Inr r, s') \<Rightarrow> (hitCount r, s') | (Inl _, s') \<Rightarrow> (0, s'))"

definition memory_hit :: "int \<Rightarrow> string \<Rightarrow> time \<Rightarrow> world \<Rightarrow> int \<times> world" where
  "memory_hit ws k t s =
     (case hitInMemory k ws 0 (s\<lparr>clock := t\<rparr>) of (Inr r, s') \<Rightarrow> (hitCount r, s') | (Inl _, s') \<Rightarrow> (0, s'))"

text \<open>The Postgres counter keeps its promise for windows of up to two days, which pruning
  cannot reach.\<close>

locale pg_window =
  fixes ws :: int
  assumes positive: "0 < ws" and at_most_two_days: "ws \<le> 172800"
begin

lemma running_window_kept: "t \<le> u \<Longrightarrow> t - two_days_ms \<le> windowStartMs ws u"
  using windowStart_bounds(2) [OF positive, of t] windowStart_mono [OF positive, of t u] at_most_two_days
  by (simp add: two_days_ms_def day_ms_def)

end

sublocale pg_window \<subseteq> window_counter "pg_hit ws" "\<lambda>s k t. window_count k (windowStartMs ws t) (rateLimitsT s)"
    "windowStartMs ws" "\<lambda>_ _. True"
  by unfold_locales
    (auto simp: windowStart_mono positive pg_hit_def hitPostgres_def Let_def window_count_hit
      window_count_prune running_window_kept)

context pg_window
begin

lemmas pg_admitted = admitted_eq [OF _ _ TrueI]

end

lemma map_of_replace:
  "map_of (map (\<lambda>e. if fst e = key then (key, v) else e) m) k =
     (if k = key \<and> map_of m key \<noteq> None then Some v else map_of m k)"
  by (induction m) auto

lemma map_of_memory_set:
  "map_of (memory_set key v m) k = (if k = key then Some v else map_of m k)"
  by (auto simp: memory_set_def map_of_replace map_add_def split: option.splits)

lemma distinct_memory_set: "distinct (map fst m) \<Longrightarrow> distinct (map fst (memory_set key v m))"
proof -
  have "map fst (map (\<lambda>e. if fst e = key then (key, v) else e) m) = map fst m"
    by simp
  then show "distinct (map fst m) \<Longrightarrow> ?thesis"
    by (auto simp: memory_set_def map_of_eq_None_iff simp del: map_map)
qed

lemma map_of_filter_distinct:
  "distinct (map fst m) \<Longrightarrow>
   map_of (filter P m) k = (case map_of m k of None \<Rightarrow> None | Some v \<Rightarrow> if P (k, v) then Some v else None)"
  by (induction m) (auto simp: image_iff map_of_eq_None_iff split: option.splits)

text \<open>The in-memory counter keeps one window per key. It keeps the promise when every key is
  hit with the same window length, which its clean-up compares against.\<close>

definition memory_fits :: "int \<Rightarrow> time \<Rightarrow> world \<Rightarrow> bool" where
  "memory_fits ws t s \<longleftrightarrow> distinct (map fst (memoryWindows s)) \<and>
     list_all (\<lambda>(k, st, c). st \<le> windowStartMs ws t) (memoryWindows s)"

definition memory_count :: "string \<Rightarrow> time \<Rightarrow> world \<Rightarrow> int" where
  "memory_count k st s =
     (case map_of (memoryWindows s) k of None \<Rightarrow> 0 | Some (w, c) \<Rightarrow> if w = st then c else 0)"

locale memory_window =
  fixes ws :: int
  assumes positive: "0 < ws"
begin

lemma kept_later:
  "memory_fits ws t s \<Longrightarrow> t \<le> u \<Longrightarrow> memory_fits ws u s"
  using windowStart_mono [OF positive, of t u] by (fastforce simp: memory_fits_def list_all_iff)

lemma reports: "fst (memory_hit ws k t s) = memory_count k (windowStartMs ws t) s + 1"
  by (auto simp: memory_hit_def hitInMemory_def memory_count_def memory_entry_def Let_def
      split: option.splits)

lemma fits_set:
  "memory_fits ws t s \<Longrightarrow> memory_fits ws t (s\<lparr>memoryWindows := memory_set k (windowStartMs ws t, n) (memoryWindows s)\<rparr>)"
  unfolding memory_fits_def
  by (auto simp: distinct_memory_set list_all_iff) (auto simp: memory_set_def split: if_splits)

lemma windows_after:
  "memoryWindows (snd (memory_hit ws k t s)) =
     (let start = windowStartMs ws t;
          m = memory_set k (start, memory_count k start s + 1) (memoryWindows s)
      in if length m > 10000
         then filter (\<lambda>(k, st, c). \<not> (st \<noteq> start \<and> t - st > ws * 1000)) m else m)"
  by (auto simp: memory_hit_def hitInMemory_def memory_count_def memory_entry_def Let_def
      split: option.splits)

lemma kept_hit: "memory_fits ws t s \<Longrightarrow> memory_fits ws t (snd (memory_hit ws k t s))"
  using fits_set [of t s k "memory_count k (windowStartMs ws t) s + 1"]
  by (auto simp: memory_fits_def windows_after Let_def list_all_iff intro: distinct_map_filter)

lemma counts:
  assumes "memory_fits ws t s" and "t \<le> u"
  shows "memory_count k' (windowStartMs ws u) (snd (memory_hit ws k t s)) =
    memory_count k' (windowStartMs ws u) s +
      (if k' = k \<and> windowStartMs ws u = windowStartMs ws t then 1 else 0)"
proof -
  define start where "start = windowStartMs ws t"
  define m where "m = memory_set k (start, memory_count k start s + 1) (memoryWindows s)"
  have d: "distinct (map fst m)"
    using assms(1) by (simp add: m_def distinct_memory_set memory_fits_def)
  have le: "st \<le> start" if "map_of (memoryWindows s) k'' = Some (st, c)" for k'' st c
    using assms(1) map_of_SomeD [OF that] by (auto simp: memory_fits_def list_all_iff start_def)
  have u: "start \<le> windowStartMs ws u"
    using windowStart_mono [OF positive assms(2)] by (simp add: start_def)
  have kept: "(case map_of (if length m > 10000
          then filter (\<lambda>(k, st, c). \<not> (st \<noteq> start \<and> t - st > ws * 1000)) m else m) k' of
        None \<Rightarrow> 0 | Some (w, c) \<Rightarrow> if w = windowStartMs ws u then c else 0) =
      (case map_of m k' of None \<Rightarrow> 0 | Some (w, c) \<Rightarrow> if w = windowStartMs ws u then c else (0 :: int))"
  proof (cases "map_of m k'")
    case None
    then show ?thesis by (simp add: map_of_filter_distinct [OF d])
  next
    case (Some e)
    then have "fst e \<le> start"
      using le [of k'] by (cases e) (auto simp: m_def map_of_memory_set split: if_splits)
    with Some u show ?thesis by (cases e) (auto simp: map_of_filter_distinct [OF d])
  qed
  show ?thesis
    using kept le [of k'] u
    by (auto simp: memory_count_def windows_after Let_def start_def [symmetric] m_def [symmetric])
      (auto simp: m_def map_of_memory_set memory_count_def split: option.splits)
qed

end

sublocale memory_window \<subseteq> window_counter "memory_hit ws"
    "\<lambda>s k t. memory_count k (windowStartMs ws t) s" "windowStartMs ws" "memory_fits ws"
  by unfold_locales
    (auto simp: windowStart_mono positive reports counts intro: kept_later kept_hit)

text \<open>The window lengths the server uses: an hour for AI calls and signatures per address, a
  day for signer deduplication, five minutes for logins.\<close>

interpretation hour_window: pg_window 3600 by unfold_locales simp_all

interpretation day_window: pg_window 86400 by unfold_locales simp_all

interpretation login_window: pg_window 300 by unfold_locales simp_all

interpretation hour_memory: memory_window 3600 by unfold_locales simp_all

section \<open>The limiter\<close>

text \<open>Requests arriving one after the other, each hitting the limiter with its key at its time.\<close>

fun serve_hits :: "int \<Rightarrow> int \<Rightarrow> (string \<times> time) list \<Rightarrow> world \<Rightarrow> bool list" where
  "serve_hits ws maxHits [] s = []"
| "serve_hits ws maxHits ((k, t) # es) s =
     (case hitRateLimit k ws maxHits (s\<lparr>clock := t\<rparr>) of
        (Inr r, s') \<Rightarrow> allowed r # serve_hits ws maxHits es s'
      | (Inl e, s') \<Rightarrow> False # serve_hits ws maxHits es s')"

definition admitted_hits :: "int \<Rightarrow> string \<Rightarrow> int \<Rightarrow> (string \<times> time) list \<Rightarrow> bool list \<Rightarrow> nat" where
  "admitted_hits ws k w es bs =
     length (filter (\<lambda>((k', t), b). k' = k \<and> windowStartMs ws t = w \<and> b) (zip es bs))"

lemma serve_hits_pg:
  assumes "production s" and "conn s" and "limiterUp s"
  shows "serve_hits ws maxHits es s = map (\<lambda>n. n \<le> maxHits) (run_hits (pg_hit ws) es s)"
  using assms
  by (induction es arbitrary: s)
    (auto simp: hitRateLimit_def hitPostgres_def pg_hit_def Let_def)

lemma admitted_hits_run:
  "admitted_hits ws k w es (map (\<lambda>n. n \<le> maxHits) ns) =
   length (filter (\<lambda>((k', t), n). k' = k \<and> windowStartMs ws t = w \<and> n \<le> maxHits) (zip es ns))"
proof (induction es arbitrary: ns)
  case Nil
  show ?case by (simp add: admitted_hits_def)
next
  case (Cons e es)
  then show ?case by (cases ns) (auto simp: admitted_hits_def)
qed

text \<open>C4: in production, whatever keys are hit in whatever order at whatever advancing times, a key
  without a counter in a window is admitted in that window exactly as often as it is
  hit there, up to the limit, for every window length of at most two days.\<close>

theorem limit_enforced:
  assumes "production s" and "conn s" and "limiterUp s"
    and "0 < ws" and "ws \<le> 172800" and "0 \<le> maxHits"
    and "sorted (map snd es)" and "window_count k w (rateLimitsT s) = 0"
  shows "int (admitted_hits ws k w es (serve_hits ws maxHits es s)) =
    min (int (length (filter (\<lambda>(k', t). k' = k \<and> windowStartMs ws t = w) es))) maxHits"
proof -
  have loc: "pg_window ws" using assms by unfold_locales
  show ?thesis
  proof (cases "\<exists>e \<in> set es. windowStartMs ws (snd e) = w")
    case True
    then obtain e where e: "e \<in> set es" "windowStartMs ws (snd e) = w" by blast
    define t0 where "t0 = Min (snd ` set es)"
    have t0: "t0 \<le> snd e'" if "e' \<in> set es" for e' using that by (simp add: t0_def)
    show ?thesis
      using pg_window.pg_admitted [OF loc assms(7) t0 t0 [OF e(1)] e(2), where s = s and k = k and maxHits = maxHits] assms e(2)
      by (simp add: serve_hits_pg admitted_hits_run admitted_def min_def)
  next
    case False
    then have "filter (\<lambda>(k', t). k' = k \<and> windowStartMs ws t = w) es = []"
      by (auto simp: filter_empty_conv)
    moreover have "admitted_hits ws k w es bs = 0" for bs
      using False by (fastforce simp: admitted_hits_def filter_empty_conv dest: set_zip_leftD)
    ultimately show ?thesis using assms(6) by simp
  qed
qed

theorem limit_enforced_witness:
  "int (admitted_hits 3600 ''a'' 0 [(''a'', 0), (''b'', 10), (''a'', 20), (''a'', 30), (''a'', 3600000)]
     (serve_hits 3600 2 [(''a'', 0), (''b'', 10), (''a'', 20), (''a'', 30), (''a'', 3600000)] empty_world)) = 2"
  using limit_enforced [of empty_world 3600 2
      "[(''a'', 0), (''b'', 10), (''a'', 20), (''a'', 30), (''a'', 3600000)]" "''a''" 0]
  by (simp add: empty_world_def windowStartMs_def window_count_def)

section \<open>Operations that spend from a key\<close>

text \<open>The limiter in production, with a database that answers.\<close>

definition limiter_ready :: "world \<Rightarrow> bool" where
  "limiter_ready s \<longleftrightarrow> production s \<and> conn s \<and> limiterUp s"

text \<open>What one hit does to the counter of a key and a window that is not older than two days.\<close>

lemma hit_window_counts:
  assumes "limiter_ready s" and "hitRateLimit key ws n s = (Inr r, s1)" and "clock s - two_days_ms \<le> st"
  shows "window_count k st (rateLimitsT s1) =
      window_count k st (rateLimitsT s) + (if k = key \<and> st = windowStartMs ws (clock s) then 1 else 0)"
    and "allowed r \<longleftrightarrow> window_count key (windowStartMs ws (clock s)) (rateLimitsT s) < n"
  using assms by (auto simp: limiter_ready_def hitRateLimit_def hitPostgres_def Let_def window_count_hit window_count_prune)

text \<open>Calls arriving one after the other at their times, and how many of them count in window \<open>w\<close>.\<close>

fun run_calls :: "('c \<Rightarrow> world \<Rightarrow> 'r \<times> world) \<Rightarrow> ('c \<times> time) list \<Rightarrow> world \<Rightarrow> 'r list" where
  "run_calls call [] s = []"
| "run_calls call ((c, t) # es) s = (case call c (s\<lparr>clock := t\<rparr>) of (r, s') \<Rightarrow> r # run_calls call es s')"

definition charged :: "('c \<Rightarrow> 'r \<Rightarrow> bool) \<Rightarrow> int \<Rightarrow> int \<Rightarrow> ('c \<times> time) list \<Rightarrow> 'r list \<Rightarrow> nat" where
  "charged charge ws w es rs =
     length (filter (\<lambda>((c, t), r). charge c r \<and> windowStartMs ws t = w) (zip es rs))"

lemma charged_Cons:
  "charged charge ws w ((c, t) # es) (r # rs) =
     (if charge c r \<and> windowStartMs ws t = w then 1 else 0) + charged charge ws w es rs"
  by (simp add: charged_def)

text \<open>
  An operation that is metered by a key: a call that counts (\<open>charge\<close>) took one of the hits the key
  has left in its window, and no call gives a hit back unless its result resets the key.
\<close>

locale metered =
  fixes call :: "'c \<Rightarrow> world \<Rightarrow> 'r \<times> world"
    and charge :: "'c \<Rightarrow> 'r \<Rightarrow> bool"
    and resets :: "'r \<Rightarrow> bool"
    and key :: string
    and ws :: int
    and limit :: int
  assumes window: "0 < ws" "ws \<le> 172800"
    and ready_call: "limiter_ready s \<Longrightarrow> call c s = (r, s') \<Longrightarrow> limiter_ready s'"
    and count_mono: "limiter_ready s \<Longrightarrow> call c s = (r, s') \<Longrightarrow> clock s - two_days_ms \<le> w \<Longrightarrow> \<not> resets r \<Longrightarrow>
      window_count key w (rateLimitsT s) \<le> window_count key w (rateLimitsT s')"
    and charge_counts: "limiter_ready s \<Longrightarrow> call c s = (r, s') \<Longrightarrow> charge c r \<Longrightarrow> windowStartMs ws (clock s) = w \<Longrightarrow>
      \<not> resets r \<Longrightarrow>
      window_count key w (rateLimitsT s) < limit \<and>
      window_count key w (rateLimitsT s') = window_count key w (rateLimitsT s) + 1"
begin

lemma charged_later:
  assumes "\<And>e. e \<in> set es \<Longrightarrow> w + ws * 1000 \<le> snd e"
  shows "charged charge ws w es rs = 0"
proof -
  have "windowStartMs ws (snd e) \<noteq> w" if "e \<in> set es" for e
    using windowStart_bounds [OF window(1), of "snd e"] assms [OF that] by auto
  then show ?thesis by (fastforce simp: charged_def filter_empty_conv dest: set_zip_leftD)
qed

lemma charged_bound:
  assumes "limiter_ready s" and "sorted (map snd es)" and "list_all (\<lambda>r. \<not> resets r) (run_calls call es s)"
  shows "int (charged charge ws w es (run_calls call es s)) \<le> max 0 (limit - window_count key w (rateLimitsT s))"
  using assms
proof (induction es arbitrary: s)
  case Nil
  show ?case by (simp add: charged_def)
next
  case (Cons e es)
  obtain c t where e: "e = (c, t)" by (cases e)
  obtain r s' where run: "call c (s\<lparr>clock := t\<rparr>) = (r, s')" by (rule prod.exhaust)
  have ready: "limiter_ready (s\<lparr>clock := t\<rparr>)" using Cons.prems(1) by (simp add: limiter_ready_def)
  have no_reset: "\<not> resets r" using Cons.prems(3) by (simp add: e run)
  show ?case
  proof (cases "t - two_days_ms \<le> w")
    case True
    have "int (charged charge ws w es (run_calls call es s')) \<le> max 0 (limit - window_count key w (rateLimitsT s'))"
      using Cons.IH [OF ready_call [OF ready run]] Cons.prems(2,3) by (simp add: e run)
    moreover have "window_count key w (rateLimitsT s) \<le> window_count key w (rateLimitsT s')"
      using count_mono [OF ready run _ no_reset, of w] True by simp
    ultimately show ?thesis
      using charge_counts [OF ready run _ _ no_reset, of w] by (auto simp: e run charged_Cons)
  next
    case False
    have late: "w + ws * 1000 \<le> t" using False window(2) by (simp add: two_days_ms_def day_ms_def)
    have "charged charge ws w (e # es) (run_calls call (e # es) s) = 0"
    proof (rule charged_later)
      fix e' assume "e' \<in> set (e # es)"
      then have "t \<le> snd e'" using Cons.prems(2) e by (cases "e' = e") simp_all
      with late show "w + ws * 1000 \<le> snd e'" by simp
    qed
    then show ?thesis by simp
  qed
qed

end

text \<open>A window holds the present, and the advertised waiting time is between one second and
  the window length.\<close>

theorem window_arith:
  assumes "0 < ws"
  shows "windowStartMs ws t \<le> t \<and> t < windowStartMs ws t + ws * 1000 \<and>
    1 \<le> retryAfter ws t \<and> retryAfter ws t \<le> ws \<and>
    windowStartMs ws t + ws * 1000 \<le> t + retryAfter ws t * 1000"
proof -
  define d where "d = windowStartMs ws t + ws * 1000 - t"
  have "0 < d" and "d \<le> ws * 1000" using windowStart_bounds [OF assms, of t] by (simp_all add: d_def)
  moreover have "retryAfter ws t = - ((- d) div 1000)" by (simp add: retryAfter_def d_def)
  ultimately have "1 \<le> retryAfter ws t \<and> retryAfter ws t \<le> ws \<and> d \<le> retryAfter ws t * 1000" by linarith
  then show ?thesis using windowStart_bounds [OF assms, of t] by (simp add: d_def)
qed

theorem window_arith_witness: "windowStartMs 3600 7205000 = 7200000 \<and> retryAfter 3600 7205000 = 3595"
  using window_arith [of 3600 7205000] by (simp add: windowStartMs_def retryAfter_def)

text \<open>In production the limiter denies every hit when it has no database or its statement
  fails, and records nothing.\<close>

theorem limiter_fails_closed:
  assumes "production s" and "\<not> conn s \<or> \<not> limiterUp s"
  shows "hitRateLimit key ws maxHits s =
    (Inr \<lparr>allowed = False, hitCount = maxHits + 1, hitLimit = maxHits, retryAfterSeconds = ws\<rparr>, s)"
  using assms by (auto simp: hitRateLimit_def denyHit_def run_simps)

theorem limiter_fails_closed_witness:
  "\<not> allowed (projr (fst (hitRateLimit ''llm:7'' 3600 20 (empty_world\<lparr>conn := False\<rparr>))))"
  using limiter_fails_closed [of "empty_world\<lparr>conn := False\<rparr>" "''llm:7''" 3600 20]
  by (simp add: empty_world_def)

text \<open>After a key is reset the next hit on it is counted as the first of its window, in
  every mode in which the counter works.\<close>

theorem reset_restarts_window:
  assumes "production s \<Longrightarrow> conn s \<and> limiterUp s"
  shows "\<exists>r s'. seqE (resetRateLimit key) (hitRateLimit key ws maxHits) s = (Inr r, s') \<and> hitCount r = 1"
proof -
  have "window_count key st (filter (\<lambda>r. rl_key r \<noteq> key) rs) = 0" for st rs
    by (induction rs) (auto simp: window_count_def same_window_def [abs_def])
  moreover have "map_of (filter (\<lambda>e. fst e \<noteq> key) m) key = None" for m :: "(string \<times> int \<times> int) list"
    by (induction m) auto
  ultimately show ?thesis using assms
    by (cases "production s")
      (auto simp: seqE_run resetRateLimit_def hitRateLimit_def hitPostgres_def hitInMemory_def
        memory_entry_def window_count_hit Let_def)
qed

theorem reset_restarts_window_witness:
  "\<exists>r s'. seqE (resetRateLimit ''login:a'') (hitRateLimit ''login:a'' 300 10) empty_world = (Inr r, s') \<and>
     hitCount r = 1"
  using reset_restarts_window [of empty_world "''login:a''" 300 10] by (simp add: empty_world_def)

end
