(* ===== verification/Access_Control.thy ===== *)
theory Access_Control
  imports Rate_Limit
begin

text \<open>
  Who may do what: the session user and request context (\<^verbatim>\<open>server/_core/context.ts\<close>), the tRPC
  middlewares and role resolution of \<^verbatim>\<open>server/_core/trpc.ts\<close>, the row-access helpers of
  \<^verbatim>\<open>server/routers.ts\<close>, and the profile and user operations of \<^verbatim>\<open>server/db.ts\<close> they rest on.
  \<open>outsider u q\<close> is the relation behind tenant isolation: a step taken for a user without
  a role on campaign \<open>q\<close> keeps the ids well formed and everything \<open>q\<close> owns as it was. It
  interprets \<open>transition_preorder\<close>, and the guards come with rules that tell their
  continuation that the campaign they admitted is not \<open>q\<close>.
\<close>

section \<open>Requests\<close>

record sessionUser =
  su_id :: int
  su_username :: string
  su_fullName :: string
  su_role :: string
  su_staffId :: "string option"
  su_stateCode :: "string option"
  su_lgaCode :: "string option"
  su_pollingUnitCode :: "string option"
  su_createdAt :: time
  su_isActive :: "int option"
  su_partyId :: "int option"
  su_kycStatus :: "string option"

text \<open>\<open>createContext\<close>: an authenticated user without the password hash, or nobody.\<close>

definition safeUser :: "user \<Rightarrow> sessionUser" where
  "safeUser u =
     \<lparr>su_id = row_id u, su_username = u_username u, su_fullName = u_fullName u, su_role = u_role u,
      su_staffId = u_staffId u, su_stateCode = u_stateCode u, su_lgaCode = u_lgaCode u,
      su_pollingUnitCode = u_pollingUnitCode u, su_createdAt = u_createdAt u,
      su_isActive = u_isActive u, su_partyId = u_partyId u, su_kycStatus = u_kycStatus u\<rparr>"

definition createContext :: "error + user \<Rightarrow> sessionUser option" where
  "createContext authed = (case authed of Inl e \<Rightarrow> None | Inr u \<Rightarrow> Some (safeUser u))"

text \<open>The value the caller sent as \<open>profileId\<close>, before any input parsing.\<close>

datatype jsValue = JUndefined | JNull | JBool bool | JNumber rat | JNaN | JString string | JObject

definition integer_of :: "jsValue \<Rightarrow> int option" where
  "integer_of v = (case v of JNumber x \<Rightarrow> if of_int \<lfloor>x\<rfloor> = x then Some \<lfloor>x\<rfloor> else None | _ \<Rightarrow> None)"

definition UNAUTHED_ERR :: error where
  "UNAUTHED_ERR = TRPC UNAUTHORIZED ''Please login (10001)''"

definition NOT_ADMIN_ERR :: error where
  "NOT_ADMIN_ERR = TRPC FORBIDDEN ''You do not have required permission (10002)''"

definition NO_PROFILE_ACCESS_ERR :: "profileRole \<Rightarrow> error" where
  "NO_PROFILE_ACCESS_ERR minRole =
     TRPC FORBIDDEN (''You do not have access to this campaign profile (requires '' @
       show_profileRole minRole @ '')'')"

text \<open>A violated zod refinement of the input (a length or range bound) is BAD\_REQUEST.\<close>

definition zodE :: "bool \<Rightarrow> (world, unit) proc" where
  "zodE ok = guardE ok (TRPC BAD_REQUEST ''invalid input'')"

section \<open>Roles\<close>

fun PROFILE_ROLE_RANK :: "profileRole \<Rightarrow> nat" where
  "PROFILE_ROLE_RANK Viewer = 1"
| "PROFILE_ROLE_RANK Manager = 2"
| "PROFILE_ROLE_RANK Owner = 3"

definition resolveProfileRole :: "int \<Rightarrow> int \<Rightarrow> (world, profileRole option) proc" where
  "resolveProfileRole pid userId =
     withDb None
       (bindE (selectRows candidateProfilesD (\<lambda>r. row_id r = pid \<and> cp_userId r = Some userId)) (\<lambda>owned.
        if owned \<noteq> [] then returnE (Some Owner) else
        bindE (selectRows campaignMembersD (\<lambda>r. profileId r = Some pid \<and> cm_userId r = Some userId))
          (\<lambda>member. case member of [] \<Rightarrow> returnE None | m # _ \<Rightarrow> returnE (Some (cm_role m)))))"

text \<open>The check \<open>!role || RANK[role] < RANK[minRole]\<close> that both guards share.\<close>

definition admitRole :: "profileRole option \<Rightarrow> profileRole \<Rightarrow> (world, profileRole) proc" where
  "admitRole role minRole =
     (case role of
        None \<Rightarrow> throwE (NO_PROFILE_ACCESS_ERR minRole)
      | Some r \<Rightarrow> if PROFILE_ROLE_RANK r < PROFILE_ROLE_RANK minRole
                 then throwE (NO_PROFILE_ACCESS_ERR minRole) else returnE r)"

definition assertProfileRole ::
  "sessionUser option \<Rightarrow> int \<Rightarrow> profileRole \<Rightarrow> (world, profileRole) proc" where
  "assertProfileRole u pid minRole =
     (case u of
        None \<Rightarrow> throwE UNAUTHED_ERR
      | Some x \<Rightarrow> bindE (resolveProfileRole pid (su_id x)) (\<lambda>role. admitRole role minRole))"

definition requireUser :: "sessionUser option \<Rightarrow> (sessionUser \<Rightarrow> (world, 'a) proc) \<Rightarrow> (world, 'a) proc" where
  "requireUser u next = (case u of None \<Rightarrow> throwE UNAUTHED_ERR | Some x \<Rightarrow> next x)"

definition adminProcedure :: "sessionUser option \<Rightarrow> (sessionUser \<Rightarrow> (world, 'a) proc) \<Rightarrow> (world, 'a) proc" where
  "adminProcedure u next =
     (case u of
        None \<Rightarrow> throwE NOT_ADMIN_ERR
      | Some x \<Rightarrow> if su_role x \<noteq> ''admin'' then throwE NOT_ADMIN_ERR else next x)"

text \<open>
  \<open>requireProfileRole\<close> and \<open>profileScopedProcedure\<close>: \<open>raw\<close> is \<open>rawInput?.profileId\<close>. The resolver
  \<open>next\<close> receives the user, the role and the profile id, which is the \<open>profileId\<close> of the
  parsed input as well.
\<close>

definition profileScopedProcedure ::
  "profileRole \<Rightarrow> sessionUser option \<Rightarrow> jsValue \<Rightarrow>
   (sessionUser \<Rightarrow> profileRole \<Rightarrow> int \<Rightarrow> (world, 'a) proc) \<Rightarrow> (world, 'a) proc" where
  "profileScopedProcedure minRole u raw next =
     (case u of
        None \<Rightarrow> throwE UNAUTHED_ERR
      | Some x \<Rightarrow>
          (case integer_of raw of
             None \<Rightarrow> throwE (TRPC BAD_REQUEST ''A numeric profileId is required for this procedure'')
           | Some pid \<Rightarrow>
               bindE (resolveProfileRole pid (su_id x)) (\<lambda>role.
               bindE (admitRole role minRole) (\<lambda>r. next x r pid))))"

section \<open>Row access\<close>

definition profileIdForRow :: "(world, 'z trow_scheme) tbl \<Rightarrow> int \<Rightarrow> (world, int option) proc" where
  "profileIdForRow D i =
     withDb None
       (bindE (selectRows D (\<lambda>r. row_id r = i)) (\<lambda>rows.
          returnE (case rows of [] \<Rightarrow> None | r # _ \<Rightarrow> profileId r)))"

definition assertRowAccess ::
  "sessionUser option \<Rightarrow> (world, 'z trow_scheme) tbl \<Rightarrow> int \<Rightarrow> profileRole \<Rightarrow> (world, int) proc" where
  "assertRowAccess u D i minRole =
     bindE (profileIdForRow D i) (\<lambda>p.
       case p of
         None \<Rightarrow> throwE (TRPC NOT_FOUND ''Record not found'')
       | Some pid \<Rightarrow> seqE (assertProfileRole u pid minRole) (returnE pid))"

definition getPetitionById :: "int \<Rightarrow> (world, petition option) proc" where
  "getPetitionById i =
     withDb None (bindE (selectRows petitionsD (\<lambda>r. row_id r = i)) (\<lambda>rows. returnE (first_row rows)))"

definition assertPetitionAccess ::
  "sessionUser option \<Rightarrow> int \<Rightarrow> profileRole \<Rightarrow> (world, petition) proc" where
  "assertPetitionAccess u petitionId minRole =
     bindE (getPetitionById petitionId) (\<lambda>petition.
       case petition of
         None \<Rightarrow> throwE (TRPC NOT_FOUND ''Petition not found'')
       | Some p \<Rightarrow>
           (case profileId p of
              None \<Rightarrow> throwE (TRPC NOT_FOUND ''Petition not found'')
            | Some pid \<Rightarrow> seqE (assertProfileRole u pid minRole) (returnE p)))"

definition getMemberOrThrow :: "int \<Rightarrow> (world, campaignMember) proc" where
  "getMemberOrThrow memberId =
     withDbOrThrow (TRPC NOT_FOUND ''Member not found'')
       (bindE (selectRows campaignMembersD (\<lambda>r. row_id r = memberId)) (\<lambda>rows.
          case rows of [] \<Rightarrow> throwE (TRPC NOT_FOUND ''Member not found'') | m # _ \<Rightarrow> returnE m))"

text \<open>\<open>maskEmail\<close>: \<open>indexOf("@")\<close> of at most 0 gives three stars.\<close>

definition maskEmail :: "string option \<Rightarrow> string" where
  "maskEmail email =
     (case email of
        None \<Rightarrow> ''''
      | Some e \<Rightarrow>
          (if e = [] then ''''
           else if CHR ''@'' \<notin> set e \<or> hd e = CHR ''@'' then ''***''
           else hd e # ''***@'' @ tl (dropWhile (\<lambda>c. c \<noteq> CHR ''@'') e)))"

section \<open>Users and profiles\<close>

text \<open>\<open>ENV.ownerOpenId\<close> is configuration.\<close>

definition upsertUser :: "string \<Rightarrow> string \<Rightarrow> string option \<Rightarrow> (world, unit) proc" where
  "upsertUser ownerOpenId openId name =
     withDb ()
       (bindE (getE clock) (\<lambda>now.
        voidE (upsertRow usersD (\<lambda>r. u_username r = openId)
          (\<lambda>i. \<lparr>row_id = i, u_username = openId, u_passwordHash = ''oauth-account:no-local-password'',
             u_fullName = str_or name openId,
             u_role = (if openId = ownerOpenId then ''admin'' else ''public''),
             u_staffId = None, u_stateCode = None, u_lgaCode = None, u_pollingUnitCode = None,
             u_createdAt = now, u_isActive = Some 1, u_partyId = None, u_kycStatus = Some ''not_started''\<rparr>)
          (\<lambda>r. r\<lparr>u_fullName := str_or name openId\<rparr>))))"

definition getUserByUsername :: "string \<Rightarrow> (world, user option) proc" where
  "getUserByUsername username =
     withDb None (bindE (selectRows usersD (\<lambda>r. u_username r = username)) (\<lambda>rows. returnE (first_row rows)))"

definition updateUserPassword :: "int \<Rightarrow> string \<Rightarrow> (world, unit) proc" where
  "updateUserPassword userId newPasswordHash =
     withDbOrThrow (PlainError ''DB not available'')
       (voidE (updateRows usersD (\<lambda>r. row_id r = userId) (\<lambda>r. r\<lparr>u_passwordHash := newPasswordHash\<rparr>)))"

record profileUpdate =
  pd_candidateName :: "string option"
  pd_partyName :: "string option"
  pd_partyColor :: "string option"
  pd_stateCode :: "string option"
  pd_stateName :: "string option"
  pd_office :: "officeType option"
  pd_religion :: "string option"
  pd_gender :: "string option"
  pd_geopoliticalZone :: "string option"

text \<open>An undefined field of the update leaves its column alone.\<close>

definition upd_opt :: "'a option \<Rightarrow> 'a option \<Rightarrow> 'a option" where
  "upd_opt new old = (case new of None \<Rightarrow> old | Some v \<Rightarrow> Some v)"

definition updateProfile :: "int \<Rightarrow> profileUpdate \<Rightarrow> (world, candidateProfile option) proc" where
  "updateProfile i d =
     withDb None
       (bindE (getE clock) (\<lambda>now.
        bindE (updateRows candidateProfilesD (\<lambda>r. row_id r = i)
          (\<lambda>r. r\<lparr>cp_candidateName := nullish (pd_candidateName d) (cp_candidateName r),
             cp_partyName := upd_opt (pd_partyName d) (cp_partyName r),
             cp_partyColor := upd_opt (pd_partyColor d) (cp_partyColor r),
             cp_stateCode := upd_opt (pd_stateCode d) (cp_stateCode r),
             cp_stateName := upd_opt (pd_stateName d) (cp_stateName r),
             cp_office := upd_opt (pd_office d) (cp_office r),
             cp_religion := upd_opt (pd_religion d) (cp_religion r),
             cp_gender := upd_opt (pd_gender d) (cp_gender r),
             cp_geopoliticalZone := upd_opt (pd_geopoliticalZone d) (cp_geopoliticalZone r),
             cp_updatedAt := now\<rparr>)) (\<lambda>rows. returnE (first_row rows))))"

definition getOrCreateUserProfile :: "int \<Rightarrow> (world, candidateProfile option) proc" where
  "getOrCreateUserProfile userId =
     withDb None
       (bindE (selectRows candidateProfilesD
           (\<lambda>r. cp_userId r = Some userId \<and> cp_isActive r = Some True)) (\<lambda>rows.
        case rows of r # _ \<Rightarrow> returnE (Some r) | [] \<Rightarrow>
        bindE (selectRows usersD (\<lambda>r. row_id r = userId)) (\<lambda>owners.
        bindE (getE clock) (\<lambda>now.
        bindE (upsertRow candidateProfilesD (\<lambda>r. cp_userId r = Some userId)
          (\<lambda>i. \<lparr>row_id = i, cp_userId = Some userId,
             cp_candidateName =
               str_or (map_option (\<lambda>o'. trim (u_fullName o')) (first_row owners)) ''Unconfigured campaign profile'',
             cp_partyName = None, cp_partyColor = Some ''#006400'', cp_stateCode = None,
             cp_stateName = None, cp_office = None, cp_religion = None, cp_gender = None,
             cp_geopoliticalZone = None, cp_isActive = Some True, cp_isSeeded = Some False,
             cp_createdAt = now, cp_updatedAt = now\<rparr>)
          (\<lambda>r. r\<lparr>cp_updatedAt := now\<rparr>)) (\<lambda>inserted. returnE (first_row inserted))))))"

definition profile_update ::
  "sessionUser option \<Rightarrow> int \<Rightarrow> profileUpdate \<Rightarrow> (world, candidateProfile option) proc" where
  "profile_update u i d =
     requireUser u (\<lambda>_. seqE (assertProfileRole u i Owner) (updateProfile i d))"

definition profile_get :: "sessionUser option \<Rightarrow> (world, candidateProfile option) proc" where
  "profile_get u = requireUser u (\<lambda>x. getOrCreateUserProfile (su_id x))"

section \<open>Steps of users without a role on a campaign\<close>

definition no_role :: "sessionUser option \<Rightarrow> int \<Rightarrow> world \<Rightarrow> bool" where
  "no_role u q s \<longleftrightarrow> (case u of None \<Rightarrow> True | Some x \<Rightarrow>
     list_all (\<lambda>r. cp_userId r \<noteq> Some (su_id x)) (profile_rows q s) \<and>
     list_all (\<lambda>r. cm_userId r \<noteq> Some (su_id x)) (tenant_rows campaignMembersD q s))"

definition outsider_at :: "sessionUser option \<Rightarrow> int \<Rightarrow> world \<Rightarrow> bool" where
  "outsider_at u q s \<longleftrightarrow> wf_ids s \<and> profile_rows q s \<noteq> [] \<and> no_role u q s"

definition outsider :: "sessionUser option \<Rightarrow> int \<Rightarrow> world \<Rightarrow> world \<Rightarrow> bool" where
  "outsider u q s s' \<longleftrightarrow> (outsider_at u q s \<longrightarrow> wf_ids s' \<and> same_tenant q s s')"

lemma same_tenantD:
  "same_tenant q s s' \<Longrightarrow> profile_rows q s' = profile_rows q s"
  "same_tenant q s s' \<Longrightarrow> tenant_rows campaignMembersD q s' = tenant_rows campaignMembersD q s"
  by (simp_all add: same_tenant_def)

lemma outsider_at_step:
  "outsider_at u q s \<Longrightarrow> wf_ids s' \<Longrightarrow> same_tenant q s s' \<Longrightarrow> outsider_at u q s'"
  by (cases u) (simp_all add: outsider_at_def no_role_def same_tenantD)

interpretation outsider_step: transition_preorder "outsider u q"
proof unfold_locales
  show "outsider u q s s" for s by (simp add: outsider_def outsider_at_def)
  show "outsider u q s t \<Longrightarrow> outsider u q t v \<Longrightarrow> outsider u q s v" for s t v
    unfolding outsider_def using outsider_at_step same_tenant_trans by blast
qed

lemma outsider_intro:
  assumes "preserves wf_ids m" and "follows (same_tenant q) m"
  shows "follows (outsider u q) m"
  using assms by (auto simp: follows_def preserves_def outsider_def outsider_at_def)

text \<open>The guards: they change nothing, and what they admit is another campaign than \<open>q\<close>.\<close>

lemma resolveProfileRole_run [run_simps]:
  "resolveProfileRole pid uid s =
     (Inr (if \<not> conn s then None
           else if filter (\<lambda>r. row_id r = pid \<and> cp_userId r = Some uid) (trows (candidateProfilesT s)) \<noteq> []
             then Some Owner
           else map_option cm_role (first_row (filter (\<lambda>r. profileId r = Some pid \<and> cm_userId r = Some uid)
                  (trows (campaignMembersT s))))), s)"
  by (auto simp: resolveProfileRole_def run_simps split: list.splits)

lemma admitRole_run [run_simps]:
  "admitRole role minRole s =
     ((case role of None \<Rightarrow> Inl (NO_PROFILE_ACCESS_ERR minRole)
       | Some r \<Rightarrow> if PROFILE_ROLE_RANK r < PROFILE_ROLE_RANK minRole
                  then Inl (NO_PROFILE_ACCESS_ERR minRole) else Inr r), s)"
  by (simp add: admitRole_def run_simps split: option.splits)

lemma assertProfileRole_state: "snd (assertProfileRole u pid minRole s) = s"
  by (simp add: assertProfileRole_def run_simps split: option.splits)

lemma no_role_resolve:
  assumes "no_role (Some x) q s"
  shows "fst (resolveProfileRole q (su_id x) s) = Inr None"
proof -
  have "filter (\<lambda>r. row_id r = q \<and> cp_userId r = Some (su_id x)) (trows (candidateProfilesT s)) = []"
    and "filter (\<lambda>r. profileId r = Some q \<and> cm_userId r = Some (su_id x)) (trows (campaignMembersT s)) = []"
    using assms by (auto simp: no_role_def profile_rows_def tenant_rows_def list_all_iff filter_empty_conv)
  then show ?thesis by (simp add: run_simps)
qed

lemma assertProfileRole_Inr:
  assumes "assertProfileRole u pid minRole s = (Inr r, s')" and "outsider_at u q s"
  shows "s' = s" and "pid \<noteq> q"
proof -
  show "s' = s" using assertProfileRole_state [of u pid minRole s] assms(1) by simp
  show "pid \<noteq> q"
  proof
    assume "pid = q"
    with assms show False
      by (cases u) (auto simp: assertProfileRole_def run_simps outsider_at_def
          dest!: no_role_resolve split: if_splits)
  qed
qed

lemma outsider_guarded:
  assumes "\<And>r. pid \<noteq> q \<Longrightarrow> follows (outsider u q) (f r)"
  shows "follows (outsider u q) (bindE (assertProfileRole u pid minRole) f)"
proof -
  have "outsider u q s (snd (bindE (assertProfileRole u pid minRole) f s))" for s
  proof (cases "assertProfileRole u pid minRole s")
    case (Pair res s')
    then have s': "s' = s" using assertProfileRole_state [of u pid minRole s] by simp
    show ?thesis
    proof (cases res)
      case (Inl e)
      with Pair s' show ?thesis by (simp add: run_simps outsider_step.refl)
    next
      case (Inr r)
      then show ?thesis
        using Pair s' assertProfileRole_Inr(2) [of u pid minRole s r s' q] followsD [OF assms]
        by (auto simp: run_simps outsider_def)
    qed
  qed
  then show ?thesis by (simp add: follows_def)
qed

lemma outsider_guarded_seq:
  "(pid \<noteq> q \<Longrightarrow> follows (outsider u q) m) \<Longrightarrow>
   follows (outsider u q) (seqE (assertProfileRole u pid minRole) m)"
  unfolding seqE_def by (rule outsider_guarded)

lemma profileScoped_assert:
  "profileScopedProcedure minRole (Some x) raw next =
     (case integer_of raw of
        None \<Rightarrow> throwE (TRPC BAD_REQUEST ''A numeric profileId is required for this procedure'')
      | Some pid \<Rightarrow> bindE (assertProfileRole (Some x) pid minRole) (\<lambda>r. next x r pid))"
  by (auto simp: profileScopedProcedure_def assertProfileRole_def bindE_assoc split: option.splits)

lemma outsider_scoped:
  assumes "\<And>x r pid. pid \<noteq> q \<Longrightarrow> u = Some x \<Longrightarrow> follows (outsider u q) (next x r pid)"
  shows "follows (outsider u q) (profileScopedProcedure minRole u raw next)"
proof (cases u)
  case None
  then show ?thesis by (simp add: profileScopedProcedure_def outsider_step.throwE)
next
  case (Some x)
  show ?thesis
    unfolding Some profileScoped_assert
    by (intro outsider_step.case_option outsider_step.throwE outsider_guarded)
      (use assms Some in auto)
qed

lemma outsider_requireUser:
  "(\<And>x. u = Some x \<Longrightarrow> follows (outsider u q) (next x)) \<Longrightarrow> follows (outsider u q) (requireUser u next)"
  by (cases u) (auto simp: requireUser_def outsider_step.throwE)

lemma assertRowAccess_Inr:
  assumes "assertRowAccess u D i minRole s = (Inr pid, s')" and "outsider_at u q s"
  shows "s' = s" and "pid \<noteq> q" and "\<exists>r \<in> set (rows_of D s). row_id r = i \<and> profileId r = Some pid"
  using assms assertProfileRole_Inr [of u _ minRole s _ _ q] assertProfileRole_state [of u _ minRole s]
  by (auto simp: assertRowAccess_def profileIdForRow_def run_simps filter_eq_Cons_iff
      split: option.splits if_splits list.splits prod.splits sum.splits)

lemma assertRowAccess_state: "snd (assertRowAccess u D i minRole s) = s"
  using assertProfileRole_state [of u _ minRole s]
  by (auto simp: assertRowAccess_def profileIdForRow_def run_simps
      split: option.splits if_splits list.splits prod.splits sum.splits) (metis snd_conv)+

text \<open>A profile-scoped procedure that succeeds ran its resolver on the unchanged state.\<close>

lemma scoped_InrE:
  assumes "profileScopedProcedure minRole u raw next s = (Inr y, s')"
  obtains x r pid where "u = Some x" and "integer_of raw = Some pid" and "next x r pid s = (Inr y, s')"
proof -
  obtain x where u: "u = Some x"
    using assms by (cases u) (auto simp: profileScopedProcedure_def throwE_run)
  obtain pid where pid: "integer_of raw = Some pid"
    using assms by (cases "integer_of raw") (auto simp: u profileScoped_assert throwE_run)
  obtain r t where "assertProfileRole (Some x) pid minRole s = (Inr r, t)" and "next x r pid t = (Inr y, s')"
    using assms by (auto simp: u pid profileScoped_assert elim!: bindE_InrE)
  with assertProfileRole_state [of "Some x" pid minRole s] that u pid show thesis by simp
qed

definition row_owned :: "(world, 'z trow_scheme) tbl \<Rightarrow> int \<Rightarrow> int \<Rightarrow> world \<Rightarrow> bool" where
  "row_owned D i pid s \<longleftrightarrow> (\<exists>r \<in> set (rows_of D s). row_id r = i \<and> profileId r = Some pid)"

lemma outsider_row_guarded:
  assumes "\<And>s pid. pid \<noteq> q \<Longrightarrow> row_owned D i pid s \<Longrightarrow> outsider u q s (snd (f pid s))"
  shows "follows (outsider u q) (bindE (assertRowAccess u D i minRole) f)"
proof -
  have "outsider u q s (snd (bindE (assertRowAccess u D i minRole) f s))" for s
  proof (cases "outsider_at u q s")
    case False
    then show ?thesis by (simp add: outsider_def)
  next
    case True
    show ?thesis
    proof (cases "assertRowAccess u D i minRole s")
      case (Pair res s')
      then have s': "s' = s" using assertRowAccess_state [of u D i minRole s] by simp
      show ?thesis
      proof (cases res)
        case (Inl e)
        with Pair s' show ?thesis by (simp add: run_simps outsider_step.refl)
      next
        case (Inr pid)
        note row = assertRowAccess_Inr [OF Pair [unfolded Inr] True]
        then show ?thesis using assms [OF row(2)] Pair Inr by (auto simp: run_simps row_owned_def)
      qed
    qed
  qed
  then show ?thesis by (simp add: follows_def)
qed

lemma outsider_row_guarded_seq:
  assumes "\<And>s pid. pid \<noteq> q \<Longrightarrow> row_owned D i pid s \<Longrightarrow> outsider u q s (snd (m s))"
  shows "follows (outsider u q) (seqE (assertRowAccess u D i minRole) m)"
  unfolding seqE_def using assms by (intro outsider_row_guarded)

lemma outsider_withDb_at: "outsider u q s (snd (m s)) \<Longrightarrow> outsider u q s (snd (withDb d m s))"
  by (simp add: withDb_def outsider_step.refl)

context tenant_table
begin

lemma owned_delete:
  assumes "pid \<noteq> q" and "row_owned D i pid s"
  shows "outsider u q s (snd (deleteRows D (\<lambda>r. row_id r = i) s))"
  using assms delete_same_at [of s "\<lambda>r. row_id r = i" q] preservesD [OF wf_delete]
    lookup_owner [of s _ pid q]
  by (auto simp: outsider_def outsider_at_def row_owned_def)

lemma owned_update:
  assumes "pid \<noteq> q" and "row_owned D i pid s"
    and "\<And>r. row_id (f r) = row_id r" and "\<And>r. profileId (f r) = profileId r"
  shows "outsider u q s (snd (updateRows D (\<lambda>r. row_id r = i) f s))"
  using assms update_same_at [of s "\<lambda>r. row_id r = i" q f] preservesD [OF wf_update [of f]]
    lookup_owner [of s _ pid q]
  by (auto simp: outsider_def outsider_at_def row_owned_def)

end

section \<open>Table statements as steps of an outsider\<close>

named_theorems outsider_intros \<open>programs that leave a foreign campaign alone\<close>

declare outsider_step.intros [outsider_intros] outsider_scoped [outsider_intros]
  outsider_requireUser [outsider_intros] outsider_guarded_seq [outsider_intros]

lemma outsider_plain [outsider_intros]:
  "follows (outsider u q) (selectRows D P)"
  "follows (outsider u q) m \<Longrightarrow> follows (outsider u q) (withDb d m)"
  "follows (outsider u q) m \<Longrightarrow> follows (outsider u q) (withDbOrThrow e m)"
  "follows (outsider u q) (assertUpdated rows label)"
  "follows (outsider u q) (requireTenantId p)"
  "follows (outsider u q) (zodE ok)"
  by (simp_all add: follows_def run_simps zodE_def outsider_step.refl)

context tenant_table
begin

lemma insert_outsider:
  "(\<And>i. profileId (mk i) \<noteq> Some q) \<Longrightarrow> follows (outsider u q) (insertRow D eid mk)"
  by (intro outsider_intro wf_insert insert_same)

lemma insert_then_outsider:
  assumes "\<And>i. profileId (mk i) = pid" and "pid \<noteq> Some q"
    and "\<And>r. profileId r = pid \<Longrightarrow> follows (outsider u q) (f r)"
  shows "follows (outsider u q) (bindE (insertRow D eid mk) f)"
proof -
  have ins: "follows (outsider u q) (insertRow D eid mk)" using assms(1,2) by (intro insert_outsider) simp
  have "outsider u q s (snd (bindE (insertRow D eid mk) f s))" for s
  proof (cases "insertRow D eid mk s")
    case (Pair res s')
    then have step: "outsider u q s s'" by (rule follows_stepD [OF ins])
    show ?thesis
    proof (cases res)
      case (Inl e)
      with Pair step show ?thesis by (simp add: bindE_run)
    next
      case (Inr r)
      then obtain i where "r = (mk i)\<lparr>row_id := i\<rparr>" using insert_Inr [OF Pair [unfolded Inr]] by blast
      then have "profileId r = pid" using assms(1) by simp
      with Pair Inr step show ?thesis
        using outsider_step.trans [OF step followsD [OF assms(3)]] by (simp add: bindE_run)
    qed
  qed
  then show ?thesis by (simp add: follows_def)
qed

lemma insertRows_outsider:
  "(\<And>mk i. mk \<in> set mks \<Longrightarrow> profileId (mk i) \<noteq> Some q) \<Longrightarrow> follows (outsider u q) (insertRows D mks)"
  by (intro outsider_intro wf_insertRows insertRows_same)

lemma update_outsider:
  "(\<And>r. P r \<Longrightarrow> profileId r \<noteq> Some q) \<Longrightarrow> (\<And>r. profileId (f r) = profileId r) \<Longrightarrow>
   (\<And>r. row_id (f r) = row_id r) \<Longrightarrow> follows (outsider u q) (updateRows D P f)"
  by (intro outsider_intro wf_update update_same)

lemma delete_outsider:
  "(\<And>r. P r \<Longrightarrow> profileId r \<noteq> Some q) \<Longrightarrow> follows (outsider u q) (deleteRows D P)"
  by (intro outsider_intro wf_delete delete_same)

lemma upsert_outsider:
  "(\<And>i. profileId (mk i) \<noteq> Some q) \<Longrightarrow> (\<And>r. c r \<Longrightarrow> profileId r \<noteq> Some q) \<Longrightarrow>
   (\<And>r. profileId (f r) = profileId r) \<Longrightarrow> (\<And>r. row_id (f r) = row_id r) \<Longrightarrow>
   follows (outsider u q) (upsertRow D c mk f)"
  by (intro outsider_intro wf_upsert upsert_same)

lemma tenantUpsert_outsider:
  "(\<And>i. profileId (mk i) = pid) \<Longrightarrow> (\<And>r. profileId (upd r) = profileId r) \<Longrightarrow>
   (\<And>r. row_id (upd r) = row_id r) \<Longrightarrow> pid \<noteq> Some q \<Longrightarrow>
   follows (outsider u q) (tenantUpsert D label eid pid upd mk)"
  by (intro outsider_intro tenantUpsert_wf tenantUpsert_same)

lemmas outsider_statements =
  insert_outsider insertRows_outsider update_outsider delete_outsider upsert_outsider
  tenantUpsert_outsider

end

context shared_table
begin

lemma insert_shared_outsider: "follows (outsider u q) (insertRow D eid mk)"
  and insertRows_shared_outsider: "follows (outsider u q) (insertRows D mks)"
  and delete_shared_outsider: "follows (outsider u q) (deleteRows D P)"
  and insertIfAbsent_shared_outsider: "follows (outsider u q) (insertIfAbsent D c mk)"
  by (intro outsider_intro wf_statements shared_statements)+

lemma update_shared_outsider:
  "(\<And>r. row_id (f r) = row_id r) \<Longrightarrow> follows (outsider u q) (updateRows D P f)"
  by (intro outsider_intro wf_update update_shared)

lemma upsert_shared_outsider:
  "(\<And>r. row_id (f r) = row_id r) \<Longrightarrow> follows (outsider u q) (upsertRow D c mk f)"
  by (intro outsider_intro wf_upsert upsert_shared)

lemmas outsider_statements =
  insert_shared_outsider insertRows_shared_outsider delete_shared_outsider
  insertIfAbsent_shared_outsider update_shared_outsider upsert_shared_outsider

end

lemmas outsider_table_statements [outsider_intros] =
  timelineEventsT.outsider_statements voterRegistrationsT.outsider_statements
  campaignPuAssignmentsT.outsider_statements volunteersT.outsider_statements
  pressReleasesT.outsider_statements socialMediaPostsT.outsider_statements
  complianceItemsT.outsider_statements oppositionResearchT.outsider_statements
  warRoomIncidentsT.outsider_statements fieldAgentsT.outsider_statements
  electionResultsT.outsider_statements manifestoSectionsT.outsider_statements
  petitionsT.outsider_statements diasporaContactsT.outsider_statements
  endorsementsT.outsider_statements fundraisingTransactionsT.outsider_statements
  budgetItemsT.outsider_statements budgetSpendLedgerT.outsider_statements
  mediaItemsT.outsider_statements debatePrepNotesT.outsider_statements
  simulationRunsT.outsider_statements campaignMembersT.outsider_statements
  volunteerTasksT.outsider_statements debatePracticeScoresT.outsider_statements
  stakeholderContactsT.outsider_statements consentRecordsT.outsider_statements
  dataProvenanceLedgerT.outsider_statements dataAccessAuditT.outsider_statements
  dataSubjectRequestsT.outsider_statements surveyPanelistsT.outsider_statements
  messageTestsT.outsider_statements electionPetitionsT.outsider_statements
  usersT.outsider_statements pollingUnitsT.outsider_statements
  warRoomIncidentAuditT.outsider_statements petitionSignaturesT.outsider_statements
  surveyResponsesT.outsider_statements messageVariantsT.outsider_statements
  messageEventsT.outsider_statements

text \<open>
  Conditions on what a campaign owns last as long as the steps leave the campaign alone. A
  program that established one (by a lookup that found another campaign's row) may
  rely on it later on.
\<close>

definition while_holding ::
  "(world \<Rightarrow> bool) \<Rightarrow> sessionUser option \<Rightarrow> int \<Rightarrow> world \<Rightarrow> world \<Rightarrow> bool" where
  "while_holding C u q s s' \<longleftrightarrow> (C s \<longrightarrow> outsider u q s s')"

locale tenant_condition =
  fixes C :: "world \<Rightarrow> bool" and q :: int
  assumes stable: "same_tenant q s s' \<Longrightarrow> C s \<Longrightarrow> C s'"
begin

lemma lift: "follows (outsider u q) m \<Longrightarrow> follows (while_holding C u q) m"
  by (simp add: follows_def while_holding_def)

lemma conclude: "follows (while_holding C u q) m \<Longrightarrow> C s \<Longrightarrow> outsider u q s (snd (m s))"
  by (simp add: follows_def while_holding_def)

lemma stepI: "(\<And>s. C s \<Longrightarrow> outsider u q s (snd (m s))) \<Longrightarrow> follows (while_holding C u q) m"
  by (simp add: follows_def while_holding_def)

end

sublocale tenant_condition \<subseteq> transition_preorder "while_holding C u q" for u
proof unfold_locales
  show "while_holding C u q s s" for s by (simp add: while_holding_def outsider_step.refl)
  show "while_holding C u q s t \<Longrightarrow> while_holding C u q t v \<Longrightarrow> while_holding C u q s v" for s t v
    unfolding while_holding_def outsider_def using stable outsider_at_step same_tenant_trans by blast
qed

definition id_spared :: "(world, 'z trow_scheme) tbl \<Rightarrow> int \<Rightarrow> int \<Rightarrow> world \<Rightarrow> bool" where
  "id_spared D i q s \<longleftrightarrow> list_all (\<lambda>r. row_id r \<noteq> i) (tenant_rows D q s)"

context tenant_table
begin

lemma spared_if_owned:
  "pid \<noteq> q \<Longrightarrow> wf_ids s \<Longrightarrow> row_owned D i pid s \<Longrightarrow> id_spared D i q s"
  using lookup_owner [of s _ pid q] by (auto simp: row_owned_def id_spared_def tenant_rows_def list_all_iff)

lemma spared_update:
  "(\<And>r. row_id (f r) = row_id r) \<Longrightarrow> (\<And>r. profileId (f r) = profileId r) \<Longrightarrow> id_spared D i q s \<Longrightarrow>
   outsider u q s (snd (updateRows D (\<lambda>r. row_id r = i) f s))"
  using update_same_at [of s "\<lambda>r. row_id r = i" q f] preservesD [OF wf_update [of f]]
  by (auto simp: outsider_def outsider_at_def id_spared_def tenant_rows_def list_all_iff)

end

section \<open>Profiles and users leave other campaigns alone\<close>

lemma profile_put:
  "filter (\<lambda>r. row_id r = q) (trows t) = profile_rows q s \<Longrightarrow> same_tenant q s (s\<lparr>candidateProfilesT := t\<rparr>)"
  by (simp add: same_tenant_def profile_rows_def tenant_rows_def)

lemma profile_update_same:
  assumes "\<And>r. r \<in> set (trows (candidateProfilesT s)) \<Longrightarrow> P r \<Longrightarrow> row_id r \<noteq> q"
    and "\<And>r. row_id (f r) = row_id r"
  shows "same_tenant q s (snd (updateRows candidateProfilesD P f s))"
proof -
  have "filter (\<lambda>r. row_id r = q) (map (\<lambda>r. if P r then f r else r) rs) = filter (\<lambda>r. row_id r = q) rs"
    if "set rs \<subseteq> set (trows (candidateProfilesT s))" for rs
    using that assms by (induction rs) auto
  then show ?thesis by (auto simp: updateRows_def Let_def profile_rows_def intro!: profile_put)
qed

lemma profile_insert_same:
  "profile_rows q s \<noteq> [] \<Longrightarrow> same_tenant q s (snd (insertRow candidateProfilesD eid mk s))"
  by (auto simp: insertRow_def Let_def profile_rows_def list_ex_iff filter_empty_conv
      split: option.splits intro!: profile_put)

lemma guards_preserve [preserves_intros]:
  "preserves I (resolveProfileRole pid uid)"
  "preserves I (admitRole role minRole)"
  "preserves I (assertProfileRole u pid minRole)"
  "preserves I (profileIdForRow D i)"
  "preserves I (getPetitionById i)"
  "preserves I (getMemberOrThrow i)"
  "preserves I (getUserByUsername username)"
  "preserves I (zodE ok)"
  unfolding resolveProfileRole_def admitRole_def assertProfileRole_def profileIdForRow_def
    getPetitionById_def getMemberOrThrow_def getUserByUsername_def zodE_def
  by (intro preserves_intros; simp)+

lemma row_access_preserves [preserves_intros]:
  "preserves I (assertRowAccess u D i minRole)"
  "preserves I (assertPetitionAccess u i minRole)"
  unfolding assertRowAccess_def assertPetitionAccess_def by (intro preserves_intros)+

lemma procedures_preserve [preserves_intros]:
  "(\<And>x r pid. preserves I (next x r pid)) \<Longrightarrow> preserves I (profileScopedProcedure minRole u raw next)"
  "(\<And>x. preserves I (next' x)) \<Longrightarrow> preserves I (requireUser u next')"
  "(\<And>x. preserves I (next' x)) \<Longrightarrow> preserves I (adminProcedure u next')"
  unfolding profileScopedProcedure_def requireUser_def adminProcedure_def
  by (intro preserves_intros; simp)+

lemma wf_profile_ops [preserves_intros]:
  "preserves wf_ids (upsertUser own openId name)"
  "preserves wf_ids (updateUserPassword uid h)"
  "preserves wf_ids (updateProfile i d)"
  "preserves wf_ids (getOrCreateUserProfile uid)"
  unfolding upsertUser_def updateUserPassword_def updateProfile_def getOrCreateUserProfile_def
  by (intro preserves_intros; simp)+

lemma outsider_profile_update: "follows (outsider u q) (profile_update u i d)"
proof -
  have "follows (same_tenant q) (updateProfile i d)" if "i \<noteq> q"
    unfolding updateProfile_def using that
    by (intro tenant_withDb tenant_step.intros)
      (auto simp: follows_def intro!: profile_update_same)
  then show ?thesis
    unfolding profile_update_def
    by (intro outsider_requireUser outsider_guarded_seq outsider_intro wf_profile_ops)
qed

lemma outsider_profile_get: "follows (outsider u q) (profile_get u)"
proof -
  have up: "outsider (Some x) q s (snd (upsertRow candidateProfilesD (\<lambda>r. cp_userId r = Some (su_id x)) mk f s))"
    if f: "\<And>r. row_id (f r) = row_id r" for s x mk f
  proof (cases "outsider_at (Some x) q s")
    case True
    then have "row_id r \<noteq> q" if "r \<in> set (trows (candidateProfilesT s))" "cp_userId r = Some (su_id x)" for r
      using that by (auto simp: outsider_at_def no_role_def profile_rows_def list_all_iff)
    then have "same_tenant q s (snd (upsertRow candidateProfilesD (\<lambda>r. cp_userId r = Some (su_id x)) mk f s))"
      using True f profile_insert_same [of q s None mk]
        profile_update_same [of s "\<lambda>r. cp_userId r = Some (su_id x)" q f]
      by (auto simp: upsertRow_def run_simps outsider_at_def split: prod.splits sum.splits)
    moreover have "wf_ids (snd (upsertRow candidateProfilesD (\<lambda>r. cp_userId r = Some (su_id x)) mk f s))"
      using True f preservesD [OF candidateProfilesT.wf_upsert [of f]] by (simp add: outsider_at_def)
    ultimately show ?thesis by (simp add: outsider_def)
  qed (simp add: outsider_def)
  have "follows (outsider (Some x) q) (getOrCreateUserProfile (su_id x))" for x
    unfolding getOrCreateUserProfile_def
    by (intro follows_withDb outsider_step.intros follows_selectRows outsider_step.refl)
      (auto simp: follows_def intro!: up)
  then show ?thesis
    unfolding profile_get_def by (intro outsider_requireUser) auto
qed

lemma outsider_own_profile [outsider_intros]:
  "u = Some x \<Longrightarrow> follows (outsider u q) (getOrCreateUserProfile (su_id x))"
  using outsider_profile_get [of "Some x" q] by (simp add: profile_get_def requireUser_def)

section \<open>What the guards decide\<close>

text \<open>The roles a user holds on a campaign: ownership first, then the oldest membership.\<close>

definition held_role :: "int \<Rightarrow> int \<Rightarrow> world \<Rightarrow> profileRole option" where
  "held_role pid uid s =
     (if list_ex (\<lambda>r. cp_userId r = Some uid) (profile_rows pid s) then Some Owner
      else map_option cm_role (first_row (filter (\<lambda>r. cm_userId r = Some uid) (tenant_rows campaignMembersD pid s))))"

definition holds_at_least :: "profileRole option \<Rightarrow> profileRole \<Rightarrow> bool" where
  "holds_at_least role minRole \<longleftrightarrow>
     (case role of None \<Rightarrow> False | Some r \<Rightarrow> PROFILE_ROLE_RANK minRole \<le> PROFILE_ROLE_RANK r)"

lemma resolve_held_role:
  "resolveProfileRole pid uid s = (Inr (if conn s then held_role pid uid s else None), s)"
proof -
  have "list_ex (\<lambda>r. cp_userId r = Some uid) (profile_rows pid s) \<longleftrightarrow>
      filter (\<lambda>r. row_id r = pid \<and> cp_userId r = Some uid) (trows (candidateProfilesT s)) \<noteq> []"
    by (auto simp: profile_rows_def list_ex_iff filter_empty_conv)
  moreover have "filter (\<lambda>r. cm_userId r = Some uid) (tenant_rows campaignMembersD pid s) =
      filter (\<lambda>r. profileId r = Some pid \<and> cm_userId r = Some uid) (trows (campaignMembersT s))"
    unfolding tenant_rows_def by (simp add: conj_commute)
  ultimately show ?thesis by (simp add: resolveProfileRole_run held_role_def)
qed

lemma assertProfileRole_held:
  "assertProfileRole (Some x) pid minRole s =
     (if conn s \<and> holds_at_least (held_role pid (su_id x) s) minRole
      then (Inr (the (held_role pid (su_id x) s)), s) else (Inl (NO_PROFILE_ACCESS_ERR minRole), s))"
  by (auto simp: assertProfileRole_def bindE_run resolve_held_role admitRole_run holds_at_least_def
      split: option.splits)

text \<open>A small deployment for concrete runs: two users, each owning a campaign.\<close>

definition demo_user :: "int \<Rightarrow> string \<Rightarrow> user" where
  "demo_user i name =
     \<lparr>row_id = i, u_username = name, u_passwordHash = ''hash'', u_fullName = name, u_role = ''public'',
      u_staffId = None, u_stateCode = None, u_lgaCode = None, u_pollingUnitCode = None, u_createdAt = 0,
      u_isActive = Some 1, u_partyId = None, u_kycStatus = None\<rparr>"

definition demo_profile :: "int \<Rightarrow> int \<Rightarrow> candidateProfile" where
  "demo_profile i owner =
     \<lparr>row_id = i, cp_userId = Some owner, cp_candidateName = ''Candidate'', cp_partyName = None,
      cp_partyColor = None, cp_stateCode = None, cp_stateName = None, cp_office = Some Governor,
      cp_religion = None, cp_gender = None, cp_geopoliticalZone = None, cp_isActive = Some True,
      cp_isSeeded = Some False, cp_createdAt = 0, cp_updatedAt = 0\<rparr>"

definition demo_world :: world where
  "demo_world = empty_world
     \<lparr>usersT := \<lparr>trows = [demo_user 1 ''ada'', demo_user 2 ''bola''], nextId = 3\<rparr>,
      candidateProfilesT := \<lparr>trows = [demo_profile 1 1, demo_profile 2 2], nextId = 3\<rparr>\<rparr>"

lemma demo_world_simps [simp]:
  "conn demo_world" "clock demo_world = 0" "production demo_world" "limiterUp demo_world"
  "notifyUp demo_world" "rateLimitsT demo_world = []" "coins demo_world = []"
  "trows (usersT demo_world) = [demo_user 1 ''ada'', demo_user 2 ''bola'']"
  "trows (candidateProfilesT demo_world) = [demo_profile 1 1, demo_profile 2 2]"
  "trows (campaignMembersT demo_world) = []"
  "row_id (demo_user i n) = i" "row_id (demo_profile i ow) = i" "cp_userId (demo_profile i ow) = Some ow"
  "cp_isActive (demo_profile i ow) = Some True"
  by (simp_all add: demo_world_def empty_world_def no_rows_def demo_user_def demo_profile_def)

abbreviation ada :: sessionUser where "ada \<equiv> safeUser (demo_user 1 ''ada'')"

abbreviation bola :: sessionUser where "bola \<equiv> safeUser (demo_user 2 ''bola'')"

lemma demo_ids [simp]: "su_id (safeUser u) = row_id u"
  by (simp add: safeUser_def)

lemma demo_roles [simp]:
  "held_role 1 1 demo_world = Some Owner" "held_role 2 1 demo_world = None"
  "held_role 2 2 demo_world = Some Owner" "held_role 1 2 demo_world = None"
  by (simp_all add: held_role_def profile_rows_def tenant_rows_def)


text \<open>An id-addressed request is answered NOT\_FOUND exactly when no campaign owns a row with the
  id, and FORBIDDEN when another campaign does; the two answers differ, so a caller
  without a role can tell used ids from free ones.\<close>

theorem row_access_outcome:
  assumes "conn s"
  shows "fst (assertRowAccess (Some x) D i minRole s) =
    (case first_row (filter (\<lambda>r. row_id r = i) (rows_of D s)) of
       None \<Rightarrow> Inl (TRPC NOT_FOUND ''Record not found'')
     | Some r \<Rightarrow> (case profileId r of
         None \<Rightarrow> Inl (TRPC NOT_FOUND ''Record not found'')
       | Some pid \<Rightarrow> if holds_at_least (held_role pid (su_id x) s) minRole then Inr pid
                    else Inl (NO_PROFILE_ACCESS_ERR minRole)))"
  using assms
  by (auto simp: assertRowAccess_def profileIdForRow_def bindE_run withDb_run selectRows_run seqE_run
      returnE_run throwE_run assertProfileRole_held first_row_def split: option.splits list.splits)

theorem row_access_outcome_witness:
  "fst (assertRowAccess (Some ada) petitionsD 7 Viewer demo_world) = Inl (TRPC NOT_FOUND ''Record not found'')"
  using row_access_outcome [of demo_world ada petitionsD 7 Viewer]
  by (simp add: demo_world_def empty_world_def no_rows_def)

text \<open>A membership with a higher rank is admitted wherever a lower one suffices.\<close>

lemma holds_at_least_mono:
  "holds_at_least role m \<Longrightarrow> PROFILE_ROLE_RANK m' \<le> PROFILE_ROLE_RANK m \<Longrightarrow> holds_at_least role m'"
  by (auto simp: holds_at_least_def split: option.splits)

text \<open>The masked address depends only on the first character and on the domain: the rest of
  the mailbox name is not disclosed.\<close>

theorem maskEmail_hides:
  assumes "c \<noteq> CHR ''@''" and "CHR ''@'' \<notin> set l1" and "CHR ''@'' \<notin> set l2"
  shows "maskEmail (Some (c # l1 @ CHR ''@'' # d)) = maskEmail (Some (c # l2 @ CHR ''@'' # d)) \<and>
    maskEmail (Some (c # l1 @ CHR ''@'' # d)) = c # ''***@'' @ d"
proof -
  have "dropWhile (\<lambda>x. x \<noteq> CHR ''@'') (l @ CHR ''@'' # d) = CHR ''@'' # d" if "CHR ''@'' \<notin> set l" for l
    using that by (induction l) auto
  then show ?thesis using assms by (simp add: maskEmail_def)
qed

theorem maskEmail_hides_witness:
  "maskEmail (Some ''jane@example.com'') = maskEmail (Some ''joe@example.com'') \<and>
   maskEmail (Some ''jane@example.com'') = ''j***@example.com''"
  by (rule maskEmail_hides [of "CHR ''j''" "''ane''" "''oe''" "''example.com''", simplified])

text \<open>The user a resolver sees is the same whatever the stored password hash is.\<close>

theorem session_user_without_hash:
  "createContext (Inr (u\<lparr>u_passwordHash := h\<rparr>)) = createContext (Inr u)"
  by (simp add: createContext_def safeUser_def)

definition profiles_of_user :: "int \<Rightarrow> world \<Rightarrow> candidateProfile list" where
  "profiles_of_user uid s = filter (\<lambda>r. cp_userId r = Some uid) (trows (candidateProfilesT s))"

definition one_profile_per_user :: "world \<Rightarrow> bool" where
  "one_profile_per_user s \<longleftrightarrow> (\<forall>uid. length (profiles_of_user uid s) \<le> 1)"

lemma active_profiles:
  "filter (\<lambda>r. cp_userId r = Some uid \<and> cp_isActive r = Some True) (trows (candidateProfilesT s)) =
   filter (\<lambda>r. cp_isActive r = Some True) (profiles_of_user uid s)"
  by (simp add: profiles_of_user_def)

lemma filter_touch:
  assumes "\<And>r. cp_userId (f r) = cp_userId r"
  shows "filter (\<lambda>r. cp_userId r = Some v) (map (\<lambda>r. if cp_userId r = Some uid then f r else r) rs) =
    (if v = uid then map f (filter (\<lambda>r. cp_userId r = Some v) rs) else filter (\<lambda>r. cp_userId r = Some v) rs)"
  using assms by (induction rs) auto

text \<open>What the upsert of \<open>getOrCreateUserProfile\<close> does to the profiles of every user.\<close>

lemma upsert_user_profile:
  assumes "upsertRow candidateProfilesD (\<lambda>r. cp_userId r = Some uid) mk f s = (Inr rs, s')"
    and "\<And>r. cp_userId (f r) = cp_userId r" and "\<And>i. cp_userId (mk i) = Some uid"
  shows "profiles_of_user v s' = (if v = uid then rs else profiles_of_user v s) \<and> conn s' = conn s \<and>
    (if profiles_of_user uid s = [] then \<exists>i. rs = [(mk i)\<lparr>row_id := i\<rparr>]
     else rs = map f (profiles_of_user uid s))"
proof (cases "profiles_of_user uid s = []")
  case True
  with assms(1) obtain r where r: "insertRow candidateProfilesD None mk s = (Inr r, s')" and rs: "rs = [r]"
    by (auto simp: upsertRow_def run_simps profiles_of_user_def split: prod.splits sum.splits)
  have "conn s' = conn s"
    using r by (auto simp: insertRow_def Let_def split: if_splits)
  moreover obtain i where "r = (mk i)\<lparr>row_id := i\<rparr>"
    using candidateProfilesL.insert_Inr [OF r] by blast
  ultimately show ?thesis
    using True rs assms(3) candidateProfilesL.insert_Inr [OF r] by (auto simp: profiles_of_user_def)
next
  case False
  with assms(1) have u: "updateRows candidateProfilesD (\<lambda>r. cp_userId r = Some uid) f s = (Inr rs, s')"
    by (auto simp: upsertRow_def run_simps profiles_of_user_def)
  have "conn s' = conn s"
    using u by (auto simp: updateRows_def Let_def split: if_splits)
  with False candidateProfilesL.update_Inr [OF u] show ?thesis
    by (auto simp: profiles_of_user_def filter_touch [OF assms(2)])
qed

text \<open>\<open>getOrCreateUserProfile\<close> returns a profile of the user, keeps at most one profile per
  user, and once that profile is active a second call returns the same row and
  changes nothing.\<close>

theorem profile_get_or_create:
  assumes "one_profile_per_user s" and "conn s" and "getOrCreateUserProfile uid s = (Inr res, s')"
  shows "\<exists>r. res = Some r \<and> cp_userId r = Some uid \<and> one_profile_per_user s' \<and>
    (cp_isActive r = Some True \<longrightarrow> getOrCreateUserProfile uid s' = (Inr (Some r), s'))"
proof (cases "filter (\<lambda>r. cp_isActive r = Some True) (profiles_of_user uid s)")
  case (Cons r rs)
  have "r \<in> set (filter (\<lambda>r. cp_isActive r = Some True) (profiles_of_user uid s))"
    using Cons by simp
  then have owner: "cp_userId r = Some uid" by (auto simp: profiles_of_user_def)
  have run: "getOrCreateUserProfile uid s = (Inr (Some r), s)"
    using Cons assms(2)
    by (simp add: getOrCreateUserProfile_def run_simps active_profiles)
  with assms(1,3) owner show ?thesis by auto
next
  case Nil
  define mk where "mk = (\<lambda>i. \<lparr>row_id = i, cp_userId = Some uid,
    cp_candidateName = str_or (map_option (\<lambda>o'. trim (u_fullName o'))
      (first_row (filter (\<lambda>r. row_id r = uid) (trows (usersT s))))) ''Unconfigured campaign profile'',
    cp_partyName = None, cp_partyColor = Some ''#006400'', cp_stateCode = None, cp_stateName = None,
    cp_office = None, cp_religion = None, cp_gender = None, cp_geopoliticalZone = None,
    cp_isActive = Some True, cp_isSeeded = Some False, cp_createdAt = clock s, cp_updatedAt = clock s\<rparr>)"
  define touch where "touch = (\<lambda>r :: candidateProfile. r\<lparr>cp_updatedAt := clock s\<rparr>)"
  have run: "getOrCreateUserProfile uid s =
      bindE (upsertRow candidateProfilesD (\<lambda>r. cp_userId r = Some uid) mk touch)
        (\<lambda>inserted. returnE (first_row inserted)) s"
    using Nil assms(2)
    by (simp add: getOrCreateUserProfile_def bindE_run withDb_run selectRows_run getE_run
        active_profiles mk_def touch_def)
  from assms(3) obtain rs where
    up: "upsertRow candidateProfilesD (\<lambda>r. cp_userId r = Some uid) mk touch s = (Inr rs, s')"
    and res: "res = first_row rs"
    unfolding run by (auto simp: returnE_run elim!: bindE_InrE)
  have after: "profiles_of_user v s' = (if v = uid then rs else profiles_of_user v s) \<and> conn s' = conn s \<and>
    (if profiles_of_user uid s = [] then \<exists>i. rs = [(mk i)\<lparr>row_id := i\<rparr>]
     else rs = map touch (profiles_of_user uid s))" for v
    by (rule upsert_user_profile [OF up]) (simp_all add: mk_def touch_def)
  have len: "length (profiles_of_user uid s) \<le> 1"
    using assms(1) by (simp add: one_profile_per_user_def)
  then obtain r where rs: "rs = [r]"
    using after by (cases "profiles_of_user uid s") (auto split: if_splits)
  have one: "one_profile_per_user s'"
    using assms(1) after rs by (simp add: one_profile_per_user_def)
  have "r \<in> set (profiles_of_user uid s')" using after [of uid] rs by simp
  then have owner: "cp_userId r = Some uid" by (simp add: profiles_of_user_def)
  have again: "getOrCreateUserProfile uid s' = (Inr (Some r), s')" if "cp_isActive r = Some True"
    using after [of uid] assms(2) rs that
    by (simp add: getOrCreateUserProfile_def run_simps active_profiles)
  show ?thesis using res rs one owner again by simp
qed

theorem profile_get_or_create_witness:
  "\<exists>r. cp_userId r = Some 1 \<and> getOrCreateUserProfile 1 demo_world = (Inr (Some r), demo_world)"
proof -
  have one: "one_profile_per_user demo_world"
    by (simp add: one_profile_per_user_def profiles_of_user_def)
  have run: "getOrCreateUserProfile 1 demo_world = (Inr (Some (demo_profile 1 1)), demo_world)"
    by (simp add: getOrCreateUserProfile_def run_simps)
  show ?thesis
    using profile_get_or_create [OF one _ run] by auto
qed

end
