(* ===== verification/Voter_Compliance.thy ===== *)
theory Voter_Compliance
  imports Access_Control
begin

text \<open>
  Voter records and the data-protection substrate of \<^verbatim>\<open>server/db.ts\<close> (consent, provenance,
  access audit, data-subject requests, transparency report), with the \<open>voters\<close> and
  \<open>dataProtection\<close> routers of \<^verbatim>\<open>server/routers.ts\<close>. The lemmas show that a voter row
  comes with its consent and provenance entries, that the chunked bulk import equals
  the plain one, that consent history is kept, and what resolving a request does.
\<close>

section \<open>Voter writes\<close>

definition MAX_BULK_IMPORT_ROWS :: nat where "MAX_BULK_IMPORT_ROWS = 500"

definition BULK_INSERT_CHUNK_SIZE :: nat where "BULK_INSERT_CHUNK_SIZE = 100"

definition assertBulkImportSize :: "'r list \<Rightarrow> string \<Rightarrow> (world, unit) proc" where
  "assertBulkImportSize rows label =
     guardE (length rows \<le> MAX_BULK_IMPORT_ROWS) (PlainError (label @ '': too many rows''))"

text \<open>The slices \<open>rows.slice(i, i + n)\<close> for \<open>i = 0, n, 2n, ...\<close>.\<close>

function chunks :: "nat \<Rightarrow> 'a list \<Rightarrow> 'a list list" where
  "chunks n xs = (if n = 0 \<or> xs = [] then [] else take n xs # chunks n (drop n xs))"
  by auto
termination by (relation "measure (\<lambda>(n, xs). length xs)") auto

declare chunks.simps [simp del]

record voterData =
  vd_fullName :: string
  vd_vin :: "string option"
  vd_vinNumber :: "string option"
  vd_lga :: "string option"
  vd_ward :: "string option"
  vd_pollingUnit :: "string option"
  vd_phone :: "string option"
  vd_accessibilityNeeds :: "string option"

definition normalizeVoterRow :: "voterData \<Rightarrow> voterData" where
  "normalizeVoterRow d =
     d\<lparr>vd_vinNumber := None, vd_vin := (case vd_vin d of None \<Rightarrow> vd_vinNumber d | Some v \<Rightarrow> Some v)\<rparr>"

record voterComplianceMeta =
  vm_dataSource :: "string option"
  vm_consentBasis :: string
  vm_consentMethod :: "string option"
  vm_purpose :: "string option"
  vm_collectedBy :: "string option"

definition lawfulBasis_of :: "string \<Rightarrow> lawfulBasis option" where
  "lawfulBasis_of t =
     (if t = ''consent'' then Some Consent else if t = ''contract'' then Some Contract
      else if t = ''legal_obligation'' then Some LegalObligation
      else if t = ''vital_interest'' then Some VitalInterest
      else if t = ''public_interest'' then Some PublicInterest
      else if t = ''legitimate_interest'' then Some LegitimateInterest else None)"

definition blank :: "string option \<Rightarrow> bool" where
  "blank x \<longleftrightarrow> (case x of None \<Rightarrow> True | Some t \<Rightarrow> trim t = [])"

definition assertVoterCompliance :: "voterComplianceMeta option \<Rightarrow> (world, voterComplianceMeta) proc" where
  "assertVoterCompliance meta =
     (case meta of
        None \<Rightarrow> throwE (TRPC BAD_REQUEST ''dataSource is required'')
      | Some m \<Rightarrow>
          if blank (vm_dataSource m) then throwE (TRPC BAD_REQUEST ''dataSource is required'')
          else if lawfulBasis_of (vm_consentBasis m) = None
          then throwE (TRPC BAD_REQUEST ''consentBasis must be one of the lawful bases'')
          else if vm_consentBasis m = ''consent'' \<and> \<not> truthy_str (vm_consentMethod m)
          then throwE (TRPC BAD_REQUEST ''consentMethod is required'')
          else if blank (vm_purpose m) then throwE (TRPC BAD_REQUEST ''purpose is required'')
          else returnE m)"

definition new_consent ::
  "int option \<Rightarrow> time \<Rightarrow> subjectTable \<Rightarrow> int \<Rightarrow> lawfulBasis \<Rightarrow> string \<Rightarrow> string option \<Rightarrow> bool \<Rightarrow>
   time option \<Rightarrow> date option \<Rightarrow> string option \<Rightarrow> int \<Rightarrow> consentRecord" where
  "new_consent pid now subj sid basis purpose consentMethod granted consentedAt retention notes i =
     \<lparr>row_id = i, profileId = pid, cr_subjectTable = subj, cr_subjectId = sid, cr_lawfulBasis = basis,
      cr_purpose = purpose, cr_consentMethod = consentMethod, cr_consentGranted = granted,
      cr_consentedAt = consentedAt, cr_withdrawnAt = None, cr_retentionUntil = retention,
      cr_notes = notes, cr_createdAt = now, cr_updatedAt = now\<rparr>"

definition trail_consent ::
  "int option \<Rightarrow> time \<Rightarrow> int \<Rightarrow> voterComplianceMeta \<Rightarrow> lawfulBasis \<Rightarrow> int \<Rightarrow> consentRecord" where
  "trail_consent pid now voterId meta basis =
     new_consent pid now SubjVoterRegistrations voterId basis (nullish (vm_purpose meta) [])
       (vm_consentMethod meta) (basis = Consent) (if basis = Consent then Some now else None) None None"

definition trail_provenance ::
  "int option \<Rightarrow> time \<Rightarrow> int \<Rightarrow> voterComplianceMeta \<Rightarrow> lawfulBasis \<Rightarrow> int \<Rightarrow> provenanceEntry" where
  "trail_provenance pid now voterId meta basis i =
     \<lparr>row_id = i, profileId = pid, pl_subjectTable = SubjVoterRegistrations, pl_subjectId = voterId,
      pl_source = nullish (vm_dataSource meta) [], pl_collectedBy = vm_collectedBy meta,
      pl_collectedAt = now, pl_lawfulBasis = basis, pl_notes = None, pl_createdAt = now\<rparr>"

definition writeVoterComplianceTrail ::
  "int option \<Rightarrow> int \<Rightarrow> voterComplianceMeta \<Rightarrow> (world, unit) proc" where
  "writeVoterComplianceTrail pid voterId meta =
     withDb ()
       (case lawfulBasis_of (vm_consentBasis meta) of
          None \<Rightarrow> throwE (PgError InvalidEnumValue)
        | Some basis \<Rightarrow>
            bindE (getE clock) (\<lambda>now.
            seqE (insertRow consentRecordsD None (trail_consent pid now voterId meta basis))
              (voidE (insertRow dataProvenanceLedgerD None (trail_provenance pid now voterId meta basis)))))"

definition new_voter :: "int \<Rightarrow> time \<Rightarrow> voterData \<Rightarrow> int \<Rightarrow> voterRegistration" where
  "new_voter pid now d i =
     \<lparr>row_id = i, profileId = Some pid, vr_fullName = vd_fullName d, vr_vin = vd_vin d,
      vr_stateCode = None, vr_lga = vd_lga d, vr_ward = vd_ward d, vr_pollingUnit = vd_pollingUnit d,
      vr_phone = vd_phone d, vr_accessibilityNeeds = vd_accessibilityNeeds d, vr_registeredAt = now,
      vr_isVerified = Some False\<rparr>"

definition addVoterRegistration ::
  "int \<Rightarrow> voterData \<Rightarrow> voterComplianceMeta option \<Rightarrow> (world, voterRegistration option) proc" where
  "addVoterRegistration pid d compliance =
     bindE (assertVoterCompliance compliance) (\<lambda>meta.
     withDb None
       (bindE (getE clock) (\<lambda>now.
        bindE (insertRow voterRegistrationsD None (new_voter pid now (normalizeVoterRow d))) (\<lambda>r.
        seqE (writeVoterComplianceTrail (profileId r) (row_id r) meta) (returnE (Some r))))))"

text \<open>One round of the import loop, and the loop with its running total.\<close>

definition importable :: "voterData \<Rightarrow> bool" where
  "importable d \<longleftrightarrow> trim (vd_fullName d) \<noteq> []"

definition importChunk :: "int \<Rightarrow> voterComplianceMeta \<Rightarrow> voterData list \<Rightarrow> (world, nat) proc" where
  "importChunk pid meta part =
     (let chunk = map normalizeVoterRow (filter importable part)
      in if chunk = [] then returnE 0
         else bindE (getE clock) (\<lambda>now.
              bindE (insertRows voterRegistrationsD (map (new_voter pid now) chunk)) (\<lambda>result.
              seqE (forE result (\<lambda>r. writeVoterComplianceTrail (Some pid) (row_id r) meta))
                (returnE (length result)))))"

primrec importChunks ::
  "int \<Rightarrow> voterComplianceMeta \<Rightarrow> voterData list list \<Rightarrow> nat \<Rightarrow> (world, nat) proc" where
  "importChunks pid meta [] inserted = returnE inserted"
| "importChunks pid meta (part # parts) inserted =
     bindE (importChunk pid meta part) (\<lambda>n. importChunks pid meta parts (inserted + n))"

definition bulkAddVoterRegistrations ::
  "int \<Rightarrow> voterData list \<Rightarrow> voterComplianceMeta option \<Rightarrow> (world, nat) proc" where
  "bulkAddVoterRegistrations pid rows compliance =
     bindE (assertVoterCompliance compliance) (\<lambda>meta.
     withDb 0
       (seqE (assertBulkImportSize rows ''voter bulk import'')
          (importChunks pid meta (chunks BULK_INSERT_CHUNK_SIZE rows) 0)))"

definition getVoterRegistrations :: "int \<Rightarrow> (world, voterRegistration list) proc" where
  "getVoterRegistrations pid =
     withDb [] (bindE (selectRows voterRegistrationsD (\<lambda>r. profileId r = Some pid))
       (\<lambda>rows. returnE (order_desc vr_registeredAt rows)))"

section \<open>Consent, provenance, access audit\<close>

record consentData =
  cd_subjectTable :: subjectTable
  cd_subjectId :: int
  cd_lawfulBasis :: lawfulBasis
  cd_purpose :: string
  cd_consentMethod :: "string option"
  cd_consentGranted :: bool
  cd_consentedAt :: "time option"
  cd_retentionUntil :: "date option"
  cd_notes :: "string option"

definition recordConsent :: "int \<Rightarrow> consentData \<Rightarrow> (world, consentRecord option) proc" where
  "recordConsent pid d =
     withDb None
       (bindE (getE clock) (\<lambda>now.
        bindE (insertRow consentRecordsD None
            (new_consent (Some pid) now (cd_subjectTable d) (cd_subjectId d) (cd_lawfulBasis d)
               (cd_purpose d) (cd_consentMethod d) (cd_consentGranted d) (cd_consentedAt d)
               (cd_retentionUntil d) (cd_notes d)))
          (\<lambda>r. returnE (Some r))))"

definition withdrawConsent :: "int \<Rightarrow> int \<Rightarrow> (world, consentRecord option) proc" where
  "withdrawConsent i pid =
     withDb None
       (bindE (getE clock) (\<lambda>now.
        bindE (updateRows consentRecordsD (\<lambda>r. row_id r = i \<and> profileId r = Some pid)
            (\<lambda>r. r\<lparr>cr_withdrawnAt := Some now, cr_consentGranted := False, cr_updatedAt := now\<rparr>)) (\<lambda>rows.
        case rows of
          [] \<Rightarrow> throwE (TRPC NOT_FOUND ''Consent record not found'')
        | r # _ \<Rightarrow> returnE (Some r))))"

definition getConsentFor :: "int \<Rightarrow> subjectTable \<Rightarrow> int \<Rightarrow> (world, consentRecord list) proc" where
  "getConsentFor pid subj sid =
     withDb [] (bindE (selectRows consentRecordsD
         (\<lambda>r. profileId r = Some pid \<and> cr_subjectTable r = subj \<and> cr_subjectId r = sid))
       (\<lambda>rows. returnE (order_desc cr_createdAt rows)))"

definition getProvenanceFor :: "int \<Rightarrow> subjectTable \<Rightarrow> int \<Rightarrow> (world, provenanceEntry list) proc" where
  "getProvenanceFor pid subj sid =
     withDb [] (bindE (selectRows dataProvenanceLedgerD
         (\<lambda>r. profileId r = Some pid \<and> pl_subjectTable r = subj \<and> pl_subjectId r = sid))
       (\<lambda>rows. returnE (order_desc pl_createdAt rows)))"

definition logDataAccess ::
  "int \<Rightarrow> int option \<Rightarrow> string option \<Rightarrow> subjectTable \<Rightarrow> string \<Rightarrow> int option \<Rightarrow> string option \<Rightarrow>
   (world, unit) proc" where
  "logDataAccess pid actorId actorName subj action rowCount purpose =
     withDb ()
       (bindE (getE clock) (\<lambda>now.
        voidE (insertRow dataAccessAuditD None
          (\<lambda>i. \<lparr>row_id = i, profileId = Some pid, da_actorId = actorId, da_actorName = actorName,
             da_subjectTable = subj, da_action = action, da_rowCount = rowCount, da_purpose = purpose,
             da_createdAt = now\<rparr>))))"

section \<open>Data-subject requests\<close>

record dsarData =
  dd_requestType :: string
  dd_subjectName :: string
  dd_subjectContact :: "string option"
  dd_subjectTable :: "subjectTable option"
  dd_subjectId :: "int option"
  dd_dueAt :: date
  dd_notes :: "string option"

definition fileDsar :: "int \<Rightarrow> dsarData \<Rightarrow> (world, dataSubjectRequest option) proc" where
  "fileDsar pid d =
     withDb None
       (bindE (getE clock) (\<lambda>now.
        bindE (insertRow dataSubjectRequestsD None
          (\<lambda>i. \<lparr>row_id = i, profileId = Some pid, dr_requestType = dd_requestType d,
             dr_subjectName = dd_subjectName d, dr_subjectContact = dd_subjectContact d,
             dr_subjectTable = dd_subjectTable d, dr_subjectId = dd_subjectId d, dr_status = ''open'',
             dr_receivedAt = now, dr_dueAt = dd_dueAt d, dr_fulfilledAt = None,
             dr_rejectionReason = None, dr_notes = dd_notes d, dr_createdAt = now, dr_updatedAt = now\<rparr>))
          (\<lambda>r. returnE (Some r))))"

definition listDsars :: "int \<Rightarrow> string option \<Rightarrow> (world, dataSubjectRequest list) proc" where
  "listDsars pid status =
     withDb [] (bindE (selectRows dataSubjectRequestsD
         (\<lambda>r. profileId r = Some pid \<and> (truthy_str status \<longrightarrow> Some (dr_status r) = status)))
       (\<lambda>rows. returnE (order_desc dr_receivedAt rows)))"

datatype dsarAction = Fulfill | Reject

text \<open>The erasure of the located subject row, by subject table.\<close>

definition eraseSubject :: "int \<Rightarrow> subjectTable \<Rightarrow> int \<Rightarrow> (world, unit) proc" where
  "eraseSubject pid subj sid =
     (case subj of
        SubjPetitionSignatures \<Rightarrow>
          bindE (selectRows petitionsD (\<lambda>p. profileId p = Some pid)) (\<lambda>own.
          voidE (deleteRows petitionSignaturesD
            (\<lambda>r. row_id r = sid \<and> ps_petitionId r \<in> Some ` row_id ` set own)))
      | SubjCampaignMembers \<Rightarrow>
          throwE (TRPC BAD_REQUEST ''campaign_members records are managed via team.remove, not DSAR erasure'')
      | SubjVoterRegistrations \<Rightarrow>
          voidE (deleteRows voterRegistrationsD (\<lambda>r. row_id r = sid \<and> profileId r = Some pid))
      | SubjDiasporaContacts \<Rightarrow>
          voidE (deleteRows diasporaContactsD (\<lambda>r. row_id r = sid \<and> profileId r = Some pid))
      | SubjStakeholderContacts \<Rightarrow>
          voidE (deleteRows stakeholderContactsD (\<lambda>r. row_id r = sid \<and> profileId r = Some pid))
      | SubjVolunteers \<Rightarrow>
          voidE (deleteRows volunteersD (\<lambda>r. row_id r = sid \<and> profileId r = Some pid)))"

definition erasurePurpose :: "int \<Rightarrow> string \<Rightarrow> string" where
  "erasurePurpose i name = ''DSAR #'' @ show_int i @ '' erasure fulfilled for '' @ name"

definition rejectDsar :: "int \<Rightarrow> string option \<Rightarrow> (world, dataSubjectRequest option) proc" where
  "rejectDsar i reason =
     (if blank reason
      then throwE (TRPC BAD_REQUEST ''rejectionReason is required when rejecting a DSAR'')
      else bindE (getE clock) (\<lambda>now.
           bindE (updateRows dataSubjectRequestsD (\<lambda>r. row_id r = i)
               (\<lambda>r. r\<lparr>dr_status := ''rejected'', dr_rejectionReason := reason, dr_updatedAt := now\<rparr>))
             (\<lambda>rows. returnE (first_row rows))))"

definition markFulfilled :: "int \<Rightarrow> (world, dataSubjectRequest option) proc" where
  "markFulfilled i =
     bindE (getE clock) (\<lambda>now.
     bindE (updateRows dataSubjectRequestsD (\<lambda>r. row_id r = i)
         (\<lambda>r. r\<lparr>dr_status := ''fulfilled'', dr_fulfilledAt := Some now, dr_updatedAt := now\<rparr>))
       (\<lambda>rows. returnE (first_row rows)))"

text \<open>The erasure branch: only for erasure requests with a located subject row.\<close>

definition fulfilErasure :: "int \<Rightarrow> int \<Rightarrow> dataSubjectRequest \<Rightarrow> (world, unit) proc" where
  "fulfilErasure i pid req =
     (case dr_subjectTable req of
        None \<Rightarrow> returnE ()
      | Some subj \<Rightarrow>
          if dr_requestType req = ''erasure'' \<and> truthy_id (dr_subjectId req)
          then seqE (eraseSubject pid subj (nullish (dr_subjectId req) 0))
            (logDataAccess pid None None subj ''dsar_erasure'' (Some 1)
               (Some (erasurePurpose i (dr_subjectName req))))
          else returnE ())"

definition resolveRequest ::
  "int \<Rightarrow> int \<Rightarrow> dsarAction \<Rightarrow> string option \<Rightarrow> dataSubjectRequest \<Rightarrow>
   (world, dataSubjectRequest option) proc" where
  "resolveRequest i pid action reason req =
     (if action = Reject then rejectDsar i reason
      else seqE (fulfilErasure i pid req) (markFulfilled i))"

definition resolveDsar ::
  "int \<Rightarrow> int \<Rightarrow> dsarAction \<Rightarrow> string option \<Rightarrow> (world, dataSubjectRequest option) proc" where
  "resolveDsar i pid action reason =
     withDb None
       (bindE (selectRows dataSubjectRequestsD (\<lambda>r. row_id r = i \<and> profileId r = Some pid)) (\<lambda>existing.
        case existing of
          [] \<Rightarrow> throwE (TRPC NOT_FOUND ''DSAR not found'')
        | req # _ \<Rightarrow> resolveRequest i pid action reason req))"

section \<open>Transparency report\<close>

text \<open>\<open>GROUP BY\<close> with \<open>count(*)\<close>; the order of the groups is the order of first appearance.\<close>

definition group_count :: "'k list \<Rightarrow> ('k \<times> int) list" where
  "group_count ks = map (\<lambda>k. (k, int (length (filter (\<lambda>x. x = k) ks)))) (remdups ks)"

record transparencyReport =
  tr_profileId :: int
  tr_generatedAt :: time
  tr_voterRegistrations :: int
  tr_totalRecords :: int
  tr_active :: int
  tr_withdrawn :: int
  tr_coveragePct :: "rat option"
  tr_provenanceBySource :: "(string \<times> int) list"
  tr_byStatus :: "(string \<times> int) list"
  tr_overdueOpen :: int
  tr_accessAuditEntries :: int

definition active_consent :: "consentRecord \<Rightarrow> bool" where
  "active_consent c \<longleftrightarrow> cr_consentGranted c \<and> cr_withdrawnAt c = None"

definition getTransparencyReport :: "int \<Rightarrow> (world, transparencyReport option) proc" where
  "getTransparencyReport pid =
     withDb None
       (bindE (selectRows voterRegistrationsD (\<lambda>r. profileId r = Some pid)) (\<lambda>voterRows.
        bindE (selectRows consentRecordsD (\<lambda>r. profileId r = Some pid)) (\<lambda>consents.
        bindE (selectRows dataProvenanceLedgerD (\<lambda>r. profileId r = Some pid)) (\<lambda>provenance.
        bindE (selectRows dataSubjectRequestsD (\<lambda>r. profileId r = Some pid)) (\<lambda>dsars.
        bindE (getE clock) (\<lambda>now.
        bindE (selectRows dataAccessAuditD (\<lambda>r. profileId r = Some pid)) (\<lambda>access.
        let voters = int (length voterRows);
            active = int (length (filter active_consent consents))
        in returnE (Some
          \<lparr>tr_profileId = pid, tr_generatedAt = now, tr_voterRegistrations = voters,
           tr_totalRecords = int (length consents), tr_active = active,
           tr_withdrawn = int (length (filter (\<lambda>c. cr_withdrawnAt c \<noteq> None) consents)),
           tr_coveragePct = (if voters > 0 then
               Some (of_int (math_round (of_int active / of_int voters * 1000)) / 10) else None),
           tr_provenanceBySource = group_count (map pl_source provenance),
           tr_byStatus = group_count (map dr_status dsars),
           tr_overdueOpen = int (length (filter
               (\<lambda>d. dr_status d \<in> {''open'', ''in_progress''} \<and> dr_dueAt d < date_of now) dsars)),
           tr_accessAuditEntries = int (length access)\<rparr>))))))))"

section \<open>Procedures\<close>

definition zod_meta :: "voterComplianceMeta \<Rightarrow> bool" where
  "zod_meta m \<longleftrightarrow>
     vm_dataSource m \<in> Some ` {''door_to_door'', ''event_signup'', ''campaign_website'', ''referral'',
       ''field_agent'', ''other_declared''} \<and>
     lawfulBasis_of (vm_consentBasis m) \<noteq> None \<and>
     vm_consentMethod m \<in> {None, Some ''verbal'', Some ''written'', Some ''digital''} \<and>
     (case vm_purpose m of None \<Rightarrow> False | Some t \<Rightarrow> 1 \<le> length t \<and> length t \<le> 120) \<and>
     vco 200 (vm_collectedBy m)"

definition voters_list ::
  "sessionUser option \<Rightarrow> jsValue \<Rightarrow> string option \<Rightarrow> (world, voterRegistration list) proc" where
  "voters_list u raw purpose =
     profileScopedProcedure Viewer u raw (\<lambda>x _ pid.
       seqE (zodE (vco 200 purpose))
         (bindE (getVoterRegistrations pid) (\<lambda>rows.
          seqE (logDataAccess pid (Some (su_id x)) (Some (su_fullName x)) SubjVoterRegistrations ''list''
                  (Some (int (length rows))) purpose)
            (returnE rows))))"

definition voters_add ::
  "sessionUser option \<Rightarrow> jsValue \<Rightarrow> voterData \<Rightarrow> voterComplianceMeta \<Rightarrow>
   (world, voterRegistration option) proc" where
  "voters_add u raw d meta =
     profileScopedProcedure Manager u raw (\<lambda>_ _ pid.
       seqE (zodE (vco 120 (vd_accessibilityNeeds d) \<and> zod_meta meta))
         (addVoterRegistration pid
            (d\<lparr>vd_vinNumber := None,
               vd_vin := (case vd_vin d of None \<Rightarrow> vd_vinNumber d | Some v \<Rightarrow> Some v)\<rparr>) (Some meta)))"

definition voters_bulkImport ::
  "sessionUser option \<Rightarrow> jsValue \<Rightarrow> voterData list \<Rightarrow> voterComplianceMeta \<Rightarrow> (world, nat) proc" where
  "voters_bulkImport u raw rows meta =
     profileScopedProcedure Manager u raw (\<lambda>_ _ pid.
       seqE (zodE (length rows \<le> MAX_BULK_IMPORT_ROWS \<and> zod_meta meta))
         (bulkAddVoterRegistrations pid rows (Some meta)))"

definition dataProtection_recordConsent ::
  "sessionUser option \<Rightarrow> jsValue \<Rightarrow> consentData \<Rightarrow> (world, consentRecord option) proc" where
  "dataProtection_recordConsent u raw d =
     profileScopedProcedure Manager u raw (\<lambda>_ _ pid.
       seqE (zodE (cd_subjectTable d \<noteq> SubjCampaignMembers \<and> 1 \<le> length (cd_purpose d) \<and>
               length (cd_purpose d) \<le> 120 \<and>
               cd_consentMethod d \<in> {None, Some ''verbal'', Some ''written'', Some ''digital''}))
         (bindE (getE clock) (\<lambda>now.
            recordConsent pid (d\<lparr>cd_consentedAt := if cd_consentGranted d then Some now else None\<rparr>))))"

definition dataProtection_withdrawConsent ::
  "sessionUser option \<Rightarrow> jsValue \<Rightarrow> int \<Rightarrow> (world, consentRecord option) proc" where
  "dataProtection_withdrawConsent u raw consentId =
     profileScopedProcedure Manager u raw (\<lambda>_ _ pid. withdrawConsent consentId pid)"

definition dataProtection_consentStatus ::
  "sessionUser option \<Rightarrow> jsValue \<Rightarrow> subjectTable \<Rightarrow> int \<Rightarrow> (world, consentRecord list) proc" where
  "dataProtection_consentStatus u raw subj sid =
     profileScopedProcedure Viewer u raw (\<lambda>_ _ pid.
       seqE (zodE (subj \<noteq> SubjCampaignMembers)) (getConsentFor pid subj sid))"

definition dataProtection_provenance ::
  "sessionUser option \<Rightarrow> jsValue \<Rightarrow> subjectTable \<Rightarrow> int \<Rightarrow> (world, provenanceEntry list) proc" where
  "dataProtection_provenance u raw subj sid =
     profileScopedProcedure Viewer u raw (\<lambda>_ _ pid.
       seqE (zodE (subj \<noteq> SubjCampaignMembers)) (getProvenanceFor pid subj sid))"

definition dataProtection_fileDsar ::
  "sessionUser option \<Rightarrow> jsValue \<Rightarrow> dsarData \<Rightarrow> (world, dataSubjectRequest option) proc" where
  "dataProtection_fileDsar u raw d =
     profileScopedProcedure Manager u raw (\<lambda>_ _ pid.
       seqE (zodE (dd_requestType d \<in> {''access'', ''rectification'', ''erasure'', ''restriction'',
                 ''portability'', ''objection''} \<and>
               1 \<le> length (dd_subjectName d) \<and> length (dd_subjectName d) \<le> 200 \<and>
               vco 320 (dd_subjectContact d) \<and> dd_subjectTable d \<noteq> Some SubjCampaignMembers))
         (bindE (getE clock) (\<lambda>now. fileDsar pid (d\<lparr>dd_dueAt := date_of (now + 30 * day_ms)\<rparr>))))"

definition dataProtection_listDsars ::
  "sessionUser option \<Rightarrow> jsValue \<Rightarrow> string option \<Rightarrow> (world, dataSubjectRequest list) proc" where
  "dataProtection_listDsars u raw status =
     profileScopedProcedure Viewer u raw (\<lambda>_ _ pid. listDsars pid status)"

definition dataProtection_resolveDsar ::
  "sessionUser option \<Rightarrow> jsValue \<Rightarrow> int \<Rightarrow> dsarAction \<Rightarrow> string option \<Rightarrow>
   (world, dataSubjectRequest option) proc" where
  "dataProtection_resolveDsar u raw dsarId action reason =
     profileScopedProcedure Manager u raw (\<lambda>_ _ pid. resolveDsar dsarId pid action reason)"

definition dataProtection_transparencyReport ::
  "sessionUser option \<Rightarrow> jsValue \<Rightarrow> (world, transparencyReport option) proc" where
  "dataProtection_transparencyReport u raw =
     profileScopedProcedure Viewer u raw (\<lambda>_ _ pid. getTransparencyReport pid)"

section \<open>Isolation and well-formedness\<close>

lemma new_record_profile [simp]:
  "profileId (new_voter pid now d i) = Some pid"
  "profileId (new_consent p now subj sid b pu m g ca rt n i) = p"
  "profileId (trail_consent p now vid meta b i) = p"
  "profileId (trail_provenance p now vid meta b i) = p"
  by (simp_all add: new_voter_def new_consent_def trail_consent_def trail_provenance_def)

lemma wf_voter_ops [preserves_intros]:
  "preserves wf_ids (assertVoterCompliance meta)"
  "preserves wf_ids (writeVoterComplianceTrail p i m)"
  "preserves wf_ids (assertBulkImportSize rows label)"
  "preserves wf_ids (logDataAccess pid ai an subj act n pu)"
  "preserves wf_ids (getVoterRegistrations pid)"
  by (auto simp: assertVoterCompliance_def writeVoterComplianceTrail_def assertBulkImportSize_def
      logDataAccess_def getVoterRegistrations_def intro!: preserves_intros)

lemma wf_importChunks [preserves_intros]: "preserves wf_ids (importChunks pid meta parts n)"
  by (induction parts arbitrary: n) (auto simp: importChunk_def Let_def intro!: preserves_intros)

lemma wf_eraseSubject [preserves_intros]: "preserves wf_ids (eraseSubject pid subj sid)"
  by (cases subj) (auto simp: eraseSubject_def intro!: preserves_intros)

lemma wf_voter_procedures [preserves_intros]:
  "preserves wf_ids (voters_list u raw purpose)"
  "preserves wf_ids (voters_add u raw d meta)"
  "preserves wf_ids (voters_bulkImport u raw rows meta)"
  "preserves wf_ids (dataProtection_recordConsent u raw cd)"
  "preserves wf_ids (dataProtection_withdrawConsent u raw i)"
  "preserves wf_ids (dataProtection_consentStatus u raw subj sid)"
  "preserves wf_ids (dataProtection_provenance u raw subj sid)"
  "preserves wf_ids (dataProtection_fileDsar u raw dd)"
  "preserves wf_ids (dataProtection_listDsars u raw st)"
  "preserves wf_ids (dataProtection_resolveDsar u raw i action reason)"
  "preserves wf_ids (dataProtection_transparencyReport u raw)"
  unfolding voters_list_def voters_add_def voters_bulkImport_def addVoterRegistration_def
    bulkAddVoterRegistrations_def dataProtection_recordConsent_def recordConsent_def
    dataProtection_withdrawConsent_def withdrawConsent_def dataProtection_consentStatus_def
    getConsentFor_def dataProtection_provenance_def getProvenanceFor_def dataProtection_fileDsar_def
    fileDsar_def dataProtection_listDsars_def listDsars_def dataProtection_resolveDsar_def
    resolveDsar_def resolveRequest_def fulfilErasure_def rejectDsar_def markFulfilled_def
    dataProtection_transparencyReport_def
    getTransparencyReport_def Let_def
  by (intro preserves_intros; simp)+

lemma outsider_voter_ops [outsider_intros]:
  "follows (outsider u q) (assertVoterCompliance meta)"
  "p \<noteq> Some q \<Longrightarrow> follows (outsider u q) (writeVoterComplianceTrail p i m)"
  "follows (outsider u q) (assertBulkImportSize rows label)"
  "pid \<noteq> q \<Longrightarrow> follows (outsider u q) (logDataAccess pid ai an subj act n pu)"
  "follows (outsider u q) (getVoterRegistrations pid)"
  by (auto simp: assertVoterCompliance_def writeVoterComplianceTrail_def assertBulkImportSize_def
      logDataAccess_def getVoterRegistrations_def intro!: outsider_intros)

lemma outsider_importChunks [outsider_intros]:
  "pid \<noteq> q \<Longrightarrow> follows (outsider u q) (importChunks pid meta parts n)"
  by (induction parts arbitrary: n) (auto simp: importChunk_def Let_def intro!: outsider_intros)

lemma outsider_eraseSubject [outsider_intros]:
  "pid \<noteq> q \<Longrightarrow> follows (outsider u q) (eraseSubject pid subj sid)"
  by (cases subj) (auto simp: eraseSubject_def intro!: outsider_intros)

lemma outsider_addVoterRegistration [outsider_intros]:
  "pid \<noteq> q \<Longrightarrow> follows (outsider u q) (addVoterRegistration pid d meta)"
  unfolding addVoterRegistration_def
  by (intro outsider_step.bindE [where m = "assertVoterCompliance c" for c]
      outsider_step.bindE [where m = "getE g" for g]
      outsider_plain voterRegistrationsT.insert_then_outsider [where pid = "Some pid"])
    (auto intro!: outsider_intros)

interpretation dsar_spared: tenant_condition "id_spared dataSubjectRequestsD i q" q
  by unfold_locales (simp add: id_spared_def same_tenant_def)

lemma resolveRequest_spares:
  assumes "pid \<noteq> q"
  shows "follows (while_holding (id_spared dataSubjectRequestsD i q) u q) (resolveRequest i pid action reason req)"
proof -
  have erase: "follows (while_holding (id_spared dataSubjectRequestsD i q) u q) (fulfilErasure i pid req)"
    using assms unfolding fulfilErasure_def by (intro dsar_spared.lift) (auto intro!: outsider_intros)
  have upd: "follows (while_holding (id_spared dataSubjectRequestsD i q) u q)
      (updateRows dataSubjectRequestsD (\<lambda>r. row_id r = i) f)"
    if "\<And>r. row_id (f r) = row_id r" "\<And>r. profileId (f r) = profileId r" for f
    using that by (intro dsar_spared.stepI dataSubjectRequestsT.spared_update)
  show ?thesis
    unfolding resolveRequest_def rejectDsar_def markFulfilled_def
    by (intro dsar_spared.intros erase upd) simp_all
qed

lemma outsider_resolveDsar [outsider_intros]:
  assumes "pid \<noteq> q"
  shows "follows (outsider u q) (resolveDsar i pid action reason)"
proof -
  have "outsider u q s (snd (resolveDsar i pid action reason s))" for s
  proof (cases "filter (\<lambda>r. row_id r = i \<and> profileId r = Some pid) (trows (dataSubjectRequestsT s))")
    case Nil
    then show ?thesis by (simp add: resolveDsar_def run_simps outsider_step.refl)
  next
    case (Cons req reqs)
    then have "req \<in> set (filter (\<lambda>r. row_id r = i \<and> profileId r = Some pid) (trows (dataSubjectRequestsT s)))"
      by simp
    then have owned: "row_owned dataSubjectRequestsD i pid s" by (auto simp: row_owned_def)
    have "outsider u q s (snd (resolveRequest i pid action reason req s))"
      using dsar_spared.conclude [OF resolveRequest_spares [OF assms]]
        dataSubjectRequestsT.spared_if_owned [OF assms _ owned]
      by (cases "outsider_at u q s") (auto simp: outsider_at_def outsider_def)
    with Cons show ?thesis by (simp add: resolveDsar_def run_simps outsider_step.refl)
  qed
  then show ?thesis by (simp add: follows_def)
qed

lemma outsider_voter_procedures [outsider_intros]:
  "follows (outsider u q) (voters_list u raw purpose)"
  "follows (outsider u q) (voters_add u raw d meta)"
  "follows (outsider u q) (voters_bulkImport u raw rows meta)"
  "follows (outsider u q) (dataProtection_recordConsent u raw cd)"
  "follows (outsider u q) (dataProtection_withdrawConsent u raw i)"
  "follows (outsider u q) (dataProtection_consentStatus u raw subj sid)"
  "follows (outsider u q) (dataProtection_provenance u raw subj sid)"
  "follows (outsider u q) (dataProtection_fileDsar u raw dd)"
  "follows (outsider u q) (dataProtection_listDsars u raw st)"
  "follows (outsider u q) (dataProtection_resolveDsar u raw i action reason)"
  "follows (outsider u q) (dataProtection_transparencyReport u raw)"
  unfolding voters_list_def voters_add_def voters_bulkImport_def
    bulkAddVoterRegistrations_def dataProtection_recordConsent_def recordConsent_def
    dataProtection_withdrawConsent_def withdrawConsent_def dataProtection_consentStatus_def
    getConsentFor_def dataProtection_provenance_def getProvenanceFor_def dataProtection_fileDsar_def
    fileDsar_def dataProtection_listDsars_def listDsars_def dataProtection_resolveDsar_def
    dataProtection_transparencyReport_def getTransparencyReport_def Let_def
  by (intro outsider_intros; simp)+

section \<open>The trail of a voter row\<close>

definition has_trail :: "int \<Rightarrow> voterComplianceMeta \<Rightarrow> world \<Rightarrow> int \<Rightarrow> bool" where
  "has_trail pid meta s vid \<longleftrightarrow>
     list_ex (\<lambda>c. profileId c = Some pid \<and> cr_subjectTable c = SubjVoterRegistrations \<and>
         cr_subjectId c = vid \<and> Some (cr_lawfulBasis c) = lawfulBasis_of (vm_consentBasis meta) \<and>
         Some (cr_purpose c) = vm_purpose meta \<and> cr_consentMethod c = vm_consentMethod meta \<and>
         cr_consentGranted c = (cr_lawfulBasis c = Consent))
       (trows (consentRecordsT s)) \<and>
     list_ex (\<lambda>p. profileId p = Some pid \<and> pl_subjectTable p = SubjVoterRegistrations \<and>
         pl_subjectId p = vid \<and> Some (pl_source p) = vm_dataSource meta \<and>
         Some (pl_lawfulBasis p) = lawfulBasis_of (vm_consentBasis meta))
       (trows (dataProvenanceLedgerT s))"

text \<open>Steps that only append to the consent and provenance tables and leave the voters alone.\<close>

definition appends_trail :: "world \<Rightarrow> world \<Rightarrow> bool" where
  "appends_trail s s' \<longleftrightarrow>
     (\<exists>cs. trows (consentRecordsT s') = trows (consentRecordsT s) @ cs) \<and>
     (\<exists>ps. trows (dataProvenanceLedgerT s') = trows (dataProvenanceLedgerT s) @ ps) \<and>
     voterRegistrationsT s' = voterRegistrationsT s \<and> conn s' = conn s \<and> clock s' = clock s"

interpretation trail_step: transition_preorder appends_trail
  by unfold_locales (auto simp: appends_trail_def)

lemma has_trail_mono: "appends_trail s s' \<Longrightarrow> has_trail pid meta s vid \<Longrightarrow> has_trail pid meta s' vid"
  by (auto simp: appends_trail_def has_trail_def)

lemma insert_appends_trail:
  "follows appends_trail (insertRow consentRecordsD eid mk)"
  "follows appends_trail (insertRow dataProvenanceLedgerD eid mk')"
  by (auto simp: follows_def insertRow_def Let_def appends_trail_def split: option.splits)

lemma writeTrail_appends: "follows appends_trail (writeVoterComplianceTrail p i m)"
  unfolding writeVoterComplianceTrail_def
  by (intro follows_withDb trail_step.refl trail_step.intros insert_appends_trail)

lemma assertVoterCompliance_Inr:
  "assertVoterCompliance meta s = (Inr m, s') \<Longrightarrow>
   s' = s \<and> meta = Some m \<and> (\<exists>b. lawfulBasis_of (vm_consentBasis m) = Some b) \<and>
   vm_purpose m \<noteq> None \<and> vm_dataSource m \<noteq> None"
  by (auto simp: assertVoterCompliance_def run_simps blank_def split: option.splits if_splits)

lemma writeTrail_trail:
  assumes "writeVoterComplianceTrail (Some pid) vid meta s = (Inr (), s')" and "conn s"
    and "vm_purpose meta \<noteq> None" and "vm_dataSource meta \<noteq> None"
  shows "has_trail pid meta s' vid"
proof -
  obtain basis where b: "lawfulBasis_of (vm_consentBasis meta) = Some basis"
    using assms(1,2) by (cases "lawfulBasis_of (vm_consentBasis meta)")
      (auto simp: writeVoterComplianceTrail_def run_simps)
  have "bindE (getE clock) (\<lambda>now.
      seqE (insertRow consentRecordsD None (trail_consent (Some pid) now vid meta basis))
        (voidE (insertRow dataProvenanceLedgerD None (trail_provenance (Some pid) now vid meta basis)))) s
      = (Inr (), s')"
    using assms(1,2) b by (simp add: writeVoterComplianceTrail_def withDb_run)
  then obtain c s1 p where
    c: "insertRow consentRecordsD None (trail_consent (Some pid) (clock s) vid meta basis) s = (Inr c, s1)"
    and p: "insertRow dataProvenanceLedgerD None (trail_provenance (Some pid) (clock s) vid meta basis) s1
      = (Inr p, s')"
    by (auto simp: getE_run elim!: bindE_InrE seqE_InrE voidE_InrE)
  obtain i j where
    ci: "c = trail_consent (Some pid) (clock s) vid meta basis i\<lparr>row_id := i\<rparr>" and
    pj: "p = trail_provenance (Some pid) (clock s) vid meta basis j\<lparr>row_id := j\<rparr>"
    using consentRecordsL.insert_Inr [OF c] dataProvenanceLedgerL.insert_Inr [OF p] by blast
  have "c \<in> set (trows (consentRecordsT s1))" and pin: "p \<in> set (trows (dataProvenanceLedgerT s'))"
    using consentRecordsL.insert_Inr [OF c] dataProvenanceLedgerL.insert_Inr [OF p] by simp_all
  moreover have "appends_trail s1 s'" by (rule follows_stepD [OF insert_appends_trail(2) p])
  ultimately have cin: "c \<in> set (trows (consentRecordsT s'))" by (auto simp: appends_trail_def)
  from ci pj b assms(3,4) show ?thesis
    unfolding has_trail_def list_ex_iff
    by (intro conjI bexI [OF _ cin] bexI [OF _ pin])
      (auto simp: new_consent_def trail_consent_def trail_provenance_def)
qed

text \<open>C10: a voter row that was added belongs to the caller's campaign, is the only new voter row,
  and has its consent record (granted exactly for the basis "consent") and its
  provenance entry with the declared basis, purpose and source.\<close>

theorem voter_write_leaves_trail:
  assumes "addVoterRegistration pid d compliance s = (Inr (Some v), s')"
  shows "\<exists>meta. compliance = Some meta \<and> profileId v = Some pid \<and> vr_fullName v = vd_fullName d \<and>
    trows (voterRegistrationsT s') = trows (voterRegistrationsT s) @ [v] \<and>
    has_trail pid meta s' (row_id v)"
proof -
  from assms obtain meta s0 where m: "assertVoterCompliance compliance s = (Inr meta, s0)"
    by (auto simp: addVoterRegistration_def elim: bindE_InrE)
  note meta = assertVoterCompliance_Inr [OF m]
  from assms m meta have c: "conn s"
    by (auto simp: addVoterRegistration_def bindE_run withDb_run split: if_splits)
  have "bindE (getE clock) (\<lambda>now.
      bindE (insertRow voterRegistrationsD None (new_voter pid now (normalizeVoterRow d))) (\<lambda>r.
      seqE (writeVoterComplianceTrail (profileId r) (row_id r) meta) (returnE (Some r)))) s = (Inr (Some v), s')"
    using assms m meta c by (simp add: addVoterRegistration_def bindE_run [where m = "assertVoterCompliance x" for x] withDb_run)
  then obtain s1 where
    ins: "insertRow voterRegistrationsD None (new_voter pid (clock s) (normalizeVoterRow d)) s = (Inr v, s1)"
    and tr: "writeVoterComplianceTrail (profileId v) (row_id v) meta s1 = (Inr (), s')"
    by (auto simp: getE_run returnE_run elim!: bindE_InrE seqE_InrE)
  from voterRegistrationsL.insert_Inr [OF ins] obtain i where
    v: "v = new_voter pid (clock s) (normalizeVoterRow d) i\<lparr>row_id := i\<rparr>" by blast
  have c1: "conn s1" using ins c by (auto simp: insertRow_def Let_def split: if_splits)
  have "appends_trail s1 s'" by (rule follows_stepD [OF writeTrail_appends tr])
  then have "trows (voterRegistrationsT s') = trows (voterRegistrationsT s) @ [v]"
    using voterRegistrationsL.insert_Inr [OF ins] by (simp add: appends_trail_def)
  moreover have "has_trail pid meta s' (row_id v)"
    using writeTrail_trail [of pid "row_id v" meta s1 s'] tr c1 meta v by simp
  ultimately show ?thesis
    using meta v by (auto simp: new_voter_def normalizeVoterRow_def)
qed

section \<open>The bulk import\<close>

lemma concat_chunks: "0 < n \<Longrightarrow> concat (chunks n xs) = xs"
proof (induction n xs rule: chunks.induct)
  case (1 n xs)
  then show ?case by (subst chunks.simps) auto
qed

lemma chunk_length: "c \<in> set (chunks n xs) \<Longrightarrow> length c \<le> n"
proof (induction n xs rule: chunks.induct)
  case (1 n xs)
  show ?case
  proof (cases "n = 0 \<or> xs = []")
    case True
    with 1(2) show ?thesis by (simp add: chunks.simps [of n xs])
  next
    case False
    with 1(2) have "c = take n xs \<or> c \<in> set (chunks n (drop n xs))" by (simp add: chunks.simps [of n xs])
    with 1(1) False show ?thesis by auto
  qed
qed

lemma forE_trails:
  assumes "forE rs (\<lambda>r. writeVoterComplianceTrail (Some pid) (row_id r) meta) s = (Inr (), s')"
    and "conn s" and "vm_purpose meta \<noteq> None" and "vm_dataSource meta \<noteq> None"
  shows "appends_trail s s' \<and> list_all (\<lambda>r. has_trail pid meta s' (row_id r)) rs"
  using assms
proof (induction rs arbitrary: s)
  case Nil
  then show ?case by (simp add: run_simps trail_step.refl)
next
  case (Cons r rs)
  from Cons.prems(1) obtain s1 where
    first: "writeVoterComplianceTrail (Some pid) (row_id r) meta s = (Inr (), s1)"
    and rest: "forE rs (\<lambda>r. writeVoterComplianceTrail (Some pid) (row_id r) meta) s1 = (Inr (), s')"
    by (auto elim!: seqE_InrE)
  have ap: "appends_trail s s1" by (rule follows_stepD [OF writeTrail_appends first])
  with Cons.prems(2) have "conn s1" by (simp add: appends_trail_def)
  with Cons.IH rest Cons.prems have ih: "appends_trail s1 s' \<and> list_all (\<lambda>r. has_trail pid meta s' (row_id r)) rs"
    by blast
  moreover have "has_trail pid meta s1 (row_id r)"
    using writeTrail_trail first Cons.prems by blast
  ultimately show ?case
    using ap has_trail_mono trail_step.trans [of s s1 s'] by auto
qed

text \<open>What an import round or a whole import did: the new voter rows are the importable rows of
  the input, in order, each with its trail.\<close>

definition imported :: "int \<Rightarrow> voterComplianceMeta \<Rightarrow> voterData list \<Rightarrow> nat \<Rightarrow> world \<Rightarrow> world \<Rightarrow> bool" where
  "imported pid meta rows n s s' \<longleftrightarrow>
     (\<exists>vs. trows (voterRegistrationsT s') = trows (voterRegistrationsT s) @ vs \<and> length vs = n \<and>
        list_all2 (\<lambda>d v. v = new_voter pid (clock s) (normalizeVoterRow d) (row_id v)) (filter importable rows) vs \<and>
        list_all (\<lambda>v. has_trail pid meta s' (row_id v)) vs) \<and>
     (\<forall>i. has_trail pid meta s i \<longrightarrow> has_trail pid meta s' i) \<and> conn s' = conn s \<and> clock s' = clock s"

lemma imported_append:
  assumes "imported pid meta xs m s s1" and "imported pid meta ys n s1 s2"
  shows "imported pid meta (xs @ ys) (m + n) s s2"
proof -
  from assms obtain vs ws where
    "trows (voterRegistrationsT s1) = trows (voterRegistrationsT s) @ vs"
    "trows (voterRegistrationsT s2) = trows (voterRegistrationsT s1) @ ws"
    "length vs = m" "length ws = n"
    "list_all2 (\<lambda>d v. v = new_voter pid (clock s) (normalizeVoterRow d) (row_id v)) (filter importable xs) vs"
    "list_all2 (\<lambda>d v. v = new_voter pid (clock s1) (normalizeVoterRow d) (row_id v)) (filter importable ys) ws"
    "list_all (\<lambda>v. has_trail pid meta s1 (row_id v)) vs"
    "list_all (\<lambda>v. has_trail pid meta s2 (row_id v)) ws"
    "\<forall>i. has_trail pid meta s1 i \<longrightarrow> has_trail pid meta s2 i" "clock s1 = clock s"
    unfolding imported_def by blast
  then have "trows (voterRegistrationsT s2) = trows (voterRegistrationsT s) @ (vs @ ws) \<and>
      length (vs @ ws) = m + n \<and>
      list_all2 (\<lambda>d v. v = new_voter pid (clock s) (normalizeVoterRow d) (row_id v))
        (filter importable (xs @ ys)) (vs @ ws) \<and>
      list_all (\<lambda>v. has_trail pid meta s2 (row_id v)) (vs @ ws)"
    by (auto simp: list_all_iff intro: list_all2_appendI)
  with assms show ?thesis unfolding imported_def by auto
qed

lemma importChunk_imported:
  assumes "importChunk pid meta part s = (Inr n, s')" and "conn s"
    and "vm_purpose meta \<noteq> None" and "vm_dataSource meta \<noteq> None"
  shows "imported pid meta part n s s'"
proof (cases "filter importable part = []")
  case True
  with assms(1) show ?thesis by (auto simp: importChunk_def Let_def run_simps imported_def)
next
  case False
  define mks where "mks = map (new_voter pid (clock s)) (map normalizeVoterRow (filter importable part))"
  from assms(1) False have "bindE (insertRows voterRegistrationsD mks) (\<lambda>result.
      seqE (forE result (\<lambda>r. writeVoterComplianceTrail (Some pid) (row_id r) meta))
        (returnE (length result))) s = (Inr n, s')"
    by (simp add: importChunk_def Let_def bindE_run [where m = "getE f" for f] getE_run mks_def)
  then obtain vs s1 where
    ins: "insertRows voterRegistrationsD mks s = (Inr vs, s1)"
    and tr: "forE vs (\<lambda>r. writeVoterComplianceTrail (Some pid) (row_id r) meta) s1 = (Inr (), s')"
    and n: "n = length vs"
    by (auto simp: returnE_run elim!: bindE_InrE seqE_InrE)
  note rows = voterRegistrationsL.insertRows_Inr [OF ins]
  have same: "conn s1 = conn s \<and> clock s1 = clock s \<and> consentRecordsT s1 = consentRecordsT s \<and>
      dataProvenanceLedgerT s1 = dataProvenanceLedgerT s"
    using voterRegistrationsL.insertRows_frame [of mks s] ins by auto
  have trail: "appends_trail s1 s' \<and> list_all (\<lambda>r. has_trail pid meta s' (row_id r)) vs"
    using forE_trails [OF tr] same assms by simp
  have "list_all2 (\<lambda>d v. v = new_voter pid (clock s) (normalizeVoterRow d) (row_id v)) (filter importable part) vs"
    using rows by (auto simp: mks_def list_all2_map1 new_voter_def elim!: list_all2_mono)
  moreover have "has_trail pid meta s i \<Longrightarrow> has_trail pid meta s' i" for i
    using trail same has_trail_mono [of s1 s'] by (auto simp: has_trail_def)
  ultimately show ?thesis
    using trail same rows n by (auto simp: imported_def appends_trail_def)
qed

lemma importChunks_imported:
  assumes "importChunks pid meta parts k s = (Inr n, s')" and "conn s"
    and "vm_purpose meta \<noteq> None" and "vm_dataSource meta \<noteq> None"
  shows "k \<le> n \<and> imported pid meta (concat parts) (n - k) s s'"
  using assms
proof (induction parts arbitrary: k s)
  case Nil
  then show ?case by (auto simp: run_simps imported_def)
next
  case (Cons part parts)
  then obtain m s1 where first: "importChunk pid meta part s = (Inr m, s1)"
    and rest: "importChunks pid meta parts (k + m) s1 = (Inr n, s')"
    by (auto elim!: bindE_InrE)
  have i1: "imported pid meta part m s s1" using importChunk_imported first Cons.prems by blast
  then have "conn s1" using Cons.prems(2) by (simp add: imported_def)
  with Cons.IH [OF rest] Cons.prems have ih: "k + m \<le> n \<and> imported pid meta (concat parts) (n - (k + m)) s1 s'"
    by blast
  then show ?case using imported_append [OF i1, of "concat parts" "n - (k + m)" s'] by simp
qed

text \<open>The bulk import, written in chunks of a hundred, adds exactly the input rows with a
  non-blank name, in their order, reports their number, and leaves a consent record
  and a provenance entry for each.\<close>

theorem bulk_import_equals_plain:
  assumes run: "bulkAddVoterRegistrations pid rows (Some meta) s = (Inr n, s')" and c: "conn s"
  shows "length rows \<le> 500 \<and> n = length (filter importable rows) \<and> imported pid meta rows n s s'"
proof -
  from run obtain m where m: "assertVoterCompliance (Some meta) s = (Inr m, s)"
    by (auto simp: bulkAddVoterRegistrations_def elim!: bindE_InrE dest: assertVoterCompliance_Inr)
  then have "m = meta" and meta: "vm_purpose meta \<noteq> None" "vm_dataSource meta \<noteq> None"
    by (auto dest: assertVoterCompliance_Inr)
  with run m c have len: "length rows \<le> 500" and
    imp: "importChunks pid meta (chunks 100 rows) 0 s = (Inr n, s')"
    by (auto simp: bulkAddVoterRegistrations_def assertBulkImportSize_def bindE_run withDb_run seqE_run
        guardE_run MAX_BULK_IMPORT_ROWS_def BULK_INSERT_CHUNK_SIZE_def split: if_splits)
  have imp': "imported pid meta rows n s s'"
    using importChunks_imported [OF imp c meta] by (simp add: concat_chunks)
  then have "n = length (filter importable rows)"
    by (auto simp: imported_def dest: list_all2_lengthD)
  with len imp' show ?thesis by simp
qed

definition declared :: "voterComplianceMeta option \<Rightarrow> bool" where
  "declared compliance \<longleftrightarrow> (case compliance of None \<Rightarrow> False | Some m \<Rightarrow>
     \<not> blank (vm_dataSource m) \<and> lawfulBasis_of (vm_consentBasis m) \<noteq> None \<and>
     (lawfulBasis_of (vm_consentBasis m) = Some Consent \<longrightarrow> truthy_str (vm_consentMethod m)) \<and>
     \<not> blank (vm_purpose m))"

lemma lawfulBasis_consent: "lawfulBasis_of t = Some Consent \<longleftrightarrow> t = ''consent''"
  by (simp add: lawfulBasis_of_def)

lemma assertVoterCompliance_declared:
  "assertVoterCompliance c s =
     (if declared c then (Inr (the c), s) else (Inl (projl (fst (assertVoterCompliance c s))), s)) \<and>
   (\<not> declared c \<longrightarrow> (\<exists>msg. fst (assertVoterCompliance c s) = Inl (TRPC BAD_REQUEST msg)))"
  by (cases c) (auto simp: assertVoterCompliance_def declared_def run_simps lawfulBasis_consent)

text \<open>A write without a declared source, lawful basis, consent method where consent is the
  basis, or purpose is refused with BAD\_REQUEST, and a batch of more than 500 rows with
  an error, before anything is written.\<close>

theorem undeclared_writes_refused:
  "(\<not> declared compliance \<longrightarrow>
      (\<exists>msg. addVoterRegistration pid d compliance s = (Inl (TRPC BAD_REQUEST msg), s) \<and>
        bulkAddVoterRegistrations pid rows compliance s = (Inl (TRPC BAD_REQUEST msg), s))) \<and>
   (declared compliance \<and> conn s \<and> 500 < length rows \<longrightarrow>
      bulkAddVoterRegistrations pid rows compliance s =
        (Inl (PlainError ''voter bulk import: too many rows''), s))"
proof (intro conjI impI)
  assume "\<not> declared compliance"
  with assertVoterCompliance_declared [of compliance s] obtain msg where
    "assertVoterCompliance compliance s = (Inl (TRPC BAD_REQUEST msg), s)"
    by (metis prod.collapse snd_conv)
  then show "\<exists>msg. addVoterRegistration pid d compliance s = (Inl (TRPC BAD_REQUEST msg), s) \<and>
      bulkAddVoterRegistrations pid rows compliance s = (Inl (TRPC BAD_REQUEST msg), s)"
    by (auto simp: addVoterRegistration_def bulkAddVoterRegistrations_def bindE_run)
next
  assume "declared compliance \<and> conn s \<and> 500 < length rows"
  then show "bulkAddVoterRegistrations pid rows compliance s =
      (Inl (PlainError ''voter bulk import: too many rows''), s)"
    using assertVoterCompliance_declared [of compliance s]
    by (simp add: bulkAddVoterRegistrations_def assertBulkImportSize_def MAX_BULK_IMPORT_ROWS_def
        bindE_run withDb_run seqE_run guardE_run)
qed

section \<open>Consent history\<close>

definition addressed :: "int \<Rightarrow> int \<Rightarrow> 'z trow_scheme \<Rightarrow> bool" where
  "addressed i pid r \<longleftrightarrow> row_id r = i \<and> profileId r = Some pid"

text \<open>What a consent record documents, apart from its present state.\<close>

definition consent_facts ::
  "consentRecord \<Rightarrow> int \<times> int option \<times> subjectTable \<times> int \<times> lawfulBasis \<times> string \<times> time option" where
  "consent_facts r =
     (row_id r, profileId r, cr_subjectTable r, cr_subjectId r, cr_lawfulBasis r, cr_purpose r, cr_consentedAt r)"

lemma filter_not_updated:
  "(\<And>r. P (f r) = P r) \<Longrightarrow> filter (\<lambda>r. \<not> P r) (map (\<lambda>r. if P r then f r else r) rs) = filter (\<lambda>r. \<not> P r) rs"
  by (induction rs) auto

text \<open>Withdrawing consent deletes no record and rewrites none but the addressed one of the
  caller's campaign, whose subject, basis, purpose and grant time stay on record and which
  is not active afterwards; for any other id the answer is NOT\_FOUND and nothing changes.\<close>

theorem withdrawal_keeps_history:
  assumes "conn s" and "withdrawConsent i pid s = (res, s')"
  shows "map consent_facts (trows (consentRecordsT s')) = map consent_facts (trows (consentRecordsT s)) \<and>
    filter (\<lambda>r. \<not> addressed i pid r) (trows (consentRecordsT s')) =
      filter (\<lambda>r. \<not> addressed i pid r) (trows (consentRecordsT s)) \<and>
    (case res of
       Inr _ \<Rightarrow> list_ex (addressed i pid) (trows (consentRecordsT s)) \<and>
         \<not> list_ex (\<lambda>r. addressed i pid r \<and> active_consent r) (trows (consentRecordsT s'))
     | Inl e \<Rightarrow> s' = s)"
proof -
  define f where "f = (\<lambda>r :: consentRecord. r\<lparr>cr_withdrawnAt := Some (clock s), cr_consentGranted := False,
    cr_updatedAt := clock s\<rparr>)"
  have run: "withdrawConsent i pid s = bindE (updateRows consentRecordsD (addressed i pid) f) (\<lambda>rows.
      case rows of [] \<Rightarrow> throwE (TRPC NOT_FOUND ''Consent record not found'') | r # _ \<Rightarrow> returnE (Some r)) s"
    using assms(1) by (simp add: withdrawConsent_def withDb_run bindE_run [where m = "getE g" for g] getE_run
        addressed_def [abs_def] f_def)
  have f: "addressed i pid (f r) = addressed i pid r" "consent_facts (f r) = consent_facts r"
    "\<not> active_consent (f r)" for r
    by (simp_all add: addressed_def f_def consent_facts_def active_consent_def)
  show ?thesis
  proof (cases "updateRows consentRecordsD (addressed i pid) f s")
    case (Pair u s1)
    show ?thesis
    proof (cases u)
      case (Inl e)
      then have "s1 = s" using consentRecordsL.update_Inl Pair by simp
      with Pair Inl assms run show ?thesis by (auto simp: bindE_run)
    next
      case (Inr hit)
      note upd = consentRecordsL.update_Inr [OF Pair [unfolded Inr]]
      show ?thesis
      proof (cases hit)
        case Nil
        then have "s1 = s" using consentRecordsL.update_none Pair Inr by simp
        with Nil Pair Inr assms run show ?thesis by (auto simp: bindE_run throwE_run)
      next
        case (Cons r rs)
        with Pair Inr assms run have s': "s' = s1" and res: "res = Inr (Some r)"
          by (auto simp: bindE_run returnE_run)
        have "filter (addressed i pid) (trows (consentRecordsT s)) \<noteq> []" using upd Cons by auto
        then have ex: "list_ex (addressed i pid) (trows (consentRecordsT s))"
          by (auto simp: list_ex_iff filter_empty_conv)
        have rows: "trows (consentRecordsT s') =
            map (\<lambda>r. if addressed i pid r then f r else r) (trows (consentRecordsT s))"
          using upd s' by simp
        have "map consent_facts (trows (consentRecordsT s')) = map consent_facts (trows (consentRecordsT s))"
          unfolding rows by (simp add: f)
        moreover have "filter (\<lambda>r. \<not> addressed i pid r) (trows (consentRecordsT s')) =
            filter (\<lambda>r. \<not> addressed i pid r) (trows (consentRecordsT s))"
          unfolding rows by (rule filter_not_updated) (rule f)
        moreover have "\<not> list_ex (\<lambda>r. addressed i pid r \<and> active_consent r) (trows (consentRecordsT s'))"
          unfolding rows by (auto simp: list_ex_iff f)
        ultimately show ?thesis using res ex by simp
      qed
    qed
  qed
qed

section \<open>Erasure\<close>

text \<open>The ids of the rows a campaign holds about the subjects of one kind.\<close>

definition subject_ids :: "subjectTable \<Rightarrow> int \<Rightarrow> world \<Rightarrow> int list" where
  "subject_ids subj pid s =
     (case subj of
        SubjVoterRegistrations \<Rightarrow> map row_id (tenant_rows voterRegistrationsD pid s)
      | SubjDiasporaContacts \<Rightarrow> map row_id (tenant_rows diasporaContactsD pid s)
      | SubjStakeholderContacts \<Rightarrow> map row_id (tenant_rows stakeholderContactsD pid s)
      | SubjVolunteers \<Rightarrow> map row_id (tenant_rows volunteersD pid s)
      | SubjCampaignMembers \<Rightarrow> map row_id (tenant_rows campaignMembersD pid s)
      | SubjPetitionSignatures \<Rightarrow>
          map row_id (filter (\<lambda>g. ps_petitionId g \<in> Some ` row_id ` set (tenant_rows petitionsD pid s))
            (trows (petitionSignaturesT s))))"

lemma tenant_ids_delete:
  "map row_id (filter (\<lambda>r. profileId r = Some pid) (filter (\<lambda>r. row_id r = sid \<longrightarrow> profileId r \<noteq> Some pid) rs)) =
   filter (\<lambda>i. i \<noteq> sid) (map row_id (filter (\<lambda>r. profileId r = Some pid) rs))"
  by (induction rs) auto

lemma signature_ids_delete:
  "map row_id (filter (\<lambda>g. ps_petitionId g \<in> A) (filter (\<lambda>r. row_id r = sid \<longrightarrow> ps_petitionId r \<notin> A) rs)) =
   filter (\<lambda>i. i \<noteq> sid) (map row_id (filter (\<lambda>g. ps_petitionId g \<in> A) rs))"
  by (induction rs) auto

lemma delete_table:
  "deleteRows D P s = (Inr rs, s') \<Longrightarrow> s' = tput D ((tget D s)\<lparr>trows := filter (\<lambda>r. \<not> P r) (trows (tget D s))\<rparr>) s"
  by (auto simp: deleteRows_def Let_def split: if_splits)

lemma eraseSubject_erases:
  assumes "eraseSubject pid subj sid s = (Inr x, s')"
  shows "subj \<noteq> SubjCampaignMembers \<and> subject_ids subj pid s' = filter (\<lambda>i. i \<noteq> sid) (subject_ids subj pid s) \<and>
    conn s' = conn s \<and> clock s' = clock s \<and> dataSubjectRequestsT s' = dataSubjectRequestsT s \<and>
    dataAccessAuditT s' = dataAccessAuditT s \<and> candidateProfilesT s' = candidateProfilesT s"
  using assms
  by (cases subj)
    (auto simp: eraseSubject_def subject_ids_def tenant_rows_def selectRows_run throwE_run
      tenant_ids_delete signature_ids_delete simp del: filter_filter
      dest!: delete_table elim!: voidE_InrE bindE_InrE)

text \<open>The request a resolution works on.\<close>

definition open_request :: "int \<Rightarrow> int \<Rightarrow> world \<Rightarrow> dataSubjectRequest option" where
  "open_request i pid s = first_row (filter (addressed i pid) (trows (dataSubjectRequestsT s)))"

lemma resolveDsar_open:
  "conn s \<Longrightarrow> open_request i pid s = Some req \<Longrightarrow>
   resolveDsar i pid action reason s = resolveRequest i pid action reason req s"
  by (auto simp: resolveDsar_def open_request_def addressed_def [abs_def] withDb_run bindE_run selectRows_run
      first_row_def split: list.splits)

lemma logDataAccess_Inr:
  assumes "logDataAccess pid ai an subj act n pu s = (Inr x, s')" and "conn s"
  shows "\<exists>e. trows (dataAccessAuditT s') = trows (dataAccessAuditT s) @ [e] \<and> profileId e = Some pid \<and>
    da_subjectTable e = subj \<and> da_action e = act \<and> da_purpose e = pu \<and> (\<exists>t. s' = s\<lparr>dataAccessAuditT := t\<rparr>)"
proof -
  define mk where "mk = (\<lambda>i. \<lparr>row_id = i, profileId = Some pid, da_actorId = ai, da_actorName = an,
    da_subjectTable = subj, da_action = act, da_rowCount = n, da_purpose = pu, da_createdAt = clock s\<rparr>)"
  have "voidE (insertRow dataAccessAuditD None mk) s = (Inr x, s')"
    using assms by (simp add: logDataAccess_def withDb_run bindE_run [where m = "getE g" for g] getE_run mk_def)
  then obtain e where e: "insertRow dataAccessAuditD None mk s = (Inr e, s')" by (elim voidE_InrE)
  obtain i where "e = (mk i)\<lparr>row_id := i\<rparr>" using dataAccessAuditL.insert_Inr [OF e] by blast
  moreover have "\<exists>t. s' = s\<lparr>dataAccessAuditT := t\<rparr>" using dataAccessAuditL.insert_frame [of None mk s] e by simp
  ultimately show ?thesis using dataAccessAuditL.insert_Inr [OF e] by (auto simp: mk_def)
qed

lemma subject_ids_frame:
  "subject_ids subj pid (s\<lparr>dataAccessAuditT := t\<rparr>) = subject_ids subj pid s"
  "subject_ids subj pid (s\<lparr>dataSubjectRequestsT := t'\<rparr>) = subject_ids subj pid s"
  by (cases subj; simp add: subject_ids_def tenant_rows_def)+

lemma markFulfilled_Inr:
  assumes "markFulfilled i s = (Inr x, s')"
  shows "(\<exists>t. s' = s\<lparr>dataSubjectRequestsT := t\<rparr>) \<and>
    list_all (\<lambda>r. row_id r = i \<longrightarrow> dr_status r = ''fulfilled'') (trows (dataSubjectRequestsT s'))"
proof -
  from assms obtain hit where
    u: "updateRows dataSubjectRequestsD (\<lambda>r. row_id r = i)
      (\<lambda>r. r\<lparr>dr_status := ''fulfilled'', dr_fulfilledAt := Some (clock s), dr_updatedAt := clock s\<rparr>) s = (Inr hit, s')"
    by (auto simp: markFulfilled_def getE_run returnE_run elim!: bindE_InrE)
  have "\<exists>t. s' = s\<lparr>dataSubjectRequestsT := t\<rparr>"
    using dataSubjectRequestsL.update_frame [of "\<lambda>r. row_id r = i"
      "\<lambda>r. r\<lparr>dr_status := ''fulfilled'', dr_fulfilledAt := Some (clock s), dr_updatedAt := clock s\<rparr>" s] u by simp
  moreover have rows: "trows (dataSubjectRequestsT s') = map (\<lambda>r. if row_id r = i
      then r\<lparr>dr_status := ''fulfilled'', dr_fulfilledAt := Some (clock s), dr_updatedAt := clock s\<rparr> else r)
      (trows (dataSubjectRequestsT s))"
    using dataSubjectRequestsL.update_Inr [OF u] by simp
  moreover have "list_all (\<lambda>r. row_id r = i \<longrightarrow> dr_status r = ''fulfilled'') (trows (dataSubjectRequestsT s'))"
    unfolding rows list.pred_map by (simp add: list_all_iff)
  ultimately show ?thesis by simp
qed


text \<open>When the subject's name is longer than 172 characters (200 are accepted on filing), the
  audit purpose no longer fits its column: fulfilling an erasure then removes the
  subject's row but ends in a database error, with no audit entry and the request
  as it was.\<close>

theorem erasure_long_name_unlogged:
  assumes "conn s" and "open_request i pid s = Some req"
    and "dr_requestType req = ''erasure''" and "dr_subjectTable req = Some subj"
    and "dr_subjectId req = Some sid" and "sid \<noteq> 0" and "172 < length (dr_subjectName req)"
    and "eraseSubject pid subj sid s = (Inr (), s1)"
  shows "\<exists>s'. resolveDsar i pid Fulfill reason s = (Inl (PgError CheckViolation), s') \<and>
    subject_ids subj pid s' = filter (\<lambda>k. k \<noteq> sid) (subject_ids subj pid s) \<and>
    trows (dataAccessAuditT s') = trows (dataAccessAuditT s) \<and>
    dataSubjectRequestsT s' = dataSubjectRequestsT s"
proof -
  note e = eraseSubject_erases [OF assms(8)]
  have "show_int i \<noteq> []" by (simp add: show_int_def digits_rev_nonempty)
  then have "200 < length (erasurePurpose i (dr_subjectName req))"
    using assms(7) by (cases "show_int i") (auto simp: erasurePurpose_def)
  then have log: "\<exists>t. logDataAccess pid None None subj ''dsar_erasure'' (Some 1)
      (Some (erasurePurpose i (dr_subjectName req))) s1 =
      (Inl (PgError CheckViolation), s1\<lparr>dataAccessAuditT := t\<rparr>) \<and> trows t = trows (dataAccessAuditT s1)"
    using e assms(1)
    by (simp add: logDataAccess_def withDb_run bindE_run getE_run voidE_run insertRow_def Let_def
        table_simps dataAccessAudit_chk_def vco_def) (rule exI, rule conjI, rule refl, simp)
  with assms e show ?thesis
    by (auto simp: resolveDsar_open resolveRequest_def fulfilErasure_def seqE_run subject_ids_frame)
qed

text \<open>Rejecting a request needs a reason that is not blank, deletes nothing and changes only
  the request's status, reason and update time.\<close>

theorem rejection_needs_reason:
  assumes "conn s" and "open_request i pid s = Some req"
  shows "(blank reason \<longrightarrow> resolveDsar i pid Reject reason s =
      (Inl (TRPC BAD_REQUEST ''rejectionReason is required when rejecting a DSAR''), s)) \<and>
    (\<not> blank reason \<longrightarrow> (\<forall>res s'. resolveDsar i pid Reject reason s = (Inr res, s') \<longrightarrow>
      s' = s\<lparr>dataSubjectRequestsT := (dataSubjectRequestsT s)\<lparr>trows := map (\<lambda>r. if row_id r = i
        then r\<lparr>dr_status := ''rejected'', dr_rejectionReason := reason, dr_updatedAt := clock s\<rparr> else r)
          (trows (dataSubjectRequestsT s))\<rparr>\<rparr>))"
  using assms
  by (auto simp: resolveDsar_open resolveRequest_def rejectDsar_def run_simps updateRows_def Let_def
      split: prod.splits sum.splits if_splits)

section \<open>Concrete runs\<close>

definition demo_voter :: voterData where
  "demo_voter = \<lparr>vd_fullName = ''Chidi'', vd_vin = None, vd_vinNumber = Some ''VIN1'', vd_lga = None,
     vd_ward = None, vd_pollingUnit = None, vd_phone = None, vd_accessibilityNeeds = None\<rparr>"

definition demo_meta :: voterComplianceMeta where
  "demo_meta = \<lparr>vm_dataSource = Some ''referral'', vm_consentBasis = ''consent'',
     vm_consentMethod = Some ''written'', vm_purpose = Some ''gotv'', vm_collectedBy = None\<rparr>"

definition demo_request :: "string \<Rightarrow> dataSubjectRequest" where
  "demo_request name =
     \<lparr>row_id = 9, profileId = Some 1, dr_requestType = ''erasure'', dr_subjectName = name,
      dr_subjectContact = None, dr_subjectTable = Some SubjVoterRegistrations, dr_subjectId = Some 4,
      dr_status = ''open'', dr_receivedAt = 0, dr_dueAt = 30, dr_fulfilledAt = None,
      dr_rejectionReason = None, dr_notes = None, dr_createdAt = 0, dr_updatedAt = 0\<rparr>"

definition demo_records :: "string \<Rightarrow> world" where
  "demo_records name = demo_world
     \<lparr>voterRegistrationsT := \<lparr>trows = [new_voter 1 0 demo_voter 4, new_voter 1 0 demo_voter 5], nextId = 6\<rparr>,
      consentRecordsT := \<lparr>trows = [trail_consent (Some 1) 0 4 demo_meta Consent 3], nextId = 4\<rparr>,
      dataSubjectRequestsT := \<lparr>trows = [demo_request name], nextId = 10\<rparr>\<rparr>"

lemmas demo_run_simps = run_simps insertRow_def insertRows_def updateRows_def deleteRows_def Let_def table_simps
  vc_def vco_def int4_def int4o_def fk_def fko_def demo_world_def empty_world_def no_rows_def
  demo_profile_def demo_user_def first_row_def

lemma demo_add:
  "\<exists>v s'. addVoterRegistration 1 demo_voter (Some demo_meta) demo_world = (Inr (Some v), s')"
  by (simp add: addVoterRegistration_def assertVoterCompliance_def blank_def demo_meta_def demo_voter_def
      lawfulBasis_of_def trim_def trimLeft_def is_space_def normalizeVoterRow_def new_voter_def
      writeVoterComplianceTrail_def trail_consent_def trail_provenance_def new_consent_def
      voterRegistrations_chk_def consentRecords_chk_def dataProvenanceLedger_chk_def demo_run_simps
      voterRegistrationsD_def consentRecordsD_def dataProvenanceLedgerD_def)

theorem voter_write_leaves_trail_witness:
  "\<exists>v s'. addVoterRegistration 1 demo_voter (Some demo_meta) demo_world = (Inr (Some v), s') \<and>
     has_trail 1 demo_meta s' (row_id v)"
proof -
  obtain v s' where run: "addVoterRegistration 1 demo_voter (Some demo_meta) demo_world = (Inr (Some v), s')"
    using demo_add by blast
  with voter_write_leaves_trail [OF run] show ?thesis by auto
qed

lemma demo_bulk:
  "\<exists>n s'. bulkAddVoterRegistrations 1 [demo_voter] (Some demo_meta) demo_world = (Inr n, s')"
  by (simp add: bulkAddVoterRegistrations_def assertBulkImportSize_def MAX_BULK_IMPORT_ROWS_def
      BULK_INSERT_CHUNK_SIZE_def chunks.simps importChunk_def importable_def
      assertVoterCompliance_def blank_def demo_meta_def demo_voter_def
      lawfulBasis_of_def trim_def trimLeft_def is_space_def normalizeVoterRow_def new_voter_def
      writeVoterComplianceTrail_def trail_consent_def trail_provenance_def new_consent_def
      voterRegistrations_chk_def consentRecords_chk_def dataProvenanceLedger_chk_def demo_run_simps
      voterRegistrationsD_def consentRecordsD_def dataProvenanceLedgerD_def)

theorem bulk_import_equals_plain_witness:
  "\<exists>n s'. bulkAddVoterRegistrations 1 [demo_voter] (Some demo_meta) demo_world = (Inr n, s') \<and>
     imported 1 demo_meta [demo_voter] n demo_world s'"
proof -
  obtain n s' where run: "bulkAddVoterRegistrations 1 [demo_voter] (Some demo_meta) demo_world = (Inr n, s')"
    using demo_bulk by blast
  with bulk_import_equals_plain [OF run] show ?thesis by auto
qed

lemma demo_records_simps:
  "conn (demo_records n)" "clock (demo_records n) = 0"
  "trows (dataSubjectRequestsT (demo_records n)) = [demo_request n]"
  "trows (voterRegistrationsT (demo_records n)) = [new_voter 1 0 demo_voter 4, new_voter 1 0 demo_voter 5]"
  "trows (consentRecordsT (demo_records n)) = [trail_consent (Some 1) 0 4 demo_meta Consent 3]"
  "trows (candidateProfilesT (demo_records n)) = [demo_profile 1 1, demo_profile 2 2]"
  "open_request 9 1 (demo_records n) = Some (demo_request n)"
  "dr_requestType (demo_request n) = ''erasure''" "dr_subjectName (demo_request n) = n"
  "dr_subjectTable (demo_request n) = Some SubjVoterRegistrations" "dr_subjectId (demo_request n) = Some 4"
  by (simp_all add: demo_records_def open_request_def addressed_def demo_request_def)

lemma demo_erase:
  "eraseSubject 1 SubjVoterRegistrations 4 (demo_records n) =
     (Inr (), (demo_records n)\<lparr>voterRegistrationsT := \<lparr>trows = [new_voter 1 0 demo_voter 5], nextId = 6\<rparr>\<rparr>)"
  by (simp add: eraseSubject_def voidE_run deleteRows_def Let_def demo_records_simps voterRegistrationsD_def
      new_voter_def) (simp add: demo_records_def)

theorem withdrawal_keeps_history_witness:
  "\<not> list_ex (\<lambda>r. addressed 3 1 r \<and> active_consent r)
     (trows (consentRecordsT (snd (withdrawConsent 3 1 (demo_records ''Chidi'')))))"
proof -
  have "\<exists>r s'. withdrawConsent 3 1 (demo_records ''Chidi'') = (Inr r, s')"
    by (simp add: withdrawConsent_def demo_records_simps trail_consent_def new_consent_def demo_meta_def
        consentRecords_chk_def demo_run_simps)
  then obtain r s' where run: "withdrawConsent 3 1 (demo_records ''Chidi'') = (Inr r, s')" by blast
  with withdrawal_keeps_history [OF _ run] show ?thesis by (simp add: demo_records_simps)
qed


theorem erasure_long_name_unlogged_witness:
  "\<exists>s'. resolveDsar 9 1 Fulfill None (demo_records (replicate 190 CHR ''x'')) = (Inl (PgError CheckViolation), s') \<and>
     dataSubjectRequestsT s' = dataSubjectRequestsT (demo_records (replicate 190 CHR ''x''))"
proof -
  have "172 < length (dr_subjectName (demo_request (replicate 190 CHR ''x'')))"
    by (simp add: demo_records_simps)
  then show ?thesis
    using erasure_long_name_unlogged [OF _ _ _ _ _ _ _ demo_erase, of _ 9 "demo_request (replicate 190 CHR ''x'')" None]
    by (fastforce simp: demo_records_simps)
qed

theorem rejection_needs_reason_witness:
  "fst (resolveDsar 9 1 Reject (Some '' '') (demo_records ''Chidi'')) =
     Inl (TRPC BAD_REQUEST ''rejectionReason is required when rejecting a DSAR'')"
  using rejection_needs_reason [of "demo_records ''Chidi''" 9 1 "demo_request ''Chidi''" "Some '' ''"]
  by (simp add: demo_records_simps blank_def trim_def trimLeft_def is_space_def)

theorem undeclared_writes_refused_witness:
  "\<exists>msg. addVoterRegistration 1 demo_voter None demo_world = (Inl (TRPC BAD_REQUEST msg), demo_world)"
  using undeclared_writes_refused [of None 1 demo_voter demo_world "[]"] by (auto simp: declared_def)

end
