(* ===== verification/Outbound.thy ===== *)
theory Outbound
  imports Voter_Compliance
begin

text \<open>
  What leaves the process and what it costs: the owner notifications of
  \<^verbatim>\<open>server/_core/notification.ts\<close>, the war-room broadcasts of \<^verbatim>\<open>server/_core/sse.ts\<close>, and the
  per-user budget of AI calls in \<^verbatim>\<open>server/routers.ts\<close>. The notification service itself is
  the two flags \<open>notifyConfigured\<close> and \<open>notifyUp\<close> of the state.
\<close>

definition validatePayload :: "string \<Rightarrow> string \<Rightarrow> (world, string \<times> string) proc" where
  "validatePayload title content =
     (if trim title = [] then throwE (TRPC BAD_REQUEST ''Notification title is required.'')
      else if trim content = [] then throwE (TRPC BAD_REQUEST ''Notification content is required.'')
      else if length (trim title) > 1200
      then throwE (TRPC BAD_REQUEST ''Notification title must be at most 1200 characters.'')
      else if length (trim content) > 20000
      then throwE (TRPC BAD_REQUEST ''Notification content must be at most 20000 characters.'')
      else returnE (trim title, trim content))"

definition notifyOwner :: "string \<Rightarrow> string \<Rightarrow> (world, bool) proc" where
  "notifyOwner title content =
     bindE (validatePayload title content) (\<lambda>payload.
     bindE (getE notifyConfigured) (\<lambda>configured.
     if \<not> configured
     then throwE (TRPC INTERNAL_SERVER_ERROR ''Notification service URL is not configured.'')
     else bindE (getE notifyUp) (\<lambda>up.
          if up then seqE (modifyE (\<lambda>s. s\<lparr>outbox := outbox s @ [payload]\<rparr>)) (returnE True)
          else returnE False)))"

text \<open>\<open>try { await notifyOwner(...) } catch { }\<close>: a failed notification blocks nothing.\<close>

definition tryNotifyOwner :: "string \<Rightarrow> string \<Rightarrow> (world, unit) proc" where
  "tryNotifyOwner title content = catchE (voidE (notifyOwner title content)) (\<lambda>_. returnE ())"

definition broadcastWarRoomUpdate :: "int \<Rightarrow> (world, unit) proc" where
  "broadcastWarRoomUpdate pid = modifyE (\<lambda>s. s\<lparr>broadcasts := broadcasts s @ [pid]\<rparr>)"

definition LLM_WINDOW_SECONDS :: int where "LLM_WINDOW_SECONDS = 60 * 60"

definition LLM_MAX_CALLS_PER_USER :: int where "LLM_MAX_CALLS_PER_USER = 20"

definition assertLlmCallAllowed :: "int \<Rightarrow> (world, unit) proc" where
  "assertLlmCallAllowed userId =
     bindE (hitRateLimit (''llm:'' @ show_int userId) LLM_WINDOW_SECONDS LLM_MAX_CALLS_PER_USER) (\<lambda>hit.
     guardE (allowed hit) (TRPC TOO_MANY_REQUESTS ''AI usage limit reached (20 requests/hour). Please try again later.''))"

definition system_notifyOwner :: "sessionUser option \<Rightarrow> string \<Rightarrow> string \<Rightarrow> (world, bool) proc" where
  "system_notifyOwner u title content =
     adminProcedure u (\<lambda>_. seqE (zodE (1 \<le> length title \<and> 1 \<le> length content)) (notifyOwner title content))"

section \<open>Campaign data is not touched\<close>

text \<open>Steps that change only what lies outside the tables of the schema.\<close>

lemma same_tables:
  "wf_ids (s\<lparr>outbox := x\<rparr>) = wf_ids s" "same_tenant q s (s\<lparr>outbox := x\<rparr>)"
  "wf_ids (s\<lparr>broadcasts := y\<rparr>) = wf_ids s" "same_tenant q s (s\<lparr>broadcasts := y\<rparr>)"
  "wf_ids (s\<lparr>memoryWindows := m\<rparr>) = wf_ids s" "same_tenant q s (s\<lparr>memoryWindows := m\<rparr>)"
  "wf_ids (s\<lparr>rateLimitsT := rs, coins := cs\<rparr>) = wf_ids s" "same_tenant q s (s\<lparr>rateLimitsT := rs, coins := cs\<rparr>)"
  "wf_ids (s\<lparr>rateLimitsT := rs\<rparr>) = wf_ids s" "same_tenant q s (s\<lparr>rateLimitsT := rs\<rparr>)"
  "wf_ids (s\<lparr>budgetStatutoryCapsT := bs\<rparr>) = wf_ids s" "same_tenant q s (s\<lparr>budgetStatutoryCapsT := bs\<rparr>)"
  by (simp_all add: wf_ids_def same_tenant_def tenant_rows_def profile_rows_def)

lemma wf_outbound [preserves_intros]:
  "preserves wf_ids (hitRateLimit key ws n)"
  "preserves wf_ids (resetRateLimit key)"
  "preserves wf_ids (broadcastWarRoomUpdate pid)"
  "preserves wf_ids (modifyE (\<lambda>s. s\<lparr>outbox := f s\<rparr>))"
  by (auto simp: preserves_def hitRateLimit_def hitInMemory_def hitPostgres_def denyHit_def resetRateLimit_def
      broadcastWarRoomUpdate_def run_simps Let_def same_tables)

lemma outsider_outbound [outsider_intros]:
  "follows (outsider u q) (hitRateLimit key ws n)"
  "follows (outsider u q) (resetRateLimit key)"
  "follows (outsider u q) (broadcastWarRoomUpdate pid)"
  "follows (outsider u q) (modifyE (\<lambda>s. s\<lparr>outbox := f s\<rparr>))"
  by (auto simp: follows_def hitRateLimit_def hitInMemory_def hitPostgres_def denyHit_def resetRateLimit_def
      broadcastWarRoomUpdate_def run_simps Let_def outsider_def outsider_at_def same_tables)

lemma wf_notify [preserves_intros]:
  "preserves wf_ids (notifyOwner t c)"
  "preserves wf_ids (tryNotifyOwner t c)"
  "preserves wf_ids (assertLlmCallAllowed uid)"
  "preserves wf_ids (system_notifyOwner u t c)"
  unfolding tryNotifyOwner_def system_notifyOwner_def notifyOwner_def validatePayload_def assertLlmCallAllowed_def
  by (intro preserves_intros)+

lemma outsider_notify [outsider_intros]:
  "follows (outsider u q) (notifyOwner t c)"
  "follows (outsider u q) (tryNotifyOwner t c)"
  "follows (outsider u q) (assertLlmCallAllowed uid)"
  "follows (outsider u q) (system_notifyOwner u t c)"
  unfolding tryNotifyOwner_def system_notifyOwner_def notifyOwner_def validatePayload_def assertLlmCallAllowed_def
    adminProcedure_def
  by (intro outsider_intros)+

lemma tryNotifyOwner_returns: "\<exists>x. tryNotifyOwner t c s = (Inr (), s\<lparr>outbox := x\<rparr>)"
  by (auto simp: tryNotifyOwner_def catchE_def notifyOwner_def validatePayload_def run_simps
      intro: exI [where x = "outbox s"])

end
