(* ===== verification/War_Room.thy ===== *)
theory War_Room
  imports Outbound
begin

text \<open>
  The election-day war room of \<^verbatim>\<open>server/db.ts\<close> and the \<open>warRoom\<close> router: incidents with their
  append-only audit trail, and field agents with check-in and the silent-agent scan,
  which the cron endpoint of \<^verbatim>\<open>server/_core/index.ts\<close> runs over every campaign. The lemmas
  show that the trail always ends in the incident's present status, that the scan is
  idempotent and spares agents that checked in, and what escalation leaves behind.
\<close>

section \<open>Incidents\<close>

record incidentData =
  wd_severity :: incidentSeverity
  wd_description :: string
  wd_lga :: "string option"
  wd_puName :: "string option"
  wd_incidentType :: "string option"
  wd_latitude :: "rat option"
  wd_longitude :: "rat option"
  wd_evidenceUrl :: "string option"
  wd_occurredAt :: "time option"
  wd_oppositionEntryId :: "int option"
  wd_reportedBy :: "string option"

definition getWarRoomIncidents :: "int \<Rightarrow> (world, warRoomIncident list) proc" where
  "getWarRoomIncidents pid =
     withDb [] (bindE (selectRows warRoomIncidentsD (\<lambda>r. profileId r = Some pid))
       (\<lambda>rows. returnE (order_desc wi_reportedAt rows)))"

definition audit_entry ::
  "time \<Rightarrow> int \<Rightarrow> string \<Rightarrow> string option \<Rightarrow> string option \<Rightarrow> string option \<Rightarrow> string option \<Rightarrow> int \<Rightarrow>
   warRoomIncidentAuditEntry" where
  "audit_entry now incidentId action actor fromStatus toStatus detail i =
     \<lparr>row_id = i, wa_incidentId = incidentId, wa_action = action, wa_actor = actor,
      wa_fromStatus = fromStatus, wa_toStatus = toStatus, wa_detail = detail, wa_createdAt = now\<rparr>"

definition writeIncidentAudit ::
  "int \<Rightarrow> string \<Rightarrow> string option \<Rightarrow> string option \<Rightarrow> string option \<Rightarrow> string option \<Rightarrow> (world, unit) proc" where
  "writeIncidentAudit incidentId action actor fromStatus toStatus detail =
     bindE (getE clock) (\<lambda>now.
     voidE (insertRow warRoomIncidentAuditD None
       (audit_entry now incidentId action actor fromStatus toStatus detail)))"

definition new_incident :: "int \<Rightarrow> time \<Rightarrow> incidentData \<Rightarrow> int \<Rightarrow> warRoomIncident" where
  "new_incident pid now d i =
     \<lparr>row_id = i, profileId = Some pid, wi_reportedBy = wd_reportedBy d, wi_lga = wd_lga d, wi_ward = None,
      wi_puName = wd_puName d, wi_incidentType = wd_incidentType d, wi_description = wd_description d,
      wi_severity = Some (wd_severity d), wi_status = Some IncidentOpen, wi_latitude = wd_latitude d,
      wi_longitude = wd_longitude d, wi_evidenceUrl = wd_evidenceUrl d, wi_occurredAt = wd_occurredAt d,
      wi_assignedTo = None, wi_escalatedTo = None, wi_escalatedAt = None, wi_escalationNote = None,
      wi_oppositionEntryId = wd_oppositionEntryId d, wi_reportedAt = now, wi_resolvedAt = None\<rparr>"

definition created_detail :: "warRoomIncident \<Rightarrow> string" where
  "created_detail r =
     (case wi_severity r of None \<Rightarrow> ''medium'' | Some sev \<Rightarrow> show_incidentSeverity sev) @
     (if truthy_str (wi_incidentType r) then '' '' @ the (wi_incidentType r) else []) @
     '' incident reported'' @
     (if truthy_str (wi_lga r) then '' in '' @ the (wi_lga r) else [])"

definition addWarRoomIncident ::
  "int \<Rightarrow> incidentData \<Rightarrow> string option \<Rightarrow> (world, warRoomIncident option) proc" where
  "addWarRoomIncident pid d actor =
     withDb None
       (bindE (getE clock) (\<lambda>now.
        bindE (insertRow warRoomIncidentsD None (new_incident pid now d)) (\<lambda>r.
        seqE (writeIncidentAudit (row_id r) ''created'' actor None
               (Some (case wi_status r of None \<Rightarrow> ''open'' | Some st \<Rightarrow> show_incidentStatus st))
               (Some (created_detail r)))
          (returnE (Some r)))))"

text \<open>\<open>SELECT ... WHERE id = ? LIMIT 1\<close> and its status as text.\<close>

definition previousStatus :: "int \<Rightarrow> (world, string option) proc" where
  "previousStatus i =
     bindE (selectRows warRoomIncidentsD (\<lambda>r. row_id r = i)) (\<lambda>prev.
     returnE (case first_row prev of None \<Rightarrow> None | Some r \<Rightarrow> map_option show_incidentStatus (wi_status r)))"

definition updateIncidentStatus ::
  "int \<Rightarrow> string \<Rightarrow> string option \<Rightarrow> (world, warRoomIncident option) proc" where
  "updateIncidentStatus i status actor =
     withDb None
       (bindE (previousStatus i) (\<lambda>prev.
        enumArg incidentStatus_of (Some status) (\<lambda>st.
        bindE (getE clock) (\<lambda>now.
        bindE (updateRows warRoomIncidentsD (\<lambda>r. row_id r = i)
            (\<lambda>r. r\<lparr>wi_status := st, wi_resolvedAt := if status = ''resolved'' then Some now else None\<rparr>)) (\<lambda>rows.
        case rows of
          [] \<Rightarrow> returnE None
        | r # _ \<Rightarrow> seqE (writeIncidentAudit i ''status_changed'' actor prev (Some status) None)
            (returnE (Some r)))))))"

definition assignIncident :: "int \<Rightarrow> string \<Rightarrow> string option \<Rightarrow> (world, warRoomIncident option) proc" where
  "assignIncident i assignedTo actor =
     withDb None
       (bindE (updateRows warRoomIncidentsD (\<lambda>r. row_id r = i) (\<lambda>r. r\<lparr>wi_assignedTo := Some assignedTo\<rparr>)) (\<lambda>rows.
        case rows of
          [] \<Rightarrow> returnE None
        | r # _ \<Rightarrow> seqE (writeIncidentAudit i ''assigned'' actor (map_option show_incidentStatus (wi_status r))
              (map_option show_incidentStatus (wi_status r)) (Some (''assigned to '' @ assignedTo)))
            (returnE (Some r))))"

definition escalateIncident ::
  "int \<Rightarrow> string \<Rightarrow> string option \<Rightarrow> string option \<Rightarrow> (world, warRoomIncident option) proc" where
  "escalateIncident i escalatedTo note actor =
     withDb None
       (bindE (previousStatus i) (\<lambda>prev.
        bindE (getE clock) (\<lambda>now.
        bindE (updateRows warRoomIncidentsD (\<lambda>r. row_id r = i)
            (\<lambda>r. r\<lparr>wi_status := Some Escalated, wi_escalatedTo := Some escalatedTo, wi_escalatedAt := Some now,
               wi_escalationNote := note\<rparr>)) (\<lambda>rows.
        case rows of
          [] \<Rightarrow> returnE None
        | r # _ \<Rightarrow> seqE (writeIncidentAudit i ''escalated'' actor prev (Some ''escalated'')
              (Some (''escalated to '' @ escalatedTo @ (if truthy_str note then '': '' @ the note else []))))
            (returnE (Some r))))))"

definition resolveIncident :: "int \<Rightarrow> string option \<Rightarrow> (world, warRoomIncident option) proc" where
  "resolveIncident i actor =
     withDb None
       (bindE (previousStatus i) (\<lambda>prev.
        bindE (getE clock) (\<lambda>now.
        bindE (updateRows warRoomIncidentsD (\<lambda>r. row_id r = i)
            (\<lambda>r. r\<lparr>wi_status := Some Resolved, wi_resolvedAt := Some now\<rparr>)) (\<lambda>rows.
        case rows of
          [] \<Rightarrow> returnE None
        | r # _ \<Rightarrow> seqE (writeIncidentAudit i ''resolved'' actor prev (Some ''resolved'') None)
            (returnE (Some r))))))"

definition getIncidentAudit :: "int \<Rightarrow> (world, warRoomIncidentAuditEntry list) proc" where
  "getIncidentAudit incidentId =
     withDb [] (bindE (selectRows warRoomIncidentAuditD (\<lambda>r. wa_incidentId r = incidentId))
       (\<lambda>rows. returnE (order_desc wa_createdAt rows)))"

section \<open>Field agents\<close>

definition getFieldAgents :: "int \<Rightarrow> (world, fieldAgent list) proc" where
  "getFieldAgents pid =
     withDb [] (bindE (selectRows fieldAgentsD (\<lambda>r. profileId r = Some pid))
       (\<lambda>rows. returnE (order_by fa_name rows)))"

definition agentCheckIn :: "int \<Rightarrow> int \<Rightarrow> int option \<Rightarrow> (world, fieldAgent option) proc" where
  "agentCheckIn agentId pid votersCounted =
     withDb None
       (bindE (getE clock) (\<lambda>now.
        bindE (requireTenantId (Some pid)) (\<lambda>p.
        bindE (updateRows fieldAgentsD (\<lambda>r. row_id r = agentId \<and> profileId r = Some p)
            (\<lambda>r. r\<lparr>fa_lastCheckin := Some now, fa_agentStatus := Some AgentActive,
               fa_votersCounted := upd_opt votersCounted (fa_votersCounted r)\<rparr>))
          (\<lambda>rows. returnE (first_row rows)))))"

text \<open>\<open>profileId == null\<close> scans every campaign.\<close>

definition in_scope :: "int option \<Rightarrow> fieldAgent \<Rightarrow> bool" where
  "in_scope scope r \<longleftrightarrow> (case scope of None \<Rightarrow> True | Some pid \<Rightarrow> profileId r = Some pid)"

definition overdue :: "time \<Rightarrow> int \<Rightarrow> fieldAgent \<Rightarrow> bool" where
  "overdue now thresholdMinutes r \<longleftrightarrow>
     (case fa_lastCheckin r of None \<Rightarrow> True | Some t \<Rightarrow> t < now - thresholdMinutes * 60000)"

definition silenced :: "int option \<Rightarrow> time \<Rightarrow> int \<Rightarrow> fieldAgent \<Rightarrow> bool" where
  "silenced scope now threshold r \<longleftrightarrow>
     in_scope scope r \<and> fa_agentStatus r \<in> {Some AgentActive, Some AgentSos} \<and> overdue now threshold r"

definition scanSilentAgents :: "int option \<Rightarrow> int \<Rightarrow> (world, fieldAgent list) proc" where
  "scanSilentAgents scope thresholdMinutes =
     withDb []
       (bindE (getE clock) (\<lambda>now.
        seqE (updateRows fieldAgentsD (silenced scope now thresholdMinutes)
            (\<lambda>r. r\<lparr>fa_agentStatus := Some AgentSilent\<rparr>))
          (bindE (selectRows fieldAgentsD (\<lambda>r. in_scope scope r \<and> fa_agentStatus r = Some AgentSilent))
            (\<lambda>rows. returnE (order_by fa_name rows)))))"

record fieldAgentData =
  ad_id :: "int option"
  ad_name :: string
  ad_phone :: "string option"
  ad_lga :: "string option"
  ad_assignedPu :: "string option"
  ad_agentStatus :: "string option"
  ad_lastCheckin :: "time option"

definition upsertFieldAgent :: "int \<Rightarrow> fieldAgentData \<Rightarrow> (world, fieldAgent option) proc" where
  "upsertFieldAgent pid d =
     withDb None
       (bindE (getE clock) (\<lambda>now.
        enumArg agentStatus_of (ad_agentStatus d) (\<lambda>st.
        tenantUpsert fieldAgentsD ''Field agent'' (ad_id d) (Some pid)
          (\<lambda>r. r\<lparr>fa_name := ad_name d, fa_phone := upd_opt (ad_phone d) (fa_phone r),
             fa_lga := upd_opt (ad_lga d) (fa_lga r), fa_assignedPu := upd_opt (ad_assignedPu d) (fa_assignedPu r),
             fa_agentStatus := upd_opt st (fa_agentStatus r),
             fa_lastCheckin := upd_opt (ad_lastCheckin d) (fa_lastCheckin r)\<rparr>)
          (\<lambda>i. \<lparr>row_id = i, profileId = Some pid, fa_name = ad_name d, fa_phone = ad_phone d,
             fa_assignedPu = ad_assignedPu d, fa_lga = ad_lga d,
             fa_agentStatus = Some (nullish st AgentOffline), fa_votersCounted = Some 0,
             fa_lastCheckin = ad_lastCheckin d, fa_createdAt = now\<rparr>))))"

section \<open>Procedures\<close>

definition warRoom_incidents :: "sessionUser option \<Rightarrow> jsValue \<Rightarrow> (world, warRoomIncident list) proc" where
  "warRoom_incidents u raw = profileScopedProcedure Viewer u raw (\<lambda>_ _ pid. getWarRoomIncidents pid)"

definition upper_severity :: "incidentSeverity \<Rightarrow> string" where
  "upper_severity sev = (case sev of SevLow \<Rightarrow> ''LOW'' | SevMedium \<Rightarrow> ''MEDIUM'' | SevHigh \<Rightarrow> ''HIGH'' | SevCritical \<Rightarrow> ''CRITICAL'')"

definition warRoom_addIncident ::
  "sessionUser option \<Rightarrow> jsValue \<Rightarrow> incidentData \<Rightarrow> (world, warRoomIncident option) proc" where
  "warRoom_addIncident u raw d =
     profileScopedProcedure Manager u raw (\<lambda>x _ pid.
       seqE (zodE (wd_incidentType d \<in> {None, Some ''violence'', Some ''vote_buying'', Some ''inec_failure'',
                 Some ''intimidation'', Some ''logistics'', Some ''other''} \<and>
               (case wd_latitude d of None \<Rightarrow> True | Some v \<Rightarrow> -90 \<le> v \<and> v \<le> 90) \<and>
               (case wd_longitude d of None \<Rightarrow> True | Some v \<Rightarrow> -180 \<le> v \<and> v \<le> 180) \<and>
               vco 500 (wd_evidenceUrl d)))
         (bindE (addWarRoomIncident pid (d\<lparr>wd_reportedBy := Some (su_username x)\<rparr>) (Some (su_username x))) (\<lambda>incident.
          seqE (if wd_severity d \<in> {SevCritical, SevHigh}
                then tryNotifyOwner (upper_severity (wd_severity d) @ '' Incident - '' @ nullish (wd_lga d) ''Unknown LGA'')
                  (wd_description d @ (if truthy_str (wd_puName d) then '' (PU: '' @ the (wd_puName d) @ '')'' else []))
                else returnE ())
            (seqE (broadcastWarRoomUpdate pid) (returnE incident)))))"

text \<open>The id-addressed procedures authorize on the incident's own campaign and broadcast to
  \<open>input.profileId ?? profileId\<close>.\<close>

definition warRoom_updateIncidentStatus ::
  "sessionUser option \<Rightarrow> int \<Rightarrow> string \<Rightarrow> int option \<Rightarrow> (world, warRoomIncident option) proc" where
  "warRoom_updateIncidentStatus u i status inputProfile =
     requireUser u (\<lambda>x. bindE (assertRowAccess u warRoomIncidentsD i Manager) (\<lambda>pid.
       bindE (updateIncidentStatus i status (Some (su_username x))) (\<lambda>result.
       seqE (broadcastWarRoomUpdate (nullish inputProfile pid)) (returnE result))))"

definition warRoom_assignIncident ::
  "sessionUser option \<Rightarrow> int \<Rightarrow> string \<Rightarrow> int option \<Rightarrow> (world, warRoomIncident option) proc" where
  "warRoom_assignIncident u i assignedTo inputProfile =
     requireUser u (\<lambda>x. seqE (zodE (1 \<le> length assignedTo \<and> length assignedTo \<le> 200))
       (bindE (assertRowAccess u warRoomIncidentsD i Manager) (\<lambda>pid.
        bindE (assignIncident i assignedTo (Some (su_username x))) (\<lambda>result.
        seqE (broadcastWarRoomUpdate (nullish inputProfile pid)) (returnE result)))))"

definition warRoom_escalateIncident ::
  "sessionUser option \<Rightarrow> int \<Rightarrow> string \<Rightarrow> string option \<Rightarrow> int option \<Rightarrow> (world, warRoomIncident option) proc" where
  "warRoom_escalateIncident u i escalatedTo note inputProfile =
     requireUser u (\<lambda>x.
       seqE (zodE (escalatedTo \<in> {''security_agency'', ''inec'', ''neutral_observer'', ''party_hq''} \<and> vco 1000 note))
       (bindE (assertRowAccess u warRoomIncidentsD i Manager) (\<lambda>pid.
        bindE (escalateIncident i escalatedTo note (Some (su_username x))) (\<lambda>result.
        seqE (tryNotifyOwner
               (''Incident ESCALATED to '' @ replaceChar (CHR ''_'') (CHR '' '') escalatedTo)
               (''Incident #'' @ show_int i @ '' escalated by '' @ su_username x @
                 (if truthy_str note then '': '' @ the note else [])))
          (seqE (broadcastWarRoomUpdate (nullish inputProfile pid)) (returnE result))))))"

definition warRoom_resolveIncident ::
  "sessionUser option \<Rightarrow> int \<Rightarrow> int option \<Rightarrow> (world, warRoomIncident option) proc" where
  "warRoom_resolveIncident u i inputProfile =
     requireUser u (\<lambda>x. bindE (assertRowAccess u warRoomIncidentsD i Manager) (\<lambda>pid.
       bindE (resolveIncident i (Some (su_username x))) (\<lambda>result.
       seqE (broadcastWarRoomUpdate (nullish inputProfile pid)) (returnE result))))"

definition warRoom_incidentAudit ::
  "sessionUser option \<Rightarrow> int \<Rightarrow> (world, warRoomIncidentAuditEntry list) proc" where
  "warRoom_incidentAudit u incidentId =
     requireUser u (\<lambda>_. seqE (assertRowAccess u warRoomIncidentsD incidentId Viewer) (getIncidentAudit incidentId))"

definition warRoom_agents :: "sessionUser option \<Rightarrow> jsValue \<Rightarrow> (world, fieldAgent list) proc" where
  "warRoom_agents u raw = profileScopedProcedure Viewer u raw (\<lambda>_ _ pid. getFieldAgents pid)"

definition warRoom_checkIn ::
  "sessionUser option \<Rightarrow> jsValue \<Rightarrow> int \<Rightarrow> int option \<Rightarrow> (world, fieldAgent) proc" where
  "warRoom_checkIn u raw agentId votersCounted =
     profileScopedProcedure Viewer u raw (\<lambda>_ _ pid.
       seqE (zodE (case votersCounted of None \<Rightarrow> True | Some v \<Rightarrow> 0 \<le> v))
         (bindE (agentCheckIn agentId pid votersCounted) (\<lambda>agent.
          case agent of
            None \<Rightarrow> throwE (TRPC NOT_FOUND ''Agent not found for this profile'')
          | Some a \<Rightarrow> seqE (broadcastWarRoomUpdate pid) (returnE a))))"

definition warRoom_silentAgents ::
  "sessionUser option \<Rightarrow> jsValue \<Rightarrow> int option \<Rightarrow> (world, fieldAgent list) proc" where
  "warRoom_silentAgents u raw thresholdMinutes =
     profileScopedProcedure Manager u raw (\<lambda>_ _ pid.
       seqE (zodE (case thresholdMinutes of None \<Rightarrow> True | Some m \<Rightarrow> 5 \<le> m \<and> m \<le> 24 * 60))
         (scanSilentAgents (Some pid) (nullish thresholdMinutes 60)))"

definition warRoom_upsertAgent ::
  "sessionUser option \<Rightarrow> jsValue \<Rightarrow> fieldAgentData \<Rightarrow> (world, fieldAgent option) proc" where
  "warRoom_upsertAgent u raw d = profileScopedProcedure Manager u raw (\<lambda>_ _ pid. upsertFieldAgent pid d)"

text \<open>The cron endpoint \<open>/api/scheduled/silent-agent-scan\<close>: \<open>None\<close> is the answer 403, the number of
  silent agents otherwise.\<close>

definition silent_title :: "fieldAgent list \<Rightarrow> string" where
  "silent_title silent =
     show_int (int (length silent)) @ '' field agent'' @ (if length silent \<noteq> 1 then ''s'' else []) @ '' silent''"

definition silent_content :: "int \<Rightarrow> fieldAgent list \<Rightarrow> string" where
  "silent_content threshold silent =
     ''No check-in within '' @ show_int threshold @ '' minutes: '' @
     join '', '' (map (\<lambda>a. fa_name a @ (if truthy_str (fa_assignedPu a)
       then '' ('' @ the (fa_assignedPu a) @ '')'' else [])) (take 10 silent)) @
     (if length silent > 10 then '', +'' @ show_int (int (length silent - 10)) @ '' more'' else [])"

definition scheduled_silentAgentScan :: "bool \<Rightarrow> int \<Rightarrow> (world, nat option) proc" where
  "scheduled_silentAgentScan isCron threshold =
     (if \<not> isCron then returnE None
      else withDb (Some 0)
        (bindE (scanSilentAgents None threshold) (\<lambda>silent.
         seqE (if silent \<noteq> []
               then tryNotifyOwner (silent_title silent) (silent_content threshold silent)
               else returnE ())
           (returnE (Some (length silent))))))"

section \<open>Isolation and well-formedness\<close>

lemma new_incident_fields [simp]:
  "profileId (new_incident pid now d i) = Some pid" "wi_status (new_incident pid now d i) = Some IncidentOpen"
  by (simp_all add: new_incident_def)

lemma wf_war_room_ops [preserves_intros]:
  "preserves wf_ids (writeIncidentAudit i act actor f t det)"
  "preserves wf_ids (previousStatus i)"
  unfolding writeIncidentAudit_def previousStatus_def by (intro preserves_intros)+

lemma wf_incident_ops [preserves_intros]:
  "preserves wf_ids (addWarRoomIncident pid d actor)"
  "preserves wf_ids (updateIncidentStatus i status actor)"
  "preserves wf_ids (assignIncident i assignedTo actor)"
  "preserves wf_ids (escalateIncident i escalatedTo note actor)"
  "preserves wf_ids (resolveIncident i actor)"
  "preserves wf_ids (scanSilentAgents scope threshold)"
  unfolding addWarRoomIncident_def updateIncidentStatus_def assignIncident_def escalateIncident_def
    resolveIncident_def scanSilentAgents_def
  by (intro preserves_intros; simp)+

lemma wf_war_room_procedures [preserves_intros]:
  "preserves wf_ids (warRoom_incidents u raw)"
  "preserves wf_ids (warRoom_addIncident u raw d)"
  "preserves wf_ids (warRoom_updateIncidentStatus u i status ip)"
  "preserves wf_ids (warRoom_assignIncident u i assignedTo ip)"
  "preserves wf_ids (warRoom_escalateIncident u i escalatedTo note ip)"
  "preserves wf_ids (warRoom_resolveIncident u i ip)"
  "preserves wf_ids (warRoom_incidentAudit u i)"
  "preserves wf_ids (warRoom_agents u raw)"
  "preserves wf_ids (warRoom_checkIn u raw agentId votersCounted)"
  "preserves wf_ids (warRoom_silentAgents u raw threshold)"
  "preserves wf_ids (warRoom_upsertAgent u raw ad)"
  "preserves wf_ids (scheduled_silentAgentScan isCron t)"
  unfolding warRoom_incidents_def getWarRoomIncidents_def warRoom_addIncident_def
    warRoom_updateIncidentStatus_def warRoom_assignIncident_def warRoom_escalateIncident_def
    warRoom_resolveIncident_def warRoom_incidentAudit_def getIncidentAudit_def warRoom_agents_def
    getFieldAgents_def warRoom_checkIn_def agentCheckIn_def warRoom_silentAgents_def
    warRoom_upsertAgent_def upsertFieldAgent_def scheduled_silentAgentScan_def
  by (intro preserves_intros; simp)+

lemma outsider_war_room_ops [outsider_intros]:
  "follows (outsider u q) (writeIncidentAudit i act actor f t det)"
  "follows (outsider u q) (previousStatus i)"
  "pid \<noteq> q \<Longrightarrow> follows (outsider u q) (addWarRoomIncident pid d actor)"
  "pid \<noteq> q \<Longrightarrow> follows (outsider u q) (scanSilentAgents (Some pid) threshold)"
  unfolding writeIncidentAudit_def previousStatus_def addWarRoomIncident_def scanSilentAgents_def
  by (intro outsider_intros; simp add: silenced_def in_scope_def)+

lemma owned_incident_ops:
  assumes "pid \<noteq> q" and "row_owned warRoomIncidentsD i pid s"
  shows "outsider u q s (snd (updateIncidentStatus i status actor s))"
    "outsider u q s (snd (assignIncident i assignedTo actor s))"
    "outsider u q s (snd (escalateIncident i escalatedTo note actor s))"
    "outsider u q s (snd (resolveIncident i actor s))"
proof -
  note upd = warRoomIncidentsT.owned_update [OF assms]
  have then_audit: "outsider u q s (snd (bindE (updateRows warRoomIncidentsD (\<lambda>r. row_id r = i) f) k s))"
    if "\<And>r. row_id (f r) = row_id r" "\<And>r. profileId (f r) = profileId r" "\<And>x. follows (outsider u q) (k x)"
    for f and k :: "warRoomIncident list \<Rightarrow> (world, 'a) proc"
    using that by (intro outsider_step.bindE_at upd)
  show "outsider u q s (snd (updateIncidentStatus i status actor s))"
    unfolding updateIncidentStatus_def previousStatus_def enumArg_def
    by (cases "incidentStatus_of status")
      (auto simp: withDb_run outsider_step.refl bindE_run [where m = "bindE (selectRows D P) f" for D P f]
        bindE_run [where m = "selectRows D P" for D P] bindE_run [where m = "getE g" for g] selectRows_run
        returnE_run getE_run throwE_run intro!: then_audit outsider_intros)
  show "outsider u q s (snd (assignIncident i assignedTo actor s))"
    unfolding assignIncident_def
    by (auto simp: withDb_run outsider_step.refl intro!: then_audit outsider_intros)
  show "outsider u q s (snd (escalateIncident i escalatedTo note actor s))"
    unfolding escalateIncident_def previousStatus_def
    by (auto simp: withDb_run outsider_step.refl bindE_run [where m = "bindE (selectRows D P) f" for D P f]
        bindE_run [where m = "selectRows D P" for D P] bindE_run [where m = "getE g" for g] selectRows_run
        returnE_run getE_run intro!: then_audit outsider_intros)
  show "outsider u q s (snd (resolveIncident i actor s))"
    unfolding resolveIncident_def previousStatus_def
    by (auto simp: withDb_run outsider_step.refl bindE_run [where m = "bindE (selectRows D P) f" for D P f]
        bindE_run [where m = "selectRows D P" for D P] bindE_run [where m = "getE g" for g] selectRows_run
        returnE_run getE_run intro!: then_audit outsider_intros)
qed

lemma outsider_war_room_procedures [outsider_intros]:
  "follows (outsider u q) (warRoom_incidents u raw)"
  "follows (outsider u q) (warRoom_addIncident u raw d)"
  "follows (outsider u q) (warRoom_updateIncidentStatus u i status ip)"
  "follows (outsider u q) (warRoom_assignIncident u i assignedTo ip)"
  "follows (outsider u q) (warRoom_escalateIncident u i escalatedTo note ip)"
  "follows (outsider u q) (warRoom_resolveIncident u i ip)"
  "follows (outsider u q) (warRoom_incidentAudit u i)"
  "follows (outsider u q) (warRoom_agents u raw)"
  "follows (outsider u q) (warRoom_checkIn u raw agentId votersCounted)"
  "follows (outsider u q) (warRoom_silentAgents u raw threshold)"
  "follows (outsider u q) (warRoom_upsertAgent u raw ad)"
proof -
  have tail: "follows (outsider u q) (seqE (broadcastWarRoomUpdate (nullish ip pid)) (returnE r))"
    "follows (outsider u q) (seqE (tryNotifyOwner t c) (seqE (broadcastWarRoomUpdate (nullish ip pid)) (returnE r)))"
    for t c pid and r :: "warRoomIncident option"
    by (intro outsider_intros)+
  show "follows (outsider u q) (warRoom_updateIncidentStatus u i status ip)"
    unfolding warRoom_updateIncidentStatus_def
    by (intro outsider_requireUser outsider_row_guarded outsider_step.bindE_at owned_incident_ops tail)
  show "follows (outsider u q) (warRoom_assignIncident u i assignedTo ip)"
    unfolding warRoom_assignIncident_def
    by (intro outsider_requireUser outsider_step.seqE outsider_plain outsider_row_guarded
        outsider_step.bindE_at owned_incident_ops tail)
  show "follows (outsider u q) (warRoom_escalateIncident u i escalatedTo note ip)"
    unfolding warRoom_escalateIncident_def
    by (intro outsider_requireUser outsider_step.seqE [where m = "zodE b" for b] outsider_plain
        outsider_row_guarded outsider_step.bindE_at owned_incident_ops tail)
  show "follows (outsider u q) (warRoom_resolveIncident u i ip)"
    unfolding warRoom_resolveIncident_def
    by (intro outsider_requireUser outsider_row_guarded outsider_step.bindE_at owned_incident_ops tail)
  have "follows (outsider u q) (getIncidentAudit i)"
    unfolding getIncidentAudit_def by (intro outsider_intros)
  then show "follows (outsider u q) (warRoom_incidentAudit u i)"
    unfolding warRoom_incidentAudit_def
    by (intro outsider_requireUser outsider_row_guarded_seq) (simp add: follows_def)
qed (unfold warRoom_incidents_def getWarRoomIncidents_def warRoom_addIncident_def warRoom_agents_def
    getFieldAgents_def warRoom_checkIn_def agentCheckIn_def bind_requireTenantId warRoom_silentAgents_def
    warRoom_upsertAgent_def upsertFieldAgent_def, (intro outsider_intros; simp)+)

section \<open>The audit trail\<close>

definition incident_status :: "int \<Rightarrow> world \<Rightarrow> string option" where
  "incident_status i s =
     (case first_row (filter (\<lambda>r. row_id r = i) (trows (warRoomIncidentsT s))) of
        None \<Rightarrow> None | Some r \<Rightarrow> map_option show_incidentStatus (wi_status r))"

definition incident_ids :: "world \<Rightarrow> int list" where
  "incident_ids s = map row_id (trows (warRoomIncidentsT s))"

definition audit_of :: "int \<Rightarrow> world \<Rightarrow> warRoomIncidentAuditEntry list" where
  "audit_of i s = filter (\<lambda>e. wa_incidentId e = i) (trows (warRoomIncidentAuditT s))"

text \<open>The completed lifecycle operations on incident \<open>i\<close>, as a step relation.\<close>

inductive incident_step :: "int \<Rightarrow> world \<Rightarrow> world \<Rightarrow> bool" where
  created: "addWarRoomIncident pid d actor s = (Inr (Some r), s') \<Longrightarrow> incident_step (row_id r) s s'"
| status_changed: "updateIncidentStatus i st actor s = (Inr (Some r), s') \<Longrightarrow> incident_step i s s'"
| assigned: "assignIncident i who actor s = (Inr (Some r), s') \<Longrightarrow> incident_step i s s'"
| escalated: "escalateIncident i to note actor s = (Inr (Some r), s') \<Longrightarrow> incident_step i s s'"
| resolved: "resolveIncident i actor s = (Inr (Some r), s') \<Longrightarrow> incident_step i s s'"

inductive incident_run :: "world \<Rightarrow> world \<Rightarrow> bool" where
  start: "incident_run s s"
| more: "incident_run s s' \<Longrightarrow> incident_step i s' s'' \<Longrightarrow> incident_run s s''"

text \<open>What one lifecycle step does: one new audit entry, from the old to the new status of the
  incident, and no other incident's status changes.\<close>

definition audited :: "int \<Rightarrow> world \<Rightarrow> world \<Rightarrow> bool" where
  "audited i s s' \<longleftrightarrow>
     (\<exists>e. trows (warRoomIncidentAuditT s') = trows (warRoomIncidentAuditT s) @ [e] \<and> wa_incidentId e = i \<and>
        wa_fromStatus e = incident_status i s \<and> wa_toStatus e = incident_status i s') \<and>
     (\<forall>j. j \<noteq> i \<longrightarrow> incident_status j s' = incident_status j s) \<and>
     set (incident_ids s') = insert i (set (incident_ids s))"

lemma writeIncidentAudit_Inr:
  assumes "writeIncidentAudit i act actor fromS toS det s = (Inr (), s')"
  shows "\<exists>e. trows (warRoomIncidentAuditT s') = trows (warRoomIncidentAuditT s) @ [e] \<and> wa_incidentId e = i \<and>
    wa_fromStatus e = fromS \<and> wa_toStatus e = toS \<and> (\<exists>t. s' = s\<lparr>warRoomIncidentAuditT := t\<rparr>)"
proof -
  from assms obtain e where
    ins: "insertRow warRoomIncidentAuditD None (audit_entry (clock s) i act actor fromS toS det) s = (Inr e, s')"
    by (auto simp: writeIncidentAudit_def getE_run elim!: bindE_InrE voidE_InrE)
  obtain k where "e = audit_entry (clock s) i act actor fromS toS det k\<lparr>row_id := k\<rparr>"
    using warRoomIncidentAuditL.insert_Inr [OF ins] by blast
  moreover have "\<exists>t. s' = s\<lparr>warRoomIncidentAuditT := t\<rparr>"
    using warRoomIncidentAuditL.insert_frame [of None "audit_entry (clock s) i act actor fromS toS det" s] ins by simp
  ultimately show ?thesis
    using warRoomIncidentAuditL.insert_Inr [OF ins] by (auto simp: audit_entry_def)
qed

lemma filter_id_map:
  assumes "\<And>r. row_id (f r) = row_id r"
  shows "filter (\<lambda>r. row_id r = j) (map (\<lambda>r. if row_id r = i then f r else r) rs) =
    (if j = i then map f (filter (\<lambda>r. row_id r = i) rs) else filter (\<lambda>r. row_id r = j) rs)"
  using assms by (induction rs) auto

lemma update_audited:
  assumes upd: "updateRows warRoomIncidentsD (\<lambda>r. row_id r = i) f s = (Inr (r # rs), s1)"
    and aud: "writeIncidentAudit i act actor (incident_status i s) (map_option show_incidentStatus (wi_status r)) det s1
      = (Inr (), s')"
    and f: "\<And>r. row_id (f r) = row_id r"
  shows "audited i s s'"
proof -
  note rows = warRoomIncidentsL.update_Inr [OF upd]
  have frame: "\<exists>t. s1 = s\<lparr>warRoomIncidentsT := t\<rparr>"
    using warRoomIncidentsL.update_frame [of "\<lambda>r. row_id r = i" f s] upd by simp
  obtain e where e: "trows (warRoomIncidentAuditT s') = trows (warRoomIncidentAuditT s1) @ [e]"
    "wa_incidentId e = i" "wa_fromStatus e = incident_status i s"
    "wa_toStatus e = map_option show_incidentStatus (wi_status r)" "\<exists>t. s' = s1\<lparr>warRoomIncidentAuditT := t\<rparr>"
    using writeIncidentAudit_Inr [OF aud] by blast
  have inc: "trows (warRoomIncidentsT s') = map (\<lambda>r. if row_id r = i then f r else r) (trows (warRoomIncidentsT s))"
    and old: "warRoomIncidentAuditT s1 = warRoomIncidentAuditT s"
    using rows e(5) frame by auto
  have hit: "map f (filter (\<lambda>r. row_id r = i) (trows (warRoomIncidentsT s))) = r # rs"
    using rows by simp
  have st: "incident_status i s' = map_option show_incidentStatus (wi_status r)"
    by (simp add: incident_status_def inc filter_id_map [OF f] hit)
  have other: "incident_status j s' = incident_status j s" if "j \<noteq> i" for j
    using that by (simp add: incident_status_def inc filter_id_map [OF f])
  have ids: "incident_ids s' = incident_ids s"
    using f by (simp add: incident_ids_def inc)
  have "filter (\<lambda>r. row_id r = i) (trows (warRoomIncidentsT s)) \<noteq> []"
    using hit by (cases "filter (\<lambda>r. row_id r = i) (trows (warRoomIncidentsT s))") simp_all
  then obtain x where "x \<in> set (trows (warRoomIncidentsT s))" "row_id x = i"
    unfolding filter_empty_conv by blast
  then have "i \<in> set (incident_ids s)" unfolding incident_ids_def by force
  with e(1-4) old st other ids show ?thesis by (auto simp: audited_def insert_absorb)
qed

lemma previousStatus_run [run_simps]: "previousStatus i s = (Inr (incident_status i s), s)"
  by (simp add: previousStatus_def incident_status_def run_simps)

lemmas skip_reads = withDb_run getE_run previousStatus_run
  bindE_run [where m = "getE g" for g] bindE_run [where m = "previousStatus j" for j]

text \<open>The tail the four updating operations share.\<close>

lemma update_then_audit:
  assumes "bindE (updateRows warRoomIncidentsD (\<lambda>r. row_id r = i) f) (\<lambda>rows.
      case rows of [] \<Rightarrow> returnE None
      | r # _ \<Rightarrow> seqE (writeIncidentAudit i act actor (fromS r) (toS r) det) (returnE (Some r))) s = (Inr (Some x), s')"
    and "\<And>r. row_id (f r) = row_id r"
    and "\<And>r. r \<in> f ` set (filter (\<lambda>r. row_id r = i) (trows (warRoomIncidentsT s))) \<Longrightarrow>
      toS r = map_option show_incidentStatus (wi_status r)"
    and "\<And>r rs. map f (filter (\<lambda>r. row_id r = i) (trows (warRoomIncidentsT s))) = r # rs \<Longrightarrow>
      fromS r = incident_status i s"
  shows "audited i s s'"
proof -
  from assms(1) obtain rows s1 where u: "updateRows warRoomIncidentsD (\<lambda>r. row_id r = i) f s = (Inr rows, s1)"
    and k: "(case rows of [] \<Rightarrow> returnE None
      | r # _ \<Rightarrow> seqE (writeIncidentAudit i act actor (fromS r) (toS r) det) (returnE (Some r))) s1 = (Inr (Some x), s')"
    by (elim bindE_InrE)
  then obtain r rs where r: "rows = r # rs" by (cases rows) (auto simp: returnE_run)
  have hit: "map f (filter (\<lambda>r. row_id r = i) (trows (warRoomIncidentsT s))) = r # rs"
    using warRoomIncidentsL.update_Inr [OF u] r by simp
  then have "r \<in> f ` set (filter (\<lambda>r. row_id r = i) (trows (warRoomIncidentsT s)))"
    by (metis list.set_intros(1) list.set_map)
  then have "toS r = map_option show_incidentStatus (wi_status r)" by (rule assms(3))
  moreover have "fromS r = incident_status i s" by (rule assms(4) [OF hit])
  ultimately show ?thesis
    using update_audited [OF u [unfolded r] _ assms(2)] k r by (auto simp: returnE_run elim!: seqE_InrE)
qed

lemma incident_step_audited: "incident_step i s s' \<Longrightarrow> audited i s s'"
proof (induction rule: incident_step.induct)
  case (created pid d actor s r s')
  then have c: "conn s" by (auto simp: addWarRoomIncident_def run_simps split: if_splits)
  have "bindE (insertRow warRoomIncidentsD None (new_incident pid (clock s) d)) (\<lambda>r.
      seqE (writeIncidentAudit (row_id r) ''created'' actor None
        (Some (case wi_status r of None \<Rightarrow> ''open'' | Some st \<Rightarrow> show_incidentStatus st)) (Some (created_detail r)))
      (returnE (Some r))) s = (Inr (Some r), s')"
    using created c by (simp add: addWarRoomIncident_def skip_reads)
  then obtain s1 where ins: "insertRow warRoomIncidentsD None (new_incident pid (clock s) d) s = (Inr r, s1)"
    and aud: "writeIncidentAudit (row_id r) ''created'' actor None
      (Some (case wi_status r of None \<Rightarrow> ''open'' | Some st \<Rightarrow> show_incidentStatus st)) (Some (created_detail r)) s1
      = (Inr (), s')"
    by (auto simp: returnE_run elim!: bindE_InrE seqE_InrE)
  note rows = warRoomIncidentsL.insert_Inr [OF ins]
  obtain k where "r = new_incident pid (clock s) d k\<lparr>row_id := k\<rparr>" using rows by blast
  then have st: "wi_status r = Some IncidentOpen" by simp
  have fresh: "filter (\<lambda>x. row_id x = row_id r) (trows (warRoomIncidentsT s)) = []"
    using rows unfolding filter_empty_conv by simp
  obtain e where e: "trows (warRoomIncidentAuditT s') = trows (warRoomIncidentAuditT s1) @ [e]"
    "wa_incidentId e = row_id r" "wa_fromStatus e = None" "wa_toStatus e = Some ''open''"
    "\<exists>t. s' = s1\<lparr>warRoomIncidentAuditT := t\<rparr>"
    using writeIncidentAudit_Inr [OF aud] st by auto
  have inc: "trows (warRoomIncidentsT s') = trows (warRoomIncidentsT s) @ [r]"
    using rows e(5) by auto
  have old: "warRoomIncidentAuditT s1 = warRoomIncidentAuditT s"
    using warRoomIncidentsL.insert_frame [of None "new_incident pid (clock s) d" s] ins by auto
  show ?case
    using e(1-4) old st by (auto simp: audited_def incident_status_def incident_ids_def inc fresh)
next
  case (status_changed i st actor s r s')
  then have c: "conn s" by (auto simp: updateIncidentStatus_def run_simps split: if_splits)
  obtain v where v: "incidentStatus_of st = Some v"
    using status_changed c by (cases "incidentStatus_of st")
      (auto simp: updateIncidentStatus_def skip_reads enumArg_def throwE_run)
  then have "show_incidentStatus v = st" by (auto simp: incidentStatus_of_def split: if_splits)
  then show ?case
    using status_changed c v
    by (intro update_then_audit [where f = "\<lambda>r. r\<lparr>wi_status := Some v,
          wi_resolvedAt := if st = ''resolved'' then Some (clock s) else None\<rparr>"
        and fromS = "\<lambda>_. incident_status i s" and toS = "\<lambda>_. Some st" and i = i])
      (auto simp: updateIncidentStatus_def skip_reads enumArg_def)
next
  case (assigned i who actor s r s')
  then have c: "conn s" by (auto simp: assignIncident_def run_simps split: if_splits)
  have "map_option show_incidentStatus (wi_status r) = incident_status i s"
    if "map (\<lambda>r. r\<lparr>wi_assignedTo := Some who\<rparr>) (filter (\<lambda>r. row_id r = i) (trows (warRoomIncidentsT s))) = r # rs"
    for r rs
    using that by (cases "filter (\<lambda>r. row_id r = i) (trows (warRoomIncidentsT s))")
      (auto simp: incident_status_def)
  then show ?case
    using assigned c
    by (intro update_then_audit [where f = "\<lambda>r. r\<lparr>wi_assignedTo := Some who\<rparr>"
        and fromS = "\<lambda>r. map_option show_incidentStatus (wi_status r)"
        and toS = "\<lambda>r. map_option show_incidentStatus (wi_status r)" and i = i])
      (auto simp: assignIncident_def skip_reads)
next
  case (escalated i to nt actor s r s')
  then have c: "conn s" by (auto simp: escalateIncident_def run_simps split: if_splits)
  then show ?case
    using escalated
    by (intro update_then_audit [where f = "\<lambda>r. r\<lparr>wi_status := Some Escalated, wi_escalatedTo := Some to,
          wi_escalatedAt := Some (clock s), wi_escalationNote := nt\<rparr>"
        and fromS = "\<lambda>_. incident_status i s" and toS = "\<lambda>_. Some ''escalated''" and i = i])
      (auto simp: escalateIncident_def skip_reads)
next
  case (resolved i actor s r s')
  then have c: "conn s" by (auto simp: resolveIncident_def run_simps split: if_splits)
  then show ?case
    using resolved
    by (intro update_then_audit [where f = "\<lambda>r. r\<lparr>wi_status := Some Resolved, wi_resolvedAt := Some (clock s)\<rparr>"
        and fromS = "\<lambda>_. incident_status i s" and toS = "\<lambda>_. Some ''resolved''" and i = i])
      (auto simp: resolveIncident_def skip_reads)
qed

definition audit_current :: "world \<Rightarrow> bool" where
  "audit_current s \<longleftrightarrow>
     list_all (\<lambda>i. audit_of i s \<noteq> [] \<and> wa_toStatus (last (audit_of i s)) = incident_status i s) (incident_ids s)"

lemma audited_current:
  assumes "audited i s s'" and "audit_current s"
  shows "audit_current s'"
proof -
  from assms(1) obtain e where e: "trows (warRoomIncidentAuditT s') = trows (warRoomIncidentAuditT s) @ [e]"
    "wa_incidentId e = i" "wa_toStatus e = incident_status i s'"
    and other: "\<And>j. j \<noteq> i \<Longrightarrow> incident_status j s' = incident_status j s"
    and ids: "set (incident_ids s') = insert i (set (incident_ids s))"
    unfolding audited_def by blast
  have "audit_of j s' = (if j = i then audit_of j s @ [e] else audit_of j s)" for j
    using e by (simp add: audit_of_def)
  then show ?thesis
    using assms(2) e(3) other ids by (auto simp: audit_current_def list_all_iff)
qed

text \<open>C3: whatever sequence of completed reports, status changes, assignments, escalations and
  resolutions is run, the audit trail is only ever appended to, and every incident's last audit
  entry carries the status the incident has.\<close>

theorem audit_trail_current:
  assumes "incident_run s s'" and "audit_current s"
  shows "audit_current s' \<and>
    (\<exists>new. trows (warRoomIncidentAuditT s') = trows (warRoomIncidentAuditT s) @ new)"
  using assms
proof (induction rule: incident_run.induct)
  case (start s)
  then show ?case by simp
next
  case (more s s' i s'')
  from incident_step_audited [OF more.hyps(2)] have a: "audited i s' s''" .
  then obtain e where "trows (warRoomIncidentAuditT s'') = trows (warRoomIncidentAuditT s') @ [e]"
    unfolding audited_def by blast
  with more a show ?case using audited_current by auto
qed

section \<open>Agents\<close>

lemma scan_run:
  assumes "conn s"
  shows "scanSilentAgents scope threshold s =
    (if list_all (\<lambda>r. \<not> silenced scope (clock s) threshold r \<or>
          fieldAgents_chk s (r\<lparr>fa_agentStatus := Some AgentSilent\<rparr>)) (trows (fieldAgentsT s))
     then (let rows = map (\<lambda>r. if silenced scope (clock s) threshold r then r\<lparr>fa_agentStatus := Some AgentSilent\<rparr> else r)
                 (trows (fieldAgentsT s))
           in (Inr (order_by fa_name (filter (\<lambda>r. in_scope scope r \<and> fa_agentStatus r = Some AgentSilent) rows)),
               s\<lparr>fieldAgentsT := (fieldAgentsT s)\<lparr>trows := rows\<rparr>\<rparr>))
     else (Inl (PgError CheckViolation), s))"
proof -
  have chk: "list_all (tchk fieldAgentsD s) (map (\<lambda>r. r\<lparr>fa_agentStatus := Some AgentSilent\<rparr>)
      (filter (silenced scope (clock s) threshold) rs)) \<longleftrightarrow>
    list_all (\<lambda>r. \<not> silenced scope (clock s) threshold r \<or>
      fieldAgents_chk s (r\<lparr>fa_agentStatus := Some AgentSilent\<rparr>)) rs" for rs
    by (induction rs) (auto simp: table_simps)
  show ?thesis
    using assms
    by (simp add: scanSilentAgents_def withDb_run seqE_run
        bindE_run [where m = "getE g" for g] getE_run updateRows_def Let_def chk selectRows_run
        bindE_run [where m = "selectRows D P" for D P] returnE_run)
qed

lemma silenced_once: "\<not> silenced scope now threshold (r\<lparr>fa_agentStatus := Some AgentSilent\<rparr>)"
  by (simp add: silenced_def)

text \<open>The silent-agent scan is idempotent: repeated at the same time it returns the same agents
  and changes nothing; and it changes nothing but the status of deployed, overdue agents
  in its scope.\<close>

theorem scan_idempotent:
  assumes "conn s" and "scanSilentAgents scope threshold s = (Inr found, s')"
  shows "scanSilentAgents scope threshold s' = (Inr found, s') \<and>
    trows (fieldAgentsT s') = map (\<lambda>r. if silenced scope (clock s) threshold r
      then r\<lparr>fa_agentStatus := Some AgentSilent\<rparr> else r) (trows (fieldAgentsT s))"
proof -
  define rows where "rows = map (\<lambda>r. if silenced scope (clock s) threshold r
    then r\<lparr>fa_agentStatus := Some AgentSilent\<rparr> else r) (trows (fieldAgentsT s))"
  have s': "s' = s\<lparr>fieldAgentsT := (fieldAgentsT s)\<lparr>trows := rows\<rparr>\<rparr>"
    and found: "found = order_by fa_name (filter (\<lambda>r. in_scope scope r \<and> fa_agentStatus r = Some AgentSilent) rows)"
    using assms by (auto simp: scan_run Let_def rows_def split: if_splits)
  have quiet: "\<not> silenced scope (clock s) threshold r" if "r \<in> set rows" for r
    using that silenced_once by (auto simp: rows_def)
  then have "map (\<lambda>r. if silenced scope (clock s) threshold r then r\<lparr>fa_agentStatus := Some AgentSilent\<rparr> else r) rows = rows"
    by (simp add: map_idI)
  moreover have "list_all (\<lambda>r. \<not> silenced scope (clock s) threshold r \<or> P r) rows" for P
    using quiet by (simp add: list_all_iff)
  ultimately have "scanSilentAgents scope threshold s' = (Inr found, s')"
    using assms(1) by (subst scan_run) (simp_all add: s' found Let_def)
  then show ?thesis by (simp add: s' rows_def)
qed

text \<open>An agent that checks in is active and stays active in every scan until more than the
  threshold has passed since the check-in.\<close>

theorem checked_in_agent_not_silenced:
  assumes "conn s" and "agentCheckIn agentId pid votes s = (Inr (Some r), s1)"
    and "now \<le> clock s + threshold * 60000"
    and "scanSilentAgents scope threshold (s1\<lparr>clock := now\<rparr>) = (Inr found, s2)"
  shows "list_all (\<lambda>a. addressed agentId pid a \<longrightarrow> fa_agentStatus a = Some AgentActive) (trows (fieldAgentsT s2)) \<and>
    list_ex (addressed agentId pid) (trows (fieldAgentsT s2))"
proof -
  define f where "f = (\<lambda>r :: fieldAgent. r\<lparr>fa_lastCheckin := Some (clock s), fa_agentStatus := Some AgentActive,
    fa_votersCounted := upd_opt votes (fa_votersCounted r)\<rparr>)"
  define g where "g = (\<lambda>r :: fieldAgent. if silenced scope now threshold r
    then r\<lparr>fa_agentStatus := Some AgentSilent\<rparr> else r)"
  from assms(1,2) obtain hit where u: "updateRows fieldAgentsD (addressed agentId pid) f s = (Inr hit, s1)"
    and r: "first_row hit = Some r"
    by (auto simp: agentCheckIn_def withDb_run bind_requireTenantId getE_run returnE_run f_def
        addressed_def [abs_def] elim!: bindE_InrE)
  note rows = fieldAgentsL.update_Inr [OF u]
  have c1: "conn s1"
    using fieldAgentsL.update_frame [of "addressed agentId pid" f s] u assms(1) by auto
  have s2: "trows (fieldAgentsT s2) = map g (map (\<lambda>r. if addressed agentId pid r then f r else r) (trows (fieldAgentsT s)))"
    using assms(4) c1 rows by (auto simp: scan_run Let_def g_def split: if_splits)
  have keeps: "addressed agentId pid (g x) = addressed agentId pid x" "addressed agentId pid (f x) = addressed agentId pid x" for x
    by (simp_all add: addressed_def g_def f_def)
  have fresh: "g (f x) = f x" for x
    using assms(3) by (simp add: g_def f_def silenced_def overdue_def)
  have active: "fa_agentStatus (f x) = Some AgentActive" for x by (simp add: f_def)
  have "list_all (\<lambda>a. addressed agentId pid a \<longrightarrow> fa_agentStatus a = Some AgentActive) (trows (fieldAgentsT s2))"
    unfolding s2 list.pred_map by (simp add: list_all_iff keeps fresh active)
  moreover have "filter (addressed agentId pid) (trows (fieldAgentsT s)) \<noteq> []"
    using rows r by (cases "filter (addressed agentId pid) (trows (fieldAgentsT s))") auto
  then have "list_ex (addressed agentId pid) (trows (fieldAgentsT s2))"
    unfolding s2 filter_empty_conv by (auto simp: list_ex_iff keeps)
  ultimately show ?thesis ..
qed

text \<open>Editing an agent without a check-in time leaves every agent's last check-in as it was, so an
  edit cannot pass for a check-in.\<close>

theorem agent_edit_keeps_checkin:
  assumes "conn s" and "truthy_id (ad_id d)" and "ad_lastCheckin d = None"
  shows "map (\<lambda>r. (row_id r, fa_lastCheckin r)) (trows (fieldAgentsT (snd (upsertFieldAgent pid d s)))) =
    map (\<lambda>r. (row_id r, fa_lastCheckin r)) (trows (fieldAgentsT s))"
proof -
  have none: "upd_opt None x = x" for x :: "time option" by (simp add: upd_opt_def split: option.splits)
  have keep: "map (\<lambda>r. (row_id r, fa_lastCheckin r)) (trows (fieldAgentsT (snd (tenantUpsert fieldAgentsD l (ad_id d) (Some pid) f mk s)))) =
    map (\<lambda>r. (row_id r, fa_lastCheckin r)) (trows (fieldAgentsT s))"
    if "\<And>r. row_id (f r) = row_id r \<and> fa_lastCheckin (f r) = fa_lastCheckin r" for l f mk
    using assms(2) that
    by (auto simp: tenantUpsert_def bind_requireTenantId bindE_run updateRows_def Let_def assertUpdated_run
        returnE_run split: list.splits)
  show ?thesis
    using assms(1,3)
    by (auto simp: upsertFieldAgent_def withDb_run bindE_run [where m = "getE g" for g] getE_run enumArg_def none
        throwE_run keep split: option.splits)
qed

text \<open>Escalating a resolved incident makes it escalated again but leaves its resolution time in
  place, so the incident shows as escalated and resolved at once.\<close>

theorem escalation_keeps_resolution_time:
  assumes "escalateIncident i to note actor s = (Inr (Some r), s')" and "conn s"
    and "first_row (filter (\<lambda>r. row_id r = i) (trows (warRoomIncidentsT s))) = Some r0"
    and "wi_status r0 = Some Resolved" and "wi_resolvedAt r0 = Some t"
  shows "wi_status r = Some Escalated \<and> wi_resolvedAt r = Some t"
proof -
  define f where "f = (\<lambda>r :: warRoomIncident. r\<lparr>wi_status := Some Escalated, wi_escalatedTo := Some to,
    wi_escalatedAt := Some (clock s), wi_escalationNote := note\<rparr>)"
  obtain rows s1 where u: "updateRows warRoomIncidentsD (\<lambda>r. row_id r = i) f s = (Inr rows, s1)"
    and r: "first_row rows = Some r"
    using assms(1,2)
    by (auto simp: escalateIncident_def skip_reads f_def returnE_run elim!: bindE_InrE seqE_InrE
        split: list.splits)
  have "rows = map f (filter (\<lambda>r. row_id r = i) (trows (warRoomIncidentsT s)))"
    using warRoomIncidentsL.update_Inr [OF u] by simp
  with r assms(3) have "r = f r0"
    by (cases "filter (\<lambda>r. row_id r = i) (trows (warRoomIncidentsT s))") simp_all
  with assms(5) show ?thesis by (simp add: f_def)
qed

text \<open>A completed assignment is broadcast to the campaign named in the request, whichever that is,
  and not to the campaign of the incident the caller was authorized on.\<close>

theorem assignment_broadcast_is_caller_chosen:
  assumes "warRoom_assignIncident u i who (Some q) s = (Inr r, s')"
  shows "broadcasts s' = broadcasts s @ [q]"
proof -
  have keep: "preserves (\<lambda>z. broadcasts z = broadcasts s) (assignIncident i who actor)" for actor
    unfolding assignIncident_def writeIncidentAudit_def
    by (intro preserves_intros) (auto simp: preserves_def updateRows_def insertRow_def Let_def)
  from assms obtain x where u: "u = Some x"
    by (cases u) (auto simp: warRoom_assignIncident_def requireUser_def throwE_run)
  from assms obtain y s1 where "assignIncident i who (Some (su_username x)) s = (Inr y, s1)"
    and "broadcasts s' = broadcasts s1 @ [q]"
    using assertRowAccess_state [of u warRoomIncidentsD i Manager s] unfolding u
    by (auto simp: warRoom_assignIncident_def requireUser_def zodE_def guardE_run
        broadcastWarRoomUpdate_def modifyE_run returnE_run elim!: seqE_InrE bindE_InrE split: if_splits)
  with preserves_stepD [OF keep refl] show ?thesis by simp
qed

section \<open>Concrete runs\<close>

definition demo_incident :: incidentData where
  "demo_incident = \<lparr>wd_severity = SevHigh, wd_description = ''ballot box snatched'', wd_lga = Some ''Ikeja'',
     wd_puName = None, wd_incidentType = Some ''violence'', wd_latitude = None, wd_longitude = None,
     wd_evidenceUrl = None, wd_occurredAt = None, wd_oppositionEntryId = None, wd_reportedBy = Some ''ada''\<rparr>"

definition demo_war_room :: world where
  "demo_war_room = demo_world
     \<lparr>warRoomIncidentsT := \<lparr>trows = [(new_incident 1 0 demo_incident 5)\<lparr>wi_status := Some Resolved,
        wi_resolvedAt := Some 7\<rparr>], nextId = 6\<rparr>,
      warRoomIncidentAuditT := \<lparr>trows = [audit_entry 0 5 ''created'' None None (Some ''open'') None 1,
        audit_entry 7 5 ''resolved'' None (Some ''open'') (Some ''resolved'') None 2], nextId = 3\<rparr>,
      fieldAgentsT := \<lparr>trows = [\<lparr>row_id = 4, profileId = Some 1, fa_name = ''Musa'', fa_phone = None,
        fa_assignedPu = None, fa_lga = None, fa_agentStatus = Some AgentSos, fa_votersCounted = Some 0,
        fa_lastCheckin = None, fa_createdAt = 0\<rparr>], nextId = 5\<rparr>\<rparr>"

lemmas demo_war_room_simps = demo_war_room_def demo_world_def empty_world_def no_rows_def new_incident_def
  demo_incident_def audit_entry_def demo_profile_def fk_def fko_def vc_def vco_def int4_def int4o_def num15o_def
  table_simps insertRow_def updateRows_def Let_def run_simps

lemma demo_escalate:
  "\<exists>r s'. escalateIncident 5 ''inec'' None (Some ''ada'') demo_war_room = (Inr (Some r), s')"
  by (simp add: escalateIncident_def writeIncidentAudit_def warRoomIncidents_chk_def warRoomIncidentAudit_chk_def
      warRoomIncidentAuditD_def incident_status_def demo_war_room_simps)

theorem escalation_keeps_resolution_time_witness:
  "\<exists>r s'. escalateIncident 5 ''inec'' None (Some ''ada'') demo_war_room = (Inr (Some r), s') \<and>
     wi_status r = Some Escalated \<and> wi_resolvedAt r = Some 7"
proof -
  obtain r s' where run: "escalateIncident 5 ''inec'' None (Some ''ada'') demo_war_room = (Inr (Some r), s')"
    using demo_escalate by blast
  moreover have "first_row (filter (\<lambda>r. row_id r = 5) (trows (warRoomIncidentsT demo_war_room))) =
      Some ((new_incident 1 0 demo_incident 5)\<lparr>wi_status := Some Resolved, wi_resolvedAt := Some 7\<rparr>)"
    and "conn demo_war_room" by (simp_all add: demo_war_room_def new_incident_def)
  ultimately show ?thesis using escalation_keeps_resolution_time by fastforce
qed

theorem audit_trail_current_witness:
  "\<exists>s'. incident_run demo_war_room s' \<and> audit_current s' \<and> incident_status 5 s' = Some ''escalated''"
proof -
  obtain r s' where run: "escalateIncident 5 ''inec'' None (Some ''ada'') demo_war_room = (Inr (Some r), s')"
    using demo_escalate by blast
  then have r: "incident_run demo_war_room s'"
    using incident_run.more [OF incident_run.start incident_step.escalated] by blast
  have cur: "audit_current demo_war_room"
    by (simp add: audit_current_def audit_of_def incident_status_def incident_ids_def demo_war_room_def
        new_incident_def audit_entry_def)
  have "incident_status 5 s' = Some ''escalated''"
    using run by (auto simp: escalateIncident_def writeIncidentAudit_def warRoomIncidents_chk_def
        warRoomIncidentAudit_chk_def warRoomIncidentAuditD_def incident_status_def demo_war_room_simps)
  with r audit_trail_current [OF r cur] show ?thesis by blast
qed

theorem scan_idempotent_witness:
  "\<exists>found s'. scanSilentAgents None 60 demo_war_room = (Inr found, s') \<and>
     scanSilentAgents None 60 s' = (Inr found, s') \<and> length found = 1"
proof -
  have c: "conn demo_war_room" by (simp add: demo_war_room_def)
  obtain found s' where run: "scanSilentAgents None 60 demo_war_room = (Inr found, s')" and "length found = 1"
    using c by (auto simp: scan_run silenced_def in_scope_def overdue_def fieldAgents_chk_def order_by_def
        demo_war_room_simps)
  with scan_idempotent [OF c run] show ?thesis by blast
qed

theorem checked_in_agent_not_silenced_witness:
  "\<exists>r s1 found s2. agentCheckIn 4 1 (Some 120) demo_war_room = (Inr (Some r), s1) \<and>
     scanSilentAgents None 60 (s1\<lparr>clock := 3600000\<rparr>) = (Inr found, s2) \<and>
     list_ex (addressed 4 1) (trows (fieldAgentsT s2))"
proof -
  have c: "conn demo_war_room" by (simp add: demo_war_room_def)
  obtain r s1 where check: "agentCheckIn 4 1 (Some 120) demo_war_room = (Inr (Some r), s1)"
    by (auto simp: agentCheckIn_def bind_requireTenantId fieldAgents_chk_def upd_opt_def first_row_def
        demo_war_room_simps)
  have "\<exists>found s2. scanSilentAgents None 60 (s1\<lparr>clock := 3600000\<rparr>) = (Inr found, s2)"
    using check by (auto simp: agentCheckIn_def bind_requireTenantId fieldAgents_chk_def upd_opt_def first_row_def
        scan_run silenced_def in_scope_def overdue_def demo_war_room_simps)
  then obtain found s2 where scan: "scanSilentAgents None 60 (s1\<lparr>clock := 3600000\<rparr>) = (Inr found, s2)" by blast
  have "(3600000 :: int) \<le> clock demo_war_room + 60 * 60000" by (simp add: demo_war_room_def)
  from checked_in_agent_not_silenced [OF c check this scan] check scan show ?thesis by blast
qed

theorem agent_edit_keeps_checkin_witness:
  "map (\<lambda>r. (row_id r, fa_lastCheckin r)) (trows (fieldAgentsT (snd (upsertFieldAgent 1
     \<lparr>ad_id = Some 4, ad_name = ''Musa B'', ad_phone = None, ad_lga = None, ad_assignedPu = None,
      ad_agentStatus = None, ad_lastCheckin = None\<rparr> demo_war_room)))) = [(4, None)]"
  using agent_edit_keeps_checkin [of demo_war_room "\<lparr>ad_id = Some 4, ad_name = ''Musa B'', ad_phone = None,
    ad_lga = None, ad_assignedPu = None, ad_agentStatus = None, ad_lastCheckin = None\<rparr>" 1]
  by (simp add: demo_war_room_def)

theorem assignment_broadcast_is_caller_chosen_witness:
  "\<exists>r s'. warRoom_assignIncident (Some ada) 5 ''Team B'' (Some 2) demo_war_room = (Inr r, s') \<and> broadcasts s' = [2]"
proof -
  have "\<exists>r s'. warRoom_assignIncident (Some ada) 5 ''Team B'' (Some 2) demo_war_room = (Inr r, s')"
    by (simp add: warRoom_assignIncident_def requireUser_def zodE_def assertRowAccess_def profileIdForRow_def
        assertProfileRole_def assignIncident_def writeIncidentAudit_def broadcastWarRoomUpdate_def
        warRoomIncidents_chk_def warRoomIncidentAudit_chk_def warRoomIncidentAuditD_def safeUser_def demo_user_def
        demo_war_room_simps)
  moreover have "broadcasts demo_war_room = []" by (simp add: demo_war_room_def demo_world_def empty_world_def)
  ultimately show ?thesis using assignment_broadcast_is_caller_chosen by fastforce
qed

end
