(* ===== verification/Survey_Panel.thy ===== *)
theory Survey_Panel
  imports Voter_Compliance
begin

text \<open>
  The consented survey panel and the message experiments of \<^verbatim>\<open>server/db.ts\<close> and the
  \<open>analytics\<close> router. The lemmas show that enrolment needs a current consent of the
  same campaign, and what a later withdrawal does not reach.
\<close>

record panelistData =
  pn_consentId :: int
  pn_fullName :: string
  pn_stateCode :: "string option"
  pn_lga :: "string option"
  pn_ward :: "string option"
  pn_ageBand :: "string option"
  pn_gender :: "string option"

definition addSurveyPanelist :: "int \<Rightarrow> panelistData \<Rightarrow> (world, surveyPanelist option) proc" where
  "addSurveyPanelist pid d =
     withDb None
       (bindE (selectRows consentRecordsD (\<lambda>c. row_id c = pn_consentId d \<and> profileId c = Some pid)) (\<lambda>consent.
        case first_row consent of
          None \<Rightarrow> throwE (TRPC BAD_REQUEST ''consentId does not reference a consent record for this profile'')
        | Some c \<Rightarrow>
            if \<not> cr_consentGranted c \<or> cr_withdrawnAt c \<noteq> None
            then throwE (TRPC FORBIDDEN ''Panel enrollment refused: consent is not active (not granted or withdrawn).'')
            else bindE (getE clock) (\<lambda>now.
                 bindE (insertRow surveyPanelistsD None
                   (\<lambda>i. \<lparr>row_id = i, profileId = Some pid, sp_consentId = pn_consentId d,
                      sp_fullName = pn_fullName d, sp_stateCode = pn_stateCode d, sp_lga = pn_lga d,
                      sp_ward = pn_ward d, sp_ageBand = pn_ageBand d, sp_gender = pn_gender d,
                      sp_status = ''active'', sp_createdAt = now\<rparr>))
                   (\<lambda>r. returnE (Some r)))))"

text \<open>Scores arrive as JavaScript numbers.\<close>

definition likert :: "rat \<Rightarrow> bool" where
  "likert x \<longleftrightarrow> of_int \<lfloor>x\<rfloor> = x \<and> 1 \<le> x \<and> x \<le> 5"

definition recordSurveyResponses ::
  "int \<Rightarrow> int \<Rightarrow> string \<Rightarrow> (string \<times> rat) list \<Rightarrow> (world, nat) proc" where
  "recordSurveyResponses pid panelistId instrument responses =
     withDb 0
       (bindE (selectRows surveyPanelistsD (\<lambda>p. row_id p = panelistId \<and> profileId p = Some pid)) (\<lambda>p.
        case first_row p of
          None \<Rightarrow> throwE (TRPC NOT_FOUND ''Panelist not found'')
        | Some panelist \<Rightarrow>
            if sp_status panelist \<noteq> ''active''
            then throwE (TRPC FORBIDDEN ''Panelist is not active (consent withdrawn)'')
            else seqE (forE responses (\<lambda>(k, x). guardE (likert x)
                   (TRPC BAD_REQUEST ''Likert scores must be integers 1-5'')))
              (if responses = [] then throwE (PlainError ''values() must be called with at least one value'')
               else bindE (getE clock) (\<lambda>now.
                    bindE (insertRows surveyResponsesD
                      (map (\<lambda>(k, x) i. \<lparr>row_id = i, sv_panelistId = panelistId, sv_instrument = instrument,
                         sv_itemKey = k, sv_score = \<lfloor>x\<rfloor>, sv_respondedAt = now\<rparr>) responses))
                      (\<lambda>inserted. returnE (length inserted))))))"

definition createMessageTest ::
  "int \<Rightarrow> string \<Rightarrow> string option \<Rightarrow> (string \<times> string) list \<Rightarrow>
   (world, (messageTest \<times> messageVariant list) option) proc" where
  "createMessageTest pid name channel variants =
     withDb None
       (if length variants < 2
        then throwE (TRPC BAD_REQUEST ''A/B tests require at least 2 variants'')
        else bindE (getE clock) (\<lambda>now.
             bindE (insertRow messageTestsD None
               (\<lambda>i. \<lparr>row_id = i, profileId = Some pid, mt_name = name, mt_channel = channel,
                  mt_status = ''draft'', mt_createdAt = now\<rparr>)) (\<lambda>t.
             bindE (insertRows messageVariantsD
               (map (\<lambda>(l, b) i. \<lparr>row_id = i, mv_testId = row_id t, mv_label = l, mv_body = b,
                  mv_createdAt = now\<rparr>) variants)) (\<lambda>vs.
             returnE (Some (t, vs))))))"

text \<open>The inner join of variants and tests, first match first.\<close>

definition variantOwners :: "int \<Rightarrow> world \<Rightarrow> int option list" where
  "variantOwners variantId s =
     concat (map (\<lambda>v. map profileId (filter (\<lambda>t. row_id t = mv_testId v) (trows (messageTestsT s))))
       (filter (\<lambda>v. row_id v = variantId) (trows (messageVariantsT s))))"

definition recordMessageEvent :: "int \<Rightarrow> int \<Rightarrow> string \<Rightarrow> (world, messageEvent option) proc" where
  "recordMessageEvent pid variantId eventType =
     withDb None
       (if eventType \<notin> {''impression'', ''response'', ''conversion''}
        then throwE (TRPC BAD_REQUEST ''eventType must be impression|response|conversion'')
        else bindE (getE (variantOwners variantId)) (\<lambda>v.
             if first_row v \<noteq> Some (Some pid)
             then throwE (TRPC NOT_FOUND ''Message variant not found'')
             else bindE (getE clock) (\<lambda>now.
                  bindE (insertRow messageEventsD None
                    (\<lambda>i. \<lparr>row_id = i, me_variantId = variantId, me_eventType = eventType, me_occurredAt = now\<rparr>))
                    (\<lambda>r. returnE (Some r)))))"

section \<open>Procedures\<close>

definition analytics_enrollPanelist ::
  "sessionUser option \<Rightarrow> jsValue \<Rightarrow> panelistData \<Rightarrow> (world, surveyPanelist option) proc" where
  "analytics_enrollPanelist u raw d =
     profileScopedProcedure Manager u raw (\<lambda>_ _ pid.
       seqE (zodE (1 \<le> length (pn_fullName d) \<and> length (pn_fullName d) \<le> 200 \<and> vco 10 (pn_stateCode d) \<and>
               vco 100 (pn_lga d) \<and> vco 100 (pn_ward d) \<and> vco 10 (pn_ageBand d) \<and> vco 20 (pn_gender d)))
         (addSurveyPanelist pid d))"

definition analytics_recordResponses ::
  "sessionUser option \<Rightarrow> jsValue \<Rightarrow> int \<Rightarrow> string \<Rightarrow> (string \<times> rat) list \<Rightarrow> (world, nat) proc" where
  "analytics_recordResponses u raw panelistId instrument responses =
     profileScopedProcedure Manager u raw (\<lambda>_ _ pid.
       seqE (zodE (1 \<le> length instrument \<and> length instrument \<le> 40 \<and> responses \<noteq> [] \<and>
               list_all (\<lambda>(k, x). 1 \<le> length k \<and> length k \<le> 20 \<and> likert x) responses))
         (recordSurveyResponses pid panelistId instrument responses))"

definition analytics_createMessageTest ::
  "sessionUser option \<Rightarrow> jsValue \<Rightarrow> string \<Rightarrow> string option \<Rightarrow> (string \<times> string) list \<Rightarrow>
   (world, (messageTest \<times> messageVariant list) option) proc" where
  "analytics_createMessageTest u raw name channel variants =
     profileScopedProcedure Manager u raw (\<lambda>_ _ pid.
       seqE (zodE (1 \<le> length name \<and> length name \<le> 200 \<and> vco 40 channel \<and>
               2 \<le> length variants \<and> length variants \<le> 8 \<and>
               list_all (\<lambda>(l, b). 1 \<le> length l \<and> length l \<le> 40 \<and> 1 \<le> length b) variants))
         (createMessageTest pid name channel variants))"

definition analytics_recordEvent ::
  "sessionUser option \<Rightarrow> jsValue \<Rightarrow> int \<Rightarrow> string \<Rightarrow> (world, messageEvent option) proc" where
  "analytics_recordEvent u raw variantId eventType =
     profileScopedProcedure Manager u raw (\<lambda>_ _ pid.
       seqE (zodE (eventType \<in> {''impression'', ''response'', ''conversion''}))
         (recordMessageEvent pid variantId eventType))"

lemma wf_panel_procedures [preserves_intros]:
  "preserves wf_ids (analytics_enrollPanelist u raw d)"
  "preserves wf_ids (analytics_recordResponses u raw p i rs)"
  "preserves wf_ids (analytics_createMessageTest u raw n c vs)"
  "preserves wf_ids (analytics_recordEvent u raw v e)"
  unfolding analytics_enrollPanelist_def addSurveyPanelist_def analytics_recordResponses_def
    recordSurveyResponses_def analytics_createMessageTest_def createMessageTest_def
    analytics_recordEvent_def recordMessageEvent_def split_def
  by (intro preserves_intros; simp)+

lemma outsider_panel_procedures [outsider_intros]:
  "follows (outsider u q) (analytics_enrollPanelist u raw d)"
  "follows (outsider u q) (analytics_recordResponses u raw p i rs)"
  "follows (outsider u q) (analytics_createMessageTest u raw n c vs)"
  "follows (outsider u q) (analytics_recordEvent u raw v e)"
  unfolding analytics_enrollPanelist_def addSurveyPanelist_def analytics_recordResponses_def
    recordSurveyResponses_def analytics_createMessageTest_def createMessageTest_def
    analytics_recordEvent_def recordMessageEvent_def split_def
  by (intro outsider_intros; simp)+

section \<open>Consent and the panel\<close>

lemma first_filter_SomeD: "first_row (filter P rs) = Some r \<Longrightarrow> r \<in> set rs \<and> P r"
  using first_row_SomeD by fastforce

text \<open>C12: a panelist is enrolled only on a consent record of the same campaign that is granted and
  not withdrawn; a consent id of another campaign is BAD\_REQUEST and an inactive consent
  FORBIDDEN, and neither writes anything.\<close>

theorem enrolment_needs_active_consent:
  assumes "conn s"
  shows "(case first_row (filter (addressed (pn_consentId d) pid) (trows (consentRecordsT s))) of
       None \<Rightarrow> addSurveyPanelist pid d s =
         (Inl (TRPC BAD_REQUEST ''consentId does not reference a consent record for this profile''), s)
     | Some c \<Rightarrow> if active_consent c
         then \<forall>r s'. addSurveyPanelist pid d s = (Inr (Some r), s') \<longrightarrow>
           profileId r = Some pid \<and> sp_consentId r = row_id c \<and>
           trows (surveyPanelistsT s') = trows (surveyPanelistsT s) @ [r]
         else addSurveyPanelist pid d s =
           (Inl (TRPC FORBIDDEN ''Panel enrollment refused: consent is not active (not granted or withdrawn).''), s))"
proof (cases "first_row (filter (addressed (pn_consentId d) pid) (trows (consentRecordsT s)))")
  case None
  then show ?thesis
    using assms by (simp add: addSurveyPanelist_def addressed_def [abs_def] run_simps)
next
  case (Some c)
  have id: "row_id c = pn_consentId d" using first_filter_SomeD [OF Some] by (simp add: addressed_def)
  show ?thesis
  proof (cases "active_consent c")
    case False
    with Some assms show ?thesis
      by (auto simp: addSurveyPanelist_def addressed_def [abs_def] run_simps active_consent_def)
  next
    case True
    define mk where "mk = (\<lambda>i. \<lparr>row_id = i, profileId = Some pid, sp_consentId = pn_consentId d,
      sp_fullName = pn_fullName d, sp_stateCode = pn_stateCode d, sp_lga = pn_lga d,
      sp_ward = pn_ward d, sp_ageBand = pn_ageBand d, sp_gender = pn_gender d,
      sp_status = ''active'', sp_createdAt = clock s\<rparr>)"
    have run: "addSurveyPanelist pid d s = bindE (insertRow surveyPanelistsD None mk) (\<lambda>r. returnE (Some r)) s"
      using Some True assms
      by (simp add: addSurveyPanelist_def addressed_def [abs_def] withDb_run selectRows_run getE_run
          bindE_run [where m = "selectRows D P" for D P] bindE_run [where m = "getE g" for g] active_consent_def mk_def)
    have "profileId r = Some pid \<and> sp_consentId r = row_id c \<and>
        trows (surveyPanelistsT s') = trows (surveyPanelistsT s) @ [r]"
      if "addSurveyPanelist pid d s = (Inr (Some r), s')" for r s'
    proof -
      from that have ins: "insertRow surveyPanelistsD None mk s = (Inr r, s')"
        unfolding run by (auto simp: returnE_run elim!: bindE_InrE)
      obtain i where "r = (mk i)\<lparr>row_id := i\<rparr>" using surveyPanelistsL.insert_Inr [OF ins] by blast
      with surveyPanelistsL.insert_Inr [OF ins] id show ?thesis by (simp add: mk_def)
    qed
    with Some True show ?thesis by simp
  qed
qed

text \<open>Recording responses does not look at the consent table.\<close>

lemma insertRow_response_commutes:
  "insertRow surveyResponsesD None mk (s\<lparr>consentRecordsT := t\<rparr>) =
   apsnd (\<lambda>s. s\<lparr>consentRecordsT := t\<rparr>) (insertRow surveyResponsesD None mk s)"
  by (simp add: insertRow_def Let_def table_simps surveyResponses_chk_def)

lemma insertAll_response_commutes:
  "insertAll surveyResponsesD mks (s\<lparr>consentRecordsT := t\<rparr>) =
   apsnd (\<lambda>s. s\<lparr>consentRecordsT := t\<rparr>) (insertAll surveyResponsesD mks s)"
proof (induction mks arbitrary: s)
  case Nil
  show ?case by (simp add: returnE_run)
next
  case (Cons mk mks)
  obtain r s1 where r: "insertRow surveyResponsesD None mk s = (r, s1)" by (cases "insertRow surveyResponsesD None mk s")
  show ?case
    using Cons [of s1] r
    by (cases r) (auto simp: bindE_run insertRow_response_commutes returnE_run apsnd_def map_prod_def
        split: prod.splits sum.splits)
qed

lemma forE_guards:
  "forE rs (\<lambda>(k, x). guardE (P x) e) s = ((if list_all (\<lambda>(k, x). P x) rs then Inr () else Inl e), s)"
  by (induction rs) (auto simp: run_simps)

text \<open>Withdrawing the consent a panelist was enrolled on leaves the panel as it is, so responses
  of that panelist are accepted afterwards exactly as before.\<close>

theorem withdrawal_does_not_reach_panel:
  assumes "withdrawConsent cid pid s = (r, s')" and "conn s"
  shows "surveyPanelistsT s' = surveyPanelistsT s \<and>
    fst (recordSurveyResponses pid panelistId instrument responses s') =
    fst (recordSurveyResponses pid panelistId instrument responses s)"
proof -
  have "\<exists>t. s' = s\<lparr>consentRecordsT := t\<rparr>"
    using assms(1) consentRecordsL.update_frame [of "\<lambda>r. row_id r = cid \<and> profileId r = Some pid"
      "\<lambda>r. r\<lparr>cr_withdrawnAt := Some (clock s), cr_consentGranted := False, cr_updatedAt := clock s\<rparr>" s] assms(2)
    by (auto simp: withdrawConsent_def run_simps split: prod.splits sum.splits list.splits)
  then obtain t where s': "s' = s\<lparr>consentRecordsT := t\<rparr>" by blast
  have ins: "fst (insertRows surveyResponsesD mks (s\<lparr>consentRecordsT := t\<rparr>)) = fst (insertRows surveyResponsesD mks s)"
    for mks
    by (simp add: insertRows_def insertAll_response_commutes split: prod.splits sum.splits)
  have out: "fst (bindE m (\<lambda>x. returnE (g x)) z) = map_sum id g (fst (m z))"
    for m :: "(world, 'x) proc" and g :: "'x \<Rightarrow> nat" and z
    by (simp add: run_simps split: prod.splits sum.splits)
  show ?thesis
    by (simp add: s' recordSurveyResponses_def withDb_run selectRows_run getE_run seqE_run forE_guards throwE_run returnE_run
        bindE_run [where m = "selectRows D P" for D P] bindE_run [where m = "getE g" for g] out ins
        split: option.splits)
qed

definition demo_panel :: world where
  "demo_panel = (demo_records ''Chidi'')\<lparr>surveyPanelistsT := \<lparr>trows = [\<lparr>row_id = 1, profileId = Some 1,
     sp_consentId = 3, sp_fullName = ''Chidi'', sp_stateCode = None, sp_lga = None, sp_ward = None,
     sp_ageBand = None, sp_gender = None, sp_status = ''active'', sp_createdAt = 0\<rparr>], nextId = 2\<rparr>\<rparr>"

theorem withdrawal_does_not_reach_panel_witness:
  "fst (recordSurveyResponses 1 1 ''OCEAN20'' [(''E1'', 4)] (snd (withdrawConsent 3 1 demo_panel))) = Inr 1"
proof -
  have c: "conn demo_panel" by (simp add: demo_panel_def demo_records_simps)
  have "fst (recordSurveyResponses 1 1 ''OCEAN20'' [(''E1'', 4)] demo_panel) = Inr 1"
    by (simp add: recordSurveyResponses_def c run_simps likert_def insertRows_def insertRow_def Let_def table_simps
        surveyResponses_chk_def demo_panel_def fk_def vc_def int4_def)
      (simp add: demo_records_def demo_world_def empty_world_def no_rows_def run_simps)
  then show ?thesis
    using withdrawal_does_not_reach_panel [OF surjective_pairing [of "withdrawConsent 3 1 demo_panel"] c] by simp
qed

theorem enrolment_needs_active_consent_witness:
  "addSurveyPanelist 2 \<lparr>pn_consentId = 3, pn_fullName = ''X'', pn_stateCode = None, pn_lga = None,
     pn_ward = None, pn_ageBand = None, pn_gender = None\<rparr> demo_panel =
   (Inl (TRPC BAD_REQUEST ''consentId does not reference a consent record for this profile''), demo_panel)"
  using enrolment_needs_active_consent [where s = demo_panel and pid = 2 and d = "\<lparr>pn_consentId = 3, pn_fullName = ''X'',
    pn_stateCode = None, pn_lga = None, pn_ward = None, pn_ageBand = None, pn_gender = None\<rparr>"]
  by (simp add: demo_panel_def demo_records_simps trail_consent_def new_consent_def addressed_def)

end
