(* ===== verification/Polling_Units.thy ===== *)
theory Polling_Units
  imports Voter_Compliance
begin

text \<open>
  Polling units: the shared national registry, which a campaign may only add to, and the
  campaign's own assignments (\<^verbatim>\<open>server/db.ts\<close> and the \<open>pollingUnits\<close> router). The lemmas show
  that no write ever changes a registry row and that a campaign has at most one
  assignment per unit.
\<close>

record puView =
  pv_id :: int
  pv_profileId :: "int option"
  pv_puCode :: string
  pv_name :: string
  pv_ward :: string
  pv_latitude :: "rat option"
  pv_longitude :: "rat option"
  pv_registeredVoters :: "int option"
  pv_agentName :: "string option"
  pv_agentPhone :: "string option"
  pv_status :: "string option"
  pv_notes :: "string option"

definition pu_view :: "campaignPuAssignment \<Rightarrow> pollingUnit \<Rightarrow> puView" where
  "pu_view a p =
     \<lparr>pv_id = row_id a, pv_profileId = profileId a, pv_puCode = pu_code p, pv_name = pu_name p,
      pv_ward = pu_wardCode p, pv_latitude = pu_latitude p, pv_longitude = pu_longitude p,
      pv_registeredVoters = pu_registeredVoters p, pv_agentName = pa_agentName a,
      pv_agentPhone = pa_agentPhone a, pv_status = pa_status a, pv_notes = pa_notes a\<rparr>"

definition getPollingUnits :: "int \<Rightarrow> (world, puView list) proc" where
  "getPollingUnits pid =
     withDb []
       (bindE (selectRows campaignPuAssignmentsD (\<lambda>a. profileId a = Some pid)) (\<lambda>own.
        bindE (selectRows pollingUnitsD (\<lambda>_. True)) (\<lambda>units.
        returnE (order_by pv_name (concat (map (\<lambda>a. map (pu_view a)
          (filter (\<lambda>p. pu_code p = pa_puCode a) units)) own))))))"

record pollingUnitWriteInput =
  pw_puCode :: "string option"
  pw_name :: string
  pw_ward :: "string option"
  pw_latitude :: "rat option"
  pw_longitude :: "rat option"
  pw_registeredVoters :: "int option"
  pw_agentName :: "string option"
  pw_agentPhone :: "string option"
  pw_status :: "string option"
  pw_pwdAccessible :: "bool option"

text \<open>\<open>data.puCode || data.name.toLowerCase().replace(/[^a-z0-9]+/g, "-").slice(0, 50)\<close>.\<close>

definition unit_code :: "pollingUnitWriteInput \<Rightarrow> string" where
  "unit_code d =
     str_or (pw_puCode d)
       (take 50 (replaceRuns (\<lambda>c. \<not> (is_lower c \<or> is_digit c)) ''-'' False (toLowerCase (pw_name d))))"

definition new_assignment :: "int \<Rightarrow> string \<Rightarrow> time \<Rightarrow> pollingUnitWriteInput \<Rightarrow> int \<Rightarrow> campaignPuAssignment" where
  "new_assignment pid code now d i =
     \<lparr>row_id = i, profileId = Some pid, pa_puCode = code, pa_agentName = pw_agentName d,
      pa_agentPhone = pw_agentPhone d, pa_status = pw_status d, pa_notes = None,
      pa_pwdAccessible = Some False, pa_createdAt = now\<rparr>"

definition set_assignment :: "pollingUnitWriteInput \<Rightarrow> campaignPuAssignment \<Rightarrow> campaignPuAssignment" where
  "set_assignment d r =
     r\<lparr>pa_agentName := upd_opt (pw_agentName d) (pa_agentName r),
       pa_agentPhone := upd_opt (pw_agentPhone d) (pa_agentPhone r),
       pa_status := upd_opt (pw_status d) (pa_status r)\<rparr>"

text \<open>The SET clause of the assignment upsert has only optional columns; the query builder may
  refuse it when none is given.\<close>

definition emptySet :: "pollingUnitWriteInput \<Rightarrow> bool" where
  "emptySet d \<longleftrightarrow> pw_agentName d = None \<and> pw_agentPhone d = None \<and> pw_status d = None"

definition new_unit :: "string \<Rightarrow> pollingUnitWriteInput \<Rightarrow> int \<Rightarrow> pollingUnit" where
  "new_unit code d i =
     \<lparr>row_id = i, pu_code = code, pu_name = pw_name d, pu_wardCode = str_or (pw_ward d) ''unassigned'',
      pu_registeredVoters = Some (nullish (pw_registeredVoters d) 0),
      pu_latitude = pw_latitude d, pu_longitude = pw_longitude d\<rparr>"

definition writePollingUnitAssignment ::
  "int \<Rightarrow> pollingUnitWriteInput \<Rightarrow> (world, campaignPuAssignment option) proc" where
  "writePollingUnitAssignment pid d =
     (let code = unit_code d in
      seqE (insertIfAbsent pollingUnitsD (\<lambda>p. pu_code p = code) (new_unit code d))
        (bindE (getE refusesEmptySet) (\<lambda>refuses.
         if refuses \<and> emptySet d then throwE (PlainError ''No values to set'')
         else bindE (getE clock) (\<lambda>now.
              bindE (upsertRow campaignPuAssignmentsD (\<lambda>a. profileId a = Some pid \<and> pa_puCode a = code)
                  (new_assignment pid code now d) (set_assignment d)) (\<lambda>rows.
              returnE (first_row rows))))))"

definition upsertPollingUnit ::
  "int \<Rightarrow> pollingUnitWriteInput \<Rightarrow> (world, campaignPuAssignment option) proc" where
  "upsertPollingUnit pid d = withDb None (transactionE (writePollingUnitAssignment pid d))"

definition writable :: "pollingUnitWriteInput \<Rightarrow> bool" where
  "writable d \<longleftrightarrow> trim (pw_name d) \<noteq> []"

primrec upsertChunks :: "int \<Rightarrow> pollingUnitWriteInput list list \<Rightarrow> nat \<Rightarrow> (world, nat) proc" where
  "upsertChunks pid [] upserted = returnE upserted"
| "upsertChunks pid (part # parts) upserted =
     (let chunk = filter writable part in
      seqE (transactionE (forE chunk (writePollingUnitAssignment pid)))
        (upsertChunks pid parts (upserted + length chunk)))"

definition bulkUpsertPollingUnits :: "int \<Rightarrow> pollingUnitWriteInput list \<Rightarrow> (world, nat) proc" where
  "bulkUpsertPollingUnits pid rows =
     withDb 0
       (seqE (assertBulkImportSize rows ''polling-unit bulk import'')
          (upsertChunks pid (chunks BULK_INSERT_CHUNK_SIZE rows) 0))"

section \<open>Procedures\<close>

definition pollingUnits_list :: "sessionUser option \<Rightarrow> jsValue \<Rightarrow> (world, puView list) proc" where
  "pollingUnits_list u raw = profileScopedProcedure Viewer u raw (\<lambda>_ _ pid. getPollingUnits pid)"

definition pollingUnits_upsert ::
  "sessionUser option \<Rightarrow> jsValue \<Rightarrow> pollingUnitWriteInput \<Rightarrow> (world, campaignPuAssignment option) proc" where
  "pollingUnits_upsert u raw d = profileScopedProcedure Manager u raw (\<lambda>_ _ pid. upsertPollingUnit pid d)"

text \<open>The rows of a bulk import carry no agent, phone, status or accessibility fields: zod drops them.\<close>

definition import_row :: "pollingUnitWriteInput \<Rightarrow> pollingUnitWriteInput" where
  "import_row d = d\<lparr>pw_agentName := None, pw_agentPhone := None, pw_status := None, pw_pwdAccessible := None\<rparr>"

definition pollingUnits_bulkImport ::
  "sessionUser option \<Rightarrow> jsValue \<Rightarrow> pollingUnitWriteInput list \<Rightarrow> (world, nat) proc" where
  "pollingUnits_bulkImport u raw rows =
     profileScopedProcedure Manager u raw (\<lambda>_ _ pid.
       seqE (zodE (length rows \<le> MAX_BULK_IMPORT_ROWS)) (bulkUpsertPollingUnits pid (map import_row rows)))"

section \<open>Isolation and well-formedness\<close>

lemma assignment_fields [simp]:
  "profileId (new_assignment pid code now d i) = Some pid" "pa_puCode (new_assignment pid code now d i) = code"
  "profileId (set_assignment d r) = profileId r" "row_id (set_assignment d r) = row_id r"
  "pa_puCode (set_assignment d r) = pa_puCode r"
  by (simp_all add: new_assignment_def set_assignment_def)

lemma wf_writePollingUnit [preserves_intros]: "preserves wf_ids (writePollingUnitAssignment pid d)"
  unfolding writePollingUnitAssignment_def Let_def by (intro preserves_intros) simp

lemma wf_upsertChunks [preserves_intros]: "preserves wf_ids (upsertChunks pid parts n)"
proof (induction parts arbitrary: n)
  case Nil
  show ?case by (simp add: preserves_returnE)
next
  case (Cons part parts)
  then show ?case by (simp add: Let_def) (intro preserves_intros)
qed

lemma wf_pollingUnit_procedures [preserves_intros]:
  "preserves wf_ids (pollingUnits_list u raw)"
  "preserves wf_ids (pollingUnits_upsert u raw d)"
  "preserves wf_ids (pollingUnits_bulkImport u raw rows)"
  unfolding pollingUnits_list_def getPollingUnits_def pollingUnits_upsert_def upsertPollingUnit_def
    pollingUnits_bulkImport_def bulkUpsertPollingUnits_def
  by (intro preserves_intros)+

lemma outsider_writePollingUnit [outsider_intros]:
  "pid \<noteq> q \<Longrightarrow> follows (outsider u q) (writePollingUnitAssignment pid d)"
  unfolding writePollingUnitAssignment_def Let_def by (intro outsider_intros) simp_all

lemma outsider_upsertChunks [outsider_intros]:
  "pid \<noteq> q \<Longrightarrow> follows (outsider u q) (upsertChunks pid parts n)"
proof (induction parts arbitrary: n)
  case Nil
  show ?case by (simp add: outsider_step.returnE)
next
  case (Cons part parts)
  then show ?case by (simp add: Let_def) (intro outsider_intros)
qed

lemma outsider_pollingUnit_procedures [outsider_intros]:
  "follows (outsider u q) (pollingUnits_list u raw)"
  "follows (outsider u q) (pollingUnits_upsert u raw d)"
  "follows (outsider u q) (pollingUnits_bulkImport u raw rows)"
  unfolding pollingUnits_list_def getPollingUnits_def pollingUnits_upsert_def upsertPollingUnit_def
    pollingUnits_bulkImport_def bulkUpsertPollingUnits_def
  by (intro outsider_intros; simp)+

section \<open>The shared registry\<close>

definition registry_extends :: "world \<Rightarrow> world \<Rightarrow> bool" where
  "registry_extends s s' \<longleftrightarrow> (\<exists>new. trows (pollingUnitsT s') = trows (pollingUnitsT s) @ new)"

interpretation registry_step: transition_preorder registry_extends
  by unfold_locales (auto simp: registry_extends_def)

lemma registry_statements:
  "follows registry_extends (insertIfAbsent pollingUnitsD c mk)"
  "follows registry_extends (upsertRow campaignPuAssignmentsD c' mk' f)"
proof -
  have ins: "follows registry_extends (insertRow pollingUnitsD None mk)"
    by (auto simp: follows_def insertRow_def Let_def registry_extends_def)
  then show "follows registry_extends (insertIfAbsent pollingUnitsD c mk)"
    unfolding insertIfAbsent_def
    by (intro registry_step.intros follows_selectRows registry_step.refl)
  have "follows registry_extends (insertRow campaignPuAssignmentsD None mk')"
    "follows registry_extends (updateRows campaignPuAssignmentsD c' f)"
    by (auto simp: follows_def insertRow_def updateRows_def Let_def registry_extends_def)
  then show "follows registry_extends (upsertRow campaignPuAssignmentsD c' mk' f)"
    unfolding upsertRow_def by (intro registry_step.intros follows_selectRows registry_step.refl)
qed

lemma registry_write: "follows registry_extends (writePollingUnitAssignment pid d)"
  unfolding writePollingUnitAssignment_def Let_def by (intro registry_step.intros registry_statements)

lemma registry_chunks: "follows registry_extends (upsertChunks pid parts n)"
proof (induction parts arbitrary: n)
  case Nil
  show ?case by (simp add: registry_step.returnE)
next
  case (Cons part parts)
  then show ?case by (simp add: Let_def) (intro registry_step.intros registry_write)
qed

text \<open>No polling-unit write, single or bulk, successful or failed, changes or removes a row of
  the shared registry: what was there is there afterwards, in place, and new units follow.\<close>

theorem registry_never_rewritten:
  "registry_extends s (snd (pollingUnits_upsert u raw d s)) \<and>
   registry_extends s (snd (pollingUnits_bulkImport u raw rows s))"
proof -
  have scoped: "follows registry_extends (profileScopedProcedure m u raw next)"
    if "\<And>x r pid. follows registry_extends (next x r pid)" for m and "next" :: "sessionUser \<Rightarrow> profileRole \<Rightarrow> int \<Rightarrow> (world, 'a) proc"
    unfolding profileScopedProcedure_def resolveProfileRole_def admitRole_def
    using that by (intro registry_step.intros follows_withDb follows_selectRows registry_step.refl)
  have "follows registry_extends (pollingUnits_upsert u raw d)"
    unfolding pollingUnits_upsert_def upsertPollingUnit_def
    by (intro scoped follows_withDb registry_step.intros registry_write registry_step.refl)
  moreover have "follows registry_extends (pollingUnits_bulkImport u raw rows)"
    unfolding pollingUnits_bulkImport_def bulkUpsertPollingUnits_def assertBulkImportSize_def zodE_def
    by (intro scoped follows_withDb registry_step.intros registry_chunks registry_step.refl)
  ultimately show ?thesis by (simp add: follows_def)
qed

definition one_assignment_per_unit :: "world \<Rightarrow> bool" where
  "one_assignment_per_unit s \<longleftrightarrow>
     distinct (map (\<lambda>a. (profileId a, pa_puCode a)) (trows (campaignPuAssignmentsT s)))"

lemma one_assignment_write: "preserves one_assignment_per_unit (writePollingUnitAssignment pid d)"
proof -
  have keys: "map (\<lambda>a. (profileId a, pa_puCode a)) (map (\<lambda>r. if P r then set_assignment d r else r) rs) =
      map (\<lambda>a. (profileId a, pa_puCode a)) rs" for P rs
    by simp
  have "preserves one_assignment_per_unit (insertRow campaignPuAssignmentsD None mk)" for mk
    by (auto simp: preserves_def insertRow_def Let_def one_assignment_per_unit_def list_ex_iff
        campaignPuAssignmentsD_def)
  moreover have "preserves one_assignment_per_unit (updateRows campaignPuAssignmentsD P (set_assignment d))" for P
    by (simp add: preserves_def updateRows_def Let_def one_assignment_per_unit_def keys del: map_map)
  moreover have "preserves one_assignment_per_unit (insertRow pollingUnitsD None mk)" for mk
    by (auto simp: preserves_def insertRow_def Let_def one_assignment_per_unit_def)
  ultimately show ?thesis
    unfolding writePollingUnitAssignment_def insertIfAbsent_def upsertRow_def Let_def
    by (intro preserves_intros)
qed

lemma one_assignment_chunks: "preserves one_assignment_per_unit (upsertChunks pid parts n)"
proof (induction parts arbitrary: n)
  case Nil
  show ?case by (simp add: preserves_returnE)
next
  case (Cons part parts)
  then show ?case by (simp add: Let_def) (intro preserves_intros one_assignment_write)
qed

text \<open>A campaign never gets a second assignment for the same unit, whatever is upserted or
  imported and whether or not it succeeds.\<close>

theorem assignments_stay_unique:
  assumes "one_assignment_per_unit s"
  shows "one_assignment_per_unit (snd (upsertPollingUnit pid d s)) \<and>
    one_assignment_per_unit (snd (bulkUpsertPollingUnits pid rows s))"
proof -
  have "preserves one_assignment_per_unit (upsertPollingUnit pid d)"
    unfolding upsertPollingUnit_def by (intro preserves_intros one_assignment_write)
  moreover have "preserves one_assignment_per_unit (bulkUpsertPollingUnits pid rows)"
    unfolding bulkUpsertPollingUnits_def assertBulkImportSize_def
    by (intro preserves_intros one_assignment_chunks)
  ultimately show ?thesis using assms by (simp add: preservesD)
qed

theorem assignments_stay_unique_witness:
  "one_assignment_per_unit (snd (upsertPollingUnit 1 \<lparr>pw_puCode = Some ''PU-1'', pw_name = ''School'',
     pw_ward = None, pw_latitude = None, pw_longitude = None, pw_registeredVoters = None,
     pw_agentName = Some ''Ngozi'', pw_agentPhone = None, pw_status = None, pw_pwdAccessible = None\<rparr> demo_world))"
  using assignments_stay_unique [of demo_world 1]
  by (simp add: one_assignment_per_unit_def demo_world_def empty_world_def no_rows_def)

section \<open>Bulk import and the empty SET clause\<close>

lemma write_import_row:
  assumes "refusesEmptySet s"
  shows "\<exists>e s'. writePollingUnitAssignment pid (import_row d) s = (Inl e, s')"
proof -
  have keep: "preserves refusesEmptySet (insertIfAbsent pollingUnitsD c mk)" for c mk
    unfolding insertIfAbsent_def
    by (intro preserves_intros) (auto simp: preserves_def insertRow_def Let_def)
  obtain r s1 where ins: "insertIfAbsent pollingUnitsD (\<lambda>p. pu_code p = unit_code (import_row d))
      (new_unit (unit_code (import_row d)) (import_row d)) s = (r, s1)" by fastforce
  have "refusesEmptySet s1" by (rule preserves_stepD [OF keep assms ins])
  moreover have "emptySet (import_row d)" by (simp add: emptySet_def import_row_def)
  ultimately show ?thesis
    using ins by (cases r) (simp_all add: writePollingUnitAssignment_def Let_def run_simps)
qed

lemma import_chunk_refused:
  assumes "refusesEmptySet s" and "ds \<noteq> []"
  shows "\<exists>e. transactionE (forE (map import_row ds) (writePollingUnitAssignment pid)) s = (Inl e, s)"
proof -
  obtain d ds' where "ds = d # ds'" using assms(2) by (cases ds) auto
  with write_import_row [OF assms(1), of pid d] show ?thesis
    by (auto simp: transactionE_def seqE_run)
qed

lemma import_chunks_refused:
  assumes "refusesEmptySet s" and "list_ex (list_ex writable) parts"
  shows "\<exists>e. upsertChunks pid (map (map import_row) parts) n s = (Inl e, s)"
  using assms
proof (induction parts arbitrary: n)
  case Nil
  then show ?case by simp
next
  case (Cons part parts)
  have wr: "writable (import_row d) = writable d" for d by (simp add: writable_def import_row_def)
  have fm: "filter writable (map import_row part) = map import_row (filter writable part)"
    by (simp add: filter_map comp_def wr)
  show ?case
  proof (cases "filter writable part = []")
    case True
    then have "\<not> list_ex writable part" by (auto simp: filter_empty_conv list_ex_iff)
    with Cons True fm show ?thesis by (simp add: seqE_run transactionE_def returnE_run)
  next
    case False
    with import_chunk_refused [OF Cons.prems(1) False, of pid] fm show ?thesis
      by (auto simp: seqE_run Let_def)
  qed
qed

lemma chunks_map: "chunks n (map f xs) = map (map f) (chunks n xs)"
proof (induction n xs rule: chunks.induct)
  case (1 n xs)
  then show ?case by (simp add: chunks.simps [of n xs] chunks.simps [of n "map f xs"] take_map drop_map)
qed

lemma list_ex_chunks: "0 < n \<Longrightarrow> list_ex (list_ex P) (chunks n xs) \<longleftrightarrow> list_ex P xs"
proof -
  assume "0 < n"
  then have "set xs = (\<Union>c \<in> set (chunks n xs). set c)"
    using concat_chunks [of n xs] by (metis set_concat)
  then show ?thesis by (auto simp: list_ex_iff)
qed

text \<open>With a query builder that refuses a SET clause without columns, the bulk import of polling
  units fails and leaves the database unchanged for every batch that has a row to write,
  because its rows carry none of the columns of the assignment's SET clause.\<close>

theorem unit_bulk_import_always_fails:
  assumes "refusesEmptySet s" and "conn s" and "list_ex writable rows" and "length rows \<le> 500"
  shows "\<exists>e. bulkUpsertPollingUnits pid (map import_row rows) s = (Inl e, s)"
  using import_chunks_refused [OF assms(1), of "chunks 100 rows" pid 0] assms
  by (auto simp: bulkUpsertPollingUnits_def assertBulkImportSize_def MAX_BULK_IMPORT_ROWS_def
      BULK_INSERT_CHUNK_SIZE_def withDb_run seqE_run guardE_run chunks_map list_ex_chunks)

definition demo_unit :: pollingUnitWriteInput where
  "demo_unit = \<lparr>pw_puCode = None, pw_name = ''Ward 3 School'', pw_ward = None, pw_latitude = None,
     pw_longitude = None, pw_registeredVoters = Some 750, pw_agentName = None, pw_agentPhone = None,
     pw_status = None, pw_pwdAccessible = None\<rparr>"

theorem unit_bulk_import_always_fails_witness:
  "\<exists>e. bulkUpsertPollingUnits 1 (map import_row [demo_unit]) demo_world = (Inl e, demo_world)"
  using unit_bulk_import_always_fails [of demo_world "[demo_unit]" 1]
  by (simp add: demo_world_def empty_world_def demo_unit_def writable_def trim_def trimLeft_def is_space_def)

text \<open>The code of a unit without one is the name in lower case with every run of other characters
  as one dash, for instance:\<close>

lemma unit_code_example: "unit_code demo_unit = ''ward-3-school''"
  by code_simp

end
