(* ===== verification/Petitions.thy ===== *)
theory Petitions
  imports Outbound
begin

text \<open>
  Public petitions: the petition part of \<^verbatim>\<open>server/db.ts\<close> and the \<open>petitions\<close> router of
  \<^verbatim>\<open>server/routers.ts\<close>, with the dedup and rate limit of anonymous signing. The digest of
  the signer identity (\<open>createHash("sha256")\<close>) is the parameter \<open>digest\<close>; what is proved about it
  needs at most that a digest has 64 characters.
\<close>

section \<open>Signer identity\<close>

text \<open>The canonical form that is hashed: the digits of the phone number, the lower-case name with its
  white space collapsed, the lower-case LGA.\<close>

definition signerIdentity :: "string \<Rightarrow> string option \<Rightarrow> string option \<Rightarrow> string" where
  "signerIdentity name phone lga =
     filter is_digit (nullish phone []) @ ''|'' @
     replaceRuns is_space '' '' False (toLowerCase (trim name)) @ ''|'' @ toLowerCase (trim (nullish lga []))"

definition signerIdentityHash ::
  "(string \<Rightarrow> string) \<Rightarrow> string \<Rightarrow> string option \<Rightarrow> string option \<Rightarrow> string" where
  "signerIdentityHash digest name phone lga = digest (signerIdentity name phone lga)"

section \<open>Petitions and signatures in the database\<close>

definition getPetitions :: "int \<Rightarrow> (world, petition list) proc" where
  "getPetitions pid =
     withDb [] (bindE (selectRows petitionsD (\<lambda>r. profileId r = Some pid))
       (\<lambda>rows. returnE (order_desc pt_createdAt rows)))"

definition new_petition :: "int \<Rightarrow> string \<Rightarrow> string option \<Rightarrow> int option \<Rightarrow> time \<Rightarrow> int \<Rightarrow> petition" where
  "new_petition pid title description target now i =
     \<lparr>row_id = i, profileId = Some pid, pt_title = title, pt_description = description,
      pt_targetSignatures = Some (nullish target 10000), pt_status = Some PetitionDraft, pt_createdAt = now\<rparr>"

definition createPetition ::
  "int \<Rightarrow> string \<Rightarrow> string option \<Rightarrow> int option \<Rightarrow> (world, petition option) proc" where
  "createPetition pid title description target =
     withDb None
       (bindE (getE clock) (\<lambda>now.
        bindE (insertRow petitionsD None (new_petition pid title description target now)) (\<lambda>r.
        returnE (Some r))))"

definition getPetitionSignatures :: "int \<Rightarrow> (world, petitionSignature list) proc" where
  "getPetitionSignatures petitionId =
     withDb [] (bindE (selectRows petitionSignaturesD (\<lambda>r. ps_petitionId r = Some petitionId))
       (\<lambda>rows. returnE (order_desc ps_signedAt rows)))"

definition new_signature ::
  "int \<Rightarrow> string \<Rightarrow> string option \<Rightarrow> string option \<Rightarrow> string \<Rightarrow> time \<Rightarrow> int \<Rightarrow> petitionSignature" where
  "new_signature petitionId name phone lga h now i =
     \<lparr>row_id = i, ps_petitionId = Some petitionId, ps_signerName = name, ps_phone = phone, ps_lga = lga,
      ps_signerHash = Some h, ps_verificationStatus = ''unverified'', ps_verifiedAt = None,
      ps_verifiedBy = None, ps_signedAt = now\<rparr>"

text \<open>The insert fails on the unique index of identity hashes exactly when the error is a unique
  violation: the primary key comes from the sequence.\<close>

definition duplicateSigner :: "error \<Rightarrow> (world, 'a) proc" where
  "duplicateSigner e =
     throwE (if e = PgError UniqueViolation
             then TRPC CONFLICT ''This signer has already signed this petition.'' else e)"

definition addPetitionSignature ::
  "(string \<Rightarrow> string) \<Rightarrow> int \<Rightarrow> string \<Rightarrow> string option \<Rightarrow> string option \<Rightarrow> (world, petitionSignature option) proc"
where
  "addPetitionSignature digest petitionId name phone lga =
     withDb None
       (bindE (getE clock) (\<lambda>now.
        bindE (catchE (insertRow petitionSignaturesD None
              (new_signature petitionId name phone lga (signerIdentityHash digest name phone lga) now))
            duplicateSigner) (\<lambda>r.
        returnE (Some r))))"

definition verifyPetitionSignature ::
  "int \<Rightarrow> int \<Rightarrow> string \<Rightarrow> (world, petitionSignature option) proc" where
  "verifyPetitionSignature i petitionId actor =
     withDb None
       (bindE (getE clock) (\<lambda>now.
        bindE (updateRows petitionSignaturesD
            (\<lambda>r. row_id r = i \<and> ps_petitionId r = Some petitionId \<and> ps_verificationStatus r = ''unverified'')
            (\<lambda>r. r\<lparr>ps_verificationStatus := ''verified'', ps_verifiedAt := Some now, ps_verifiedBy := Some actor\<rparr>))
          (\<lambda>rows. case rows of
             [] \<Rightarrow> throwE (TRPC CONFLICT ''Signature not found or not in 'unverified' state (duplicates cannot be verified).'')
           | r # _ \<Rightarrow> returnE (Some r))))"

definition getPetitionSignatureCount :: "int \<Rightarrow> (world, nat) proc" where
  "getPetitionSignatureCount petitionId =
     withDb 0 (bindE (selectRows petitionSignaturesD (\<lambda>r. ps_petitionId r = Some petitionId))
       (\<lambda>rows. returnE (length rows)))"

record signatureStats =
  st_total :: nat
  st_verified :: nat
  st_unverified :: nat
  st_rejectedDuplicate :: nat

definition count_status :: "string \<Rightarrow> petitionSignature list \<Rightarrow> nat" where
  "count_status st rows = length (filter (\<lambda>r. ps_verificationStatus r = st) rows)"

definition getPetitionSignatureStats :: "int \<Rightarrow> (world, signatureStats) proc" where
  "getPetitionSignatureStats petitionId =
     withDb \<lparr>st_total = 0, st_verified = 0, st_unverified = 0, st_rejectedDuplicate = 0\<rparr>
       (bindE (selectRows petitionSignaturesD (\<lambda>r. ps_petitionId r = Some petitionId)) (\<lambda>rows.
        returnE \<lparr>st_total = length rows, st_verified = count_status ''verified'' rows,
                 st_unverified = count_status ''unverified'' rows,
                 st_rejectedDuplicate = count_status ''rejected_duplicate'' rows\<rparr>))"

section \<open>Anonymous signing\<close>

definition PETITION_SIGN_IP_WINDOW_SECONDS :: int where "PETITION_SIGN_IP_WINDOW_SECONDS = 60 * 60"

definition PETITION_SIGN_IP_LIMIT :: int where "PETITION_SIGN_IP_LIMIT = 5"

definition PETITION_SIGN_PHONE_WINDOW_SECONDS :: int where "PETITION_SIGN_PHONE_WINDOW_SECONDS = 24 * 60 * 60"

definition sign_dedupKey :: "int \<Rightarrow> string \<Rightarrow> string option \<Rightarrow> string" where
  "sign_dedupKey petitionId ip phone =
     (if truthy_str phone then ''p:'' @ show_int petitionId @ '':ph:'' @ the phone
      else ''p:'' @ show_int petitionId @ '':ip-dedup:'' @ ip)"

definition sign_ipKey :: "int \<Rightarrow> string \<Rightarrow> string" where
  "sign_ipKey petitionId ip = ''p:'' @ show_int petitionId @ '':ip:'' @ ip"

definition checkPublicSignAllowed :: "int \<Rightarrow> string \<Rightarrow> string option \<Rightarrow> (world, unit) proc" where
  "checkPublicSignAllowed petitionId ip phone =
     bindE (hitRateLimit (sign_dedupKey petitionId ip phone) PETITION_SIGN_PHONE_WINDOW_SECONDS 1) (\<lambda>dedup.
     seqE (guardE (allowed dedup)
             (TRPC TOO_MANY_REQUESTS
                (if truthy_str phone then ''This phone number has already signed this petition.''
                 else ''A signature from this network was already recorded for this petition.'')))
       (bindE (hitRateLimit (sign_ipKey petitionId ip) PETITION_SIGN_IP_WINDOW_SECONDS PETITION_SIGN_IP_LIMIT) (\<lambda>ipHit.
        guardE (allowed ipHit)
          (TRPC TOO_MANY_REQUESTS ''Too many signatures from this network. Please try again later.''))))"

section \<open>The petitions router\<close>

definition petitions_list :: "sessionUser option \<Rightarrow> jsValue \<Rightarrow> (world, petition list) proc" where
  "petitions_list u raw = profileScopedProcedure Viewer u raw (\<lambda>_ _ pid. getPetitions pid)"

definition petitions_create ::
  "sessionUser option \<Rightarrow> jsValue \<Rightarrow> string \<Rightarrow> string option \<Rightarrow> int option \<Rightarrow> (world, petition option) proc" where
  "petitions_create u raw title description target =
     profileScopedProcedure Manager u raw (\<lambda>_ _ pid.
       seqE (zodE (vc 400 title \<and> vco 5000 description)) (createPetition pid title description target))"

definition petitions_signatures :: "sessionUser option \<Rightarrow> int \<Rightarrow> (world, petitionSignature list) proc" where
  "petitions_signatures u petitionId =
     requireUser u (\<lambda>_. seqE (assertPetitionAccess u petitionId Viewer) (getPetitionSignatures petitionId))"

definition petitions_signatureCount :: "sessionUser option \<Rightarrow> int \<Rightarrow> (world, nat) proc" where
  "petitions_signatureCount u petitionId =
     requireUser u (\<lambda>_. seqE (assertPetitionAccess u petitionId Viewer) (getPetitionSignatureCount petitionId))"

definition petitions_signatureStats :: "sessionUser option \<Rightarrow> int \<Rightarrow> (world, signatureStats) proc" where
  "petitions_signatureStats u petitionId =
     requireUser u (\<lambda>_. seqE (assertPetitionAccess u petitionId Viewer) (getPetitionSignatureStats petitionId))"

definition petitions_verifySignature ::
  "sessionUser option \<Rightarrow> int \<Rightarrow> int \<Rightarrow> (world, petitionSignature option) proc" where
  "petitions_verifySignature u signatureId petitionId =
     requireUser u (\<lambda>x. seqE (assertPetitionAccess u petitionId Manager)
       (verifyPetitionSignature signatureId petitionId (su_username x)))"

definition petitions_sign ::
  "(string \<Rightarrow> string) \<Rightarrow> sessionUser option \<Rightarrow> int \<Rightarrow> string \<Rightarrow> string option \<Rightarrow> string option \<Rightarrow>
   (world, petitionSignature option) proc" where
  "petitions_sign digest u petitionId name phone lga =
     requireUser u (\<lambda>_. seqE (zodE (vc 200 name \<and> vco 20 phone \<and> vco 100 lga))
       (seqE (assertPetitionAccess u petitionId Manager) (addPetitionSignature digest petitionId name phone lga)))"

record publicPetition =
  pp_id :: int
  pp_title :: string
  pp_description :: "string option"
  pp_targetSignatures :: "int option"
  pp_status :: "petitionStatus option"
  pp_signatureCount :: nat

definition public_view :: "petition \<Rightarrow> nat \<Rightarrow> publicPetition" where
  "public_view p n =
     \<lparr>pp_id = row_id p, pp_title = pt_title p, pp_description = pt_description p,
      pp_targetSignatures = pt_targetSignatures p, pp_status = pt_status p, pp_signatureCount = n\<rparr>"

definition petitions_getPublic :: "int \<Rightarrow> (world, publicPetition option) proc" where
  "petitions_getPublic petitionId =
     bindE (getPetitionById petitionId) (\<lambda>petition.
       case petition of
         None \<Rightarrow> returnE None
       | Some p \<Rightarrow>
           if pt_status p = Some PetitionDraft then returnE None
           else bindE (getPetitionSignatureCount petitionId) (\<lambda>n. returnE (Some (public_view p n))))"

text \<open>\<open>req.ip || req.socket?.remoteAddress || "unknown"\<close>.\<close>

definition client_ip :: "string option \<Rightarrow> string option \<Rightarrow> string" where
  "client_ip reqIp remote = str_or reqIp (str_or remote ''unknown'')"

definition petitions_publicSign ::
  "(string \<Rightarrow> string) \<Rightarrow> string option \<Rightarrow> string option \<Rightarrow> int \<Rightarrow> string \<Rightarrow> string option \<Rightarrow> string option \<Rightarrow>
   (world, petitionSignature option) proc" where
  "petitions_publicSign digest reqIp remote petitionId name phone lga =
     seqE (zodE (2 \<le> length name \<and> vc 200 name \<and> vco 20 phone \<and> vco 100 lga))
       (bindE (getPetitionById petitionId) (\<lambda>petition.
          case petition of
            None \<Rightarrow> throwE (TRPC NOT_FOUND ''Petition not found'')
          | Some p \<Rightarrow>
              if pt_status p \<noteq> Some PetitionActive
              then throwE (TRPC CONFLICT ''This petition is not open for signatures'')
              else seqE (checkPublicSignAllowed petitionId (client_ip reqIp remote) phone)
                     (addPetitionSignature digest petitionId name phone lga)))"

section \<open>Ids and other campaigns\<close>

lemma wf_petition_ops [preserves_intros]:
  "preserves wf_ids (addPetitionSignature digest i name phone lga)"
  "preserves wf_ids (checkPublicSignAllowed i ip phone)"
  unfolding addPetitionSignature_def checkPublicSignAllowed_def duplicateSigner_def
  by (intro preserves_intros)+

lemma wf_petition_procedures [preserves_intros]:
  "preserves wf_ids (petitions_list u raw)"
  "preserves wf_ids (petitions_create u raw title description target)"
  "preserves wf_ids (petitions_signatures u i)"
  "preserves wf_ids (petitions_signatureCount u i)"
  "preserves wf_ids (petitions_signatureStats u i)"
  "preserves wf_ids (petitions_verifySignature u j i)"
  "preserves wf_ids (petitions_sign digest u i name phone lga)"
  "preserves wf_ids (petitions_getPublic i)"
  "preserves wf_ids (petitions_publicSign digest reqIp remote i name phone lga)"
  unfolding petitions_list_def getPetitions_def petitions_create_def createPetition_def petitions_signatures_def
    getPetitionSignatures_def petitions_signatureCount_def getPetitionSignatureCount_def petitions_signatureStats_def
    getPetitionSignatureStats_def petitions_verifySignature_def verifyPetitionSignature_def petitions_sign_def
    petitions_getPublic_def petitions_publicSign_def
  by (intro preserves_intros; simp)+

lemma outsider_assertProfileRole:
  "follows (outsider u q) (assertProfileRole u' pid minRole)"
  by (simp add: follows_def assertProfileRole_state outsider_step.refl)

lemma outsider_petition_ops [outsider_intros]:
  "follows (outsider u q) (addPetitionSignature digest i name phone lga)"
  "follows (outsider u q) (checkPublicSignAllowed i ip phone)"
  "follows (outsider u q) (getPetitionById i)"
  "follows (outsider u q) (assertPetitionAccess u' i minRole)"
  unfolding addPetitionSignature_def checkPublicSignAllowed_def getPetitionById_def duplicateSigner_def
    assertPetitionAccess_def
  by (intro outsider_intros outsider_assertProfileRole)+

lemma outsider_petition_procedures [outsider_intros]:
  "follows (outsider u q) (petitions_list u raw)"
  "follows (outsider u q) (petitions_create u raw title description target)"
  "follows (outsider u q) (petitions_signatures u i)"
  "follows (outsider u q) (petitions_signatureCount u i)"
  "follows (outsider u q) (petitions_signatureStats u i)"
  "follows (outsider u q) (petitions_verifySignature u j i)"
  "follows (outsider u q) (petitions_sign digest u i name phone lga)"
  "follows (outsider u q) (petitions_getPublic i)"
  "follows (outsider u q) (petitions_publicSign digest reqIp remote i name phone lga)"
  unfolding petitions_list_def getPetitions_def petitions_create_def createPetition_def petitions_signatures_def
    getPetitionSignatures_def petitions_signatureCount_def getPetitionSignatureCount_def petitions_signatureStats_def
    getPetitionSignatureStats_def petitions_verifySignature_def verifyPetitionSignature_def petitions_sign_def
    petitions_getPublic_def petitions_publicSign_def
  by (intro outsider_intros; simp add: new_petition_def)+

section \<open>One signature per signer\<close>

definition signer :: "petitionSignature \<Rightarrow> string" where
  "signer r = signerIdentity (ps_signerName r) (ps_phone r) (ps_lga r)"

definition hashed :: "world \<Rightarrow> petitionSignature list" where
  "hashed s = filter (\<lambda>r. ps_signerHash r \<noteq> None \<and> ps_petitionId r \<noteq> None) (trows (petitionSignaturesT s))"

text \<open>Every stored hash is the digest of its row's identity, and no two hashed signatures of one
  petition have the same identity.\<close>

definition signed_once :: "(string \<Rightarrow> string) \<Rightarrow> world \<Rightarrow> bool" where
  "signed_once digest s \<longleftrightarrow>
     list_all (\<lambda>r. ps_signerHash r = Some (digest (signer r))) (hashed s) \<and>
     sorted_wrt (\<lambda>x y. ps_petitionId x = ps_petitionId y \<longrightarrow> signer x \<noteq> signer y) (hashed s)"

text \<open>The procedures that write petitions or signatures, run in any order by any callers.\<close>

inductive petition_step :: "(string \<Rightarrow> string) \<Rightarrow> world \<Rightarrow> world \<Rightarrow> bool" for digest where
  created: "petition_step digest s (snd (petitions_create u raw title description target s))"
| signed: "petition_step digest s (snd (petitions_sign digest u i name phone lga s))"
| public_signed: "petition_step digest s (snd (petitions_publicSign digest reqIp remote i name phone lga s))"
| verified: "petition_step digest s (snd (petitions_verifySignature u j i s))"
| elapsed: "petition_step digest s (s\<lparr>clock := t\<rparr>)"

inductive petition_run :: "(string \<Rightarrow> string) \<Rightarrow> world \<Rightarrow> world \<Rightarrow> bool" for digest where
  start: "petition_run digest s s"
| more: "petition_run digest s t \<Longrightarrow> petition_step digest t v \<Longrightarrow> petition_run digest s v"


text \<open>Steps that leave the signature table alone keep the invariant, a checked insert and a change of
  the verification fields do.\<close>

lemma signed_once_frame [preserves_intros]:
  "preserves (signed_once digest) (insertRow petitionsD None mk)"
  "preserves (signed_once digest) (hitRateLimit key ws n)"
proof -
  have same: "signed_once digest s' = signed_once digest s" if "petitionSignaturesT s' = petitionSignaturesT s" for s s'
    using that by (simp add: signed_once_def hashed_def)
  have "petitionSignaturesT (snd (insertRow petitionsD None mk s)) = petitionSignaturesT s" for s
  proof -
    obtain t where "snd (insertRow petitionsD None mk s) = s\<lparr>petitionsT := t\<rparr>"
      using petitionsL.insert_frame [of None mk s] unfolding table_access by blast
    then show ?thesis by simp
  qed
  moreover have "petitionSignaturesT (snd (hitRateLimit key ws n s)) = petitionSignaturesT s" for s
    by (auto simp: hitRateLimit_def hitInMemory_def hitPostgres_def denyHit_def run_simps Let_def)
  ultimately show "preserves (signed_once digest) (insertRow petitionsD None mk)"
    and "preserves (signed_once digest) (hitRateLimit key ws n)"
    unfolding preserves_def using same by blast+
qed

lemma signed_once_add:
  assumes "signed_once digest s" and "trows (petitionSignaturesT s') = trows (petitionSignaturesT s) @ [r]"
    and "ps_signerHash r = Some (digest (signer r))"
    and "\<forall>x \<in> set (trows (petitionSignaturesT s)). \<not> tclash petitionSignaturesD x r"
  shows "signed_once digest s'"
proof -
  have "ps_petitionId x = ps_petitionId r \<longrightarrow> signer x \<noteq> signer r" if "x \<in> set (hashed s)" for x
  proof -
    from that have "x \<in> set (trows (petitionSignaturesT s))" and "ps_signerHash x \<noteq> None" and "ps_petitionId x \<noteq> None"
      by (simp_all add: hashed_def)
    moreover have "ps_signerHash x = Some (digest (signer x))"
      using assms(1) that by (simp add: signed_once_def list_all_iff)
    ultimately show ?thesis using assms(3,4) by (auto simp: petitionSignaturesD_def)
  qed
  then show ?thesis
    using assms(1-3) by (cases "ps_petitionId r") (simp_all add: signed_once_def hashed_def sorted_wrt_append)
qed

lemma signature_hash:
  "ps_signerHash ((new_signature i name phone lga (signerIdentityHash digest name phone lga) now k)\<lparr>row_id := k\<rparr>) =
   Some (digest (signer ((new_signature i name phone lga (signerIdentityHash digest name phone lga) now k)\<lparr>row_id := k\<rparr>)))"
  by (simp add: new_signature_def signer_def signerIdentityHash_def)

lemma signed_once_insert [preserves_intros]:
  "preserves (signed_once digest) (insertRow petitionSignaturesD None
     (new_signature i name phone lga (signerIdentityHash digest name phone lga) now))"
proof -
  define mk where "mk = new_signature i name phone lga (signerIdentityHash digest name phone lga) now"
  have ok: "signed_once digest s'" if inv: "signed_once digest s"
    and ins: "insertRow petitionSignaturesD None mk s = (res, s')" for s res s'
  proof (cases res)
    case (Inl e)
    with ins have "trows (petitionSignaturesT s') = trows (petitionSignaturesT s)"
      by (auto simp: insertRow_def Let_def split: if_splits)
    with inv show ?thesis by (simp add: signed_once_def hashed_def)
  next
    case (Inr r)
    note new = petitionSignaturesL.insert_Inr [OF ins [unfolded Inr]]
    then have h: "ps_signerHash r = Some (digest (signer r))"
      unfolding mk_def by (metis signature_hash)
    have free: "\<forall>x \<in> set (trows (petitionSignaturesT s)). \<not> tclash petitionSignaturesD x r"
      using new unfolding rows_of_simps by blast
    show ?thesis using new by (intro signed_once_add [OF inv _ h free]) simp
  qed
  show ?thesis using ok unfolding mk_def by (metis preserves_def prod.collapse)
qed

lemma signed_once_verify [preserves_intros]:
  "preserves (signed_once digest) (verifyPetitionSignature j i actor)"
proof -
  define P where "P = (\<lambda>r :: petitionSignature. row_id r = j \<and> ps_petitionId r = Some i \<and> ps_verificationStatus r = ''unverified'')"
  have "preserves (signed_once digest) (updateRows petitionSignaturesD P
     (\<lambda>r. r\<lparr>ps_verificationStatus := ''verified'', ps_verifiedAt := Some now, ps_verifiedBy := Some actor\<rparr>))" for now
  proof -
    define f where "f = (\<lambda>r :: petitionSignature. if P r
      then r\<lparr>ps_verificationStatus := ''verified'', ps_verifiedAt := Some now, ps_verifiedBy := Some actor\<rparr> else r)"
    have f: "ps_petitionId (f r) = ps_petitionId r" "ps_signerHash (f r) = ps_signerHash r" "signer (f r) = signer r" for r
      by (simp_all add: f_def signer_def)
    have "signed_once digest s = signed_once digest (s\<lparr>petitionSignaturesT := (petitionSignaturesT s)
        \<lparr>trows := map f (trows (petitionSignaturesT s))\<rparr>\<rparr>)" for s
      by (simp add: signed_once_def hashed_def filter_map o_def list.pred_map sorted_wrt_map f)
    then show ?thesis by (auto simp: preserves_def updateRows_def Let_def f_def)
  qed
  then show ?thesis
    unfolding verifyPetitionSignature_def P_def by (intro preserves_intros)
qed

lemma signed_once_step: "petition_step digest s s' \<Longrightarrow> signed_once digest s \<Longrightarrow> signed_once digest s'"
proof (induction rule: petition_step.induct)
  case (created s u raw title description target)
  have "preserves (signed_once digest) (petitions_create u raw title description target)"
    unfolding petitions_create_def createPetition_def by (intro preserves_intros)
  with created show ?case by (simp add: preserves_def)
next
  case (signed s u i name phone lga)
  have "preserves (signed_once digest) (petitions_sign digest u i name phone lga)"
    unfolding petitions_sign_def addPetitionSignature_def duplicateSigner_def by (intro preserves_intros)
  with signed show ?case by (simp add: preserves_def)
next
  case (public_signed s reqIp remote i name phone lga)
  have "preserves (signed_once digest) (petitions_publicSign digest reqIp remote i name phone lga)"
    unfolding petitions_publicSign_def getPetitionById_def checkPublicSignAllowed_def addPetitionSignature_def
      duplicateSigner_def by (intro preserves_intros)
  with public_signed show ?case by (simp add: preserves_def)
next
  case (verified s u j i)
  have "preserves (signed_once digest) (petitions_verifySignature u j i)"
    unfolding petitions_verifySignature_def by (intro preserves_intros)
  with verified show ?case by (simp add: preserves_def)
next
  case (elapsed s t)
  then show ?case by (simp add: signed_once_def hashed_def)
qed

lemma draft_status: "pt_status ((new_petition pid title description target now i)\<lparr>row_id := i\<rparr>) = Some PetitionDraft"
  by (simp add: new_petition_def)

lemmas skip_petition_reads = withDb_run getE_run guardE_run bindE_run [where m = "getE g" for g]

section \<open>What the signature book guarantees\<close>


text \<open>Signing a petition again under the same identity, however the phone number, the name and the LGA
  are formatted, ends in a conflict and stores nothing.\<close>

theorem duplicate_signature_refused:
  assumes "conn s" and "x \<in> set (hashed s)" and "ps_petitionId x = Some i"
    and "ps_signerHash x = Some (digest (signer x))" and "signer x = signerIdentity name phone lga"
    and "list_ex (\<lambda>p. row_id p = i) (trows (petitionsT s))"
    and "vc 200 name" and "vco 20 phone" and "vco 100 lga" and "vc 64 (digest (signer x))"
  shows "fst (addPetitionSignature digest i name phone lga s) =
      Inl (TRPC CONFLICT ''This signer has already signed this petition.'') \<and>
    trows (petitionSignaturesT (snd (addPetitionSignature digest i name phone lga s))) = trows (petitionSignaturesT s)"
proof -
  define r where "r = new_signature i name phone lga (signerIdentityHash digest name phone lga) (clock s)
    (nextId (petitionSignaturesT s))"
  have clash: "list_ex (\<lambda>y. row_id y = nextId (petitionSignaturesT s) \<or> tclash petitionSignaturesD y r)
      (trows (petitionSignaturesT s))"
    unfolding list_ex_iff using assms(2-5)
    by (intro bexI [where x = x]) (simp_all add: hashed_def r_def new_signature_def petitionSignaturesD_def signerIdentityHash_def)
  have fits: "tchk petitionSignaturesD s r"
    using assms(5-) by (simp add: petitionSignaturesD_def petitionSignatures_chk_def r_def new_signature_def fko_def fk_def
        signerIdentityHash_def vco_def vc_def)
  have r: "r\<lparr>row_id := nextId (petitionSignaturesT s)\<rparr> = r" by (simp add: r_def new_signature_def)
  show ?thesis
    using assms(1) clash fits r
    by (simp add: addPetitionSignature_def duplicateSigner_def catchE_def insertRow_def Let_def run_simps r_def [symmetric])
qed

text \<open>A petition starts as a draft and the server has no operation that opens it, so every public signature
  on a petition just created is refused as not open.\<close>

theorem created_petition_not_signable:
  assumes "petitions_create u raw title description target s = (Inr (Some p), s')" and "conn s"
    and "2 \<le> length name" and "vc 200 name" and "vco 20 phone" and "vco 100 lga"
  shows "petitions_publicSign digest reqIp remote (row_id p) name phone lga s' =
    (Inl (TRPC CONFLICT ''This petition is not open for signatures''), s')"
proof -
  obtain pid where ins: "insertRow petitionsD None (new_petition pid title description target (clock s)) s = (Inr p, s')"
    using assms(1,2)
    by (auto simp: petitions_create_def createPetition_def zodE_def skip_petition_reads returnE_run
        elim!: scoped_InrE bindE_InrE seqE_InrE split: if_splits)
  note new = petitionsL.insert_Inr [OF ins]
  have "conn s'" using ins assms(2) by (auto simp: insertRow_def Let_def split: if_splits)
  moreover have "filter (\<lambda>r. row_id r = row_id p) (trows (petitionsT s')) = [p]"
  proof -
    have "filter (\<lambda>r. row_id r = row_id p) (trows (petitionsT s)) = []"
      using new unfolding filter_empty_conv rows_of_simps by blast
    then show ?thesis using new by simp
  qed
  moreover have "pt_status p = Some PetitionDraft" using new by (metis draft_status)
  ultimately show ?thesis
    using assms(3-) by (simp add: petitions_publicSign_def getPetitionById_def first_row_def zodE_def run_simps)
qed

text \<open>The production counter, key by key, inside its window.\<close>

lemma pg_hit_counts:
  assumes "production s" and "conn s" and "limiterUp s"
  shows "\<exists>r s'. hitRateLimit key ws n s = (Inr r, s') \<and>
    allowed r = (window_count key (windowStartMs ws (clock s)) (rateLimitsT s) < n) \<and>
    production s' \<and> conn s' \<and> limiterUp s' \<and> clock s' = clock s \<and>
    petitionsT s' = petitionsT s \<and> petitionSignaturesT s' = petitionSignaturesT s \<and>
    (\<forall>k st. clock s - two_days_ms \<le> st \<longrightarrow> window_count k st (rateLimitsT s') =
       window_count k st (rateLimitsT s) + (if k = key \<and> st = windowStartMs ws (clock s) then 1 else 0))"
  using assms by (auto simp: hitRateLimit_def hitPostgres_def Let_def window_count_hit window_count_prune)

text \<open>A signer whom the network limit turns away has used up the day's dedup hit of the phone number:
  trying again on the same day, from any network, is refused as a repeated signature although no signature was
  ever stored.\<close>

theorem refused_signer_locked_out:
  assumes "production s" and "conn s" and "limiterUp s"
    and "first_row (filter (\<lambda>r. row_id r = i) (trows (petitionsT s))) = Some p" and "pt_status p = Some PetitionActive"
    and "2 \<le> length name" and "vc 200 name" and "vco 20 phone" and "vco 100 lga" and "truthy_str phone"
    and "window_count (sign_dedupKey i (client_ip ip rem) phone) (windowStartMs 86400 (clock s)) (rateLimitsT s) = 0"
    and "5 \<le> window_count (sign_ipKey i (client_ip ip rem)) (windowStartMs 3600 (clock s)) (rateLimitsT s)"
    and "windowStartMs 86400 t = windowStartMs 86400 (clock s)"
  shows "\<exists>s'. petitions_publicSign digest ip rem i name phone lga s =
      (Inl (TRPC TOO_MANY_REQUESTS ''Too many signatures from this network. Please try again later.''), s') \<and>
    petitionSignaturesT s' = petitionSignaturesT s \<and>
    fst (petitions_publicSign digest ip' rem' i name phone lga (s'\<lparr>clock := t\<rparr>)) =
      Inl (TRPC TOO_MANY_REQUESTS ''This phone number has already signed this petition.'')"
proof -
  define dk where "dk = sign_dedupKey i (client_ip ip rem) phone"
  define ik where "ik = sign_ipKey i (client_ip ip rem)"
  define day where "day = windowStartMs 86400 (clock s)"
  have dk': "sign_dedupKey i (client_ip ip' rem') phone = dk" using assms(10) by (simp add: dk_def sign_dedupKey_def)
  have "dk \<noteq> ik" using assms(10) by (simp add: dk_def ik_def sign_dedupKey_def sign_ipKey_def)
  have recent: "clock s - two_days_ms \<le> day" "clock s - two_days_ms \<le> windowStartMs 3600 (clock s)"
    using windowStart_bounds [of 86400 "clock s"] windowStart_bounds [of 3600 "clock s"]
    by (simp_all add: day_def two_days_ms_def day_ms_def)
  obtain r1 s1 where h1: "hitRateLimit dk 86400 1 s = (Inr r1, s1)" "allowed r1"
    and s1: "production s1" "conn s1" "limiterUp s1" "clock s1 = clock s" "petitionSignaturesT s1 = petitionSignaturesT s"
      "petitionsT s1 = petitionsT s"
    and n1: "window_count dk day (rateLimitsT s1) = 1"
      "5 \<le> window_count ik (windowStartMs 3600 (clock s)) (rateLimitsT s1)"
    using pg_hit_counts [OF assms(1-3), of dk 86400 1] assms(11,12) recent \<open>dk \<noteq> ik\<close>
    unfolding dk_def [symmetric] ik_def [symmetric] day_def [symmetric] by auto
  obtain r2 s2 where h2: "hitRateLimit ik 3600 5 s1 = (Inr r2, s2)" "\<not> allowed r2"
    and s2: "production s2" "conn s2" "limiterUp s2" "petitionSignaturesT s2 = petitionSignaturesT s"
      "petitionsT s2 = petitionsT s"
    and n2: "window_count dk day (rateLimitsT s2) = 1"
    using pg_hit_counts [OF s1(1-3), of ik 3600 5] n1 recent \<open>dk \<noteq> ik\<close> s1 by auto
  obtain r3 s3 where h3: "hitRateLimit dk 86400 1 (s2\<lparr>clock := t\<rparr>) = (Inr r3, s3)" "\<not> allowed r3"
    using pg_hit_counts [of "s2\<lparr>clock := t\<rparr>" dk 86400 1] s2 n2 assms(13) by (auto simp: day_def)
  note limits = PETITION_SIGN_IP_WINDOW_SECONDS_def PETITION_SIGN_IP_LIMIT_def PETITION_SIGN_PHONE_WINDOW_SECONDS_def
  have "petitions_publicSign digest ip rem i name phone lga s =
      (Inl (TRPC TOO_MANY_REQUESTS ''Too many signatures from this network. Please try again later.''), s2)"
    using assms(2,4-9) h1 h2
    by (simp add: petitions_publicSign_def getPetitionById_def zodE_def checkPublicSignAllowed_def limits
        dk_def [symmetric] ik_def [symmetric] run_simps)
  moreover have "fst (petitions_publicSign digest ip' rem' i name phone lga (s2\<lparr>clock := t\<rparr>)) =
      Inl (TRPC TOO_MANY_REQUESTS ''This phone number has already signed this petition.'')"
    using assms(4-10) h3 s2
    by (simp add: petitions_publicSign_def getPetitionById_def zodE_def checkPublicSignAllowed_def limits dk' run_simps)
  ultimately show ?thesis using s2 by blast
qed

section \<open>Concrete runs\<close>

definition demo_open_petition :: petition where
  "demo_open_petition = (new_petition 1 ''Fix the road'' None None 0 7)\<lparr>pt_status := Some PetitionActive\<rparr>"

definition demo_signature :: petitionSignature where
  "demo_signature = new_signature 7 ''Ada Obi'' (Some ''0803 111-2222'') None
     (take 64 (signerIdentity ''Ada Obi'' (Some ''0803 111-2222'') None)) 0 1"

definition demo_book :: world where
  "demo_book = demo_world
     \<lparr>petitionsT := \<lparr>trows = [demo_open_petition], nextId = 8\<rparr>,
      petitionSignaturesT := \<lparr>trows = [demo_signature], nextId = 2\<rparr>\<rparr>"

lemma demo_book_simps [simp]:
  "conn demo_book" "production demo_book" "limiterUp demo_book" "clock demo_book = 0" "rateLimitsT demo_book = []"
  "trows (petitionsT demo_book) = [demo_open_petition]" "row_id demo_open_petition = 7"
  "pt_status demo_open_petition = Some PetitionActive"
  "trows (petitionSignaturesT demo_book) = [demo_signature]" "ps_petitionId demo_signature = Some 7"
  "ps_signerHash demo_signature = Some (take 64 (signer demo_signature))" "hashed demo_book = [demo_signature]"
  by (simp_all add: demo_book_def demo_open_petition_def demo_signature_def new_petition_def new_signature_def
      hashed_def signer_def demo_world_def empty_world_def)

lemma demo_same_signer: "signer demo_signature = signerIdentity '' ada   OBI '' (Some ''08031112222'') None"
proof -
  have "signerIdentity ''Ada Obi'' (Some ''0803 111-2222'') None = signerIdentity '' ada   OBI '' (Some ''08031112222'') None"
    by code_simp
  then show ?thesis by (simp add: demo_signature_def signer_def new_signature_def)
qed

theorem duplicate_signature_refused_witness:
  "fst (addPetitionSignature (take 64) 7 '' ada   OBI '' (Some ''08031112222'') None demo_book) =
     Inl (TRPC CONFLICT ''This signer has already signed this petition.'') \<and>
   trows (petitionSignaturesT (snd (addPetitionSignature (take 64) 7 '' ada   OBI '' (Some ''08031112222'') None
     demo_book))) = [demo_signature]"
  using duplicate_signature_refused [of demo_book demo_signature 7 "take 64" "'' ada   OBI ''" "Some ''08031112222''" None]
    demo_same_signer by (simp add: vc_def vco_def)


theorem created_petition_not_signable_witness:
  "\<exists>p s'. petitions_create (Some ada) (JNumber 1) ''Fix the road'' None None demo_world = (Inr (Some p), s') \<and>
     petitions_publicSign (take 64) None None (row_id p) ''Bola Ige'' None None s' =
       (Inl (TRPC CONFLICT ''This petition is not open for signatures''), s')"
proof -
  have "\<exists>p s'. petitions_create (Some ada) (JNumber 1) ''Fix the road'' None None demo_world = (Inr (Some p), s')"
    by (simp add: petitions_create_def profileScoped_assert integer_of_def assertProfileRole_def zodE_def
        createPetition_def insertRow_def Let_def new_petition_def petitionsD_def petitions_chk_def fko_def fk_def vc_def vco_def
        int4o_def int4_def nullish_def safeUser_def run_simps demo_world_def empty_world_def no_rows_def
        demo_profile_def demo_user_def)
  then obtain p s' where "petitions_create (Some ada) (JNumber 1) ''Fix the road'' None None demo_world = (Inr (Some p), s')"
    by blast
  with created_petition_not_signable [OF this] show ?thesis by (auto simp: vc_def vco_def)
qed

theorem refused_signer_locked_out_witness:
  "\<exists>s'. petitions_publicSign (take 64) (Some ''10.0.0.1'') None 7 ''Bola Ige'' (Some ''0701'') None
      (demo_book\<lparr>rateLimitsT := [\<lparr>rl_key = ''p:7:ip:10.0.0.1'', rl_windowStart = 0, rl_count = 5\<rparr>]\<rparr>) =
      (Inl (TRPC TOO_MANY_REQUESTS ''Too many signatures from this network. Please try again later.''), s') \<and>
    fst (petitions_publicSign (take 64) (Some ''10.0.0.2'') None 7 ''Bola Ige'' (Some ''0701'') None (s'\<lparr>clock := 7200000\<rparr>)) =
      Inl (TRPC TOO_MANY_REQUESTS ''This phone number has already signed this petition.'')"
proof -
  have k: "sign_ipKey 7 (client_ip (Some ''10.0.0.1'') None) = ''p:7:ip:10.0.0.1''"
    "sign_dedupKey 7 (client_ip (Some ''10.0.0.1'') None) (Some ''0701'') = ''p:7:ph:0701''" by code_simp+
  show ?thesis
    using refused_signer_locked_out [of "demo_book\<lparr>rateLimitsT := [\<lparr>rl_key = ''p:7:ip:10.0.0.1'', rl_windowStart = 0, rl_count = 5\<rparr>]\<rparr>"
        7 demo_open_petition "''Bola Ige''" "Some ''0701''" None "Some ''10.0.0.1''" None 7200000 "take 64" "Some ''10.0.0.2''" None]
    by (auto simp: k first_row_def vc_def vco_def truthy_str_def window_count_def same_window_def windowStartMs_def)
qed

end
