(* ===== verification/Finance.thy ===== *)
theory Finance
  imports Outbound
begin

text \<open>
  Campaign money: donor screening of the \<open>fundraising\<close> router, the budget with its statutory
  spending cap and append-only ledger, and the disclosure report of the \<open>budget\<close> router, with the
  functions of \<^verbatim>\<open>server/db.ts\<close> they call. Amounts are exact rationals, rounded to two decimals
  where they enter a \<open>numeric(15,2)\<close> column.
\<close>

text \<open>The cast \<open>::numeric(15,2)\<close>.\<close>

definition numeric15 :: "rat \<Rightarrow> (world, rat) proc" where
  "numeric15 x = seqE (guardE (num15 x) (PgError CheckViolation)) (returnE (money x))"

section \<open>Fundraising\<close>

record donationData =
  dd_donorName :: "string option"
  dd_amount :: rat
  dd_currency :: "string option"
  dd_source :: "string option"
  dd_category :: "string option"
  dd_notes :: "string option"
  dd_donorType :: string
  dd_sourceAttested :: bool

record screeningConfig =
  perDonorCapNgn :: rat
  anonymousLimitNgn :: rat

definition DONOR_SCREENING_CONFIG :: screeningConfig where
  "DONOR_SCREENING_CONFIG = \<lparr>perDonorCapNgn = 50000000, anonymousLimitNgn = 0\<rparr>"

definition getFundraisingTransactions :: "int \<Rightarrow> (world, fundraisingTransaction list) proc" where
  "getFundraisingTransactions pid =
     withDb [] (bindE (selectRows fundraisingTransactionsD (\<lambda>r. profileId r = Some pid))
       (\<lambda>rows. returnE (order_desc ft_transactedAt rows)))"

definition new_transaction :: "int \<Rightarrow> donationData \<Rightarrow> time \<Rightarrow> int \<Rightarrow> fundraisingTransaction" where
  "new_transaction pid d now i =
     \<lparr>row_id = i, profileId = Some pid, ft_donorName = dd_donorName d, ft_amount = money (dd_amount d),
      ft_currency = Some (nullish (dd_currency d) ''NGN''), ft_source = dd_source d, ft_category = dd_category d,
      ft_notes = dd_notes d, ft_transactedAt = now, ft_isVerified = Some False,
      ft_donorType = Some (dd_donorType d), ft_sourceAttested = Some (dd_sourceAttested d)\<rparr>"

definition addFundraisingTransaction ::
  "int \<Rightarrow> donationData \<Rightarrow> (world, fundraisingTransaction option) proc" where
  "addFundraisingTransaction pid d =
     withDb None
       (bindE (getE clock) (\<lambda>now.
        bindE (insertRow fundraisingTransactionsD None (new_transaction pid d now)) (\<lambda>r. returnE (Some r))))"

definition donor_total :: "int \<Rightarrow> string option \<Rightarrow> fundraisingTransaction list \<Rightarrow> rat" where
  "donor_total pid name rows =
     sum_list (map ft_amount (filter (\<lambda>r. profileId r = Some pid \<and> ft_donorName r = name) rows))"

definition screenDonor :: "screeningConfig \<Rightarrow> int \<Rightarrow> donationData \<Rightarrow> (world, unit) proc" where
  "screenDonor cfg pid d =
     (if dd_donorType d \<noteq> ''anonymous'' \<and> truthy_str (dd_donorName d)
      then bindE (requireTenantId (Some pid)) (\<lambda>p.
           bindE (selectRows fundraisingTransactionsD (\<lambda>r. profileId r = Some p \<and> ft_donorName r = dd_donorName d)) (\<lambda>rows.
           bindE (numeric15 (sum_list (map ft_amount rows))) (\<lambda>prior.
           guardE (\<not> prior + dd_amount d > perDonorCapNgn cfg)
             (TRPC BAD_REQUEST ''Per-donor aggregate cap exceeded''))))
      else returnE ())"

definition addScreenedFundraisingTransaction ::
  "screeningConfig \<Rightarrow> int \<Rightarrow> donationData \<Rightarrow> (world, fundraisingTransaction option) proc" where
  "addScreenedFundraisingTransaction cfg pid d =
     withDb None
       (seqE (guardE (\<not> (dd_donorType d = ''anonymous'' \<and> dd_amount d > anonymousLimitNgn cfg))
          (TRPC BAD_REQUEST ''Anonymous donations above the limit are refused''))
       (seqE (guardE (\<not> (dd_donorType d = ''diaspora'' \<and> \<not> dd_sourceAttested d))
          (TRPC BAD_REQUEST ''Diaspora/foreign-source donations require a recorded source attestation''))
       (seqE (screenDonor cfg pid d)
       (bindE (getE clock) (\<lambda>now.
        bindE (insertRow fundraisingTransactionsD None (new_transaction pid d now)) (\<lambda>r.
        returnE (Some r)))))))"

definition fundraising_list :: "sessionUser option \<Rightarrow> jsValue \<Rightarrow> (world, fundraisingTransaction list) proc" where
  "fundraising_list u raw = profileScopedProcedure Viewer u raw (\<lambda>_ _ pid. getFundraisingTransactions pid)"

definition fundraising_add ::
  "screeningConfig \<Rightarrow> sessionUser option \<Rightarrow> jsValue \<Rightarrow> donationData \<Rightarrow> (world, fundraisingTransaction option) proc" where
  "fundraising_add cfg u raw d =
     profileScopedProcedure Manager u raw (\<lambda>_ _ pid.
       seqE (zodE (dd_donorType d \<in> {''individual_local'', ''corporate_local'', ''diaspora'', ''anonymous''}))
         (addScreenedFundraisingTransaction cfg pid d))"

section \<open>Budget\<close>

record budgetData =
  bd_id :: "int option"
  bd_category :: string
  bd_description :: string
  bd_budgetedAmount :: rat
  bd_spentAmount :: "rat option"
  bd_priority :: "priorityLevel option"
  bd_notes :: "string option"

definition getBudgetItems :: "int \<Rightarrow> (world, budgetItem list) proc" where
  "getBudgetItems pid =
     withDb [] (bindE (selectRows budgetItemsD (\<lambda>r. profileId r = Some pid))
       (\<lambda>rows. returnE (order_by bi_category rows)))"

definition ledger_entry ::
  "int \<Rightarrow> int \<Rightarrow> string \<Rightarrow> rat option \<Rightarrow> rat option \<Rightarrow> rat option \<Rightarrow> rat option \<Rightarrow> string option \<Rightarrow> time \<Rightarrow> int \<Rightarrow>
   budgetSpendLedgerEntry" where
  "ledger_entry pid item change pb nb ps ns actor now i =
     \<lparr>row_id = i, profileId = Some pid, bl_budgetItemId = Some item, bl_changeType = change,
      bl_previousBudgeted = pb, bl_newBudgeted = nb, bl_previousSpent = ps, bl_newSpent = ns,
      bl_changedBy = actor, bl_note = None, bl_createdAt = now\<rparr>"

definition writeBudgetLedger ::
  "int \<Rightarrow> int \<Rightarrow> string \<Rightarrow> rat option \<Rightarrow> rat option \<Rightarrow> rat option \<Rightarrow> rat option \<Rightarrow> string option \<Rightarrow> (world, unit) proc"
where
  "writeBudgetLedger pid item change pb nb ps ns actor =
     bindE (getE clock) (\<lambda>now.
     voidE (insertRow budgetSpendLedgerD None (ledger_entry pid item change pb nb ps ns actor now)))"

definition spent_of :: "budgetItem \<Rightarrow> rat" where
  "spent_of r = nullish (bi_spentAmount r) 0"

definition assertStatutoryCap :: "int \<Rightarrow> int option \<Rightarrow> rat \<Rightarrow> (world, unit) proc" where
  "assertStatutoryCap pid exclude newSpent =
     bindE (selectRows candidateProfilesD (\<lambda>r. row_id r = pid)) (\<lambda>profile.
     case Option.bind (first_row profile) cp_office of
       None \<Rightarrow> returnE ()
     | Some office \<Rightarrow>
         bindE (getE budgetStatutoryCapsT) (\<lambda>allCaps.
         case first_row (filter (\<lambda>c. bc_office c = office) allCaps) of
           None \<Rightarrow> returnE ()
         | Some c \<Rightarrow>
             bindE (selectRows budgetItemsD (\<lambda>r. profileId r = Some pid \<and> Some (row_id r) \<noteq> exclude)) (\<lambda>items.
             guardE (\<not> sum_list (map spent_of items) + newSpent > bc_capAmount c)
               (TRPC CONFLICT ''Statutory campaign-spend cap exceeded''))))"

definition spend_changes :: "budgetData \<Rightarrow> budgetItem \<Rightarrow> bool" where
  "spend_changes d prev \<longleftrightarrow> (case bd_spentAmount d of None \<Rightarrow> False | Some v \<Rightarrow> v \<noteq> spent_of prev)"

definition set_budget :: "budgetData \<Rightarrow> budgetItem \<Rightarrow> budgetItem" where
  "set_budget d r = r\<lparr>bi_category := bd_category d, bi_description := bd_description d,
     bi_budgetedAmount := money (bd_budgetedAmount d),
     bi_spentAmount := upd_opt (map_option money (bd_spentAmount d)) (bi_spentAmount r),
     bi_priority := upd_opt (bd_priority d) (bi_priority r), bi_notes := upd_opt (bd_notes d) (bi_notes r)\<rparr>"

definition new_budget :: "int \<Rightarrow> budgetData \<Rightarrow> time \<Rightarrow> int \<Rightarrow> budgetItem" where
  "new_budget pid d now i =
     \<lparr>row_id = i, profileId = Some pid, bi_category = bd_category d, bi_description = bd_description d,
      bi_budgetedAmount = money (bd_budgetedAmount d), bi_spentAmount = Some (money (nullish (bd_spentAmount d) 0)),
      bi_priority = Some (nullish (bd_priority d) Medium), bi_notes = bd_notes d, bi_createdAt = now\<rparr>"

definition updateBudgetItem :: "int \<Rightarrow> int \<Rightarrow> budgetData \<Rightarrow> string option \<Rightarrow> (world, budgetItem option) proc" where
  "updateBudgetItem pid i d actor =
     bindE (requireTenantId (Some pid)) (\<lambda>p.
     bindE (selectRows budgetItemsD (\<lambda>r. row_id r = i \<and> profileId r = Some p)) (\<lambda>prev.
     case prev of
       [] \<Rightarrow> bindE (assertUpdated [] ''Budget item'') (\<lambda>r. returnE (Some r))
     | r0 # _ \<Rightarrow>
         seqE (if spend_changes d r0 then assertStatutoryCap p (Some i) (nullish (bd_spentAmount d) 0) else returnE ())
         (bindE (updateRows budgetItemsD (\<lambda>r. row_id r = i \<and> profileId r = Some p) (set_budget d)) (\<lambda>rows.
          bindE (assertUpdated rows ''Budget item'') (\<lambda>updated.
          seqE (writeBudgetLedger p i (if spend_changes d r0 then ''spend_changed'' else ''updated'')
                  (Some (bi_budgetedAmount r0)) (Some (bi_budgetedAmount updated)) (bi_spentAmount r0) (bi_spentAmount updated) actor)
            (returnE (Some updated)))))))"

definition createBudgetItem :: "int \<Rightarrow> budgetData \<Rightarrow> string option \<Rightarrow> (world, budgetItem option) proc" where
  "createBudgetItem pid d actor =
     seqE (case bd_spentAmount d of
             None \<Rightarrow> returnE ()
           | Some v \<Rightarrow> if v > 0 then bindE (requireTenantId (Some pid)) (\<lambda>p. assertStatutoryCap p None v) else returnE ())
     (bindE (getE clock) (\<lambda>now.
      bindE (insertRow budgetItemsD (bd_id d) (new_budget pid d now)) (\<lambda>r.
      bindE (requireTenantId (Some pid)) (\<lambda>p.
      seqE (writeBudgetLedger p (row_id r) ''created'' None (Some (bi_budgetedAmount r)) None (bi_spentAmount r) actor)
        (returnE (Some r))))))"

definition upsertBudgetItem :: "int \<Rightarrow> budgetData \<Rightarrow> string option \<Rightarrow> (world, budgetItem option) proc" where
  "upsertBudgetItem pid d actor =
     withDb None (if truthy_id (bd_id d) then updateBudgetItem pid (the (bd_id d)) d actor
                  else createBudgetItem pid d actor)"

definition deleteBudgetItem :: "int \<Rightarrow> string option \<Rightarrow> (world, unit) proc" where
  "deleteBudgetItem i actor =
     withDb ()
       (bindE (selectRows budgetItemsD (\<lambda>r. row_id r = i)) (\<lambda>prev.
        seqE (deleteRows budgetItemsD (\<lambda>r. row_id r = i))
          (case prev of
             [] \<Rightarrow> returnE ()
           | r # _ \<Rightarrow>
               (case profileId r of
                  None \<Rightarrow> returnE ()
                | Some p \<Rightarrow> writeBudgetLedger p i ''deleted'' (Some (bi_budgetedAmount r)) None (bi_spentAmount r) None actor))))"

text \<open>\<open>orderBy(office)\<close> follows the order in which the enum declares its values.\<close>

fun office_rank :: "officeType \<Rightarrow> nat" where
  "office_rank President = 0"
| "office_rank Governor = 1"
| "office_rank Senator = 2"
| "office_rank House = 3"
| "office_rank LGA = 4"

definition getBudgetCaps :: "(world, budgetStatutoryCap list) proc" where
  "getBudgetCaps = withDb [] (bindE (getE budgetStatutoryCapsT) (\<lambda>cs. returnE (order_by (\<lambda>c. office_rank (bc_office c)) cs)))"

definition new_cap :: "officeType \<Rightarrow> rat \<Rightarrow> string option \<Rightarrow> time \<Rightarrow> budgetStatutoryCap" where
  "new_cap office amount notes now =
     \<lparr>bc_office = office, bc_capAmount = money amount, bc_notes = notes, bc_updatedAt = now\<rparr>"

definition put_cap :: "budgetStatutoryCap \<Rightarrow> budgetStatutoryCap list \<Rightarrow> budgetStatutoryCap list" where
  "put_cap c cs =
     (if list_ex (\<lambda>x. bc_office x = bc_office c) cs
      then map (\<lambda>x. if bc_office x = bc_office c then c else x) cs else cs @ [c])"

definition upsertBudgetCap :: "string \<Rightarrow> rat \<Rightarrow> string option \<Rightarrow> (world, budgetStatutoryCap option) proc" where
  "upsertBudgetCap office amount notes =
     withDb None
       (bindE (getE clock) (\<lambda>now.
        enumArg officeType_of (Some office) (\<lambda>v.
        let c = new_cap (the v) amount notes now
        in seqE (guardE (num15 (bc_capAmount c)) (PgError CheckViolation))
           (seqE (modifyE (\<lambda>s. s\<lparr>budgetStatutoryCapsT := put_cap c (budgetStatutoryCapsT s)\<rparr>)) (returnE (Some c))))))"

definition getBudgetLedger :: "int \<Rightarrow> (world, budgetSpendLedgerEntry list) proc" where
  "getBudgetLedger pid =
     withDb [] (bindE (selectRows budgetSpendLedgerD (\<lambda>r. profileId r = Some pid))
       (\<lambda>rows. returnE (order_desc bl_createdAt rows)))"

section \<open>Disclosure report\<close>

record categorySpend =
  cs_category :: string
  cs_budgeted :: rat
  cs_spent :: rat

record fundraisingSummary =
  fs_totalRaised :: rat
  fs_transactionCount :: nat
  fs_verifiedRaised :: rat
  fs_diasporaRaised :: rat
  fs_anonymousCount :: nat
  fs_unattestedCount :: nat

record disclosureReport =
  dr_profileId :: int
  dr_office :: string
  dr_statutoryCap :: "(rat \<times> string option) option"
  dr_totalBudgeted :: rat
  dr_totalSpent :: rat
  dr_capHeadroom :: "rat option"
  dr_capBreached :: "bool option"
  dr_spendByCategory :: "categorySpend list"
  dr_fundraising :: fundraisingSummary
  dr_generatedAt :: time

definition category_spend :: "budgetItem list \<Rightarrow> string \<Rightarrow> categorySpend" where
  "category_spend items c =
     \<lparr>cs_category = c,
      cs_budgeted = sum_list (map bi_budgetedAmount (filter (\<lambda>r. bi_category r = c) items)),
      cs_spent = sum_list (map spent_of (filter (\<lambda>r. bi_category r = c) items))\<rparr>"

definition spend_by_category :: "budgetItem list \<Rightarrow> (world, categorySpend list) proc" where
  "spend_by_category items =
     (let groups = map (category_spend items) (remdups (map bi_category items))
      in seqE (guardE (list_all (\<lambda>g. num15 (cs_budgeted g) \<and> num15 (cs_spent g)) groups) (PgError CheckViolation))
           (returnE (order_by (\<lambda>g. - cs_spent g) groups)))"

definition fundraising_summary :: "fundraisingTransaction list \<Rightarrow> (world, fundraisingSummary) proc" where
  "fundraising_summary txs =
     bindE (numeric15 (sum_list (map ft_amount txs))) (\<lambda>total.
     bindE (numeric15 (sum_list (map ft_amount (filter (\<lambda>r. ft_isVerified r = Some True) txs)))) (\<lambda>verified.
     bindE (numeric15 (sum_list (map ft_amount (filter (\<lambda>r. ft_donorType r = Some ''diaspora'') txs)))) (\<lambda>diaspora.
     returnE \<lparr>fs_totalRaised = total, fs_transactionCount = length txs, fs_verifiedRaised = verified,
       fs_diasporaRaised = diaspora,
       fs_anonymousCount = length (filter (\<lambda>r. ft_donorType r = Some ''anonymous'') txs),
       fs_unattestedCount = length (filter (\<lambda>r. ft_sourceAttested r = Some False) txs)\<rparr>)))"

definition getFinanceDisclosureReport :: "int \<Rightarrow> string \<Rightarrow> (world, disclosureReport option) proc" where
  "getFinanceDisclosureReport profile office =
     withDb None
       (bindE (requireTenantId (Some profile)) (\<lambda>pid.
        bindE (selectRows budgetItemsD (\<lambda>r. profileId r = Some pid)) (\<lambda>items.
        bindE (numeric15 (sum_list (map spent_of items))) (\<lambda>totalSpent.
        bindE (numeric15 (sum_list (map bi_budgetedAmount items))) (\<lambda>totalBudgeted.
        bindE (spend_by_category items) (\<lambda>byCategory.
        bindE (selectRows fundraisingTransactionsD (\<lambda>r. profileId r = Some pid)) (\<lambda>txs.
        bindE (fundraising_summary txs) (\<lambda>raised.
        enumArg officeType_of (Some office) (\<lambda>v.
        bindE (getE budgetStatutoryCapsT) (\<lambda>allCaps.
        bindE (getE clock) (\<lambda>now.
        let cap = first_row (filter (\<lambda>c. Some (bc_office c) = v) allCaps)
        in returnE (Some \<lparr>dr_profileId = pid, dr_office = office,
             dr_statutoryCap = map_option (\<lambda>c. (bc_capAmount c, bc_notes c)) cap,
             dr_totalBudgeted = totalBudgeted, dr_totalSpent = totalSpent,
             dr_capHeadroom = map_option (\<lambda>c. bc_capAmount c - totalSpent) cap,
             dr_capBreached = map_option (\<lambda>c. totalSpent > bc_capAmount c) cap,
             dr_spendByCategory = byCategory, dr_fundraising = raised, dr_generatedAt = now\<rparr>))))))))))))"

section \<open>The budget router\<close>

definition budget_list :: "sessionUser option \<Rightarrow> jsValue \<Rightarrow> (world, budgetItem list) proc" where
  "budget_list u raw = profileScopedProcedure Viewer u raw (\<lambda>_ _ pid. getBudgetItems pid)"

definition budget_upsert :: "sessionUser option \<Rightarrow> jsValue \<Rightarrow> budgetData \<Rightarrow> (world, budgetItem option) proc" where
  "budget_upsert u raw d =
     profileScopedProcedure Manager u raw (\<lambda>x _ pid. upsertBudgetItem pid d (Some (su_username x)))"

definition budget_delete :: "sessionUser option \<Rightarrow> int \<Rightarrow> (world, unit) proc" where
  "budget_delete u i =
     requireUser u (\<lambda>x. seqE (assertRowAccess u budgetItemsD i Owner) (deleteBudgetItem i (Some (su_username x))))"

definition budget_caps :: "sessionUser option \<Rightarrow> jsValue \<Rightarrow> (world, budgetStatutoryCap list) proc" where
  "budget_caps u raw = profileScopedProcedure Viewer u raw (\<lambda>_ _ _. getBudgetCaps)"

definition budget_setCap ::
  "sessionUser option \<Rightarrow> jsValue \<Rightarrow> string \<Rightarrow> rat \<Rightarrow> string option \<Rightarrow> (world, budgetStatutoryCap option) proc" where
  "budget_setCap u raw office amount notes =
     profileScopedProcedure Owner u raw (\<lambda>_ _ _.
       seqE (zodE (office \<in> {''President'', ''Governor'', ''Senator'', ''House'', ''LGA''} \<and> amount > 0 \<and> vco 500 notes))
         (upsertBudgetCap office amount notes))"

definition budget_ledger :: "sessionUser option \<Rightarrow> jsValue \<Rightarrow> (world, budgetSpendLedgerEntry list) proc" where
  "budget_ledger u raw = profileScopedProcedure Viewer u raw (\<lambda>_ _ pid. getBudgetLedger pid)"

definition budget_disclosureReport ::
  "sessionUser option \<Rightarrow> jsValue \<Rightarrow> string \<Rightarrow> (world, disclosureReport option) proc" where
  "budget_disclosureReport u raw office =
     profileScopedProcedure Viewer u raw (\<lambda>_ _ pid.
       seqE (zodE (office \<in> {''presidential'', ''gubernatorial'', ''senatorial'', ''house'', ''local''}))
         (getFinanceDisclosureReport pid office))"

section \<open>Ids and other campaigns\<close>

lemma wf_caps [preserves_intros]: "preserves wf_ids (modifyE (\<lambda>s. s\<lparr>budgetStatutoryCapsT := f s\<rparr>))"
  by (simp add: preserves_def modifyE_run same_tables)

lemma wf_finance_ops [preserves_intros]:
  "preserves I (numeric15 x)"
  "preserves I (screenDonor cfg pid d)"
  "preserves I (assertStatutoryCap pid ex x)"
  "preserves wf_ids (writeBudgetLedger pid item change pb nb ps ns actor)"
  unfolding numeric15_def screenDonor_def assertStatutoryCap_def writeBudgetLedger_def
  by (intro preserves_intros)+

lemma wf_budget_ops [preserves_intros]:
  "preserves wf_ids (updateBudgetItem pid i d actor)"
  "preserves wf_ids (createBudgetItem pid d actor)"
  "preserves I (spend_by_category items)"
  "preserves I (fundraising_summary txs)"
  unfolding updateBudgetItem_def createBudgetItem_def spend_by_category_def Let_def fundraising_summary_def
  by (intro preserves_intros; simp add: set_budget_def)+

lemma wf_finance_procedures [preserves_intros]:
  "preserves wf_ids (fundraising_list u raw)"
  "preserves wf_ids (fundraising_add cfg u raw d)"
  "preserves wf_ids (budget_list u raw)"
  "preserves wf_ids (budget_upsert u raw bd)"
  "preserves wf_ids (budget_delete u i)"
  "preserves wf_ids (budget_caps u raw)"
  "preserves wf_ids (budget_setCap u raw office amount notes)"
  "preserves wf_ids (budget_ledger u raw)"
  "preserves wf_ids (budget_disclosureReport u raw office)"
  unfolding fundraising_list_def getFundraisingTransactions_def fundraising_add_def addScreenedFundraisingTransaction_def
    budget_list_def getBudgetItems_def budget_upsert_def upsertBudgetItem_def budget_delete_def deleteBudgetItem_def
    budget_caps_def getBudgetCaps_def budget_setCap_def upsertBudgetCap_def Let_def budget_ledger_def
    getBudgetLedger_def budget_disclosureReport_def getFinanceDisclosureReport_def
  by (intro preserves_intros; simp)+

lemma outsider_caps [outsider_intros]:
  "follows (outsider u q) (modifyE (\<lambda>s. s\<lparr>budgetStatutoryCapsT := f s\<rparr>))"
  by (simp add: follows_def modifyE_run outsider_def outsider_at_def same_tables)

lemma outsider_finance_ops [outsider_intros]:
  "follows (outsider u q) (numeric15 x)"
  "follows (outsider u q) (screenDonor cfg pid d)"
  "follows (outsider u q) (assertStatutoryCap pid ex x)"
  "pid \<noteq> q \<Longrightarrow> follows (outsider u q) (writeBudgetLedger pid item change pb nb ps ns actor)"
  unfolding numeric15_def screenDonor_def bind_requireTenantId assertStatutoryCap_def writeBudgetLedger_def
  by (intro outsider_intros; simp add: ledger_entry_def)+

lemma outsider_budget_ops [outsider_intros]:
  "pid \<noteq> q \<Longrightarrow> follows (outsider u q) (updateBudgetItem pid i d actor)"
  "pid \<noteq> q \<Longrightarrow> follows (outsider u q) (createBudgetItem pid d actor)"
  "follows (outsider u q) (spend_by_category items)"
  "follows (outsider u q) (fundraising_summary txs)"
  unfolding updateBudgetItem_def createBudgetItem_def bind_requireTenantId spend_by_category_def Let_def
    fundraising_summary_def
  by (intro outsider_intros; simp add: set_budget_def new_budget_def)+

lemma owned_deleteBudgetItem:
  assumes "pid \<noteq> q" and "row_owned budgetItemsD i pid s"
  shows "outsider u q s (snd (deleteBudgetItem i actor s))"
proof (cases "outsider_at u q s \<and> conn s")
  case False
  then show ?thesis by (auto simp: outsider_def deleteBudgetItem_def withDb_run same_tenant_refl outsider_at_def)
next
  case True
  define prev where "prev = filter (\<lambda>r. row_id r = i) (trows (budgetItemsT s))"
  have "list_all (\<lambda>r. profileId r = Some pid) prev"
    using True assms(2) budgetItemsT.id_unique [of s]
    unfolding prev_def list_all_iff row_owned_def outsider_at_def by fastforce
  then have tail: "follows (outsider u q) (case prev of [] \<Rightarrow> returnE () | r # _ \<Rightarrow> (case profileId r of None \<Rightarrow> returnE ()
      | Some p \<Rightarrow> writeBudgetLedger p i ''deleted'' (Some (bi_budgetedAmount r)) None (bi_spentAmount r) None actor))"
    using assms(1) by (cases prev) (auto intro: outsider_intros)
  have "deleteBudgetItem i actor s = seqE (deleteRows budgetItemsD (\<lambda>r. row_id r = i)) (case prev of [] \<Rightarrow> returnE ()
      | r # _ \<Rightarrow> (case profileId r of None \<Rightarrow> returnE ()
      | Some p \<Rightarrow> writeBudgetLedger p i ''deleted'' (Some (bi_budgetedAmount r)) None (bi_spentAmount r) None actor)) s"
    using True by (simp add: deleteBudgetItem_def withDb_run bindE_run [where m = "selectRows D P" for D P] selectRows_run prev_def)
  then show ?thesis
    unfolding seqE_def by (simp only:) (intro outsider_step.bindE_at budgetItemsT.owned_delete [OF assms] tail)
qed

lemma outsider_finance_procedures [outsider_intros]:
  "follows (outsider u q) (fundraising_list u raw)"
  "follows (outsider u q) (fundraising_add cfg u raw d)"
  "follows (outsider u q) (budget_list u raw)"
  "follows (outsider u q) (budget_upsert u raw bd)"
  "follows (outsider u q) (budget_delete u i)"
  "follows (outsider u q) (budget_caps u raw)"
  "follows (outsider u q) (budget_setCap u raw office amount notes)"
  "follows (outsider u q) (budget_ledger u raw)"
  "follows (outsider u q) (budget_disclosureReport u raw office)"
proof -
  show "follows (outsider u q) (budget_delete u i)"
    unfolding budget_delete_def
    by (intro outsider_requireUser outsider_row_guarded_seq owned_deleteBudgetItem)
qed (unfold fundraising_list_def getFundraisingTransactions_def fundraising_add_def addScreenedFundraisingTransaction_def
    budget_list_def getBudgetItems_def budget_upsert_def upsertBudgetItem_def
    budget_caps_def getBudgetCaps_def budget_setCap_def upsertBudgetCap_def Let_def budget_ledger_def
    getBudgetLedger_def budget_disclosureReport_def getFinanceDisclosureReport_def bind_requireTenantId,
    (intro outsider_intros; simp add: new_transaction_def)+)

section \<open>The statutory cap\<close>

lemma money_cents: "money x = x \<longleftrightarrow> (\<exists>k :: int. x = of_int k / 100)"
proof
  assume "money x = x"
  then show "\<exists>k :: int. x = of_int k / 100"
    unfolding money_def by (metis minus_divide_left of_int_minus)
next
  assume "\<exists>k :: int. x = of_int k / 100"
  then obtain k :: int where x: "x = of_int k / 100" by blast
  have "\<lfloor>(of_int j :: rat) + 1 / 2\<rfloor> = j" for j :: int by linarith
  from this [of k] this [of "- k"] show "money x = x" by (simp add: money_def x)
qed

lemma money_upper:
  assumes "x \<le> y" and "money y = y"
  shows "money x \<le> y"
proof -
  obtain k :: int where y: "y = of_int k / 100" using assms(2) money_cents by blast
  have "\<lfloor>x * 100 + 1 / 2\<rfloor> \<le> k" using assms(1) unfolding y by linarith
  moreover have "- k \<le> \<lfloor>(- x) * 100 + 1 / 2\<rfloor>" using assms(1) unfolding y by linarith
  then have "(of_int (- k) :: rat) \<le> of_int \<lfloor>(- x) * 100 + 1 / 2\<rfloor>" by linarith
  ultimately show ?thesis unfolding y money_def by (simp add: field_simps)
qed

lemma money_add: "money x = x \<Longrightarrow> money y = y \<Longrightarrow> money (x + y) = x + y"
  and money_diff: "money x = x \<Longrightarrow> money y = y \<Longrightarrow> money (x - y) = x - y"
proof -
  assume "money x = x" and "money y = y"
  then obtain j k :: int where "x = of_int j / 100" "y = of_int k / 100" unfolding money_cents by blast
  then have "x + y = of_int (j + k) / 100" "x - y = of_int (j - k) / 100" by (simp_all add: field_simps)
  then show "money (x + y) = x + y" "money (x - y) = x - y" unfolding money_cents by blast+
qed

lemma money_zero [simp]: "money 0 = 0"
  unfolding money_cents by (rule exI [where x = 0]) simp

lemma money_idem [simp]: "money (money x) = money x"
  unfolding money_cents unfolding money_def by (metis minus_divide_left of_int_minus)

lemma money_sum: "list_all (\<lambda>x. money x = x) xs \<Longrightarrow> money (sum_list xs) = sum_list xs"
  by (induction xs) (simp_all add: money_add)

definition spent_total :: "int \<Rightarrow> world \<Rightarrow> rat" where
  "spent_total pid s = sum_list (map spent_of (filter (\<lambda>r. profileId r = Some pid) (trows (budgetItemsT s))))"

definition office_cap :: "int \<Rightarrow> world \<Rightarrow> rat option" where
  "office_cap pid s =
     (case Option.bind (first_row (filter (\<lambda>r. row_id r = pid) (trows (candidateProfilesT s)))) cp_office of
        None \<Rightarrow> None
      | Some office \<Rightarrow> map_option bc_capAmount (first_row (filter (\<lambda>c. bc_office c = office) (budgetStatutoryCapsT s))))"

definition amounts_rounded :: "world \<Rightarrow> bool" where
  "amounts_rounded s \<longleftrightarrow>
     list_all (\<lambda>r. money (spent_of r) = spent_of r) (trows (budgetItemsT s)) \<and>
     list_all (\<lambda>c. money (bc_capAmount c) = bc_capAmount c) (budgetStatutoryCapsT s)"

definition within_cap :: "int \<Rightarrow> world \<Rightarrow> bool" where
  "within_cap pid s \<longleftrightarrow> (case office_cap pid s of None \<Rightarrow> True | Some c \<Rightarrow> spent_total pid s \<le> c)"

definition cap_ok :: "int \<Rightarrow> world \<Rightarrow> bool" where
  "cap_ok pid s \<longleftrightarrow> amounts_rounded s \<and> within_cap pid s"

lemma assertStatutoryCap_run:
  "assertStatutoryCap pid ex v s =
     ((case office_cap pid s of
         None \<Rightarrow> Inr ()
       | Some c \<Rightarrow> if sum_list (map spent_of (filter (\<lambda>r. profileId r = Some pid \<and> Some (row_id r) \<noteq> ex) (trows (budgetItemsT s)))) + v \<le> c
           then Inr () else Inl (TRPC CONFLICT ''Statutory campaign-spend cap exceeded'')), s)"
  by (simp add: assertStatutoryCap_def office_cap_def run_simps not_less split: option.splits)

lemma cap_rounded: "amounts_rounded s \<Longrightarrow> office_cap pid s = Some c \<Longrightarrow> money c = c"
  by (auto simp: amounts_rounded_def office_cap_def list_all_iff first_row_def split: option.splits list.splits
      dest!: filter_eq_ConsD)

text \<open>What fits under the cap before rounding fits after it, since cap and sums are whole kobo.\<close>

lemma fits_rounded:
  assumes "amounts_rounded s" and "office_cap pid s = Some c"
    and "sum_list (map spent_of (filter P (trows (budgetItemsT s)))) + v \<le> c"
  shows "sum_list (map spent_of (filter P (trows (budgetItemsT s)))) + money v \<le> c"
proof -
  let ?a = "sum_list (map spent_of (filter P (trows (budgetItemsT s))))"
  have "money ?a = ?a"
    using assms(1) by (intro money_sum) (simp add: amounts_rounded_def list_all_iff)
  with cap_rounded [OF assms(1,2)] have "money (c - ?a) = c - ?a" by (rule money_diff)
  with assms(3) have "money v \<le> c - ?a" by (intro money_upper) simp_all
  then show ?thesis by simp
qed

lemma distinct_key_single:
  "distinct (map k (filter P xs)) \<Longrightarrow> (\<And>x. P x \<Longrightarrow> k x = i) \<Longrightarrow> filter P xs = y # ys \<Longrightarrow> filter P xs = [y]"
proof -
  assume d: "distinct (map k (filter P xs))" and k: "\<And>x. P x \<Longrightarrow> k x = i" and f: "filter P xs = y # ys"
  have "\<forall>x \<in> set (y # ys). k x = i" unfolding f [symmetric] using k by simp
  with d f show ?thesis by (cases ys) auto
qed

lemma filter_single:
  assumes "filter P xs = [y]"
  shows "y \<in> set xs" "P y" "x \<in> set xs \<Longrightarrow> P x \<Longrightarrow> x = y"
  using arg_cong [OF assms, of set] by auto

lemma filter_map_if:
  assumes "\<And>r. Q (f r) = Q r"
  shows "filter Q (map (\<lambda>r. if P r then f r else r) xs) = map (\<lambda>r. if P r then f r else r) (filter Q xs)"
  using assms by (induction xs) auto

lemma sum_map_if:
  fixes g :: "'a \<Rightarrow> rat"
  shows "sum_list (map g (map (\<lambda>r. if P r then f r else r) xs)) =
    sum_list (map g (filter (\<lambda>r. \<not> P r) xs)) + sum_list (map (\<lambda>r. g (f r)) (filter P xs))"
  by (induction xs) auto

lemma sum_split:
  fixes g :: "'a \<Rightarrow> rat"
  shows "sum_list (map g xs) = sum_list (map g (filter (\<lambda>r. \<not> P r) xs)) + sum_list (map g (filter P xs))"
  by (induction xs) auto

lemma spent_set_budget:
  "spent_of (set_budget d r) = (case bd_spentAmount d of None \<Rightarrow> spent_of r | Some v \<Rightarrow> money v)"
  by (simp add: spent_of_def set_budget_def upd_opt_def split: option.splits)

lemma cap_ok_frame [preserves_intros]:
  "preserves (cap_ok pid) (writeBudgetLedger p item change pb nb ps ns actor)"
proof -
  have same: "cap_ok pid (s\<lparr>budgetSpendLedgerT := t\<rparr>) = cap_ok pid s" for t s
    by (simp add: cap_ok_def amounts_rounded_def within_cap_def office_cap_def spent_total_def cong: option.case_cong)
  have "cap_ok pid (snd (insertRow budgetSpendLedgerD None mk s)) = cap_ok pid s" for mk s
    using budgetSpendLedgerL.insert_frame [of None mk s] unfolding table_access by (metis same)
  then have "preserves (cap_ok pid) (insertRow budgetSpendLedgerD None mk)" for mk by (simp add: preserves_def)
  then show ?thesis unfolding writeBudgetLedger_def by (intro preserves_intros)
qed

text \<open>Replacing the rows of the budget table by rows with rounded amounts and a total that fits.\<close>

lemma cap_ok_rows:
  assumes "cap_ok pid s" and "list_all (\<lambda>r. money (spent_of r) = spent_of r) (trows t)"
    and "\<And>c. office_cap pid s = Some c \<Longrightarrow> sum_list (map spent_of (filter (\<lambda>r. profileId r = Some pid) (trows t))) \<le> c"
  shows "cap_ok pid (s\<lparr>budgetItemsT := t\<rparr>)"
  using assms by (auto simp: cap_ok_def amounts_rounded_def within_cap_def office_cap_def spent_total_def split: option.splits)

lemma cap_ok_update:
  assumes ok: "cap_ok pid s" and wf: "wf_ids s"
    and prev: "filter (\<lambda>r. row_id r = i \<and> profileId r = Some p) (trows (budgetItemsT s)) = r0 # rest"
    and cap: "spend_changes d r0 \<Longrightarrow> fst (assertStatutoryCap p (Some i) (nullish (bd_spentAmount d) 0) s) = Inr ()"
  shows "cap_ok pid (snd (updateRows budgetItemsD (\<lambda>r. row_id r = i \<and> profileId r = Some p) (set_budget d) s))"
proof -
  define P where "P = (\<lambda>r :: budgetItem. row_id r = i \<and> profileId r = Some p)"
  define F where "F = filter (\<lambda>r. profileId r = Some pid) (trows (budgetItemsT s))"
  define rows where "rows = map (\<lambda>r. if P r then set_budget d r else r) (trows (budgetItemsT s))"
  have round: "money (spent_of r) = spent_of r" if "r \<in> set (trows (budgetItemsT s))" for r
    using ok that by (simp add: cap_ok_def amounts_rounded_def list_all_iff)
  have rounded: "list_all (\<lambda>r. money (spent_of r) = spent_of r) rows"
    using round by (auto simp: rows_def list_all_iff spent_set_budget split: option.splits)
  have "distinct (map row_id (trows (budgetItemsT s)))"
    using wf by (simp add: wf_ids_def ids_distinct_def)
  then have "distinct (map row_id (filter P (trows (budgetItemsT s))))" by (rule distinct_map_filter)
  then have hit: "filter P (trows (budgetItemsT s)) = [r0]"
    by (rule distinct_key_single [where i = i]) (use prev in \<open>simp_all add: P_def\<close>)
  have r0: "r0 \<in> set (trows (budgetItemsT s))"
    by (rule filter_single(1) [OF hit])
  have fm: "filter (\<lambda>r. profileId r = Some pid) rows = map (\<lambda>r. if P r then set_budget d r else r) F"
    unfolding rows_def F_def by (rule filter_map_if) (simp add: set_budget_def)
  have sum: "sum_list (map spent_of (filter (\<lambda>r. profileId r = Some pid) rows)) =
      sum_list (map spent_of (filter (\<lambda>r. \<not> P r) F)) + sum_list (map (\<lambda>r. spent_of (set_budget d r)) (filter P F))"
    unfolding fm by (rule sum_map_if)
  have "sum_list (map spent_of (filter (\<lambda>r. profileId r = Some pid) rows)) \<le> c" if c: "office_cap pid s = Some c" for c
  proof (cases "pid = p \<and> spend_changes d r0")
    case True
    then obtain v where v: "bd_spentAmount d = Some v" by (cases "bd_spentAmount d") (auto simp: spend_changes_def)
    have F: "filter (\<lambda>r. \<not> P r) F = filter (\<lambda>r. profileId r = Some p \<and> Some (row_id r) \<noteq> Some i) (trows (budgetItemsT s))"
      unfolding F_def P_def filter_filter using True by (intro filter_cong) auto
    have "filter P F = [r0]" using hit True by (auto simp: F_def P_def filter_filter conj_commute cong: conj_cong)
    with v F True cap c fits_rounded [of s pid c _ v] ok show ?thesis
      unfolding sum by (auto simp: assertStatutoryCap_run spent_set_budget cap_ok_def split: if_splits)
  next
    case False
    have "spent_of (set_budget d r) = spent_of r" if "r \<in> set (filter P F)" for r
    proof -
      have r: "r = r0" by (rule filter_single(3) [OF hit]) (use that in \<open>simp_all add: F_def\<close>)
      have "pid = p" using that by (auto simp: F_def P_def)
      with False have "\<not> spend_changes d r0" by simp
      with round [OF r0] show ?thesis unfolding r by (auto simp: spent_set_budget spend_changes_def split: option.splits)
    qed
    then have "sum_list (map (\<lambda>r. spent_of (set_budget d r)) (filter P F)) = sum_list (map spent_of (filter P F))"
      by (intro arg_cong [where f = sum_list] map_cong) auto
    then have "sum_list (map spent_of (filter (\<lambda>r. profileId r = Some pid) rows)) = spent_total pid s"
      unfolding sum spent_total_def F_def [symmetric] by (simp add: sum_split [of spent_of F P])
    with ok c show ?thesis by (simp add: cap_ok_def within_cap_def)
  qed
  then have "cap_ok pid (s\<lparr>budgetItemsT := (budgetItemsT s)\<lparr>trows := rows\<rparr>\<rparr>)"
    using rounded by (intro cap_ok_rows [OF ok]) simp_all
  with ok show ?thesis by (simp add: updateRows_def Let_def rows_def P_def)
qed

lemma cap_ok_insert:
  assumes ok: "cap_ok pid s"
    and cap: "v > 0 \<Longrightarrow> bd_spentAmount d = Some v \<Longrightarrow> fst (assertStatutoryCap p None v s) = Inr ()"
    and v: "v = nullish (bd_spentAmount d) 0"
  shows "cap_ok pid (snd (insertRow budgetItemsD eid (new_budget p d now) s))"
proof -
  define rows where "rows = trows (budgetItemsT s)"
  have new: "spent_of ((new_budget p' d now i)\<lparr>row_id := i\<rparr>) = money v"
    "profileId ((new_budget p' d now i)\<lparr>row_id := i\<rparr>) = Some p'" for p' i
    by (simp_all add: new_budget_def spent_of_def v)
  have rounded: "list_all (\<lambda>r. money (spent_of r) = spent_of r) rows"
    using ok by (simp add: cap_ok_def amounts_rounded_def rows_def)
  have total: "spent_total pid s + (if p = pid then money v else 0) \<le> c" if c: "office_cap pid s = Some c" for c
  proof (cases "p = pid \<and> v > 0")
    case True
    then have "bd_spentAmount d = Some v" using v by (cases "bd_spentAmount d") simp_all
    with True cap have "fst (assertStatutoryCap pid None v s) = Inr ()" by simp
    with c have "spent_total pid s + v \<le> c" by (simp add: assertStatutoryCap_run spent_total_def split: if_splits)
    then show ?thesis
      using True ok fits_rounded [OF _ c, of "\<lambda>r. profileId r = Some pid" v] by (simp add: cap_ok_def spent_total_def)
  next
    case False
    then have "(if p = pid then money v else 0) \<le> 0" using money_upper [of v 0] by (auto simp: not_less)
    moreover have "spent_total pid s \<le> c" using ok c by (simp add: cap_ok_def within_cap_def)
    ultimately show ?thesis by linarith
  qed
  have grown: "cap_ok pid (s\<lparr>budgetItemsT := t\<rparr>)" if "trows t = rows @ [(new_budget p d now i)\<lparr>row_id := i\<rparr>]" for i t
    using rounded total that by (intro cap_ok_rows [OF ok]) (auto simp: new spent_total_def rows_def split: if_splits)
  have same: "cap_ok pid (s\<lparr>budgetItemsT := t\<rparr>)" if "trows t = rows" for t
    using rounded ok that by (intro cap_ok_rows [OF ok]) (simp_all add: cap_ok_def within_cap_def spent_total_def rows_def)
  show ?thesis by (simp add: insertRow_def Let_def grown same rows_def [symmetric] split: option.split)
qed

text \<open>The state after a step that cannot break the invariant any more.\<close>

lemma after_bind: "\<lbrakk>J (snd (m s)); \<And>x. preserves J (f x)\<rbrakk> \<Longrightarrow> J (snd (bindE m f s))"
  by (auto simp: bindE_run preserves_def split: prod.splits sum.splits)

lemma scoped_state:
  assumes "J s" and "\<And>x r p. J (snd (next x r p s))"
  shows "J (snd (profileScopedProcedure minRole u raw next s))"
proof -
  have "J (snd (bindE (assertProfileRole (Some x) p minRole) (\<lambda>r. next x r p) s))" for x p
    using assms assertProfileRole_state [of "Some x" p minRole s]
    by (cases "assertProfileRole (Some x) p minRole s") (auto simp: bindE_run split: sum.splits)
  with assms(1) show ?thesis
    by (cases u) (auto simp: profileScoped_assert profileScopedProcedure_def [where u = None] throwE_run split: option.splits)
qed

lemma updateBudgetItem_cap_ok:
  assumes "cap_ok pid s" and "wf_ids s"
  shows "cap_ok pid (snd (updateBudgetItem p i d actor s))"
proof (cases "filter (\<lambda>r. row_id r = i \<and> profileId r = Some p) (trows (budgetItemsT s))")
  case Nil
  with assms show ?thesis
    by (simp add: updateBudgetItem_def bind_requireTenantId assertUpdated_run run_simps)
next
  case (Cons r0 rest)
  define tail where "tail = (\<lambda>rows :: budgetItem list. bindE (assertUpdated rows ''Budget item'') (\<lambda>updated.
      seqE (writeBudgetLedger p i (if spend_changes d r0 then ''spend_changed'' else ''updated'')
        (Some (bi_budgetedAmount r0)) (Some (bi_budgetedAmount updated)) (bi_spentAmount r0) (bi_spentAmount updated) actor)
      (returnE (Some updated))))"
  define check where "check = (if spend_changes d r0 then assertStatutoryCap p (Some i) (nullish (bd_spentAmount d) 0) else returnE ())"
  have run: "updateBudgetItem p i d actor s = bindE check (\<lambda>_.
      bindE (updateRows budgetItemsD (\<lambda>r. row_id r = i \<and> profileId r = Some p) (set_budget d)) tail) s"
    using Cons by (simp add: updateBudgetItem_def bind_requireTenantId seqE_def [symmetric] check_def tail_def
        bindE_run [where m = "selectRows D P" for D P] selectRows_run)
  have tail: "preserves (cap_ok pid) (tail rows)" for rows
    unfolding tail_def by (intro preserves_intros)
  show ?thesis
  proof (cases "fst (check s)")
    case (Inl e)
    then show ?thesis using assms(1) unfolding run
      by (auto simp: bindE_run check_def assertStatutoryCap_run returnE_run split: if_splits)
  next
    case (Inr x)
    then have check: "check s = (Inr (), s)" by (auto simp: check_def assertStatutoryCap_run returnE_run split: if_splits)
    then have "cap_ok pid (snd (updateRows budgetItemsD (\<lambda>r. row_id r = i \<and> profileId r = Some p) (set_budget d) s))"
      by (intro cap_ok_update [OF assms Cons]) (simp add: check_def)
    then have "cap_ok pid (snd (bindE (updateRows budgetItemsD (\<lambda>r. row_id r = i \<and> profileId r = Some p) (set_budget d)) tail s))"
      by (rule after_bind [where J = "cap_ok pid"]) (rule tail)
    then show ?thesis unfolding run by (simp add: bindE_run [where m = check] check)
  qed
qed

lemma createBudgetItem_cap_ok:
  assumes "cap_ok pid s"
  shows "cap_ok pid (snd (createBudgetItem p d actor s))"
proof -
  define v where "v = nullish (bd_spentAmount d) 0"
  define tail where "tail = (\<lambda>r :: budgetItem. bindE (requireTenantId (Some p)) (\<lambda>p. seqE (writeBudgetLedger p (row_id r) ''created'' None
      (Some (bi_budgetedAmount r)) None (bi_spentAmount r) actor) (returnE (Some r))))"
  define check where "check = (case bd_spentAmount d of None \<Rightarrow> returnE () | Some v \<Rightarrow>
      if v > 0 then bindE (requireTenantId (Some p)) (\<lambda>p. assertStatutoryCap p None v) else returnE ())"
  have run: "createBudgetItem p d actor s = seqE check (bindE (getE clock) (\<lambda>now.
      bindE (insertRow budgetItemsD (bd_id d) (new_budget p d now)) tail)) s"
    by (simp add: createBudgetItem_def check_def tail_def)
  have tail: "preserves (cap_ok pid) (tail r)" for r
    unfolding tail_def by (intro preserves_intros)
  show ?thesis
  proof (cases "fst (check s)")
    case (Inl e)
    then show ?thesis using assms unfolding run
      by (auto simp: seqE_def bindE_run check_def bind_requireTenantId assertStatutoryCap_run returnE_run split: if_splits option.splits)
  next
    case (Inr x)
    then have check: "check s = (Inr (), s)"
      by (auto simp: check_def bind_requireTenantId assertStatutoryCap_run returnE_run split: if_splits option.splits)
    then have "cap_ok pid (snd (insertRow budgetItemsD (bd_id d) (new_budget p d (clock s)) s))"
      by (intro cap_ok_insert [OF assms _ v_def]) (simp add: check_def bind_requireTenantId)
    then have "cap_ok pid (snd (bindE (insertRow budgetItemsD (bd_id d) (new_budget p d (clock s))) tail s))"
      by (rule after_bind [where J = "cap_ok pid"]) (rule tail)
    then show ?thesis
      unfolding run by (simp add: seqE_def bindE_run [where m = check] bindE_run [where m = "getE g" for g] getE_run check)
  qed
qed

text \<open>C13: a budget write never takes a campaign over the spending cap of its office: if the recorded
  spend of a campaign is within the cap before a budget item is created or changed, by anyone and in
  any campaign, it is after, rounding to kobo included.\<close>

theorem statutory_cap_holds:
  assumes "wf_ids s" and "amounts_rounded s" and "within_cap pid s"
  shows "amounts_rounded (snd (budget_upsert u raw d s)) \<and> within_cap pid (snd (budget_upsert u raw d s))"
proof -
  have ok: "cap_ok pid s" using assms by (simp add: cap_ok_def)
  have "cap_ok pid (snd (upsertBudgetItem p d actor s))" for p actor
    using updateBudgetItem_cap_ok [OF ok assms(1)] createBudgetItem_cap_ok [OF ok] ok
    by (simp add: upsertBudgetItem_def withDb_run)
  then have "cap_ok pid (snd (budget_upsert u raw d s))"
    using ok unfolding budget_upsert_def by (intro scoped_state [where J = "cap_ok pid"])
  then show ?thesis by (simp add: cap_ok_def)
qed

text \<open>Deleting an item is not checked against the cap. A campaign whose recorded spend is at the cap,
  one item of it negative, is over the cap once that item is deleted.\<close>

theorem negative_item_deletion_breaches_cap:
  assumes "budget_delete u i s = (Inr (), s')" and "conn s" and "wf_ids s"
    and "first_row (filter (\<lambda>r. row_id r = i) (trows (budgetItemsT s))) = Some r" and "profileId r = Some pid"
    and "spent_of r < 0" and "office_cap pid s = Some c" and "spent_total pid s = c"
  shows "\<not> within_cap pid s'"
proof -
  obtain x where u: "u = Some x"
    using assms(1) by (cases u) (auto simp: budget_delete_def requireUser_def throwE_run)
  have del: "deleteBudgetItem i (Some (su_username x)) s = (Inr (), s')"
    using assms(1) assertRowAccess_state [of u budgetItemsD i Owner s]
    by (auto simp: u budget_delete_def requireUser_def elim!: seqE_InrE)
  define rows where "rows = trows (budgetItemsT s)"
  have ids: "distinct (map row_id rows)"
    using assms(3) by (simp add: wf_ids_def ids_distinct_def rows_def)
  obtain rest where first: "filter (\<lambda>r. row_id r = i) rows = r # rest"
    using assms(4) by (auto simp: rows_def first_row_def split: list.splits)
  have hit: "filter (\<lambda>r. row_id r = i) rows = [r]"
    by (rule distinct_key_single [OF distinct_map_filter [OF ids] _ first])
  have items: "trows (budgetItemsT s') = filter (\<lambda>r. row_id r \<noteq> i) rows"
    and frame: "candidateProfilesT s' = candidateProfilesT s" "budgetStatutoryCapsT s' = budgetStatutoryCapsT s"
    using del assms(2) hit
    by (auto simp: deleteBudgetItem_def writeBudgetLedger_def withDb_run bindE_run [where m = "selectRows D P" for D P] bindE_run [where m = "getE g" for g]
        selectRows_run getE_run rows_def deleteRows_def insertRow_def Let_def returnE_run assms(5) elim!: seqE_InrE voidE_InrE
        split: list.splits option.splits if_splits)
  have "filter (\<lambda>x. row_id x = i \<and> profileId x = Some pid) rows = [r]"
    using arg_cong [OF hit, of "filter (\<lambda>r. profileId r = Some pid)"] assms(5) by (simp add: filter_filter conj_commute)
  then have "spent_total pid s = spent_total pid s' + spent_of r"
    using sum_split [of spent_of "filter (\<lambda>r. profileId r = Some pid) rows" "\<lambda>r. row_id r = i"]
    by (simp add: spent_total_def items rows_def [symmetric] filter_filter conj_commute)
  moreover have "office_cap pid s' = Some c" using assms(7) by (simp add: office_cap_def frame cong: option.case_cong)
  ultimately show ?thesis using assms(6,8) by (simp add: within_cap_def)
qed

section \<open>Donor screening\<close>


text \<open>A donation without a donor name that is not declared anonymous passes the screening at any
  amount, although anonymous money above the limit is refused.\<close>

theorem unnamed_donation_unscreened:
  assumes "conn s" and "dd_donorName d = None" and "dd_donorType d = ''individual_local''"
    and "fundraisingTransactions_chk s (new_transaction pid d (clock s) (nextId (fundraisingTransactionsT s)))"
    and "list_all (\<lambda>r. row_id r < nextId (fundraisingTransactionsT s)) (trows (fundraisingTransactionsT s))"
  shows "\<exists>s'. addScreenedFundraisingTransaction cfg pid d s =
      (Inr (Some (new_transaction pid d (clock s) (nextId (fundraisingTransactionsT s)))), s') \<and>
    fst (addScreenedFundraisingTransaction cfg pid (d\<lparr>dd_donorType := ''anonymous''\<rparr>) s) =
      (if dd_amount d > anonymousLimitNgn cfg then Inl (TRPC BAD_REQUEST ''Anonymous donations above the limit are refused'')
       else fst (addFundraisingTransaction pid (d\<lparr>dd_donorType := ''anonymous''\<rparr>) s))"
proof -
  have "\<not> list_ex (\<lambda>x. row_id x = nextId (fundraisingTransactionsT s) \<or>
      tclash fundraisingTransactionsD x r) (trows (fundraisingTransactionsT s))" for r
    using assms(5) unfolding list_ex_iff list_all_iff by (auto simp: fundraisingTransactionsD_def)
  moreover have "(new_transaction pid d (clock s) i)\<lparr>row_id := i\<rparr> = new_transaction pid d (clock s) i" for i
    by (simp add: new_transaction_def)
  ultimately show ?thesis
    using assms(1-4)
    by (simp add: addScreenedFundraisingTransaction_def addFundraisingTransaction_def screenDonor_def truthy_str_def
        insertRow_def Let_def run_simps fundraisingTransactionsD_def)
qed

text \<open>The disclosure report never succeeds on a connected server: the office names its input accepts are
  not values of the office enum of the cap table.\<close>

theorem disclosure_report_never_succeeds:
  assumes "conn s" and "budget_disclosureReport u raw office s = (res, s')"
  shows "\<exists>e. res = Inl e"
proof (cases res)
  case (Inr x)
  obtain pid where "getFinanceDisclosureReport pid office s = (Inr x, s')"
    and "officeType_of office = None"
    using assms(2) [unfolded Inr] by (auto simp: budget_disclosureReport_def zodE_def guardE_run officeType_of_def
        elim!: scoped_InrE seqE_InrE split: if_splits)
  then have False
    using assms(1) by (auto simp: getFinanceDisclosureReport_def withDb_run bind_requireTenantId enumArg_def throwE_run
        elim!: bindE_InrE)
  then show ?thesis ..
qed simp

section \<open>The ledger mirrors the budget\<close>

definition ledger_of :: "int \<Rightarrow> world \<Rightarrow> budgetSpendLedgerEntry list" where
  "ledger_of i s = filter (\<lambda>e. bl_budgetItemId e = Some i) (trows (budgetSpendLedgerT s))"

definition items_of :: "int \<Rightarrow> world \<Rightarrow> budgetItem list" where
  "items_of i s = filter (\<lambda>r. row_id r = i) (trows (budgetItemsT s))"

text \<open>The newest entry on an item's id carries the item's amounts; on an id without an item it is a
  deletion.\<close>

definition mirrored :: "int \<Rightarrow> world \<Rightarrow> bool" where
  "mirrored i s \<longleftrightarrow>
     (case items_of i s of
        [] \<Rightarrow> ledger_of i s = [] \<or> bl_changeType (last (ledger_of i s)) = ''deleted''
      | r # _ \<Rightarrow> ledger_of i s \<noteq> [] \<and> profileId r \<noteq> None \<and>
          bl_newBudgeted (last (ledger_of i s)) = Some (bi_budgetedAmount r) \<and>
          bl_newSpent (last (ledger_of i s)) = bi_spentAmount r)"

inductive budget_step :: "world \<Rightarrow> world \<Rightarrow> bool" where
  written: "upsertBudgetItem pid d actor s = (Inr (Some r), s') \<Longrightarrow> budget_step s s'"
| deleted: "deleteBudgetItem i actor s = (Inr (), s') \<Longrightarrow> budget_step s s'"

inductive budget_run :: "world \<Rightarrow> world \<Rightarrow> bool" where
  start: "budget_run s s"
| more: "budget_run s t \<Longrightarrow> budget_step t v \<Longrightarrow> budget_run s v"

definition ledger_extends :: "world \<Rightarrow> world \<Rightarrow> bool" where
  "ledger_extends s s' \<longleftrightarrow> (\<exists>new. trows (budgetSpendLedgerT s') = trows (budgetSpendLedgerT s) @ new)"

definition one_entry :: "world \<Rightarrow> world \<Rightarrow> int \<Rightarrow> budgetSpendLedgerEntry \<Rightarrow> bool" where
  "one_entry s s' i e \<longleftrightarrow> trows (budgetSpendLedgerT s') = trows (budgetSpendLedgerT s) @ [e] \<and>
     bl_budgetItemId e = Some i \<and> (\<forall>j. j \<noteq> i \<longrightarrow> items_of j s' = items_of j s)"

lemma one_entry_mirrors:
  assumes "one_entry s s' i e" and "\<forall>j. mirrored j s"
    and "case items_of i s' of [] \<Rightarrow> bl_changeType e = ''deleted''
      | r # _ \<Rightarrow> profileId r \<noteq> None \<and> bl_newBudgeted e = Some (bi_budgetedAmount r) \<and> bl_newSpent e = bi_spentAmount r"
  shows "mirrored j s' \<and> ledger_extends s s'"
proof (cases "j = i")
  case True
  have "ledger_of i s' = ledger_of i s @ [e]" using assms(1) by (simp add: one_entry_def ledger_of_def)
  with True assms(1,3) show ?thesis
    by (auto simp: mirrored_def ledger_extends_def one_entry_def split: list.splits)
next
  case False
  with assms(1) have "ledger_of j s' = ledger_of j s" "items_of j s' = items_of j s"
    by (simp_all add: one_entry_def ledger_of_def)
  then have "mirrored j s' = mirrored j s" by (simp add: mirrored_def cong: list.case_cong)
  with assms(1,2) show ?thesis by (auto simp: ledger_extends_def one_entry_def)
qed

lemma writeBudgetLedger_Inr:
  assumes "writeBudgetLedger p i change pb nb ps ns actor s = (Inr x, s')"
  shows "\<exists>k. trows (budgetSpendLedgerT s') = trows (budgetSpendLedgerT s) @ [ledger_entry p i change pb nb ps ns actor (clock s) k] \<and>
    budgetItemsT s' = budgetItemsT s"
proof -
  obtain r where ins: "insertRow budgetSpendLedgerD None (ledger_entry p i change pb nb ps ns actor (clock s)) s = (Inr r, s')"
    using assms by (auto simp: writeBudgetLedger_def bindE_run [where m = "getE g" for g] getE_run elim!: voidE_InrE)
  have "r = ledger_entry p i change pb nb ps ns actor (clock s) (row_id r)"
    using budgetSpendLedgerL.insert_Inr [OF ins] by (simp add: ledger_entry_def)
  moreover have "budgetItemsT s' = budgetItemsT s"
    using ins by (auto simp: insertRow_def Let_def split: if_splits)
  ultimately show ?thesis using budgetSpendLedgerL.insert_Inr [OF ins] by auto
qed

lemma new_budget_profile: "profileId ((new_budget p d now i)\<lparr>row_id := i\<rparr>) = Some p"
  by (simp add: new_budget_def)

lemma items_of_single:
  "wf_ids s \<Longrightarrow> filter (\<lambda>r. row_id r = i \<and> Q r) (trows (budgetItemsT s)) = r # rest \<Longrightarrow> items_of i s = [r] \<and> Q r"
proof -
  assume wf: "wf_ids s" and hit: "filter (\<lambda>r. row_id r = i \<and> Q r) (trows (budgetItemsT s)) = r # rest"
  have ids: "distinct (map row_id (trows (budgetItemsT s)))"
    using wf by (simp add: wf_ids_def ids_distinct_def)
  have "row_id r = i \<and> Q r \<and> r \<in> set (trows (budgetItemsT s))"
    using hit by (metis (mono_tags, lifting) filter_eq_Cons_iff in_set_conv_decomp)
  moreover from this obtain y ys where "filter (\<lambda>r. row_id r = i) (trows (budgetItemsT s)) = y # ys"
    by (metis (mono_tags, lifting) filter_empty_conv neq_Nil_conv)
  then have single: "filter (\<lambda>r. row_id r = i) (trows (budgetItemsT s)) = [y]"
    by (rule distinct_key_single [OF distinct_map_filter [OF ids], rotated]) simp
  ultimately show ?thesis
    using filter_single(3) [OF single, of r] by (simp add: items_of_def)
qed

lemma updateBudgetItem_mirrors:
  assumes run: "updateBudgetItem p i d actor s = (Inr (Some r), s')" and "wf_ids s" and "\<forall>j. mirrored j s"
  shows "mirrored j s' \<and> ledger_extends s s'"
proof -
  let ?P = "\<lambda>r :: budgetItem. row_id r = i \<and> profileId r = Some p"
  obtain r0 rest where prev: "filter ?P (trows (budgetItemsT s)) = r0 # rest"
    using run by (cases "filter ?P (trows (budgetItemsT s))")
      (auto simp: updateBudgetItem_def bind_requireTenantId assertUpdated_run run_simps)
  obtain rows s1 where upd: "updateRows budgetItemsD ?P (set_budget d) s = (Inr rows, s1)"
    and r: "assertUpdated rows ''Budget item'' s1 = (Inr r, s1)"
    and led: "writeBudgetLedger p i (if spend_changes d r0 then ''spend_changed'' else ''updated'')
        (Some (bi_budgetedAmount r0)) (Some (bi_budgetedAmount r)) (bi_spentAmount r0) (bi_spentAmount r) actor s1 = (Inr (), s')"
    using run prev
    by (auto simp: updateBudgetItem_def bind_requireTenantId bindE_run [where m = "selectRows D P" for D P] selectRows_run
        assertStatutoryCap_run assertUpdated_run returnE_run elim!: bindE_InrE seqE_InrE split: if_splits option.splits list.splits)
  have single: "items_of i s = [r0]" "profileId r0 = Some p" using items_of_single [OF assms(2) prev] by simp_all
  have tab: "trows (budgetItemsT s1) = map (\<lambda>r. if ?P r then set_budget d r else r) (trows (budgetItemsT s))"
    and rows: "rows = map (set_budget d) (r0 # rest)"
    using budgetItemsL.update_Inr [OF upd] prev by simp_all
  have r': "r = set_budget d r0" using r rows by (simp add: assertUpdated_run)
  have items: "items_of j s1 = map (\<lambda>r. if ?P r then set_budget d r else r) (items_of j s)" for j
    unfolding items_of_def tab by (rule filter_map_if) (simp add: set_budget_def)
  have other: "items_of j s1 = items_of j s" if "j \<noteq> i" for j
    unfolding items using that by (intro map_idI) (auto simp: items_of_def)
  have i: "row_id r0 = i" using single(1) by (metis (mono_tags, lifting) filter_eq_Cons_iff items_of_def)
  obtain k where "trows (budgetSpendLedgerT s') = trows (budgetSpendLedgerT s1) @ [ledger_entry p i
      (if spend_changes d r0 then ''spend_changed'' else ''updated'') (Some (bi_budgetedAmount r0)) (Some (bi_budgetedAmount r))
      (bi_spentAmount r0) (bi_spentAmount r) actor (clock s1) k]" (is "_ = _ @ [?e]") and "budgetItemsT s' = budgetItemsT s1"
    using writeBudgetLedger_Inr [OF led] by blast
  moreover have "budgetSpendLedgerT s1 = budgetSpendLedgerT s"
    using upd by (auto simp: updateRows_def Let_def split: if_splits)
  moreover have "items_of i s1 = [r]" unfolding items single r' using i single(2) by simp
  ultimately have "one_entry s s' i ?e" and "items_of i s' = [r]"
    using other by (simp_all add: one_entry_def ledger_entry_def items_of_def)
  from one_entry_mirrors [OF this(1) assms(3)] this(2) show ?thesis
    by (simp add: ledger_entry_def r' set_budget_def single(2))
qed

lemma createBudgetItem_mirrors:
  assumes run: "createBudgetItem p d actor s = (Inr (Some r), s')" and "\<forall>j. mirrored j s"
  shows "mirrored j s' \<and> ledger_extends s s'"
proof -
  obtain s1 where ins: "insertRow budgetItemsD (bd_id d) (new_budget p d (clock s)) s = (Inr r, s1)"
    and led: "writeBudgetLedger p (row_id r) ''created'' None (Some (bi_budgetedAmount r)) None (bi_spentAmount r) actor s1 = (Inr (), s')"
    using run
    by (auto simp: createBudgetItem_def bind_requireTenantId bindE_run [where m = "getE g" for g] getE_run
        assertStatutoryCap_run returnE_run elim!: bindE_InrE seqE_InrE split: if_splits option.splits)
  note new = budgetItemsL.insert_Inr [OF ins]
  have tab: "trows (budgetItemsT s1) = trows (budgetItemsT s) @ [r]" using new by simp
  have "items_of (row_id r) s = []"
    using new unfolding items_of_def filter_empty_conv rows_of_simps by blast
  then have r: "items_of (row_id r) s1 = [r]" by (simp add: items_of_def tab)
  have other: "items_of j s1 = items_of j s" if "j \<noteq> row_id r" for j using that by (simp add: items_of_def tab)
  obtain k where "trows (budgetSpendLedgerT s') = trows (budgetSpendLedgerT s1) @ [ledger_entry p (row_id r) ''created''
      None (Some (bi_budgetedAmount r)) None (bi_spentAmount r) actor (clock s1) k]" (is "_ = _ @ [?e]") and "budgetItemsT s' = budgetItemsT s1"
    using writeBudgetLedger_Inr [OF led] by blast
  moreover have "budgetSpendLedgerT s1 = budgetSpendLedgerT s"
    using ins by (auto simp: insertRow_def Let_def split: if_splits)
  ultimately have "one_entry s s' (row_id r) ?e" and "items_of (row_id r) s' = [r]"
    using other r by (simp_all add: one_entry_def ledger_entry_def items_of_def)
  moreover have "profileId r = Some p" using new by (metis new_budget_profile)
  ultimately show ?thesis using one_entry_mirrors [OF _ assms(2)] by (simp add: ledger_entry_def)
qed

lemma deleteBudgetItem_mirrors:
  assumes run: "deleteBudgetItem i actor s = (Inr (), s')" and "wf_ids s" and "\<forall>j. mirrored j s"
  shows "mirrored j s' \<and> ledger_extends s s'"
proof (cases "conn s \<and> items_of i s \<noteq> []")
  case False
  then have "s' = s"
  proof (cases "conn s")
    case True
    with False have none: "filter (\<lambda>r. row_id r = i) (trows (budgetItemsT s)) = []" by (simp add: items_of_def)
    then have "filter (\<lambda>r. row_id r \<noteq> i) (trows (budgetItemsT s)) = trows (budgetItemsT s)"
      unfolding filter_empty_conv by (simp add: filter_id_conv)
    with True none run show ?thesis
      by (simp add: deleteBudgetItem_def withDb_run deleteRows_def Let_def run_simps split: if_splits)
  qed (use run in \<open>simp add: deleteBudgetItem_def withDb_run\<close>)
  with assms(3) show ?thesis by (simp add: ledger_extends_def)
next
  case True
  then obtain r rest where "items_of i s = r # rest" by (cases "items_of i s") simp_all
  then have prev: "filter (\<lambda>r. row_id r = i \<and> True) (trows (budgetItemsT s)) = r # rest" by (simp add: items_of_def)
  have single: "items_of i s = [r]" using items_of_single [OF assms(2) prev] by simp
  moreover have "mirrored i s" using assms(3) by simp
  ultimately obtain p where p: "profileId r = Some p" by (auto simp: mirrored_def)
  obtain hit s1 where del: "deleteRows budgetItemsD (\<lambda>r. row_id r = i) s = (Inr hit, s1)"
    and led: "writeBudgetLedger p i ''deleted'' (Some (bi_budgetedAmount r)) None (bi_spentAmount r) None actor s1 = (Inr (), s')"
    using run True single p
    by (auto simp: deleteBudgetItem_def withDb_run bindE_run [where m = "selectRows D P" for D P] selectRows_run items_of_def
        elim!: seqE_InrE)
  have tab: "trows (budgetItemsT s1) = filter (\<lambda>r. row_id r \<noteq> i) (trows (budgetItemsT s))"
    using del by (auto simp: deleteRows_def Let_def split: if_splits)
  have gone: "items_of i s1 = []" by (simp add: items_of_def tab filter_empty_conv)
  have other: "items_of j s1 = items_of j s" if "j \<noteq> i" for j
    unfolding items_of_def tab filter_filter using that by (intro filter_cong) auto
  obtain k where "trows (budgetSpendLedgerT s') = trows (budgetSpendLedgerT s1) @ [ledger_entry p i ''deleted''
      (Some (bi_budgetedAmount r)) None (bi_spentAmount r) None actor (clock s1) k]" (is "_ = _ @ [?e]") and "budgetItemsT s' = budgetItemsT s1"
    using writeBudgetLedger_Inr [OF led] by blast
  moreover have "budgetSpendLedgerT s1 = budgetSpendLedgerT s"
    using del by (auto simp: deleteRows_def Let_def split: if_splits)
  ultimately have "one_entry s s' i ?e" and "items_of i s' = []"
    using other gone by (simp_all add: one_entry_def ledger_entry_def items_of_def)
  from one_entry_mirrors [OF this(1) assms(3)] this(2) show ?thesis by (simp add: ledger_entry_def)
qed

lemma budget_step_wf: "budget_step s s' \<Longrightarrow> wf_ids s \<Longrightarrow> wf_ids s'"
proof (induction rule: budget_step.induct)
  case (written pid d actor s r s')
  have "preserves wf_ids (upsertBudgetItem pid d actor)"
    unfolding upsertBudgetItem_def by (intro preserves_intros)
  with written show ?case by (auto simp: preserves_def dest!: spec [of _ s])
next
  case (deleted i actor s s')
  have "preserves wf_ids (deleteBudgetItem i actor)"
    unfolding deleteBudgetItem_def by (intro preserves_intros)
  with deleted show ?case by (auto simp: preserves_def dest!: spec [of _ s])
qed

lemma budget_step_mirrors:
  assumes "budget_step s s'" and "wf_ids s" and "\<forall>j. mirrored j s"
  shows "mirrored j s' \<and> ledger_extends s s'"
  using assms
proof (induction rule: budget_step.induct)
  case (written pid d actor s r s')
  then show ?case
    using updateBudgetItem_mirrors createBudgetItem_mirrors
    by (auto simp: upsertBudgetItem_def withDb_run split: if_splits)
next
  case (deleted i actor s s')
  then show ?case using deleteBudgetItem_mirrors by blast
qed

text \<open>C14: along any sequence of completed budget writes and deletions the ledger is only appended to, and
  at every point it mirrors the budget: the newest entry on an item carries the item's amounts, and on
  an id without an item it records the deletion.\<close>

theorem ledger_mirrors_budget:
  assumes "budget_run s s'" and "wf_ids s" and "\<forall>i. mirrored i s"
  shows "(\<forall>i. mirrored i s') \<and> ledger_extends s s'"
proof -
  have "wf_ids s' \<and> (\<forall>i. mirrored i s') \<and> ledger_extends s s'"
    using assms
  proof (induction rule: budget_run.induct)
    case (start s)
    then show ?case by (simp add: ledger_extends_def)
  next
    case (more s t v)
    then have t: "wf_ids t" "\<forall>i. mirrored i t" "ledger_extends s t" by blast+
    from budget_step_mirrors [OF more.hyps(2) t(1,2)] have "\<forall>i. mirrored i v" "ledger_extends t v" by blast+
    moreover from this(2) t(3) have "ledger_extends s v" by (auto simp: ledger_extends_def)
    ultimately show ?case using budget_step_wf [OF more.hyps(2) t(1)] by blast
  qed
  then show ?thesis by blast
qed

section \<open>Concrete runs\<close>

definition demo_item :: "int \<Rightarrow> rat \<Rightarrow> budgetItem" where
  "demo_item i spent = \<lparr>row_id = i, profileId = Some 1, bi_category = ''media'', bi_description = ''radio'',
     bi_budgetedAmount = 500, bi_spentAmount = Some spent, bi_priority = None, bi_notes = None, bi_createdAt = 0\<rparr>"

definition demo_budget :: world where
  "demo_budget = demo_world
     \<lparr>budgetItemsT := \<lparr>trows = [demo_item 1 1100, demo_item 2 (- 100)], nextId = 3\<rparr>,
      budgetStatutoryCapsT := [\<lparr>bc_office = Governor, bc_capAmount = 1000, bc_notes = None, bc_updatedAt = 0\<rparr>]\<rparr>"

lemma demo_wf: "wf_ids demo_budget" "wf_ids demo_world"
  by (simp_all add: wf_ids_def ids_distinct_def demo_budget_def demo_world_def empty_world_def no_rows_def demo_item_def
      demo_user_def demo_profile_def)

lemma money_int [simp]: "money (numeral n) = numeral n" "money (- numeral n) = - numeral n"
  unfolding money_cents by (rule exI [where x = "numeral n * 100"], simp, rule exI [where x = "- numeral n * 100"], simp)

lemma demo_budget_cap:
  "office_cap 1 demo_budget = Some 1000" "spent_total 1 demo_budget = 1000" "amounts_rounded demo_budget"
  "conn demo_budget"
  by (simp_all add: office_cap_def spent_total_def amounts_rounded_def demo_budget_def spent_of_def demo_item_def
      first_row_def demo_profile_def demo_world_def empty_world_def)

definition demo_spend :: budgetData where
  "demo_spend = \<lparr>bd_id = Some 1, bd_category = ''media'', bd_description = ''radio'', bd_budgetedAmount = 600,
     bd_spentAmount = Some 1200, bd_priority = None, bd_notes = None\<rparr>"

theorem statutory_cap_holds_witness:
  "within_cap 1 (snd (budget_upsert (Some ada) (JNumber 1) demo_spend demo_budget))"
  using statutory_cap_holds [of demo_budget 1 "Some ada" "JNumber 1" demo_spend]
  by (simp add: demo_wf demo_budget_cap within_cap_def)

lemma budget_items_unreferenced [simp]: "tfree budgetItemsD s r"
  by (simp add: budgetItemsD_def)

theorem negative_item_deletion_breaches_cap_witness:
  "\<exists>s'. budget_delete (Some ada) 2 demo_budget = (Inr (), s') \<and> \<not> within_cap 1 s'"
proof -
  have "\<exists>s'. budget_delete (Some ada) 2 demo_budget = (Inr (), s')"
    by (simp add: budget_delete_def requireUser_def assertRowAccess_def profileIdForRow_def assertProfileRole_def
        deleteBudgetItem_def writeBudgetLedger_def ledger_entry_def deleteRows_def insertRow_def Let_def
        budgetSpendLedger_chk_def table_simps demo_budget_def demo_item_def
        demo_world_def empty_world_def no_rows_def demo_user_def demo_profile_def safeUser_def fko_def fk_def vc_def vco_def
        int4o_def int4_def num15o_def num15_def run_simps)
  then obtain s' where run: "budget_delete (Some ada) 2 demo_budget = (Inr (), s')" by blast
  have "first_row (filter (\<lambda>r. row_id r = 2) (trows (budgetItemsT demo_budget))) = Some (demo_item 2 (- 100))"
    by (simp add: demo_budget_def demo_item_def)
  with negative_item_deletion_breaches_cap [OF run] run show ?thesis
    by (simp add: demo_wf demo_budget_cap demo_item_def spent_of_def)
qed

definition demo_donation :: donationData where
  "demo_donation = \<lparr>dd_donorName = Some ''Musa'', dd_amount = 70000000, dd_currency = None, dd_source = None,
     dd_category = None, dd_notes = None, dd_donorType = ''individual_local'', dd_sourceAttested = False\<rparr>"


theorem unnamed_donation_unscreened_witness:
  "\<exists>r s'. addScreenedFundraisingTransaction DONOR_SCREENING_CONFIG 1 (demo_donation\<lparr>dd_donorName := None\<rparr>) demo_world = (Inr (Some r), s')
     \<and> ft_amount r = 70000000"
  using unnamed_donation_unscreened [of demo_world "demo_donation\<lparr>dd_donorName := None\<rparr>" 1 DONOR_SCREENING_CONFIG]
  by (auto simp: demo_donation_def new_transaction_def fundraisingTransactions_chk_def demo_world_def empty_world_def
      no_rows_def demo_profile_def fko_def fk_def vc_def vco_def num15_def)

theorem disclosure_report_never_succeeds_witness:
  "\<exists>e. fst (budget_disclosureReport (Some ada) (JNumber 1) ''gubernatorial'' demo_budget) = Inl e"
  using disclosure_report_never_succeeds [OF demo_budget_cap(4) prod.collapse [symmetric]] .

theorem ledger_mirrors_budget_witness:
  "\<exists>s'. budget_run demo_world s' \<and> (\<forall>i. mirrored i s') \<and> items_of 1 s' \<noteq> []"
proof -
  have "\<exists>r s'. upsertBudgetItem 1 (demo_spend\<lparr>bd_id := None\<rparr>) (Some ''ada'') demo_world = (Inr (Some r), s') \<and> items_of 1 s' \<noteq> []"
    by (simp add: upsertBudgetItem_def createBudgetItem_def demo_spend_def bind_requireTenantId assertStatutoryCap_run
        office_cap_def first_row_def writeBudgetLedger_def ledger_entry_def new_budget_def insertRow_def Let_def items_of_def
        budgetSpendLedger_chk_def budgetItems_chk_def budgetItemsD_def budgetSpendLedgerD_def
        demo_world_def empty_world_def no_rows_def demo_profile_def fko_def fk_def vc_def vco_def truthy_id_def
        int4o_def int4_def num15o_def num15_def run_simps)
  then obtain r s' where run: "upsertBudgetItem 1 (demo_spend\<lparr>bd_id := None\<rparr>) (Some ''ada'') demo_world = (Inr (Some r), s')"
    and item: "items_of 1 s' \<noteq> []" by blast
  have b: "budget_run demo_world s'" by (rule budget_run.more [OF budget_run.start budget_step.written [OF run]])
  have "\<forall>i. mirrored i demo_world"
    by (simp add: mirrored_def items_of_def ledger_of_def demo_world_def empty_world_def no_rows_def)
  from ledger_mirrors_budget [OF b demo_wf(2) this] b item show ?thesis by blast
qed

end
