(* ===== verification/Outreach.thy ===== *)
theory Outreach
  imports Outbound
begin

text \<open>
  People and publicity: volunteers and their tasks, press releases, social media posts, diaspora
  contacts, endorsements, media monitoring and stakeholder contacts, each the router of
  \<^verbatim>\<open>server/routers.ts\<close> with its functions of \<^verbatim>\<open>server/db.ts\<close>. A field an edit does not give keeps its
  stored value.
\<close>

section \<open>Volunteers\<close>

record volunteerData =
  vd_fullName :: string
  vd_phone :: "string option"
  vd_email :: "string option"
  vd_lga :: "string option"
  vd_ward :: "string option"
  vd_skills :: "string list option"
  vd_role :: "string option"
  vd_status :: "string option"

definition getVolunteers :: "int \<Rightarrow> (world, volunteer list) proc" where
  "getVolunteers pid =
     withDb [] (bindE (selectRows volunteersD (\<lambda>r. profileId r = Some pid)) (\<lambda>rows. returnE (order_desc vo_joinedAt rows)))"

text \<open>\<open>skills?.length ? skills.join(", ") : undefined\<close>.\<close>

definition joined :: "string \<Rightarrow> string list option \<Rightarrow> string option" where
  "joined sep xs = (case xs of None \<Rightarrow> None | Some ys \<Rightarrow> if ys = [] then None else Some (join sep ys))"

definition new_volunteer :: "int \<Rightarrow> volunteerData \<Rightarrow> itemStatus option \<Rightarrow> time \<Rightarrow> int \<Rightarrow> volunteer" where
  "new_volunteer pid d st now i =
     \<lparr>row_id = i, profileId = Some pid, vo_fullName = vd_fullName d, vo_phone = vd_phone d, vo_email = vd_email d,
      vo_lga = vd_lga d, vo_ward = vd_ward d, vo_role = vd_role d, vo_skills = joined '', '' (vd_skills d),
      vo_status = Some (nullish st Active), vo_joinedAt = now\<rparr>"

definition addVolunteer :: "int \<Rightarrow> volunteerData \<Rightarrow> (world, volunteer option) proc" where
  "addVolunteer pid d =
     withDb None
       (bindE (getE clock) (\<lambda>now.
        enumArg itemStatus_of (vd_status d) (\<lambda>st.
        bindE (insertRow volunteersD None (new_volunteer pid d st now)) (\<lambda>r. returnE (Some r)))))"

definition updateVolunteerStatus :: "int \<Rightarrow> string \<Rightarrow> (world, volunteer option) proc" where
  "updateVolunteerStatus i status =
     withDb None
       (enumArg itemStatus_of (Some status) (\<lambda>st.
        bindE (updateRows volunteersD (\<lambda>r. row_id r = i) (\<lambda>r. r\<lparr>vo_status := st\<rparr>)) (\<lambda>rows.
        returnE (first_row rows))))"

definition volunteers_list :: "sessionUser option \<Rightarrow> jsValue \<Rightarrow> (world, volunteer list) proc" where
  "volunteers_list u raw = profileScopedProcedure Viewer u raw (\<lambda>_ _ pid. getVolunteers pid)"

definition volunteers_add :: "sessionUser option \<Rightarrow> jsValue \<Rightarrow> volunteerData \<Rightarrow> (world, volunteer option) proc" where
  "volunteers_add u raw d = profileScopedProcedure Manager u raw (\<lambda>_ _ pid. addVolunteer pid d)"

definition volunteers_updateStatus :: "sessionUser option \<Rightarrow> int \<Rightarrow> string \<Rightarrow> (world, volunteer option) proc" where
  "volunteers_updateStatus u i status =
     requireUser u (\<lambda>_. seqE (assertRowAccess u volunteersD i Manager) (updateVolunteerStatus i status))"

section \<open>Volunteer tasks\<close>

record taskData =
  td_title :: string
  td_description :: "string option"
  td_taskType :: "volunteerTaskType option"
  td_status :: "volunteerTaskStatus option"
  td_volunteerId :: "int option"
  td_dueDate :: "time option"

definition getVolunteerTasks :: "int \<Rightarrow> int option \<Rightarrow> (world, volunteerTask list) proc" where
  "getVolunteerTasks pid volunteerId =
     withDb [] (bindE (selectRows volunteerTasksD (\<lambda>r. profileId r = Some pid \<and>
         (truthy_id volunteerId \<longrightarrow> vt_volunteerId r = volunteerId)))
       (\<lambda>rows. returnE (order_by vt_createdAt rows)))"

definition new_task :: "int \<Rightarrow> taskData \<Rightarrow> time \<Rightarrow> int \<Rightarrow> volunteerTask" where
  "new_task pid d now i =
     \<lparr>row_id = i, profileId = Some pid, vt_volunteerId = (if truthy_id (td_volunteerId d) then td_volunteerId d else None),
      vt_title = td_title d, vt_description = (if truthy_str (td_description d) then td_description d else None),
      vt_taskType = Some (nullish (td_taskType d) OtherTask), vt_status = Some (nullish (td_status d) TaskPending),
      vt_dueDate = td_dueDate d, vt_completedAt = None, vt_createdAt = now\<rparr>"

definition createVolunteerTask :: "int \<Rightarrow> taskData \<Rightarrow> (world, volunteerTask option) proc" where
  "createVolunteerTask pid d =
     withDb None
       (bindE (getE clock) (\<lambda>now.
        bindE (insertRow volunteerTasksD None (new_task pid d now)) (\<lambda>r. returnE (Some r))))"

definition updateVolunteerTaskStatus :: "int \<Rightarrow> volunteerTaskStatus \<Rightarrow> (world, volunteerTask option) proc" where
  "updateVolunteerTaskStatus i status =
     withDb None
       (bindE (getE clock) (\<lambda>now.
        bindE (updateRows volunteerTasksD (\<lambda>r. row_id r = i)
            (\<lambda>r. r\<lparr>vt_status := Some status,
               vt_completedAt := (if status = TaskCompleted then Some now else vt_completedAt r)\<rparr>))
          (\<lambda>rows. returnE (first_row rows))))"

definition deleteVolunteerTask :: "int \<Rightarrow> (world, bool option) proc" where
  "deleteVolunteerTask i =
     withDb None (seqE (deleteRows volunteerTasksD (\<lambda>r. row_id r = i)) (returnE (Some True)))"

definition volunteerTasks_list :: "sessionUser option \<Rightarrow> jsValue \<Rightarrow> (world, volunteerTask list) proc" where
  "volunteerTasks_list u raw = profileScopedProcedure Viewer u raw (\<lambda>_ _ pid. getVolunteerTasks pid None)"

definition volunteerTasks_create :: "sessionUser option \<Rightarrow> jsValue \<Rightarrow> taskData \<Rightarrow> (world, volunteerTask option) proc" where
  "volunteerTasks_create u raw d = profileScopedProcedure Manager u raw (\<lambda>_ _ pid. createVolunteerTask pid d)"

definition volunteerTasks_updateStatus ::
  "sessionUser option \<Rightarrow> int \<Rightarrow> volunteerTaskStatus \<Rightarrow> (world, volunteerTask option) proc" where
  "volunteerTasks_updateStatus u i status =
     requireUser u (\<lambda>_. seqE (assertRowAccess u volunteerTasksD i Manager) (updateVolunteerTaskStatus i status))"

definition volunteerTasks_delete :: "sessionUser option \<Rightarrow> int \<Rightarrow> (world, bool option) proc" where
  "volunteerTasks_delete u i =
     requireUser u (\<lambda>_. seqE (assertRowAccess u volunteerTasksD i Owner) (deleteVolunteerTask i))"

section \<open>Press releases\<close>

record pressData =
  pd_id :: "int option"
  pd_title :: string
  pd_content :: string
  pd_template :: "string option"
  pd_status :: "string option"

definition getPressReleases :: "int \<Rightarrow> (world, pressRelease list) proc" where
  "getPressReleases pid =
     withDb [] (bindE (selectRows pressReleasesD (\<lambda>r. profileId r = Some pid)) (\<lambda>rows. returnE (order_desc pr_createdAt rows)))"

definition set_press :: "pressData \<Rightarrow> itemStatus option \<Rightarrow> pressRelease \<Rightarrow> pressRelease" where
  "set_press d st r = r\<lparr>pr_title := pd_title d, pr_body := pd_content d,
     pr_template := upd_opt (pd_template d) (pr_template r), pr_status := upd_opt st (pr_status r)\<rparr>"

definition new_press :: "int \<Rightarrow> pressData \<Rightarrow> itemStatus option \<Rightarrow> time \<Rightarrow> int \<Rightarrow> pressRelease" where
  "new_press pid d st now i =
     \<lparr>row_id = i, profileId = Some pid, pr_title = pd_title d, pr_body = pd_content d, pr_template = pd_template d,
      pr_publishedAt = None, pr_status = Some (nullish st Pending), pr_createdAt = now\<rparr>"

definition savePressRelease :: "int \<Rightarrow> pressData \<Rightarrow> (world, pressRelease option) proc" where
  "savePressRelease pid d =
     withDb None
       (bindE (getE clock) (\<lambda>now.
        enumArg itemStatus_of (pd_status d) (\<lambda>st.
        tenantUpsert pressReleasesD ''Press release'' (pd_id d) (Some pid) (set_press d st) (new_press pid d st now))))"

definition pressRelease_list :: "sessionUser option \<Rightarrow> jsValue \<Rightarrow> (world, pressRelease list) proc" where
  "pressRelease_list u raw = profileScopedProcedure Viewer u raw (\<lambda>_ _ pid. getPressReleases pid)"

definition pressRelease_save :: "sessionUser option \<Rightarrow> jsValue \<Rightarrow> pressData \<Rightarrow> (world, pressRelease option) proc" where
  "pressRelease_save u raw d = profileScopedProcedure Manager u raw (\<lambda>_ _ pid. savePressRelease pid d)"

section \<open>Social media posts\<close>

text \<open>\<open>scheduledAt\<close> reaches the timestamp column as the string of the request. Where the query builder
  insists on a \<open>Date\<close> there (\<open>refusesStringDates\<close>) a given value makes the statement fail before it is sent.\<close>

record socialData =
  so_id :: "int option"
  so_platform :: string
  so_content :: string
  so_scheduledAt :: "time option"
  so_status :: "string option"
  so_hashtags :: "string list option"

definition stringDate :: "time option \<Rightarrow> (world, unit) proc" where
  "stringDate t =
     bindE (getE refusesStringDates) (\<lambda>refuses.
     guardE (\<not> (refuses \<and> t \<noteq> None)) (PlainError ''value.toISOString is not a function''))"

definition getSocialPosts :: "int \<Rightarrow> (world, socialMediaPost list) proc" where
  "getSocialPosts pid =
     withDb [] (bindE (selectRows socialMediaPostsD (\<lambda>r. profileId r = Some pid)) (\<lambda>rows. returnE (order_desc sm_createdAt rows)))"

definition set_social :: "socialData \<Rightarrow> itemStatus option \<Rightarrow> socialMediaPost \<Rightarrow> socialMediaPost" where
  "set_social d st r = r\<lparr>sm_platform := so_platform d, sm_content := so_content d,
     sm_hashtags := upd_opt (joined '' '' (so_hashtags d)) (sm_hashtags r),
     sm_scheduledAt := upd_opt (so_scheduledAt d) (sm_scheduledAt r), sm_status := upd_opt st (sm_status r)\<rparr>"

definition new_social :: "int \<Rightarrow> socialData \<Rightarrow> itemStatus option \<Rightarrow> time \<Rightarrow> int \<Rightarrow> socialMediaPost" where
  "new_social pid d st now i =
     \<lparr>row_id = i, profileId = Some pid, sm_platform = so_platform d, sm_content = so_content d,
      sm_hashtags = joined '' '' (so_hashtags d), sm_scheduledAt = so_scheduledAt d, sm_publishedAt = None,
      sm_status = Some (nullish st Pending), sm_impressions = Some 0, sm_engagements = Some 0, sm_createdAt = now\<rparr>"

definition saveSocialPost :: "int \<Rightarrow> socialData \<Rightarrow> (world, socialMediaPost option) proc" where
  "saveSocialPost pid d =
     withDb None
       (bindE (getE clock) (\<lambda>now.
        seqE (stringDate (so_scheduledAt d))
        (enumArg itemStatus_of (so_status d) (\<lambda>st.
         tenantUpsert socialMediaPostsD ''Social media post'' (so_id d) (Some pid) (set_social d st) (new_social pid d st now)))))"

definition socialMedia_list :: "sessionUser option \<Rightarrow> jsValue \<Rightarrow> (world, socialMediaPost list) proc" where
  "socialMedia_list u raw = profileScopedProcedure Viewer u raw (\<lambda>_ _ pid. getSocialPosts pid)"

definition socialMedia_save :: "sessionUser option \<Rightarrow> jsValue \<Rightarrow> socialData \<Rightarrow> (world, socialMediaPost option) proc" where
  "socialMedia_save u raw d = profileScopedProcedure Manager u raw (\<lambda>_ _ pid. saveSocialPost pid d)"

section \<open>Diaspora contacts\<close>

record diasporaData =
  di_fullName :: string
  di_country :: "string option"
  di_city :: "string option"
  di_organization :: "string option"
  di_phone :: "string option"
  di_email :: "string option"
  di_status :: "string option"
  di_pledgedAmount :: "rat option"
  di_notes :: "string option"

definition getDiasporaContacts :: "int \<Rightarrow> (world, diasporaContact list) proc" where
  "getDiasporaContacts pid =
     withDb [] (bindE (selectRows diasporaContactsD (\<lambda>r. profileId r = Some pid))
       (\<lambda>rows. returnE (order_by (\<lambda>r. (text_key (dc_country r), dc_name r)) rows)))"

definition new_diaspora :: "int \<Rightarrow> diasporaData \<Rightarrow> itemStatus option \<Rightarrow> time \<Rightarrow> int \<Rightarrow> diasporaContact" where
  "new_diaspora pid d st now i =
     \<lparr>row_id = i, profileId = Some pid, dc_name = di_fullName d, dc_country = di_country d, dc_city = di_city d,
      dc_email = di_email d, dc_phone = di_phone d, dc_organization = di_organization d,
      dc_status = Some (nullish st Active), dc_pledgedAmount = Some (money (nullish (di_pledgedAmount d) 0)),
      dc_notes = di_notes d, dc_createdAt = now\<rparr>"

definition addDiasporaContact :: "int \<Rightarrow> diasporaData \<Rightarrow> (world, diasporaContact option) proc" where
  "addDiasporaContact pid d =
     withDb None
       (bindE (getE clock) (\<lambda>now.
        enumArg itemStatus_of (di_status d) (\<lambda>st.
        bindE (insertRow diasporaContactsD None (new_diaspora pid d st now)) (\<lambda>r. returnE (Some r)))))"

definition diaspora_list :: "sessionUser option \<Rightarrow> jsValue \<Rightarrow> (world, diasporaContact list) proc" where
  "diaspora_list u raw = profileScopedProcedure Viewer u raw (\<lambda>_ _ pid. getDiasporaContacts pid)"

definition diaspora_add :: "sessionUser option \<Rightarrow> jsValue \<Rightarrow> diasporaData \<Rightarrow> (world, diasporaContact option) proc" where
  "diaspora_add u raw d = profileScopedProcedure Manager u raw (\<lambda>_ _ pid. addDiasporaContact pid d)"

section \<open>Endorsements\<close>

record endorsementData =
  ed_endorserName :: string
  ed_title :: "string option"
  ed_organization :: "string option"
  ed_category :: "string option"
  ed_statement :: "string option"
  ed_isPublic :: "bool option"

definition getEndorsements :: "int \<Rightarrow> (world, endorsement list) proc" where
  "getEndorsements pid =
     withDb [] (bindE (selectRows endorsementsD (\<lambda>r. profileId r = Some pid)) (\<lambda>rows. returnE (order_desc en_endorsedAt rows)))"

definition new_endorsement :: "int \<Rightarrow> endorsementData \<Rightarrow> time \<Rightarrow> int \<Rightarrow> endorsement" where
  "new_endorsement pid d now i =
     \<lparr>row_id = i, profileId = Some pid, en_endorserName = ed_endorserName d, en_title = ed_title d,
      en_organization = ed_organization d, en_category = ed_category d, en_statement = ed_statement d,
      en_isPublic = Some (nullish (ed_isPublic d) True), en_endorsedAt = now\<rparr>"

definition addEndorsement :: "int \<Rightarrow> endorsementData \<Rightarrow> (world, endorsement option) proc" where
  "addEndorsement pid d =
     withDb None
       (bindE (getE clock) (\<lambda>now.
        bindE (insertRow endorsementsD None (new_endorsement pid d now)) (\<lambda>r. returnE (Some r))))"

definition endorsements_list :: "sessionUser option \<Rightarrow> jsValue \<Rightarrow> (world, endorsement list) proc" where
  "endorsements_list u raw = profileScopedProcedure Viewer u raw (\<lambda>_ _ pid. getEndorsements pid)"

definition endorsements_add :: "sessionUser option \<Rightarrow> jsValue \<Rightarrow> endorsementData \<Rightarrow> (world, endorsement option) proc" where
  "endorsements_add u raw d = profileScopedProcedure Manager u raw (\<lambda>_ _ pid. addEndorsement pid d)"

section \<open>Media monitoring\<close>

record mediaData =
  me_source :: string
  me_headline :: string
  me_sentiment :: "string option"
  me_sourceType :: "string option"
  me_reach :: "int option"
  me_zone :: "string option"
  me_url :: "string option"
  me_notes :: "string option"

definition getMediaItems :: "int \<Rightarrow> (world, mediaItem list) proc" where
  "getMediaItems pid =
     withDb [] (bindE (selectRows mediaItemsD (\<lambda>r. profileId r = Some pid)) (\<lambda>rows. returnE (order_desc mi_createdAt rows)))"

definition new_media :: "int \<Rightarrow> mediaData \<Rightarrow> time \<Rightarrow> int \<Rightarrow> mediaItem" where
  "new_media pid d now i =
     \<lparr>row_id = i, profileId = Some pid, mi_source = me_source d, mi_headline = me_headline d,
      mi_sentiment = me_sentiment d, mi_sourceType = Some (nullish (me_sourceType d) ''online''),
      mi_reach = Some (nullish (me_reach d) 0), mi_zone = me_zone d, mi_url = me_url d, mi_publishedAt = None,
      mi_notes = me_notes d, mi_complianceStatus = Some ''unreviewed'', mi_complianceNotes = None, mi_createdAt = now\<rparr>"

definition addMediaItem :: "int \<Rightarrow> mediaData \<Rightarrow> (world, mediaItem option) proc" where
  "addMediaItem pid d =
     withDb None
       (bindE (getE clock) (\<lambda>now.
        bindE (insertRow mediaItemsD None (new_media pid d now)) (\<lambda>r. returnE (Some r))))"

definition media_compliance_values :: "string set" where
  "media_compliance_values = {''unreviewed'', ''compliant'', ''breach'', ''cleared''}"

definition updateMediaCompliance :: "int \<Rightarrow> int \<Rightarrow> string \<Rightarrow> string option \<Rightarrow> (world, mediaItem option) proc" where
  "updateMediaCompliance i pid status notes =
     withDb None
       (seqE (guardE (status \<in> media_compliance_values)
          (TRPC BAD_REQUEST ''compliance status must be unreviewed|compliant|breach|cleared''))
       (bindE (requireTenantId (Some pid)) (\<lambda>p.
        bindE (updateRows mediaItemsD (\<lambda>r. row_id r = i \<and> profileId r = Some p)
            (\<lambda>r. r\<lparr>mi_complianceStatus := Some status, mi_complianceNotes := notes\<rparr>)) (\<lambda>rows.
        bindE (assertUpdated rows ''Media item'') (\<lambda>r. returnE (Some r))))))"

definition media_list :: "sessionUser option \<Rightarrow> jsValue \<Rightarrow> (world, mediaItem list) proc" where
  "media_list u raw = profileScopedProcedure Viewer u raw (\<lambda>_ _ pid. getMediaItems pid)"

definition media_add :: "sessionUser option \<Rightarrow> jsValue \<Rightarrow> mediaData \<Rightarrow> (world, mediaItem option) proc" where
  "media_add u raw d = profileScopedProcedure Manager u raw (\<lambda>_ _ pid. addMediaItem pid d)"

definition media_delete :: "sessionUser option \<Rightarrow> int \<Rightarrow> (world, bool option) proc" where
  "media_delete u i =
     requireUser u (\<lambda>_. seqE (assertRowAccess u mediaItemsD i Owner)
       (withDb None (seqE (deleteRows mediaItemsD (\<lambda>r. row_id r = i)) (returnE (Some True)))))"

definition media_updateCompliance ::
  "sessionUser option \<Rightarrow> jsValue \<Rightarrow> int \<Rightarrow> string \<Rightarrow> string option \<Rightarrow> (world, mediaItem option) proc" where
  "media_updateCompliance u raw i status notes =
     profileScopedProcedure Manager u raw (\<lambda>_ _ pid.
       seqE (zodE (status \<in> media_compliance_values \<and> vco 2000 notes))
         (updateMediaCompliance i pid status notes))"

section \<open>Stakeholder contacts\<close>

record stakeholderData =
  sd_id :: "int option"
  sd_name :: string
  sd_title :: "string option"
  sd_organization :: "string option"
  sd_category :: "string option"
  sd_phone :: "string option"
  sd_email :: "string option"
  sd_state :: "string option"
  sd_lga :: "string option"
  sd_influenceLevel :: "priorityLevel option"
  sd_relationship :: "string option"
  sd_lastContact :: "date option"
  sd_nextAction :: "string option"
  sd_notes :: "string option"

definition getStakeholderContacts :: "int \<Rightarrow> (world, stakeholderContact list) proc" where
  "getStakeholderContacts pid =
     withDb [] (bindE (selectRows stakeholderContactsD (\<lambda>r. profileId r = Some pid)) (\<lambda>rows. returnE (order_desc sc_createdAt rows)))"

definition set_stakeholder :: "stakeholderData \<Rightarrow> stakeholderContact \<Rightarrow> stakeholderContact" where
  "set_stakeholder d r = r\<lparr>sc_name := sd_name d, sc_title := upd_opt (sd_title d) (sc_title r),
     sc_organization := upd_opt (sd_organization d) (sc_organization r), sc_category := upd_opt (sd_category d) (sc_category r),
     sc_phone := upd_opt (sd_phone d) (sc_phone r), sc_email := upd_opt (sd_email d) (sc_email r),
     sc_state := upd_opt (sd_state d) (sc_state r), sc_lga := upd_opt (sd_lga d) (sc_lga r),
     sc_influenceLevel := upd_opt (sd_influenceLevel d) (sc_influenceLevel r),
     sc_relationship := upd_opt (sd_relationship d) (sc_relationship r),
     sc_lastContact := upd_opt (sd_lastContact d) (sc_lastContact r),
     sc_nextAction := upd_opt (sd_nextAction d) (sc_nextAction r), sc_notes := upd_opt (sd_notes d) (sc_notes r)\<rparr>"

definition new_stakeholder :: "int \<Rightarrow> stakeholderData \<Rightarrow> time \<Rightarrow> int \<Rightarrow> stakeholderContact" where
  "new_stakeholder pid d now i =
     \<lparr>row_id = i, profileId = Some pid, sc_name = sd_name d, sc_title = sd_title d, sc_organization = sd_organization d,
      sc_category = sd_category d, sc_phone = sd_phone d, sc_email = sd_email d, sc_state = sd_state d, sc_lga = sd_lga d,
      sc_influenceLevel = Some (nullish (sd_influenceLevel d) Medium),
      sc_relationship = Some (nullish (sd_relationship d) ''neutral''), sc_lastContact = sd_lastContact d,
      sc_nextAction = sd_nextAction d, sc_notes = sd_notes d, sc_createdAt = now\<rparr>"

definition upsertStakeholderContact :: "int \<Rightarrow> stakeholderData \<Rightarrow> (world, stakeholderContact option) proc" where
  "upsertStakeholderContact pid d =
     withDb None
       (bindE (getE clock) (\<lambda>now.
        tenantUpsert stakeholderContactsD ''Stakeholder contact'' (sd_id d) (Some pid) (set_stakeholder d) (new_stakeholder pid d now)))"

definition deleteStakeholderContact :: "int \<Rightarrow> (world, bool option) proc" where
  "deleteStakeholderContact i =
     withDb None (seqE (deleteRows stakeholderContactsD (\<lambda>r. row_id r = i)) (returnE (Some True)))"

definition stakeholders_list :: "sessionUser option \<Rightarrow> jsValue \<Rightarrow> (world, stakeholderContact list) proc" where
  "stakeholders_list u raw = profileScopedProcedure Viewer u raw (\<lambda>_ _ pid. getStakeholderContacts pid)"

definition stakeholders_upsert ::
  "sessionUser option \<Rightarrow> jsValue \<Rightarrow> stakeholderData \<Rightarrow> (world, stakeholderContact option) proc" where
  "stakeholders_upsert u raw d = profileScopedProcedure Manager u raw (\<lambda>_ _ pid. upsertStakeholderContact pid d)"

definition stakeholders_delete :: "sessionUser option \<Rightarrow> int \<Rightarrow> (world, bool option) proc" where
  "stakeholders_delete u i =
     requireUser u (\<lambda>_. seqE (assertRowAccess u stakeholderContactsD i Owner) (deleteStakeholderContact i))"

section \<open>Ids and other campaigns\<close>

lemma wf_outreach_procedures [preserves_intros]:
  "preserves wf_ids (volunteers_list u raw)"
  "preserves wf_ids (volunteers_add u raw vd)"
  "preserves wf_ids (volunteers_updateStatus u i status)"
  "preserves wf_ids (volunteerTasks_list u raw)"
  "preserves wf_ids (volunteerTasks_create u raw td)"
  "preserves wf_ids (volunteerTasks_updateStatus u i ts)"
  "preserves wf_ids (volunteerTasks_delete u i)"
  "preserves wf_ids (pressRelease_list u raw)"
  "preserves wf_ids (pressRelease_save u raw pd)"
  "preserves wf_ids (socialMedia_list u raw)"
  "preserves wf_ids (socialMedia_save u raw so)"
  "preserves wf_ids (diaspora_list u raw)"
  "preserves wf_ids (diaspora_add u raw di)"
  "preserves wf_ids (endorsements_list u raw)"
  "preserves wf_ids (endorsements_add u raw ed)"
  "preserves wf_ids (media_list u raw)"
  "preserves wf_ids (media_add u raw me)"
  "preserves wf_ids (media_delete u i)"
  "preserves wf_ids (media_updateCompliance u raw i status notes)"
  "preserves wf_ids (stakeholders_list u raw)"
  "preserves wf_ids (stakeholders_upsert u raw sd)"
  "preserves wf_ids (stakeholders_delete u i)"
  unfolding volunteers_list_def getVolunteers_def volunteers_add_def addVolunteer_def volunteers_updateStatus_def
    updateVolunteerStatus_def volunteerTasks_list_def getVolunteerTasks_def volunteerTasks_create_def
    createVolunteerTask_def volunteerTasks_updateStatus_def updateVolunteerTaskStatus_def volunteerTasks_delete_def
    deleteVolunteerTask_def pressRelease_list_def getPressReleases_def pressRelease_save_def savePressRelease_def
    socialMedia_list_def getSocialPosts_def socialMedia_save_def saveSocialPost_def stringDate_def
    diaspora_list_def getDiasporaContacts_def diaspora_add_def addDiasporaContact_def endorsements_list_def
    getEndorsements_def endorsements_add_def addEndorsement_def media_list_def getMediaItems_def media_add_def
    addMediaItem_def media_delete_def media_updateCompliance_def updateMediaCompliance_def stakeholders_list_def
    getStakeholderContacts_def stakeholders_upsert_def upsertStakeholderContact_def stakeholders_delete_def
    deleteStakeholderContact_def
  by (intro preserves_intros; simp add: set_press_def set_social_def set_stakeholder_def)+

text \<open>The statements addressed by a row id that the caller was authorized on.\<close>

lemma owned_outreach:
  assumes "pid \<noteq> q"
  shows "row_owned volunteersD i pid s \<Longrightarrow> outsider u q s (snd (updateVolunteerStatus i status s))"
    and "row_owned volunteerTasksD i pid s \<Longrightarrow> outsider u q s (snd (updateVolunteerTaskStatus i ts s))"
    and "row_owned volunteerTasksD i pid s \<Longrightarrow> outsider u q s (snd (deleteVolunteerTask i s))"
    and "row_owned mediaItemsD i pid s \<Longrightarrow>
      outsider u q s (snd (withDb None (seqE (deleteRows mediaItemsD (\<lambda>r. row_id r = i)) (returnE (Some True))) s))"
    and "row_owned stakeholderContactsD i pid s \<Longrightarrow> outsider u q s (snd (deleteStakeholderContact i s))"
proof -
  note plain = withDb_run enumArg_def outsider_step.refl bindE_run [where m = "getE g" for g] getE_run throwE_run seqE_def
  show "outsider u q s (snd (updateVolunteerStatus i status s))" if "row_owned volunteersD i pid s"
    unfolding updateVolunteerStatus_def
    by (auto simp: plain intro!: outsider_step.bindE_at volunteersT.owned_update [OF assms that] outsider_intros
        split: option.splits)
  show "outsider u q s (snd (updateVolunteerTaskStatus i ts s))" if "row_owned volunteerTasksD i pid s"
    unfolding updateVolunteerTaskStatus_def
    by (auto simp: plain intro!: outsider_step.bindE_at volunteerTasksT.owned_update [OF assms that] outsider_intros)
  show "outsider u q s (snd (deleteVolunteerTask i s))" if "row_owned volunteerTasksD i pid s"
    unfolding deleteVolunteerTask_def
    by (auto simp: plain intro!: outsider_step.bindE_at volunteerTasksT.owned_delete [OF assms that] outsider_intros)
  show "outsider u q s (snd (withDb None (seqE (deleteRows mediaItemsD (\<lambda>r. row_id r = i)) (returnE (Some True))) s))"
    if "row_owned mediaItemsD i pid s"
    by (auto simp: plain intro!: outsider_step.bindE_at mediaItemsT.owned_delete [OF assms that] outsider_intros)
  show "outsider u q s (snd (deleteStakeholderContact i s))" if "row_owned stakeholderContactsD i pid s"
    unfolding deleteStakeholderContact_def
    by (auto simp: plain intro!: outsider_step.bindE_at stakeholderContactsT.owned_delete [OF assms that] outsider_intros)
qed

lemma outsider_outreach_owned [outsider_intros]:
  "follows (outsider u q) (volunteers_updateStatus u i status)"
  "follows (outsider u q) (volunteerTasks_updateStatus u i ts)"
  "follows (outsider u q) (volunteerTasks_delete u i)"
  "follows (outsider u q) (media_delete u i)"
  "follows (outsider u q) (stakeholders_delete u i)"
  unfolding volunteers_updateStatus_def volunteerTasks_updateStatus_def volunteerTasks_delete_def media_delete_def
    stakeholders_delete_def
  by (intro outsider_requireUser outsider_row_guarded_seq owned_outreach; assumption)+

lemma outsider_outreach_procedures [outsider_intros]:
  "follows (outsider u q) (volunteers_list u raw)"
  "follows (outsider u q) (volunteers_add u raw vd)"
  "follows (outsider u q) (volunteerTasks_list u raw)"
  "follows (outsider u q) (volunteerTasks_create u raw td)"
  "follows (outsider u q) (pressRelease_list u raw)"
  "follows (outsider u q) (pressRelease_save u raw pd)"
  "follows (outsider u q) (socialMedia_list u raw)"
  "follows (outsider u q) (socialMedia_save u raw so)"
  "follows (outsider u q) (diaspora_list u raw)"
  "follows (outsider u q) (diaspora_add u raw di)"
  "follows (outsider u q) (endorsements_list u raw)"
  "follows (outsider u q) (endorsements_add u raw ed)"
  "follows (outsider u q) (media_list u raw)"
  "follows (outsider u q) (media_add u raw me)"
  "follows (outsider u q) (media_updateCompliance u raw i status notes)"
  "follows (outsider u q) (stakeholders_list u raw)"
  "follows (outsider u q) (stakeholders_upsert u raw sd)"
  unfolding volunteers_list_def getVolunteers_def volunteers_add_def addVolunteer_def
    volunteerTasks_list_def getVolunteerTasks_def volunteerTasks_create_def
    createVolunteerTask_def pressRelease_list_def getPressReleases_def pressRelease_save_def savePressRelease_def
    socialMedia_list_def getSocialPosts_def socialMedia_save_def saveSocialPost_def stringDate_def
    diaspora_list_def getDiasporaContacts_def diaspora_add_def addDiasporaContact_def endorsements_list_def
    getEndorsements_def endorsements_add_def addEndorsement_def media_list_def getMediaItems_def media_add_def
    addMediaItem_def media_updateCompliance_def updateMediaCompliance_def bind_requireTenantId stakeholders_list_def
    getStakeholderContacts_def stakeholders_upsert_def upsertStakeholderContact_def
  by (intro outsider_intros; simp add: new_volunteer_def new_task_def set_press_def new_press_def set_social_def new_social_def
      new_diaspora_def new_endorsement_def new_media_def set_stakeholder_def new_stakeholder_def)+

section \<open>Tasks and erasure\<close>

text \<open>A task may name a volunteer of any campaign. Once a manager of one campaign has created a task for a
  volunteer of another, the erasure request of that volunteer can no longer be fulfilled by the campaign the
  volunteer belongs to: it fails on the foreign key and changes nothing.\<close>

theorem foreign_task_blocks_erasure:
  assumes "volunteerTasks_create u raw d s = (Inr (Some t), s')" and "conn s"
    and "td_volunteerId d = Some v" and "v \<noteq> 0"
    and "list_ex (\<lambda>r. row_id r = v \<and> profileId r = Some pid) (trows (volunteersT s'))"
    and "open_request i pid s' = Some req" and "dr_requestType req = ''erasure''"
    and "dr_subjectTable req = Some SubjVolunteers" and "dr_subjectId req = Some v"
  shows "resolveDsar i pid Fulfill reason s' = (Inl (PgError ForeignKeyViolation), s')"
proof -
  obtain p where ins: "insertRow volunteerTasksD None (new_task p d (clock s)) s = (Inr t, s')"
    using assms(1,2)
    by (auto simp: volunteerTasks_create_def createVolunteerTask_def withDb_run bindE_run [where m = "getE g" for g]
        getE_run returnE_run elim!: scoped_InrE bindE_InrE)
  have conn: "conn s'" using ins assms(2) by (auto simp: insertRow_def Let_def split: if_splits)
  note new = volunteerTasksL.insert_Inr [OF ins]
  then have "vt_volunteerId t = vt_volunteerId ((new_task p d (clock s) (row_id t))\<lparr>row_id := row_id t\<rparr>)" by metis
  then have "vt_volunteerId t = Some v" using assms(3,4) by (simp add: new_task_def truthy_id_def)
  then have ref: "list_ex (\<lambda>x. vt_volunteerId x = Some v) (trows (volunteerTasksT s'))" using new by simp
  have "\<not> list_all (tfree volunteersD s') (filter (\<lambda>r. row_id r = v \<and> profileId r = Some pid) (trows (volunteersT s')))"
  proof
    assume free: "list_all (tfree volunteersD s') (filter (\<lambda>r. row_id r = v \<and> profileId r = Some pid) (trows (volunteersT s')))"
    obtain r where "r \<in> set (trows (volunteersT s'))" "row_id r = v" "profileId r = Some pid"
      using assms(5) unfolding list_ex_iff by blast
    then have "tfree volunteersD s' r" using free unfolding list_all_iff by simp
    with ref \<open>row_id r = v\<close> show False by (simp add: volunteersD_def)
  qed
  then have "deleteRows volunteersD (\<lambda>r. row_id r = v \<and> profileId r = Some pid) s' = (Inl (PgError ForeignKeyViolation), s')"
    by (simp add: deleteRows_def Let_def)
  then show ?thesis
    using assms(4,7-9) resolveDsar_open [OF conn assms(6)]
    by (simp add: resolveRequest_def fulfilErasure_def eraseSubject_def truthy_id_def voidE_def seqE_def bindE_run)
qed

section \<open>Concrete runs\<close>

definition demo_helper :: volunteer where
  "demo_helper = \<lparr>row_id = 4, profileId = Some 1, vo_fullName = ''Musa'', vo_phone = None, vo_email = None, vo_lga = None,
     vo_ward = None, vo_role = None, vo_skills = None, vo_status = Some Active, vo_joinedAt = 0\<rparr>"

definition demo_outreach :: world where
  "demo_outreach = demo_world
     \<lparr>volunteersT := \<lparr>trows = [demo_helper], nextId = 5\<rparr>,
      dataSubjectRequestsT := \<lparr>trows = [(demo_request ''Musa'')\<lparr>dr_subjectTable := Some SubjVolunteers\<rparr>], nextId = 10\<rparr>\<rparr>"

definition demo_task :: taskData where
  "demo_task = \<lparr>td_title = ''canvass'', td_description = None, td_taskType = None, td_status = None,
     td_volunteerId = Some 4, td_dueDate = None\<rparr>"

lemma demo_task_created:
  "volunteerTasks_create (Some bola) (JNumber 2) demo_task demo_outreach =
     (Inr (Some (new_task 2 demo_task 0 1)), demo_outreach\<lparr>volunteerTasksT := \<lparr>trows = [new_task 2 demo_task 0 1], nextId = 2\<rparr>\<rparr>)"
  by (simp add: volunteerTasks_create_def profileScoped_assert integer_of_def assertProfileRole_def createVolunteerTask_def
      insertRow_def Let_def new_task_def demo_task_def table_simps volunteerTasks_chk_def fko_def fk_def vc_def vco_def
      safeUser_def truthy_id_def truthy_str_def demo_outreach_def demo_helper_def demo_world_def empty_world_def no_rows_def
      demo_user_def demo_profile_def run_simps)

theorem foreign_task_blocks_erasure_witness:
  "\<exists>t s'. volunteerTasks_create (Some bola) (JNumber 2) demo_task demo_outreach = (Inr (Some t), s') \<and>
     resolveDsar 9 1 Fulfill None s' = (Inl (PgError ForeignKeyViolation), s')"
  using foreign_task_blocks_erasure [OF demo_task_created, of 4 1 9 "(demo_request ''Musa'')\<lparr>dr_subjectTable := Some SubjVolunteers\<rparr>" None]
    demo_task_created
  by (simp add: demo_outreach_def demo_task_def demo_helper_def open_request_def addressed_def demo_request_def
      demo_world_def empty_world_def)

end
