(* ===== verification/Planning.thy ===== *)
theory Planning
  imports Outbound
begin

text \<open>
  The campaign's planning desk: timeline with the scheduled deadline check of \<^verbatim>\<open>server/_core/index.ts\<close>,
  compliance checklist, opposition research, election results, manifesto, debate preparation, simulation
  runs, tribunal petitions and the dashboard, each the router of \<^verbatim>\<open>server/routers.ts\<close> with its functions of
  \<^verbatim>\<open>server/db.ts\<close>.
\<close>

section \<open>Timeline\<close>

record timelineData =
  tl_id :: "int option"
  tl_title :: string
  tl_description :: "string option"
  tl_eventDate :: date
  tl_category :: "string option"
  tl_status :: "itemStatus option"
  tl_location :: "string option"
  tl_priority :: "priorityLevel option"

definition getTimelineEvents :: "int \<Rightarrow> (world, timelineEvent list) proc" where
  "getTimelineEvents pid =
     withDb [] (bindE (selectRows timelineEventsD (\<lambda>r. profileId r = Some pid)) (\<lambda>rows. returnE (order_by te_eventDate rows)))"

definition set_event :: "timelineData \<Rightarrow> timelineEvent \<Rightarrow> timelineEvent" where
  "set_event d r = r\<lparr>te_title := tl_title d, te_description := upd_opt (tl_description d) (te_description r),
     te_eventDate := tl_eventDate d, te_category := upd_opt (tl_category d) (te_category r),
     te_status := upd_opt (tl_status d) (te_status r), te_location := upd_opt (tl_location d) (te_location r),
     te_priority := upd_opt (tl_priority d) (te_priority r)\<rparr>"

definition new_event :: "int \<Rightarrow> timelineData \<Rightarrow> time \<Rightarrow> int \<Rightarrow> timelineEvent" where
  "new_event pid d now i =
     \<lparr>row_id = i, profileId = Some pid, te_title = tl_title d, te_description = tl_description d,
      te_eventDate = tl_eventDate d, te_category = tl_category d, te_status = Some (nullish (tl_status d) Pending),
      te_location = tl_location d, te_priority = Some (nullish (tl_priority d) Medium), te_createdAt = now,
      te_lastAlertedAt = None\<rparr>"

definition upsertTimelineEvent :: "int \<Rightarrow> timelineData \<Rightarrow> (world, timelineEvent option) proc" where
  "upsertTimelineEvent pid d =
     withDb None
       (bindE (getE clock) (\<lambda>now.
        tenantUpsert timelineEventsD ''Timeline event'' (tl_id d) (Some pid) (set_event d) (new_event pid d now)))"

definition deleteTimelineEvent :: "int \<Rightarrow> (world, unit) proc" where
  "deleteTimelineEvent i = withDb () (voidE (deleteRows timelineEventsD (\<lambda>r. row_id r = i)))"

definition timeline_list :: "sessionUser option \<Rightarrow> jsValue \<Rightarrow> (world, timelineEvent list) proc" where
  "timeline_list u raw = profileScopedProcedure Viewer u raw (\<lambda>_ _ pid. getTimelineEvents pid)"

definition timeline_upsert :: "sessionUser option \<Rightarrow> jsValue \<Rightarrow> timelineData \<Rightarrow> (world, timelineEvent option) proc" where
  "timeline_upsert u raw d = profileScopedProcedure Manager u raw (\<lambda>_ _ pid. upsertTimelineEvent pid d)"

definition timeline_delete :: "sessionUser option \<Rightarrow> int \<Rightarrow> (world, unit) proc" where
  "timeline_delete u i = requireUser u (\<lambda>_. seqE (assertRowAccess u timelineEventsD i Owner) (deleteTimelineEvent i))"

section \<open>Deadline alerts\<close>

definition hour_ms :: int where "hour_ms = 3600000"

definition getAllProfiles :: "(world, candidateProfile list) proc" where
  "getAllProfiles = withDb [] (bindE (selectRows candidateProfilesD (\<lambda>_. True)) (\<lambda>rows. returnE (order_by row_id rows)))"

definition due_within :: "time \<Rightarrow> int \<Rightarrow> timelineEvent \<Rightarrow> bool" where
  "due_within now hours r \<longleftrightarrow> te_priority r = Some Critical \<and>
     date_of now \<le> te_eventDate r \<and> te_eventDate r \<le> date_of (now + hours * hour_ms)"

definition getUpcomingDeadlines :: "int \<Rightarrow> int \<Rightarrow> (world, timelineEvent list) proc" where
  "getUpcomingDeadlines pid hours =
     withDb []
       (bindE (getE clock) (\<lambda>now.
        bindE (selectRows timelineEventsD (\<lambda>r. profileId r = Some pid \<and> due_within now hours r)) (\<lambda>rows.
        returnE (order_by te_eventDate rows))))"

text \<open>\<open>hoursSinceAlert < 24\<close>.\<close>

definition recently_alerted :: "time \<Rightarrow> timelineEvent \<Rightarrow> bool" where
  "recently_alerted now e \<longleftrightarrow> (case te_lastAlertedAt e of None \<Rightarrow> False | Some t \<Rightarrow> now - t < 24 * hour_ms)"

definition hours_until :: "time \<Rightarrow> timelineEvent \<Rightarrow> int" where
  "hours_until now e = math_round (of_int (te_eventDate e * day_ms - now) / of_int hour_ms)"

definition show_priority :: "priorityLevel option \<Rightarrow> string" where
  "show_priority p =
     (case p of None \<Rightarrow> ''normal'' | Some Low \<Rightarrow> ''low'' | Some Medium \<Rightarrow> ''medium'' | Some High \<Rightarrow> ''high''
      | Some Critical \<Rightarrow> ''critical'')"

text \<open>The message without its emoji, its line breaks as full stops and the due date as a day number, since the
  model has no locale.\<close>

definition deadline_title :: "timelineEvent \<Rightarrow> string" where
  "deadline_title e = ''Deadline Alert: '' @ te_title e"

definition deadline_content :: "time \<Rightarrow> candidateProfile \<Rightarrow> timelineEvent \<Rightarrow> string" where
  "deadline_content now p e =
     ''Campaign deadline approaching in '' @ show_int (hours_until now e) @ '' hour'' @
     (if hours_until now e \<noteq> 1 then ''s'' else []) @ ''. Candidate: '' @ cp_candidateName p @ '' ('' @
     nullish (cp_partyName p) ''-'' @ ''). Event: '' @ te_title e @ ''. Due: '' @ show_int (te_eventDate e) @
     ''. Priority: '' @ show_priority (te_priority e) @
     ''. Log in to the INEC Campaign Intelligence Platform to review.''"

definition alertEvent :: "candidateProfile \<Rightarrow> timelineEvent \<Rightarrow> (world, nat) proc" where
  "alertEvent p e =
     bindE (getE clock) (\<lambda>now.
     if recently_alerted now e then returnE 0
     else bindE (notifyOwner (deadline_title e) (deadline_content now p e)) (\<lambda>sent.
          if sent
          then seqE (updateRows timelineEventsD (\<lambda>r. row_id r = row_id e) (\<lambda>r. r\<lparr>te_lastAlertedAt := Some now\<rparr>)) (returnE 1)
          else returnE 0))"

primrec alertEvents :: "candidateProfile \<Rightarrow> timelineEvent list \<Rightarrow> (world, nat) proc" where
  "alertEvents p [] = returnE 0"
| "alertEvents p (e # es) = bindE (alertEvent p e) (\<lambda>n. bindE (alertEvents p es) (\<lambda>m. returnE (n + m)))"

primrec alertProfiles :: "candidateProfile list \<Rightarrow> (world, nat) proc" where
  "alertProfiles [] = returnE 0"
| "alertProfiles (p # ps) =
     bindE (getUpcomingDeadlines (row_id p) 48) (\<lambda>deadlines.
     bindE (alertEvents p deadlines) (\<lambda>n. bindE (alertProfiles ps) (\<lambda>m. returnE (n + m))))"

text \<open>\<open>None\<close> is the refusal of a caller that is not the scheduler.\<close>

definition scheduled_deadlineCheck :: "bool \<Rightarrow> (world, nat option) proc" where
  "scheduled_deadlineCheck isCron =
     (if \<not> isCron then returnE None
      else withDb (Some 0)
        (bindE getAllProfiles (\<lambda>profiles. bindE (alertProfiles profiles) (\<lambda>n. returnE (Some n)))))"

section \<open>Compliance checklist\<close>

record complianceData =
  cd_id :: "int option"
  cd_title :: string
  cd_category :: "string option"
  cd_description :: "string option"
  cd_status :: "complianceStatus option"
  cd_deadline :: "date option"
  cd_notes :: "string option"

definition getComplianceItems :: "int \<Rightarrow> (world, complianceItem list) proc" where
  "getComplianceItems pid =
     withDb [] (bindE (selectRows complianceItemsD (\<lambda>r. profileId r = Some pid))
       (\<lambda>rows. returnE (order_by (\<lambda>r. text_key (ci_category r)) rows)))"

definition set_compliance :: "complianceData \<Rightarrow> time \<Rightarrow> complianceItem \<Rightarrow> complianceItem" where
  "set_compliance d now r = r\<lparr>ci_title := cd_title d, ci_category := upd_opt (cd_category d) (ci_category r),
     ci_description := upd_opt (cd_description d) (ci_description r), ci_status := upd_opt (cd_status d) (ci_status r),
     ci_deadline := upd_opt (cd_deadline d) (ci_deadline r), ci_notes := upd_opt (cd_notes d) (ci_notes r),
     ci_updatedAt := now\<rparr>"

definition new_compliance :: "int \<Rightarrow> complianceData \<Rightarrow> time \<Rightarrow> int \<Rightarrow> complianceItem" where
  "new_compliance pid d now i =
     \<lparr>row_id = i, profileId = Some pid, ci_title = cd_title d, ci_category = cd_category d,
      ci_description = cd_description d, ci_status = Some (nullish (cd_status d) CompliancePending),
      ci_deadline = cd_deadline d, ci_notes = cd_notes d, ci_updatedAt = now\<rparr>"

definition upsertComplianceItem :: "int \<Rightarrow> complianceData \<Rightarrow> (world, complianceItem option) proc" where
  "upsertComplianceItem pid d =
     withDb None
       (bindE (getE clock) (\<lambda>now.
        tenantUpsert complianceItemsD ''Compliance item'' (cd_id d) (Some pid) (set_compliance d now) (new_compliance pid d now)))"

text \<open>The statutory checklist, as title, category and description.\<close>

definition COMPLIANCE_PRESETS :: "(string \<times> string \<times> string) list" where
  "COMPLIANCE_PRESETS =
     [(''Party Nomination Form (INEC CF001)'', ''Legal'',
       ''File the candidate nomination form with the party secretariat and INEC within the statutory nomination window.''),
      (''Candidate Affidavit of Personal Particulars'', ''Legal'',
       ''Sworn affidavit of personal particulars submitted to INEC alongside the nomination form.''),
      (''Campaign Finance Report - Periodic (EA 2022 s.87)'', ''Finance'',
       ''Periodic campaign finance report to INEC as required by the Electoral Act 2022.''),
      (''Final Campaign Finance Report (post-election)'', ''Finance'',
       ''Final campaign finance report submitted to INEC within the statutory post-election window.''),
      (''Campaign Spending Cap Compliance (EA 2022 s.88)'', ''Finance'',
       ''Verify total campaign expenditure stays within the statutory cap for the contested office (see Budget - Statutory Caps and Disclosure).''),
      (''Polling and Collation Agent Accreditation List'', ''Electoral'',
       ''Submit the list of polling and collation agents to INEC before the accreditation deadline.''),
      (''Broadcast Advert Clearance (NBC)'', ''Media'',
       ''Every broadcast advert must be cleared before airing; track per-item clearance on the Media Monitoring page.'')]"

definition preset_item :: "int \<Rightarrow> time \<Rightarrow> string \<times> string \<times> string \<Rightarrow> int \<Rightarrow> complianceItem" where
  "preset_item pid now p i =
     (case p of (title, category, description) \<Rightarrow>
        \<lparr>row_id = i, profileId = Some pid, ci_title = title, ci_category = Some category,
         ci_description = Some description, ci_status = Some CompliancePending, ci_deadline = None, ci_notes = None,
         ci_updatedAt = now\<rparr>)"

definition loadCompliancePresets :: "int \<Rightarrow> (world, nat \<times> nat) proc" where
  "loadCompliancePresets pid =
     withDb (0, 0)
       (bindE (getE clock) (\<lambda>now.
        bindE (selectRows complianceItemsD (\<lambda>r. profileId r = Some pid)) (\<lambda>existing.
        let missing = filter (\<lambda>p. fst p \<notin> ci_title ` set existing) COMPLIANCE_PRESETS
        in seqE (if missing \<noteq> [] then voidE (insertRows complianceItemsD (map (preset_item pid now) missing)) else returnE ())
             (returnE (length missing, length COMPLIANCE_PRESETS - length missing)))))"

definition compliance_list :: "sessionUser option \<Rightarrow> jsValue \<Rightarrow> (world, complianceItem list) proc" where
  "compliance_list u raw = profileScopedProcedure Viewer u raw (\<lambda>_ _ pid. getComplianceItems pid)"

definition compliance_upsert :: "sessionUser option \<Rightarrow> jsValue \<Rightarrow> complianceData \<Rightarrow> (world, complianceItem option) proc" where
  "compliance_upsert u raw d = profileScopedProcedure Manager u raw (\<lambda>_ _ pid. upsertComplianceItem pid d)"

definition compliance_presets :: "sessionUser option \<Rightarrow> jsValue \<Rightarrow> (world, (string \<times> string \<times> string) list) proc" where
  "compliance_presets u raw = profileScopedProcedure Viewer u raw (\<lambda>_ _ _. returnE COMPLIANCE_PRESETS)"

definition compliance_loadPresets :: "sessionUser option \<Rightarrow> jsValue \<Rightarrow> (world, nat \<times> nat) proc" where
  "compliance_loadPresets u raw = profileScopedProcedure Manager u raw (\<lambda>_ _ pid. loadCompliancePresets pid)"

section \<open>Opposition research\<close>

record oppositionData =
  od_id :: "int option"
  od_opponentName :: string
  od_party :: "string option"
  od_threatLevel :: "priorityLevel option"
  od_strength :: "string option"
  od_weakness :: "string option"
  od_keyIssues :: "string list option"
  od_notes :: "string option"

definition getOppositionResearch :: "int \<Rightarrow> (world, oppositionEntry list) proc" where
  "getOppositionResearch pid =
     withDb [] (bindE (selectRows oppositionResearchD (\<lambda>r. profileId r = Some pid)) (\<lambda>rows. returnE (order_by op_opponentName rows)))"

definition set_opposition :: "oppositionData \<Rightarrow> time \<Rightarrow> oppositionEntry \<Rightarrow> oppositionEntry" where
  "set_opposition d now r = r\<lparr>op_opponentName := od_opponentName d, op_party := upd_opt (od_party d) (op_party r),
     op_strength := upd_opt (od_strength d) (op_strength r), op_weakness := upd_opt (od_weakness d) (op_weakness r),
     op_keyIssues := upd_opt (od_keyIssues d) (op_keyIssues r), op_threatLevel := upd_opt (od_threatLevel d) (op_threatLevel r),
     op_notes := upd_opt (od_notes d) (op_notes r), op_updatedAt := now\<rparr>"

definition new_opposition :: "int \<Rightarrow> oppositionData \<Rightarrow> time \<Rightarrow> int \<Rightarrow> oppositionEntry" where
  "new_opposition pid d now i =
     \<lparr>row_id = i, profileId = Some pid, op_opponentName = od_opponentName d, op_party = od_party d,
      op_strength = od_strength d, op_weakness = od_weakness d, op_keyIssues = od_keyIssues d,
      op_threatLevel = Some (nullish (od_threatLevel d) Medium), op_notes = od_notes d, op_updatedAt = now\<rparr>"

definition upsertOppositionEntry :: "int \<Rightarrow> oppositionData \<Rightarrow> (world, oppositionEntry option) proc" where
  "upsertOppositionEntry pid d =
     withDb None
       (bindE (getE clock) (\<lambda>now.
        tenantUpsert oppositionResearchD ''Opposition entry'' (od_id d) (Some pid) (set_opposition d now) (new_opposition pid d now)))"

definition opposition_list :: "sessionUser option \<Rightarrow> jsValue \<Rightarrow> (world, oppositionEntry list) proc" where
  "opposition_list u raw = profileScopedProcedure Viewer u raw (\<lambda>_ _ pid. getOppositionResearch pid)"

definition opposition_upsert :: "sessionUser option \<Rightarrow> jsValue \<Rightarrow> oppositionData \<Rightarrow> (world, oppositionEntry option) proc" where
  "opposition_upsert u raw d = profileScopedProcedure Manager u raw (\<lambda>_ _ pid. upsertOppositionEntry pid d)"

section \<open>Election results\<close>

text \<open>The column \<open>lga\<close> is NOT NULL while the input leaves it optional; \<open>reportedAt\<close> arrives as a string
  (see \<open>refusesStringDates\<close>).\<close>

record resultData =
  rd_candidateName :: string
  rd_party :: string
  rd_lga :: "string option"
  rd_ward :: "string option"
  rd_votes :: int
  rd_reportedAt :: "time option"

definition getElectionResults :: "int \<Rightarrow> (world, electionResult list) proc" where
  "getElectionResults pid =
     withDb [] (bindE (selectRows electionResultsD (\<lambda>r. profileId r = Some pid))
       (\<lambda>rows. returnE (order_by (\<lambda>r. (er_lga r, er_candidateName r)) rows)))"

definition new_result :: "int \<Rightarrow> resultData \<Rightarrow> string \<Rightarrow> time \<Rightarrow> int \<Rightarrow> electionResult" where
  "new_result pid d lga now i =
     \<lparr>row_id = i, profileId = Some pid, er_lga = lga, er_ward = rd_ward d, er_candidateName = rd_candidateName d,
      er_party = Some (rd_party d), er_votes = Some (rd_votes d), er_reportedAt = nullish (rd_reportedAt d) now,
      er_isProjected = Some False\<rparr>"

definition upsertElectionResult :: "int \<Rightarrow> resultData \<Rightarrow> (world, electionResult option) proc" where
  "upsertElectionResult pid d =
     withDb None
       (bindE (getE clock) (\<lambda>now.
        bindE (getE refusesStringDates) (\<lambda>refuses.
        seqE (guardE (\<not> (refuses \<and> rd_reportedAt d \<noteq> None)) (PlainError ''value.toISOString is not a function''))
        (case rd_lga d of
           None \<Rightarrow> throwE (PgError CheckViolation)
         | Some lga \<Rightarrow> bindE (insertRow electionResultsD None (new_result pid d lga now)) (\<lambda>r. returnE (Some r))))))"

definition results_list :: "sessionUser option \<Rightarrow> jsValue \<Rightarrow> (world, electionResult list) proc" where
  "results_list u raw = profileScopedProcedure Viewer u raw (\<lambda>_ _ pid. getElectionResults pid)"

definition results_add :: "sessionUser option \<Rightarrow> jsValue \<Rightarrow> resultData \<Rightarrow> (world, electionResult option) proc" where
  "results_add u raw d = profileScopedProcedure Manager u raw (\<lambda>_ _ pid. upsertElectionResult pid d)"

section \<open>Manifesto\<close>

record manifestoData =
  md_id :: "int option"
  md_sectionTitle :: string
  md_summary :: "string option"
  md_priority :: "priorityLevel option"
  md_sortOrder :: "int option"

definition getManifestoSections :: "int \<Rightarrow> (world, manifestoSection list) proc" where
  "getManifestoSections pid =
     withDb [] (bindE (selectRows manifestoSectionsD (\<lambda>r. profileId r = Some pid))
       (\<lambda>rows. returnE (order_by (\<lambda>r. nulls_last (ms_sortOrder r)) rows)))"

definition set_section :: "manifestoData \<Rightarrow> time \<Rightarrow> manifestoSection \<Rightarrow> manifestoSection" where
  "set_section d now r = r\<lparr>ms_sectionTitle := md_sectionTitle d, ms_summary := upd_opt (md_summary d) (ms_summary r),
     ms_priority := upd_opt (md_priority d) (ms_priority r), ms_sortOrder := upd_opt (md_sortOrder d) (ms_sortOrder r),
     ms_updatedAt := now\<rparr>"

definition new_section :: "int \<Rightarrow> manifestoData \<Rightarrow> time \<Rightarrow> int \<Rightarrow> manifestoSection" where
  "new_section pid d now i =
     \<lparr>row_id = i, profileId = Some pid, ms_sectionTitle = md_sectionTitle d, ms_summary = md_summary d,
      ms_commitments = None, ms_timeline = None, ms_budget = None, ms_priority = Some (nullish (md_priority d) High),
      ms_sortOrder = Some (nullish (md_sortOrder d) 0), ms_updatedAt = now\<rparr>"

definition upsertManifestoSection :: "int \<Rightarrow> manifestoData \<Rightarrow> (world, manifestoSection option) proc" where
  "upsertManifestoSection pid d =
     withDb None
       (bindE (getE clock) (\<lambda>now.
        tenantUpsert manifestoSectionsD ''Manifesto section'' (md_id d) (Some pid) (set_section d now) (new_section pid d now)))"

definition deleteManifestoSection :: "int \<Rightarrow> (world, unit) proc" where
  "deleteManifestoSection i = withDb () (voidE (deleteRows manifestoSectionsD (\<lambda>r. row_id r = i)))"

definition manifesto_list :: "sessionUser option \<Rightarrow> jsValue \<Rightarrow> (world, manifestoSection list) proc" where
  "manifesto_list u raw = profileScopedProcedure Viewer u raw (\<lambda>_ _ pid. getManifestoSections pid)"

definition manifesto_upsert :: "sessionUser option \<Rightarrow> jsValue \<Rightarrow> manifestoData \<Rightarrow> (world, manifestoSection option) proc" where
  "manifesto_upsert u raw d = profileScopedProcedure Manager u raw (\<lambda>_ _ pid. upsertManifestoSection pid d)"

definition manifesto_delete :: "sessionUser option \<Rightarrow> int \<Rightarrow> (world, unit) proc" where
  "manifesto_delete u i = requireUser u (\<lambda>_. seqE (assertRowAccess u manifestoSectionsD i Owner) (deleteManifestoSection i))"

section \<open>Debate preparation\<close>

record debateData =
  dd_id :: "int option"
  dd_topic :: string
  dd_keyMessage :: "string option"
  dd_counterArguments :: "string list option"
  dd_statistics :: "string list option"
  dd_practiceScore :: "int option"
  dd_notes :: "string option"

definition getDebatePrepNotes :: "int \<Rightarrow> (world, debatePrepNote list) proc" where
  "getDebatePrepNotes pid =
     withDb [] (bindE (selectRows debatePrepNotesD (\<lambda>r. profileId r = Some pid)) (\<lambda>rows. returnE (order_by dn_topic rows)))"

definition set_debate :: "debateData \<Rightarrow> time \<Rightarrow> debatePrepNote \<Rightarrow> debatePrepNote" where
  "set_debate d now r = r\<lparr>dn_topic := dd_topic d, dn_keyMessage := upd_opt (dd_keyMessage d) (dn_keyMessage r),
     dn_counterArguments := upd_opt (dd_counterArguments d) (dn_counterArguments r),
     dn_statistics := upd_opt (dd_statistics d) (dn_statistics r),
     dn_practiceScore := upd_opt (dd_practiceScore d) (dn_practiceScore r),
     dn_notes := upd_opt (dd_notes d) (dn_notes r), dn_updatedAt := now\<rparr>"

definition new_debate :: "int \<Rightarrow> debateData \<Rightarrow> time \<Rightarrow> int \<Rightarrow> debatePrepNote" where
  "new_debate pid d now i =
     \<lparr>row_id = i, profileId = Some pid, dn_topic = dd_topic d, dn_keyMessage = dd_keyMessage d,
      dn_counterArguments = dd_counterArguments d, dn_statistics = dd_statistics d,
      dn_practiceScore = dd_practiceScore d, dn_notes = dd_notes d, dn_updatedAt = now\<rparr>"

definition upsertDebatePrepNote :: "int \<Rightarrow> debateData \<Rightarrow> (world, debatePrepNote option) proc" where
  "upsertDebatePrepNote pid d =
     withDb None
       (bindE (getE clock) (\<lambda>now.
        tenantUpsert debatePrepNotesD ''Debate prep note'' (dd_id d) (Some pid) (set_debate d now) (new_debate pid d now)))"

definition debate_list :: "sessionUser option \<Rightarrow> jsValue \<Rightarrow> (world, debatePrepNote list) proc" where
  "debate_list u raw = profileScopedProcedure Viewer u raw (\<lambda>_ _ pid. getDebatePrepNotes pid)"

definition debate_upsert :: "sessionUser option \<Rightarrow> jsValue \<Rightarrow> debateData \<Rightarrow> (world, debatePrepNote option) proc" where
  "debate_upsert u raw d = profileScopedProcedure Manager u raw (\<lambda>_ _ pid. upsertDebatePrepNote pid d)"

section \<open>Debate practice scores\<close>

record scoreData =
  sd_topic :: string
  sd_score :: int
  sd_maxScore :: "int option"
  sd_scoreNotes :: "string option"

definition getDebatePracticeScores :: "int \<Rightarrow> (world, debatePracticeScore list) proc" where
  "getDebatePracticeScores pid =
     withDb [] (bindE (selectRows debatePracticeScoresD (\<lambda>r. profileId r = Some pid))
       (\<lambda>rows. returnE (order_desc ds_scoredAt rows)))"

definition new_score :: "int \<Rightarrow> scoreData \<Rightarrow> time \<Rightarrow> int \<Rightarrow> debatePracticeScore" where
  "new_score pid d now i =
     \<lparr>row_id = i, profileId = Some pid, ds_topic = sd_topic d, ds_score = sd_score d,
      ds_maxScore = Some (nullish (sd_maxScore d) 10), ds_notes = sd_scoreNotes d, ds_scoredAt = now\<rparr>"

definition addDebatePracticeScore :: "int \<Rightarrow> scoreData \<Rightarrow> (world, debatePracticeScore option) proc" where
  "addDebatePracticeScore pid d =
     withDb None
       (bindE (getE clock) (\<lambda>now.
        bindE (insertRow debatePracticeScoresD None (new_score pid d now)) (\<lambda>r. returnE (Some r))))"

definition debateScores_list :: "sessionUser option \<Rightarrow> jsValue \<Rightarrow> (world, debatePracticeScore list) proc" where
  "debateScores_list u raw = profileScopedProcedure Viewer u raw (\<lambda>_ _ pid. getDebatePracticeScores pid)"

definition debateScores_add :: "sessionUser option \<Rightarrow> jsValue \<Rightarrow> scoreData \<Rightarrow> (world, debatePracticeScore option) proc" where
  "debateScores_add u raw d =
     profileScopedProcedure Manager u raw (\<lambda>_ _ pid.
       seqE (zodE (0 \<le> sd_score d \<and> sd_score d \<le> 10)) (addDebatePracticeScore pid d))"

section \<open>Simulation runs\<close>

record simulationData =
  sim_scenario :: "string option"
  sim_stateCode :: "string option"
  sim_iterations :: "int option"
  sim_weatherSeverity :: "int option"
  sim_securityThreat :: "int option"
  sim_bvasReliability :: "int option"
  sim_staffTraining :: "int option"
  sim_projectedTurnout :: "rat option"
  sim_validVotesCast :: "int option"
  sim_bvasFailureRate :: "rat option"
  sim_certificationEta :: "int option"
  sim_logisticsScore :: "int option"
  sim_securityIndex :: "int option"
  sim_rejectedBallots :: "int option"
  sim_monteCarloP50 :: "rat option"
  sim_monteCarloP5 :: "rat option"
  sim_monteCarloP95 :: "rat option"
  sim_modelConfidence :: "rat option"
  sim_disruptions :: "string list option"
  sim_aiNarrative :: "string option"
  sim_label :: "string option"

definition getSimulationRuns :: "int \<Rightarrow> (world, simulationRun list) proc" where
  "getSimulationRuns pid =
     withDb [] (bindE (selectRows simulationRunsD (\<lambda>r. profileId r = Some pid))
       (\<lambda>rows. returnE (take 20 (order_desc sr_runAt rows))))"

definition new_simulation :: "int \<Rightarrow> simulationData \<Rightarrow> time \<Rightarrow> int \<Rightarrow> simulationRun" where
  "new_simulation pid d now i =
     \<lparr>row_id = i, profileId = Some pid, sr_scenario = Some (nullish (sim_scenario d) ''baseline''),
      sr_stateCode = sim_stateCode d, sr_iterations = Some (nullish (sim_iterations d) 1000),
      sr_weatherSeverity = Some (nullish (sim_weatherSeverity d) 20),
      sr_securityThreat = Some (nullish (sim_securityThreat d) 15),
      sr_bvasReliability = Some (nullish (sim_bvasReliability d) 85),
      sr_staffTraining = Some (nullish (sim_staffTraining d) 75),
      sr_projectedTurnout = sim_projectedTurnout d, sr_validVotesCast = sim_validVotesCast d,
      sr_bvasFailureRate = sim_bvasFailureRate d, sr_certificationEta = sim_certificationEta d,
      sr_logisticsScore = sim_logisticsScore d, sr_securityIndex = sim_securityIndex d,
      sr_rejectedBallots = sim_rejectedBallots d, sr_monteCarloP50 = sim_monteCarloP50 d,
      sr_monteCarloP5 = sim_monteCarloP5 d, sr_monteCarloP95 = sim_monteCarloP95 d,
      sr_modelConfidence = sim_modelConfidence d, sr_disruptions = sim_disruptions d, sr_runAt = now,
      sr_aiNarrative = sim_aiNarrative d, sr_label = sim_label d\<rparr>"

definition saveSimulationRun :: "int \<Rightarrow> simulationData \<Rightarrow> (world, simulationRun option) proc" where
  "saveSimulationRun pid d =
     withDb None
       (bindE (getE clock) (\<lambda>now.
        bindE (insertRow simulationRunsD None (new_simulation pid d now)) (\<lambda>r. returnE (Some r))))"

definition simulation_history :: "sessionUser option \<Rightarrow> jsValue \<Rightarrow> (world, simulationRun list) proc" where
  "simulation_history u raw = profileScopedProcedure Viewer u raw (\<lambda>_ _ pid. getSimulationRuns pid)"

definition simulation_save :: "sessionUser option \<Rightarrow> jsValue \<Rightarrow> simulationData \<Rightarrow> (world, simulationRun option) proc" where
  "simulation_save u raw d =
     profileScopedProcedure Manager u raw (\<lambda>_ _ pid. seqE (zodE (vco 120 (sim_label d))) (saveSimulationRun pid d))"

section \<open>Election tribunal\<close>

text \<open>The input schema fills in \<open>petitionType\<close> and \<open>status\<close> before the handler runs, so an edit that leaves them
  out sets them to their defaults. The two dates are the parsed instants.\<close>

record tribunalData =
  tr_id :: "int option"
  tr_electionName :: string
  tr_petitionType :: "string option"
  tr_court :: "string option"
  tr_caseNumber :: "string option"
  tr_petitioner :: "string option"
  tr_respondent :: "string option"
  tr_counsel :: "string option"
  tr_filedAt :: "time option"
  tr_hearingDate :: "time option"
  tr_status :: "string option"
  tr_outcome :: "string option"
  tr_notes :: "string option"

definition tribunal_input :: "tribunalData \<Rightarrow> bool" where
  "tribunal_input d \<longleftrightarrow> 1 \<le> length (tr_electionName d) \<and> length (tr_electionName d) \<le> 200 \<and>
     nullish (tr_petitionType d) ''post_election'' \<in> {''pre_election'', ''post_election''} \<and>
     vco 200 (tr_court d) \<and> vco 100 (tr_caseNumber d) \<and> vco 200 (tr_petitioner d) \<and> vco 200 (tr_respondent d) \<and>
     vco 200 (tr_counsel d) \<and>
     nullish (tr_status d) ''filed'' \<in> {''filed'', ''hearing'', ''judgment'', ''appealed'', ''closed''}"

definition listElectionPetitions :: "int \<Rightarrow> (world, electionPetition list) proc" where
  "listElectionPetitions pid =
     withDb [] (bindE (requireTenantId (Some pid)) (\<lambda>p.
       bindE (selectRows electionPetitionsD (\<lambda>r. profileId r = Some p)) (\<lambda>rows. returnE (order_desc ep_createdAt rows))))"

definition set_tribunal :: "tribunalData \<Rightarrow> time \<Rightarrow> electionPetition \<Rightarrow> electionPetition" where
  "set_tribunal d now r = r\<lparr>ep_electionName := tr_electionName d,
     ep_petitionType := nullish (tr_petitionType d) ''post_election'', ep_court := upd_opt (tr_court d) (ep_court r),
     ep_caseNumber := upd_opt (tr_caseNumber d) (ep_caseNumber r),
     ep_petitioner := upd_opt (tr_petitioner d) (ep_petitioner r),
     ep_respondent := upd_opt (tr_respondent d) (ep_respondent r), ep_counsel := upd_opt (tr_counsel d) (ep_counsel r),
     ep_filedAt := upd_opt (tr_filedAt d) (ep_filedAt r), ep_hearingDate := upd_opt (tr_hearingDate d) (ep_hearingDate r),
     ep_status := nullish (tr_status d) ''filed'', ep_outcome := upd_opt (tr_outcome d) (ep_outcome r),
     ep_notes := upd_opt (tr_notes d) (ep_notes r), ep_updatedAt := now\<rparr>"

definition new_tribunal :: "int \<Rightarrow> tribunalData \<Rightarrow> time \<Rightarrow> int \<Rightarrow> electionPetition" where
  "new_tribunal pid d now i =
     \<lparr>row_id = i, profileId = Some pid, ep_electionName = tr_electionName d,
      ep_petitionType = nullish (tr_petitionType d) ''post_election'', ep_court = tr_court d,
      ep_caseNumber = tr_caseNumber d, ep_petitioner = tr_petitioner d, ep_respondent = tr_respondent d,
      ep_counsel = tr_counsel d, ep_filedAt = tr_filedAt d, ep_hearingDate = tr_hearingDate d,
      ep_status = nullish (tr_status d) ''filed'', ep_outcome = tr_outcome d, ep_notes = tr_notes d,
      ep_createdAt = now, ep_updatedAt = now\<rparr>"

definition upsertElectionPetition :: "int \<Rightarrow> tribunalData \<Rightarrow> (world, electionPetition option) proc" where
  "upsertElectionPetition pid d =
     withDb None
       (bindE (getE clock) (\<lambda>now.
        tenantUpsert electionPetitionsD ''Election petition'' (tr_id d) (Some pid) (set_tribunal d now) (new_tribunal pid d now)))"

definition deleteElectionPetition :: "int \<Rightarrow> int \<Rightarrow> (world, nat) proc" where
  "deleteElectionPetition i pid =
     withDb 0
       (bindE (requireTenantId (Some pid)) (\<lambda>p.
        bindE (deleteRows electionPetitionsD (\<lambda>r. row_id r = i \<and> profileId r = Some p)) (\<lambda>rows.
        if rows = [] then throwE (TRPC NOT_FOUND ''Election petition not found'') else returnE (length rows))))"

definition tribunal_list :: "sessionUser option \<Rightarrow> jsValue \<Rightarrow> (world, electionPetition list) proc" where
  "tribunal_list u raw = profileScopedProcedure Viewer u raw (\<lambda>_ _ pid. listElectionPetitions pid)"

definition tribunal_upsert :: "sessionUser option \<Rightarrow> jsValue \<Rightarrow> tribunalData \<Rightarrow> (world, electionPetition option) proc" where
  "tribunal_upsert u raw d =
     profileScopedProcedure Manager u raw (\<lambda>_ _ pid. seqE (zodE (tribunal_input d)) (upsertElectionPetition pid d))"

definition tribunal_delete :: "sessionUser option \<Rightarrow> jsValue \<Rightarrow> int \<Rightarrow> (world, nat) proc" where
  "tribunal_delete u raw i = profileScopedProcedure Owner u raw (\<lambda>_ _ pid. deleteElectionPetition i pid)"

section \<open>Dashboard\<close>

record dashboardKPIs =
  totalVolunteers :: nat
  complianceScore :: int
  complianceCompliant :: nat
  complianceTotal :: nat
  totalFundraising :: rat
  totalBudget :: rat
  totalPetitions :: nat
  totalTeamMembers :: nat
  daysToNextDeadline :: "int option"
  nextDeadlineDate :: "date option"
  completedMilestones :: nat
  totalMilestones :: nat
  activeIncidents :: nat
  criticalIncidents :: nat

text \<open>\<open>status not in ('resolved', 'escalated')\<close>: a null status is not counted.\<close>

definition incident_active :: "warRoomIncident \<Rightarrow> bool" where
  "incident_active r \<longleftrightarrow> wi_status r = Some IncidentOpen"

definition compliance_score :: "nat \<Rightarrow> nat \<Rightarrow> int" where
  "compliance_score k n = (if n > 0 then math_round ((of_nat k / of_nat n) * 100) else 0)"

text \<open>\<open>min(event_date) filter (where event_date > today and status <> 'completed')\<close>.\<close>

definition next_deadline :: "time \<Rightarrow> timelineEvent list \<Rightarrow> date option" where
  "next_deadline now rows =
     (case sort (map te_eventDate (filter (\<lambda>r. date_of now < te_eventDate r \<and>
          te_status r \<noteq> None \<and> te_status r \<noteq> Some Completed) rows)) of [] \<Rightarrow> None | d # _ \<Rightarrow> Some d)"

definition days_to :: "time \<Rightarrow> date \<Rightarrow> int" where
  "days_to now d = \<lceil>of_int (d * day_ms - now) / (of_int day_ms :: rat)\<rceil>"

definition getDashboardKPIs :: "int \<Rightarrow> (world, dashboardKPIs option) proc" where
  "getDashboardKPIs pid =
     withDb None
       (bindE (getE clock) (\<lambda>now.
        bindE (selectRows volunteersD (\<lambda>r. profileId r = Some pid)) (\<lambda>volunteerRows.
        bindE (selectRows complianceItemsD (\<lambda>r. profileId r = Some pid)) (\<lambda>complianceRows.
        bindE (selectRows fundraisingTransactionsD (\<lambda>r. profileId r = Some pid)) (\<lambda>donationRows.
        bindE (selectRows budgetItemsD (\<lambda>r. profileId r = Some pid)) (\<lambda>budgetRows.
        bindE (selectRows timelineEventsD (\<lambda>r. profileId r = Some pid)) (\<lambda>timelineRows.
        bindE (selectRows petitionsD (\<lambda>r. profileId r = Some pid)) (\<lambda>petitionRows.
        bindE (selectRows campaignMembersD (\<lambda>r. profileId r = Some pid)) (\<lambda>memberRows.
        bindE (selectRows warRoomIncidentsD (\<lambda>r. profileId r = Some pid)) (\<lambda>incidentRows.
        let compliant = length (filter (\<lambda>r. ci_status r = Some Compliant) complianceRows);
            deadline = next_deadline now timelineRows
        in returnE (Some
             \<lparr>totalVolunteers = length volunteerRows,
              complianceScore = compliance_score compliant (length complianceRows),
              complianceCompliant = compliant,
              complianceTotal = length complianceRows,
              totalFundraising = sum_list (map ft_amount donationRows),
              totalBudget = sum_list (map bi_budgetedAmount budgetRows),
              totalPetitions = length petitionRows,
              totalTeamMembers = length memberRows,
              daysToNextDeadline = map_option (days_to now) deadline,
              nextDeadlineDate = deadline,
              completedMilestones = length (filter (\<lambda>r. te_status r = Some Completed) timelineRows),
              totalMilestones = length timelineRows,
              activeIncidents = length (filter incident_active incidentRows),
              criticalIncidents = length (filter (\<lambda>r. wi_severity r = Some SevCritical \<and> incident_active r) incidentRows)\<rparr>)))))))))))"

fun includes_str :: "string \<Rightarrow> string \<Rightarrow> bool" where
  "includes_str [] p \<longleftrightarrow> p = []"
| "includes_str (c # cs) p \<longleftrightarrow> take (length p) (c # cs) = p \<or> includes_str cs p"

definition election_event :: "timelineEvent \<Rightarrow> bool" where
  "election_event e \<longleftrightarrow> includes_str (toLowerCase (te_title e)) ''election day'' \<or> te_category e = Some ''election_day''"

definition dashboard_kpis :: "sessionUser option \<Rightarrow> jsValue \<Rightarrow> (world, dashboardKPIs option) proc" where
  "dashboard_kpis u raw = profileScopedProcedure Viewer u raw (\<lambda>_ _ pid. getDashboardKPIs pid)"

definition dashboard_electionDate :: "sessionUser option \<Rightarrow> jsValue \<Rightarrow> (world, date option) proc" where
  "dashboard_electionDate u raw =
     profileScopedProcedure Viewer u raw (\<lambda>_ _ pid.
       bindE (getTimelineEvents pid) (\<lambda>events. returnE (map_option te_eventDate (List.find election_event events))))"

section \<open>Ids and other campaigns\<close>

lemmas planning_defs =
  timeline_list_def getTimelineEvents_def timeline_upsert_def upsertTimelineEvent_def
  compliance_list_def getComplianceItems_def compliance_upsert_def upsertComplianceItem_def compliance_presets_def
  compliance_loadPresets_def loadCompliancePresets_def Let_def
  opposition_list_def getOppositionResearch_def opposition_upsert_def upsertOppositionEntry_def
  results_list_def getElectionResults_def results_add_def upsertElectionResult_def
  manifesto_list_def getManifestoSections_def manifesto_upsert_def upsertManifestoSection_def
  debate_list_def getDebatePrepNotes_def debate_upsert_def upsertDebatePrepNote_def
  debateScores_list_def getDebatePracticeScores_def debateScores_add_def addDebatePracticeScore_def
  simulation_history_def getSimulationRuns_def simulation_save_def saveSimulationRun_def
  tribunal_list_def listElectionPetitions_def tribunal_upsert_def upsertElectionPetition_def
  tribunal_delete_def deleteElectionPetition_def bind_requireTenantId
  dashboard_kpis_def getDashboardKPIs_def dashboard_electionDate_def

lemmas planning_rows =
  set_event_def new_event_def set_compliance_def new_compliance_def preset_item_def set_opposition_def
  new_opposition_def new_result_def set_section_def new_section_def set_debate_def new_debate_def new_score_def
  new_simulation_def set_tribunal_def new_tribunal_def

lemma wf_planning_procedures [preserves_intros]:
  "preserves wf_ids (timeline_list u raw)"
  "preserves wf_ids (timeline_upsert u raw tld)"
  "preserves wf_ids (timeline_delete u i)"
  "preserves wf_ids (compliance_list u raw)"
  "preserves wf_ids (compliance_upsert u raw cd)"
  "preserves wf_ids (compliance_presets u raw)"
  "preserves wf_ids (compliance_loadPresets u raw)"
  "preserves wf_ids (opposition_list u raw)"
  "preserves wf_ids (opposition_upsert u raw od)"
  "preserves wf_ids (results_list u raw)"
  "preserves wf_ids (results_add u raw rd)"
  "preserves wf_ids (manifesto_list u raw)"
  "preserves wf_ids (manifesto_upsert u raw md)"
  "preserves wf_ids (manifesto_delete u i)"
  "preserves wf_ids (debate_list u raw)"
  "preserves wf_ids (debate_upsert u raw dd)"
  "preserves wf_ids (debateScores_list u raw)"
  "preserves wf_ids (debateScores_add u raw sd)"
  "preserves wf_ids (simulation_history u raw)"
  "preserves wf_ids (simulation_save u raw sim)"
  "preserves wf_ids (tribunal_list u raw)"
  "preserves wf_ids (tribunal_upsert u raw tr)"
  "preserves wf_ids (tribunal_delete u raw i)"
  "preserves wf_ids (dashboard_kpis u raw)"
  "preserves wf_ids (dashboard_electionDate u raw)"
  unfolding planning_defs timeline_delete_def deleteTimelineEvent_def manifesto_delete_def deleteManifestoSection_def
  by (intro preserves_intros; simp add: planning_rows)+

lemma wf_alerts:
  "preserves wf_ids (alertEvent p e)"
  unfolding alertEvent_def by (intro preserves_intros; simp)

lemma wf_alertEvents: "preserves wf_ids (alertEvents p es)"
  by (induction es) (auto intro!: preserves_intros wf_alerts)

lemma wf_alertProfiles: "preserves wf_ids (alertProfiles ps)"
  by (induction ps) (auto simp: getUpcomingDeadlines_def intro!: preserves_intros wf_alertEvents)

lemma wf_deadlineCheck [preserves_intros]: "preserves wf_ids (scheduled_deadlineCheck isCron)"
  unfolding scheduled_deadlineCheck_def getAllProfiles_def
  by (intro preserves_intros wf_alertProfiles)

lemma owned_planning:
  assumes "pid \<noteq> q"
  shows "row_owned timelineEventsD i pid s \<Longrightarrow> outsider u q s (snd (deleteTimelineEvent i s))"
    and "row_owned manifestoSectionsD i pid s \<Longrightarrow> outsider u q s (snd (deleteManifestoSection i s))"
proof -
  note plain = withDb_run outsider_step.refl seqE_def voidE_def
  show "outsider u q s (snd (deleteTimelineEvent i s))" if "row_owned timelineEventsD i pid s"
    unfolding deleteTimelineEvent_def
    by (auto simp: plain intro!: outsider_step.bindE_at timelineEventsT.owned_delete [OF assms that] outsider_intros)
  show "outsider u q s (snd (deleteManifestoSection i s))" if "row_owned manifestoSectionsD i pid s"
    unfolding deleteManifestoSection_def
    by (auto simp: plain intro!: outsider_step.bindE_at manifestoSectionsT.owned_delete [OF assms that] outsider_intros)
qed

lemma outsider_planning_owned [outsider_intros]:
  "follows (outsider u q) (timeline_delete u i)"
  "follows (outsider u q) (manifesto_delete u i)"
  unfolding timeline_delete_def manifesto_delete_def
  by (intro outsider_requireUser outsider_row_guarded_seq owned_planning; assumption)+

lemma outsider_loadPresets [outsider_intros]: "follows (outsider u q) (compliance_loadPresets u raw)"
  unfolding compliance_loadPresets_def loadCompliancePresets_def Let_def
  by (intro outsider_intros) (auto simp: preset_item_def split: prod.splits)

lemma outsider_planning_procedures [outsider_intros]:
  "follows (outsider u q) (timeline_list u raw)"
  "follows (outsider u q) (timeline_upsert u raw tld)"
  "follows (outsider u q) (compliance_list u raw)"
  "follows (outsider u q) (compliance_upsert u raw cd)"
  "follows (outsider u q) (compliance_presets u raw)"
  "follows (outsider u q) (opposition_list u raw)"
  "follows (outsider u q) (opposition_upsert u raw od)"
  "follows (outsider u q) (results_list u raw)"
  "follows (outsider u q) (results_add u raw rd)"
  "follows (outsider u q) (manifesto_list u raw)"
  "follows (outsider u q) (manifesto_upsert u raw md)"
  "follows (outsider u q) (debate_list u raw)"
  "follows (outsider u q) (debate_upsert u raw dd)"
  "follows (outsider u q) (debateScores_list u raw)"
  "follows (outsider u q) (debateScores_add u raw sd)"
  "follows (outsider u q) (simulation_history u raw)"
  "follows (outsider u q) (simulation_save u raw sim)"
  "follows (outsider u q) (tribunal_list u raw)"
  "follows (outsider u q) (tribunal_upsert u raw tr)"
  "follows (outsider u q) (tribunal_delete u raw i)"
  "follows (outsider u q) (dashboard_kpis u raw)"
  "follows (outsider u q) (dashboard_electionDate u raw)"
  unfolding planning_defs
  by (intro outsider_intros; simp add: planning_rows)+

section \<open>One alert a day\<close>

text \<open>What a run of the deadline check may do to the state: it stamps events with the time of the run.\<close>

definition event_step :: "time \<Rightarrow> timelineEvent \<Rightarrow> timelineEvent \<Rightarrow> bool" where
  "event_step now r r' \<longleftrightarrow> r' = r \<or> r' = r\<lparr>te_lastAlertedAt := Some now\<rparr>"

definition alert_step :: "world \<Rightarrow> world \<Rightarrow> bool" where
  "alert_step s s' \<longleftrightarrow> clock s' = clock s \<and> conn s' = conn s \<and> notifyUp s' = notifyUp s \<and>
     notifyConfigured s' = notifyConfigured s \<and> candidateProfilesT s' = candidateProfilesT s \<and>
     list_all2 (event_step (clock s)) (trows (timelineEventsT s)) (trows (timelineEventsT s'))"

lemma event_step_keeps:
  assumes "event_step now r r'"
  shows "row_id r' = row_id r" "profileId r' = profileId r" "due_within t h r' = due_within t h r"
    "recently_alerted now r \<Longrightarrow> recently_alerted now r'"
  using assms by (auto simp: event_step_def due_within_def recently_alerted_def hour_ms_def)

lemma event_step_trans: "event_step now a b \<Longrightarrow> event_step now b c \<Longrightarrow> event_step now a c"
  unfolding event_step_def by auto

lemma event_steps_trans:
  "list_all2 (event_step now) as bs \<Longrightarrow> list_all2 (event_step now) bs cs \<Longrightarrow> list_all2 (event_step now) as cs"
  by (rule list_all2_trans [where ?P1.0 = "event_step now" and ?P2.0 = "event_step now", OF event_step_trans])

interpretation alerting: transition_preorder alert_step
proof
  show "alert_step s s" for s by (simp add: alert_step_def event_step_def list_all2_same)
  show "alert_step s u" if "alert_step s t" "alert_step t u" for s t u
    using that event_steps_trans unfolding alert_step_def by simp blast
qed

lemma alert_step_outbox: "alert_step s (s\<lparr>outbox := x\<rparr>)"
  using alerting.refl [of s] by (simp add: alert_step_def)

lemma list_all2_map_if: "(\<And>r. R r r) \<Longrightarrow> (\<And>r. R r (f r)) \<Longrightarrow> list_all2 R rs (map (\<lambda>r. if P r then f r else r) rs)"
  by (simp add: list_all2_conv_all_nth)

lemma alert_step_stamp: "alert_step s (snd (updateRows timelineEventsD P (\<lambda>r. r\<lparr>te_lastAlertedAt := Some (clock s)\<rparr>) s))"
  using alerting.refl [of s]
  by (simp add: updateRows_def Let_def timelineEventsD_def alert_step_def list_all2_map_if event_step_def)

lemma notifyOwner_outcome:
  "(\<exists>e. notifyOwner t c s = (Inl e, s)) \<or> (\<not> notifyUp s \<and> notifyOwner t c s = (Inr False, s)) \<or>
   (notifyUp s \<and> notifyOwner t c s = (Inr True, s\<lparr>outbox := outbox s @ [(trim t, trim c)]\<rparr>))"
  by (simp add: notifyOwner_def validatePayload_def run_simps)

lemma notifyOwner_run:
  "\<exists>x. snd (notifyOwner t c s) = s\<lparr>outbox := x\<rparr> \<and>
     (\<forall>b. fst (notifyOwner t c s) = Inr b \<longrightarrow> b = notifyUp s \<and> length x = length (outbox s) + of_bool b)"
  using notifyOwner_outcome [of t c s]
  by (elim disjE exE conjE) (rule exI [where x = "snd (snd (notifyOwner t c s), outbox (snd (notifyOwner t c s)))"], simp)+

text \<open>A successful alert of an event: nothing for an event alerted within the day, otherwise one message and
  the stamp.\<close>

lemma alertEvent_Inr:
  assumes "alertEvent p e s = (Inr n, s')"
  obtains (skipped) "n = 0" "s' = s" "recently_alerted (clock s) e"
  | (down) x where "n = 0" "\<not> notifyUp s" "s' = s\<lparr>outbox := x\<rparr>" "length x = length (outbox s)"
  | (sent) x rs where "n = 1" "notifyUp s" "length x = Suc (length (outbox s))"
      "updateRows timelineEventsD (\<lambda>r. row_id r = row_id e) (\<lambda>r. r\<lparr>te_lastAlertedAt := Some (clock s)\<rparr>) (s\<lparr>outbox := x\<rparr>)
         = (Inr rs, s')"
proof (cases "recently_alerted (clock s) e")
  case True
  then show ?thesis using assms skipped by (simp add: alertEvent_def bindE_run getE_run returnE_run)
next
  case False
  from notifyOwner_run [of "deadline_title e" "deadline_content (clock s) p e" s] obtain x where
    x: "snd (notifyOwner (deadline_title e) (deadline_content (clock s) p e) s) = s\<lparr>outbox := x\<rparr>"
    and b: "\<And>b. fst (notifyOwner (deadline_title e) (deadline_content (clock s) p e) s) = Inr b \<Longrightarrow>
      b = notifyUp s \<and> length x = length (outbox s) + of_bool b" by blast
  from assms False obtain sent where
    run: "notifyOwner (deadline_title e) (deadline_content (clock s) p e) s = (Inr sent, s\<lparr>outbox := x\<rparr>)"
    using x by (cases "notifyOwner (deadline_title e) (deadline_content (clock s) p e) s")
      (auto simp: alertEvent_def bindE_run getE_run split: sum.splits)
  note up = b [of sent]
  show ?thesis
  proof (cases sent)
    case True
    with assms False run show ?thesis using sent up
      by (auto simp: alertEvent_def bindE_run getE_run returnE_run elim!: seqE_InrE)
  next
    case no: False
    with assms False run show ?thesis using down up
      by (auto simp: alertEvent_def bindE_run getE_run returnE_run)
  qed
qed

lemma alertEvent_follows: "follows alert_step (alertEvent p e)"
proof -
  have "alert_step s (snd (alertEvent p e s))" for s
  proof -
    from notifyOwner_run [of "deadline_title e" "deadline_content (clock s) p e" s] obtain x where
      x: "snd (notifyOwner (deadline_title e) (deadline_content (clock s) p e) s) = s\<lparr>outbox := x\<rparr>" by blast
    have "alert_step (s\<lparr>outbox := x\<rparr>) (snd (seqE (updateRows timelineEventsD (\<lambda>r. row_id r = row_id e)
        (\<lambda>r. r\<lparr>te_lastAlertedAt := Some (clock s)\<rparr>)) (returnE (1 :: nat)) (s\<lparr>outbox := x\<rparr>)))"
      using alert_step_stamp [of "s\<lparr>outbox := x\<rparr>"] unfolding seqE_def
      by (intro alerting.bindE_at alerting.returnE) simp
    from alerting.trans [OF alert_step_outbox this] x alert_step_outbox [of s x] alerting.refl [of s]
    show ?thesis
      by (cases "notifyOwner (deadline_title e) (deadline_content (clock s) p e) s")
        (simp add: alertEvent_def bindE_run getE_run returnE_run split: sum.splits)
  qed
  then show ?thesis by (simp add: follows_def)
qed

lemma alertEvents_follows: "follows alert_step (alertEvents p es)"
  by (induction es) (auto intro!: alerting.intros alertEvent_follows)

definition alerted_id :: "world \<Rightarrow> int \<Rightarrow> bool" where
  "alerted_id s k \<longleftrightarrow> (\<forall>r \<in> set (trows (timelineEventsT s)). row_id r = k \<longrightarrow> recently_alerted (clock s) r)"

definition alerted_profile :: "world \<Rightarrow> int \<Rightarrow> bool" where
  "alerted_profile s pid \<longleftrightarrow> (\<forall>r \<in> set (trows (timelineEventsT s)).
     profileId r = Some pid \<and> due_within (clock s) 48 r \<longrightarrow> recently_alerted (clock s) r)"

lemma list_all2_origin: "list_all2 R xs ys \<Longrightarrow> y \<in> set ys \<Longrightarrow> \<exists>x \<in> set xs. R x y"
  by (induction rule: list_all2_induct) auto

lemma ball_map_if: "(\<forall>r \<in> set (map (\<lambda>r. if P r then f r else r) xs). Q r) \<longleftrightarrow> (\<forall>r \<in> set xs. Q (if P r then f r else r))"
  by auto

lemma sumE_InrE:
  assumes "bindE m (\<lambda>n. bindE m' (\<lambda>k. returnE (n + k))) s = (Inr t, s')"
  obtains n s1 k where "m s = (Inr n, s1)" and "m' s1 = (Inr k, s')" and "t = n + k"
  using assms by (auto simp: bindE_run returnE_run split: prod.splits sum.splits)

lemma alert_step_origin:
  assumes "alert_step s s'" and "r' \<in> set (trows (timelineEventsT s'))"
  obtains r where "r \<in> set (trows (timelineEventsT s))" and "event_step (clock s) r r'"
proof -
  have "list_all2 (event_step (clock s)) (trows (timelineEventsT s)) (trows (timelineEventsT s'))"
    using assms(1) by (simp only: alert_step_def)
  from list_all2_origin [OF this assms(2)] that show ?thesis by (elim bexE)
qed

lemma alert_step_mono:
  assumes "alert_step s s'"
  shows "alerted_id s k \<Longrightarrow> alerted_id s' k" and "alerted_profile s pid \<Longrightarrow> alerted_profile s' pid"
proof -
  have now: "clock s' = clock s" using assms by (simp add: alert_step_def)
  show "alerted_id s' k" if ok: "alerted_id s k"
    unfolding alerted_id_def now
  proof (intro ballI impI)
    fix r' assume r': "r' \<in> set (trows (timelineEventsT s'))" "row_id r' = k"
    obtain r where "r \<in> set (trows (timelineEventsT s))" "event_step (clock s) r r'"
      using alert_step_origin [OF assms r'(1)] .
    then show "recently_alerted (clock s) r'"
      using ok r'(2) event_step_keeps [of "clock s" r r'] by (simp add: alerted_id_def)
  qed
  show "alerted_profile s' pid" if ok: "alerted_profile s pid"
    unfolding alerted_profile_def now
  proof (intro ballI impI)
    fix r' assume r': "r' \<in> set (trows (timelineEventsT s'))" "profileId r' = Some pid \<and> due_within (clock s) 48 r'"
    obtain r where "r \<in> set (trows (timelineEventsT s))" "event_step (clock s) r r'"
      using alert_step_origin [OF assms r'(1)] .
    then show "recently_alerted (clock s) r'"
      using ok r'(2) event_step_keeps [of "clock s" r r'] by (simp add: alerted_profile_def)
  qed
qed

lemma alertEvent_stamps:
  assumes run: "alertEvent p e s = (Inr n, s')" and "notifyUp s"
    and known: "recently_alerted (clock s) e \<Longrightarrow> alerted_id s (row_id e)"
  shows "alerted_id s' (row_id e)"
  using run
proof (cases rule: alertEvent_Inr)
  case (sent x rs)
  have "trows (timelineEventsT s') = map (\<lambda>r. if row_id r = row_id e then r\<lparr>te_lastAlertedAt := Some (clock s)\<rparr> else r)
      (trows (timelineEventsT s))"
    using timelineEventsL.update_Inr [OF sent(4)] by simp
  moreover have "clock s' = clock s" using follows_stepD [OF alertEvent_follows run] by (simp add: alert_step_def)
  ultimately show ?thesis by (simp only: alerted_id_def ball_map_if) (simp add: recently_alerted_def hour_ms_def)
qed (use assms in auto)

lemma alertEvents_stamp:
  assumes "alertEvents p es s = (Inr n, s')" and "notifyUp s"
    and "\<And>e. e \<in> set es \<Longrightarrow> recently_alerted (clock s) e \<Longrightarrow> alerted_id s (row_id e)" and "e \<in> set es"
  shows "alerted_id s' (row_id e)"
  using assms
proof (induction es arbitrary: s n)
  case (Cons x xs)
  from Cons.prems(1) obtain k s1 m where first: "alertEvent p x s = (Inr k, s1)" and rest: "alertEvents p xs s1 = (Inr m, s')"
    unfolding alertEvents.simps by (rule sumE_InrE)
  note step = follows_stepD [OF alertEvent_follows first]
  then have s1: "notifyUp s1" "clock s1 = clock s" using Cons.prems(2) by (simp_all add: alert_step_def)
  have "alerted_id s1 (row_id x)" by (rule alertEvent_stamps [OF first Cons.prems(2)]) (simp add: Cons.prems(3))
  then have x: "alerted_id s' (row_id x)" by (rule alert_step_mono(1) [OF follows_stepD [OF alertEvents_follows rest]])
  have "recently_alerted (clock s1) y \<Longrightarrow> alerted_id s1 (row_id y)" if "y \<in> set xs" for y
    using Cons.prems(3) [of y] alert_step_mono(1) [OF step] that s1 by simp
  from Cons.IH [OF rest s1(1) this] x Cons.prems(4) show ?case by (cases "e = x") simp_all
qed simp

lemma getUpcomingDeadlines_run:
  "conn s \<Longrightarrow> getUpcomingDeadlines pid h s =
     (Inr (order_by te_eventDate (filter (\<lambda>r. profileId r = Some pid \<and> due_within (clock s) h r) (trows (timelineEventsT s)))), s)"
  by (simp add: getUpcomingDeadlines_def run_simps table_simps)

lemma distinct_row: "distinct (map f xs) \<Longrightarrow> x \<in> set xs \<Longrightarrow> y \<in> set xs \<Longrightarrow> f x = f y \<Longrightarrow> x = y"
  by (metis distinct_map inj_onD)

lemma alertProfile_done:
  assumes "conn s" "notifyUp s" "ids_distinct (trows (timelineEventsT s))"
    and "bindE (getUpcomingDeadlines pid 48) (alertEvents p) s = (Inr n, s')"
  shows "alerted_profile s' pid"
proof -
  let ?es = "filter (\<lambda>r. profileId r = Some pid \<and> due_within (clock s) 48 r) (trows (timelineEventsT s))"
  have run: "alertEvents p (order_by te_eventDate ?es) s = (Inr n, s')"
    using assms(1,4) by (simp add: bindE_run getUpcomingDeadlines_run)
  note step = follows_stepD [OF alertEvents_follows run]
  have known: "alerted_id s (row_id e)" if "e \<in> set ?es" "recently_alerted (clock s) e" for e
    unfolding alerted_id_def
  proof (intro ballI impI)
    fix r assume "r \<in> set (trows (timelineEventsT s))" "row_id r = row_id e"
    then have "r = e" using that(1) distinct_row [OF assms(3) [unfolded ids_distinct_def], of r e] by simp
    with that(2) show "recently_alerted (clock s) r" by simp
  qed
  have stamped: "alerted_id s' (row_id e)" if "e \<in> set ?es" for e
    using alertEvents_stamp [OF run assms(2), of e] known that by simp
  have "recently_alerted (clock s') r'"
    if r': "r' \<in> set (trows (timelineEventsT s'))" "profileId r' = Some pid" "due_within (clock s') 48 r'" for r'
  proof -
    obtain r where r: "r \<in> set (trows (timelineEventsT s))" "event_step (clock s) r r'"
      using alert_step_origin [OF step r'(1)] .
    then have "r \<in> set ?es" using r' step event_step_keeps [OF r(2)] by (simp add: alert_step_def)
    from stamped [OF this] r' event_step_keeps(1) [OF r(2)] show ?thesis by (simp add: alerted_id_def)
  qed
  then show ?thesis by (simp add: alerted_profile_def)
qed

lemma alertProfiles_Cons:
  "alertProfiles (p # ps) = bindE (bindE (getUpcomingDeadlines (row_id p) 48) (alertEvents p)) (\<lambda>n.
     bindE (alertProfiles ps) (\<lambda>m. returnE (n + m)))"
  by (simp add: bindE_assoc)

lemma alertProfile_follows: "follows alert_step (bindE (getUpcomingDeadlines pid 48) (alertEvents p))"
  unfolding getUpcomingDeadlines_def
  by (intro alerting.intros follows_withDb alerting.refl follows_selectRows alertEvents_follows)

lemma alertProfiles_follows: "follows alert_step (alertProfiles ps)"
proof (induction ps)
  case (Cons p ps)
  then show ?case unfolding alertProfiles_Cons by (intro alerting.intros alertProfile_follows)
qed (simp add: alerting.returnE)

lemma timeline_ids: "wf_ids s \<Longrightarrow> ids_distinct (trows (timelineEventsT s))"
  by (simp add: wf_ids_def)

lemma wf_alertProfile: "preserves wf_ids (bindE (getUpcomingDeadlines pid 48) (alertEvents p))"
  unfolding getUpcomingDeadlines_def by (intro preserves_intros wf_alertEvents)

lemma alertProfiles_done:
  assumes "conn s" "notifyUp s" "wf_ids s" "alertProfiles ps s = (Inr n, s')" "p \<in> set ps"
  shows "alerted_profile s' (row_id p)"
  using assms
proof (induction ps arbitrary: s n)
  case (Cons x xs)
  from Cons.prems(4) obtain k s1 m where
    first: "bindE (getUpcomingDeadlines (row_id x) 48) (alertEvents x) s = (Inr k, s1)" and rest: "alertProfiles xs s1 = (Inr m, s')"
    unfolding alertProfiles_Cons by (rule sumE_InrE)
  have s1: "conn s1" "notifyUp s1"
    using follows_stepD [OF alertProfile_follows first] Cons.prems(1,2) by (simp_all add: alert_step_def)
  have wf: "wf_ids s1" by (rule preserves_stepD [OF wf_alertProfile Cons.prems(3) first])
  have "alerted_profile s1 (row_id x)"
    by (rule alertProfile_done [OF Cons.prems(1,2) timeline_ids [OF Cons.prems(3)] first])
  then have x: "alerted_profile s' (row_id x)" by (rule alert_step_mono(2) [OF follows_stepD [OF alertProfiles_follows rest]])
  from Cons.IH [OF s1 wf rest] x Cons.prems(5) show ?case by (cases "p = x") simp_all
qed simp

lemma alertEvents_quiet: "(\<And>e. e \<in> set es \<Longrightarrow> recently_alerted (clock s) e) \<Longrightarrow> alertEvents p es s = (Inr 0, s)"
  by (induction es) (simp_all add: alertEvent_def bindE_run getE_run returnE_run)

lemma alertProfiles_quiet:
  assumes "conn s" and "\<And>p. p \<in> set ps \<Longrightarrow> alerted_profile s (row_id p)"
  shows "alertProfiles ps s = (Inr 0, s)"
  using assms(2)
proof (induction ps)
  case (Cons x xs)
  have "alerted_profile s (row_id x)" using Cons.prems by simp
  then have "alertEvents x (order_by te_eventDate
      (filter (\<lambda>r. profileId r = Some (row_id x) \<and> due_within (clock s) 48 r) (trows (timelineEventsT s)))) s = (Inr 0, s)"
    by (intro alertEvents_quiet) (simp add: alerted_profile_def)
  then have "bindE (getUpcomingDeadlines (row_id x) 48) (alertEvents x) s = (Inr 0, s)"
    using assms(1) by (simp add: bindE_run getUpcomingDeadlines_run)
  moreover have "alertProfiles xs s = (Inr 0, s)" using Cons by simp
  ultimately show ?case unfolding alertProfiles_Cons by (simp add: bindE_run [of _ _ s] returnE_run)
qed (simp add: returnE_run)

lemma alertEvent_count:
  assumes "alertEvent p e s = (Inr n, s')"
  shows "length (outbox s') = length (outbox s) + n"
  using assms
proof (cases rule: alertEvent_Inr)
  case (sent x rs)
  from sent(4) have "outbox s' = x" by (simp add: updateRows_def Let_def timelineEventsD_def split: if_splits) auto
  with sent show ?thesis by simp
qed simp_all

lemma alertEvents_count: "alertEvents p es s = (Inr n, s') \<Longrightarrow> length (outbox s') = length (outbox s) + n"
proof (induction es arbitrary: s n)
  case (Cons x xs)
  from Cons.prems show ?case
    unfolding alertEvents.simps
  proof (rule sumE_InrE)
    fix k s1 m assume "alertEvent p x s = (Inr k, s1)" and "alertEvents p xs s1 = (Inr m, s')" and "n = k + m"
    then show ?thesis using Cons.IH [of s1 m] alertEvent_count [of p x s k s1] by simp
  qed
qed (simp add: returnE_run)

lemma alertProfiles_count:
  "conn s \<Longrightarrow> alertProfiles ps s = (Inr n, s') \<Longrightarrow> length (outbox s') = length (outbox s) + n"
proof (induction ps arbitrary: s n)
  case (Cons x xs)
  from Cons.prems(2) show ?case
    unfolding alertProfiles_Cons
  proof (rule sumE_InrE)
    fix k s1 m assume first: "bindE (getUpcomingDeadlines (row_id x) 48) (alertEvents x) s = (Inr k, s1)"
      and rest: "alertProfiles xs s1 = (Inr m, s')" and n: "n = k + m"
    have "conn s1" using follows_stepD [OF alertProfile_follows first] Cons.prems(1) by (simp add: alert_step_def)
    moreover have "length (outbox s1) = length (outbox s) + k"
      using first Cons.prems(1) by (simp add: bindE_run getUpcomingDeadlines_run alertEvents_count)
    ultimately show ?thesis using Cons.IH [OF _ rest] n by simp
  qed
qed (simp add: returnE_run)

text \<open>A run of the deadline check that returns has sent as many notifications as it reports. With the
  notification service up, a second run at the same instant sends nothing and changes nothing: every critical
  event of the next 48 hours of every campaign has been alerted once.\<close>

theorem deadline_check_once:
  assumes "conn s" "wf_ids s" "scheduled_deadlineCheck True s = (Inr (Some n), s')"
  shows "length (outbox s') = length (outbox s) + n \<and>
    (notifyUp s \<longrightarrow> scheduled_deadlineCheck True s' = (Inr (Some 0), s'))"
proof -
  have check: "scheduled_deadlineCheck True t = bindE (alertProfiles (order_by row_id (trows (candidateProfilesT t)))) (\<lambda>n. returnE (Some n)) t"
    if "conn t" for t
    using that by (simp add: scheduled_deadlineCheck_def getAllProfiles_def withDb_run bindE_run returnE_run selectRows_run table_simps)
  let ?ps = "order_by row_id (trows (candidateProfilesT s))"
  have run: "alertProfiles ?ps s = (Inr n, s')"
    using assms(3) unfolding check [OF assms(1)] by (cases "alertProfiles ?ps s") (auto simp: bindE_run returnE_run split: sum.splits)
  have s': "conn s'" "candidateProfilesT s' = candidateProfilesT s"
    using follows_stepD [OF alertProfiles_follows run] assms(1) by (simp_all add: alert_step_def)
  have "scheduled_deadlineCheck True s' = (Inr (Some 0), s')" if "notifyUp s"
    unfolding check [OF s'(1)] s'(2)
    using alertProfiles_quiet [OF s'(1), of ?ps] alertProfiles_done [OF assms(1) that assms(2) run]
    by (simp add: bindE_run returnE_run)
  with alertProfiles_count [OF assms(1) run] show ?thesis by simp
qed

section \<open>The preset checklist\<close>

definition missing_presets :: "int \<Rightarrow> world \<Rightarrow> (string \<times> string \<times> string) list" where
  "missing_presets pid s =
     filter (\<lambda>p. fst p \<notin> ci_title ` set (filter (\<lambda>r. profileId r = Some pid) (trows (complianceItemsT s)))) COMPLIANCE_PRESETS"

lemma loadCompliancePresets_run:
  assumes "conn s"
  shows "loadCompliancePresets pid s =
    (if missing_presets pid s = [] then (Inr (0, 7), s)
     else (case insertRows complianceItemsD (map (preset_item pid (clock s)) (missing_presets pid s)) s of
             (Inl e, s') \<Rightarrow> (Inl e, s')
           | (Inr rs, s') \<Rightarrow> (Inr (length (missing_presets pid s), 7 - length (missing_presets pid s)), s')))"
proof -
  have "length COMPLIANCE_PRESETS = 7" by (simp add: COMPLIANCE_PRESETS_def)
  then show ?thesis
    using assms
    by (simp add: loadCompliancePresets_def withDb_run bindE_run getE_run selectRows_run table_simps Let_def seqE_run voidE_run
        returnE_run missing_presets_def split: prod.split sum.split)
qed

lemma preset_item_fields [simp]:
  "profileId ((preset_item pid now p i)\<lparr>row_id := j\<rparr>) = Some pid"
  "ci_title ((preset_item pid now p i)\<lparr>row_id := j\<rparr>) = fst p"
  "ci_status ((preset_item pid now p i)\<lparr>row_id := j\<rparr>) = Some CompliancePending"
  by (simp_all add: preset_item_def split: prod.splits)

lemma preset_rows:
  assumes "list_all2 (\<lambda>mk r. \<exists>i. r = (mk i)\<lparr>row_id := i\<rparr>) (map (preset_item pid now) ps) rs"
  shows "map ci_title rs = map fst ps" and "list_all (\<lambda>r. profileId r = Some pid \<and> ci_status r = Some CompliancePending) rs"
  using assms
  by (induction ps arbitrary: rs) (auto simp: list_all2_Cons1)

lemma insert_presets:
  assumes "fk (candidateProfilesT s) pid" and "list_all (\<lambda>r. row_id r < nextId (complianceItemsT s)) (trows (complianceItemsT s))"
    and "list_all (\<lambda>p. vc 300 (fst p) \<and> vc 100 (fst (snd p))) ps"
  shows "\<exists>rs s'. insertAll complianceItemsD (map (preset_item pid now) ps) s = (Inr rs, s')"
  using assms
proof (induction ps arbitrary: s)
  case (Cons p ps)
  let ?t = "complianceItemsT s"
  let ?r = "(preset_item pid now p (nextId ?t))\<lparr>row_id := nextId ?t\<rparr>"
  let ?s = "s\<lparr>complianceItemsT := ?t\<lparr>nextId := nextId ?t + 1, trows := trows ?t @ [?r]\<rparr>\<rparr>"
  have "complianceItems_chk s ?r"
    using Cons.prems(1,3) by (cases p) (simp add: complianceItems_chk_def fko_def preset_item_def vc_def vco_def)
  moreover have "list_all (\<lambda>r. row_id r \<noteq> nextId ?t) (trows ?t)"
    by (rule list.pred_mono_strong [OF Cons.prems(2)]) simp
  ultimately have first: "insertRow complianceItemsD None (preset_item pid now p) s = (Inr ?r, ?s)"
    by (simp add: insertRow_def Let_def complianceItemsD_def list_ex_iff list_all_iff)
  have "list_all (\<lambda>r. row_id r < nextId ?t + 1) (trows ?t)"
    by (rule list.pred_mono_strong [OF Cons.prems(2)]) simp
  then have "\<exists>rs s'. insertAll complianceItemsD (map (preset_item pid now) ps) ?s = (Inr rs, s')"
    using Cons.prems by (intro Cons.IH) simp_all
  with first show ?case by (auto simp: bindE_run [of _ _ s] bindE_run [of _ _ ?s] returnE_run)
qed (simp add: returnE_run)

text \<open>Loading the statutory checklist accounts for its seven entries (\<open>inserted + skipped\<close>), appends one
  pending item of the campaign for each entry whose title the campaign did not have, leaves the existing items as
  they are, and is idempotent: loading it again inserts nothing and changes nothing.\<close>

theorem presets_idempotent:
  assumes "conn s" and "loadCompliancePresets pid s = (Inr (ins, skp), s')"
  shows "ins + skp = 7 \<and> loadCompliancePresets pid s' = (Inr (0, 7), s') \<and>
    (\<exists>new. trows (complianceItemsT s') = trows (complianceItemsT s) @ new \<and> length new = ins \<and>
       list_all (\<lambda>r. profileId r = Some pid \<and> ci_status r = Some CompliancePending) new \<and>
       map ci_title new = map fst (missing_presets pid s))"
proof (cases "missing_presets pid s = []")
  case True
  with assms show ?thesis by (simp add: loadCompliancePresets_run)
next
  case False
  with assms obtain rs where
    run: "insertRows complianceItemsD (map (preset_item pid (clock s)) (missing_presets pid s)) s = (Inr rs, s')"
    and n: "ins = length (missing_presets pid s)" "skp = 7 - ins"
    by (auto simp: loadCompliancePresets_run split: prod.splits sum.splits)
  have "length (missing_presets pid s) \<le> length COMPLIANCE_PRESETS" unfolding missing_presets_def by (rule length_filter_le)
  then have seven: "length (missing_presets pid s) \<le> 7" by (simp add: COMPLIANCE_PRESETS_def)
  have rows: "trows (complianceItemsT s') = trows (complianceItemsT s) @ rs"
    and made: "list_all2 (\<lambda>mk r. \<exists>i. r = (mk i)\<lparr>row_id := i\<rparr>) (map (preset_item pid (clock s)) (missing_presets pid s)) rs"
    using complianceItemsL.insertRows_Inr [OF run] by simp_all
  note new = preset_rows [OF made]
  obtain t where "s' = s\<lparr>complianceItemsT := t\<rparr>"
    using complianceItemsL.insertRows_frame [of "map (preset_item pid (clock s)) (missing_presets pid s)" s] run
    by (auto simp: complianceItemsD_def)
  then have conn: "conn s'" using assms(1) by simp
  have mine: "filter (\<lambda>r. profileId r = Some pid) rs = rs" using new(2) by (simp add: list_all_iff filter_id_conv)
  have "ci_title ` set rs = fst ` set (missing_presets pid s)" using new(1) by (metis list.set_map)
  then have "missing_presets pid s' = []"
    unfolding missing_presets_def [of _ s'] rows filter_append mine set_append image_Un
    by (auto simp: filter_empty_conv missing_presets_def)
  with conn have "loadCompliancePresets pid s' = (Inr (0, 7), s')" by (simp add: loadCompliancePresets_run)
  moreover have "length rs = ins" using new(1) n by (metis length_map)
  ultimately show ?thesis using rows new n seven by simp
qed

section \<open>Bounds of the dashboard\<close>

lemma compliance_score_bounds: "k \<le> n \<Longrightarrow> 0 \<le> compliance_score k n \<and> compliance_score k n \<le> 100"
proof -
  assume "k \<le> n"
  then have "n > 0 \<Longrightarrow> (of_nat k / of_nat n) * 100 \<le> (1 :: rat) * 100" by (intro mult_right_mono) simp_all
  then have "n > 0 \<Longrightarrow> \<lfloor>(of_nat k / of_nat n) * 100 + 1 / 2 :: rat\<rfloor> < 101" unfolding floor_less_iff by linarith
  then show ?thesis by (auto simp: compliance_score_def math_round_def)
qed

lemma compliance_score_filter: "0 \<le> compliance_score (length (filter P xs)) (length xs)" "compliance_score (length (filter P xs)) (length xs) \<le> 100"
  using compliance_score_bounds [OF length_filter_le] by auto

lemma days_to_pos: "date_of now < d \<Longrightarrow> 1 \<le> days_to now d"
proof -
  assume "date_of now < d"
  then have "now < d * day_ms"
    unfolding date_of_def day_ms_def by (simp add: div_less_iff_less_mult)
  then have "0 < of_int (d * day_ms - now) / (of_int day_ms :: rat)" by (simp add: day_ms_def)
  then have "0 < days_to now d" unfolding days_to_def by simp
  then show ?thesis by simp
qed

lemma sort_head:
  assumes "sort xs = d # ds"
  shows "d \<in> set xs" and "x \<in> set xs \<Longrightarrow> d \<le> x"
proof -
  have "set xs = set (d # ds)" unfolding assms [symmetric] by simp
  moreover have "sorted (d # ds)" unfolding assms [symmetric] by (rule sorted_sort)
  ultimately show "d \<in> set xs" and "x \<in> set xs \<Longrightarrow> d \<le> x" by auto
qed

lemma next_deadline_Some:
  assumes "next_deadline now rows = Some d"
  shows "date_of now < d" and "\<exists>r \<in> set rows. te_eventDate r = d"
    and "\<And>r. r \<in> set rows \<Longrightarrow> date_of now < te_eventDate r \<Longrightarrow> te_status r \<noteq> None \<Longrightarrow> te_status r \<noteq> Some Completed \<Longrightarrow>
      d \<le> te_eventDate r"
proof -
  let ?open = "\<lambda>r. date_of now < te_eventDate r \<and> te_status r \<noteq> None \<and> te_status r \<noteq> Some Completed"
  let ?ds = "map te_eventDate (filter ?open rows)"
  obtain ds where ds: "sort ?ds = d # ds" using assms by (simp add: next_deadline_def split: list.splits)
  then have "d \<in> set ?ds" by (rule sort_head)
  then obtain r where r: "r \<in> set (filter ?open rows)" "d = te_eventDate r" unfolding set_map by (rule imageE)
  then show "date_of now < d" by simp
  show "\<exists>r \<in> set rows. te_eventDate r = d" using r by (intro bexI [of _ r]) simp_all
  show "d \<le> te_eventDate r"
    if "r \<in> set rows" "date_of now < te_eventDate r" "te_status r \<noteq> None" "te_status r \<noteq> Some Completed" for r
  proof (rule sort_head(2) [OF ds])
    have "r \<in> set (filter ?open rows)" using that by simp
    then show "te_eventDate r \<in> set ?ds" unfolding set_map by (rule imageI)
  qed
qed

lemma length_filter_mono: "(\<And>x. P x \<Longrightarrow> Q x) \<Longrightarrow> length (filter P xs) \<le> length (filter Q xs)"
  by (induction xs) (auto intro: le_SucI)

text \<open>The figures of the dashboard are read without a change of state and stay in range: the compliance score is
  a percentage, completed milestones and critical incidents do not exceed their totals, and the next deadline is
  the earliest date, after today, of an open event of the campaign, at least one day ahead.\<close>

theorem kpi_bounds:
  assumes "getDashboardKPIs pid s = (Inr (Some k), s')"
  shows "s' = s \<and> 0 \<le> complianceScore k \<and> complianceScore k \<le> 100 \<and>
    completedMilestones k \<le> totalMilestones k \<and> criticalIncidents k \<le> activeIncidents k \<and>
    (case nextDeadlineDate k of
       None \<Rightarrow> daysToNextDeadline k = None
     | Some d \<Rightarrow> date_of (clock s) < d \<and> daysToNextDeadline k = Some (days_to (clock s) d) \<and> 1 \<le> days_to (clock s) d \<and>
         list_all (\<lambda>r. profileId r = Some pid \<and> te_status r = Some Active \<and> date_of (clock s) < te_eventDate r \<longrightarrow>
           d \<le> te_eventDate r) (trows (timelineEventsT s)))"
proof -
  let ?events = "filter (\<lambda>r. profileId r = Some pid) (trows (timelineEventsT s))"
  have conn: "conn s" using assms by (simp add: getDashboardKPIs_def withDb_run split: if_splits)
  note k = assms [unfolded getDashboardKPIs_def, simplified withDb_run conn if_True bindE_run getE_run selectRows_run
      returnE_run Let_def table_simps prod.case sum.case]
  have days: "1 \<le> days_to (clock s) d"
    and least: "list_all (\<lambda>r. profileId r = Some pid \<and> te_status r = Some Active \<and> date_of (clock s) < te_eventDate r \<longrightarrow>
           d \<le> te_eventDate r) (trows (timelineEventsT s))"
    if "next_deadline (clock s) ?events = Some d" for d
    using next_deadline_Some [OF that] days_to_pos by (simp_all add: list_all_iff)
  have counts: "completedMilestones k \<le> totalMilestones k" "criticalIncidents k \<le> activeIncidents k"
    using k by (auto intro!: length_filter_mono)
  have score: "0 \<le> complianceScore k \<and> complianceScore k \<le> 100"
    using k by (auto simp del: filter_filter intro!: compliance_score_filter)
  have "nextDeadlineDate k = next_deadline (clock s) ?events"
    "daysToNextDeadline k = map_option (days_to (clock s)) (next_deadline (clock s) ?events)" "s' = s"
    using k by auto
  then show ?thesis
    using counts score next_deadline_Some(1) days least by (simp split: option.split)
qed

section \<open>Concrete runs\<close>

definition demo_event :: timelineEvent where
  "demo_event = \<lparr>row_id = 3, profileId = Some 1, te_title = ''Filing'', te_description = None, te_eventDate = 1, te_category = None,
     te_status = Some Active, te_location = None, te_priority = Some Critical, te_createdAt = 0, te_lastAlertedAt = None\<rparr>"

definition demo_planning :: world where
  "demo_planning = demo_world
     \<lparr>timelineEventsT := \<lparr>trows = [demo_event], nextId = 4\<rparr>, notifyConfigured := True, notifyUp := True\<rparr>"

lemma demo_planning_wf: "wf_ids demo_planning"
  by (simp add: demo_planning_def demo_event_def wf_ids_def demo_world_def empty_world_def no_rows_def ids_distinct_def
      demo_user_def demo_profile_def)

lemma demo_message:
  "validatePayload (deadline_title demo_event) (deadline_content 0 (demo_profile 1 1) demo_event) s =
     (Inr (trim (deadline_title demo_event), trim (deadline_content 0 (demo_profile 1 1) demo_event)), s)"
proof -
  have "\<lfloor>49 / 2 :: rat\<rfloor> = 24" by (simp add: floor_eq_iff)
  then show ?thesis
    by (simp add: validatePayload_def deadline_title_def deadline_content_def demo_event_def demo_profile_def trim_def
        trimLeft_def is_space_def hours_until_def math_round_def day_ms_def hour_ms_def show_priority_def show_int_def
        digits_rev.simps [of 24] digits_rev.simps [of 2] digits_rev.simps [of "Suc 0"] nullish_def run_simps)
qed

lemma demo_alert:
  "\<exists>s'. alertEvent (demo_profile 1 1) demo_event demo_planning = (Inr 1, s') \<and>
     trows (timelineEventsT s') = [demo_event\<lparr>te_lastAlertedAt := Some 0\<rparr>] \<and> conn s' \<and> clock s' = 0"
proof -
  have "clock demo_planning = 0" "notifyConfigured demo_planning" "notifyUp demo_planning" "conn demo_planning"
    by (simp_all add: demo_planning_def demo_world_def empty_world_def)
  moreover have "tchk timelineEventsD (demo_planning\<lparr>outbox := x\<rparr>) (demo_event\<lparr>te_lastAlertedAt := Some 0\<rparr>)" for x
    by (simp add: timelineEventsD_def timelineEvents_chk_def fko_def fk_def vc_def vco_def demo_event_def demo_planning_def
        demo_world_def empty_world_def demo_profile_def)
  moreover have "trows (timelineEventsT demo_planning) = [demo_event]" by (simp add: demo_planning_def)
  moreover have "te_lastAlertedAt demo_event = None" by (simp add: demo_event_def)
  ultimately show ?thesis
    by (simp add: alertEvent_def notifyOwner_def bindE_run [where m = "getE g" for g] bindE_run [where m = "validatePayload t c" for t c]
        bindE_run getE_run demo_message seqE_run modifyE_run returnE_run recently_alerted_def updateRows_def Let_def table_simps)
qed

lemma demo_check: "\<exists>s'. scheduled_deadlineCheck True demo_planning = (Inr (Some 1), s')"
proof -
  obtain s1 where s1: "alertEvent (demo_profile 1 1) demo_event demo_planning = (Inr 1, s1)"
    "trows (timelineEventsT s1) = [demo_event\<lparr>te_lastAlertedAt := Some 0\<rparr>]" "conn s1" "clock s1 = 0"
    using demo_alert by (elim exE conjE)
  have "conn demo_planning" "clock demo_planning = 0" "trows (timelineEventsT demo_planning) = [demo_event]"
    "trows (candidateProfilesT demo_planning) = [demo_profile 1 1, demo_profile 2 2]"
    by (simp_all add: demo_planning_def demo_world_def empty_world_def)
  moreover have "row_id (demo_profile i j) = i" for i j by (simp add: demo_profile_def)
  moreover have "profileId demo_event = Some 1" "due_within 0 48 demo_event"
    by (simp_all add: demo_event_def due_within_def date_of_def day_ms_def hour_ms_def)
  ultimately show ?thesis
    using s1
    by (simp add: scheduled_deadlineCheck_def getAllProfiles_def withDb_run bindE_run [of _ _ demo_planning] bindE_run [of _ _ s1]
        selectRows_run table_simps returnE_run order_by_def getUpcomingDeadlines_run)
qed

theorem deadline_check_once_witness:
  "\<exists>s'. scheduled_deadlineCheck True demo_planning = (Inr (Some 1), s') \<and>
     length (outbox s') = length (outbox demo_planning) + 1 \<and> scheduled_deadlineCheck True s' = (Inr (Some 0), s')"
proof -
  obtain s' where run: "scheduled_deadlineCheck True demo_planning = (Inr (Some 1), s')" using demo_check by (rule exE)
  have "conn demo_planning" "notifyUp demo_planning" by (simp_all add: demo_planning_def)
  then show ?thesis using deadline_check_once [OF _ demo_planning_wf run] run by simp
qed

theorem presets_idempotent_witness:
  "\<exists>s'. loadCompliancePresets 1 demo_world = (Inr (7, 0), s') \<and> loadCompliancePresets 1 s' = (Inr (0, 7), s')"
proof -
  have "missing_presets 1 demo_world = COMPLIANCE_PRESETS"
    by (simp add: missing_presets_def demo_world_def empty_world_def no_rows_def)
  moreover obtain rs s' where "insertRows complianceItemsD (map (preset_item 1 0) COMPLIANCE_PRESETS) demo_world = (Inr rs, s')"
    using insert_presets [of demo_world 1 COMPLIANCE_PRESETS 0]
    by (auto simp: insertRows_def COMPLIANCE_PRESETS_def fk_def vc_def demo_world_def empty_world_def no_rows_def demo_profile_def)
  ultimately have "\<exists>s'. loadCompliancePresets 1 demo_world = (Inr (7, 0), s')"
    by (simp add: loadCompliancePresets_run) (simp add: COMPLIANCE_PRESETS_def)
  then obtain s' where run: "loadCompliancePresets 1 demo_world = (Inr (7, 0), s')" by (rule exE)
  with presets_idempotent [OF _ run] show ?thesis by simp
qed

theorem kpi_bounds_witness:
  "\<exists>k. getDashboardKPIs 1 demo_planning = (Inr (Some k), demo_planning) \<and> complianceScore k \<le> 100 \<and>
     nextDeadlineDate k = Some 1"
proof -
  have "\<exists>k. getDashboardKPIs 1 demo_planning = (Inr (Some k), demo_planning) \<and> nextDeadlineDate k = Some 1"
    by (simp add: getDashboardKPIs_def withDb_run bindE_run getE_run selectRows_run returnE_run Let_def table_simps
        demo_planning_def demo_event_def next_deadline_def date_of_def day_ms_def)
  then show ?thesis using kpi_bounds [of 1 demo_planning _ demo_planning] by (elim exE conjE) (intro exI conjI, assumption, simp, assumption)
qed

end
