(* ===== verification/Team.thy ===== *)
theory Team
  imports Outbound
begin

text \<open>
  The campaign team: the router \<open>team\<close> of \<^verbatim>\<open>server/routers.ts\<close> with the membership functions of
  \<^verbatim>\<open>server/db.ts\<close>. An invitation is a membership row that carries the digest of a random token; the
  digest (\<open>createHash("sha256")\<close>) is the parameter \<open>digest\<close> and the drawn token an argument of the
  invitation. \<open>z.string().email()\<close> and \<open>z.string().url()\<close> are the parameters \<open>isEmail\<close> and \<open>isUrl\<close>.
\<close>

section \<open>Members and invitations\<close>

record memberView =
  mv_id :: int
  mv_profileId :: "int option"
  mv_userId :: "int option"
  mv_name :: string
  mv_email :: string
  mv_role :: profileRole
  mv_invitedAt :: time
  mv_acceptedAt :: "time option"

definition member_view :: "campaignMember \<Rightarrow> memberView" where
  "member_view m =
     \<lparr>mv_id = row_id m, mv_profileId = profileId m, mv_userId = cm_userId m, mv_name = cm_name m, mv_email = cm_email m,
      mv_role = cm_role m, mv_invitedAt = cm_invitedAt m, mv_acceptedAt = cm_acceptedAt m\<rparr>"

definition getCampaignMembers :: "int \<Rightarrow> (world, memberView list) proc" where
  "getCampaignMembers pid =
     withDb [] (bindE (selectRows campaignMembersD (\<lambda>r. profileId r = Some pid))
       (\<lambda>rows. returnE (map member_view (order_by cm_invitedAt rows))))"

definition hashInviteToken :: "(string \<Rightarrow> string) \<Rightarrow> string \<Rightarrow> string" where
  "hashInviteToken digest token = digest token"

definition new_member :: "int \<Rightarrow> string \<Rightarrow> string \<Rightarrow> profileRole \<Rightarrow> string \<Rightarrow> time \<Rightarrow> int \<Rightarrow> campaignMember" where
  "new_member pid email name role hash now i =
     \<lparr>row_id = i, profileId = Some pid, cm_userId = None, cm_name = name, cm_email = email, cm_role = role,
      cm_invitedAt = now, cm_acceptedAt = None, cm_inviteToken = Some hash\<rparr>"

definition inviteCampaignMember ::
  "(string \<Rightarrow> string) \<Rightarrow> string \<Rightarrow> int \<Rightarrow> string \<Rightarrow> string \<Rightarrow> profileRole \<Rightarrow> string option \<Rightarrow>
   (world, campaignMember \<times> string \<times> string option) proc" where
  "inviteCampaignMember digest token pid email name role origin =
     withDbOrThrow (PlainError ''DB not available'')
       (bindE (getE clock) (\<lambda>now.
        bindE (insertRow campaignMembersD None (new_member pid email name role (hashInviteToken digest token) now)) (\<lambda>row.
        returnE (row, token,
          (if truthy_str origin then Some (nullish origin [] @ ''/join?token='' @ token) else None)))))"

definition INVITE_TTL_MS :: int where
  "INVITE_TTL_MS = 7 * 24 * 60 * 60 * 1000"

definition isInviteExpired :: "time \<Rightarrow> time \<Rightarrow> bool" where
  "isInviteExpired now invitedAt \<longleftrightarrow> now - invitedAt > INVITE_TTL_MS"

definition normalizeEmail :: "string option \<Rightarrow> string" where
  "normalizeEmail e = toLowerCase (trim (nullish e []))"

text \<open>\<open>emailToSet\<close> with its check: the invited address binds the acceptance, a blank one is claimed.\<close>

definition bindInvitee :: "campaignMember \<Rightarrow> string option \<Rightarrow> (world, string option) proc" where
  "bindInvitee m userEmail =
     (if normalizeEmail (Some (cm_email m)) \<noteq> [] \<and> normalizeEmail userEmail \<noteq> []
      then seqE (guardE (normalizeEmail (Some (cm_email m)) = normalizeEmail userEmail)
             (TRPC FORBIDDEN ''This invite was issued to a different email address'')) (returnE None)
      else if normalizeEmail (Some (cm_email m)) = [] \<and> normalizeEmail userEmail \<noteq> []
      then returnE (map_option trim userEmail)
      else returnE None)"

definition accepted_member :: "int \<Rightarrow> time \<Rightarrow> string option \<Rightarrow> campaignMember \<Rightarrow> campaignMember" where
  "accepted_member userId now emailToSet r =
     r\<lparr>cm_userId := Some userId, cm_acceptedAt := Some now, cm_inviteToken := None,
       cm_email := (if truthy_str emailToSet then nullish emailToSet [] else cm_email r)\<rparr>"

definition acceptCampaignInvite ::
  "(string \<Rightarrow> string) \<Rightarrow> string \<Rightarrow> int \<Rightarrow> string option \<Rightarrow> (world, campaignMember) proc" where
  "acceptCampaignInvite digest token userId userEmail =
     withDbOrThrow (PlainError ''DB not available'')
       (bindE (getE clock) (\<lambda>now.
        bindE (selectRows campaignMembersD (\<lambda>r. cm_inviteToken r = Some (hashInviteToken digest token))) (\<lambda>rows.
        case rows of
          [] \<Rightarrow> throwE (TRPC BAD_REQUEST ''Invalid invite token'')
        | m # _ \<Rightarrow>
            seqE (guardE (\<not> isInviteExpired now (cm_invitedAt m)) (TRPC BAD_REQUEST ''This invite has expired''))
            (seqE (guardE (cm_acceptedAt m = None) (TRPC BAD_REQUEST ''Invite already accepted''))
            (bindE (bindInvitee m userEmail) (\<lambda>emailToSet.
             bindE (updateRows campaignMembersD
                 (\<lambda>r. cm_inviteToken r = Some (hashInviteToken digest token) \<and> cm_acceptedAt r = None)
                 (accepted_member userId now emailToSet)) (\<lambda>updated.
             case updated of
               [] \<Rightarrow> throwE (TRPC BAD_REQUEST ''Invite already accepted'')
             | r # _ \<Rightarrow> returnE r)))))))"

definition getMemberByInviteToken :: "(string \<Rightarrow> string) \<Rightarrow> string \<Rightarrow> (world, campaignMember option) proc" where
  "getMemberByInviteToken digest token =
     withDb None
       (bindE (getE clock) (\<lambda>now.
        bindE (selectRows campaignMembersD (\<lambda>r. cm_inviteToken r = Some (hashInviteToken digest token))) (\<lambda>rows.
        returnE (case rows of [] \<Rightarrow> None | m # _ \<Rightarrow> if isInviteExpired now (cm_invitedAt m) then None else Some m))))"

definition updateMemberRole :: "int \<Rightarrow> profileRole \<Rightarrow> (world, campaignMember option) proc" where
  "updateMemberRole memberId role =
     withDbOrThrow (PlainError ''DB not available'')
       (bindE (updateRows campaignMembersD (\<lambda>r. row_id r = memberId) (\<lambda>r. r\<lparr>cm_role := role\<rparr>)) (\<lambda>rows.
        returnE (first_row rows)))"

definition removeCampaignMember :: "int \<Rightarrow> (world, unit) proc" where
  "removeCampaignMember memberId =
     withDbOrThrow (PlainError ''DB not available'')
       (voidE (deleteRows campaignMembersD (\<lambda>r. row_id r = memberId)))"

definition logMembershipEvent :: "int \<Rightarrow> string \<Rightarrow> string \<Rightarrow> string option \<Rightarrow> (world, unit) proc" where
  "logMembershipEvent pid action actorName detail =
     logDataAccess pid None (Some actorName) SubjCampaignMembers action (Some 1)
       (Some (nullish detail (''membership '' @ action)))"

section \<open>The router\<close>

definition team_list :: "sessionUser option \<Rightarrow> jsValue \<Rightarrow> (world, memberView list) proc" where
  "team_list u raw =
     profileScopedProcedure Viewer u raw (\<lambda>_ role pid.
       bindE (getCampaignMembers pid) (\<lambda>members.
       returnE (if role = Owner \<or> role = Manager then members
         else map (\<lambda>m. m\<lparr>mv_email := maskEmail (Some (mv_email m))\<rparr>) members)))"

definition team_myRole :: "sessionUser option \<Rightarrow> jsValue \<Rightarrow> (world, profileRole) proc" where
  "team_myRole u raw = profileScopedProcedure Viewer u raw (\<lambda>_ role _. returnE role)"

record inviteInput =
  in_email :: string
  in_name :: string
  in_role :: profileRole
  in_origin :: "string option"

definition invite_input :: "(string \<Rightarrow> bool) \<Rightarrow> (string \<Rightarrow> bool) \<Rightarrow> inviteInput \<Rightarrow> bool" where
  "invite_input isEmail isUrl d \<longleftrightarrow> isEmail (in_email d) \<and> length (in_name d) \<le> 200 \<and> in_role d \<in> {Manager, Viewer} \<and>
     (case in_origin d of None \<Rightarrow> True | Some o' \<Rightarrow> isUrl o')"

definition invite_content :: "sessionUser \<Rightarrow> inviteInput \<Rightarrow> string \<Rightarrow> string option \<Rightarrow> string" where
  "invite_content x d candidateName inviteUrl =
     su_fullName x @ '' invited '' @ in_name d @ '' ('' @ in_email d @ '') as '' @ show_profileRole (in_role d) @
     '' to the '' @ candidateName @ '' campaign. Invite link: '' @ nullish inviteUrl ''(no URL - origin not provided)'' @
     '' The invitee can use this link to join the campaign team.''"

definition team_invite ::
  "(string \<Rightarrow> bool) \<Rightarrow> (string \<Rightarrow> bool) \<Rightarrow> (string \<Rightarrow> string) \<Rightarrow> string \<Rightarrow> sessionUser option \<Rightarrow> jsValue \<Rightarrow> inviteInput \<Rightarrow>
   (world, campaignMember \<times> string \<times> string option) proc" where
  "team_invite isEmail isUrl digest token u raw d =
     profileScopedProcedure Manager u raw (\<lambda>x _ pid.
       seqE (zodE (invite_input isEmail isUrl d))
       (bindE (inviteCampaignMember digest token pid (in_email d) (in_name d) (in_role d) (in_origin d)) (\<lambda>result.
        seqE (logMembershipEvent pid ''invite'' (su_fullName x)
               (Some (''invited '' @ in_email d @ '' as '' @ show_profileRole (in_role d))))
        (bindE (getOrCreateUserProfile (su_id x)) (\<lambda>profile.
         let candidateName = (case profile of None \<Rightarrow> ''Campaign'' | Some p \<Rightarrow> cp_candidateName p)
         in seqE (tryNotifyOwner (''New Team Invite - '' @ candidateName)
                   (invite_content x d candidateName (snd (snd result))))
              (returnE result))))))"

definition team_acceptInvite :: "(string \<Rightarrow> string) \<Rightarrow> string \<Rightarrow> (world, campaignMember option) proc" where
  "team_acceptInvite digest token =
     bindE (getMemberByInviteToken digest token) (\<lambda>member.
     returnE (map_option (\<lambda>m. m\<lparr>cm_email := maskEmail (Some (cm_email m))\<rparr>) member))"

definition team_confirmAccept ::
  "(string \<Rightarrow> bool) \<Rightarrow> (string \<Rightarrow> string) \<Rightarrow> sessionUser option \<Rightarrow> string \<Rightarrow> string \<Rightarrow> (world, campaignMember) proc" where
  "team_confirmAccept isEmail digest u token email =
     requireUser u (\<lambda>x.
       seqE (zodE (isEmail email \<and> length email \<le> 320))
       (bindE (acceptCampaignInvite digest token (su_id x) (Some email)) (\<lambda>member.
        seqE (logMembershipEvent (nullish (profileId member) 0) ''accept'' (su_fullName x)
               (Some (''accepted invite as '' @ show_profileRole (cm_role member))))
          (returnE member))))"

text \<open>\<open>assertProfileRole(ctx.user, member.profileId, minRole)\<close>: nobody holds a role on a null profile.\<close>

definition assertMemberRole :: "sessionUser option \<Rightarrow> campaignMember \<Rightarrow> profileRole \<Rightarrow> (world, int) proc" where
  "assertMemberRole u m minRole =
     (case profileId m of
        None \<Rightarrow> throwE (NO_PROFILE_ACCESS_ERR minRole)
      | Some pid \<Rightarrow> seqE (assertProfileRole u pid minRole) (returnE pid))"

definition team_updateRole :: "sessionUser option \<Rightarrow> int \<Rightarrow> profileRole \<Rightarrow> (world, campaignMember option) proc" where
  "team_updateRole u memberId role =
     requireUser u (\<lambda>x.
       seqE (zodE (role \<in> {Manager, Viewer}))
       (bindE (getMemberOrThrow memberId) (\<lambda>member.
        bindE (assertMemberRole u member Manager) (\<lambda>pid.
        seqE (guardE (cm_role member \<noteq> Owner) (TRPC FORBIDDEN ''The profile owner's role cannot be changed''))
        (bindE (updateMemberRole memberId role) (\<lambda>updated.
         seqE (logMembershipEvent pid ''role_change'' (su_fullName x)
                (Some (''role '' @ show_profileRole (cm_role member) @ '' -> '' @ show_profileRole role)))
           (returnE updated)))))))"

definition team_remove :: "sessionUser option \<Rightarrow> int \<Rightarrow> (world, unit) proc" where
  "team_remove u memberId =
     requireUser u (\<lambda>x.
       bindE (getMemberOrThrow memberId) (\<lambda>member.
       bindE (assertMemberRole u member Manager) (\<lambda>pid.
       seqE (guardE (cm_role member \<noteq> Owner) (TRPC FORBIDDEN ''The profile owner cannot be removed from the campaign''))
       (seqE (removeCampaignMember memberId)
         (logMembershipEvent pid ''remove'' (su_fullName x) (Some (''removed '' @ cm_email member)))))))"

section \<open>Ids and other campaigns\<close>

lemma assertMemberRole_preserves [preserves_intros]: "preserves I (assertMemberRole u m r)"
  unfolding assertMemberRole_def by (intro preserves_intros)

lemma wf_logMembershipEvent [preserves_intros]: "preserves wf_ids (logMembershipEvent pid action actor detail)"
  unfolding logMembershipEvent_def by (intro preserves_intros)

lemma wf_team_procedures [preserves_intros]:
  "preserves wf_ids (team_list u raw)"
  "preserves wf_ids (team_myRole u raw)"
  "preserves wf_ids (team_invite isEmail isUrl digest token u raw d)"
  "preserves wf_ids (team_acceptInvite digest token)"
  "preserves wf_ids (team_confirmAccept isEmail digest u token email)"
  "preserves wf_ids (team_updateRole u i role)"
  "preserves wf_ids (team_remove u i)"
  unfolding team_list_def getCampaignMembers_def team_myRole_def team_invite_def inviteCampaignMember_def Let_def
    team_acceptInvite_def getMemberByInviteToken_def team_confirmAccept_def acceptCampaignInvite_def bindInvitee_def
    team_updateRole_def updateMemberRole_def team_remove_def removeCampaignMember_def
  by (intro preserves_intros; simp add: accepted_member_def)+

lemma getMemberOrThrow_run:
  "getMemberOrThrow i s =
     ((if conn s then (case filter (\<lambda>r. row_id r = i) (trows (campaignMembersT s)) of
         [] \<Rightarrow> Inl (TRPC NOT_FOUND ''Member not found'') | m # _ \<Rightarrow> Inr m) else Inl (TRPC NOT_FOUND ''Member not found'')), s)"
  by (simp add: getMemberOrThrow_def withDbOrThrow_run bindE_run selectRows_run table_simps throwE_run returnE_run split: list.split)

lemma getMemberOrThrow_Inr:
  assumes "getMemberOrThrow i s = (Inr m, s')"
  shows "s' = s" and "m \<in> set (trows (campaignMembersT s))" and "row_id m = i" and "conn s"
proof -
  have "filter (\<lambda>r. row_id r = i) (trows (campaignMembersT s)) \<noteq> [] \<and> conn s \<and> s' = s \<and>
      m = hd (filter (\<lambda>r. row_id r = i) (trows (campaignMembersT s)))"
    using assms by (auto simp: getMemberOrThrow_run split: if_splits list.splits)
  moreover from this have "m \<in> set (filter (\<lambda>r. row_id r = i) (trows (campaignMembersT s)))" using hd_in_set by metis
  ultimately show "s' = s" "m \<in> set (trows (campaignMembersT s))" "row_id m = i" "conn s" by simp_all
qed

lemma assertMemberRole_Inr:
  assumes "assertMemberRole u m r s = (Inr pid, s')"
  shows "s' = s" and "profileId m = Some pid" and "outsider_at u q s \<Longrightarrow> pid \<noteq> q"
proof -
  obtain x t where p: "profileId m = Some pid" "assertProfileRole u pid r s = (Inr x, t)" "s' = t"
    using assms by (cases "profileId m") (auto simp: assertMemberRole_def throwE_run returnE_run elim!: seqE_InrE)
  then show "s' = s" "profileId m = Some pid" using assertProfileRole_state [of u pid r s] by simp_all
  show "pid \<noteq> q" if "outsider_at u q s" using assertProfileRole_Inr(2) [OF p(2) that] .
qed

lemma assertMemberRole_state: "snd (assertMemberRole u m r s) = s"
  using assertProfileRole_state [of u _ r s]
  by (cases "profileId m") (auto simp: assertMemberRole_def throwE_run seqE_run returnE_run split: prod.split sum.split, (metis snd_conv)+)

lemma outsider_member_guarded:
  assumes "\<And>s m pid. pid \<noteq> q \<Longrightarrow> row_owned campaignMembersD i pid s \<Longrightarrow> outsider u q s (snd (f m pid s))"
  shows "follows (outsider u q) (bindE (getMemberOrThrow i) (\<lambda>m. bindE (assertMemberRole u m r) (f m)))"
proof -
  have "outsider u q s (snd (bindE (getMemberOrThrow i) (\<lambda>m. bindE (assertMemberRole u m r) (f m)) s))" if at: "outsider_at u q s" for s
  proof (cases "getMemberOrThrow i s")
    case (Pair res s1)
    then have s1: "s1 = s" by (simp add: getMemberOrThrow_run)
    show ?thesis
    proof (cases res)
      case (Inl e)
      with Pair s1 show ?thesis by (simp add: bindE_run outsider_step.refl)
    next
      case (Inr m)
      note m = getMemberOrThrow_Inr [OF Pair [unfolded Inr]]
      show ?thesis
      proof (cases "assertMemberRole u m r s")
        case inner: (Pair res' s2)
        then have s2: "s2 = s" using assertMemberRole_state [of u m r s] by simp
        show ?thesis
        proof (cases res')
          case (Inl e)
          with Pair inner s1 s2 Inr show ?thesis by (simp add: bindE_run outsider_step.refl)
        next
          case (Inr pid)
          note p = assertMemberRole_Inr [OF inner [unfolded Inr]]
          have "row_owned campaignMembersD i pid s"
            unfolding row_owned_def using m(2,3) p(2) by (intro bexI [of _ m]) simp_all
          from assms [OF p(3) [OF at] this, of m] show ?thesis
            using Pair inner s1 s2 Inr \<open>res = Inr m\<close> by (simp add: bindE_run)
        qed
      qed
    qed
  qed
  then show ?thesis by (auto simp: follows_def outsider_def)
qed

lemma outsider_logMembershipEvent [outsider_intros]:
  "pid \<noteq> q \<Longrightarrow> follows (outsider u q) (logMembershipEvent pid action actor detail)"
  unfolding logMembershipEvent_def logDataAccess_def by (intro outsider_intros) simp_all

lemma outsider_assertMemberRole [outsider_intros]: "follows (outsider u q) (assertMemberRole u' m r)"
  by (simp add: follows_def assertMemberRole_state outsider_step.refl)

lemma outsider_guard_at: "outsider u q s (snd (m s)) \<Longrightarrow> outsider u q s (snd (seqE (guardE b e) m s))"
  by (simp add: seqE_run guardE_run outsider_step.refl)

lemma outsider_team_owned [outsider_intros]:
  "follows (outsider u q) (team_updateRole u i role)"
  "follows (outsider u q) (team_remove u i)"
proof -
  have upd: "outsider u q s (snd (updateMemberRole i role s))" if "pid \<noteq> q" "row_owned campaignMembersD i pid s" for s pid
    unfolding updateMemberRole_def withDbOrThrow_run
    using campaignMembersT.owned_update [OF that] by (auto intro!: outsider_step.bindE_at outsider_intros simp: outsider_step.refl)
  have del: "outsider u q s (snd (removeCampaignMember i s))" if "pid \<noteq> q" "row_owned campaignMembersD i pid s" for s pid
    unfolding removeCampaignMember_def withDbOrThrow_run
    using campaignMembersT.owned_delete [OF that] by (auto intro!: outsider_step.voidE_at simp: outsider_step.refl)
  show "follows (outsider u q) (team_updateRole u i role)"
    unfolding team_updateRole_def
    by (intro outsider_requireUser outsider_step.seqE outsider_plain outsider_member_guarded outsider_guard_at
        outsider_step.bindE_at [OF upd] outsider_intros; assumption)
  show "follows (outsider u q) (team_remove u i)"
    unfolding team_remove_def seqE_def [of "removeCampaignMember i"]
    by (intro outsider_requireUser outsider_member_guarded outsider_guard_at outsider_step.bindE_at [OF del] outsider_intros; assumption)
qed

lemma outsider_team_procedures [outsider_intros]:
  "follows (outsider u q) (team_list u raw)"
  "follows (outsider u q) (team_myRole u raw)"
  "follows (outsider u q) (team_acceptInvite digest token)"
  unfolding team_list_def getCampaignMembers_def team_myRole_def team_acceptInvite_def getMemberByInviteToken_def
  by (intro outsider_intros; simp)+

lemma outsider_invite [outsider_intros]: "follows (outsider u q) (team_invite isEmail isUrl digest token u raw d)"
  unfolding team_invite_def inviteCampaignMember_def Let_def
  by (intro outsider_intros; simp add: new_member_def)

section \<open>Invitations work once\<close>

text \<open>What holds of every membership; an accepted membership carries no token; no invitation carries a given digest.\<close>

definition members_all :: "(campaignMember \<Rightarrow> bool) \<Rightarrow> world \<Rightarrow> bool" where
  "members_all P s \<longleftrightarrow> list_all P (trows (campaignMembersT s))"


definition accepted_cleared :: "world \<Rightarrow> bool" where
  "accepted_cleared s \<longleftrightarrow> members_all (\<lambda>r. cm_acceptedAt r \<noteq> None \<longrightarrow> cm_inviteToken r = None) s"

definition token_unused :: "string \<Rightarrow> world \<Rightarrow> bool" where
  "token_unused h s \<longleftrightarrow> members_all (\<lambda>r. cm_inviteToken r \<noteq> Some h) s"

text \<open>The completed and the failed calls that touch memberships, in any order and by anybody, with the clock free to
  move in between; no invitation draws a token with the digest \<open>h\<close>.\<close>

inductive team_step :: "(string \<Rightarrow> string) \<Rightarrow> string \<Rightarrow> world \<Rightarrow> world \<Rightarrow> bool" for digest h where
  invite: "digest token \<noteq> h \<Longrightarrow> team_step digest h s (snd (team_invite isEmail isUrl digest token u raw d s))"
| accept: "team_step digest h s (snd (team_confirmAccept isEmail digest u token email s))"
| updateRole: "team_step digest h s (snd (team_updateRole u i role s))"
| remove: "team_step digest h s (snd (team_remove u i s))"
| tick: "team_step digest h s (s\<lparr>clock := t\<rparr>)"

inductive team_run :: "(string \<Rightarrow> string) \<Rightarrow> string \<Rightarrow> world \<Rightarrow> world \<Rightarrow> bool" for digest h where
  stop: "team_run digest h s s"
| step: "team_step digest h s s' \<Longrightarrow> team_run digest h s' s'' \<Longrightarrow> team_run digest h s s''"

lemma members_all_frame [simp]:
  "members_all P (s\<lparr>dataAccessAuditT := t\<rparr>) = members_all P s"
  "members_all P (s\<lparr>candidateProfilesT := t'\<rparr>) = members_all P s"
  "members_all P (s\<lparr>outbox := x\<rparr>) = members_all P s"
  "members_all P (s\<lparr>clock := c\<rparr>) = members_all P s"
  by (simp_all add: members_all_def)

lemma members_all_other:
  "preserves (members_all P) (insertRow dataAccessAuditD eid mk)"
  "preserves (members_all P) (insertRow candidateProfilesD eid mk')"
  "preserves (members_all P) (updateRows candidateProfilesD Q f)"
  "preserves (members_all P) (modifyE (\<lambda>s. s\<lparr>outbox := g s\<rparr>))"
  by (simp_all add: preserves_def insertRow_def updateRows_def Let_def dataAccessAuditD_def candidateProfilesD_def modifyE_run)

lemma members_all_insert:
  "(\<And>i. P ((mk i)\<lparr>row_id := i\<rparr>)) \<Longrightarrow> preserves (members_all P) (insertRow campaignMembersD None mk)"
  by (simp add: preserves_def insertRow_def Let_def campaignMembersD_def members_all_def)

lemma list_all_map_if: "(\<And>r. P r \<Longrightarrow> P (f r)) \<Longrightarrow> list_all P rs \<Longrightarrow> list_all P (map (\<lambda>r. if Q r then f r else r) rs)"
  by (induction rs) auto

lemma list_all_filter: "list_all P rs \<Longrightarrow> list_all P (filter Q rs)"
  by (induction rs) auto

lemma members_all_update:
  "(\<And>r. P r \<Longrightarrow> P (f r)) \<Longrightarrow> preserves (members_all P) (updateRows campaignMembersD Q f)"
  by (simp add: preserves_def updateRows_def Let_def campaignMembersD_def members_all_def list_all_map_if)

lemma members_all_delete: "preserves (members_all P) (deleteRows campaignMembersD Q)"
  by (simp add: preserves_def deleteRows_def Let_def campaignMembersD_def members_all_def list_all_filter)

lemmas members_all_intros = preserves_intros members_all_other members_all_insert members_all_update members_all_delete

lemma members_all_helpers:
  "preserves (members_all P) (logMembershipEvent pid action actor detail)"
  "preserves (members_all P) (getOrCreateUserProfile uid)"
  "preserves (members_all P) (tryNotifyOwner t c)"
  unfolding logMembershipEvent_def logDataAccess_def getOrCreateUserProfile_def upsertRow_def tryNotifyOwner_def notifyOwner_def
    validatePayload_def
  by (intro members_all_intros)+

lemma members_all_team:
  "(\<And>i now pid. P (new_member pid (in_email d) (in_name d) (in_role d) (digest token) now i)) \<Longrightarrow>
     preserves (members_all P) (team_invite isEmail isUrl digest token u raw d)"
  "(\<And>r uid now e. P r \<Longrightarrow> P (accepted_member uid now e r)) \<Longrightarrow> preserves (members_all P) (team_confirmAccept isEmail digest u token' email)"
  "(\<And>r. P r \<Longrightarrow> P (r\<lparr>cm_role := role\<rparr>)) \<Longrightarrow> preserves (members_all P) (team_updateRole u i role)"
  "preserves (members_all P) (team_remove u i)"
  unfolding team_invite_def inviteCampaignMember_def Let_def hashInviteToken_def team_confirmAccept_def acceptCampaignInvite_def
    bindInvitee_def team_updateRole_def updateMemberRole_def team_remove_def removeCampaignMember_def
  by (intro members_all_intros members_all_helpers; simp add: new_member_def)+

lemma team_step_keeps:
  assumes "team_step digest h s s'"
  shows "accepted_cleared s \<Longrightarrow> accepted_cleared s'" and "token_unused h s \<Longrightarrow> token_unused h s'"
  using assms unfolding accepted_cleared_def token_unused_def
  by (induction rule: team_step.induct)
    (auto intro!: preservesD [OF members_all_team(1)] preservesD [OF members_all_team(2)] preservesD [OF members_all_team(3)]
      preservesD [OF members_all_team(4)] simp: new_member_def accepted_member_def)

lemma team_run_keeps: "team_run digest h s s' \<Longrightarrow> token_unused h s \<Longrightarrow> token_unused h s'"
  by (induction rule: team_run.induct) (auto intro: team_step_keeps)

lemma acceptCampaignInvite_Inr:
  assumes "acceptCampaignInvite digest token uid e s = (Inr m, s')"
  obtains email rest where "conn s"
    "updateRows campaignMembersD (\<lambda>r. cm_inviteToken r = Some (digest token) \<and> cm_acceptedAt r = None)
       (accepted_member uid (clock s) email) s = (Inr (m # rest), s')"
proof -
  have conn: "conn s" using assms by (simp add: acceptCampaignInvite_def withDbOrThrow_run split: if_splits)
  obtain m0 ms where "filter (\<lambda>r. cm_inviteToken r = Some (digest token)) (trows (campaignMembersT s)) = m0 # ms"
    using assms conn
    by (cases "filter (\<lambda>r. cm_inviteToken r = Some (digest token)) (trows (campaignMembersT s))")
      (simp_all add: acceptCampaignInvite_def withDbOrThrow_run bindE_run getE_run selectRows_run table_simps hashInviteToken_def throwE_run)
  with assms conn have "bindE (bindInvitee m0 e) (\<lambda>email.
      bindE (updateRows campaignMembersD (\<lambda>r. cm_inviteToken r = Some (digest token) \<and> cm_acceptedAt r = None)
        (accepted_member uid (clock s) email)) (\<lambda>updated.
      case updated of [] \<Rightarrow> throwE (TRPC BAD_REQUEST ''Invite already accepted'') | r # _ \<Rightarrow> returnE r)) s = (Inr m, s')"
    by (simp add: acceptCampaignInvite_def withDbOrThrow_run bindE_run [of "getE g" for g] bindE_run [of "selectRows D P" for D P]
        getE_run selectRows_run table_simps hashInviteToken_def seqE_run guardE_run split: if_splits)
  then obtain email t where b: "bindInvitee m0 e s = (Inr email, t)"
    and rest: "bindE (updateRows campaignMembersD (\<lambda>r. cm_inviteToken r = Some (digest token) \<and> cm_acceptedAt r = None)
        (accepted_member uid (clock s) email)) (\<lambda>updated.
      case updated of [] \<Rightarrow> throwE (TRPC BAD_REQUEST ''Invite already accepted'') | r # _ \<Rightarrow> returnE r) t = (Inr m, s')"
    by (rule bindE_InrE)
  have "t = s" using b by (auto simp: bindInvitee_def seqE_run guardE_run returnE_run split: if_splits)
  with rest obtain ups s1 where up: "updateRows campaignMembersD (\<lambda>r. cm_inviteToken r = Some (digest token) \<and> cm_acceptedAt r = None)
        (accepted_member uid (clock s) email) s = (Inr ups, s1)"
    and fin: "(case ups of [] \<Rightarrow> throwE (TRPC BAD_REQUEST ''Invite already accepted'') | r # _ \<Rightarrow> returnE r) s1 = (Inr m, s')"
    by (auto elim!: bindE_InrE)
  from fin obtain rest where "ups = m # rest" "s1 = s'" by (cases ups) (simp_all add: throwE_run returnE_run)
  with up conn that show ?thesis by simp
qed

lemma accept_uses_token:
  assumes "accepted_cleared s" and "acceptCampaignInvite digest token uid e s = (Inr m, s')"
  shows "token_unused (digest token) s'"
proof -
  obtain email rest where up: "updateRows campaignMembersD (\<lambda>r. cm_inviteToken r = Some (digest token) \<and> cm_acceptedAt r = None)
       (accepted_member uid (clock s) email) s = (Inr (m # rest), s')"
    using assms(2) by (rule acceptCampaignInvite_Inr)
  have rows: "trows (campaignMembersT s') = map (\<lambda>r. if cm_inviteToken r = Some (digest token) \<and> cm_acceptedAt r = None
      then accepted_member uid (clock s) email r else r) (trows (campaignMembersT s))"
    using campaignMembersL.update_Inr [OF up] by simp
  have "list_all (\<lambda>r. cm_inviteToken r \<noteq> Some h) (map (\<lambda>r. if cm_inviteToken r = Some h \<and> cm_acceptedAt r = None
      then accepted_member uid now em r else r) rs)"
    if "list_all (\<lambda>r. cm_acceptedAt r \<noteq> None \<longrightarrow> cm_inviteToken r = None) rs" for h now em rs
    using that by (induction rs) (auto simp: accepted_member_def)
  from this [OF assms(1) [unfolded accepted_cleared_def members_all_def]] show ?thesis
    unfolding token_unused_def members_all_def rows .
qed

text \<open>C18: an invitation link works at most once. After an acceptance, whatever team calls follow, at any later time
  and by anybody, the token is refused as invalid and the preview of the link finds nothing, as long as no new
  invitation draws a token with the same digest.\<close>

theorem invite_single_use:
  assumes "accepted_cleared s" and "acceptCampaignInvite digest token uid e s = (Inr m, s')"
    and "team_run digest (digest token) s' s''" and "conn s''"
  shows "acceptCampaignInvite digest token uid' e' s'' = (Inl (TRPC BAD_REQUEST ''Invalid invite token''), s'') \<and>
    getMemberByInviteToken digest token s'' = (Inr None, s'')"
proof -
  have "token_unused (digest token) s''"
    by (rule team_run_keeps [OF assms(3) accept_uses_token [OF assms(1,2)]])
  then have "filter (\<lambda>r. cm_inviteToken r = Some (digest token)) (trows (campaignMembersT s'')) = []"
    unfolding token_unused_def members_all_def list_all_iff by (intro filter_False)
  with assms(4) show ?thesis
    by (simp add: acceptCampaignInvite_def getMemberByInviteToken_def withDbOrThrow_run withDb_run bindE_run getE_run selectRows_run
        table_simps hashInviteToken_def throwE_run returnE_run)
qed

lemma acceptCampaignInvite_Inl: "acceptCampaignInvite digest token uid em s = (Inl e, s') \<Longrightarrow> s' = s"
  by (auto simp: acceptCampaignInvite_def withDbOrThrow_run bindE_run getE_run selectRows_run seqE_run guardE_run throwE_run
      returnE_run bindInvitee_def split: if_splits list.splits prod.splits sum.splits
      dest: campaignMembersL.update_Inl campaignMembersL.update_none)

text \<open>Accepting an invitation of another campaign.\<close>

definition not_invited :: "string \<Rightarrow> int \<Rightarrow> world \<Rightarrow> bool" where
  "not_invited h q s \<longleftrightarrow> list_all (\<lambda>r. cm_inviteToken r \<noteq> Some h) (tenant_rows campaignMembersD q s)"

lemma accept_elsewhere:
  assumes "not_invited (digest token) q s"
  shows "outsider u q s (snd (team_confirmAccept isEmail digest u token email s))"
proof -
  have other: "profileId r \<noteq> Some q" if "r \<in> set (trows (campaignMembersT s))" "cm_inviteToken r = Some (digest token)" for r
    using that assms by (auto simp: not_invited_def tenant_rows_def list_all_iff)
  have upd: "outsider u q s (snd (updateRows campaignMembersD (\<lambda>r. cm_inviteToken r = Some (digest token) \<and> cm_acceptedAt r = None)
      (accepted_member uid now e) s))" for uid now e
    using campaignMembersT.update_same_at [of s "\<lambda>r. cm_inviteToken r = Some (digest token) \<and> cm_acceptedAt r = None" q "accepted_member uid now e"]
      preservesD [OF campaignMembersT.wf_update [of "accepted_member uid now e"]] other
    by (auto simp: outsider_def outsider_at_def accepted_member_def)
  have acc: "outsider u q s (snd (acceptCampaignInvite digest token uid em s)) \<and>
     (\<forall>m. fst (acceptCampaignInvite digest token uid em s) = Inr m \<longrightarrow> nullish (profileId m) 0 \<noteq> q)" for uid em
  proof (cases "acceptCampaignInvite digest token uid em s")
    case (Pair res s')
    show ?thesis
    proof (cases res)
      case (Inr m)
      obtain e rest where up: "updateRows campaignMembersD (\<lambda>r. cm_inviteToken r = Some (digest token) \<and> cm_acceptedAt r = None)
          (accepted_member uid (clock s) e) s = (Inr (m # rest), s')"
        using Pair Inr by (auto elim: acceptCampaignInvite_Inr)
      note m = campaignMembersL.update_Inr [OF up]
      have "profileId m \<noteq> None" using m by (simp add: campaignMembersD_def campaignMembers_chk_def)
      moreover have "m \<in> set (map (accepted_member uid (clock s) e) (filter (\<lambda>r. cm_inviteToken r = Some (digest token) \<and> cm_acceptedAt r = None)
          (trows (campaignMembersT s))))" using m [THEN conjunct1] by (simp only: rows_of_simps) (metis list.set_intros(1))
      then obtain r where "r \<in> set (filter (\<lambda>r. cm_inviteToken r = Some (digest token) \<and> cm_acceptedAt r = None) (trows (campaignMembersT s)))"
        "m = accepted_member uid (clock s) e r" unfolding set_map by (rule imageE)
      then have "profileId m \<noteq> Some q" using other [of r] by (simp add: accepted_member_def)
      ultimately show ?thesis using upd [of uid "clock s" e] up Pair Inr by auto
    next
      case (Inl e)
      then show ?thesis using Pair acceptCampaignInvite_Inl [of digest token uid em s e s'] by (simp add: outsider_step.refl)
    qed
  qed
  show ?thesis
  proof (cases u)
    case None
    then show ?thesis by (simp add: team_confirmAccept_def requireUser_def throwE_run outsider_step.refl)
  next
    case (Some x)
    have "outsider u q s (snd (bindE (acceptCampaignInvite digest token (su_id x) (Some email)) (\<lambda>member.
        seqE (logMembershipEvent (nullish (profileId member) 0) ''accept'' (su_fullName x)
               (Some (''accepted invite as '' @ show_profileRole (cm_role member)))) (returnE member)) s))"
    proof (cases "acceptCampaignInvite digest token (su_id x) (Some email) s")
      case (Pair res s')
      note a = acc [of "su_id x" "Some email", unfolded Pair fst_conv snd_conv]
      show ?thesis
      proof (cases res)
        case (Inl e)
        with a Pair show ?thesis by (simp add: bindE_run)
      next
        case (Inr m)
        have "follows (outsider u q) (seqE (logMembershipEvent (nullish (profileId m) 0) ''accept'' (su_fullName x)
               (Some (''accepted invite as '' @ show_profileRole (cm_role m)))) (returnE m))"
          using a Inr by (intro outsider_intros) simp
        from outsider_step.trans [OF a [THEN conjunct1] followsD [OF this]] Pair Inr show ?thesis by (simp add: bindE_run)
      qed
    qed
    then show ?thesis
      unfolding Some team_confirmAccept_def requireUser_def option.case by (simp add: seqE_run zodE_def guardE_run outsider_step.refl)
  qed
qed

section \<open>Joining a campaign\<close>

lemma map_if_last:
  "list_all (\<lambda>r. \<not> Q r) rs \<Longrightarrow> Q x \<Longrightarrow> map (\<lambda>r. if Q r then f r else r) (rs @ [x]) = rs @ [f x]"
  by (induction rs) auto

lemma filter_last: "list_all (\<lambda>r. \<not> Q r) rs \<Longrightarrow> Q x \<Longrightarrow> filter Q (rs @ [x]) = [x]"
  by (induction rs) auto

lemma inviteCampaignMember_Inr:
  assumes "inviteCampaignMember digest token pid email name role origin s = (Inr (row, tok, url), s')"
  shows "conn s" and "tok = token" and "campaignMembers_chk s row"
    and "row = new_member pid email name role (digest token) (clock s) (row_id row)"
    and "\<exists>t. s' = s\<lparr>campaignMembersT := t\<rparr> \<and> trows t = trows (campaignMembersT s) @ [row]"
proof -
  show conn: "conn s" using assms by (simp add: inviteCampaignMember_def withDbOrThrow_run split: if_splits)
  have ins: "insertRow campaignMembersD None (new_member pid email name role (digest token) (clock s)) s = (Inr row, s')" and tok: "tok = token"
    using assms conn by (auto simp: inviteCampaignMember_def withDbOrThrow_run bindE_run getE_run returnE_run hashInviteToken_def
        split: prod.splits sum.splits)
  show "tok = token" by fact
  note row = campaignMembersL.insert_Inr [OF ins]
  show "campaignMembers_chk s row" using row by (simp add: campaignMembersD_def)
  have "row = (new_member pid email name role (digest token) (clock s) (row_id row))\<lparr>row_id := row_id row\<rparr>" using row by blast
  then show "row = new_member pid email name role (digest token) (clock s) (row_id row)" by (simp add: new_member_def)
  obtain t where "s' = s\<lparr>campaignMembersT := t\<rparr>"
    using campaignMembersL.insert_frame [of None "new_member pid email name role (digest token) (clock s)" s] ins
    by (auto simp: campaignMembersD_def)
  with row show "\<exists>t. s' = s\<lparr>campaignMembersT := t\<rparr> \<and> trows t = trows (campaignMembersT s) @ [row]" by (intro exI [of _ t]) simp
qed

text \<open>The state in which an invitation just issued meets its acceptance at time \<open>t\<close>.\<close>

lemma invited_state:
  assumes "inviteCampaignMember digest token pid email name role origin s = (Inr (row, tok, url), s1)"
    and "token_unused (digest token) s"
  shows "filter (\<lambda>r. cm_inviteToken r = Some (digest token)) (trows (campaignMembersT (s1\<lparr>clock := t\<rparr>))) = [row]"
proof -
  note inv = inviteCampaignMember_Inr [OF assms(1)]
  have "cm_inviteToken row = Some (digest token)" by (subst inv(4)) (simp add: new_member_def)
  moreover obtain tb where "s1 = s\<lparr>campaignMembersT := tb\<rparr>" "trows tb = trows (campaignMembersT s) @ [row]"
    using inv(5) by (elim exE conjE)
  ultimately show ?thesis
    using assms(2) filter_last [of "\<lambda>r. cm_inviteToken r = Some (digest token)" "trows (campaignMembersT s)" row]
    by (simp add: token_unused_def members_all_def)
qed

lemma join_update:
  assumes "inviteCampaignMember digest token pid email name role origin s = (Inr (row, tok, url), s1)"
    and "token_unused (digest token) s" and "fk (usersT s) uid"
  shows "\<exists>s2. updateRows campaignMembersD (\<lambda>r. cm_inviteToken r = Some (digest token) \<and> cm_acceptedAt r = None)
      (accepted_member uid t None) (s1\<lparr>clock := t\<rparr>) = (Inr [accepted_member uid t None row], s2) \<and>
    trows (campaignMembersT s2) = trows (campaignMembersT s) @ [accepted_member uid t None row] \<and>
    candidateProfilesT s2 = candidateProfilesT s"
proof -
  note inv = inviteCampaignMember_Inr [OF assms(1)]
  let ?Q = "\<lambda>r. cm_inviteToken r = Some (digest token) \<and> cm_acceptedAt r = None"
  have Q: "?Q row" by (subst inv(4), subst inv(4)) (simp add: new_member_def)
  obtain tb where tb: "s1 = s\<lparr>campaignMembersT := tb\<rparr>" "trows tb = trows (campaignMembersT s) @ [row]"
    using inv(5) by (elim exE conjE)
  have none: "list_all (\<lambda>r. \<not> ?Q r) (trows (campaignMembersT s))"
    using assms(2) unfolding token_unused_def members_all_def by (rule list.pred_mono_strong) simp
  have hit: "filter ?Q (trows tb) = [row]" unfolding tb(2) by (rule filter_last [OF none Q])
  have all: "map (\<lambda>r. if ?Q r then accepted_member uid t None r else r) (trows tb) =
      trows (campaignMembersT s) @ [accepted_member uid t None row]"
    unfolding tb(2) by (rule map_if_last [OF none Q])
  have "campaignMembers_chk (s1\<lparr>clock := t\<rparr>) (accepted_member uid t None row)"
    using inv(3) assms(3) unfolding tb(1) by (simp add: campaignMembers_chk_def accepted_member_def truthy_str_def fko_def vco_def)
  then show ?thesis
    using hit all unfolding tb(1) by (simp add: updateRows_def Let_def campaignMembersD_def)
qed

text \<open>An invited user can join. Of an invitation issued at time \<open>clock s\<close>, an acceptance with the invited address,
  compared up to case and surrounding white space, within seven days gives a user who held no role on the campaign
  the invited role there; after seven days it is refused as expired, with another address as issued to somebody else.\<close>

theorem invited_user_joins:
  assumes "inviteCampaignMember digest token pid email name role origin s = (Inr (row, tok, url), s1)"
    and "token_unused (digest token) s" and "fk (usersT s) uid" and "held_role pid uid s = None"
    and "normalizeEmail (Some email) \<noteq> []" and "normalizeEmail (Some email') \<noteq> []"
  shows "if t - clock s > INVITE_TTL_MS
    then acceptCampaignInvite digest token uid (Some email') (s1\<lparr>clock := t\<rparr>) = (Inl (TRPC BAD_REQUEST ''This invite has expired''), s1\<lparr>clock := t\<rparr>)
    else if normalizeEmail (Some email) \<noteq> normalizeEmail (Some email')
    then acceptCampaignInvite digest token uid (Some email') (s1\<lparr>clock := t\<rparr>) =
      (Inl (TRPC FORBIDDEN ''This invite was issued to a different email address''), s1\<lparr>clock := t\<rparr>)
    else \<exists>m s2. acceptCampaignInvite digest token uid (Some email') (s1\<lparr>clock := t\<rparr>) = (Inr m, s2) \<and>
      row_id m = row_id row \<and> held_role pid uid s2 = Some role"
proof -
  note inv = inviteCampaignMember_Inr [OF assms(1)]
  have row: "cm_invitedAt row = clock s" "cm_acceptedAt row = None" "cm_email row = email" "cm_role row = role" "profileId row = Some pid"
    by (subst inv(4), simp add: new_member_def)+
  have conn: "conn (s1\<lparr>clock := t\<rparr>)" using inv(1,5) by auto
  obtain s2 where s2: "updateRows campaignMembersD (\<lambda>r. cm_inviteToken r = Some (digest token) \<and> cm_acceptedAt r = None)
      (accepted_member uid t None) (s1\<lparr>clock := t\<rparr>) = (Inr [accepted_member uid t None row], s2)"
    "trows (campaignMembersT s2) = trows (campaignMembersT s) @ [accepted_member uid t None row]"
    "candidateProfilesT s2 = candidateProfilesT s"
    using join_update [OF assms(1-3), of t] by (elim exE conjE)
  have "held_role pid uid s2 = Some role"
  proof -
    have "\<not> list_ex (\<lambda>r. cp_userId r = Some uid) (profile_rows pid s)"
      and "filter (\<lambda>r. cm_userId r = Some uid) (tenant_rows campaignMembersD pid s) = []"
      using assms(4) by (auto simp: held_role_def split: if_splits list.splits)
    then show ?thesis
      using s2(2,3) row by (simp add: held_role_def profile_rows_def tenant_rows_def accepted_member_def)
  qed
  then show ?thesis
    using conn row assms(5,6) s2(1) invited_state [OF assms(1,2), of t]
    by (simp add: acceptCampaignInvite_def withDbOrThrow_run bindE_run getE_run selectRows_run table_simps hashInviteToken_def
        seqE_run guardE_run throwE_run returnE_run isInviteExpired_def bindInvitee_def accepted_member_def)
qed

section \<open>Owners stay owners\<close>

definition owner_ids :: "world \<Rightarrow> int list" where
  "owner_ids s = map row_id (filter (\<lambda>r. cm_role r = Owner) (trows (campaignMembersT s)))"

definition owners_are :: "int list \<Rightarrow> world \<Rightarrow> bool" where
  "owners_are os s \<longleftrightarrow> wf_ids s \<and> owner_ids s = os"

lemma preserves_conj: "preserves I m \<Longrightarrow> preserves J m \<Longrightarrow> preserves (\<lambda>s. I s \<and> J s) m"
  by (simp add: preserves_def)

lemma owners_areI:
  "preserves wf_ids m \<Longrightarrow> preserves (\<lambda>s. owner_ids s = os) m \<Longrightarrow> preserves (owners_are os) m"
  unfolding owners_are_def by (rule preserves_conj)

lemma owner_ids_other:
  "preserves (\<lambda>s. owner_ids s = os) (insertRow dataAccessAuditD eid mk)"
  "preserves (\<lambda>s. owner_ids s = os) (insertRow candidateProfilesD eid mk')"
  "preserves (\<lambda>s. owner_ids s = os) (updateRows candidateProfilesD Q f)"
  "preserves (\<lambda>s. owner_ids s = os) (modifyE (\<lambda>s. s\<lparr>outbox := g s\<rparr>))"
  by (simp_all add: preserves_def insertRow_def updateRows_def Let_def dataAccessAuditD_def candidateProfilesD_def modifyE_run owner_ids_def)

lemma owner_ids_insert:
  "(\<And>i. cm_role (mk i) \<noteq> Owner) \<Longrightarrow> preserves (\<lambda>s. owner_ids s = os) (insertRow campaignMembersD None mk)"
  by (simp add: preserves_def insertRow_def Let_def campaignMembersD_def owner_ids_def)

lemma owner_ids_map:
  assumes "\<And>r. r \<in> set rs \<Longrightarrow> Q r \<Longrightarrow> (cm_role (f r) = Owner) = (cm_role r = Owner) \<and> row_id (f r) = row_id r"
  shows "map row_id (filter (\<lambda>r. cm_role r = Owner) (map (\<lambda>r. if Q r then f r else r) rs)) = map row_id (filter (\<lambda>r. cm_role r = Owner) rs)"
  using assms by (induction rs) auto

lemma owner_ids_filter:
  assumes "\<And>r. r \<in> set rs \<Longrightarrow> Q r \<Longrightarrow> cm_role r \<noteq> Owner"
  shows "filter (\<lambda>r. cm_role r = Owner) (filter (\<lambda>r. \<not> Q r) rs) = filter (\<lambda>r. cm_role r = Owner) rs"
  using assms by (induction rs) auto

lemma owner_ids_update:
  "(\<And>r. r \<in> set (trows (campaignMembersT s)) \<Longrightarrow> Q r \<Longrightarrow> (cm_role (f r) = Owner) = (cm_role r = Owner) \<and> row_id (f r) = row_id r) \<Longrightarrow>
   owner_ids (snd (updateRows campaignMembersD Q f s)) = owner_ids s"
  using owner_ids_map [of "trows (campaignMembersT s)" Q f] by (simp add: updateRows_def Let_def campaignMembersD_def owner_ids_def)

lemma owner_ids_delete:
  "(\<And>r. r \<in> set (trows (campaignMembersT s)) \<Longrightarrow> Q r \<Longrightarrow> cm_role r \<noteq> Owner) \<Longrightarrow>
   owner_ids (snd (deleteRows campaignMembersD Q s)) = owner_ids s"
  using owner_ids_filter [of "trows (campaignMembersT s)" Q] by (simp add: deleteRows_def Let_def campaignMembersD_def owner_ids_def)

lemma preserves_zod: "(b \<Longrightarrow> preserves I m) \<Longrightarrow> preserves I (seqE (zodE b) m)"
  by (auto simp: preserves_def seqE_run zodE_def guardE_run)

lemma owner_ids_helpers:
  "preserves (\<lambda>s. owner_ids s = os) (logMembershipEvent pid action actor detail)"
  "preserves (\<lambda>s. owner_ids s = os) (getOrCreateUserProfile uid)"
  "preserves (\<lambda>s. owner_ids s = os) (tryNotifyOwner t c)"
  unfolding logMembershipEvent_def logDataAccess_def getOrCreateUserProfile_def upsertRow_def tryNotifyOwner_def notifyOwner_def
    validatePayload_def
  by (intro preserves_intros owner_ids_other)+

lemma owner_ids_invite: "preserves (\<lambda>s. owner_ids s = os) (team_invite isEmail isUrl digest token u raw d)"
  unfolding team_invite_def inviteCampaignMember_def Let_def
  by (intro procedures_preserve preserves_zod preserves_intros owner_ids_insert owner_ids_helpers)
    (auto simp: new_member_def invite_input_def)

lemma owner_ids_accept: "preserves (\<lambda>s. owner_ids s = os) (team_confirmAccept isEmail digest u token email)"
proof -
  have "preserves (\<lambda>s. owner_ids s = os) (updateRows campaignMembersD Q (accepted_member uid now e))" for Q uid now e
    unfolding preserves_def using owner_ids_update [of _ Q "accepted_member uid now e"] by (simp add: accepted_member_def)
  then show ?thesis
    unfolding team_confirmAccept_def acceptCampaignInvite_def bindInvitee_def
    by (intro preserves_intros owner_ids_helpers)
qed

text \<open>What a guarded edit of one membership may rely on.\<close>

lemma member_guarded_preserves:
  assumes "\<And>s m pid. I s \<Longrightarrow> m \<in> set (trows (campaignMembersT s)) \<Longrightarrow> row_id m = i \<Longrightarrow> I (snd (f m pid s))"
  shows "preserves I (bindE (getMemberOrThrow i) (\<lambda>m. bindE (assertMemberRole u m r) (f m)))"
proof -
  have "I (snd (bindE (getMemberOrThrow i) (\<lambda>m. bindE (assertMemberRole u m r) (f m)) s))" if "I s" for s
  proof (cases "fst (getMemberOrThrow i s)")
    case (Inl e)
    then have "getMemberOrThrow i s = (Inl e, s)" by (simp add: getMemberOrThrow_run)
    then show ?thesis using that by (simp add: bindE_run)
  next
    case (Inr m)
    then have get: "getMemberOrThrow i s = (Inr m, s)" by (simp add: getMemberOrThrow_run)
    obtain res where res: "assertMemberRole u m r s = (res, s)" using assertMemberRole_state [of u m r s] by (metis prod.collapse)
    show ?thesis
      using get res that assms [OF that getMemberOrThrow_Inr(2,3) [OF get]] by (cases res) (simp_all add: bindE_run)
  qed
  then show ?thesis by (simp add: preserves_def)
qed

lemma owners_guard_at:
  "owners_are os s \<Longrightarrow> (b \<Longrightarrow> owners_are os (snd (m s))) \<Longrightarrow> owners_are os (snd (seqE (guardE b e) m s))"
  by (simp add: seqE_run guardE_run)

lemma owners_bind_at: "owners_are os (snd (m s)) \<Longrightarrow> (\<And>x. preserves (owners_are os) (f x)) \<Longrightarrow> owners_are os (snd (bindE m f s))"
  by (cases "m s") (auto simp: bindE_run preserves_def split: sum.split)

lemma owners_log: "preserves (owners_are os) (logMembershipEvent pid action actor detail)"
  by (intro owners_areI wf_logMembershipEvent owner_ids_helpers)

lemma same_member:
  assumes "wf_ids s" "m \<in> set (trows (campaignMembersT s))" "r \<in> set (trows (campaignMembersT s))" "row_id r = row_id m"
  shows "r = m"
proof -
  have "distinct (map row_id (trows (campaignMembersT s)))" using assms(1) by (simp add: wf_ids_def ids_distinct_def)
  then have "inj_on row_id (set (trows (campaignMembersT s)))" by (simp add: distinct_map)
  from inj_onD [OF this assms(4,3,2)] show ?thesis .
qed

lemma owners_updateRole: "preserves (owners_are os) (team_updateRole u i role)"
proof -
  have "owners_are os (snd (updateMemberRole i role s))"
    if "role \<in> {Manager, Viewer}" "owners_are os s" "m \<in> set (trows (campaignMembersT s))" "row_id m = i" "cm_role m \<noteq> Owner" for s m
  proof -
    have wf: "wf_ids s" using that(2) by (simp add: owners_are_def)
    have "owner_ids (snd (updateRows campaignMembersD (\<lambda>r. row_id r = i) (\<lambda>r. r\<lparr>cm_role := role\<rparr>) s)) = owner_ids s"
    proof (rule owner_ids_update)
      fix r assume "r \<in> set (trows (campaignMembersT s))" "row_id r = i"
      then have "r = m" using same_member [OF wf that(3)] that(4) by simp
      then show "(cm_role (r\<lparr>cm_role := role\<rparr>) = Owner) = (cm_role r = Owner) \<and> row_id (r\<lparr>cm_role := role\<rparr>) = row_id r"
        using that(1,5) by auto
    qed
    moreover have "snd (updateMemberRole i role s) = (if conn s then snd (updateRows campaignMembersD (\<lambda>r. row_id r = i) (\<lambda>r. r\<lparr>cm_role := role\<rparr>) s) else s)"
      by (simp add: updateMemberRole_def withDbOrThrow_run bindE_run returnE_run split: prod.split sum.split)
    moreover have "preserves wf_ids (updateMemberRole i role)"
      unfolding updateMemberRole_def by (intro preserves_intros) simp
    then have "wf_ids (snd (updateMemberRole i role s))" using wf by (rule preservesD)
    ultimately show ?thesis using that(2) by (simp add: owners_are_def)
  qed
  then show ?thesis
    unfolding team_updateRole_def
    by (intro procedures_preserve preserves_zod member_guarded_preserves owners_guard_at owners_bind_at preserves_seqE owners_log
        preserves_returnE) simp_all
qed

lemma owners_remove: "preserves (owners_are os) (team_remove u i)"
proof -
  have "owners_are os (snd (removeCampaignMember i s))"
    if "owners_are os s" "m \<in> set (trows (campaignMembersT s))" "row_id m = i" "cm_role m \<noteq> Owner" for s m
  proof -
    have wf: "wf_ids s" using that(1) by (simp add: owners_are_def)
    have "owner_ids (snd (deleteRows campaignMembersD (\<lambda>r. row_id r = i) s)) = owner_ids s"
    proof (rule owner_ids_delete)
      fix r assume "r \<in> set (trows (campaignMembersT s))" "row_id r = i"
      then have "r = m" using same_member [OF wf that(2)] that(3) by simp
      then show "cm_role r \<noteq> Owner" using that(4) by simp
    qed
    moreover have "snd (removeCampaignMember i s) = (if conn s then snd (deleteRows campaignMembersD (\<lambda>r. row_id r = i) s) else s)"
      by (simp add: removeCampaignMember_def withDbOrThrow_run voidE_run split: prod.split sum.split)
    moreover have "preserves wf_ids (removeCampaignMember i)"
      unfolding removeCampaignMember_def by (intro preserves_intros)
    then have "wf_ids (snd (removeCampaignMember i s))" using wf by (rule preservesD)
    ultimately show ?thesis using that(1) by (simp add: owners_are_def)
  qed
  then show ?thesis
    unfolding team_remove_def seqE_def [of "removeCampaignMember i"]
    by (intro procedures_preserve member_guarded_preserves owners_guard_at owners_bind_at owners_log) simp_all
qed

lemma owners_tick: "owners_are os (s\<lparr>clock := t\<rparr>) = owners_are os s"
  by (simp add: owners_are_def owner_ids_def wf_ids_def)

lemma owners_step: "team_step digest h s s' \<Longrightarrow> owners_are os s \<Longrightarrow> owners_are os s'"
  by (induction rule: team_step.induct)
    (auto intro: preservesD [OF owners_areI [OF wf_team_procedures(3) owner_ids_invite]]
      preservesD [OF owners_areI [OF wf_team_procedures(5) owner_ids_accept]] preservesD [OF owners_updateRole]
      preservesD [OF owners_remove] simp: owners_tick)

text \<open>No sequence of team calls, by whomever, makes or unmakes an owner: the memberships with the role \<open>owner\<close> are
  the same ones after it as before.\<close>

theorem owner_memberships_fixed:
  assumes "team_run digest h s s'" and "wf_ids s"
  shows "owner_ids s' = owner_ids s"
proof -
  have "owners_are os s \<Longrightarrow> owners_are os s'" for os
    using assms(1) by (induction rule: team_run.induct) (auto intro: owners_step)
  from this [of "owner_ids s"] show ?thesis using assms(2) by (simp add: owners_are_def)
qed

section \<open>Concrete runs\<close>

definition demo_invited :: world where
  "demo_invited = demo_world\<lparr>campaignMembersT :=
     \<lparr>trows = [new_member 1 ''chi@x'' ''Chi'' Viewer ''tok'' 0 1], nextId = 2\<rparr>\<rparr>"

lemma demo_invite:
  "inviteCampaignMember (\<lambda>t. t) ''tok'' 1 ''chi@x'' ''Chi'' Viewer None demo_world =
     (Inr (new_member 1 ''chi@x'' ''Chi'' Viewer ''tok'' 0 1, ''tok'', None), demo_invited)"
  by (simp add: inviteCampaignMember_def demo_invited_def hashInviteToken_def insertRow_def Let_def new_member_def table_simps
      campaignMembers_chk_def fko_def fk_def vc_def vco_def demo_world_def empty_world_def no_rows_def demo_profile_def run_simps)

lemma demo_invite_facts:
  "token_unused ''tok'' demo_world" "fk (usersT demo_world) 2" "held_role 1 2 demo_world = None" "accepted_cleared demo_invited"
  by (simp_all add: token_unused_def members_all_def fk_def held_role_def accepted_cleared_def demo_invited_def new_member_def
      profile_rows_def tenant_rows_def demo_world_def empty_world_def no_rows_def demo_user_def demo_profile_def table_simps)

lemma demo_normalized:
  "normalizeEmail (Some ''chi@x'') = ''chi@x''" "normalizeEmail (Some ''Chi@X '') = ''chi@x''"
  by code_simp+

theorem invited_user_joins_witness:
  "\<exists>m s2. acceptCampaignInvite (\<lambda>t. t) ''tok'' 2 (Some ''Chi@X '') (demo_invited\<lparr>clock := 1000\<rparr>) = (Inr m, s2) \<and>
     held_role 1 2 s2 = Some Viewer"
  using invited_user_joins [OF demo_invite, of 2 "''Chi@X ''" 1000] demo_invite_facts
  by (simp add: demo_normalized INVITE_TTL_MS_def) blast

lemma demo_accept: "\<exists>m s'. acceptCampaignInvite (\<lambda>t. t) ''tok'' 2 None demo_invited = (Inr m, s') \<and> conn s'"
  by (simp add: acceptCampaignInvite_def demo_invited_def new_member_def hashInviteToken_def isInviteExpired_def INVITE_TTL_MS_def
      bindInvitee_def normalizeEmail_def trim_def trimLeft_def toLowerCase_def accepted_member_def updateRows_def Let_def
      truthy_str_def table_simps campaignMembers_chk_def fko_def fk_def vc_def vco_def demo_world_def empty_world_def
      no_rows_def demo_user_def demo_profile_def run_simps)

theorem invite_single_use_witness:
  "\<exists>m s'. acceptCampaignInvite (\<lambda>t. t) ''tok'' 2 None demo_invited = (Inr m, s') \<and>
     acceptCampaignInvite (\<lambda>t. t) ''tok'' 1 None (s'\<lparr>clock := 5\<rparr>) = (Inl (TRPC BAD_REQUEST ''Invalid invite token''), s'\<lparr>clock := 5\<rparr>)"
proof -
  obtain m s' where run: "acceptCampaignInvite (\<lambda>t. t) ''tok'' 2 None demo_invited = (Inr m, s')" and "conn s'"
    using demo_accept by (elim exE conjE)
  have "team_run (\<lambda>t. t) ''tok'' s' (s'\<lparr>clock := 5\<rparr>)" by (rule team_run.step [OF team_step.tick team_run.stop])
  then show ?thesis
    using invite_single_use [OF demo_invite_facts(4) run, of "s'\<lparr>clock := 5\<rparr>" 1 None] run \<open>conn s'\<close> by simp
qed

theorem owner_memberships_fixed_witness:
  "owner_ids (snd (team_remove (Some ada) 1 (demo_invited\<lparr>campaignMembersT :=
     \<lparr>trows = [new_member 1 ''ada@x'' ''Ada'' Owner ''t'' 0 1, new_member 1 ''chi@x'' ''Chi'' Viewer ''tok'' 0 2], nextId = 3\<rparr>\<rparr>))) = [1]"
    (is "owner_ids (snd (team_remove _ _ ?s)) = _")
proof -
  have "team_run (\<lambda>t. t) ''h'' ?s (snd (team_remove (Some ada) 1 ?s))" by (rule team_run.step [OF team_step.remove team_run.stop])
  moreover have "wf_ids ?s"
    by (simp add: wf_ids_def ids_distinct_def demo_invited_def new_member_def demo_world_def empty_world_def no_rows_def
        demo_user_def demo_profile_def)
  ultimately show ?thesis using owner_memberships_fixed by (simp add: owner_ids_def new_member_def)
qed

end
