(* ===== verification/Json_Text.thy ===== *)
theory Json_Text
  imports Campaign_Prelude
begin

text \<open>
  JSON values and the two library functions the program uses on them: \<open>JSON.stringify\<close> and
  \<open>JSON.parse\<close>. Characters are the code units up to 255 that HOL's strings have; a number is a
  decimal \<open>m / 10 ^ k\<close> in lowest terms, which is what a double prints as between \<open>1e-6\<close> and \<open>1e21\<close>;
  the keys of an object are kept in insertion order. The main lemma is that a value read back from
  its own text is the value.
\<close>

section \<open>Values\<close>

type_synonym decimal = "int \<times> nat"

datatype json =
    JNull
  | JBool bool
  | JNum decimal
  | JStr string
  | JArr "json list"
  | JObj "(string \<times> json) list"

section \<open>Printing\<close>

definition hex_digit :: "nat \<Rightarrow> char" where
  "hex_digit n = (if n < 10 then char_of (48 + n) else char_of (87 + n))"

definition json_char :: "char \<Rightarrow> string" where
  "json_char c =
     (if c = CHR 0x22 then [CHR 0x5C, CHR 0x22]
      else if c = CHR 0x5C then [CHR 0x5C, CHR 0x5C]
      else if c = CHR 0x08 then [CHR 0x5C, CHR ''b'']
      else if c = CHR 0x0C then [CHR 0x5C, CHR ''f'']
      else if c = CHR 0x0A then [CHR 0x5C, CHR ''n'']
      else if c = CHR 0x0D then [CHR 0x5C, CHR ''r'']
      else if c = CHR 0x09 then [CHR 0x5C, CHR ''t'']
      else if of_char c < (32 :: nat) then [CHR 0x5C, CHR ''u'', CHR ''0'', CHR ''0'', hex_digit (of_char c div 16), hex_digit (of_char c mod 16)]
      else [c])"

definition json_string :: "string \<Rightarrow> string" where
  "json_string s = [CHR 0x22] @ concat (map json_char s) @ [CHR 0x22]"

definition json_field :: "string \<Rightarrow> string \<Rightarrow> string" where
  "json_field k v = json_string k @ '':'' @ v"

definition json_object :: "string list \<Rightarrow> string" where
  "json_object fs = ''{'' @ join '','' fs @ ''}''"

definition json_opt :: "string \<Rightarrow> string option \<Rightarrow> string list" where
  "json_opt k v = (case v of None \<Rightarrow> [] | Some x \<Rightarrow> [json_field k (json_string x)])"

definition show_nat :: "nat \<Rightarrow> string" where
  "show_nat n = rev (digits_rev n)"

definition pad_zeros :: "nat \<Rightarrow> string \<Rightarrow> string" where
  "pad_zeros k ds = replicate (k - length ds) (CHR ''0'') @ ds"

definition show_decimal :: "decimal \<Rightarrow> string" where
  "show_decimal d =
     (case d of (m, k) \<Rightarrow>
        let n = nat \<bar>m\<bar>
        in (if m < 0 then ''-'' else []) @ show_nat (n div 10 ^ k) @
           (if k = 0 then [] else ''.'' @ pad_zeros k (show_nat (n mod 10 ^ k))))"

fun stringify :: "json \<Rightarrow> string" where
  "stringify JNull = ''null''"
| "stringify (JBool b) = (if b then ''true'' else ''false'')"
| "stringify (JNum d) = show_decimal d"
| "stringify (JStr s) = json_string s"
| "stringify (JArr vs) = ''['' @ join '','' (map stringify vs) @ '']''"
| "stringify (JObj fs) = json_object (map (\<lambda>(k, v). json_field k (stringify v)) fs)"

section \<open>Parsing\<close>

definition json_ws :: "char \<Rightarrow> bool" where
  "json_ws c \<longleftrightarrow> c \<in> {CHR '' '', CHR 0x09, CHR 0x0A, CHR 0x0D}"

definition skip_ws :: "string \<Rightarrow> string" where
  "skip_ws s = dropWhile json_ws s"

definition digits_val :: "string \<Rightarrow> nat" where
  "digits_val ds = foldl (\<lambda>n c. n * 10 + (of_char c - 48)) 0 ds"

definition hex_val :: "char \<Rightarrow> nat option" where
  "hex_val c =
     (let n = of_char c in
      if 48 \<le> n \<and> n \<le> 57 then Some (n - 48)
      else if 97 \<le> n \<and> n \<le> 102 then Some (n - 87)
      else if 65 \<le> n \<and> n \<le> 70 then Some (n - 55)
      else None)"

text \<open>The code unit of \<open>\u\<close> and four hexadecimal digits, if the model has the character.\<close>

definition unicode_char :: "char \<Rightarrow> char \<Rightarrow> char \<Rightarrow> char \<Rightarrow> char option" where
  "unicode_char a b c d =
     (case (hex_val a, hex_val b, hex_val c, hex_val d) of
        (Some w, Some x, Some y, Some z) \<Rightarrow>
          (let n = ((w * 16 + x) * 16 + y) * 16 + z in if n < 256 then Some (char_of n) else None)
      | _ \<Rightarrow> None)"

definition escape_char :: "char \<Rightarrow> char option" where
  "escape_char e =
     map_of [(CHR 0x22, CHR 0x22), (CHR 0x5C, CHR 0x5C), (CHR ''/'', CHR ''/''), (CHR ''b'', CHR 0x08),
             (CHR ''f'', CHR 0x0C), (CHR ''n'', CHR 0x0A), (CHR ''r'', CHR 0x0D), (CHR ''t'', CHR 0x09)] e"

text \<open>The rest of a string literal after its opening quote.\<close>

fun parse_chars :: "string \<Rightarrow> (string \<times> string) option" where
  "parse_chars [] = None"
| "parse_chars (c # cs) =
     (if c = CHR 0x22 then Some ([], cs)
      else if c = CHR 0x5C then
        (case cs of
           [] \<Rightarrow> None
         | e # cs' \<Rightarrow>
             if e = CHR ''u'' then
               (case cs' of
                  h1 # h2 # h3 # h4 # rest \<Rightarrow>
                    (case unicode_char h1 h2 h3 h4 of
                       None \<Rightarrow> None
                     | Some x \<Rightarrow> map_option (apfst ((#) x)) (parse_chars rest))
                | _ \<Rightarrow> None)
             else (case escape_char e of
                     None \<Rightarrow> None
                   | Some x \<Rightarrow> map_option (apfst ((#) x)) (parse_chars cs')))
      else if of_char c < (32 :: nat) then None
      else map_option (apfst ((#) c)) (parse_chars cs))"

text \<open>A number: sign, integer part without superfluous zeros, fraction, exponent.\<close>

fun lowest_terms :: "int \<Rightarrow> nat \<Rightarrow> decimal" where
  "lowest_terms m 0 = (m, 0)"
| "lowest_terms m (Suc k) = (if m mod 10 = 0 then lowest_terms (m div 10) k else (m, Suc k))"

definition int_part :: "string \<Rightarrow> string" where
  "int_part s = (if take 1 s = ''0'' then ''0'' else takeWhile is_digit s)"

definition parse_fraction :: "string \<Rightarrow> (string \<times> string) option" where
  "parse_fraction s =
     (if take 1 s = ''.''
      then let ds = takeWhile is_digit (drop 1 s) in if ds = [] then None else Some (ds, dropWhile is_digit (drop 1 s))
      else Some ([], s))"

definition parse_exponent :: "string \<Rightarrow> (int \<times> string) option" where
  "parse_exponent s =
     (if take 1 s = ''e'' \<or> take 1 s = ''E''
      then let r = drop 1 s;
               q = (if take 1 r = ''-'' \<or> take 1 r = ''+'' then drop 1 r else r);
               ds = takeWhile is_digit q
           in if ds = [] then None
              else Some ((if take 1 r = ''-'' then - 1 else 1) * int (digits_val ds), dropWhile is_digit q)
      else Some (0, s))"

definition scaled :: "int \<Rightarrow> nat \<Rightarrow> int \<Rightarrow> decimal" where
  "scaled m k e = (if int k \<le> e then (m * 10 ^ nat (e - int k), 0) else lowest_terms m (nat (int k - e)))"

definition parse_unsigned :: "int \<Rightarrow> string \<Rightarrow> (decimal \<times> string) option" where
  "parse_unsigned g s =
     (let ip = int_part s
      in if ip = [] then None
         else Option.bind (parse_fraction (drop (length ip) s)) (\<lambda>(fp, s2).
              Option.bind (parse_exponent s2) (\<lambda>(e, s3).
              Some (scaled (g * int (digits_val (ip @ fp))) (length fp) e, s3))))"

definition parse_number :: "string \<Rightarrow> (decimal \<times> string) option" where
  "parse_number s = (if take 1 s = ''-'' then parse_unsigned (- 1) (drop 1 s) else parse_unsigned 1 s)"

text \<open>A later field of the same name replaces the value and keeps the place of the first.\<close>

fun set_field :: "string \<Rightarrow> json \<Rightarrow> (string \<times> json) list \<Rightarrow> (string \<times> json) list" where
  "set_field k v [] = [(k, v)]"
| "set_field k v ((k', v') # fs) = (if k = k' then (k, v) # fs else (k', v') # set_field k v fs)"

definition starts_with :: "string \<Rightarrow> string \<Rightarrow> bool" where
  "starts_with s p \<longleftrightarrow> take (length p) s = p"

text \<open>Recursive descent; every call of a subparser consumes a character, so fuel of the length of
  the text is enough. \<open>parse_elements\<close> and \<open>parse_fields\<close> read what follows an element.\<close>

fun parse_value :: "nat \<Rightarrow> string \<Rightarrow> (json \<times> string) option"
  and parse_elements :: "nat \<Rightarrow> json list \<Rightarrow> string \<Rightarrow> (json \<times> string) option"
  and parse_fields :: "nat \<Rightarrow> (string \<times> json) list \<Rightarrow> string \<Rightarrow> (json \<times> string) option" where
  "parse_value 0 s = None"
| "parse_value (Suc n) s0 =
     (let s = skip_ws s0 in
      if starts_with s ''null'' then Some (JNull, drop 4 s)
      else if starts_with s ''true'' then Some (JBool True, drop 4 s)
      else if starts_with s ''false'' then Some (JBool False, drop 5 s)
      else (case s of
              [] \<Rightarrow> None
            | c # r \<Rightarrow>
                if c = CHR 0x22 then map_option (apfst JStr) (parse_chars r)
                else if c = CHR ''['' then
                  (if starts_with (skip_ws r) '']'' then Some (JArr [], drop 1 (skip_ws r)) else parse_elements n [] r)
                else if c = CHR ''{'' then
                  (if starts_with (skip_ws r) ''}'' then Some (JObj [], drop 1 (skip_ws r)) else parse_fields n [] r)
                else map_option (apfst JNum) (parse_number s)))"
| "parse_elements 0 acc s = None"
| "parse_elements (Suc n) acc s =
     (case parse_value n s of
        None \<Rightarrow> None
      | Some (v, s1) \<Rightarrow>
          (case skip_ws s1 of
             [] \<Rightarrow> None
           | c # r \<Rightarrow>
               if c = CHR '','' then parse_elements n (acc @ [v]) r
               else if c = CHR '']'' then Some (JArr (acc @ [v]), r)
               else None))"
| "parse_fields 0 acc s = None"
| "parse_fields (Suc n) acc s =
     (case skip_ws s of
        [] \<Rightarrow> None
      | q # s0 \<Rightarrow>
          if q \<noteq> CHR 0x22 then None
          else (case parse_chars s0 of
             None \<Rightarrow> None
           | Some (k, s1) \<Rightarrow>
               (case skip_ws s1 of
                  [] \<Rightarrow> None
                | d # s2 \<Rightarrow>
                    if d \<noteq> CHR '':'' then None
                    else (case parse_value n s2 of
                       None \<Rightarrow> None
                     | Some (v, s3) \<Rightarrow>
                         (case skip_ws s3 of
                            [] \<Rightarrow> None
                          | c # r \<Rightarrow>
                              if c = CHR '','' then parse_fields n (set_field k v acc) r
                              else if c = CHR ''}'' then Some (JObj (set_field k v acc), r)
                              else None)))))"

definition jsonParse :: "string \<Rightarrow> json option" where
  "jsonParse s =
     (case parse_value (Suc (length s)) s of
        Some (v, r) \<Rightarrow> if skip_ws r = [] then Some v else None
      | None \<Rightarrow> None)"

section \<open>Reading back what was printed\<close>

text \<open>Well-formed values: numbers in lowest terms, no key twice in an object.\<close>

fun wf_json :: "json \<Rightarrow> bool" where
  "wf_json (JNum (m, k)) \<longleftrightarrow> k = 0 \<or> m mod 10 \<noteq> 0"
| "wf_json (JArr vs) \<longleftrightarrow> list_all wf_json vs"
| "wf_json (JObj fs) \<longleftrightarrow> distinct (map fst fs) \<and> list_all (\<lambda>(k, v). wf_json v) fs"
| "wf_json _ \<longleftrightarrow> True"

subsection \<open>Digits\<close>

lemma is_digit_code: "d < 10 \<Longrightarrow> is_digit (char_of (d + 48 :: nat))"
  by (simp add: is_digit_def)

lemma char_zero: "char_of (48 :: nat) = CHR ''0''"
  using char_of_char [of "CHR ''0''", where 'a = nat] by simp

lemma zero_digit: "d < 10 \<Longrightarrow> char_of (d + 48 :: nat) = CHR ''0'' \<longleftrightarrow> d = 0"
proof
  assume "d < 10" "char_of (d + 48 :: nat) = CHR ''0''"
  then have "of_char (char_of (d + 48 :: nat)) = (of_char (CHR ''0'') :: nat)" by (simp only:)
  with \<open>d < 10\<close> show "d = 0" by simp
qed (simp add: char_zero)

lemma digits_rev_digits: "list_all is_digit (digits_rev n)"
proof (induction n rule: digits_rev.induct)
  case (1 n)
  then show ?case by (subst digits_rev.simps) (auto simp: is_digit_code)
qed

lemma show_nat_digits: "list_all is_digit (show_nat n)" and show_nat_nonempty [simp]: "show_nat n \<noteq> []"
  using digits_rev_digits [of n] by (simp_all add: show_nat_def list_all_iff digits_rev_nonempty)

lemma digits_val_append: "digits_val (xs @ ys) = digits_val xs * 10 ^ length ys + digits_val ys"
proof (induction ys rule: rev_induct)
  case (snoc y ys)
  then show ?case unfolding append_assoc [symmetric] by (simp add: digits_val_def algebra_simps)
qed (simp add: digits_val_def)

lemma digits_val_single: "d < 10 \<Longrightarrow> digits_val [char_of (d + 48 :: nat)] = d"
  by (simp add: digits_val_def of_char_of)

lemma digits_val_show_nat: "digits_val (show_nat n) = n"
proof (induction n rule: digits_rev.induct)
  case (1 n)
  show ?case
  proof (cases "n < 10")
    case True
    then have "show_nat n = [char_of (n + 48)]" by (simp add: show_nat_def digits_rev.simps)
    with True show ?thesis by (simp add: digits_val_single)
  next
    case False
    then have "show_nat n = show_nat (n div 10) @ [char_of (n mod 10 + 48)]"
      by (subst show_nat_def, subst digits_rev.simps) (simp add: show_nat_def)
    with 1 [OF False] show ?thesis by (simp add: digits_val_append digits_val_single)
  qed
qed

lemma digits_val_zeros [simp]: "digits_val (replicate k (CHR ''0'')) = 0"
  by (induction k) (simp_all add: digits_val_def)

lemma length_show_nat: "n < 10 ^ k \<Longrightarrow> 0 < k \<Longrightarrow> length (show_nat n) \<le> k"
proof (induction n arbitrary: k rule: digits_rev.induct)
  case (1 n)
  show ?case
  proof (cases "n < 10")
    case True
    with 1 show ?thesis by (simp add: show_nat_def digits_rev.simps)
  next
    case False
    with 1 obtain j where k: "k = Suc j" "0 < j" by (cases k; cases "k - 1") auto
    with 1(2) have "n div 10 < 10 ^ j" by (simp add: less_mult_imp_div_less mult.commute)
    with 1(1) [OF False] k have "length (show_nat (n div 10)) \<le> j" by blast
    with False k show ?thesis by (simp add: show_nat_def digits_rev.simps [of n])
  qed
qed

text \<open>The first digit is 0 for zero only.\<close>

lemma show_nat_first: "take 1 (show_nat n) = ''0'' \<longleftrightarrow> n = 0"
proof (induction n rule: digits_rev.induct)
  case (1 n)
  show ?case
  proof (cases "n < 10")
    case True
    then have "show_nat n = [char_of (n + 48)]" by (simp add: show_nat_def digits_rev.simps [of n])
    with True show ?thesis by (simp add: zero_digit)
  next
    case False
    then have "show_nat n = show_nat (n div 10) @ [char_of (n mod 10 + 48)]"
      by (subst show_nat_def, subst digits_rev.simps) (simp add: show_nat_def)
    moreover have "length (show_nat (n div 10)) \<ge> 1" by (simp add: Suc_le_eq)
    ultimately have "take 1 (show_nat n) = take 1 (show_nat (n div 10))" by simp
    with 1 [OF False] False show ?thesis by auto
  qed
qed

lemma show_nat_zero: "show_nat 0 = ''0''"
  by (simp add: show_nat_def digits_rev.simps [of 0] char_zero)

subsection \<open>Strings\<close>

lemma hex_digit_val: "n < 16 \<Longrightarrow> hex_val (hex_digit n) = Some n"
  by (auto simp: hex_val_def hex_digit_def Let_def)

lemma unicode_char_control:
  assumes "of_char c < (32 :: nat)"
  shows "unicode_char (CHR ''0'') (CHR ''0'') (hex_digit (of_char c div 16)) (hex_digit (of_char c mod 16)) = Some c"
proof -
  have "of_char c div 16 < (16 :: nat)" "of_char c mod 16 < (16 :: nat)" using assms by simp_all
  moreover have "hex_val (CHR ''0'') = Some 0" by (simp add: hex_val_def)
  moreover have "of_char c div 16 * 16 + of_char c mod 16 = (of_char c :: nat)" by simp
  ultimately show ?thesis using assms by (simp add: unicode_char_def hex_digit_val)
qed

lemma parse_json_char: "parse_chars (json_char c @ cs) = map_option (apfst ((#) c)) (parse_chars cs)"
  by (simp add: json_char_def escape_char_def unicode_char_control)

lemma parse_chars_json: "parse_chars (concat (map json_char s) @ CHR 0x22 # rest) = Some (s, rest)"
  by (induction s) (simp_all add: parse_json_char del: parse_chars.simps(2), simp)

subsection \<open>Numbers\<close>

text \<open>What may follow a number without being read as part of it.\<close>

definition ends_number :: "string \<Rightarrow> bool" where
  "ends_number rest \<longleftrightarrow>
     (case rest of [] \<Rightarrow> True | c # _ \<Rightarrow> \<not> is_digit c \<and> c \<notin> {CHR ''.'', CHR ''e'', CHR ''E''})"

lemma takeWhile_digits:
  assumes "list_all is_digit ds" and "\<not> (\<exists>c cs. rest = c # cs \<and> is_digit c)"
  shows "takeWhile is_digit (ds @ rest) = ds \<and> dropWhile is_digit (ds @ rest) = rest"
proof -
  have "\<forall>x \<in> set ds. is_digit x" using assms(1) by (simp add: list_all_iff)
  with assms(2) show ?thesis by (cases rest) auto
qed

lemma ends_number_digits: "ends_number rest \<Longrightarrow> \<not> (\<exists>c cs. rest = c # cs \<and> is_digit c)"
  by (auto simp: ends_number_def)

lemma parse_exponent_ends: "ends_number s \<Longrightarrow> parse_exponent s = Some (0, s)"
  by (auto simp: parse_exponent_def ends_number_def split: list.splits)

lemma parse_fraction_ends: "ends_number s \<Longrightarrow> parse_fraction s = Some ([], s)"
  by (auto simp: parse_fraction_def ends_number_def split: list.splits)

lemma pad_zeros_digits: "list_all is_digit (pad_zeros k (show_nat n))"
proof -
  have "is_digit (CHR ''0'')" by (simp add: is_digit_def)
  then show ?thesis using show_nat_digits [of n] by (auto simp: pad_zeros_def list_all_iff)
qed

lemma pad_zeros_length: "n < 10 ^ k \<Longrightarrow> 0 < k \<Longrightarrow> length (pad_zeros k (show_nat n)) = k"
  using length_show_nat [of n k] by (simp add: pad_zeros_def)

lemma pad_zeros_val: "digits_val (pad_zeros k (show_nat n)) = n"
  by (simp add: pad_zeros_def digits_val_append digits_val_show_nat)

lemma parse_fraction_pad:
  assumes "n < 10 ^ k" and "0 < k" and "ends_number rest"
  shows "parse_fraction (CHR ''.'' # pad_zeros k (show_nat n) @ rest) = Some (pad_zeros k (show_nat n), rest)"
proof -
  have "pad_zeros k (show_nat n) \<noteq> []" using pad_zeros_length [OF assms(1,2)] assms(2) by auto
  then show ?thesis
    using takeWhile_digits [OF pad_zeros_digits ends_number_digits [OF assms(3)]] by (simp add: parse_fraction_def Let_def)
qed

lemma int_part_show_nat:
  assumes "\<not> (\<exists>c cs. rest = c # cs \<and> is_digit c)"
  shows "int_part (show_nat n @ rest) = show_nat n"
proof (cases "n = 0")
  case True
  then show ?thesis by (simp add: show_nat_zero int_part_def)
next
  case False
  then have "take 1 (show_nat n @ rest) \<noteq> ''0''" using show_nat_first [of n] show_nat_nonempty [of n] by (cases "show_nat n") auto
  then show ?thesis
    using takeWhile_digits [OF show_nat_digits assms, of n] by (simp only: int_part_def if_False)
qed

lemma lowest_terms_id: "k = 0 \<or> m mod 10 \<noteq> 0 \<Longrightarrow> lowest_terms m k = (m, k)"
  by (cases k) auto

lemma parse_show_unsigned:
  assumes "k = 0 \<or> m mod 10 \<noteq> 0" and "ends_number rest" and "n = nat \<bar>m\<bar>"
    and "g * int n = m" and "s = show_nat (n div 10 ^ k) @ (if k = 0 then [] else ''.'' @ pad_zeros k (show_nat (n mod 10 ^ k))) @ rest"
  shows "parse_unsigned g s = Some ((m, k), rest)"
proof (cases "k = 0")
  case True
  have "int_part s = show_nat n"
    using True assms(5) int_part_show_nat [OF ends_number_digits [OF assms(2)], of n] by simp
  with True assms show ?thesis
    by (simp add: parse_unsigned_def Let_def parse_fraction_ends parse_exponent_ends digits_val_show_nat scaled_def)
next
  case False
  define fp where "fp = pad_zeros k (show_nat (n mod 10 ^ k))"
  have s: "s = show_nat (n div 10 ^ k) @ ''.'' @ fp @ rest" using False assms(5) by (simp add: fp_def)
  have "\<not> is_digit (CHR ''.'')" by (simp add: is_digit_def)
  then have ip: "int_part s = show_nat (n div 10 ^ k)" unfolding s by (intro int_part_show_nat) simp
  have lt: "n mod 10 ^ k < 10 ^ k" by simp
  have frac: "parse_fraction (drop (length (show_nat (n div 10 ^ k))) s) = Some (fp, rest)"
    using parse_fraction_pad [OF lt _ assms(2)] False by (simp add: s fp_def)
  have len: "length fp = k" using pad_zeros_length [OF lt] False by (simp add: fp_def)
  have "digits_val (show_nat (n div 10 ^ k) @ fp) = n"
    by (simp add: digits_val_append digits_val_show_nat len) (simp add: fp_def pad_zeros_val, rule div_mult_mod_eq)
  with ip frac len assms False show ?thesis
    by (simp add: parse_unsigned_def Let_def parse_exponent_ends scaled_def lowest_terms_id del: digits_val_zeros)
qed

lemma parse_show_decimal:
  assumes "k = 0 \<or> m mod 10 \<noteq> 0" and "ends_number rest"
  shows "parse_number (show_decimal (m, k) @ rest) = Some ((m, k), rest)"
proof -
  define u where "u = show_nat (nat \<bar>m\<bar> div 10 ^ k) @ (if k = 0 then [] else ''.'' @ pad_zeros k (show_nat (nat \<bar>m\<bar> mod 10 ^ k))) @ rest"
  have eq: "show_decimal (m, k) @ rest = (if m < 0 then CHR ''-'' # u else u)"
    by (simp add: show_decimal_def Let_def u_def)
  show ?thesis
  proof (cases "m < 0")
    case True
    with parse_show_unsigned [OF assms refl _ u_def, of "- 1"] show ?thesis by (simp add: eq parse_number_def)
  next
    case False
    obtain c cs where c: "show_nat (nat \<bar>m\<bar> div 10 ^ k) = c # cs" "is_digit c"
      using show_nat_digits [of "nat \<bar>m\<bar> div 10 ^ k"] show_nat_nonempty by (cases "show_nat (nat \<bar>m\<bar> div 10 ^ k)") auto
    then have "take 1 u \<noteq> ''-''" by (auto simp: u_def is_digit_def)
    with False parse_show_unsigned [OF assms refl _ u_def, of 1] show ?thesis by (simp add: eq parse_number_def)
  qed
qed

subsection \<open>Values\<close>

text \<open>\<open>reads n v\<close>: with fuel above \<open>n\<close>, the text of \<open>v\<close> followed by anything that does not continue a
  number is read as \<open>v\<close>.\<close>

definition reads :: "json \<Rightarrow> bool" where
  "reads v \<longleftrightarrow>
     (\<forall>n rest. length (stringify v) < n \<longrightarrow> ends_number rest \<longrightarrow> parse_value n (stringify v @ rest) = Some (v, rest))"

lemma readsD: "reads v \<Longrightarrow> length (stringify v) < n \<Longrightarrow> ends_number rest \<Longrightarrow> parse_value n (stringify v @ rest) = Some (v, rest)"
  by (simp add: reads_def)

lemma ends_number_punct: "c \<in> {CHR '','', CHR '']'', CHR ''}''} \<Longrightarrow> ends_number (c # cs)"
  by (auto simp: ends_number_def is_digit_def)

lemma skip_ws_nonspace: "\<not> json_ws c \<Longrightarrow> skip_ws (c # cs) = c # cs"
  by (simp add: skip_ws_def)

lemma skip_ws_punct: "c \<in> {CHR '','', CHR '']'', CHR ''}'', CHR '':'', CHR 0x22, CHR ''['', CHR ''{''} \<Longrightarrow> skip_ws (c # cs) = c # cs"
  by (auto simp: json_ws_def intro!: skip_ws_nonspace)

lemma show_decimal_first:
  obtains c cs where "show_decimal d = c # cs" "is_digit c \<or> c = CHR ''-''"
proof -
  obtain m k where d: "d = (m, k)" by (cases d)
  obtain c cs where "show_nat (nat \<bar>m\<bar> div 10 ^ k) = c # cs" "is_digit c"
    using show_nat_digits [of "nat \<bar>m\<bar> div 10 ^ k"] show_nat_nonempty by (cases "show_nat (nat \<bar>m\<bar> div 10 ^ k)") auto
  then show thesis
    using that [of "if m < 0 then CHR ''-'' else c"] d by (cases "m < 0") (simp_all add: show_decimal_def Let_def)
qed

lemma stringify_first:
  obtains c cs where "stringify v = c # cs" "\<not> json_ws c" "c \<noteq> CHR '']''" "c \<noteq> CHR ''}''"
proof (cases v)
  case (JNum d)
  obtain c cs where "show_decimal d = c # cs" "is_digit c \<or> c = CHR ''-''" by (rule show_decimal_first)
  then have "\<not> json_ws c" "c \<noteq> CHR '']''" "c \<noteq> CHR ''}''" by (auto simp: json_ws_def is_digit_def)
  with JNum that \<open>show_decimal d = c # cs\<close> show thesis by simp
next
  case (JBool b)
  with that show thesis by (cases b) (auto simp: json_ws_def)
qed (use that in \<open>auto simp: json_ws_def json_string_def json_object_def split: if_splits\<close>)

lemma skip_ws_stringify: "skip_ws (stringify v @ rest) = stringify v @ rest"
  by (rule stringify_first [of v]) (simp add: skip_ws_nonspace)

lemma reads_num: "wf_json (JNum d) \<Longrightarrow> reads (JNum d)"
  unfolding reads_def
proof (intro allI impI)
  fix n :: nat and rest
  assume wf: "wf_json (JNum d)" and n: "length (stringify (JNum d)) < n" and rest: "ends_number rest"
  obtain m k where d: "d = (m, k)" by (cases d)
  obtain c cs where c: "show_decimal d = c # cs" "is_digit c \<or> c = CHR ''-''" by (rule show_decimal_first)
  then have ne: "c \<noteq> CHR ''n''" "c \<noteq> CHR ''t''" "c \<noteq> CHR ''f''" "c \<noteq> CHR 0x22" "c \<noteq> CHR ''[''" "c \<noteq> CHR ''{''"
    by (auto simp: is_digit_def)
  have skip: "skip_ws (c # cs @ rest) = c # cs @ rest" using skip_ws_stringify [of "JNum d" rest] c(1) by simp
  have num: "parse_number (c # cs @ rest) = Some (d, rest)"
    using parse_show_decimal [of k m rest] wf rest c(1) by (simp add: d)
  from n obtain n' where "n = Suc n'" by (cases n) auto
  with ne skip num c(1) show "parse_value n (stringify (JNum d) @ rest) = Some (JNum d, rest)"
    by (simp add: Let_def starts_with_def)
qed

lemma parse_elements_join:
  assumes "\<And>v. v \<in> set vs \<Longrightarrow> reads v" and "vs \<noteq> []" and "Suc (length (join '','' (map stringify vs))) < n"
  shows "parse_elements n acc (join '','' (map stringify vs) @ CHR '']'' # rest) = Some (JArr (acc @ vs), rest)"
  using assms
proof (induction vs arbitrary: n acc)
  case (Cons v vs)
  from Cons.prems(3) obtain n' where n: "n = Suc n'" by (cases n) auto
  show ?case
  proof (cases vs)
    case Nil
    have "parse_value n' (stringify v @ CHR '']'' # rest) = Some (v, CHR '']'' # rest)"
      using Cons.prems Nil n by (intro readsD) (simp_all add: ends_number_punct)
    with n Nil show ?thesis by (simp add: skip_ws_punct)
  next
    case (Cons w ws)
    let ?more = "join '','' (map stringify vs) @ CHR '']'' # rest"
    have "parse_value n' (stringify v @ CHR '','' # ?more) = Some (v, CHR '','' # ?more)"
      using Cons.prems Cons n by (intro readsD) (simp_all add: ends_number_punct)
    moreover have "parse_elements n' (acc @ [v]) ?more = Some (JArr ((acc @ [v]) @ vs), rest)"
      using Cons.prems Cons n by (intro Cons.IH) simp_all
    ultimately show ?thesis using n Cons by (simp add: skip_ws_punct)
  qed
qed simp

lemma set_field_new: "k \<notin> fst ` set fs \<Longrightarrow> set_field k v fs = fs @ [(k, v)]"
  by (induction fs) auto

lemma parse_fields_join:
  assumes "\<And>k v. (k, v) \<in> set fs \<Longrightarrow> reads v" and "fs \<noteq> []" and "distinct (map fst (acc @ fs))"
    and "Suc (length (join '','' (map (\<lambda>(k, v). json_field k (stringify v)) fs))) < n"
  shows "parse_fields n acc (join '','' (map (\<lambda>(k, v). json_field k (stringify v)) fs) @ CHR ''}'' # rest) = Some (JObj (acc @ fs), rest)"
  using assms
proof (induction fs arbitrary: n acc)
  case (Cons f fs)
  obtain k v where f: "f = (k, v)" by (cases f)
  from Cons.prems(4) obtain n' where n: "n = Suc n'" by (cases n) auto
  have v: "reads v" using Cons.prems(1) [of k v] f by simp
  have new: "set_field k v acc = acc @ [(k, v)]" using Cons.prems(3) f by (intro set_field_new) auto
  have field: "json_field k t @ more = CHR 0x22 # concat (map json_char k) @ CHR 0x22 # CHR '':'' # t @ more" for t more
    by (simp add: json_field_def json_string_def)
  show ?case
  proof (cases fs)
    case Nil
    have "parse_value n' (stringify v @ CHR ''}'' # rest) = Some (v, CHR ''}'' # rest)"
      using Cons.prems(4) Nil n f by (intro readsD [OF v]) (simp_all add: ends_number_punct json_field_def)
    with n Nil f new show ?thesis by (simp add: skip_ws_punct field parse_chars_json)
  next
    case (Cons g gs)
    let ?more = "join '','' (map (\<lambda>(k, v). json_field k (stringify v)) fs) @ CHR ''}'' # rest"
    have "parse_value n' (stringify v @ CHR '','' # ?more) = Some (v, CHR '','' # ?more)"
      using Cons.prems(4) Cons n f by (intro readsD [OF v]) (simp_all add: ends_number_punct json_field_def)
    moreover have "parse_fields n' (acc @ [(k, v)]) ?more = Some (JObj ((acc @ [(k, v)]) @ fs), rest)"
      using Cons.prems Cons n f by (intro Cons.IH) (auto simp: json_field_def)
    ultimately show ?thesis using n Cons f new by (simp add: skip_ws_punct field parse_chars_json)
  qed
qed simp

lemma join_first: "xs \<noteq> [] \<Longrightarrow> hd xs = c # cs \<Longrightarrow> \<exists>more. join sep xs = c # more"
  by (cases xs; cases "tl xs") auto

lemma reads_array:
  assumes "\<And>v. v \<in> set vs \<Longrightarrow> reads v"
  shows "reads (JArr vs)"
  unfolding reads_def
proof (intro allI impI)
  fix n :: nat and rest
  assume n: "length (stringify (JArr vs)) < n"
  then obtain n' where n': "n = Suc n'" by (cases n) auto
  show "parse_value n (stringify (JArr vs) @ rest) = Some (JArr vs, rest)"
  proof (cases vs)
    case Nil
    with n' show ?thesis by (simp add: Let_def starts_with_def skip_ws_punct)
  next
    case (Cons v us)
    obtain c cs where c: "stringify v = c # cs" "\<not> json_ws c" "c \<noteq> CHR '']''" by (rule stringify_first)
    then obtain more where j: "join '','' (map stringify vs) = c # more"
      using join_first [of "map stringify vs" c cs] Cons by auto
    have "parse_elements n' [] (join '','' (map stringify vs) @ CHR '']'' # rest) = Some (JArr ([] @ vs), rest)"
      using assms Cons n n' by (intro parse_elements_join) auto
    with n' j c show ?thesis by (simp add: Let_def starts_with_def skip_ws_punct skip_ws_nonspace)
  qed
qed

lemma reads_object:
  assumes "\<And>k v. (k, v) \<in> set fs \<Longrightarrow> reads v" and "distinct (map fst fs)"
  shows "reads (JObj fs)"
  unfolding reads_def
proof (intro allI impI)
  fix n :: nat and rest
  assume n: "length (stringify (JObj fs)) < n"
  then obtain n' where n': "n = Suc n'" by (cases n) auto
  show "parse_value n (stringify (JObj fs) @ rest) = Some (JObj fs, rest)"
  proof (cases fs)
    case Nil
    with n' show ?thesis by (simp add: Let_def starts_with_def skip_ws_punct json_object_def)
  next
    case (Cons f gs)
    let ?body = "join '','' (map (\<lambda>(k, v). json_field k (stringify v)) fs)"
    obtain cs where "hd (map (\<lambda>(k, v). json_field k (stringify v)) fs) = CHR 0x22 # cs"
      using Cons by (cases f) (simp add: json_field_def json_string_def)
    from join_first [OF _ this, of "'',''"] obtain more where j: "?body = CHR 0x22 # more" using Cons by auto
    have "parse_fields n' [] (?body @ CHR ''}'' # rest) = Some (JObj ([] @ fs), rest)"
      using assms Cons n n' by (intro parse_fields_join) (auto simp: json_object_def)
    with n' j show ?thesis by (simp add: Let_def starts_with_def skip_ws_punct json_object_def)
  qed
qed

lemma reads_wf: "wf_json v \<Longrightarrow> reads v"
proof (induction v)
  case (JNum d)
  then show ?case by (rule reads_num)
next
  case (JArr vs)
  then show ?case by (intro reads_array) (simp add: list_all_iff)
next
  case (JObj fs)
  show ?case
  proof (rule reads_object)
    fix k v assume kv: "(k, v) \<in> set fs"
    show "reads v" using JObj.IH [OF kv, of v] JObj.prems kv by (auto simp: list_all_iff)
  qed (use JObj.prems in simp)
next
  case JNull
  then show ?case by (auto simp: reads_def Let_def starts_with_def skip_ws_def json_ws_def gr0_conv_Suc dest!: less_imp_Suc_add)
next
  case (JBool b)
  then show ?case by (cases b) (auto simp: reads_def Let_def starts_with_def skip_ws_def json_ws_def dest!: less_imp_Suc_add)
next
  case (JStr t)
  then show ?case
    by (auto simp: reads_def Let_def starts_with_def skip_ws_punct json_string_def parse_chars_json dest!: less_imp_Suc_add)
qed

lemma json_roundtrip: "wf_json v \<Longrightarrow> jsonParse (stringify v) = Some v"
  using readsD [OF reads_wf, of v "Suc (length (stringify v))" "[]"]
  by (simp add: jsonParse_def ends_number_def skip_ws_def del: parse_value.simps)

section \<open>What the reader returns\<close>

lemma lowest_terms_wf: "wf_json (JNum (lowest_terms m k))"
  by (induction m k rule: lowest_terms.induct) simp_all

lemma parse_number_wf: "parse_number s = Some (d, r) \<Longrightarrow> wf_json (JNum d)"
  using lowest_terms_wf
  by (auto simp: parse_number_def parse_unsigned_def scaled_def Let_def bind_eq_Some_conv split: if_splits)

lemma set_field_keys: "fst ` set (set_field k v fs) = insert k (fst ` set fs)"
  by (induction k v fs rule: set_field.induct) auto

lemma set_field_wf: "wf_json (JObj fs) \<Longrightarrow> wf_json v \<Longrightarrow> wf_json (JObj (set_field k v fs))"
  by (induction k v fs rule: set_field.induct) (auto simp: set_field_keys)

lemma parse_wf:
  "parse_value n s = Some (v, r) \<Longrightarrow> wf_json v"
  "parse_elements n acc s = Some (v, r) \<Longrightarrow> list_all wf_json acc \<Longrightarrow> wf_json v"
  "parse_fields n fs s = Some (v, r) \<Longrightarrow> wf_json (JObj fs) \<Longrightarrow> wf_json v"
proof (induction n s and n acc s and n fs s arbitrary: v r and v r and v r
    rule: parse_value_parse_elements_parse_fields.induct)
  case (2 n s0)
  then show ?case using parse_number_wf by (auto simp: Let_def split: if_splits list.splits)
next
  case (4 n acc s)
  then show ?case by (auto split: option.splits list.splits if_splits)
next
  case (6 n fs s)
  then show ?case by (auto simp del: wf_json.simps(3) simp: set_field_wf split: option.splits list.splits if_splits)
qed simp_all


text \<open>A text with a repeated key, superfluous white space and a number that is not in lowest terms.\<close>

definition untidy_json :: string where
  "untidy_json = ''{'' @ json_string ''a'' @ '': 1.50, '' @ json_string ''a'' @ '' :[ true,2e1 ]} ''"

lemma untidy_parsed: "jsonParse untidy_json = Some (JObj [(''a'', JArr [JBool True, JNum (20, 0)])])"
  by code_simp


text \<open>\<open>String(v)\<close> and the truth value of a JSON value.\<close>

fun js_string :: "json \<Rightarrow> string" where
  "js_string JNull = ''null''"
| "js_string (JBool b) = (if b then ''true'' else ''false'')"
| "js_string (JNum d) = show_decimal d"
| "js_string (JStr s) = s"
| "js_string (JArr vs) = join '','' (map (\<lambda>v. if v = JNull then [] else js_string v) vs)"
| "js_string (JObj fs) = ''[object Object]''"

definition truthy_json :: "json option \<Rightarrow> bool" where
  "truthy_json v =
     (case v of
        None \<Rightarrow> False
      | Some JNull \<Rightarrow> False
      | Some (JBool b) \<Rightarrow> b
      | Some (JNum d) \<Rightarrow> fst d \<noteq> 0
      | Some (JStr s) \<Rightarrow> s \<noteq> []
      | _ \<Rightarrow> True)"

end
