(* ===== verification/LLM_Client.thy ===== *)
theory LLM_Client
  imports Json_Text
begin

text \<open>
  The client of the language model in \<^verbatim>\<open>server/_core/llm.ts\<close>: normalisation of messages, tool choice and
  response format, and the request loop with its exponential backoff. The service is a function from the number of
  the attempt to what \<open>fetch\<close> did on it, \<open>Math.random()\<close> a function from the attempt to a number in \<open>[0,1)\<close>, and the
  waiting times are returned as a list. A \<open>retry-after\<close> header is the number or the instant its text denotes.
\<close>

section \<open>Messages\<close>

datatype llmRole = RoleSystem | RoleUser | RoleAssistant | RoleTool | RoleFunction

datatype contentPart =
    TextContent string
  | ImageContent string "string option"
  | FileContent string "string option"

datatype messageContent = PlainContent string | PartContent contentPart

datatype messageBody = Single messageContent | Several "messageContent list"

record llmMessage =
  msg_role :: llmRole
  msg_content :: messageBody
  msg_name :: "string option"
  msg_toolCallId :: "string option"

datatype normalContent = TextBody string | PartsBody "contentPart list"

record normalMessage =
  nm_role :: llmRole
  nm_name :: "string option"
  nm_toolCallId :: "string option"
  nm_content :: normalContent

definition ensureArray :: "messageBody \<Rightarrow> messageContent list" where
  "ensureArray v = (case v of Single c \<Rightarrow> [c] | Several cs \<Rightarrow> cs)"

definition normalizeContentPart :: "messageContent \<Rightarrow> contentPart" where
  "normalizeContentPart part = (case part of PlainContent t \<Rightarrow> TextContent t | PartContent p \<Rightarrow> p)"

text \<open>\<open>JSON.stringify\<close> of a content part.\<close>

fun stringify_part :: "contentPart \<Rightarrow> string" where
  "stringify_part (TextContent t) = json_object [json_field ''type'' (json_string ''text''), json_field ''text'' (json_string t)]"
| "stringify_part (ImageContent url detail) =
     json_object [json_field ''type'' (json_string ''image_url''),
       json_field ''image_url'' (json_object (json_field ''url'' (json_string url) # json_opt ''detail'' detail))]"
| "stringify_part (FileContent url mime) =
     json_object [json_field ''type'' (json_string ''file_url''),
       json_field ''file_url'' (json_object (json_field ''url'' (json_string url) # json_opt ''mime_type'' mime))]"

definition normalizeMessage :: "llmMessage \<Rightarrow> normalMessage" where
  "normalizeMessage m =
     (if msg_role m = RoleTool \<or> msg_role m = RoleFunction
      then \<lparr>nm_role = msg_role m, nm_name = msg_name m, nm_toolCallId = msg_toolCallId m,
            nm_content = TextBody (join [CHR 0x0A]
              (map (\<lambda>part. case part of PlainContent t \<Rightarrow> t | PartContent p \<Rightarrow> stringify_part p) (ensureArray (msg_content m))))\<rparr>
      else let contentParts = map normalizeContentPart (ensureArray (msg_content m))
           in \<lparr>nm_role = msg_role m, nm_name = msg_name m, nm_toolCallId = None,
               nm_content = (case contentParts of [TextContent t] \<Rightarrow> TextBody t | _ \<Rightarrow> PartsBody contentParts)\<rparr>)"

section \<open>Tool choice and response format\<close>

datatype toolChoice = ToolNone | ToolAuto | ToolRequired | ToolNamed string | ToolExplicit string

datatype normalToolChoice = ChoiceNone | ChoiceAuto | ChoiceFunction string

text \<open>\<open>tools\<close> are the names of the functions offered.\<close>

definition normalizeToolChoice :: "toolChoice option \<Rightarrow> string list option \<Rightarrow> error + normalToolChoice option" where
  "normalizeToolChoice toolChoice tools =
     (case toolChoice of
        None \<Rightarrow> Inr None
      | Some ToolNone \<Rightarrow> Inr (Some ChoiceNone)
      | Some ToolAuto \<Rightarrow> Inr (Some ChoiceAuto)
      | Some ToolRequired \<Rightarrow>
          (case tools of
             None \<Rightarrow> Inl (PlainError ''tool_choice 'required' was provided but no tools were configured'')
           | Some [] \<Rightarrow> Inl (PlainError ''tool_choice 'required' was provided but no tools were configured'')
           | Some [t] \<Rightarrow> Inr (Some (ChoiceFunction t))
           | Some (_ # _ # _) \<Rightarrow>
               Inl (PlainError ''tool_choice 'required' needs a single tool or specify the tool name explicitly''))
      | Some (ToolNamed n) \<Rightarrow> Inr (Some (ChoiceFunction n))
      | Some (ToolExplicit n) \<Rightarrow> Inr (Some (ChoiceFunction n)))"

text \<open>A JSON schema by its name, whether it has a schema object, and \<open>strict\<close>.\<close>

record jsonSchema =
  js_name :: string
  js_hasSchema :: bool
  js_strict :: "bool option"

datatype responseFormat = FormatText | FormatJsonObject | FormatJsonSchema jsonSchema

definition normalizeResponseFormat ::
  "responseFormat option \<Rightarrow> responseFormat option \<Rightarrow> jsonSchema option \<Rightarrow> jsonSchema option \<Rightarrow> error + responseFormat option" where
  "normalizeResponseFormat responseFormat response_format outputSchema output_schema =
     (case (case responseFormat of None \<Rightarrow> response_format | Some f \<Rightarrow> Some f) of
        Some (FormatJsonSchema js) \<Rightarrow>
          (if js_hasSchema js then Inr (Some (FormatJsonSchema js))
           else Inl (PlainError ''responseFormat json_schema requires a defined schema object''))
      | Some f \<Rightarrow> Inr (Some f)
      | None \<Rightarrow>
          (case (case outputSchema of None \<Rightarrow> output_schema | Some js \<Rightarrow> Some js) of
             None \<Rightarrow> Inr None
           | Some js \<Rightarrow>
               (if js_name js = [] \<or> \<not> js_hasSchema js
                then Inl (PlainError ''outputSchema requires both name and schema'')
                else Inr (Some (FormatJsonSchema js)))))"

section \<open>Backoff\<close>

definition RETRY_MAX_RETRIES :: nat where "RETRY_MAX_RETRIES = 4"

definition RETRY_BASE_DELAY_MS :: rat where "RETRY_BASE_DELAY_MS = 500"

definition RETRY_MAX_DELAY_MS :: rat where "RETRY_MAX_DELAY_MS = 30000"

datatype retryHeader = RetrySeconds rat | RetryAt time

definition parseRetryAfter :: "time \<Rightarrow> retryHeader option \<Rightarrow> rat option" where
  "parseRetryAfter now v =
     (case v of
        None \<Rightarrow> None
      | Some (RetrySeconds seconds) \<Rightarrow> Some (max 0 (seconds * 1000))
      | Some (RetryAt t) \<Rightarrow> Some (max 0 (of_int (t - now))))"

definition computeBackoffDelay :: "rat \<Rightarrow> nat \<Rightarrow> rat option \<Rightarrow> rat" where
  "computeBackoffDelay rnd attempt retryAfterMs =
     (let cap = min (RETRY_BASE_DELAY_MS * 2 ^ attempt) RETRY_MAX_DELAY_MS;
          jittered = cap / 2 + rnd * (cap / 2)
      in min (max jittered (nullish retryAfterMs 0)) RETRY_MAX_DELAY_MS)"

record httpReply =
  reply_status :: int
  reply_retryAfter :: "retryHeader option"
  reply_text :: string

definition reply_ok :: "httpReply \<Rightarrow> bool" where
  "reply_ok r \<longleftrightarrow> 200 \<le> reply_status r \<and> reply_status r \<le> 299"

datatype fetchOutcome = Replied httpReply | NetworkError string

text \<open>The loop from a given attempt on, with the delays it sleeps for.\<close>

function fetchFrom :: "(nat \<Rightarrow> fetchOutcome) \<Rightarrow> (nat \<Rightarrow> rat) \<Rightarrow> time \<Rightarrow> nat \<Rightarrow> (error + httpReply) \<times> rat list" where
  "fetchFrom svc rnd now attempt =
     (if attempt > RETRY_MAX_RETRIES then (Inl (PlainError ''LLM request failed after exhausting retries''), [])
      else
        (case svc attempt of
           Replied r \<Rightarrow>
             (if reply_ok r \<or> attempt = RETRY_MAX_RETRIES then (Inr r, [])
              else apsnd ((#) (computeBackoffDelay (rnd attempt) attempt (parseRetryAfter now (reply_retryAfter r))))
                     (fetchFrom svc rnd now (attempt + 1)))
         | NetworkError e \<Rightarrow>
             (if attempt = RETRY_MAX_RETRIES then (Inl (PlainError e), [])
              else apsnd ((#) (computeBackoffDelay (rnd attempt) attempt None)) (fetchFrom svc rnd now (attempt + 1)))))"
  by pat_completeness auto

termination
  by (relation "measure (\<lambda>(_, _, _, attempt). Suc RETRY_MAX_RETRIES - attempt)") auto

declare fetchFrom.simps [simp del]

definition fetchWithBackoff :: "(nat \<Rightarrow> fetchOutcome) \<Rightarrow> (nat \<Rightarrow> rat) \<Rightarrow> time \<Rightarrow> (error + httpReply) \<times> rat list" where
  "fetchWithBackoff svc rnd now = fetchFrom svc rnd now 0"

section \<open>The request\<close>

record invokeParams =
  ip_messages :: "llmMessage list"
  ip_tools :: "string list option"
  ip_toolChoice :: "toolChoice option"
  ip_tool_choice :: "toolChoice option"
  ip_maxTokens :: "nat option"
  ip_max_tokens :: "nat option"
  ip_responseFormat :: "responseFormat option"
  ip_response_format :: "responseFormat option"
  ip_outputSchema :: "jsonSchema option"
  ip_output_schema :: "jsonSchema option"
  ip_model :: "string option"

record llmPayload =
  pl_messages :: "normalMessage list"
  pl_model :: "string option"
  pl_tools :: "string list option"
  pl_tool_choice :: "normalToolChoice option"
  pl_max_tokens :: "nat option"
  pl_response_format :: "responseFormat option"

definition llm_payload :: "invokeParams \<Rightarrow> error + llmPayload" where
  "llm_payload p =
     (case normalizeToolChoice (case ip_toolChoice p of None \<Rightarrow> ip_tool_choice p | Some c \<Rightarrow> Some c) (ip_tools p) of
        Inl e \<Rightarrow> Inl e
      | Inr choice \<Rightarrow>
          (case normalizeResponseFormat (ip_responseFormat p) (ip_response_format p) (ip_outputSchema p) (ip_output_schema p) of
             Inl e \<Rightarrow> Inl e
           | Inr fmt \<Rightarrow>
               Inr \<lparr>pl_messages = map normalizeMessage (ip_messages p),
                    pl_model = (if truthy_str (ip_model p) then ip_model p else None),
                    pl_tools = (case ip_tools p of Some (t # ts) \<Rightarrow> Some (t # ts) | _ \<Rightarrow> None),
                    pl_tool_choice = choice,
                    pl_max_tokens = (case ip_max_tokens p of None \<Rightarrow> ip_maxTokens p | Some n \<Rightarrow> Some n),
                    pl_response_format = fmt\<rparr>))"

text \<open>\<open>svc\<close> also sees the payload; \<open>apiKey\<close> is configuration. The reply of a successful call is its body.\<close>

definition invokeLLM ::
  "(llmPayload \<Rightarrow> nat \<Rightarrow> fetchOutcome) \<Rightarrow> (nat \<Rightarrow> rat) \<Rightarrow> time \<Rightarrow> string option \<Rightarrow> invokeParams \<Rightarrow> error + string" where
  "invokeLLM svc rnd now apiKey p =
     (if \<not> truthy_str apiKey then Inl (PlainError ''BUILT_IN_FORGE_API_KEY is not configured'')
      else
        (case llm_payload p of
           Inl e \<Rightarrow> Inl e
         | Inr payload \<Rightarrow>
             (case fst (fetchWithBackoff (svc payload) rnd now) of
                Inl e \<Rightarrow> Inl e
              | Inr r \<Rightarrow>
                  (if reply_ok r then Inr (reply_text r)
                   else Inl (PlainError (''LLM invoke failed: '' @ show_int (reply_status r) @ '' '' @ reply_text r))))))"

section \<open>Retries\<close>

lemma delay_bounds:
  assumes "0 \<le> rnd" and "rnd < 1"
  shows "computeBackoffDelay rnd attempt ra \<le> RETRY_MAX_DELAY_MS"
    and "RETRY_BASE_DELAY_MS / 2 \<le> computeBackoffDelay rnd attempt ra"
proof -
  let ?cap = "min (RETRY_BASE_DELAY_MS * 2 ^ attempt) RETRY_MAX_DELAY_MS"
  have "RETRY_BASE_DELAY_MS * 1 \<le> RETRY_BASE_DELAY_MS * 2 ^ attempt"
    by (intro mult_left_mono) (simp_all add: RETRY_BASE_DELAY_MS_def)
  then have cap: "RETRY_BASE_DELAY_MS \<le> ?cap" by (simp add: RETRY_BASE_DELAY_MS_def RETRY_MAX_DELAY_MS_def)
  then have "0 \<le> rnd * (?cap / 2)" using assms(1) by (intro mult_nonneg_nonneg) (simp_all add: RETRY_BASE_DELAY_MS_def)
  with cap have "RETRY_BASE_DELAY_MS / 2 \<le> ?cap / 2 + rnd * (?cap / 2)" by linarith
  then show "RETRY_BASE_DELAY_MS / 2 \<le> computeBackoffDelay rnd attempt ra"
    unfolding computeBackoffDelay_def Let_def
    by (intro min.boundedI max.coboundedI1) (simp_all add: RETRY_BASE_DELAY_MS_def RETRY_MAX_DELAY_MS_def)
  show "computeBackoffDelay rnd attempt ra \<le> RETRY_MAX_DELAY_MS" by (simp add: computeBackoffDelay_def Let_def)
qed

text \<open>The attempt whose outcome decides: the first with an ok reply, at the latest the last one.\<close>

definition ok_at :: "(nat \<Rightarrow> fetchOutcome) \<Rightarrow> nat \<Rightarrow> bool" where
  "ok_at svc k = (case svc k of Replied r \<Rightarrow> reply_ok r | NetworkError _ \<Rightarrow> False)"

definition deciding :: "(nat \<Rightarrow> fetchOutcome) \<Rightarrow> nat \<Rightarrow> nat" where
  "deciding svc k = (case List.find (ok_at svc) [k..<RETRY_MAX_RETRIES] of None \<Rightarrow> RETRY_MAX_RETRIES | Some n \<Rightarrow> n)"

lemma deciding_step:
  "k < RETRY_MAX_RETRIES \<Longrightarrow> deciding svc k = (if ok_at svc k then k else deciding svc (Suc k))"
  by (simp add: deciding_def upt_rec [of k])

lemma deciding_last: "deciding svc RETRY_MAX_RETRIES = RETRY_MAX_RETRIES"
  by (simp add: deciding_def)

lemma deciding_range: "k \<le> RETRY_MAX_RETRIES \<Longrightarrow> k \<le> deciding svc k \<and> deciding svc k \<le> RETRY_MAX_RETRIES"
  by (auto simp: deciding_def find_Some_iff split: option.splits)

definition outcome_of :: "fetchOutcome \<Rightarrow> error + httpReply" where
  "outcome_of o' = (case o' of Replied r \<Rightarrow> Inr r | NetworkError e \<Rightarrow> Inl (PlainError e))"

lemma fetchFrom_spec:
  assumes "\<And>k. 0 \<le> rnd k \<and> rnd k < 1" and "attempt \<le> RETRY_MAX_RETRIES"
  shows "fst (fetchFrom svc rnd now attempt) = outcome_of (svc (deciding svc attempt)) \<and>
    length (snd (fetchFrom svc rnd now attempt)) = deciding svc attempt - attempt \<and>
    list_all (\<lambda>d. RETRY_BASE_DELAY_MS / 2 \<le> d \<and> d \<le> RETRY_MAX_DELAY_MS) (snd (fetchFrom svc rnd now attempt))"
  using assms(2)
proof (induction "RETRY_MAX_RETRIES - attempt" arbitrary: attempt)
  case 0
  then have "attempt = RETRY_MAX_RETRIES" by simp
  then show ?case
    by (simp add: fetchFrom.simps [of svc rnd now RETRY_MAX_RETRIES] deciding_last outcome_of_def split: fetchOutcome.split)
next
  case (Suc n)
  then have lt: "attempt < RETRY_MAX_RETRIES" by simp
  have IH: "fst (fetchFrom svc rnd now (Suc attempt)) = outcome_of (svc (deciding svc (Suc attempt))) \<and>
      length (snd (fetchFrom svc rnd now (Suc attempt))) = deciding svc (Suc attempt) - Suc attempt \<and>
      list_all (\<lambda>d. RETRY_BASE_DELAY_MS / 2 \<le> d \<and> d \<le> RETRY_MAX_DELAY_MS) (snd (fetchFrom svc rnd now (Suc attempt)))"
    using Suc.hyps(1) [of "Suc attempt"] Suc.hyps(2) lt by simp
  have "Suc attempt \<le> deciding svc (Suc attempt)" using deciding_range [of "Suc attempt" svc] lt by simp
  with IH lt show ?case
    using delay_bounds assms(1)
    by (auto simp: fetchFrom.simps [of svc rnd now attempt] deciding_step [OF lt] ok_at_def outcome_of_def split: fetchOutcome.split)
qed

text \<open>C20: the request loop ends after at most five requests, whatever the service does. Its result is the outcome of
  the first attempt with an ok reply, or of the fifth attempt if there is none before; it sleeps once between two
  requests, each time between a quarter of a second and thirty seconds.\<close>

theorem backoff_terminates:
  assumes "\<And>k. 0 \<le> rnd k \<and> rnd k < 1"
  shows "fst (fetchWithBackoff svc rnd now) = outcome_of (svc (deciding svc 0)) \<and>
    deciding svc 0 \<le> 4 \<and> length (snd (fetchWithBackoff svc rnd now)) = deciding svc 0 \<and>
    list_all (\<lambda>d. 250 \<le> d \<and> d \<le> 30000) (snd (fetchWithBackoff svc rnd now)) \<and>
    (\<forall>k < deciding svc 0. \<not> ok_at svc k)"
proof -
  have "\<not> ok_at svc k" if "k < deciding svc 0" for k
    using that by (auto simp: deciding_def find_Some_iff find_None_iff nth_append split: option.splits)
  then show ?thesis
    using fetchFrom_spec [of rnd 0 svc now] assms deciding_range [of 0 svc]
    by (simp add: fetchWithBackoff_def RETRY_MAX_RETRIES_def RETRY_BASE_DELAY_MS_def RETRY_MAX_DELAY_MS_def)
qed

theorem backoff_terminates_witness:
  "fst (fetchWithBackoff (\<lambda>k. if k = 0 then NetworkError ''reset'' else Replied \<lparr>reply_status = 200, reply_retryAfter = None, reply_text = ''hi''\<rparr>)
     (\<lambda>_. 0) 0) = Inr \<lparr>reply_status = 200, reply_retryAfter = None, reply_text = ''hi''\<rparr>"
  using backoff_terminates [of "\<lambda>_. 0" "\<lambda>k. if k = 0 then NetworkError ''reset'' else Replied \<lparr>reply_status = 200, reply_retryAfter = None, reply_text = ''hi''\<rparr>" 0]
  by (simp add: deciding_def RETRY_MAX_RETRIES_def upt_rec ok_at_def reply_ok_def outcome_of_def)

end
