(* ===== verification/Assistants.thy ===== *)
theory Assistants
  imports Planning LLM_Client
begin

text \<open>
  The procedures that work through outside services: the drafting assistants (\<open>pressRelease.aiDraft\<close>,
  \<open>socialMedia.aiGenerate\<close>, \<open>opposition.aiAnalyze\<close>, \<open>diaspora.aiDraft\<close>, \<open>debate.aiPrep\<close>,
  \<open>simulation.narrative\<close>, \<open>manifestoAI.draft\<close>), the deadline-alert jobs of \<open>notifications\<close> and the website
  publisher, all of \<^verbatim>\<open>server/routers.ts\<close>. The parameter \<open>ask\<close> gives, for a request, the error or the optional
  text \<open>choices[0].message.content\<close> of the reply (\<open>invokeLLM\<close> of the client, read at that field); the job service and
  the storage are parameters too. How JavaScript prints a number is the parameter \<open>num\<close>, \<open>toLocaleString\<close> of one
  \<open>loc\<close>.
\<close>

section \<open>Drafting\<close>

type_synonym assistant = "invokeParams \<Rightarrow> error + string option"

definition nl :: string where "nl = [CHR 0x0A]"

definition quote :: string where "quote = [CHR 0x22]"

definition chat :: "(llmRole \<times> string) list \<Rightarrow> string option \<Rightarrow> nat option \<Rightarrow> invokeParams" where
  "chat msgs model maxTokens =
     \<lparr>ip_messages = map (\<lambda>(r, c). \<lparr>msg_role = r, msg_content = Single (PlainContent c), msg_name = None, msg_toolCallId = None\<rparr>) msgs,
      ip_tools = None, ip_toolChoice = None, ip_tool_choice = None, ip_maxTokens = None, ip_max_tokens = maxTokens,
      ip_responseFormat = None, ip_response_format = None, ip_outputSchema = None, ip_output_schema = None, ip_model = model\<rparr>"

definition askE :: "assistant \<Rightarrow> invokeParams \<Rightarrow> string \<Rightarrow> (world, string) proc" where
  "askE ask p fallback = (case ask p of Inl e \<Rightarrow> throwE e | Inr c \<Rightarrow> returnE (nullish c fallback))"

definition show_office :: "officeType \<Rightarrow> string" where
  "show_office x = (case x of President \<Rightarrow> ''President'' | Governor \<Rightarrow> ''Governor'' | Senator \<Rightarrow> ''Senator'' | House \<Rightarrow> ''House'' | LGA \<Rightarrow> ''LGA'')"

definition prof_name :: "string \<Rightarrow> candidateProfile option \<Rightarrow> string" where
  "prof_name d p = (case p of None \<Rightarrow> d | Some r \<Rightarrow> cp_candidateName r)"

definition prof_party :: "candidateProfile option \<Rightarrow> string" where
  "prof_party p = (case p of None \<Rightarrow> ''The Party'' | Some r \<Rightarrow> nullish (cp_partyName r) ''The Party'')"

definition prof_state :: "candidateProfile option \<Rightarrow> string" where
  "prof_state p = (case p of None \<Rightarrow> ''the State'' | Some r \<Rightarrow> nullish (cp_stateName r) ''the State'')"

definition prof_office :: "candidateProfile option \<Rightarrow> string" where
  "prof_office p = (case p of None \<Rightarrow> ''Office'' | Some r \<Rightarrow> (case cp_office r of None \<Rightarrow> ''Office'' | Some o' \<Rightarrow> show_office o'))"

definition pressRelease_aiDraft ::
  "assistant \<Rightarrow> sessionUser option \<Rightarrow> jsValue \<Rightarrow> string \<Rightarrow> string \<Rightarrow> string \<Rightarrow> string option \<Rightarrow> (world, string \<times> string) proc" where
  "pressRelease_aiDraft ask u raw template headline keyPoints tone =
     profileScopedProcedure Viewer u raw (\<lambda>x _ _.
       seqE (zodE (vc 100 template \<and> vc 500 headline \<and> vc 2000 keyPoints \<and> vco 100 tone))
       (seqE (assertLlmCallAllowed (su_id x))
       (bindE (getOrCreateUserProfile (su_id x)) (\<lambda>profile.
        bindE (askE ask (chat
          [(RoleSystem, ''You are a professional political communications writer specialising in Nigerian elections. Write press releases for INEC-registered candidates in a '' @ nullish tone ''professional and authoritative'' @ '' tone. Always include: a dateline (FOR IMMEDIATE RELEASE), a strong headline, a lead paragraph with the 5 Ws, 2-3 body paragraphs with quotes from the candidate, and a standard boilerplate ending. Use formal Nigerian English.''),
           (RoleUser, ''Write a full press release for the following:'' @ nl @ nl @ ''Template type: '' @ template @ nl @
              ''Candidate: '' @ prof_name ''The Candidate'' profile @ nl @ ''Party: '' @ prof_party profile @ nl @
              ''Office sought: '' @ prof_office profile @ nl @ ''State: '' @ prof_state profile @ nl @
              ''Headline/Topic: '' @ headline @ nl @ ''Key points to include:'' @ nl @ keyPoints @ nl @ nl @
              ''Produce only the press release text, no commentary.'')] None None) []) (\<lambda>content.
        returnE (content, headline))))))"

definition platform_limit :: "string \<Rightarrow> int" where
  "platform_limit p =
     (if toLowerCase p = ''twitter'' then 280 else if toLowerCase p = ''facebook'' then 500
      else if toLowerCase p = ''instagram'' then 2200 else if toLowerCase p = ''whatsapp'' then 1000 else 500)"

definition socialMedia_aiGenerate ::
  "assistant \<Rightarrow> sessionUser option \<Rightarrow> string \<Rightarrow> string \<Rightarrow> string option \<Rightarrow> (world, string) proc" where
  "socialMedia_aiGenerate ask u platform topic tone =
     requireUser u (\<lambda>x.
       seqE (zodE (vc 50 platform \<and> vc 500 topic \<and> vco 100 tone))
       (seqE (assertLlmCallAllowed (su_id x))
       (bindE (getOrCreateUserProfile (su_id x)) (\<lambda>profile.
        askE ask (chat
          [(RoleUser, ''Write a '' @ platform @ '' post for Nigerian political candidate '' @ prof_name ''The Candidate'' profile @
              '' ('' @ prof_party profile @ ''). Topic: '' @ topic @ ''. Tone: '' @ nullish tone ''inspiring and relatable'' @
              ''. Max '' @ show_int (platform_limit platform) @ '' characters. Include 2-3 relevant hashtags at the end. Output only the post text.'')]
          None (Some 300)) []))))"

record analyzeInput =
  an_opponentName :: string
  an_party :: "string option"
  an_strength :: "string option"
  an_weakness :: "string option"
  an_notes :: "string option"
  an_threatLevel :: "string option"

definition opposition_aiAnalyze :: "assistant \<Rightarrow> sessionUser option \<Rightarrow> analyzeInput \<Rightarrow> (world, string) proc" where
  "opposition_aiAnalyze ask u d =
     requireUser u (\<lambda>x.
       seqE (zodE (vc 200 (an_opponentName d) \<and> vco 100 (an_party d) \<and> vco 2000 (an_strength d) \<and> vco 2000 (an_weakness d) \<and>
               vco 2000 (an_notes d) \<and> vco 20 (an_threatLevel d)))
       (seqE (assertLlmCallAllowed (su_id x))
       (bindE (getOrCreateUserProfile (su_id x)) (\<lambda>profile.
        askE ask (chat
          [(RoleUser, ''You are a Nigerian political strategist. Analyse this opponent and provide 3-4 specific, actionable counter-strategy recommendations for '' @
              prof_name ''Our candidate'' profile @ ''.'' @ nl @ nl @ ''Opponent: '' @ an_opponentName d @ '' ('' @
              nullish (an_party d) ''Unknown party'' @ '')'' @ nl @ ''Threat level: '' @ nullish (an_threatLevel d) ''medium'' @ nl @
              ''Strengths: '' @ nullish (an_strength d) ''Unknown'' @ nl @ ''Weaknesses: '' @ nullish (an_weakness d) ''Unknown'' @ nl @
              ''Notes: '' @ nullish (an_notes d) ''None'' @ nl @ nl @ ''Provide only the strategic analysis, no preamble.'')]
          None (Some 400)) ''Unable to generate analysis.''))))"

record diasporaDraftInput =
  df_contactName :: string
  df_country :: string
  df_city :: "string option"
  df_messageType :: string
  df_candidateName :: "string option"
  df_partyName :: "string option"
  df_keyMessage :: "string option"

definition diaspora_aiDraft :: "assistant \<Rightarrow> sessionUser option \<Rightarrow> jsValue \<Rightarrow> diasporaDraftInput \<Rightarrow> (world, string) proc" where
  "diaspora_aiDraft ask u raw d =
     profileScopedProcedure Viewer u raw (\<lambda>x _ _.
       seqE (zodE (vc 200 (df_contactName d) \<and> vc 100 (df_country d) \<and> vco 100 (df_city d) \<and>
               df_messageType d \<in> {''whatsapp'', ''email''} \<and> vco 200 (df_candidateName d) \<and> vco 100 (df_partyName d) \<and>
               vco 2000 (df_keyMessage d)))
       (seqE (assertLlmCallAllowed (su_id x))
       (askE ask (chat
          [(RoleSystem, ''You are a Nigerian political campaign communications specialist. Write personalised outreach messages for diaspora Nigerians. Be warm, specific, and compelling. Keep WhatsApp messages under 300 words and emails under 400 words.''),
           (RoleUser, ''Write a '' @ (if df_messageType d = ''whatsapp'' then ''WhatsApp'' else ''professional email'') @ '' message to '' @
              df_contactName d @ '' in '' @ (if truthy_str (df_city d) then nullish (df_city d) [] @ '', '' else []) @ df_country d @ ''.'' @ nl @
              ''Candidate: '' @ str_or (df_candidateName d) ''our candidate'' @ nl @ ''Party: '' @ str_or (df_partyName d) ''our party'' @ nl @
              (if truthy_str (df_keyMessage d) then ''Key message to convey: '' @ nullish (df_keyMessage d) []
               else ''Focus on diaspora support, voter mobilisation, and financial contributions.'') @ nl @
              ''Make it personal, specific to their location, and include a clear call to action.'')]
          (Some ''auto'') (Some 600)) ''Unable to generate message.'')))"

record debatePrepInput =
  dp_topic :: string
  dp_opponentName :: "string option"
  dp_opponentWeaknesses :: "string list option"
  dp_opponentStrengths :: "string list option"
  dp_candidateName :: "string option"
  dp_partyName :: "string option"

definition bounded_list :: "nat \<Rightarrow> nat \<Rightarrow> string list option \<Rightarrow> bool" where
  "bounded_list n k xs = (case xs of None \<Rightarrow> True | Some ys \<Rightarrow> length ys \<le> k \<and> list_all (vc n) ys)"

definition listed :: "string \<Rightarrow> string list option \<Rightarrow> string" where
  "listed label xs = (case xs of None \<Rightarrow> [] | Some ys \<Rightarrow> if ys = [] then [] else label @ join '', '' ys)"

definition debate_aiPrep :: "assistant \<Rightarrow> sessionUser option \<Rightarrow> jsValue \<Rightarrow> debatePrepInput \<Rightarrow> (world, string) proc" where
  "debate_aiPrep ask u raw d =
     profileScopedProcedure Viewer u raw (\<lambda>x _ _.
       seqE (zodE (vc 500 (dp_topic d) \<and> vco 200 (dp_opponentName d) \<and> bounded_list 500 10 (dp_opponentWeaknesses d) \<and>
               bounded_list 500 10 (dp_opponentStrengths d) \<and> vco 200 (dp_candidateName d) \<and> vco 100 (dp_partyName d)))
       (seqE (assertLlmCallAllowed (su_id x))
       (askE ask (chat
          [(RoleSystem, ''You are an expert Nigerian political debate coach preparing a candidate for a gubernatorial/senatorial debate.'' @ nl @
              ''Generate structured debate preparation material in a professional, confident tone appropriate for Nigerian political discourse.''),
           (RoleUser, ''Prepare debate material for '' @ str_or (dp_candidateName d) ''our candidate'' @ '' ('' @ str_or (dp_partyName d) ''our party'' @
              '') on the topic: '' @ quote @ dp_topic d @ quote @ ''.'' @ nl @
              (if truthy_str (dp_opponentName d) then ''Opponent: '' @ nullish (dp_opponentName d) [] else []) @ nl @
              listed ''Opponent weaknesses to exploit: '' (dp_opponentWeaknesses d) @ nl @
              listed ''Opponent strengths to counter: '' (dp_opponentStrengths d) @ nl @ nl @ ''Provide:'' @ nl @
              ''1. **Opening Statement** (2-3 sentences, powerful and memorable)'' @ nl @
              ''2. **3 Key Talking Points** (specific, data-driven, actionable)'' @ nl @
              ''3. **2 Rebuttal Lines** (direct counter to opponent's likely attacks)'' @ nl @
              ''4. **Closing Message** (1-2 sentences that voters will remember)'' @ nl @ nl @
              ''Format with clear headers. Be specific to Nigerian political context.'')]
          (Some ''auto'') (Some 800)) ''Unable to generate debate prep.'')))"

record narrativeInput =
  na_scenario :: string
  na_stateCode :: "string option"
  na_projectedTurnout :: rat
  na_validVotesCast :: rat
  na_bvasFailureRate :: rat
  na_logisticsScore :: rat
  na_securityIndex :: rat
  na_certificationEta :: rat
  na_rejectedBallots :: rat
  na_monteCarloP5 :: rat
  na_monteCarloP50 :: rat
  na_monteCarloP95 :: rat
  na_modelConfidence :: rat
  na_disruptions :: "string list"

definition simulation_narrative ::
  "(rat \<Rightarrow> string) \<Rightarrow> (rat \<Rightarrow> string) \<Rightarrow> assistant \<Rightarrow> sessionUser option \<Rightarrow> narrativeInput \<Rightarrow> (world, string) proc" where
  "simulation_narrative num loc ask u d =
     requireUser u (\<lambda>x.
       seqE (zodE (vc 100 (na_scenario d) \<and> vco 10 (na_stateCode d) \<and> bounded_list 200 20 (Some (na_disruptions d))))
       (seqE (assertLlmCallAllowed (su_id x))
       (askE ask (chat
          [(RoleUser, join nl
             [''You are an election analyst for Nigeria. Summarise this Monte Carlo simulation result in 2-3 plain-English sentences for a campaign team briefing. Be specific about the numbers and actionable in your recommendation. Do not use bullet points.'',
              [],
              ''Scenario: '' @ na_scenario d @ '' | State: '' @ nullish (na_stateCode d) ''FCT'',
              ''Projected turnout: '' @ num (na_projectedTurnout d) @ ''% (P5: '' @ num (na_monteCarloP5 d) @ ''%, P50: '' @
                num (na_monteCarloP50 d) @ ''%, P95: '' @ num (na_monteCarloP95 d) @ ''%)'',
              ''Valid votes cast: '' @ loc (na_validVotesCast d),
              ''BVAS failure rate: '' @ num (na_bvasFailureRate d) @ ''%'',
              ''Logistics score: '' @ num (na_logisticsScore d) @ ''/100'',
              ''Security index: '' @ num (na_securityIndex d) @ ''/100'',
              ''Certification ETA: '' @ num (na_certificationEta d) @ '' hours'',
              ''Rejected ballots: '' @ loc (na_rejectedBallots d),
              ''Model confidence: '' @ num (na_modelConfidence d) @ ''%'',
              ''Disruptions: '' @ join ''; '' (na_disruptions d)])]
          (Some ''auto'') (Some 250)) ''Unable to generate narrative.'')))"

definition manifestoAI_draft ::
  "assistant \<Rightarrow> sessionUser option \<Rightarrow> jsValue \<Rightarrow> string \<Rightarrow> string \<Rightarrow> string option \<Rightarrow> (world, string) proc" where
  "manifestoAI_draft ask u raw policyArea brief tone =
     profileScopedProcedure Viewer u raw (\<lambda>x _ _.
       seqE (zodE (vc 200 policyArea \<and> vc 2000 brief \<and> vco 100 tone))
       (seqE (assertLlmCallAllowed (su_id x))
       (bindE (getOrCreateUserProfile (su_id x)) (\<lambda>profile.
        askE ask (chat
          [(RoleSystem, ''You are a senior political policy writer specialising in Nigerian electoral manifestos. Write compelling, specific, and credible manifesto sections for INEC-registered candidates. Use a '' @ nullish tone ''visionary and actionable'' @ '' tone. Each section should include: a clear policy statement, 3-5 specific commitments with measurable targets, implementation timeline, and expected impact on citizens. Use formal Nigerian English.''),
           (RoleUser, ''Write a manifesto section for the following:'' @ nl @ nl @ ''Policy Area: '' @ policyArea @ nl @
              ''Candidate: '' @ prof_name ''The Candidate'' profile @ nl @ ''Party: '' @ prof_party profile @ nl @
              ''Office sought: '' @ prof_office profile @ nl @ ''State: '' @ prof_state profile @ nl @
              ''Brief/Key ideas: '' @ brief @ nl @ nl @ ''Produce only the manifesto section text, no commentary.'')]
          None None) []))))"

section \<open>Deadline-alert jobs\<close>

record heartbeatJobInfo =
  hj_taskUid :: string
  hj_name :: string
  hj_isEnable :: bool

record heartbeatJob =
  hb_name :: string
  hb_cron :: string
  hb_path :: string
  hb_profileId :: int
  hb_description :: string

text \<open>The job service: its list, and its answers to a creation and to a deletion.\<close>

record jobService =
  js_list :: "error + heartbeatJobInfo list"
  js_create :: "heartbeatJob \<Rightarrow> error + string \<times> string option"
  js_delete :: "string \<Rightarrow> error + unit"

definition liftE :: "error + 'a \<Rightarrow> (world, 'a) proc" where
  "liftE r = (case r of Inl e \<Rightarrow> throwE e | Inr x \<Rightarrow> returnE x)"

definition alert_prefix :: "int \<Rightarrow> string" where
  "alert_prefix pid = ''deadline-alerts-'' @ show_int pid @ ''-''"

definition alert_job :: "int \<Rightarrow> heartbeatJobInfo list \<Rightarrow> heartbeatJobInfo option" where
  "alert_job pid jobs = List.find (\<lambda>j. starts_with (hj_name j) (alert_prefix pid)) jobs"

definition notifications_status :: "jobService \<Rightarrow> sessionUser option \<Rightarrow> jsValue \<Rightarrow> (world, bool \<times> heartbeatJobInfo option) proc" where
  "notifications_status svc u raw =
     profileScopedProcedure Viewer u raw (\<lambda>_ _ pid.
       catchE
         (bindE (liftE (js_list svc)) (\<lambda>jobs.
          let job = alert_job pid jobs in returnE ((case job of None \<Rightarrow> False | Some j \<Rightarrow> hj_isEnable j), job)))
         (\<lambda>_. returnE (False, None)))"

definition validateCallbackPath :: "string \<Rightarrow> (world, unit) proc" where
  "validateCallbackPath path =
     guardE (starts_with path ''/api/scheduled/'') (TRPC BAD_REQUEST ''callback path must start with /api/scheduled/'')"

definition notifications_enable :: "jobService \<Rightarrow> sessionUser option \<Rightarrow> jsValue \<Rightarrow> (world, string \<times> string option) proc" where
  "notifications_enable svc u raw =
     profileScopedProcedure Manager u raw (\<lambda>x _ pid.
       let job = \<lparr>hb_name = alert_prefix pid @ show_int (su_id x), hb_cron = ''0 0 8 * * *'',
                  hb_path = ''/api/scheduled/deadline-check'', hb_profileId = pid,
                  hb_description = ''Daily deadline alerts for profile '' @ show_int pid\<rparr>
       in seqE (validateCallbackPath (hb_path job)) (liftE (js_create svc job)))"

definition notifications_disable :: "jobService \<Rightarrow> sessionUser option \<Rightarrow> jsValue \<Rightarrow> (world, bool) proc" where
  "notifications_disable svc u raw =
     profileScopedProcedure Manager u raw (\<lambda>_ _ pid.
       bindE (liftE (js_list svc)) (\<lambda>jobs.
       case alert_job pid jobs of
         None \<Rightarrow> returnE True
       | Some j \<Rightarrow> seqE (liftE (js_delete svc (hj_taskUid j))) (returnE True)))"

text \<open>\<open>day\<close> prints a date in the locale.\<close>

definition notifications_testAlert :: "(date \<Rightarrow> string) \<Rightarrow> sessionUser option \<Rightarrow> jsValue \<Rightarrow> (world, bool \<times> nat) proc" where
  "notifications_testAlert day u raw =
     profileScopedProcedure Viewer u raw (\<lambda>_ _ pid.
       bindE (getUpcomingDeadlines pid 48) (\<lambda>events.
       if events = []
       then seqE (notifyOwner ''INEC Campaign - No Upcoming Deadlines'' ''No critical deadlines in the next 48 hours.'') (returnE (True, 0))
       else seqE (notifyOwner (''INEC Campaign - '' @ show_int (int (length events)) @ '' Deadline(s) in 48 Hours'')
                    (''The following campaign deadlines are approaching:'' @ nl @ nl @
                     join nl (map (\<lambda>e. ''* '' @ te_title e @ '' - '' @ day (te_eventDate e)) events) @ nl @ nl @
                     ''Please take action immediately.''))
              (returnE (True, length events))))"

section \<open>Website and session\<close>

definition candidateWebsite_publish ::
  "(string \<Rightarrow> string \<Rightarrow> error + string) \<Rightarrow> sessionUser option \<Rightarrow> jsValue \<Rightarrow> string \<Rightarrow> string \<Rightarrow> (world, string \<times> string) proc" where
  "candidateWebsite_publish storagePut u raw htmlContent candidateName =
     profileScopedProcedure Manager u raw (\<lambda>_ _ pid.
       seqE (zodE (vc 500000 htmlContent \<and> vc 200 candidateName))
       (let key = ''campaign-sites/profile-'' @ show_int pid @ ''/index.html''
        in bindE (liftE (storagePut key htmlContent)) (\<lambda>url. returnE (url, key))))"

definition auth_me :: "sessionUser option \<Rightarrow> (world, sessionUser option) proc" where
  "auth_me u = returnE u"

section \<open>Ids and other campaigns\<close>

lemma askE_preserves [preserves_intros]: "preserves I (askE ask p d)"
  and liftE_preserves [preserves_intros]: "preserves I (liftE r)"
  by (simp_all add: askE_def liftE_def preserves_def run_simps split: sum.split)

lemma askE_outsider [outsider_intros]: "follows (outsider u q) (askE ask p d)"
  and liftE_outsider [outsider_intros]: "follows (outsider u q) (liftE r)"
  by (simp_all add: askE_def liftE_def follows_def run_simps outsider_step.refl split: sum.split)

lemmas assistant_defs =
  pressRelease_aiDraft_def socialMedia_aiGenerate_def opposition_aiAnalyze_def diaspora_aiDraft_def debate_aiPrep_def
  simulation_narrative_def manifestoAI_draft_def notifications_status_def notifications_enable_def notifications_disable_def
  notifications_testAlert_def getUpcomingDeadlines_def validateCallbackPath_def candidateWebsite_publish_def auth_me_def Let_def

lemma wf_assistant_procedures [preserves_intros]:
  "preserves wf_ids (pressRelease_aiDraft ask u raw template headline keyPoints tone)"
  "preserves wf_ids (socialMedia_aiGenerate ask u platform topic tone)"
  "preserves wf_ids (opposition_aiAnalyze ask u an)"
  "preserves wf_ids (diaspora_aiDraft ask u raw df)"
  "preserves wf_ids (debate_aiPrep ask u raw dp)"
  "preserves wf_ids (simulation_narrative num loc ask u na)"
  "preserves wf_ids (manifestoAI_draft ask u raw policyArea brief tone)"
  "preserves wf_ids (notifications_status svc u raw)"
  "preserves wf_ids (notifications_enable svc u raw)"
  "preserves wf_ids (notifications_disable svc u raw)"
  "preserves wf_ids (notifications_testAlert day u raw)"
  "preserves wf_ids (candidateWebsite_publish storagePut u raw html name)"
  "preserves wf_ids (auth_me u)"
  unfolding assistant_defs by (intro preserves_intros)+

lemma outsider_assistant_procedures [outsider_intros]:
  "follows (outsider u q) (pressRelease_aiDraft ask u raw template headline keyPoints tone)"
  "follows (outsider u q) (socialMedia_aiGenerate ask u platform topic tone)"
  "follows (outsider u q) (opposition_aiAnalyze ask u an)"
  "follows (outsider u q) (diaspora_aiDraft ask u raw df)"
  "follows (outsider u q) (debate_aiPrep ask u raw dp)"
  "follows (outsider u q) (simulation_narrative num loc ask u na)"
  "follows (outsider u q) (manifestoAI_draft ask u raw policyArea brief tone)"
  "follows (outsider u q) (notifications_status svc u raw)"
  "follows (outsider u q) (notifications_enable svc u raw)"
  "follows (outsider u q) (notifications_disable svc u raw)"
  "follows (outsider u q) (notifications_testAlert day u raw)"
  "follows (outsider u q) (candidateWebsite_publish storagePut u raw html name)"
  "follows (outsider u q) (auth_me u)"
  unfolding assistant_defs by (intro outsider_intros; assumption?)+

section \<open>The budget of the assistants\<close>

datatype aiCall =
    DraftPress jsValue string string string "string option"
  | GeneratePost string string "string option"
  | AnalyzeOpponent analyzeInput
  | DraftDiaspora jsValue diasporaDraftInput
  | PrepareDebate jsValue debatePrepInput
  | Narrate narrativeInput
  | DraftManifesto jsValue string string "string option"

fun ai_call :: "(rat \<Rightarrow> string) \<Rightarrow> (rat \<Rightarrow> string) \<Rightarrow> assistant \<Rightarrow> sessionUser \<Rightarrow> aiCall \<Rightarrow> (world, unit) proc" where
  "ai_call num loc ask x (DraftPress raw template headline keyPoints tone) =
     voidE (pressRelease_aiDraft ask (Some x) raw template headline keyPoints tone)"
| "ai_call num loc ask x (GeneratePost platform topic tone) = voidE (socialMedia_aiGenerate ask (Some x) platform topic tone)"
| "ai_call num loc ask x (AnalyzeOpponent d) = voidE (opposition_aiAnalyze ask (Some x) d)"
| "ai_call num loc ask x (DraftDiaspora raw d) = voidE (diaspora_aiDraft ask (Some x) raw d)"
| "ai_call num loc ask x (PrepareDebate raw d) = voidE (debate_aiPrep ask (Some x) raw d)"
| "ai_call num loc ask x (Narrate d) = voidE (simulation_narrative num loc ask (Some x) d)"
| "ai_call num loc ask x (DraftManifesto raw policyArea brief tone) = voidE (manifestoAI_draft ask (Some x) raw policyArea brief tone)"

text \<open>Which of a sequence of calls, each by its user and at its time, succeed.\<close>

fun serve_ai ::
  "(rat \<Rightarrow> string) \<Rightarrow> (rat \<Rightarrow> string) \<Rightarrow> assistant \<Rightarrow> (sessionUser \<times> aiCall \<times> time) list \<Rightarrow> world \<Rightarrow> bool list" where
  "serve_ai num loc ask [] s = []"
| "serve_ai num loc ask ((x, c, t) # es) s =
     (case ai_call num loc ask x c (s\<lparr>clock := t\<rparr>) of (res, s') \<Rightarrow> (\<not> isl res) # serve_ai num loc ask es s')"

definition served :: "int \<Rightarrow> time \<Rightarrow> (sessionUser \<times> aiCall \<times> time) list \<Rightarrow> bool list \<Rightarrow> nat" where
  "served uid w es bs =
     length (filter (\<lambda>((x, _, t), b). su_id x = uid \<and> windowStartMs LLM_WINDOW_SECONDS t = w \<and> b) (zip es bs))"

definition llm_key :: "int \<Rightarrow> string" where
  "llm_key uid = ''llm:'' @ show_int uid"

definition limits_are :: "rateLimit list \<Rightarrow> world \<Rightarrow> bool" where
  "limits_are L s \<longleftrightarrow> rateLimitsT s = L \<and> limiter_ready s"

text \<open>A gated program fails before the limiter is asked, or asks it once and succeeds only if admitted.\<close>

definition gated :: "int \<Rightarrow> (world, 'a) proc \<Rightarrow> bool" where
  "gated uid m \<longleftrightarrow> (\<forall>s. limiter_ready s \<longrightarrow> limiter_ready (snd (m s)) \<and>
     ((isl (fst (m s)) \<and> rateLimitsT (snd (m s)) = rateLimitsT s) \<or>
      (\<exists>r s1. hitRateLimit (llm_key uid) LLM_WINDOW_SECONDS LLM_MAX_CALLS_PER_USER s = (Inr r, s1) \<and>
         rateLimitsT (snd (m s)) = rateLimitsT s1 \<and> (\<not> isl (fst (m s)) \<longrightarrow> allowed r))))"

lemma limits_keep [preserves_intros]:
  "preserves (limits_are L) (insertRow candidateProfilesD eid mk)"
  "preserves (limits_are L) (updateRows candidateProfilesD P f)"
  by (simp_all add: preserves_def limits_are_def limiter_ready_def insertRow_def updateRows_def Let_def candidateProfilesD_def)

lemma limits_own_profile: "preserves (limits_are L) (getOrCreateUserProfile uid)"
  unfolding getOrCreateUserProfile_def upsertRow_def by (intro preserves_intros)

lemma gated_gate:
  assumes "\<And>L. preserves (limits_are L) m"
  shows "gated uid (seqE (assertLlmCallAllowed uid) m)"
  unfolding gated_def
proof (intro allI impI)
  fix s assume ready: "limiter_ready s"
  then obtain r s1 where hit: "hitRateLimit (llm_key uid) LLM_WINDOW_SECONDS LLM_MAX_CALLS_PER_USER s = (Inr r, s1)"
    and s1: "limiter_ready s1"
    by (auto simp: limiter_ready_def hitRateLimit_def hitPostgres_def Let_def)
  have "limits_are (rateLimitsT s1) (snd (m s1))" using preservesD [OF assms, of "rateLimitsT s1" s1] s1 by (simp add: limits_are_def)
  with hit s1 show "limiter_ready (snd (seqE (assertLlmCallAllowed uid) m s)) \<and>
     ((isl (fst (seqE (assertLlmCallAllowed uid) m s)) \<and> rateLimitsT (snd (seqE (assertLlmCallAllowed uid) m s)) = rateLimitsT s) \<or>
      (\<exists>r s1. hitRateLimit (llm_key uid) LLM_WINDOW_SECONDS LLM_MAX_CALLS_PER_USER s = (Inr r, s1) \<and>
         rateLimitsT (snd (seqE (assertLlmCallAllowed uid) m s)) = rateLimitsT s1 \<and> (\<not> isl (fst (seqE (assertLlmCallAllowed uid) m s)) \<longrightarrow> allowed r)))"
    by (simp add: seqE_run assertLlmCallAllowed_def llm_key_def bindE_run guardE_run limits_are_def)
qed

lemma gated_zod: "gated uid m \<Longrightarrow> gated uid (seqE (zodE b) m)"
  by (auto simp: gated_def seqE_run zodE_def guardE_run)

lemma gated_void: "gated uid m \<Longrightarrow> gated uid (voidE m)"
proof -
  have "snd (voidE m s) = snd (m s)" "isl (fst (voidE m s)) = isl (fst (m s))" for s
    by (cases "m s"; simp add: voidE_run split: sum.split)+
  then show "gated uid m \<Longrightarrow> gated uid (voidE m)" by (simp add: gated_def)
qed

lemma gated_require: "(\<And>x. gated uid (f x)) \<Longrightarrow> gated uid (requireUser (Some x) f)"
  by (simp add: requireUser_def)

lemma gated_throw: "gated uid (throwE e)"
  by (simp add: gated_def throwE_run)

lemma gated_scoped:
  assumes "\<And>r pid. gated uid (f x r pid)"
  shows "gated uid (profileScopedProcedure role (Some x) raw f)"
proof (cases "integer_of raw")
  case None
  then show ?thesis by (simp add: profileScoped_assert gated_throw)
next
  case (Some pid)
  have "gated uid (bindE (assertProfileRole (Some x) pid role) (\<lambda>r. f x r pid))"
  proof -
    have "bindE (assertProfileRole (Some x) pid role) (\<lambda>r. f x r pid) s =
        (case fst (assertProfileRole (Some x) pid role s) of Inl e \<Rightarrow> (Inl e, s) | Inr r \<Rightarrow> f x r pid s)" for s
      using assertProfileRole_state [of "Some x" pid role s]
      by (cases "assertProfileRole (Some x) pid role s") (simp add: bindE_run split: sum.split)
    then show ?thesis using assms by (auto simp: gated_def split: sum.split)
  qed
  with Some show ?thesis by (simp add: profileScoped_assert)
qed

lemma gated_ai_call: "gated (su_id x) (ai_call num loc ask x c)"
proof -
  have ask: "preserves (limits_are L) (askE ask p d)" for L p d by (rule askE_preserves)
  show ?thesis
    unfolding pressRelease_aiDraft_def socialMedia_aiGenerate_def opposition_aiAnalyze_def diaspora_aiDraft_def debate_aiPrep_def
      simulation_narrative_def manifestoAI_draft_def
    by (cases c; simp only: ai_call.simps pressRelease_aiDraft_def socialMedia_aiGenerate_def opposition_aiAnalyze_def
        diaspora_aiDraft_def debate_aiPrep_def simulation_narrative_def manifestoAI_draft_def requireUser_def option.case;
        intro gated_void gated_scoped gated_zod gated_gate preserves_bindE preserves_returnE limits_own_profile ask)
qed

lemma ai_call_counts:
  assumes "limiter_ready s" and "ai_call num loc ask x c s = (res, s')"
  shows "limiter_ready s'"
    and "clock s - two_days_ms \<le> w \<Longrightarrow>
      window_count (llm_key uid) w (rateLimitsT s) \<le> window_count (llm_key uid) w (rateLimitsT s') \<and>
      (\<not> isl res \<and> su_id x = uid \<and> windowStartMs LLM_WINDOW_SECONDS (clock s) = w \<longrightarrow>
        window_count (llm_key uid) w (rateLimitsT s) < LLM_MAX_CALLS_PER_USER \<and>
        window_count (llm_key uid) w (rateLimitsT s') = window_count (llm_key uid) w (rateLimitsT s) + 1)"
proof -
  note g = gated_ai_call [of x num loc ask c, unfolded gated_def, rule_format, OF assms(1), unfolded assms(2) fst_conv snd_conv]
  show "limiter_ready s'" using g by simp
  assume recent: "clock s - two_days_ms \<le> w"
  consider (early) "isl res" "rateLimitsT s' = rateLimitsT s"
    | (hit) r s1 where "hitRateLimit (llm_key (su_id x)) LLM_WINDOW_SECONDS LLM_MAX_CALLS_PER_USER s = (Inr r, s1)"
      "rateLimitsT s' = rateLimitsT s1" "\<not> isl res \<longrightarrow> allowed r"
    using g by auto
  then show "window_count (llm_key uid) w (rateLimitsT s) \<le> window_count (llm_key uid) w (rateLimitsT s') \<and>
      (\<not> isl res \<and> su_id x = uid \<and> windowStartMs LLM_WINDOW_SECONDS (clock s) = w \<longrightarrow>
        window_count (llm_key uid) w (rateLimitsT s) < LLM_MAX_CALLS_PER_USER \<and>
        window_count (llm_key uid) w (rateLimitsT s') = window_count (llm_key uid) w (rateLimitsT s) + 1)"
  proof cases
    case (hit r s1)
    note counts = hit_window_counts [OF assms(1) hit(1) recent]
    show ?thesis
      using hit(2,3) counts(1) [of "llm_key uid"] counts(2)
      by (cases "su_id x = uid"; cases "windowStartMs LLM_WINDOW_SECONDS (clock s) = w") auto
  qed simp
qed

interpretation ai_meter: metered "\<lambda>(x, c). ai_call num loc ask x c" "\<lambda>(x, c) r. su_id x = uid \<and> \<not> isl r" "\<lambda>_. False"
    "llm_key uid" LLM_WINDOW_SECONDS LLM_MAX_CALLS_PER_USER for num loc ask uid
proof unfold_locales
  show "0 < LLM_WINDOW_SECONDS" and "LLM_WINDOW_SECONDS \<le> 172800" by (simp_all add: LLM_WINDOW_SECONDS_def)
next
  fix s s' :: world and c r w
  assume ready: "limiter_ready s" and run: "(case c of (x, c) \<Rightarrow> ai_call num loc ask x c) s = (r, s')"
  obtain x a where c: "c = (x, a)" by (cases c)
  note call = ai_call_counts [OF ready run [unfolded c prod.case]]
  show "limiter_ready s'" by (rule call(1))
  show "window_count (llm_key uid) w (rateLimitsT s) \<le> window_count (llm_key uid) w (rateLimitsT s')"
    if "clock s - two_days_ms \<le> w"
    using call(2) [OF that] by simp
  assume charge: "(case c of (x, c) \<Rightarrow> \<lambda>r. su_id x = uid \<and> \<not> isl r) r" and w: "windowStartMs LLM_WINDOW_SECONDS (clock s) = w"
  have "clock s - two_days_ms \<le> w"
    using w hour_window.running_window_kept [of "clock s" "clock s"] by (simp add: LLM_WINDOW_SECONDS_def)
  then show "window_count (llm_key uid) w (rateLimitsT s) < LLM_MAX_CALLS_PER_USER \<and>
      window_count (llm_key uid) w (rateLimitsT s') = window_count (llm_key uid) w (rateLimitsT s) + 1"
    using call(2) charge w c by auto
qed

lemma served_charged:
  "served uid w es (serve_ai num loc ask es s) =
     charged (\<lambda>(x, c) r. su_id x = uid \<and> \<not> isl r) LLM_WINDOW_SECONDS w (map (\<lambda>(x, c, t). ((x, c), t)) es)
       (run_calls (\<lambda>(x, c). ai_call num loc ask x c) (map (\<lambda>(x, c, t). ((x, c), t)) es) s)"
  by (induction num loc ask es s rule: serve_ai.induct)
    (auto simp: served_def charged_def split: prod.splits)

text \<open>C21: the assistants share one budget. In production, whatever assistants are called, by whomever, in whatever order
  and at whatever advancing times, at most twenty calls of one user succeed in an hour.\<close>

theorem ai_budget:
  assumes "limiter_ready s" and "sorted (map (\<lambda>e. snd (snd e)) es)" and "0 \<le> window_count (llm_key uid) w (rateLimitsT s)"
  shows "served uid w es (serve_ai num loc ask es s) \<le> 20"
proof -
  let ?es = "map (\<lambda>(x, c, t). ((x, c), t)) es"
  have "map snd ?es = map (\<lambda>e. snd (snd e)) es" by auto
  then have sorted: "sorted (map snd ?es)" using assms(2) by (simp only:)
  show ?thesis
    using ai_meter.charged_bound [OF assms(1) sorted, where uid = uid and w = w and num = num and loc = loc and ask = ask] assms(3)
    by (simp add: served_charged LLM_MAX_CALLS_PER_USER_def list_all_iff)
qed

theorem ai_budget_witness:
  "served 1 0 (replicate 25 (ada, GeneratePost ''twitter'' ''roads'' None, 5)) (serve_ai (\<lambda>_. []) (\<lambda>_. []) (\<lambda>_. Inr None)
     (replicate 25 (ada, GeneratePost ''twitter'' ''roads'' None, 5)) demo_world) \<le> 20"
  using ai_budget [of demo_world "replicate 25 (ada, GeneratePost ''twitter'' ''roads'' None, 5)" 1 0]
  by (simp add: limiter_ready_def window_count_def demo_world_def empty_world_def)

end
