(* ===== verification/War_Room_Stream.thy ===== *)
theory War_Room_Stream
  imports Outbound "HOL-Library.AList"
begin

text \<open>
  The registry of open war-room streams of \<^verbatim>\<open>server/_core/sse.ts\<close> and the endpoint
  \<open>/api/war-room/stream\<close> of \<^verbatim>\<open>server/_core/index.ts\<close>. The two \<open>Map\<close>s are association lists in insertion
  order, a \<open>Set\<close> of responses the list of its elements. A response is the number of its registration; the closure
  that \<open>registerSseClient\<close> returns, with the variable \<open>cleaned\<close> it captures, is the entry of that number in
  \<open>handlers\<close>. What is written to the responses is the log \<open>written\<close>.
\<close>

section \<open>The registry\<close>

record streamHandler =
  sh_profileId :: int
  sh_userId :: int
  sh_cleaned :: bool

record sseState =
  sseClients :: "(int \<times> nat list) list"
  sseStreamsPerUser :: "(int \<times> nat) list"
  handlers :: "streamHandler list"
  written :: "(nat \<times> int) list"
  shuttingDown :: bool

definition sse_start :: sseState where
  "sse_start = \<lparr>sseClients = [], sseStreamsPerUser = [], handlers = [], written = [], shuttingDown = False\<rparr>"

definition SSE_MAX_CLIENTS :: nat where "SSE_MAX_CLIENTS = 500"

definition SSE_MAX_STREAMS_PER_USER :: nat where "SSE_MAX_STREAMS_PER_USER = 5"

definition sseClientCount :: "sseState \<Rightarrow> nat" where
  "sseClientCount r = sum_list (map (\<lambda>(_, clients). length clients) (sseClients r))"

definition sseStreamCountForUser :: "int \<Rightarrow> sseState \<Rightarrow> nat" where
  "sseStreamCountForUser uid r = (case map_of (sseStreamsPerUser r) uid of None \<Rightarrow> 0 | Some n \<Rightarrow> n)"

definition recipients :: "int \<Rightarrow> sseState \<Rightarrow> nat list" where
  "recipients pid r = (case map_of (sseClients r) pid of None \<Rightarrow> [] | Some clients \<Rightarrow> clients)"

definition sse_broadcast :: "int \<Rightarrow> sseState \<Rightarrow> sseState" where
  "sse_broadcast pid r = r\<lparr>written := written r @ map (\<lambda>res. (res, pid)) (recipients pid r)\<rparr>"

definition registerSseClient :: "int \<Rightarrow> int \<Rightarrow> sseState \<Rightarrow> nat \<times> sseState" where
  "registerSseClient pid uid r =
     (let res = length (handlers r);
          clients = recipients pid r
      in (res, r\<lparr>sseClients := AList.update pid (if res \<in> set clients then clients else clients @ [res]) (sseClients r),
                sseStreamsPerUser := AList.update uid (sseStreamCountForUser uid r + 1) (sseStreamsPerUser r),
                handlers := handlers r @ [\<lparr>sh_profileId = pid, sh_userId = uid, sh_cleaned = False\<rparr>]\<rparr>))"

text \<open>The closure of response \<open>res\<close>.\<close>

definition unregister :: "nat \<Rightarrow> sseState \<Rightarrow> sseState" where
  "unregister res r =
     (if res \<ge> length (handlers r) \<or> sh_cleaned (handlers r ! res) then r
      else let h = handlers r ! res;
               remaining = sseStreamCountForUser (sh_userId h) r
           in r\<lparr>handlers := (handlers r)[res := h\<lparr>sh_cleaned := True\<rparr>],
                sseClients :=
                  (case map_of (sseClients r) (sh_profileId h) of
                     None \<Rightarrow> sseClients r
                   | Some clients \<Rightarrow>
                       (if remove1 res clients = [] then AList.delete (sh_profileId h) (sseClients r)
                        else AList.update (sh_profileId h) (remove1 res clients) (sseClients r))),
                sseStreamsPerUser :=
                  (if remaining \<le> 1 then AList.delete (sh_userId h) (sseStreamsPerUser r)
                   else AList.update (sh_userId h) (remaining - 1) (sseStreamsPerUser r))\<rparr>)"

definition destroyAllSseClients :: "sseState \<Rightarrow> sseState" where
  "destroyAllSseClients r = r\<lparr>sseClients := [], sseStreamsPerUser := []\<rparr>"

section \<open>The endpoint\<close>

datatype streamReply =
    AuthenticationRequired \<comment> \<open>401\<close>
  | BadProfileId \<comment> \<open>400\<close>
  | NoAccess \<comment> \<open>403\<close>
  | TooManyStreams \<comment> \<open>503\<close>
  | TooManyForAccount \<comment> \<open>429\<close>
  | StreamOpen nat

text \<open>\<open>rawId\<close> is \<open>Number(req.query.profileId)\<close> where that is an integer; \<open>u\<close> is what \<open>authenticateRequest\<close>
  gave, if it did not throw.\<close>

definition openStream :: "sessionUser option \<Rightarrow> int option \<Rightarrow> world \<Rightarrow> sseState \<Rightarrow> streamReply \<times> sseState" where
  "openStream u rawId w r =
     (case u of
        None \<Rightarrow> (AuthenticationRequired, r)
      | Some x \<Rightarrow>
          (case rawId of
             None \<Rightarrow> (BadProfileId, r)
           | Some pid \<Rightarrow>
               if pid \<le> 0 then (BadProfileId, r)
               else if isl (fst (assertProfileRole (Some x) pid Viewer w)) then (NoAccess, r)
               else if sseClientCount r \<ge> SSE_MAX_CLIENTS then (TooManyStreams, r)
               else if sseStreamCountForUser (su_id x) r \<ge> SSE_MAX_STREAMS_PER_USER then (TooManyForAccount, r)
               else (case registerSseClient pid (su_id x) r of (res, r') \<Rightarrow> (StreamOpen res, r'))))"

text \<open>The shutdown handler: the listener stops accepting connections and every stream is ended.\<close>

definition shutdown :: "sseState \<Rightarrow> sseState" where
  "shutdown r = (if shuttingDown r then r else destroyAllSseClients (r\<lparr>shuttingDown := True\<rparr>))"

text \<open>What can happen to the registry: requests, each in the world of its moment and only while connections are
  accepted; closed connections; broadcasts; a shutdown signal.\<close>

inductive sse_step :: "sseState \<Rightarrow> sseState \<Rightarrow> bool" where
  connect: "\<not> shuttingDown r \<Longrightarrow> sse_step r (snd (openStream u rawId w r))"
| close: "sse_step r (unregister res r)"
| broadcast: "sse_step r (sse_broadcast pid r)"
| signal: "sse_step r (shutdown r)"

inductive sse_reachable :: "sseState \<Rightarrow> bool" where
  start: "sse_reachable sse_start"
| step: "sse_reachable r \<Longrightarrow> sse_step r r' \<Longrightarrow> sse_reachable r'"

section \<open>The streams that are open\<close>

text \<open>The abstract registry: the registrations not yet cleaned up, in order, none once the shutdown has begun.\<close>

definition open_handlers :: "streamHandler list \<Rightarrow> (nat \<times> streamHandler) list" where
  "open_handlers hs = filter (\<lambda>(_, h). \<not> sh_cleaned h) (enumerate 0 hs)"

definition open_streams :: "sseState \<Rightarrow> (nat \<times> streamHandler) list" where
  "open_streams r = (if shuttingDown r then [] else open_handlers (handlers r))"

definition nonempty :: "'a list \<Rightarrow> 'a list option" where
  "nonempty xs = (if xs = [] then None else Some xs)"

definition positive :: "nat \<Rightarrow> nat option" where
  "positive n = (if n = 0 then None else Some n)"

definition of_profile :: "int \<Rightarrow> (nat \<times> streamHandler) list \<Rightarrow> nat list" where
  "of_profile pid xs = map fst (filter (\<lambda>(_, h). sh_profileId h = pid) xs)"

definition of_user :: "int \<Rightarrow> (nat \<times> streamHandler) list \<Rightarrow> nat list" where
  "of_user uid xs = map fst (filter (\<lambda>(_, h). sh_userId h = uid) xs)"

definition represents :: "sseState \<Rightarrow> (nat \<times> streamHandler) list \<Rightarrow> bool" where
  "represents r xs \<longleftrightarrow> distinct (map fst (sseClients r)) \<and>
     map_of (sseClients r) = (\<lambda>pid. nonempty (of_profile pid xs)) \<and>
     map_of (sseStreamsPerUser r) = (\<lambda>uid. positive (length (of_user uid xs)))"

lemma enumerate_fst: "(i, h) \<in> set (enumerate n hs) \<Longrightarrow> n \<le> i \<and> i < n + length hs \<and> h = hs ! (i - n)"
  by (auto simp: in_set_enumerate_eq)

lemma distinct_open: "distinct (map fst (open_handlers hs))"
  unfolding open_handlers_def by (rule distinct_map_filter) simp

lemma open_append: "\<not> sh_cleaned h \<Longrightarrow> open_handlers (hs @ [h]) = open_handlers hs @ [(length hs, h)]"
  by (simp add: open_handlers_def enumerate_append_eq)

lemma open_clean:
  assumes "i < length hs" and "sh_cleaned h'"
  shows "open_handlers (hs[i := h']) = filter (\<lambda>(j, _). j \<noteq> i) (open_handlers hs)"
proof -
  have "filter (\<lambda>(_, h). \<not> sh_cleaned h) (enumerate n (hs[i := h'])) =
      filter (\<lambda>(j, _). j \<noteq> n + i) (filter (\<lambda>(_, h). \<not> sh_cleaned h) (enumerate n hs))" for n
    using assms
  proof (induction hs arbitrary: i n)
    case (Cons a hs)
    have rest: "filter (\<lambda>(j, h). \<not> sh_cleaned h \<and> j \<noteq> n) (enumerate (Suc n) hs) = filter (\<lambda>(_, h). \<not> sh_cleaned h) (enumerate (Suc n) hs)"
      by (rule filter_cong [OF refl]) (auto dest: enumerate_fst)
    show ?case
    proof (cases i)
      case 0
      then show ?thesis using Cons.prems(2) rest by (simp add: case_prod_unfold conj_commute)
    next
      case (Suc k)
      then show ?thesis using Cons.IH [of k "Suc n"] Cons.prems by simp
    qed
  qed simp
  from this [of 0] show ?thesis by (simp add: open_handlers_def)
qed

lemma of_append [simp]:
  "of_profile pid (xs @ [(i, h)]) = of_profile pid xs @ (if sh_profileId h = pid then [i] else [])"
  "of_user uid (xs @ [(i, h)]) = of_user uid xs @ (if sh_userId h = uid then [i] else [])"
  "of_profile pid [] = []" "of_user uid [] = []"
  by (simp_all add: of_profile_def of_user_def)

lemma remove_filter:
  assumes "distinct (map fst xs)" and "(i, h) \<in> set xs"
  shows "map fst (filter (\<lambda>(_, g). P g) (filter (\<lambda>(j, _). j \<noteq> i) xs)) = remove1 i (map fst (filter (\<lambda>(_, g). P g) xs))"
    and "P h \<longleftrightarrow> i \<in> set (map fst (filter (\<lambda>(_, g). P g) xs))"
proof -
  have d: "distinct (map fst (filter (\<lambda>(_, g). P g) xs))" by (rule distinct_map_filter [OF assms(1)])
  show "map fst (filter (\<lambda>(_, g). P g) (filter (\<lambda>(j, _). j \<noteq> i) xs)) = remove1 i (map fst (filter (\<lambda>(_, g). P g) xs))"
    unfolding distinct_remove1_removeAll [OF d] removeAll_filter_not_eq
    by (simp add: filter_map comp_def case_prod_unfold conj_commute eq_commute [of i])
  have same: "g = h" if "(i, g) \<in> set xs" for g
    by (rule eq_key_imp_eq_value [OF assms(1) that assms(2)])
  show "P h \<longleftrightarrow> i \<in> set (map fst (filter (\<lambda>(_, g). P g) xs))"
  proof
    assume "P h"
    then have "(i, h) \<in> set (filter (\<lambda>(_, g). P g) xs)" using assms(2) by simp
    then have "fst (i, h) \<in> fst ` set (filter (\<lambda>(_, g). P g) xs)" by (rule imageI)
    then show "i \<in> set (map fst (filter (\<lambda>(_, g). P g) xs))" by (simp only: set_map fst_conv)
  next
    assume "i \<in> set (map fst (filter (\<lambda>(_, g). P g) xs))"
    then obtain y where "y \<in> set (filter (\<lambda>(_, g). P g) xs)" "i = fst y" unfolding set_map by (rule imageE)
    then have "(i, snd y) \<in> set xs \<and> P (snd y)" by (simp only: set_filter mem_Collect_eq prod.collapse case_prod_unfold)
    then show "P h" using same [of "snd y"] by simp
  qed
qed

lemma sum_groups:
  assumes "distinct ks" and "\<And>x. x \<in> set xs \<Longrightarrow> f x \<in> set ks"
  shows "sum_list (map (\<lambda>k. length (filter (\<lambda>x. f x = k) xs)) ks) = length xs"
  using assms(2)
proof (induction xs)
  case (Cons x xs)
  have "sum_list (map (\<lambda>k. length (filter (\<lambda>y. f y = k) (x # xs))) ks) =
      sum_list (map (\<lambda>k. (if f x = k then 1 else 0) + length (filter (\<lambda>y. f y = k) xs)) ks)"
    by (intro arg_cong [where f = sum_list] map_cong refl) simp
  also have "\<dots> = sum_list (map (\<lambda>k. if f x = k then 1 else 0) ks) + length xs"
    using Cons by (simp add: sum_list_addf)
  also have "sum_list (map (\<lambda>k. if f x = k then (1 :: nat) else 0) ks) = 1"
    using assms(1) Cons.prems [of x] by (simp add: sum_list_distinct_conv_sum_set)
  finally show ?case by simp
qed simp

text \<open>The queries answer for the streams the registry represents.\<close>

lemma represents_queries:
  assumes "represents r xs"
  shows "sseClientCount r = length xs" and "sseStreamCountForUser uid r = length (of_user uid xs)"
    and "recipients pid r = of_profile pid xs"
proof -
  have map: "map_of (sseClients r) = (\<lambda>pid. nonempty (of_profile pid xs))" and d: "distinct (map fst (sseClients r))"
    using assms by (simp_all add: represents_def)
  have entry: "cs = of_profile pid xs" if "(pid, cs) \<in> set (sseClients r)" for pid cs
    using map_of_is_SomeI [OF d that] by (simp add: map nonempty_def split: if_splits)
  have "sseClientCount r = sum_list (map (\<lambda>pid. length (of_profile pid xs)) (map fst (sseClients r)))"
    unfolding sseClientCount_def by (simp add: comp_def, intro arg_cong [where f = sum_list] map_cong refl) (auto dest: entry)
  also have "\<dots> = sum_list (map (\<lambda>pid. length (filter (\<lambda>(_, h). sh_profileId h = pid) xs)) (map fst (sseClients r)))"
    by (simp add: of_profile_def)
  also have "\<dots> = length xs"
  proof -
    have "sh_profileId (snd x) \<in> set (map fst (sseClients r))" if "x \<in> set xs" for x
    proof -
      have "x \<in> set (filter (\<lambda>(_, h). sh_profileId h = sh_profileId (snd x)) xs)" using that by (simp add: case_prod_unfold)
      then have "of_profile (sh_profileId (snd x)) xs \<noteq> []" unfolding of_profile_def by (intro notI) (simp only: map_is_Nil_conv list.set empty_iff)
      then have "map_of (sseClients r) (sh_profileId (snd x)) \<noteq> None" by (simp add: map nonempty_def)
      then show ?thesis by (simp add: map_of_eq_None_iff)
    qed
    from sum_groups [OF d this] show ?thesis by (simp add: case_prod_unfold)
  qed
  finally show "sseClientCount r = length xs" .
  show "sseStreamCountForUser uid r = length (of_user uid xs)"
    using assms by (simp add: represents_def sseStreamCountForUser_def positive_def)
  show "recipients pid r = of_profile pid xs" by (simp add: recipients_def map nonempty_def)
qed

section \<open>The registry implements the list of open streams\<close>

lemma register_represents:
  assumes "represents r (open_handlers (handlers r))"
  shows "represents (snd (registerSseClient pid uid r)) (open_handlers (handlers r) @
    [(length (handlers r), \<lparr>sh_profileId = pid, sh_userId = uid, sh_cleaned = False\<rparr>)])"
    (is "represents ?r (?xs @ [(?n, ?h)])")
proof -
  have "i < ?n" if "(i, h) \<in> set ?xs" for i h
    using that unfolding open_handlers_def by (auto dest: enumerate_fst)
  then have fresh: "?n \<notin> set (of_profile pid ?xs)" unfolding of_profile_def by fastforce
  note q = represents_queries [OF assms]
  have clients: "sseClients ?r = AList.update pid (of_profile pid ?xs @ [?n]) (sseClients r)"
    and users: "sseStreamsPerUser ?r = AList.update uid (length (of_user uid ?xs) + 1) (sseStreamsPerUser r)"
    using fresh by (simp_all add: registerSseClient_def Let_def q)
  show ?thesis
    unfolding represents_def clients users
  proof (intro conjI)
    show "distinct (map fst (AList.update pid (of_profile pid ?xs @ [?n]) (sseClients r)))"
      using assms by (intro AList.distinct_update) (simp add: represents_def)
    show "map_of (AList.update pid (of_profile pid ?xs @ [?n]) (sseClients r)) = (\<lambda>p. nonempty (of_profile p (?xs @ [(?n, ?h)])))"
      using assms by (simp add: represents_def AList.update_conv' fun_eq_iff nonempty_def)
    show "map_of (AList.update uid (length (of_user uid ?xs) + 1) (sseStreamsPerUser r)) =
        (\<lambda>u. positive (length (of_user u (?xs @ [(?n, ?h)]))))"
      using assms by (simp add: represents_def AList.update_conv' fun_eq_iff positive_def)
  qed
qed

lemma close_represents:
  assumes rep: "represents r xs" and xs: "distinct (map fst xs)" "(i, h) \<in> set xs"
    and "i < length (handlers r)" "handlers r ! i = h" "\<not> sh_cleaned h"
  shows "represents (unregister i r) (filter (\<lambda>(j, _). j \<noteq> i) xs)" (is "represents ?r ?ys")
proof -
  note q = represents_queries [OF rep]
  note prof = remove_filter [OF xs, where P = "\<lambda>g. sh_profileId g = p" for p, folded of_profile_def]
  note user = remove_filter [OF xs, where P = "\<lambda>g. sh_userId g = p" for p, folded of_user_def]
  have mine: "of_profile (sh_profileId h) xs \<noteq> []" "of_user (sh_userId h) xs \<noteq> []"
    using prof(2) [of "sh_profileId h"] user(2) [of "sh_userId h"] by force+
  have clients: "sseClients ?r = (if of_profile (sh_profileId h) ?ys = [] then AList.delete (sh_profileId h) (sseClients r)
      else AList.update (sh_profileId h) (of_profile (sh_profileId h) ?ys) (sseClients r))"
    using assms mine by (simp add: unregister_def Let_def represents_def nonempty_def prof(1))
  have "length (of_user (sh_userId h) ?ys) = length (of_user (sh_userId h) xs) - 1"
    using user(2) [of "sh_userId h"] by (simp add: user(1) length_remove1)
  moreover have "sseStreamsPerUser ?r = (let n = length (of_user (sh_userId h) xs) in
      if n \<le> 1 then AList.delete (sh_userId h) (sseStreamsPerUser r) else AList.update (sh_userId h) (n - 1) (sseStreamsPerUser r))"
    using assms by (simp add: unregister_def Let_def q(2))
  ultimately have users: "map_of (sseStreamsPerUser ?r) = (map_of (sseStreamsPerUser r))
      (sh_userId h := positive (length (of_user (sh_userId h) ?ys)))"
    using mine by (auto simp: Let_def positive_def AList.update_conv' AList.delete_conv')
  have other: "of_profile p ?ys = of_profile p xs" if "p \<noteq> sh_profileId h" for p
    using that prof(2) [of p] unfolding prof(1) by (intro remove1_idem) simp
  have other': "of_user p ?ys = of_user p xs" if "p \<noteq> sh_userId h" for p
    using that user(2) [of p] unfolding user(1) by (intro remove1_idem) simp
  show ?thesis
    unfolding represents_def users
  proof (intro conjI)
    show "distinct (map fst (sseClients ?r))"
      using rep by (simp add: clients represents_def AList.distinct_update AList.distinct_delete)
    show "map_of (sseClients ?r) = (\<lambda>p. nonempty (of_profile p ?ys))"
      using rep other by (auto simp: clients represents_def AList.update_conv' AList.delete_conv' fun_eq_iff nonempty_def)
    show "(map_of (sseStreamsPerUser r)) (sh_userId h := positive (length (of_user (sh_userId h) ?ys))) =
        (\<lambda>u. positive (length (of_user u ?ys)))"
      using rep other' by (auto simp: represents_def fun_eq_iff)
  qed
qed

definition within_caps :: "(nat \<times> streamHandler) list \<Rightarrow> bool" where
  "within_caps xs \<longleftrightarrow> length xs \<le> SSE_MAX_CLIENTS \<and> (\<forall>uid. length (of_user uid xs) \<le> SSE_MAX_STREAMS_PER_USER)"

definition sse_inv :: "sseState \<Rightarrow> bool" where
  "sse_inv r \<longleftrightarrow> represents r (open_streams r) \<and> within_caps (open_streams r)"

text \<open>The abstract operations: closing a stream drops it from the list, the rest of a step is read off the list.\<close>

lemma unregister_open: "open_streams (unregister i r) = filter (\<lambda>(j, _). j \<noteq> i) (open_streams r)"
proof (cases "i \<ge> length (handlers r) \<or> sh_cleaned (handlers r ! i)")
  case True
  have "j \<noteq> i" if "(j, h) \<in> set (open_handlers (handlers r))" for j h
    using that True by (auto simp: open_handlers_def dest!: enumerate_fst)
  then have "filter (\<lambda>(j, _). j \<noteq> i) (open_handlers (handlers r)) = open_handlers (handlers r)"
    by (intro filter_True) auto
  with True show ?thesis by (simp add: unregister_def open_streams_def)
next
  case False
  then show ?thesis by (simp add: unregister_def Let_def open_streams_def open_clean)
qed

lemma register_open:
  "\<not> shuttingDown r \<Longrightarrow> open_streams (snd (registerSseClient pid uid r)) =
     open_streams r @ [(length (handlers r), \<lparr>sh_profileId = pid, sh_userId = uid, sh_cleaned = False\<rparr>)]"
  by (simp add: registerSseClient_def Let_def open_streams_def open_append)

lemma broadcast_open [simp]:
  "open_streams (sse_broadcast pid r) = open_streams r" "represents (sse_broadcast pid r) xs = represents r xs"
  by (simp_all add: sse_broadcast_def open_streams_def represents_def)

lemma represents_nothing: "represents r [] \<Longrightarrow> represents (unregister i r) []"
  by (auto simp: unregister_def Let_def represents_def nonempty_def positive_def sseStreamCountForUser_def AList.delete_conv' of_user_def
      of_profile_def)

lemma unregister_inv: "sse_inv r \<Longrightarrow> sse_inv (unregister i r)"
proof -
  assume inv: "sse_inv r"
  have caps: "within_caps (open_streams (unregister i r))"
  proof -
    have "length (of_user uid (filter (\<lambda>(j, _). j \<noteq> i) xs)) \<le> length (of_user uid xs)" for uid xs
      unfolding of_user_def by (induction xs) auto
    then show ?thesis
      using inv unfolding sse_inv_def within_caps_def unregister_open by (meson length_filter_le le_trans)
  qed
  have "represents (unregister i r) (open_streams (unregister i r))"
  proof (cases "shuttingDown r \<or> i \<ge> length (handlers r) \<or> sh_cleaned (handlers r ! i)")
    case True
    show ?thesis
    proof (cases "shuttingDown r")
      case down: True
      then have "open_streams r = []" by (simp add: open_streams_def)
      then show ?thesis using inv represents_nothing [of r i] unfolding sse_inv_def unregister_open by simp
    next
      case False
      with True have "unregister i r = r" by (simp add: unregister_def)
      then show ?thesis using inv by (simp add: sse_inv_def)
    qed
  next
    case False
    then have xs: "open_streams r = open_handlers (handlers r)" "i < length (handlers r)" "\<not> sh_cleaned (handlers r ! i)"
      by (simp_all add: open_streams_def)
    have "(i, handlers r ! i) \<in> set (open_handlers (handlers r))"
      using xs by (auto simp: open_handlers_def in_set_enumerate_eq)
    with close_represents [OF _ distinct_open, of r "handlers r" i "handlers r ! i"] inv xs
    show ?thesis unfolding sse_inv_def unregister_open by simp
  qed
  with caps show ?thesis by (simp add: sse_inv_def)
qed

lemma openStream_cases:
  obtains (refused) "snd (openStream u rawId w r) = r"
  | (admitted) x pid where "u = Some x" "rawId = Some pid" "openStream u rawId w r =
      (StreamOpen (length (handlers r)), snd (registerSseClient pid (su_id x) r))"
    "sseClientCount r < SSE_MAX_CLIENTS" "sseStreamCountForUser (su_id x) r < SSE_MAX_STREAMS_PER_USER"
    "\<not> isl (fst (assertProfileRole (Some x) pid Viewer w))"
proof (cases "snd (openStream u rawId w r) = r")
  case True
  then show ?thesis by (rule refused)
next
  case False
  then obtain x pid where u: "u = Some x" "rawId = Some pid" by (auto simp: openStream_def split: option.splits)
  have res: "fst (registerSseClient pid (su_id x) r) = length (handlers r)"
    by (simp add: registerSseClient_def Let_def)
  show ?thesis
    using False u by (intro admitted [OF u]) (auto simp: openStream_def res case_prod_unfold split: if_splits)
qed

lemma openStream_inv: "sse_inv r \<Longrightarrow> \<not> shuttingDown r \<Longrightarrow> sse_inv (snd (openStream u rawId w r))"
proof (cases rule: openStream_cases [of u rawId w r])
  case (admitted x pid)
  assume inv: "sse_inv r" and up: "\<not> shuttingDown r"
  then have xs: "open_streams r = open_handlers (handlers r)" by (simp add: open_streams_def)
  note q = represents_queries [OF inv [unfolded sse_inv_def, THEN conjunct1]]
  have "within_caps (open_streams (snd (registerSseClient pid (su_id x) r)))"
    using inv admitted(4,5) unfolding register_open [OF up] sse_inv_def within_caps_def q by auto
  moreover have "represents (snd (registerSseClient pid (su_id x) r)) (open_streams (snd (registerSseClient pid (su_id x) r)))"
    using inv register_represents [of r pid "su_id x"] unfolding register_open [OF up] sse_inv_def xs by simp
  ultimately show ?thesis using admitted(3) by (simp add: sse_inv_def)
qed simp

lemma sse_reachable_inv: "sse_reachable r \<Longrightarrow> sse_inv r"
proof (induction rule: sse_reachable.induct)
  case start
  show ?case
    by (simp add: sse_inv_def represents_def within_caps_def sse_start_def open_streams_def open_handlers_def nonempty_def positive_def
        fun_eq_iff)
next
  case (step r r')
  from step(2) show ?case
  proof cases
    case connect
    then show ?thesis using openStream_inv step.IH by simp
  next
    case close
    then show ?thesis using unregister_inv step.IH by simp
  next
    case broadcast
    then show ?thesis using step.IH by (simp add: broadcast_open sse_inv_def)
  next
    case signal
    then show ?thesis
      using step.IH
      by (simp add: shutdown_def destroyAllSseClients_def sse_inv_def represents_def within_caps_def open_streams_def nonempty_def positive_def
          fun_eq_iff split: if_splits)
  qed
qed

text \<open>C19: the two maps of the registry implement the list of open streams. After any sequence of requests, closed
  connections, broadcasts and a shutdown, the number of clients, the number of streams of a user and the receivers of
  a broadcast are those of the registrations not yet cleaned up (none once the shutdown has begun), and the clean-up
  of a stream removes just that stream, however often its connection reports being closed.\<close>

theorem sse_registry_refines:
  assumes "sse_reachable r"
  shows "sseClientCount r = length (open_streams r) \<and>
    sseStreamCountForUser uid r = length (filter (\<lambda>(_, h). sh_userId h = uid) (open_streams r)) \<and>
    recipients pid r = map fst (filter (\<lambda>(_, h). sh_profileId h = pid) (open_streams r)) \<and>
    open_streams (unregister i r) = filter (\<lambda>(j, _). j \<noteq> i) (open_streams r) \<and>
    unregister i (unregister i r) = unregister i r"
proof -
  have "represents r (open_streams r)" using sse_reachable_inv [OF assms] by (simp add: sse_inv_def)
  from represents_queries [OF this] have
    "sseClientCount r = length (open_streams r)"
    "sseStreamCountForUser uid r = length (filter (\<lambda>(_, h). sh_userId h = uid) (open_streams r))"
    "recipients pid r = map fst (filter (\<lambda>(_, h). sh_profileId h = pid) (open_streams r))"
    by (simp_all add: of_user_def of_profile_def)
  moreover have "unregister i (unregister i r) = unregister i r" by (simp add: unregister_def Let_def)
  ultimately show ?thesis by (simp add: unregister_open)
qed

text \<open>At no moment are there more than 500 open streams, nor more than 5 of one user, and a request opens a stream
  only for a signed-in user with at least the viewer role on the campaign.\<close>

theorem sse_caps:
  assumes "sse_reachable r"
  shows "sseClientCount r \<le> SSE_MAX_CLIENTS \<and> sseStreamCountForUser uid r \<le> SSE_MAX_STREAMS_PER_USER \<and>
    (fst (openStream u rawId w r) = StreamOpen res \<longrightarrow>
       (\<exists>x pid role. u = Some x \<and> rawId = Some pid \<and> held_role pid (su_id x) w = Some role))"
proof -
  note inv = sse_reachable_inv [OF assms]
  have "represents r (open_streams r)" "within_caps (open_streams r)" using inv by (simp_all add: sse_inv_def)
  then have caps: "sseClientCount r \<le> SSE_MAX_CLIENTS" "sseStreamCountForUser uid r \<le> SSE_MAX_STREAMS_PER_USER"
    by (simp_all add: represents_queries within_caps_def)
  have "\<exists>x pid role. u = Some x \<and> rawId = Some pid \<and> held_role pid (su_id x) w = Some role"
    if "fst (openStream u rawId w r) = StreamOpen res"
  proof -
    from that obtain x pid where x: "u = Some x" "rawId = Some pid" "\<not> isl (fst (assertProfileRole (Some x) pid Viewer w))"
      by (auto simp: openStream_def split: option.splits if_splits)
    then show ?thesis
      by (auto simp: assertProfileRole_held holds_at_least_def split: if_splits option.splits)
  qed
  with caps show ?thesis by blast
qed

section \<open>Concrete runs\<close>

definition demo_stream :: sseState where
  "demo_stream = snd (openStream (Some ada) (Some 1) demo_world (snd (openStream (Some ada) (Some 1) demo_world sse_start)))"

lemma demo_stream_reachable: "sse_reachable demo_stream"
proof -
  have up: "\<not> shuttingDown (snd (openStream u p w sse_start))" for u p w
    by (simp add: openStream_def sse_start_def registerSseClient_def Let_def split: option.split)
  have "sse_reachable (snd (openStream (Some ada) (Some 1) demo_world sse_start))"
    by (rule sse_reachable.step [OF sse_reachable.start sse_step.connect]) (simp add: sse_start_def)
  then show ?thesis
    unfolding demo_stream_def by (rule sse_reachable.step [OF _ sse_step.connect [OF up]])
qed

lemma demo_stream_open:
  "open_streams demo_stream =
     [(0, \<lparr>sh_profileId = 1, sh_userId = 1, sh_cleaned = False\<rparr>), (1, \<lparr>sh_profileId = 1, sh_userId = 1, sh_cleaned = False\<rparr>)]"
  by (simp add: demo_stream_def openStream_def assertProfileRole_def run_simps sseClientCount_def sseStreamCountForUser_def
      registerSseClient_def Let_def recipients_def sse_start_def SSE_MAX_CLIENTS_def SSE_MAX_STREAMS_PER_USER_def open_streams_def
      open_handlers_def demo_user_def)

theorem sse_registry_refines_witness:
  "sseClientCount demo_stream = 2 \<and> recipients 1 demo_stream = [0, 1] \<and>
   open_streams (unregister 0 demo_stream) = [(1, \<lparr>sh_profileId = 1, sh_userId = 1, sh_cleaned = False\<rparr>)]"
  using sse_registry_refines [OF demo_stream_reachable, of 1 1 0] by (simp add: demo_stream_open)

theorem sse_caps_witness: "sseClientCount demo_stream \<le> 500 \<and> sseStreamCountForUser 1 demo_stream \<le> 5"
  using sse_caps [OF demo_stream_reachable, of 1] by (simp add: SSE_MAX_CLIENTS_def SSE_MAX_STREAMS_PER_USER_def)

end
