(* ===== verification/Session_Auth.thy ===== *)
theory Session_Auth
  imports Access_Control Json_Text
begin

text \<open>
  The sessions of the campaign server: the configuration read at boot
  (\<^verbatim>\<open>server/_core/env.ts\<close>), the attributes of the session cookie (\<^verbatim>\<open>server/_core/cookies.ts\<close>), and
  the signing, checking and resolving of session tokens (\<^verbatim>\<open>server/_core/sdk.ts\<close>). The packages jose,
  bcryptjs and cookie and the OAuth server are fields of \<open>authLibs\<close>; \<open>jwt_laws\<close> states what jose
  documents of a signed token, and the lemmas say which tokens and requests resolve to which user.
\<close>

section \<open>Configuration\<close>

text \<open>The variables of \<open>process.env\<close> the modules read.\<close>

record processEnv =
  JWT_SECRET :: "string option"
  NODE_ENV :: "string option"
  POSTGRES_URL :: "string option"
  DATABASE_URL :: "string option"
  VITE_APP_ID :: "string option"
  OAUTH_SERVER_URL :: "string option"
  OWNER_OPEN_ID :: "string option"
  BUILT_IN_FORGE_API_URL :: "string option"
  BUILT_IN_FORGE_API_KEY :: "string option"
  COOKIE_SAMESITE :: "string option"
  COOKIE_SECURE :: "string option"
  AUTH_RETURN_SESSION_COOKIE :: "string option"
  METRICS_BEARER_TOKEN :: "string option"

record serverEnv =
  appId :: string
  cookieSecret :: string
  databaseUrl :: string
  oAuthServerUrl :: string
  ownerOpenId :: string
  isProduction :: bool
  forgeApiUrl :: string
  forgeApiKey :: string

definition MIN_JWT_SECRET_LENGTH :: nat where "MIN_JWT_SECRET_LENGTH = 32"

text \<open>\<open>generated\<close> is what \<open>randomBytes(32).toString("hex")\<close> returns.\<close>

definition resolveCookieSecret :: "string \<Rightarrow> processEnv \<Rightarrow> error + string" where
  "resolveCookieSecret generated pe =
     (if truthy_str (JWT_SECRET pe) \<and> length (the (JWT_SECRET pe)) \<ge> MIN_JWT_SECRET_LENGTH
      then Inr (the (JWT_SECRET pe))
      else
        let runtime = toLowerCase (nullish (NODE_ENV pe) [])
        in if runtime = ''development'' \<or> runtime = ''test'' then Inr generated
           else Inl (PlainError ''[SECURITY] JWT_SECRET must be set and at least 32 characters long.''))"

definition resolveDatabaseUrl :: "processEnv \<Rightarrow> error + string" where
  "resolveDatabaseUrl pe =
     (let url = str_or (POSTGRES_URL pe) (str_or (DATABASE_URL pe) [])
      in if url = [] \<and> NODE_ENV pe = Some ''production''
         then Inl (PlainError ''[ENV] POSTGRES_URL or DATABASE_URL must be set when NODE_ENV=production.'')
         else Inr url)"

text \<open>The module's \<open>ENV\<close> object; a throw of a resolver ends the boot.\<close>

definition loadEnv :: "string \<Rightarrow> processEnv \<Rightarrow> error + serverEnv" where
  "loadEnv generated pe =
     (case resolveCookieSecret generated pe of
        Inl e \<Rightarrow> Inl e
      | Inr secret \<Rightarrow>
          (case resolveDatabaseUrl pe of
             Inl e \<Rightarrow> Inl e
           | Inr url \<Rightarrow>
               Inr \<lparr>appId = nullish (VITE_APP_ID pe) [], cookieSecret = secret, databaseUrl = url,
                    oAuthServerUrl = nullish (OAUTH_SERVER_URL pe) [],
                    ownerOpenId = nullish (OWNER_OPEN_ID pe) [],
                    isProduction = (NODE_ENV pe = Some ''production''),
                    forgeApiUrl = nullish (BUILT_IN_FORGE_API_URL pe) [],
                    forgeApiKey = nullish (BUILT_IN_FORGE_API_KEY pe) []\<rparr>))"

section \<open>Requests\<close>

datatype headerValue = OneValue string | ValueList "string list"

record authRequest =
  rq_ip :: "string option"
  rq_remoteAddress :: "string option"
  rq_protocol :: string
  rq_forwardedProto :: "headerValue option"
  rq_cookie :: "string option"
  rq_authorization :: "string option"

definition COOKIE_NAME :: string where "COOKIE_NAME = ''app_session_id''"

section \<open>The session cookie\<close>

datatype sameSite = Lax | Strict | NoneSite

record cookieOptions =
  httpOnly :: bool
  cookiePath :: string
  cookieSameSite :: sameSite
  secure :: bool

fun splitOn :: "char \<Rightarrow> string \<Rightarrow> string list" where
  "splitOn d [] = [[]]"
| "splitOn d (c # cs) =
     (if c = d then [] # splitOn d cs
      else (case splitOn d cs of [] \<Rightarrow> [[c]] | p # ps \<Rightarrow> (c # p) # ps))"

definition isSecureRequest :: "authRequest \<Rightarrow> bool" where
  "isSecureRequest req \<longleftrightarrow>
     rq_protocol req = ''https'' \<or>
     (case rq_forwardedProto req of
        None \<Rightarrow> False
      | Some (OneValue v) \<Rightarrow>
          v \<noteq> [] \<and> list_ex (\<lambda>p. toLowerCase (trim p) = ''https'') (splitOn (CHR '','') v)
      | Some (ValueList vs) \<Rightarrow> list_ex (\<lambda>p. toLowerCase (trim p) = ''https'') vs)"

definition resolveSameSite :: "processEnv \<Rightarrow> sameSite" where
  "resolveSameSite pe =
     (let v = toLowerCase (trim (nullish (COOKIE_SAMESITE pe) []))
      in if v = ''none'' then NoneSite else if v = ''strict'' then Strict else Lax)"

definition resolveSecureFlag :: "processEnv \<Rightarrow> authRequest \<Rightarrow> sameSite \<Rightarrow> bool" where
  "resolveSecureFlag pe req sameSite =
     (let override = toLowerCase (trim (nullish (COOKIE_SECURE pe) []))
      in if override = ''true'' then True
         else if override = ''false'' then sameSite = NoneSite
         else if NODE_ENV pe = Some ''production'' then True
         else if sameSite = NoneSite then True
         else isSecureRequest req)"

definition getSessionCookieOptions :: "processEnv \<Rightarrow> authRequest \<Rightarrow> cookieOptions" where
  "getSessionCookieOptions pe req =
     (let sameSite = resolveSameSite pe
      in \<lparr>httpOnly = True, cookiePath = ''/'', cookieSameSite = sameSite,
          secure = resolveSecureFlag pe req sameSite\<rparr>)"

text \<open>A \<open>Set-Cookie\<close> of the server: name, value, attributes and \<open>maxAge\<close> in milliseconds.\<close>

record setCookie =
  ck_name :: string
  ck_value :: string
  ck_options :: cookieOptions
  ck_maxAge :: int

text \<open>\<open>auth.logout\<close> clears the cookie; no state of the server changes.\<close>

definition auth_logout :: "processEnv \<Rightarrow> authRequest \<Rightarrow> setCookie" where
  "auth_logout pe req =
     \<lparr>ck_name = COOKIE_NAME, ck_value = [], ck_options = getSessionCookieOptions pe req, ck_maxAge = - 1\<rparr>"

section \<open>The libraries\<close>

record sessionPayload =
  sp_openId :: string
  sp_appId :: string
  sp_name :: string

text \<open>The claims a verified token carries, before they are checked.\<close>

record jwtPayload =
  jp_openId :: jsValue
  jp_appId :: jsValue
  jp_name :: jsValue

text \<open>The answer of the OAuth server. \<open>oi_platforms\<close> is \<open>None\<close> when the field is not an array, else
  its strings (\<open>None\<close> for an element that is not a string).\<close>

record oauthUserInfo =
  oi_openId :: string
  oi_name :: "string option"
  oi_email :: "string option"
  oi_platforms :: "string option list option"
  oi_platform :: "string option"
  oi_loginMethod :: "string option"
  oi_taskUid :: "string option"

text \<open>The three flags of a row of \<open>mfa_settings\<close>, a table the Go backend owns.\<close>

record mfaSettings =
  totp_enabled :: "int option"
  webauthn_enabled :: "int option"
  sms_enabled :: "int option"

record authLibs =
  jwtSign :: "string \<Rightarrow> sessionPayload \<Rightarrow> int \<Rightarrow> string" \<comment> \<open>secret, claims, expiry in seconds\<close>
  jwtVerify :: "string \<Rightarrow> time \<Rightarrow> string \<Rightarrow> jwtPayload option" \<comment> \<open>\<open>None\<close> where \<open>jwtVerify\<close> throws\<close>
  bcryptCompare :: "string \<Rightarrow> string \<Rightarrow> error + bool"
  bcryptHash :: "string \<Rightarrow> string \<Rightarrow> string" \<comment> \<open>salt, password\<close>
  parseCookieHeader :: "string \<Rightarrow> (string \<times> string) list"
  fetchUserInfo :: "string \<Rightarrow> string \<Rightarrow> error + oauthUserInfo" \<comment> \<open>project, token\<close>
  mfaRows :: "int \<Rightarrow> error + mfaSettings list"

section \<open>Session tokens\<close>

definition SESSION_TTL_MS :: int where "SESSION_TTL_MS = 1000 * 60 * 60 * 24 * 30"

definition ForbiddenError :: "string \<Rightarrow> error" where
  "ForbiddenError msg = OtherError (''HttpError: '' @ msg)"

definition signSession :: "serverEnv \<Rightarrow> authLibs \<Rightarrow> sessionPayload \<Rightarrow> int option \<Rightarrow> (world, string) proc" where
  "signSession env L payload expiresInMs =
     bindE (getE clock) (\<lambda>issuedAt.
       returnE (jwtSign L (cookieSecret env) payload
         ((issuedAt + nullish expiresInMs SESSION_TTL_MS) div 1000)))"

definition createSessionToken ::
  "serverEnv \<Rightarrow> authLibs \<Rightarrow> string \<Rightarrow> int option \<Rightarrow> string option \<Rightarrow> (world, string) proc" where
  "createSessionToken env L openId expiresInMs name =
     signSession env L \<lparr>sp_openId = openId, sp_appId = appId env, sp_name = str_or name []\<rparr> expiresInMs"

definition nonEmptyString :: "jsValue \<Rightarrow> string option" where
  "nonEmptyString v = (case v of JString s \<Rightarrow> if s = [] then None else Some s | _ \<Rightarrow> None)"

definition verifySession :: "serverEnv \<Rightarrow> authLibs \<Rightarrow> string option \<Rightarrow> (world, sessionPayload option) proc" where
  "verifySession env L cookieValue =
     (if \<not> truthy_str cookieValue then returnE None
      else bindE (getE clock) (\<lambda>now.
        returnE (case jwtVerify L (cookieSecret env) now (the cookieValue) of
            None \<Rightarrow> None
          | Some p \<Rightarrow>
              (case (nonEmptyString (jp_openId p), nonEmptyString (jp_appId p), nonEmptyString (jp_name p)) of
                 (Some o', Some a, Some n) \<Rightarrow> Some \<lparr>sp_openId = o', sp_appId = a, sp_name = n\<rparr>
               | _ \<Rightarrow> None))))"

section \<open>Who is asking\<close>

definition deriveLoginMethod :: "string option list option \<Rightarrow> string option \<Rightarrow> string option" where
  "deriveLoginMethod platforms fallback =
     (if truthy_str fallback then fallback
      else case platforms of
        None \<Rightarrow> None
      | Some [] \<Rightarrow> None
      | Some ps \<Rightarrow>
          let names = map the (filter (\<lambda>p. p \<noteq> None) ps)
          in if ''REGISTERED_PLATFORM_EMAIL'' \<in> set names then Some ''email''
             else if ''REGISTERED_PLATFORM_GOOGLE'' \<in> set names then Some ''google''
             else if ''REGISTERED_PLATFORM_APPLE'' \<in> set names then Some ''apple''
             else if ''REGISTERED_PLATFORM_MICROSOFT'' \<in> set names
                 \<or> ''REGISTERED_PLATFORM_AZURE'' \<in> set names then Some ''microsoft''
             else if ''REGISTERED_PLATFORM_GITHUB'' \<in> set names then Some ''github''
             else (case names of [] \<Rightarrow> None | n # _ \<Rightarrow> if n = [] then None else Some (toLowerCase n)))"

definition getUserInfoWithJwt :: "serverEnv \<Rightarrow> authLibs \<Rightarrow> string \<Rightarrow> ('s, oauthUserInfo) proc" where
  "getUserInfoWithJwt env L jwtToken =
     (case fetchUserInfo L (appId env) jwtToken of
        Inl e \<Rightarrow> throwE e
      | Inr d \<Rightarrow>
          let m = deriveLoginMethod (oi_platforms d) (oi_platform d)
          in returnE (d\<lparr>oi_platform := m, oi_loginMethod := m\<rparr>))"

record authenticatedUser = user +
  au_taskUid :: "string option"
  au_isCron :: bool

definition plainUser :: "user \<Rightarrow> authenticatedUser" where
  "plainUser u = user.extend u \<lparr>au_taskUid = None, au_isCron = False\<rparr>"

definition CRON_OPEN_ID_PREFIX :: string where "CRON_OPEN_ID_PREFIX = ''cron_''"

definition buildCronUser :: "oauthUserInfo \<Rightarrow> time \<Rightarrow> authenticatedUser" where
  "buildCronUser info now =
     \<lparr>row_id = - 1, u_username = oi_openId info, u_passwordHash = ''cron:no-local-password'',
      u_fullName = str_or (oi_name info) ''Scheduled Task'', u_role = ''cron'',
      u_staffId = None, u_stateCode = None, u_lgaCode = None, u_pollingUnitCode = None,
      u_createdAt = now, u_isActive = Some 1, u_partyId = None, u_kycStatus = None,
      au_taskUid = oi_taskUid info, au_isCron = True\<rparr>"

definition parseCookies :: "authLibs \<Rightarrow> string option \<Rightarrow> (string \<times> string) list" where
  "parseCookies L cookieHeader =
     (if truthy_str cookieHeader then parseCookieHeader L (the cookieHeader) else [])"

definition sessionToken :: "authLibs \<Rightarrow> authRequest \<Rightarrow> string option" where
  "sessionToken L req =
     (let c = map_of (parseCookies L (rq_cookie req)) COOKIE_NAME
      in if truthy_str c then c
         else case rq_authorization req of
           None \<Rightarrow> c
         | Some h \<Rightarrow> if starts_with h ''Bearer '' then Some (drop 7 h) else c)"

definition getUserByOpenId :: "string \<Rightarrow> (world, user option) proc" where
  "getUserByOpenId openId = getUserByUsername openId"

definition syncFromOAuth :: "serverEnv \<Rightarrow> authLibs \<Rightarrow> string option \<Rightarrow> (world, user option) proc" where
  "syncFromOAuth env L token =
     catchE
       (bindE (getUserInfoWithJwt env L (nullish token [])) (\<lambda>info.
        seqE (upsertUser (ownerOpenId env) (oi_openId info) (oi_name info))
          (getUserByOpenId (oi_openId info))))
       (\<lambda>_. throwE (ForbiddenError ''Failed to sync user info''))"

definition authenticateRequest :: "serverEnv \<Rightarrow> authLibs \<Rightarrow> authRequest \<Rightarrow> (world, authenticatedUser) proc" where
  "authenticateRequest env L req =
     (let token = sessionToken L req
      in bindE (verifySession env L token) (\<lambda>session.
         case session of
           None \<Rightarrow> throwE (ForbiddenError ''Invalid session cookie'')
         | Some p \<Rightarrow>
             if starts_with (sp_openId p) CRON_OPEN_ID_PREFIX
             then bindE (getUserInfoWithJwt env L (nullish token [])) (\<lambda>info.
                    if \<not> truthy_str (oi_taskUid info)
                    then throwE (ForbiddenError ''Cron session missing task_uid'')
                    else bindE (getE clock) (\<lambda>now. returnE (buildCronUser info now)))
             else bindE (getUserByOpenId (sp_openId p)) (\<lambda>found.
                  bindE (case found of Some u \<Rightarrow> returnE (Some u) | None \<Rightarrow> syncFromOAuth env L token) (\<lambda>user.
                  case user of
                    None \<Rightarrow> throwE (ForbiddenError ''User not found'')
                  | Some u \<Rightarrow> returnE (plainUser u)))))"

text \<open>The context of a tRPC request: the authenticated user, or nobody when authentication throws.\<close>

definition requestContext :: "serverEnv \<Rightarrow> authLibs \<Rightarrow> authRequest \<Rightarrow> (world, sessionUser option) proc" where
  "requestContext env L req s =
     (case authenticateRequest env L req s of
        (Inl e, s') \<Rightarrow> (Inr (createContext (Inl e)), s')
      | (Inr u, s') \<Rightarrow> (Inr (createContext (Inr (user.truncate u))), s'))"

definition getUserMfaEnabled :: "authLibs \<Rightarrow> int \<Rightarrow> (world, bool option) proc" where
  "getUserMfaEnabled L userId =
     withDb None
       (returnE (case mfaRows L userId of
            Inl _ \<Rightarrow> None
          | Inr [] \<Rightarrow> Some False
          | Inr (r # _) \<Rightarrow>
              Some (totp_enabled r = Some 1 \<or> webauthn_enabled r = Some 1 \<or> sms_enabled r = Some 1)))"

section \<open>What a token proves\<close>

text \<open>jose: a token signed with a secret verifies with that secret until the whole second of its
  expiry, with the claims that were signed, and not from then on; it is not the empty string.\<close>

definition claims :: "sessionPayload \<Rightarrow> jwtPayload" where
  "claims p = \<lparr>jp_openId = JString (sp_openId p), jp_appId = JString (sp_appId p), jp_name = JString (sp_name p)\<rparr>"

definition jwt_laws :: "authLibs \<Rightarrow> bool" where
  "jwt_laws L \<longleftrightarrow>
     (\<forall>k now p e. jwtSign L k p e \<noteq> [] \<and>
        jwtVerify L k now (jwtSign L k p e) = (if now div 1000 < e then Some (claims p) else None))"

definition complete_payload :: "sessionPayload \<Rightarrow> bool" where
  "complete_payload p \<longleftrightarrow> sp_openId p \<noteq> [] \<and> sp_appId p \<noteq> [] \<and> sp_name p \<noteq> []"

lemma nonEmptyString_simps [simp]:
  "nonEmptyString (JString s) = (if s = [] then None else Some s)"
  by (simp add: nonEmptyString_def)

lemma signSession_run [run_simps]:
  "signSession env L p ms s =
     (Inr (jwtSign L (cookieSecret env) p ((clock s + nullish ms SESSION_TTL_MS) div 1000)), s)"
  by (simp add: signSession_def run_simps)

text \<open>A signed session is accepted exactly until its expiry, and only if all three fields are there.\<close>

lemma verify_signed:
  assumes "jwt_laws L"
  shows "verifySession env L (Some (jwtSign L (cookieSecret env) p e)) s =
    (Inr (if clock s div 1000 < e \<and> complete_payload p then Some p else None), s)"
proof -
  have "jwtSign L (cookieSecret env) p e \<noteq> []"
    and "jwtVerify L (cookieSecret env) (clock s) (jwtSign L (cookieSecret env) p e) =
      (if clock s div 1000 < e then Some (claims p) else None)"
    using assms unfolding jwt_laws_def by blast+
  then show ?thesis
    by (cases p) (simp add: verifySession_def run_simps claims_def complete_payload_def)
qed

lemma verifySession_keeps: "snd (verifySession env L c s) = s"
  by (simp add: verifySession_def run_simps)

lemma verifySession_returns: "\<exists>p. verifySession env L c s = (Inr p, s)"
  by (simp add: verifySession_def run_simps)

text \<open>Without a token, or with one that does not verify, nobody is authenticated.\<close>

lemma unverified_refused:
  "fst (verifySession env L (sessionToken L req) s) = Inr None \<Longrightarrow>
   authenticateRequest env L req s = (Inl (ForbiddenError ''Invalid session cookie''), s)"
  using verifySession_returns [of env L "sessionToken L req" s]
  by (auto simp: authenticateRequest_def Let_def run_simps)

definition userNamed :: "string \<Rightarrow> world \<Rightarrow> user option" where
  "userNamed n s = first_row (filter (\<lambda>r. u_username r = n) (trows (usersT s)))"

lemma getUserByUsername_run [run_simps]:
  "getUserByUsername n s = (Inr (if conn s then userNamed n s else None), s)"
  by (simp add: getUserByUsername_def run_simps userNamed_def selectRows_def rows_of_def usersD_def)

lemma userNamed_name: "userNamed n s = Some u \<Longrightarrow> u_username u = n"
  unfolding userNamed_def by (auto dest!: first_row_SomeD)

text \<open>A verified session of a stored user, whose name is not that of a scheduled task, is that user.\<close>

lemma stored_user_authenticated:
  assumes "verifySession env L (sessionToken L req) s = (Inr (Some p), s)"
    and "\<not> starts_with (sp_openId p) CRON_OPEN_ID_PREFIX"
    and "conn s" and "userNamed (sp_openId p) s = Some u"
  shows "authenticateRequest env L req s = (Inr (plainUser u), s)"
  using assms by (simp add: authenticateRequest_def Let_def run_simps getUserByOpenId_def)

text \<open>Whoever is authenticated presented a session that verified.\<close>

lemma authenticated_verified:
  assumes "authenticateRequest env L req s = (Inr u, s')"
  obtains p where "verifySession env L (sessionToken L req) s = (Inr (Some p), s)"
proof -
  from verifySession_returns obtain q where q: "verifySession env L (sessionToken L req) s = (Inr q, s)"
    by blast
  with assms show thesis
    by (cases q) (auto simp: authenticateRequest_def Let_def run_simps intro: that)
qed

lemma truncate_plainUser [simp]: "user.truncate (plainUser u) = u"
  by (simp add: plainUser_def user.defs)

lemma plainUser_simps [simp]:
  "u_username (plainUser u) = u_username u" "row_id (plainUser u) = row_id u" "\<not> au_isCron (plainUser u)"
  by (simp_all add: plainUser_def user.defs)

lemma wf_authenticate [preserves_intros]:
  "preserves wf_ids (syncFromOAuth env L t)"
  "preserves wf_ids (authenticateRequest env L req)"
  unfolding syncFromOAuth_def authenticateRequest_def verifySession_def getUserInfoWithJwt_def getUserByOpenId_def Let_def
  by (auto intro!: preserves_intros split: option.splits sum.splits)

section \<open>The cookie and the secret\<close>

text \<open>The session cookie is never readable by scripts; it is marked secure whenever it may be sent across sites, and
  in production unless \<open>COOKIE_SECURE\<close> switches that off.\<close>

lemma cookie_attributes:
  "httpOnly (getSessionCookieOptions pe req)"
  "cookieSameSite (getSessionCookieOptions pe req) = NoneSite \<Longrightarrow> secure (getSessionCookieOptions pe req)"
  "NODE_ENV pe = Some ''production'' \<Longrightarrow> toLowerCase (trim (nullish (COOKIE_SECURE pe) [])) \<noteq> ''false'' \<Longrightarrow>
     secure (getSessionCookieOptions pe req)"
  by (simp_all add: getSessionCookieOptions_def resolveSecureFlag_def Let_def)

text \<open>A forwarded protocol header, which a client can send, changes the flag in neither direction in production.\<close>

lemma forwarded_proto_ignored:
  "NODE_ENV pe = Some ''production'' \<Longrightarrow>
   getSessionCookieOptions pe (req\<lparr>rq_forwardedProto := h\<rparr>) = getSessionCookieOptions pe req"
  by (simp add: getSessionCookieOptions_def resolveSecureFlag_def Let_def)

text \<open>A server that boots outside development and tests signs with a secret of at least 32 characters.\<close>

lemma boot_secret:
  assumes "loadEnv generated pe = Inr env"
    and "toLowerCase (nullish (NODE_ENV pe) []) \<noteq> ''development''" "toLowerCase (nullish (NODE_ENV pe) []) \<noteq> ''test''"
  shows "JWT_SECRET pe = Some (cookieSecret env)" and "32 \<le> length (cookieSecret env)"
    and "isProduction env \<Longrightarrow> databaseUrl env \<noteq> []"
  using assms
  by (auto simp: loadEnv_def resolveCookieSecret_def resolveDatabaseUrl_def MIN_JWT_SECRET_LENGTH_def Let_def truthy_str_def
      split: sum.splits if_splits)

text \<open>A session made without a name is refused by the check that follows.\<close>

lemma nameless_session_refused:
  "jwt_laws L \<Longrightarrow> createSessionToken env L o' ms None s = (Inr t, s) \<Longrightarrow> verifySession env L (Some t) s' = (Inr None, s')"
  using verify_signed [of L env "\<lparr>sp_openId = o', sp_appId = appId env, sp_name = []\<rparr>" _ s']
  by (auto simp: createSessionToken_def run_simps str_or_def complete_payload_def)

text \<open>Only the OAuth server's word makes a request a scheduled task.\<close>

lemma cron_needs_task:
  assumes "authenticateRequest env L req s = (Inr u, s')" and "au_isCron u"
  shows "\<exists>info. fetchUserInfo L (appId env) (nullish (sessionToken L req) []) = Inr info \<and> truthy_str (oi_taskUid info) \<and>
    au_taskUid u = oi_taskUid info"
proof -
  obtain p where p: "verifySession env L (sessionToken L req) s = (Inr (Some p), s)"
    using assms(1) by (rule authenticated_verified)
  show ?thesis
  proof (cases "starts_with (sp_openId p) CRON_OPEN_ID_PREFIX")
    case True
    with assms(1) p show ?thesis
      by (auto simp: authenticateRequest_def Let_def run_simps getUserInfoWithJwt_def buildCronUser_def split: sum.splits if_splits)
  next
    case False
    with assms p have "\<not> au_isCron u"
      by (auto simp: authenticateRequest_def Let_def run_simps getUserByOpenId_def split: option.splits prod.splits sum.splits if_splits)
    with assms(2) show ?thesis by simp
  qed
qed

section \<open>An example\<close>

text \<open>Libraries that satisfy the laws: a token is the JSON text of its secret, claims and expiry.\<close>

definition example_libs :: authLibs where
  "example_libs =
     \<lparr>jwtSign = (\<lambda>k p e. stringify (JArr [JStr k, JStr (sp_openId p), JStr (sp_appId p), JStr (sp_name p), JNum (e, 0)])),
      jwtVerify = (\<lambda>k now t.
        case jsonParse t of
          Some (JArr [JStr k', JStr a, JStr b, JStr c, JNum (e, _)]) \<Rightarrow>
            if k' = k \<and> now div 1000 < e
            then Some \<lparr>jp_openId = JString a, jp_appId = JString b, jp_name = JString c\<rparr> else None
        | _ \<Rightarrow> None),
      bcryptCompare = (\<lambda>p h. Inr (h = CHR ''#'' # p)),
      bcryptHash = (\<lambda>salt p. CHR ''#'' # p),
      parseCookieHeader = (\<lambda>h. [(COOKIE_NAME, h)]),
      fetchUserInfo = (\<lambda>project token. Inl (PlainError ''unreachable'')),
      mfaRows = (\<lambda>i. Inr [])\<rparr>"

lemma example_jwt_laws: "jwt_laws example_libs"
proof -
  have "jsonParse (stringify (JArr [JStr k, JStr a, JStr b, JStr c, JNum (e, 0)])) =
      Some (JArr [JStr k, JStr a, JStr b, JStr c, JNum (e, 0)])" for k a b c e
    by (rule json_roundtrip) simp
  then show ?thesis
    by (simp add: jwt_laws_def example_libs_def claims_def del: stringify.simps) simp
qed

definition example_env :: serverEnv where
  "example_env = \<lparr>appId = [], cookieSecret = ''0123456789abcdef0123456789abcdef'', databaseUrl = ''postgres://db'',
     oAuthServerUrl = [], ownerOpenId = [], isProduction = True, forgeApiUrl = [], forgeApiKey = []\<rparr>"

definition from_phone :: "string option \<Rightarrow> authRequest" where
  "from_phone cookie = \<lparr>rq_ip = Some ''10.0.0.1'', rq_remoteAddress = None, rq_protocol = ''http'', rq_forwardedProto = None,
     rq_cookie = cookie, rq_authorization = None\<rparr>"

text \<open>A request that brings no session is nobody's.\<close>

lemma without_session:
  "rq_cookie req = None \<Longrightarrow> rq_authorization req = None \<Longrightarrow>
   authenticateRequest env L req s = (Inl (ForbiddenError ''Invalid session cookie''), s)"
  by (rule unverified_refused) (simp add: sessionToken_def parseCookies_def verifySession_def run_simps)

end
