(* ===== verification/Local_Auth.thy ===== *)
theory Local_Auth
  imports Session_Auth
begin

text \<open>
  Signing in with a password and changing it (\<^verbatim>\<open>server/_core/localAuth.ts\<close>). Both handlers pass through
  the rate limiter, so the number of passwords that can be tried in a window is bounded; a session
  is issued only after every check, resolves to its owner until it expires, and a changed password
  is the one that signs in.
\<close>

section \<open>Answers\<close>

datatype authBody =
    ErrorBody string
  | CodedErrorBody string string
  | LoggedIn string string string "string option" \<comment> \<open>user name, full name, role, session cookie\<close>
  | PasswordChanged

record authReply =
  ar_status :: int
  ar_body :: authBody
  ar_retryAfter :: "int option"
  ar_cookie :: "setCookie option"

definition plainReply :: "int \<Rightarrow> authBody \<Rightarrow> authReply" where
  "plainReply status body = \<lparr>ar_status = status, ar_body = body, ar_retryAfter = None, ar_cookie = None\<rparr>"

definition LOGIN_WINDOW_SECONDS :: int where "LOGIN_WINDOW_SECONDS = 5 * 60"
definition LOGIN_MAX_ATTEMPTS :: int where "LOGIN_MAX_ATTEMPTS = 5"
definition LOGIN_IP_WINDOW_SECONDS :: int where "LOGIN_IP_WINDOW_SECONDS = 5 * 60"
definition LOGIN_IP_MAX_ATTEMPTS :: int where "LOGIN_IP_MAX_ATTEMPTS = 30"

section \<open>Login\<close>

definition clientIp :: "authRequest \<Rightarrow> string" where
  "clientIp req = str_or (rq_ip req) (str_or (rq_remoteAddress req) ''unknown'')"

definition loginAttemptKey :: "authRequest \<Rightarrow> string \<Rightarrow> string" where
  "loginAttemptKey req username = clientIp req @ '':'' @ toLowerCase username"

definition loginIpOnlyKey :: "authRequest \<Rightarrow> string" where
  "loginIpOnlyKey req = ''ip-only:'' @ clientIp req"

text \<open>The two hits of \<open>Promise.all\<close> run on different keys; the model takes them in order.\<close>

definition login ::
  "processEnv \<Rightarrow> serverEnv \<Rightarrow> authLibs \<Rightarrow> authRequest \<Rightarrow> jsValue \<Rightarrow> jsValue \<Rightarrow> (world, authReply) proc" where
  "login pe env L req rawUsername rawPassword =
     (case (nonEmptyString rawUsername, nonEmptyString rawPassword) of
        (Some username, Some password) \<Rightarrow>
          let userKey = ''login:user:'' @ loginAttemptKey req username;
              ipKey = ''login:'' @ loginIpOnlyKey req
          in bindE (hitRateLimit userKey LOGIN_WINDOW_SECONDS LOGIN_MAX_ATTEMPTS) (\<lambda>userAttempt.
             bindE (hitRateLimit ipKey LOGIN_IP_WINDOW_SECONDS LOGIN_IP_MAX_ATTEMPTS) (\<lambda>ipAttempt.
             if \<not> allowed userAttempt \<or> \<not> allowed ipAttempt
             then returnE ((plainReply 429 (ErrorBody ''too many login attempts; try again in a few minutes''))
                    \<lparr>ar_retryAfter := Some (max (retryAfterSeconds userAttempt) (retryAfterSeconds ipAttempt))\<rparr>)
             else bindE (getUserByUsername username) (\<lambda>found.
             case found of
               None \<Rightarrow> returnE (plainReply 401 (ErrorBody ''invalid username or password''))
             | Some user \<Rightarrow>
               (case bcryptCompare L password (u_passwordHash user) of
                  Inl e \<Rightarrow> throwE e
                | Inr False \<Rightarrow> returnE (plainReply 401 (ErrorBody ''invalid username or password''))
                | Inr True \<Rightarrow>
                    if u_isActive user = Some 0
                    then returnE (plainReply 403 (ErrorBody ''account is inactive''))
                    else bindE (getUserMfaEnabled L (row_id user)) (\<lambda>mfa.
                    if mfa = Some True
                    then returnE (plainReply 403 (CodedErrorBody
                           ''this account has multi-factor authentication enabled; sign in through the INEC portal which enforces the second factor''
                           ''MFA_REQUIRED_ELSEWHERE''))
                    else seqE (resetRateLimit userKey)
                      (bindE (signSession env L
                         \<lparr>sp_openId = u_username user,
                          sp_appId = (if appId env = [] then ''campaign-platform'' else appId env),
                          sp_name = u_fullName user\<rparr> (Some SESSION_TTL_MS)) (\<lambda>token.
                       returnE \<lparr>ar_status = 200,
                         ar_body = LoggedIn (u_username user) (u_fullName user) (u_role user)
                           (if AUTH_RETURN_SESSION_COOKIE pe = Some ''true''
                            then Some (COOKIE_NAME @ ''='' @ token) else None),
                         ar_retryAfter = None,
                         ar_cookie = Some \<lparr>ck_name = COOKIE_NAME, ck_value = token,
                           ck_options = getSessionCookieOptions pe req, ck_maxAge = SESSION_TTL_MS\<rparr>\<rparr>)))))))
      | _ \<Rightarrow> returnE (plainReply 400 (ErrorBody ''username and password are required'')))"

section \<open>Changing the password\<close>

definition acceptable_password :: "string \<Rightarrow> bool" where
  "acceptable_password p \<longleftrightarrow>
     \<not> (length p < 8 \<or> length p > 128 \<or> \<not> list_ex is_lower p \<or> \<not> list_ex is_upper p \<or> \<not> list_ex is_digit p)"

definition changePasswordKey :: "authRequest \<Rightarrow> string \<Rightarrow> string" where
  "changePasswordKey req username = ''change-pw:'' @ username @ '':'' @ clientIp req"

text \<open>\<open>salt\<close> is the random salt of \<open>bcrypt.hash\<close>.\<close>

definition changePassword ::
  "serverEnv \<Rightarrow> authLibs \<Rightarrow> string \<Rightarrow> authRequest \<Rightarrow> jsValue \<Rightarrow> jsValue \<Rightarrow> (world, authReply) proc" where
  "changePassword env L salt req rawCurrent rawNew =
     bindE (catchE (bindE (authenticateRequest env L req) (\<lambda>u. returnE (Some u))) (\<lambda>_. returnE None)) (\<lambda>session.
     case session of
       None \<Rightarrow> returnE (plainReply 401 (ErrorBody ''authentication required''))
     | Some who \<Rightarrow>
       (case (nonEmptyString rawCurrent, nonEmptyString rawNew) of
          (Some currentPassword, Some newPassword) \<Rightarrow>
            if \<not> acceptable_password newPassword
            then returnE (plainReply 400 (ErrorBody
                   ''password must be 8-128 characters and include upper-case, lower-case, and a digit''))
            else
              let key = changePasswordKey req (u_username who)
              in bindE (hitRateLimit key LOGIN_WINDOW_SECONDS LOGIN_MAX_ATTEMPTS) (\<lambda>attempt.
                 if \<not> allowed attempt
                 then returnE ((plainReply 429 (ErrorBody ''too many attempts; try again in a few minutes''))
                        \<lparr>ar_retryAfter := Some (retryAfterSeconds attempt)\<rparr>)
                 else bindE (getUserByUsername (u_username who)) (\<lambda>found.
                 case found of
                   None \<Rightarrow> returnE (plainReply 401 (ErrorBody ''current password is incorrect''))
                 | Some user \<Rightarrow>
                   (case bcryptCompare L currentPassword (u_passwordHash user) of
                      Inl e \<Rightarrow> throwE e
                    | Inr False \<Rightarrow> returnE (plainReply 401 (ErrorBody ''current password is incorrect''))
                    | Inr True \<Rightarrow>
                      (case bcryptCompare L newPassword (u_passwordHash user) of
                         Inl e \<Rightarrow> throwE e
                       | Inr True \<Rightarrow> returnE (plainReply 400
                           (ErrorBody ''new password must differ from the current password''))
                       | Inr False \<Rightarrow>
                           seqE (updateUserPassword (row_id user) (bcryptHash L salt newPassword))
                             (seqE (resetRateLimit key) (returnE (plainReply 200 PasswordChanged)))))))
        | _ \<Rightarrow> returnE (plainReply 400 (ErrorBody ''currentPassword and newPassword are required''))))"

section \<open>Trying passwords\<close>

text \<open>A password was compared unless the request was malformed or throttled; a sign-in carries a cookie.\<close>

definition tried :: "error + authReply \<Rightarrow> bool" where
  "tried r \<longleftrightarrow> (case r of Inl _ \<Rightarrow> True | Inr a \<Rightarrow> ar_status a \<noteq> 400 \<and> ar_status a \<noteq> 429)"

definition signed_in :: "error + authReply \<Rightarrow> bool" where
  "signed_in r \<longleftrightarrow> (case r of Inl _ \<Rightarrow> False | Inr a \<Rightarrow> ar_cookie a \<noteq> None)"

definition userLimitKey :: "authRequest \<Rightarrow> string \<Rightarrow> string" where
  "userLimitKey req username = ''login:user:'' @ loginAttemptKey req username"

definition ipLimitKey :: "string \<Rightarrow> string" where
  "ipLimitKey ip = ''login:ip-only:'' @ ip"

lemma keys_differ: "userLimitKey req n \<noteq> ipLimitKey ip"
  by (simp add: userLimitKey_def ipLimitKey_def)

text \<open>What a login without the two hits does, once both were allowed.\<close>

definition loginAdmitted ::
  "processEnv \<Rightarrow> serverEnv \<Rightarrow> authLibs \<Rightarrow> authRequest \<Rightarrow> string \<Rightarrow> string \<Rightarrow> (world, authReply) proc" where
  "loginAdmitted pe env L req username password s =
     (case (if conn s then userNamed username s else None) of
        None \<Rightarrow> (Inr (plainReply 401 (ErrorBody ''invalid username or password'')), s)
      | Some user \<Rightarrow>
          (case bcryptCompare L password (u_passwordHash user) of
             Inl e \<Rightarrow> (Inl e, s)
           | Inr False \<Rightarrow> (Inr (plainReply 401 (ErrorBody ''invalid username or password'')), s)
           | Inr True \<Rightarrow>
               if u_isActive user = Some 0 then (Inr (plainReply 403 (ErrorBody ''account is inactive'')), s)
               else if fst (getUserMfaEnabled L (row_id user) s) = Inr (Some True)
               then (Inr (plainReply 403 (CodedErrorBody
                      ''this account has multi-factor authentication enabled; sign in through the INEC portal which enforces the second factor''
                      ''MFA_REQUIRED_ELSEWHERE'')), s)
               else
                 let token = jwtSign L (cookieSecret env)
                       \<lparr>sp_openId = u_username user,
                        sp_appId = (if appId env = [] then ''campaign-platform'' else appId env),
                        sp_name = u_fullName user\<rparr> ((clock s + SESSION_TTL_MS) div 1000)
                 in (Inr \<lparr>ar_status = 200,
                       ar_body = LoggedIn (u_username user) (u_fullName user) (u_role user)
                         (if AUTH_RETURN_SESSION_COOKIE pe = Some ''true''
                          then Some (COOKIE_NAME @ ''='' @ token) else None),
                       ar_retryAfter = None,
                       ar_cookie = Some \<lparr>ck_name = COOKIE_NAME, ck_value = token,
                         ck_options = getSessionCookieOptions pe req, ck_maxAge = SESSION_TTL_MS\<rparr>\<rparr>,
                     snd (resetRateLimit (userLimitKey req username) s))))"

lemma resetRateLimit_run: "fst (resetRateLimit k s) = Inr ()" "clock (snd (resetRateLimit k s)) = clock s"
  by (simp_all add: resetRateLimit_def)

lemma mfa_returns: "\<exists>m. getUserMfaEnabled L i s = (Inr m, s)"
  by (simp add: getUserMfaEnabled_def run_simps)

lemma hitRateLimit_returns: "\<exists>r s'. hitRateLimit k ws n s = (Inr r, s')"
  by (simp add: hitRateLimit_def hitPostgres_def hitInMemory_def denyHit_def Let_def run_simps)

lemma login_body:
  assumes "nonEmptyString ru = Some username" and "nonEmptyString rp = Some password"
    and "hitRateLimit (userLimitKey req username) 300 5 s = (Inr ra, s1)"
    and "hitRateLimit (ipLimitKey (clientIp req)) 300 30 s1 = (Inr rb, s2)"
  shows "login pe env L req ru rp s =
    (if allowed ra \<and> allowed rb then loginAdmitted pe env L req username password s2
     else (Inr ((plainReply 429 (ErrorBody ''too many login attempts; try again in a few minutes''))
             \<lparr>ar_retryAfter := Some (max (retryAfterSeconds ra) (retryAfterSeconds rb))\<rparr>), s2))"
proof (cases "allowed ra \<and> allowed rb")
  case False
  then show ?thesis
    using assms by (auto simp: login_def userLimitKey_def ipLimitKey_def loginIpOnlyKey_def
        LOGIN_WINDOW_SECONDS_def LOGIN_MAX_ATTEMPTS_def LOGIN_IP_WINDOW_SECONDS_def LOGIN_IP_MAX_ATTEMPTS_def Let_def run_simps)
next
  case True
  obtain tok where reset: "resetRateLimit (userLimitKey req username) s2 = (Inr (), tok)" "clock tok = clock s2"
    using resetRateLimit_run [of "userLimitKey req username" s2]
    by (cases "resetRateLimit (userLimitKey req username) s2") auto
  have "\<exists>m. getUserMfaEnabled L i s2 = (Inr m, s2)" for i by (rule mfa_returns)
  then obtain m where mfa: "\<And>i. getUserMfaEnabled L i s2 = (Inr (m i), s2)" by metis
  show ?thesis
    using assms True reset mfa
    by (simp add: login_def loginAdmitted_def userLimitKey_def ipLimitKey_def loginIpOnlyKey_def
        LOGIN_WINDOW_SECONDS_def LOGIN_MAX_ATTEMPTS_def LOGIN_IP_WINDOW_SECONDS_def LOGIN_IP_MAX_ATTEMPTS_def Let_def run_simps
        split: option.splits sum.splits bool.splits)
qed

lemma login_malformed:
  "nonEmptyString ru = None \<or> nonEmptyString rp = None \<Longrightarrow>
   login pe env L req ru rp s = (Inr (plainReply 400 (ErrorBody ''username and password are required'')), s)"
  by (auto simp: login_def run_simps split: option.splits)

lemma loginAdmitted_limits:
  assumes "loginAdmitted pe env L req n p s = (r, s')" and "limiter_ready s"
  shows "limiter_ready s'" and "tried r"
    and "rateLimitsT s' = (if signed_in r then filter (\<lambda>x. rl_key x \<noteq> userLimitKey req n) (rateLimitsT s) else rateLimitsT s)"
  using assms
  by (auto simp: loginAdmitted_def resetRateLimit_def limiter_ready_def tried_def signed_in_def plainReply_def Let_def
      split: option.splits sum.splits bool.splits if_splits)

lemma window_count_reset:
  "window_count k w (filter (\<lambda>x. rl_key x \<noteq> key) rs) = (if k = key then 0 else window_count k w rs)"
proof -
  have "filter (same_window k w) (filter (\<lambda>x. rl_key x \<noteq> key) rs) = (if k = key then [] else filter (same_window k w) rs)"
    by (auto simp: same_window_def filter_empty_conv intro!: filter_cong)
  then show ?thesis by (simp add: window_count_def)
qed

lemma hit_stays_ready:
  "limiter_ready s \<Longrightarrow> hitRateLimit k ws n s = (r, s') \<Longrightarrow> limiter_ready s' \<and> clock s' = clock s"
  by (auto simp: limiter_ready_def hitRateLimit_def hitPostgres_def Let_def)

text \<open>The two hits of a login: what they do to the counters, and when they are allowed.\<close>

lemma login_hits:
  assumes ready: "limiter_ready s"
    and a: "hitRateLimit (userLimitKey req n) 300 5 s = (Inr ra, s1)"
    and b: "hitRateLimit (ipLimitKey ip) 300 30 s1 = (Inr rb, s2)"
  shows "limiter_ready s2"
    and "clock s - two_days_ms \<le> w \<Longrightarrow> window_count k w (rateLimitsT s2) = window_count k w (rateLimitsT s) +
      (if (k = userLimitKey req n \<or> k = ipLimitKey ip) \<and> w = windowStartMs 300 (clock s) then 1 else 0)"
    and "allowed ra \<longleftrightarrow> window_count (userLimitKey req n) (windowStartMs 300 (clock s)) (rateLimitsT s) < 5"
    and "allowed rb \<longleftrightarrow> window_count (ipLimitKey ip) (windowStartMs 300 (clock s)) (rateLimitsT s) < 30"
proof -
  have s1: "limiter_ready s1" "clock s1 = clock s" using hit_stays_ready [OF ready a] by simp_all
  show "limiter_ready s2" using hit_stays_ready [OF s1(1) b] by simp
  have now: "clock s - two_days_ms \<le> windowStartMs 300 (clock s)"
    using login_window.running_window_kept [of "clock s" "clock s"] by simp
  show "window_count k w (rateLimitsT s2) = window_count k w (rateLimitsT s) +
      (if (k = userLimitKey req n \<or> k = ipLimitKey ip) \<and> w = windowStartMs 300 (clock s) then 1 else 0)"
    if "clock s - two_days_ms \<le> w"
    using hit_window_counts(1) [OF ready a that, of k] hit_window_counts(1) [OF s1(1) b, of w k] that s1(2)
    by (simp add: keys_differ keys_differ [symmetric])
  show "allowed ra \<longleftrightarrow> window_count (userLimitKey req n) (windowStartMs 300 (clock s)) (rateLimitsT s) < 5"
    using hit_window_counts(2) [OF ready a now] .
  show "allowed rb \<longleftrightarrow> window_count (ipLimitKey ip) (windowStartMs 300 (clock s)) (rateLimitsT s) < 30"
    using hit_window_counts(2) [OF s1(1) b, of "windowStartMs 300 (clock s)"] now s1(2)
      hit_window_counts(1) [OF ready a now, of "ipLimitKey ip"] keys_differ [of req n ip] by simp
qed

text \<open>One login spends one hit of its address and one of its address and name; a throttled or malformed one compares
  nothing.\<close>

lemma login_counts:
  assumes ready: "limiter_ready s" and run: "login pe env L req ru rp s = (r, s')"
  obtains (malformed) "\<not> tried r" "\<not> signed_in r" "s' = s"
  | (hits) n where "ru = JString n" "limiter_ready s'"
      "tried r \<Longrightarrow> window_count (userLimitKey req n) (windowStartMs 300 (clock s)) (rateLimitsT s) < 5 \<and>
        window_count (ipLimitKey (clientIp req)) (windowStartMs 300 (clock s)) (rateLimitsT s) < 30"
      "\<And>k w. clock s - two_days_ms \<le> w \<Longrightarrow> window_count k w (rateLimitsT s') =
        (if signed_in r \<and> k = userLimitKey req n then 0
         else window_count k w (rateLimitsT s) +
           (if (k = userLimitKey req n \<or> k = ipLimitKey (clientIp req)) \<and> w = windowStartMs 300 (clock s) then 1 else 0))"
proof (cases "nonEmptyString ru = None \<or> nonEmptyString rp = None")
  case True
  then have "r = Inr (plainReply 400 (ErrorBody ''username and password are required''))" "s' = s"
    using run by (simp_all add: login_malformed)
  then show thesis by (intro malformed) (simp_all add: tried_def signed_in_def plainReply_def)
next
  case False
  then obtain n p where np: "nonEmptyString ru = Some n" "nonEmptyString rp = Some p" by auto
  obtain ra s1 where a: "hitRateLimit (userLimitKey req n) 300 5 s = (Inr ra, s1)" using hitRateLimit_returns by blast
  obtain rb s2 where b: "hitRateLimit (ipLimitKey (clientIp req)) 300 30 s1 = (Inr rb, s2)"
    using hitRateLimit_returns by blast
  note two = login_hits [OF ready a b]
  note out = login_body [OF np a b, of pe env L, unfolded run]
  have ru: "ru = JString n" using np(1) by (auto simp: nonEmptyString_def split: jsValue.splits if_splits)
  show thesis
  proof (cases "allowed ra \<and> allowed rb")
    case True
    then have "loginAdmitted pe env L req n p s2 = (r, s')" using out by simp
    note adm = loginAdmitted_limits [OF this two(1)]
    show thesis
      using hits [OF ru adm(1)] True two(2,3,4) adm(3) by (auto simp: window_count_reset)
  next
    case False
    then have "\<not> tried r" "\<not> signed_in r" "s' = s2" using out by (auto simp: tried_def signed_in_def plainReply_def)
    then show thesis using hits [OF ru] two(1,2) by simp
  qed
qed

type_synonym loginCall = "authRequest \<times> jsValue \<times> jsValue"

definition from_address :: "string \<Rightarrow> loginCall \<Rightarrow> error + authReply \<Rightarrow> bool" where
  "from_address ip c r \<longleftrightarrow> (case c of (req, _, _) \<Rightarrow> clientIp req = ip) \<and> tried r"

definition under_key :: "string \<Rightarrow> loginCall \<Rightarrow> error + authReply \<Rightarrow> bool" where
  "under_key k c r \<longleftrightarrow>
     (case c of (req, JString n, _) \<Rightarrow> userLimitKey req n = k | _ \<Rightarrow> False) \<and> tried r"

definition login_call :: "processEnv \<Rightarrow> serverEnv \<Rightarrow> authLibs \<Rightarrow> loginCall \<Rightarrow> (world, authReply) proc" where
  "login_call pe env L c = (case c of (req, ru, rp) \<Rightarrow> login pe env L req ru rp)"

lemma login_call_ready: "limiter_ready s \<Longrightarrow> login_call pe env L c s = (r, s') \<Longrightarrow> limiter_ready s'"
  by (cases c) (auto simp: login_call_def elim: login_counts)

lemma in_window: "clock s - two_days_ms \<le> windowStartMs 300 (clock s)"
  using login_window.running_window_kept [of "clock s" "clock s"] by simp

text \<open>What one login leaves of the counter of a key that it does not reset, and what a comparison has spent.\<close>

lemma login_keeps_count:
  assumes "limiter_ready s" and "login_call pe env L c s = (r, s')" and "clock s - two_days_ms \<le> w"
    and "signed_in r \<Longrightarrow> \<forall>req n. k \<noteq> userLimitKey req n"
  shows "window_count k w (rateLimitsT s) \<le> window_count k w (rateLimitsT s')"
proof -
  obtain req ru rp where c: "c = (req, ru, rp)" by (cases c)
  from assms(1) assms(2) [unfolded login_call_def c prod.case] show ?thesis
  proof (cases rule: login_counts)
    case (hits n)
    then show ?thesis using hits(4) [OF assms(3), of k] assms(4) by (cases "signed_in r") simp_all
  qed simp
qed

lemma comparison_spends:
  assumes "limiter_ready s" and "login_call pe env L (req, ru, rp) s = (r, s')" and "tried r"
    and "windowStartMs 300 (clock s) = w"
  obtains n where "ru = JString n"
    and "window_count (ipLimitKey (clientIp req)) w (rateLimitsT s) < 30"
    and "window_count (userLimitKey req n) w (rateLimitsT s) < 5"
    and "window_count (ipLimitKey (clientIp req)) w (rateLimitsT s') =
      window_count (ipLimitKey (clientIp req)) w (rateLimitsT s) + 1"
    and "\<not> signed_in r \<Longrightarrow>
      window_count (userLimitKey req n) w (rateLimitsT s') = window_count (userLimitKey req n) w (rateLimitsT s) + 1"
proof -
  have recent: "clock s - two_days_ms \<le> w" using in_window [of s] assms(4) by simp
  from assms(1) assms(2) [unfolded login_call_def prod.case] show thesis
  proof (cases rule: login_counts)
    case malformed
    with assms(3) show thesis by simp
  next
    case (hits n)
    show thesis
      using that [OF hits(1)] hits(3) [OF assms(3)] hits(4) [OF recent] assms(4)
      by (simp add: keys_differ [symmetric])
  qed
qed

interpretation address_meter: metered "login_call pe env L" "from_address ip" "\<lambda>_. False" "ipLimitKey ip" 300 30
  for pe env L ip
proof (unfold_locales, goal_cases)
  case (3 s c r s')
  then show ?case by (rule login_call_ready)
next
  case (4 s c r s' w)
  from 4(1-3) show ?case by (rule login_keeps_count) (simp add: keys_differ [symmetric])
next
  case (5 s c r s' w)
  obtain req ru rp where c: "c = (req, ru, rp)" by (cases c)
  have "clientIp req = ip" "tried r" using 5(3) by (simp_all add: c from_address_def)
  then show ?case using comparison_spends [OF 5(1) 5(2) [unfolded c] _ 5(4)] by metis
qed simp_all

interpretation account_meter: metered "login_call pe env L" "under_key k" signed_in k 300 5
  for pe env L k
proof (unfold_locales, goal_cases)
  case (3 s c r s')
  then show ?case by (rule login_call_ready)
next
  case (4 s c r s' w)
  from 4(1-3) show ?case by (rule login_keeps_count) (simp add: 4(4))
next
  case (5 s c r s' w)
  obtain req ru rp where c: "c = (req, ru, rp)" by (cases c)
  have "tried r" using 5(3) by (simp add: c under_key_def)
  from 5(1) 5(2) [unfolded c] this 5(4) show ?case
  proof (rule comparison_spends)
    fix n assume "ru = JString n" "window_count (userLimitKey req n) w (rateLimitsT s) < 5"
      "\<not> signed_in r \<Longrightarrow>
        window_count (userLimitKey req n) w (rateLimitsT s') = window_count (userLimitKey req n) w (rateLimitsT s) + 1"
    then show ?case using 5(3,5) by (simp add: c under_key_def)
  qed
qed simp_all

text \<open>C5: guessing passwords. In production, whatever logins arrive at whatever advancing times, at most thirty passwords are
  compared for one client address in five minutes, and as long as none of the logins succeeds at most five for one
  address and user name.\<close>

theorem guesses_bounded:
  assumes "limiter_ready s" and "sorted (map snd es)"
    and "0 \<le> window_count (ipLimitKey ip) w (rateLimitsT s)" and "0 \<le> window_count (userLimitKey req n) w (rateLimitsT s)"
  shows "charged (from_address ip) 300 w es (run_calls (login_call pe env L) es s) \<le> 30 \<and>
    (list_all (\<lambda>r. \<not> signed_in r) (run_calls (login_call pe env L) es s) \<longrightarrow>
      charged (under_key (userLimitKey req n)) 300 w es (run_calls (login_call pe env L) es s) \<le> 5)"
  using address_meter.charged_bound [OF assms(1,2), of pe env L ip w] assms(3,4)
    account_meter.charged_bound [OF assms(1,2), of pe env L "userLimitKey req n" w]
  by (auto simp: list_all_iff)

section \<open>Who is signed in\<close>

definition hits_allowed :: "authRequest \<Rightarrow> string \<Rightarrow> world \<Rightarrow> bool" where
  "hits_allowed req n s \<longleftrightarrow>
     (case hitRateLimit (userLimitKey req n) 300 5 s of
        (Inr a, s1) \<Rightarrow> allowed a \<and> allowed (projr (fst (hitRateLimit (ipLimitKey (clientIp req)) 300 30 s1)))
      | _ \<Rightarrow> False)"

definition mfa_confirmed :: "authLibs \<Rightarrow> user \<Rightarrow> bool" where
  "mfa_confirmed L u \<longleftrightarrow>
     (case mfaRows L (row_id u) of
        Inr (r # _) \<Rightarrow> totp_enabled r = Some 1 \<or> webauthn_enabled r = Some 1 \<or> sms_enabled r = Some 1
      | _ \<Rightarrow> False)"

definition may_sign_in :: "authLibs \<Rightarrow> string \<Rightarrow> user \<Rightarrow> bool" where
  "may_sign_in L p u \<longleftrightarrow>
     bcryptCompare L p (u_passwordHash u) = Inr True \<and> u_isActive u \<noteq> Some 0 \<and> \<not> mfa_confirmed L u"

lemma nonEmptyString_Some: "nonEmptyString v = Some n \<longleftrightarrow> v = JString n \<and> n \<noteq> []"
  by (auto simp: nonEmptyString_def split: jsValue.splits if_splits)

lemma mfa_run: "conn s \<Longrightarrow> fst (getUserMfaEnabled L (row_id u) s) = Inr (Some True) \<longleftrightarrow> mfa_confirmed L u"
  by (auto simp: getUserMfaEnabled_def mfa_confirmed_def run_simps split: sum.splits list.splits)

lemma loginAdmitted_signs_in:
  "signed_in (fst (loginAdmitted pe env L req n p s)) \<longleftrightarrow>
   conn s \<and> (\<exists>u. userNamed n s = Some u \<and> may_sign_in L p u)"
proof (cases "conn s")
  case True
  then show ?thesis
    by (auto simp: loginAdmitted_def signed_in_def plainReply_def may_sign_in_def mfa_run Let_def
        split: option.splits sum.splits bool.splits)
qed (simp add: loginAdmitted_def signed_in_def plainReply_def)

lemma hit_keeps_users:
  "hitRateLimit k ws n s = (r, s') \<Longrightarrow> conn s' = conn s \<and> usersT s' = usersT s \<and> clock s' = clock s"
  by (auto simp: hitRateLimit_def hitInMemory_def hitPostgres_def denyHit_def Let_def run_simps split: if_splits)

lemma login_signed_in:
  "signed_in (fst (login pe env L req ru rp s)) \<longleftrightarrow>
   (\<exists>n p u. ru = JString n \<and> rp = JString p \<and> n \<noteq> [] \<and> p \<noteq> [] \<and> hits_allowed req n s \<and>
      conn s \<and> userNamed n s = Some u \<and> may_sign_in L p u)"
proof (cases "nonEmptyString ru = None \<or> nonEmptyString rp = None")
  case True
  then have "\<not> signed_in (fst (login pe env L req ru rp s))"
    by (simp add: login_malformed signed_in_def plainReply_def)
  with True show ?thesis by auto
next
  case False
  then obtain n p where np: "nonEmptyString ru = Some n" "nonEmptyString rp = Some p" by auto
  obtain a s1 where a: "hitRateLimit (userLimitKey req n) 300 5 s = (Inr a, s1)" using hitRateLimit_returns by blast
  obtain b s2 where b: "hitRateLimit (ipLimitKey (clientIp req)) 300 30 s1 = (Inr b, s2)"
    using hitRateLimit_returns by blast
  have ok: "hits_allowed req n s \<longleftrightarrow> allowed a \<and> allowed b" by (simp add: hits_allowed_def a b)
  have users: "conn s2 = conn s" "userNamed n s2 = userNamed n s"
    using hit_keeps_users [OF a] hit_keeps_users [OF b] by (simp_all add: userNamed_def)
  have "signed_in (fst (login pe env L req ru rp s)) \<longleftrightarrow>
      hits_allowed req n s \<and> conn s \<and> (\<exists>u. userNamed n s = Some u \<and> may_sign_in L p u)"
    using loginAdmitted_signs_in [of pe env L req n p s2]
    by (auto simp: login_body [OF np a b] ok users signed_in_def plainReply_def)
  with np show ?thesis by (auto simp: nonEmptyString_Some)
qed

text \<open>C6: a login signs in exactly when both fields are non-empty strings, neither window is exhausted, the named account is
  stored, its hash accepts the password, the account is not deactivated and no second factor is known to be switched
  on for it.\<close>

theorem login_signs_in_iff:
  "signed_in (fst (login pe env L req ru rp s)) \<longleftrightarrow>
   (\<exists>n p u. ru = JString n \<and> rp = JString p \<and> n \<noteq> [] \<and> p \<noteq> [] \<and> hits_allowed req n s \<and>
      conn s \<and> userNamed n s = Some u \<and> bcryptCompare L p (u_passwordHash u) = Inr True \<and>
      u_isActive u \<noteq> Some 0 \<and> \<not> mfa_confirmed L u)"
  using login_signed_in [of pe env L req ru rp s] by (simp add: may_sign_in_def)

text \<open>The cookie of a sign-in holds the session of the account, good for thirty days.\<close>

lemma login_cookie:
  assumes "login pe env L req ru rp s = (Inr r, s')" and "ar_cookie r = Some ck"
  obtains n u where "ru = JString n" and "n \<noteq> []" and "userNamed n s = Some u"
    and "ck_name ck = COOKIE_NAME" and "ck_options ck = getSessionCookieOptions pe req"
    and "ck_value ck = jwtSign L (cookieSecret env)
      \<lparr>sp_openId = n, sp_appId = (if appId env = [] then ''campaign-platform'' else appId env),
       sp_name = u_fullName u\<rparr> ((clock s + SESSION_TTL_MS) div 1000)"
proof -
  have "signed_in (fst (login pe env L req ru rp s))" using assms by (simp add: signed_in_def)
  then obtain n p u where np: "nonEmptyString ru = Some n" "nonEmptyString rp = Some p"
    and u: "userNamed n s = Some u"
    by (auto simp: login_signed_in nonEmptyString_Some)
  obtain a s1 where a: "hitRateLimit (userLimitKey req n) 300 5 s = (Inr a, s1)" using hitRateLimit_returns by blast
  obtain b s2 where b: "hitRateLimit (ipLimitKey (clientIp req)) 300 30 s1 = (Inr b, s2)"
    using hitRateLimit_returns by blast
  have s2: "userNamed n s2 = Some u" "clock s2 = clock s"
    using hit_keeps_users [OF a] hit_keeps_users [OF b] u by (simp_all add: userNamed_def)
  have "loginAdmitted pe env L req n p s2 = (Inr r, s')"
    using assms login_body [OF np a b, of pe env L] by (auto simp: plainReply_def split: if_splits)
  then show thesis
    using that [of n u] np(1) u s2 assms(2) userNamed_name [OF u]
    by (auto simp: nonEmptyString_Some loginAdmitted_def plainReply_def Let_def
        split: if_splits sum.splits bool.splits)
qed

text \<open>C7: the round trip of a session. A request that brings back the cookie of a login is authenticated as that account, as
  stored now, until the thirty days are over, and refused from then on. The account has a full name, without which its
  sessions never verify, and is not named like a scheduled task.\<close>

theorem session_authenticates:
  assumes "jwt_laws L"
    and "login pe env L req (JString n) rp s = (Inr r, s')" and "ar_cookie r = Some ck"
    and "userNamed n s = Some u\<^sub>0" and "u_fullName u\<^sub>0 \<noteq> []"
    and "sessionToken L req' = Some (ck_value ck)"
    and "conn t" and "userNamed n t = Some u" and "\<not> starts_with n CRON_OPEN_ID_PREFIX"
  shows "authenticateRequest env L req' t =
    (if clock t div 1000 < (clock s + SESSION_TTL_MS) div 1000 then (Inr (plainUser u), t)
     else (Inl (ForbiddenError ''Invalid session cookie''), t))"
proof -
  define p where "p = \<lparr>sp_openId = n, sp_appId = (if appId env = [] then ''campaign-platform'' else appId env),
       sp_name = u_fullName u\<^sub>0\<rparr>"
  obtain n' u' where "JString n = JString n'" and "n' \<noteq> []" and "userNamed n' s = Some u'"
    and "ck_value ck = jwtSign L (cookieSecret env)
      \<lparr>sp_openId = n', sp_appId = (if appId env = [] then ''campaign-platform'' else appId env),
       sp_name = u_fullName u'\<rparr> ((clock s + SESSION_TTL_MS) div 1000)"
    by (rule login_cookie [OF assms(2,3)])
  then have ck: "ck_value ck = jwtSign L (cookieSecret env) p ((clock s + SESSION_TTL_MS) div 1000)" and n: "n \<noteq> []"
    using assms(4) by (simp_all add: p_def)
  have "complete_payload p" using n assms(5) by (simp add: complete_payload_def p_def)
  with verify_signed [OF assms(1), of env p "(clock s + SESSION_TTL_MS) div 1000" t]
  have v: "verifySession env L (sessionToken L req') t =
      (Inr (if clock t div 1000 < (clock s + SESSION_TTL_MS) div 1000 then Some p else None), t)"
    by (simp add: assms(6) ck)
  show ?thesis
  proof (cases "clock t div 1000 < (clock s + SESSION_TTL_MS) div 1000")
    case True
    with v have "verifySession env L (sessionToken L req') t = (Inr (Some p), t)" by simp
    from stored_user_authenticated [OF this] True show ?thesis using assms(7-9) by (simp add: p_def)
  next
    case False
    with v show ?thesis using unverified_refused [of env L req' t] by simp
  qed
qed

section \<open>A changed password\<close>

definition bcrypt_laws :: "authLibs \<Rightarrow> bool" where
  "bcrypt_laws L \<longleftrightarrow> (\<forall>salt p. bcryptCompare L p (bcryptHash L salt p) = Inr True)"

lemma first_row_map: "first_row (map f xs) = map_option f (first_row xs)"
  by (cases xs) simp_all

lemma filter_username_map:
  "(\<And>r. u_username (f r) = u_username r) \<Longrightarrow>
   filter (\<lambda>r. u_username r = n) (map f rs) = map f (filter (\<lambda>r. u_username r = n) rs)"
  by (induction rs) simp_all

lemma updateUserPassword_run:
  assumes "updateUserPassword i h s = (Inr x, s')"
  shows "s' = s\<lparr>usersT := (usersT s)\<lparr>trows := map (\<lambda>r. if row_id r = i then r\<lparr>u_passwordHash := h\<rparr> else r) (trows (usersT s))\<rparr>\<rparr>"
  using assms
  by (auto simp: updateUserPassword_def run_simps updateRows_def Let_def usersD_def split: if_splits)

text \<open>A successful change in one step: who asked, and what was stored.\<close>

lemma changePassword_success:
  assumes "changePassword env L salt req rc rn s = (Inr r, s')" and "ar_body r = PasswordChanged"
  obtains who u c p sA where "authenticateRequest env L req s = (Inr who, sA)"
    and "rc = JString c" and "rn = JString p" and "acceptable_password p"
    and "userNamed (u_username who) sA = Some u" and "bcryptCompare L c (u_passwordHash u) = Inr True"
    and "bcryptCompare L p (u_passwordHash u) = Inr False"
    and "trows (usersT s') = map (\<lambda>x. if row_id x = row_id u then x\<lparr>u_passwordHash := bcryptHash L salt p\<rparr> else x)
      (trows (usersT sA))"
    and "conn s'"
proof -
  obtain au sA where auth: "authenticateRequest env L req s = (au, sA)" by (rule prod.exhaust)
  with assms obtain who where who: "au = Inr who"
    by (cases au) (auto simp: changePassword_def run_simps catchE_def plainReply_def)
  with assms auth obtain c p where cp: "nonEmptyString rc = Some c" "nonEmptyString rn = Some p" "acceptable_password p"
    by (cases "nonEmptyString rc"; cases "nonEmptyString rn"; cases "acceptable_password (the (nonEmptyString rn))")
      (auto simp: changePassword_def run_simps catchE_def plainReply_def)
  let ?k = "changePasswordKey req (u_username who)"
  obtain a s1 where hit: "hitRateLimit ?k LOGIN_WINDOW_SECONDS LOGIN_MAX_ATTEMPTS sA = (Inr a, s1)"
    using hitRateLimit_returns by blast
  note kept = hit_keeps_users [OF hit]
  have named: "userNamed n s1 = userNamed n sA" for n using kept by (simp add: userNamed_def)
  have run: "changePassword env L salt req rc rn s = (Inr r, s')" by (rule assms(1))
  have "allowed a" "conn s1" "userNamed (u_username who) sA \<noteq> None"
    using run assms(2) auth who cp hit kept named
    by (auto simp: changePassword_def run_simps catchE_def plainReply_def Let_def split: if_splits option.splits)
  then obtain u where u: "userNamed (u_username who) sA = Some u" and ok: "allowed a" "conn s1" by auto
  have cmp: "bcryptCompare L c (u_passwordHash u) = Inr True" "bcryptCompare L p (u_passwordHash u) = Inr False"
    using run assms(2) auth who cp hit kept named u ok
    by (auto simp: changePassword_def run_simps catchE_def plainReply_def Let_def split: sum.splits bool.splits)
  obtain x s2 where up: "updateUserPassword (row_id u) (bcryptHash L salt p) s1 = (x, s2)" by (rule prod.exhaust)
  have "x = Inr ()" and s': "s' = snd (resetRateLimit ?k s2)"
    using run auth who cp hit named u ok cmp up
    by (cases x; auto simp: changePassword_def run_simps catchE_def Let_def split: prod.splits sum.splits)+
  then have s2: "conn s2" "trows (usersT s2) =
      map (\<lambda>x. if row_id x = row_id u then x\<lparr>u_passwordHash := bcryptHash L salt p\<rparr> else x) (trows (usersT s1))"
    using updateUserPassword_run [of "row_id u" "bcryptHash L salt p" s1 "()" s2] up ok(2) by simp_all
  then have "conn s'" "usersT s' = usersT s2" by (simp_all add: s' resetRateLimit_def)
  then show thesis
    using that [OF auth [unfolded who]] cp u cmp s2 kept by (simp add: nonEmptyString_Some)
qed

lemma userNamed_after_change:
  assumes "trows (usersT s') = map (\<lambda>x. if row_id x = row_id u then x\<lparr>u_passwordHash := h\<rparr> else x) (trows (usersT s))"
    and "userNamed n s = Some u"
  shows "userNamed n s' = Some (u\<lparr>u_passwordHash := h\<rparr>)"
proof -
  have "userNamed n s' = map_option (\<lambda>x. if row_id x = row_id u then x\<lparr>u_passwordHash := h\<rparr> else x) (userNamed n s)"
    unfolding userNamed_def assms(1) by (simp add: filter_username_map first_row_map)
  with assms(2) show ?thesis by simp
qed

text \<open>C8: after a successful password change exactly the asking account's hash is a new one, and a login with the new password
  signs in, at any later moment with these accounts at which the account is active, without a second factor and not
  throttled.\<close>

theorem changed_password_signs_in:
  assumes "bcrypt_laws L"
    and "changePassword env L salt req rc (JString p) s = (Inr r, s')" and "ar_body r = PasswordChanged"
    and "authenticateRequest env L req s = (Inr who, s\<^sub>1)" and "userNamed (u_username who) s\<^sub>1 = Some u"
    and "usersT t = usersT s'" and "conn t" and "hits_allowed req' (u_username who) t" and "u_username who \<noteq> []"
    and "u_isActive u \<noteq> Some 0" and "\<not> mfa_confirmed L u"
  shows "trows (usersT s') = map (\<lambda>x. if row_id x = row_id u then x\<lparr>u_passwordHash := bcryptHash L salt p\<rparr> else x)
      (trows (usersT s\<^sub>1)) \<and>
    signed_in (fst (login pe env L req' (JString (u_username who)) (JString p) t))"
  using assms(2,3)
proof (rule changePassword_success)
  fix who' u' c p' sA
  assume auth: "authenticateRequest env L req s = (Inr who', sA)" and p: "JString p = JString p'" "acceptable_password p'"
    and u': "userNamed (u_username who') sA = Some u'"
    and rows: "trows (usersT s') = map (\<lambda>x. if row_id x = row_id u' then x\<lparr>u_passwordHash := bcryptHash L salt p'\<rparr> else x)
      (trows (usersT sA))"
  have same: "who' = who" "sA = s\<^sub>1" "u' = u" using auth u' assms(4,5) by auto
  have "userNamed (u_username who) t = Some (u\<lparr>u_passwordHash := bcryptHash L salt p\<rparr>)"
    using userNamed_after_change [OF rows u'] same p assms(6) by (simp add: userNamed_def)
  moreover have "may_sign_in L p (u\<lparr>u_passwordHash := bcryptHash L salt p\<rparr>)"
    using assms(1,10,11) by (simp add: may_sign_in_def bcrypt_laws_def mfa_confirmed_def)
  moreover have "p \<noteq> []" using p by (auto simp: acceptable_password_def)
  ultimately have "signed_in (fst (login pe env L req' (JString (u_username who)) (JString p) t))"
    unfolding login_signed_in using assms(7-9) by blast
  with rows same p show ?thesis by simp
qed

section \<open>An example\<close>

lemma example_bcrypt_laws: "bcrypt_laws example_libs"
  by (simp add: bcrypt_laws_def example_libs_def)

definition amina :: user where
  "amina = \<lparr>row_id = 7, u_username = ''amina'', u_passwordHash = ''#Secret01'', u_fullName = ''Amina B'',
     u_role = ''public'', u_staffId = None, u_stateCode = None, u_lgaCode = None, u_pollingUnitCode = None,
     u_createdAt = 0, u_isActive = Some 1, u_partyId = None, u_kycStatus = None\<rparr>"

definition one_account :: world where
  "one_account = empty_world\<lparr>usersT := \<lparr>trows = [amina], nextId = 8\<rparr>\<rparr>"

definition example_pe :: processEnv where
  "example_pe = \<lparr>JWT_SECRET = None, NODE_ENV = Some ''production'', POSTGRES_URL = None, DATABASE_URL = None, VITE_APP_ID = None,
     OAUTH_SERVER_URL = None, OWNER_OPEN_ID = None, BUILT_IN_FORGE_API_URL = None, BUILT_IN_FORGE_API_KEY = None,
     COOKIE_SAMESITE = None, COOKIE_SECURE = None, AUTH_RETURN_SESSION_COOKIE = None, METRICS_BEARER_TOKEN = None\<rparr>"

definition amina_token :: string where
  "amina_token = jwtSign example_libs (cookieSecret example_env)
     \<lparr>sp_openId = ''amina'', sp_appId = ''campaign-platform'', sp_name = ''Amina B''\<rparr> (SESSION_TTL_MS div 1000)"

lemma amina_token_nonempty: "amina_token \<noteq> []"
  using example_jwt_laws unfolding jwt_laws_def amina_token_def by blast

lemma example_session_token: "sessionToken example_libs (from_phone (Some amina_token)) = Some amina_token"
  using amina_token_nonempty by (simp add: sessionToken_def parseCookies_def from_phone_def example_libs_def)

lemma amina_stored: "userNamed ''amina'' (one_account\<lparr>clock := t\<rparr>) = Some amina" "conn (one_account\<lparr>clock := t\<rparr>)"
  "usersT (one_account\<lparr>clock := t\<rparr>) = \<lparr>trows = [amina], nextId = 8\<rparr>"
  by (simp_all add: one_account_def userNamed_def amina_def empty_world_def)

lemma fresh_hits_allowed:
  assumes "limiter_ready s" and "rateLimitsT s = []"
  shows "hits_allowed req n s"
proof -
  obtain a s1 where a: "hitRateLimit (userLimitKey req n) 300 5 s = (Inr a, s1)" using hitRateLimit_returns by blast
  obtain b s2 where b: "hitRateLimit (ipLimitKey (clientIp req)) 300 30 s1 = (Inr b, s2)"
    using hitRateLimit_returns by blast
  show ?thesis
    using login_hits(3,4) [OF assms(1) a b] assms(2) by (simp add: hits_allowed_def a b window_count_def)
qed

lemma one_account_ready: "limiter_ready (one_account\<lparr>clock := t\<rparr>)" "rateLimitsT (one_account\<lparr>clock := t\<rparr>) = []"
  by (simp_all add: one_account_def limiter_ready_def empty_world_def)

lemma one_account_clock: "one_account\<lparr>clock := 0\<rparr> = one_account"
  by (simp add: one_account_def empty_world_def)

lemma amina_may_sign_in: "may_sign_in example_libs ''Secret01'' amina" "\<not> mfa_confirmed example_libs amina"
  by (simp_all add: may_sign_in_def mfa_confirmed_def example_libs_def amina_def)

lemma amina_logs_in:
  obtains r s' ck where "login example_pe example_env example_libs (from_phone None) (JString ''amina'') (JString ''Secret01'') one_account = (Inr r, s')"
    and "ar_cookie r = Some ck" and "ck_value ck = amina_token"
proof -
  have "signed_in (fst (login example_pe example_env example_libs (from_phone None) (JString ''amina'') (JString ''Secret01'') one_account))"
    unfolding login_signed_in
    using amina_stored [of 0] amina_may_sign_in fresh_hits_allowed [OF one_account_ready, of "from_phone None" "''amina''" 0]
    by (simp add: one_account_clock)
  then obtain r s' ck where run: "login example_pe example_env example_libs (from_phone None) (JString ''amina'') (JString ''Secret01'') one_account = (Inr r, s')"
    and ck: "ar_cookie r = Some ck"
    by (cases "login example_pe example_env example_libs (from_phone None) (JString ''amina'') (JString ''Secret01'') one_account")
      (auto simp: signed_in_def split: sum.splits)
  have "clock one_account = 0" by (simp add: one_account_def empty_world_def)
  moreover have "userNamed ''amina'' one_account = Some amina" using amina_stored(1) [of 0] by (simp add: one_account_clock)
  ultimately have "ck_value ck = amina_token"
    by (auto simp: amina_token_def amina_def example_env_def intro: login_cookie [OF run ck])
  with run ck show thesis by (rule that)
qed

theorem session_authenticates_witness:
  "authenticateRequest example_env example_libs (from_phone (Some amina_token)) (one_account\<lparr>clock := 86400000\<rparr>) =
     (Inr (plainUser amina), one_account\<lparr>clock := 86400000\<rparr>) \<and>
   authenticateRequest example_env example_libs (from_phone (Some amina_token)) (one_account\<lparr>clock := SESSION_TTL_MS\<rparr>) =
     (Inl (ForbiddenError ''Invalid session cookie''), one_account\<lparr>clock := SESSION_TTL_MS\<rparr>)"
proof -
  obtain r s' ck where run: "login example_pe example_env example_libs (from_phone None) (JString ''amina'') (JString ''Secret01'') one_account = (Inr r, s')"
    and ck: "ar_cookie r = Some ck" "ck_value ck = amina_token"
    by (rule amina_logs_in)
  have zero: "clock one_account = 0" by (simp add: one_account_def empty_world_def)
  have plain: "\<not> starts_with ''amina'' CRON_OPEN_ID_PREFIX" by (simp add: starts_with_def CRON_OPEN_ID_PREFIX_def)
  have "u_fullName amina \<noteq> []" by (simp add: amina_def)
  note auth = session_authenticates [OF example_jwt_laws run ck(1) amina_stored(1) [of 0, unfolded one_account_clock] this
      example_session_token [folded ck(2)] amina_stored(2,1) plain]
  show ?thesis
    using auth [of 86400000] auth [of SESSION_TTL_MS] by (simp add: zero ck(2) SESSION_TTL_MS_def)
qed

lemma login_keeps_users:
  assumes "login pe env L req ru rp s = (r, s')"
  shows "usersT s' = usersT s"
proof (cases "nonEmptyString ru = None \<or> nonEmptyString rp = None")
  case True
  then show ?thesis using assms by (simp add: login_malformed)
next
  case False
  then obtain n p where np: "nonEmptyString ru = Some n" "nonEmptyString rp = Some p" by auto
  obtain a s1 where a: "hitRateLimit (userLimitKey req n) 300 5 s = (Inr a, s1)" using hitRateLimit_returns by blast
  obtain b s2 where b: "hitRateLimit (ipLimitKey (clientIp req)) 300 30 s1 = (Inr b, s2)"
    using hitRateLimit_returns by blast
  have "usersT (snd (loginAdmitted pe env L req n p s2)) = usersT s2"
    by (simp add: loginAdmitted_def resetRateLimit_def Let_def split: option.splits sum.splits bool.splits)
  then show ?thesis
    using assms login_body [OF np a b, of pe env L] hit_keeps_users [OF a] hit_keeps_users [OF b]
    by (auto split: if_splits)
qed

lemma wrong_guesses:
  assumes "usersT s = \<lparr>trows = [amina], nextId = 8\<rparr>"
  shows "list_all (\<lambda>r. \<not> signed_in r) (run_calls (login_call example_pe example_env example_libs)
    (replicate k ((from_phone None, JString ''amina'', JString ''Guess123''), t)) s)"
  using assms
proof (induction k arbitrary: s)
  case 0
  show ?case by simp
next
  case (Suc k)
  obtain r s' where run: "login example_pe example_env example_libs (from_phone None) (JString ''amina'') (JString ''Guess123'')
      (s\<lparr>clock := t\<rparr>) = (r, s')" by (rule prod.exhaust)
  have "userNamed ''amina'' (s\<lparr>clock := t\<rparr>) = Some amina" using Suc.prems by (simp add: userNamed_def amina_def)
  moreover have "\<not> may_sign_in example_libs ''Guess123'' amina"
    by (simp add: may_sign_in_def example_libs_def amina_def)
  ultimately have "\<not> signed_in r"
    using login_signed_in [of example_pe example_env example_libs "from_phone None" "JString ''amina''" "JString ''Guess123''" "s\<lparr>clock := t\<rparr>"]
    by (simp add: run)
  moreover have "usersT s' = \<lparr>trows = [amina], nextId = 8\<rparr>" using login_keeps_users [OF run] Suc.prems by simp
  ultimately show ?case using Suc.IH [of s'] by (simp add: login_call_def run)
qed

theorem guesses_bounded_witness:
  "charged (from_address ''10.0.0.1'') 300 0 (replicate 40 ((from_phone None, JString ''amina'', JString ''Guess123''), 5))
     (run_calls (login_call example_pe example_env example_libs)
       (replicate 40 ((from_phone None, JString ''amina'', JString ''Guess123''), 5)) one_account) \<le> 30 \<and>
   charged (under_key (userLimitKey (from_phone None) ''amina'')) 300 0
     (replicate 40 ((from_phone None, JString ''amina'', JString ''Guess123''), 5))
     (run_calls (login_call example_pe example_env example_libs)
       (replicate 40 ((from_phone None, JString ''amina'', JString ''Guess123''), 5)) one_account) \<le> 5"
proof -
  have "usersT one_account = \<lparr>trows = [amina], nextId = 8\<rparr>" using amina_stored(3) [of 0] by (simp add: one_account_clock)
  note wrong = wrong_guesses [OF this, of 40 5]
  have ready: "limiter_ready one_account" "rateLimitsT one_account = []" using one_account_ready [of 0] by (simp_all add: one_account_clock)
  have "sorted (map snd (replicate 40 ((from_phone None, JString ''amina'', JString ''Guess123''), 5 :: int)))"
    by (simp add: sorted_replicate)
  from guesses_bounded [OF ready(1) this, of "''10.0.0.1''" 0 "from_phone None" "''amina''" example_pe example_env example_libs]
  show ?thesis using ready(2) wrong by (simp only: window_count_def filter.simps list.case order_refl simp_thms)
qed

lemma amina_authenticated:
  "authenticateRequest example_env example_libs (from_phone (Some amina_token)) one_account = (Inr (plainUser amina), one_account)"
proof -
  let ?p = "\<lparr>sp_openId = ''amina'', sp_appId = ''campaign-platform'', sp_name = ''Amina B''\<rparr>"
  have "clock one_account = 0" by (simp add: one_account_def empty_world_def)
  then have "verifySession example_env example_libs (sessionToken example_libs (from_phone (Some amina_token))) one_account =
      (Inr (Some ?p), one_account)"
    using verify_signed [OF example_jwt_laws, of example_env ?p "SESSION_TTL_MS div 1000" one_account, folded amina_token_def]
    by (simp add: example_session_token complete_payload_def SESSION_TTL_MS_def)
  then show ?thesis
    by (rule stored_user_authenticated)
      (use amina_stored [of 0] in \<open>simp_all add: one_account_clock starts_with_def CRON_OPEN_ID_PREFIX_def\<close>)
qed

definition new_amina :: user where
  "new_amina = amina\<lparr>u_passwordHash := ''#Better02''\<rparr>"

lemma amina_changes_password:
  obtains r s' where "changePassword example_env example_libs [] (from_phone (Some amina_token)) (JString ''Secret01'')
      (JString ''Better02'') one_account = (Inr r, s')"
    and "ar_body r = PasswordChanged" and "usersT s' = \<lparr>trows = [new_amina], nextId = 8\<rparr>"
proof -
  have "acceptable_password ''Better02''" by (simp add: acceptable_password_def is_lower_def is_upper_def is_digit_def)
  obtain a s1 where hit: "hitRateLimit (changePasswordKey (from_phone (Some amina_token)) ''amina'') LOGIN_WINDOW_SECONDS LOGIN_MAX_ATTEMPTS
      one_account = (Inr a, s1)"
    using hitRateLimit_returns by blast
  have "allowed a"
    using hit_window_counts(2) [OF one_account_ready(1) [of 0, unfolded one_account_clock] hit, of "windowStartMs 300 (clock one_account)"]
      in_window [of one_account] one_account_ready(2) [of 0, unfolded one_account_clock]
    by (simp add: window_count_def LOGIN_MAX_ATTEMPTS_def)
  have s1: "conn s1" "usersT s1 = \<lparr>trows = [amina], nextId = 8\<rparr>" "userNamed ''amina'' s1 = Some amina"
    using hit_keeps_users [OF hit] amina_stored [of 0] by (simp_all add: one_account_clock userNamed_def)
  let ?s2 = "s1\<lparr>usersT := \<lparr>trows = [new_amina], nextId = 8\<rparr>\<rparr>"
  have up: "updateUserPassword 7 ''#Better02'' s1 = (Inr (), ?s2)"
    by (simp add: updateUserPassword_def run_simps updateRows_def usersD_def users_chk_def s1 new_amina_def amina_def int4o_def int4_def Let_def)
  have libs: "bcryptCompare example_libs p h = Inr (h = CHR ''#'' # p)" "bcryptHash example_libs x p = CHR ''#'' # p" for p h x
    by (simp_all add: example_libs_def)
  have fields: "row_id amina = 7" "u_passwordHash amina = ''#Secret01''" "u_username amina = ''amina''"
    by (simp_all add: amina_def)
  have "changePassword example_env example_libs [] (from_phone (Some amina_token)) (JString ''Secret01'')
      (JString ''Better02'') one_account =
      (Inr (plainReply 200 PasswordChanged),
       snd (resetRateLimit (changePasswordKey (from_phone (Some amina_token)) ''amina'') ?s2))"
    using \<open>allowed a\<close> \<open>acceptable_password _\<close> hit s1 up
    by (simp add: changePassword_def run_simps catchE_def amina_authenticated libs fields resetRateLimit_def Let_def)
  then show thesis by (rule that) (simp_all add: plainReply_def resetRateLimit_def)
qed

theorem changed_password_signs_in_witness:
  "signed_in (fst (login example_pe example_env example_libs (from_phone None) (JString ''amina'') (JString ''Better02'')
     (one_account\<lparr>usersT := \<lparr>trows = [new_amina], nextId = 8\<rparr>\<rparr>)))"
proof -
  let ?t = "one_account\<lparr>usersT := \<lparr>trows = [new_amina], nextId = 8\<rparr>\<rparr>"
  obtain r s' where run: "changePassword example_env example_libs [] (from_phone (Some amina_token)) (JString ''Secret01'')
      (JString ''Better02'') one_account = (Inr r, s')"
    and r: "ar_body r = PasswordChanged" and users: "usersT s' = \<lparr>trows = [new_amina], nextId = 8\<rparr>"
    by (rule amina_changes_password)
  have t: "usersT ?t = usersT s'" "conn ?t" "hits_allowed (from_phone None) (u_username (plainUser amina)) ?t"
    using users by (simp_all add: one_account_def empty_world_def fresh_hits_allowed limiter_ready_def)
  have "userNamed (u_username (plainUser amina)) one_account = Some amina" "u_username (plainUser amina) = ''amina''"
    using amina_stored(1) [of 0] by (simp_all add: one_account_clock amina_def)
  moreover have "u_isActive amina \<noteq> Some 0" by (simp add: amina_def)
  ultimately show ?thesis
    using changed_password_signs_in [OF example_bcrypt_laws run r amina_authenticated _ t _ _ amina_may_sign_in(2), of example_pe]
    by simp
qed

section \<open>What a session outlives\<close>

text \<open>A session is not asked for the account's state: it goes on after the account was deactivated, whose
  password no longer signs in.\<close>

lemma session_ignores_deactivation:
  assumes "verifySession env L (sessionToken L req) s = (Inr (Some p), s)"
    and "\<not> starts_with (sp_openId p) CRON_OPEN_ID_PREFIX" and "conn s"
    and "userNamed (sp_openId p) s = Some u" and "u_isActive u = Some 0"
  shows "authenticateRequest env L req s = (Inr (plainUser u), s)"
    and "\<not> signed_in (fst (login pe env L req' (JString (sp_openId p)) rp s))"
  using stored_user_authenticated [OF assms(1-4)] assms(4,5) by (auto simp: login_signed_in may_sign_in_def)

text \<open>An account without a full name signs in, and its session is never accepted.\<close>

lemma nameless_account_locked_out:
  assumes "jwt_laws L" and "login pe env L req ru rp s = (Inr r, s')" and "ar_cookie r = Some ck"
    and "ru = JString n" and "userNamed n s = Some u" and "u_fullName u = []"
    and "sessionToken L req' = Some (ck_value ck)"
  shows "authenticateRequest env L req' t = (Inl (ForbiddenError ''Invalid session cookie''), t)"
proof (rule unverified_refused)
  obtain p e where "ck_value ck = jwtSign L (cookieSecret env) p e" "\<not> complete_payload p"
    using assms(4-6) by (auto simp: complete_payload_def intro: login_cookie [OF assms(2,3)])
  then show "fst (verifySession env L (sessionToken L req') t) = Inr None"
    using verify_signed [OF assms(1), of env p e t] assms(7) by simp
qed

end
