(* ===== verification/Seed_Data.thy ===== *)
theory Seed_Data
  imports Voter_Compliance Polling_Units Petitions Finance Outreach Planning War_Room
begin

text \<open>
  The fixture data of test environments (\<open>isFixtureSeedingAllowed\<close> and \<open>seedProfileData\<close> of \<^verbatim>\<open>server/db.ts\<close> and
  \<open>seed.all\<close> of \<^verbatim>\<open>server/routers.ts\<close>): a campaign's rows are cleared in one transaction and replaced by the demo rows,
  each row of personal data with a consent record that grants nothing and a provenance entry that says it is made up.
  The row texts are kept in ASCII; \<open>Math.random\<close> is a stream of numbers.
\<close>

section \<open>The gate\<close>

record fixtureEnv =
  fx_NODE_ENV :: "string option"
  fx_CAMPAIGN_ALLOW_FIXTURE_SEED :: "string option"
  fx_GITHUB_ACTIONS :: "string option"

definition isFixtureSeedingAllowed :: "fixtureEnv \<Rightarrow> bool" where
  "isFixtureSeedingAllowed fx \<longleftrightarrow>
     (let runtime = toLowerCase (str_or (fx_NODE_ENV fx) []);
          explicitFixtureFlag = (fx_CAMPAIGN_ALLOW_FIXTURE_SEED fx = Some ''true'');
          nonProductionRuntime =
            (runtime = ''test'' \<or> runtime = ''development'' \<or> fx_GITHUB_ACTIONS fx = Some ''true'')
      in explicitFixtureFlag \<and> nonProductionRuntime)"

section \<open>Dates\<close>

text \<open>\<open>d.setDate(d.getDate() + n)\<close>, in a time zone that does not change its clocks.\<close>

definition daysFromNow :: "time \<Rightarrow> int \<Rightarrow> time" where
  "daysFromNow now n = now + n * day_ms"

section \<open>The rows\<close>

text \<open>For each table a row with the defaults of its columns, and the fixture rows that set the others.\<close>

definition blank_timelineEvent :: "int \<Rightarrow> time \<Rightarrow> int \<Rightarrow> timelineEvent" where
  "blank_timelineEvent pid now i =
     \<lparr>row_id = i, profileId = Some pid, te_title = [], te_description = None, te_eventDate = 0, te_category = None,
      te_status = Some Pending, te_location = None, te_priority = Some Medium, te_createdAt = now,
      te_lastAlertedAt = None\<rparr>"

definition seed_timelineEvents :: "int \<Rightarrow> time \<Rightarrow> (int \<Rightarrow> timelineEvent) list" where
  "seed_timelineEvents pid now =
     [\<lambda>i. (blank_timelineEvent pid now i)\<lparr>te_title := ''Campaign Launch - Kano City'', te_eventDate := (date_of (daysFromNow now (-90))),
         te_category := Some ''Rally'', te_status := Some Completed,
         te_location := Some ''Sani Abacha Stadium, Kano'', te_priority := Some Critical\<rparr>,
      \<lambda>i. (blank_timelineEvent pid now i)\<lparr>te_title := ''Ward-Level Mobilisation - Dala LGA'', te_eventDate := (date_of (daysFromNow now (-75))),
         te_category := Some ''Canvassing'', te_status := Some Completed, te_location := Some ''Dala LGA'',
         te_priority := Some High\<rparr>,
      \<lambda>i. (blank_timelineEvent pid now i)\<lparr>te_title := ''Women's Forum - Gwale'', te_eventDate := (date_of (daysFromNow now (-60))),
         te_category := Some ''Outreach'', te_status := Some Completed, te_location := Some ''Gwale Town Hall'',
         te_priority := Some High\<rparr>,
      \<lambda>i. (blank_timelineEvent pid now i)\<lparr>te_title := ''INEC Candidate Screening'', te_eventDate := (date_of (daysFromNow now (-45))),
         te_category := Some ''INEC'', te_status := Some Completed, te_location := Some ''INEC Kano HQ'',
         te_priority := Some Critical\<rparr>,
      \<lambda>i. (blank_timelineEvent pid now i)\<lparr>te_title := ''Manifesto Launch - Bayero University'', te_eventDate := (date_of (daysFromNow now (-30))),
         te_category := Some ''Media'', te_status := Some Completed, te_location := Some ''BUK Auditorium'',
         te_priority := Some Critical\<rparr>,
      \<lambda>i. (blank_timelineEvent pid now i)\<lparr>te_title := ''Northern Governors Endorsement Meeting'', te_eventDate := (date_of (daysFromNow now (-20))),
         te_category := Some ''Stakeholder'', te_status := Some Completed, te_location := Some ''Abuja'',
         te_priority := Some High\<rparr>,
      \<lambda>i. (blank_timelineEvent pid now i)\<lparr>te_title := ''TV Debate - Channels Television'', te_eventDate := (date_of (daysFromNow now (-14))),
         te_category := Some ''Media'', te_status := Some Completed,
         te_location := Some ''Channels TV Studio, Lagos'', te_priority := Some Critical\<rparr>,
      \<lambda>i. (blank_timelineEvent pid now i)\<lparr>te_title := ''Youth Rally - Nassarawa LGA'', te_eventDate := (date_of (daysFromNow now (-7))),
         te_category := Some ''Rally'', te_status := Some Completed, te_location := Some ''Nassarawa Stadium'',
         te_priority := Some High\<rparr>,
      \<lambda>i. (blank_timelineEvent pid now i)\<lparr>te_title := ''Final Mega Rally - Sani Abacha Stadium'', te_eventDate := (date_of (daysFromNow now (-2))),
         te_category := Some ''Rally'', te_status := Some Active, te_location := Some ''Sani Abacha Stadium, Kano'',
         te_priority := Some Critical\<rparr>,
      \<lambda>i. (blank_timelineEvent pid now i)\<lparr>te_title := ''INEC Accreditation Deadline'', te_eventDate := (date_of (daysFromNow now (3))),
         te_category := Some ''INEC'', te_status := Some Pending, te_location := Some ''INEC State Office'',
         te_priority := Some Critical\<rparr>,
      \<lambda>i. (blank_timelineEvent pid now i)\<lparr>te_title := ''Election Day - Governorship Election'', te_eventDate := (date_of (daysFromNow now (14))),
         te_category := Some ''Election'', te_status := Some Pending, te_location := Some ''All 44 LGAs'',
         te_priority := Some Critical\<rparr>,
      \<lambda>i. (blank_timelineEvent pid now i)\<lparr>te_title := ''INEC Result Collation - State HQ'', te_eventDate := (date_of (daysFromNow now (15))),
         te_category := Some ''INEC'', te_status := Some Pending, te_location := Some ''INEC Kano HQ'',
         te_priority := Some Critical\<rparr>,
      \<lambda>i. (blank_timelineEvent pid now i)\<lparr>te_title := ''Victory Press Conference'', te_eventDate := (date_of (daysFromNow now (16))),
         te_category := Some ''Media'', te_status := Some Pending, te_location := Some ''Campaign HQ'',
         te_priority := Some High\<rparr>]"

definition blank_voterRegistration :: "int \<Rightarrow> time \<Rightarrow> int \<Rightarrow> voterRegistration" where
  "blank_voterRegistration pid now i =
     \<lparr>row_id = i, profileId = Some pid, vr_fullName = [], vr_vin = None, vr_stateCode = Some ''KN'', vr_lga = None,
      vr_ward = None, vr_pollingUnit = None, vr_phone = None, vr_accessibilityNeeds = None, vr_registeredAt = now,
      vr_isVerified = Some False\<rparr>"

definition seed_voterRegistrations :: "int \<Rightarrow> time \<Rightarrow> (int \<Rightarrow> voterRegistration) list" where
  "seed_voterRegistrations pid now =
     [\<lambda>i. (blank_voterRegistration pid now i)\<lparr>vr_fullName := ''Aminu Suleiman Kano'', vr_vin := Some ''19KN0001234567'', vr_lga := Some ''Dala'',
         vr_ward := Some ''Dala Central'', vr_pollingUnit := Some ''DALA PRIMARY SCHOOL'',
         vr_phone := Some ''08031234567'', vr_isVerified := Some True\<rparr>,
      \<lambda>i. (blank_voterRegistration pid now i)\<lparr>vr_fullName := ''Fatima Yusuf Ibrahim'', vr_vin := Some ''19KN0002345678'', vr_lga := Some ''Gwale'',
         vr_ward := Some ''Gwale North'', vr_pollingUnit := Some ''GWALE MODEL PRIMARY'',
         vr_phone := Some ''08052345678'', vr_isVerified := Some True\<rparr>,
      \<lambda>i. (blank_voterRegistration pid now i)\<lparr>vr_fullName := ''Musa Abdullahi Wada'', vr_vin := Some ''19KN0003456789'', vr_lga := Some ''Nassarawa'',
         vr_ward := Some ''Nassarawa East'', vr_pollingUnit := Some ''NASSARAWA SEC SCHOOL'',
         vr_phone := Some ''08073456789'', vr_isVerified := Some False\<rparr>,
      \<lambda>i. (blank_voterRegistration pid now i)\<lparr>vr_fullName := ''Hauwa Garba Sani'', vr_vin := Some ''19KN0004567890'', vr_lga := Some ''Kumbotso'',
         vr_ward := Some ''Kumbotso Central'', vr_pollingUnit := Some ''KUMBOTSO PRIMARY'',
         vr_phone := Some ''08094567890'', vr_isVerified := Some True\<rparr>,
      \<lambda>i. (blank_voterRegistration pid now i)\<lparr>vr_fullName := ''Ibrahim Musa Tukur'', vr_vin := Some ''19KN0005678901'', vr_lga := Some ''Tarauni'',
         vr_ward := Some ''Tarauni South'', vr_pollingUnit := Some ''TARAUNI TOWN HALL'',
         vr_phone := Some ''08015678901'', vr_isVerified := Some False\<rparr>,
      \<lambda>i. (blank_voterRegistration pid now i)\<lparr>vr_fullName := ''Zainab Umar Shehu'', vr_vin := Some ''19KN0006789012'', vr_lga := Some ''Fagge'',
         vr_ward := Some ''Fagge D2'', vr_pollingUnit := Some ''FAGGE PRIMARY SCHOOL'',
         vr_phone := Some ''08036789012'', vr_isVerified := Some True\<rparr>,
      \<lambda>i. (blank_voterRegistration pid now i)\<lparr>vr_fullName := ''Kabiru Aliyu Danmusa'', vr_vin := Some ''19KN0007890123'', vr_lga := Some ''Municipal'',
         vr_ward := Some ''Kano Municipal A'', vr_pollingUnit := Some ''MUNICIPAL GOVT SCHOOL'',
         vr_phone := Some ''08057890123'', vr_isVerified := Some True\<rparr>,
      \<lambda>i. (blank_voterRegistration pid now i)\<lparr>vr_fullName := ''Rabi Usman Bello'', vr_vin := Some ''19KN0008901234'', vr_lga := Some ''Ungogo'',
         vr_ward := Some ''Ungogo North'', vr_pollingUnit := Some ''UNGOGO CENTRAL SCHOOL'',
         vr_phone := Some ''08078901234'', vr_isVerified := Some False\<rparr>]"

definition blank_volunteer :: "int \<Rightarrow> time \<Rightarrow> int \<Rightarrow> volunteer" where
  "blank_volunteer pid now i =
     \<lparr>row_id = i, profileId = Some pid, vo_fullName = [], vo_phone = None, vo_email = None, vo_lga = None,
      vo_ward = None, vo_role = None, vo_skills = None, vo_status = Some Active, vo_joinedAt = now\<rparr>"

definition seed_volunteers :: "int \<Rightarrow> time \<Rightarrow> (int \<Rightarrow> volunteer) list" where
  "seed_volunteers pid now =
     [\<lambda>i. (blank_volunteer pid now i)\<lparr>vo_fullName := ''Bashir Abdulkadir'', vo_phone := Some ''08031111111'', vo_lga := Some ''Dala'',
         vo_role := Some ''Ward Coordinator'', vo_skills := Some ''Community mobilisation, data entry'',
         vo_status := Some Active\<rparr>,
      \<lambda>i. (blank_volunteer pid now i)\<lparr>vo_fullName := ''Khadija Musa Sani'', vo_phone := Some ''08052222222'', vo_lga := Some ''Gwale'',
         vo_role := Some ''Women Leader'', vo_skills := Some ''Voter registration, outreach'',
         vo_status := Some Active\<rparr>,
      \<lambda>i. (blank_volunteer pid now i)\<lparr>vo_fullName := ''Umar Faruk Dankabo'', vo_phone := Some ''08073333333'', vo_lga := Some ''Nassarawa'',
         vo_role := Some ''Youth Coordinator'', vo_skills := Some ''Social media, logistics'',
         vo_status := Some Active\<rparr>,
      \<lambda>i. (blank_volunteer pid now i)\<lparr>vo_fullName := ''Aisha Bello Kano'', vo_phone := Some ''08094444444'', vo_lga := Some ''Kumbotso'',
         vo_role := Some ''Polling Agent'', vo_skills := Some ''Election monitoring, BVAS operation'',
         vo_status := Some Active\<rparr>,
      \<lambda>i. (blank_volunteer pid now i)\<lparr>vo_fullName := ''Sani Ibrahim Wada'', vo_phone := Some ''08015555555'', vo_lga := Some ''Tarauni'',
         vo_role := Some ''Transport Coordinator'', vo_skills := Some ''Logistics, vehicle management'',
         vo_status := Some Active\<rparr>,
      \<lambda>i. (blank_volunteer pid now i)\<lparr>vo_fullName := ''Maryam Garba Tukur'', vo_phone := Some ''08036666666'', vo_lga := Some ''Fagge'',
         vo_role := Some ''Media Liaison'', vo_skills := Some ''Photography, social media'', vo_status := Some Active\<rparr>]"

definition blank_volunteerTask :: "int \<Rightarrow> time \<Rightarrow> int \<Rightarrow> volunteerTask" where
  "blank_volunteerTask pid now i =
     \<lparr>row_id = i, profileId = Some pid, vt_volunteerId = None, vt_title = [], vt_description = None,
      vt_taskType = Some OtherTask, vt_status = Some TaskPending, vt_dueDate = None, vt_completedAt = None,
      vt_createdAt = now\<rparr>"

definition seed_volunteerTasks :: "int \<Rightarrow> time \<Rightarrow> int list \<Rightarrow> (int \<Rightarrow> volunteerTask) list" where
  "seed_volunteerTasks pid now vols =
     [\<lambda>i. (blank_volunteerTask pid now i)\<lparr>vt_volunteerId := Some (vols ! 0), vt_title := ''Register 200 voters in Dala ward'',
         vt_taskType := Some Canvassing, vt_status := Some TaskCompleted, vt_dueDate := Some (daysFromNow now (-7))\<rparr>,
      \<lambda>i. (blank_volunteerTask pid now i)\<lparr>vt_volunteerId := Some (vols ! 1), vt_title := ''Organise women's rally - Gwale'',
         vt_taskType := Some Canvassing, vt_status := Some TaskInProgress, vt_dueDate := Some (daysFromNow now (2))\<rparr>,
      \<lambda>i. (blank_volunteerTask pid now i)\<lparr>vt_volunteerId := Some (vols ! 2), vt_title := ''Social media content for final week'',
         vt_taskType := Some MediaTask, vt_status := Some TaskInProgress, vt_dueDate := Some (daysFromNow now (1))\<rparr>,
      \<lambda>i. (blank_volunteerTask pid now i)\<lparr>vt_volunteerId := Some (vols ! 3), vt_title := ''BVAS training - Kumbotso PUs'',
         vt_taskType := Some PollingUnitTask, vt_status := Some TaskPending, vt_dueDate := Some (daysFromNow now (5))\<rparr>,
      \<lambda>i. (blank_volunteerTask pid now i)\<lparr>vt_volunteerId := Some (vols ! 4), vt_title := ''Arrange 10 buses for Election Day'',
         vt_taskType := Some Logistics, vt_status := Some TaskPending, vt_dueDate := Some (daysFromNow now (12))\<rparr>,
      \<lambda>i. (blank_volunteerTask pid now i)\<lparr>vt_volunteerId := Some (vols ! 5), vt_title := ''Prepare press kits for final rally'',
         vt_taskType := Some MediaTask, vt_status := Some TaskCompleted, vt_dueDate := Some (daysFromNow now (-2))\<rparr>]"

definition blank_pressRelease :: "int \<Rightarrow> time \<Rightarrow> int \<Rightarrow> pressRelease" where
  "blank_pressRelease pid now i =
     \<lparr>row_id = i, profileId = Some pid, pr_title = [], pr_body = [], pr_template = None, pr_publishedAt = None,
      pr_status = Some Pending, pr_createdAt = now\<rparr>"

definition seed_pressReleases :: "int \<Rightarrow> time \<Rightarrow> (int \<Rightarrow> pressRelease) list" where
  "seed_pressReleases pid now =
     [\<lambda>i. (blank_pressRelease pid now i)\<lparr>pr_title := ''Candidate Unveils 10-Point Economic Agenda for Kano'',
         pr_body := ''The governorship candidate today unveiled a comprehensive 10-point economic agenda aimed at creating 500,000 jobs in Kano State within four years. The plan focuses on agro-processing, technology, and small business development.'',
         pr_status := Some Completed, pr_publishedAt := Some (daysFromNow now (-30))\<rparr>,
      \<lambda>i. (blank_pressRelease pid now i)\<lparr>pr_title := ''Campaign Condemns Electoral Violence in Kumbotso'',
         pr_body := ''The campaign strongly condemns the reported incidents of electoral violence in Kumbotso LGA and calls on security agencies to ensure a peaceful election environment for all citizens.'',
         pr_status := Some Completed, pr_publishedAt := Some (daysFromNow now (-7))\<rparr>,
      \<lambda>i. (blank_pressRelease pid now i)\<lparr>pr_title := ''Final Rally Set for Sani Abacha Stadium'',
         pr_body := ''The campaign announces the final mega rally scheduled for Sani Abacha Stadium. Thousands of supporters from all 44 LGAs are expected to attend.'',
         pr_status := Some Pending\<rparr>]"

definition blank_socialMediaPost :: "int \<Rightarrow> time \<Rightarrow> int \<Rightarrow> socialMediaPost" where
  "blank_socialMediaPost pid now i =
     \<lparr>row_id = i, profileId = Some pid, sm_platform = [], sm_content = [], sm_hashtags = None, sm_scheduledAt = None,
      sm_publishedAt = None, sm_status = Some Pending, sm_impressions = Some 0, sm_engagements = Some 0,
      sm_createdAt = now\<rparr>"

definition seed_socialMediaPosts :: "int \<Rightarrow> time \<Rightarrow> (int \<Rightarrow> socialMediaPost) list" where
  "seed_socialMediaPosts pid now =
     [\<lambda>i. (blank_socialMediaPost pid now i)\<lparr>sm_platform := ''Twitter'',
         sm_content := ''Our candidate is committed to creating 500,000 jobs in Kano State. Vote for a better Kano! #KanoDecides #OurCandidate'',
         sm_scheduledAt := Some (daysFromNow now (-14)), sm_status := Some Completed\<rparr>,
      \<lambda>i. (blank_socialMediaPost pid now i)\<lparr>sm_platform := ''Facebook'',
         sm_content := ''Join us at the final mega rally at Sani Abacha Stadium! Bring your family and friends. Together we will win! #FinalRally'',
         sm_scheduledAt := Some (daysFromNow now (-2)), sm_status := Some Completed\<rparr>,
      \<lambda>i. (blank_socialMediaPost pid now i)\<lparr>sm_platform := ''WhatsApp'',
         sm_content := ''Reminder: Election Day is in 14 days. Make sure your PVC is ready. Share this with your contacts!'',
         sm_scheduledAt := Some (daysFromNow now (1)), sm_status := Some Pending\<rparr>,
      \<lambda>i. (blank_socialMediaPost pid now i)\<lparr>sm_platform := ''Instagram'',
         sm_content := ''Behind the scenes at campaign HQ - our team working tirelessly for Kano's future. #TeamWork #KanoFirst'',
         sm_scheduledAt := Some (daysFromNow now (3)), sm_status := Some Pending\<rparr>,
      \<lambda>i. (blank_socialMediaPost pid now i)\<lparr>sm_platform := ''Twitter'',
         sm_content := ''Thank you Nassarawa LGA for the incredible turnout at yesterday's rally! Your energy fuels our campaign. #Nassarawa'',
         sm_scheduledAt := Some (daysFromNow now (-7)), sm_status := Some Completed\<rparr>]"

definition blank_complianceItem :: "int \<Rightarrow> time \<Rightarrow> int \<Rightarrow> complianceItem" where
  "blank_complianceItem pid now i =
     \<lparr>row_id = i, profileId = Some pid, ci_title = [], ci_category = None, ci_description = None,
      ci_status = Some CompliancePending, ci_deadline = None, ci_notes = None, ci_updatedAt = now\<rparr>"

definition seed_complianceItems :: "int \<Rightarrow> time \<Rightarrow> (int \<Rightarrow> complianceItem) list" where
  "seed_complianceItems pid now =
     [\<lambda>i. (blank_complianceItem pid now i)\<lparr>ci_title := ''Campaign Finance Report - Q3'',
         ci_description := Some ''Submit quarterly campaign finance report to INEC as required by Electoral Act 2022 Section 87'',
         ci_category := Some ''Finance'', ci_status := Some Compliant,
         ci_deadline := Some (date_of (daysFromNow now (-10)))\<rparr>,
      \<lambda>i. (blank_complianceItem pid now i)\<lparr>ci_title := ''Candidate Affidavit Submission'',
         ci_description := Some ''Submit sworn affidavit of personal particulars to INEC'',
         ci_category := Some ''Legal'', ci_status := Some Compliant,
         ci_deadline := Some (date_of (daysFromNow now (-45)))\<rparr>,
      \<lambda>i. (blank_complianceItem pid now i)\<lparr>ci_title := ''Campaign Finance Report - Q4 (Final)'',
         ci_description := Some ''Submit final campaign finance report within 6 months of election'',
         ci_category := Some ''Finance'', ci_status := Some CompliancePending,
         ci_deadline := Some (date_of (daysFromNow now (180)))\<rparr>,
      \<lambda>i. (blank_complianceItem pid now i)\<lparr>ci_title := ''INEC Polling Agent Accreditation'',
         ci_description := Some ''Submit list of polling agents to INEC at least 7 days before election'',
         ci_category := Some ''Electoral'', ci_status := Some ComplianceWarning,
         ci_deadline := Some (date_of (daysFromNow now (7)))\<rparr>,
      \<lambda>i. (blank_complianceItem pid now i)\<lparr>ci_title := ''Campaign Spending Cap Compliance'',
         ci_description := Some ''Ensure total campaign spending does not exceed NGN 1B as per INEC guidelines'',
         ci_category := Some ''Finance'', ci_status := Some ComplianceWarning,
         ci_deadline := Some (date_of (daysFromNow now (14)))\<rparr>,
      \<lambda>i. (blank_complianceItem pid now i)\<lparr>ci_title := ''Party Nomination Form CF001'',
         ci_description := Some ''File nomination form with party secretariat'', ci_category := Some ''Party'',
         ci_status := Some Compliant, ci_deadline := Some (date_of (daysFromNow now (-60)))\<rparr>]"

definition blank_oppositionEntry :: "int \<Rightarrow> time \<Rightarrow> int \<Rightarrow> oppositionEntry" where
  "blank_oppositionEntry pid now i =
     \<lparr>row_id = i, profileId = Some pid, op_opponentName = [], op_party = None, op_strength = None,
      op_weakness = None, op_keyIssues = None, op_threatLevel = Some Medium, op_notes = None, op_updatedAt = now\<rparr>"

definition seed_oppositionResearch :: "int \<Rightarrow> time \<Rightarrow> (int \<Rightarrow> oppositionEntry) list" where
  "seed_oppositionResearch pid now =
     [\<lambda>i. (blank_oppositionEntry pid now i)\<lparr>op_opponentName := ''Alhaji Kabiru Rufa'i'', op_party := Some ''APC'',
         op_strength := Some ''Incumbent advantage, APC federal backing, strong North-West network'',
         op_weakness := Some ''Failed to address banditry, poor education record, corruption allegations'',
         op_keyIssues := Some [''Security'', ''Education'', ''Corruption''], op_threatLevel := Some High,
         op_notes := Some ''Primary opponent. Focus on security failures and UBEC fund mismanagement.''\<rparr>,
      \<lambda>i. (blank_oppositionEntry pid now i)\<lparr>op_opponentName := ''Dr. Amina Bello'', op_party := Some ''LP'',
         op_strength := Some ''Youth appeal, social media presence, anti-establishment narrative'',
         op_weakness := Some ''No governance experience, LP never governed a state, limited funding'',
         op_keyIssues := Some [''Youth unemployment'', ''Economic reform''], op_threatLevel := Some Medium,
         op_notes := Some ''Labour Party candidate. Targets same youth demographic. Monitor closely.''\<rparr>,
      \<lambda>i. (blank_oppositionEntry pid now i)\<lparr>op_opponentName := ''Alhaji Musa Kwankwaso'', op_party := Some ''NNPP'',
         op_strength := Some ''Strong Kwankwasiyya movement, grassroots network, former governor'',
         op_weakness := Some ''Defection history raises loyalty concerns, limited diaspora support'',
         op_keyIssues := Some [''Infrastructure'', ''Education''], op_threatLevel := Some High,
         op_notes := Some ''NNPP candidate with deep Kano roots. Most dangerous opponent in rural LGAs.''\<rparr>]"

definition blank_warRoomIncident :: "int \<Rightarrow> time \<Rightarrow> int \<Rightarrow> warRoomIncident" where
  "blank_warRoomIncident pid now i =
     \<lparr>row_id = i, profileId = Some pid, wi_reportedBy = None, wi_lga = None, wi_ward = None, wi_puName = None,
      wi_incidentType = None, wi_description = [], wi_severity = Some SevMedium, wi_status = Some IncidentOpen,
      wi_latitude = None, wi_longitude = None, wi_evidenceUrl = None, wi_occurredAt = None, wi_assignedTo = None,
      wi_escalatedTo = None, wi_escalatedAt = None, wi_escalationNote = None, wi_oppositionEntryId = None,
      wi_reportedAt = now, wi_resolvedAt = None\<rparr>"

definition seed_warRoomIncidents :: "int \<Rightarrow> time \<Rightarrow> (int \<Rightarrow> warRoomIncident) list" where
  "seed_warRoomIncidents pid now =
     [\<lambda>i. (blank_warRoomIncident pid now i)\<lparr>wi_reportedBy := Some ''Agent Musa Dala'', wi_lga := Some ''Dala'', wi_ward := Some ''Dala Central'',
         wi_incidentType := Some ''Ballot Stuffing Attempt'',
         wi_description := ''Suspected ballot stuffing at Dala Primary School PU. 3 individuals apprehended by security.'',
         wi_severity := Some SevHigh, wi_status := Some Resolved, wi_reportedAt := daysFromNow now (-7)\<rparr>,
      \<lambda>i. (blank_warRoomIncident pid now i)\<lparr>wi_reportedBy := Some ''Agent Fatima Gwale'', wi_lga := Some ''Gwale'', wi_ward := Some ''Gwale North'',
         wi_incidentType := Some ''Voter Intimidation'',
         wi_description := ''Armed individuals seen near polling unit intimidating voters. Police notified.'',
         wi_severity := Some SevCritical, wi_status := Some Escalated, wi_reportedAt := daysFromNow now (-3)\<rparr>,
      \<lambda>i. (blank_warRoomIncident pid now i)\<lparr>wi_reportedBy := Some ''Agent Umar Nassarawa'', wi_lga := Some ''Nassarawa'',
         wi_ward := Some ''Nassarawa East'', wi_incidentType := Some ''BVAS Malfunction'',
         wi_description := ''BVAS device at Nassarawa Secondary School PU not functioning. INEC technician requested.'',
         wi_severity := Some SevMedium, wi_status := Some IncidentOpen, wi_reportedAt := daysFromNow now (-1)\<rparr>,
      \<lambda>i. (blank_warRoomIncident pid now i)\<lparr>wi_reportedBy := Some ''HQ Observer'', wi_lga := Some ''Kumbotso'', wi_ward := Some ''Kumbotso Central'',
         wi_incidentType := Some ''Late Materials Arrival'',
         wi_description := ''Ballot papers arrived 2 hours late at Kumbotso Primary School. Voting delayed.'',
         wi_severity := Some SevMedium, wi_status := Some Resolved, wi_reportedAt := daysFromNow now (-14)\<rparr>]"

definition blank_manifestoSection :: "int \<Rightarrow> time \<Rightarrow> int \<Rightarrow> manifestoSection" where
  "blank_manifestoSection pid now i =
     \<lparr>row_id = i, profileId = Some pid, ms_sectionTitle = [], ms_summary = None, ms_commitments = None,
      ms_timeline = None, ms_budget = None, ms_priority = Some High, ms_sortOrder = Some 0, ms_updatedAt = now\<rparr>"

definition seed_manifestoSections :: "int \<Rightarrow> time \<Rightarrow> (int \<Rightarrow> manifestoSection) list" where
  "seed_manifestoSections pid now =
     [\<lambda>i. (blank_manifestoSection pid now i)\<lparr>ms_sectionTitle := ''Economic Development & Job Creation'',
         ms_summary := Some ''Create 500,000 jobs through agro-processing, technology hubs, and SME support'',
         ms_commitments := Some [''Establish 5 industrial parks'', ''NGN 50B SME fund'', ''Tech hub in Kano City''],
         ms_timeline := Some ''Year 1-2'', ms_budget := Some ''NGN 120B'', ms_priority := Some Critical,
         ms_sortOrder := Some 1\<rparr>,
      \<lambda>i. (blank_manifestoSection pid now i)\<lparr>ms_sectionTitle := ''Education Reform'',
         ms_summary := Some ''Rebuild 2,000 schools and provide free education from primary to JSS3'',
         ms_commitments := Some [''Free education JSS1-3'', ''2,000 school renovations'', ''10,000 teacher recruitment''],
         ms_timeline := Some ''Year 1-4'', ms_budget := Some ''NGN 80B'', ms_priority := Some Critical,
         ms_sortOrder := Some 2\<rparr>,
      \<lambda>i. (blank_manifestoSection pid now i)\<lparr>ms_sectionTitle := ''Healthcare Transformation'',
         ms_summary := Some ''Build 100 primary health centres and upgrade 5 general hospitals'',
         ms_commitments := Some [''100 new PHCs'', ''Free maternal care'', ''Medical equipment upgrade''],
         ms_timeline := Some ''Year 1-3'', ms_budget := Some ''NGN 60B'', ms_priority := Some High,
         ms_sortOrder := Some 3\<rparr>,
      \<lambda>i. (blank_manifestoSection pid now i)\<lparr>ms_sectionTitle := ''Security & Rule of Law'',
         ms_summary := Some ''Strengthen security architecture and community policing'',
         ms_commitments := Some [''1,000 community police recruits'', ''CCTV in major cities'', ''Security trust fund''],
         ms_timeline := Some ''Year 1'', ms_budget := Some ''NGN 40B'', ms_priority := Some Critical,
         ms_sortOrder := Some 4\<rparr>,
      \<lambda>i. (blank_manifestoSection pid now i)\<lparr>ms_sectionTitle := ''Agriculture & Food Security'',
         ms_summary := Some ''Modernise Kano's agricultural sector and reduce food prices'',
         ms_commitments := Some [''Irrigation expansion'', ''Fertiliser subsidy'', ''Commodity exchange''],
         ms_timeline := Some ''Year 1-2'', ms_budget := Some ''NGN 50B'', ms_priority := Some High,
         ms_sortOrder := Some 5\<rparr>]"

definition blank_diasporaContact :: "int \<Rightarrow> time \<Rightarrow> int \<Rightarrow> diasporaContact" where
  "blank_diasporaContact pid now i =
     \<lparr>row_id = i, profileId = Some pid, dc_name = [], dc_country = None, dc_city = None, dc_email = None,
      dc_phone = None, dc_organization = None, dc_status = Some Active, dc_pledgedAmount = Some 0, dc_notes = None,
      dc_createdAt = now\<rparr>"

definition seed_diasporaContacts :: "int \<Rightarrow> time \<Rightarrow> (int \<Rightarrow> diasporaContact) list" where
  "seed_diasporaContacts pid now =
     [\<lambda>i. (blank_diasporaContact pid now i)\<lparr>dc_name := ''Dr. Usman Kano'', dc_country := Some ''United Kingdom'', dc_city := Some ''London'',
         dc_phone := Some ''+447911123456'', dc_email := Some ''usman.kano@gmail.com'',
         dc_organization := Some ''Kano UK Association'', dc_status := Some Active\<rparr>,
      \<lambda>i. (blank_diasporaContact pid now i)\<lparr>dc_name := ''Hajiya Maryam Sule'', dc_country := Some ''United States'', dc_city := Some ''Houston'',
         dc_phone := Some ''+17135551234'', dc_email := Some ''maryam.sule@yahoo.com'',
         dc_organization := Some ''Kano-Texas Community'', dc_status := Some Active\<rparr>,
      \<lambda>i. (blank_diasporaContact pid now i)\<lparr>dc_name := ''Alhaji Bello Dantata'', dc_country := Some ''Saudi Arabia'', dc_city := Some ''Jeddah'',
         dc_phone := Some ''+966501234567'', dc_organization := Some ''Nigerian Muslim Community Jeddah'',
         dc_status := Some Active\<rparr>,
      \<lambda>i. (blank_diasporaContact pid now i)\<lparr>dc_name := ''Prof. Amina Garba'', dc_country := Some ''Canada'', dc_city := Some ''Toronto'',
         dc_phone := Some ''+14165551234'', dc_email := Some ''amina.garba@utoronto.ca'',
         dc_organization := Some ''Kano Professionals Canada'', dc_status := Some Active\<rparr>]"

definition blank_endorsement :: "int \<Rightarrow> time \<Rightarrow> int \<Rightarrow> endorsement" where
  "blank_endorsement pid now i =
     \<lparr>row_id = i, profileId = Some pid, en_endorserName = [], en_title = None, en_organization = None,
      en_category = None, en_statement = None, en_isPublic = Some True, en_endorsedAt = now\<rparr>"

definition seed_endorsements :: "int \<Rightarrow> time \<Rightarrow> (int \<Rightarrow> endorsement) list" where
  "seed_endorsements pid now =
     [\<lambda>i. (blank_endorsement pid now i)\<lparr>en_endorserName := ''Alhaji Aminu Dantata'', en_title := Some ''Business Mogul'',
         en_organization := Some ''Dantata Group'', en_category := Some ''Business'',
         en_statement := Some ''I endorse this candidate because of his commitment to economic development and job creation for Kano youth.'',
         en_endorsedAt := daysFromNow now (-30)\<rparr>,
      \<lambda>i. (blank_endorsement pid now i)\<lparr>en_endorserName := ''Dr. Fatima Aliyu'', en_title := Some ''NMA Kano Chairman'',
         en_organization := Some ''Nigerian Medical Association'', en_category := Some ''Professional'',
         en_statement := Some ''As a healthcare professional, I support this candidate's plan to build 100 PHCs and provide free maternal care.'',
         en_endorsedAt := daysFromNow now (-20)\<rparr>,
      \<lambda>i. (blank_endorsement pid now i)\<lparr>en_endorserName := ''Comrade Usman Bello'', en_title := Some ''NLC Kano Chairman'',
         en_organization := Some ''NLC Kano'', en_category := Some ''Labour'',
         en_statement := Some ''The NLC Kano endorses this candidate for his pro-worker policies and commitment to minimum wage enforcement.'',
         en_endorsedAt := daysFromNow now (-15)\<rparr>,
      \<lambda>i. (blank_endorsement pid now i)\<lparr>en_endorserName := ''Hajiya Zainab Umar'', en_title := Some ''KMWA President'',
         en_organization := Some ''Kano Market Women Association'', en_category := Some ''Civil Society'',
         en_statement := Some ''Market women across Kano support this candidate because he understands our economic challenges.'',
         en_endorsedAt := daysFromNow now (-10)\<rparr>]"

definition blank_fundraisingTransaction :: "int \<Rightarrow> time \<Rightarrow> int \<Rightarrow> fundraisingTransaction" where
  "blank_fundraisingTransaction pid now i =
     \<lparr>row_id = i, profileId = Some pid, ft_donorName = None, ft_amount = 0, ft_currency = Some ''NGN'',
      ft_source = None, ft_category = None, ft_notes = None, ft_transactedAt = now, ft_isVerified = Some False,
      ft_donorType = Some ''individual_local'', ft_sourceAttested = Some False\<rparr>"

definition seed_fundraisingTransactions :: "int \<Rightarrow> time \<Rightarrow> (int \<Rightarrow> fundraisingTransaction) list" where
  "seed_fundraisingTransactions pid now =
     [\<lambda>i. (blank_fundraisingTransaction pid now i)\<lparr>ft_donorName := Some ''Alhaji Aminu Dantata'', ft_amount := 50000000, ft_currency := Some ''NGN'',
         ft_category := Some ''Individual'', ft_source := Some ''Bank Transfer'',
         ft_transactedAt := daysFromNow now (-60), ft_isVerified := Some True\<rparr>,
      \<lambda>i. (blank_fundraisingTransaction pid now i)\<lparr>ft_donorName := Some ''Kano Business Forum'', ft_amount := 25000000, ft_currency := Some ''NGN'',
         ft_category := Some ''Corporate'', ft_source := Some ''Bank Transfer'',
         ft_transactedAt := daysFromNow now (-45), ft_isVerified := Some True\<rparr>,
      \<lambda>i. (blank_fundraisingTransaction pid now i)\<lparr>ft_donorName := Some ''UK Kano Association'', ft_amount := 15000000, ft_currency := Some ''NGN'',
         ft_category := Some ''Diaspora'', ft_source := Some ''Wire Transfer'',
         ft_transactedAt := daysFromNow now (-30), ft_isVerified := Some True\<rparr>,
      \<lambda>i. (blank_fundraisingTransaction pid now i)\<lparr>ft_donorName := Some ''Hajiya Zainab Umar'', ft_amount := 5000000, ft_currency := Some ''NGN'',
         ft_category := Some ''Individual'', ft_source := Some ''Cash'', ft_transactedAt := daysFromNow now (-20),
         ft_isVerified := Some True\<rparr>,
      \<lambda>i. (blank_fundraisingTransaction pid now i)\<lparr>ft_donorName := Some ''Kano Traders Union'', ft_amount := 10000000, ft_currency := Some ''NGN'',
         ft_category := Some ''Corporate'', ft_source := Some ''Bank Transfer'',
         ft_transactedAt := daysFromNow now (-15), ft_isVerified := Some True\<rparr>,
      \<lambda>i. (blank_fundraisingTransaction pid now i)\<lparr>ft_donorName := Some ''Anonymous Supporter'', ft_amount := 2000000, ft_currency := Some ''NGN'',
         ft_category := Some ''Individual'', ft_source := Some ''Cash'', ft_transactedAt := daysFromNow now (-7),
         ft_isVerified := Some False\<rparr>]"

definition blank_budgetItem :: "int \<Rightarrow> time \<Rightarrow> int \<Rightarrow> budgetItem" where
  "blank_budgetItem pid now i =
     \<lparr>row_id = i, profileId = Some pid, bi_category = [], bi_description = [], bi_budgetedAmount = 0,
      bi_spentAmount = Some 0, bi_priority = Some Medium, bi_notes = None, bi_createdAt = now\<rparr>"

definition seed_budgetItems :: "int \<Rightarrow> time \<Rightarrow> (int \<Rightarrow> budgetItem) list" where
  "seed_budgetItems pid now =
     [\<lambda>i. (blank_budgetItem pid now i)\<lparr>bi_category := ''Rallies & Events'',
         bi_description := ''Venue hire, sound systems, logistics for 20 major rallies'',
         bi_budgetedAmount := 80000000, bi_spentAmount := Some 72000000\<rparr>,
      \<lambda>i. (blank_budgetItem pid now i)\<lparr>bi_category := ''Media & Advertising'', bi_description := ''TV, radio, newspaper, and digital advertising'',
         bi_budgetedAmount := 50000000, bi_spentAmount := Some 45000000\<rparr>,
      \<lambda>i. (blank_budgetItem pid now i)\<lparr>bi_category := ''Volunteer & Staff'',
         bi_description := ''Salaries, allowances, and training for 500 volunteers'', bi_budgetedAmount := 30000000,
         bi_spentAmount := Some 28000000\<rparr>,
      \<lambda>i. (blank_budgetItem pid now i)\<lparr>bi_category := ''Printing & Materials'', bi_description := ''Posters, flyers, branded materials, T-shirts'',
         bi_budgetedAmount := 20000000, bi_spentAmount := Some 18500000\<rparr>,
      \<lambda>i. (blank_budgetItem pid now i)\<lparr>bi_category := ''Transportation'', bi_description := ''Vehicles, fuel, and logistics for campaign team'',
         bi_budgetedAmount := 25000000, bi_spentAmount := Some 22000000\<rparr>,
      \<lambda>i. (blank_budgetItem pid now i)\<lparr>bi_category := ''Legal & Compliance'', bi_description := ''Legal fees, INEC filings, compliance costs'',
         bi_budgetedAmount := 10000000, bi_spentAmount := Some 8000000\<rparr>,
      \<lambda>i. (blank_budgetItem pid now i)\<lparr>bi_category := ''Technology'',
         bi_description := ''Campaign management software, website, social media tools'',
         bi_budgetedAmount := 5000000, bi_spentAmount := Some 4200000\<rparr>]"

definition blank_mediaItem :: "int \<Rightarrow> time \<Rightarrow> int \<Rightarrow> mediaItem" where
  "blank_mediaItem pid now i =
     \<lparr>row_id = i, profileId = Some pid, mi_source = [], mi_headline = [], mi_sentiment = None,
      mi_sourceType = Some ''online'', mi_reach = Some 0, mi_zone = None, mi_url = None, mi_publishedAt = None,
      mi_notes = None, mi_complianceStatus = Some ''unreviewed'', mi_complianceNotes = None, mi_createdAt = now\<rparr>"

definition seed_mediaItems :: "int \<Rightarrow> time \<Rightarrow> (int \<Rightarrow> mediaItem) list" where
  "seed_mediaItems pid now =
     [\<lambda>i. (blank_mediaItem pid now i)\<lparr>mi_headline := ''Candidate Promises 500,000 Jobs in Kano'', mi_source := ''Daily Trust'',
         mi_sourceType := Some ''print'', mi_sentiment := Some ''positive'', mi_reach := Some 250000,
         mi_zone := Some ''North-West'', mi_publishedAt := Some (daysFromNow now (-30))\<rparr>,
      \<lambda>i. (blank_mediaItem pid now i)\<lparr>mi_headline := ''Kano Governorship Race Heats Up'', mi_source := ''Channels TV'',
         mi_sourceType := Some ''broadcast'', mi_sentiment := Some ''neutral'', mi_reach := Some 2000000,
         mi_zone := Some ''National'', mi_publishedAt := Some (daysFromNow now (-20))\<rparr>,
      \<lambda>i. (blank_mediaItem pid now i)\<lparr>mi_headline := ''Opposition Questions Campaign Finance'', mi_source := ''Punch'',
         mi_sourceType := Some ''print'', mi_sentiment := Some ''negative'', mi_reach := Some 500000,
         mi_zone := Some ''National'', mi_publishedAt := Some (daysFromNow now (-15))\<rparr>,
      \<lambda>i. (blank_mediaItem pid now i)\<lparr>mi_headline := ''Candidate Receives NMA Endorsement'', mi_source := ''Vanguard'',
         mi_sourceType := Some ''online'', mi_sentiment := Some ''positive'', mi_reach := Some 800000,
         mi_zone := Some ''National'', mi_publishedAt := Some (daysFromNow now (-10))\<rparr>,
      \<lambda>i. (blank_mediaItem pid now i)\<lparr>mi_headline := ''Final Rally Draws Record Crowd'', mi_source := ''Arewa FM'',
         mi_sourceType := Some ''broadcast'', mi_sentiment := Some ''positive'', mi_reach := Some 1500000,
         mi_zone := Some ''North-West'', mi_publishedAt := Some (daysFromNow now (-2))\<rparr>]"

definition blank_debatePracticeScore :: "int \<Rightarrow> time \<Rightarrow> int \<Rightarrow> debatePracticeScore" where
  "blank_debatePracticeScore pid now i =
     \<lparr>row_id = i, profileId = Some pid, ds_topic = [], ds_score = 0, ds_maxScore = Some 10, ds_notes = None,
      ds_scoredAt = now\<rparr>"

definition seed_debatePracticeScores :: "int \<Rightarrow> time \<Rightarrow> (int \<Rightarrow> debatePracticeScore) list" where
  "seed_debatePracticeScores pid now =
     [\<lambda>i. (blank_debatePracticeScore pid now i)\<lparr>ds_topic := ''Security & Banditry'', ds_score := 7, ds_maxScore := Some 10,
         ds_notes := Some ''Good on community policing, needs stronger data'', ds_scoredAt := daysFromNow now (-45)\<rparr>,
      \<lambda>i. (blank_debatePracticeScore pid now i)\<lparr>ds_topic := ''Education'', ds_score := 9, ds_maxScore := Some 10,
         ds_notes := Some ''Excellent delivery, compelling statistics'', ds_scoredAt := daysFromNow now (-40)\<rparr>,
      \<lambda>i. (blank_debatePracticeScore pid now i)\<lparr>ds_topic := ''Economy & Jobs'', ds_score := 6, ds_maxScore := Some 10,
         ds_notes := Some ''Needs more specific job creation metrics'', ds_scoredAt := daysFromNow now (-35)\<rparr>,
      \<lambda>i. (blank_debatePracticeScore pid now i)\<lparr>ds_topic := ''Healthcare'', ds_score := 8, ds_maxScore := Some 10,
         ds_notes := Some ''Strong on PHC numbers, improve on specialist care'', ds_scoredAt := daysFromNow now (-30)\<rparr>,
      \<lambda>i. (blank_debatePracticeScore pid now i)\<lparr>ds_topic := ''Security & Banditry'', ds_score := 8, ds_maxScore := Some 10,
         ds_notes := Some ''Improved significantly after coaching'', ds_scoredAt := daysFromNow now (-20)\<rparr>,
      \<lambda>i. (blank_debatePracticeScore pid now i)\<lparr>ds_topic := ''Economy & Jobs'', ds_score := 8, ds_maxScore := Some 10,
         ds_notes := Some ''Much better with tech hub specifics'', ds_scoredAt := daysFromNow now (-15)\<rparr>,
      \<lambda>i. (blank_debatePracticeScore pid now i)\<lparr>ds_topic := ''Education'', ds_score := 9, ds_maxScore := Some 10,
         ds_notes := Some ''Consistent high performance'', ds_scoredAt := daysFromNow now (-10)\<rparr>,
      \<lambda>i. (blank_debatePracticeScore pid now i)\<lparr>ds_topic := ''Healthcare'', ds_score := 9, ds_maxScore := Some 10,
         ds_notes := Some ''Best performance yet'', ds_scoredAt := daysFromNow now (-5)\<rparr>]"

definition blank_stakeholderContact :: "int \<Rightarrow> time \<Rightarrow> int \<Rightarrow> stakeholderContact" where
  "blank_stakeholderContact pid now i =
     \<lparr>row_id = i, profileId = Some pid, sc_name = [], sc_title = None, sc_organization = None, sc_category = None,
      sc_phone = None, sc_email = None, sc_state = None, sc_lga = None, sc_influenceLevel = Some Medium,
      sc_relationship = Some ''neutral'', sc_lastContact = None, sc_nextAction = None, sc_notes = None,
      sc_createdAt = now\<rparr>"

definition seed_stakeholderContacts :: "int \<Rightarrow> time \<Rightarrow> (int \<Rightarrow> stakeholderContact) list" where
  "seed_stakeholderContacts pid now =
     [\<lambda>i. (blank_stakeholderContact pid now i)\<lparr>sc_name := ''Alhaji Aminu Dantata'', sc_title := Some ''Business Mogul'',
         sc_organization := Some ''Dantata Group'', sc_category := Some ''Business'',
         sc_phone := Some ''08031234567'', sc_state := Some ''Kano'', sc_lga := Some ''Municipal'',
         sc_influenceLevel := Some Critical, sc_relationship := Some ''supporter'',
         sc_nextAction := Some ''Confirm attendance at final rally''\<rparr>,
      \<lambda>i. (blank_stakeholderContact pid now i)\<lparr>sc_name := ''Emir of Kano'', sc_title := Some ''His Royal Highness'',
         sc_organization := Some ''Kano Emirate'', sc_category := Some ''Traditional'', sc_state := Some ''Kano'',
         sc_influenceLevel := Some Critical, sc_relationship := Some ''neutral'',
         sc_nextAction := Some ''Request audience before election day''\<rparr>,
      \<lambda>i. (blank_stakeholderContact pid now i)\<lparr>sc_name := ''Dr. Fatima Aliyu'', sc_title := Some ''Chairman, NMA Kano'',
         sc_organization := Some ''Nigerian Medical Association'', sc_category := Some ''Professional'',
         sc_phone := Some ''08052345678'', sc_email := Some ''fatima.a@nma.org'', sc_state := Some ''Kano'',
         sc_influenceLevel := Some High, sc_relationship := Some ''supporter''\<rparr>,
      \<lambda>i. (blank_stakeholderContact pid now i)\<lparr>sc_name := ''Comrade Usman Bello'', sc_title := Some ''NLC Kano Chairman'',
         sc_organization := Some ''NLC Kano'', sc_category := Some ''Labour'', sc_phone := Some ''08073456789'',
         sc_state := Some ''Kano'', sc_influenceLevel := Some High, sc_relationship := Some ''supporter''\<rparr>,
      \<lambda>i. (blank_stakeholderContact pid now i)\<lparr>sc_name := ''Hajiya Zainab Umar'', sc_title := Some ''President, KMWA'',
         sc_organization := Some ''Kano Market Women Association'', sc_category := Some ''Civil Society'',
         sc_phone := Some ''08094567890'', sc_state := Some ''Kano'', sc_influenceLevel := Some High,
         sc_relationship := Some ''supporter''\<rparr>,
      \<lambda>i. (blank_stakeholderContact pid now i)\<lparr>sc_name := ''Bishop Emmanuel Okafor'', sc_title := Some ''Bishop'',
         sc_organization := Some ''Catholic Diocese of Kano'', sc_category := Some ''Religious'',
         sc_phone := Some ''08015678901'', sc_state := Some ''Kano'', sc_influenceLevel := Some Medium,
         sc_relationship := Some ''neutral'', sc_nextAction := Some ''Invite to interfaith dialogue''\<rparr>,
      \<lambda>i. (blank_stakeholderContact pid now i)\<lparr>sc_name := ''Prof. Abdullahi Usman'', sc_title := Some ''Vice Chancellor'',
         sc_organization := Some ''Bayero University Kano'', sc_category := Some ''Academia'',
         sc_phone := Some ''08036789012'', sc_email := Some ''vc@buk.edu.ng'', sc_state := Some ''Kano'',
         sc_influenceLevel := Some Medium, sc_relationship := Some ''neutral''\<rparr>]"

definition blank_fieldAgent :: "int \<Rightarrow> time \<Rightarrow> int \<Rightarrow> fieldAgent" where
  "blank_fieldAgent pid now i =
     \<lparr>row_id = i, profileId = Some pid, fa_name = [], fa_phone = None, fa_assignedPu = None, fa_lga = None,
      fa_agentStatus = Some AgentOffline, fa_votersCounted = Some 0, fa_lastCheckin = None, fa_createdAt = now\<rparr>"

definition seed_fieldAgents :: "int \<Rightarrow> time \<Rightarrow> (int \<Rightarrow> fieldAgent) list" where
  "seed_fieldAgents pid now =
     [\<lambda>i. (blank_fieldAgent pid now i)\<lparr>fa_name := ''Musa Dala'', fa_phone := Some ''08031111111'', fa_assignedPu := Some ''DALA PRIMARY SCHOOL'',
         fa_lga := Some ''Dala'', fa_agentStatus := Some AgentActive, fa_votersCounted := Some 342\<rparr>,
      \<lambda>i. (blank_fieldAgent pid now i)\<lparr>fa_name := ''Fatima Gwale'', fa_phone := Some ''08052222222'',
         fa_assignedPu := Some ''GWALE MODEL PRIMARY'', fa_lga := Some ''Gwale'', fa_agentStatus := Some AgentActive,
         fa_votersCounted := Some 289\<rparr>,
      \<lambda>i. (blank_fieldAgent pid now i)\<lparr>fa_name := ''Umar Nassarawa'', fa_phone := Some ''08073333333'',
         fa_assignedPu := Some ''NASSARAWA SEC SCHOOL'', fa_lga := Some ''Nassarawa'',
         fa_agentStatus := Some AgentSos, fa_votersCounted := Some 156\<rparr>,
      \<lambda>i. (blank_fieldAgent pid now i)\<lparr>fa_name := ''Aisha Kumbotso'', fa_phone := Some ''08094444444'', fa_assignedPu := Some ''KUMBOTSO PRIMARY'',
         fa_lga := Some ''Kumbotso'', fa_agentStatus := Some AgentActive, fa_votersCounted := Some 412\<rparr>]"

definition blank_debatePrepNote :: "int \<Rightarrow> time \<Rightarrow> int \<Rightarrow> debatePrepNote" where
  "blank_debatePrepNote pid now i =
     \<lparr>row_id = i, profileId = Some pid, dn_topic = [], dn_keyMessage = None, dn_counterArguments = None,
      dn_statistics = None, dn_practiceScore = None, dn_notes = None, dn_updatedAt = now\<rparr>"

definition seed_debatePrepNotes :: "int \<Rightarrow> time \<Rightarrow> (int \<Rightarrow> debatePrepNote) list" where
  "seed_debatePrepNotes pid now =
     [\<lambda>i. (blank_debatePrepNote pid now i)\<lparr>dn_topic := ''Economy & Jobs'',
         dn_keyMessage := Some ''500,000 jobs through agro-processing and tech hubs'',
         dn_counterArguments := Some [''Job creation is federal responsibility'', ''Private sector drives employment''],
         dn_statistics := Some [''Kano unemployment rate is 34%'', ''Agro-processing can create 200,000 jobs''],
         dn_practiceScore := Some 7\<rparr>,
      \<lambda>i. (blank_debatePrepNote pid now i)\<lparr>dn_topic := ''Education'',
         dn_keyMessage := Some ''Free education from primary to JSS3 for all Kano children'',
         dn_counterArguments := Some [''Education funding is federal'', ''Quality over quantity''],
         dn_statistics := Some [''1.2M out-of-school children in Kano'', ''2,000 schools need renovation''],
         dn_practiceScore := Some 9\<rparr>,
      \<lambda>i. (blank_debatePrepNote pid now i)\<lparr>dn_topic := ''Security & Banditry'',
         dn_keyMessage := Some ''Community policing and intelligence sharing to defeat banditry'',
         dn_counterArguments := Some [''Security is federal responsibility'', ''Army handles banditry''],
         dn_statistics := Some [''Banditry incidents up 40% under APC'', ''200 kidnappings in 2023''],
         dn_practiceScore := Some 8\<rparr>]"


definition result_row :: "int \<Rightarrow> time \<Rightarrow> string \<Rightarrow> string \<Rightarrow> string \<Rightarrow> int \<Rightarrow> int \<Rightarrow> electionResult" where
  "result_row pid now lga candidate party votes i =
     \<lparr>row_id = i, profileId = Some pid, er_lga = lga, er_ward = None, er_candidateName = candidate, er_party = Some party,
      er_votes = Some votes, er_reportedAt = now, er_isProjected = Some True\<rparr>"

definition seed_lgas :: "string list" where
  "seed_lgas = [''Dala'', ''Gwale'', ''Nassarawa'', ''Kumbotso'', ''Tarauni'', ''Fagge'', ''Municipal'', ''Ungogo'', ''Kura'', ''Bebeji'']"

text \<open>Four random numbers per local government, \<open>rnd (4 * k)\<close> to \<open>rnd (4 * k + 3)\<close> for the \<open>k\<close>-th.\<close>

definition seed_electionResults :: "(nat \<Rightarrow> rat) \<Rightarrow> int \<Rightarrow> time \<Rightarrow> (int \<Rightarrow> electionResult) list" where
  "seed_electionResults rnd pid now =
     concat (map (\<lambda>(k, lga).
       let base = \<lfloor>rnd (4 * k) * 5000\<rfloor> + 8000
       in [result_row pid now lga ''Our Candidate'' ''PDP'' (base + \<lfloor>rnd (4 * k + 1) * 3000\<rfloor>),
           result_row pid now lga ''Alhaji Kabiru Rufa'i'' ''APC'' (base - \<lfloor>rnd (4 * k + 2) * 2000\<rfloor>),
           result_row pid now lga ''Dr. Amina Bello'' ''LP'' (\<lfloor>rnd (4 * k + 3) * 2000\<rfloor> + 500)])
       (enumerate 0 seed_lgas))"

definition seed_petition :: "int \<Rightarrow> time \<Rightarrow> int \<Rightarrow> petition" where
  "seed_petition pid now i =
     \<lparr>row_id = i, profileId = Some pid, pt_title = ''Support Free Education in Kano State'',
      pt_description = Some ''We call on the next governor of Kano State to implement free education from primary to JSS3 level for all Kano children.'',
      pt_targetSignatures = Some 50000, pt_status = Some PetitionActive, pt_createdAt = now\<rparr>"

definition seed_signature :: "int \<Rightarrow> time \<Rightarrow> string \<Rightarrow> string \<Rightarrow> int \<Rightarrow> petitionSignature" where
  "seed_signature petitionId now name lga i =
     \<lparr>row_id = i, ps_petitionId = Some petitionId, ps_signerName = name, ps_phone = None, ps_lga = Some lga,
      ps_signerHash = None, ps_verificationStatus = ''unverified'', ps_verifiedAt = None, ps_verifiedBy = None,
      ps_signedAt = now\<rparr>"

definition seed_petitionSignatures :: "int \<Rightarrow> time \<Rightarrow> (int \<Rightarrow> petitionSignature) list" where
  "seed_petitionSignatures petitionId now =
     [seed_signature petitionId now ''Aminu Suleiman'' ''Dala'', seed_signature petitionId now ''Fatima Ibrahim'' ''Gwale'',
      seed_signature petitionId now ''Musa Wada'' ''Nassarawa'']"

record demoPU =
  dm_puCode :: string
  dm_name :: string
  dm_ward :: string
  dm_lat :: rat
  dm_lng :: rat
  dm_registeredVoters :: int
  dm_agent :: "(string \<times> string) option"

definition demoPUs :: "demoPU list" where
  "demoPUs =
     [\<lparr>dm_puCode = ''KN/01/01/001'', dm_name = ''DALA PRIMARY SCHOOL'', dm_ward = ''Dala Central'', dm_lat = 120022 / 10000,
       dm_lng = 85919 / 10000, dm_registeredVoters = 842, dm_agent = Some (''Musa Dala'', ''08031111111'')\<rparr>,
      \<lparr>dm_puCode = ''KN/02/01/001'', dm_name = ''GWALE MODEL PRIMARY SCHOOL'', dm_ward = ''Gwale North'', dm_lat = 119980 / 10000,
       dm_lng = 85150 / 10000, dm_registeredVoters = 654, dm_agent = Some (''Fatima Gwale'', ''08052222222'')\<rparr>,
      \<lparr>dm_puCode = ''KN/03/01/001'', dm_name = ''NASSARAWA SECONDARY SCHOOL'', dm_ward = ''Nassarawa East'', dm_lat = 120100 / 10000,
       dm_lng = 85300 / 10000, dm_registeredVoters = 1120, dm_agent = Some (''Umar Nassarawa'', ''08073333333'')\<rparr>,
      \<lparr>dm_puCode = ''KN/04/01/001'', dm_name = ''KUMBOTSO PRIMARY SCHOOL'', dm_ward = ''Kumbotso Central'', dm_lat = 120500 / 10000,
       dm_lng = 84800 / 10000, dm_registeredVoters = 780, dm_agent = Some (''Aisha Kumbotso'', ''08094444444'')\<rparr>,
      \<lparr>dm_puCode = ''KN/05/01/001'', dm_name = ''TARAUNI TOWN HALL'', dm_ward = ''Tarauni South'', dm_lat = 120200 / 10000,
       dm_lng = 85600 / 10000, dm_registeredVoters = 920, dm_agent = None\<rparr>,
      \<lparr>dm_puCode = ''KN/06/01/001'', dm_name = ''FAGGE PRIMARY SCHOOL'', dm_ward = ''Fagge D2'', dm_lat = 119900 / 10000,
       dm_lng = 85200 / 10000, dm_registeredVoters = 560, dm_agent = None\<rparr>]"

section \<open>Seeding\<close>

text \<open>The deletes, in the order of the transaction.\<close>

definition ownedBy :: "int \<Rightarrow> 'z trow_scheme \<Rightarrow> bool" where
  "ownedBy pid r \<longleftrightarrow> profileId r = Some pid"

definition clearCampaign :: "int \<Rightarrow> (world, unit) proc" where
  "clearCampaign pid =
     transactionE
       (seqE (deleteRows timelineEventsD (ownedBy pid))
       (seqE (deleteRows voterRegistrationsD (ownedBy pid))
       (seqE (deleteRows volunteersD (ownedBy pid))
       (seqE (deleteRows volunteerTasksD (ownedBy pid))
       (seqE (deleteRows pressReleasesD (ownedBy pid))
       (seqE (deleteRows socialMediaPostsD (ownedBy pid))
       (seqE (deleteRows complianceItemsD (ownedBy pid))
       (seqE (deleteRows oppositionResearchD (ownedBy pid))
       (seqE (deleteRows warRoomIncidentsD (ownedBy pid))
       (seqE (deleteRows electionResultsD (ownedBy pid))
       (seqE (deleteRows manifestoSectionsD (ownedBy pid))
       (seqE (deleteRows diasporaContactsD (ownedBy pid))
       (seqE (deleteRows endorsementsD (ownedBy pid))
       (seqE (deleteRows fundraisingTransactionsD (ownedBy pid))
       (seqE (deleteRows budgetItemsD (ownedBy pid))
       (seqE (deleteRows mediaItemsD (ownedBy pid))
       (seqE (deleteRows debatePrepNotesD (ownedBy pid))
       (seqE (deleteRows debatePracticeScoresD (ownedBy pid))
       (seqE (deleteRows stakeholderContactsD (ownedBy pid))
       (seqE (deleteRows fieldAgentsD (ownedBy pid))
       (voidE (deleteRows campaignPuAssignmentsD (ownedBy pid)))))))))))))))))))))))"

definition seed_consent :: "int \<Rightarrow> subjectTable \<Rightarrow> int \<Rightarrow> time \<Rightarrow> int \<Rightarrow> consentRecord" where
  "seed_consent pid subj sid now i =
     \<lparr>row_id = i, profileId = Some pid, cr_subjectTable = subj, cr_subjectId = sid, cr_lawfulBasis = LegitimateInterest,
      cr_purpose = ''demo seed data - replace with real consented records'', cr_consentMethod = None,
      cr_consentGranted = False, cr_consentedAt = None, cr_withdrawnAt = None, cr_retentionUntil = None, cr_notes = None,
      cr_createdAt = now, cr_updatedAt = now\<rparr>"

definition seed_provenance :: "int \<Rightarrow> subjectTable \<Rightarrow> string \<Rightarrow> int \<Rightarrow> time \<Rightarrow> int \<Rightarrow> provenanceEntry" where
  "seed_provenance pid subj notes sid now i =
     \<lparr>row_id = i, profileId = Some pid, pl_subjectTable = subj, pl_subjectId = sid, pl_source = ''demo_seed'',
      pl_collectedBy = None, pl_collectedAt = now, pl_lawfulBasis = LegitimateInterest, pl_notes = Some notes,
      pl_createdAt = now\<rparr>"

definition seedTrail :: "int \<Rightarrow> subjectTable \<Rightarrow> string \<Rightarrow> int list \<Rightarrow> (world, unit) proc" where
  "seedTrail pid subj notes ids =
     forE ids (\<lambda>sid. bindE (getE clock) (\<lambda>now.
       seqE (insertRow consentRecordsD None (seed_consent pid subj sid now))
         (insertRow dataProvenanceLedgerD None (seed_provenance pid subj notes sid now))))"

definition seed_contact_note :: string where
  "seed_contact_note = ''Seeded demo record; not a real consented contact.''"

definition seedVoters :: "int \<Rightarrow> (world, nat) proc" where
  "seedVoters pid =
     bindE (getE clock) (\<lambda>now.
     bindE (insertRows voterRegistrationsD (seed_voterRegistrations pid now)) (\<lambda>rows.
     seqE (seedTrail pid SubjVoterRegistrations ''Seeded demo record; not a real consented voter contact.'' (map row_id rows))
       (returnE (length rows))))"

definition seedVolunteers :: "int \<Rightarrow> (world, nat) proc" where
  "seedVolunteers pid =
     bindE (getE clock) (\<lambda>now.
     bindE (insertRows volunteersD (seed_volunteers pid now)) (\<lambda>vols.
     seqE (seedTrail pid SubjVolunteers seed_contact_note (map row_id vols))
       (seqE (if length vols < 2 then returnE ()
              else if length vols < 6 then throwE (OtherError ''TypeError'')
              else voidE (insertRows volunteerTasksD (seed_volunteerTasks pid now (map row_id vols))))
         (returnE (length vols)))))"

definition seedPetition :: "int \<Rightarrow> (world, nat) proc" where
  "seedPetition pid =
     bindE (getE clock) (\<lambda>now.
     bindE (insertRows petitionsD [seed_petition pid now]) (\<lambda>ps.
     case ps of
       [] \<Rightarrow> returnE 0
     | p # _ \<Rightarrow>
         bindE (insertRows petitionSignaturesD (seed_petitionSignatures (row_id p) now)) (\<lambda>sigs.
         seqE (seedTrail pid SubjPetitionSignatures seed_contact_note (map row_id sigs)) (returnE 3))))"

definition seedDiaspora :: "int \<Rightarrow> (world, nat) proc" where
  "seedDiaspora pid =
     bindE (getE clock) (\<lambda>now.
     bindE (insertRows diasporaContactsD (seed_diasporaContacts pid now)) (\<lambda>rows.
     seqE (seedTrail pid SubjDiasporaContacts seed_contact_note (map row_id rows)) (returnE (length rows))))"

definition seedStakeholders :: "int \<Rightarrow> (world, nat) proc" where
  "seedStakeholders pid =
     bindE (getE clock) (\<lambda>now.
     bindE (insertRows stakeholderContactsD (seed_stakeholderContacts pid now)) (\<lambda>rows.
     seqE (seedTrail pid SubjStakeholderContacts seed_contact_note (map row_id rows)) (returnE (length rows))))"

definition seedPollingUnits :: "int \<Rightarrow> (world, unit) proc" where
  "seedPollingUnits pid =
     forE demoPUs (\<lambda>pu. bindE (getE clock) (\<lambda>now.
       seqE (insertIfAbsent pollingUnitsD (\<lambda>r. pu_code r = dm_puCode pu)
              (\<lambda>i. \<lparr>row_id = i, pu_code = dm_puCode pu, pu_name = dm_name pu, pu_wardCode = dm_ward pu,
                 pu_registeredVoters = Some (dm_registeredVoters pu), pu_latitude = Some (dm_lat pu),
                 pu_longitude = Some (dm_lng pu)\<rparr>))
         (insertRow campaignPuAssignmentsD None
              (\<lambda>i. \<lparr>row_id = i, profileId = Some pid, pa_puCode = dm_puCode pu, pa_agentName = map_option fst (dm_agent pu),
                 pa_agentPhone = map_option snd (dm_agent pu), pa_status = None, pa_notes = None,
                 pa_pwdAccessible = Some False, pa_createdAt = now\<rparr>))))"

definition logSeed :: "int \<Rightarrow> subjectTable \<Rightarrow> nat \<Rightarrow> (world, unit) proc" where
  "logSeed pid subj n =
     logDataAccess pid None (Some ''seed_demo_data'') subj ''seed_demo'' (Some (int n))
       (Some ''Demo fixture seeding (non-production, explicitly enabled); rows are fabricated and labelled demo_seed in the provenance ledger'')"

text \<open>The inserts of rows that are no personal data.\<close>

definition seedRows :: "('s, 'z row_scheme) tbl \<Rightarrow> (time \<Rightarrow> (int \<Rightarrow> 'z row_scheme) list) \<Rightarrow> ('s \<Rightarrow> time) \<Rightarrow> ('s, unit) proc" where
  "seedRows D mks clk = bindE (getE clk) (\<lambda>now. voidE (insertRows D (mks now)))"

definition fillCampaign :: "(nat \<Rightarrow> rat) \<Rightarrow> int \<Rightarrow> (world, unit) proc" where
  "fillCampaign rnd pid =
        (seqE (seedRows timelineEventsD (seed_timelineEvents pid) clock)
        (bindE (seedVoters pid) (\<lambda>voters.
         bindE (seedVolunteers pid) (\<lambda>vols.
        (seqE (seedRows pressReleasesD (seed_pressReleases pid) clock)
        (seqE (seedRows socialMediaPostsD (seed_socialMediaPosts pid) clock)
        (seqE (seedRows complianceItemsD (seed_complianceItems pid) clock)
        (seqE (seedRows oppositionResearchD (seed_oppositionResearch pid) clock)
        (seqE (seedRows warRoomIncidentsD (seed_warRoomIncidents pid) clock)
        (seqE (seedRows electionResultsD (seed_electionResults rnd pid) clock)
        (seqE (seedRows manifestoSectionsD (seed_manifestoSections pid) clock)
        (bindE (seedPetition pid) (\<lambda>sigs.
         bindE (seedDiaspora pid) (\<lambda>diaspora.
        (seqE (seedRows endorsementsD (seed_endorsements pid) clock)
        (seqE (seedRows fundraisingTransactionsD (seed_fundraisingTransactions pid) clock)
        (seqE (seedRows budgetItemsD (seed_budgetItems pid) clock)
        (seqE (seedRows mediaItemsD (seed_mediaItems pid) clock)
        (seqE (seedRows debatePracticeScoresD (seed_debatePracticeScores pid) clock)
        (bindE (seedStakeholders pid) (\<lambda>stakeholders.
        (seqE (seedRows fieldAgentsD (seed_fieldAgents pid) clock)
        (seqE (seedPollingUnits pid)
        (seqE (seedRows debatePrepNotesD (seed_debatePrepNotes pid) clock)
        (seqE (logSeed pid SubjVoterRegistrations voters)
        (seqE (logSeed pid SubjVolunteers vols)
        (seqE (logSeed pid SubjPetitionSignatures sigs)
        (seqE (logSeed pid SubjDiasporaContacts diaspora)
         (logSeed pid SubjStakeholderContacts stakeholders)))))))))))))))))))))))))))))"

definition seedProfileData :: "fixtureEnv \<Rightarrow> (nat \<Rightarrow> rat) \<Rightarrow> int \<Rightarrow> (world, unit) proc" where
  "seedProfileData fx rnd pid =
     (if \<not> isFixtureSeedingAllowed fx
      then throwE (PlainError ''Campaign fixture seeding is disabled outside an explicitly enabled non-production environment'')
      else withDb ()
        (seqE (updateRows candidateProfilesD (\<lambda>r. row_id r = pid) (\<lambda>r. r\<lparr>cp_isSeeded := Some True\<rparr>))
        (seqE (clearCampaign pid) (fillCampaign rnd pid))))"

definition seed_all :: "fixtureEnv \<Rightarrow> (nat \<Rightarrow> rat) \<Rightarrow> sessionUser option \<Rightarrow> jsValue \<Rightarrow> (world, unit) proc" where
  "seed_all fx rnd u raw =
     profileScopedProcedure Owner u raw (\<lambda>_ _ pid.
       if \<not> isFixtureSeedingAllowed fx
       then throwE (TRPC FORBIDDEN ''Campaign fixture seeding is disabled in this runtime'')
       else seedProfileData fx rnd pid)"

section \<open>Ids and other campaigns\<close>

text \<open>Every fixture row belongs to the campaign it is made for.\<close>

lemma fixture_owner:
  "mk1 \<in> set (seed_timelineEvents pid now) \<Longrightarrow> profileId (mk1 i) = Some pid"
  "mk2 \<in> set (seed_voterRegistrations pid now) \<Longrightarrow> profileId (mk2 i) = Some pid"
  "mk3 \<in> set (seed_volunteers pid now) \<Longrightarrow> profileId (mk3 i) = Some pid"
  "mk4 \<in> set (seed_pressReleases pid now) \<Longrightarrow> profileId (mk4 i) = Some pid"
  "mk5 \<in> set (seed_socialMediaPosts pid now) \<Longrightarrow> profileId (mk5 i) = Some pid"
  "mk6 \<in> set (seed_complianceItems pid now) \<Longrightarrow> profileId (mk6 i) = Some pid"
  "mk7 \<in> set (seed_oppositionResearch pid now) \<Longrightarrow> profileId (mk7 i) = Some pid"
  "mk8 \<in> set (seed_warRoomIncidents pid now) \<Longrightarrow> profileId (mk8 i) = Some pid"
  "mk9 \<in> set (seed_manifestoSections pid now) \<Longrightarrow> profileId (mk9 i) = Some pid"
  "mk10 \<in> set (seed_diasporaContacts pid now) \<Longrightarrow> profileId (mk10 i) = Some pid"
  "mk11 \<in> set (seed_endorsements pid now) \<Longrightarrow> profileId (mk11 i) = Some pid"
  "mk12 \<in> set (seed_fundraisingTransactions pid now) \<Longrightarrow> profileId (mk12 i) = Some pid"
  "mk13 \<in> set (seed_budgetItems pid now) \<Longrightarrow> profileId (mk13 i) = Some pid"
  "mk14 \<in> set (seed_mediaItems pid now) \<Longrightarrow> profileId (mk14 i) = Some pid"
  "mk15 \<in> set (seed_debatePracticeScores pid now) \<Longrightarrow> profileId (mk15 i) = Some pid"
  "mk16 \<in> set (seed_stakeholderContacts pid now) \<Longrightarrow> profileId (mk16 i) = Some pid"
  "mk17 \<in> set (seed_fieldAgents pid now) \<Longrightarrow> profileId (mk17 i) = Some pid"
  "mk18 \<in> set (seed_debatePrepNotes pid now) \<Longrightarrow> profileId (mk18 i) = Some pid"
  by (auto simp: seed_timelineEvents_def blank_timelineEvent_def seed_voterRegistrations_def blank_voterRegistration_def seed_volunteers_def blank_volunteer_def seed_pressReleases_def blank_pressRelease_def seed_socialMediaPosts_def blank_socialMediaPost_def seed_complianceItems_def blank_complianceItem_def seed_oppositionResearch_def blank_oppositionEntry_def seed_warRoomIncidents_def blank_warRoomIncident_def seed_manifestoSections_def blank_manifestoSection_def seed_diasporaContacts_def blank_diasporaContact_def seed_endorsements_def blank_endorsement_def seed_fundraisingTransactions_def blank_fundraisingTransaction_def seed_budgetItems_def blank_budgetItem_def seed_mediaItems_def blank_mediaItem_def seed_debatePracticeScores_def blank_debatePracticeScore_def seed_stakeholderContacts_def blank_stakeholderContact_def seed_fieldAgents_def blank_fieldAgent_def seed_debatePrepNotes_def blank_debatePrepNote_def)

lemma fixture_owner_results: "mk \<in> set (seed_electionResults rnd pid now) \<Longrightarrow> profileId (mk i) = Some pid"
  by (auto simp: seed_electionResults_def result_row_def Let_def)

lemma fixture_owner_tasks: "mk \<in> set (seed_volunteerTasks pid now vols) \<Longrightarrow> profileId (mk i) = Some pid"
  by (auto simp: seed_volunteerTasks_def blank_volunteerTask_def)

lemmas seed_steps =
  seedVoters_def seedVolunteers_def seedPetition_def seedDiaspora_def seedStakeholders_def seedPollingUnits_def
  seedTrail_def seedRows_def logSeed_def logDataAccess_def

lemma wf_seed [preserves_intros]:
  "preserves wf_ids (clearCampaign pid)"
  "preserves wf_ids (seedProfileData fx rnd pid)"
  "preserves wf_ids (seed_all fx rnd u raw)"
proof -
  show clear: "preserves wf_ids (clearCampaign pid)"
    unfolding clearCampaign_def by (intro preserves_intros)
  show seed: "preserves wf_ids (seedProfileData fx rnd pid)" for pid
    unfolding seedProfileData_def fillCampaign_def seed_steps clearCampaign_def by (intro preserves_intros; simp)
  show "preserves wf_ids (seed_all fx rnd u raw)"
    unfolding seed_all_def by (intro preserves_intros seed)
qed

lemma seed_same_tenant:
  assumes "pid \<noteq> q"
  shows "follows (same_tenant q) (seedProfileData fx rnd pid)"
proof -
  have owned: "ownedBy pid r \<Longrightarrow> profileId r \<noteq> Some q" for r :: "'z trow_scheme"
    using assms by (simp add: ownedBy_def)
  have profile: "follows (same_tenant q) (updateRows candidateProfilesD (\<lambda>r. row_id r = pid) (\<lambda>r. r\<lparr>cp_isSeeded := Some True\<rparr>))"
    using assms by (auto simp: follows_def intro!: profile_update_same)
  have clear: "follows (same_tenant q) (clearCampaign pid)"
    unfolding clearCampaign_def
    by (intro tenant_step.intros timelineEventsT.delete_same voterRegistrationsT.delete_same volunteersT.delete_same
        volunteerTasksT.delete_same pressReleasesT.delete_same socialMediaPostsT.delete_same complianceItemsT.delete_same
        oppositionResearchT.delete_same warRoomIncidentsT.delete_same electionResultsT.delete_same
        manifestoSectionsT.delete_same diasporaContactsT.delete_same endorsementsT.delete_same
        fundraisingTransactionsT.delete_same budgetItemsT.delete_same mediaItemsT.delete_same
        debatePrepNotesT.delete_same debatePracticeScoresT.delete_same stakeholderContactsT.delete_same
        fieldAgentsT.delete_same campaignPuAssignmentsT.delete_same; simp add: ownedBy_def assms)
  show ?thesis
    unfolding seedProfileData_def fillCampaign_def seed_steps
    by (intro tenant_step.intros tenant_withDb profile clear
        timelineEventsT.insertRows_same voterRegistrationsT.insertRows_same volunteersT.insertRows_same
        volunteerTasksT.insertRows_same pressReleasesT.insertRows_same socialMediaPostsT.insertRows_same
        complianceItemsT.insertRows_same oppositionResearchT.insertRows_same warRoomIncidentsT.insertRows_same
        electionResultsT.insertRows_same manifestoSectionsT.insertRows_same petitionsT.insertRows_same
        diasporaContactsT.insertRows_same endorsementsT.insertRows_same fundraisingTransactionsT.insertRows_same
        budgetItemsT.insertRows_same mediaItemsT.insertRows_same debatePrepNotesT.insertRows_same
        debatePracticeScoresT.insertRows_same stakeholderContactsT.insertRows_same fieldAgentsT.insertRows_same
        campaignPuAssignmentsT.insert_same consentRecordsT.insert_same dataProvenanceLedgerT.insert_same
        dataAccessAuditT.insert_same petitionSignaturesT.insertRows_shared pollingUnitsT.insertIfAbsent_shared;
        simp add: assms fixture_owner fixture_owner_results fixture_owner_tasks seed_consent_def seed_provenance_def seed_petition_def)
qed

lemma outsider_seed [outsider_intros]: "follows (outsider u q) (seed_all fx rnd u raw)"
  unfolding seed_all_def
  by (intro outsider_scoped outsider_step.cond outsider_step.throwE outsider_intro wf_seed seed_same_tenant)

section \<open>Fixtures are labelled\<close>

text \<open>What a program achieves when it returns.\<close>

definition achieves :: "('s \<Rightarrow> bool) \<Rightarrow> ('s, 'a) proc \<Rightarrow> ('s \<Rightarrow> bool) \<Rightarrow> bool" where
  "achieves P m Q \<longleftrightarrow> (\<forall>s x s'. P s \<longrightarrow> m s = (Inr x, s') \<longrightarrow> Q s')"

lemma achievesD: "achieves P m Q \<Longrightarrow> P s \<Longrightarrow> m s = (Inr x, s') \<Longrightarrow> Q s'"
  by (auto simp: achieves_def)

lemma achieves_seq: "achieves P m Q \<Longrightarrow> achieves Q n R \<Longrightarrow> achieves P (seqE m n) R"
  unfolding achieves_def by (metis seqE_InrE)

lemma achieves_bind: "achieves P m Q \<Longrightarrow> (\<And>x. achieves Q (f x) R) \<Longrightarrow> achieves P (bindE m f) R"
  unfolding achieves_def by (metis bindE_InrE)

lemmas keeps_seq = achieves_seq [where P = P and Q = P and R = P for P]
  and keeps_bind = achieves_bind [where P = P and Q = P and R = P for P]

lemma achieves_void: "achieves P m Q \<Longrightarrow> achieves P (voidE m) Q"
  unfolding achieves_def by (metis voidE_InrE)

lemma achieves_get: "achieves P (getE g) P"
  by (simp add: achieves_def run_simps)

lemma achieves_preserved: "preserves P m \<Longrightarrow> achieves P m P"
  unfolding achieves_def by (metis preserves_stepD)

lemma achieves_transaction: "achieves P m Q \<Longrightarrow> achieves P (transactionE m) Q"
  by (fastforce simp: achieves_def transactionE_def split: prod.splits sum.splits)

text \<open>A row of personal data that is known to be made up.\<close>

definition labelled :: "int \<Rightarrow> subjectTable \<Rightarrow> int \<Rightarrow> world \<Rightarrow> bool" where
  "labelled pid subj sid s \<longleftrightarrow>
     list_ex (\<lambda>c. profileId c = Some pid \<and> cr_subjectTable c = subj \<and> cr_subjectId c = sid \<and> \<not> cr_consentGranted c)
       (trows (consentRecordsT s)) \<and>
     list_ex (\<lambda>p. profileId p = Some pid \<and> pl_subjectTable p = subj \<and> pl_subjectId p = sid \<and> pl_source p = ''demo_seed'')
       (trows (dataProvenanceLedgerT s))"

definition all_labelled :: "(world, 'z trow_scheme) tbl \<Rightarrow> subjectTable \<Rightarrow> int \<Rightarrow> world \<Rightarrow> bool" where
  "all_labelled D subj pid s \<longleftrightarrow>
     list_all (\<lambda>r. profileId r = Some pid \<longrightarrow> labelled pid subj (row_id r) s) (rows_of D s)"

definition demo_labelled :: "int \<Rightarrow> world \<Rightarrow> bool" where
  "demo_labelled pid s \<longleftrightarrow>
     all_labelled voterRegistrationsD SubjVoterRegistrations pid s \<and> all_labelled volunteersD SubjVolunteers pid s \<and>
     all_labelled diasporaContactsD SubjDiasporaContacts pid s \<and>
     all_labelled stakeholderContactsD SubjStakeholderContacts pid s"

text \<open>Statements on the tables that hold no labelled data do not matter.\<close>

lemma demo_labelled_put:
  "demo_labelled pid (tput timelineEventsD t0 s) = demo_labelled pid s"
  "demo_labelled pid (tput pressReleasesD t1 s) = demo_labelled pid s"
  "demo_labelled pid (tput socialMediaPostsD t2 s) = demo_labelled pid s"
  "demo_labelled pid (tput complianceItemsD t3 s) = demo_labelled pid s"
  "demo_labelled pid (tput oppositionResearchD t4 s) = demo_labelled pid s"
  "demo_labelled pid (tput warRoomIncidentsD t5 s) = demo_labelled pid s"
  "demo_labelled pid (tput electionResultsD t6 s) = demo_labelled pid s"
  "demo_labelled pid (tput manifestoSectionsD t7 s) = demo_labelled pid s"
  "demo_labelled pid (tput petitionsD t8 s) = demo_labelled pid s"
  "demo_labelled pid (tput petitionSignaturesD t9 s) = demo_labelled pid s"
  "demo_labelled pid (tput endorsementsD t10 s) = demo_labelled pid s"
  "demo_labelled pid (tput fundraisingTransactionsD t11 s) = demo_labelled pid s"
  "demo_labelled pid (tput budgetItemsD t12 s) = demo_labelled pid s"
  "demo_labelled pid (tput mediaItemsD t13 s) = demo_labelled pid s"
  "demo_labelled pid (tput debatePrepNotesD t14 s) = demo_labelled pid s"
  "demo_labelled pid (tput debatePracticeScoresD t15 s) = demo_labelled pid s"
  "demo_labelled pid (tput fieldAgentsD t16 s) = demo_labelled pid s"
  "demo_labelled pid (tput pollingUnitsD t17 s) = demo_labelled pid s"
  "demo_labelled pid (tput campaignPuAssignmentsD t18 s) = demo_labelled pid s"
  "demo_labelled pid (tput dataAccessAuditD t19 s) = demo_labelled pid s"
  "demo_labelled pid (tput candidateProfilesD t20 s) = demo_labelled pid s"
  "demo_labelled pid (tput volunteerTasksD t s) = demo_labelled pid s"
  by (simp_all add: demo_labelled_def all_labelled_def labelled_def rows_of_def)

context table_lens
begin

lemma unaffected:
  assumes "\<And>t s. P (tput D t s) = P s"
  shows "preserves P (insertRow D eid mk)" "preserves P (insertRows D mks)" "preserves P (insertIfAbsent D c mk)"
    "preserves P (updateRows D R f)" "preserves P (deleteRows D R)"
proof -
  show one: "preserves P (insertRow D eid mk)" for eid mk
    unfolding preserves_def using insert_frame assms by metis
  show "preserves P (insertRows D mks)" unfolding preserves_def using insertRows_frame assms by metis
  show "preserves P (insertIfAbsent D c mk)"
    unfolding insertIfAbsent_def by (intro preserves_intros one)
  show "preserves P (updateRows D R f)" unfolding preserves_def using update_frame assms by metis
  show "preserves P (deleteRows D R)" unfolding preserves_def using delete_frame assms by metis
qed

end

text \<open>A trail only adds to the two ledgers, and labels every subject it is written for.\<close>

definition trail_grows :: "world \<Rightarrow> world \<Rightarrow> bool" where
  "trail_grows s s' \<longleftrightarrow>
     (\<exists>tc tp. s' = s\<lparr>consentRecordsT := tc, dataProvenanceLedgerT := tp\<rparr> \<and>
       set (trows (consentRecordsT s)) \<subseteq> set (trows tc) \<and> set (trows (dataProvenanceLedgerT s)) \<subseteq> set (trows tp))"

lemma trail_grows_refl: "trail_grows s s"
proof -
  have "s = s\<lparr>consentRecordsT := consentRecordsT s, dataProvenanceLedgerT := dataProvenanceLedgerT s\<rparr>" by simp
  then show ?thesis unfolding trail_grows_def by blast
qed

lemma trail_grows_trans: "trail_grows s t \<Longrightarrow> trail_grows t u \<Longrightarrow> trail_grows s u"
proof -
  assume "trail_grows s t" "trail_grows t u"
  then obtain tc tp uc up where t: "t = s\<lparr>consentRecordsT := tc, dataProvenanceLedgerT := tp\<rparr>"
    and u: "u = t\<lparr>consentRecordsT := uc, dataProvenanceLedgerT := up\<rparr>"
    and sub: "set (trows (consentRecordsT s)) \<subseteq> set (trows tc)" "set (trows (dataProvenanceLedgerT s)) \<subseteq> set (trows tp)"
      "set (trows (consentRecordsT t)) \<subseteq> set (trows uc)" "set (trows (dataProvenanceLedgerT t)) \<subseteq> set (trows up)"
    unfolding trail_grows_def by blast
  have "u = s\<lparr>consentRecordsT := uc, dataProvenanceLedgerT := up\<rparr>" by (simp add: u t)
  moreover have "set (trows (consentRecordsT s)) \<subseteq> set (trows uc)" "set (trows (dataProvenanceLedgerT s)) \<subseteq> set (trows up)"
    using sub by (auto simp: t)
  ultimately show ?thesis unfolding trail_grows_def by blast
qed

lemma trail_growsD:
  "trail_grows s s' \<Longrightarrow> set (trows (consentRecordsT s)) \<subseteq> set (trows (consentRecordsT s')) \<and>
     set (trows (dataProvenanceLedgerT s)) \<subseteq> set (trows (dataProvenanceLedgerT s'))"
  by (auto simp: trail_grows_def)

lemma labelled_grows: "trail_grows s s' \<Longrightarrow> labelled pid subj sid s \<Longrightarrow> labelled pid subj sid s'"
  using trail_growsD [of s s'] unfolding labelled_def list_ex_iff by blast

lemma trail_step:
  assumes "seqE (insertRow consentRecordsD None (seed_consent pid subj sid now))
      (insertRow dataProvenanceLedgerD None (seed_provenance pid subj notes sid now)) s = (Inr x, s')"
  shows "trail_grows s s'" and "labelled pid subj sid s'"
proof -
  from assms obtain c s1 where c: "insertRow consentRecordsD None (seed_consent pid subj sid now) s = (Inr c, s1)"
    and p: "insertRow dataProvenanceLedgerD None (seed_provenance pid subj notes sid now) s1 = (Inr x, s')"
    by (rule seqE_InrE)
  obtain t t' where frames: "s1 = s\<lparr>consentRecordsT := t\<rparr>" "s' = s1\<lparr>dataProvenanceLedgerT := t'\<rparr>"
    using consentRecordsL.insert_frame [of None "seed_consent pid subj sid now" s]
      dataProvenanceLedgerL.insert_frame [of None "seed_provenance pid subj notes sid now" s1] c p by auto
  obtain i j where rows: "rows_of consentRecordsD s1 = rows_of consentRecordsD s @ [c]" "c = (seed_consent pid subj sid now i)\<lparr>row_id := i\<rparr>"
    "rows_of dataProvenanceLedgerD s' = rows_of dataProvenanceLedgerD s1 @ [x]" "x = (seed_provenance pid subj notes sid now j)\<lparr>row_id := j\<rparr>"
    using consentRecordsL.insert_Inr [OF c] dataProvenanceLedgerL.insert_Inr [OF p] by blast
  have s': "s' = s\<lparr>consentRecordsT := t, dataProvenanceLedgerT := t'\<rparr>" using frames by simp
  have new: "trows t = trows (consentRecordsT s) @ [c]" "trows t' = trows (dataProvenanceLedgerT s) @ [x]"
    using rows(1,3) by (simp_all add: frames rows_of_def)
  show "trail_grows s s'"
    unfolding trail_grows_def s' by (intro exI [of _ t] exI [of _ t'] conjI refl) (auto simp: new)
  show "labelled pid subj sid s'"
    by (simp add: labelled_def s' new rows(2,4) seed_consent_def seed_provenance_def)
qed

lemma trail_labels:
  assumes "seedTrail pid subj notes ids s = (Inr x, s')"
  shows "trail_grows s s' \<and> (\<forall>sid \<in> set ids. labelled pid subj sid s')"
  using assms
proof (induction ids arbitrary: s)
  case Nil
  then show ?case by (simp add: seedTrail_def run_simps trail_grows_refl)
next
  case (Cons sid ids)
  from Cons.prems obtain y s1 where
    one: "seqE (insertRow consentRecordsD None (seed_consent pid subj sid (clock s)))
      (insertRow dataProvenanceLedgerD None (seed_provenance pid subj notes sid (clock s))) s = (Inr y, s1)"
    and rest: "seedTrail pid subj notes ids s1 = (Inr x, s')"
    unfolding seedTrail_def forE.simps by (auto simp: bindE_run getE_run elim!: seqE_InrE)
  show ?case
    using trail_step [OF one] Cons.IH [OF rest] trail_grows_trans labelled_grows by auto
qed

text \<open>A table other than the two ledgers, as the trail sees it.\<close>

definition beside_trail :: "(world, 'z trow_scheme) tbl \<Rightarrow> bool" where
  "beside_trail D \<longleftrightarrow> table_lens D \<and>
     (\<forall>t s. consentRecordsT (tput D t s) = consentRecordsT s \<and> dataProvenanceLedgerT (tput D t s) = dataProvenanceLedgerT s) \<and>
     (\<forall>t t' s. tget D (s\<lparr>consentRecordsT := t, dataProvenanceLedgerT := t'\<rparr>) = tget D s)"

lemma personal_beside_trail:
  "beside_trail voterRegistrationsD" "beside_trail volunteersD" "beside_trail diasporaContactsD" "beside_trail stakeholderContactsD"
  by (simp_all add: beside_trail_def voterRegistrationsL.table_lens_axioms volunteersL.table_lens_axioms
      diasporaContactsL.table_lens_axioms stakeholderContactsL.table_lens_axioms)

lemma all_labelled_grows:
  "beside_trail D \<Longrightarrow> trail_grows s s' \<Longrightarrow> all_labelled D subj pid s \<Longrightarrow> all_labelled D subj pid s'"
proof -
  assume D: "beside_trail D" and grows: "trail_grows s s'" and all: "all_labelled D subj pid s"
  obtain tc tp where "s' = s\<lparr>consentRecordsT := tc, dataProvenanceLedgerT := tp\<rparr>"
    using grows unfolding trail_grows_def by blast
  with D have "rows_of D s' = rows_of D s" by (simp add: beside_trail_def rows_of_def)
  with all labelled_grows [OF grows] show ?thesis by (auto simp: all_labelled_def list_all_iff)
qed

lemma seeded_with_trail:
  assumes D: "beside_trail D" and ins: "insertRows D mks s = (Inr rows, s1)"
    and trail: "seedTrail pid subj notes (map row_id rows) s1 = (Inr x, s2)"
    and all: "all_labelled D subj pid s"
  shows "all_labelled D subj pid s2"
proof -
  note grows = trail_labels [OF trail]
  have lens: "table_lens D" using D by (simp add: beside_trail_def)
  obtain t where "s1 = tput D t s" using table_lens.insertRows_frame [OF lens, of mks s] ins by auto
  then have same: "labelled p b i s1 = labelled p b i s" for p b i using D by (simp add: beside_trail_def labelled_def)
  obtain tc tp where "s2 = s1\<lparr>consentRecordsT := tc, dataProvenanceLedgerT := tp\<rparr>"
    using grows unfolding trail_grows_def by blast
  with D have "rows_of D s2 = rows_of D s1" by (simp add: beside_trail_def rows_of_def)
  also have "\<dots> = rows_of D s @ rows" using table_lens.insertRows_Inr [OF lens ins] by simp
  finally have rows: "rows_of D s2 = rows_of D s @ rows" .
  have "labelled pid subj (row_id r) s2" if "r \<in> set (rows_of D s)" "profileId r = Some pid" for r
    using that all labelled_grows [of s1 s2] grows by (simp add: all_labelled_def list_all_iff same)
  then show ?thesis using grows by (auto simp: all_labelled_def list_all_iff rows)
qed

lemma elsewhere_labelled:
  assumes "beside_trail D" and "beside_trail E" and "\<And>t s. tget E (tput D t s) = tget E s"
    and "insertRows D mks s = (Inr rows, s1)" and "trail_grows s1 s2" and "all_labelled E subj pid s"
  shows "all_labelled E subj pid s2"
proof -
  obtain t where s1: "s1 = tput D t s"
    using table_lens.insertRows_frame [of D mks s] assms(1,4) by (auto simp: beside_trail_def)
  have "all_labelled E subj pid s1"
    using assms(1,3,6) by (simp add: s1 all_labelled_def labelled_def rows_of_def beside_trail_def)
  then show ?thesis by (rule all_labelled_grows [OF assms(2,5)])
qed

text \<open>Rows of personal data that come with their trail.\<close>

lemma voterRegistrations_step:
  assumes "insertRows voterRegistrationsD mks s = (Inr rows, s1)" and "seedTrail pid SubjVoterRegistrations notes (map row_id rows) s1 = (Inr x, s2)"
    and "demo_labelled pid s"
  shows "demo_labelled pid s2"
  using assms(3) trail_labels [OF assms(2)] unfolding demo_labelled_def
  by (intro conjI; elim conjE)
    ((rule seeded_with_trail [OF _ assms(1,2)] elsewhere_labelled [OF _ _ _ assms(1)]; simp add: personal_beside_trail)+)

lemma volunteers_step:
  assumes "insertRows volunteersD mks s = (Inr rows, s1)" and "seedTrail pid SubjVolunteers notes (map row_id rows) s1 = (Inr x, s2)"
    and "demo_labelled pid s"
  shows "demo_labelled pid s2"
  using assms(3) trail_labels [OF assms(2)] unfolding demo_labelled_def
  by (intro conjI; elim conjE)
    ((rule seeded_with_trail [OF _ assms(1,2)] elsewhere_labelled [OF _ _ _ assms(1)]; simp add: personal_beside_trail)+)

lemma diasporaContacts_step:
  assumes "insertRows diasporaContactsD mks s = (Inr rows, s1)" and "seedTrail pid SubjDiasporaContacts notes (map row_id rows) s1 = (Inr x, s2)"
    and "demo_labelled pid s"
  shows "demo_labelled pid s2"
  using assms(3) trail_labels [OF assms(2)] unfolding demo_labelled_def
  by (intro conjI; elim conjE)
    ((rule seeded_with_trail [OF _ assms(1,2)] elsewhere_labelled [OF _ _ _ assms(1)]; simp add: personal_beside_trail)+)

lemma stakeholderContacts_step:
  assumes "insertRows stakeholderContactsD mks s = (Inr rows, s1)" and "seedTrail pid SubjStakeholderContacts notes (map row_id rows) s1 = (Inr x, s2)"
    and "demo_labelled pid s"
  shows "demo_labelled pid s2"
  using assms(3) trail_labels [OF assms(2)] unfolding demo_labelled_def
  by (intro conjI; elim conjE)
    ((rule seeded_with_trail [OF _ assms(1,2)] elsewhere_labelled [OF _ _ _ assms(1)]; simp add: personal_beside_trail)+)

lemma labelled_trail: "achieves (demo_labelled pid) (seedTrail p subj notes ids) (demo_labelled pid)"
  unfolding achieves_def
proof (intro allI impI)
  fix s x s' assume lab: "demo_labelled pid s" and run: "seedTrail p subj notes ids s = (Inr x, s')"
  have "trail_grows s s'" using trail_labels [OF run] by simp
  with lab show "demo_labelled pid s'"
    unfolding demo_labelled_def using all_labelled_grows [OF personal_beside_trail(1)] all_labelled_grows [OF personal_beside_trail(2)]
      all_labelled_grows [OF personal_beside_trail(3)] all_labelled_grows [OF personal_beside_trail(4)] by blast
qed

lemma labelled_rows:
  assumes "\<And>now. preserves (demo_labelled pid) (insertRows D (mks now))"
  shows "achieves (demo_labelled pid) (seedRows D mks clock) (demo_labelled pid)"
  unfolding seedRows_def by (intro keeps_bind achieves_get achieves_void achieves_preserved assms)

lemma labelled_persons:
  "achieves (demo_labelled pid) (seedVoters pid) (demo_labelled pid)"
  "achieves (demo_labelled pid) (seedDiaspora pid) (demo_labelled pid)"
  "achieves (demo_labelled pid) (seedStakeholders pid) (demo_labelled pid)"
  unfolding achieves_def seedVoters_def seedDiaspora_def seedStakeholders_def
  by (auto simp: getE_run returnE_run elim!: bindE_InrE seqE_InrE
      dest: voterRegistrations_step diasporaContacts_step stakeholderContacts_step)

lemma labelled_volunteers: "achieves (demo_labelled pid) (seedVolunteers pid) (demo_labelled pid)"
  unfolding achieves_def
proof (intro allI impI)
  fix s x s' assume lab: "demo_labelled pid s" and run: "seedVolunteers pid s = (Inr x, s')"
  obtain vols s1 s2 y s3 where ins: "insertRows volunteersD (seed_volunteers pid (clock s)) s = (Inr vols, s1)"
    and trail: "seedTrail pid SubjVolunteers seed_contact_note (map row_id vols) s1 = (Inr y, s2)"
    and tasks: "(if length vols < 2 then returnE ()
        else if length vols < 6 then throwE (OtherError ''TypeError'')
        else voidE (insertRows volunteerTasksD (seed_volunteerTasks pid (clock s) (map row_id vols)))) s2 = (Inr (), s3)"
    and s': "s' = s3"
    using run unfolding seedVolunteers_def by (auto simp: getE_run returnE_run elim!: bindE_InrE seqE_InrE)
  have "preserves (demo_labelled pid) (if length vols < 2 then returnE ()
        else if length vols < 6 then throwE (OtherError ''TypeError'')
        else voidE (insertRows volunteerTasksD (seed_volunteerTasks pid (clock s) (map row_id vols))))"
    by (intro preserves_intros volunteerTasksL.unaffected demo_labelled_put)
  from preserves_stepD [OF this volunteers_step [OF ins trail lab] tasks] show "demo_labelled pid s'" by (simp add: s')
qed

lemma labelled_petition: "achieves (demo_labelled pid) (seedPetition pid) (demo_labelled pid)"
proof -
  have signed: "achieves (demo_labelled pid) (case ps of [] \<Rightarrow> returnE 0
     | p # _ \<Rightarrow> bindE (insertRows petitionSignaturesD (seed_petitionSignatures (row_id p) now)) (\<lambda>sigs.
         seqE (seedTrail pid SubjPetitionSignatures seed_contact_note (map row_id sigs)) (returnE (3 :: nat)))) (demo_labelled pid)"
    for ps :: "petition list" and now
    by (cases ps) (auto intro!: achieves_preserved [OF preserves_returnE] keeps_bind keeps_seq labelled_trail
        achieves_preserved [OF petitionSignaturesL.unaffected(2)] demo_labelled_put)
  show ?thesis
    unfolding seedPetition_def
    by (intro keeps_bind achieves_get signed achieves_preserved [OF petitionsL.unaffected(2)] demo_labelled_put)
qed

lemma labelled_polling_units: "preserves (demo_labelled pid) (seedPollingUnits p)"
  unfolding seedPollingUnits_def
  by (intro preserves_intros pollingUnitsL.unaffected(3) campaignPuAssignmentsL.unaffected(1) demo_labelled_put)

lemma labelled_log: "preserves (demo_labelled pid) (logSeed p subj n)"
  unfolding logSeed_def logDataAccess_def
  by (intro preserves_intros dataAccessAuditL.unaffected(1) demo_labelled_put)

section \<open>A seeded campaign\<close>

definition cleared :: "(world, 'z trow_scheme) tbl \<Rightarrow> int \<Rightarrow> world \<Rightarrow> bool" where
  "cleared D pid s \<longleftrightarrow> list_all (\<lambda>r. profileId r \<noteq> Some pid) (rows_of D s)"

lemma gives_later: "achieves (\<lambda>_. True) n Q \<Longrightarrow> achieves (\<lambda>_. True) (seqE m n) Q"
  by (rule achieves_seq [where Q = "\<lambda>_. True"]) (simp_all add: achieves_def)

lemma gives_now: "achieves (\<lambda>_. True) m Q \<Longrightarrow> achieves Q n Q \<Longrightarrow> achieves (\<lambda>_. True) (seqE m n) Q"
  by (rule achieves_seq)

lemma delete_cleared:
  "table_lens D \<Longrightarrow> achieves (\<lambda>_. True) (deleteRows D (ownedBy pid)) (cleared D pid)"
  by (auto simp: achieves_def deleteRows_def Let_def cleared_def rows_of_def table_lens.get_put list_all_iff ownedBy_def
      split: if_splits)

lemma cleared_voterRegistrations: "achieves (\<lambda>_. True) (clearCampaign pid) (cleared voterRegistrationsD pid)"
  unfolding clearCampaign_def
  by (rule achieves_transaction, rule gives_later, rule gives_now [OF delete_cleared [OF voterRegistrationsL.table_lens_axioms]];
      intro keeps_seq achieves_void achieves_preserved volunteersL.unaffected(5) volunteerTasksL.unaffected(5) pressReleasesL.unaffected(5) socialMediaPostsL.unaffected(5) complianceItemsL.unaffected(5) oppositionResearchL.unaffected(5) warRoomIncidentsL.unaffected(5) electionResultsL.unaffected(5) manifestoSectionsL.unaffected(5) diasporaContactsL.unaffected(5) endorsementsL.unaffected(5) fundraisingTransactionsL.unaffected(5) budgetItemsL.unaffected(5) mediaItemsL.unaffected(5) debatePrepNotesL.unaffected(5) debatePracticeScoresL.unaffected(5) stakeholderContactsL.unaffected(5) fieldAgentsL.unaffected(5) campaignPuAssignmentsL.unaffected(5); simp add: cleared_def rows_of_def)

lemma cleared_volunteers: "achieves (\<lambda>_. True) (clearCampaign pid) (cleared volunteersD pid)"
  unfolding clearCampaign_def
  by (rule achieves_transaction, rule gives_later, rule gives_later, rule gives_now [OF delete_cleared [OF volunteersL.table_lens_axioms]];
      intro keeps_seq achieves_void achieves_preserved volunteerTasksL.unaffected(5) pressReleasesL.unaffected(5) socialMediaPostsL.unaffected(5) complianceItemsL.unaffected(5) oppositionResearchL.unaffected(5) warRoomIncidentsL.unaffected(5) electionResultsL.unaffected(5) manifestoSectionsL.unaffected(5) diasporaContactsL.unaffected(5) endorsementsL.unaffected(5) fundraisingTransactionsL.unaffected(5) budgetItemsL.unaffected(5) mediaItemsL.unaffected(5) debatePrepNotesL.unaffected(5) debatePracticeScoresL.unaffected(5) stakeholderContactsL.unaffected(5) fieldAgentsL.unaffected(5) campaignPuAssignmentsL.unaffected(5); simp add: cleared_def rows_of_def)

lemma cleared_diasporaContacts: "achieves (\<lambda>_. True) (clearCampaign pid) (cleared diasporaContactsD pid)"
  unfolding clearCampaign_def
  by (rule achieves_transaction, rule gives_later, rule gives_later, rule gives_later, rule gives_later, rule gives_later, rule gives_later, rule gives_later, rule gives_later, rule gives_later, rule gives_later, rule gives_later, rule gives_now [OF delete_cleared [OF diasporaContactsL.table_lens_axioms]];
      intro keeps_seq achieves_void achieves_preserved endorsementsL.unaffected(5) fundraisingTransactionsL.unaffected(5) budgetItemsL.unaffected(5) mediaItemsL.unaffected(5) debatePrepNotesL.unaffected(5) debatePracticeScoresL.unaffected(5) stakeholderContactsL.unaffected(5) fieldAgentsL.unaffected(5) campaignPuAssignmentsL.unaffected(5); simp add: cleared_def rows_of_def)

lemma cleared_stakeholderContacts: "achieves (\<lambda>_. True) (clearCampaign pid) (cleared stakeholderContactsD pid)"
  unfolding clearCampaign_def
  by (rule achieves_transaction, rule gives_later, rule gives_later, rule gives_later, rule gives_later, rule gives_later, rule gives_later, rule gives_later, rule gives_later, rule gives_later, rule gives_later, rule gives_later, rule gives_later, rule gives_later, rule gives_later, rule gives_later, rule gives_later, rule gives_later, rule gives_later, rule gives_now [OF delete_cleared [OF stakeholderContactsL.table_lens_axioms]];
      intro keeps_seq achieves_void achieves_preserved fieldAgentsL.unaffected(5) campaignPuAssignmentsL.unaffected(5); simp add: cleared_def rows_of_def)

lemma cleared_labelled: "cleared D pid s \<Longrightarrow> all_labelled D subj pid s"
  by (auto simp: cleared_def all_labelled_def list_all_iff)

lemma clear_labelled: "achieves (\<lambda>_. True) (clearCampaign pid) (demo_labelled pid)"
  using cleared_voterRegistrations [of pid] cleared_volunteers [of pid] cleared_diasporaContacts [of pid]
    cleared_stakeholderContacts [of pid]
  by (simp add: achieves_def demo_labelled_def) (blast intro: cleared_labelled)

lemma fill_labelled: "achieves (demo_labelled pid) (fillCampaign rnd pid) (demo_labelled pid)"
  unfolding fillCampaign_def
  by (intro keeps_seq keeps_bind labelled_persons labelled_volunteers labelled_petition
      achieves_preserved [OF labelled_polling_units] achieves_preserved [OF labelled_log] labelled_rows
      timelineEventsL.unaffected(2) pressReleasesL.unaffected(2) socialMediaPostsL.unaffected(2) complianceItemsL.unaffected(2)
      oppositionResearchL.unaffected(2) warRoomIncidentsL.unaffected(2) electionResultsL.unaffected(2)
      manifestoSectionsL.unaffected(2) endorsementsL.unaffected(2) fundraisingTransactionsL.unaffected(2)
      budgetItemsL.unaffected(2) mediaItemsL.unaffected(2) debatePracticeScoresL.unaffected(2) fieldAgentsL.unaffected(2)
      debatePrepNotesL.unaffected(2) demo_labelled_put)

lemma seed_labels:
  assumes "seedProfileData fx rnd pid s = (Inr x, s')" and "conn s"
  shows "isFixtureSeedingAllowed fx" and "demo_labelled pid s'"
proof -
  show "isFixtureSeedingAllowed fx" using assms by (simp add: seedProfileData_def throwE_run split: if_splits)
  with assms have "seqE (updateRows candidateProfilesD (\<lambda>r. row_id r = pid) (\<lambda>r. r\<lparr>cp_isSeeded := Some True\<rparr>))
      (seqE (clearCampaign pid) (fillCampaign rnd pid)) s = (Inr x, s')"
    by (simp add: seedProfileData_def withDb_run)
  then show "demo_labelled pid s'"
    by (rule achievesD [OF gives_later [OF achieves_seq [OF clear_labelled fill_labelled]] TrueI])
qed

section \<open>Seeding twice\<close>

text \<open>A volunteer of the campaign has a task: the volunteers, which are deleted before the tasks, cannot be deleted.\<close>

definition tasked :: "int \<Rightarrow> world \<Rightarrow> bool" where
  "tasked pid s \<longleftrightarrow>
     list_ex (\<lambda>v. profileId v = Some pid \<and> list_ex (\<lambda>t. vt_volunteerId t = Some (row_id v)) (trows (volunteerTasksT s)))
       (trows (volunteersT s))"

lemma tasked_put:
  "tasked pid (tput timelineEventsD t0 s) = tasked pid s"
  "tasked pid (tput voterRegistrationsD t1 s) = tasked pid s"
  "tasked pid (tput pressReleasesD t2 s) = tasked pid s"
  "tasked pid (tput socialMediaPostsD t3 s) = tasked pid s"
  "tasked pid (tput complianceItemsD t4 s) = tasked pid s"
  "tasked pid (tput oppositionResearchD t5 s) = tasked pid s"
  "tasked pid (tput warRoomIncidentsD t6 s) = tasked pid s"
  "tasked pid (tput electionResultsD t7 s) = tasked pid s"
  "tasked pid (tput manifestoSectionsD t8 s) = tasked pid s"
  "tasked pid (tput petitionsD t9 s) = tasked pid s"
  "tasked pid (tput petitionSignaturesD t10 s) = tasked pid s"
  "tasked pid (tput diasporaContactsD t11 s) = tasked pid s"
  "tasked pid (tput stakeholderContactsD t12 s) = tasked pid s"
  "tasked pid (tput endorsementsD t13 s) = tasked pid s"
  "tasked pid (tput fundraisingTransactionsD t14 s) = tasked pid s"
  "tasked pid (tput budgetItemsD t15 s) = tasked pid s"
  "tasked pid (tput mediaItemsD t16 s) = tasked pid s"
  "tasked pid (tput debatePrepNotesD t17 s) = tasked pid s"
  "tasked pid (tput debatePracticeScoresD t18 s) = tasked pid s"
  "tasked pid (tput fieldAgentsD t19 s) = tasked pid s"
  "tasked pid (tput pollingUnitsD t20 s) = tasked pid s"
  "tasked pid (tput campaignPuAssignmentsD t21 s) = tasked pid s"
  "tasked pid (tput dataAccessAuditD t22 s) = tasked pid s"
  "tasked pid (tput consentRecordsD t23 s) = tasked pid s"
  "tasked pid (tput dataProvenanceLedgerD t24 s) = tasked pid s"
  "tasked pid (tput candidateProfilesD t25 s) = tasked pid s"
  by (simp_all add: tasked_def)

lemma tasked_trail: "preserves (tasked pid) (seedTrail p subj notes ids)"
  unfolding seedTrail_def
  by (intro preserves_intros consentRecordsL.unaffected(1) dataProvenanceLedgerL.unaffected(1) tasked_put)

lemma seed_volunteers_tasked: "achieves (\<lambda>_. True) (seedVolunteers pid) (tasked pid)"
  unfolding achieves_def
proof (intro allI impI)
  fix s x s' assume "seedVolunteers pid s = (Inr x, s')"
  then obtain vols s1 s2 y s3 where ins: "insertRows volunteersD (seed_volunteers pid (clock s)) s = (Inr vols, s1)"
    and trail: "seedTrail pid SubjVolunteers seed_contact_note (map row_id vols) s1 = (Inr y, s2)"
    and tasks: "(if length vols < 2 then returnE ()
        else if length vols < 6 then throwE (OtherError ''TypeError'')
        else voidE (insertRows volunteerTasksD (seed_volunteerTasks pid (clock s) (map row_id vols)))) s2 = (Inr (), s3)"
    and s': "s' = s3"
    unfolding seedVolunteers_def by (auto simp: getE_run returnE_run elim!: bindE_InrE seqE_InrE)
  note rows = volunteersL.insertRows_Inr [OF ins]
  have len: "length vols = 6" using rows by (auto dest!: list_all2_lengthD simp: seed_volunteers_def)
  then obtain v vs where vols: "vols = v # vs" by (cases vols) auto
  have "profileId v = Some pid" using rows by (auto simp: vols seed_volunteers_def blank_volunteer_def)
  moreover have "v \<in> set (trows (volunteersT s2))"
    using trail_labels [OF trail] rows by (auto simp: trail_grows_def rows_of_def vols)
  moreover obtain ts where ts: "insertRows volunteerTasksD (seed_volunteerTasks pid (clock s) (map row_id vols)) s2 = (Inr ts, s3)"
    using tasks len by (auto elim!: voidE_InrE)
  have "\<exists>t \<in> set ts. vt_volunteerId t = Some (row_id v)"
    using volunteerTasksL.insertRows_Inr [OF ts]
    by (auto simp: seed_volunteerTasks_def vols list_all2_Cons1 blank_volunteerTask_def)
  then have "\<exists>t \<in> set (trows (volunteerTasksT s3)). vt_volunteerId t = Some (row_id v)"
    using volunteerTasksL.insertRows_Inr [OF ts] by (auto simp: rows_of_def)
  moreover have "volunteersT s3 = volunteersT s2"
    using volunteerTasksL.insertRows_frame [of "seed_volunteerTasks pid (clock s) (map row_id vols)" s2] ts by auto
  ultimately show "tasked pid s'" by (auto simp: s' tasked_def list_ex_iff)
qed

lemma tasked_rows:
  assumes "\<And>now. preserves (tasked pid) (insertRows D (mks now))"
  shows "achieves (tasked pid) (seedRows D mks clock) (tasked pid)"
  unfolding seedRows_def by (intro keeps_bind achieves_get achieves_void achieves_preserved assms)

lemma tasked_parts:
  "preserves (tasked pid) (seedPetition p)" "preserves (tasked pid) (seedDiaspora p)"
  "preserves (tasked pid) (seedStakeholders p)" "preserves (tasked pid) (seedPollingUnits p)"
  "preserves (tasked pid) (logSeed p subj n)"
  unfolding seedPetition_def seedDiaspora_def seedStakeholders_def seedPollingUnits_def logSeed_def logDataAccess_def
  by (intro preserves_intros tasked_trail petitionsL.unaffected(2) petitionSignaturesL.unaffected(2)
      diasporaContactsL.unaffected(2) stakeholderContactsL.unaffected(2) pollingUnitsL.unaffected(3)
      campaignPuAssignmentsL.unaffected(1) dataAccessAuditL.unaffected(1) tasked_put)+

lemma gives_later_bind: "(\<And>x. achieves (\<lambda>_. True) (f x) Q) \<Longrightarrow> achieves (\<lambda>_. True) (bindE m f) Q"
  by (rule achieves_bind [where Q = "\<lambda>_. True"]) (simp_all add: achieves_def)

lemma fill_tasked: "achieves (\<lambda>_. True) (fillCampaign rnd pid) (tasked pid)"
  unfolding fillCampaign_def
  by (rule gives_later, rule gives_later_bind, rule achieves_bind [OF seed_volunteers_tasked];
      intro keeps_seq keeps_bind tasked_rows achieves_preserved [OF tasked_parts(1)] achieves_preserved [OF tasked_parts(2)]
        achieves_preserved [OF tasked_parts(3)] achieves_preserved [OF tasked_parts(4)] achieves_preserved [OF tasked_parts(5)]
        pressReleasesL.unaffected(2) socialMediaPostsL.unaffected(2) complianceItemsL.unaffected(2)
        oppositionResearchL.unaffected(2) warRoomIncidentsL.unaffected(2) electionResultsL.unaffected(2)
        manifestoSectionsL.unaffected(2) endorsementsL.unaffected(2) fundraisingTransactionsL.unaffected(2)
        budgetItemsL.unaffected(2) mediaItemsL.unaffected(2) debatePracticeScoresL.unaffected(2) fieldAgentsL.unaffected(2)
        debatePrepNotesL.unaffected(2) tasked_put)

lemma tasked_blocks_clear:
  assumes "tasked pid s"
  shows "clearCampaign pid s = (Inl (PgError ForeignKeyViolation), s)"
proof -
  obtain v where v: "v \<in> set (trows (volunteersT s))" "ownedBy pid v"
      "list_ex (\<lambda>t. vt_volunteerId t = Some (row_id v)) (trows (volunteerTasksT s))"
    using assms by (auto simp: tasked_def list_ex_iff ownedBy_def)
  have "\<exists>x s1. deleteRows timelineEventsD (ownedBy pid) s = (Inr x, s1) \<and> volunteersT s1 = volunteersT s \<and> volunteerTasksT s1 = volunteerTasksT s"
    by (simp add: deleteRows_def Let_def timelineEventsD_def list_all_iff)
  then obtain x s1 where one: "deleteRows timelineEventsD (ownedBy pid) s = (Inr x, s1)" "volunteersT s1 = volunteersT s"
      "volunteerTasksT s1 = volunteerTasksT s" by blast
  have "\<exists>y s2. deleteRows voterRegistrationsD (ownedBy pid) s1 = (Inr y, s2) \<and> volunteersT s2 = volunteersT s \<and> volunteerTasksT s2 = volunteerTasksT s"
    by (simp add: deleteRows_def Let_def voterRegistrationsD_def list_all_iff one)
  then obtain y s2 where two: "deleteRows voterRegistrationsD (ownedBy pid) s1 = (Inr y, s2)" "volunteersT s2 = volunteersT s"
      "volunteerTasksT s2 = volunteerTasksT s" by blast
  have "deleteRows volunteersD (ownedBy pid) s2 = (Inl (PgError ForeignKeyViolation), s2)"
    using v by (auto simp: deleteRows_def Let_def volunteersD_def list_all_iff list_ex_iff two)
  with one two show ?thesis by (simp add: clearCampaign_def transactionE_def seqE_run)
qed

text \<open>The fixtures can be loaded once. A second load into the same campaign is refused by the database, because the clearing
  transaction deletes the volunteers before the tasks that refer to them; the refusal leaves every row where it was, and
  only the campaign's seeded mark may be written.\<close>

lemma second_seed_refused:
  assumes "seedProfileData fx rnd pid s = (Inr x, s')" and "conn s"
    and "isFixtureSeedingAllowed fx'" and "conn s'"
  shows "\<exists>e t. seedProfileData fx' rnd' pid s' = (Inl (PgError e), s'\<lparr>candidateProfilesT := t\<rparr>)"
proof -
  have "isFixtureSeedingAllowed fx" using seed_labels(1) [OF assms(1,2)] .
  with assms(1,2) have "seqE (updateRows candidateProfilesD (\<lambda>r. row_id r = pid) (\<lambda>r. r\<lparr>cp_isSeeded := Some True\<rparr>))
      (seqE (clearCampaign pid) (fillCampaign rnd pid)) s = (Inr x, s')"
    by (simp add: seedProfileData_def withDb_run)
  then have "tasked pid s'" by (rule achievesD [OF gives_later [OF gives_later [OF fill_tasked]] TrueI])
  then have blocked: "clearCampaign pid (tput candidateProfilesD t s') = (Inl (PgError ForeignKeyViolation), tput candidateProfilesD t s')" for t
    by (intro tasked_blocks_clear) (simp only: tasked_put)
  obtain r t where mark: "updateRows candidateProfilesD (\<lambda>r. row_id r = pid) (\<lambda>r. r\<lparr>cp_isSeeded := Some True\<rparr>) s' =
      (r, tput candidateProfilesD t s')"
    using candidateProfilesL.update_frame [of "\<lambda>r. row_id r = pid" "\<lambda>r. r\<lparr>cp_isSeeded := Some True\<rparr>" s']
    by (metis prod.collapse)
  show ?thesis
  proof (cases r)
    case (Inl e)
    then have "e = PgError CheckViolation" using mark by (auto simp: updateRows_def Let_def split: if_splits)
    with Inl mark assms(3,4) show ?thesis by (auto simp: seedProfileData_def withDb_run seqE_run)
  next
    case (Inr y)
    with mark blocked assms(3,4) show ?thesis by (auto simp: seedProfileData_def withDb_run seqE_run)
  qed
qed

end
