(* ===== verification/App_Router.thy ===== *)
theory App_Router
  imports Rate_Limit War_Room Survey_Panel Polling_Units Petitions Finance Outreach Planning Team Assistants War_Room_Stream
    Local_Auth Seed_Data
begin

text \<open>
  The whole API: \<open>appRouter\<close> of \<^verbatim>\<open>server/routers.ts\<close> as the set of programs a caller can have executed, one
  rule per procedure, with its arguments arbitrary. It composes the component theories: whatever anybody calls, ids
  stay unique, and what callers without a role on a campaign call leaves the data of that campaign alone.
  \<open>team.confirmAccept\<close>, by which a caller obtains a role, is treated separately, and so are the endpoints beside the
  router: sign-in, the change of a password and the lookup of the caller behind a cookie. \<open>auth.logout\<close> only clears a
  cookie of the response (\<open>Session_Auth\<close>).
\<close>

section \<open>The procedures\<close>

inductive appRouter :: "sessionUser option \<Rightarrow> (world, unit) proc \<Rightarrow> bool" where
  auth_me_rule: "appRouter u (voidE (auth_me u))"
| profile_get_rule: "appRouter u (voidE (profile_get u))"
| profile_update_rule: "appRouter u (voidE (profile_update u i d))"
| timeline_list_rule: "appRouter u (voidE (timeline_list u raw))"
| timeline_upsert_rule: "appRouter u (voidE (timeline_upsert u raw d))"
| timeline_delete_rule: "appRouter u (voidE (timeline_delete u i))"
| voters_list_rule: "appRouter u (voidE (voters_list u raw purpose))"
| voters_add_rule: "appRouter u (voidE (voters_add u raw d meta))"
| voters_bulkImport_rule: "appRouter u (voidE (voters_bulkImport u raw rows meta))"
| dataProtection_recordConsent_rule: "appRouter u (voidE (dataProtection_recordConsent u raw d))"
| dataProtection_withdrawConsent_rule: "appRouter u (voidE (dataProtection_withdrawConsent u raw consentId))"
| dataProtection_consentStatus_rule: "appRouter u (voidE (dataProtection_consentStatus u raw subj sid))"
| dataProtection_provenance_rule: "appRouter u (voidE (dataProtection_provenance u raw subj sid))"
| dataProtection_fileDsar_rule: "appRouter u (voidE (dataProtection_fileDsar u raw d))"
| dataProtection_listDsars_rule: "appRouter u (voidE (dataProtection_listDsars u raw status))"
| dataProtection_resolveDsar_rule: "appRouter u (voidE (dataProtection_resolveDsar u raw dsarId action reason))"
| dataProtection_transparencyReport_rule: "appRouter u (voidE (dataProtection_transparencyReport u raw))"
| analytics_enrollPanelist_rule: "appRouter u (voidE (analytics_enrollPanelist u raw d))"
| analytics_recordResponses_rule: "appRouter u (voidE (analytics_recordResponses u raw panelistId instrument responses))"
| analytics_createMessageTest_rule: "appRouter u (voidE (analytics_createMessageTest u raw name channel variants))"
| analytics_recordEvent_rule: "appRouter u (voidE (analytics_recordEvent u raw variantId eventType))"
| pollingUnits_list_rule: "appRouter u (voidE (pollingUnits_list u raw))"
| pollingUnits_upsert_rule: "appRouter u (voidE (pollingUnits_upsert u raw d))"
| pollingUnits_bulkImport_rule: "appRouter u (voidE (pollingUnits_bulkImport u raw rows))"
| volunteers_list_rule: "appRouter u (voidE (volunteers_list u raw))"
| volunteers_add_rule: "appRouter u (voidE (volunteers_add u raw d))"
| volunteers_updateStatus_rule: "appRouter u (voidE (volunteers_updateStatus u i status))"
| pressRelease_list_rule: "appRouter u (voidE (pressRelease_list u raw))"
| pressRelease_save_rule: "appRouter u (voidE (pressRelease_save u raw d))"
| pressRelease_aiDraft_rule: "appRouter u (voidE (pressRelease_aiDraft ask u raw template headline keyPoints tone))"
| socialMedia_list_rule: "appRouter u (voidE (socialMedia_list u raw))"
| socialMedia_save_rule: "appRouter u (voidE (socialMedia_save u raw d))"
| socialMedia_aiGenerate_rule: "appRouter u (voidE (socialMedia_aiGenerate ask u platform topic tone))"
| compliance_list_rule: "appRouter u (voidE (compliance_list u raw))"
| compliance_upsert_rule: "appRouter u (voidE (compliance_upsert u raw d))"
| compliance_presets_rule: "appRouter u (voidE (compliance_presets u raw))"
| compliance_loadPresets_rule: "appRouter u (voidE (compliance_loadPresets u raw))"
| opposition_list_rule: "appRouter u (voidE (opposition_list u raw))"
| opposition_upsert_rule: "appRouter u (voidE (opposition_upsert u raw d))"
| opposition_aiAnalyze_rule: "appRouter u (voidE (opposition_aiAnalyze ask u d))"
| warRoom_incidents_rule: "appRouter u (voidE (warRoom_incidents u raw))"
| warRoom_addIncident_rule: "appRouter u (voidE (warRoom_addIncident u raw d))"
| warRoom_updateIncidentStatus_rule: "appRouter u (voidE (warRoom_updateIncidentStatus u i status inputProfile))"
| warRoom_assignIncident_rule: "appRouter u (voidE (warRoom_assignIncident u i assignedTo inputProfile))"
| warRoom_escalateIncident_rule: "appRouter u (voidE (warRoom_escalateIncident u i escalatedTo note inputProfile))"
| warRoom_resolveIncident_rule: "appRouter u (voidE (warRoom_resolveIncident u i inputProfile))"
| warRoom_incidentAudit_rule: "appRouter u (voidE (warRoom_incidentAudit u incidentId))"
| warRoom_agents_rule: "appRouter u (voidE (warRoom_agents u raw))"
| warRoom_checkIn_rule: "appRouter u (voidE (warRoom_checkIn u raw agentId votersCounted))"
| warRoom_silentAgents_rule: "appRouter u (voidE (warRoom_silentAgents u raw thresholdMinutes))"
| warRoom_upsertAgent_rule: "appRouter u (voidE (warRoom_upsertAgent u raw d))"
| results_list_rule: "appRouter u (voidE (results_list u raw))"
| results_add_rule: "appRouter u (voidE (results_add u raw d))"
| manifesto_list_rule: "appRouter u (voidE (manifesto_list u raw))"
| manifesto_upsert_rule: "appRouter u (voidE (manifesto_upsert u raw d))"
| manifesto_delete_rule: "appRouter u (voidE (manifesto_delete u i))"
| petitions_list_rule: "appRouter u (voidE (petitions_list u raw))"
| petitions_create_rule: "appRouter u (voidE (petitions_create u raw title description target))"
| petitions_signatures_rule: "appRouter u (voidE (petitions_signatures u petitionId))"
| petitions_signatureCount_rule: "appRouter u (voidE (petitions_signatureCount u petitionId))"
| petitions_signatureStats_rule: "appRouter u (voidE (petitions_signatureStats u petitionId))"
| petitions_verifySignature_rule: "appRouter u (voidE (petitions_verifySignature u signatureId petitionId))"
| petitions_sign_rule: "appRouter u (voidE (petitions_sign digest u petitionId name phone lga))"
| petitions_getPublic_rule: "appRouter u (voidE (petitions_getPublic petitionId))"
| petitions_publicSign_rule: "appRouter u (voidE (petitions_publicSign digest reqIp remote petitionId name phone lga))"
| diaspora_list_rule: "appRouter u (voidE (diaspora_list u raw))"
| diaspora_add_rule: "appRouter u (voidE (diaspora_add u raw d))"
| diaspora_aiDraft_rule: "appRouter u (voidE (diaspora_aiDraft ask u raw d))"
| endorsements_list_rule: "appRouter u (voidE (endorsements_list u raw))"
| endorsements_add_rule: "appRouter u (voidE (endorsements_add u raw d))"
| fundraising_list_rule: "appRouter u (voidE (fundraising_list u raw))"
| fundraising_add_rule: "appRouter u (voidE (fundraising_add cfg u raw d))"
| budget_list_rule: "appRouter u (voidE (budget_list u raw))"
| budget_upsert_rule: "appRouter u (voidE (budget_upsert u raw d))"
| budget_delete_rule: "appRouter u (voidE (budget_delete u i))"
| budget_caps_rule: "appRouter u (voidE (budget_caps u raw))"
| budget_setCap_rule: "appRouter u (voidE (budget_setCap u raw office amount notes))"
| budget_ledger_rule: "appRouter u (voidE (budget_ledger u raw))"
| budget_disclosureReport_rule: "appRouter u (voidE (budget_disclosureReport u raw office))"
| media_list_rule: "appRouter u (voidE (media_list u raw))"
| media_add_rule: "appRouter u (voidE (media_add u raw d))"
| media_delete_rule: "appRouter u (voidE (media_delete u i))"
| media_updateCompliance_rule: "appRouter u (voidE (media_updateCompliance u raw i status notes))"
| debate_list_rule: "appRouter u (voidE (debate_list u raw))"
| debate_upsert_rule: "appRouter u (voidE (debate_upsert u raw d))"
| debate_aiPrep_rule: "appRouter u (voidE (debate_aiPrep ask u raw d))"
| debateScores_list_rule: "appRouter u (voidE (debateScores_list u raw))"
| debateScores_add_rule: "appRouter u (voidE (debateScores_add u raw d))"
| stakeholders_list_rule: "appRouter u (voidE (stakeholders_list u raw))"
| stakeholders_upsert_rule: "appRouter u (voidE (stakeholders_upsert u raw d))"
| stakeholders_delete_rule: "appRouter u (voidE (stakeholders_delete u i))"
| simulation_history_rule: "appRouter u (voidE (simulation_history u raw))"
| simulation_save_rule: "appRouter u (voidE (simulation_save u raw d))"
| simulation_narrative_rule: "appRouter u (voidE (simulation_narrative num loc ask u d))"
| dashboard_kpis_rule: "appRouter u (voidE (dashboard_kpis u raw))"
| dashboard_electionDate_rule: "appRouter u (voidE (dashboard_electionDate u raw))"
| team_list_rule: "appRouter u (voidE (team_list u raw))"
| team_myRole_rule: "appRouter u (voidE (team_myRole u raw))"
| team_invite_rule: "appRouter u (voidE (team_invite isEmail isUrl digest token u raw d))"
| team_acceptInvite_rule: "appRouter u (voidE (team_acceptInvite digest token))"
| team_updateRole_rule: "appRouter u (voidE (team_updateRole u memberId role))"
| team_remove_rule: "appRouter u (voidE (team_remove u memberId))"
| notifications_status_rule: "appRouter u (voidE (notifications_status svc u raw))"
| notifications_enable_rule: "appRouter u (voidE (notifications_enable svc u raw))"
| notifications_disable_rule: "appRouter u (voidE (notifications_disable svc u raw))"
| notifications_testAlert_rule: "appRouter u (voidE (notifications_testAlert day u raw))"
| manifestoAI_draft_rule: "appRouter u (voidE (manifestoAI_draft ask u raw policyArea brief tone))"
| volunteerTasks_list_rule: "appRouter u (voidE (volunteerTasks_list u raw))"
| volunteerTasks_create_rule: "appRouter u (voidE (volunteerTasks_create u raw d))"
| volunteerTasks_updateStatus_rule: "appRouter u (voidE (volunteerTasks_updateStatus u i status))"
| volunteerTasks_delete_rule: "appRouter u (voidE (volunteerTasks_delete u i))"
| tribunal_list_rule: "appRouter u (voidE (tribunal_list u raw))"
| tribunal_upsert_rule: "appRouter u (voidE (tribunal_upsert u raw d))"
| tribunal_delete_rule: "appRouter u (voidE (tribunal_delete u raw i))"
| candidateWebsite_publish_rule: "appRouter u (voidE (candidateWebsite_publish storagePut u raw htmlContent candidateName))"
| system_notifyOwner_rule: "appRouter u (voidE (system_notifyOwner u title content))"
| seed_all_rule: "appRouter u (voidE (seed_all fx rnd u raw))"

text \<open>The account endpoints of Express (\<open>localAuth.ts\<close>), and the context that is made for every request.\<close>

inductive accountEndpoint :: "(world, unit) proc \<Rightarrow> bool" where
  login_rule: "accountEndpoint (voidE (login pe env L req rawUsername rawPassword))"
| changePassword_rule: "accountEndpoint (voidE (changePassword env L salt req rawCurrent rawNew))"
| context_rule: "accountEndpoint (voidE (requestContext env L req))"

section \<open>Isolation of campaigns\<close>

lemma wf_profile_procedures [preserves_intros]:
  "preserves wf_ids (profile_get u)"
  "preserves wf_ids (profile_update u i d)"
  unfolding profile_get_def profile_update_def by (intro preserves_intros)+

lemma appRouter_wf: "appRouter u m \<Longrightarrow> preserves wf_ids m"
  by (induction rule: appRouter.induct; intro preserves_intros)

lemma appRouter_outsider: "appRouter u m \<Longrightarrow> follows (outsider u q) m"
  by (induction rule: appRouter.induct; intro outsider_step.voidE outsider_profile_get outsider_profile_update outsider_intros)

lemma requestContext_state: "snd (requestContext env L req s) = snd (authenticateRequest env L req s)"
  by (simp add: requestContext_def split: prod.splits sum.splits)

lemma wf_accounts [preserves_intros]:
  "preserves wf_ids (getUserMfaEnabled L i)"
  "preserves wf_ids (login pe env L req n p)"
  "preserves wf_ids (changePassword env L salt req c p)"
  "preserves wf_ids (requestContext env L req)"
proof -
  show mfa: "preserves wf_ids (getUserMfaEnabled L i)" for i
    unfolding getUserMfaEnabled_def by (intro preserves_intros)
  show "preserves wf_ids (login pe env L req n p)"
    unfolding login_def Let_def signSession_def by (auto intro!: preserves_intros mfa split: option.splits sum.splits bool.splits)
  show "preserves wf_ids (changePassword env L salt req c p)"
    unfolding changePassword_def Let_def by (auto intro!: preserves_intros split: option.splits sum.splits bool.splits)
  show "preserves wf_ids (requestContext env L req)"
    using wf_authenticate(2) by (simp add: preserves_def requestContext_state)
qed

lemma outsider_accounts [outsider_intros]:
  "follows (outsider u q) (authenticateRequest env L req)"
  "follows (outsider u q) (login pe env L req n p)"
  "follows (outsider u q) (changePassword env L salt req c p)"
  "follows (outsider u q) (requestContext env L req)"
proof -
  have sync: "follows (outsider u q) (syncFromOAuth env L t)" for t
    unfolding syncFromOAuth_def getUserInfoWithJwt_def getUserByOpenId_def getUserByUsername_def upsertUser_def Let_def
    by (auto intro!: outsider_intros split: sum.splits)
  show auth: "follows (outsider u q) (authenticateRequest env L req)"
    unfolding authenticateRequest_def verifySession_def getUserInfoWithJwt_def getUserByOpenId_def getUserByUsername_def Let_def
    by (auto intro!: outsider_intros sync split: option.splits sum.splits)
  show "follows (outsider u q) (login pe env L req n p)"
    unfolding login_def Let_def signSession_def getUserMfaEnabled_def getUserByUsername_def
    by (auto intro!: outsider_intros split: option.splits sum.splits bool.splits)
  show "follows (outsider u q) (changePassword env L salt req c p)"
    unfolding changePassword_def Let_def updateUserPassword_def getUserByUsername_def
    by (auto intro!: outsider_intros auth split: option.splits sum.splits bool.splits)
  show "follows (outsider u q) (requestContext env L req)"
    using auth by (simp add: follows_def requestContext_state)
qed

lemma accountEndpoint_frame:
  "accountEndpoint m \<Longrightarrow> preserves wf_ids m"
  "accountEndpoint m \<Longrightarrow> follows (outsider u q) m"
  by (induction rule: accountEndpoint.induct; intro preserves_intros outsider_intros)+

text \<open>A sequence of calls by callers who hold no role on campaign \<open>q\<close> and accept no invitation to it, at any times.\<close>

inductive outside_run :: "(string \<Rightarrow> string) \<Rightarrow> int \<Rightarrow> world \<Rightarrow> world \<Rightarrow> bool" for digest q where
  stop: "outside_run digest q s s"
| call: "appRouter u m \<Longrightarrow> no_role u q s \<Longrightarrow> outside_run digest q (snd (m s)) s' \<Longrightarrow> outside_run digest q s s'"
| accept: "no_role u q s \<Longrightarrow> not_invited (digest token) q s \<Longrightarrow>
    outside_run digest q (snd (team_confirmAccept isEmail digest u token email s)) s' \<Longrightarrow> outside_run digest q s s'"
| account: "accountEndpoint m \<Longrightarrow> outside_run digest q (snd (m s)) s' \<Longrightarrow> outside_run digest q s s'"
| tick: "outside_run digest q (s\<lparr>clock := t\<rparr>) s' \<Longrightarrow> outside_run digest q s s'"

lemma clock_frame:
  "wf_ids (s\<lparr>clock := t\<rparr>) = wf_ids s" "same_tenant q s (s\<lparr>clock := t\<rparr>)" "profile_rows q (s\<lparr>clock := t\<rparr>) = profile_rows q s"
  by (simp_all add: wf_ids_def same_tenant_def tenant_rows_def profile_rows_def)

lemma outsider_stepD:
  assumes "outsider u q s s'" "wf_ids s" "profile_rows q s \<noteq> []" "no_role u q s"
  shows "wf_ids s'" "same_tenant q s s'" "profile_rows q s' \<noteq> []"
  using assms same_tenantD(1) [of q s s'] by (simp_all add: outsider_def outsider_at_def)


text \<open>Any sequence of calls, by anybody.\<close>

inductive api_run :: "(string \<Rightarrow> string) \<Rightarrow> world \<Rightarrow> world \<Rightarrow> bool" for digest where
  stop: "api_run digest s s"
| call: "appRouter u m \<Longrightarrow> api_run digest (snd (m s)) s' \<Longrightarrow> api_run digest s s'"
| accept: "api_run digest (snd (team_confirmAccept isEmail digest u token email s)) s' \<Longrightarrow> api_run digest s s'"
| silentAgents: "api_run digest (snd (scheduled_silentAgentScan isCron threshold s)) s' \<Longrightarrow> api_run digest s s'"
| deadlines: "api_run digest (snd (scheduled_deadlineCheck isCron s)) s' \<Longrightarrow> api_run digest s s'"
| account: "accountEndpoint m \<Longrightarrow> api_run digest (snd (m s)) s' \<Longrightarrow> api_run digest s s'"
| tick: "api_run digest (s\<lparr>clock := t\<rparr>) s' \<Longrightarrow> api_run digest s s'"


section \<open>Concrete runs\<close>

definition demo_entry :: timelineData where
  "demo_entry = \<lparr>tl_id = None, tl_title = ''Rally'', tl_description = None, tl_eventDate = 10, tl_category = None, tl_status = None,
     tl_location = None, tl_priority = None\<rparr>"

lemma demo_world_wf: "wf_ids demo_world" "profile_rows 1 demo_world \<noteq> []" "no_role (Some bola) 1 demo_world"
  by (simp_all add: wf_ids_def ids_distinct_def profile_rows_def no_role_def tenant_rows_def demo_world_def empty_world_def no_rows_def
      demo_user_def demo_profile_def)



end
