(* ===== verification/Forge_Services.thy ===== *)
theory Forge_Services
  imports Assistants Session_Auth
begin

text \<open>
  The clients of the Forge services: scheduled jobs (\<^verbatim>\<open>server/_core/heartbeat.ts\<close>), object storage
  (\<^verbatim>\<open>server/storage.ts\<close>), the storage proxy with its session guard (\<^verbatim>\<open>server/_core/storageProxy.ts\<close>) and
  the list of language models (\<^verbatim>\<open>server/_core/llm.ts\<close>). The services themselves are a parameter, a function
  from requests to outcomes.
\<close>

section \<open>Requests to a service\<close>

text \<open>A request keeps the base address, the path and the query apart, which \<open>URL\<close> joins. The reply's text is
  \<open>None\<close> when reading the body fails.\<close>

record forgeRequest =
  fq_method :: string
  fq_base :: string
  fq_path :: string
  fq_query :: "(string \<times> string) list"
  fq_headers :: "(string \<times> string) list"
  fq_body :: "string option"

record forgeReply =
  fr_status :: int
  fr_statusText :: string
  fr_text :: "string option"

datatype forgeOutcome = ForgeReplied forgeReply | ForgeFailed string

record forge =
  fg_validBase :: "string \<Rightarrow> bool" \<comment> \<open>whether \<open>new URL\<close> accepts the base\<close>
  fg_fetch :: "forgeRequest \<Rightarrow> forgeOutcome"

definition fr_ok :: "forgeReply \<Rightarrow> bool" where
  "fr_ok r \<longleftrightarrow> 200 \<le> fr_status r \<and> fr_status r \<le> 299"

definition reply_json :: "forgeReply \<Rightarrow> error + json" where
  "reply_json r =
     (case fr_text r of
        None \<Rightarrow> Inl (OtherError ''TypeError: terminated'')
      | Some t \<Rightarrow> (case jsonParse t of None \<Rightarrow> Inl (OtherError ''SyntaxError'') | Some v \<Rightarrow> Inr v))"

definition INVALID_URL :: error where "INVALID_URL = OtherError ''TypeError: Invalid URL''"

section \<open>Scheduled jobs\<close>

definition SERVICE :: string where "SERVICE = ''webdevtoken.v1.WebDevService''"

definition with_slash :: "string \<Rightarrow> string" where
  "with_slash base = (if base \<noteq> [] \<and> last base = CHR ''/'' then base else base @ ''/'')"

definition buildEndpoint :: "serverEnv \<Rightarrow> forge \<Rightarrow> string \<Rightarrow> error + string \<times> string" where
  "buildEndpoint env F rpc =
     (if forgeApiUrl env = []
      then Inl (TRPC INTERNAL_SERVER_ERROR ''Heartbeat service URL is not configured (BUILT_IN_FORGE_API_URL).'')
      else if forgeApiKey env = []
      then Inl (TRPC INTERNAL_SERVER_ERROR ''Heartbeat service API key is not configured (BUILT_IN_FORGE_API_KEY).'')
      else let base = with_slash (forgeApiUrl env)
           in if \<not> fg_validBase F base then Inl INVALID_URL else Inr (base, SERVICE @ ''/'' @ rpc))"

definition mapForgeError :: "forgeReply \<Rightarrow> string \<Rightarrow> string \<Rightarrow> error" where
  "mapForgeError r detail rpc =
     (let status = fr_status r;
          code = (if status = 401 then UNAUTHORIZED
                  else if status = 403 then FORBIDDEN
                  else if status = 404 then NOT_FOUND
                  else if status = 400 \<or> status = 422 then BAD_REQUEST
                  else if status = 409 then CONFLICT
                  else if status = 429 then TOO_MANY_REQUESTS
                  else INTERNAL_SERVER_ERROR)
      in TRPC code (''Heartbeat '' @ rpc @ '' failed ('' @ show_int status @ '')'' @
           (if detail = [] then [] else '': '' @ detail)))"

definition callForge ::
  "serverEnv \<Rightarrow> forge \<Rightarrow> string \<Rightarrow> (string \<times> json) list \<Rightarrow> string \<Rightarrow> error + json" where
  "callForge env F rpc body userSession =
     (case buildEndpoint env F rpc of
        Inl e \<Rightarrow> Inl e
      | Inr (base, path) \<Rightarrow>
          (case fg_fetch F \<lparr>fq_method = ''POST'', fq_base = base, fq_path = path, fq_query = [],
              fq_headers =
                [(''accept'', ''application/json''), (''authorization'', ''Bearer '' @ forgeApiKey env),
                 (''content-type'', ''application/json''), (''connect-protocol-version'', ''1'')] @
                (if userSession = [] then [] else [(''x-manus-user-session'', userSession)]),
              fq_body = Some (stringify (JObj body))\<rparr> of
             ForgeFailed e \<Rightarrow>
               Inl (TRPC INTERNAL_SERVER_ERROR (''Heartbeat '' @ rpc @ '' network error: '' @ e))
           | ForgeReplied r \<Rightarrow>
               if \<not> fr_ok r then Inl (mapForgeError r (nullish (fr_text r) []) rpc) else reply_json r))"

text \<open>A payload that was not given is \<open>None\<close>.\<close>

definition stringifyPayload :: "json option \<Rightarrow> string" where
  "stringifyPayload payload =
     (case payload of
        None \<Rightarrow> ''{}''
      | Some JNull \<Rightarrow> ''{}''
      | Some (JStr s) \<Rightarrow> s
      | Some v \<Rightarrow> stringify v)"

record jobRequest =
  jr_name :: string
  jr_cron :: string
  jr_path :: string
  jr_method :: "string option"
  jr_payload :: "json option"
  jr_description :: "string option"

record jobPatch =
  jt_cron :: "string option"
  jt_path :: "string option"
  jt_method :: "string option"
  jt_payload :: "json option"
  jt_description :: "string option"
  jt_enable :: "bool option"

definition bad_path :: error where
  "bad_path = TRPC BAD_REQUEST ''callback path must start with /api/scheduled/''"

definition createHeartbeatJob :: "serverEnv \<Rightarrow> forge \<Rightarrow> jobRequest \<Rightarrow> string \<Rightarrow> error + json" where
  "createHeartbeatJob env F job userSession =
     (if \<not> starts_with (jr_path job) ''/api/scheduled/'' then Inl bad_path
      else callForge env F ''CreateHeartbeatJob''
        [(''name'', JStr (jr_name job)), (''cronExpression'', JStr (jr_cron job)),
         (''callbackPath'', JStr (jr_path job)),
         (''callbackMethod'', JStr (nullish (jr_method job) ''POST'')),
         (''callbackPayload'', JStr (stringifyPayload (jr_payload job))),
         (''description'', JStr (nullish (jr_description job) []))] userSession)"

definition field_opt :: "string \<Rightarrow> ('a \<Rightarrow> json) \<Rightarrow> 'a option \<Rightarrow> (string \<times> json) list" where
  "field_opt k f x = (case x of None \<Rightarrow> [] | Some v \<Rightarrow> [(k, f v)])"

definition updateHeartbeatJob :: "serverEnv \<Rightarrow> forge \<Rightarrow> string \<Rightarrow> jobPatch \<Rightarrow> string \<Rightarrow> error + json" where
  "updateHeartbeatJob env F taskUid patch userSession =
     (if (case jt_path patch of None \<Rightarrow> False | Some p \<Rightarrow> \<not> starts_with p ''/api/scheduled/'') then Inl bad_path
      else callForge env F ''UpdateHeartbeatJob''
        ([(''taskUid'', JStr taskUid)] @ field_opt ''cronExpression'' JStr (jt_cron patch) @
         field_opt ''callbackPath'' JStr (jt_path patch) @ field_opt ''callbackMethod'' JStr (jt_method patch) @
         field_opt ''callbackPayload'' (\<lambda>v. JStr (stringifyPayload (Some v))) (jt_payload patch) @
         field_opt ''description'' JStr (jt_description patch) @ field_opt ''enable'' json.JBool (jt_enable patch))
        userSession)"

definition deleteHeartbeatJob :: "serverEnv \<Rightarrow> forge \<Rightarrow> string \<Rightarrow> string \<Rightarrow> error + unit" where
  "deleteHeartbeatJob env F taskUid userSession =
     map_sum id (\<lambda>_. ()) (callForge env F ''DeleteHeartbeatJob'' [(''taskUid'', JStr taskUid)] userSession)"

definition listHeartbeatJobs :: "serverEnv \<Rightarrow> forge \<Rightarrow> string \<Rightarrow> int option \<Rightarrow> int option \<Rightarrow> error + json" where
  "listHeartbeatJobs env F userSession page pageSize =
     callForge env F ''ListHeartbeatJobs''
       (field_opt ''page'' (\<lambda>i. JNum (i, 0)) page @ field_opt ''pageSize'' (\<lambda>i. JNum (i, 0)) pageSize) userSession"

section \<open>Object storage\<close>

definition strip_slashes :: "string \<Rightarrow> string" where
  "strip_slashes s = rev (dropWhile (\<lambda>c. c = CHR ''/'') (rev s))"

definition getForgeConfig :: "serverEnv \<Rightarrow> error + string \<times> string" where
  "getForgeConfig env =
     (if forgeApiUrl env = [] \<or> forgeApiKey env = []
      then Inl (PlainError ''Storage config missing: set BUILT_IN_FORGE_API_URL and BUILT_IN_FORGE_API_KEY'')
      else Inr (strip_slashes (forgeApiUrl env), forgeApiKey env))"

definition normalizeKey :: "string \<Rightarrow> string" where
  "normalizeKey relKey = dropWhile (\<lambda>c. c = CHR ''/'') relKey"

text \<open>\<open>uuid\<close> is what \<open>crypto.randomUUID()\<close> returns; \<open>lastIndexOf(".")\<close> splits off the extension.\<close>

definition last_dot :: "string \<Rightarrow> nat option" where
  "last_dot s =
     (if CHR ''.'' \<in> set s then Some (length s - 1 - length (takeWhile (\<lambda>c. c \<noteq> CHR ''.'') (rev s))) else None)"

definition appendHashSuffix :: "string \<Rightarrow> string \<Rightarrow> string" where
  "appendHashSuffix uuid relKey =
     (let hash = take 8 (filter (\<lambda>c. c \<noteq> CHR ''-'') uuid)
      in case last_dot relKey of
           None \<Rightarrow> relKey @ ''_'' @ hash
         | Some i \<Rightarrow> take i relKey @ ''_'' @ hash @ drop i relKey)"

definition presignRequest :: "string \<Rightarrow> string \<Rightarrow> string \<Rightarrow> string \<Rightarrow> forgeRequest" where
  "presignRequest forgeUrl path key forgeKey =
     \<lparr>fq_method = ''GET'', fq_base = forgeUrl @ ''/'', fq_path = path, fq_query = [(''path'', key)],
      fq_headers = [(''Authorization'', ''Bearer '' @ forgeKey)], fq_body = None\<rparr>"

text \<open>\<open>const {url} = await resp.json()\<close>: destructuring throws on \<open>null\<close>; the field may be absent.\<close>

definition reply_url :: "forgeReply \<Rightarrow> error + json option" where
  "reply_url r =
     (case reply_json r of
        Inl e \<Rightarrow> Inl e
      | Inr json.JNull \<Rightarrow> Inl (OtherError ''TypeError'')
      | Inr (JObj fs) \<Rightarrow> Inr (map_of fs ''url'')
      | Inr _ \<Rightarrow> Inr None)"

definition storagePut ::
  "serverEnv \<Rightarrow> forge \<Rightarrow> string \<Rightarrow> string \<Rightarrow> string \<Rightarrow> string \<Rightarrow> error + string \<times> string" where
  "storagePut env F uuid relKey data contentType =
     (case getForgeConfig env of
        Inl e \<Rightarrow> Inl e
      | Inr (forgeUrl, forgeKey) \<Rightarrow>
          let key = appendHashSuffix uuid (normalizeKey relKey)
          in if \<not> fg_validBase F (forgeUrl @ ''/'') then Inl INVALID_URL
             else (case fg_fetch F (presignRequest forgeUrl ''v1/storage/presign/put'' key forgeKey) of
                ForgeFailed e \<Rightarrow> Inl (OtherError e)
              | ForgeReplied r \<Rightarrow>
                  if \<not> fr_ok r
                  then Inl (PlainError (''Storage presign failed ('' @ show_int (fr_status r) @ ''): '' @
                         nullish (fr_text r) (fr_statusText r)))
                  else (case reply_url r of
                     Inl e \<Rightarrow> Inl e
                   | Inr u \<Rightarrow>
                       if \<not> truthy_json u then Inl (PlainError ''Forge returned empty presign URL'')
                       else (case fg_fetch F \<lparr>fq_method = ''PUT'', fq_base = js_string (the u), fq_path = [], fq_query = [],
                               fq_headers = [(''Content-Type'', contentType)], fq_body = Some data\<rparr> of
                          ForgeFailed e \<Rightarrow> Inl (OtherError e)
                        | ForgeReplied up \<Rightarrow>
                            if \<not> fr_ok up
                            then Inl (PlainError (''Storage upload to S3 failed ('' @ show_int (fr_status up) @ '')''))
                            else Inr (key, ''/manus-storage/'' @ key)))))"

definition storageGet :: "string \<Rightarrow> string \<times> string" where
  "storageGet relKey = (let key = normalizeKey relKey in (key, ''/manus-storage/'' @ key))"

definition storageGetSignedUrl :: "serverEnv \<Rightarrow> forge \<Rightarrow> string \<Rightarrow> error + json option" where
  "storageGetSignedUrl env F relKey =
     (case getForgeConfig env of
        Inl e \<Rightarrow> Inl e
      | Inr (forgeUrl, forgeKey) \<Rightarrow>
          if \<not> fg_validBase F (forgeUrl @ ''/'') then Inl INVALID_URL
          else (case fg_fetch F (presignRequest forgeUrl ''v1/storage/presign/get'' (normalizeKey relKey) forgeKey) of
             ForgeFailed e \<Rightarrow> Inl (OtherError e)
           | ForgeReplied r \<Rightarrow>
               if \<not> fr_ok r
               then Inl (PlainError (''Storage signed URL failed ('' @ show_int (fr_status r) @ ''): '' @
                      nullish (fr_text r) (fr_statusText r)))
               else reply_url r))"

section \<open>The storage proxy\<close>

datatype proxyReply = ProxyError int string | ProxyRedirect string

definition PUBLIC_KEY_PREFIXES :: "string list" where
  "PUBLIC_KEY_PREFIXES = [''campaign-sites/'']"

definition is_public_key :: "string \<Rightarrow> bool" where
  "is_public_key key \<longleftrightarrow> list_ex (\<lambda>p. starts_with key p) PUBLIC_KEY_PREFIXES"

definition forwardToForge :: "serverEnv \<Rightarrow> forge \<Rightarrow> string \<Rightarrow> proxyReply" where
  "forwardToForge env F key =
     (if forgeApiUrl env = [] \<or> forgeApiKey env = [] then ProxyError 500 ''Storage proxy not configured''
      else
        let base = strip_slashes (forgeApiUrl env)
        in if \<not> fg_validBase F (base @ ''/'') then ProxyError 502 ''Storage proxy error''
           else (case fg_fetch F (presignRequest base ''v1/storage/presign/get'' key (forgeApiKey env)) of
              ForgeFailed _ \<Rightarrow> ProxyError 502 ''Storage proxy error''
            | ForgeReplied r \<Rightarrow>
                if \<not> fr_ok r then ProxyError 502 ''Storage backend error''
                else (case reply_url r of
                   Inl _ \<Rightarrow> ProxyError 502 ''Storage proxy error''
                 | Inr u \<Rightarrow>
                     if \<not> truthy_json u then ProxyError 502 ''Empty signed URL from backend''
                     else ProxyRedirect (js_string (the u)))))"

definition storageProxy ::
  "serverEnv \<Rightarrow> authLibs \<Rightarrow> forge \<Rightarrow> authRequest \<Rightarrow> string \<Rightarrow> (world, proxyReply) proc" where
  "storageProxy env L F req key =
     (if key = [] then returnE (ProxyError 400 ''Missing storage key'')
      else
        bindE (if is_public_key key then returnE True
               else catchE (bindE (authenticateRequest env L req) (\<lambda>_. returnE True)) (\<lambda>_. returnE False)) (\<lambda>ok.
        if \<not> ok then returnE (ProxyError 401 ''Authentication required for this storage key'')
        else returnE (forwardToForge env F key)))"

section \<open>The language models\<close>

definition strip_slash :: "string \<Rightarrow> string" where
  "strip_slash s = (if s \<noteq> [] \<and> last s = CHR ''/'' then butlast s else s)"

definition resolveApiUrl :: "serverEnv \<Rightarrow> string" where
  "resolveApiUrl env =
     (if forgeApiUrl env \<noteq> [] \<and> trim (forgeApiUrl env) \<noteq> []
      then strip_slash (forgeApiUrl env) @ ''/v1/chat/completions''
      else ''https://forge.manus.im/v1/chat/completions'')"

definition modelsUrl :: "serverEnv \<Rightarrow> string" where
  "modelsUrl env =
     (if forgeApiUrl env \<noteq> [] \<and> trim (forgeApiUrl env) \<noteq> []
      then strip_slash (forgeApiUrl env) @ ''/v1/models''
      else ''https://forge.manus.im/v1/models'')"

text \<open>The reply of a successful call is its body, as for \<open>invokeLLM\<close>.\<close>

definition listLLMModels ::
  "(string \<Rightarrow> nat \<Rightarrow> fetchOutcome) \<Rightarrow> (nat \<Rightarrow> rat) \<Rightarrow> time \<Rightarrow> serverEnv \<Rightarrow> error + string" where
  "listLLMModels svc rnd now env =
     (if forgeApiKey env = [] then Inl (PlainError ''BUILT_IN_FORGE_API_KEY is not configured'')
      else
        (case fst (fetchWithBackoff (svc (modelsUrl env)) rnd now) of
           Inl e \<Rightarrow> Inl e
         | Inr r \<Rightarrow>
             if reply_ok r then Inr (reply_text r)
             else Inl (PlainError (''List LLM models failed: '' @ show_int (reply_status r) @ '' '' @ reply_text r))))"

section \<open>Properties\<close>

lemma last_dot_split:
  assumes "CHR ''.'' \<notin> set b"
  shows "last_dot (a @ CHR ''.'' # b) = Some (length a)"
proof -
  have "takeWhile (\<lambda>c. c \<noteq> CHR ''.'') (rev b @ CHR ''.'' # rev a) = rev b"
    using assms by (subst takeWhile_append2) auto
  then show ?thesis by (simp add: last_dot_def)
qed

text \<open>The suffix goes before the extension, which is kept.\<close>

lemma appendHashSuffix_extension:
  assumes "CHR ''.'' \<notin> set b"
  shows "appendHashSuffix uuid (a @ CHR ''.'' # b) = a @ ''_'' @ take 8 (filter (\<lambda>c. c \<noteq> CHR ''-'') uuid) @ CHR ''.'' # b"
  using last_dot_split [OF assms, of a] by (simp add: appendHashSuffix_def Let_def)

lemma appendHashSuffix_longer: "length relKey < length (appendHashSuffix uuid relKey)"
  by (auto simp: appendHashSuffix_def Let_def split: option.splits)

lemma storagePut_key:
  "storagePut env F uuid relKey d ct = Inr (k, url) \<Longrightarrow>
   k = appendHashSuffix uuid (normalizeKey relKey) \<and> url = ''/manus-storage/'' @ k"
  by (auto simp: storagePut_def Let_def split: sum.splits prod.splits forgeOutcome.splits if_splits)

text \<open>The prefix of a key survives the suffix.\<close>

lemma site_key:
  "appendHashSuffix uuid (''campaign-sites/profile-'' @ show_int pid @ ''/index.html'') =
   ''campaign-sites/profile-'' @ show_int pid @ ''/index_'' @ take 8 (filter (\<lambda>c. c \<noteq> CHR ''-'') uuid) @ ''.html''"
  using appendHashSuffix_extension [of "''html''" uuid "''campaign-sites/profile-'' @ show_int pid @ ''/index''"] by simp

text \<open>A call that returns was answered with success by the service.\<close>

lemma callForge_accepted:
  assumes "callForge env F rpc body us = Inr v"
  obtains q r where "fg_fetch F q = ForgeReplied r" and "fr_ok r" and "reply_json r = Inr v"
    and "fq_body q = Some (stringify (JObj body))" and "forgeApiKey env \<noteq> []"
proof -
  obtain base path where end_point: "buildEndpoint env F rpc = Inr (base, path)" and "forgeApiKey env \<noteq> []"
    using assms by (auto simp: callForge_def buildEndpoint_def Let_def split: if_splits)
  then show thesis
    using assms that by (auto simp: callForge_def simp del: stringify.simps split: forgeOutcome.splits if_splits)
qed

text \<open>A job is only ever scheduled or moved to a path of the scheduler's endpoints.\<close>

lemma job_paths:
  "createHeartbeatJob env F job us = Inr v \<Longrightarrow> starts_with (jr_path job) ''/api/scheduled/''"
  "updateHeartbeatJob env F uid patch us = Inr v \<Longrightarrow> jt_path patch = Some p \<Longrightarrow> starts_with p ''/api/scheduled/''"
  by (auto simp: createHeartbeatJob_def updateHeartbeatJob_def split: if_splits)

lemma forward_needs_config: "forwardToForge env F key = ProxyRedirect u \<Longrightarrow> forgeApiUrl env \<noteq> [] \<and> forgeApiKey env \<noteq> []"
  by (auto simp: forwardToForge_def split: if_splits)

lemma storageProxy_public:
  "key \<noteq> [] \<Longrightarrow> is_public_key key \<Longrightarrow> storageProxy env L F req key s = (Inr (forwardToForge env F key), s)"
  by (simp add: storageProxy_def run_simps)

text \<open>A published candidate website is served to everyone without a session, under a key that is not the one the procedure
  reports.\<close>

lemma published_site_public:
  assumes "candidateWebsite_publish (\<lambda>k d. map_sum id snd (storagePut env F uuid k d ''text/html'')) u raw html name s =
      (Inr (url, reported), s')"
  obtains k where "url = ''/manus-storage/'' @ k" and "k \<noteq> reported"
    and "\<And>req t. storageProxy env L F req k t = (Inr (forwardToForge env F k), t)"
proof -
  obtain pid where reported: "reported = ''campaign-sites/profile-'' @ show_int pid @ ''/index.html''"
    and put: "map_sum id snd (storagePut env F uuid reported html ''text/html'') = Inr url"
    using assms unfolding candidateWebsite_publish_def
    by (rule scoped_InrE) (auto simp: Let_def liftE_def run_simps zodE_def split: sum.splits if_splits)
  then obtain k where k: "k = appendHashSuffix uuid (normalizeKey reported)" "url = ''/manus-storage/'' @ k"
    using storagePut_key by (fastforce simp: map_sum_def split: sum.splits)
  have norm: "normalizeKey reported = reported" by (simp add: reported normalizeKey_def)
  have "is_public_key k" "k \<noteq> []"
    using site_key [of uuid pid] k(1) norm by (simp_all add: reported is_public_key_def PUBLIC_KEY_PREFIXES_def starts_with_def)
  moreover have "k \<noteq> reported" using appendHashSuffix_longer [of reported uuid] k(1) norm by auto
  ultimately show thesis using that k(2) storageProxy_public by blast
qed

text \<open>C9: the storage proxy hands out the address of an object only under a public key or to an authenticated caller;
  everybody else gets the same refusal whatever the storage service would answer, so it is not consulted.\<close>

theorem storage_proxy_guard:
  assumes "\<not> is_public_key key" and "isl (fst (authenticateRequest env L req s))"
  shows "\<exists>code msg s'. code \<in> {400, 401} \<and> (\<forall>F. storageProxy env L F req key s = (Inr (ProxyError code msg), s'))"
proof (cases "key = []")
  case True
  then show ?thesis by (simp add: storageProxy_def run_simps)
next
  case False
  obtain e s' where "authenticateRequest env L req s = (Inl e, s')"
    using assms(2) by (cases "authenticateRequest env L req s") (auto simp: isl_def)
  with False assms(1) show ?thesis by (simp add: storageProxy_def run_simps catchE_def)
qed

theorem storage_proxy_guard_witness:
  "\<exists>code msg s'. code \<in> {400, 401} \<and>
     (\<forall>F. storageProxy example_env example_libs F (from_phone None) ''reports/q3.pdf'' empty_world = (Inr (ProxyError code msg), s'))"
proof -
  have "isl (fst (authenticateRequest example_env example_libs (from_phone None) empty_world))"
    by (simp add: without_session from_phone_def)
  then show ?thesis
    by (intro storage_proxy_guard) (simp_all add: is_public_key_def PUBLIC_KEY_PREFIXES_def starts_with_def)
qed

end
