(* ===== verification/Server_Metrics.thy ===== *)
theory Server_Metrics
  imports Session_Auth War_Room_Stream
begin

text \<open>
  The metrics of the server (\<^verbatim>\<open>server/_core/metrics.ts\<close>): the counters kept per route, their text rendering, the
  bound on their labels, and the guard of the endpoint that publishes them. The port search of
  \<^verbatim>\<open>server/_core/index.ts\<close> is here too.
\<close>

section \<open>Counters\<close>

text \<open>The four maps, in the insertion order \<open>Map.forEach\<close> walks through.\<close>

record metrics =
  httpRequestsTotal :: "(string \<times> rat) list"
  httpDurationSumMs :: "(string \<times> rat) list"
  httpDurationCount :: "(string \<times> rat) list"
  trpcErrorsTotal :: "(string \<times> rat) list"

definition no_metrics :: metrics where
  "no_metrics = \<lparr>httpRequestsTotal = [], httpDurationSumMs = [], httpDurationCount = [], trpcErrorsTotal = []\<rparr>"

fun bump :: "string \<Rightarrow> rat \<Rightarrow> (string \<times> rat) list \<Rightarrow> (string \<times> rat) list" where
  "bump k d [] = [(k, d)]"
| "bump k d ((k', v) # m) = (if k = k' then (k', v + d) # m else (k', v) # bump k d m)"

section \<open>Labels\<close>

text \<open>\<open>path.replace(/\/\d+(?=\/|$)/g, "/:id")\<close>.\<close>

function idSegments :: "string \<Rightarrow> string" where
  "idSegments [] = []"
| "idSegments (c # cs) =
     (if c = CHR ''/'' then
        let ds = takeWhile is_digit cs; rest = dropWhile is_digit cs
        in if ds \<noteq> [] \<and> (rest = [] \<or> hd rest = CHR ''/'') then ''/:id'' @ idSegments rest
           else CHR ''/'' # idSegments cs
      else c # idSegments cs)"
  by pat_completeness auto
termination
  by (relation "measure length") (auto simp: less_Suc_eq_le length_dropWhile_le)

definition normalizeRoute :: "string \<Rightarrow> string" where
  "normalizeRoute path = (let n = idSegments path in if length n > 120 then take 120 n else n)"

section \<open>Recording\<close>

text \<open>What the middleware does when a response is finished: method, path under the route, status, milliseconds.\<close>

definition requestFinished :: "string \<Rightarrow> string \<Rightarrow> int \<Rightarrow> rat \<Rightarrow> metrics \<Rightarrow> metrics" where
  "requestFinished verb path status durationMs m =
     (let key = verb @ ''|'' @ normalizeRoute path
      in m\<lparr>httpRequestsTotal := bump (key @ ''|'' @ show_int status) 1 (httpRequestsTotal m),
           httpDurationSumMs := bump key durationMs (httpDurationSumMs m),
           httpDurationCount := bump key 1 (httpDurationCount m)\<rparr>)"

definition recordTrpcError :: "string \<Rightarrow> string \<Rightarrow> metrics \<Rightarrow> metrics" where
  "recordTrpcError path code m = m\<lparr>trpcErrorsTotal := bump (path @ ''|'' @ code) 1 (trpcErrorsTotal m)\<rparr>"

section \<open>Rendering\<close>

text \<open>\<open>num\<close> prints a number as JavaScript does.\<close>

definition quote :: string where "quote = [CHR 0x22]"

definition newline :: string where "newline = [CHR 0x0A]"

definition labelText :: "string list \<Rightarrow> string \<Rightarrow> string" where
  "labelText labels key =
     (let parts = splitOn (CHR ''|'') key
      in join '','' (map (\<lambda>(i, l). l @ ''='' @ quote @ (if i < length parts then parts ! i else []) @ quote)
           (enumerate 0 labels)))"

definition renderCounter :: "(rat \<Rightarrow> string) \<Rightarrow> string \<Rightarrow> string \<Rightarrow> string list \<Rightarrow> (string \<times> rat) list \<Rightarrow> string" where
  "renderCounter num name help labels m =
     join newline
       ([''# HELP '' @ name @ '' '' @ help, ''# TYPE '' @ name @ '' counter''] @
        map (\<lambda>(k, v). name @ ''{'' @ labelText labels k @ ''} '' @ num v) m)"

definition renderMetrics :: "(rat \<Rightarrow> string) \<Rightarrow> rat \<Rightarrow> sseState \<Rightarrow> metrics \<Rightarrow> string" where
  "renderMetrics num uptime r m =
     join newline
       [renderCounter num ''campaign_http_requests_total'' ''HTTP requests by method, route and status code.''
          [''method'', ''route'', ''status''] (httpRequestsTotal m),
        renderCounter num ''campaign_http_request_duration_ms_count'' ''HTTP request duration sample count by route.''
          [''method'', ''route''] (httpDurationCount m),
        renderCounter num ''campaign_http_request_duration_ms_sum'' ''HTTP request duration sum in milliseconds by route.''
          [''method'', ''route''] (httpDurationSumMs m),
        renderCounter num ''campaign_trpc_errors_total'' ''tRPC procedure errors by path and error code.''
          [''path'', ''code''] (trpcErrorsTotal m),
        join newline
          [''# HELP campaign_sse_active_clients Active War Room SSE client connections.'',
           ''# TYPE campaign_sse_active_clients gauge'',
           ''campaign_sse_active_clients '' @ show_int (int (sseClientCount r))],
        join newline
          [''# HELP campaign_process_uptime_seconds Process uptime in seconds.'',
           ''# TYPE campaign_process_uptime_seconds gauge'',
           ''campaign_process_uptime_seconds '' @ show_int (math_round uptime)]] @ newline"

section \<open>Guard\<close>

datatype metricsReply = MetricsShown | MetricsUnauthorized | MetricsDisabled

text \<open>\<open>timingSafeEqual\<close> on buffers of equal length is equality.\<close>

definition safeEqual :: "string \<Rightarrow> string \<Rightarrow> bool" where
  "safeEqual a b \<longleftrightarrow> length a = length b \<and> list_all2 (=) a b"

definition metricsAuthGuard :: "processEnv \<Rightarrow> authRequest \<Rightarrow> metricsReply" where
  "metricsAuthGuard pe req =
     (let token = nullish (METRICS_BEARER_TOKEN pe) []
      in if token \<noteq> []
         then (if safeEqual (nullish (rq_authorization req) []) (''Bearer '' @ token) then MetricsShown else MetricsUnauthorized)
         else if NODE_ENV pe = Some ''production'' then MetricsDisabled
         else MetricsShown)"

section \<open>The port\<close>

fun firstAvailable :: "(int \<Rightarrow> bool) \<Rightarrow> int \<Rightarrow> nat \<Rightarrow> int option" where
  "firstAvailable free port 0 = None"
| "firstAvailable free port (Suc n) = (if free port then Some port else firstAvailable free (port + 1) n)"

definition findAvailablePort :: "(int \<Rightarrow> bool) \<Rightarrow> int \<Rightarrow> error + int" where
  "findAvailablePort free startPort =
     (case firstAvailable free startPort 20 of
        Some p \<Rightarrow> Inr p
      | None \<Rightarrow> Inl (PlainError (''No available port found starting from '' @ show_int startPort)))"

section \<open>Properties\<close>

lemma safeEqual_eq: "safeEqual a b \<longleftrightarrow> a = b"
  by (auto simp: safeEqual_def list.rel_eq)

text \<open>In production the numbers are shown only to who knows the configured token.\<close>

lemma metrics_guarded:
  assumes "NODE_ENV pe = Some ''production''"
  shows "metricsAuthGuard pe req = MetricsShown \<longleftrightarrow>
    (\<exists>token. METRICS_BEARER_TOKEN pe = Some token \<and> token \<noteq> [] \<and> rq_authorization req = Some (''Bearer '' @ token))"
  using assms
  by (cases "METRICS_BEARER_TOKEN pe"; cases "rq_authorization req") (auto simp: metricsAuthGuard_def Let_def safeEqual_eq)

lemma sum_bump: "sum_list (map snd (bump k d m)) = sum_list (map snd m) + d"
  by (induction k d m rule: bump.induct) simp_all

text \<open>However requests finish and errors are recorded, each route's requests are counted once in both counters.\<close>

definition request_count :: "metrics \<Rightarrow> rat" where
  "request_count m = sum_list (map snd (httpRequestsTotal m))"

inductive recorded :: "nat \<Rightarrow> metrics \<Rightarrow> bool" where
  start: "recorded 0 no_metrics"
| finish: "recorded n m \<Longrightarrow> recorded (Suc n) (requestFinished verb path status d m)"
| failure: "recorded n m \<Longrightarrow> recorded n (recordTrpcError path code m)"

lemma requests_counted:
  "recorded n m \<Longrightarrow> request_count m = of_nat n \<and> sum_list (map snd (httpDurationCount m)) = of_nat n"
  by (induction rule: recorded.induct)
    (simp_all add: no_metrics_def request_count_def requestFinished_def recordTrpcError_def sum_bump Let_def)

text \<open>Labels are at most 120 characters, and a second normalisation finds no numbers left.\<close>

lemma normalizeRoute_bounded: "length (normalizeRoute path) \<le> 120"
  by (simp add: normalizeRoute_def Let_def)

lemma idSegments_first: "(idSegments r = [] \<or> hd (idSegments r) = CHR ''/'') \<longleftrightarrow> (r = [] \<or> hd r = CHR ''/'')"
  by (cases r) (simp_all add: Let_def)

lemma slash_no_digit: "\<not> is_digit (CHR ''/'')"
  by (simp add: is_digit_def)

lemma idSegments_digits:
  "takeWhile is_digit (idSegments cs) = takeWhile is_digit cs"
  "dropWhile is_digit (idSegments cs) = idSegments (dropWhile is_digit cs)"
  by (induction cs) (auto simp: Let_def slash_no_digit)

lemma idSegments_idem: "idSegments (idSegments path) = idSegments path"
proof (induction path rule: idSegments.induct)
  case (2 c cs)
  show ?case
  proof (cases "c = CHR ''/''")
    case False
    with 2 show ?thesis by simp
  next
    case True
    let ?ds = "takeWhile is_digit cs" and ?rest = "dropWhile is_digit cs"
    show ?thesis
    proof (cases "?ds \<noteq> [] \<and> (?rest = [] \<or> hd ?rest = CHR ''/'')")
      case id: True
      have "\<not> is_digit (CHR '':'')" by (simp add: is_digit_def)
      with True id 2 show ?thesis by simp
    next
      case False
      have "(idSegments ?rest = [] \<or> hd (idSegments ?rest) = CHR ''/'') \<longleftrightarrow> (?rest = [] \<or> hd ?rest = CHR ''/'')"
        by (rule idSegments_first)
      with False have again: "\<not> (takeWhile is_digit (idSegments cs) \<noteq> [] \<and>
          (dropWhile is_digit (idSegments cs) = [] \<or> hd (dropWhile is_digit (idSegments cs)) = CHR ''/''))"
        by (simp only: idSegments_digits simp_thms)
      have "idSegments (c # cs) = CHR ''/'' # idSegments cs"
        by (simp only: idSegments.simps Let_def True False if_True if_False refl)
      moreover have "idSegments (CHR ''/'' # idSegments cs) = CHR ''/'' # idSegments (idSegments cs)"
        by (simp only: idSegments.simps Let_def again if_True if_False refl)
      ultimately show ?thesis using 2(2) [OF True refl refl False] by simp
    qed
  qed
qed simp

text \<open>Other segments stay apart: distinct short paths without digits, matched by a route or not, are distinct labels.\<close>

lemma idSegments_plain: "\<not> list_ex is_digit path \<Longrightarrow> idSegments path = path"
proof (induction path)
  case (Cons c cs)
  then have "takeWhile is_digit cs = []" by (cases cs) simp_all
  with Cons show ?case by simp
qed simp

lemma unmatched_paths_kept_apart:
  assumes "\<not> list_ex is_digit p" "\<not> list_ex is_digit p'" "length p \<le> 120" "length p' \<le> 120" "p \<noteq> p'"
  shows "normalizeRoute p \<noteq> normalizeRoute p'"
  using assms by (simp add: normalizeRoute_def idSegments_plain)

lemma firstAvailable_spec:
  "firstAvailable free port n = Some p \<Longrightarrow> free p \<and> port \<le> p \<and> p < port + int n \<and> (\<forall>q. port \<le> q \<and> q < p \<longrightarrow> \<not> free q)"
proof (induction free port n rule: firstAvailable.induct)
  case (2 free port n)
  show ?case
  proof (cases "free port")
    case True
    with 2 show ?thesis by auto
  next
    case False
    with 2 have "free p \<and> port + 1 \<le> p \<and> p < port + 1 + int n \<and> (\<forall>q. port + 1 \<le> q \<and> q < p \<longrightarrow> \<not> free q)" by simp
    moreover have "\<not> free q" if "port \<le> q" "q < p" for q
      using calculation that False by (cases "q = port") auto
    ultimately show ?thesis by simp
  qed
qed simp

lemma firstAvailable_None: "firstAvailable free port n = None \<Longrightarrow> port \<le> q \<Longrightarrow> q < port + int n \<Longrightarrow> \<not> free q"
proof (induction free port n rule: firstAvailable.induct)
  case (2 free port n)
  then show ?case by (cases "q = port") (auto split: if_splits)
qed simp

end
