(* ===== verification/Canvass_Store.thy ===== *)
theory Canvass_Store
  imports Json_Text
begin

text \<open>
  The on-device database of the canvassers' application (\<open>src/inec-mobile/lib/storage.ts\<close>): queues of
  door knocks, pledges and location fixes waiting to be sent, the cache of contacts with their masked
  names, the log of conflicts and the key of the database. A row of a queue is what was captured
  together with its id and its delivery status; time stamps are the ISO texts the columns hold, which
  SQLite orders as texts. No statement on the device fails.
\<close>

section \<open>Rows\<close>

datatype syncStatus = PendingSync | Syncing | Synced | FailedSync

record 'c queuedRow = row +
  captured :: 'c
  sync_status :: syncStatus

record doorKnock =
  dk_volunteer_id :: string
  dk_contact_id :: "string option"
  dk_latitude :: decimal
  dk_longitude :: decimal
  dk_outcome :: string
  dk_notes :: string
  dk_speed_kmh :: decimal
  dk_recorded_at :: string

record pledge =
  pl_contact_id :: string
  pl_pledge_type :: string
  pl_notes :: string
  pl_recorded_at :: string

record locationUpdate =
  lu_volunteer_id :: string
  lu_latitude :: decimal
  lu_longitude :: decimal
  lu_battery :: int
  lu_speed_kmh :: decimal
  lu_recorded_at :: string

record cachedContact =
  cc_contact_id :: string
  cc_phone_masked :: string
  cc_full_name_masked :: string
  cc_state_code :: string
  cc_lga_code :: string
  cc_ward_code :: string
  cc_voter_status :: string
  cc_cached_at :: string

record conflictLogEntry = row +
  ce_table_name :: string
  ce_record_id :: string
  ce_local_data :: string
  ce_server_data :: string
  ce_resolved_at :: "string option"
  ce_resolution :: "string option"

text \<open>\<open>randomBytes k\<close> is the \<open>k\<close>-th answer of the random generator; \<open>legacyColumn\<close> says that the
  database on disk was written before names were masked.\<close>

record canvasser =
  nowMs :: time
  secureStore :: "string \<rightharpoonup> string"
  randomBytes :: "nat \<Rightarrow> nat list"
  drawn :: nat
  dbOpen :: bool
  legacyColumn :: bool
  doorKnocksT :: "doorKnock queuedRow table"
  pledgesT :: "pledge queuedRow table"
  locationsT :: "locationUpdate queuedRow table"
  cachedContactsT :: "cachedContact list"
  conflictsT :: "conflictLogEntry table"
  syncMetadata :: "string \<rightharpoonup> string"

definition doorKnocksD :: "('z canvasser_scheme, doorKnock queuedRow) tbl" where
  "doorKnocksD = \<lparr>tget = doorKnocksT, tput = (\<lambda>t s. s\<lparr>doorKnocksT := t\<rparr>), tchk = (\<lambda>_ _. True), tclash = (\<lambda>_ _. False), tfree = (\<lambda>_ _. True)\<rparr>"

definition pledgesD :: "('z canvasser_scheme, pledge queuedRow) tbl" where
  "pledgesD = \<lparr>tget = pledgesT, tput = (\<lambda>t s. s\<lparr>pledgesT := t\<rparr>), tchk = (\<lambda>_ _. True), tclash = (\<lambda>_ _. False), tfree = (\<lambda>_ _. True)\<rparr>"

definition locationsD :: "('z canvasser_scheme, locationUpdate queuedRow) tbl" where
  "locationsD = \<lparr>tget = locationsT, tput = (\<lambda>t s. s\<lparr>locationsT := t\<rparr>), tchk = (\<lambda>_ _. True), tclash = (\<lambda>_ _. False), tfree = (\<lambda>_ _. True)\<rparr>"

definition conflictsD :: "('z canvasser_scheme, conflictLogEntry) tbl" where
  "conflictsD = \<lparr>tget = conflictsT, tput = (\<lambda>t s. s\<lparr>conflictsT := t\<rparr>), tchk = (\<lambda>_ _. True), tclash = (\<lambda>_ _. False), tfree = (\<lambda>_ _. True)\<rparr>"

lemmas canvass_tables = doorKnocksD_def pledgesD_def locationsD_def conflictsD_def

interpretation knocks: table_lens "doorKnocksD :: ('z canvasser_scheme, doorKnock queuedRow) tbl"
  by unfold_locales (simp_all add: canvass_tables)

interpretation pledges: table_lens "pledgesD :: ('z canvasser_scheme, pledge queuedRow) tbl"
  by unfold_locales (simp_all add: canvass_tables)

interpretation locations: table_lens "locationsD :: ('z canvasser_scheme, locationUpdate queuedRow) tbl"
  by unfold_locales (simp_all add: canvass_tables)

interpretation conflict_log: table_lens "conflictsD :: ('z canvasser_scheme, conflictLogEntry) tbl"
  by unfold_locales (simp_all add: canvass_tables)

section \<open>Names\<close>

text \<open>\<open>s.split(/\s+/)\<close>: a run of white space separates, and \<open>inRun\<close> says that one is being read.\<close>

fun splitRuns :: "bool \<Rightarrow> string \<Rightarrow> string \<Rightarrow> string list" where
  "splitRuns inRun acc [] = [rev acc]"
| "splitRuns inRun acc (c # cs) =
     (if is_space c then (if inRun then splitRuns True acc cs else rev acc # splitRuns True [] cs)
      else splitRuns False (c # acc) cs)"

definition name_parts :: "string \<Rightarrow> string list" where
  "name_parts fullName = filter (\<lambda>p. p \<noteq> []) (splitRuns False [] (trim fullName))"

definition maskPart :: "string \<Rightarrow> string" where
  "maskPart p = (if length p \<le> 1 then p else hd p # replicate (length p - 1) (CHR ''*''))"

definition maskName :: "string \<Rightarrow> string" where
  "maskName fullName =
     (case name_parts fullName of
        [] \<Rightarrow> []
      | first # rest \<Rightarrow> join '' '' ((hd first # ''.'') # map maskPart rest))"

section \<open>Opening the database\<close>

definition key_hex :: "nat list \<Rightarrow> string" where
  "key_hex bytes = concat (map (\<lambda>b. [hex_digit (b div 16), hex_digit (b mod 16)]) bytes)"

definition DB_KEY :: string where "DB_KEY = ''gotv_db_key''"

definition getDatabaseKey :: "('z canvasser_scheme, string) proc" where
  "getDatabaseKey =
     bindE (getE (\<lambda>s. secureStore s DB_KEY)) (\<lambda>key.
     if truthy_str key then returnE (the key)
     else bindE (getE (\<lambda>s. key_hex (randomBytes s (drawn s)))) (\<lambda>k.
          seqE (modifyE (\<lambda>s. s\<lparr>secureStore := (secureStore s)(DB_KEY \<mapsto> k), drawn := drawn s + 1\<rparr>)) (returnE k)))"

text \<open>The pragma that hands the key to the database has no effect in the managed build. Renaming the
  legacy column succeeds once, and then the rows written before are dropped.\<close>

definition getDB :: "('z canvasser_scheme, unit) proc" where
  "getDB =
     bindE (getE dbOpen) (\<lambda>ready.
     if ready then returnE ()
     else seqE (modifyE (\<lambda>s. s\<lparr>dbOpen := True\<rparr>))
       (seqE getDatabaseKey
       (modifyE (\<lambda>s. if legacyColumn s then s\<lparr>legacyColumn := False, cachedContactsT := []\<rparr> else s))))"

section \<open>Queues\<close>

definition save_row :: "('s, 'c queuedRow) tbl \<Rightarrow> 'c \<Rightarrow> ('s, int) proc" where
  "save_row D c = bindE (insertRow D None (\<lambda>i. \<lparr>row_id = i, captured = c, sync_status = PendingSync\<rparr>)) (\<lambda>r. returnE (row_id r))"

definition mark_row :: "('s, 'c queuedRow) tbl \<Rightarrow> syncStatus \<Rightarrow> int \<Rightarrow> ('s, unit) proc" where
  "mark_row D st i = voidE (updateRows D (\<lambda>r. row_id r = i) (\<lambda>r. r\<lparr>sync_status := st\<rparr>))"

definition is_pending :: "'c queuedRow \<Rightarrow> bool" where
  "is_pending r \<longleftrightarrow> sync_status r = PendingSync"

definition saveDoorKnock :: "doorKnock \<Rightarrow> ('z canvasser_scheme, int) proc" where
  "saveDoorKnock knock = seqE getDB (save_row doorKnocksD knock)"

definition getPendingDoorKnocks :: "('z canvasser_scheme, doorKnock queuedRow list) proc" where
  "getPendingDoorKnocks = seqE getDB (bindE (selectRows doorKnocksD is_pending) (\<lambda>rows. returnE (order_by (\<lambda>r. dk_recorded_at (captured r)) rows)))"

definition markDoorKnockSynced :: "int \<Rightarrow> ('z canvasser_scheme, unit) proc" where
  "markDoorKnockSynced i = seqE getDB (mark_row doorKnocksD Synced i)"

definition markDoorKnockFailed :: "int \<Rightarrow> ('z canvasser_scheme, unit) proc" where
  "markDoorKnockFailed i = seqE getDB (mark_row doorKnocksD FailedSync i)"

definition savePledge :: "pledge \<Rightarrow> ('z canvasser_scheme, int) proc" where
  "savePledge p = seqE getDB (save_row pledgesD p)"

definition getPendingPledges :: "('z canvasser_scheme, pledge queuedRow list) proc" where
  "getPendingPledges = seqE getDB (bindE (selectRows pledgesD is_pending) (\<lambda>rows. returnE (order_by (\<lambda>r. pl_recorded_at (captured r)) rows)))"

definition markPledgeSynced :: "int \<Rightarrow> ('z canvasser_scheme, unit) proc" where
  "markPledgeSynced i = seqE getDB (mark_row pledgesD Synced i)"

definition markPledgeFailed :: "int \<Rightarrow> ('z canvasser_scheme, unit) proc" where
  "markPledgeFailed i = seqE getDB (mark_row pledgesD FailedSync i)"

text \<open>\<open>ORDER BY recorded_at DESC\<close>.\<close>

definition latest_first :: "locationUpdate queuedRow list \<Rightarrow> locationUpdate queuedRow list" where
  "latest_first rows = rev (sort_key (\<lambda>r. lu_recorded_at (captured r)) (rev rows))"

definition saveLocation :: "locationUpdate \<Rightarrow> ('z canvasser_scheme, unit) proc" where
  "saveLocation loc =
     seqE getDB
     (seqE (save_row locationsD loc)
     (bindE (selectRows locationsD (\<lambda>_. True)) (\<lambda>rows.
      voidE (deleteRows locationsD (\<lambda>r. row_id r \<notin> row_id ` set (take 1000 (latest_first rows)))))))"

definition getPendingLocations :: "('z canvasser_scheme, locationUpdate queuedRow list) proc" where
  "getPendingLocations =
     seqE getDB (bindE (selectRows locationsD is_pending) (\<lambda>rows. returnE (take 50 (order_by (\<lambda>r. lu_recorded_at (captured r)) rows))))"

definition markLocationsSynced :: "int list \<Rightarrow> ('z canvasser_scheme, unit) proc" where
  "markLocationsSynced ids =
     (if ids = [] then returnE ()
      else seqE getDB (voidE (updateRows locationsD (\<lambda>r. row_id r \<in> set ids) (\<lambda>r. r\<lparr>sync_status := Synced\<rparr>))))"

section \<open>Contacts, conflicts and metadata\<close>

definition cache_contact :: "cachedContact \<Rightarrow> ('z canvasser_scheme, unit) proc" where
  "cache_contact c =
     modifyE (\<lambda>s. s\<lparr>cachedContactsT := filter (\<lambda>x. cc_contact_id x \<noteq> cc_contact_id c) (cachedContactsT s) @
                      [c\<lparr>cc_full_name_masked := maskName (cc_full_name_masked c)\<rparr>]\<rparr>)"

definition cacheContacts :: "cachedContact list \<Rightarrow> ('z canvasser_scheme, unit) proc" where
  "cacheContacts contacts = seqE getDB (forE contacts cache_contact)"

definition getCachedContacts :: "string option \<Rightarrow> string option \<Rightarrow> ('z canvasser_scheme, cachedContact list) proc" where
  "getCachedContacts stateCode lgaCode =
     seqE getDB
     (bindE (getE cachedContactsT) (\<lambda>rows.
      returnE (take 200 (order_by cc_full_name_masked
        (filter (\<lambda>c. (truthy_str stateCode \<longrightarrow> stateCode = Some (cc_state_code c)) \<and>
                      (truthy_str lgaCode \<longrightarrow> lgaCode = Some (cc_lga_code c))) rows)))))"

definition logConflict :: "string \<Rightarrow> string \<Rightarrow> string \<Rightarrow> string \<Rightarrow> ('z canvasser_scheme, unit) proc" where
  "logConflict tableName recordId localData serverData =
     seqE getDB (voidE (insertRow conflictsD None (\<lambda>i.
       \<lparr>row_id = i, ce_table_name = tableName, ce_record_id = recordId, ce_local_data = localData, ce_server_data = serverData,
        ce_resolved_at = None, ce_resolution = None\<rparr>)))"

definition getUnresolvedConflicts :: "('z canvasser_scheme, conflictLogEntry list) proc" where
  "getUnresolvedConflicts =
     seqE getDB (bindE (selectRows conflictsD (\<lambda>e. ce_resolved_at e = None)) (\<lambda>rows. returnE (order_desc row_id rows)))"

definition getSyncMeta :: "string \<Rightarrow> ('z canvasser_scheme, string option) proc" where
  "getSyncMeta key = seqE getDB (getE (\<lambda>s. syncMetadata s key))"

definition setSyncMeta :: "string \<Rightarrow> string \<Rightarrow> ('z canvasser_scheme, unit) proc" where
  "setSyncMeta key v = seqE getDB (modifyE (\<lambda>s. s\<lparr>syncMetadata := (syncMetadata s)(key \<mapsto> v)\<rparr>))"

record pendingCounts =
  pn_knocks :: nat
  pn_pledges :: nat
  pn_locations :: nat

definition getPendingCounts :: "('z canvasser_scheme, pendingCounts) proc" where
  "getPendingCounts =
     seqE getDB
     (bindE (selectRows doorKnocksD is_pending) (\<lambda>ks.
      bindE (selectRows pledgesD is_pending) (\<lambda>ps.
      bindE (selectRows locationsD is_pending) (\<lambda>ls.
      returnE \<lparr>pn_knocks = length ks, pn_pledges = length ps, pn_locations = length ls\<rparr>))))"

section \<open>Running the statements\<close>

definition opened :: "'z canvasser_scheme \<Rightarrow> 'z canvasser_scheme" where
  "opened s = snd (getDB s)"

lemma getDB_Inr: "fst (getDB s) = Inr ()"
  by (simp add: getDB_def getDatabaseKey_def run_simps)

lemma getDB_run [run_simps]: "getDB s = (Inr (), opened s)"
  using getDB_Inr [of s] by (simp add: prod_eq_iff opened_def)

lemma getDB_seq: "seqE getDB m s = m (opened s)"
  by (simp add: seqE_run getDB_run)

lemma opened_open: "dbOpen s \<Longrightarrow> opened s = s"
  by (simp add: opened_def getDB_def run_simps)

lemma opened_frame [simp]:
  "nowMs (opened s) = nowMs s" "doorKnocksT (opened s) = doorKnocksT s" "pledgesT (opened s) = pledgesT s"
  "locationsT (opened s) = locationsT s" "conflictsT (opened s) = conflictsT s" "syncMetadata (opened s) = syncMetadata s"
  "canvasser.more (opened s) = canvasser.more s" "dbOpen (opened s)"
  by (simp_all add: opened_def getDB_def getDatabaseKey_def run_simps)

lemma opened_store: "k \<noteq> DB_KEY \<Longrightarrow> secureStore (opened s) k = secureStore s k"
  by (simp add: opened_def getDB_def getDatabaseKey_def run_simps)

text \<open>Marking sets the status of the rows with the id; saving appends a pending row.\<close>

definition marked :: "int \<Rightarrow> syncStatus \<Rightarrow> 'c queuedRow table \<Rightarrow> 'c queuedRow table" where
  "marked i st t = t\<lparr>trows := map (\<lambda>r. if row_id r = i then r\<lparr>sync_status := st\<rparr> else r) (trows t)\<rparr>"

lemma mark_knock_run:
  "markDoorKnockSynced i s = (Inr (), (opened s)\<lparr>doorKnocksT := marked i Synced (doorKnocksT s)\<rparr>)"
  "markDoorKnockFailed i s = (Inr (), (opened s)\<lparr>doorKnocksT := marked i FailedSync (doorKnocksT s)\<rparr>)"
  by (simp_all add: markDoorKnockSynced_def markDoorKnockFailed_def getDB_seq mark_row_def voidE_run updateRows_def Let_def
      doorKnocksD_def marked_def list_all_iff)

lemma mark_pledge_run:
  "markPledgeSynced i s = (Inr (), (opened s)\<lparr>pledgesT := marked i Synced (pledgesT s)\<rparr>)"
  "markPledgeFailed i s = (Inr (), (opened s)\<lparr>pledgesT := marked i FailedSync (pledgesT s)\<rparr>)"
  by (simp_all add: markPledgeSynced_def markPledgeFailed_def getDB_seq mark_row_def voidE_run updateRows_def Let_def
      pledgesD_def marked_def list_all_iff)

lemma pending_knocks_run:
  "getPendingDoorKnocks s = (Inr (order_by (\<lambda>r. dk_recorded_at (captured r)) (filter is_pending (trows (doorKnocksT s)))), opened s)"
  by (simp add: getPendingDoorKnocks_def getDB_seq bindE_run returnE_run selectRows_run rows_of_def doorKnocksD_def)

lemma pending_pledges_run:
  "getPendingPledges s = (Inr (order_by (\<lambda>r. pl_recorded_at (captured r)) (filter is_pending (trows (pledgesT s)))), opened s)"
  by (simp add: getPendingPledges_def getDB_seq bindE_run returnE_run selectRows_run rows_of_def pledgesD_def)

lemma pending_locations_run:
  "getPendingLocations s =
     (Inr (take 50 (order_by (\<lambda>r. lu_recorded_at (captured r)) (filter is_pending (trows (locationsT s))))), opened s)"
  by (simp add: getPendingLocations_def getDB_seq bindE_run returnE_run selectRows_run rows_of_def locationsD_def)

lemma counts_run:
  "getPendingCounts s =
     (Inr \<lparr>pn_knocks = length (filter is_pending (trows (doorKnocksT s))), pn_pledges = length (filter is_pending (trows (pledgesT s))),
           pn_locations = length (filter is_pending (trows (locationsT s)))\<rparr>, opened s)"
  by (simp add: getPendingCounts_def getDB_seq bindE_run returnE_run selectRows_run rows_of_def canvass_tables)

lemma set_meta_run: "setSyncMeta k v s = (Inr (), (opened s)\<lparr>syncMetadata := (syncMetadata s)(k \<mapsto> v)\<rparr>)"
  by (simp add: setSyncMeta_def getDB_seq modifyE_run)

text \<open>A queue hands out ids it has not used, so a row can always be added.\<close>

definition fresh_ids :: "'z row_scheme table \<Rightarrow> bool" where
  "fresh_ids t \<longleftrightarrow> distinct (map row_id (trows t)) \<and> (\<forall>r \<in> set (trows t). row_id r < nextId t)"

definition queued_as :: "'c \<Rightarrow> 'c queuedRow table \<Rightarrow> 'c queuedRow table" where
  "queued_as c t = \<lparr>trows = trows t @ [\<lparr>row_id = nextId t, captured = c, sync_status = PendingSync\<rparr>], nextId = nextId t + 1\<rparr>"

lemma fresh_ids_queued: "fresh_ids t \<Longrightarrow> fresh_ids (queued_as c t)"
  by (auto simp: fresh_ids_def queued_as_def)

lemma marked_ids [simp]: "map row_id (trows (marked i st t)) = map row_id (trows t)" "nextId (marked i st t) = nextId t"
  by (simp_all add: marked_def)

lemma marked_captured [simp]: "map captured (trows (marked i st t)) = map captured (trows t)"
  by (simp add: marked_def)

lemma fresh_ids_alt: "fresh_ids t \<longleftrightarrow> distinct (map row_id (trows t)) \<and> (\<forall>i \<in> set (map row_id (trows t)). i < nextId t)"
  by (simp add: fresh_ids_def)

lemma fresh_ids_map: "map row_id (trows t') = map row_id (trows t) \<Longrightarrow> nextId t' = nextId t \<Longrightarrow> fresh_ids t' = fresh_ids t"
  by (simp only: fresh_ids_alt)

lemma fresh_ids_marked [simp]: "fresh_ids (marked i st t) = fresh_ids t"
  by (rule fresh_ids_map) simp_all

lemma table_updates: "t\<lparr>nextId := i, trows := rs\<rparr> = \<lparr>trows = rs, nextId = i\<rparr>"
  by (cases t) simp

lemma insert_fresh:
  assumes "fresh_ids (tget D s)" and "\<And>r. tchk D s r" and "\<And>x r. \<not> tclash D x r"
  shows "insertRow D None mk s =
    (Inr ((mk (nextId (tget D s)))\<lparr>row_id := nextId (tget D s)\<rparr>),
     tput D (\<lparr>trows = trows (tget D s) @ [(mk (nextId (tget D s)))\<lparr>row_id := nextId (tget D s)\<rparr>], nextId = nextId (tget D s) + 1\<rparr>) s)"
proof -
  have "\<not> list_ex (\<lambda>x. row_id x = nextId (tget D s) \<or> tclash D x r) (trows (tget D s))" for r
    using assms(1,3) by (auto simp: list_ex_iff fresh_ids_def)
  then show ?thesis using assms(2) by (simp add: insertRow_def Let_def table_updates)
qed

lemma save_knock_run:
  assumes "fresh_ids (doorKnocksT s)"
  shows "saveDoorKnock k s = (Inr (nextId (doorKnocksT s)), (opened s)\<lparr>doorKnocksT := queued_as k (doorKnocksT s)\<rparr>)"
  using assms by (simp add: saveDoorKnock_def getDB_seq save_row_def bindE_run returnE_run insert_fresh doorKnocksD_def queued_as_def)

lemma save_pledge_run:
  assumes "fresh_ids (pledgesT s)"
  shows "savePledge p s = (Inr (nextId (pledgesT s)), (opened s)\<lparr>pledgesT := queued_as p (pledgesT s)\<rparr>)"
  using assms by (simp add: savePledge_def getDB_seq save_row_def bindE_run returnE_run insert_fresh pledgesD_def queued_as_def)

definition conflict_entry :: "string \<Rightarrow> string \<Rightarrow> string \<Rightarrow> string \<Rightarrow> int \<Rightarrow> conflictLogEntry" where
  "conflict_entry tab rid loc srvd i =
     \<lparr>row_id = i, ce_table_name = tab, ce_record_id = rid, ce_local_data = loc, ce_server_data = srvd, ce_resolved_at = None, ce_resolution = None\<rparr>"

lemma log_conflict_run:
  assumes "fresh_ids (conflictsT s)"
  shows "logConflict tab rid loc srvd s = (Inr (), (opened s)\<lparr>conflictsT :=
    \<lparr>trows = trows (conflictsT s) @ [conflict_entry tab rid loc srvd (nextId (conflictsT s))], nextId = nextId (conflictsT s) + 1\<rparr>\<rparr>)"
  using assms by (simp add: logConflict_def getDB_seq voidE_run insert_fresh conflictsD_def conflict_entry_def)

section \<open>What a masked name shows\<close>

definition spaceless :: "string \<Rightarrow> bool" where
  "spaceless w \<longleftrightarrow> w \<noteq> [] \<and> list_all (\<lambda>c. \<not> is_space c) w"

lemma splitRuns_word: "list_all (\<lambda>c. \<not> is_space c) w \<Longrightarrow> w \<noteq> [] \<Longrightarrow> splitRuns b acc (w @ cs) = splitRuns False (rev w @ acc) cs"
proof (induction w arbitrary: b acc)
  case (Cons c w)
  then show ?case by (cases w) auto
qed simp

lemma is_space_blank [simp]: "is_space (CHR '' '')"
  by (simp add: is_space_def)

lemma splitRuns_join:
  "list_all spaceless ws \<Longrightarrow> ws \<noteq> [] \<Longrightarrow> splitRuns b [] (join '' '' ws) = ws"
proof (induction ws arbitrary: b rule: induct_list012)
  case (2 w)
  then show ?case using splitRuns_word [of w b "[]" "[]"] by (simp add: spaceless_def)
next
  case (3 w v ws)
  then have "splitRuns True [] (join '' '' (v # ws)) = v # ws" by simp
  with 3(3) show ?case by (simp add: splitRuns_word spaceless_def)
qed simp

lemma splitRuns_parts:
  "list_all (\<lambda>c. \<not> is_space c) acc \<Longrightarrow> p \<in> set (splitRuns b acc cs) \<Longrightarrow> p \<noteq> [] \<Longrightarrow> spaceless p"
  by (induction b acc cs rule: splitRuns.induct) (auto simp: spaceless_def split: if_splits)

lemma name_parts_spaceless: "list_all spaceless (name_parts n)"
  using splitRuns_parts [of "[]"] by (auto simp: name_parts_def list_all_iff)

lemma join_hd: "spaceless w \<Longrightarrow> hd (join '' '' (w # ws)) = hd w \<and> join '' '' (w # ws) \<noteq> []"
  by (cases ws) (auto simp: spaceless_def hd_append)

lemma join_last: "list_all spaceless ws \<Longrightarrow> ws \<noteq> [] \<Longrightarrow> last (join '' '' ws) = last (last ws) \<and> join '' '' ws \<noteq> []"
  by (induction ws rule: induct_list012) (auto simp: spaceless_def last_append)

lemma trim_id: "s \<noteq> [] \<Longrightarrow> \<not> is_space (hd s) \<Longrightarrow> \<not> is_space (last s) \<Longrightarrow> trim s = s"
  by (simp add: trim_def trimLeft_def dropWhile_eq_self_iff [THEN iffD2] hd_rev)

lemma spaceless_ends: "spaceless w \<Longrightarrow> \<not> is_space (hd w) \<and> \<not> is_space (last w)"
  by (auto simp: spaceless_def list_all_iff)

lemma name_parts_join:
  assumes "list_all spaceless ws" and "ws \<noteq> []"
  shows "name_parts (join '' '' ws) = ws"
proof -
  from assms obtain w vs where ws: "ws = w # vs" and w: "spaceless w" by (cases ws) auto
  have "spaceless (last ws)" using assms last_in_set by (fastforce simp: list_all_iff)
  then have "trim (join '' '' ws) = join '' '' ws"
    using join_hd [OF w, of vs] join_last [OF assms] spaceless_ends [OF w] spaceless_ends [of "last ws"] ws by (intro trim_id) auto
  moreover have "filter (\<lambda>p. p \<noteq> []) ws = ws" using assms(1) by (simp add: filter_id_conv list_all_iff spaceless_def)
  ultimately show ?thesis using splitRuns_join [OF assms] by (simp add: name_parts_def)
qed

definition masked_parts :: "string list \<Rightarrow> string list" where
  "masked_parts ps = (case ps of [] \<Rightarrow> [] | first # rest \<Rightarrow> (hd first # ''.'') # map maskPart rest)"

lemma maskName_parts: "maskName n = join '' '' (masked_parts (name_parts n))"
  by (simp add: maskName_def masked_parts_def split: list.split)

lemma spaceless_maskPart: "spaceless p \<Longrightarrow> spaceless (maskPart p)"
  by (cases p) (auto simp: spaceless_def maskPart_def list_all_iff is_space_def)

lemma masked_parts_spaceless: "list_all spaceless ps \<Longrightarrow> list_all spaceless (masked_parts ps)"
  by (auto simp: masked_parts_def list_all_iff spaceless_maskPart split: list.split)
    (auto simp: spaceless_def is_space_def neq_Nil_conv)

lemma maskPart_idem: "maskPart (maskPart p) = maskPart p"
  by (simp add: maskPart_def)

lemma masked_parts_idem: "masked_parts (masked_parts ps) = masked_parts ps"
  by (cases ps) (simp_all add: masked_parts_def maskPart_idem)

lemma name_parts_mask: "name_parts (maskName n) = masked_parts (name_parts n)"
proof (cases "name_parts n")
  case Nil
  then show ?thesis by (simp add: maskName_parts masked_parts_def name_parts_def trim_def trimLeft_def)
next
  case (Cons p ps)
  then have "masked_parts (name_parts n) \<noteq> []" by (simp add: masked_parts_def)
  then show ?thesis using name_parts_join masked_parts_spaceless [OF name_parts_spaceless] by (simp add: maskName_parts)
qed

lemma maskName_idem: "maskName (maskName n) = maskName n"
  unfolding maskName_parts [of "maskName n"] name_parts_mask masked_parts_idem by (simp add: maskName_parts)

text \<open>What the mask of a name gives away: the first letter of every part, and how long the parts after the first are.\<close>

definition name_outline :: "string \<Rightarrow> string \<times> nat list" where
  "name_outline n = (map hd (name_parts n), map length (tl (name_parts n)))"

lemma maskPart_outline: "p \<noteq> [] \<Longrightarrow> maskPart p = hd p # replicate (length p - 1) (CHR ''*'')"
  by (cases p) (auto simp: maskPart_def)

lemma map_maskPart_outline:
  "list_all (\<lambda>p. p \<noteq> []) ps \<Longrightarrow> map maskPart ps = map2 (\<lambda>c l. c # replicate (l - 1) (CHR ''*'')) (map hd ps) (map length ps)"
  by (induction ps) (auto simp: maskPart_outline)

lemma maskName_outline:
  "maskName n = join '' '' (case fst (name_outline n) of
     [] \<Rightarrow> []
   | c # cs \<Rightarrow> [c, CHR ''.''] # map2 (\<lambda>c l. c # replicate (l - 1) (CHR ''*'')) cs (snd (name_outline n)))"
  using name_parts_spaceless [of n]
  by (cases "name_parts n") (simp_all add: maskName_parts name_outline_def masked_parts_def map_maskPart_outline list_all_iff spaceless_def)

lemma outline_mask: "name_outline (maskName n) = name_outline n"
proof -
  have "map hd (map maskPart ps) = map hd ps" "map length (map maskPart ps) = map length ps" for ps
    by (auto simp: maskPart_def)
  then show ?thesis
    by (cases "name_parts n") (simp_all add: name_outline_def name_parts_mask masked_parts_def del: map_map)
qed

text \<open>The mask of a voter's name gives away exactly its outline. Two names have the same mask if and only if they
  have the same initials and the same lengths of the parts after the first; and masking a masked name, as the contact
  cache does at its boundary, changes nothing.\<close>

theorem mask_shows_outline:
  "(maskName n = maskName m \<longleftrightarrow> name_outline n = name_outline m) \<and> maskName (maskName n) = maskName n"
proof -
  have "maskName n = maskName m" if "name_outline n = name_outline m"
    by (simp only: maskName_outline that)
  moreover have "name_outline n = name_outline m" if "maskName n = maskName m"
    using outline_mask [of n] outline_mask [of m] that by simp
  ultimately show ?thesis using maskName_idem by blast
qed

section \<open>The contact cache\<close>

lemma opened_contacts:
  "cachedContactsT (opened s) = (if \<not> dbOpen s \<and> legacyColumn s then [] else cachedContactsT s)"
  "legacyColumn (opened s) = (legacyColumn s \<and> dbOpen s)"
  by (simp_all add: opened_def getDB_def getDatabaseKey_def bindE_run seqE_run getE_run modifyE_run returnE_run)

text \<open>Names are masked in the cache, except in a database of the old kind that has not been opened yet.\<close>

definition cache_masked :: "'z canvasser_scheme \<Rightarrow> bool" where
  "cache_masked s \<longleftrightarrow> (legacyColumn s \<and> \<not> dbOpen s) \<or> (\<forall>c \<in> set (cachedContactsT s). maskName (cc_full_name_masked c) = cc_full_name_masked c)"

lemma opened_masked: "cache_masked s \<Longrightarrow> c \<in> set (cachedContactsT (opened s)) \<Longrightarrow> maskName (cc_full_name_masked c) = cc_full_name_masked c"
  by (auto simp: cache_masked_def opened_contacts split: if_splits)

lemma cache_masked_opened: "cache_masked s \<Longrightarrow> cache_masked (opened s)"
  using opened_masked by (auto simp: cache_masked_def)

lemma cache_masked_cong:
  "cachedContactsT s' = cachedContactsT s \<Longrightarrow> legacyColumn s' = legacyColumn s \<Longrightarrow> dbOpen s' = dbOpen s \<Longrightarrow> cache_masked s' = cache_masked s"
  by (simp add: cache_masked_def)

lemma cacheContacts_masked: "preserves (cache_masked :: 'z canvasser_scheme \<Rightarrow> bool) (cacheContacts cs)"
proof -
  let ?M = "\<lambda>s :: 'z canvasser_scheme. dbOpen s \<and> cache_masked s"
  have "preserves ?M (cache_contact c)" for c
    by (auto simp: preserves_def cache_contact_def modifyE_run cache_masked_def maskName_idem)
  then have "preserves ?M (forE cs cache_contact)" by (rule preserves_forE)
  from preservesD [OF this] show ?thesis
    by (simp add: preserves_def cacheContacts_def getDB_seq cache_masked_opened)
qed

lemma getCachedContacts_run:
  "\<exists>rows. getCachedContacts st lga s = (Inr rows, opened s) \<and> set rows \<subseteq> set (cachedContactsT (opened s)) \<and> length rows \<le> 200"
  by (auto simp: getCachedContacts_def getDB_seq bindE_run getE_run returnE_run dest: in_set_takeD)

section \<open>The location queue\<close>

lemma latest_first_set [simp]: "set (latest_first rows) = set rows"
  by (simp add: latest_first_def)

lemma filter_ids_bound:
  assumes "distinct (map row_id rows)"
  shows "length (filter (\<lambda>r. row_id r \<in> row_id ` set xs) rows) \<le> length xs"
proof -
  let ?kept = "filter (\<lambda>r. row_id r \<in> row_id ` set xs) rows"
  have "length ?kept = card (set (map row_id ?kept))"
    using distinct_card [OF distinct_map_filter [OF assms]] by simp
  also have "\<dots> \<le> card (row_id ` set xs)" by (intro card_mono) auto
  also have "\<dots> \<le> length xs" using card_image_le [of "set xs" row_id] card_length [of xs] by simp
  finally show ?thesis .
qed

lemma saveLocation_run:
  assumes "fresh_ids (locationsT s)"
  shows "saveLocation loc s = (Inr (), (opened s)\<lparr>locationsT :=
    (queued_as loc (locationsT s))\<lparr>trows := filter (\<lambda>r. row_id r \<in> row_id ` set (take 1000 (latest_first (trows (queued_as loc (locationsT s))))))
       (trows (queued_as loc (locationsT s)))\<rparr>\<rparr>)"
  using assms by (simp add: saveLocation_def getDB_run save_row_def bindE_run seqE_run voidE_run returnE_run insert_fresh selectRows_run rows_of_def
      deleteRows_def Let_def list_all_iff locationsD_def queued_as_def)

lemma fresh_ids_filter: "fresh_ids t \<Longrightarrow> fresh_ids (t\<lparr>trows := filter P (trows t)\<rparr>)"
  by (auto simp: fresh_ids_def distinct_map_filter)

text \<open>Saving a fix leaves at most a thousand of them.\<close>

lemma saveLocation_bound:
  assumes "fresh_ids (locationsT s)"
  shows "length (trows (locationsT (snd (saveLocation loc s)))) \<le> 1000" "fresh_ids (locationsT (snd (saveLocation loc s)))"
proof -
  let ?t = "queued_as loc (locationsT s)"
  have fresh: "fresh_ids ?t" using assms by (rule fresh_ids_queued)
  then have "length (filter (\<lambda>r. row_id r \<in> row_id ` set (take 1000 (latest_first (trows ?t)))) (trows ?t)) \<le> length (take 1000 (latest_first (trows ?t)))"
    by (intro filter_ids_bound) (simp add: fresh_ids_def)
  then show "length (trows (locationsT (snd (saveLocation loc s)))) \<le> 1000" by (simp add: saveLocation_run [OF assms])
  show "fresh_ids (locationsT (snd (saveLocation loc s)))" using fresh_ids_filter [OF fresh] by (simp add: saveLocation_run [OF assms])
qed

end
