(* ===== verification/Mobile_Session.thy ===== *)
theory Mobile_Session
  imports Json_Text
begin

text \<open>
  The session layer of the observers' phone application (\<open>src/inec-mobile/src/lib\<close>): the
  server-corrected clock of \<open>clock-sync.ts\<close>, the token-refresh decisions of \<open>auth-refresh.ts\<close> and
  the request function of \<open>api.ts\<close> with its single retry. The backend is a parameter: a function
  from the requests sent so far and the next one to its outcome. Calls run one after another; that
  concurrent calls share one refresh is not modelled.
\<close>

section \<open>State\<close>

datatype requestBody = NoBody | JsonBody json | FormBody "(string \<times> string) list"

record httpRequest =
  rq_method :: string
  rq_path :: string
  rq_bearer :: "string option"
  rq_body :: requestBody

text \<open>A response: the \<open>Date\<close> header as the instant it parses to (\<open>None\<close> when missing or
  unparsable), whether its content type is JSON, and its text.\<close>

record httpResponse =
  rs_status :: nat
  rs_date :: "time option"
  rs_isJson :: bool
  rs_text :: string

datatype httpOutcome = Unreachable | Answered httpResponse

type_synonym backend = "httpRequest list \<Rightarrow> httpRequest \<Rightarrow> httpOutcome"

text \<open>The module variables of \<open>clock-sync.ts\<close>, the two entries of the secure store, the number of
  times the listeners of \<open>onAuthExpired\<close> were called, the requests sent and the errors reported.\<close>

record phone =
  deviceClock :: time
  currentOffsetMs :: int
  lastSampleAt :: time
  accessToken :: "string option"
  refreshToken :: "string option"
  authExpired :: nat
  sent :: "httpRequest list"
  apiErrors :: "(string \<times> nat) list"

section \<open>Clock synchronisation\<close>

definition MAX_SANE_OFFSET_MS :: int where
  "MAX_SANE_OFFSET_MS = 24 * 60 * 60 * 1000"

definition computeClockOffsetMs :: "time option \<Rightarrow> time \<Rightarrow> int option" where
  "computeClockOffsetMs serverDate clientNowMs =
     (case serverDate of
        None \<Rightarrow> None
      | Some serverMs \<Rightarrow>
          (let offset = serverMs - clientNowMs
           in if \<bar>offset\<bar> > MAX_SANE_OFFSET_MS then None else Some offset))"

definition applyClockOffset :: "time \<Rightarrow> int \<Rightarrow> time" where
  "applyClockOffset clientNowMs offsetMs = clientNowMs + offsetMs"

definition observeServerDate :: "time option \<Rightarrow> ('z phone_scheme, unit) proc" where
  "observeServerDate serverDate =
     modifyE (\<lambda>s. case computeClockOffsetMs serverDate (deviceClock s) of
                    None \<Rightarrow> s
                  | Some offset \<Rightarrow> s\<lparr>currentOffsetMs := offset, lastSampleAt := deviceClock s\<rparr>)"

definition correctedNowMs :: "'z phone_scheme \<Rightarrow> time" where
  "correctedNowMs s = applyClockOffset (deviceClock s) (currentOffsetMs s)"

definition resetClockSync :: "('z phone_scheme, unit) proc" where
  "resetClockSync = modifyE (\<lambda>s. s\<lparr>currentOffsetMs := 0, lastSampleAt := 0\<rparr>)"

section \<open>Tokens\<close>

datatype refreshFailure = HttpError | InvalidBody

datatype refreshParseResult = RefreshOk string string | RefreshFailed refreshFailure

definition field :: "string \<Rightarrow> json \<Rightarrow> json option" where
  "field k v = (case v of JObj fs \<Rightarrow> map_of fs k | _ \<Rightarrow> None)"

definition nonempty_text :: "json option \<Rightarrow> string option" where
  "nonempty_text v = (case v of Some (JStr t) \<Rightarrow> if t = [] then None else Some t | _ \<Rightarrow> None)"

definition parseRefreshResponse :: "nat \<Rightarrow> json option \<Rightarrow> string \<Rightarrow> refreshParseResult" where
  "parseRefreshResponse status body currentRefresh =
     (if status \<noteq> 200 then RefreshFailed HttpError
      else case body of
             Some (JObj fs) \<Rightarrow>
               (case nonempty_text (field ''access_token'' (JObj fs)) of
                  None \<Rightarrow> RefreshFailed InvalidBody
                | Some access \<Rightarrow> RefreshOk access (nullish (nonempty_text (field ''refresh_token'' (JObj fs))) currentRefresh))
           | Some (JArr _) \<Rightarrow> RefreshFailed InvalidBody
           | _ \<Rightarrow> RefreshFailed HttpError)"

definition isTerminalRefreshFailure :: "nat \<Rightarrow> bool" where
  "isTerminalRefreshFailure status \<longleftrightarrow> status = 401 \<or> status = 400"

definition setTokens :: "string \<Rightarrow> string option \<Rightarrow> ('z phone_scheme, unit) proc" where
  "setTokens access refresh =
     modifyE (\<lambda>s. s\<lparr>accessToken := Some access, refreshToken := (if truthy_str refresh then refresh else refreshToken s)\<rparr>)"

definition clearToken :: "('z phone_scheme, unit) proc" where
  "clearToken = modifyE (\<lambda>s. s\<lparr>accessToken := None, refreshToken := None\<rparr>)"

definition notifyAuthExpired :: "('z phone_scheme, unit) proc" where
  "notifyAuthExpired = modifyE (\<lambda>s. s\<lparr>authExpired := authExpired s + 1\<rparr>)"

section \<open>Requests\<close>

text \<open>\<open>fetch\<close>: an unreachable backend rejects with a \<open>TypeError\<close>.\<close>

definition fetch :: "backend \<Rightarrow> httpRequest \<Rightarrow> ('z phone_scheme, httpResponse) proc" where
  "fetch srv req s =
     (case srv (sent s) req of
        Unreachable \<Rightarrow> (Inl (OtherError ''TypeError: Network request failed''), s\<lparr>sent := sent s @ [req]\<rparr>)
      | Answered res \<Rightarrow> (Inr res, s\<lparr>sent := sent s @ [req]\<rparr>))"

definition refresh_request :: "string \<Rightarrow> httpRequest" where
  "refresh_request refresh =
     \<lparr>rq_method = ''POST'', rq_path = ''/auth/refresh'', rq_bearer = None,
      rq_body = JsonBody (JObj [(''refresh_token'', JStr refresh)])\<rparr>"

definition refreshAccessToken :: "backend \<Rightarrow> ('z phone_scheme, bool) proc" where
  "refreshAccessToken srv =
     bindE (getE refreshToken) (\<lambda>refresh.
     if \<not> truthy_str refresh then returnE False
     else catchE
       (bindE (fetch srv (refresh_request (the refresh))) (\<lambda>res.
        seqE (observeServerDate (rs_date res))
        (case parseRefreshResponse (rs_status res) (jsonParse (rs_text res)) (the refresh) of
           RefreshOk access rotated \<Rightarrow> seqE (setTokens access (Some rotated)) (returnE True)
         | RefreshFailed _ \<Rightarrow>
             seqE (if isTerminalRefreshFailure (rs_status res) then seqE clearToken notifyAuthExpired else returnE ())
               (returnE False))))
       (\<lambda>_. returnE False))"

definition reportApiError :: "string \<Rightarrow> nat \<Rightarrow> ('z phone_scheme, unit) proc" where
  "reportApiError path status =
     modifyE (\<lambda>s. s\<lparr>apiErrors := apiErrors s @ [(replaceRuns is_digit '':id'' False path, status)]\<rparr>)"

definition rawRequest :: "backend \<Rightarrow> string \<Rightarrow> string \<Rightarrow> requestBody \<Rightarrow> ('z phone_scheme, httpResponse) proc" where
  "rawRequest srv path meth body =
     bindE (getE accessToken) (\<lambda>token.
     fetch srv \<lparr>rq_method = meth, rq_path = path, rq_bearer = (if truthy_str token then token else None), rq_body = body\<rparr>)"

definition isAuthEndpoint :: "string \<Rightarrow> bool" where
  "isAuthEndpoint path \<longleftrightarrow> starts_with path ''/auth/login'' \<or> starts_with path ''/auth/refresh''"

datatype apiValue = JsonValue json | TextValue string

definition res_ok :: "httpResponse \<Rightarrow> bool" where
  "res_ok res \<longleftrightarrow> 200 \<le> rs_status res \<and> rs_status res \<le> 299"

text \<open>One request with the \<open>Date\<close> header of its answer observed.\<close>

definition observedRequest :: "backend \<Rightarrow> string \<Rightarrow> string \<Rightarrow> requestBody \<Rightarrow> ('z phone_scheme, httpResponse) proc" where
  "observedRequest srv path meth body =
     bindE (rawRequest srv path meth body) (\<lambda>res. seqE (observeServerDate (rs_date res)) (returnE res))"

definition read_body :: "httpResponse \<Rightarrow> ('z phone_scheme, apiValue) proc" where
  "read_body res =
     (if rs_isJson res
      then (case jsonParse (rs_text res) of
              None \<Rightarrow> throwE (OtherError ''SyntaxError: JSON Parse error'')
            | Some v \<Rightarrow> returnE (JsonValue v))
      else returnE (TextValue (rs_text res)))"

definition api :: "backend \<Rightarrow> string \<Rightarrow> string \<Rightarrow> requestBody \<Rightarrow> ('z phone_scheme, apiValue) proc" where
  "api srv path meth body =
     bindE (observedRequest srv path meth body) (\<lambda>first.
     bindE (if rs_status first = 401 \<and> \<not> isAuthEndpoint path
            then bindE (refreshAccessToken srv) (\<lambda>refreshed.
                   if refreshed then observedRequest srv path meth body else returnE first)
            else returnE first) (\<lambda>res.
     if \<not> res_ok res
     then seqE (reportApiError path (rs_status res)) (throwE (PlainError (show_nat (rs_status res) @ '': '' @ rs_text res)))
     else read_body res))"

definition api_field :: "string \<Rightarrow> apiValue \<Rightarrow> json option" where
  "api_field k v = (case v of JsonValue j \<Rightarrow> field k j | TextValue _ \<Rightarrow> None)"

text \<open>\<open>data.access_token\<close> of a \<open>null\<close> body, and storing something other than a string, throw.\<close>

definition login :: "backend \<Rightarrow> string \<Rightarrow> string \<Rightarrow> ('z phone_scheme, apiValue) proc" where
  "login srv username password =
     bindE (api srv ''/auth/login'' ''POST'' (JsonBody (JObj [(''username'', JStr username), (''password'', JStr password)]))) (\<lambda>data.
     case api_field ''access_token'' data of
       Some (JStr access) \<Rightarrow>
         seqE (setTokens access (case api_field ''refresh_token'' data of Some (JStr r) \<Rightarrow> Some r | _ \<Rightarrow> None)) (returnE data)
     | _ \<Rightarrow> throwE (OtherError ''Error: Invalid value provided to SecureStore''))"

section \<open>What a call keeps\<close>

lemma preserves_modifyE: "(\<And>s. P s \<Longrightarrow> P (f s)) \<Longrightarrow> preserves P (modifyE f)"
  by (simp add: preserves_def run_simps)

lemma preserves_case_refresh:
  "(\<And>a r. x = RefreshOk a r \<Longrightarrow> preserves P (f a r)) \<Longrightarrow> (\<And>e. x = RefreshFailed e \<Longrightarrow> preserves P (g e)) \<Longrightarrow>
   preserves P (case x of RefreshOk a r \<Rightarrow> f a r | RefreshFailed e \<Rightarrow> g e)"
  by (cases x) auto

lemma preserves_case_text:
  "(\<And>t. preserves P (f t)) \<Longrightarrow> preserves P (case v of JStr t \<Rightarrow> f t | _ \<Rightarrow> throwE e)"
  by (cases v) (simp_all add: preserves_throwE)

text \<open>An invariant of the session that no statement of the request path can break is kept by every
  call.\<close>

locale session_invariant =
  fixes P :: "'z phone_scheme \<Rightarrow> bool"
  assumes keeps_sent: "P s \<Longrightarrow> P (s\<lparr>sent := l\<rparr>)"
    and keeps_errors: "P s \<Longrightarrow> P (s\<lparr>apiErrors := es\<rparr>)"
    and keeps_tokens: "P s \<Longrightarrow> P (s\<lparr>accessToken := Some a, refreshToken := r\<rparr>)"
    and keeps_sample: "P s \<Longrightarrow> \<bar>offset\<bar> \<le> MAX_SANE_OFFSET_MS \<Longrightarrow> P (s\<lparr>currentOffsetMs := offset, lastSampleAt := t\<rparr>)"
begin

lemma keeps_fetch: "preserves P (fetch srv req)"
  by (auto simp: preserves_def fetch_def keeps_sent split: httpOutcome.split)

lemma keeps_observe: "preserves P (observeServerDate d)"
  unfolding observeServerDate_def
  by (rule preserves_modifyE)
    (auto simp: computeClockOffsetMs_def Let_def keeps_sample split: option.split if_splits)

lemma keeps_setTokens: "preserves P (setTokens a r)"
  unfolding setTokens_def by (rule preserves_modifyE) (simp add: keeps_tokens)

lemma keeps_report: "preserves P (reportApiError path st)"
  unfolding reportApiError_def by (rule preserves_modifyE) (simp add: keeps_errors)

lemmas keeps_statements = keeps_fetch keeps_observe keeps_setTokens keeps_report

lemma keeps_observedRequest: "preserves P (observedRequest srv path meth body)"
  unfolding observedRequest_def rawRequest_def by (intro preserves_intros keeps_statements)

lemma keeps_read_body: "preserves P (read_body res)"
  unfolding read_body_def by (intro preserves_intros)

lemma keeps_api:
  assumes "preserves P (refreshAccessToken srv)"
  shows "preserves P (api srv path meth body)"
  unfolding api_def by (intro preserves_intros keeps_observedRequest keeps_read_body keeps_report assms)

lemma keeps_login:
  assumes "preserves P (refreshAccessToken srv)"
  shows "preserves P (login srv u p)"
  unfolding login_def by (intro preserves_intros preserves_case_text keeps_api keeps_setTokens assms)

end

interpretation clock: session_invariant "\<lambda>s. \<bar>currentOffsetMs s\<bar> \<le> MAX_SANE_OFFSET_MS"
  by unfold_locales simp_all

interpretation signed_in: session_invariant "\<lambda>s. accessToken s \<noteq> None \<and> authExpired s = n"
  by unfold_locales simp_all

lemma clock_refresh: "preserves (\<lambda>s. \<bar>currentOffsetMs s\<bar> \<le> MAX_SANE_OFFSET_MS) (refreshAccessToken srv)"
  unfolding refreshAccessToken_def
  by (intro preserves_intros preserves_case_refresh clock.keeps_statements)
    (auto simp: clearToken_def notifyAuthExpired_def intro!: preserves_modifyE)

text \<open>The backend never answers a refresh with 400 or 401.\<close>

definition never_refuses :: "backend \<Rightarrow> bool" where
  "never_refuses srv \<longleftrightarrow>
     (\<forall>l r res. srv l (refresh_request r) = Answered res \<longrightarrow> rs_status res \<noteq> 400 \<and> rs_status res \<noteq> 401)"

lemma signed_in_refresh:
  assumes "never_refuses srv"
  shows "preserves (\<lambda>s. accessToken s \<noteq> None \<and> authExpired s = n) (refreshAccessToken srv)"
proof -
  let ?P = "\<lambda>s :: 'a phone_scheme. accessToken s \<noteq> None \<and> authExpired s = n"
  have step: "preserves ?P (bindE (fetch srv (refresh_request r)) k)"
    if "\<And>res. rs_status res \<noteq> 400 \<and> rs_status res \<noteq> 401 \<Longrightarrow> preserves ?P (k res)" for r and k :: "httpResponse \<Rightarrow> ('a phone_scheme, bool) proc"
    using that assms by (auto simp: preserves_def bindE_run fetch_def never_refuses_def split: httpOutcome.split)
  show ?thesis
    unfolding refreshAccessToken_def
    by (intro preserves_intros step preserves_case_refresh signed_in.keeps_statements)
      (auto simp: isTerminalRefreshFailure_def intro: preserves_intros)
qed

section \<open>Sessions\<close>

text \<open>What the application does over time: calls, refreshes, logins, and the clock of the device
  being set to whatever value.\<close>

inductive session_run :: "backend \<Rightarrow> phone \<Rightarrow> phone \<Rightarrow> bool" for srv where
  idle: "session_run srv s s"
| call: "session_run srv (snd (api srv path meth body s)) s' \<Longrightarrow> session_run srv s s'"
| login: "session_run srv (snd (login srv u p s)) s' \<Longrightarrow> session_run srv s s'"
| refresh: "session_run srv (snd (refreshAccessToken srv s)) s' \<Longrightarrow> session_run srv s s'"
| tick: "session_run srv (s\<lparr>deviceClock := t\<rparr>) s' \<Longrightarrow> session_run srv s s'"

lemma session_run_keeps:
  assumes "session_run srv s s'" and "P s"
    and "\<And>path meth body. preserves P (api srv path meth body)" and "\<And>u p. preserves P (login srv u p)"
    and "preserves P (refreshAccessToken srv)" and "\<And>s t. P s \<Longrightarrow> P (s\<lparr>deviceClock := t\<rparr>)"
  shows "P s'"
  using assms(1,2) by (induction rule: session_run.induct) (auto dest: preservesD [OF assms(3)] preservesD [OF assms(4)] preservesD [OF assms(5)] assms(6))

text \<open>The corrected time is never more than a day away from the clock of the device, whatever dates the backend
  sends and however the device's clock is set between the calls.\<close>

theorem corrected_time_within_day:
  assumes "session_run srv s s'" and "currentOffsetMs s = 0"
  shows "\<bar>correctedNowMs s' - deviceClock s'\<bar> \<le> 86400000"
proof -
  have "\<bar>currentOffsetMs s'\<bar> \<le> MAX_SANE_OFFSET_MS"
    by (rule session_run_keeps [where P = "\<lambda>s. \<bar>currentOffsetMs s\<bar> \<le> MAX_SANE_OFFSET_MS",
          OF assms(1) _ clock.keeps_api [OF clock_refresh] clock.keeps_login [OF clock_refresh] clock_refresh])
      (simp_all add: assms(2) MAX_SANE_OFFSET_MS_def)
  then show ?thesis by (simp add: correctedNowMs_def applyClockOffset_def MAX_SANE_OFFSET_MS_def)
qed

text \<open>C22: an outage does not log an officer out. As long as the backend does not refuse a refresh token with 400 or
  401, no sequence of calls, whether answered or unreachable, loses the stored access token or reports the session as
  expired.\<close>

theorem outage_keeps_session:
  assumes "session_run srv s s'" and "never_refuses srv" and "accessToken s \<noteq> None"
  shows "accessToken s' \<noteq> None \<and> authExpired s' = authExpired s"
  by (rule session_run_keeps [where P = "\<lambda>r. accessToken r \<noteq> None \<and> authExpired r = authExpired s",
        OF assms(1) _ signed_in.keeps_api [OF signed_in_refresh [OF assms(2)]] signed_in.keeps_login [OF signed_in_refresh [OF assms(2)]]
          signed_in_refresh [OF assms(2)]])
    (simp_all add: assms(3))

section \<open>Renewal of an expired token\<close>

text \<open>The state after a \<open>Date\<close> header has been observed.\<close>

definition sampled :: "time option \<Rightarrow> 'z phone_scheme \<Rightarrow> 'z phone_scheme" where
  "sampled d s = snd (observeServerDate d s)"

lemma observe_run [run_simps]: "observeServerDate d s = (Inr (), sampled d s)"
  by (simp add: sampled_def observeServerDate_def modifyE_run)

lemma sampled_frame [simp]:
  "sent (sampled d s) = sent s" "accessToken (sampled d s) = accessToken s"
  "refreshToken (sampled d s) = refreshToken s" "authExpired (sampled d s) = authExpired s"
  by (simp_all add: sampled_def observeServerDate_def modifyE_run split: option.split)

lemma fetch_run: "fetch srv req s =
    ((case srv (sent s) req of Unreachable \<Rightarrow> Inl (OtherError ''TypeError: Network request failed'') | Answered res \<Rightarrow> Inr res), s\<lparr>sent := sent s @ [req]\<rparr>)"
  by (simp add: fetch_def split: httpOutcome.split)

definition phone_request :: "'z phone_scheme \<Rightarrow> string \<Rightarrow> string \<Rightarrow> requestBody \<Rightarrow> httpRequest" where
  "phone_request s path meth body =
     \<lparr>rq_method = meth, rq_path = path, rq_bearer = (if truthy_str (accessToken s) then accessToken s else None), rq_body = body\<rparr>"

lemma observedRequest_run:
  "observedRequest srv path meth body s =
     (let s1 = s\<lparr>sent := sent s @ [phone_request s path meth body]\<rparr>
      in case srv (sent s) (phone_request s path meth body) of
           Unreachable \<Rightarrow> (Inl (OtherError ''TypeError: Network request failed''), s1)
         | Answered res \<Rightarrow> (Inr res, sampled (rs_date res) s1))"
  by (simp add: observedRequest_def rawRequest_def phone_request_def fetch_run run_simps Let_def split: httpOutcome.split)

lemma refresh_sends:
  "\<exists>new. sent (snd (refreshAccessToken srv s)) = sent s @ new \<and> length new \<le> 1"
  by (auto simp: refreshAccessToken_def catchE_def fetch_run run_simps setTokens_def clearToken_def notifyAuthExpired_def
      split: httpOutcome.split refreshParseResult.split)

lemma read_body_state: "snd (read_body res s) = s"
  by (simp add: read_body_def run_simps split: option.split)

text \<open>One call sends the request, at most one refresh and at most one repetition.\<close>

lemma api_sends: "\<exists>new. sent (snd (api srv path meth body s)) = sent s @ new \<and> 1 \<le> length new \<and> length new \<le> 3"
proof (cases "srv (sent s) (phone_request s path meth body)")
  case Unreachable
  then show ?thesis by (simp add: api_def bindE_run observedRequest_run Let_def)
next
  case (Answered first)
  define s1 where "s1 = sampled (rs_date first) (s\<lparr>sent := sent s @ [phone_request s path meth body]\<rparr>)"
  have s1: "observedRequest srv path meth body s = (Inr first, s1)" "sent s1 = sent s @ [phone_request s path meth body]"
    using Answered by (simp_all add: observedRequest_run Let_def s1_def)
  obtain new where new: "sent (snd (refreshAccessToken srv s1)) = sent s1 @ new" "length new \<le> 1" using refresh_sends by blast
  show ?thesis
    using s1 new
    by (auto simp: api_def bindE_run seqE_run reportApiError_def modifyE_run throwE_run returnE_run read_body_state observedRequest_run Let_def
        split: sum.split prod.split httpOutcome.split)
qed

text \<open>An expired access token is renewed behind the caller's back. When the backend answers 401 and accepts the
  refresh token, the request is repeated once with the new access token, the caller gets the answer to the repetition,
  and the rotated refresh token, if the backend sent one, replaces the old one.\<close>

theorem expired_token_renewed:
  fixes s :: phone
  assumes "srv (sent s) (phone_request s path meth body) = Answered r1" and "rs_status r1 = 401" and "\<not> isAuthEndpoint path"
    and "refreshToken s = Some rt" and "rt \<noteq> []"
    and "srv (sent s @ [phone_request s path meth body]) (refresh_request rt) = Answered r2"
    and "parseRefreshResponse (rs_status r2) (jsonParse (rs_text r2)) rt = RefreshOk a rt'" and "a \<noteq> []"
    and "srv (sent s @ [phone_request s path meth body, refresh_request rt]) ((phone_request s path meth body)\<lparr>rq_bearer := Some a\<rparr>) = Answered r3"
    and "res_ok r3"
  shows "\<exists>s'. api srv path meth body s = (fst (read_body r3 s'), s') \<and> accessToken s' = Some a \<and>
    refreshToken s' = Some (if rt' = [] then rt else rt') \<and>
    sent s' = sent s @ [phone_request s path meth body, refresh_request rt, (phone_request s path meth body)\<lparr>rq_bearer := Some a\<rparr>]"
proof -
  define q where "q = phone_request s path meth body"
  define s1 where "s1 = sampled (rs_date r1) (s\<lparr>sent := sent s @ [q]\<rparr>)"
  define s2 where "s2 = sampled (rs_date r2) (s1\<lparr>sent := sent s1 @ [refresh_request rt]\<rparr>)"
  define s3 where "s3 = s2\<lparr>accessToken := Some a, refreshToken := (if rt' = [] then refreshToken s2 else Some rt')\<rparr>"
  define s4 where "s4 = sampled (rs_date r3) (s3\<lparr>sent := sent s3 @ [q\<lparr>rq_bearer := Some a\<rparr>]\<rparr>)"
  have first: "observedRequest srv path meth body s = (Inr r1, s1)"
    using assms(1) by (simp add: observedRequest_run Let_def s1_def q_def)
  have st1: "sent s1 = sent s @ [q]" "refreshToken s1 = Some rt" using assms(4) by (simp_all add: s1_def)
  have "srv (sent s1) (refresh_request rt) = Answered r2" using assms(6) by (simp add: st1 q_def)
  then have refresh: "refreshAccessToken srv s1 = (Inr True, s3)"
    using assms(5,7) st1(2)
    by (simp add: refreshAccessToken_def catchE_def run_simps fetch_run s2_def [symmetric] setTokens_def s3_def truthy_str_def)
  have st3: "sent s3 = sent s @ [q, refresh_request rt]" "accessToken s3 = Some a" "refreshToken s3 = Some (if rt' = [] then rt else rt')"
    using st1 by (simp_all add: s3_def s2_def)
  have q': "phone_request s3 path meth body = q\<lparr>rq_bearer := Some a\<rparr>"
    using assms(8) st3(2) by (simp add: phone_request_def q_def)
  have again: "observedRequest srv path meth body s3 = (Inr r3, s4)"
    using assms(9) by (simp add: observedRequest_run Let_def q' st3(1) s4_def) (simp add: q_def)
  have "api srv path meth body s = read_body r3 s4"
    using assms(2,3,10) by (simp add: api_def bindE_run first refresh again)
  then have "api srv path meth body s = (fst (read_body r3 s4), s4)" using read_body_state [of r3 s4] by (metis prod.collapse)
  moreover have "sent s4 = sent s @ [q, refresh_request rt, q\<lparr>rq_bearer := Some a\<rparr>]" "accessToken s4 = Some a"
    "refreshToken s4 = Some (if rt' = [] then rt else rt')"
    using st3 by (simp_all add: s4_def)
  ultimately show ?thesis unfolding q_def by blast
qed

section \<open>A concrete session\<close>

definition demo_grant :: json where
  "demo_grant = JObj [(''access_token'', JStr ''new'')]"

text \<open>A backend that accepts the access token \<open>new\<close> only and gives it for any refresh token.\<close>

definition demo_backend :: backend where
  "demo_backend l r =
     (if rq_path r = ''/auth/refresh''
      then Answered \<lparr>rs_status = 200, rs_date = None, rs_isJson = True, rs_text = stringify demo_grant\<rparr>
      else if rq_bearer r = Some ''new''
      then Answered \<lparr>rs_status = 200, rs_date = Some 5000, rs_isJson = False, rs_text = ''hi''\<rparr>
      else Answered \<lparr>rs_status = 401, rs_date = Some 5000, rs_isJson = False, rs_text = ''expired''\<rparr>)"

definition demo_phone :: phone where
  "demo_phone = \<lparr>deviceClock = 0, currentOffsetMs = 0, lastSampleAt = 0, accessToken = Some ''old'', refreshToken = Some ''r'',
     authExpired = 0, sent = [], apiErrors = []\<rparr>"

lemma demo_grant_parse: "jsonParse (stringify demo_grant) = Some demo_grant"
  by (rule json_roundtrip) (simp add: demo_grant_def)

lemma demo_never_refuses: "never_refuses demo_backend"
  by (auto simp: never_refuses_def demo_backend_def refresh_request_def)

theorem corrected_time_within_day_witness:
  "\<bar>correctedNowMs (snd (api demo_backend ''/x'' ''GET'' NoBody demo_phone)) - deviceClock (snd (api demo_backend ''/x'' ''GET'' NoBody demo_phone))\<bar> \<le> 86400000"
  using corrected_time_within_day [OF session_run.call [OF session_run.idle], of demo_phone demo_backend "''/x''" "''GET''" NoBody]
  by (simp add: demo_phone_def)

theorem outage_keeps_session_witness:
  "accessToken (snd (api demo_backend ''/x'' ''GET'' NoBody demo_phone)) \<noteq> None"
  using outage_keeps_session [OF session_run.call [OF session_run.idle] demo_never_refuses, of demo_phone "''/x''" "''GET''" NoBody]
  by (simp add: demo_phone_def)

theorem expired_token_renewed_witness:
  "\<exists>s'. api demo_backend ''/x'' ''GET'' NoBody demo_phone = (Inr (TextValue ''hi''), s') \<and> accessToken s' = Some ''new'' \<and>
     refreshToken s' = Some ''r'' \<and> length (sent s') = 3"
proof -
  have parse: "parseRefreshResponse 200 (jsonParse (stringify demo_grant)) ''r'' = RefreshOk ''new'' ''r''"
    unfolding demo_grant_parse by (simp add: parseRefreshResponse_def demo_grant_def field_def nonempty_text_def)
  have "\<exists>s'. api demo_backend ''/x'' ''GET'' NoBody demo_phone = (fst (read_body \<lparr>rs_status = 200, rs_date = Some 5000, rs_isJson = False, rs_text = ''hi''\<rparr> s'), s') \<and>
      accessToken s' = Some ''new'' \<and> refreshToken s' = Some (if ''r'' = [] then ''r'' else ''r'') \<and>
      sent s' = sent demo_phone @ [phone_request demo_phone ''/x'' ''GET'' NoBody, refresh_request ''r'',
        (phone_request demo_phone ''/x'' ''GET'' NoBody)\<lparr>rq_bearer := Some ''new''\<rparr>]"
    by (rule expired_token_renewed [where rt = "''r''" and a = "''new''" and rt' = "''r''"
          and ?r1.0 = "\<lparr>rs_status = 401, rs_date = Some 5000, rs_isJson = False, rs_text = ''expired''\<rparr>"
          and ?r2.0 = "\<lparr>rs_status = 200, rs_date = None, rs_isJson = True, rs_text = stringify demo_grant\<rparr>"])
      (simp_all add: demo_backend_def phone_request_def refresh_request_def demo_phone_def isAuthEndpoint_def starts_with_def res_ok_def parse)
  then show ?thesis by (auto simp: read_body_def returnE_run demo_phone_def)
qed

end
