(* ===== verification/Canvass_Session.thy ===== *)
theory Canvass_Session
  imports Canvass_Store Mobile_Session
begin

text \<open>
  The session of a canvasser (\<open>src/inec-mobile/lib/gotv-auth.ts\<close> and \<open>auth-context.ts\<close>): sign-in by
  one-time code, the tokens in the secure store, the authenticated request with one refresh, and the
  rules that keep the screens of the two kinds of users apart (\<open>app/_layout.tsx\<close>, \<open>app/index.tsx\<close>,
  \<open>app/gotv-login.tsx\<close>). The backend is a parameter: it answers a request given the requests before.
\<close>

section \<open>Requests\<close>

text \<open>\<open>gr_text\<close> is \<open>None\<close> when reading the body fails.\<close>

record gotvResponse =
  gr_status :: nat
  gr_isJson :: bool
  gr_text :: "string option"

datatype gotvOutcome = NoAnswer | Reply gotvResponse

type_synonym gotvBackend = "httpRequest list \<Rightarrow> httpRequest \<Rightarrow> gotvOutcome"

record gotvPhone = canvasser +
  exchanges :: "(httpRequest \<times> gotvOutcome) list"

definition gr_ok :: "gotvResponse \<Rightarrow> bool" where
  "gr_ok res \<longleftrightarrow> 200 \<le> gr_status res \<and> gr_status res \<le> 299"

definition send :: "gotvBackend \<Rightarrow> httpRequest \<Rightarrow> ('z gotvPhone_scheme, gotvResponse) proc" where
  "send srv req s =
     (let out = srv (map fst (exchanges s)) req; s' = s\<lparr>exchanges := exchanges s @ [(req, out)]\<rparr>
      in case out of
           NoAnswer \<Rightarrow> (Inl (OtherError ''TypeError: Network request failed''), s')
         | Reply res \<Rightarrow> (Inr res, s'))"

definition post_json :: "string \<Rightarrow> (string \<times> json) list \<Rightarrow> httpRequest" where
  "post_json path fs = \<lparr>rq_method = ''POST'', rq_path = path, rq_bearer = None, rq_body = JsonBody (JObj fs)\<rparr>"

definition body_json :: "gotvResponse \<Rightarrow> json option" where
  "body_json res = (case gr_text res of None \<Rightarrow> None | Some t \<Rightarrow> jsonParse t)"

definition response_json :: "gotvResponse \<Rightarrow> ('s, json) proc" where
  "response_json res = (case body_json res of None \<Rightarrow> throwE (OtherError ''SyntaxError: JSON Parse error'') | Some v \<Rightarrow> returnE v)"

definition response_text :: "gotvResponse \<Rightarrow> ('s, string) proc" where
  "response_text res = (case gr_text res of None \<Rightarrow> throwE (OtherError ''TypeError: Body unreadable'') | Some t \<Rightarrow> returnE t)"

text \<open>\<open>v.k\<close> on a JSON value: \<open>null\<close> throws; a field that is missing or \<open>null\<close> is skipped by \<open>??\<close>.\<close>

definition json_prop :: "string \<Rightarrow> json \<Rightarrow> ('s, json option) proc" where
  "json_prop k v = (if v = JNull then throwE (OtherError ''TypeError: Cannot read property of null'') else returnE (field k v))"

definition present :: "json option \<Rightarrow> json option" where
  "present v = (if v = Some JNull then None else v)"

definition refused :: "gotvResponse \<Rightarrow> string \<Rightarrow> string \<Rightarrow> ('s, 'a) proc" where
  "refused res fallback what =
     bindE (json_prop ''error'' (nullish (body_json res) (JObj [(''error'', JStr fallback)]))) (\<lambda>err.
     throwE (PlainError (case present err of
       Some v \<Rightarrow> js_string v
     | None \<Rightarrow> what @ '' ('' @ show_nat (gr_status res) @ '')'')))"

section \<open>Tokens and user\<close>

definition TOKEN_KEY :: string where "TOKEN_KEY = ''gotv_mobile_token''"
definition REFRESH_KEY :: string where "REFRESH_KEY = ''gotv_mobile_refresh''"
definition USER_KEY :: string where "USER_KEY = ''gotv_mobile_user''"

lemmas secure_keys = TOKEN_KEY_def REFRESH_KEY_def USER_KEY_def DB_KEY_def

text \<open>The secure store takes strings only.\<close>

definition storeItem :: "string \<Rightarrow> json option \<Rightarrow> ('z canvasser_scheme, unit) proc" where
  "storeItem key v =
     (case v of
        Some (JStr t) \<Rightarrow> modifyE (\<lambda>s. s\<lparr>secureStore := (secureStore s)(key \<mapsto> t)\<rparr>)
      | _ \<Rightarrow> throwE (OtherError ''Error: Invalid value provided to SecureStore''))"

definition removeItem :: "string \<Rightarrow> ('z canvasser_scheme, unit) proc" where
  "removeItem key = modifyE (\<lambda>s. s\<lparr>secureStore := (secureStore s)(key := None)\<rparr>)"

definition requestOTP :: "gotvBackend \<Rightarrow> string \<Rightarrow> string \<Rightarrow> string option \<Rightarrow> ('z gotvPhone_scheme, json) proc" where
  "requestOTP srv phone partyCode name =
     bindE (send srv (post_json ''/gotv/mobile/auth/request-otp''
         [(''phone'', JStr phone), (''party_code'', JStr partyCode), (''name'', JStr (nullish name []))])) (\<lambda>res.
     if \<not> gr_ok res then refused res ''Request failed'' ''OTP request failed'' else response_json res)"

text \<open>A field the answer does not have is not in the stored text either.\<close>

definition user_of :: "json \<Rightarrow> string \<Rightarrow> json" where
  "user_of data partyCode =
     JObj (concat (map (\<lambda>k. case field k data of None \<Rightarrow> [] | Some v \<Rightarrow> [(k, v)]) [''user_id'', ''party_id'', ''role'', ''display_name'']) @
           [(''party_code'', JStr partyCode)])"

definition verifyOTP :: "gotvBackend \<Rightarrow> string \<Rightarrow> string \<Rightarrow> string \<Rightarrow> ('z gotvPhone_scheme, json) proc" where
  "verifyOTP srv phone partyCode otpCode =
     bindE (send srv (post_json ''/gotv/mobile/auth/verify-otp''
         [(''phone'', JStr phone), (''party_code'', JStr partyCode), (''otp_code'', JStr otpCode)])) (\<lambda>res.
     if \<not> gr_ok res then refused res ''Verification failed'' ''OTP verification failed''
     else bindE (response_json res) (\<lambda>data.
       bindE (json_prop ''token'' data) (\<lambda>token.
       seqE (storeItem TOKEN_KEY token)
       (seqE (storeItem REFRESH_KEY (field ''refresh_token'' data))
       (seqE (storeItem USER_KEY (Some (JStr (stringify (user_of data partyCode)))))
       (returnE (user_of data partyCode)))))))"

definition getMobileToken :: "('z canvasser_scheme, string option) proc" where
  "getMobileToken = getE (\<lambda>s. secureStore s TOKEN_KEY)"

definition getMobileUser :: "('z canvasser_scheme, json option) proc" where
  "getMobileUser =
     bindE (getE (\<lambda>s. secureStore s USER_KEY)) (\<lambda>raw.
     if \<not> truthy_str raw then returnE None
     else returnE (present (jsonParse (the raw))))"

definition isAuthenticated :: "('z canvasser_scheme, bool) proc" where
  "isAuthenticated = bindE getMobileToken (\<lambda>token. returnE (token \<noteq> None))"

definition refreshMobileToken :: "gotvBackend \<Rightarrow> ('z gotvPhone_scheme, bool) proc" where
  "refreshMobileToken srv =
     bindE (getE (\<lambda>s. secureStore s REFRESH_KEY)) (\<lambda>refresh.
     if \<not> truthy_str refresh then returnE False
     else catchE
       (bindE (send srv (post_json ''/gotv/mobile/auth/refresh'' [(''refresh_token'', JStr (the refresh))])) (\<lambda>res.
        if \<not> gr_ok res then returnE False
        else bindE (response_json res) (\<lambda>data.
          bindE (json_prop ''token'' data) (\<lambda>token.
          seqE (storeItem TOKEN_KEY token)
          (seqE (storeItem REFRESH_KEY (field ''refresh_token'' data)) (returnE True))))))
       (\<lambda>_. returnE False))"

definition gotvFetch :: "gotvBackend \<Rightarrow> string \<Rightarrow> string \<Rightarrow> requestBody \<Rightarrow> ('z gotvPhone_scheme, apiValue) proc" where
  "gotvFetch srv path meth body =
     bindE getMobileToken (\<lambda>token.
     seqE (guardE (truthy_str token) (PlainError ''Not authenticated''))
     (bindE (send srv \<lparr>rq_method = meth, rq_path = path, rq_bearer = token, rq_body = body\<rparr>) (\<lambda>first.
      bindE (if gr_status first = 401
             then bindE (refreshMobileToken srv) (\<lambda>refreshed.
                    if refreshed
                    then bindE getMobileToken (\<lambda>token'. send srv \<lparr>rq_method = meth, rq_path = path, rq_bearer = token', rq_body = body\<rparr>)
                    else returnE first)
             else returnE first) (\<lambda>res.
      if \<not> gr_ok res then throwE (PlainError (show_nat (gr_status res) @ '': '' @ nullish (gr_text res) []))
      else if gr_isJson res then bindE (response_json res) (\<lambda>v. returnE (JsonValue v))
      else bindE (response_text res) (\<lambda>t. returnE (TextValue t))))))"

definition mobileLogout :: "('z canvasser_scheme, unit) proc" where
  "mobileLogout = seqE (removeItem TOKEN_KEY) (seqE (removeItem REFRESH_KEY) (removeItem USER_KEY))"

section \<open>Two kinds of users\<close>

datatype authMode = NoMode | Gotv | Inec

definition AUTH_MODE_KEY :: string where "AUTH_MODE_KEY = ''app_auth_mode''"

definition GOTV_ROUTES :: "string list" where
  "GOTV_ROUTES = [''gotv-login'', ''gotv-canvasser'', ''gotv'', ''gotv-territory'', ''gotv-leaderboard'']"

definition PUBLIC_ROUTES :: "string list" where
  "PUBLIC_ROUTES = [''index'', ''gotv-login'']"

definition getAuthMode :: "('z canvasser_scheme, authMode) proc" where
  "getAuthMode =
     getE (\<lambda>s. if secureStore s AUTH_MODE_KEY = Some ''gotv'' then Gotv
               else if secureStore s AUTH_MODE_KEY = Some ''inec'' then Inec else NoMode)"

definition setAuthMode :: "authMode \<Rightarrow> ('z canvasser_scheme, unit) proc" where
  "setAuthMode mode =
     (case mode of
        NoMode \<Rightarrow> removeItem AUTH_MODE_KEY
      | Gotv \<Rightarrow> storeItem AUTH_MODE_KEY (Some (JStr ''gotv''))
      | Inec \<Rightarrow> storeItem AUTH_MODE_KEY (Some (JStr ''inec'')))"

definition isGOTVRoute :: "string \<Rightarrow> bool" where
  "isGOTVRoute routeName \<longleftrightarrow> starts_with routeName ''gotv''"

definition isINECRoute :: "string \<Rightarrow> bool" where
  "isINECRoute routeName \<longleftrightarrow> \<not> isGOTVRoute routeName \<and> routeName \<notin> set PUBLIC_ROUTES"

definition isRouteAllowed :: "string \<Rightarrow> authMode \<Rightarrow> bool" where
  "isRouteAllowed routeName mode =
     (if routeName \<in> set PUBLIC_ROUTES then True
      else case mode of Gotv \<Rightarrow> isGOTVRoute routeName | Inec \<Rightarrow> isINECRoute routeName | NoMode \<Rightarrow> False)"

text \<open>The effect of the root layout on a path, under the mode the layout holds: where it redirects, if
  anywhere. The second is the effect of the start screen, under the stored mode and tokens.\<close>

definition routeGuard :: "authMode \<Rightarrow> string \<Rightarrow> string option" where
  "routeGuard authMode pathname =
     (let routeName = (if starts_with pathname ''/'' then tl pathname else pathname) in
      if routeName = [] then None
      else if authMode = NoMode then (if routeName \<notin> set PUBLIC_ROUTES then Some ''/'' else None)
      else if \<not> isRouteAllowed routeName authMode
      then (if authMode = Gotv then Some ''/gotv-canvasser'' else Some ''/(tabs)/feed'')
      else None)"

definition startRedirect :: "string option \<Rightarrow> ('z canvasser_scheme, string option) proc" where
  "startRedirect inecToken =
     bindE getAuthMode (\<lambda>mode.
     bindE (if mode = Gotv then isAuthenticated else returnE False) (\<lambda>gotvAuthed.
     if gotvAuthed then returnE (Some ''/gotv-canvasser'')
     else if truthy_str inecToken \<and> mode = Inec then returnE (Some ''/(tabs)/feed'')
     else returnE None))"

section \<open>The sign-in screen\<close>

datatype loginStep = PhoneStep | OtpStep

record loginScreen =
  ls_step :: loginStep
  ls_phone :: string
  ls_name :: string
  ls_partyCode :: string
  ls_otpCode :: string
  ls_error :: string
  ls_countdown :: nat
  ls_route :: "string option"

text \<open>\<open>err.message\<close>: the text of an error after its class.\<close>

fun after_colon :: "string \<Rightarrow> string" where
  "after_colon [] = []"
| "after_colon (c # cs) = (if c = CHR '':'' then drop 1 cs else after_colon cs)"

definition error_message :: "error \<Rightarrow> string" where
  "error_message e = (case e of PlainError m \<Rightarrow> m | OtherError t \<Rightarrow> after_colon t | TRPC _ m \<Rightarrow> m | PgError _ \<Rightarrow> [])"

definition handleRequestOTP :: "gotvBackend \<Rightarrow> loginScreen \<Rightarrow> ('z gotvPhone_scheme, loginScreen) proc" where
  "handleRequestOTP srv f =
     (if length (ls_phone f) < 10 then returnE (f\<lparr>ls_error := ''Enter a valid Nigerian phone number''\<rparr>)
      else if ls_partyCode f = [] then returnE (f\<lparr>ls_error := ''Select your party''\<rparr>)
      else catchE
        (seqE (requestOTP srv (ls_phone f) (ls_partyCode f) (Some (ls_name f)))
          (returnE (f\<lparr>ls_error := [], ls_countdown := 120, ls_step := OtpStep\<rparr>)))
        (\<lambda>e. returnE (f\<lparr>ls_error := error_message e\<rparr>)))"

definition handleVerifyOTP :: "gotvBackend \<Rightarrow> loginScreen \<Rightarrow> ('z gotvPhone_scheme, loginScreen) proc" where
  "handleVerifyOTP srv f =
     (if length (ls_otpCode f) \<noteq> 6 then returnE (f\<lparr>ls_error := ''Enter the 6-digit OTP code''\<rparr>)
      else catchE
        (seqE (verifyOTP srv (ls_phone f) (ls_partyCode f) (ls_otpCode f))
        (seqE (setAuthMode Gotv) (returnE (f\<lparr>ls_error := [], ls_route := Some ''/gotv-canvasser''\<rparr>))))
        (\<lambda>e. returnE (f\<lparr>ls_error := error_message e\<rparr>)))"

definition handleResendOTP :: "gotvBackend \<Rightarrow> loginScreen \<Rightarrow> ('z gotvPhone_scheme, loginScreen) proc" where
  "handleResendOTP srv f =
     (if ls_countdown f > 0 then returnE f
      else catchE
        (seqE (requestOTP srv (ls_phone f) (ls_partyCode f) (Some (ls_name f))) (returnE (f\<lparr>ls_countdown := 120, ls_error := []\<rparr>)))
        (\<lambda>e. returnE (f\<lparr>ls_error := error_message e\<rparr>)))"

definition countdownTick :: "loginScreen \<Rightarrow> loginScreen" where
  "countdownTick f = (if ls_countdown f \<le> 0 then f else f\<lparr>ls_countdown := ls_countdown f - 1\<rparr>)"

text \<open>Boxes between the last one filled and the one typed into stay empty and vanish in the join.\<close>

definition handleOTPChange :: "string \<Rightarrow> nat \<Rightarrow> loginScreen \<Rightarrow> loginScreen" where
  "handleOTPChange t index f =
     (let digits = map (\<lambda>c. [c]) (ls_otpCode f);
          newOTP = (if index < length digits then digits[index := t] else digits @ [t])
      in f\<lparr>ls_otpCode := take 6 (concat newOTP)\<rparr>)"

definition handleGOTVEntry :: "('z canvasser_scheme, string) proc" where
  "handleGOTVEntry = seqE (setAuthMode Gotv) (returnE ''/gotv-login'')"

definition handleLogout :: "('z canvasser_scheme, string) proc" where
  "handleLogout = seqE mobileLogout (seqE (setAuthMode NoMode) (returnE ''/''))"

section \<open>What the session shows\<close>

lemma send_run: "send srv req s =
    ((case srv (map fst (exchanges s)) req of NoAnswer \<Rightarrow> Inl (OtherError ''TypeError: Network request failed'') | Reply res \<Rightarrow> Inr res),
     s\<lparr>exchanges := exchanges s @ [(req, srv (map fst (exchanges s)) req)]\<rparr>)"
  by (simp add: send_def Let_def split: gotvOutcome.split)

lemma storeItem_Inr: "storeItem k v s = (Inr (), s') \<Longrightarrow> \<exists>t. v = Some (JStr t) \<and> s' = s\<lparr>secureStore := (secureStore s)(k \<mapsto> t)\<rparr>"
  by (auto simp: storeItem_def modifyE_run throwE_run split: option.splits json.splits)

lemma response_json_Inr: "response_json res s = (Inr v, s') \<Longrightarrow> body_json res = Some v \<and> s' = s"
  by (auto simp: response_json_def throwE_run returnE_run split: option.splits)

lemma json_prop_Inr: "json_prop k v s = (Inr x, s') \<Longrightarrow> v \<noteq> JNull \<and> x = field k v \<and> s' = s"
  by (auto simp: json_prop_def throwE_run returnE_run split: if_splits)

lemma refused_Inl: "refused res a b s \<noteq> (Inr v, s')"
  by (auto simp: refused_def bindE_run json_prop_def throwE_run returnE_run)

lemma verifyOTP_Inr:
  assumes "verifyOTP srv phone party otp s = (Inr u, s')"
  shows "\<exists>data token rt. u = user_of data party \<and> field ''token'' data = Some (JStr token) \<and> secureStore s' TOKEN_KEY = Some token \<and>
    secureStore s' REFRESH_KEY = Some rt \<and> secureStore s' USER_KEY = Some (stringify u) \<and> exchanges s' \<noteq> []"
proof -
  from assms obtain res s1 data tok s2 s3 s4 where
      sent: "send srv (post_json ''/gotv/mobile/auth/verify-otp''
         [(''phone'', JStr phone), (''party_code'', JStr party), (''otp_code'', JStr otp)]) s = (Inr res, s1)"
    and "body_json res = Some data" and tok: "tok = field ''token'' data"
    and st: "storeItem TOKEN_KEY tok s1 = (Inr (), s2)" "storeItem REFRESH_KEY (field ''refresh_token'' data) s2 = (Inr (), s3)"
      "storeItem USER_KEY (Some (JStr (stringify (user_of data party)))) s3 = (Inr (), s4)"
    and u: "u = user_of data party" "s' = s4"
    by (fastforce simp: verifyOTP_def returnE_run refused_Inl split: if_splits
        elim!: bindE_InrE seqE_InrE dest!: response_json_Inr json_prop_Inr)
  have "exchanges s1 \<noteq> []" using sent by (auto simp: send_run)
  with st u tok show ?thesis by (auto dest!: storeItem_Inr simp: secure_keys)
qed

text \<open>The user that signed in is the user read back at the next start.\<close>

lemma signed_in_user_kept:
  assumes "verifyOTP srv phone party otp s = (Inr u, s')" and "wf_json u"
  shows "getMobileUser s' = (Inr (Some u), s') \<and> isAuthenticated s' = (Inr True, s')"
proof -
  from verifyOTP_Inr [OF assms(1)] obtain data token where u: "u = user_of data party" and
    st: "secureStore s' TOKEN_KEY = Some token" "secureStore s' USER_KEY = Some (stringify u)" by blast
  have "stringify u \<noteq> []" "u \<noteq> JNull" by (simp_all add: u user_of_def json_object_def)
  with st json_roundtrip [OF assms(2)] show ?thesis
    by (simp add: getMobileUser_def isAuthenticated_def getMobileToken_def bindE_run getE_run returnE_run present_def)
qed

lemma logout_forgets:
  "secureStore (snd (handleLogout s)) TOKEN_KEY = None \<and> secureStore (snd (handleLogout s)) USER_KEY = None \<and> getAuthMode (snd (handleLogout s)) = (Inr NoMode, snd (handleLogout s))"
  by (simp add: handleLogout_def mobileLogout_def setAuthMode_def removeItem_def getAuthMode_def run_simps secure_keys AUTH_MODE_KEY_def)

text \<open>The screens of the two kinds of users are disjoint, and a redirect of the guard is final.\<close>

lemma routes_disjoint:
  "r \<in> set PUBLIC_ROUTES \<or> isRouteAllowed r Gotv \<noteq> isRouteAllowed r Inec" "isRouteAllowed r NoMode \<longleftrightarrow> r \<in> set PUBLIC_ROUTES"
  by (auto simp: isRouteAllowed_def isINECRoute_def)

lemma gotv_routes_closed: "r \<in> set GOTV_ROUTES \<Longrightarrow> r \<noteq> ''gotv-login'' \<Longrightarrow> \<not> isRouteAllowed r Inec \<and> isRouteAllowed r Gotv"
  by (auto simp: GOTV_ROUTES_def isRouteAllowed_def isINECRoute_def isGOTVRoute_def starts_with_def PUBLIC_ROUTES_def)

lemma guard_settles: "routeGuard Gotv ''/gotv-canvasser'' = None" "routeGuard m ''/'' = None"
  by (simp_all add: routeGuard_def Let_def starts_with_def isRouteAllowed_def isGOTVRoute_def)

text \<open>The layout reads the mode once, when the application starts. After a sign-in in the same run it still holds
  \<open>none\<close>: the guard sends the canvasser from the canvassing screen to the start screen, which sends the canvasser
  back, until the application is started again.\<close>

lemma fresh_login_bounces:
  assumes "handleVerifyOTP srv f s = (Inr f', s')" and "ls_route f = None" and "ls_route f' \<noteq> None"
  shows "ls_route f' = Some ''/gotv-canvasser'' \<and> routeGuard NoMode ''/gotv-canvasser'' = Some ''/'' \<and>
    startRedirect inecToken s' = (Inr (Some ''/gotv-canvasser''), s') \<and> routeGuard Gotv ''/gotv-canvasser'' = None"
proof -
  have "f' \<noteq> f\<lparr>ls_error := e\<rparr>" for e using assms(2,3) by auto
  with assms(1) obtain u s1 where v: "verifyOTP srv (ls_phone f) (ls_partyCode f) (ls_otpCode f) s = (Inr u, s1)"
    and s': "setAuthMode Gotv s1 = (Inr (), s')" and f': "f' = f\<lparr>ls_error := [], ls_route := Some ''/gotv-canvasser''\<rparr>"
    by (auto simp: handleVerifyOTP_def catchE_def seqE_run returnE_run split: if_splits prod.splits sum.splits)
  from verifyOTP_Inr [OF v] obtain token where "secureStore s1 TOKEN_KEY = Some token" by blast
  with s' have "secureStore s' TOKEN_KEY = Some token" "secureStore s' AUTH_MODE_KEY = Some ''gotv''"
    by (auto simp: setAuthMode_def storeItem_def modifyE_run secure_keys AUTH_MODE_KEY_def)
  with f' show ?thesis
    by (simp add: startRedirect_def getAuthMode_def isAuthenticated_def getMobileToken_def bindE_run getE_run returnE_run
        routeGuard_def Let_def starts_with_def PUBLIC_ROUTES_def guard_settles)
       (simp add: isRouteAllowed_def isGOTVRoute_def starts_with_def PUBLIC_ROUTES_def)
qed

text \<open>A refresh answered without a new refresh token stores the new access token and still reports a failure, so the
  request that caused it is not repeated.\<close>

lemma half_refresh:
  assumes "secureStore s REFRESH_KEY = Some rt" and "rt \<noteq> []" and "body_json res = Some data" and "gr_ok res"
    and "srv (map fst (exchanges s)) (post_json ''/gotv/mobile/auth/refresh'' [(''refresh_token'', JStr rt)]) = Reply res"
    and "field ''token'' data = Some (JStr token)" and "field ''refresh_token'' data = None"
  shows "fst (refreshMobileToken srv s) = Inr False \<and> secureStore (snd (refreshMobileToken srv s)) TOKEN_KEY = Some token"
proof -
  have "data \<noteq> JNull" using assms(6) by (auto simp: field_def)
  with assms show ?thesis
    by (simp add: refreshMobileToken_def bindE_run seqE_run getE_run catchE_def send_run response_json_def json_prop_def storeItem_def
        returnE_run modifyE_run throwE_run)
qed

end
