(* ===== verification/Canvass_Sync.thy ===== *)
theory Canvass_Sync
  imports Canvass_Session "HOL-Library.AList" "HOL-Library.Sublist" "HOL-Library.Multiset"
begin

text \<open>
  The background synchronisation of the canvassers' application (\<open>src/inec-mobile/lib/sync.ts\<close>) and the
  screen that feeds it (\<open>app/gotv-canvasser.tsx\<close>). The code is given twice: as the sequence of its
  statements (\<open>syncAll\<close>), and as passes that stop at every answer of the backend, so that several of
  them, the timers, changes of the network and the user can interleave (\<open>canvass_step\<close>). Reading the
  token and sending a request is one step, and so is what is done with one answer.
\<close>

section \<open>State\<close>

record conflictNotice =
  cn_table :: string
  cn_recordId :: string
  cn_serverData :: string

datatype syncState = Idle | SyncingNow | Offline | ErrorState

text \<open>A pass over the queues: what it does next.\<close>

datatype syncPoint =
    KnocksStart
  | KnockNext "doorKnock queuedRow list"
  | KnockReply "doorKnock queuedRow" gotvResponse "doorKnock queuedRow list"
  | PledgesStart
  | PledgeNext "pledge queuedRow list"
  | PledgeReply "pledge queuedRow" gotvResponse "pledge queuedRow list"
  | LocationsStart
  | LocationNext "locationUpdate queuedRow list" "locationUpdate queuedRow list" "int list"
  | LocationsDone "int list"
  | PassDone

text \<open>The fields of the manager, the delays of the armed retry timers, the passes under way and what
  the listeners were told.\<close>

record syncDevice = gotvPhone +
  mgrState :: syncState
  retryCount :: nat
  isOnline :: bool
  intervalOn :: bool
  retryTimers :: "nat list"
  passes :: "syncPoint list"
  conflictNotices :: "conflictNotice list"
  stateNotices :: "(syncState \<times> nat) list"

definition maxRetries :: nat where "maxRetries = 5"

section \<open>Sending one record\<close>

definition opt_text :: "string option \<Rightarrow> json" where
  "opt_text v = (case v of None \<Rightarrow> JNull | Some t \<Rightarrow> JStr t)"

definition bearer :: "string option \<Rightarrow> string option" where
  "bearer token = (if truthy_str token then token else None)"

definition knock_request :: "string option \<Rightarrow> doorKnock \<Rightarrow> httpRequest" where
  "knock_request token k =
     (post_json ''/gotv/mobile/knock''
        [(''volunteer_id'', JStr (dk_volunteer_id k)), (''contact_id'', opt_text (dk_contact_id k)), (''latitude'', JNum (dk_latitude k)),
         (''longitude'', JNum (dk_longitude k)), (''outcome'', JStr (dk_outcome k)), (''notes'', JStr (dk_notes k)),
         (''speed_kmh'', JNum (dk_speed_kmh k))])\<lparr>rq_bearer := bearer token\<rparr>"

definition pledge_request :: "string option \<Rightarrow> pledge \<Rightarrow> httpRequest" where
  "pledge_request token p =
     (post_json ''/gotv/pledges'' [(''contact_id'', JStr (pl_contact_id p)), (''pledge_type'', JStr (pl_pledge_type p))])\<lparr>rq_bearer := bearer token\<rparr>"

definition location_request :: "string option \<Rightarrow> locationUpdate \<Rightarrow> httpRequest" where
  "location_request token l =
     (post_json (''/gotv/volunteers/'' @ lu_volunteer_id l @ ''/location'')
        [(''latitude'', JNum (lu_latitude l)), (''longitude'', JNum (lu_longitude l)), (''battery'', JNum (lu_battery l, 0)),
         (''speed_kmh'', JNum (lu_speed_kmh l))])\<lparr>rq_bearer := bearer token\<rparr>"

definition status_text :: "syncStatus \<Rightarrow> string" where
  "status_text st = (case st of PendingSync \<Rightarrow> ''pending'' | Syncing \<Rightarrow> ''syncing'' | Synced \<Rightarrow> ''synced'' | FailedSync \<Rightarrow> ''failed'')"

text \<open>A row as \<open>SELECT *\<close> returns it.\<close>

definition knock_json :: "doorKnock queuedRow \<Rightarrow> json" where
  "knock_json r =
     (let k = captured r in
      JObj [(''id'', JNum (row_id r, 0)), (''volunteer_id'', JStr (dk_volunteer_id k)), (''contact_id'', opt_text (dk_contact_id k)),
            (''latitude'', JNum (dk_latitude k)), (''longitude'', JNum (dk_longitude k)), (''outcome'', JStr (dk_outcome k)),
            (''notes'', JStr (dk_notes k)), (''speed_kmh'', JNum (dk_speed_kmh k)), (''recorded_at'', JStr (dk_recorded_at k)),
            (''sync_status'', JStr (status_text (sync_status r)))])"

definition pledge_json :: "pledge queuedRow \<Rightarrow> json" where
  "pledge_json r =
     (let p = captured r in
      JObj [(''id'', JNum (row_id r, 0)), (''contact_id'', JStr (pl_contact_id p)), (''pledge_type'', JStr (pl_pledge_type p)),
            (''notes'', JStr (pl_notes p)), (''recorded_at'', JStr (pl_recorded_at p)), (''sync_status'', JStr (status_text (sync_status r)))])"

definition readConflictBody :: "gotvResponse \<Rightarrow> string" where
  "readConflictBody res =
     (case gr_text res of
        None \<Rightarrow> ''(unreadable conflict response body)''
      | Some t \<Rightarrow> if t = [] then ''(empty conflict response body)'' else t)"

definition notifyConflict :: "conflictNotice \<Rightarrow> (syncDevice, unit) proc" where
  "notifyConflict n = modifyE (\<lambda>s. s\<lparr>conflictNotices := conflictNotices s @ [n]\<rparr>)"

definition postKnock :: "gotvBackend \<Rightarrow> doorKnock queuedRow \<Rightarrow> (syncDevice, gotvResponse) proc" where
  "postKnock srv k = bindE getMobileToken (\<lambda>token. send srv (knock_request token (captured k)))"

definition settleKnock :: "doorKnock queuedRow \<Rightarrow> gotvResponse \<Rightarrow> (syncDevice, unit) proc" where
  "settleKnock k res =
     (if gr_ok res then markDoorKnockSynced (row_id k)
      else if gr_status res = 409
      then seqE (logConflict ''door_knocks'' (show_int (row_id k)) (stringify (knock_json k)) (readConflictBody res))
           (seqE (markDoorKnockFailed (row_id k))
           (notifyConflict \<lparr>cn_table = ''door_knocks'', cn_recordId = show_int (row_id k), cn_serverData = readConflictBody res\<rparr>))
      else markDoorKnockFailed (row_id k))"

definition postPledge :: "gotvBackend \<Rightarrow> pledge queuedRow \<Rightarrow> (syncDevice, gotvResponse) proc" where
  "postPledge srv p = bindE getMobileToken (\<lambda>token. send srv (pledge_request token (captured p)))"

definition settlePledge :: "pledge queuedRow \<Rightarrow> gotvResponse \<Rightarrow> (syncDevice, unit) proc" where
  "settlePledge p res =
     (if gr_ok res then markPledgeSynced (row_id p)
      else if gr_status res = 409
      then seqE (logConflict ''pledges'' (show_int (row_id p)) (stringify (pledge_json p)) (readConflictBody res))
           (seqE (markPledgeFailed (row_id p))
           (notifyConflict \<lparr>cn_table = ''pledges'', cn_recordId = show_int (row_id p), cn_serverData = readConflictBody res\<rparr>))
      else returnE ())"

definition postLocation :: "gotvBackend \<Rightarrow> locationUpdate queuedRow \<Rightarrow> (syncDevice, gotvResponse) proc" where
  "postLocation srv l = bindE getMobileToken (\<lambda>token. send srv (location_request token (captured l)))"

text \<open>\<open>latestByVol\<close>: a map that keeps the place of the first entry of a volunteer and the value of the last.\<close>

definition latestByVol :: "locationUpdate queuedRow list \<Rightarrow> locationUpdate queuedRow list" where
  "latestByVol locs = map snd (foldl (\<lambda>m l. AList.update (lu_volunteer_id (captured l)) l m) [] locs)"

definition ids_of_volunteer :: "locationUpdate queuedRow list \<Rightarrow> locationUpdate queuedRow \<Rightarrow> int list" where
  "ids_of_volunteer locs loc = map row_id (filter (\<lambda>l. lu_volunteer_id (captured l) = lu_volunteer_id (captured loc)) locs)"

section \<open>A pass from start to end\<close>

definition setState :: "syncState \<Rightarrow> (syncDevice, unit) proc" where
  "setState newState =
     seqE (modifyE (\<lambda>s. s\<lparr>mgrState := newState\<rparr>))
     (bindE getPendingCounts (\<lambda>counts.
      modifyE (\<lambda>s. s\<lparr>stateNotices := stateNotices s @ [(newState, pn_knocks counts + pn_pledges counts + pn_locations counts)]\<rparr>)))"

definition rethrow :: "string \<Rightarrow> (syncDevice, 'a) proc \<Rightarrow> (syncDevice, 'a) proc" where
  "rethrow what m = catchE m (\<lambda>_. throwE (PlainError (''Network error during '' @ what @ '' sync'')))"

definition syncDoorKnocks :: "gotvBackend \<Rightarrow> (syncDevice, unit) proc" where
  "syncDoorKnocks srv =
     bindE getPendingDoorKnocks (\<lambda>knocks.
     forE knocks (\<lambda>k. rethrow ''door knock'' (bindE (postKnock srv k) (settleKnock k))))"

definition syncPledges :: "gotvBackend \<Rightarrow> (syncDevice, unit) proc" where
  "syncPledges srv =
     bindE getPendingPledges (\<lambda>ps.
     forE ps (\<lambda>p. rethrow ''pledge'' (bindE (postPledge srv p) (settlePledge p))))"

primrec post_locations ::
  "gotvBackend \<Rightarrow> locationUpdate queuedRow list \<Rightarrow> locationUpdate queuedRow list \<Rightarrow> int list \<Rightarrow> (syncDevice, int list) proc" where
  "post_locations srv locs [] syncedIds = returnE syncedIds"
| "post_locations srv locs (loc # rest) syncedIds =
     bindE (rethrow ''location'' (postLocation srv loc)) (\<lambda>res.
     post_locations srv locs rest (if gr_ok res then syncedIds @ ids_of_volunteer locs loc else syncedIds))"

definition syncLocations :: "gotvBackend \<Rightarrow> (syncDevice, unit) proc" where
  "syncLocations srv =
     bindE getPendingLocations (\<lambda>locs.
     if locs = [] then returnE ()
     else bindE (post_locations srv locs (latestByVol locs) []) (\<lambda>syncedIds.
       if length syncedIds > 0 then markLocationsSynced syncedIds else returnE ()))"

text \<open>\<open>toISO\<close> prints an instant as \<open>toISOString\<close> does.\<close>

definition passOver :: "(time \<Rightarrow> string) \<Rightarrow> (syncDevice, unit) proc" where
  "passOver toISO =
     seqE (modifyE (\<lambda>s. s\<lparr>retryCount := 0\<rparr>))
     (bindE (getE nowMs) (\<lambda>now.
      seqE (setSyncMeta ''last_sync'' (toISO now)) (setState Idle)))"

definition retryLater :: "(syncDevice, unit) proc" where
  "retryLater =
     seqE (modifyE (\<lambda>s. s\<lparr>retryCount := retryCount s + 1\<rparr>))
     (bindE (getE retryCount) (\<lambda>n.
      if n \<ge> maxRetries then setState ErrorState
      else modifyE (\<lambda>s. s\<lparr>retryTimers := retryTimers s @ [min (1000 * 2 ^ n) 60000]\<rparr>)))"

definition syncBody :: "(time \<Rightarrow> string) \<Rightarrow> gotvBackend \<Rightarrow> (syncDevice, unit) proc" where
  "syncBody toISO srv =
     catchE
       (seqE (syncDoorKnocks srv) (seqE (syncPledges srv) (seqE (syncLocations srv) (passOver toISO))))
       (\<lambda>_. retryLater)"

definition syncAll :: "(time \<Rightarrow> string) \<Rightarrow> gotvBackend \<Rightarrow> (syncDevice, unit) proc" where
  "syncAll toISO srv =
     bindE (getE isOnline) (\<lambda>connected.
     if \<not> connected then setState Offline
     else seqE (setState SyncingNow) (syncBody toISO srv))"

section \<open>A pass in steps\<close>

definition resume :: "(time \<Rightarrow> string) \<Rightarrow> gotvBackend \<Rightarrow> syncPoint \<Rightarrow> (syncDevice, syncPoint option) proc" where
  "resume toISO srv p =
     (case p of
        KnocksStart \<Rightarrow> bindE getPendingDoorKnocks (\<lambda>ks. returnE (Some (KnockNext ks)))
      | KnockNext [] \<Rightarrow> returnE (Some PledgesStart)
      | KnockNext (k # ks) \<Rightarrow> bindE (rethrow ''door knock'' (postKnock srv k)) (\<lambda>res. returnE (Some (KnockReply k res ks)))
      | KnockReply k res ks \<Rightarrow> seqE (rethrow ''door knock'' (settleKnock k res)) (returnE (Some (KnockNext ks)))
      | PledgesStart \<Rightarrow> bindE getPendingPledges (\<lambda>ps. returnE (Some (PledgeNext ps)))
      | PledgeNext [] \<Rightarrow> returnE (Some LocationsStart)
      | PledgeNext (x # ps) \<Rightarrow> bindE (rethrow ''pledge'' (postPledge srv x)) (\<lambda>res. returnE (Some (PledgeReply x res ps)))
      | PledgeReply x res ps \<Rightarrow> seqE (rethrow ''pledge'' (settlePledge x res)) (returnE (Some (PledgeNext ps)))
      | LocationsStart \<Rightarrow>
          bindE getPendingLocations (\<lambda>locs. returnE (Some (if locs = [] then PassDone else LocationNext locs (latestByVol locs) [])))
      | LocationNext locs [] ids \<Rightarrow> returnE (Some (LocationsDone ids))
      | LocationNext locs (l # rest) ids \<Rightarrow>
          bindE (rethrow ''location'' (postLocation srv l)) (\<lambda>res.
          returnE (Some (LocationNext locs rest (if gr_ok res then ids @ ids_of_volunteer locs l else ids))))
      | LocationsDone ids \<Rightarrow> seqE (if length ids > 0 then markLocationsSynced ids else returnE ()) (returnE (Some PassDone))
      | PassDone \<Rightarrow> seqE (passOver toISO) (returnE None))"

text \<open>The beginning of \<open>syncAll\<close>, and one step of pass \<open>i\<close>; a pass that throws ends with the
  handler.\<close>

definition beginSync :: "(syncDevice, unit) proc" where
  "beginSync =
     bindE (getE isOnline) (\<lambda>connected.
     if \<not> connected then setState Offline
     else seqE (setState SyncingNow) (modifyE (\<lambda>s. s\<lparr>passes := passes s @ [KnocksStart]\<rparr>)))"

definition drop_nth :: "nat \<Rightarrow> 'a list \<Rightarrow> 'a list" where
  "drop_nth i xs = take i xs @ drop (Suc i) xs"

definition advance :: "(time \<Rightarrow> string) \<Rightarrow> gotvBackend \<Rightarrow> nat \<Rightarrow> syncDevice \<Rightarrow> syncDevice" where
  "advance toISO srv i s =
     (if i \<ge> length (passes s) then s
      else case resume toISO srv (passes s ! i) s of
             (Inr (Some p), s') \<Rightarrow> s'\<lparr>passes := (passes s')[i := p]\<rparr>
           | (Inr None, s') \<Rightarrow> s'\<lparr>passes := drop_nth i (passes s')\<rparr>
           | (Inl _, s') \<Rightarrow> snd (retryLater (s'\<lparr>passes := drop_nth i (passes s')\<rparr>)))"

section \<open>Events\<close>

definition networkChanged :: "bool option \<Rightarrow> (syncDevice, unit) proc" where
  "networkChanged isConnected =
     seqE (modifyE (\<lambda>s. s\<lparr>isOnline := nullish isConnected False\<rparr>))
     (bindE (getE (\<lambda>s. (isOnline s, mgrState s))) (\<lambda>(connected, st).
      seqE (if connected \<and> st = Offline then beginSync else returnE ())
        (if \<not> connected then setState Offline else returnE ())))"

definition startManager :: "(syncDevice, unit) proc" where
  "startManager =
     bindE (getE intervalOn) (\<lambda>running.
     if running then returnE ()
     else seqE (modifyE (\<lambda>s. s\<lparr>intervalOn := True\<rparr>))
       (bindE (getE isOnline) (\<lambda>connected. if connected then beginSync else returnE ())))"

definition stopManager :: "(syncDevice, unit) proc" where
  "stopManager = modifyE (\<lambda>s. s\<lparr>intervalOn := False\<rparr>)"

definition intervalTick :: "(syncDevice, unit) proc" where
  "intervalTick =
     bindE (getE (\<lambda>s. intervalOn s \<and> isOnline s \<and> mgrState s \<noteq> SyncingNow)) (\<lambda>due. if due then beginSync else returnE ())"

definition retryFires :: "nat \<Rightarrow> (syncDevice, unit) proc" where
  "retryFires j =
     bindE (getE retryTimers) (\<lambda>ts.
     if j < length ts then seqE (modifyE (\<lambda>s. s\<lparr>retryTimers := drop_nth j (retryTimers s)\<rparr>)) beginSync else returnE ())"

text \<open>A restart of the application: what is in memory is gone, the database and the secure store stay.\<close>

definition restartApp :: "syncDevice \<Rightarrow> syncDevice" where
  "restartApp s = s\<lparr>dbOpen := False, mgrState := Idle, retryCount := 0, isOnline := True, intervalOn := False, retryTimers := [], passes := []\<rparr>"

section \<open>The canvassing screen\<close>

record gpsFix =
  fx_latitude :: decimal
  fx_longitude :: decimal
  fx_speed :: "decimal option"

record canvassScreen =
  sc_shiftActive :: bool
  sc_volunteerId :: string
  sc_currentLocation :: "gpsFix option"
  sc_selectedContact :: "cachedContact option"
  sc_outcome :: "string option"
  sc_notes :: string
  sc_knockCount :: nat
  sc_pendingCount :: nat

text \<open>\<open>kmh\<close> is the floating-point product with 3.6.\<close>

definition location_of :: "(time \<Rightarrow> string) \<Rightarrow> (decimal \<Rightarrow> decimal) \<Rightarrow> string \<Rightarrow> gpsFix \<Rightarrow> time \<Rightarrow> locationUpdate" where
  "location_of toISO kmh vol l now =
     \<lparr>lu_volunteer_id = vol, lu_latitude = fx_latitude l, lu_longitude = fx_longitude l, lu_battery = 100,
      lu_speed_kmh = kmh (nullish (fx_speed l) (0, 0)), lu_recorded_at = toISO now\<rparr>"

definition locationWatched :: "(time \<Rightarrow> string) \<Rightarrow> (decimal \<Rightarrow> decimal) \<Rightarrow> gpsFix \<Rightarrow> canvassScreen \<Rightarrow> (syncDevice, canvassScreen) proc" where
  "locationWatched toISO kmh l f =
     bindE (getE nowMs) (\<lambda>now.
     seqE (saveLocation (location_of toISO kmh (sc_volunteerId f) l now)) (returnE (f\<lparr>sc_currentLocation := Some l\<rparr>)))"

definition startShift :: "canvassScreen \<Rightarrow> canvassScreen" where
  "startShift f = f\<lparr>sc_shiftActive := True, sc_knockCount := 0\<rparr>"

definition endShift :: "canvassScreen \<Rightarrow> canvassScreen" where
  "endShift f = f\<lparr>sc_shiftActive := False\<rparr>"

definition knock_of :: "(time \<Rightarrow> string) \<Rightarrow> (decimal \<Rightarrow> decimal) \<Rightarrow> canvassScreen \<Rightarrow> gpsFix \<Rightarrow> string \<Rightarrow> time \<Rightarrow> doorKnock" where
  "knock_of toISO kmh f l outcome now =
     \<lparr>dk_volunteer_id = sc_volunteerId f, dk_contact_id = map_option cc_contact_id (sc_selectedContact f), dk_latitude = fx_latitude l,
      dk_longitude = fx_longitude l, dk_outcome = outcome, dk_notes = sc_notes f, dk_speed_kmh = kmh (nullish (fx_speed l) (0, 0)),
      dk_recorded_at = toISO now\<rparr>"

definition pledge_of :: "(time \<Rightarrow> string) \<Rightarrow> canvassScreen \<Rightarrow> cachedContact \<Rightarrow> time \<Rightarrow> pledge" where
  "pledge_of toISO f c now = \<lparr>pl_contact_id = cc_contact_id c, pl_pledge_type = ''will_vote'', pl_notes = sc_notes f, pl_recorded_at = toISO now\<rparr>"

definition recordKnock :: "(time \<Rightarrow> string) \<Rightarrow> (decimal \<Rightarrow> decimal) \<Rightarrow> canvassScreen \<Rightarrow> (syncDevice, canvassScreen) proc" where
  "recordKnock toISO kmh f =
     (if \<not> truthy_str (sc_outcome f) then returnE f
      else case sc_currentLocation f of
             None \<Rightarrow> returnE f
           | Some l \<Rightarrow>
               bindE (getE nowMs) (\<lambda>now.
               seqE (saveDoorKnock (knock_of toISO kmh f l (the (sc_outcome f)) now))
               (seqE (case sc_selectedContact f of
                        None \<Rightarrow> returnE ()
                      | Some c \<Rightarrow> if sc_outcome f = Some ''pledged''
                          then bindE (getE nowMs) (\<lambda>later. voidE (savePledge (pledge_of toISO f c later))) else returnE ())
               (bindE getPendingCounts (\<lambda>counts.
                returnE (f\<lparr>sc_knockCount := sc_knockCount f + 1, sc_outcome := None, sc_notes := [], sc_selectedContact := None,
                           sc_pendingCount := pn_knocks counts + pn_pledges counts + pn_locations counts\<rparr>))))))"

section \<open>Runs\<close>

text \<open>One step of the application: what the user or the operating system does, or a pass getting one
  step further.\<close>

inductive canvass_step :: "(time \<Rightarrow> string) \<Rightarrow> gotvBackend \<Rightarrow> syncDevice \<Rightarrow> syncDevice \<Rightarrow> bool" for toISO srv where
  knock: "canvass_step toISO srv s (snd (recordKnock toISO kmh f s))"
| location: "canvass_step toISO srv s (snd (locationWatched toISO kmh l f s))"
| contacts: "canvass_step toISO srv s (snd (cacheContacts cs s))"
| walklist: "canvass_step toISO srv s (snd (getCachedContacts st lga s))"
| network: "canvass_step toISO srv s (snd (networkChanged c s))"
| start: "canvass_step toISO srv s (snd (startManager s))"
| stop: "canvass_step toISO srv s (snd (stopManager s))"
| tick: "canvass_step toISO srv s (snd (intervalTick s))"
| retry: "canvass_step toISO srv s (snd (retryFires j s))"
| pass: "canvass_step toISO srv s (advance toISO srv i s)"
| fetch: "canvass_step toISO srv s (snd (gotvFetch srv path meth body s))"
| otp: "canvass_step toISO srv s (snd (requestOTP srv ph party name s))"
| sign_in: "canvass_step toISO srv s (snd (handleVerifyOTP srv form s))"
| log_out: "canvass_step toISO srv s (snd (handleLogout s))"
| clock: "canvass_step toISO srv s (s\<lparr>nowMs := t\<rparr>)"
| restart: "canvass_step toISO srv s (restartApp s)"

inductive canvass_run :: "(time \<Rightarrow> string) \<Rightarrow> gotvBackend \<Rightarrow> syncDevice \<Rightarrow> syncDevice \<Rightarrow> bool" for toISO srv where
  here: "canvass_run toISO srv s s"
| further: "canvass_run toISO srv s s' \<Longrightarrow> canvass_step toISO srv s' s'' \<Longrightarrow> canvass_run toISO srv s s''"

section \<open>Frames\<close>

lemma device_fields:
  assumes "canvasser.more s' = canvasser.more (s :: syncDevice)"
  shows "exchanges s' = exchanges s" "mgrState s' = mgrState s" "retryCount s' = retryCount s" "isOnline s' = isOnline s"
    "intervalOn s' = intervalOn s" "retryTimers s' = retryTimers s" "passes s' = passes s" "conflictNotices s' = conflictNotices s"
    "stateNotices s' = stateNotices s"
  using assms by (cases s; cases s'; simp)+

lemmas opened_device [simp] = device_fields [OF opened_frame(7)]

lemma setState_run:
  "setState st s = (Inr (), (opened s)\<lparr>mgrState := st, stateNotices := stateNotices s @
     [(st, length (filter is_pending (trows (doorKnocksT s))) + length (filter is_pending (trows (pledgesT s))) +
           length (filter is_pending (trows (locationsT s))))]\<rparr>)"
proof -
  have "opened (s\<lparr>mgrState := st\<rparr>) = (opened s)\<lparr>mgrState := st\<rparr>"
    by (simp add: opened_def getDB_def getDatabaseKey_def bindE_run seqE_run getE_run modifyE_run returnE_run)
  then show ?thesis by (simp add: setState_def seqE_run bindE_run modifyE_run counts_run)
qed

text \<open>What no step takes back: the requests made, the conflicts logged and what was captured.\<close>

definition captures :: "'c queuedRow table \<Rightarrow> (int \<times> 'c) list" where
  "captures t = map (\<lambda>r. (row_id r, captured r)) (trows t)"

definition grows :: "syncDevice \<Rightarrow> syncDevice \<Rightarrow> bool" where
  "grows s s' \<longleftrightarrow>
     prefix (exchanges s) (exchanges s') \<and> prefix (trows (conflictsT s)) (trows (conflictsT s')) \<and>
     prefix (captures (doorKnocksT s)) (captures (doorKnocksT s')) \<and> prefix (captures (pledgesT s)) (captures (pledgesT s'))"

interpretation growing: transition_preorder grows
  by unfold_locales (auto simp: grows_def intro: prefix_order.trans)

lemma captures_marked [simp]: "captures (marked i st t) = captures t"
  by (simp add: captures_def marked_def)

lemma captures_queued: "captures (queued_as c t) = captures t @ [(nextId t, c)]"
  by (simp add: captures_def queued_as_def)

lemma grows_same:
  "exchanges s' = exchanges s \<Longrightarrow> conflictsT s' = conflictsT s \<Longrightarrow> doorKnocksT s' = doorKnocksT s \<Longrightarrow> pledgesT s' = pledgesT s \<Longrightarrow> grows s s'"
  by (simp add: grows_def)

lemma grows_modify: "(\<And>s. exchanges (f s) = exchanges s \<and> conflictsT (f s) = conflictsT s \<and> doorKnocksT (f s) = doorKnocksT s \<and> pledgesT (f s) = pledgesT s)
    \<Longrightarrow> follows grows (modifyE f)"
  by (simp add: follows_def modifyE_run grows_same)

lemma insertRow_rows: "prefix (trows (tget D s)) (trows (tget D (snd (insertRow D eid mk s))))"
  if "\<And>t s. tget D (tput D t s) = t"
  using that by (auto simp: insertRow_def Let_def split: option.split)

section \<open>What the status of a record means\<close>

definition knock_sent :: "syncDevice \<Rightarrow> doorKnock \<Rightarrow> gotvResponse \<Rightarrow> bool" where
  "knock_sent s k res \<longleftrightarrow> (\<exists>token. (knock_request token k, Reply res) \<in> set (exchanges s))"

definition pledge_sent :: "syncDevice \<Rightarrow> pledge \<Rightarrow> gotvResponse \<Rightarrow> bool" where
  "pledge_sent s p res \<longleftrightarrow> (\<exists>token. (pledge_request token p, Reply res) \<in> set (exchanges s))"

definition conflict_logged :: "syncDevice \<Rightarrow> string \<Rightarrow> int \<Rightarrow> bool" where
  "conflict_logged s tab i \<longleftrightarrow> (\<exists>e \<in> set (trows (conflictsT s)). ce_table_name e = tab \<and> ce_record_id e = show_int i)"

text \<open>A synced knock was accepted by the backend, with exactly the data that was captured; a failed one was refused,
  and if the refusal was a conflict it is in the conflict log. A pledge fails by a conflict only.\<close>

definition knock_settled :: "syncDevice \<Rightarrow> doorKnock queuedRow \<Rightarrow> bool" where
  "knock_settled s r =
     (case sync_status r of
        PendingSync \<Rightarrow> True
      | Syncing \<Rightarrow> False
      | Synced \<Rightarrow> (\<exists>res. knock_sent s (captured r) res \<and> gr_ok res)
      | FailedSync \<Rightarrow> (\<exists>res. knock_sent s (captured r) res \<and> \<not> gr_ok res \<and> (gr_status res = 409 \<longrightarrow> conflict_logged s ''door_knocks'' (row_id r))))"

definition pledge_settled :: "syncDevice \<Rightarrow> pledge queuedRow \<Rightarrow> bool" where
  "pledge_settled s r =
     (case sync_status r of
        PendingSync \<Rightarrow> True
      | Syncing \<Rightarrow> False
      | Synced \<Rightarrow> (\<exists>res. pledge_sent s (captured r) res \<and> gr_ok res)
      | FailedSync \<Rightarrow> (\<exists>res. pledge_sent s (captured r) res \<and> gr_status res = 409) \<and> conflict_logged s ''pledges'' (row_id r))"

text \<open>A pass holds rows of the queues, and an answer it holds was given.\<close>

definition snapshot :: "'c queuedRow table \<Rightarrow> 'c queuedRow \<Rightarrow> bool" where
  "snapshot t k \<longleftrightarrow> (row_id k, captured k) \<in> set (captures t)"

fun point_ok :: "syncDevice \<Rightarrow> syncPoint \<Rightarrow> bool" where
  "point_ok s (KnockNext ks) \<longleftrightarrow> (\<forall>k \<in> set ks. snapshot (doorKnocksT s) k)"
| "point_ok s (KnockReply k res ks) \<longleftrightarrow> knock_sent s (captured k) res \<and> (\<forall>x \<in> set (k # ks). snapshot (doorKnocksT s) x)"
| "point_ok s (PledgeNext ps) \<longleftrightarrow> (\<forall>p \<in> set ps. snapshot (pledgesT s) p)"
| "point_ok s (PledgeReply p res ps) \<longleftrightarrow> pledge_sent s (captured p) res \<and> (\<forall>x \<in> set (p # ps). snapshot (pledgesT s) x)"
| "point_ok s _ \<longleftrightarrow> True"

definition queues_ok :: "syncDevice \<Rightarrow> bool" where
  "queues_ok s \<longleftrightarrow>
     (\<forall>r \<in> set (trows (doorKnocksT s)). knock_settled s r) \<and> (\<forall>r \<in> set (trows (pledgesT s)). pledge_settled s r) \<and>
     fresh_ids (doorKnocksT s) \<and> fresh_ids (pledgesT s) \<and> fresh_ids (locationsT s) \<and> fresh_ids (conflictsT s)"

definition canvass_inv :: "syncDevice \<Rightarrow> bool" where
  "canvass_inv s \<longleftrightarrow> queues_ok s \<and> (\<forall>p \<in> set (passes s). point_ok s p)"

lemma sent_mono:
  assumes "grows s s'"
  shows "knock_sent s k res \<Longrightarrow> knock_sent s' k res" "pledge_sent s p res \<Longrightarrow> pledge_sent s' p res"
    "conflict_logged s tab i \<Longrightarrow> conflict_logged s' tab i"
  using assms set_mono_prefix [of "exchanges s" "exchanges s'"] set_mono_prefix [of "trows (conflictsT s)" "trows (conflictsT s')"]
  unfolding grows_def knock_sent_def pledge_sent_def conflict_logged_def by blast+

lemma settled_mono:
  assumes "grows s s'"
  shows "knock_settled s r \<Longrightarrow> knock_settled s' r" "pledge_settled s p \<Longrightarrow> pledge_settled s' p"
  using sent_mono [OF assms] unfolding knock_settled_def pledge_settled_def by (fastforce split: syncStatus.splits)+

lemma snapshot_mono:
  assumes "grows s s'"
  shows "snapshot (doorKnocksT s) k \<Longrightarrow> snapshot (doorKnocksT s') k" "snapshot (pledgesT s) p \<Longrightarrow> snapshot (pledgesT s') p"
  using assms set_mono_prefix [of "captures (doorKnocksT s)" "captures (doorKnocksT s')"] set_mono_prefix [of "captures (pledgesT s)" "captures (pledgesT s')"]
  unfolding grows_def snapshot_def by blast+

lemma point_mono: "grows s s' \<Longrightarrow> point_ok s p \<Longrightarrow> point_ok s' p"
  by (cases "(s, p)" rule: point_ok.cases) (auto simp: sent_mono snapshot_mono)

text \<open>A step that keeps the invariant and takes nothing back.\<close>

definition keeps :: "syncDevice \<Rightarrow> syncDevice \<Rightarrow> bool" where
  "keeps s s' \<longleftrightarrow> canvass_inv s \<longrightarrow> canvass_inv s' \<and> grows s s'"

interpretation kept: transition_preorder keeps
  by unfold_locales (auto simp: keeps_def growing.refl intro: growing.trans)

lemma keeps_frame:
  assumes "doorKnocksT s' = doorKnocksT s" and "pledgesT s' = pledgesT s" and "conflictsT s' = conflictsT s"
    and "prefix (exchanges s) (exchanges s')" and "fresh_ids (locationsT s) \<Longrightarrow> fresh_ids (locationsT s')"
    and "\<And>p. p \<in> set (passes s') \<Longrightarrow> p \<in> set (passes s) \<or> point_ok s' p"
  shows "keeps s s'"
  unfolding keeps_def
proof
  assume inv: "canvass_inv s"
  have grows: "grows s s'" using assms(1-4) by (simp add: grows_def)
  have "\<forall>p \<in> set (passes s'). point_ok s' p"
    using inv assms(6) point_mono [OF grows] unfolding canvass_inv_def by blast
  with inv assms(1-3,5) settled_mono [OF grows] have "canvass_inv s'"
    by (auto simp: canvass_inv_def queues_ok_def)
  with grows show "canvass_inv s' \<and> grows s s'" by blast
qed

lemma keeps_opened: "keeps s (opened s)"
  by (rule keeps_frame) simp_all

lemma kept_getDB: "follows keeps getDB"
  by (simp add: follows_def getDB_run keeps_opened)

lemma kept_modify:
  "(\<And>s. keeps s (f s)) \<Longrightarrow> follows keeps (modifyE f)"
  by (simp add: follows_def modifyE_run)

lemma kept_setState: "follows keeps (setState st)"
  unfolding follows_def setState_run by (intro allI keeps_frame) simp_all

lemma kept_counts: "follows keeps getPendingCounts"
  by (simp add: follows_def counts_run keeps_opened)

lemma kept_setSyncMeta: "follows keeps (setSyncMeta k v)"
  unfolding follows_def set_meta_run by (intro allI keeps_frame) simp_all

lemma kept_cacheContacts: "follows keeps (cacheContacts cs)"
  unfolding cacheContacts_def cache_contact_def
  by (intro kept.seqE kept.forE kept_getDB kept_modify keeps_frame) simp_all

lemma kept_getCachedContacts: "follows keeps (getCachedContacts st lga)"
  unfolding getCachedContacts_def by (intro kept.intros kept_getDB)

lemma kept_retryLater: "follows keeps retryLater"
  unfolding retryLater_def by (intro kept.intros kept_setState kept_modify keeps_frame) simp_all

lemma kept_passOver: "follows keeps (passOver toISO)"
  unfolding passOver_def by (intro kept.intros kept_setState kept_setSyncMeta kept_modify keeps_frame) simp_all

lemma kept_beginSync: "follows keeps beginSync"
  unfolding beginSync_def by (intro kept.intros kept_setState kept_modify keeps_frame) auto

section \<open>Events keep the queues\<close>

lemma kept_saveDoorKnock: "follows keeps (saveDoorKnock k)"
  unfolding follows_def keeps_def
proof (intro allI impI)
  fix s assume inv: "canvass_inv s"
  then have run: "snd (saveDoorKnock k s) = (opened s)\<lparr>doorKnocksT := queued_as k (doorKnocksT s)\<rparr>" (is "_ = ?s'")
    by (simp add: save_knock_run canvass_inv_def queues_ok_def)
  have grows: "grows s ?s'" by (simp add: grows_def captures_queued)
  have "knock_settled ?s' r" if "r \<in> set (trows (queued_as k (doorKnocksT s)))" for r
    using that inv settled_mono(1) [OF grows] by (auto simp: queued_as_def knock_settled_def canvass_inv_def queues_ok_def)
  with inv settled_mono [OF grows] point_mono [OF grows] have "canvass_inv ?s'"
    by (auto simp: canvass_inv_def queues_ok_def fresh_ids_queued)
  with grows show "canvass_inv (snd (saveDoorKnock k s)) \<and> grows s (snd (saveDoorKnock k s))" unfolding run by blast
qed

lemma kept_savePledge: "follows keeps (savePledge p)"
  unfolding follows_def keeps_def
proof (intro allI impI)
  fix s assume inv: "canvass_inv s"
  then have run: "snd (savePledge p s) = (opened s)\<lparr>pledgesT := queued_as p (pledgesT s)\<rparr>" (is "_ = ?s'")
    by (simp add: save_pledge_run canvass_inv_def queues_ok_def)
  have grows: "grows s ?s'" by (simp add: grows_def captures_queued)
  have "pledge_settled ?s' r" if "r \<in> set (trows (queued_as p (pledgesT s)))" for r
    using that inv settled_mono(2) [OF grows] by (auto simp: queued_as_def pledge_settled_def canvass_inv_def queues_ok_def)
  with inv settled_mono [OF grows] point_mono [OF grows] have "canvass_inv ?s'"
    by (auto simp: canvass_inv_def queues_ok_def fresh_ids_queued)
  with grows show "canvass_inv (snd (savePledge p s)) \<and> grows s (snd (savePledge p s))" unfolding run by blast
qed

lemma kept_saveLocation: "follows keeps (saveLocation l)"
proof -
  have "keeps s (snd (saveLocation l s))" if "fresh_ids (locationsT s)" for s
    by (rule keeps_frame) (use saveLocation_bound [OF that] in \<open>simp_all add: saveLocation_run [OF that]\<close>)
  then show ?thesis by (auto simp: follows_def keeps_def canvass_inv_def queues_ok_def)
qed

lemma kept_recordKnock: "follows keeps (recordKnock toISO kmh f)"
  unfolding recordKnock_def by (intro kept.intros kept_saveDoorKnock kept_savePledge kept_counts)

lemma kept_locationWatched: "follows keeps (locationWatched toISO kmh l f)"
  unfolding locationWatched_def by (intro kept.intros kept_saveLocation)

lemma drop_nth_subset: "x \<in> set (drop_nth i xs) \<Longrightarrow> x \<in> set xs"
  by (auto simp: drop_nth_def dest: in_set_takeD in_set_dropD)

lemma kept_events:
  "follows keeps (networkChanged c)" "follows keeps startManager" "follows keeps stopManager" "follows keeps intervalTick"
  "follows keeps (retryFires j)"
proof -
  have m: "keeps s (s\<lparr>isOnline := b\<rparr>)" "keeps s (s\<lparr>intervalOn := b\<rparr>)" "keeps s (s\<lparr>retryTimers := ts\<rparr>)" for s b ts
    by (rule keeps_frame; simp)+
  show "follows keeps (networkChanged c)"
    unfolding networkChanged_def
    by (intro kept.seqE kept.bindE kept_modify m kept.getE) (auto intro!: kept.intros kept_beginSync kept_setState)
  show "follows keeps startManager" "follows keeps stopManager" "follows keeps intervalTick" "follows keeps (retryFires j)"
    unfolding startManager_def stopManager_def intervalTick_def retryFires_def
    by (intro kept.intros kept_modify m kept_beginSync)+
qed

text \<open>Signing in, signing out and the other requests change the secure store and make requests.\<close>

definition store_only :: "syncDevice \<Rightarrow> syncDevice \<Rightarrow> bool" where
  "store_only s s' \<longleftrightarrow> (\<exists>st new. s' = s\<lparr>secureStore := st, exchanges := exchanges s @ new\<rparr>)"

interpretation session: transition_preorder store_only
proof
  fix s t u
  show "store_only s s" unfolding store_only_def by (rule exI [of _ "secureStore s"], rule exI [of _ "[]"]) simp
  assume "store_only s t" "store_only t u"
  then obtain st new st' new' where "t = s\<lparr>secureStore := st, exchanges := exchanges s @ new\<rparr>"
    "u = t\<lparr>secureStore := st', exchanges := exchanges t @ new'\<rparr>" unfolding store_only_def by blast
  then have "u = s\<lparr>secureStore := st', exchanges := exchanges s @ (new @ new')\<rparr>" by simp
  then show "store_only s u" unfolding store_only_def by blast
qed

lemma store_only_keeps: "store_only s s' \<Longrightarrow> keeps s s'"
  unfolding store_only_def by (auto intro!: keeps_frame)

lemma store_only_modify: "follows store_only (modifyE (\<lambda>s. s\<lparr>secureStore := f s\<rparr>))"
  unfolding follows_def modifyE_run store_only_def by (auto intro!: exI [of _ "f _"] exI [of _ "[]"])

lemma session_send: "follows store_only (send srv req)"
proof -
  have "store_only s (s\<lparr>exchanges := exchanges s @ [x]\<rparr>)" for s x
    unfolding store_only_def by (rule exI [of _ "secureStore s"], rule exI [of _ "[x]"]) simp
  then show ?thesis by (simp add: follows_def send_run)
qed

lemma session_items: "follows store_only (storeItem k v)" "follows store_only (removeItem k)"
  unfolding storeItem_def removeItem_def
  by (auto intro!: session.intros store_only_modify split: option.split json.split)

lemma session_bodies:
  "follows store_only (response_json res)" "follows store_only (response_text res)" "follows store_only (json_prop k v)"
  "follows store_only (refused res a b)"
  unfolding response_json_def response_text_def json_prop_def refused_def by (intro session.intros)+

lemmas session_steps = session.intros session_send session_items session_bodies

lemma session_calls:
  "follows store_only (gotvFetch srv path meth body)" "follows store_only (requestOTP srv ph party name)"
  "follows store_only (handleVerifyOTP srv form)" "follows store_only handleLogout"
proof -
  show "follows store_only (gotvFetch srv path meth body)"
    unfolding gotvFetch_def refreshMobileToken_def getMobileToken_def by (intro session_steps)
  show "follows store_only (requestOTP srv ph party name)" unfolding requestOTP_def by (intro session_steps)
  show "follows store_only (handleVerifyOTP srv form)"
    unfolding handleVerifyOTP_def verifyOTP_def setAuthMode_def authMode.case by (intro session_steps)
  show "follows store_only handleLogout"
    unfolding handleLogout_def mobileLogout_def setAuthMode_def authMode.case by (intro session_steps)
qed

lemma keeps_restart: "keeps s (restartApp s)"
  by (rule keeps_frame) (simp_all add: restartApp_def)

section \<open>Passes keep the queues\<close>

lemma rethrow_run: "rethrow what m s = (case m s of (Inl _, s') \<Rightarrow> (Inl (PlainError (''Network error during '' @ what @ '' sync'')), s') | (Inr x, s') \<Rightarrow> (Inr x, s'))"
  by (simp add: rethrow_def catchE_def throwE_run split: prod.split sum.split)

lemma post_runs:
  "\<exists>token out. postKnock srv k s = ((case out of NoAnswer \<Rightarrow> Inl (OtherError ''TypeError: Network request failed'') | Reply res \<Rightarrow> Inr res),
     s\<lparr>exchanges := exchanges s @ [(knock_request token (captured k), out)]\<rparr>)"
  "\<exists>token out. postPledge srv p s = ((case out of NoAnswer \<Rightarrow> Inl (OtherError ''TypeError: Network request failed'') | Reply res \<Rightarrow> Inr res),
     s\<lparr>exchanges := exchanges s @ [(pledge_request token (captured p), out)]\<rparr>)"
  "\<exists>token out. postLocation srv l s = ((case out of NoAnswer \<Rightarrow> Inl (OtherError ''TypeError: Network request failed'') | Reply res \<Rightarrow> Inr res),
     s\<lparr>exchanges := exchanges s @ [(location_request token (captured l), out)]\<rparr>)"
  unfolding postKnock_def postPledge_def postLocation_def by (auto simp: getMobileToken_def bindE_run getE_run send_run)

lemma keeps_exchange: "keeps s (s\<lparr>exchanges := exchanges s @ new\<rparr>)"
  by (rule keeps_frame) simp_all

lemma keeps_posts: "follows keeps (postKnock srv k)" "follows keeps (postPledge srv p)" "follows keeps (postLocation srv l)"
proof -
  have k: "keeps s (snd (postKnock srv k s))" for s using post_runs(1) [of srv k s] keeps_exchange by auto
  have p: "keeps s (snd (postPledge srv p s))" for s using post_runs(2) [of srv p s] keeps_exchange by auto
  have l: "keeps s (snd (postLocation srv l s))" for s using post_runs(3) [of srv l s] keeps_exchange by auto
  from k p l show "follows keeps (postKnock srv k)" "follows keeps (postPledge srv p)" "follows keeps (postLocation srv l)"
    by (simp_all add: follows_def)
qed

lemma post_sent:
  "postKnock srv k s = (Inr res, s') \<Longrightarrow> knock_sent s' (captured k) res"
  "postPledge srv p s = (Inr res, s') \<Longrightarrow> pledge_sent s' (captured p) res"
proof -
  assume post: "postKnock srv k s = (Inr res, s')"
  obtain token out where "postKnock srv k s = ((case out of NoAnswer \<Rightarrow> Inl (OtherError ''TypeError: Network request failed'') | Reply res \<Rightarrow> Inr res),
     s\<lparr>exchanges := exchanges s @ [(knock_request token (captured k), out)]\<rparr>)" using post_runs(1) by blast
  with post show "knock_sent s' (captured k) res" by (cases out) (auto simp: knock_sent_def)
next
  assume post: "postPledge srv p s = (Inr res, s')"
  obtain token out where "postPledge srv p s = ((case out of NoAnswer \<Rightarrow> Inl (OtherError ''TypeError: Network request failed'') | Reply res \<Rightarrow> Inr res),
     s\<lparr>exchanges := exchanges s @ [(pledge_request token (captured p), out)]\<rparr>)" using post_runs(2) by blast
  with post show "pledge_sent s' (captured p) res" by (cases out) (auto simp: pledge_sent_def)
qed

lemma snapshot_unique:
  assumes "fresh_ids t" and "snapshot t k" and "r \<in> set (trows t)" and "row_id r = row_id k"
  shows "captured r = captured k"
proof -
  from assms(2) obtain x where x: "x \<in> set (trows t)" "row_id x = row_id k" "captured x = captured k" by (auto simp: snapshot_def captures_def)
  have "inj_on row_id (set (trows t))" using assms(1) by (simp add: fresh_ids_def distinct_map)
  with x assms(3,4) have "r = x" by (metis inj_onD)
  with x show ?thesis by simp
qed

text \<open>Marking a row with a status that its answer justifies.\<close>

lemma marked_all:
  assumes "fresh_ids t" and "snapshot t k" and "\<forall>r \<in> set (trows t). P r"
    and "\<And>r. row_id r = row_id k \<Longrightarrow> captured r = captured k \<Longrightarrow> P (r\<lparr>sync_status := st\<rparr>)"
  shows "\<forall>r \<in> set (trows (marked (row_id k) st t)). P r"
  using assms snapshot_unique [OF assms(1,2)] by (auto simp: marked_def)

lemma settled_status:
  assumes "row_id r = row_id k" and "captured r = captured k"
  shows "knock_settled s (r\<lparr>sync_status := st\<rparr>) = knock_settled s (k\<lparr>sync_status := st\<rparr>)"
  using assms by (simp add: knock_settled_def split: syncStatus.split)

lemma pledge_settled_status:
  assumes "row_id r = row_id k" and "captured r = captured k"
  shows "pledge_settled s (r\<lparr>sync_status := st\<rparr>) = pledge_settled s (k\<lparr>sync_status := st\<rparr>)"
  using assms by (simp add: pledge_settled_def split: syncStatus.split)

lemma keeps_mark_knock:
  assumes "canvass_inv s" and "snapshot (doorKnocksT s) k" and "knock_settled s (k\<lparr>sync_status := st\<rparr>)"
  shows "canvass_inv ((opened s)\<lparr>doorKnocksT := marked (row_id k) st (doorKnocksT s)\<rparr>) \<and>
    grows s ((opened s)\<lparr>doorKnocksT := marked (row_id k) st (doorKnocksT s)\<rparr>)" (is "canvass_inv ?s' \<and> _")
proof -
  have grows: "grows s ?s'" by (simp add: grows_def)
  have fresh: "fresh_ids (doorKnocksT s)" using assms(1) by (simp add: canvass_inv_def queues_ok_def)
  have "\<forall>r \<in> set (trows (marked (row_id k) st (doorKnocksT s))). knock_settled ?s' r"
  proof (rule marked_all [OF fresh assms(2)])
    show "\<forall>r \<in> set (trows (doorKnocksT s)). knock_settled ?s' r"
      using assms(1) settled_mono(1) [OF grows] by (simp add: canvass_inv_def queues_ok_def)
    show "knock_settled ?s' (r\<lparr>sync_status := st\<rparr>)" if "row_id r = row_id k" "captured r = captured k" for r
      using settled_mono(1) [OF grows assms(3)] by (simp only: settled_status [OF that])
  qed
  with assms(1) fresh settled_mono(2) [OF grows] point_mono [OF grows] have "canvass_inv ?s'"
    by (simp add: canvass_inv_def queues_ok_def)
  with grows show ?thesis by blast
qed

lemma keeps_mark_pledge:
  assumes "canvass_inv s" and "snapshot (pledgesT s) p" and "pledge_settled s (p\<lparr>sync_status := st\<rparr>)"
  shows "canvass_inv ((opened s)\<lparr>pledgesT := marked (row_id p) st (pledgesT s)\<rparr>) \<and>
    grows s ((opened s)\<lparr>pledgesT := marked (row_id p) st (pledgesT s)\<rparr>)" (is "canvass_inv ?s' \<and> _")
proof -
  have grows: "grows s ?s'" by (simp add: grows_def)
  have fresh: "fresh_ids (pledgesT s)" using assms(1) by (simp add: canvass_inv_def queues_ok_def)
  have "\<forall>r \<in> set (trows (marked (row_id p) st (pledgesT s))). pledge_settled ?s' r"
  proof (rule marked_all [OF fresh assms(2)])
    show "\<forall>r \<in> set (trows (pledgesT s)). pledge_settled ?s' r"
      using assms(1) settled_mono(2) [OF grows] by (simp add: canvass_inv_def queues_ok_def)
    show "pledge_settled ?s' (r\<lparr>sync_status := st\<rparr>)" if "row_id r = row_id p" "captured r = captured p" for r
      using settled_mono(2) [OF grows assms(3)] by (simp only: pledge_settled_status [OF that])
  qed
  with assms(1) fresh settled_mono(1) [OF grows] point_mono [OF grows] have "canvass_inv ?s'"
    by (simp add: canvass_inv_def queues_ok_def)
  with grows show ?thesis by blast
qed

lemma kept_notifyConflict: "follows keeps (notifyConflict n)"
  unfolding notifyConflict_def by (intro kept_modify keeps_frame) simp_all

lemma keeps_logConflict:
  assumes "canvass_inv s"
  shows "\<exists>s'. logConflict tab (show_int i) loc srvd s = (Inr (), s') \<and> canvass_inv s' \<and> grows s s' \<and> conflict_logged s' tab i"
proof -
  let ?t = "\<lparr>trows = trows (conflictsT s) @ [conflict_entry tab (show_int i) loc srvd (nextId (conflictsT s))], nextId = nextId (conflictsT s) + 1\<rparr>"
  let ?s' = "(opened s)\<lparr>conflictsT := ?t\<rparr>"
  have fresh: "fresh_ids (conflictsT s)" using assms by (simp add: canvass_inv_def queues_ok_def)
  then have "fresh_ids ?t" by (auto simp: fresh_ids_def conflict_entry_def)
  moreover have grows: "grows s ?s'" by (simp add: grows_def)
  ultimately have "canvass_inv ?s'"
    using assms settled_mono [OF grows] point_mono [OF grows] by (auto simp: canvass_inv_def queues_ok_def)
  moreover have "conflict_logged ?s' tab i" by (simp add: conflict_logged_def conflict_entry_def)
  ultimately show ?thesis using log_conflict_run [OF fresh] grows by auto
qed

lemma settle_knock:
  assumes "canvass_inv s" and "snapshot (doorKnocksT s) k" and "knock_sent s (captured k) res"
  shows "\<exists>s'. settleKnock k res s = (Inr (), s') \<and> canvass_inv s' \<and> grows s s'"
proof (cases "gr_ok res")
  case True
  with assms(3) have "knock_settled s (k\<lparr>sync_status := Synced\<rparr>)" by (auto simp: knock_settled_def)
  with True show ?thesis using keeps_mark_knock [OF assms(1,2)] by (simp add: settleKnock_def mark_knock_run)
next
  case bad: False
  show ?thesis
  proof (cases "gr_status res = 409")
    case False
    with bad assms(3) have "knock_settled s (k\<lparr>sync_status := FailedSync\<rparr>)" by (auto simp: knock_settled_def)
    with bad False show ?thesis using keeps_mark_knock [OF assms(1,2)] by (simp add: settleKnock_def mark_knock_run)
  next
    case True
    obtain s1 where log: "logConflict ''door_knocks'' (show_int (row_id k)) (stringify (knock_json k)) (readConflictBody res) s = (Inr (), s1)"
      and s1: "canvass_inv s1" "grows s s1" "conflict_logged s1 ''door_knocks'' (row_id k)"
      using keeps_logConflict [OF assms(1)] by blast
    have "knock_settled s1 (k\<lparr>sync_status := FailedSync\<rparr>)"
      using bad s1(3) sent_mono(1) [OF s1(2) assms(3)] by (auto simp: knock_settled_def)
    then obtain s2 where mark: "markDoorKnockFailed (row_id k) s1 = (Inr (), s2)" and s2: "canvass_inv s2" "grows s1 s2"
      using keeps_mark_knock [OF s1(1) snapshot_mono(1) [OF s1(2) assms(2)]] by (simp add: mark_knock_run)
    obtain s3 where told: "notifyConflict \<lparr>cn_table = ''door_knocks'', cn_recordId = show_int (row_id k), cn_serverData = readConflictBody res\<rparr> s2 = (Inr (), s3)"
      by (simp add: notifyConflict_def modifyE_run)
    have "canvass_inv s3" "grows s2 s3" using follows_stepD [OF kept_notifyConflict told] s2(1) by (simp_all add: keeps_def)
    moreover have "settleKnock k res s = (Inr (), s3)" using bad True by (simp add: settleKnock_def seqE_run log mark told)
    ultimately show ?thesis using growing.trans s1(2) s2(2) by blast
  qed
qed

lemma settle_pledge:
  assumes "canvass_inv s" and "snapshot (pledgesT s) p" and "pledge_sent s (captured p) res"
  shows "\<exists>s'. settlePledge p res s = (Inr (), s') \<and> canvass_inv s' \<and> grows s s'"
proof (cases "gr_ok res")
  case True
  with assms(3) have "pledge_settled s (p\<lparr>sync_status := Synced\<rparr>)" by (auto simp: pledge_settled_def)
  with True show ?thesis using keeps_mark_pledge [OF assms(1,2)] by (simp add: settlePledge_def mark_pledge_run)
next
  case bad: False
  show ?thesis
  proof (cases "gr_status res = 409")
    case False
    with bad assms(1) show ?thesis by (simp add: settlePledge_def returnE_run growing.refl)
  next
    case True
    obtain s1 where log: "logConflict ''pledges'' (show_int (row_id p)) (stringify (pledge_json p)) (readConflictBody res) s = (Inr (), s1)"
      and s1: "canvass_inv s1" "grows s s1" "conflict_logged s1 ''pledges'' (row_id p)"
      using keeps_logConflict [OF assms(1)] by blast
    have "pledge_settled s1 (p\<lparr>sync_status := FailedSync\<rparr>)"
      using True s1(3) sent_mono(2) [OF s1(2) assms(3)] by (auto simp: pledge_settled_def)
    then obtain s2 where mark: "markPledgeFailed (row_id p) s1 = (Inr (), s2)" and s2: "canvass_inv s2" "grows s1 s2"
      using keeps_mark_pledge [OF s1(1) snapshot_mono(2) [OF s1(2) assms(2)]] by (simp add: mark_pledge_run)
    obtain s3 where told: "notifyConflict \<lparr>cn_table = ''pledges'', cn_recordId = show_int (row_id p), cn_serverData = readConflictBody res\<rparr> s2 = (Inr (), s3)"
      by (simp add: notifyConflict_def modifyE_run)
    have "canvass_inv s3" "grows s2 s3" using follows_stepD [OF kept_notifyConflict told] s2(1) by (simp_all add: keeps_def)
    moreover have "settlePledge p res s = (Inr (), s3)" using bad True by (simp add: settlePledge_def seqE_run log mark told)
    ultimately show ?thesis using growing.trans s1(2) s2(2) by blast
  qed
qed

lemma kept_markLocations: "follows keeps (markLocationsSynced ids)"
proof -
  have "keeps s (snd (markLocationsSynced ids s))" for s
  proof (cases "ids = []")
    case False
    let ?t = "(locationsT s)\<lparr>trows := map (\<lambda>r. if row_id r \<in> set ids then r\<lparr>sync_status := Synced\<rparr> else r) (trows (locationsT s))\<rparr>"
    have "snd (markLocationsSynced ids s) = (opened s)\<lparr>locationsT := ?t\<rparr>"
      using False by (simp add: markLocationsSynced_def getDB_seq voidE_run updateRows_def Let_def locationsD_def list_all_iff)
    moreover have "map row_id (trows ?t) = map row_id (trows (locationsT s))" by simp
    then have "fresh_ids ?t = fresh_ids (locationsT s)" by (intro fresh_ids_map) simp_all
    ultimately show ?thesis by (auto intro!: keeps_frame)
  qed (simp add: markLocationsSynced_def returnE_run kept.refl)
  then show ?thesis by (simp add: follows_def)
qed

lemma snapshot_row: "r \<in> set (trows t) \<Longrightarrow> snapshot t r"
  by (auto simp: snapshot_def captures_def)

lemma kept_rethrow: "follows keeps m \<Longrightarrow> follows keeps (rethrow what m)"
  unfolding rethrow_def by (intro kept.intros)

lemma rethrow_Inr: "rethrow what m s = (Inr x, s') \<longleftrightarrow> m s = (Inr x, s')"
  by (auto simp: rethrow_run split: prod.splits sum.splits)

text \<open>A step of a pass keeps the invariant and leaves the pass with rows and answers that are there.\<close>

lemma kept_resume:
  assumes "\<And>k res ks. p \<noteq> KnockReply k res ks" and "\<And>k res ps. p \<noteq> PledgeReply k res ps"
  shows "follows keeps (resume toISO srv p)"
proof -
  have reads: "follows keeps getPendingDoorKnocks" "follows keeps getPendingPledges" "follows keeps getPendingLocations"
    by (simp_all add: follows_def pending_knocks_run pending_pledges_run pending_locations_run keeps_opened)
  show ?thesis
    using assms
    by (auto simp: resume_def intro!: kept.intros kept_rethrow keeps_posts kept_markLocations kept_passOver reads split: syncPoint.split list.split)
qed

lemma resume_replies:
  assumes "canvass_inv s" and "point_ok s p" and "resume toISO srv p s = (x, s')" and "p = KnockReply k res ks \<or> p = PledgeReply k' res ps"
  shows "canvass_inv s' \<and> grows s s' \<and> (\<forall>q. x = Inr (Some q) \<longrightarrow> point_ok s' q)"
  using assms(4)
proof
  assume p: "p = KnockReply k res ks"
  then have "snapshot (doorKnocksT s) k" "knock_sent s (captured k) res" using assms(2) by auto
  then obtain s1 where "settleKnock k res s = (Inr (), s1)" "canvass_inv s1" "grows s s1" using settle_knock [OF assms(1)] by blast
  with p assms(2,3) show ?thesis by (auto simp: resume_def seqE_run rethrow_run returnE_run snapshot_mono(1))
next
  assume p: "p = PledgeReply k' res ps"
  then have "snapshot (pledgesT s) k'" "pledge_sent s (captured k') res" using assms(2) by auto
  then obtain s1 where "settlePledge k' res s = (Inr (), s1)" "canvass_inv s1" "grows s s1" using settle_pledge [OF assms(1)] by blast
  with p assms(2,3) show ?thesis by (auto simp: resume_def seqE_run rethrow_run returnE_run snapshot_mono(2))
qed

lemma resume_next:
  assumes "point_ok s p" and "resume toISO srv p s = (Inr (Some q), s')" and "grows s s'"
    and "\<And>k res ks. p \<noteq> KnockReply k res ks" and "\<And>k res ps. p \<noteq> PledgeReply k res ps"
  shows "point_ok s' q"
  using assms snapshot_mono [OF assms(3)]
  by (auto simp: resume_def returnE_run rethrow_Inr pending_knocks_run pending_pledges_run pending_locations_run snapshot_row
      split: syncPoint.splits list.splits elim!: bindE_InrE seqE_InrE)
    (erule post_sent)+

lemma resume_ok:
  assumes "canvass_inv s" and "point_ok s p" and "resume toISO srv p s = (x, s')"
  shows "canvass_inv s' \<and> grows s s' \<and> (\<forall>q. x = Inr (Some q) \<longrightarrow> point_ok s' q)"
proof (cases "\<exists>k res ks k' ps. p = KnockReply k res ks \<or> p = PledgeReply k' res ps")
  case True
  then show ?thesis using resume_replies [OF assms] by blast
next
  case False
  then have "follows keeps (resume toISO srv p)" by (intro kept_resume) blast+
  from follows_stepD [OF this assms(3)] assms(1) have st: "canvass_inv s'" "grows s s'" by (simp_all add: keeps_def)
  have "point_ok s' q" if "x = Inr (Some q)" for q
    by (rule resume_next [OF assms(2) _ st(2)]) (use that assms(3) False in blast)+
  with st show ?thesis by blast
qed

lemma keeps_passes:
  assumes "\<And>p. p \<in> set ps \<Longrightarrow> p \<in> set (passes s) \<or> point_ok s p"
  shows "keeps s (s\<lparr>passes := ps\<rparr>)"
proof (rule keeps_frame)
  have same: "grows s (s\<lparr>passes := ps\<rparr>)" by (rule grows_same) simp_all
  show "p \<in> set (passes s) \<or> point_ok (s\<lparr>passes := ps\<rparr>) p" if "p \<in> set (passes (s\<lparr>passes := ps\<rparr>))" for p
    using assms [of p] that point_mono [OF same] by auto
qed simp_all

lemma keeps_advance: "keeps s (advance toISO srv i s)"
proof (cases "i < length (passes s) \<and> canvass_inv s")
  case True
  obtain x s' where r: "resume toISO srv (passes s ! i) s = (x, s')" by fastforce
  have "point_ok s (passes s ! i)" using True by (simp add: canvass_inv_def)
  from resume_ok [OF _ this r] True have ok: "keeps s s'" "\<And>q. x = Inr (Some q) \<Longrightarrow> point_ok s' q" by (auto simp: keeps_def)
  have "keeps s' (advance toISO srv i s)"
  proof (cases x)
    case (Inl e)
    have "keeps s' (s'\<lparr>passes := drop_nth i (passes s')\<rparr>)" by (rule keeps_passes) (auto dest: drop_nth_subset)
    then show ?thesis using True r Inl kept.trans followsD [OF kept_retryLater] by (fastforce simp: advance_def)
  next
    case (Inr q)
    then show ?thesis
      using True r ok(2) set_update_subset_insert [of "passes s'" i]
      by (cases q) (auto simp: advance_def intro!: keeps_passes dest: drop_nth_subset)
  qed
  with ok(1) show ?thesis by (rule kept.trans)
qed (auto simp: advance_def keeps_def growing.refl)

lemma step_keeps: "canvass_step toISO srv s s' \<Longrightarrow> keeps s s'"
proof (induction rule: canvass_step.induct)
  case (clock s t)
  show ?case by (rule keeps_frame) simp_all
qed (auto intro: store_only_keeps session_calls [THEN followsD] followsD [OF kept_recordKnock] followsD [OF kept_locationWatched]
    followsD [OF kept_cacheContacts] followsD [OF kept_getCachedContacts] kept_events [THEN followsD] keeps_advance keeps_restart)

lemma run_keeps: "canvass_run toISO srv s s' \<Longrightarrow> keeps s s'"
  by (induction rule: canvass_run.induct) (auto intro: kept.refl kept.trans step_keeps)

text \<open>A device as it is delivered or after its last restart: nothing is being sent, and nothing in the queues was sent.\<close>

definition unsent_device :: "syncDevice \<Rightarrow> bool" where
  "unsent_device s \<longleftrightarrow> passes s = [] \<and> list_all is_pending (trows (doorKnocksT s)) \<and> list_all is_pending (trows (pledgesT s)) \<and>
     fresh_ids (doorKnocksT s) \<and> fresh_ids (pledgesT s) \<and> fresh_ids (locationsT s) \<and> fresh_ids (conflictsT s)"

lemma unsent_inv: "unsent_device s \<Longrightarrow> canvass_inv s"
  by (auto simp: unsent_device_def canvass_inv_def queues_ok_def list_all_iff is_pending_def knock_settled_def pledge_settled_def)


section \<open>Relations along the operations\<close>

text \<open>A relation that the single statements follow is followed by the operations built from them. The
  statements on locations and contacts are left to the relation.\<close>

locale device_relation = transition_preorder R for R :: "syncDevice \<Rightarrow> syncDevice \<Rightarrow> bool" +
  assumes opens: "R s (opened s)"
    and knocks_put: "R s (s\<lparr>doorKnocksT := tk\<rparr>)" and pledges_put: "R s (s\<lparr>pledgesT := tp\<rparr>)" and conflicts_put: "R s (s\<lparr>conflictsT := tc\<rparr>)"
    and store_put: "R s (s\<lparr>secureStore := st\<rparr>)" and exchanges_put: "R s (s\<lparr>exchanges := xs\<rparr>)"
    and notices_put: "R s (s\<lparr>conflictNotices := ns\<rparr>)"
    and location_saved: "follows R (saveLocation l)" and locations_marked: "follows R (markLocationsSynced ids)"
    and contacts_cached: "follows R (cacheContacts cs)"
begin

lemma put: "(\<And>s t. R s (tput D t s)) \<Longrightarrow> (\<And>s. \<exists>t. snd (m s) = tput D t s) \<Longrightarrow> follows R m"
  unfolding follows_def by metis

lemma puts: "R s (tput doorKnocksD t s)" "R s (tput pledgesD t' s)" "R s (tput conflictsD u s)"
  by (simp_all add: canvass_tables knocks_put pledges_put conflicts_put)

lemma getDB: "follows R getDB"
  by (simp add: follows_def getDB_run opens)

lemma statements:
  "follows R (insertRow doorKnocksD eid mk)" "follows R (insertRow pledgesD eid mk')" "follows R (insertRow conflictsD eid mkc)"
  "follows R (updateRows doorKnocksD P f)" "follows R (updateRows pledgesD P' f')"
  by (rule put [OF puts(1) knocks.insert_frame] put [OF puts(2) pledges.insert_frame] put [OF puts(3) conflict_log.insert_frame]
      put [OF puts(1) knocks.update_frame] put [OF puts(2) pledges.update_frame])+

lemma modify: "(\<And>s. R s (f s)) \<Longrightarrow> follows R (modifyE f)"
  by (simp add: follows_def modifyE_run)

lemma stored: "store_only s s' \<Longrightarrow> R s s'"
  unfolding store_only_def using trans [OF store_put exchanges_put] by auto

lemma sends: "follows R (send srv req)"
  using session_send stored unfolding follows_def by blast

lemma reads: "follows R getPendingDoorKnocks" "follows R getPendingPledges" "follows R getPendingLocations" "follows R getPendingCounts"
  by (simp_all add: follows_def pending_knocks_run pending_pledges_run pending_locations_run counts_run opens)

lemmas steps = intros getDB statements sends reads location_saved locations_marked contacts_cached

lemma recordKnock: "follows R (recordKnock toISO kmh f)"
  unfolding recordKnock_def saveDoorKnock_def savePledge_def save_row_def by (intro steps)

lemma locationWatched: "follows R (locationWatched toISO kmh l f)"
  unfolding locationWatched_def by (intro steps)

lemma getCachedContacts: "follows R (getCachedContacts st lga)"
  unfolding getCachedContacts_def by (intro steps)

lemma session_call: "follows store_only m \<Longrightarrow> follows R m"
  using stored unfolding follows_def by blast

lemma settle: "follows R (settleKnock k res)" "follows R (settlePledge p res)"
  unfolding settleKnock_def settlePledge_def markDoorKnockSynced_def markDoorKnockFailed_def markPledgeSynced_def markPledgeFailed_def
    logConflict_def mark_row_def notifyConflict_def
  by (intro steps modify notices_put)+

lemma resume: "(p = PassDone \<Longrightarrow> follows R (passOver toISO)) \<Longrightarrow> follows R (resume toISO srv p)"
  unfolding resume_def rethrow_def postKnock_def postPledge_def postLocation_def getMobileToken_def
  by (auto intro!: steps settle split: syncPoint.split list.split)

end

section \<open>The synchronisation never gets stuck\<close>

text \<open>What leaves the manager alone.\<close>

definition quiet :: "syncDevice \<Rightarrow> syncDevice \<Rightarrow> bool" where
  "quiet s s' \<longleftrightarrow> mgrState s' = mgrState s \<and> passes s' = passes s \<and> retryTimers s' = retryTimers s"

interpretation calm0: transition_preorder quiet
  by unfold_locales (simp_all add: quiet_def)

lemma quiet_locations:
  "follows quiet (saveLocation l)" "follows quiet (markLocationsSynced ids)" "follows quiet (cacheContacts cs)"
proof -
  have put: "quiet s (tput locationsD t s)" for s t by (simp add: quiet_def locationsD_def)
  have db: "follows quiet getDB" by (simp add: follows_def getDB_run quiet_def)
  have stmts: "follows quiet (insertRow locationsD eid mk)" "follows quiet (updateRows locationsD P f)" "follows quiet (deleteRows locationsD P)"
    for eid mk P f
    unfolding follows_def using put locations.insert_frame locations.update_frame locations.delete_frame by metis+
  have mod: "follows quiet (modifyE (\<lambda>s. s\<lparr>cachedContactsT := f s\<rparr>))" for f by (simp add: follows_def modifyE_run quiet_def)
  show "follows quiet (saveLocation l)" "follows quiet (markLocationsSynced ids)"
    unfolding saveLocation_def markLocationsSynced_def save_row_def by (intro calm0.intros db stmts follows_selectRows calm0.refl)+
  show "follows quiet (cacheContacts cs)" unfolding cacheContacts_def cache_contact_def by (intro calm0.intros db mod)
qed

interpretation calm: device_relation quiet
  by unfold_locales (simp_all add: quiet_def quiet_locations)

text \<open>While the state reads \<open>syncing\<close>, which keeps the interval from starting a pass, a pass is under way or a retry
  is armed; a retry waits 2, 4, 8 or 16 seconds.\<close>

definition mgr_ok :: "syncDevice \<Rightarrow> bool" where
  "mgr_ok s \<longleftrightarrow> (mgrState s = SyncingNow \<longrightarrow> passes s \<noteq> [] \<or> retryTimers s \<noteq> []) \<and> set (retryTimers s) \<subseteq> {2000, 4000, 8000, 16000}"

lemma calm_mgr: "follows quiet m \<Longrightarrow> preserves mgr_ok m"
  unfolding follows_def preserves_def quiet_def mgr_ok_def by metis

lemma beginSync_run:
  "passes (snd (beginSync s)) = (if isOnline s then passes s @ [KnocksStart] else passes s)"
  "mgrState (snd (beginSync s)) = (if isOnline s then SyncingNow else Offline)" "retryTimers (snd (beginSync s)) = retryTimers s"
  by (simp_all add: beginSync_def bindE_run seqE_run getE_run modifyE_run setState_run)

lemma networkChanged_run:
  "snd (networkChanged c s) =
     (if nullish c False then (if mgrState s = Offline then snd (beginSync (s\<lparr>isOnline := True\<rparr>)) else s\<lparr>isOnline := True\<rparr>)
      else snd (setState Offline (s\<lparr>isOnline := False\<rparr>)))"
proof -
  have "fst (beginSync t) = Inr ()" for t by (simp add: beginSync_def bindE_run seqE_run getE_run modifyE_run setState_run)
  then show ?thesis
    by (simp add: networkChanged_def seqE_run bindE_run getE_run modifyE_run returnE_run setState_run split: prod.split sum.split)
qed

lemma beginSync_ok: "set (retryTimers s) \<subseteq> {2000, 4000, 8000, 16000} \<Longrightarrow> mgr_ok (snd (beginSync s))"
  by (simp add: mgr_ok_def beginSync_run)

lemma retry_delay: "n < maxRetries \<Longrightarrow> 0 < n \<Longrightarrow> min (1000 * 2 ^ n) 60000 \<in> {2000, 4000, 8000, 16000 :: nat}"
proof -
  assume "n < maxRetries" "0 < n"
  then have "n \<in> {1, 2, 3, 4}" by (auto simp: maxRetries_def)
  then show ?thesis by auto
qed

lemma retryLater_ok: "set (retryTimers s) \<subseteq> {2000, 4000, 8000, 16000} \<Longrightarrow> mgr_ok (snd (retryLater s))"
  using retry_delay [of "Suc (retryCount s)"]
  by (auto simp: retryLater_def mgr_ok_def bindE_run seqE_run getE_run modifyE_run setState_run)

lemma passOver_run: "mgrState (snd (passOver toISO s)) = Idle" "retryTimers (snd (passOver toISO s)) = retryTimers s" "fst (passOver toISO s) = Inr ()"
  by (simp_all add: passOver_def bindE_run seqE_run getE_run modifyE_run setState_run set_meta_run)

lemma resume_None: "resume toISO srv p s = (Inr None, s') \<Longrightarrow> p = PassDone"
  by (auto simp: resume_def returnE_run split: syncPoint.splits list.splits elim!: bindE_InrE seqE_InrE)

lemma advance_ok: "mgr_ok s \<Longrightarrow> mgr_ok (advance toISO srv i s)"
proof (cases "i < length (passes s)")
  case True
  assume ok: "mgr_ok s"
  obtain x s' where r: "resume toISO srv (passes s ! i) s = (x, s')" by fastforce
  show ?thesis
  proof (cases "passes s ! i = PassDone")
    case over: True
    with r have "x = Inr None" "mgrState s' = Idle" "retryTimers s' = retryTimers s"
      using passOver_run [of toISO s] by (auto simp: resume_def seqE_run returnE_run split: prod.splits sum.splits)
    with True r ok show ?thesis by (simp add: advance_def mgr_ok_def)
  next
    case False
    have same: "quiet s s'" by (rule follows_stepD [OF calm.resume r]) (simp add: False)
    from False resume_None r have "x \<noteq> Inr None" by blast
    moreover have "mgr_ok (snd (retryLater (s'\<lparr>passes := drop_nth i (passes s')\<rparr>)))"
      using ok same by (intro retryLater_ok) (simp add: mgr_ok_def quiet_def)
    moreover have "mgr_ok (s'\<lparr>passes := (passes s')[i := q]\<rparr>)" for q
      using ok same True by (auto simp: mgr_ok_def quiet_def)
    ultimately show ?thesis using True r by (auto simp: advance_def split: sum.split option.split)
  qed
qed (simp add: advance_def)

lemma calm_ok: "mgr_ok s \<Longrightarrow> follows quiet m \<Longrightarrow> mgr_ok (snd (m s))"
  by (rule preservesD [OF calm_mgr])

lemma session_ok: "mgr_ok s \<Longrightarrow> follows store_only m \<Longrightarrow> mgr_ok (snd (m s))"
  by (rule calm_ok [OF _ calm.session_call])

lemma step_ok:
  assumes "canvass_step toISO srv s s'" and ok: "mgr_ok s"
  shows "mgr_ok s'"
proof -
  have bound: "set (retryTimers s) \<subseteq> {2000, 4000, 8000, 16000}" using ok by (simp add: mgr_ok_def)
  from assms(1) show ?thesis
  proof cases
    case (network c)
    then show ?thesis
      using ok bound beginSync_ok [of "s\<lparr>isOnline := True\<rparr>"]
      by (simp add: networkChanged_run setState_run) (auto simp: mgr_ok_def)
  next
    case start
    then show ?thesis
      using ok bound beginSync_ok [of "s\<lparr>intervalOn := True\<rparr>"]
      by (auto simp: startManager_def seqE_run bindE_run getE_run modifyE_run returnE_run mgr_ok_def)
  next
    case tick
    then show ?thesis using ok beginSync_ok [OF bound] by (auto simp: intervalTick_def bindE_run getE_run returnE_run)
  next
    case (retry j)
    have "set (drop_nth j (retryTimers s)) \<subseteq> {2000, 4000, 8000, 16000}"
      by (rule order_trans [OF _ bound]) (rule subsetI, erule drop_nth_subset)
    then have "mgr_ok (snd (beginSync (s\<lparr>retryTimers := drop_nth j (retryTimers s)\<rparr>)))" by (intro beginSync_ok) simp
    with retry ok show ?thesis by (auto simp: retryFires_def seqE_run bindE_run getE_run modifyE_run returnE_run)
  next
    case stop
    then show ?thesis using ok by (simp add: stopManager_def modifyE_run mgr_ok_def)
  next
    case (clock t)
    then show ?thesis using ok by (simp add: mgr_ok_def)
  next
    case restart
    then show ?thesis by (simp add: restartApp_def mgr_ok_def)
  qed (auto intro: advance_ok [OF ok] calm_ok [OF ok] session_ok [OF ok] calm.recordKnock calm.locationWatched calm.contacts_cached calm.getCachedContacts session_calls)
qed


section \<open>An uninterrupted pass\<close>

text \<open>What is left of the sequence of statements at a point of a pass.\<close>

fun rest_of :: "(time \<Rightarrow> string) \<Rightarrow> gotvBackend \<Rightarrow> syncPoint \<Rightarrow> (syncDevice, unit) proc" where
  "rest_of toISO srv PassDone = passOver toISO"
| "rest_of toISO srv (LocationsDone ids) = seqE (if length ids > 0 then markLocationsSynced ids else returnE ()) (passOver toISO)"
| "rest_of toISO srv (LocationNext locs ls ids) =
     seqE (bindE (post_locations srv locs ls ids) (\<lambda>syncedIds. if length syncedIds > 0 then markLocationsSynced syncedIds else returnE ())) (passOver toISO)"
| "rest_of toISO srv LocationsStart = seqE (syncLocations srv) (passOver toISO)"
| "rest_of toISO srv (PledgeNext ps) =
     seqE (forE ps (\<lambda>p. rethrow ''pledge'' (bindE (postPledge srv p) (settlePledge p)))) (seqE (syncLocations srv) (passOver toISO))"
| "rest_of toISO srv (PledgeReply p res ps) =
     seqE (rethrow ''pledge'' (settlePledge p res))
     (seqE (forE ps (\<lambda>p. rethrow ''pledge'' (bindE (postPledge srv p) (settlePledge p)))) (seqE (syncLocations srv) (passOver toISO)))"
| "rest_of toISO srv PledgesStart = seqE (syncPledges srv) (seqE (syncLocations srv) (passOver toISO))"
| "rest_of toISO srv (KnockNext ks) =
     seqE (forE ks (\<lambda>k. rethrow ''door knock'' (bindE (postKnock srv k) (settleKnock k))))
     (seqE (syncPledges srv) (seqE (syncLocations srv) (passOver toISO)))"
| "rest_of toISO srv (KnockReply k res ks) =
     seqE (rethrow ''door knock'' (settleKnock k res))
     (seqE (forE ks (\<lambda>k. rethrow ''door knock'' (bindE (postKnock srv k) (settleKnock k))))
     (seqE (syncPledges srv) (seqE (syncLocations srv) (passOver toISO))))"
| "rest_of toISO srv KnocksStart = seqE (syncDoorKnocks srv) (seqE (syncPledges srv) (seqE (syncLocations srv) (passOver toISO)))"

lemma rethrow_bind: "rethrow w (bindE m f) = bindE (rethrow w m) (\<lambda>x. rethrow w (f x))"
  by (rule ext) (simp add: rethrow_run bindE_run split: prod.split sum.split)

lemma seqE_assoc: "seqE (seqE a b) c = seqE a (seqE b c)"
  by (simp add: seqE_def bindE_assoc)

lemma seqE_bind: "seqE (bindE m f) c = bindE m (\<lambda>x. seqE (f x) c)"
  by (simp add: seqE_def bindE_assoc)

lemma bindE_return: "bindE (returnE x) f = f x"
  by (rule ext) (simp add: bindE_run returnE_run)

lemma seqE_return: "seqE (returnE x) m = m"
  by (rule ext) (simp add: seqE_run returnE_run)

lemma bindE_cong: "(\<And>x. f x = g x) \<Longrightarrow> bindE m f = bindE m g"
  by presburger

text \<open>A step of a pass and what is left after it make what was left before.\<close>

lemma rest_step: "rest_of toISO srv p = bindE (resume toISO srv p) (\<lambda>q. case q of None \<Rightarrow> returnE () | Some q \<Rightarrow> rest_of toISO srv q)"
proof -
  have unit_end: "seqE (passOver toISO) (returnE ()) = passOver toISO"
    by (rule ext) (simp add: seqE_run returnE_run split: prod.split sum.split)
  have seq_bind: "bindE (seqE m (returnE x)) f = seqE m (f x)" for m :: "(syncDevice, unit) proc" and x and f :: "syncPoint option \<Rightarrow> (syncDevice, unit) proc"
    by (simp add: seqE_def bindE_assoc bindE_return)
  note mon = resume_def seq_bind unit_end bindE_assoc bindE_return seqE_bind seqE_assoc seqE_return rethrow_bind
  show ?thesis
  proof (cases p)
    case (KnockNext ks)
    then show ?thesis by (cases ks) (simp_all add: mon)
  next
    case (PledgeNext ps)
    then show ?thesis by (cases ps) (simp_all add: mon)
  next
    case (LocationNext locs ls ids)
    then show ?thesis by (cases ls) (simp_all add: mon)
  next
    case LocationsStart
    then show ?thesis by (simp add: mon syncLocations_def) (rule bindE_cong, simp add: mon)
  qed (simp_all add: mon syncDoorKnocks_def syncPledges_def)
qed

text \<open>The statements do not look at the list of passes.\<close>

definition blind :: "(syncDevice, 'a) proc \<Rightarrow> bool" where
  "blind m \<longleftrightarrow> (\<forall>s ps. m (s\<lparr>passes := ps\<rparr>) = (fst (m s), (snd (m s))\<lparr>passes := ps\<rparr>))"

lemma blindD: "blind m \<Longrightarrow> m s = (x, s') \<Longrightarrow> m (s\<lparr>passes := ps\<rparr>) = (x, s'\<lparr>passes := ps\<rparr>)"
  by (simp add: blind_def)

lemma blind_base:
  "blind (returnE x)" "blind (throwE e)" "(\<And>s ps. f (s\<lparr>passes := ps\<rparr>) = f s) \<Longrightarrow> blind (getE f)"
  "(\<And>s ps. g (s\<lparr>passes := ps\<rparr>) = (g s)\<lparr>passes := ps\<rparr>) \<Longrightarrow> blind (modifyE g)"
  by (simp_all add: blind_def returnE_run throwE_run getE_run modifyE_run)

lemma blind_bindE: "blind m \<Longrightarrow> (\<And>x. blind (f x)) \<Longrightarrow> blind (bindE m f)"
  by (auto simp: blind_def bindE_run split: prod.split sum.split)

lemma blind_catchE: "blind m \<Longrightarrow> (\<And>e. blind (h e)) \<Longrightarrow> blind (catchE m h)"
  by (auto simp: blind_def catchE_def split: prod.split sum.split)

lemma blind_seqE: "blind m \<Longrightarrow> blind n \<Longrightarrow> blind (seqE m n)"
  unfolding seqE_def by (rule blind_bindE)

lemma blind_voidE: "blind m \<Longrightarrow> blind (voidE m)"
  unfolding voidE_def by (intro blind_bindE blind_base)

lemma blind_forE: "(\<And>x. blind (f x)) \<Longrightarrow> blind (forE xs f)"
  by (induction xs) (auto intro: blind_base blind_seqE)

lemma blind_if: "blind m \<Longrightarrow> blind n \<Longrightarrow> blind (if b then m else n)"
  by simp

lemma blind_table:
  assumes "\<And>s ps. tget D (s\<lparr>passes := ps\<rparr>) = tget D s" and "\<And>t s ps. tput D t (s\<lparr>passes := ps\<rparr>) = (tput D t s)\<lparr>passes := ps\<rparr>"
    and "tchk D = (\<lambda>_ _. True)"
  shows "blind (insertRow D eid mk)" "blind (updateRows D P f)" "blind (selectRows D P)"
  using assms by (simp_all add: blind_def insertRow_def updateRows_def selectRows_def rows_of_def Let_def list_all_iff)

lemma blind_tables:
  "blind (insertRow doorKnocksD eid mk)" "blind (updateRows doorKnocksD P f)" "blind (selectRows doorKnocksD P)"
  "blind (updateRows pledgesD P' f')" "blind (selectRows pledgesD P')"
  "blind (updateRows locationsD P'' f'')" "blind (selectRows locationsD P'')" "blind (insertRow conflictsD eid mkc)"
  by (rule blind_table; simp add: canvass_tables)+

lemma blind_send: "blind (send srv req)"
  by (simp add: blind_def send_run)

lemmas blind_rules = blind_base(1,2) blind_bindE blind_catchE blind_seqE blind_voidE blind_forE blind_if blind_tables blind_send

lemma blind_getDB: "blind getDB"
  unfolding getDB_def getDatabaseKey_def by (intro blind_rules blind_base(3,4)) simp_all

lemma blind_setState: "blind (setState st)"
  unfolding setState_def getPendingCounts_def by (intro blind_rules blind_getDB blind_base(4)) simp_all

lemma blind_retryLater: "blind retryLater"
  unfolding retryLater_def by (intro blind_rules blind_setState blind_base(3,4)) simp_all

lemma blind_posts: "blind (postKnock srv k)" "blind (postPledge srv p)" "blind (postLocation srv l)"
  unfolding postKnock_def postPledge_def postLocation_def getMobileToken_def by (intro blind_rules blind_base(3); simp)+

lemma blind_settle: "blind (settleKnock k res)" "blind (settlePledge p res)"
  unfolding settleKnock_def settlePledge_def markDoorKnockSynced_def markDoorKnockFailed_def markPledgeSynced_def markPledgeFailed_def
    logConflict_def mark_row_def notifyConflict_def
  by (intro blind_rules blind_getDB blind_base(4); simp)+

lemma blind_reads: "blind getPendingDoorKnocks" "blind getPendingPledges" "blind getPendingLocations" "blind (markLocationsSynced ids)"
  unfolding getPendingDoorKnocks_def getPendingPledges_def getPendingLocations_def markLocationsSynced_def
  by (intro blind_rules blind_getDB)+

lemma blind_passOver: "blind (passOver toISO)"
  unfolding passOver_def setSyncMeta_def by (intro blind_rules blind_getDB blind_setState blind_base(3,4)) simp_all

lemma blind_post_locations: "blind (post_locations srv locs ls ids)"
  by (induction ls arbitrary: ids) (auto simp: rethrow_def intro!: blind_rules blind_posts)

lemma blind_rest: "blind (rest_of toISO srv p)"
  by (cases p)
    (auto simp: rethrow_def syncDoorKnocks_def syncPledges_def syncLocations_def
      intro!: blind_rules blind_posts blind_settle blind_reads blind_passOver blind_post_locations)

definition finished :: "(time \<Rightarrow> string) \<Rightarrow> gotvBackend \<Rightarrow> syncPoint \<Rightarrow> syncDevice \<Rightarrow> syncDevice" where
  "finished toISO srv p s = (snd (catchE (rest_of toISO srv p) (\<lambda>_. retryLater) s))\<lparr>passes := []\<rparr>"

definition completes :: "(time \<Rightarrow> string) \<Rightarrow> gotvBackend \<Rightarrow> syncPoint \<Rightarrow> bool" where
  "completes toISO srv p \<longleftrightarrow> (\<forall>s. passes s = [p] \<longrightarrow> (\<exists>n. (advance toISO srv 0 ^^ n) s = finished toISO srv p s))"

lemma blind_passes: "blind m \<Longrightarrow> m s = (x, s') \<Longrightarrow> passes s' = passes s"
proof -
  assume b: "blind m" and m: "m s = (x, s')"
  have "s' = s'\<lparr>passes := passes s\<rparr>" using blindD [OF b m, of "passes s"] m by simp
  then show ?thesis by (metis syncDevice.select_convs(6) syncDevice.surjective syncDevice.update_convs(6))
qed

lemma blind_resume: "blind (resume toISO srv p)"
  unfolding resume_def rethrow_def
  by (auto intro!: blind_rules blind_posts blind_settle blind_reads blind_passOver split: syncPoint.split list.split)

lemma finished_step:
  assumes "resume toISO srv p s = (Inr (Some q), s')"
  shows "finished toISO srv p s = finished toISO srv q (s'\<lparr>passes := ps\<rparr>)"
proof -
  have "rest_of toISO srv p s = rest_of toISO srv q s'" using assms by (subst rest_step) (simp add: bindE_run)
  then have "catchE (rest_of toISO srv p) (\<lambda>_. retryLater) s = catchE (rest_of toISO srv q) (\<lambda>_. retryLater) s'" by (simp add: catchE_def)
  moreover have "blind (catchE (rest_of toISO srv q) (\<lambda>_. retryLater))" by (intro blind_catchE blind_rest blind_retryLater)
  ultimately show ?thesis by (simp add: finished_def blind_def)
qed

lemma completesI:
  assumes "\<And>q s s'. resume toISO srv p s = (Inr (Some q), s') \<Longrightarrow> completes toISO srv q"
  shows "completes toISO srv p"
  unfolding completes_def
proof (intro allI impI)
  fix s :: syncDevice assume alone: "passes s = [p]"
  obtain x s' where r: "resume toISO srv p s = (x, s')" by fastforce
  have kept: "passes s' = [p]" using blind_passes [OF blind_resume r] alone by simp
  have rest: "rest_of toISO srv p s = (case x of Inl e \<Rightarrow> (Inl e, s') | Inr None \<Rightarrow> (Inr (), s') | Inr (Some q) \<Rightarrow> rest_of toISO srv q s')"
    by (subst rest_step) (simp add: bindE_run r returnE_run split: sum.split option.split)
  consider (fail) e where "x = Inl e" | (over) "x = Inr None" | (more) q where "x = Inr (Some q)" by (metis not_Some_eq sum.exhaust_sel)
  then show "\<exists>n. (advance toISO srv 0 ^^ n) s = finished toISO srv p s"
  proof cases
    case fail
    then have "advance toISO srv 0 s = finished toISO srv p s"
      using alone r kept rest blind_retryLater by (simp add: advance_def finished_def catchE_def drop_nth_def blind_def)
    then show ?thesis by (intro exI [of _ 1]) simp
  next
    case over
    then have "advance toISO srv 0 s = finished toISO srv p s"
      using alone r kept rest by (simp add: advance_def finished_def catchE_def drop_nth_def)
    then show ?thesis by (intro exI [of _ 1]) simp
  next
    case more
    then have adv: "advance toISO srv 0 s = s'\<lparr>passes := [q]\<rparr>" using alone r kept by (simp add: advance_def)
    from assms r more have "completes toISO srv q" by blast
    then obtain n where "(advance toISO srv 0 ^^ n) (s'\<lparr>passes := [q]\<rparr>) = finished toISO srv q (s'\<lparr>passes := [q]\<rparr>)"
      unfolding completes_def by fastforce
    with adv finished_step [of toISO srv p s q s'] r more show ?thesis by (intro exI [of _ "Suc n"]) (simp add: funpow_swap1)
  qed
qed

lemma completes_locations:
  "completes toISO srv PassDone" "completes toISO srv (LocationsDone ids)" "completes toISO srv (LocationNext locs ls ids)"
  "completes toISO srv LocationsStart"
proof -
  show pd: "completes toISO srv PassDone" by (rule completesI) (auto simp: resume_def returnE_run elim!: seqE_InrE)
  have ld: "completes toISO srv (LocationsDone ids)" for ids by (rule completesI) (auto simp: resume_def returnE_run pd elim!: seqE_InrE)
  then show "completes toISO srv (LocationsDone ids)" .
  have ln: "completes toISO srv (LocationNext locs ls ids)" for locs ls ids
    by (induction ls arbitrary: ids) (rule completesI; auto simp: resume_def returnE_run ld elim!: bindE_InrE)+
  then show "completes toISO srv (LocationNext locs ls ids)" .
  show "completes toISO srv LocationsStart" by (rule completesI) (auto simp: resume_def returnE_run ln pd elim!: bindE_InrE)
qed

lemma completes_pledges: "completes toISO srv (PledgeNext ps)" "completes toISO srv PledgesStart"
proof -
  have pn: "completes toISO srv (PledgeNext ps)" for ps
  proof (induction ps)
    case Nil
    show ?case by (rule completesI) (auto simp: resume_def returnE_run completes_locations)
  next
    case (Cons p ps)
    have reply: "completes toISO srv (PledgeReply p res ps)" for res
      by (rule completesI) (auto simp: resume_def returnE_run Cons elim!: seqE_InrE)
    show ?case by (rule completesI) (auto simp: resume_def returnE_run reply elim!: bindE_InrE)
  qed
  then show "completes toISO srv (PledgeNext ps)" .
  show "completes toISO srv PledgesStart" by (rule completesI) (auto simp: resume_def returnE_run pn elim!: bindE_InrE)
qed

lemma completes_knocks: "completes toISO srv KnocksStart"
proof -
  have kn: "completes toISO srv (KnockNext ks)" for ks
  proof (induction ks)
    case Nil
    show ?case by (rule completesI) (auto simp: resume_def returnE_run completes_pledges)
  next
    case (Cons k ks)
    have reply: "completes toISO srv (KnockReply k res ks)" for res
      by (rule completesI) (auto simp: resume_def returnE_run Cons elim!: seqE_InrE)
    show ?case by (rule completesI) (auto simp: resume_def returnE_run reply elim!: bindE_InrE)
  qed
  show ?thesis by (rule completesI) (auto simp: resume_def returnE_run kn elim!: bindE_InrE)
qed


section \<open>What the device holds about voters\<close>

text \<open>A relation that the fields of the manager do not matter to holds along every run.\<close>

locale manager_relation = device_relation R for R +
  assumes state_put: "R s (s\<lparr>mgrState := a\<rparr>)" and told_put: "R s (s\<lparr>stateNotices := b\<rparr>)" and count_put: "R s (s\<lparr>retryCount := c\<rparr>)"
    and meta_put: "R s (s\<lparr>syncMetadata := d\<rparr>)" and online_put: "R s (s\<lparr>isOnline := e\<rparr>)" and interval_put: "R s (s\<lparr>intervalOn := f\<rparr>)"
    and timers_put: "R s (s\<lparr>retryTimers := g\<rparr>)" and passes_put: "R s (s\<lparr>passes := h\<rparr>)" and clock_put: "R s (s\<lparr>nowMs := i\<rparr>)"
    and restarts: "R s (restartApp s)"
begin

lemmas field_puts = state_put told_put count_put meta_put online_put interval_put timers_put passes_put

lemma sets_state: "follows R (setState st)"
  unfolding setState_def by (intro steps modify field_puts)

lemma passes_over: "follows R (passOver toISO)"
  unfolding passOver_def setSyncMeta_def by (intro steps modify field_puts sets_state)

lemma retries: "follows R retryLater"
  unfolding retryLater_def by (intro steps modify field_puts sets_state)

lemma begins: "follows R beginSync"
  unfolding beginSync_def by (intro steps modify field_puts sets_state)

lemma events:
  "follows R (networkChanged c)" "follows R startManager" "follows R stopManager" "follows R intervalTick" "follows R (retryFires j)"
proof -
  show "follows R (networkChanged c)"
    unfolding networkChanged_def
    by (intro seqE bindE modify field_puts getE) (auto intro!: steps begins sets_state)
  show "follows R startManager" "follows R stopManager" "follows R intervalTick" "follows R (retryFires j)"
    unfolding startManager_def stopManager_def intervalTick_def retryFires_def by (intro steps modify field_puts begins)+
qed

lemma advances: "R s (advance toISO srv i s)"
proof -
  obtain x s' where r: "resume toISO srv (passes s ! i) s = (x, s')" by fastforce
  have "R s s'" by (rule follows_stepD [OF resume r]) (rule passes_over)
  moreover have "R s' (snd (retryLater (s'\<lparr>passes := h\<rparr>)))" for h by (rule trans [OF passes_put followsD [OF retries]])
  ultimately show ?thesis
    using r trans [OF _ passes_put] trans by (auto simp: advance_def refl split: sum.split option.split)
qed

lemma step: "canvass_step toISO srv s s' \<Longrightarrow> R s s'"
  by (induction rule: canvass_step.induct)
    (auto intro: stored session_calls [THEN followsD] recordKnock [THEN followsD] locationWatched [THEN followsD] contacts_cached [THEN followsD]
      getCachedContacts [THEN followsD] events [THEN followsD] advances clock_put restarts)

lemma run: "canvass_run toISO srv s s' \<Longrightarrow> R s s'"
  by (induction rule: canvass_run.induct) (auto intro: refl trans step)

end

definition store_ok :: "syncDevice \<Rightarrow> bool" where
  "store_ok s \<longleftrightarrow> cache_masked s \<and> fresh_ids (locationsT s) \<and> length (trows (locationsT s)) \<le> 1000"

definition stays :: "syncDevice \<Rightarrow> syncDevice \<Rightarrow> bool" where
  "stays s s' \<longleftrightarrow> store_ok s \<longrightarrow> store_ok s'"

lemma stays_same:
  "cachedContactsT s' = cachedContactsT s \<Longrightarrow> legacyColumn s' = legacyColumn s \<Longrightarrow> dbOpen s' = dbOpen s \<Longrightarrow> locationsT s' = locationsT s \<Longrightarrow> stays s s'"
  by (simp add: stays_def store_ok_def cache_masked_def)

lemma stays_saveLocation: "follows stays (saveLocation l)"
proof -
  have "store_ok (snd (saveLocation l s))" if "store_ok s" for s
  proof -
    have fresh: "fresh_ids (locationsT s)" and masked: "cache_masked s" using that by (simp_all add: store_ok_def)
    have "cache_masked (snd (saveLocation l s)) = cache_masked (opened s)"
      by (rule cache_masked_cong) (simp_all add: saveLocation_run [OF fresh])
    then show ?thesis using saveLocation_bound [OF fresh] cache_masked_opened [OF masked] by (simp add: store_ok_def)
  qed
  then show ?thesis by (simp add: follows_def stays_def)
qed

lemma stays_markLocations: "follows stays (markLocationsSynced ids)"
proof -
  have "store_ok (snd (markLocationsSynced ids s))" if "store_ok s" "ids \<noteq> []" for s
  proof -
    let ?t = "(locationsT s)\<lparr>trows := map (\<lambda>r. if row_id r \<in> set ids then r\<lparr>sync_status := Synced\<rparr> else r) (trows (locationsT s))\<rparr>"
    have run: "snd (markLocationsSynced ids s) = (opened s)\<lparr>locationsT := ?t\<rparr>"
      using that by (simp add: markLocationsSynced_def getDB_seq voidE_run updateRows_def Let_def locationsD_def list_all_iff)
    have "map row_id (trows ?t) = map row_id (trows (locationsT s))" by simp
    then have "fresh_ids ?t = fresh_ids (locationsT s)" by (intro fresh_ids_map) simp_all
    moreover have "cache_masked ((opened s)\<lparr>locationsT := ?t\<rparr>) = cache_masked (opened s)" by (rule cache_masked_cong) simp_all
    ultimately show ?thesis using that cache_masked_opened [of s] unfolding run by (simp add: store_ok_def)
  qed
  then show ?thesis by (cases "ids = []") (simp_all add: follows_def stays_def markLocationsSynced_def returnE_run)
qed

lemma stays_cacheContacts: "follows stays (cacheContacts cs)"
proof -
  have "locationsT (snd (forE cs cache_contact s)) = locationsT s" for s :: syncDevice
    by (induction cs arbitrary: s) (simp_all add: returnE_run seqE_run cache_contact_def modifyE_run)
  then have "locationsT (snd (cacheContacts cs s)) = locationsT s" for s :: syncDevice by (simp add: cacheContacts_def getDB_seq)
  moreover have "cache_masked (snd (cacheContacts cs s))" if "cache_masked s" for s :: syncDevice
    using that by (rule preservesD [OF cacheContacts_masked])
  ultimately show ?thesis by (simp add: follows_def stays_def store_ok_def)
qed

interpretation held: manager_relation stays
proof unfold_locales
  show "stays s (opened s)" for s using cache_masked_opened [of s] by (simp add: stays_def store_ok_def)
  show "stays s (restartApp s)" for s by (auto simp: stays_def store_ok_def cache_masked_def restartApp_def)
qed (auto simp: stays_def store_ok_def cache_masked_def intro: stays_same stays_saveLocation stays_markLocations stays_cacheContacts)


section \<open>A pass empties the queues\<close>

definition accepts :: "gotvBackend \<Rightarrow> bool" where
  "accepts srv \<longleftrightarrow> (\<forall>l q. \<exists>res. srv l q = Reply res \<and> gr_ok res)"

lemma accepts_send: "accepts srv \<Longrightarrow> \<exists>res new. send srv req s = (Inr res, s\<lparr>exchanges := exchanges s @ new\<rparr>) \<and> gr_ok res"
proof -
  assume "accepts srv"
  then obtain res where "srv (map fst (exchanges s)) req = Reply res" "gr_ok res" unfolding accepts_def by blast
  then show ?thesis by (auto simp: send_run)
qed

text \<open>The tables after a loop, and that the other queues and the manager are as before.\<close>

definition same_rest :: "syncDevice \<Rightarrow> syncDevice \<Rightarrow> bool" where
  "same_rest s s' \<longleftrightarrow> locationsT s' = locationsT s \<and> retryCount s' = retryCount s \<and> nowMs s' = nowMs s"

lemma knock_loop:
  assumes "accepts srv"
  shows "\<exists>s'. forE ks (\<lambda>k. rethrow ''door knock'' (bindE (postKnock srv k) (settleKnock k))) s = (Inr (), s') \<and>
    doorKnocksT s' = fold (\<lambda>k. marked (row_id k) Synced) ks (doorKnocksT s) \<and> pledgesT s' = pledgesT s \<and> same_rest s s'"
proof (induction ks arbitrary: s)
  case (Cons k ks)
  obtain res new where "postKnock srv k s = (Inr res, s\<lparr>exchanges := exchanges s @ new\<rparr>)" "gr_ok res"
    using accepts_send [OF assms] by (fastforce simp: postKnock_def getMobileToken_def bindE_run getE_run)
  then have "rethrow ''door knock'' (bindE (postKnock srv k) (settleKnock k)) s =
      (Inr (), (opened (s\<lparr>exchanges := exchanges s @ new\<rparr>))\<lparr>doorKnocksT := marked (row_id k) Synced (doorKnocksT s)\<rparr>)" (is "_ = (_, ?s1)")
    by (simp add: rethrow_run bindE_run settleKnock_def mark_knock_run)
  moreover obtain s' where "forE ks (\<lambda>k. rethrow ''door knock'' (bindE (postKnock srv k) (settleKnock k))) ?s1 = (Inr (), s')"
    "doorKnocksT s' = fold (\<lambda>k. marked (row_id k) Synced) ks (doorKnocksT ?s1)" "pledgesT s' = pledgesT ?s1" "same_rest ?s1 s'"
    using Cons by blast
  ultimately show ?case by (simp add: seqE_run same_rest_def)
qed (simp add: returnE_run same_rest_def)

lemma pledge_loop:
  assumes "accepts srv"
  shows "\<exists>s'. forE ps (\<lambda>p. rethrow ''pledge'' (bindE (postPledge srv p) (settlePledge p))) s = (Inr (), s') \<and>
    pledgesT s' = fold (\<lambda>p. marked (row_id p) Synced) ps (pledgesT s) \<and> doorKnocksT s' = doorKnocksT s \<and> same_rest s s'"
proof (induction ps arbitrary: s)
  case (Cons p ps)
  obtain res new where "postPledge srv p s = (Inr res, s\<lparr>exchanges := exchanges s @ new\<rparr>)" "gr_ok res"
    using accepts_send [OF assms] by (fastforce simp: postPledge_def getMobileToken_def bindE_run getE_run)
  then have "rethrow ''pledge'' (bindE (postPledge srv p) (settlePledge p)) s =
      (Inr (), (opened (s\<lparr>exchanges := exchanges s @ new\<rparr>))\<lparr>pledgesT := marked (row_id p) Synced (pledgesT s)\<rparr>)" (is "_ = (_, ?s1)")
    by (simp add: rethrow_run bindE_run settlePledge_def mark_pledge_run)
  moreover obtain s' where "forE ps (\<lambda>p. rethrow ''pledge'' (bindE (postPledge srv p) (settlePledge p))) ?s1 = (Inr (), s')"
    "pledgesT s' = fold (\<lambda>p. marked (row_id p) Synced) ps (pledgesT ?s1)" "doorKnocksT s' = doorKnocksT ?s1" "same_rest ?s1 s'"
    using Cons by blast
  ultimately show ?case by (simp add: seqE_run same_rest_def)
qed (simp add: returnE_run same_rest_def)

lemma location_loop:
  assumes "accepts srv"
  shows "\<exists>new. post_locations srv locs ls ids s = (Inr (ids @ concat (map (ids_of_volunteer locs) ls)), s\<lparr>exchanges := exchanges s @ new\<rparr>)"
proof (induction ls arbitrary: ids s)
  case Nil
  have "s = s\<lparr>exchanges := exchanges s @ []\<rparr>" by simp
  then show ?case by (auto simp: returnE_run intro!: exI [of _ "[]"])
next
  case (Cons l ls)
  obtain res new where post: "postLocation srv l s = (Inr res, s\<lparr>exchanges := exchanges s @ new\<rparr>)" "gr_ok res"
    using accepts_send [OF assms] by (fastforce simp: postLocation_def getMobileToken_def bindE_run getE_run)
  obtain more where "post_locations srv locs ls (ids @ ids_of_volunteer locs l) (s\<lparr>exchanges := exchanges s @ new\<rparr>) =
      (Inr ((ids @ ids_of_volunteer locs l) @ concat (map (ids_of_volunteer locs) ls)), s\<lparr>exchanges := exchanges s @ new @ more\<rparr>)"
    using Cons [of "ids @ ids_of_volunteer locs l" "s\<lparr>exchanges := exchanges s @ new\<rparr>"] by auto
  with post show ?case by (intro exI [of _ "new @ more"]) (simp add: bindE_run rethrow_run)
qed

text \<open>Every volunteer with a fix has a latest one.\<close>

lemma latest_fold:
  "(\<forall>(v, l) \<in> set m. lu_volunteer_id (captured l) = v) \<Longrightarrow>
   fst ` set (foldl (\<lambda>m l. AList.update (lu_volunteer_id (captured l)) l m) m locs) = fst ` set m \<union> (\<lambda>l. lu_volunteer_id (captured l)) ` set locs \<and>
   (\<forall>(v, l) \<in> set (foldl (\<lambda>m l. AList.update (lu_volunteer_id (captured l)) l m) m locs). lu_volunteer_id (captured l) = v)"
proof (induction locs arbitrary: m)
  case (Cons l locs)
  have "\<forall>(v, l) \<in> set (AList.update (lu_volunteer_id (captured l)) l m). lu_volunteer_id (captured l) = v"
    using Cons.prems by (induction m) auto
  from Cons.IH [OF this] show ?case by (simp add: dom_update)
qed auto

lemma latest_covers: "set (concat (map (ids_of_volunteer locs) (latestByVol locs))) = row_id ` set locs"
proof -
  let ?m = "foldl (\<lambda>m l. AList.update (lu_volunteer_id (captured l)) l m) [] locs"
  have keys: "fst ` set ?m = (\<lambda>l. lu_volunteer_id (captured l)) ` set locs" and vals: "\<forall>(v, l) \<in> set ?m. lu_volunteer_id (captured l) = v"
    using latest_fold [of "[]" locs] by auto
  have "row_id l \<in> set (concat (map (ids_of_volunteer locs) (latestByVol locs)))" if l: "l \<in> set locs" for l
  proof -
    from keys l have "lu_volunteer_id (captured l) \<in> fst ` set ?m" by simp
    then obtain x where "(lu_volunteer_id (captured l), x) \<in> set ?m" by auto
    with vals have "x \<in> set (latestByVol locs)" "lu_volunteer_id (captured x) = lu_volunteer_id (captured l)"
      by (force simp: latestByVol_def)+
    with l show ?thesis by (auto simp: ids_of_volunteer_def intro!: bexI [of _ x])
  qed
  then show ?thesis by (auto simp: ids_of_volunteer_def)
qed

lemma filter_map_id: "(\<And>x. P (f x) = Q x) \<Longrightarrow> (\<And>x. Q x \<Longrightarrow> f x = x) \<Longrightarrow> filter P (map f xs) = filter Q xs"
  by (induction xs) auto

lemma pending_marked:
  "filter is_pending (map (\<lambda>r. if row_id r \<in> A then r\<lparr>sync_status := Synced\<rparr> else r) rows) = filter (\<lambda>r. is_pending r \<and> row_id r \<notin> A) rows"
  by (rule filter_map_id) (auto simp: is_pending_def)

lemma pending_fold:
  "filter is_pending (trows (fold (\<lambda>k. marked (row_id k) Synced) ks t)) = filter (\<lambda>r. is_pending r \<and> row_id r \<notin> row_id ` set ks) (trows t)"
proof (induction ks arbitrary: t)
  case (Cons k ks)
  have "filter (\<lambda>r. is_pending r \<and> row_id r \<notin> row_id ` set ks) (trows (marked (row_id k) Synced t)) =
      filter (\<lambda>r. is_pending r \<and> row_id r \<notin> row_id ` set (k # ks)) (trows t)"
    unfolding marked_def by simp (rule filter_map_id, auto simp: is_pending_def)
  with Cons show ?case by simp
qed simp

lemma drained: "filter is_pending (trows (fold (\<lambda>k. marked (row_id k) Synced) (order_by f (filter is_pending (trows t))) t)) = []"
  by (auto simp: pending_fold filter_empty_conv)

lemma drop_ids:
  fixes k :: "'c queuedRow \<Rightarrow> string"
  assumes "distinct (map row_id rows)"
  shows "length (filter (\<lambda>r. row_id r \<notin> row_id ` set (take n (sort_key k rows))) rows) = length rows - n"
proof -
  let ?S = "sort_key k rows" and ?Q = "\<lambda>r. row_id r \<notin> row_id ` set (take n (sort_key k rows))"
  have "distinct (map row_id ?S)"
    using assms mset_eq_imp_distinct_iff [of "map row_id ?S" "map row_id rows"] by simp
  moreover have "map row_id ?S = map row_id (take n ?S) @ map row_id (drop n ?S)" by (simp only: append_take_drop_id flip: map_append)
  ultimately have "distinct (map row_id (take n ?S) @ map row_id (drop n ?S))" by (simp only:)
  then have "row_id ` set (take n ?S) \<inter> row_id ` set (drop n ?S) = {}" by simp
  then have "\<forall>r \<in> set (drop n ?S). ?Q r" by blast
  then have "filter ?Q (drop n ?S) = drop n ?S" by (simp only: filter_id_conv)
  moreover have "filter ?Q (take n ?S) = []" by (simp only: filter_empty_conv) simp
  ultimately have "filter ?Q (take n ?S @ drop n ?S) = drop n ?S" by (simp only: filter_append append_Nil)
  then have "filter ?Q ?S = drop n ?S" by (simp only: append_take_drop_id)
  moreover have "mset (filter ?Q ?S) = mset (filter ?Q rows)" by simp
  then have "length (filter ?Q ?S) = length (filter ?Q rows)" by (rule mset_eq_length)
  ultimately show ?thesis by simp
qed

lemma location_pass:
  assumes "accepts srv" and "fresh_ids (locationsT s)"
  shows "\<exists>s'. syncLocations srv s = (Inr (), s') \<and> doorKnocksT s' = doorKnocksT s \<and> pledgesT s' = pledgesT s \<and>
    length (filter is_pending (trows (locationsT s'))) = length (filter is_pending (trows (locationsT s))) - 50"
proof -
  define P where "P = filter is_pending (trows (locationsT s))"
  define locs where "locs = take 50 (sort_key (\<lambda>r. lu_recorded_at (captured r)) P)"
  have pend: "getPendingLocations s = (Inr locs, opened s)" by (simp add: pending_locations_run locs_def P_def order_by_def)
  have dist: "distinct (map row_id P)" using assms(2) by (simp add: P_def fresh_ids_def distinct_map_filter)
  show ?thesis
  proof (cases "locs = []")
    case True
    then have "set (sort_key (\<lambda>r. lu_recorded_at (captured r)) P) = {}" by (simp add: locs_def)
    then have "P = []" by simp
    with True pend show ?thesis by (simp add: syncLocations_def bindE_run returnE_run P_def)
  next
    case False
    define ids where "ids = concat (map (ids_of_volunteer locs) (latestByVol locs))"
    have ids: "set ids = row_id ` set locs" unfolding ids_def by (rule latest_covers)
    with False have ne: "ids \<noteq> []" by auto
    obtain new where post: "post_locations srv locs (latestByVol locs) [] (opened s) = (Inr ids, (opened s)\<lparr>exchanges := exchanges (opened s) @ new\<rparr>)"
      using location_loop [OF assms(1), of locs "latestByVol locs" "[]" "opened s"] by (auto simp: ids_def)
    let ?s1 = "(opened s)\<lparr>exchanges := exchanges (opened s) @ new\<rparr>"
    let ?t = "(locationsT s)\<lparr>trows := map (\<lambda>r. if row_id r \<in> set ids then r\<lparr>sync_status := Synced\<rparr> else r) (trows (locationsT s))\<rparr>"
    have "syncLocations srv s = (Inr (), (opened ?s1)\<lparr>locationsT := ?t\<rparr>)"
      using False ne pend post
      by (simp add: syncLocations_def bindE_run markLocationsSynced_def getDB_seq voidE_run updateRows_def Let_def locationsD_def list_all_iff)
    moreover have "length (filter is_pending (trows ?t)) = length P - 50"
      using drop_ids [OF dist, where n = 50 and k = "\<lambda>r. lu_recorded_at (captured r)"]
      by (simp add: pending_marked ids P_def locs_def filter_filter conj_commute)
    ultimately show ?thesis by (simp add: P_def)
  qed
qed

text \<open>C31: once the backend is reachable, one pass empties the queues. If every request is accepted, \<open>syncAll\<close> on a
  device that is online leaves no door knock and no pledge pending and fifty location fixes fewer, ends in the idle
  state and forgets earlier failures.\<close>

theorem reachable_backend_drains:
  assumes "accepts srv" and "isOnline s" and "fresh_ids (locationsT s)"
  shows "\<exists>s'. syncAll toISO srv s = (Inr (), s') \<and> filter is_pending (trows (doorKnocksT s')) = [] \<and> filter is_pending (trows (pledgesT s')) = [] \<and>
    length (filter is_pending (trows (locationsT s'))) = length (filter is_pending (trows (locationsT s))) - 50 \<and>
    mgrState s' = Idle \<and> retryCount s' = 0 \<and> syncMetadata s' ''last_sync'' \<noteq> None"
proof -
  define s1 where "s1 = snd (setState SyncingNow s)"
  have s1: "setState SyncingNow s = (Inr (), s1)" "locationsT s1 = locationsT s" by (simp_all add: s1_def setState_run)
  obtain s2 where k: "syncDoorKnocks srv s1 = (Inr (), s2)"
    "doorKnocksT s2 = fold (\<lambda>k. marked (row_id k) Synced) (order_by (\<lambda>r. dk_recorded_at (captured r)) (filter is_pending (trows (doorKnocksT s1)))) (doorKnocksT s1)"
    "same_rest (opened s1) s2"
    using knock_loop [OF assms(1), of _ "opened s1"] by (fastforce simp: syncDoorKnocks_def bindE_run pending_knocks_run)
  obtain s3 where p: "syncPledges srv s2 = (Inr (), s3)"
    "pledgesT s3 = fold (\<lambda>p. marked (row_id p) Synced) (order_by (\<lambda>r. pl_recorded_at (captured r)) (filter is_pending (trows (pledgesT s2)))) (pledgesT s2)"
    "doorKnocksT s3 = doorKnocksT s2" "same_rest (opened s2) s3"
    using pledge_loop [OF assms(1), of _ "opened s2"] by (fastforce simp: syncPledges_def bindE_run pending_pledges_run)
  have loc: "locationsT s3 = locationsT s" using k(3) p(4) s1(2) by (simp add: same_rest_def)
  then obtain s4 where l: "syncLocations srv s3 = (Inr (), s4)" "doorKnocksT s4 = doorKnocksT s3" "pledgesT s4 = pledgesT s3"
    "length (filter is_pending (trows (locationsT s4))) = length (filter is_pending (trows (locationsT s))) - 50"
    using location_pass [OF assms(1), of s3] assms(3) by auto
  obtain s5 where o: "passOver toISO s4 = (Inr (), s5)" "mgrState s5 = Idle" "retryCount s5 = 0" "syncMetadata s5 ''last_sync'' \<noteq> None"
    "doorKnocksT s5 = doorKnocksT s4" "pledgesT s5 = pledgesT s4" "locationsT s5 = locationsT s4"
    by (simp add: passOver_def bindE_run seqE_run getE_run modifyE_run setState_run set_meta_run)
  have "syncAll toISO srv s = (Inr (), s5)"
    using assms(2) s1 k p l o by (simp add: syncAll_def syncBody_def catchE_def bindE_run getE_run seqE_run)
  moreover have "filter is_pending (trows (doorKnocksT s5)) = []" "filter is_pending (trows (pledgesT s5)) = []"
    using k(2) p(2,3) l(2,3) o(5,6) by (simp_all add: drained)
  ultimately show ?thesis using l(4) o by simp
qed

section \<open>A concrete device\<close>

text \<open>A phone that is online with one door knock to send, and a backend that accepts everything.\<close>

definition demo_knock :: doorKnock where
  "demo_knock = \<lparr>dk_volunteer_id = ''v1'', dk_contact_id = None, dk_latitude = (65, 1), dk_longitude = (34, 1), dk_outcome = ''home'',
     dk_notes = [], dk_speed_kmh = (0, 0), dk_recorded_at = ''2027''\<rparr>"

definition demo_canvasser :: syncDevice where
  "demo_canvasser = \<lparr>nowMs = 0, secureStore = Map.empty, randomBytes = (\<lambda>_. []), drawn = 0, dbOpen = True, legacyColumn = False,
     doorKnocksT = \<lparr>trows = [\<lparr>row_id = 1, captured = demo_knock, sync_status = PendingSync\<rparr>], nextId = 2\<rparr>,
     pledgesT = \<lparr>trows = [], nextId = 1\<rparr>, locationsT = \<lparr>trows = [], nextId = 1\<rparr>, cachedContactsT = [],
     conflictsT = \<lparr>trows = [], nextId = 1\<rparr>, syncMetadata = Map.empty, exchanges = [], mgrState = Idle, retryCount = 0, isOnline = True,
     intervalOn = False, retryTimers = [], passes = [], conflictNotices = [], stateNotices = []\<rparr>"

definition demo_yes :: gotvBackend where
  "demo_yes l q = Reply \<lparr>gr_status = 200, gr_isJson = False, gr_text = Some ''ok''\<rparr>"

definition demo_contact :: cachedContact where
  "demo_contact = \<lparr>cc_contact_id = ''c1'', cc_phone_masked = ''080***'', cc_full_name_masked = ''Adaeze Okonkwo'', cc_state_code = ''AN'',
     cc_lga_code = ''01'', cc_ward_code = ''1'', cc_voter_status = ''active'', cc_cached_at = ''2027''\<rparr>"

lemma demo_accepts: "accepts demo_yes"
  by (simp add: accepts_def demo_yes_def gr_ok_def)

text \<open>The manager is started and its pass takes three steps.\<close>

definition demo_later :: syncDevice where
  "demo_later = (advance (\<lambda>_. []) demo_yes 0 ^^ 3) (snd (startManager demo_canvasser))"

lemma run_passes: "canvass_run toISO srv s s' \<Longrightarrow> canvass_run toISO srv s ((advance toISO srv i ^^ n) s')"
  by (induction n) (auto intro: canvass_run.further [OF _ canvass_step.pass])

lemma demo_run: "canvass_run (\<lambda>_. []) demo_yes demo_canvasser demo_later"
  unfolding demo_later_def by (intro run_passes canvass_run.further [OF canvass_run.here canvass_step.start])

lemma demo_opened: "dbOpen s \<Longrightarrow> opened s = s"
  by (rule opened_open)

lemma demo_started: "snd (startManager demo_canvasser) =
    demo_canvasser\<lparr>intervalOn := True, mgrState := SyncingNow, passes := [KnocksStart], stateNotices := [(SyncingNow, 1)]\<rparr>"
  by (simp add: startManager_def beginSync_def bindE_run seqE_run getE_run modifyE_run setState_run demo_opened demo_canvasser_def is_pending_def)

lemma demo_synced: "map sync_status (trows (doorKnocksT demo_later)) = [Synced]"
  unfolding demo_later_def demo_started
  by (simp add: eval_nat_numeral advance_def resume_def bindE_run seqE_run returnE_run getE_run pending_knocks_run demo_opened demo_canvasser_def
      is_pending_def order_by_def rethrow_run postKnock_def getMobileToken_def send_run demo_yes_def settleKnock_def gr_ok_def mark_knock_run marked_def)





theorem reachable_backend_drains_witness:
  "\<exists>s'. syncAll (\<lambda>_. []) demo_yes demo_canvasser = (Inr (), s') \<and> filter is_pending (trows (doorKnocksT s')) = [] \<and> mgrState s' = Idle"
  using reachable_backend_drains [OF demo_accepts, of demo_canvasser "\<lambda>_. []"] by (auto simp: demo_canvasser_def fresh_ids_def)

end
