(* ===== verification/Uri_Text.thy ===== *)
theory Uri_Text
  imports Json_Text
begin

text \<open>
  \<open>encodeURIComponent\<close> and \<open>decodeURIComponent\<close>, on the characters up to 255 that HOL's strings have; \<open>None\<close> is a
  \<open>URIError\<close>, or a character the model does not have. What is encoded decodes to itself and has none of the characters that
  separate the parts of an address.
\<close>

definition unreserved :: "char \<Rightarrow> bool" where
  "unreserved c \<longleftrightarrow> is_digit c \<or> is_lower c \<or> is_upper c \<or> c \<in> set (''-_.!~*()'' @ [CHR 0x27])"

definition hex_upper :: "nat \<Rightarrow> char" where
  "hex_upper n = (if n < 10 then char_of (48 + n) else char_of (55 + n))"

definition percent_byte :: "nat \<Rightarrow> string" where
  "percent_byte b = [CHR ''%'', hex_upper (b div 16), hex_upper (b mod 16)]"

text \<open>The UTF-8 bytes of a character above 127 are two.\<close>

definition encode_char :: "char \<Rightarrow> string" where
  "encode_char c =
     (if unreserved c then [c]
      else if of_char c < (128 :: nat) then percent_byte (of_char c)
      else percent_byte (192 + of_char c div 64) @ percent_byte (128 + of_char c mod 64))"

definition encodeURIComponent :: "string \<Rightarrow> string" where
  "encodeURIComponent s = concat (map encode_char s)"

definition byte_val :: "char \<Rightarrow> char \<Rightarrow> nat option" where
  "byte_val a b = (case (hex_val a, hex_val b) of (Some x, Some y) \<Rightarrow> Some (x * 16 + y) | _ \<Rightarrow> None)"

fun decodeURIComponent :: "string \<Rightarrow> string option" where
  "decodeURIComponent [] = Some []"
| "decodeURIComponent (c # cs) =
     (if c \<noteq> CHR ''%'' then map_option ((#) c) (decodeURIComponent cs)
      else case cs of
        a # b # rest \<Rightarrow>
          (case byte_val a b of
             None \<Rightarrow> None
           | Some x \<Rightarrow>
               if x < 128 then map_option ((#) (char_of x)) (decodeURIComponent rest)
               else if x < 194 \<or> 195 < x then None
               else (case rest of
                       p # d # e # rest' \<Rightarrow>
                         (case byte_val d e of
                            None \<Rightarrow> None
                          | Some y \<Rightarrow>
                              if p = CHR ''%'' \<and> 128 \<le> y \<and> y < 192
                              then map_option ((#) (char_of ((x - 192) * 64 + (y - 128)))) (decodeURIComponent rest')
                              else None)
                     | _ \<Rightarrow> None))
      | _ \<Rightarrow> None)"

lemma hex_upper_val: "n < 16 \<Longrightarrow> hex_val (hex_upper n) = Some n"
  by (auto simp: hex_val_def hex_upper_def Let_def)

lemma byte_val_hex: "b < 256 \<Longrightarrow> byte_val (hex_upper (b div 16)) (hex_upper (b mod 16)) = Some b"
proof -
  assume "b < 256"
  then have "b div 16 < 16" by (simp add: less_mult_imp_div_less)
  then show ?thesis by (simp add: byte_val_def hex_upper_val)
qed

lemma unreserved_percent: "\<not> unreserved (CHR ''%'')"
  by (simp add: unreserved_def is_digit_def is_lower_def is_upper_def)

lemma decode_low: "b < 128 \<Longrightarrow> decodeURIComponent (percent_byte b @ t) = map_option ((#) (char_of b)) (decodeURIComponent t)"
  using byte_val_hex [of b] by (simp add: percent_byte_def)

lemma decode_high:
  assumes "128 \<le> b" and "b < 256"
  shows "decodeURIComponent (percent_byte (192 + b div 64) @ percent_byte (128 + b mod 64) @ t) = map_option ((#) (char_of b)) (decodeURIComponent t)"
proof -
  have q: "2 \<le> b div 64" "b div 64 < 4" using assms by (simp_all add: less_mult_imp_div_less)
  have r: "b mod 64 < 64" by simp
  have "byte_val (hex_upper ((192 + b div 64) div 16)) (hex_upper ((192 + b div 64) mod 16)) = Some (192 + b div 64)"
    "byte_val (hex_upper ((128 + b mod 64) div 16)) (hex_upper ((128 + b mod 64) mod 16)) = Some (128 + b mod 64)"
    using q r by (intro byte_val_hex; linarith)+
  moreover have "b div 64 * 64 + b mod 64 = b" by simp
  ultimately show ?thesis using q r by (simp add: percent_byte_def mult.commute)
qed

lemma decode_char: "decodeURIComponent (encode_char c @ t) = map_option ((#) c) (decodeURIComponent t)"
proof (cases "unreserved c")
  case True
  then have "c \<noteq> CHR ''%''" using unreserved_percent by blast
  with True show ?thesis by (simp add: encode_char_def)
next
  case False
  then show ?thesis
    using decode_low [of "of_char c" t] decode_high [of "of_char c" t]
    by (cases "of_char c < (128 :: nat)") (simp_all add: encode_char_def)
qed

lemma decode_encode_append: "decodeURIComponent (encodeURIComponent s @ t) = map_option ((@) s) (decodeURIComponent t)"
  by (induction s) (simp_all add: encodeURIComponent_def decode_char option.map_comp comp_def option.map_ident del: decodeURIComponent.simps(2))

lemma decode_encode: "decodeURIComponent (encodeURIComponent s) = Some s"
  using decode_encode_append [of s "[]"] by simp

lemma hex_upper_safe: "n < 16 \<Longrightarrow> is_digit (hex_upper n) \<or> is_upper (hex_upper n)"
  by (auto simp: hex_upper_def is_digit_def is_upper_def)

lemma percent_byte_safe: "b < 256 \<Longrightarrow> c \<in> set (percent_byte b) \<Longrightarrow> unreserved c \<or> c = CHR ''%''"
  using hex_upper_safe [of "b div 16"] hex_upper_safe [of "b mod 16"]
  by (auto simp: percent_byte_def unreserved_def less_mult_imp_div_less)

lemma encode_char_safe: "c \<in> set (encode_char d) \<Longrightarrow> unreserved c \<or> c = CHR ''%''"
proof -
  have "of_char d < (256 :: nat)" by simp
  then have b: "of_char d < (256 :: nat)" "192 + of_char d div 64 < (256 :: nat)" "128 + of_char d mod 64 < (256 :: nat)" by linarith+
  then show "c \<in> set (encode_char d) \<Longrightarrow> ?thesis"
    using percent_byte_safe [OF b(1), of c] percent_byte_safe [OF b(2), of c] percent_byte_safe [OF b(3), of c]
    by (auto simp: encode_char_def split: if_splits)
qed

lemma encode_safe: "c \<in> set (encodeURIComponent s) \<Longrightarrow> unreserved c \<or> c = CHR ''%''"
  using encode_char_safe by (auto simp: encodeURIComponent_def)

lemma encode_no_separator: "c \<in> {CHR ''&'', CHR ''?'', CHR ''='', CHR ''#'', CHR ''/'', CHR '' ''} \<Longrightarrow> c \<notin> set (encodeURIComponent s)"
  using encode_safe [of c s] by (auto simp: unreserved_def is_digit_def is_lower_def is_upper_def)

lemma encode_nonempty: "encodeURIComponent s = [] \<longleftrightarrow> s = []"
  by (cases s) (auto simp: encodeURIComponent_def encode_char_def percent_byte_def)

end
