(* ===== verification/Offline_Outbox.thy ===== *)
theory Offline_Outbox
  imports Mobile_Session Uri_Text
begin

text \<open>
  The offline outbox of the observers' phone application (\<open>src/inec-mobile/src/lib/outbox.ts\<close> and
  \<open>offline.ts\<close>): observer reports with photo evidence, check-ins and captured results are queued in
  SQLite and drained when the phone is online. A table is a list of rows with its sequence, as for
  the server; ISO time stamps are the instants they denote and the file store maps a URI to the
  base64 text of a file (\<open>Some None\<close> is a file that cannot be read). The digest is a parameter.
\<close>

section \<open>Decisions on outcomes\<close>

datatype outboxActionType = MarkSynced | MarkDuplicate | MarkFailed | MarkConflict

record outboxAction =
  oa_index :: int
  oa_action :: outboxActionType
  oa_error :: "json option"

definition item_index :: "json \<Rightarrow> int option" where
  "item_index item = (case field ''index'' item of Some (JNum (i, k)) \<Rightarrow> if k = 0 then Some i else None | _ \<Rightarrow> None)"

text \<open>\<open>v ?? d\<close> on a JSON value: \<open>null\<close> counts as missing.\<close>

definition or_default :: "json option \<Rightarrow> json \<Rightarrow> json" where
  "or_default v d = (case v of None \<Rightarrow> d | Some JNull \<Rightarrow> d | Some x \<Rightarrow> x)"

definition item_action :: "int \<Rightarrow> json \<Rightarrow> outboxAction" where
  "item_action i item =
     (let status = field ''status'' item; err = field ''error'' item in
      if status = Some (JStr ''queued'') then \<lparr>oa_index = i, oa_action = MarkSynced, oa_error = None\<rparr>
      else if status = Some (JStr ''duplicate'') then \<lparr>oa_index = i, oa_action = MarkDuplicate, oa_error = None\<rparr>
      else if status = Some (JStr ''conflict'') then \<lparr>oa_index = i, oa_action = MarkConflict, oa_error = err\<rparr>
      else \<lparr>oa_index = i, oa_action = MarkFailed, oa_error = Some (or_default err (JStr ''rejected''))\<rparr>)"

fun outcome_loop :: "json list \<Rightarrow> int \<Rightarrow> int list \<Rightarrow> outboxAction list" where
  "outcome_loop [] batchSize seen = []"
| "outcome_loop (item # items) batchSize seen =
     (case item_index item of
        None \<Rightarrow> outcome_loop items batchSize seen
      | Some i \<Rightarrow>
          if i < 0 \<or> i \<ge> batchSize \<or> i \<in> set seen then outcome_loop items batchSize seen
          else item_action i item # outcome_loop items batchSize (i # seen))"

definition mapItemOutcomes :: "json option \<Rightarrow> int \<Rightarrow> outboxAction list" where
  "mapItemOutcomes items batchSize =
     (case items of Some (JArr vs) \<Rightarrow> if batchSize \<le> 0 then [] else outcome_loop vs batchSize [] | _ \<Rightarrow> [])"

record retryState =
  rt_attempts :: int
  rt_exhausted :: bool

definition nextRetryState :: "int \<Rightarrow> int \<Rightarrow> retryState" where
  "nextRetryState currentAttempts maxAttempts =
     (let n = max 0 currentAttempts + 1 in \<lparr>rt_attempts = n, rt_exhausted = n \<ge> maxAttempts\<rparr>)"

definition shouldAttempt :: "int option \<Rightarrow> int \<Rightarrow> bool" where
  "shouldAttempt n maxAttempts \<longleftrightarrow> nullish n 0 < maxAttempts"

definition MAX_ATTEMPTS :: int where "MAX_ATTEMPTS = 10"

section \<open>The device database\<close>

text \<open>The columns the three queues share.\<close>

record queued = row +
  q_createdAt :: time
  q_attempts :: int
  q_lastError :: "string option"
  q_synced :: int

record pendingReport = queued +
  pr_pollingUnitCode :: string
  pr_electionId :: int
  pr_reportType :: string
  pr_photoUri :: "string option"
  pr_photoSha256 :: "string option"
  pr_description :: string
  pr_latitude :: decimal
  pr_longitude :: decimal

record pendingCheckin = queued +
  pc_pollingUnitCode :: string
  pc_latitude :: decimal
  pc_longitude :: decimal

record pendingResult = queued +
  pq_electionId :: int
  pq_pollingUnitCode :: string
  pq_partyScores :: string
  pq_accreditedVoters :: int
  pq_rejectedVotes :: int
  pq_latitude :: "decimal option"
  pq_longitude :: "decimal option"
  pq_idempotencyKey :: string

record conflictEntry = row +
  cl_tableName :: string
  cl_localId :: int
  cl_localTimestamp :: "time option"
  cl_resolution :: string
  cl_details :: string
  cl_resolvedAt :: time

record device = phone +
  online :: bool
  dbReady :: bool
  pendingReportsT :: "pendingReport table"
  pendingCheckinsT :: "pendingCheckin table"
  pendingResultsT :: "pendingResult table"
  conflictLogT :: "conflictEntry table"
  unitCache :: "(string \<times> string \<times> string) list" \<comment> \<open>code, state and JSON text of a polling unit\<close>
  electionCache :: "(string \<times> string) list"
  documentDirectory :: string
  fileStore :: "string \<rightharpoonup> string option"
  diskWritable :: bool

definition pendingReportsD :: "(device, pendingReport) tbl" where
  "pendingReportsD = \<lparr>tget = pendingReportsT, tput = (\<lambda>t s. s\<lparr>pendingReportsT := t\<rparr>), tchk = (\<lambda>_ _. True), tclash = (\<lambda>_ _. False), tfree = (\<lambda>_ _. True)\<rparr>"

definition pendingCheckinsD :: "(device, pendingCheckin) tbl" where
  "pendingCheckinsD = \<lparr>tget = pendingCheckinsT, tput = (\<lambda>t s. s\<lparr>pendingCheckinsT := t\<rparr>), tchk = (\<lambda>_ _. True), tclash = (\<lambda>_ _. False), tfree = (\<lambda>_ _. True)\<rparr>"

definition pendingResultsD :: "(device, pendingResult) tbl" where
  "pendingResultsD = \<lparr>tget = pendingResultsT, tput = (\<lambda>t s. s\<lparr>pendingResultsT := t\<rparr>), tchk = (\<lambda>_ _. True),
     tclash = (\<lambda>x r. pq_idempotencyKey x = pq_idempotencyKey r), tfree = (\<lambda>_ _. True)\<rparr>"

definition conflictLogD :: "(device, conflictEntry) tbl" where
  "conflictLogD = \<lparr>tget = conflictLogT, tput = (\<lambda>t s. s\<lparr>conflictLogT := t\<rparr>), tchk = (\<lambda>_ _. True), tclash = (\<lambda>_ _. False), tfree = (\<lambda>_ _. True)\<rparr>"

lemmas device_tables = pendingReportsD_def pendingCheckinsD_def pendingResultsD_def conflictLogD_def

interpretation reports: table_lens pendingReportsD
  by unfold_locales (simp_all add: device_tables)

interpretation checkins: table_lens pendingCheckinsD
  by unfold_locales (simp_all add: device_tables)

interpretation results: table_lens pendingResultsD
  by unfold_locales (simp_all add: device_tables)

interpretation conflicts: table_lens conflictLogD
  by unfold_locales (simp_all add: device_tables)

text \<open>Opening the database parks the reports an older build queued without an election.\<close>

definition getDb :: "(device, unit) proc" where
  "getDb =
     bindE (getE dbReady) (\<lambda>ready.
     if ready then returnE ()
     else seqE (modifyE (\<lambda>s. s\<lparr>dbReady := True\<rparr>))
       (voidE (updateRows pendingReportsD (\<lambda>r. pr_electionId r \<le> 0 \<and> q_synced r = 0)
          (\<lambda>r. r\<lparr>q_synced := 2, q_lastError := Some ''parked: queued without election_id by pre-fix build''\<rparr>))))"

section \<open>Photo evidence\<close>

definition photo_dir :: "device \<Rightarrow> string" where
  "photo_dir s = documentDirectory s @ ''ec8a/''"

definition persistCapturedPhoto :: "(string \<Rightarrow> string) \<Rightarrow> string \<Rightarrow> (device, (string \<times> string) option) proc" where
  "persistCapturedPhoto digest cacheUri s =
     (case fileStore s cacheUri of
        Some (Some base64) \<Rightarrow>
          (if diskWritable s
           then let sha256 = digest base64; dest = photo_dir s @ sha256 @ ''.jpg''
                in (Inr (Some (dest, sha256)), s\<lparr>fileStore := (fileStore s)(dest \<mapsto> Some base64)\<rparr>)
           else (Inr None, s))
      | _ \<Rightarrow> (Inr None, s))"

definition verifyQueuedPhoto :: "(string \<Rightarrow> string) \<Rightarrow> string \<Rightarrow> string option \<Rightarrow> device \<Rightarrow> string option" where
  "verifyQueuedPhoto digest uri expectedSha256 s =
     (case fileStore s uri of
        None \<Rightarrow> Some ''photo file missing (evicted from device storage)''
      | Some content \<Rightarrow>
          if \<not> truthy_str expectedSha256 then None
          else (case content of
                  None \<Rightarrow> Some ''photo unreadable''
                | Some base64 \<Rightarrow>
                    if Some (digest base64) \<noteq> expectedSha256 then Some ''photo hash mismatch (file changed after capture)'' else None))"

section \<open>Queueing\<close>

record reportInput =
  ri_pollingUnitCode :: string
  ri_electionId :: int
  ri_reportType :: "string option"
  ri_photoUri :: "string option"
  ri_photoSha256 :: "string option"
  ri_description :: string
  ri_latitude :: decimal
  ri_longitude :: decimal

definition queueReport :: "reportInput \<Rightarrow> (device, int) proc" where
  "queueReport d =
     seqE (guardE (ri_electionId d > 0) (PlainError ''queueReport: a resolved election_id (> 0) is required''))
     (seqE getDb
     (bindE (getE correctedNowMs) (\<lambda>now.
      bindE (insertRow pendingReportsD None (\<lambda>i.
        \<lparr>row_id = i, q_createdAt = now, q_attempts = 0, q_lastError = None, q_synced = 0,
         pr_pollingUnitCode = ri_pollingUnitCode d, pr_electionId = ri_electionId d, pr_reportType = str_or (ri_reportType d) ''result_photo'',
         pr_photoUri = ri_photoUri d, pr_photoSha256 = ri_photoSha256 d, pr_description = ri_description d,
         pr_latitude = ri_latitude d, pr_longitude = ri_longitude d\<rparr>)) (\<lambda>r. returnE (row_id r)))))"

definition queueCheckIn :: "string \<Rightarrow> decimal \<Rightarrow> decimal \<Rightarrow> (device, int) proc" where
  "queueCheckIn pu lat lng =
     seqE getDb
     (bindE (getE correctedNowMs) (\<lambda>now.
      bindE (insertRow pendingCheckinsD None (\<lambda>i.
        \<lparr>row_id = i, q_createdAt = now, q_attempts = 0, q_lastError = None, q_synced = 0,
         pc_pollingUnitCode = pu, pc_latitude = lat, pc_longitude = lng\<rparr>)) (\<lambda>r. returnE (row_id r))))"

record resultInput =
  si_electionId :: int
  si_pollingUnitCode :: string
  si_partyScores :: "(string \<times> int) list"
  si_accreditedVoters :: int
  si_rejectedVotes :: int
  si_latitude :: "decimal option"
  si_longitude :: "decimal option"

definition scores_json :: "(string \<times> int) list \<Rightarrow> json" where
  "scores_json scores = JArr (map (\<lambda>(party, votes). JObj [(''party_code'', JStr party), (''votes'', JNum (votes, 0))]) scores)"

definition new_pending_result :: "string \<Rightarrow> resultInput \<Rightarrow> time \<Rightarrow> int \<Rightarrow> pendingResult" where
  "new_pending_result uuid d now i =
     \<lparr>row_id = i, q_createdAt = now, q_attempts = 0, q_lastError = None, q_synced = 0,
      pq_electionId = si_electionId d, pq_pollingUnitCode = si_pollingUnitCode d,
      pq_partyScores = stringify (scores_json (si_partyScores d)), pq_accreditedVoters = si_accreditedVoters d,
      pq_rejectedVotes = si_rejectedVotes d, pq_latitude = si_latitude d, pq_longitude = si_longitude d,
      pq_idempotencyKey = uuid\<rparr>"

text \<open>\<open>uuid\<close> is the drawn idempotency key.\<close>

definition queueResult :: "string \<Rightarrow> resultInput \<Rightarrow> (device, int) proc" where
  "queueResult uuid d =
     seqE (guardE (si_electionId d > 0) (PlainError ''queueResult: a resolved election_id (> 0) is required''))
     (seqE (guardE (si_partyScores d \<noteq> []) (PlainError ''queueResult: at least one party score is required''))
     (seqE getDb
     (bindE (getE correctedNowMs) (\<lambda>now.
      bindE (insertRow pendingResultsD None (new_pending_result uuid d now)) (\<lambda>r. returnE (row_id r))))))"

definition getPendingReports :: "(device, pendingReport list) proc" where
  "getPendingReports = seqE getDb (bindE (selectRows pendingReportsD (\<lambda>r. q_synced r = 0)) (\<lambda>rows. returnE (order_desc q_createdAt rows)))"

definition getPendingReportCount :: "(device, nat) proc" where
  "getPendingReportCount = seqE getDb (bindE (selectRows pendingReportsD (\<lambda>r. q_synced r = 0)) (\<lambda>rows. returnE (length rows)))"

definition getPendingResults :: "(device, pendingResult list) proc" where
  "getPendingResults = seqE getDb (bindE (selectRows pendingResultsD (\<lambda>r. q_synced r = 0)) (\<lambda>rows. returnE (order_by q_createdAt rows)))"

definition getPendingResultCount :: "(device, nat) proc" where
  "getPendingResultCount = seqE getDb (bindE (selectRows pendingResultsD (\<lambda>r. q_synced r = 0)) (\<lambda>rows. returnE (length rows)))"

section \<open>Draining check-ins and reports\<close>

definition recordFailure :: "(device, 'z queued_scheme) tbl \<Rightarrow> int \<Rightarrow> int \<Rightarrow> string \<Rightarrow> (device, unit) proc" where
  "recordFailure D i currentAttempts message =
     (let retry = nextRetryState currentAttempts MAX_ATTEMPTS
      in voidE (updateRows D (\<lambda>r. row_id r = i)
           (\<lambda>r. r\<lparr>q_attempts := rt_attempts retry,
                   q_lastError := Some (if rt_exhausted retry then ''EXHAUSTED: '' @ message else message)\<rparr>)))"

text \<open>\<open>String(e)\<close>.\<close>

fun error_string :: "error \<Rightarrow> string" where
  "error_string (PlainError m) = ''Error: '' @ m"
| "error_string (OtherError t) = t"
| "error_string (TRPC _ m) = ''TRPCError: '' @ m"
| "error_string (PgError _) = ''error''"

datatype drainOutcome = Synced | Duplicate | Conflict | Failed | Skipped

text \<open>A loop that collects what became of each item.\<close>

primrec traverseE :: "('a \<Rightarrow> ('s, 'b) proc) \<Rightarrow> 'a list \<Rightarrow> ('s, 'b list) proc" where
  "traverseE f [] = returnE []"
| "traverseE f (x # xs) = bindE (f x) (\<lambda>y. bindE (traverseE f xs) (\<lambda>ys. returnE (y # ys)))"

definition mark_synced :: "(device, 'z queued_scheme) tbl \<Rightarrow> int \<Rightarrow> (device, unit) proc" where
  "mark_synced D i = voidE (updateRows D (\<lambda>r. row_id r = i) (\<lambda>r. r\<lparr>q_synced := 1\<rparr>))"

definition syncCheckin :: "backend \<Rightarrow> pendingCheckin \<Rightarrow> (device, drainOutcome) proc" where
  "syncCheckin srv c =
     (if \<not> shouldAttempt (Some (q_attempts c)) MAX_ATTEMPTS then returnE Skipped
      else catchE
        (seqE (api srv ''/observer/check-in'' ''POST''
           (JsonBody (JObj [(''polling_unit_code'', JStr (pc_pollingUnitCode c)), (''latitude'', JNum (pc_latitude c)), (''longitude'', JNum (pc_longitude c))])))
         (seqE (mark_synced pendingCheckinsD (row_id c)) (returnE Synced)))
        (\<lambda>e. seqE (recordFailure pendingCheckinsD (row_id c) (q_attempts c) (error_string e)) (returnE Failed)))"

definition report_form :: "pendingReport \<Rightarrow> (string \<times> string) list" where
  "report_form r =
     [(''polling_unit_code'', pr_pollingUnitCode r), (''election_id'', show_int (pr_electionId r)),
      (''report_type'', str_or (Some (pr_reportType r)) ''result_photo''), (''description'', pr_description r)] @
     (if truthy_str (pr_photoUri r) then [(''photo'', nullish (pr_photoUri r) [])] else [])"

definition syncReport :: "(string \<Rightarrow> string) \<Rightarrow> backend \<Rightarrow> pendingReport \<Rightarrow> (device, drainOutcome) proc" where
  "syncReport digest srv r =
     (if \<not> shouldAttempt (Some (q_attempts r)) MAX_ATTEMPTS then returnE Skipped
      else if pr_electionId r \<le> 0
      then seqE (updateRows pendingReportsD (\<lambda>x. row_id x = row_id r) (\<lambda>x. x\<lparr>q_synced := 2, q_lastError := Some ''parked: missing election_id''\<rparr>))
             (returnE Skipped)
      else catchE
        (bindE (getE (verifyQueuedPhoto digest (nullish (pr_photoUri r) []) (pr_photoSha256 r))) (\<lambda>photoError.
         if truthy_str (pr_photoUri r) \<and> truthy_str photoError
         then seqE (recordFailure pendingReportsD (row_id r) (q_attempts r) (nullish photoError [])) (returnE Failed)
         else seqE (api srv ''/observer/reports'' ''POST'' (FormBody (report_form r)))
                (seqE (mark_synced pendingReportsD (row_id r)) (returnE Synced))))
        (\<lambda>e. seqE (recordFailure pendingReportsD (row_id r) (q_attempts r) (error_string e)) (returnE Failed)))"

record syncSummary =
  ss_reports :: nat
  ss_checkins :: nat
  ss_reportFailures :: nat
  ss_checkinFailures :: nat

definition tally :: "drainOutcome \<Rightarrow> drainOutcome list \<Rightarrow> nat" where
  "tally x ys = length (filter (\<lambda>y. y = x) ys)"

definition syncPendingData :: "(string \<Rightarrow> string) \<Rightarrow> backend \<Rightarrow> (device, syncSummary) proc" where
  "syncPendingData digest srv =
     bindE (getE online) (\<lambda>connected.
     bindE (getE accessToken) (\<lambda>token.
     if \<not> connected \<or> \<not> truthy_str token
     then returnE \<lparr>ss_reports = 0, ss_checkins = 0, ss_reportFailures = 0, ss_checkinFailures = 0\<rparr>
     else seqE getDb
       (bindE (selectRows pendingCheckinsD (\<lambda>r. q_synced r = 0)) (\<lambda>cs.
        bindE (traverseE (syncCheckin srv) (order_by q_createdAt cs)) (\<lambda>co.
        bindE (selectRows pendingReportsD (\<lambda>r. q_synced r = 0)) (\<lambda>rs.
        bindE (traverseE (syncReport digest srv) (order_by q_createdAt rs)) (\<lambda>ro.
        returnE \<lparr>ss_reports = tally Synced ro, ss_checkins = tally Synced co,
          ss_reportFailures = tally Failed ro, ss_checkinFailures = tally Failed co\<rparr>)))))))"

section \<open>Draining captured results\<close>

definition device_path :: "int \<Rightarrow> string \<Rightarrow> string" where
  "device_path electionId puCode =
     ''/bvas/devices?election_id='' @ show_int electionId @ ''&polling_unit_code='' @ encodeURIComponent puCode @ ''&limit=1''"

definition first_device :: "apiValue \<Rightarrow> string option" where
  "first_device v =
     (case v of
        JsonValue (JArr (d # _)) \<Rightarrow>
          (case field ''id'' d of None \<Rightarrow> None | Some JNull \<Rightarrow> None | Some i \<Rightarrow> Some (js_string i))
      | _ \<Rightarrow> None)"

definition resolveSyncDeviceId :: "backend \<Rightarrow> int \<Rightarrow> string \<Rightarrow> (device, string option) proc" where
  "resolveSyncDeviceId srv electionId puCode =
     catchE (bindE (api srv (device_path electionId puCode) ''GET'' NoBody) (\<lambda>v. returnE (first_device v)))
       (\<lambda>_. returnE None)"

definition parkConflict :: "pendingResult \<Rightarrow> json option \<Rightarrow> (device, unit) proc" where
  "parkConflict r err =
     seqE (updateRows pendingResultsD (\<lambda>x. row_id x = row_id r)
         (\<lambda>x. x\<lparr>q_synced := 2, q_lastError := Some (''conflict: '' @ js_string (or_default err (JStr ''server has a newer version'')))\<rparr>))
     (bindE (getE deviceClock) (\<lambda>now.
      voidE (insertRow conflictLogD None (\<lambda>i.
        \<lparr>row_id = i, cl_tableName = ''pending_results'', cl_localId = row_id r, cl_localTimestamp = Some (q_createdAt r),
         cl_resolution = ''pending_review'',
         cl_details = ''PU '' @ pq_pollingUnitCode r @ '', election '' @ show_int (pq_electionId r) @
           (if truthy_json err then '' - '' @ js_string (the err) else []),
         cl_resolvedAt = now div 1000\<rparr>))))"

definition opt_num :: "decimal option \<Rightarrow> json" where
  "opt_num d = (case d of None \<Rightarrow> JNull | Some x \<Rightarrow> JNum x)"

definition result_fields :: "pendingResult \<Rightarrow> json \<Rightarrow> (string \<times> json) list" where
  "result_fields r scores =
     [(''election_id'', JNum (pq_electionId r, 0)), (''polling_unit_code'', JStr (pq_pollingUnitCode r)), (''party_scores'', scores),
      (''accredited_voters'', JNum (pq_accreditedVoters r, 0)), (''rejected_votes'', JNum (pq_rejectedVotes r, 0)),
      (''device_lat'', opt_num (pq_latitude r)), (''device_lng'', opt_num (pq_longitude r))]"

definition scoresOf :: "pendingResult \<Rightarrow> (device, json) proc" where
  "scoresOf r =
     (case jsonParse (pq_partyScores r) of
        None \<Rightarrow> throwE (OtherError ''SyntaxError: JSON Parse error'')
      | Some v \<Rightarrow> returnE v)"

text \<open>\<open>toISO\<close> prints an instant as \<open>toISOString\<close> does.\<close>

definition batchItem :: "(time \<Rightarrow> string) \<Rightarrow> pendingResult \<Rightarrow> (device, json) proc" where
  "batchItem toISO r =
     bindE (scoresOf r) (\<lambda>scores.
     returnE (JObj [(''payload'', JObj (result_fields r scores)), (''timestamp'', JStr (toISO (q_createdAt r))),
                    (''idempotency_key'', JStr (pq_idempotencyKey r))]))"

definition mark_duplicate :: "int \<Rightarrow> (device, unit) proc" where
  "mark_duplicate i =
     voidE (updateRows pendingResultsD (\<lambda>r. row_id r = i) (\<lambda>r. r\<lparr>q_synced := 1, q_lastError := Some ''duplicate (already on server)''\<rparr>))"

definition applyAction :: "pendingResult list \<Rightarrow> outboxAction \<Rightarrow> (device, drainOutcome) proc" where
  "applyAction batch a =
     (let r = batch ! nat (oa_index a) in
      case oa_action a of
        MarkSynced \<Rightarrow> seqE (mark_synced pendingResultsD (row_id r)) (returnE Synced)
      | MarkDuplicate \<Rightarrow> seqE (mark_duplicate (row_id r)) (returnE Duplicate)
      | MarkConflict \<Rightarrow> seqE (parkConflict r (oa_error a)) (returnE Conflict)
      | MarkFailed \<Rightarrow>
          seqE (recordFailure pendingResultsD (row_id r) (q_attempts r) (js_string (or_default (oa_error a) (JStr ''rejected'')))) (returnE Failed))"

text \<open>\<open>resp.items\<close> throws on a \<open>null\<close> body.\<close>

definition prop_of :: "string \<Rightarrow> apiValue \<Rightarrow> (device, json option) proc" where
  "prop_of k v = (if v = JsonValue JNull then throwE (OtherError ''TypeError: Cannot read property of null'') else returnE (api_field k v))"

definition submitBatch :: "(time \<Rightarrow> string) \<Rightarrow> backend \<Rightarrow> string \<Rightarrow> pendingResult list \<Rightarrow> (device, drainOutcome list) proc" where
  "submitBatch toISO srv deviceId batch =
     bindE (traverseE (batchItem toISO) batch) (\<lambda>items.
     bindE (api srv ''/ingestion/offline-sync'' ''POST''
         (JsonBody (JObj [(''device_id'', JStr deviceId), (''sync_type'', JStr ''result''), (''items'', JArr items)]))) (\<lambda>resp.
     bindE (prop_of ''items'' resp) (\<lambda>outcomes.
     traverseE (applyAction batch) (mapItemOutcomes outcomes (int (length batch))))))"

definition submitOne :: "backend \<Rightarrow> pendingResult \<Rightarrow> (device, drainOutcome) proc" where
  "submitOne srv r =
     catchE
       (bindE (scoresOf r) (\<lambda>scores.
        bindE (api srv ''/results/submit'' ''POST''
            (JsonBody (JObj (result_fields r scores @ [(''idempotency_key'', JStr (pq_idempotencyKey r))])))) (\<lambda>resp.
        bindE (prop_of ''duplicate'' resp) (\<lambda>duplicate.
        if truthy_json duplicate
        then seqE (mark_duplicate (row_id r)) (returnE Duplicate)
        else seqE (mark_synced pendingResultsD (row_id r)) (returnE Synced)))))
       (\<lambda>e. let message = error_string e in
            if starts_with message ''Error: 409''
            then seqE (parkConflict r (Some (JStr message))) (returnE Conflict)
            else seqE (recordFailure pendingResultsD (row_id r) (q_attempts r) message) (returnE Failed))"

definition auth_error :: "string \<Rightarrow> bool" where
  "auth_error message \<longleftrightarrow> starts_with message ''Error: 401'' \<or> starts_with message ''Error: 403''"

definition failEach :: "string \<Rightarrow> pendingResult list \<Rightarrow> (device, drainOutcome list) proc" where
  "failEach message batch =
     traverseE (\<lambda>r. seqE (recordFailure pendingResultsD (row_id r) (q_attempts r) message) (returnE Failed)) batch"

definition syncGroup :: "(time \<Rightarrow> string) \<Rightarrow> backend \<Rightarrow> pendingResult list \<Rightarrow> (device, drainOutcome list) proc" where
  "syncGroup toISO srv batch =
     (case batch of
        [] \<Rightarrow> returnE []
      | first # _ \<Rightarrow>
          bindE (resolveSyncDeviceId srv (pq_electionId first) (pq_pollingUnitCode first)) (\<lambda>deviceId.
          if truthy_str deviceId
          then bindE (catchE (bindE (submitBatch toISO srv (the deviceId) batch) (\<lambda>os. returnE (Inr os))) (\<lambda>e. returnE (Inl (error_string e)))) (\<lambda>res.
               case res of
                 Inr os \<Rightarrow> returnE os
               | Inl message \<Rightarrow> if auth_error message then failEach message batch else traverseE (submitOne srv) batch)
          else traverseE (submitOne srv) batch))"

definition group_key :: "pendingResult \<Rightarrow> string" where
  "group_key r = show_int (pq_electionId r) @ '':'' @ pq_pollingUnitCode r"

fun add_to_group :: "pendingResult \<Rightarrow> (string \<times> pendingResult list) list \<Rightarrow> (string \<times> pendingResult list) list" where
  "add_to_group r [] = [(group_key r, [r])]"
| "add_to_group r ((k, rs) # gs) = (if k = group_key r then (k, rs @ [r]) # gs else (k, rs) # add_to_group r gs)"

definition result_groups :: "pendingResult list \<Rightarrow> pendingResult list list" where
  "result_groups rows = map snd (foldl (\<lambda>gs r. add_to_group r gs) [] rows)"

record resultSyncSummary =
  rs_synced :: nat
  rs_duplicates :: nat
  rs_conflicts :: nat
  rs_failed :: nat

definition syncPendingResults :: "(time \<Rightarrow> string) \<Rightarrow> backend \<Rightarrow> (device, resultSyncSummary) proc" where
  "syncPendingResults toISO srv =
     bindE (getE online) (\<lambda>connected.
     bindE (getE accessToken) (\<lambda>token.
     if \<not> connected \<or> \<not> truthy_str token
     then returnE \<lparr>rs_synced = 0, rs_duplicates = 0, rs_conflicts = 0, rs_failed = 0\<rparr>
     else bindE getPendingResults (\<lambda>pending.
       bindE (traverseE (syncGroup toISO srv) (result_groups (filter (\<lambda>r. shouldAttempt (Some (q_attempts r)) MAX_ATTEMPTS) pending))) (\<lambda>oss.
       let os = concat oss
       in returnE \<lparr>rs_synced = tally Synced os, rs_duplicates = tally Duplicate os, rs_conflicts = tally Conflict os, rs_failed = tally Failed os\<rparr>))))"

section \<open>Caches and history\<close>

record unitInfo =
  ui_puCode :: string
  ui_name :: string
  ui_state :: string
  ui_lga :: string
  ui_ward :: string
  ui_latitude :: decimal
  ui_longitude :: decimal

definition unit_json :: "unitInfo \<Rightarrow> json" where
  "unit_json u =
     JObj [(''pu_code'', JStr (ui_puCode u)), (''name'', JStr (ui_name u)), (''state'', JStr (ui_state u)), (''lga'', JStr (ui_lga u)),
           (''ward'', JStr (ui_ward u)), (''latitude'', JNum (ui_latitude u)), (''longitude'', JNum (ui_longitude u))]"

definition cache_unit :: "unitInfo \<Rightarrow> (device, unit) proc" where
  "cache_unit u =
     modifyE (\<lambda>s. s\<lparr>unitCache := filter (\<lambda>c. fst c \<noteq> ui_puCode u) (unitCache s) @ [(ui_puCode u, ui_state u, stringify (unit_json u))]\<rparr>)"

definition cachePollingUnits :: "unitInfo list \<Rightarrow> (device, nat) proc" where
  "cachePollingUnits units = seqE getDb (seqE (forE units cache_unit) (returnE (length units)))"

text \<open>Every stored text is parsed; a text that is not JSON makes the call throw.\<close>

definition parse_all :: "string list \<Rightarrow> (device, json list) proc" where
  "parse_all = traverseE (\<lambda>t. case jsonParse t of None \<Rightarrow> throwE (OtherError ''SyntaxError: JSON Parse error'') | Some v \<Rightarrow> returnE v)"

definition getCachedPollingUnits :: "string option \<Rightarrow> (device, json list) proc" where
  "getCachedPollingUnits state =
     seqE getDb
     (bindE (getE unitCache) (\<lambda>rows.
      parse_all (map (\<lambda>c. snd (snd c)) (sort_key fst (filter (\<lambda>c. \<not> truthy_str state \<or> Some (fst (snd c)) = state) rows)))))"

definition cacheElectionData :: "string \<Rightarrow> json \<Rightarrow> (device, unit) proc" where
  "cacheElectionData key data =
     seqE getDb (modifyE (\<lambda>s. s\<lparr>electionCache := filter (\<lambda>c. fst c \<noteq> key) (electionCache s) @ [(key, stringify data)]\<rparr>))"

definition getCachedElectionData :: "string \<Rightarrow> (device, json option) proc" where
  "getCachedElectionData key =
     seqE getDb
     (bindE (getE electionCache) (\<lambda>rows.
      case map_of rows key of
        None \<Rightarrow> returnE None
      | Some t \<Rightarrow> (case jsonParse t of None \<Rightarrow> throwE (OtherError ''SyntaxError: JSON Parse error'') | Some v \<Rightarrow> returnE (Some v))))"

definition getConflictHistory :: "(device, conflictEntry list) proc" where
  "getConflictHistory = seqE getDb (bindE (selectRows conflictLogD (\<lambda>_. True)) (\<lambda>rows. returnE (take 100 (order_desc cl_resolvedAt rows))))"

definition getTotalPendingCount :: "(device, nat \<times> nat \<times> nat \<times> nat) proc" where
  "getTotalPendingCount =
     seqE getDb
     (bindE (selectRows pendingReportsD (\<lambda>r. q_synced r = 0)) (\<lambda>rs.
      bindE (selectRows pendingCheckinsD (\<lambda>r. q_synced r = 0)) (\<lambda>cs.
      bindE (selectRows pendingResultsD (\<lambda>r. q_synced r = 0)) (\<lambda>qs.
      returnE (length rs, length cs, length qs, length rs + length cs + length qs)))))"

section \<open>Loops and calls\<close>

context transition_preorder
begin

lemma bindE_when:
  assumes "R s (snd (m s))" and "\<And>x s'. m s = (Inr x, s') \<Longrightarrow> R s' (snd (f x s'))"
  shows "R s (snd (bindE m f s))"
  using assms trans by (cases "m s"; cases "fst (m s)") (auto simp: bindE_run)

lemma traverseE: "(\<And>x. x \<in> set xs \<Longrightarrow> follows R (f x)) \<Longrightarrow> follows R (traverseE f xs)"
  by (induction xs) (auto intro: returnE bindE)

end

lemma traverse_preserves [preserves_intros]: "(\<And>x. x \<in> set xs \<Longrightarrow> preserves P (f x)) \<Longrightarrow> preserves P (traverseE f xs)"
  by (induction xs) (auto intro: preserves_intros)

text \<open>A call touches the fields of the phone only.\<close>

interpretation beyond: session_invariant "\<lambda>s. phone.more s = m"
  by unfold_locales simp_all

lemma beyond_refresh: "preserves (\<lambda>s. phone.more s = m) (refreshAccessToken srv)"
  unfolding refreshAccessToken_def
  by (intro preserves_intros preserves_case_refresh beyond.keeps_statements)
    (auto simp: clearToken_def notifyAuthExpired_def intro!: preserves_modifyE)

lemma api_more: "phone.more (snd (api srv path meth body s)) = phone.more s"
  using preservesD [OF beyond.keeps_api [OF beyond_refresh], of s "phone.more s" srv path meth body] by simp

lemma same_device_tables:
  assumes "phone.more s' = phone.more (s :: device)"
  shows "pendingReportsT s' = pendingReportsT s" "pendingCheckinsT s' = pendingCheckinsT s" "pendingResultsT s' = pendingResultsT s"
    "conflictLogT s' = conflictLogT s" "fileStore s' = fileStore s" "dbReady s' = dbReady s" "online s' = online s"
    "electionCache s' = electionCache s" "unitCache s' = unitCache s"
  using assms by (cases s; cases s'; simp)+

lemmas api_tables [simp] = same_device_tables [OF api_more]

text \<open>What a successful call has sent last, and that its answer was a success.\<close>

definition answered_ok :: "backend \<Rightarrow> httpRequest list \<Rightarrow> requestBody \<Rightarrow> bool" where
  "answered_ok srv l body \<longleftrightarrow>
     (\<exists>before q res. l = before @ [q] \<and> rq_body q = body \<and> srv before q = Answered res \<and> res_ok res)"

lemma observedRequest_Inr:
  assumes "observedRequest srv path meth body s = (Inr res, s')"
  shows "sent s' = sent s @ [phone_request s path meth body]" "srv (sent s) (phone_request s path meth body) = Answered res"
  using assms by (auto simp: observedRequest_run Let_def split: httpOutcome.splits)

lemma api_answered:
  assumes "api srv path meth body s = (Inr v, s')"
  shows "answered_ok srv (sent s') body"
proof -
  from assms obtain first s1 where first: "observedRequest srv path meth body s = (Inr first, s1)"
    by (auto simp: api_def elim!: bindE_InrE)
  have body: "rq_body (phone_request t path meth body) = body" for t :: "'z phone_scheme" by (simp add: phone_request_def)
  show ?thesis
  proof (cases "rs_status first = 401 \<and> \<not> isAuthEndpoint path \<and> fst (refreshAccessToken srv s1) = Inr True")
    case True
    then obtain s2 where "refreshAccessToken srv s1 = (Inr True, s2)" by (cases "refreshAccessToken srv s1") auto
    with assms True first obtain res s3 where again: "observedRequest srv path meth body s2 = (Inr res, s3)" and rest:
        "(if \<not> res_ok res then seqE (reportApiError path (rs_status res)) (throwE (PlainError (show_nat (rs_status res) @ '': '' @ rs_text res)))
          else read_body res) s3 = (Inr v, s')"
      by (auto simp: api_def bindE_run split: sum.splits prod.splits)
    then have ok: "res_ok res" by (auto simp: seqE_run reportApiError_def modifyE_run throwE_run split: if_splits)
    with rest have "s' = s3" using read_body_state [of res s3] by simp
    with observedRequest_Inr [OF again] ok body show ?thesis unfolding answered_ok_def by blast
  next
    case False
    then have "res_ok first"
      using assms first
      by (auto simp: api_def bindE_run seqE_run returnE_run reportApiError_def modifyE_run throwE_run res_ok_def split: sum.splits prod.splits if_splits)
    then have "rs_status first \<noteq> 401" by (auto simp: res_ok_def)
    with \<open>res_ok first\<close> assms first have "read_body first s1 = (Inr v, s')"
      by (simp add: api_def bindE_run returnE_run)
    then have "s' = s1" using read_body_state [of first s1] by simp
    with observedRequest_Inr [OF first] \<open>res_ok first\<close> body show ?thesis unfolding answered_ok_def by blast
  qed
qed

lemma refresh_bodies:
  "\<exists>new. sent (snd (refreshAccessToken srv s)) = sent s @ new \<and> (\<forall>q \<in> set new. \<exists>r. q = refresh_request r)"
  by (auto simp: refreshAccessToken_def catchE_def fetch_run run_simps setTokens_def clearToken_def notifyAuthExpired_def
      split: httpOutcome.split refreshParseResult.split)

text \<open>Every request of a call carries the call's body, a refresh apart.\<close>

lemma api_bodies:
  "\<exists>new. sent (snd (api srv path meth body s)) = sent s @ new \<and>
     (\<forall>q \<in> set new. (rq_body q = body \<and> rq_path q = path) \<or> (\<exists>r. q = refresh_request r))"
proof (cases "srv (sent s) (phone_request s path meth body)")
  case Unreachable
  then show ?thesis by (simp add: api_def bindE_run observedRequest_run Let_def phone_request_def)
next
  case (Answered first)
  define s1 where "s1 = sampled (rs_date first) (s\<lparr>sent := sent s @ [phone_request s path meth body]\<rparr>)"
  have s1: "observedRequest srv path meth body s = (Inr first, s1)" "sent s1 = sent s @ [phone_request s path meth body]"
    using Answered by (simp_all add: observedRequest_run Let_def s1_def)
  obtain new where new: "sent (snd (refreshAccessToken srv s1)) = sent s1 @ new" "\<forall>q \<in> set new. \<exists>r. q = refresh_request r"
    using refresh_bodies by blast
  have body: "rq_body (phone_request t path meth body) = body \<and> rq_path (phone_request t path meth body) = path" for t :: "'a phone_scheme"
    by (simp add: phone_request_def)
  show ?thesis
    using s1 new body
    by (auto simp: api_def bindE_run seqE_run reportApiError_def modifyE_run throwE_run returnE_run read_body_state observedRequest_run Let_def
        split: sum.split prod.split httpOutcome.split)
qed

section \<open>What becomes of a captured result\<close>

text \<open>The idempotency keys a request carries: of the submission itself, or of the items of a batch.\<close>

definition key_of :: "json \<Rightarrow> string option" where
  "key_of j = (case field ''idempotency_key'' j of Some (JStr k) \<Rightarrow> Some k | _ \<Rightarrow> None)"

definition carried :: "requestBody \<Rightarrow> string list" where
  "carried body =
     (case body of
        JsonBody j \<Rightarrow>
          (case field ''items'' j of
             Some (JArr items) \<Rightarrow> List.map_filter key_of items
           | _ \<Rightarrow> (case key_of j of Some k \<Rightarrow> [k] | None \<Rightarrow> []))
      | _ \<Rightarrow> [])"

text \<open>The backend answered a request that carried the key with success.\<close>

definition acknowledged :: "backend \<Rightarrow> httpRequest list \<Rightarrow> string \<Rightarrow> bool" where
  "acknowledged srv l k \<longleftrightarrow>
     (\<exists>before q after res. l = before @ q # after \<and> srv before q = Answered res \<and> res_ok res \<and> k \<in> set (carried (rq_body q)))"

lemma acknowledged_mono: "acknowledged srv l k \<Longrightarrow> acknowledged srv (l @ new) k"
  unfolding acknowledged_def by fastforce

lemma acknowledgedI: "answered_ok srv l body \<Longrightarrow> k \<in> set (carried body) \<Longrightarrow> acknowledged srv l k"
  unfolding answered_ok_def acknowledged_def by blast

text \<open>What a row was captured as: everything but its delivery state.\<close>

definition capture :: "pendingResult \<Rightarrow> pendingResult" where
  "capture r = r\<lparr>q_attempts := 0, q_lastError := None, q_synced := 0\<rparr>"

definition parked :: "device \<Rightarrow> int \<Rightarrow> bool" where
  "parked s i \<longleftrightarrow> (\<exists>e \<in> set (trows (conflictLogT s)). cl_tableName e = ''pending_results'' \<and> cl_localId e = i \<and> cl_resolution e = ''pending_review'')"

definition delivered :: "backend \<Rightarrow> device \<Rightarrow> pendingResult \<Rightarrow> pendingResult \<Rightarrow> bool" where
  "delivered srv s r r' \<longleftrightarrow>
     capture r' = capture r \<and>
     (q_synced r' = q_synced r \<or>
      q_synced r' = 1 \<and> acknowledged srv (sent s) (pq_idempotencyKey r) \<or>
      q_synced r' = 2 \<and> parked s (row_id r))"

definition results_kept :: "backend \<Rightarrow> device \<Rightarrow> device \<Rightarrow> bool" where
  "results_kept srv s s' \<longleftrightarrow>
     (\<exists>new. sent s' = sent s @ new) \<and> set (trows (conflictLogT s)) \<subseteq> set (trows (conflictLogT s')) \<and>
     list_all2 (delivered srv s') (trows (pendingResultsT s)) (trows (pendingResultsT s'))"

lemma capture_eqD:
  assumes "capture r' = capture r"
  shows "row_id r' = row_id r" "pq_idempotencyKey r' = pq_idempotencyKey r"
  using assms by (cases r; cases r'; simp add: capture_def)+

lemma capture_volatile [simp]:
  "capture (r\<lparr>q_synced := x\<rparr>) = capture r" "capture (r\<lparr>q_lastError := y\<rparr>) = capture r" "capture (r\<lparr>q_attempts := z\<rparr>) = capture r"
  by (simp_all add: capture_def)

lemma delivered_refl: "delivered srv s r r"
  by (simp add: delivered_def)

lemma delivered_trans:
  assumes "results_kept srv t u" and "delivered srv t r r'" and "delivered srv u r' r''"
  shows "delivered srv u r r''"
proof -
  have later: "acknowledged srv (sent t) k \<Longrightarrow> acknowledged srv (sent u) k" "parked t i \<Longrightarrow> parked u i" for k i
    using assms(1) by (auto simp: results_kept_def parked_def intro: acknowledged_mono)
  from assms(2,3) show ?thesis
    by (auto simp: delivered_def dest: capture_eqD later)
qed

lemma results_kept_trans:
  assumes "results_kept srv s t" and "results_kept srv t u"
  shows "results_kept srv s u"
proof -
  have "list_all2 (delivered srv t) (trows (pendingResultsT s)) (trows (pendingResultsT t))"
    and "list_all2 (delivered srv u) (trows (pendingResultsT t)) (trows (pendingResultsT u))"
    using assms by (simp_all add: results_kept_def)
  from list_all2_trans [OF delivered_trans [OF assms(2)] this]
  have "list_all2 (delivered srv u) (trows (pendingResultsT s)) (trows (pendingResultsT u))" .
  with assms show ?thesis by (auto simp: results_kept_def)
qed

lemma results_kept_refl: "results_kept srv s s"
  by (simp add: results_kept_def list_all2_refl delivered_refl)

text \<open>The sequence of the conflict log is ahead of its ids, and the rows of a batch still have in the
  queue the keys they were read with.\<close>

definition fresh_log :: "device \<Rightarrow> bool" where
  "fresh_log s \<longleftrightarrow> (\<forall>e \<in> set (trows (conflictLogT s)). row_id e < nextId (conflictLogT s))"

definition keyed :: "device \<Rightarrow> pendingResult \<Rightarrow> bool" where
  "keyed s r \<longleftrightarrow> (\<forall>x \<in> set (trows (pendingResultsT s)). row_id x = row_id r \<longrightarrow> pq_idempotencyKey x = pq_idempotencyKey r)"

definition ready :: "pendingResult list \<Rightarrow> device \<Rightarrow> bool" where
  "ready batch s \<longleftrightarrow> fresh_log s \<and> (\<forall>r \<in> set batch. keyed s r)"

definition drains :: "backend \<Rightarrow> pendingResult list \<Rightarrow> device \<Rightarrow> device \<Rightarrow> bool" where
  "drains srv batch s s' \<longleftrightarrow> (ready batch s \<longrightarrow> results_kept srv s s' \<and> fresh_log s')"

lemma list_all2_rightE: "list_all2 P xs ys \<Longrightarrow> y \<in> set ys \<Longrightarrow> \<exists>x \<in> set xs. P x y"
  by (induction rule: list_all2_induct) auto

lemma keyed_kept:
  assumes "results_kept srv s s'" and "keyed s r"
  shows "keyed s' r"
  unfolding keyed_def
proof (intro ballI impI)
  fix x assume x: "x \<in> set (trows (pendingResultsT s'))" "row_id x = row_id r"
  from assms(1) have "list_all2 (delivered srv s') (trows (pendingResultsT s)) (trows (pendingResultsT s'))" by (simp add: results_kept_def)
  from list_all2_rightE [OF this x(1)] obtain y where "y \<in> set (trows (pendingResultsT s))" "delivered srv s' y x" by blast
  then show "pq_idempotencyKey x = pq_idempotencyKey r"
    using capture_eqD [of x y] assms(2) x(2) by (auto simp: delivered_def keyed_def)
qed

lemma ready_kept: "results_kept srv s s' \<Longrightarrow> fresh_log s' \<Longrightarrow> ready batch s \<Longrightarrow> ready batch s'"
  by (auto simp: ready_def intro: keyed_kept)

interpretation kept: transition_preorder "drains srv batch"
  by unfold_locales (auto simp: drains_def ready_def [of _ s for s] intro: results_kept_refl results_kept_trans dest: ready_kept)

lemma drainsI: "(fresh_log s \<Longrightarrow> results_kept srv s s' \<and> fresh_log s') \<Longrightarrow> drains srv batch s s'"
  by (auto simp: drains_def ready_def)

lemma list_all2_mapI: "(\<And>r. r \<in> set rs \<Longrightarrow> P r (f r)) \<Longrightarrow> list_all2 P rs (map f rs)"
  by (induction rs) auto

text \<open>An update of the queue keeps the results if what it does to each row it hits is a delivery.\<close>

lemma kept_update:
  assumes "\<And>r. r \<in> set (trows (pendingResultsT s)) \<Longrightarrow> row_id r = i \<Longrightarrow> delivered srv s r (f r)"
  shows "drains srv batch s (snd (updateRows pendingResultsD (\<lambda>r. row_id r = i) f s))"
proof -
  have "snd (updateRows pendingResultsD (\<lambda>r. row_id r = i) f s) =
      s\<lparr>pendingResultsT := (pendingResultsT s)\<lparr>trows := map (\<lambda>r. if row_id r = i then f r else r) (trows (pendingResultsT s))\<rparr>\<rparr>"
    by (simp add: updateRows_def Let_def pendingResultsD_def list_all_iff)
  moreover have "delivered srv (s\<lparr>pendingResultsT := t\<rparr>) r r' \<longleftrightarrow> delivered srv s r r'" for t r r'
    by (simp add: delivered_def parked_def)
  ultimately show ?thesis
    using assms by (intro drainsI) (simp add: results_kept_def fresh_log_def list_all2_mapI delivered_refl)
qed

lemma kept_recordFailure: "follows (drains srv batch) (recordFailure pendingResultsD i n msg)"
  unfolding follows_def recordFailure_def Let_def
  by (intro allI kept.voidE_at kept_update) (simp add: delivered_def)

lemma kept_api: "follows (drains srv batch) (api srv' path meth body)"
proof -
  have "drains srv batch s (snd (api srv' path meth body s))" for s :: device
    using api_bodies [of srv' path meth body s] by (intro drainsI) (auto simp: results_kept_def fresh_log_def list_all2_refl delivered_refl)
  then show ?thesis by (simp add: follows_def)
qed

lemma kept_parkConflict: "follows (drains srv batch) (parkConflict r err)"
proof -
  have "drains srv batch s (snd (parkConflict r err s))" for s
  proof (rule drainsI)
    assume fresh: "fresh_log s"
    then have "\<not> list_ex (\<lambda>x. row_id x = nextId (conflictLogT s)) (trows (conflictLogT s))" by (auto simp: fresh_log_def list_ex_iff)
    with fresh show "results_kept srv s (snd (parkConflict r err s)) \<and> fresh_log (snd (parkConflict r err s))"
      by (auto simp: parkConflict_def run_simps updateRows_def insertRow_def Let_def device_tables list_all_iff results_kept_def
          delivered_def parked_def fresh_log_def intro!: list_all2_mapI)
  qed
  then show ?thesis by (simp add: follows_def)
qed

text \<open>Marking a row as synced needs its key to be acknowledged.\<close>

lemma kept_mark:
  assumes "r \<in> set batch" and "acknowledged srv (sent s) (pq_idempotencyKey r)"
  shows "drains srv batch s (snd (mark_synced pendingResultsD (row_id r) s))"
    and "drains srv batch s (snd (mark_duplicate (row_id r) s))"
proof -
  have "drains srv batch s (snd (voidE (updateRows pendingResultsD (\<lambda>x. row_id x = row_id r) f) s))"
    if "\<And>x. capture (f x) = capture x \<and> q_synced (f x) = 1" for f
  proof (cases "keyed s r")
    case True
    then show ?thesis using that assms(2) by (auto intro!: kept.voidE_at kept_update simp: delivered_def keyed_def)
  next
    case False
    then show ?thesis using assms(1) by (auto simp: drains_def ready_def)
  qed
  then show "drains srv batch s (snd (mark_synced pendingResultsD (row_id r) s))"
    and "drains srv batch s (snd (mark_duplicate (row_id r) s))"
    unfolding mark_synced_def mark_duplicate_def by simp_all
qed

lemma scoresOf_state: "snd (scoresOf r s) = s"
  by (simp add: scoresOf_def run_simps split: option.split)

lemma prop_of_state: "snd (prop_of k v s) = s"
  by (simp add: prop_of_def run_simps)

lemma kept_readers: "follows (drains srv batch) (scoresOf r)" "follows (drains srv batch) (prop_of k v)"
  by (simp_all add: follows_def scoresOf_state prop_of_state kept.refl)

lemma kept_after_api:
  assumes "\<And>v s'. answered_ok srv (sent s') body \<Longrightarrow> drains srv batch s' (snd (k v s'))"
  shows "follows (drains srv batch) (bindE (api srv path meth body) k)"
  unfolding follows_def
  by (intro allI kept.bindE_when) (auto intro: followsD [OF kept_api] assms dest: api_answered)

lemma carried_submission:
  "carried (JsonBody (JObj (result_fields r scores @ [(''idempotency_key'', JStr k)]))) = [k]"
  by (simp add: carried_def field_def key_of_def result_fields_def)

lemma kept_submitOne:
  assumes "r \<in> set batch"
  shows "follows (drains srv batch) (submitOne srv r)"
proof -
  have "drains srv batch s (snd (bindE (prop_of ''duplicate'' v) (\<lambda>duplicate.
        if truthy_json duplicate then seqE (mark_duplicate (row_id r)) (returnE Duplicate)
        else seqE (mark_synced pendingResultsD (row_id r)) (returnE Synced)) s))"
    if "answered_ok srv (sent s) (JsonBody (JObj (result_fields r scores @ [(''idempotency_key'', JStr (pq_idempotencyKey r))])))" for v s scores
  proof (rule kept.bindE_when)
    show "drains srv batch s (snd (prop_of ''duplicate'' v s))" by (rule followsD [OF kept_readers(2)])
    fix d s' assume "prop_of ''duplicate'' v s = (Inr d, s')"
    then have "s' = s" using prop_of_state [of "''duplicate''" v s] by simp
    moreover have "acknowledged srv (sent s) (pq_idempotencyKey r)" by (rule acknowledgedI [OF that]) (simp add: carried_submission)
    ultimately show "drains srv batch s' (snd ((if truthy_json d then seqE (mark_duplicate (row_id r)) (returnE Duplicate)
        else seqE (mark_synced pendingResultsD (row_id r)) (returnE Synced)) s'))"
      using kept_mark [OF assms] by (simp add: seqE_def kept.bindE_at kept.returnE)
  qed
  then show ?thesis
    unfolding submitOne_def Let_def
    by (intro kept.intros kept_readers kept_after_api kept_parkConflict kept_recordFailure)
qed

text \<open>A batch carries the keys of its rows.\<close>

lemma batchItem_Inr: "batchItem toISO r s = (Inr j, s') \<Longrightarrow> s' = s \<and> key_of j = Some (pq_idempotencyKey r)"
  by (auto simp: batchItem_def bindE_run returnE_run scoresOf_def throwE_run key_of_def field_def split: option.splits)

lemma batchItems_Inr:
  "traverseE (batchItem toISO) rs s = (Inr items, s') \<Longrightarrow> s' = s \<and> List.map_filter key_of items = map pq_idempotencyKey rs"
proof (induction rs arbitrary: s items)
  case Nil
  then show ?case by (simp add: returnE_run List.map_filter_def)
next
  case (Cons r rs)
  then obtain j s1 js where "batchItem toISO r s = (Inr j, s1)" "traverseE (batchItem toISO) rs s1 = (Inr js, s')" "items = j # js"
    by (auto simp: returnE_run elim!: bindE_InrE)
  with Cons.IH [of s1 js] batchItem_Inr [of toISO r s j s1] show ?case by (simp add: List.map_filter_def)
qed

lemma outcome_loop_range: "a \<in> set (outcome_loop vs n seen) \<Longrightarrow> 0 \<le> oa_index a \<and> oa_index a < n"
  by (induction vs n seen rule: outcome_loop.induct) (auto simp: item_action_def Let_def split: option.splits if_splits)

lemma mapItemOutcomes_range: "a \<in> set (mapItemOutcomes items n) \<Longrightarrow> 0 \<le> oa_index a \<and> oa_index a < n"
  by (auto simp: mapItemOutcomes_def dest: outcome_loop_range split: option.splits json.splits if_splits)

definition all_acknowledged :: "backend \<Rightarrow> pendingResult list \<Rightarrow> device \<Rightarrow> bool" where
  "all_acknowledged srv batch s \<longleftrightarrow> (\<forall>r \<in> set batch. acknowledged srv (sent s) (pq_idempotencyKey r))"

definition settles :: "backend \<Rightarrow> pendingResult list \<Rightarrow> pendingResult list \<Rightarrow> device \<Rightarrow> device \<Rightarrow> bool" where
  "settles srv rows batch s s' \<longleftrightarrow> (all_acknowledged srv batch s \<longrightarrow> drains srv rows s s' \<and> all_acknowledged srv batch s')"

interpretation settled: transition_preorder "settles srv rows batch"
  by unfold_locales (auto simp: settles_def intro: kept.refl kept.trans)

lemma settlesI:
  assumes "all_acknowledged srv batch s \<Longrightarrow> drains srv rows s (snd (m s))" and "sent (snd (m s)) = sent s"
  shows "settles srv rows batch s (snd (m s))"
  using assms by (auto simp: settles_def all_acknowledged_def)

lemma queue_updates_sent:
  "sent (snd (mark_synced pendingResultsD i s)) = sent s" "sent (snd (mark_duplicate i s)) = sent s"
  "sent (snd (recordFailure pendingResultsD i n msg s)) = sent s" "sent (snd (parkConflict r err s)) = sent s"
  by (auto simp: mark_synced_def mark_duplicate_def recordFailure_def parkConflict_def Let_def run_simps updateRows_def insertRow_def device_tables)

lemma applyAction_settles:
  assumes "set batch \<subseteq> set rows" and "0 \<le> oa_index a" and "oa_index a < int (length batch)"
  shows "follows (settles srv rows batch) (applyAction batch a)"
proof -
  define r where "r = batch ! nat (oa_index a)"
  have r: "r \<in> set batch" using assms(2,3) by (simp add: r_def)
  then have rows: "r \<in> set rows" using assms(1) by blast
  have mark: "follows (settles srv rows batch) (mark_synced pendingResultsD (row_id r))"
    "follows (settles srv rows batch) (mark_duplicate (row_id r))"
    unfolding follows_def using r
    by (auto intro!: settlesI kept_mark [OF rows] simp: queue_updates_sent all_acknowledged_def)
  moreover have "follows (settles srv rows batch) (parkConflict r e)" "follows (settles srv rows batch) (recordFailure pendingResultsD (row_id r) n t)" for e n t
    unfolding follows_def
    by (auto intro!: settlesI followsD [OF kept_parkConflict] followsD [OF kept_recordFailure] simp: queue_updates_sent)
  ultimately show ?thesis
    unfolding applyAction_def Let_def r_def [symmetric]
    by (cases "oa_action a") (auto intro!: settled.seqE settled.returnE)
qed

lemma kept_submitBatch:
  assumes "set batch \<subseteq> set rows"
  shows "follows (drains srv rows) (submitBatch toISO srv d batch)"
proof -
  have "drains srv rows s (snd (submitBatch toISO srv d batch s))" for s
    unfolding submitBatch_def
  proof (rule kept.bindE_when)
    have "follows (drains srv rows) (batchItem toISO r)" for r
      unfolding batchItem_def by (intro kept.intros kept_readers)
    then show "drains srv rows s (snd (traverseE (batchItem toISO) batch s))"
      by (rule followsD [OF kept.traverseE])
    fix items s1 assume "traverseE (batchItem toISO) batch s = (Inr items, s1)"
    then have keys: "List.map_filter key_of items = map pq_idempotencyKey batch" using batchItems_Inr by blast
    let ?body = "JsonBody (JObj [(''device_id'', JStr d), (''sync_type'', JStr ''result''), (''items'', JArr items)])"
    have "drains srv rows s2 (snd (bindE (prop_of ''items'' resp) (\<lambda>outcomes. traverseE (applyAction batch) (mapItemOutcomes outcomes (int (length batch)))) s2))"
      if ok: "answered_ok srv (sent s2) ?body" for resp s2
    proof -
      have acked: "all_acknowledged srv batch s2"
        unfolding all_acknowledged_def by (auto intro!: acknowledgedI [OF ok] simp: carried_def field_def keys)
      have "follows (settles srv rows batch) (prop_of k v)" for k v
        unfolding follows_def by (intro allI settlesI) (simp_all add: prop_of_state kept.refl)
      then have "follows (settles srv rows batch) (bindE (prop_of ''items'' resp) (\<lambda>outcomes. traverseE (applyAction batch) (mapItemOutcomes outcomes (int (length batch)))))"
        using assms by (intro settled.bindE settled.traverseE applyAction_settles) (auto dest: mapItemOutcomes_range)
      from followsD [OF this, of s2] acked show ?thesis by (simp add: settles_def)
    qed
    then show "drains srv rows s1 (snd (bindE (api srv ''/ingestion/offline-sync'' ''POST'' ?body)
        (\<lambda>resp. bindE (prop_of ''items'' resp) (\<lambda>outcomes. traverseE (applyAction batch) (mapItemOutcomes outcomes (int (length batch))))) s1))"
      by (rule followsD [OF kept_after_api])
  qed
  then show ?thesis by (simp add: follows_def)
qed

lemma kept_syncGroup:
  assumes "set batch \<subseteq> set rows"
  shows "follows (drains srv rows) (syncGroup toISO srv batch)"
proof -
  have sum: "follows (drains srv rows) (case x of Inl m \<Rightarrow> f m | Inr os \<Rightarrow> returnE os)"
    if "\<And>m. follows (drains srv rows) (f m)" for x :: "string + drainOutcome list" and f
    using that by (cases x) (auto intro: kept.returnE)
  have one: "follows (drains srv rows) (traverseE (submitOne srv) batch)"
    using assms by (intro kept.traverseE kept_submitOne) auto
  have "follows (drains srv rows) (failEach m batch)" for m
    unfolding failEach_def by (intro kept.traverseE kept.intros kept_recordFailure)
  with one show ?thesis
    unfolding syncGroup_def resolveSyncDeviceId_def
    by (intro kept.intros kept_submitBatch kept_api sum assms)
qed

lemma getDb_frame:
  "sent (snd (getDb s)) = sent s" "pendingResultsT (snd (getDb s)) = pendingResultsT s" "conflictLogT (snd (getDb s)) = conflictLogT s"
  "pendingCheckinsT (snd (getDb s)) = pendingCheckinsT s" "electionCache (snd (getDb s)) = electionCache s" "unitCache (snd (getDb s)) = unitCache s"
  "fileStore (snd (getDb s)) = fileStore s" "online (snd (getDb s)) = online s" "accessToken (snd (getDb s)) = accessToken s"
  by (simp_all add: getDb_def run_simps updateRows_def Let_def device_tables list_all_iff)

lemma getDb_Inr: "fst (getDb s) = Inr ()"
  by (simp add: getDb_def run_simps updateRows_def Let_def device_tables list_all_iff)

lemma getDb_run: "getDb s = (Inr (), snd (getDb s))"
  using getDb_Inr [of s] by (cases "getDb s") simp

lemma getDb_seq: "seqE getDb m s = m (snd (getDb s))"
  by (simp add: seqE_run) (subst getDb_run, simp)

lemma add_to_group_set: "(\<Union>g \<in> set (add_to_group r gs). set (snd g)) = insert r (\<Union>g \<in> set gs. set (snd g))"
  by (induction r gs rule: add_to_group.induct) auto

lemma result_groups_set: "set (concat (result_groups rows)) = set rows"
proof -
  have "set (concat (map snd (foldl (\<lambda>gs r. add_to_group r gs) gs rows))) = set (concat (map snd gs)) \<union> set rows" for gs
    by (induction rows arbitrary: gs) (simp_all add: add_to_group_set)
  from this [of "[]"] show ?thesis by (simp add: result_groups_def)
qed

lemma result_groups_subset: "g \<in> set (result_groups rows) \<Longrightarrow> set g \<subseteq> set rows"
  using result_groups_set [of rows] by auto

text \<open>The rows a drain takes up.\<close>

definition eligible :: "device \<Rightarrow> pendingResult list" where
  "eligible s =
     filter (\<lambda>r. shouldAttempt (Some (q_attempts r)) MAX_ATTEMPTS) (order_by q_createdAt (filter (\<lambda>r. q_synced r = 0) (trows (pendingResultsT s))))"

lemma eligible_rows: "r \<in> set (eligible s) \<Longrightarrow> r \<in> set (trows (pendingResultsT s)) \<and> q_synced r = 0 \<and> q_attempts r < 10"
  by (auto simp: eligible_def order_by_def shouldAttempt_def MAX_ATTEMPTS_def)

lemma getPendingResults_run:
  "getPendingResults s = (Inr (order_by q_createdAt (filter (\<lambda>r. q_synced r = 0) (trows (pendingResultsT s)))), snd (getDb s))"
  unfolding getPendingResults_def getDb_seq
  by (simp add: bindE_run returnE_run selectRows_run rows_of_def pendingResultsD_def getDb_frame)

lemma syncPendingResults_run:
  "syncPendingResults toISO srv s =
     (if \<not> online s \<or> \<not> truthy_str (accessToken s)
      then (Inr \<lparr>rs_synced = 0, rs_duplicates = 0, rs_conflicts = 0, rs_failed = 0\<rparr>, s)
      else bindE (traverseE (syncGroup toISO srv) (result_groups (eligible s))) (\<lambda>oss.
        let os = concat oss
        in returnE \<lparr>rs_synced = tally Synced os, rs_duplicates = tally Duplicate os, rs_conflicts = tally Conflict os, rs_failed = tally Failed os\<rparr>)
        (snd (getDb s)))"
  by (simp add: syncPendingResults_def bindE_run [where m = "getE _"] bindE_run [where m = getPendingResults] getE_run getPendingResults_run eligible_def returnE_run)

text \<open>A drain sends what the queue holds and loses nothing of it.\<close>

lemma kept_syncPendingResults:
  assumes "ids_distinct (trows (pendingResultsT s))" and "fresh_log s"
  shows "results_kept srv s (snd (syncPendingResults toISO srv s))"
proof (cases "\<not> online s \<or> \<not> truthy_str (accessToken s)")
  case True
  then show ?thesis by (simp add: syncPendingResults_run results_kept_refl)
next
  case False
  define d where "d = snd (getDb s)"
  have d: "pendingResultsT d = pendingResultsT s" "conflictLogT d = conflictLogT s" "sent d = sent s" by (simp_all add: d_def getDb_frame)
  have "keyed s r" if "r \<in> set (eligible s)" for r
    using assms(1) eligible_rows [OF that] by (auto simp: keyed_def ids_distinct_def distinct_map inj_on_def)
  then have ready: "ready (eligible s) d" using assms(2) d by (simp add: ready_def fresh_log_def keyed_def)
  let ?drain = "bindE (traverseE (syncGroup toISO srv) (result_groups (eligible s))) (\<lambda>oss. let os = concat oss
        in returnE \<lparr>rs_synced = tally Synced os, rs_duplicates = tally Duplicate os, rs_conflicts = tally Conflict os, rs_failed = tally Failed os\<rparr>)"
  have "follows (drains srv (eligible s)) ?drain"
    unfolding Let_def by (intro kept.intros kept.traverseE kept_syncGroup result_groups_subset)
  from followsD [OF this, of d] ready have "results_kept srv d (snd (?drain d))" by (simp add: drains_def)
  moreover have "results_kept srv s d" using d by (simp add: results_kept_def list_all2_refl delivered_refl)
  ultimately show ?thesis using False results_kept_trans by (simp add: syncPendingResults_run d_def [symmetric])
qed

text \<open>C23: no captured result is lost or falsely reported as delivered. Whatever the backend answers, after a drain
  every row of the queue is still there with what was captured; a row is marked as synced only when the backend
  answered a request carrying its idempotency key with success, and as parked only when the conflict log has an entry
  for it that waits for review.\<close>

theorem results_never_lost:
  assumes "ids_distinct (trows (pendingResultsT s))" and "fresh_log s" and "snd (syncPendingResults toISO srv s) = s'"
  shows "list_all2 (\<lambda>r r'. capture r' = capture r \<and>
      (q_synced r' = q_synced r \<or> q_synced r' = 1 \<and> acknowledged srv (sent s') (pq_idempotencyKey r) \<or> q_synced r' = 2 \<and> parked s' (row_id r)))
    (trows (pendingResultsT s)) (trows (pendingResultsT s'))"
proof -
  have "list_all2 (delivered srv s') (trows (pendingResultsT s)) (trows (pendingResultsT s'))"
    using kept_syncPendingResults [OF assms(1,2), of srv toISO] assms(3) by (simp add: results_kept_def)
  then show ?thesis by (rule list_all2_mono) (simp add: delivered_def)
qed

section \<open>Outcomes of a batch\<close>

lemma item_action_index [simp]: "oa_index (item_action i v) = i"
  by (simp add: item_action_def Let_def)

lemma outcome_loop_find:
  "find (\<lambda>a. oa_index a = i) (outcome_loop vs n seen) =
     (if 0 \<le> i \<and> i < n \<and> i \<notin> set seen then map_option (item_action i) (find (\<lambda>v. item_index v = Some i) vs) else None)"
  by (induction vs n seen rule: outcome_loop.induct) (auto split: option.splits)

lemma outcome_loop_distinct: "distinct (map oa_index (outcome_loop vs n seen)) \<and> set (map oa_index (outcome_loop vs n seen)) \<inter> set seen = {}"
  by (induction vs n seen rule: outcome_loop.induct) (auto split: option.splits)

text \<open>The decisions on a batch are those of a plain specification: for every position of the batch the first
  outcome that names it decides, positions without an outcome and outcomes outside the batch have none, and no position
  is decided twice.\<close>

theorem outcomes_first_wins:
  "distinct (map oa_index (mapItemOutcomes (Some (JArr vs)) n)) \<and>
   find (\<lambda>a. oa_index a = i) (mapItemOutcomes (Some (JArr vs)) n) =
     (if 0 \<le> i \<and> i < n then map_option (item_action i) (find (\<lambda>v. item_index v = Some i) vs) else None)"
  using outcome_loop_distinct [of vs n "[]"] by (simp add: mapItemOutcomes_def outcome_loop_find)

section \<open>Texts that come back\<close>

text \<open>What is cached is what is read back. After election data has been cached under a key, reading the key gives
  the same value, and every other key reads as before.\<close>

theorem election_cache_roundtrip:
  assumes "wf_json v"
  shows "fst (getCachedElectionData k (snd (cacheElectionData k v s))) = Inr (Some v) \<and>
    (k' \<noteq> k \<longrightarrow> fst (getCachedElectionData k' (snd (cacheElectionData k v s))) = fst (getCachedElectionData k' s))"
proof -
  have other: "map_of (filter (\<lambda>c. fst c \<noteq> k) cs @ [(k, t)]) k' = (if k' = k then Some t else map_of cs k')" for cs :: "(string \<times> string) list" and t k'
    by (induction cs) auto
  have cache: "electionCache (snd (cacheElectionData k v s)) = filter (\<lambda>c. fst c \<noteq> k) (electionCache s) @ [(k, stringify v)]"
    by (simp add: cacheElectionData_def getDb_seq modifyE_run getDb_frame)
  have get: "fst (getCachedElectionData k' t) = (case map_of (electionCache t) k' of None \<Rightarrow> Inr None
      | Some x \<Rightarrow> (case jsonParse x of None \<Rightarrow> Inl (OtherError ''SyntaxError: JSON Parse error'') | Some w \<Rightarrow> Inr (Some w)))" for k' t
    unfolding getCachedElectionData_def getDb_seq
    by (simp add: bindE_run getE_run getDb_frame returnE_run throwE_run split: option.split)
  show ?thesis unfolding get cache other by (simp add: json_roundtrip [OF assms])
qed

lemma scores_json_wf: "wf_json (scores_json scores)"
  by (auto simp: scores_json_def list_all_iff)

lemma seqE_guard: "b \<Longrightarrow> seqE (guardE b e) m s = m s"
  by (simp add: seqE_run guardE_run)

lemma queueResult_Inr:
  assumes "queueResult uuid d s = (Inr i, s')"
  shows "trows (pendingResultsT s') = trows (pendingResultsT s) @ [new_pending_result uuid d (correctedNowMs (snd (getDb s))) i] \<and>
    (\<forall>x \<in> set (trows (pendingResultsT s)). row_id x \<noteq> i)"
proof -
  from assms have ok: "si_electionId d > 0" "si_partyScores d \<noteq> []" by (auto simp: queueResult_def run_simps split: if_splits)
  define d0 where "d0 = snd (getDb s)"
  have d0: "pendingResultsT d0 = pendingResultsT s" by (simp add: d0_def getDb_frame)
  from assms have "bindE (getE correctedNowMs) (\<lambda>now. bindE (insertRow pendingResultsD None (new_pending_result uuid d now)) (\<lambda>r. returnE (row_id r))) d0 = (Inr i, s')"
    unfolding queueResult_def seqE_guard [OF ok(1)] seqE_guard [OF ok(2)] getDb_seq d0_def [symmetric] .
  then obtain r where r: "insertRow pendingResultsD None (new_pending_result uuid d (correctedNowMs d0)) d0 = (Inr r, s')" "row_id r = i"
    by (auto simp: bindE_run getE_run returnE_run split: prod.splits sum.splits)
  from results.insert_Inr [OF r(1)] r(2) d0 show ?thesis
    by (auto simp: rows_of_def pendingResultsD_def new_pending_result_def d0_def)
qed

text \<open>A result reaches the backend with the scores that were captured: the text the queue stores is read back as
  the scores it was made of when the result is submitted.\<close>

theorem captured_scores_submitted:
  assumes "queueResult uuid d s = (Inr i, s')"
  shows "\<exists>r. trows (pendingResultsT s') = trows (pendingResultsT s) @ [r] \<and> row_id r = i \<and>
    (\<forall>t. fst (scoresOf r t) = Inr (scores_json (si_partyScores d))) \<and> pq_idempotencyKey r = uuid \<and> q_synced r = 0 \<and> q_attempts r = 0"
  using queueResult_Inr [OF assms]
  by (auto simp: new_pending_result_def scoresOf_def json_roundtrip [OF scores_json_wf] returnE_run)

section \<open>Photo evidence\<close>

text \<open>A captured photo is pinned by its digest. Right after it has been persisted the photo passes the check before
  the upload; once the file is gone, or holds a content with another digest, the check reports it.\<close>

theorem photo_pinned:
  assumes "persistCapturedPhoto digest cacheUri s = (Inr (Some (uri, sha)), s')" and "sha \<noteq> []"
  shows "verifyQueuedPhoto digest uri (Some sha) s' = None \<and>
    (digest c \<noteq> sha \<longrightarrow> verifyQueuedPhoto digest uri (Some sha) (s'\<lparr>fileStore := (fileStore s')(uri \<mapsto> Some c)\<rparr>) =
      Some ''photo hash mismatch (file changed after capture)'') \<and>
    verifyQueuedPhoto digest uri (Some sha) (s'\<lparr>fileStore := (fileStore s')(uri := None)\<rparr>) =
      Some ''photo file missing (evicted from device storage)''"
  using assms by (auto simp: persistCapturedPhoto_def verifyQueuedPhoto_def Let_def split: option.splits if_splits)

text \<open>What may be uploaded: a report of the queue that is still to be sent, for an election, with a photo that passed
  the check.\<close>

definition uploadable :: "(string \<Rightarrow> string) \<Rightarrow> device \<Rightarrow> pendingReport \<Rightarrow> bool" where
  "uploadable digest s r \<longleftrightarrow>
     q_synced r = 0 \<and> q_attempts r < 10 \<and> pr_electionId r > 0 \<and>
     (truthy_str (pr_photoUri r) \<longrightarrow> verifyQueuedPhoto digest (nullish (pr_photoUri r) []) (pr_photoSha256 r) s = None)"

definition uploads :: "(string \<Rightarrow> string) \<Rightarrow> pendingReport list \<Rightarrow> device \<Rightarrow> device \<Rightarrow> bool" where
  "uploads digest rows s s' \<longleftrightarrow>
     fileStore s' = fileStore s \<and>
     (\<exists>new. sent s' = sent s @ new \<and>
        (\<forall>q \<in> set new. rq_path q = ''/observer/reports'' \<longrightarrow> (\<exists>r \<in> set rows. rq_body q = FormBody (report_form r) \<and> uploadable digest s r)))"

lemma uploadable_files: "fileStore t = fileStore s \<Longrightarrow> uploadable digest t r = uploadable digest s r"
  by (simp add: uploadable_def verifyQueuedPhoto_def)

lemma uploads_trans:
  assumes "uploads digest rows s t" and "uploads digest rows t u"
  shows "uploads digest rows s u"
proof -
  have files: "fileStore t = fileStore s" using assms(1) by (simp add: uploads_def)
  obtain n1 where "sent t = sent s @ n1"
    "\<forall>q \<in> set n1. rq_path q = ''/observer/reports'' \<longrightarrow> (\<exists>r \<in> set rows. rq_body q = FormBody (report_form r) \<and> uploadable digest s r)"
    using assms(1) by (auto simp: uploads_def)
  moreover obtain n2 where "sent u = sent t @ n2"
    "\<forall>q \<in> set n2. rq_path q = ''/observer/reports'' \<longrightarrow> (\<exists>r \<in> set rows. rq_body q = FormBody (report_form r) \<and> uploadable digest s r)"
    using assms(2) by (auto simp: uploads_def uploadable_files [OF files])
  ultimately show ?thesis using assms(2) files by (auto simp: uploads_def)
qed

interpretation uploading: transition_preorder "uploads digest rows"
  by unfold_locales (simp add: uploads_def, rule uploads_trans)

lemma uploads_same: "sent s' = sent s \<Longrightarrow> fileStore s' = fileStore s \<Longrightarrow> uploads digest rows s s'"
  by (simp add: uploads_def)

lemma uploads_api:
  assumes "path = ''/observer/reports'' \<Longrightarrow> \<exists>r \<in> set rows. body = FormBody (report_form r) \<and> uploadable digest s r"
  shows "uploads digest rows s (snd (api srv path meth body s))"
proof -
  obtain new where new: "sent (snd (api srv path meth body s)) = sent s @ new"
    "\<forall>q \<in> set new. (rq_body q = body \<and> rq_path q = path) \<or> (\<exists>r. q = refresh_request r)"
    using api_bodies by blast
  have "\<exists>r \<in> set rows. rq_body q = FormBody (report_form r) \<and> uploadable digest s r"
    if "q \<in> set new" "rq_path q = ''/observer/reports''" for q
  proof -
    have "\<nexists>x. q = refresh_request x" using that(2) by (auto simp: refresh_request_def)
    with new(2) that(1) have "rq_body q = body \<and> rq_path q = path" by blast
    with assms that(2) show ?thesis by simp
  qed
  with new(1) show ?thesis by (auto simp: uploads_def)
qed

lemma uploads_queue:
  "follows (uploads digest rows) (recordFailure pendingCheckinsD i n t)" "follows (uploads digest rows) (recordFailure pendingReportsD i n t)"
  "follows (uploads digest rows) (mark_synced pendingCheckinsD i)" "follows (uploads digest rows) (mark_synced pendingReportsD i)"
  "follows (uploads digest rows) (updateRows pendingReportsD P f)"
  unfolding follows_def
  by (auto intro!: uploads_same simp: recordFailure_def mark_synced_def Let_def run_simps updateRows_def device_tables list_all_iff)

lemma uploads_checkin: "follows (uploads digest rows) (syncCheckin srv c)"
proof -
  have "follows (uploads digest rows) (api srv ''/observer/check-in'' ''POST'' body)" for body
    unfolding follows_def by (intro allI uploads_api) simp
  then show ?thesis unfolding syncCheckin_def by (intro uploading.intros uploads_queue)
qed

lemma uploads_report:
  assumes "r \<in> set rows" and "q_synced r = 0"
  shows "follows (uploads digest rows) (syncReport digest srv r)"
proof -
  let ?send = "\<lambda>photoError. if truthy_str (pr_photoUri r) \<and> truthy_str photoError
         then seqE (recordFailure pendingReportsD (row_id r) (q_attempts r) (nullish photoError [])) (returnE Failed)
         else seqE (api srv ''/observer/reports'' ''POST'' (FormBody (report_form r)))
                (seqE (mark_synced pendingReportsD (row_id r)) (returnE Synced))"
  have "uploads digest rows s (snd (bindE (getE (verifyQueuedPhoto digest (nullish (pr_photoUri r) []) (pr_photoSha256 r))) ?send s))"
    if small: "q_attempts r < 10" "0 < pr_electionId r" for s
  proof (cases "truthy_str (pr_photoUri r) \<and> truthy_str (verifyQueuedPhoto digest (nullish (pr_photoUri r) []) (pr_photoSha256 r) s)")
    case True
    then show ?thesis by (simp add: bindE_run getE_run followsD [OF uploading.seqE [OF uploads_queue(2) uploading.returnE]])
  next
    case False
    then have "uploadable digest s r"
      using small assms(2) by (auto simp: uploadable_def verifyQueuedPhoto_def truthy_str_def split: option.splits if_splits)
    then have "uploads digest rows s (snd (api srv ''/observer/reports'' ''POST'' (FormBody (report_form r)) s))"
      using assms(1) by (intro uploads_api) blast
    with False show ?thesis
      by (auto simp: bindE_run [where m = "getE _"] getE_run seqE_def intro!: uploading.bindE_at uploading.bindE uploads_queue uploading.returnE)
  qed
  then have inner: "follows (uploads digest rows) (bindE (getE (verifyQueuedPhoto digest (nullish (pr_photoUri r) []) (pr_photoSha256 r))) ?send)"
    if "q_attempts r < 10" "0 < pr_electionId r" using that by (simp add: follows_def)
  have caught: "follows (uploads digest rows) (catchE (bindE (getE (verifyQueuedPhoto digest (nullish (pr_photoUri r) []) (pr_photoSha256 r))) ?send)
      (\<lambda>e. seqE (recordFailure pendingReportsD (row_id r) (q_attempts r) (error_string e)) (returnE Failed)))"
    if "q_attempts r < 10" "0 < pr_electionId r"
    by (intro uploading.catchE inner that uploading.seqE uploads_queue uploading.returnE)
  show ?thesis
    unfolding syncReport_def
    by (intro uploading.cond uploading.seqE uploads_queue uploading.returnE caught) (simp_all add: shouldAttempt_def MAX_ATTEMPTS_def)
qed

lemma checkins_keep_reports: "preserves (\<lambda>t :: device. pendingReportsT t = R) (traverseE (syncCheckin srv) cs)"
proof -
  have "preserves (\<lambda>t :: device. pendingReportsT t = R) (api srv path meth body)" for path meth body by (simp add: preserves_def)
  moreover have "preserves (\<lambda>t :: device. pendingReportsT t = R) (mark_synced pendingCheckinsD i)"
    "preserves (\<lambda>t :: device. pendingReportsT t = R) (recordFailure pendingCheckinsD i n msg)" for i n msg
    by (simp_all add: preserves_def mark_synced_def recordFailure_def Let_def voidE_run updateRows_def device_tables list_all_iff)
  ultimately show ?thesis unfolding syncCheckin_def by (intro preserves_intros)
qed

lemma uploads_drain:
  "uploads digest (trows (pendingReportsT d)) d (snd (bindE (selectRows pendingCheckinsD (\<lambda>r. q_synced r = 0)) (\<lambda>cs.
      bindE (traverseE (syncCheckin srv) (order_by q_createdAt cs)) (\<lambda>co.
      bindE (selectRows pendingReportsD (\<lambda>r. q_synced r = 0)) (\<lambda>rs.
      bindE (traverseE (syncReport digest srv) (order_by q_createdAt rs)) (\<lambda>ro. returnE (summary co ro))))) d))"
  (is "uploads digest ?rows d (snd (bindE _ (\<lambda>cs. bindE (?checkins cs) ?rest) d))")
proof (rule uploading.bindE_when)
  show "uploads digest ?rows d (snd (selectRows pendingCheckinsD (\<lambda>r. q_synced r = 0) d))" by (simp add: selectRows_run uploads_same)
  fix cs t assume "selectRows pendingCheckinsD (\<lambda>r. q_synced r = 0) d = (Inr cs, t)"
  then have t: "t = d" by (simp add: selectRows_run)
  show "uploads digest ?rows t (snd (bindE (?checkins cs) ?rest t))"
  proof (rule uploading.bindE_when)
    show "uploads digest ?rows t (snd (?checkins cs t))" by (rule followsD [OF uploading.traverseE [OF uploads_checkin]])
    fix co u assume "?checkins cs t = (Inr co, u)"
    then have "rows_of pendingReportsD u = ?rows"
      using preserves_stepD [OF checkins_keep_reports [of "pendingReportsT d" srv "order_by q_createdAt cs"], of t "Inr co" u] t
      by (simp add: rows_of_def pendingReportsD_def)
    moreover have "follows (uploads digest ?rows) (bindE (traverseE (syncReport digest srv) (order_by q_createdAt (filter (\<lambda>r. q_synced r = 0) ?rows)))
        (\<lambda>ro. returnE (summary co ro)))"
      by (intro uploading.bindE uploading.traverseE uploads_report uploading.returnE) (auto simp: order_by_def)
    ultimately show "uploads digest ?rows u (snd (?rest co u))" by (simp add: bindE_run [where m = "selectRows _ _"] selectRows_run followsD)
  qed
qed


section \<open>A reachable backend\<close>

text \<open>The backend lists no device for any unit, so results are submitted one by one, and it accepts them.\<close>

definition no_device :: "backend \<Rightarrow> bool" where
  "no_device srv \<longleftrightarrow> (\<forall>e pu s. fst (resolveSyncDeviceId srv e pu s) = Inr None)"

definition accepts_results :: "backend \<Rightarrow> bool" where
  "accepts_results srv \<longleftrightarrow>
     (\<forall>l q. rq_path q = ''/results/submit'' \<longrightarrow>
        (\<exists>res. srv l q = Answered res \<and> res_ok res \<and> (rs_isJson res \<longrightarrow> jsonParse (rs_text res) \<notin> {None, Some JNull})))"

definition pending_rows :: "device \<Rightarrow> pendingResult set" where
  "pending_rows s = {r \<in> set (trows (pendingResultsT s)). q_synced r = 0}"

definition clears :: "int set \<Rightarrow> device \<Rightarrow> device \<Rightarrow> bool" where
  "clears ids s s' \<longleftrightarrow> pending_rows s' = {r \<in> pending_rows s. row_id r \<notin> ids}"

lemma clears_trans: "clears A s t \<Longrightarrow> clears B t u \<Longrightarrow> clears (A \<union> B) s u"
  by (auto simp: clears_def)

lemma clears_same: "pendingResultsT s' = pendingResultsT s \<Longrightarrow> clears {} s s'"
  by (simp add: clears_def pending_rows_def)

lemma traverse_clears:
  assumes "\<And>x s. x \<in> set xs \<Longrightarrow> \<exists>y s'. f x s = (Inr y, s') \<and> clears (A x) s s'"
  shows "\<exists>ys s'. traverseE f xs s = (Inr ys, s') \<and> clears (\<Union>x \<in> set xs. A x) s s'"
  using assms
proof (induction xs arbitrary: s)
  case Nil
  show ?case by (simp add: returnE_run clears_def)
next
  case (Cons x xs)
  obtain y t where x: "f x s = (Inr y, t)" "clears (A x) s t" using Cons.prems [of x s] by auto
  obtain ys u where "traverseE f xs t = (Inr ys, u)" "clears (\<Union>x \<in> set xs. A x) t u" using Cons.IH [of t] Cons.prems by auto
  with x clears_trans [OF x(2)] show ?case by (simp add: bindE_run returnE_run)
qed

lemma mark_clears:
  "\<exists>t. mark_synced pendingResultsD i s = (Inr (), t) \<and> clears {i} s t" "\<exists>t. mark_duplicate i s = (Inr (), t) \<and> clears {i} s t"
proof -
  have "\<exists>t. voidE (updateRows pendingResultsD (\<lambda>r. row_id r = i) f) s = (Inr (), t) \<and> clears {i} s t"
    if "\<And>r. q_synced (f r) = 1" for f
    using that by (auto simp: voidE_run updateRows_def Let_def pendingResultsD_def list_all_iff clears_def pending_rows_def)
  then show "\<exists>t. mark_synced pendingResultsD i s = (Inr (), t) \<and> clears {i} s t" "\<exists>t. mark_duplicate i s = (Inr (), t) \<and> clears {i} s t"
    unfolding mark_synced_def mark_duplicate_def by simp_all
qed

lemma api_accepted:
  assumes "accepts_results srv"
  obtains v s' where "api srv ''/results/submit'' meth body s = (Inr v, s')" "v \<noteq> JsonValue JNull"
proof -
  let ?q = "phone_request s ''/results/submit'' meth body"
  obtain res where res: "srv (sent s) ?q = Answered res" "res_ok res" "rs_isJson res \<longrightarrow> jsonParse (rs_text res) \<notin> {None, Some JNull}"
    using assms [unfolded accepts_results_def, rule_format, of ?q "sent s"] by (auto simp: phone_request_def)
  then have "rs_status res \<noteq> 401" by (auto simp: res_ok_def)
  with res have "api srv ''/results/submit'' meth body s = read_body res (sampled (rs_date res) (s\<lparr>sent := sent s @ [?q]\<rparr>))"
    by (simp add: api_def bindE_run observedRequest_run Let_def returnE_run)
  then show thesis using that res(3) by (auto simp: read_body_def returnE_run split: if_splits option.splits)
qed

lemma submitOne_clears:
  assumes "accepts_results srv" and "jsonParse (pq_partyScores r) \<noteq> None"
  shows "\<exists>y s'. submitOne srv r s = (Inr y, s') \<and> clears {row_id r} s s'"
proof -
  obtain scores where scores: "scoresOf r s = (Inr scores, s)" using assms(2) by (auto simp: scoresOf_def returnE_run)
  let ?body = "JsonBody (JObj (result_fields r scores @ [(''idempotency_key'', JStr (pq_idempotencyKey r))]))"
  obtain v t where v: "api srv ''/results/submit'' ''POST'' ?body s = (Inr v, t)" "v \<noteq> JsonValue JNull" by (rule api_accepted [OF assms(1)])
  have "pendingResultsT t = pendingResultsT s" using api_tables(3) [of srv "''/results/submit''" "''POST''" ?body s] v(1) by simp
  then have same: "clears {} s t" by (rule clears_same)
  obtain u1 where u1: "mark_synced pendingResultsD (row_id r) t = (Inr (), u1)" "clears {row_id r} s u1"
    using mark_clears(1) [of "row_id r" t] clears_trans [OF same] by auto
  obtain u2 where u2: "mark_duplicate (row_id r) t = (Inr (), u2)" "clears {row_id r} s u2"
    using mark_clears(2) [of "row_id r" t] clears_trans [OF same] by auto
  show ?thesis
    using u1 u2 v scores by (simp add: submitOne_def catchE_def bindE_run seqE_run returnE_run prop_of_def)
qed

lemma syncGroup_clears:
  assumes "no_device srv" and "accepts_results srv" and "\<And>r. r \<in> set batch \<Longrightarrow> jsonParse (pq_partyScores r) \<noteq> None"
  shows "\<exists>y s'. syncGroup toISO srv batch s = (Inr y, s') \<and> clears (row_id ` set batch) s s'"
proof (cases batch)
  case Nil
  then show ?thesis by (simp add: syncGroup_def returnE_run clears_def)
next
  case (Cons first rest)
  define d where "d = resolveSyncDeviceId srv (pq_electionId first) (pq_pollingUnitCode first)"
  obtain t where t: "d s = (Inr None, t)" using assms(1) by (cases "d s") (simp add: no_device_def d_def, metis fst_conv)
  have "preserves (\<lambda>x :: device. pendingResultsT x = pendingResultsT s) d"
    unfolding d_def resolveSyncDeviceId_def
    by (intro preserves_intros) (simp add: preserves_def)
  from preservesD [OF this, of s] t have "pendingResultsT t = pendingResultsT s" by simp
  then have same: "clears {} s t" by (rule clears_same)
  obtain ys u where u: "traverseE (submitOne srv) batch t = (Inr ys, u)" "clears (\<Union>r \<in> set batch. {row_id r}) t u"
    using traverse_clears [of batch "submitOne srv" "\<lambda>r. {row_id r}" t] submitOne_clears [OF assms(2,3)] by blast
  have "syncGroup toISO srv batch s = traverseE (submitOne srv) batch t"
    using Cons t by (simp add: syncGroup_def bindE_run d_def)
  moreover have "({} :: int set) \<union> (\<Union>r \<in> set batch. {row_id r}) = row_id ` set batch" by auto
  ultimately show ?thesis using u(1) clears_trans [OF same u(2)] by simp
qed


section \<open>What a drain sends\<close>

definition carries :: "string set \<Rightarrow> device \<Rightarrow> device \<Rightarrow> bool" where
  "carries K s s' \<longleftrightarrow> (\<exists>new. sent s' = sent s @ new \<and> (\<forall>q \<in> set new. set (carried (rq_body q)) \<subseteq> K))"

lemma carries_trans: "carries K s t \<Longrightarrow> carries K t u \<Longrightarrow> carries K s u"
  by (fastforce simp: carries_def)

interpretation carrying: transition_preorder "carries K"
  by unfold_locales (simp add: carries_def, rule carries_trans)

lemma carries_same: "sent s' = sent s \<Longrightarrow> carries K s s'"
  by (simp add: carries_def)

lemma carries_api:
  assumes "set (carried body) \<subseteq> K"
  shows "follows (carries K) (api srv path meth body)"
proof -
  have "carried (rq_body (refresh_request r)) = []" for r
    by (simp add: refresh_request_def carried_def field_def key_of_def)
  then have "carries K s (snd (api srv path meth body s))" for s :: device
    using api_bodies [of srv path meth body s] assms by (fastforce simp: carries_def)
  then show ?thesis by (simp add: follows_def)
qed

lemma carries_statements:
  "follows (carries K) (mark_synced pendingResultsD i)" "follows (carries K) (mark_duplicate i)"
  "follows (carries K) (recordFailure pendingResultsD i n msg)" "follows (carries K) (parkConflict r err)"
  "follows (carries K) (scoresOf r)" "follows (carries K) (prop_of k v)" "follows (carries K) (batchItem toISO r)"
proof -
  have "snd (batchItem toISO r s) = s" for s
    by (simp add: batchItem_def bindE_run scoresOf_def returnE_run throwE_run split: option.split)
  then show "follows (carries K) (batchItem toISO r)" by (simp add: follows_def carries_same)
qed (simp_all add: follows_def carries_same queue_updates_sent scoresOf_state prop_of_state)

lemma carries_applyAction: "follows (carries K) (applyAction batch a)"
  unfolding applyAction_def Let_def
  by (cases "oa_action a") (auto intro!: carrying.seqE carries_statements carrying.returnE)

lemma carries_syncGroup:
  assumes "pq_idempotencyKey ` set batch \<subseteq> K"
  shows "follows (carries K) (syncGroup toISO srv batch)"
proof -
  have sum: "follows (carries K) (case x of Inl m \<Rightarrow> f m | Inr os \<Rightarrow> returnE os)"
    if "\<And>m. follows (carries K) (f m)" for x :: "string + drainOutcome list" and f
    using that by (cases x) (auto intro: carrying.returnE)
  have one: "follows (carries K) (submitOne srv r)" if "r \<in> set batch" for r
    unfolding submitOne_def Let_def using that assms
    by (intro carrying.intros carries_statements carries_api) (auto simp: carried_submission)
  have device: "follows (carries K) (resolveSyncDeviceId srv e pu)" for e pu
    unfolding resolveSyncDeviceId_def by (intro carrying.intros carries_api) (simp add: carried_def)
  have fail: "follows (carries K) (failEach m batch)" for m
    unfolding failEach_def by (intro carrying.traverseE carrying.intros carries_statements)
  have batch: "follows (carries K) (submitBatch toISO srv d batch)" for d
    unfolding submitBatch_def follows_def
  proof (rule allI, rule carrying.bindE_when)
    fix s show "carries K s (snd (traverseE (batchItem toISO) batch s))" by (rule followsD [OF carrying.traverseE [OF carries_statements(7)]])
    fix items t assume "traverseE (batchItem toISO) batch s = (Inr items, t)"
    then have "List.map_filter key_of items = map pq_idempotencyKey batch" using batchItems_Inr by blast
    then have "set (carried (JsonBody (JObj [(''device_id'', JStr d), (''sync_type'', JStr ''result''), (''items'', JArr items)]))) \<subseteq> K"
      using assms by (simp add: carried_def field_def)
    then show "carries K t (snd (bindE (api srv ''/ingestion/offline-sync'' ''POST'' (JsonBody (JObj [(''device_id'', JStr d), (''sync_type'', JStr ''result''), (''items'', JArr items)])))
        (\<lambda>resp. bindE (prop_of ''items'' resp) (\<lambda>outcomes. traverseE (applyAction batch) (mapItemOutcomes outcomes (int (length batch))))) t))"
      by (intro followsD [OF carrying.bindE] carries_api carrying.bindE carries_statements carrying.traverseE carries_applyAction)
  qed
  show ?thesis
    unfolding syncGroup_def by (intro carrying.intros carrying.traverseE sum one device fail batch)
qed

text \<open>A poisoned row cannot wedge the queue or be sent forever. Every idempotency key a drain sends belongs to a row
  that is still pending and was attempted fewer than ten times before; delivered, parked and exhausted rows are never
  sent again.\<close>

theorem only_eligible_results_sent:
  "\<exists>new. sent (snd (syncPendingResults toISO srv s)) = sent s @ new \<and>
     (\<forall>q \<in> set new. \<forall>k \<in> set (carried (rq_body q)).
        \<exists>r \<in> set (trows (pendingResultsT s)). pq_idempotencyKey r = k \<and> q_synced r = 0 \<and> q_attempts r < 10)"
proof -
  let ?K = "pq_idempotencyKey ` set (eligible s)"
  have "carries ?K s (snd (syncPendingResults toISO srv s))"
  proof (cases "\<not> online s \<or> \<not> truthy_str (accessToken s)")
    case True
    then show ?thesis by (simp add: syncPendingResults_run carries_same)
  next
    case False
    have "pq_idempotencyKey ` set g \<subseteq> ?K" if "g \<in> set (result_groups (eligible s))" for g
      using result_groups_subset [OF that] by blast
    then have "follows (carries ?K) (bindE (traverseE (syncGroup toISO srv) (result_groups (eligible s))) (\<lambda>oss. returnE (f oss)))" for f
      by (intro carrying.bindE carrying.traverseE carries_syncGroup carrying.returnE)
    from carries_trans [OF carries_same [OF getDb_frame(1)] followsD [OF this]] False show ?thesis
      by (simp add: syncPendingResults_run Let_def)
  qed
  then show ?thesis using eligible_rows unfolding carries_def by fastforce
qed

section \<open>A concrete queue\<close>

text \<open>A phone with a pending result and a pending report with its photo, and a backend that answers every request
  with 200 and a plain text.\<close>

definition demo_ok :: backend where
  "demo_ok l q = Answered \<lparr>rs_status = 200, rs_date = None, rs_isJson = False, rs_text = ''ok''\<rparr>"

definition demo_result :: resultInput where
  "demo_result = \<lparr>si_electionId = 1, si_pollingUnitCode = ''PU'', si_partyScores = [(''AA'', 3), (''BB'', 4)], si_accreditedVoters = 9,
     si_rejectedVotes = 1, si_latitude = None, si_longitude = Some (35, 1)\<rparr>"

definition demo_report :: pendingReport where
  "demo_report = \<lparr>row_id = 1, q_createdAt = 0, q_attempts = 0, q_lastError = None, q_synced = 0, pr_pollingUnitCode = ''PU'',
     pr_electionId = 1, pr_reportType = ''result_photo'', pr_photoUri = Some ''p'', pr_photoSha256 = Some ''img'', pr_description = [],
     pr_latitude = (0, 0), pr_longitude = (0, 0)\<rparr>"

definition demo_device :: device where
  "demo_device = \<lparr>deviceClock = 0, currentOffsetMs = 0, lastSampleAt = 0, accessToken = Some ''t'', refreshToken = None,
     authExpired = 0, sent = [], apiErrors = [], online = True, dbReady = True,
     pendingReportsT = \<lparr>trows = [demo_report], nextId = 2\<rparr>, pendingCheckinsT = \<lparr>trows = [], nextId = 1\<rparr>,
     pendingResultsT = \<lparr>trows = [new_pending_result ''k1'' demo_result 0 1], nextId = 2\<rparr>, conflictLogT = \<lparr>trows = [], nextId = 1\<rparr>,
     unitCache = [], electionCache = [], documentDirectory = ''d/'', fileStore = [''p'' \<mapsto> Some ''img'', ''cam'' \<mapsto> Some ''pic''], diskWritable = True\<rparr>"

lemma demo_ok_api:
  "api demo_ok path meth body s = (Inr (TextValue ''ok''), sampled None (s\<lparr>sent := sent s @ [phone_request s path meth body]\<rparr>))"
  by (simp add: api_def bindE_run observedRequest_run Let_def returnE_run demo_ok_def res_ok_def read_body_def)

lemma demo_ok_backend: "no_device demo_ok" "accepts_results demo_ok"
  by (simp_all add: no_device_def accepts_results_def resolveSyncDeviceId_def catchE_def bindE_run demo_ok_api first_device_def returnE_run)
    (simp add: demo_ok_def res_ok_def)

lemma demo_device_queue: "trows (pendingResultsT demo_device) = [new_pending_result ''k1'' demo_result 0 1]"
  by (simp add: demo_device_def)

lemma demo_device_wf: "ids_distinct (trows (pendingResultsT demo_device))" "fresh_log demo_device"
  by (simp_all add: demo_device_def ids_distinct_def fresh_log_def)

theorem results_never_lost_witness:
  "list_all2 (\<lambda>r r'. capture r' = capture r \<and>
      (q_synced r' = q_synced r \<or> q_synced r' = 1 \<and> acknowledged demo_ok (sent (snd (syncPendingResults (\<lambda>_. []) demo_ok demo_device))) (pq_idempotencyKey r) \<or>
       q_synced r' = 2 \<and> parked (snd (syncPendingResults (\<lambda>_. []) demo_ok demo_device)) (row_id r)))
    [new_pending_result ''k1'' demo_result 0 1] (trows (pendingResultsT (snd (syncPendingResults (\<lambda>_. []) demo_ok demo_device))))"
  using results_never_lost [OF demo_device_wf refl, where toISO = "\<lambda>_. []" and srv = demo_ok] unfolding demo_device_queue .


theorem only_eligible_results_sent_witness:
  "set (concat (map (\<lambda>q. carried (rq_body q)) (sent (snd (syncPendingResults (\<lambda>_. []) demo_ok demo_device))))) \<subseteq> {''k1''}"
proof -
  have "sent demo_device = []" "pq_idempotencyKey (new_pending_result ''k1'' demo_result 0 1) = ''k1''" by (simp_all add: demo_device_def new_pending_result_def)
  with only_eligible_results_sent [where toISO = "\<lambda>_. []" and srv = demo_ok and s = demo_device] show ?thesis
    unfolding demo_device_queue by auto
qed

theorem election_cache_roundtrip_witness:
  "fst (getCachedElectionData ''k'' (snd (cacheElectionData ''k'' (JObj [(''id'', JNum (7, 0))]) demo_device))) = Inr (Some (JObj [(''id'', JNum (7, 0))]))"
  using election_cache_roundtrip [of "JObj [(''id'', JNum (7, 0))]" "''k''" demo_device] by simp

lemma demo_queue_run: "queueResult ''k2'' demo_result demo_device =
    (Inr 2, demo_device\<lparr>pendingResultsT := \<lparr>trows = [new_pending_result ''k1'' demo_result 0 1, new_pending_result ''k2'' demo_result 0 2], nextId = 3\<rparr>\<rparr>)"
  by (simp add: queueResult_def run_simps getDb_def insertRow_def Let_def pendingResultsD_def demo_device_def demo_result_def new_pending_result_def
      correctedNowMs_def applyClockOffset_def)

theorem captured_scores_submitted_witness:
  "fst (scoresOf (new_pending_result ''k2'' demo_result 0 2) demo_device) = Inr (scores_json [(''AA'', 3), (''BB'', 4)])"
  using captured_scores_submitted [OF demo_queue_run] by (auto simp: demo_device_queue) (simp add: demo_result_def)

theorem photo_pinned_witness:
  "verifyQueuedPhoto id ''d/ec8a/pic.jpg'' (Some ''pic'') (demo_device\<lparr>fileStore := (fileStore demo_device)(''d/ec8a/pic.jpg'' \<mapsto> Some ''pic'')\<rparr>) = None"
proof -
  have "persistCapturedPhoto id ''cam'' demo_device = (Inr (Some (''d/ec8a/pic.jpg'', ''pic'')),
      demo_device\<lparr>fileStore := (fileStore demo_device)(''d/ec8a/pic.jpg'' \<mapsto> Some ''pic'')\<rparr>)"
    by (simp add: persistCapturedPhoto_def demo_device_def Let_def photo_dir_def)
  from photo_pinned [OF this] show ?thesis by simp
qed

lemma demo_sync:
  "\<exists>q t. syncReport id demo_ok demo_report demo_device = (Inr Synced, t) \<and> sent t = [q] \<and> rq_path q = ''/observer/reports''"
proof -
  have ok: "verifyQueuedPhoto id ''p'' (Some ''img'') demo_device = None" by (simp add: verifyQueuedPhoto_def demo_device_def)
  have mark: "fst (mark_synced pendingReportsD i s) = Inr ()" "sent (snd (mark_synced pendingReportsD i s)) = sent s" for i s
    by (simp_all add: mark_synced_def voidE_run updateRows_def Let_def pendingReportsD_def list_all_iff)
  have cols: "row_id demo_report = 1" "q_attempts demo_report = 0" "pr_electionId demo_report = 1" "pr_photoUri demo_report = Some ''p''"
    "pr_photoSha256 demo_report = Some ''img''"
    by (simp_all add: demo_report_def)
  define q where "q = phone_request demo_device ''/observer/reports'' ''POST'' (FormBody (report_form demo_report))"
  define t where "t = snd (mark_synced pendingReportsD 1 (sampled None (demo_device\<lparr>sent := sent demo_device @ [q]\<rparr>)))"
  have m: "mark_synced pendingReportsD 1 (sampled None (demo_device\<lparr>sent := sent demo_device @ [q]\<rparr>)) = (Inr (), t)"
    using mark(1) by (simp add: t_def prod_eq_iff)
  have "syncReport id demo_ok demo_report demo_device = (Inr Synced, t)"
    using ok m cols
    by (simp add: syncReport_def shouldAttempt_def MAX_ATTEMPTS_def catchE_def bindE_run getE_run seqE_run demo_ok_api q_def returnE_run)
  moreover have "sent t = [q]" by (simp add: t_def mark(2)) (simp add: demo_device_def)
  ultimately show ?thesis by (simp add: q_def phone_request_def)
qed

lemma demo_upload: "\<exists>q. sent (snd (syncPendingData id demo_ok demo_device)) = [q] \<and> rq_path q = ''/observer/reports''"
proof -
  have "getDb demo_device = (Inr (), demo_device)" by (simp add: getDb_def run_simps demo_device_def)
  moreover have "rows_of pendingCheckinsD demo_device = []" "rows_of pendingReportsD demo_device = [demo_report]" "q_synced demo_report = 0"
    "online demo_device" "accessToken demo_device = Some ''t''"
    by (simp_all add: rows_of_def device_tables demo_device_def demo_report_def)
  ultimately show ?thesis
    using demo_sync by (auto simp: syncPendingData_def run_simps order_by_def)
qed


end
