(* ===== verification/Election_Choice.thy ===== *)
theory Election_Choice
  imports Campaign_Prelude "HOL-Library.Multiset"
begin

text \<open>
  The election a screen works on: the rule that the phone application (\<^verbatim>\<open>src/inec-mobile/src/lib/election-picker.ts\<close>,
  \<^verbatim>\<open>election.tsx\<close>) and the web frontend (\<^verbatim>\<open>src/inec-frontend/src/lib/gotv-session.tsx\<close>) share. An explicit choice
  that is stored and still offered wins; otherwise the latest active election, or the latest of all when none is
  active. \<open>Date.parse\<close> is a parameter, \<open>None\<close> is \<open>NaN\<close>.
\<close>

section \<open>Sorting with a comparison function\<close>

text \<open>\<open>xs.sort(cmp)\<close>: a stable sort. For a comparison that is not consistent the language leaves the order open; the
  model then inserts the elements from the right.\<close>

fun insertBy :: "('a \<Rightarrow> 'a \<Rightarrow> int) \<Rightarrow> 'a \<Rightarrow> 'a list \<Rightarrow> 'a list" where
  "insertBy cmp x [] = [x]"
| "insertBy cmp x (y # ys) = (if cmp x y \<le> 0 then x # y # ys else y # insertBy cmp x ys)"

definition sortBy :: "('a \<Rightarrow> 'a \<Rightarrow> int) \<Rightarrow> 'a list \<Rightarrow> 'a list" where
  "sortBy cmp xs = foldr (insertBy cmp) xs []"

lemma sortBy_empty [simp]: "sortBy cmp [] = []"
  by (simp add: sortBy_def)

lemma mset_insertBy [simp]: "mset (insertBy cmp x ys) = add_mset x (mset ys)"
  by (induction ys) simp_all

lemma mset_sortBy [simp]: "mset (sortBy cmp xs) = mset xs"
  by (induction xs) (simp_all add: sortBy_def)

lemma set_insertBy [simp]: "set (insertBy cmp x ys) = insert x (set ys)"
  by (metis mset_insertBy set_mset_add_mset_insert set_mset_mset)

lemma set_sortBy [simp]: "set (sortBy cmp xs) = set xs"
  by (metis mset_sortBy set_mset_mset)

lemma length_sortBy [simp]: "length (sortBy cmp xs) = length xs"
  by (metis mset_sortBy size_mset)

lemma sortBy_nil [simp]: "sortBy cmp xs = [] \<longleftrightarrow> xs = []"
  by (metis length_0_conv length_sortBy)

lemma sortBy_first: "sortBy cmp xs = e # rest \<Longrightarrow> e \<in> set xs"
  by (metis list.set_intros(1) set_sortBy)

text \<open>A comparison by the difference of a key.\<close>

lemma sorted_insertBy:
  assumes "\<And>y. y \<in> set (x # ys) \<Longrightarrow> cmp x y = key x - key y"
  shows "sorted (map key ys) \<Longrightarrow> sorted (map key (insertBy cmp x ys))"
  using assms by (induction ys) (auto simp: less_imp_le)

lemma sorted_sortBy:
  assumes "\<And>x y. x \<in> set xs \<Longrightarrow> y \<in> set xs \<Longrightarrow> cmp x y = key x - (key y :: int)"
  shows "sorted (map key (sortBy cmp xs))"
  using assms
proof (induction xs)
  case (Cons x xs)
  then have "sorted (map key (sortBy cmp xs))" by simp
  moreover have "cmp x y = key x - key y" if "y \<in> set (x # sortBy cmp xs)" for y using Cons.prems that by auto
  ultimately have "sorted (map key (insertBy cmp x (sortBy cmp xs)))" by (rule sorted_insertBy [rotated])
  then show ?case by (simp add: sortBy_def)
qed (simp add: sortBy_def)

section \<open>The choice\<close>

record electionInfo =
  el_id :: int
  el_date :: "string option"
  el_status :: "string option"

definition compareDates :: "(string \<Rightarrow> int option) \<Rightarrow> electionInfo \<Rightarrow> electionInfo \<Rightarrow> int" where
  "compareDates parse a b =
     (case (parse (nullish (el_date b) []), parse (nullish (el_date a) [])) of
        (Some x, Some y) \<Rightarrow> x - y
      | _ \<Rightarrow> 0)"

definition is_active :: "electionInfo \<Rightarrow> bool" where
  "is_active e \<longleftrightarrow> toLowerCase (nullish (el_status e) []) = ''active''"

definition pickLatestActiveElection :: "(string \<Rightarrow> int option) \<Rightarrow> electionInfo list \<Rightarrow> electionInfo option" where
  "pickLatestActiveElection parse elections =
     (if elections = [] then None
      else
        let active = filter is_active elections;
            pool = (if active \<noteq> [] then active else elections)
        in case sortBy (compareDates parse) pool of [] \<Rightarrow> None | e # _ \<Rightarrow> Some e)"

text \<open>The stored choice \<open>Number(raw)\<close> is a parameter's result: \<open>num\<close> reads a text as a finite integer.\<close>

definition persistedId :: "(string \<Rightarrow> int option) \<Rightarrow> string option \<Rightarrow> int option" where
  "persistedId num raw =
     (case raw of
        None \<Rightarrow> None
      | Some t \<Rightarrow> if t = [] then None else (case num t of Some i \<Rightarrow> if i > 0 then Some i else None | None \<Rightarrow> None))"

definition persistedValid :: "int option \<Rightarrow> electionInfo list \<Rightarrow> int option" where
  "persistedValid persisted elections =
     (case persisted of Some i \<Rightarrow> if list_ex (\<lambda>e. el_id e = i) elections then Some i else None | None \<Rightarrow> None)"

text \<open>The phone's resolver once the list was fetched or the request failed (with its message).\<close>

record resolvedElection =
  re_electionId :: "int option"
  re_elections :: "electionInfo list"
  re_error :: "string option"

definition resolveElection ::
  "(string \<Rightarrow> int option) \<Rightarrow> int option \<Rightarrow> string + electionInfo list option \<Rightarrow> resolvedElection" where
  "resolveElection parse persisted outcome =
     (case outcome of
        Inr list \<Rightarrow>
          let elections = nullish list []
          in \<lparr>re_electionId = (case persistedValid persisted elections of
                  Some i \<Rightarrow> Some i
                | None \<Rightarrow> map_option el_id (pickLatestActiveElection parse elections)),
              re_elections = elections, re_error = None\<rparr>
      | Inl message \<Rightarrow> \<lparr>re_electionId = persisted, re_elections = [], re_error = Some message\<rparr>)"

definition chosenElection :: "resolvedElection \<Rightarrow> electionInfo option" where
  "chosenElection r = find (\<lambda>e. Some (el_id e) = re_electionId r) (re_elections r)"

text \<open>An explicit choice, with what the storage then holds; \<open>ok\<close> says whether the storage accepts the statement.\<close>

definition selectElection :: "bool \<Rightarrow> int option \<Rightarrow> resolvedElection \<times> string option \<Rightarrow> resolvedElection \<times> string option" where
  "selectElection ok i x =
     (case x of (r, raw) \<Rightarrow>
       (r\<lparr>re_electionId := i\<rparr>,
        if \<not> ok then raw else (case i of Some n \<Rightarrow> if n > 0 then Some (show_int n) else None | None \<Rightarrow> None)))"

section \<open>Properties\<close>

text \<open>The elections among which the latest is taken.\<close>

definition election_pool :: "electionInfo list \<Rightarrow> electionInfo list" where
  "election_pool es = (if filter is_active es \<noteq> [] then filter is_active es else es)"

lemma pick_pool: "pickLatestActiveElection parse es = (case sortBy (compareDates parse) (election_pool es) of [] \<Rightarrow> None | e # _ \<Rightarrow> Some e)"
  by (simp add: pickLatestActiveElection_def election_pool_def Let_def sortBy_def)

lemma pool_subset: "set (election_pool es) \<subseteq> set es"
  by (auto simp: election_pool_def)

lemma pool_empty: "election_pool es = [] \<longleftrightarrow> es = []"
  by (auto simp: election_pool_def)

lemma pick_Some: "pickLatestActiveElection parse es = Some e \<longleftrightarrow> (\<exists>rest. sortBy (compareDates parse) (election_pool es) = e # rest)"
  by (simp add: pick_pool split: list.splits)

lemma pick_in_list: "pickLatestActiveElection parse es = Some e \<Longrightarrow> e \<in> set es"
  using pool_subset [of es] by (auto simp: pick_Some dest: sortBy_first)

lemma pick_none: "pickLatestActiveElection parse es = None \<longleftrightarrow> es = []"
proof -
  have "pickLatestActiveElection parse es = None \<longleftrightarrow> sortBy (compareDates parse) (election_pool es) = []"
    by (simp add: pick_pool del: sortBy_nil split: list.splits)
  then show ?thesis by (simp only: sortBy_nil pool_empty)
qed

text \<open>With dates that parse, the pick is active if any election is, and no election of its kind is later.\<close>

lemma pick_latest:
  assumes "pickLatestActiveElection parse es = Some e"
    and "\<And>x. x \<in> set es \<Longrightarrow> parse (nullish (el_date x) []) = Some (day x)"
  shows "list_ex is_active es \<longrightarrow> is_active e"
    and "\<forall>x \<in> set es. list_ex is_active es \<longrightarrow> is_active x \<longrightarrow> day x \<le> day e"
    and "\<not> list_ex is_active es \<longrightarrow> (\<forall>x \<in> set es. day x \<le> day e)"
proof -
  define pool where "pool = election_pool es"
  have pool: "set pool \<subseteq> set es" by (simp add: pool_def pool_subset)
  obtain rest where top: "sortBy (compareDates parse) pool = e # rest" using assms(1) by (auto simp: pick_Some pool_def)
  have "compareDates parse x y = (- day x) - (- day y)" if "x \<in> set pool" "y \<in> set pool" for x y
    using assms(2) [OF subsetD [OF pool that(1)]] assms(2) [OF subsetD [OF pool that(2)]] by (simp add: compareDates_def)
  then have "sorted (map (\<lambda>x. - day x) (sortBy (compareDates parse) pool))" by (rule sorted_sortBy)
  then have latest: "day x \<le> day e" if "x \<in> set pool" for x
    using that set_sortBy [of "compareDates parse" pool] by (auto simp: top simp del: set_sortBy)
  have e: "e \<in> set pool" using top by (rule sortBy_first)
  have some: "list_ex is_active es \<longleftrightarrow> filter is_active es \<noteq> []" by (auto simp: list_ex_iff filter_empty_conv)
  show "list_ex is_active es \<longrightarrow> is_active e" using e by (auto simp: some pool_def election_pool_def)
  show "\<forall>x \<in> set es. list_ex is_active es \<longrightarrow> is_active x \<longrightarrow> day x \<le> day e" using latest by (auto simp: some pool_def election_pool_def)
  show "\<not> list_ex is_active es \<longrightarrow> (\<forall>x \<in> set es. day x \<le> day e)" using latest by (auto simp: some pool_def election_pool_def)
qed

text \<open>An id is never invented: it is the stored choice or that of an election of the list. While the list cannot be
  fetched only a stored choice is used.\<close>

lemma resolved_from:
  "re_electionId (resolveElection parse persisted outcome) = Some i \<Longrightarrow>
   persisted = Some i \<or> (\<exists>es. outcome = Inr (Some es) \<and> i \<in> el_id ` set es)"
proof (cases outcome)
  case (Inr es)
  assume "re_electionId (resolveElection parse persisted outcome) = Some i"
  then show ?thesis
    using Inr pick_in_list [of parse "nullish es []"] pick_none [of parse "[]"]
    by (cases es) (auto simp: resolveElection_def nullish_def persistedValid_def split: option.splits if_splits)
qed (simp add: resolveElection_def)

text \<open>A choice that was stored is the one the next launch resolves, as long as the election is listed or the list cannot be fetched.\<close>

lemma selection_survives_launch:
  assumes "0 < i" "show_int i \<noteq> []" "num (show_int i) = Some i"
    and "outcome = Inr (Some es) \<and> i \<in> el_id ` set es \<or> (\<exists>m. outcome = Inl m)"
  shows "re_electionId (resolveElection parse (persistedId num (snd (selectElection True (Some i) x))) outcome) = Some i"
  using assms
  by (cases x) (auto simp: selectElection_def persistedId_def resolveElection_def persistedValid_def nullish_def list_ex_iff)

end
