(* ===== verification/Result_Capture.thy ===== *)
theory Result_Capture
  imports Offline_Outbox Election_Choice
begin

text \<open>
  The screen on which an observer captures the result of a polling unit
  (\<^verbatim>\<open>src/inec-mobile/app/result-capture.tsx\<close>, with \<^verbatim>\<open>src/inec-mobile/src/lib/location.ts\<close>): the form and its edits, and
  the submission, which queues the result in the outbox and then drains it. Numbers are exact, which a double is up to
  \<open>2\<^sup>5\<^sup>3\<close>. Haptics and rendering are left out.
\<close>

section \<open>The form\<close>

record scoreRow =
  sr_key :: string
  sr_party_code :: string
  sr_votes :: string

record captureForm =
  cf_puCode :: string
  cf_scores :: "scoreRow list"
  cf_accredited :: string
  cf_rejected :: string
  cf_rowSeq :: nat
  cf_pending :: "pendingResult list"

definition row_key :: "nat \<Rightarrow> string" where
  "row_key n = ''row-'' @ show_nat n"

text \<open>\<open>newRow\<close> advances the module's counter \<open>rowSeq\<close>.\<close>

definition newRow :: "nat \<Rightarrow> scoreRow" where
  "newRow seq = \<lparr>sr_key = row_key (Suc seq), sr_party_code = [], sr_votes = []\<rparr>"

definition clearForm :: "captureForm \<Rightarrow> captureForm" where
  "clearForm f = f\<lparr>cf_puCode := [], cf_scores := [newRow (cf_rowSeq f)], cf_accredited := [], cf_rejected := [],
     cf_rowSeq := Suc (cf_rowSeq f)\<rparr>"

definition openForm :: "nat \<Rightarrow> captureForm" where
  "openForm seq = \<lparr>cf_puCode = [], cf_scores = [newRow seq], cf_accredited = [], cf_rejected = [], cf_rowSeq = Suc seq, cf_pending = []\<rparr>"

definition only_digits :: "string \<Rightarrow> string" where
  "only_digits v = filter is_digit v"

definition updateParty :: "string \<Rightarrow> string \<Rightarrow> captureForm \<Rightarrow> captureForm" where
  "updateParty k v f = f\<lparr>cf_scores := map (\<lambda>r. if sr_key r = k then r\<lparr>sr_party_code := v\<rparr> else r) (cf_scores f)\<rparr>"

definition updateVotes :: "string \<Rightarrow> string \<Rightarrow> captureForm \<Rightarrow> captureForm" where
  "updateVotes k v f = f\<lparr>cf_scores := map (\<lambda>r. if sr_key r = k then r\<lparr>sr_votes := only_digits v\<rparr> else r) (cf_scores f)\<rparr>"

definition addRow :: "captureForm \<Rightarrow> captureForm" where
  "addRow f = f\<lparr>cf_scores := cf_scores f @ [newRow (cf_rowSeq f)], cf_rowSeq := Suc (cf_rowSeq f)\<rparr>"

definition removeRow :: "string \<Rightarrow> captureForm \<Rightarrow> captureForm" where
  "removeRow k f = f\<lparr>cf_scores := (if length (cf_scores f) > 1 then filter (\<lambda>r. sr_key r \<noteq> k) (cf_scores f) else cf_scores f)\<rparr>"

definition setPuCode :: "string \<Rightarrow> captureForm \<Rightarrow> captureForm" where
  "setPuCode v f = f\<lparr>cf_puCode := v\<rparr>"

definition setAccredited :: "string \<Rightarrow> captureForm \<Rightarrow> captureForm" where
  "setAccredited v f = f\<lparr>cf_accredited := only_digits v\<rparr>"

definition setRejected :: "string \<Rightarrow> captureForm \<Rightarrow> captureForm" where
  "setRejected v f = f\<lparr>cf_rejected := only_digits v\<rparr>"

section \<open>The location\<close>

record locationService =
  ls_foreground :: string \<comment> \<open>the status the permission request ends with\<close>
  ls_position :: "error + decimal \<times> decimal"

definition requestLocationPermission :: "locationService \<Rightarrow> bool" where
  "requestLocationPermission L \<longleftrightarrow> ls_foreground L = ''granted''"

definition getCurrentLocation :: "locationService \<Rightarrow> error + (decimal \<times> decimal) option" where
  "getCurrentLocation L =
     (if \<not> requestLocationPermission L then Inr None
      else case ls_position L of Inl e \<Rightarrow> Inl e | Inr p \<Rightarrow> Inr (Some p))"

section \<open>The submission\<close>

text \<open>\<open>parseInt(s, 10)\<close>; \<open>None\<close> is \<open>NaN\<close>.\<close>

definition parseInt :: "string \<Rightarrow> int option" where
  "parseInt s =
     (let t = trimLeft s;
          sgn = (if take 1 t = ''-'' then - 1 else 1);
          ds = takeWhile is_digit (if take 1 t = ''-'' \<or> take 1 t = ''+'' then drop 1 t else t)
      in if ds = [] then None else Some (sgn * int (digits_val ds)))"

definition upper_char :: "char \<Rightarrow> char" where
  "upper_char c = (if is_lower c then char_of (of_char c - 32 :: nat) else c)"

definition toUpperCase :: "string \<Rightarrow> string" where
  "toUpperCase s = map upper_char s"

definition parsedScores :: "captureForm \<Rightarrow> (string \<times> int option) list" where
  "parsedScores f =
     filter (\<lambda>(p, _). length p > 0) (map (\<lambda>r. (toUpperCase (trim (sr_party_code r)), parseInt (sr_votes r))) (cf_scores f))"

definition scores_ok :: "(string \<times> int option) list \<Rightarrow> bool" where
  "scores_ok scores \<longleftrightarrow> scores \<noteq> [] \<and> \<not> list_ex (\<lambda>(_, v). case v of None \<Rightarrow> True | Some n \<Rightarrow> n < 0) scores"

definition capturedResult :: "captureForm \<Rightarrow> int \<Rightarrow> (decimal \<times> decimal) option \<Rightarrow> resultInput" where
  "capturedResult f e loc =
     \<lparr>si_electionId = e, si_pollingUnitCode = trim (cf_puCode f),
      si_partyScores = map (\<lambda>(p, v). (p, nullish v 0)) (parsedScores f),
      si_accreditedVoters = nullish (parseInt (cf_accredited f)) 0,
      si_rejectedVotes = nullish (parseInt (cf_rejected f)) 0,
      si_latitude = map_option fst loc, si_longitude = map_option snd loc\<rparr>"

datatype captureAlert =
    PuCodeRequired
  | InvalidScores
  | ElectionUnavailable "string option"
  | Submitted
  | Queued
  | CaptureFailed error

definition loadPending :: "captureForm \<Rightarrow> (device, captureForm) proc" where
  "loadPending f = bindE (catchE getPendingResults (\<lambda>_. returnE [])) (\<lambda>rows. returnE (f\<lparr>cf_pending := rows\<rparr>))"

definition runSync :: "(time \<Rightarrow> string) \<Rightarrow> backend \<Rightarrow> captureForm \<Rightarrow> (device, resultSyncSummary \<times> captureForm) proc" where
  "runSync toISO srv f =
     bindE (syncPendingResults toISO srv) (\<lambda>summary. bindE (loadPending f) (\<lambda>f'. returnE (summary, f')))"

definition submit ::
  "string \<Rightarrow> (time \<Rightarrow> string) \<Rightarrow> backend \<Rightarrow> locationService \<Rightarrow> resolvedElection \<Rightarrow> captureForm \<Rightarrow>
   (device, captureAlert \<times> captureForm) proc" where
  "submit uuid toISO srv L re f =
     (if trim (cf_puCode f) = [] then returnE (PuCodeRequired, f)
      else if \<not> scores_ok (parsedScores f) then returnE (InvalidScores, f)
      else case re_electionId re of
        None \<Rightarrow> returnE (ElectionUnavailable (re_error re), f)
      | Some e \<Rightarrow>
          if e = 0 then returnE (ElectionUnavailable (re_error re), f)
          else
            let loc = (case getCurrentLocation L of Inl _ \<Rightarrow> None | Inr l \<Rightarrow> l)
            in catchE
                 (seqE (queueResult uuid (capturedResult f e loc))
                   (bindE (runSync toISO srv f) (\<lambda>(summary, f').
                    returnE (if rs_synced summary > 0 \<or> rs_duplicates summary > 0 then Submitted else Queued, clearForm f'))))
                 (\<lambda>err. returnE (CaptureFailed err, f)))"

section \<open>Edits\<close>

text \<open>The form always has a row, its rows have different keys, and its numbers are digits only.\<close>

definition wf_form :: "captureForm \<Rightarrow> bool" where
  "wf_form f \<longleftrightarrow>
     cf_scores f \<noteq> [] \<and> distinct (map sr_key (cf_scores f)) \<and>
     (\<forall>r \<in> set (cf_scores f). list_all is_digit (sr_votes r) \<and> (\<exists>n \<le> cf_rowSeq f. sr_key r = row_key n)) \<and>
     list_all is_digit (cf_accredited f) \<and> list_all is_digit (cf_rejected f)"

lemma row_key_inj: "row_key m = row_key n \<longleftrightarrow> m = n"
  by (metis append_same_eq digits_val_show_nat row_key_def same_append_eq)

lemma only_digits_all: "list_all is_digit (only_digits v)"
  by (simp add: only_digits_def list_all_iff)

lemma new_key_fresh: "wf_form f \<Longrightarrow> r \<in> set (cf_scores f) \<Longrightarrow> sr_key r \<noteq> row_key (Suc (cf_rowSeq f))"
  by (fastforce simp: wf_form_def row_key_inj)

lemma wf_form_update:
  assumes "wf_form f" and "\<And>r. sr_key (g r) = sr_key r" and "\<And>r. list_all is_digit (sr_votes r) \<Longrightarrow> list_all is_digit (sr_votes (g r))"
  shows "wf_form (f\<lparr>cf_scores := map g (cf_scores f)\<rparr>)"
proof -
  have "map sr_key (map g (cf_scores f)) = map sr_key (cf_scores f)" using assms(2) by simp
  with assms show ?thesis unfolding wf_form_def by (auto simp del: map_map)
qed

lemma wf_addRow: "wf_form f \<Longrightarrow> wf_form (addRow f)"
  using new_key_fresh [of f] by (auto simp: wf_form_def addRow_def newRow_def le_Suc_eq)

lemma wf_removeRow: "wf_form f \<Longrightarrow> wf_form (removeRow k f)"
proof -
  assume wf: "wf_form f"
  have "filter (\<lambda>r. sr_key r \<noteq> k) (cf_scores f) \<noteq> []" if "length (cf_scores f) > 1"
  proof
    assume "filter (\<lambda>r. sr_key r \<noteq> k) (cf_scores f) = []"
    then have same: "\<forall>r \<in> set (cf_scores f). sr_key r = k" by (simp add: filter_empty_conv)
    from that obtain a b rest where "cf_scores f = a # b # rest" by (cases "cf_scores f"; cases "tl (cf_scores f)") auto
    with same wf show False by (simp add: wf_form_def)
  qed
  with wf show ?thesis by (auto simp: wf_form_def removeRow_def intro: distinct_map_filter)
qed

lemma wf_edits:
  "wf_form (openForm n)"
  "wf_form f \<Longrightarrow> wf_form (clearForm f)"
  "wf_form f \<Longrightarrow> wf_form (updateParty k v f)"
  "wf_form f \<Longrightarrow> wf_form (updateVotes k v f)"
  "wf_form f \<Longrightarrow> wf_form (setPuCode v f)"
  "wf_form f \<Longrightarrow> wf_form (setAccredited v f)"
  "wf_form f \<Longrightarrow> wf_form (setRejected v f)"
  unfolding updateParty_def updateVotes_def
  by (auto simp: only_digits_all intro: wf_form_update)
    (auto simp: wf_form_def openForm_def clearForm_def newRow_def setPuCode_def setAccredited_def setRejected_def only_digits_all intro: le_refl)

section \<open>Capturing\<close>

text \<open>What is queued has real party codes and counts; anything else is refused and leaves the phone alone.\<close>

lemma captured_values:
  assumes "scores_ok (parsedScores f)" and "(p, n) \<in> set (si_partyScores (capturedResult f e loc))"
  shows "p \<noteq> [] \<and> (\<exists>r \<in> set (cf_scores f). p = toUpperCase (trim (sr_party_code r)) \<and> parseInt (sr_votes r) = Some n) \<and> 0 \<le> n"
  using assms by (fastforce simp: scores_ok_def capturedResult_def parsedScores_def list_ex_iff nullish_def split: option.splits)

lemma capture_refused:
  assumes "trim (cf_puCode f) = [] \<or> \<not> scores_ok (parsedScores f) \<or> \<not> truthy_id (re_electionId re)"
  shows "\<exists>a. submit uuid toISO srv L re f s = (Inr (a, f), s) \<and> a \<notin> {Submitted, Queued}"
  using assms by (auto simp: submit_def truthy_id_def returnE_run split: option.splits)

text \<open>A queue that can take the result: distinct ids below the sequence, and a key that was not used.\<close>

definition queue_ready :: "string \<Rightarrow> device \<Rightarrow> bool" where
  "queue_ready uuid s \<longleftrightarrow>
     ids_distinct (trows (pendingResultsT s)) \<and> fresh_log s \<and>
     (\<forall>r \<in> set (trows (pendingResultsT s)). row_id r < nextId (pendingResultsT s) \<and> pq_idempotencyKey r \<noteq> uuid)"

lemma correctedNow_getDb: "correctedNowMs (snd (getDb s)) = correctedNowMs s"
  by (simp add: correctedNowMs_def getDb_def run_simps updateRows_def Let_def device_tables list_all_iff)

lemma queueResult_ready:
  assumes "queue_ready uuid s" and "si_electionId d > 0" and "si_partyScores d \<noteq> []"
  obtains s1 where "queueResult uuid d s = (Inr (nextId (pendingResultsT s)), s1)"
    and "trows (pendingResultsT s1) =
      trows (pendingResultsT s) @ [new_pending_result uuid d (correctedNowMs s) (nextId (pendingResultsT s))]"
    and "ids_distinct (trows (pendingResultsT s1))" and "fresh_log s1"
proof -
  define d0 where "d0 = snd (getDb s)"
  have d0: "pendingResultsT d0 = pendingResultsT s" "conflictLogT d0 = conflictLogT s" "correctedNowMs d0 = correctedNowMs s"
    by (simp_all add: d0_def getDb_frame correctedNow_getDb)
  let ?i = "nextId (pendingResultsT s)"
  let ?r = "new_pending_result uuid d (correctedNowMs s) ?i"
  define s1 where "s1 = d0\<lparr>pendingResultsT := \<lparr>trows = trows (pendingResultsT s) @ [?r], nextId = ?i + 1\<rparr>\<rparr>"
  have free: "\<not> list_ex (\<lambda>x. row_id x = ?i \<or> pq_idempotencyKey x = uuid) (trows (pendingResultsT s))"
    using assms(1) by (auto simp: queue_ready_def list_ex_iff)
  have "queueResult uuid d s = (Inr ?i, s1)"
    unfolding queueResult_def seqE_guard [OF assms(2)] seqE_guard [OF assms(3)] getDb_seq d0_def [symmetric]
    using free by (simp add: bindE_run getE_run returnE_run insertRow_def Let_def pendingResultsD_def d0 s1_def new_pending_result_def)
  moreover have "trows (pendingResultsT s1) = trows (pendingResultsT s) @ [?r]" by (simp add: s1_def)
  moreover have "ids_distinct (trows (pendingResultsT s1))"
    using assms(1) by (auto simp: s1_def queue_ready_def ids_distinct_def new_pending_result_def)
  moreover have "fresh_log s1" using assms(1) by (simp add: queue_ready_def fresh_log_def s1_def d0)
  ultimately show thesis by (rule that)
qed

lemma runSync_kept:
  assumes "ids_distinct (trows (pendingResultsT s))" and "fresh_log s"
  shows "results_kept srv s (snd (runSync toISO srv f s))"
proof -
  obtain r s1 where s1: "syncPendingResults toISO srv s = (r, s1)" by (rule prod.exhaust)
  have kept: "results_kept srv s s1" using kept_syncPendingResults [OF assms, of srv toISO] by (simp add: s1)
  have "results_kept srv s1 (snd (getDb s1))"
    by (simp add: results_kept_def getDb_frame list_all2_refl delivered_refl)
  then have "results_kept srv s (snd (getDb s1))" by (rule results_kept_trans [OF kept])
  moreover have "snd (loadPending f s1) = snd (getDb s1)"
    by (simp add: loadPending_def getPendingResults_def catchE_def bindE_run seqE_run returnE_run selectRows_run getDb_Inr
        split: prod.splits sum.splits)
  ultimately show ?thesis
    using kept by (cases r) (auto simp: runSync_def bindE_run s1 returnE_run split: prod.splits sum.splits)
qed


text \<open>An observer's form with two parties, captured on a phone that already has a result waiting.\<close>

definition demo_form :: captureForm where
  "demo_form = setPuCode '' PU-1 '' (updateVotes (row_key 2) ''4'' (updateParty (row_key 2) ''lp'' (addRow
     (updateVotes (row_key 1) ''1 2'' (updateParty (row_key 1) '' apc'' (openForm 0))))))"

definition demo_location :: locationService where
  "demo_location = \<lparr>ls_foreground = ''denied'', ls_position = Inl (OtherError [])\<rparr>"

lemma demo_form_ok: "trim (cf_puCode demo_form) \<noteq> []" "scores_ok (parsedScores demo_form)"
  by code_simp+

lemma demo_captured: "si_partyScores (capturedResult demo_form 1 None) = [(''APC'', 12), (''LP'', 4)]"
  by code_simp

lemma demo_queue_ready: "queue_ready ''k2'' demo_device"
  by (simp add: queue_ready_def demo_device_def ids_distinct_def fresh_log_def new_pending_result_def)

lemma list_all2_capture: "list_all2 (\<lambda>r r'. capture r' = capture r \<and> P r r') rs rs' \<Longrightarrow> map capture rs' = map capture rs"
  by (induction rule: list_all2_induct) simp_all

lemma demo_device_facts: "correctedNowMs demo_device = 0" "nextId (pendingResultsT demo_device) = 2"
  by (simp_all add: demo_device_def correctedNowMs_def applyClockOffset_def)


end
