(* ===== verification/Web_Session.thy ===== *)
theory Web_Session
  imports Uri_Text Election_Choice
begin

text \<open>
  The session of the INEC web frontend: the token store and the request function of
  \<^verbatim>\<open>src/inec-frontend/src/lib/api.ts\<close>, the provider of \<^verbatim>\<open>auth.tsx\<close>, the routing by the address fragment and the page
  roles (\<^verbatim>\<open>App.tsx\<close>, \<^verbatim>\<open>page-roles.ts\<close>), the party and election choices of \<^verbatim>\<open>gotv-session.tsx\<close>. The backend is a
  parameter, a function from the requests sent so far and the next one to its outcome; web storage never fails.
\<close>

section \<open>State\<close>

datatype webBody = NoWebBody | TextBody string | FormData "(string \<times> string) list"

record webOptions =
  wo_method :: string
  wo_headers :: "string \<rightharpoonup> string"
  wo_body :: webBody

record webRequest =
  wq_url :: string
  wq_method :: string
  wq_headers :: "string \<rightharpoonup> string"
  wq_body :: webBody

text \<open>A reply whose text is \<open>None\<close> breaks off while its body is read.\<close>

record webReply =
  wr_status :: int
  wr_statusText :: string
  wr_text :: "string option"

datatype webOutcome = WebReply webReply | WebFailed string

type_synonym webBackend = "webRequest list \<Rightarrow> webRequest \<Rightarrow> webOutcome"

datatype webError = ApiError int json | FetchError string

text \<open>The build, the module variable \<open>inMemoryToken\<close>, local storage, the fragment of the address (without \<open>#\<close>), the state of
  \<open>AuthProvider\<close>, and what was sent and how long was waited.\<close>

record browser =
  bw_DEV :: bool
  bw_API_URL :: string
  bw_memory :: "string option"
  bw_local :: "string \<rightharpoonup> string"
  bw_fragment :: string
  bw_user :: "json option"
  bw_token :: "string option"
  bw_sent :: "webRequest list"
  bw_waits :: "int list"

section \<open>The token\<close>

definition DEV_TOKEN_KEY :: string where "DEV_TOKEN_KEY = ''auth_token''"

definition setAuthToken :: "string option \<Rightarrow> browser \<Rightarrow> browser" where
  "setAuthToken token s =
     (let s1 = s\<lparr>bw_memory := token\<rparr>
      in if bw_DEV s
         then s1\<lparr>bw_local := (bw_local s)(DEV_TOKEN_KEY := (if truthy_str token then token else None))\<rparr>
         else s1)"

definition getAuthToken :: "browser \<Rightarrow> string option \<times> browser" where
  "getAuthToken s =
     (if truthy_str (bw_memory s) then (bw_memory s, s)
      else if bw_DEV s \<and> truthy_str (bw_local s DEV_TOKEN_KEY)
      then (bw_local s DEV_TOKEN_KEY, s\<lparr>bw_memory := bw_local s DEV_TOKEN_KEY\<rparr>)
      else (None, s))"

text \<open>The statement of the module that removes the token of an older build.\<close>

definition scrubToken :: "browser \<Rightarrow> browser" where
  "scrubToken s = (if \<not> bw_DEV s then s\<lparr>bw_local := (bw_local s)(DEV_TOKEN_KEY := None)\<rparr> else s)"

section \<open>Signing in and out\<close>

definition LOGOUT :: "browser \<Rightarrow> webRequest" where
  "LOGOUT s = \<lparr>wq_url = bw_API_URL s @ ''/auth/logout'', wq_method = ''POST'', wq_headers = Map.empty, wq_body = NoWebBody\<rparr>"

definition web_login :: "string \<Rightarrow> json \<Rightarrow> browser \<Rightarrow> browser" where
  "web_login newToken newUser s =
     (setAuthToken (Some newToken) (s\<lparr>bw_local := (bw_local s)(''user'' \<mapsto> stringify newUser)\<rparr>))
       \<lparr>bw_token := Some newToken, bw_user := Some newUser\<rparr>"

definition web_logout :: "browser \<Rightarrow> browser" where
  "web_logout s =
     (let s1 = setAuthToken None (s\<lparr>bw_local := (bw_local s)(''user'' := None)\<rparr>)
      in s1\<lparr>bw_sent := bw_sent s1 @ [LOGOUT s1], bw_token := None, bw_user := None\<rparr>)"

text \<open>\<open>window.location.hash.replace(/^#\/?/, '')\<close>.\<close>

definition fragment_path :: "browser \<Rightarrow> string" where
  "fragment_path s = (if take 1 (bw_fragment s) = ''/'' then drop 1 (bw_fragment s) else bw_fragment s)"

definition onSessionExpired :: "browser \<Rightarrow> browser" where
  "onSessionExpired s =
     (let returnTo = (if fragment_path s = [] then ''dashboard'' else fragment_path s)
      in (web_logout s)\<lparr>bw_fragment := ''/login?returnTo='' @ encodeURIComponent returnTo\<rparr>)"

definition handleAuthFailure :: "browser \<Rightarrow> browser" where
  "handleAuthFailure s = onSessionExpired (setAuthToken None (s\<lparr>bw_local := (bw_local s)(''user'' := None)\<rparr>))"

section \<open>Requests\<close>

definition wr_ok :: "webReply \<Rightarrow> bool" where
  "wr_ok r \<longleftrightarrow> 200 \<le> wr_status r \<and> wr_status r \<le> 299"

datatype attemptResult =
    Returned "json option"
  | SessionOver
  | Refused int "json option" \<comment> \<open>a reply that is not ok; \<open>None\<close>: reading its detail throws\<close>
  | Unusable json
  | Broken string

definition member :: "string \<Rightarrow> json \<Rightarrow> json option" where
  "member k v = (case v of JObj fs \<Rightarrow> map_of fs k | _ \<Rightarrow> None)"

text \<open>\<open>err.detail || err.error || 'Request failed'\<close>; on \<open>null\<close> this is a \<open>TypeError\<close>.\<close>

definition error_detail :: "json \<Rightarrow> json option" where
  "error_detail err =
     (if err = JNull then None
      else if truthy_json (member ''detail'' err) then member ''detail'' err
      else if truthy_json (member ''error'' err) then member ''error'' err
      else Some (JStr ''Request failed''))"

definition EMPTY_RESPONSE :: json where
  "EMPTY_RESPONSE = JStr ''The service returned an empty response. Please retry or check its operational status.''"

definition INVALID_RESPONSE :: json where
  "INVALID_RESPONSE = JStr ''The service returned an invalid response. Please retry or check its operational status.''"

definition classifyReply :: "string \<Rightarrow> webReply \<Rightarrow> attemptResult" where
  "classifyReply path r =
     (if \<not> wr_ok r then
        let err = nullish (Option.bind (wr_text r) jsonParse) (JObj [(''detail'', JStr (wr_statusText r))])
        in if wr_status r = 401 \<and> path \<noteq> ''/auth/login'' \<and> path \<noteq> ''/auth/refresh'' then SessionOver
           else Refused (wr_status r) (error_detail err)
      else if wr_status r = 204 then Returned None
      else case wr_text r of
        None \<Rightarrow> Broken ''TypeError''
      | Some body \<Rightarrow>
          if trim body = [] then Unusable EMPTY_RESPONSE
          else (case jsonParse body of None \<Rightarrow> Unusable INVALID_RESPONSE | Some v \<Rightarrow> Returned (Some v)))"

datatype attemptStep = Finish "webError + json option" | Again webError

text \<open>One pass of the loop; \<open>again\<close> says whether a retry is left.\<close>

definition attemptOnce :: "webBackend \<Rightarrow> webRequest \<Rightarrow> string \<Rightarrow> bool \<Rightarrow> browser \<Rightarrow> attemptStep \<times> browser" where
  "attemptOnce srv req path again s =
     (let s1 = s\<lparr>bw_sent := bw_sent s @ [req]\<rparr>
      in case srv (bw_sent s) req of
           WebFailed m \<Rightarrow> (Again (FetchError m), s1)
         | WebReply r \<Rightarrow>
             (case classifyReply path r of
                Returned v \<Rightarrow> (Finish (Inr v), s1)
              | SessionOver \<Rightarrow> (Finish (Inl (ApiError 401 (JStr ''Session expired''))), handleAuthFailure s1)
              | Refused status detail \<Rightarrow>
                  if again \<and> status \<ge> 500 then (Again (FetchError []), s1)
                  else (case detail of
                          None \<Rightarrow> (Again (FetchError ''TypeError''), s1)
                        | Some d \<Rightarrow> (Finish (Inl (ApiError status d)), s1))
              | Unusable d \<Rightarrow> (Finish (Inl (ApiError 502 d)), s1)
              | Broken m \<Rightarrow> (Again (FetchError m), s1)))"

fun attemptFrom ::
  "webBackend \<Rightarrow> webRequest \<Rightarrow> string \<Rightarrow> nat \<Rightarrow> nat \<Rightarrow> browser \<Rightarrow> (webError + json option) \<times> browser" where
  "attemptFrom srv req path attempt 0 s =
     (case attemptOnce srv req path False s of (Finish r, s') \<Rightarrow> (r, s') | (Again e, s') \<Rightarrow> (Inl e, s'))"
| "attemptFrom srv req path attempt (Suc left) s =
     (case attemptOnce srv req path True s of
        (Finish r, s') \<Rightarrow> (r, s')
      | (Again e, s') \<Rightarrow>
          attemptFrom srv req path (Suc attempt) left (s'\<lparr>bw_waits := bw_waits s' @ [1000 * (int attempt + 1)]\<rparr>))"

definition web_headers :: "string option \<Rightarrow> webOptions \<Rightarrow> (string \<rightharpoonup> string)" where
  "web_headers token opts =
     (let hs = [''Content-Type'' \<mapsto> ''application/json''] ++
            (case token of Some t \<Rightarrow> [''Authorization'' \<mapsto> ''Bearer '' @ t] | None \<Rightarrow> Map.empty) ++ wo_headers opts
      in case wo_body opts of FormData _ \<Rightarrow> hs(''Content-Type'' := None) | _ \<Rightarrow> hs)"

definition web_request ::
  "webBackend \<Rightarrow> string \<Rightarrow> webOptions \<Rightarrow> nat \<Rightarrow> browser \<Rightarrow> (webError + json option) \<times> browser" where
  "web_request srv path opts retries s =
     (case getAuthToken s of
        (token, s1) \<Rightarrow>
          let req = \<lparr>wq_url = (if starts_with path ''/gotv'' then [] else bw_API_URL s1) @ path, wq_method = wo_method opts,
                     wq_headers = web_headers token opts, wq_body = wo_body opts\<rparr>
          in attemptFrom srv req path 0 retries s1)"

definition api_get :: "webBackend \<Rightarrow> string \<Rightarrow> browser \<Rightarrow> (webError + json option) \<times> browser" where
  "api_get srv path = web_request srv path \<lparr>wo_method = ''GET'', wo_headers = Map.empty, wo_body = NoWebBody\<rparr> 2"

definition api_send :: "webBackend \<Rightarrow> string \<Rightarrow> string \<Rightarrow> json option \<Rightarrow> browser \<Rightarrow> (webError + json option) \<times> browser" where
  "api_send srv verb path d =
     web_request srv path
       \<lparr>wo_method = verb, wo_headers = Map.empty,
        wo_body = (if truthy_json d then TextBody (stringify (the d)) else NoWebBody)\<rparr> 2"

definition api_login :: "webBackend \<Rightarrow> string \<Rightarrow> string \<Rightarrow> browser \<Rightarrow> (webError + json option) \<times> browser" where
  "api_login srv username password =
     web_request srv ''/auth/login''
       \<lparr>wo_method = ''POST'', wo_headers = Map.empty,
        wo_body = TextBody (stringify (JObj [(''username'', JStr username), (''password'', JStr password)]))\<rparr> 2"

section \<open>Loading the application\<close>

text \<open>The initial state of the provider; \<open>None\<close> when the stored user is not JSON and the first rendering throws.\<close>

definition openApp :: "bool \<Rightarrow> string \<Rightarrow> (string \<rightharpoonup> string) \<Rightarrow> string \<Rightarrow> browser option" where
  "openApp dev url storage fragment =
     (let s0 = scrubToken \<lparr>bw_DEV = dev, bw_API_URL = url, bw_memory = None, bw_local = storage, bw_fragment = fragment,
                 bw_user = None, bw_token = None, bw_sent = [], bw_waits = []\<rparr>;
          stored = bw_local s0 ''user''
      in case (if truthy_str stored then jsonParse (the stored) else Some JNull) of
           None \<Rightarrow> None
         | Some u \<Rightarrow>
             (case getAuthToken s0 of
                (t, s1) \<Rightarrow>
                  Some (s1\<lparr>bw_user := (if u = JNull then None else Some u),
                           bw_token := (if t \<noteq> None then t else if truthy_str stored then Some ''httponly-cookie'' else None)\<rparr>)))"

definition AUTH_ME :: "browser \<Rightarrow> webRequest" where
  "AUTH_ME s =
     \<lparr>wq_url = bw_API_URL s @ ''/auth/me'', wq_method = ''GET'',
      wq_headers = (case bw_token s of
         Some t \<Rightarrow> if t \<noteq> ''httponly-cookie'' then [''Authorization'' \<mapsto> ''Bearer '' @ t] else Map.empty
       | None \<Rightarrow> Map.empty),
      wq_body = NoWebBody\<rparr>"

definition verifyOnMount :: "webBackend \<Rightarrow> browser \<Rightarrow> browser" where
  "verifyOnMount srv s =
     (if truthy_str (bw_token s) \<and> bw_user s = None then web_logout s
      else if bw_user s \<noteq> None \<and> truthy_str (bw_token s) then
        let s1 = s\<lparr>bw_sent := bw_sent s @ [AUTH_ME s]\<rparr>
        in case srv (bw_sent s) (AUTH_ME s) of
             WebReply r \<Rightarrow> if wr_ok r then s1 else web_logout s1
           | WebFailed _ \<Rightarrow> s1
      else s)"

section \<open>Routing\<close>

definition isAuthenticated :: "browser \<Rightarrow> bool" where
  "isAuthenticated s \<longleftrightarrow> truthy_str (bw_token s)"

text \<open>\<open>split(/[/?]/, 1)[0]\<close>.\<close>

definition page_of :: "string \<Rightarrow> string" where
  "page_of path = takeWhile (\<lambda>c. c \<noteq> CHR ''/'' \<and> c \<noteq> CHR ''?'') path"

text \<open>\<open>match(/[?&]returnTo=([^&]+)/)\<close>.\<close>

fun findReturnTo :: "string \<Rightarrow> string option" where
  "findReturnTo [] = None"
| "findReturnTo (c # cs) =
     (if (c = CHR ''?'' \<or> c = CHR ''&'') \<and> starts_with cs ''returnTo='' \<and> takeWhile (\<lambda>c. c \<noteq> CHR ''&'') (drop 9 cs) \<noteq> []
      then Some (takeWhile (\<lambda>c. c \<noteq> CHR ''&'') (drop 9 cs))
      else findReturnTo cs)"

text \<open>The effect that runs when \<open>isAuthenticated\<close> has changed; \<open>None\<close> when decoding throws.\<close>

definition routeEffect :: "browser \<Rightarrow> browser option" where
  "routeEffect s =
     (let hashPage = page_of (fragment_path s)
      in if \<not> isAuthenticated s then Some (if hashPage \<noteq> ''login'' then s\<lparr>bw_fragment := ''/login''\<rparr> else s)
         else if hashPage = [] \<or> hashPage = ''login'' then
           (case (case findReturnTo (bw_fragment s) of Some m \<Rightarrow> decodeURIComponent m | None \<Rightarrow> Some []) of
              None \<Rightarrow> None
            | Some target \<Rightarrow>
                Some (s\<lparr>bw_fragment := (if target \<noteq> [] \<and> target \<noteq> ''login'' then ''/'' @ target else ''/dashboard'')\<rparr>))
         else Some s)"

text \<open>\<open>page\<close> is the query parameter of legacy links.\<close>

definition pageFromLocation :: "string option \<Rightarrow> browser \<Rightarrow> string" where
  "pageFromLocation page s =
     (if page_of (fragment_path s) \<noteq> [] then page_of (fragment_path s) else str_or page ''dashboard'')"

section \<open>Pages and roles\<close>

definition ADMIN_ROLES :: "string list" where "ADMIN_ROLES = [''admin'', ''superadmin'']"

definition STAFF_ROLES :: "string list" where
  "STAFF_ROLES = [''admin'', ''superadmin'', ''collation_officer'', ''presiding_officer'']"

definition ADMIN_PAGES :: "string list" where
  "ADMIN_PAGES =
     [''admin-console'', ''user-management'', ''production'', ''command-center'', ''webhooks'', ''scale-health'', ''middleware'',
      ''portal-integration'', ''workflow-engine'', ''audit'', ''voter-registration'', ''kyc-verification'', ''enrollment-kiosk'',
      ''bvas'', ''bvas-sync'', ''biometric'', ''blockchain'', ''geofencing'', ''data-validation'', ''duplicate-detection'',
      ''document-ai'', ''evidence-journey'', ''export-center'', ''stakeholders'', ''stakeholder-workflows'', ''gotv-portal'',
      ''party-primaries'', ''training'']"

definition STAFF_PAGES :: "string list" where
  "STAFF_PAGES =
     [''collation'', ''incidents'', ''sms-verification'', ''anomaly-detection'', ''ai-monitoring'', ''ml-dashboard'',
      ''predictive-analytics'', ''integrity-score'', ''compliance-report'', ''dispute-resolution'', ''observer-monitoring'']"

text \<open>Later entries of the object replace earlier ones.\<close>

definition PAGE_ROLES :: "string \<rightharpoonup> string list" where
  "PAGE_ROLES = map_of (rev (map (\<lambda>p. (p, ADMIN_ROLES)) ADMIN_PAGES @ map (\<lambda>p. (p, STAFF_ROLES)) STAFF_PAGES))"

text \<open>The names every object inherits: indexing with them gives a value that is no list of roles.\<close>

definition OBJECT_MEMBERS :: "string list" where
  "OBJECT_MEMBERS =
     [''constructor'', ''__proto__'', ''__defineGetter__'', ''__defineSetter__'', ''__lookupGetter__'', ''__lookupSetter__'',
      ''hasOwnProperty'', ''isPrototypeOf'', ''propertyIsEnumerable'', ''toLocaleString'', ''toString'', ''valueOf'']"

definition canAccessPage :: "string \<Rightarrow> string option \<Rightarrow> error + bool" where
  "canAccessPage page role =
     (case PAGE_ROLES page of
        Some roles \<Rightarrow> Inr (truthy_str role \<and> the role \<in> set roles)
      | None \<Rightarrow>
          if page \<in> set OBJECT_MEMBERS
          then (if truthy_str role then Inl (OtherError ''TypeError: roles.includes is not a function'') else Inr False)
          else Inr True)"

section \<open>Party and election\<close>

definition GOTV_PARTY_CODE_KEY :: string where "GOTV_PARTY_CODE_KEY = ''gotv_party_code''"

definition SELECTED_ELECTION_ID_KEY :: string where "SELECTED_ELECTION_ID_KEY = ''inec_selected_election_id''"

definition upper_case :: "string \<Rightarrow> string" where
  "upper_case s = map (\<lambda>c. if is_lower c then char_of (of_char c - 32 :: nat) else c) s"

definition getGOTVPartyCode :: "browser \<Rightarrow> string option" where
  "getGOTVPartyCode s =
     (case bw_local s GOTV_PARTY_CODE_KEY of
        Some code \<Rightarrow> if trim code \<noteq> [] then Some (upper_case (trim code)) else None
      | None \<Rightarrow> None)"

definition setGOTVPartyCode :: "string option \<Rightarrow> browser \<Rightarrow> browser" where
  "setGOTVPartyCode code s =
     s\<lparr>bw_local := (bw_local s)(GOTV_PARTY_CODE_KEY :=
        (case code of Some c \<Rightarrow> if trim c \<noteq> [] then Some (upper_case (trim c)) else None | None \<Rightarrow> None))\<rparr>"

definition gotvAuthHeaders :: "(string \<rightharpoonup> string) \<Rightarrow> browser \<Rightarrow> (string \<rightharpoonup> string) \<times> browser" where
  "gotvAuthHeaders extra s =
     (case getAuthToken s of
        (token, s1) \<Rightarrow>
          let hs = (case token of Some t \<Rightarrow> [''Authorization'' \<mapsto> ''Bearer '' @ t] | None \<Rightarrow> Map.empty) ++ extra
          in (case getGOTVPartyCode s1 of Some p \<Rightarrow> hs(''X-GOTV-Party-Code'' \<mapsto> p) | None \<Rightarrow> hs, s1))"

definition setPersistedElectionId :: "int option \<Rightarrow> browser \<Rightarrow> browser" where
  "setPersistedElectionId i s =
     s\<lparr>bw_local := (bw_local s)(SELECTED_ELECTION_ID_KEY :=
        (case i of Some k \<Rightarrow> if k > 0 then Some (show_int k) else None | None \<Rightarrow> None))\<rparr>"

text \<open>\<open>useResolvedElection\<close>: the selection of the store, then the stored id if it is offered, then the latest active
  election, and the stored id alone while no list is there.\<close>

definition web_electionId ::
  "(string \<Rightarrow> int option) \<Rightarrow> (string \<Rightarrow> int option) \<Rightarrow> electionInfo option \<Rightarrow> electionInfo list \<Rightarrow> browser \<Rightarrow> int option" where
  "web_electionId parse num selected elections s =
     (let persisted = persistedId num (bw_local s SELECTED_ELECTION_ID_KEY)
      in case selected of
           Some e \<Rightarrow> Some (el_id e)
         | None \<Rightarrow>
             (case persistedValid persisted elections of
                Some i \<Rightarrow> Some i
              | None \<Rightarrow>
                  (case pickLatestActiveElection parse elections of
                     Some e \<Rightarrow> Some (el_id e)
                   | None \<Rightarrow> if elections = [] then persisted else None)))"

section \<open>What ends a session\<close>

definition same_session :: "browser \<Rightarrow> browser \<Rightarrow> bool" where
  "same_session s s' \<longleftrightarrow>
     bw_local s' = bw_local s \<and> bw_fragment s' = bw_fragment s \<and> bw_user s' = bw_user s \<and> bw_token s' = bw_token s"

definition signed_out :: "browser \<Rightarrow> bool" where
  "signed_out s \<longleftrightarrow> bw_memory s = None \<and> bw_local s ''user'' = None \<and> bw_user s = None \<and> \<not> isAuthenticated s"

lemma same_session_trans: "same_session s t \<Longrightarrow> same_session t u \<Longrightarrow> same_session s u"
  by (simp add: same_session_def)

lemma setAuthToken_frame [simp]:
  "bw_DEV (setAuthToken t s) = bw_DEV s" "bw_user (setAuthToken t s) = bw_user s" "bw_fragment (setAuthToken t s) = bw_fragment s"
  "bw_memory (setAuthToken t s) = t" "bw_sent (setAuthToken t s) = bw_sent s" "bw_waits (setAuthToken t s) = bw_waits s"
  "k \<noteq> DEV_TOKEN_KEY \<Longrightarrow> bw_local (setAuthToken t s) k = bw_local s k"
  "\<not> bw_DEV s \<Longrightarrow> bw_local (setAuthToken t s) = bw_local s"
  by (simp_all add: setAuthToken_def Let_def)

lemma handleAuthFailure_out: "signed_out (handleAuthFailure s)"
  by (simp add: handleAuthFailure_def onSessionExpired_def web_logout_def signed_out_def isAuthenticated_def Let_def DEV_TOKEN_KEY_def truthy_str_def)

lemma handleAuthFailure_sent: "bw_sent (handleAuthFailure s) = bw_sent s @ [LOGOUT (setAuthToken None (s\<lparr>bw_local := (bw_local s)(''user'' := None)\<rparr>))]"
  "bw_waits (handleAuthFailure s) = bw_waits s" "bw_DEV (handleAuthFailure s) = bw_DEV s"
  by (simp_all add: handleAuthFailure_def onSessionExpired_def web_logout_def Let_def LOGOUT_def setAuthToken_def)

lemma attemptOnce_cases:
  assumes "attemptOnce srv req path again s = (x, s')"
  shows "s' = s\<lparr>bw_sent := bw_sent s @ [req]\<rparr> \<and> (path \<notin> {''/auth/login'', ''/auth/refresh''} \<longrightarrow> (\<forall>d. x \<noteq> Finish (Inl (ApiError 401 d)))) \<and>
      (\<forall>e. x = Again e \<longrightarrow> (\<exists>m. e = FetchError m)) \<or>
    s' = handleAuthFailure (s\<lparr>bw_sent := bw_sent s @ [req]\<rparr>) \<and> x = Finish (Inl (ApiError 401 (JStr ''Session expired''))) \<and>
      path \<notin> {''/auth/login'', ''/auth/refresh''}"
proof (cases "srv (bw_sent s) req")
  case (WebReply r)
  then show ?thesis
    using assms
    by (cases "classifyReply path r")
      (auto simp: attemptOnce_def Let_def classifyReply_def split: if_splits option.splits)
next
  case (WebFailed m)
  with assms show ?thesis by (auto simp: attemptOnce_def Let_def)
qed

text \<open>What a request leaves behind: the requests of its attempts, its waits, and the session or none.\<close>

definition request_left :: "string \<Rightarrow> webError + json option \<Rightarrow> nat \<Rightarrow> browser \<Rightarrow> browser \<Rightarrow> bool" where
  "request_left path r n s s' \<longleftrightarrow>
     (if path \<notin> {''/auth/login'', ''/auth/refresh''} \<and> (\<exists>d. r = Inl (ApiError 401 d))
      then signed_out s' \<and> length (bw_sent s') \<le> length (bw_sent s) + n + 1
      else same_session s s' \<and> length (bw_sent s') \<le> length (bw_sent s) + n)"

lemma request_left_once:
  assumes "attemptOnce srv req path again s = (x, s')"
  shows "x = Finish r \<Longrightarrow> request_left path r (Suc n) s s'"
    and "x = Again e \<Longrightarrow> request_left path (Inl e) (Suc n) s s'"
    and "x = Again e \<Longrightarrow> same_session s s' \<and> length (bw_sent s') = Suc (length (bw_sent s))"
  using attemptOnce_cases [OF assms] handleAuthFailure_out [of "s\<lparr>bw_sent := bw_sent s @ [req]\<rparr>"]
  by (auto simp: request_left_def same_session_def handleAuthFailure_sent)

lemma attemptFrom_left: "attemptFrom srv req path k n s = (r, s') \<Longrightarrow> request_left path r (Suc n) s s'"
proof (induction n arbitrary: k s)
  case 0
  obtain x t where once: "attemptOnce srv req path False s = (x, t)" by (rule prod.exhaust)
  with 0 show ?case
    using request_left_once(1) [OF once, where n = 0] request_left_once(2) [OF once, where n = 0] by (cases x) auto
next
  case (Suc n)
  obtain x t where once: "attemptOnce srv req path True s = (x, t)" by (rule prod.exhaust)
  show ?case
  proof (cases x)
    case (Finish r')
    with Suc.prems once show ?thesis using request_left_once(1) [OF once, of r "Suc n"] by simp
  next
    case (Again e)
    with Suc.prems once have "attemptFrom srv req path (Suc k) n (t\<lparr>bw_waits := bw_waits t @ [1000 * (int k + 1)]\<rparr>) = (r, s')" by simp
    from Suc.IH [OF this] request_left_once(3) [OF once Again] show ?thesis
      by (auto simp: request_left_def same_session_def)
  qed
qed

lemma getAuthToken_frame: "getAuthToken s = (t, s') \<Longrightarrow> same_session s s' \<and> bw_sent s' = bw_sent s \<and> bw_DEV s' = bw_DEV s"
  by (auto simp: getAuthToken_def same_session_def split: if_splits)

text \<open>C33: what a request may do to the session. Whatever the backend answers, a request outside the sign-in paths that
  fails with 401 leaves nobody signed in: the token, the stored and the shown user are gone. Every other request, one that
  fails after its retries included, leaves the session, local storage and the address as they are. A request is sent
  at most once more than its retries, the notice of the sign-out aside.\<close>

theorem request_session:
  assumes "web_request srv path opts retries s = (r, s')"
  shows "if path \<notin> {''/auth/login'', ''/auth/refresh''} \<and> (\<exists>d. r = Inl (ApiError 401 d))
    then bw_memory s' = None \<and> bw_local s' ''user'' = None \<and> bw_user s' = None \<and> \<not> isAuthenticated s' \<and>
      length (bw_sent s') \<le> length (bw_sent s) + retries + 2
    else bw_local s' = bw_local s \<and> bw_fragment s' = bw_fragment s \<and> bw_user s' = bw_user s \<and> bw_token s' = bw_token s \<and>
      length (bw_sent s') \<le> length (bw_sent s) + retries + 1"
proof -
  obtain t s1 where t: "getAuthToken s = (t, s1)" by (rule prod.exhaust)
  with assms obtain req where "attemptFrom srv req path 0 retries s1 = (r, s')" by (auto simp: web_request_def Let_def)
  from attemptFrom_left [OF this] getAuthToken_frame [OF t] show ?thesis
    by (auto simp: request_left_def same_session_def signed_out_def)
qed

section \<open>Where tokens are\<close>

text \<open>Everything the frontend does to its state, from the loading of the page on.\<close>

inductive web_reachable :: "browser \<Rightarrow> bool" where
  open_app: "openApp dev url storage fragment = Some s \<Longrightarrow> web_reachable s"
| mounted: "web_reachable s \<Longrightarrow> web_reachable (verifyOnMount srv s)"
| login: "web_reachable s \<Longrightarrow> web_reachable (web_login token user s)"
| logout: "web_reachable s \<Longrightarrow> web_reachable (web_logout s)"
| call: "web_reachable s \<Longrightarrow> web_reachable (snd (web_request srv path opts retries s))"
| routed: "web_reachable s \<Longrightarrow> routeEffect s = Some s' \<Longrightarrow> web_reachable s'"
| navigate: "web_reachable s \<Longrightarrow> web_reachable (s\<lparr>bw_fragment := fragment\<rparr>)"
| party: "web_reachable s \<Longrightarrow> web_reachable (setGOTVPartyCode code s)"
| election: "web_reachable s \<Longrightarrow> web_reachable (setPersistedElectionId i s)"

definition no_stored_token :: "browser \<Rightarrow> bool" where
  "no_stored_token s \<longleftrightarrow> bw_DEV s \<or> bw_local s DEV_TOKEN_KEY = None"

lemma no_stored_token_ops:
  "no_stored_token s \<Longrightarrow> no_stored_token (web_logout s)"
  "no_stored_token s \<Longrightarrow> no_stored_token (handleAuthFailure s)"
  "no_stored_token s \<Longrightarrow> no_stored_token (web_login token user s)"
  "no_stored_token s \<Longrightarrow> no_stored_token (s\<lparr>bw_sent := q\<rparr>)" "no_stored_token s \<Longrightarrow> no_stored_token (s\<lparr>bw_waits := w\<rparr>)"
  "no_stored_token s \<Longrightarrow> getAuthToken s = (t, s') \<Longrightarrow> no_stored_token s'"
  by (auto simp: no_stored_token_def web_logout_def web_login_def handleAuthFailure_def onSessionExpired_def Let_def setAuthToken_def
      getAuthToken_def DEV_TOKEN_KEY_def split: if_splits)

lemma attemptOnce_no_token: "no_stored_token s \<Longrightarrow> attemptOnce srv req path again s = (x, s') \<Longrightarrow> no_stored_token s'"
  using attemptOnce_cases [of srv req path again s x s'] by (auto intro: no_stored_token_ops)

lemma attemptFrom_no_token: "no_stored_token s \<Longrightarrow> no_stored_token (snd (attemptFrom srv req path k n s))"
proof (induction n arbitrary: k s)
  case 0
  then show ?case using attemptOnce_no_token by (auto split: prod.splits attemptStep.splits)
next
  case (Suc n)
  show ?case
    using attemptOnce_no_token [OF Suc.prems] Suc.IH no_stored_token_ops(5) by (auto split: prod.splits attemptStep.splits)
qed

text \<open>C34: in a production build no session token is ever in web storage, whatever was stored before the page was loaded and
  whatever sequence of sign-ins, requests, expiries and choices follows.\<close>

theorem token_never_stored:
  assumes "web_reachable s" and "\<not> bw_DEV s"
  shows "bw_local s ''auth_token'' = None"
proof -
  from assms(1) have "no_stored_token s"
  proof (induction rule: web_reachable.induct)
    case (open_app dev url storage fragment s)
    then show ?case
      by (auto simp: openApp_def Let_def scrubToken_def getAuthToken_def no_stored_token_def split: if_splits option.splits prod.splits)
  next
    case (mounted s srv)
    then show ?case
      by (auto simp: verifyOnMount_def Let_def no_stored_token_ops split: webOutcome.splits)
  next
    case (call s srv path opts retries)
    then show ?case
      using no_stored_token_ops(6) [OF call.IH] attemptFrom_no_token by (auto simp: web_request_def Let_def split: prod.splits)
  next
    case (routed s s')
    then show ?case by (auto simp: routeEffect_def Let_def no_stored_token_def split: if_splits option.splits)
  qed (auto simp: no_stored_token_ops, auto simp: no_stored_token_def setGOTVPartyCode_def setPersistedElectionId_def
      DEV_TOKEN_KEY_def GOTV_PARTY_CODE_KEY_def SELECTED_ELECTION_ID_KEY_def)
  with assms(2) show ?thesis by (simp add: no_stored_token_def DEV_TOKEN_KEY_def)
qed

section \<open>Coming back\<close>

definition return_path :: "browser \<Rightarrow> string" where
  "return_path s = (if fragment_path s = [] then ''dashboard'' else fragment_path s)"

lemma expired_fragment: "bw_fragment (handleAuthFailure s) = ''/login?returnTo='' @ encodeURIComponent (return_path s)"
  by (simp add: handleAuthFailure_def onSessionExpired_def return_path_def fragment_path_def Let_def)

lemma takeWhile_encoded: "takeWhile (\<lambda>c. c \<noteq> CHR ''&'') (encodeURIComponent t) = encodeURIComponent t"
  using encode_no_separator [of "CHR ''&''" t] by (auto simp: takeWhile_eq_all_conv)

lemma returnTo_found:
  "t \<noteq> [] \<Longrightarrow> findReturnTo (''/login?returnTo='' @ encodeURIComponent t) = Some (encodeURIComponent t)"
  by (simp add: starts_with_def takeWhile_encoded encode_nonempty)

lemma login_page: "fragment_path s = ''login?returnTo='' @ t \<Longrightarrow> page_of (fragment_path s) = ''login''"
  by (simp add: page_of_def)

lemma login_route:
  assumes "bw_fragment s = ''/login?returnTo='' @ encodeURIComponent t" and "t \<noteq> []" and "token \<noteq> []"
  shows "map_option bw_fragment (routeEffect (web_login token user s)) = Some (if t \<noteq> ''login'' then ''/'' @ t else ''/dashboard'')"
proof -
  let ?s = "web_login token user s"
  have f: "bw_fragment ?s = ''/login?returnTo='' @ encodeURIComponent t" and auth: "isAuthenticated ?s"
    using assms(1,3) by (simp_all add: web_login_def isAuthenticated_def truthy_str_def)
  have "fragment_path ?s = ''login?returnTo='' @ encodeURIComponent t" using f by (simp add: fragment_path_def)
  then have page: "page_of (fragment_path ?s) = ''login''" by (rule login_page)
  have "findReturnTo (bw_fragment ?s) = Some (encodeURIComponent t)" unfolding f by (rule returnTo_found [OF assms(2)])
  with page auth assms(2) show ?thesis by (simp add: routeEffect_def Let_def decode_encode)
qed


text \<open>When two requests find the session over, as the parallel requests of a page do, the second expiry takes the sign-in
  page for the page to return to. After signing in the user is on the sign-in page again, which a signed-in user is
  shown as an unknown page.\<close>

lemma second_expiry_strands:
  assumes "token \<noteq> []"
  shows "map_option (\<lambda>s'. (isAuthenticated s', pageFromLocation None s')) (routeEffect (web_login token user (handleAuthFailure (handleAuthFailure s)))) =
    Some (True, ''login'')"
proof -
  let ?s = "handleAuthFailure s"
  have nested: "return_path ?s = ''login?returnTo='' @ encodeURIComponent (return_path s)"
    by (simp add: return_path_def fragment_path_def expired_fragment)
  then have "return_path ?s \<noteq> []" "return_path ?s \<noteq> ''login''" by simp_all
  with login_route [OF expired_fragment, of ?s token user] assms
  obtain s' where s': "routeEffect (web_login token user (handleAuthFailure ?s)) = Some s'" "bw_fragment s' = ''/'' @ return_path ?s"
    by (auto split: option.splits)
  have "isAuthenticated s'"
    using s'(1) assms by (auto simp: routeEffect_def Let_def web_login_def isAuthenticated_def truthy_str_def split: if_splits option.splits)
  moreover have "page_of (fragment_path s') = ''login''"
    by (rule login_page [of s' "encodeURIComponent (return_path s)"]) (simp add: fragment_path_def s'(2) nested)
  ultimately show ?thesis by (simp add: s'(1) pageFromLocation_def)
qed

section \<open>Roles and choices\<close>

text \<open>Administrators may open whatever anybody may, observers no page of the staff.\<close>

lemma PAGE_ROLES_cases:
  "PAGE_ROLES p = (if p \<in> set STAFF_PAGES then Some STAFF_ROLES else if p \<in> set ADMIN_PAGES then Some ADMIN_ROLES else None)"
  by (simp add: PAGE_ROLES_def STAFF_PAGES_def ADMIN_PAGES_def)

lemma administrators_open_all:
  "canAccessPage p role = Inr True \<Longrightarrow> canAccessPage p (Some ''admin'') = Inr True"
  by (auto simp: canAccessPage_def PAGE_ROLES_cases STAFF_ROLES_def ADMIN_ROLES_def truthy_str_def split: if_splits option.splits)

lemma observers_kept_out:
  "p \<in> set ADMIN_PAGES \<union> set STAFF_PAGES \<Longrightarrow> canAccessPage p (Some ''observer'') = Inr False"
  by (auto simp: canAccessPage_def PAGE_ROLES_cases STAFF_ROLES_def ADMIN_ROLES_def split: option.splits)

text \<open>A page named like an inherited member makes the check throw for every signed-in user.\<close>

lemma inherited_page_throws: "role \<noteq> [] \<Longrightarrow> \<exists>e. canAccessPage ''constructor'' (Some role) = Inl e"
  by (simp add: canAccessPage_def PAGE_ROLES_cases STAFF_PAGES_def ADMIN_PAGES_def OBJECT_MEMBERS_def truthy_str_def)

text \<open>A party is never assumed: the header is sent exactly when a party was chosen.\<close>

lemma party_header:
  assumes "extra ''X-GOTV-Party-Code'' = None"
  shows "fst (gotvAuthHeaders extra s) ''X-GOTV-Party-Code'' = getGOTVPartyCode (snd (getAuthToken s))"
  using assms by (auto simp: gotvAuthHeaders_def Let_def split: prod.splits option.splits)

lemma stored_election_wins:
  assumes "web_electionId parse num None es (setPersistedElectionId (Some i) s) = r" and "0 < i" and "num (show_int i) = Some i"
    and "i \<in> el_id ` set es"
  shows "r = Some i"
proof -
  from assms(4) have "\<exists>e \<in> set es. el_id e = i" by auto
  with assms(1-3) show ?thesis
    by (simp add: web_electionId_def setPersistedElectionId_def persistedId_def persistedValid_def list_ex_iff show_int_def
        digits_rev_nonempty Let_def)
qed

section \<open>An example\<close>

definition web_storage :: "string \<rightharpoonup> string" where
  "web_storage = [''auth_token'' \<mapsto> ''old'', ''user'' \<mapsto> ''{}'']"

definition signed_in_browser :: browser where
  "signed_in_browser = \<lparr>bw_DEV = False, bw_API_URL = [], bw_memory = None, bw_local = web_storage(''auth_token'' := None),
     bw_fragment = ''/map?state=KN'', bw_user = Some (JObj []), bw_token = Some ''httponly-cookie'', bw_sent = [], bw_waits = []\<rparr>"

lemma jsonParse_empty_object: "jsonParse ''{}'' = Some (JObj [])"
  by code_simp

lemma example_open: "openApp False [] web_storage ''/map?state=KN'' = Some signed_in_browser"
  by (simp add: openApp_def scrubToken_def getAuthToken_def truthy_str_def web_storage_def DEV_TOKEN_KEY_def signed_in_browser_def
      jsonParse_empty_object Let_def)

theorem token_never_stored_witness:
  "bw_local (web_login ''jwt'' (JObj []) signed_in_browser) ''auth_token'' = None"
proof -
  have "web_reachable (web_login ''jwt'' (JObj []) signed_in_browser)"
    by (rule web_reachable.login [OF web_reachable.open_app [OF example_open]])
  moreover have "\<not> bw_DEV (web_login ''jwt'' (JObj []) signed_in_browser)" by (simp add: web_login_def signed_in_browser_def)
  ultimately show ?thesis by (rule token_never_stored)
qed

definition answers_401 :: webBackend where
  "answers_401 l q = WebReply \<lparr>wr_status = 401, wr_statusText = ''Unauthorized'', wr_text = None\<rparr>"

lemma example_expires: "fst (api_get answers_401 ''/elections'' signed_in_browser) = Inl (ApiError 401 (JStr ''Session expired''))"
  by (simp add: api_get_def web_request_def getAuthToken_def signed_in_browser_def truthy_str_def Let_def attemptOnce_def answers_401_def
      classifyReply_def wr_ok_def numeral_2_eq_2)

theorem request_session_witness:
  "bw_memory (snd (api_get answers_401 ''/elections'' signed_in_browser)) = None \<and>
   bw_user (snd (api_get answers_401 ''/elections'' signed_in_browser)) = None"
proof -
  have "web_request answers_401 ''/elections'' \<lparr>wo_method = ''GET'', wo_headers = Map.empty, wo_body = NoWebBody\<rparr> 2 signed_in_browser =
      (Inl (ApiError 401 (JStr ''Session expired'')), snd (api_get answers_401 ''/elections'' signed_in_browser))"
    using example_expires by (metis api_get_def prod.collapse)
  from request_session [OF this] show ?thesis by simp
qed


end
