(* ===== verification/Field_Workflow.thy ===== *)
theory Field_Workflow
  imports Web_Session
begin

text \<open>
  The workflow desk of the INEC web frontend: what each role may do and the store of the running workflow
  (\<^verbatim>\<open>src/inec-frontend/src/store/stakeholder.ts\<close>), and the page that leads a user through the steps
  (\<^verbatim>\<open>src/inec-frontend/src/pages/StakeholderWorkflowPage.tsx\<close>).
\<close>

section \<open>Roles and templates\<close>

definition ROLE_FEATURE_MATRIX :: "(string \<times> string list) list" where
  "ROLE_FEATURE_MATRIX =
    [(''admin'',
       [''elections.create'', ''elections.update'', ''elections.delete'', ''elections.view'', ''users.create'',
        ''users.update'', ''users.delete'', ''users.view'', ''users.promote'', ''results.submit'',
        ''results.validate'', ''results.finalize'', ''results.view'', ''results.dispute'', ''incidents.create'',
        ''incidents.update'', ''incidents.view'', ''bvas.register'', ''bvas.update'', ''bvas.view'',
        ''bvas.accreditation'', ''audit.view'', ''audit.verify'', ''command_center.view'', ''command_center.live'',
        ''geo.view'', ''geo.tracking'', ''geo.submission'', ''biometric.view'', ''biometric.quality_check'',
        ''compliance.view'', ''compliance.report'', ''dispute.create'', ''dispute.resolve'', ''dispute.view'',
        ''training.create'', ''training.view'', ''ai.integrity_score'', ''ai.heatmap'', ''data.classification'',
        ''data.erasure'', ''mfa.setup'', ''mfa.verify'', ''batch.users'', ''batch.status'', ''export.pdf'',
        ''export.csv'', ''observer.photo_verify'', ''blockchain.view'', ''predictive.analytics'',
        ''middleware.view'', ''webhook.manage'']),
     (''presiding_officer'',
       [''elections.view'', ''results.submit'', ''results.view'', ''incidents.create'', ''incidents.view'',
        ''bvas.view'', ''bvas.accreditation'', ''audit.view'', ''geo.view'', ''geo.tracking'', ''geo.submission'',
        ''biometric.view'', ''biometric.quality_check'', ''mfa.setup'', ''mfa.verify'', ''export.pdf'',
        ''offline.conflict_resolve'']),
     (''collation_officer'',
       [''elections.view'', ''results.submit'', ''results.validate'', ''results.view'', ''incidents.create'',
        ''incidents.view'', ''bvas.view'', ''audit.view'', ''geo.view'', ''mfa.setup'', ''mfa.verify'', ''export.pdf'']),
     (''returning_officer'',
       [''elections.view'', ''results.validate'', ''results.finalize'', ''results.view'', ''incidents.view'',
        ''audit.view'', ''geo.view'', ''compliance.view'', ''export.pdf'']),
     (''ward_collation_officer'',
       [''elections.view'', ''results.submit'', ''results.view'', ''incidents.create'', ''incidents.view'',
        ''geo.view'', ''export.pdf'']),
     (''lga_collation_officer'',
       [''elections.view'', ''results.submit'', ''results.validate'', ''results.view'', ''incidents.view'',
        ''geo.view'', ''export.pdf'']),
     (''state_collation_officer'',
       [''elections.view'', ''results.validate'', ''results.view'', ''incidents.view'', ''geo.view'',
        ''compliance.view'', ''export.pdf'']),
     (''observer'',
       [''elections.view'', ''results.view'', ''incidents.create'', ''incidents.view'', ''audit.view'', ''geo.view'',
        ''observer.photo_verify'', ''biometric.view'']),
     (''public'',
       [''elections.view'', ''results.view'', ''geo.view''])]"

datatype stepStatus = Pending | InProgress | Completed | Failed

record workflowStep =
  ws_id :: string
  ws_name :: string
  ws_status :: stepStatus
  ws_timestamp :: "time option"
  ws_data :: "json option"

definition pending_step :: "string \<Rightarrow> string \<Rightarrow> workflowStep" where
  "pending_step i n = \<lparr>ws_id = i, ws_name = n, ws_status = Pending, ws_timestamp = None, ws_data = None\<rparr>"

definition WORKFLOW_TEMPLATES :: "(string \<times> (string \<times> workflowStep list) list) list" where
  "WORKFLOW_TEMPLATES =
    [(''presiding_officer'',
       [(''election_day'',
         [pending_step ''open_polling'' ''Open Polling Unit'',
          pending_step ''verify_bvas'' ''Verify BVAS Device'',
          pending_step ''accreditation'' ''Voter Accreditation'',
          pending_step ''voting'' ''Voting Process'',
          pending_step ''close_polling'' ''Close Polling Unit'',
          pending_step ''count_votes'' ''Count Votes'',
          pending_step ''complete_ec8a'' ''Complete EC8A Form'',
          pending_step ''submit_results'' ''Submit Results'',
          pending_step ''upload_documents'' ''Upload Supporting Documents'']),
        (''incident_report'',
         [pending_step ''identify_incident'' ''Identify Incident'',
          pending_step ''document_incident'' ''Document Incident'',
          pending_step ''report_incident'' ''Report to Supervisor'',
          pending_step ''resolve_incident'' ''Resolve/Escalate Incident''])]),
     (''collation_officer'',
       [(''ward_collation'',
         [pending_step ''receive_results'' ''Receive PU Results'',
          pending_step ''verify_results'' ''Verify Results'',
          pending_step ''collate_results'' ''Collate Ward Results'',
          pending_step ''complete_ec8b'' ''Complete EC8B Form'',
          pending_step ''submit_collation'' ''Submit Ward Collation'']),
        (''lga_collation'',
         [pending_step ''receive_ward_results'' ''Receive Ward Results'',
          pending_step ''verify_ward_results'' ''Verify Ward Results'',
          pending_step ''collate_lga'' ''Collate LGA Results'',
          pending_step ''complete_ec8c'' ''Complete EC8C Form'',
          pending_step ''submit_lga_collation'' ''Submit LGA Collation''])]),
     (''returning_officer'',
       [(''state_collation'',
         [pending_step ''receive_lga_results'' ''Receive LGA Results'',
          pending_step ''verify_lga_results'' ''Verify LGA Results'',
          pending_step ''collate_state'' ''Collate State Results'',
          pending_step ''complete_ec8d'' ''Complete EC8D Form'',
          pending_step ''declare_results'' ''Declare Results'',
          pending_step ''sign_results'' ''Sign Results Certificate''])]),
     (''observer'',
       [(''monitoring'',
         [pending_step ''check_in'' ''Check-in at Polling Unit'',
          pending_step ''monitor_accreditation'' ''Monitor Accreditation'',
          pending_step ''monitor_voting'' ''Monitor Voting'',
          pending_step ''monitor_counting'' ''Monitor Vote Counting'',
          pending_step ''submit_report'' ''Submit Observer Report'']),
        (''incident_report'',
         [pending_step ''identify_incident'' ''Identify Incident'',
          pending_step ''document_incident'' ''Document with Photo'',
          pending_step ''report_incident'' ''Submit Incident Report''])]),
     (''admin'',
       [(''election_setup'',
         [pending_step ''create_election'' ''Create Election'',
          pending_step ''configure_election'' ''Configure Election Parameters'',
          pending_step ''assign_staff'' ''Assign Staff'',
          pending_step ''setup_bvas'' ''Setup BVAS Devices'',
          pending_step ''publish_election'' ''Publish Election'']),
        (''user_management'',
         [pending_step ''create_user'' ''Create User Account'',
          pending_step ''assign_role'' ''Assign Role'',
          pending_step ''assign_location'' ''Assign Location'',
          pending_step ''send_credentials'' ''Send Credentials''])])]"

section \<open>The store\<close>

record stakeholderStore =
  st_role :: string
  st_currentWorkflow :: "string option"
  st_steps :: "workflowStep list"
  st_completedWorkflows :: "string list"
  st_pendingActions :: "string list"

definition initialStore :: stakeholderStore where
  "initialStore =
     \<lparr>st_role = ''public'', st_currentWorkflow = None, st_steps = [], st_completedWorkflows = [], st_pendingActions = []\<rparr>"

definition features_of :: "string \<Rightarrow> string list" where
  "features_of role = nullish (map_of ROLE_FEATURE_MATRIX role) []"

definition canAccess :: "string \<Rightarrow> string \<Rightarrow> bool" where
  "canAccess feature role \<longleftrightarrow> List.member (features_of role) feature"

definition getWorkflowSteps :: "string \<Rightarrow> string \<Rightarrow> workflowStep list" where
  "getWorkflowSteps workflowName role =
     (case map_of WORKFLOW_TEMPLATES role of None \<Rightarrow> [] | Some ws \<Rightarrow> nullish (map_of ws workflowName) [])"

definition startWorkflow :: "string \<Rightarrow> stakeholderStore \<Rightarrow> stakeholderStore" where
  "startWorkflow workflowName st = st\<lparr>st_currentWorkflow := Some workflowName\<rparr>"

definition completeStep :: "time \<Rightarrow> string \<Rightarrow> json option \<Rightarrow> stakeholderStore \<Rightarrow> stakeholderStore" where
  "completeStep now stepId d st =
     st\<lparr>st_steps := map (\<lambda>s. if ws_id s = stepId
          then s\<lparr>ws_status := Completed, ws_data := d, ws_timestamp := Some now\<rparr> else s) (st_steps st)\<rparr>"

definition failStep :: "time \<Rightarrow> string \<Rightarrow> string \<Rightarrow> stakeholderStore \<Rightarrow> stakeholderStore" where
  "failStep now stepId err st =
     st\<lparr>st_steps := map (\<lambda>s. if ws_id s = stepId
          then s\<lparr>ws_status := Failed, ws_data := Some (JObj [(''error'', JStr err)]), ws_timestamp := Some now\<rparr> else s) (st_steps st)\<rparr>"

definition completeWorkflow :: "stakeholderStore \<Rightarrow> stakeholderStore" where
  "completeWorkflow st =
     st\<lparr>st_completedWorkflows := st_completedWorkflows st @ [nullish (st_currentWorkflow st) []],
        st_currentWorkflow := None, st_steps := []\<rparr>"

definition resetWorkflow :: "stakeholderStore \<Rightarrow> stakeholderStore" where
  "resetWorkflow st = st\<lparr>st_currentWorkflow := None, st_steps := []\<rparr>"

text \<open>The actions of the store that call the API: \<open>submitResult\<close>, \<open>reportIncident\<close>, \<open>accreditVoter\<close>, \<open>validateResult\<close>,
  \<open>finalizeResult\<close> and \<open>resolveDispute\<close>.\<close>

definition post_json :: "webBackend \<Rightarrow> string \<Rightarrow> json \<Rightarrow> browser \<Rightarrow> (webError + json option) \<times> browser" where
  "post_json srv path d =
     web_request srv path \<lparr>wo_method = ''POST'', wo_headers = Map.empty, wo_body = TextBody (stringify d)\<rparr> 2"

definition post_empty :: "webBackend \<Rightarrow> string \<Rightarrow> browser \<Rightarrow> (webError + json option) \<times> browser" where
  "post_empty srv path = web_request srv path \<lparr>wo_method = ''POST'', wo_headers = Map.empty, wo_body = NoWebBody\<rparr> 2"

definition submitResult :: "webBackend \<Rightarrow> json \<Rightarrow> browser \<Rightarrow> (webError + json option) \<times> browser" where
  "submitResult srv d = post_json srv ''/results/submit'' d"

definition reportIncident :: "webBackend \<Rightarrow> json \<Rightarrow> browser \<Rightarrow> (webError + json option) \<times> browser" where
  "reportIncident srv d = post_json srv ''/incidents'' d"

definition accreditVoter :: "webBackend \<Rightarrow> json \<Rightarrow> browser \<Rightarrow> (webError + json option) \<times> browser" where
  "accreditVoter srv d = post_json srv ''/bvas/accreditation'' d"

definition validateResult :: "webBackend \<Rightarrow> int \<Rightarrow> browser \<Rightarrow> (webError + json option) \<times> browser" where
  "validateResult srv i = post_empty srv (''/results/'' @ show_int i @ ''/validate'')"

definition finalizeResult :: "webBackend \<Rightarrow> int \<Rightarrow> browser \<Rightarrow> (webError + json option) \<times> browser" where
  "finalizeResult srv i = post_empty srv (''/results/'' @ show_int i @ ''/finalize'')"

definition resolveDispute :: "webBackend \<Rightarrow> int \<Rightarrow> string \<Rightarrow> browser \<Rightarrow> (webError + json option) \<times> browser" where
  "resolveDispute srv i resolution =
     post_json srv (''/disputes/'' @ show_int i @ ''/resolve'') (JObj [(''resolution'', JStr resolution)])"

section \<open>The page\<close>

definition WORKFLOW_NAMES :: "(string \<times> (string \<times> string) list) list" where
  "WORKFLOW_NAMES =
    [(''admin'', [(''election_setup'', ''Election Setup''), (''user_management'', ''User Management'')]),
     (''presiding_officer'', [(''election_day'', ''Election Day Operations''), (''incident_report'', ''Incident Report'')]),
     (''collation_officer'', [(''ward_collation'', ''Ward Collation''), (''lga_collation'', ''LGA Collation'')]),
     (''returning_officer'', [(''state_collation'', ''State Collation'')]),
     (''observer'', [(''monitoring'', ''Polling Unit Monitoring''), (''incident_report'', ''Incident Report'')])]"

text \<open>The workflows a role is offered, and the state of the page.\<close>

definition workflows_of :: "string \<Rightarrow> string list" where
  "workflows_of role = map fst (nullish (map_of WORKFLOW_NAMES role) [])"

record workflowPage =
  wp_selected :: "string option"
  wp_steps :: "workflowStep list"

definition freshPage :: workflowPage where
  "freshPage = \<lparr>wp_selected = None, wp_steps = []\<rparr>"

definition handleStartWorkflow :: "string \<Rightarrow> string \<Rightarrow> workflowPage \<times> stakeholderStore \<Rightarrow> workflowPage \<times> stakeholderStore" where
  "handleStartWorkflow role workflowName x =
     (case x of (p, st) \<Rightarrow>
       (p\<lparr>wp_steps := getWorkflowSteps workflowName role, wp_selected := Some workflowName\<rparr>, startWorkflow workflowName st))"

definition handleCompleteStep :: "(time \<Rightarrow> string) \<Rightarrow> time \<Rightarrow> string \<Rightarrow> workflowPage \<times> stakeholderStore \<Rightarrow> workflowPage \<times> stakeholderStore" where
  "handleCompleteStep toISO now stepId x =
     (case x of (p, st) \<Rightarrow>
       (p\<lparr>wp_steps := map (\<lambda>s. if ws_id s = stepId then s\<lparr>ws_status := Completed\<rparr> else s) (wp_steps p)\<rparr>,
        completeStep now stepId (Some (JObj [(''completedAt'', JStr (toISO now))])) st))"

text \<open>When the buttons are shown: \<open>Cancel\<close> and the steps while a workflow is active, \<open>Complete\<close> at a step whose predecessor
  is completed, \<open>Finalize\<close> when all are.\<close>

definition workflow_active :: "workflowPage \<Rightarrow> bool" where
  "workflow_active p \<longleftrightarrow> truthy_str (wp_selected p) \<and> wp_steps p \<noteq> []"

definition can_complete :: "workflowPage \<Rightarrow> nat \<Rightarrow> bool" where
  "can_complete p k \<longleftrightarrow>
     workflow_active p \<and> k < length (wp_steps p) \<and> ws_status (wp_steps p ! k) \<noteq> Completed \<and>
     (k = 0 \<or> ws_status (wp_steps p ! (k - 1)) = Completed)"

definition can_finalize :: "workflowPage \<Rightarrow> bool" where
  "can_finalize p \<longleftrightarrow> workflow_active p \<and> list_all (\<lambda>s. ws_status s = Completed) (wp_steps p)"

definition cancelWorkflow :: "workflowPage \<times> stakeholderStore \<Rightarrow> workflowPage \<times> stakeholderStore" where
  "cancelWorkflow x = (case x of (p, st) \<Rightarrow> (p\<lparr>wp_selected := None, wp_steps := []\<rparr>, resetWorkflow st))"

definition finalizeWorkflow :: "workflowPage \<times> stakeholderStore \<Rightarrow> workflowPage \<times> stakeholderStore" where
  "finalizeWorkflow x = (case x of (p, st) \<Rightarrow> (p\<lparr>wp_selected := None, wp_steps := []\<rparr>, completeWorkflow st))"

section \<open>Properties\<close>

text \<open>Everything users do on the page, with the role of the user who started the current workflow and the steps completed
  since. The page may be left and opened again, also by another user; the store stays.\<close>

inductive workflow_run :: "(time \<Rightarrow> string) \<Rightarrow> string \<Rightarrow> string list \<Rightarrow> workflowPage \<times> stakeholderStore \<Rightarrow> bool" for toISO where
  opened: "workflow_run toISO role [] (freshPage, initialStore)"
| started: "workflow_run toISO role ids x \<Longrightarrow> w \<in> set (workflows_of role') \<Longrightarrow>
    workflow_run toISO role' [] (handleStartWorkflow role' w x)"
| step: "workflow_run toISO role ids (p, st) \<Longrightarrow> can_complete p k \<Longrightarrow>
    workflow_run toISO role (ids @ [ws_id (wp_steps p ! k)]) (handleCompleteStep toISO now (ws_id (wp_steps p ! k)) (p, st))"
| cancelled: "workflow_run toISO role ids (p, st) \<Longrightarrow> workflow_active p \<Longrightarrow> workflow_run toISO role [] (cancelWorkflow (p, st))"
| finalized: "workflow_run toISO role ids (p, st) \<Longrightarrow> can_finalize p \<Longrightarrow> workflow_run toISO role [] (finalizeWorkflow (p, st))"
| reopened: "workflow_run toISO role ids (p, st) \<Longrightarrow> workflow_run toISO role' [] (freshPage, st)"

text \<open>The first \<open>k\<close> steps of a template are done.\<close>

definition done_upto :: "nat \<Rightarrow> workflowStep list \<Rightarrow> workflowStep list" where
  "done_upto k T = map (\<lambda>s. s\<lparr>ws_status := Completed\<rparr>) (take k T) @ drop k T"

lemma length_done_upto [simp]: "length (done_upto k T) = length T"
  by (simp add: done_upto_def)

lemma nth_done_upto: "i < length T \<Longrightarrow> done_upto k T ! i = (if i < k then (T ! i)\<lparr>ws_status := Completed\<rparr> else T ! i)"
  by (auto simp: done_upto_def nth_append)

lemma done_upto_id [simp]: "i < length T \<Longrightarrow> ws_id (done_upto k T ! i) = ws_id (T ! i)"
  by (simp add: nth_done_upto)

lemma done_upto_Suc:
  assumes "distinct (map ws_id T)" "k < length T"
  shows "map (\<lambda>s. if ws_id s = ws_id (T ! k) then s\<lparr>ws_status := Completed\<rparr> else s) (done_upto k T) = done_upto (Suc k) T"
proof (rule nth_equalityI)
  fix i assume i: "i < length (map (\<lambda>s. if ws_id s = ws_id (T ! k) then s\<lparr>ws_status := Completed\<rparr> else s) (done_upto k T))"
  then have "i < length T" by simp
  then have "ws_id (T ! i) = ws_id (T ! k) \<longleftrightarrow> i = k" using assms by (simp add: distinct_conv_nth) metis
  with \<open>i < length T\<close> show "map (\<lambda>s. if ws_id s = ws_id (T ! k) then s\<lparr>ws_status := Completed\<rparr> else s) (done_upto k T) ! i = done_upto (Suc k) T ! i"
    by (auto simp: nth_done_upto)
qed simp

text \<open>Every offered workflow has a template: steps that are pending and have different ids.\<close>

definition good_template :: "workflowStep list \<Rightarrow> bool" where
  "good_template T \<longleftrightarrow> T \<noteq> [] \<and> distinct (map ws_id T) \<and> list_all (\<lambda>s. ws_status s = Pending) T"

lemma offered_good: "w \<in> set (workflows_of role) \<Longrightarrow> good_template (getWorkflowSteps w role) \<and> w \<noteq> []"
  by (auto simp: workflows_of_def WORKFLOW_NAMES_def WORKFLOW_TEMPLATES_def getWorkflowSteps_def good_template_def pending_step_def
      nullish_def split: if_splits)

definition page_follows :: "string \<Rightarrow> string list \<Rightarrow> workflowPage \<Rightarrow> stakeholderStore \<Rightarrow> bool" where
  "page_follows role ids p st \<longleftrightarrow>
     (case wp_selected p of
        None \<Rightarrow> wp_steps p = [] \<and> ids = []
      | Some w \<Rightarrow>
          let T = getWorkflowSteps w role
          in good_template T \<and> w \<noteq> [] \<and> length ids \<le> length T \<and> ids = map ws_id (take (length ids) T) \<and>
             wp_steps p = done_upto (length ids) T \<and> st_currentWorkflow st = Some w)"

lemma follows_intro:
  assumes "wp_selected p = Some w" "good_template (getWorkflowSteps w role)" "w \<noteq> []" "k \<le> length (getWorkflowSteps w role)"
    and "wp_steps p = done_upto k (getWorkflowSteps w role)" "st_currentWorkflow st = Some w"
  shows "page_follows role (map ws_id (take k (getWorkflowSteps w role))) p st"
  using assms by (simp add: page_follows_def Let_def min_def)

lemma follows_step:
  assumes "page_follows role ids p st" "can_complete p k"
  obtains w where "wp_selected p = Some w" "k = length ids" "k < length (getWorkflowSteps w role)"
proof -
  obtain w where w: "wp_selected p = Some w"
    using assms by (cases "wp_selected p") (auto simp: page_follows_def can_complete_def workflow_active_def)
  define T where "T = getWorkflowSteps w role"
  have T: "good_template T" "wp_steps p = done_upto (length ids) T"
    using assms(1) w by (auto simp: page_follows_def Let_def T_def)
  have k: "k < length T" using assms(2) T(2) by (simp add: can_complete_def)
  have "\<not> k < length ids" using assms(2) T(2) k by (auto simp: can_complete_def nth_done_upto)
  moreover have "k = 0 \<or> k - 1 < length ids"
    using assms(2) T k by (auto simp: can_complete_def nth_done_upto good_template_def list_all_length)
  ultimately have "k = length ids" by linarith
  with that w k show ?thesis by (simp add: T_def)
qed

lemma follows_completed:
  assumes "page_follows role ids p st" "can_complete p k"
  shows "page_follows role (ids @ [ws_id (wp_steps p ! k)]) (fst (handleCompleteStep toISO now (ws_id (wp_steps p ! k)) (p, st)))
    (snd (handleCompleteStep toISO now (ws_id (wp_steps p ! k)) (p, st)))"
proof -
  obtain w where w: "wp_selected p = Some w" "k = length ids" "k < length (getWorkflowSteps w role)"
    using follows_step [OF assms] .
  define T where "T = getWorkflowSteps w role"
  have T: "good_template T" "wp_steps p = done_upto k T" "ids = map ws_id (take k T)" "w \<noteq> []" "st_currentWorkflow st = Some w"
    using assms(1) w by (auto simp: page_follows_def Let_def T_def)
  have k: "k < length T" using w(3) by (simp add: T_def)
  have ids: "ids @ [ws_id (T ! k)] = map ws_id (take (Suc k) T)" using T(3) k by (simp add: take_Suc_conv_app_nth)
  define p' where "p' = fst (handleCompleteStep toISO now (ws_id (T ! k)) (p, st))"
  have "wp_selected p' = Some w" "wp_steps p' = done_upto (Suc k) T"
    using T(1,2) k w(1) done_upto_Suc [of T k] by (simp_all add: p'_def handleCompleteStep_def good_template_def)
  moreover have "st_currentWorkflow (snd (handleCompleteStep toISO now (ws_id (T ! k)) (p, st))) = Some w"
    using T(5) by (simp add: handleCompleteStep_def completeStep_def)
  ultimately have "page_follows role (map ws_id (take (Suc k) T)) p' (snd (handleCompleteStep toISO now (ws_id (T ! k)) (p, st)))"
    unfolding T_def using T(1,4) k by (intro follows_intro) (simp_all add: T_def)
  then show ?thesis using T(2) k by (simp add: p'_def ids [symmetric])
qed

lemma run_follows: "workflow_run toISO role ids x \<Longrightarrow> page_follows role ids (fst x) (snd x)"
proof (induction rule: workflow_run.induct)
  case (started role ids x w role')
  then show ?case
    using offered_good [of w role']
    by (cases x) (simp add: handleStartWorkflow_def startWorkflow_def page_follows_def done_upto_def)
next
  case (step role ids p st k now)
  then show ?case using follows_completed [of role ids p st k] by simp
qed (simp_all add: page_follows_def freshPage_def cancelWorkflow_def finalizeWorkflow_def)

text \<open>C40: steps are done in order. Whatever is clicked, on whichever visits, the steps completed since the workflow was started are
  the first ones of its template, in that order and each once; a workflow can be finalized only when all of them are,
  and it is then recorded under its own name.\<close>

theorem workflow_in_order:
  assumes "workflow_run toISO role ids (p, st)" and "wp_selected p = Some w"
  shows "ids = map ws_id (take (length ids) (getWorkflowSteps w role)) \<and>
    (can_finalize p \<longrightarrow> ids = map ws_id (getWorkflowSteps w role) \<and>
       st_completedWorkflows (snd (finalizeWorkflow (p, st))) = st_completedWorkflows st @ [w])"
proof -
  define T where "T = getWorkflowSteps w role"
  have f: "good_template T" "length ids \<le> length T" "ids = map ws_id (take (length ids) T)" "wp_steps p = done_upto (length ids) T"
      "st_currentWorkflow st = Some w"
    using run_follows [OF assms(1)] assms(2) by (auto simp: page_follows_def Let_def T_def)
  have "length ids = length T" if "can_finalize p"
  proof (rule ccontr)
    assume "length ids \<noteq> length T"
    then have "length ids < length T" using f(2) by simp
    then show False using that f(1,4) by (auto simp: can_finalize_def good_template_def list_all_length nth_done_upto)
  qed
  with f(3,5) show ?thesis by (auto simp: T_def [symmetric] finalizeWorkflow_def completeWorkflow_def nullish_def)
qed

text \<open>The store never has any steps: starting a workflow does not load them, so completing or failing one there does nothing.\<close>

lemma store_steps_empty: "workflow_run toISO role ids x \<Longrightarrow> st_steps (snd x) = []"
  by (induction rule: workflow_run.induct)
     (auto simp: initialStore_def handleStartWorkflow_def startWorkflow_def handleCompleteStep_def completeStep_def
       cancelWorkflow_def resetWorkflow_def finalizeWorkflow_def completeWorkflow_def split: prod.splits)

text \<open>The administrator's features contain those of every other role but one.\<close>

lemma admin_features:
  "list_all (\<lambda>(role, fs). list_all (\<lambda>f. canAccess f ''admin'' \<or> f = ''offline.conflict_resolve'') fs) ROLE_FEATURE_MATRIX"
  by (simp add: ROLE_FEATURE_MATRIX_def canAccess_def features_of_def nullish_def)

text \<open>An observer starts the report of an incident and completes its first step.\<close>

definition demo_page :: "workflowPage \<times> stakeholderStore" where
  "demo_page = handleStartWorkflow ''observer'' ''incident_report'' (freshPage, initialStore)"

lemma demo_offered: "''incident_report'' \<in> set (workflows_of ''observer'')"
  by (simp add: workflows_of_def WORKFLOW_NAMES_def nullish_def)

lemma demo_page_run: "workflow_run toISO ''observer'' [] demo_page"
  unfolding demo_page_def by (rule workflow_run.started [OF workflow_run.opened demo_offered])

lemma demo_can_complete: "can_complete (fst demo_page) 0" "ws_id (wp_steps (fst demo_page) ! 0) = ''identify_incident''"
  by (simp_all add: demo_page_def handleStartWorkflow_def can_complete_def workflow_active_def truthy_str_def getWorkflowSteps_def
      WORKFLOW_TEMPLATES_def nullish_def pending_step_def)

definition demo_page2 :: "workflowPage \<times> stakeholderStore" where
  "demo_page2 = handleCompleteStep show_int 0 ''identify_incident'' demo_page"

lemma demo_page2_run: "workflow_run show_int ''observer'' [''identify_incident''] (fst demo_page2, snd demo_page2)"
  using workflow_run.step [of show_int "''observer''" "[]" "fst demo_page" "snd demo_page" 0 0] demo_page_run [of show_int] demo_can_complete
  by (simp add: demo_page2_def)

lemma demo_page2_selected: "wp_selected (fst demo_page2) = Some ''incident_report''"
  by (simp add: demo_page2_def demo_page_def handleCompleteStep_def handleStartWorkflow_def)

theorem workflow_in_order_witness:
  "[''identify_incident''] = map ws_id (take (length [''identify_incident'']) (getWorkflowSteps ''incident_report'' ''observer''))"
  using workflow_in_order [OF demo_page2_run demo_page2_selected] by (rule conjunct1)

end
