(* ===== verification/Html_Text.thy ===== *)
theory Html_Text
  imports Json_Text
begin

text \<open>
  What the campaign's web client writes into documents: the escaping helpers of
  \<^verbatim>\<open>src/campaign-platform/client/src/lib/html.ts\<close> and the CSV export of \<^verbatim>\<open>src/campaign-platform/client/src/hooks/useExport.ts\<close>.
  Escaped text has no character that opens markup and reads as the original text; an exported table is read back as
  the cells it was made of.
\<close>

section \<open>Escaping\<close>

definition quot :: string where "quot = [CHR 0x22]"

definition newline :: string where "newline = [CHR 0x0A]"

definition entity :: "char \<Rightarrow> string" where
  "entity c =
     (if c = CHR ''&'' then ''&amp;''
      else if c = CHR ''<'' then ''&lt;''
      else if c = CHR ''>'' then ''&gt;''
      else if c = CHR 0x22 then ''&quot;''
      else if c = CHR 0x27 then ''&#39;''
      else [c])"

definition escapeHtml :: "string \<Rightarrow> string" where
  "escapeHtml v = concat (map entity v)"

text \<open>\<open>/^p/i.test(u)\<close> for a fixed \<open>p\<close> in lower case.\<close>

definition starts_with_ci :: "string \<Rightarrow> string \<Rightarrow> bool" where
  "starts_with_ci u p \<longleftrightarrow> starts_with (toLowerCase u) p"

definition base64_char :: "char \<Rightarrow> bool" where
  "base64_char c \<longleftrightarrow> is_lower c \<or> is_upper c \<or> is_digit c \<or> c \<in> {CHR ''+'', CHR ''/'', CHR ''=''} \<or> is_space c"

definition IMAGE_TYPES :: "string list" where
  "IMAGE_TYPES = [''png'', ''jpeg'', ''jpg'', ''gif'', ''webp'', ''svg+xml'']"

text \<open>\<open>/^data:image\/(png|jpe?g|gif|webp|svg\+xml);base64,[a-z0-9+/=\s]+$/i\<close>.\<close>

definition is_data_image :: "string \<Rightarrow> bool" where
  "is_data_image u \<longleftrightarrow>
     list_ex (\<lambda>ty. let p = ''data:image/'' @ ty @ '';base64,''
                   in starts_with_ci u p \<and> drop (length p) u \<noteq> [] \<and> list_all base64_char (drop (length p) u)) IMAGE_TYPES"

text \<open>\<open>protocol\<close> is that of the page, \<open>None\<close> outside a browser.\<close>

definition safeImageUrl :: "string option \<Rightarrow> string \<Rightarrow> string" where
  "safeImageUrl protocol url =
     (let u = trim url
      in if starts_with_ci u ''https://'' then escapeHtml u
         else if protocol = Some ''http:'' \<and> starts_with_ci u ''http://'' then escapeHtml u
         else if is_data_image u then u
         else [])"

definition is_hex :: "char \<Rightarrow> bool" where
  "is_hex c \<longleftrightarrow> is_digit c \<or> lower_char c \<in> set ''abcdef''"

definition colour_arg :: "char \<Rightarrow> bool" where
  "colour_arg c \<longleftrightarrow> is_digit c \<or> is_space c \<or> c \<in> {CHR ''.'', CHR '','', CHR ''%''}"

definition is_call :: "string \<Rightarrow> string \<Rightarrow> bool" where
  "is_call f v \<longleftrightarrow>
     starts_with_ci v (f @ ''('') \<and> length f + 3 \<le> length v \<and> last v = CHR '')'' \<and>
     list_all colour_arg (butlast (drop (length f + 1) v))"

text \<open>\<open>/^(#[0-9a-f]{3,8}|rgba?\(\s*[\d\s.,%]+\)|hsla?\(\s*[\d\s.,%]+\)|[a-z]{3,20})$/i\<close>.\<close>

definition is_colour :: "string \<Rightarrow> bool" where
  "is_colour v \<longleftrightarrow>
     (take 1 v = ''#'' \<and> 4 \<le> length v \<and> length v \<le> 9 \<and> list_all is_hex (drop 1 v)) \<or>
     list_ex (\<lambda>f. is_call f v) [''rgb'', ''rgba'', ''hsl'', ''hsla''] \<or>
     (3 \<le> length v \<and> length v \<le> 20 \<and> list_all (\<lambda>c. is_lower c \<or> is_upper c) v)"

definition safeColor :: "string \<Rightarrow> string \<Rightarrow> string" where
  "safeColor v fallback = (if is_colour (trim v) then trim v else fallback)"

section \<open>Text stays text\<close>

text \<open>The characters by which text could become markup or leave an attribute.\<close>

definition markup_char :: "char \<Rightarrow> bool" where
  "markup_char c \<longleftrightarrow> c \<in> {CHR ''<'', CHR ''>'', CHR 0x22, CHR 0x27}"

definition skeleton :: "string \<Rightarrow> string" where
  "skeleton s = filter markup_char s"

lemma skeleton_simps [simp]:
  "skeleton [] = []" "skeleton (a @ b) = skeleton a @ skeleton b"
  by (simp_all add: skeleton_def)

lemma skeleton_concat [simp]: "skeleton (concat xs) = concat (map skeleton xs)"
  by (induction xs) simp_all

lemma skeleton_empty: "skeleton s = [] \<longleftrightarrow> (\<forall>c \<in> set s. \<not> markup_char c)"
  by (simp add: skeleton_def filter_empty_conv)

lemma skeleton_take: "skeleton s = [] \<Longrightarrow> skeleton (take n s) = []"
  by (auto simp: skeleton_empty dest: in_set_takeD)

lemma entity_inert: "skeleton (entity c) = []"
  by (simp add: entity_def skeleton_def markup_char_def)

lemma escapeHtml_inert [simp]: "skeleton (escapeHtml s) = []"
  by (simp add: escapeHtml_def comp_def entity_inert)

text \<open>How a document reader resolves the five entities.\<close>

fun unescapeHtml :: "string \<Rightarrow> string" where
  "unescapeHtml [] = []"
| "unescapeHtml (c # cs) =
     (if starts_with (c # cs) ''&amp;'' then CHR ''&'' # unescapeHtml (drop 4 cs)
      else if starts_with (c # cs) ''&lt;'' then CHR ''<'' # unescapeHtml (drop 3 cs)
      else if starts_with (c # cs) ''&gt;'' then CHR ''>'' # unescapeHtml (drop 3 cs)
      else if starts_with (c # cs) ''&quot;'' then CHR 0x22 # unescapeHtml (drop 5 cs)
      else if starts_with (c # cs) ''&#39;'' then CHR 0x27 # unescapeHtml (drop 4 cs)
      else c # unescapeHtml cs)"

lemma unescape_entity: "unescapeHtml (entity c @ t) = c # unescapeHtml t"
  by (auto simp: entity_def starts_with_def)

lemma unescape_escape: "unescapeHtml (escapeHtml s) = s"
  by (induction s) (simp_all add: escapeHtml_def unescape_entity del: unescapeHtml.simps(2))

lemma plain_chars:
  "is_lower c \<Longrightarrow> \<not> markup_char c" "is_upper c \<Longrightarrow> \<not> markup_char c" "is_digit c \<Longrightarrow> \<not> markup_char c" "is_space c \<Longrightarrow> \<not> markup_char c"
  by (auto simp: markup_char_def is_lower_def is_upper_def is_digit_def is_space_def)

lemma base64_plain: "base64_char c \<Longrightarrow> \<not> markup_char c"
  by (auto simp: base64_char_def dest: plain_chars) (simp_all add: markup_char_def)

lemma colour_arg_plain: "colour_arg c \<Longrightarrow> \<not> markup_char c"
  by (auto simp: colour_arg_def dest: plain_chars) (simp_all add: markup_char_def)

lemma lower_char_markup: "markup_char c \<Longrightarrow> lower_char c = c"
  by (auto simp: markup_char_def lower_char_def is_upper_def)

lemma prefix_inert:
  assumes "starts_with_ci u p" and "skeleton p = []"
  shows "skeleton (take (length p) u) = []"
proof -
  have "take (length p) (map lower_char u) = p" using assms(1) by (simp add: starts_with_ci_def starts_with_def toLowerCase_def)
  then have p: "map lower_char (take (length p) u) = p" by (simp add: take_map)
  have "\<not> markup_char c" if "c \<in> set (take (length p) u)" for c
  proof
    assume "markup_char c"
    moreover have "lower_char c \<in> set p" using that p by (metis image_eqI set_map)
    ultimately show False using assms(2) lower_char_markup [of c] by (auto simp: skeleton_empty)
  qed
  then show ?thesis by (simp add: skeleton_empty)
qed

lemma data_image_inert: "is_data_image u \<Longrightarrow> skeleton u = []"
proof -
  assume "is_data_image u"
  then obtain ty where ty: "ty \<in> set IMAGE_TYPES" and p: "starts_with_ci u (''data:image/'' @ ty @ '';base64,'')"
    and rest: "list_all base64_char (drop (length (''data:image/'' @ ty @ '';base64,'')) u)"
    by (auto simp: is_data_image_def list_ex_iff Let_def)
  let ?p = "''data:image/'' @ ty @ '';base64,''"
  have fixed: "skeleton ''data:image/'' = []" "skeleton '';base64,'' = []" "list_all (\<lambda>t. skeleton t = []) IMAGE_TYPES"
    by (simp_all add: IMAGE_TYPES_def skeleton_def markup_char_def)
  have "skeleton ty = []" using fixed(3) ty by (simp add: list_all_iff)
  then have "skeleton ?p = []" by (simp only: skeleton_simps fixed append_Nil)
  then have "skeleton (take (length ?p) u) = []" by (rule prefix_inert [OF p])
  moreover have "skeleton (drop (length ?p) u) = []"
    using rest base64_plain by (auto simp: skeleton_empty list_all_iff)
  ultimately show ?thesis using skeleton_simps(2) [of "take (length ?p) u" "drop (length ?p) u"] by simp
qed

lemma safeImageUrl_inert [simp]: "skeleton (safeImageUrl protocol url) = []"
  by (simp add: safeImageUrl_def Let_def data_image_inert)

lemma is_call_inert:
  assumes "is_call f v" and "skeleton f = []"
  shows "skeleton v = []"
proof -
  let ?d = "drop (length f + 1) v"
  have "skeleton (take (length (f @ ''('')) v) = []"
    using assms by (intro prefix_inert) (auto simp: is_call_def skeleton_def markup_char_def)
  moreover have "skeleton ?d = []"
  proof (cases "?d = []")
    case False
    then have d: "?d = butlast ?d @ [last v]" by (metis append_butlast_last_id last_drop drop_eq_Nil linorder_not_le)
    have "skeleton (butlast ?d) = []"
      using assms(1) colour_arg_plain by (auto simp: is_call_def skeleton_empty list_all_iff)
    moreover have "skeleton [last v] = []" using assms(1) by (simp add: is_call_def skeleton_def markup_char_def)
    ultimately show ?thesis by (metis append_Nil d skeleton_simps(2))
  qed simp
  ultimately show ?thesis using skeleton_simps(2) [of "take (length f + 1) v" ?d] by simp
qed

lemma is_hex_plain: "is_hex c \<Longrightarrow> \<not> markup_char c"
  using lower_char_markup [of c] plain_chars(3) [of c] by (auto simp: is_hex_def markup_char_def)

lemma is_colour_inert: "is_colour v \<Longrightarrow> skeleton v = []"
proof -
  assume "is_colour v"
  then consider "take 1 v = ''#''" "list_all is_hex (drop 1 v)" | f where "f \<in> set [''rgb'', ''rgba'', ''hsl'', ''hsla'']" "is_call f v"
    | "list_all (\<lambda>c. is_lower c \<or> is_upper c) v"
    by (auto simp: is_colour_def)
  then show ?thesis
  proof cases
    case 1
    then have "skeleton (take 1 v) = []" by (simp add: skeleton_def markup_char_def)
    moreover have "skeleton (drop 1 v) = []" using 1(2) is_hex_plain by (auto simp: skeleton_empty list_all_iff)
    ultimately show ?thesis by (metis append_Nil append_take_drop_id skeleton_simps(2))
  next
    case (2 f)
    have "skeleton f = []" using 2(1) by (auto simp: skeleton_def markup_char_def)
    then show ?thesis by (rule is_call_inert [OF 2(2)])
  next
    case 3
    then show ?thesis using plain_chars by (auto simp: skeleton_empty list_all_iff)
  qed
qed

lemma safeColor_inert: "skeleton fallback = [] \<Longrightarrow> skeleton (safeColor v fallback) = []"
  by (simp add: safeColor_def is_colour_inert)

section \<open>CSV\<close>

text \<open>A cell is \<open>String(val)\<close>, or \<open>None\<close> for \<open>null\<close> and \<open>undefined\<close>.\<close>

record exportColumn =
  xc_header :: string
  xc_key :: string

type_synonym exportRow = "string \<Rightarrow> string option"

definition double_quotes :: "string \<Rightarrow> string" where
  "double_quotes v = concat (map (\<lambda>c. if c = CHR 0x22 then [CHR 0x22, CHR 0x22] else [c]) v)"

definition csvCell :: "string option \<Rightarrow> string" where
  "csvCell v = (case v of None \<Rightarrow> quot @ quot | Some t \<Rightarrow> quot @ double_quotes t @ quot)"

definition csvText :: "exportColumn list \<Rightarrow> exportRow list \<Rightarrow> string" where
  "csvText columns rows =
     (let headers = join '','' (map (\<lambda>c. quot @ xc_header c @ quot) columns);
          body = join newline (map (\<lambda>row. join '','' (map (\<lambda>c. csvCell (row (xc_key c))) columns)) rows)
      in headers @ newline @ body)"

text \<open>How a spreadsheet reads quoted cells: a doubled quote is a quote, a single one ends the cell; a comma continues the
  record, a line feed ends it.\<close>

fun readCell :: "string \<Rightarrow> (string \<times> string) option" where
  "readCell [] = None"
| "readCell (c # cs) =
     (if c = CHR 0x22 then
        (case cs of
           d # ds \<Rightarrow> if d = CHR 0x22 then map_option (apfst ((#) (CHR 0x22))) (readCell ds) else Some ([], cs)
         | [] \<Rightarrow> Some ([], []))
      else map_option (apfst ((#) c)) (readCell cs))"

text \<open>The cells of a record and of the records after it.\<close>

fun readRecords :: "nat \<Rightarrow> string list \<Rightarrow> string \<Rightarrow> string list list option" where
  "readRecords 0 acc s = None"
| "readRecords (Suc n) acc s =
     (case s of
        [] \<Rightarrow> None
      | q # cs \<Rightarrow>
          if q \<noteq> CHR 0x22 then None
          else (case readCell cs of
             None \<Rightarrow> None
           | Some (v, rest) \<Rightarrow>
               (case rest of
                  [] \<Rightarrow> Some [acc @ [v]]
                | c # tail \<Rightarrow>
                    if c = CHR '','' then readRecords n (acc @ [v]) tail
                    else if c = CHR 0x0A then
                      (if tail = [] then Some [acc @ [v]] else map_option ((#) (acc @ [v])) (readRecords n [] tail))
                    else None)))"

definition readCsv :: "string \<Rightarrow> string list list option" where
  "readCsv s = readRecords (Suc (length s)) [] s"

text \<open>What may follow a cell.\<close>

definition ends_cell :: "string \<Rightarrow> bool" where
  "ends_cell s \<longleftrightarrow> take 1 s \<noteq> quot"

lemma readCell_doubled: "ends_cell s \<Longrightarrow> readCell (double_quotes t @ quot @ s) = Some (t, s)"
proof (induction t)
  case Nil
  then show ?case by (cases s) (simp_all add: double_quotes_def quot_def ends_cell_def)
next
  case (Cons c t)
  then show ?case by (auto simp: double_quotes_def)
qed

definition cell_text :: "string \<Rightarrow> string" where
  "cell_text v = quot @ double_quotes v @ quot"

lemma csvCell_text: "csvCell v = cell_text (nullish v [])"
  by (simp add: csvCell_def cell_text_def nullish_def double_quotes_def split: option.splits)

lemma header_text: "CHR 0x22 \<notin> set h \<Longrightarrow> quot @ h @ quot = cell_text h"
  by (induction h) (auto simp: cell_text_def double_quotes_def)

lemma join_Cons: "join sep (x # xs) = x @ (if xs = [] then [] else sep @ join sep xs)"
  by (cases xs) simp_all

lemma readRecords_cell:
  assumes "ends_cell s"
  shows "readRecords (Suc n) acc (cell_text v @ s) =
    (case s of
       [] \<Rightarrow> Some [acc @ [v]]
     | c # tail \<Rightarrow>
         if c = CHR '','' then readRecords n (acc @ [v]) tail
         else if c = CHR 0x0A then (if tail = [] then Some [acc @ [v]] else map_option ((#) (acc @ [v])) (readRecords n [] tail))
         else None)"
  using readCell_doubled [OF assms, of v] by (simp add: cell_text_def quot_def split: list.splits)

lemma readRecords_row:
  assumes "cells \<noteq> []" and "length cells \<le> n" and "s = [] \<or> (\<exists>tail. s = newline @ tail)"
  shows "readRecords n acc (join '','' (map cell_text cells) @ s) =
    (case s of [] \<Rightarrow> Some [acc @ cells]
     | _ # tail \<Rightarrow> if tail = [] then Some [acc @ cells] else map_option ((#) (acc @ cells)) (readRecords (n - length cells) [] tail))"
  using assms
proof (induction cells arbitrary: n acc)
  case (Cons v cells)
  then obtain m where n: "n = Suc m" by (cases n) auto
  show ?case
  proof (cases "cells = []")
    case True
    have "ends_cell s" using Cons.prems(3) by (auto simp: ends_cell_def newline_def quot_def)
    from readRecords_cell [OF this] True n Cons.prems(3) show ?thesis by (auto simp: newline_def)
  next
    case False
    let ?s = "'','' @ join '','' (map cell_text cells) @ s"
    have "ends_cell ?s" by (simp add: ends_cell_def quot_def)
    from readRecords_cell [OF this, of m acc v]
    have "readRecords n acc (join '','' (map cell_text (v # cells)) @ s) = readRecords m (acc @ [v]) (join '','' (map cell_text cells) @ s)"
      using False n by (simp add: join_Cons del: readRecords.simps)
    also have "\<dots> = (case s of [] \<Rightarrow> Some [acc @ v # cells]
       | _ # tail \<Rightarrow> if tail = [] then Some [acc @ v # cells] else map_option ((#) (acc @ v # cells)) (readRecords (m - length cells) [] tail))"
      using Cons.IH [OF False, of m "acc @ [v]"] Cons.prems n by (simp del: readRecords.simps split: list.splits)
    moreover have "n - length (v # cells) = m - length cells" using n by simp
    ultimately show ?thesis by (simp only:)
  qed
qed simp

lemma row_nonempty: "cells \<noteq> [] \<Longrightarrow> join '','' (map cell_text cells) \<noteq> []"
  by (cases cells) (simp_all add: join_Cons cell_text_def quot_def)

lemma readRecords_rows:
  assumes "rs \<noteq> []" and "\<And>r. r \<in> set rs \<Longrightarrow> r \<noteq> []" and "sum_list (map length rs) \<le> n"
  shows "readRecords n [] (join newline (map (\<lambda>r. join '','' (map cell_text r)) rs)) = Some rs"
  using assms
proof (induction rs arbitrary: n)
  case (Cons r rs)
  have r: "r \<noteq> []" "length r \<le> n" using Cons.prems by simp_all
  show ?case
  proof (cases "rs = []")
    case True
    then show ?thesis using readRecords_row [OF r, of "[]" "[]"] by (simp add: join_Cons del: readRecords.simps)
  next
    case False
    let ?body = "join newline (map (\<lambda>r. join '','' (map cell_text r)) rs)"
    obtain r' rs' where rs: "rs = r' # rs'" using False by (cases rs) auto
    have "?body \<noteq> []" using row_nonempty [of r'] Cons.prems(2) [of r'] rs by (simp add: join_Cons)
    moreover have "readRecords (n - length r) [] ?body = Some rs" using Cons.IH [OF False] Cons.prems by simp
    ultimately show ?thesis
      using readRecords_row [OF r, of "newline @ ?body" "[]"] False by (simp add: join_Cons newline_def del: readRecords.simps)
  qed
qed simp

lemma join_length: "length (join sep xs) \<ge> sum_list (map length xs)"
  by (induction sep xs rule: join.induct) simp_all

lemma row_length: "length r \<le> length (join '','' (map cell_text r))"
proof -
  have "length r \<le> sum_list (map length (map cell_text r))" by (induction r) (simp_all add: cell_text_def quot_def)
  then show ?thesis using join_length [of "map cell_text r" "'',''"] by linarith
qed

lemma rows_length: "sum_list (map length rs) \<le> length (join newline (map (\<lambda>r. join '','' (map cell_text r)) rs))"
proof -
  have "sum_list (map length rs) \<le> sum_list (map length (map (\<lambda>r. join '','' (map cell_text r)) rs))"
    using row_length by (induction rs) (simp_all add: add_mono)
  then show ?thesis using join_length [of "map (\<lambda>r. join '','' (map cell_text r)) rs" newline] by linarith
qed

lemma readCsv_rows:
  assumes "rs \<noteq> []" and "\<And>r. r \<in> set rs \<Longrightarrow> r \<noteq> []"
  shows "readCsv (join newline (map (\<lambda>r. join '','' (map cell_text r)) rs)) = Some rs"
  using rows_length [of rs] unfolding readCsv_def by (intro readRecords_rows assms) auto

text \<open>C38: an exported table is read back as it was. Whatever the cells contain, quotes, commas and line feeds included, a
  reader of the file finds the headers and then, row by row, the texts of the cells.\<close>

theorem csv_roundtrip:
  assumes "columns \<noteq> []" and "\<And>c. c \<in> set columns \<Longrightarrow> CHR 0x22 \<notin> set (xc_header c)"
  shows "readCsv (csvText columns rows) =
    Some (map xc_header columns # map (\<lambda>row. map (\<lambda>c. nullish (row (xc_key c)) []) columns) rows)"
proof -
  let ?rs = "map (\<lambda>row. map (\<lambda>c. nullish (row (xc_key c)) []) columns) rows"
  have h: "map (\<lambda>c. quot @ xc_header c @ quot) columns = map cell_text (map xc_header columns)"
    using header_text assms(2) by auto
  have b: "map (\<lambda>row. join '','' (map (\<lambda>c. csvCell (row (xc_key c))) columns)) rows = map (\<lambda>r. join '','' (map cell_text r)) ?rs"
    by (simp add: csvCell_text comp_def)
  show ?thesis
  proof (cases "rows = []")
    case True
    have csv: "csvText columns rows = join '','' (map cell_text (map xc_header columns)) @ newline"
      using True by (simp only: csvText_def Let_def h b) simp
    have "length (map xc_header columns) \<le> Suc (length (csvText columns rows))"
      using row_length [of "map xc_header columns"] unfolding csv length_append by linarith
    from readRecords_row [OF _ this, of newline "[]"] assms(1) True show ?thesis
      unfolding readCsv_def csv by (simp add: newline_def del: readRecords.simps map_map)
  next
    case False
    have "csvText columns rows = join newline (map (\<lambda>r. join '','' (map cell_text r)) (map xc_header columns # ?rs))"
      using False by (simp only: csvText_def Let_def h b list.map join_Cons) simp
    then show ?thesis using readCsv_rows [of "map xc_header columns # ?rs"] assms(1) by auto
  qed
qed

definition voter_columns :: "exportColumn list" where
  "voter_columns = [\<lparr>xc_header = ''Name'', xc_key = ''fullName''\<rparr>, \<lparr>xc_header = ''LGA'', xc_key = ''lga''\<rparr>]"

theorem csv_roundtrip_witness:
  "readCsv (csvText voter_columns [[''fullName'' \<mapsto> quot @ ''Ada, Jr.'' @ newline]]) = Some [[''Name'', ''LGA''], [quot @ ''Ada, Jr.'' @ newline, []]]"
proof -
  have "voter_columns \<noteq> []" "\<And>c. c \<in> set voter_columns \<Longrightarrow> CHR 0x22 \<notin> set (xc_header c)"
    by (auto simp: voter_columns_def)
  from csv_roundtrip [OF this, of "[[''fullName'' \<mapsto> quot @ ''Ada, Jr.'' @ newline]]"] show ?thesis
    by (simp add: voter_columns_def nullish_def)
qed

end
