(* ===== verification/Engagement.thy ===== *)
theory Engagement
  imports Html_Text Election_Choice
begin

text \<open>
  The documents of the stakeholder desk of the campaign's web client: the printed brief
  (\<^verbatim>\<open>src/campaign-platform/client/src/components/StakeholderBriefPDF.tsx\<close>) and the ninety-day calendar with its
  printed form (\<^verbatim>\<open>src/campaign-platform/client/src/components/EngagementCalendar.tsx\<close>). Dashes and middle dots of the templates are
  written \<open>-\<close> and \<open>*\<close>; the labels of the four languages and the symbols of the categories have characters the model does not
  have and are a parameter. Dates are days; how the locale prints them is a parameter too.
\<close>

section \<open>Stakeholders\<close>

datatype oneOrMany = One string | Many "string list"

record stakeholder =
  sh_id :: string
  sh_name :: string
  sh_category :: string
  sh_reach_pct :: rat
  sh_priority :: int
  sh_engagement_method :: oneOrMany
  sh_talking_points :: "string list option"
  sh_cultural_protocol :: string
  sh_best_engagement_time :: string
  sh_key_ask :: string

section \<open>The brief\<close>

record briefTexts =
  bt_lang :: string
  bt_title :: string
  bt_generated :: string
  bt_priority_groups :: string
  bt_critical_priority :: string
  bt_high_priority :: string
  bt_top10_heading :: string
  bt_cultural_protocol :: string
  bt_talking_points :: string
  bt_key_ask :: string
  bt_engagement :: string
  bt_best_time :: string
  bt_confidential :: string
  bt_platform :: string
  bt_today :: string
  bt_icon :: "string \<Rightarrow> string"

text \<open>\<open>x.toFixed(1)\<close>.\<close>

definition toFixed1 :: "rat \<Rightarrow> string" where
  "toFixed1 x = (if x < 0 then ''-'' else []) @ show_decimal (\<lfloor>\<bar>x\<bar> * 10 + 1 / 2\<rfloor>, 1)"

definition compareStakeholders :: "stakeholder \<Rightarrow> stakeholder \<Rightarrow> int" where
  "compareStakeholders a b =
     (if sh_priority a \<noteq> sh_priority b then sh_priority a - sh_priority b
      else if sh_reach_pct b > sh_reach_pct a then 1
      else if sh_reach_pct b < sh_reach_pct a then - 1 else 0)"

definition top10_of :: "stakeholder list \<Rightarrow> stakeholder list" where
  "top10_of stakeholders = take 10 (sortBy compareStakeholders stakeholders)"

definition priorityColor :: "stakeholder \<Rightarrow> string" where
  "priorityColor s = (if sh_priority s = 1 then ''#dc2626'' else if sh_priority s = 2 then ''#d97706'' else ''#2563eb'')"

definition priorityLabel :: "stakeholder \<Rightarrow> string" where
  "priorityLabel s = (if sh_priority s = 1 then ''CRITICAL'' else if sh_priority s = 2 then ''HIGH'' else ''MEDIUM'')"

definition shownPoints :: "stakeholder \<Rightarrow> string list" where
  "shownPoints s = (case sh_talking_points s of Some ps \<Rightarrow> take 3 ps | None \<Rightarrow> [sh_key_ask s])"

definition engagementMethod :: "stakeholder \<Rightarrow> string" where
  "engagementMethod s = (case sh_engagement_method s of One m \<Rightarrow> m | Many [] \<Rightarrow> [] | Many (m # _) \<Rightarrow> m)"

definition first_sentence :: "string \<Rightarrow> string" where
  "first_sentence s = takeWhile (\<lambda>c. c \<noteq> CHR ''.'') s"

definition talkingPoint :: "string \<Rightarrow> string" where
  "talkingPoint p =
     concat
      [''<li style='', quot, ''font-size:11px;color:#374151;line-height:1.6;margin-bottom:2px;'', quot, ''>'',
       escapeHtml p, ''</li>'']"

definition briefRow :: "briefTexts \<Rightarrow> string \<Rightarrow> nat \<times> stakeholder \<Rightarrow> string" where
  "briefRow t accentColor x =
     (case x of (i, s) \<Rightarrow>
      concat
       [newline, ''    <div style='', quot,
        ''margin-bottom:14px;padding:12px;border:1px solid #e5e7eb;border-left:4px solid '', accentColor,
        '';border-radius:6px;page-break-inside:avoid;'', quot, ''>'', newline, ''      <div style='', quot,
        ''display:flex;align-items:flex-start;gap:10px;'', quot, ''>'', newline, ''        <div style='', quot,
        ''width:26px;height:26px;border-radius:50%;background:'', accentColor,
        '';color:white;display:flex;align-items:center;justify-content:center;font-size:12px;font-weight:700;flex-shrink:0;'',
        quot, ''>'', show_nat (i + 1), ''</div>'', newline, ''        <div style='', quot, ''flex:1;min-width:0;'',
        quot, ''>'', newline, ''          <div style='', quot,
        ''display:flex;align-items:center;gap:8px;flex-wrap:wrap;margin-bottom:6px;'', quot, ''>'', newline,
        ''            <span style='', quot, ''font-size:14px;font-weight:700;color:#111827;'', quot, ''>'',
        bt_icon t (sh_category s), '' '', escapeHtml (sh_name s), ''</span>'', newline, ''            <span style='',
        quot, ''font-size:10px;font-weight:700;padding:2px 7px;border-radius:10px;background:'', priorityColor s,
        ''22;color:'', priorityColor s, '';border:1px solid '', priorityColor s, ''44;'', quot, ''>'',
        priorityLabel s, ''</span>'', newline, ''            <span style='', quot,
        ''font-size:10px;color:#6b7280;margin-left:auto;'', quot, ''>'', escapeHtml (sh_category s), '' * reach '',
        toFixed1 (sh_reach_pct s) @ ''% (editorial estimate)'', ''</span>'', newline, ''          </div>'', newline,
        ''          <div style='', quot, ''display:grid;grid-template-columns:1fr 1fr;gap:10px;margin-top:6px;'',
        quot, ''>'', newline, ''            <div>'', newline, ''              <div style='', quot,
        ''font-size:10px;font-weight:700;color:#374151;text-transform:uppercase;letter-spacing:0.05em;margin-bottom:3px;'',
        quot, ''>'', bt_key_ask t, ''</div>'', newline, ''              <div style='', quot,
        ''font-size:11px;color:#374151;line-height:1.5;'', quot, ''>'', escapeHtml (sh_key_ask s), ''</div>'',
        newline, ''            </div>'', newline, ''            <div>'', newline, ''              <div style='',
        quot,
        ''font-size:10px;font-weight:700;color:#374151;text-transform:uppercase;letter-spacing:0.05em;margin-bottom:3px;'',
        quot, ''>'', bt_cultural_protocol t, ''</div>'', newline, ''              <div style='', quot,
        ''font-size:11px;color:#374151;line-height:1.5;'', quot, ''>'',
        escapeHtml (first_sentence (sh_cultural_protocol s)), ''.</div>'', newline, ''            </div>'', newline,
        ''          </div>'', newline, ''          <div style='', quot, ''margin-top:7px;'', quot, ''>'', newline,
        ''            <div style='', quot,
        ''font-size:10px;font-weight:700;color:#374151;text-transform:uppercase;letter-spacing:0.05em;margin-bottom:3px;'',
        quot, ''>'', bt_talking_points t, ''</div>'', newline, ''            <ul style='', quot,
        ''margin:0;padding-left:16px;'', quot, ''>'', newline, ''              '',
        concat (map talkingPoint (shownPoints s)), newline, ''            </ul>'', newline, ''          </div>'',
        newline, ''          <div style='', quot, ''margin-top:7px;display:flex;gap:16px;flex-wrap:wrap;'', quot,
        ''>'', newline, ''            <span style='', quot, ''font-size:10px;color:#6b7280;'', quot, ''><strong>'',
        bt_engagement t, '':</strong> '', escapeHtml (engagementMethod s), ''</span>'', newline,
        ''            <span style='', quot, ''font-size:10px;color:#6b7280;'', quot, ''><strong>'', bt_best_time t,
        '':</strong> '', escapeHtml (sh_best_engagement_time s), ''</span>'', newline, ''          </div>'', newline,
        ''        </div>'', newline, ''      </div>'', newline, ''    </div>''])"

definition logoHTML :: "string \<Rightarrow> string" where
  "logoHTML safeLogo =
     (if safeLogo \<noteq> [] then
        concat
         [''<img src='', quot, safeLogo, quot, '' style='', quot,
          ''height:52px;width:auto;object-fit:contain;margin-right:14px;flex-shrink:0;'', quot, '' alt='', quot,
          ''Party Logo'', quot, '' />'']
      else [])"

definition briefPage :: "briefTexts \<Rightarrow> string \<Rightarrow> string \<Rightarrow> string \<Rightarrow> string \<Rightarrow> string \<Rightarrow> string \<Rightarrow> stakeholder list \<Rightarrow> string" where
  "briefPage t accentColor safeLogo candidateName office stateName party top10 =
     concat
      [''<!DOCTYPE html>'', newline, ''<html lang='', quot, bt_lang t, quot, ''>'', newline, ''<head>'', newline,
       ''  <meta charset='', quot, ''UTF-8'', quot, ''>'', newline, ''  <title>'', escapeHtml candidateName, '' - '',
       bt_title t, ''</title>'', newline, ''  <style>'', newline, ''    * { box-sizing: border-box; }'', newline,
       ''    body { font-family: Georgia, '', quot, ''Times New Roman'', quot,
       '', serif; margin: 0; padding: 32px 40px; color: #111827; background: white; }'', newline,
       ''    @media print { body { padding: 20px 24px; } @page { margin: 1cm; size: A4; } }'', newline,
       ''    .header { border-bottom: 3px solid '', accentColor,
       ''; padding-bottom: 16px; margin-bottom: 20px; display: flex; align-items: center; }'', newline,
       ''    .header h1 { font-size: 21px; margin: 0 0 4px 0; color: '', accentColor, ''; }'', newline,
       ''    .header .meta { font-size: 12px; color: #6b7280; }'', newline,
       ''    .stats { display: grid; grid-template-columns: repeat(3, 1fr); gap: 12px; margin-bottom: 20px; }'',
       newline, ''    .stat { background: #f9fafb; border: 1px solid #e5e7eb; border-left: 4px solid '', accentColor,
       ''; border-radius: 8px; padding: 10px 14px; text-align: center; }'', newline,
       ''    .stat .val { font-size: 20px; font-weight: 700; color: '', accentColor, ''; }'', newline,
       ''    .stat .lbl { font-size: 10px; color: #6b7280; text-transform: uppercase; letter-spacing: 0.05em; margin-top: 2px; }'',
       newline,
       ''    .section-title { font-size: 13px; font-weight: 700; text-transform: uppercase; letter-spacing: 0.08em; color: #374151; border-bottom: 2px solid '',
       accentColor, ''; padding-bottom: 6px; margin-bottom: 14px; }'', newline,
       ''    .footer { margin-top: 20px; padding-top: 12px; border-top: 1px solid #e5e7eb; font-size: 10px; color: #9ca3af; text-align: center; }'',
       newline, ''  </style>'', newline, ''</head>'', newline, ''<body>'', newline, ''  <div class='', quot,
       ''header'', quot, ''>'', newline, ''    '', logoHTML safeLogo, newline, ''    <div>'', newline,
       ''      <h1>'', escapeHtml candidateName, '' - '', bt_title t, ''</h1>'', newline, ''      <div class='',
       quot, ''meta'', quot, ''>'', escapeHtml office, '' * '', escapeHtml stateName,
       (if escapeHtml party \<noteq> [] then '' * '' @ escapeHtml party else []), '' * '', bt_generated t, '' '',
       bt_today t, ''</div>'', newline, ''    </div>'', newline, ''  </div>'', newline, ''  <div class='', quot,
       ''stats'', quot, ''>'', newline, ''    <div class='', quot, ''stat'', quot, ''><div class='', quot, ''val'',
       quot, ''>'', show_nat (length top10), ''</div><div class='', quot, ''lbl'', quot, ''>'', bt_priority_groups t,
       ''</div></div>'', newline, ''    <div class='', quot, ''stat'', quot, ''><div class='', quot, ''val'', quot,
       ''>'', show_nat (length (filter (\<lambda>s. sh_priority s = 1) top10)), ''</div><div class='', quot, ''lbl'',
       quot, ''>'', bt_critical_priority t, ''</div></div>'', newline, ''    <div class='', quot, ''stat'', quot,
       ''><div class='', quot, ''val'', quot, ''>'',
       show_nat (length (filter (\<lambda>s. sh_priority s = 2) top10)), ''</div><div class='', quot, ''lbl'', quot,
       ''>'', bt_high_priority t, ''</div></div>'', newline, ''  </div>'', newline, ''  <div class='', quot,
       ''section-title'', quot, ''>'', bt_top10_heading t, ''</div>'', newline, ''  '',
       concat (map (briefRow t accentColor) (enumerate 0 top10)), newline, ''  <div class='', quot, ''footer'', quot,
       ''>'', bt_platform t, '' * '', bt_confidential t, ''</div>'', newline, ''</body>'', newline, ''</html>'']"

definition generateBriefHTML ::
  "string option \<Rightarrow> briefTexts \<Rightarrow> stakeholder list \<Rightarrow> string \<Rightarrow> string \<Rightarrow> string \<Rightarrow> string \<Rightarrow> string \<Rightarrow> string \<Rightarrow> string" where
  "generateBriefHTML protocol t stakeholders candidateName office stateName party partyLogo partyColor =
     briefPage t (safeColor (if partyColor \<noteq> [] then partyColor else ''#111827'') ''#111827'') (safeImageUrl protocol partyLogo)
       candidateName office stateName party (top10_of stakeholders)"

section \<open>The calendar\<close>

datatype engagementPhase = Legitimacy | Mobilisation | Consolidation

record calendarEvent =
  ce_id :: string
  ce_day :: int
  ce_date :: date
  ce_week :: int
  ce_stakeholder :: stakeholder
  ce_eventType :: string
  ce_duration :: string
  ce_location :: string
  ce_notes :: string
  ce_phase :: engagementPhase

definition EVENT_TYPES :: "(string \<times> string list) list" where
  "EVENT_TYPES =
     [(''Traditional Leaders'', [''Royal palace visit'', ''Chieftaincy title acceptance ceremony'', ''Community development pledge'']),
      (''Women'', [''Market visit & town hall'', ''Women's association meeting'', ''Cooperative loan pledge event'']),
      (''Religious'', [''Mosque/church visit'', ''Religious welfare donation'', ''Faith leaders roundtable'']),
      (''Youth'', [''Campus rally'', ''Skills acquisition workshop'', ''Town hall with youth leaders'']),
      (''Agriculture'', [''Farm visit & cooperative meeting'', ''Fertiliser distribution event'', ''Agricultural policy dialogue'']),
      (''Labour'', [''Union congress meeting'', ''Worker welfare pledge event'', ''May Day rally participation'']),
      (''Professional'', [''Bar/medical association dinner'', ''Policy dialogue forum'', ''Pro-bono pledge signing'']),
      (''Civil Society'', [''Transparency pledge signing'', ''Policy manifesto review session'', ''CSO roundtable'']),
      (''Commerce'', [''Market visit'', ''Trader cooperative meeting'', ''Business policy dialogue'']),
      (''Diaspora'', [''Virtual town hall (Zoom)'', ''Diaspora investment summit'', ''Remittance policy dialogue'']),
      (''Inclusion'', [''Disability rights pledge event'', ''Accessible venue town hall'', ''Assistive device donation'']),
      (''Ethnic/Regional'', [''Cultural summit attendance'', ''Ethnic leaders roundtable'', ''Heritage event participation'']),
      (''Pastoral'', [''Community security dialogue'', ''Farmer-herder mediation meeting'', ''Rural infrastructure pledge''])]"

definition phaseMap :: "(string \<times> engagementPhase) list" where
  "phaseMap =
     [(''Traditional Leaders'', Legitimacy), (''Religious'', Legitimacy), (''Women'', Legitimacy), (''Labour'', Mobilisation),
      (''Youth'', Mobilisation), (''Agriculture'', Mobilisation), (''Commerce'', Mobilisation), (''Pastoral'', Mobilisation),
      (''Professional'', Consolidation), (''Civil Society'', Consolidation), (''Diaspora'', Consolidation),
      (''Inclusion'', Consolidation), (''Ethnic/Regional'', Legitimacy)]"

fun phaseOffset :: "engagementPhase \<Rightarrow> int" where
  "phaseOffset Legitimacy = 0"
| "phaseOffset Mobilisation = 30"
| "phaseOffset Consolidation = 60"

text \<open>\<open>getDay() === 0\<close>; the epoch was a Thursday.\<close>

definition is_sunday :: "date \<Rightarrow> bool" where
  "is_sunday d \<longleftrightarrow> (d + 4) mod 7 = 0"

definition calendarEntry :: "date \<Rightarrow> string \<Rightarrow> nat \<Rightarrow> nat \<Rightarrow> stakeholder \<Rightarrow> calendarEvent" where
  "calendarEntry start stateName k idx s =
     (let phase = nullish (map_of phaseMap (sh_category s)) Consolidation;
          dayWithinPhase = int k * 3 + 1;
          day = min (phaseOffset phase + dayWithinPhase) 88;
          d0 = start + day - 1;
          d = (if is_sunday d0 then d0 + 1 else d0);
          options = nullish (map_of EVENT_TYPES (sh_category s)) [''Meeting'', ''Town hall'', ''Dialogue'']
      in \<lparr>ce_id = ''evt-'' @ sh_id s @ ''-'' @ show_int day, ce_day = day, ce_date = d, ce_week = (day + 6) div 7,
          ce_stakeholder = s, ce_eventType = options ! (idx mod length options),
          ce_duration = (if sh_priority s = 1 then ''2-3 hours'' else ''1-2 hours''),
          ce_location = stateName @ '' - '' @ (if sh_category s = ''Diaspora'' then ''Virtual (Zoom)'' else ''TBD with group''),
          ce_notes = first_sentence (sh_cultural_protocol s) @ ''.'', ce_phase = phase\<rparr>)"

fun scheduleFrom :: "date \<Rightarrow> string \<Rightarrow> (engagementPhase \<Rightarrow> nat) \<Rightarrow> nat \<Rightarrow> stakeholder list \<Rightarrow> calendarEvent list" where
  "scheduleFrom start stateName counters idx [] = []"
| "scheduleFrom start stateName counters idx (s # ss) =
     (let phase = nullish (map_of phaseMap (sh_category s)) Consolidation
      in calendarEntry start stateName (counters phase) idx s #
         scheduleFrom start stateName (counters(phase := counters phase + 1)) (idx + 1) ss)"

definition invited :: "stakeholder list \<Rightarrow> stakeholder list" where
  "invited stakeholders =
     take 10 (filter (\<lambda>s. sh_priority s = 1) stakeholders) @ take 8 (filter (\<lambda>s. sh_priority s = 2) stakeholders)"

definition generateCalendar :: "stakeholder list \<Rightarrow> date \<Rightarrow> string \<Rightarrow> calendarEvent list" where
  "generateCalendar stakeholders start stateName =
     sortBy (\<lambda>a b. ce_day a - ce_day b) (scheduleFrom start stateName (\<lambda>_. 0) 0 (invited stakeholders))"

section \<open>The printed calendar\<close>

fun show_phase :: "engagementPhase \<Rightarrow> string" where
  "show_phase Legitimacy = ''Legitimacy''"
| "show_phase Mobilisation = ''Mobilisation''"
| "show_phase Consolidation = ''Consolidation''"

fun phaseClass :: "engagementPhase \<Rightarrow> string" where
  "phaseClass Legitimacy = ''leg''"
| "phaseClass Mobilisation = ''mob''"
| "phaseClass Consolidation = ''con''"

fun phaseDesc :: "engagementPhase \<Rightarrow> string" where
  "phaseDesc Legitimacy = ''Days 1-30 * Establish credibility with traditional, religious, and women's leaders''"
| "phaseDesc Mobilisation = ''Days 31-60 * Activate ground networks: labour, youth, farmers, and commerce''"
| "phaseDesc Consolidation = ''Days 61-90 * Lock in professional, civil society, diaspora, and inclusion endorsements''"

definition printRow :: "(date \<Rightarrow> string) \<Rightarrow> calendarEvent \<Rightarrow> string" where
  "printRow showDay e =
     concat
      [''<tr><td style='', quot, ''padding:6px 8px;border-bottom:1px solid #e5e7eb;font-size:12px;color:#6b7280;'',
       quot, ''>Day '', show_int (ce_day e), '' * '', showDay (ce_date e), ''</td><td style='', quot,
       ''padding:6px 8px;border-bottom:1px solid #e5e7eb;font-size:12px;font-weight:600;'', quot, ''>'',
       escapeHtml (sh_name (ce_stakeholder e)), ''</td><td style='', quot,
       ''padding:6px 8px;border-bottom:1px solid #e5e7eb;font-size:12px;'', quot, ''>'', escapeHtml (ce_eventType e),
       ''</td><td style='', quot, ''padding:6px 8px;border-bottom:1px solid #e5e7eb;font-size:12px;color:#6b7280;'',
       quot, ''>'', escapeHtml (ce_duration e), ''</td><td style='', quot,
       ''padding:6px 8px;border-bottom:1px solid #e5e7eb;font-size:12px;color:#374151;'', quot, ''>'',
       escapeHtml (take 70 (sh_key_ask (ce_stakeholder e))), ''...</td></tr>'']"

definition printPhase :: "(date \<Rightarrow> string) \<Rightarrow> calendarEvent list \<Rightarrow> engagementPhase \<Rightarrow> string" where
  "printPhase showDay events phase =
     concat
      [''<h2><span class='', quot, ''phase-badge '', phaseClass phase, quot, ''>'', show_phase phase, ''</span> - '',
       phaseDesc phase, ''</h2>'', newline,
       ''    <table><tr><th>Date</th><th>Stakeholder Group</th><th>Event Type</th><th>Duration</th><th>Key Ask</th></tr>'',
       newline, ''    '', concat (map (printRow showDay) (filter (\<lambda>e. ce_phase e = phase) events)), newline,
       ''    </table>'']"

definition generatePrintHTML :: "(date \<Rightarrow> string) \<Rightarrow> string \<Rightarrow> calendarEvent list \<Rightarrow> string \<Rightarrow> string \<Rightarrow> string \<Rightarrow> string" where
  "generatePrintHTML showDay today events candidateName stateName office =
     concat
      [''<!DOCTYPE html><html><head><meta charset='', quot, ''UTF-8'', quot, ''><title>'', escapeHtml candidateName,
       '' - 90-Day Stakeholder Calendar</title>'', newline,
       ''  <style>body{font-family:Georgia,serif;margin:40px;color:#111;}h1{font-size:22px;margin-bottom:4px;}h2{font-size:15px;color:#374151;margin-top:28px;border-bottom:2px solid #111;padding-bottom:4px;}'',
       newline,
       ''  .meta{color:#6b7280;font-size:13px;margin-bottom:24px;}table{width:100%;border-collapse:collapse;}th{text-align:left;padding:8px;background:#111;color:white;font-size:12px;}'',
       newline,
       ''  .phase-badge{display:inline-block;padding:2px 8px;border-radius:4px;font-size:11px;font-weight:bold;margin-bottom:6px;}'',
       newline,
       ''  .leg{background:#ede9fe;color:#5b21b6;}.mob{background:#dcfce7;color:#15803d;}.con{background:#fef3c7;color:#92400e;}'',
       newline, ''  @media print{body{margin:20px;}}</style></head><body>'', newline, ''  <h1>'',
       escapeHtml candidateName, '' - 90-Day Stakeholder Engagement Calendar</h1>'', newline, ''  <div class='',
       quot, ''meta'', quot, ''>'', escapeHtml office, '' * '', escapeHtml stateName, '' * Generated '', today,
       ''</div>'', newline, ''  '',
       concat (map (printPhase showDay events) [Legitimacy, Mobilisation, Consolidation]), newline, ''  <p style='',
       quot, ''margin-top:32px;font-size:11px;color:#9ca3af;'', quot,
       ''>Generated by INEC Campaign Intelligence Platform * Stakeholder Engagement Engine v2.0</p>'', newline,
       ''  </body></html>'']"

section \<open>Stored text never becomes markup\<close>

definition inert_texts :: "briefTexts \<Rightarrow> bool" where
  "inert_texts t \<longleftrightarrow>
     (\<forall>c. skeleton (bt_icon t c) = []) \<and>
     list_all (\<lambda>x. skeleton x = [])
       [bt_lang t, bt_title t, bt_generated t, bt_priority_groups t, bt_critical_priority t, bt_high_priority t, bt_top10_heading t,
        bt_cultural_protocol t, bt_talking_points t, bt_key_ask t, bt_engagement t, bt_best_time t, bt_confidential t, bt_platform t,
        bt_today t]"

lemma digits_inert: "list_all is_digit s \<Longrightarrow> skeleton s = []"
  using plain_chars(3) by (auto simp: skeleton_empty list_all_iff)

lemma show_nat_inert [simp]: "skeleton (show_nat n) = []"
  by (rule digits_inert [OF show_nat_digits])

lemma sign_inert [simp]: "skeleton (if b then ''-'' else []) = []" "skeleton ''.'' = []" "skeleton ''-'' = []"
  by (simp_all add: skeleton_def markup_char_def)

lemma show_int_inert [simp]: "skeleton (show_int i) = []"
proof -
  have "skeleton (rev (digits_rev n)) = []" for n using show_nat_inert [of n] by (simp add: show_nat_def)
  moreover have "skeleton (CHR ''-'' # xs) = skeleton xs" for xs by (simp add: skeleton_def markup_char_def)
  ultimately show ?thesis by (simp add: show_int_def)
qed

lemma show_decimal_inert [simp]: "skeleton (show_decimal d) = []"
proof (cases d)
  case (Pair m k)
  have "skeleton (pad_zeros k (show_nat n)) = []" for n by (rule digits_inert [OF pad_zeros_digits])
  moreover have "skeleton (CHR ''.'' # xs) = skeleton xs" for xs by (simp add: skeleton_def markup_char_def)
  ultimately show ?thesis using Pair by (simp add: show_decimal_def Let_def)
qed

lemma toFixed1_inert [simp]: "skeleton (toFixed1 x) = []"
  by (simp add: toFixed1_def)

lemma priority_inert [simp]: "skeleton (priorityColor s) = []" "skeleton (priorityLabel s) = []"
  by (simp_all add: priorityColor_def priorityLabel_def skeleton_def markup_char_def)

lemma inert_textsD:
  assumes "inert_texts t"
  shows "skeleton (bt_icon t c) = []" "skeleton (bt_lang t) = []" "skeleton (bt_title t) = []" "skeleton (bt_generated t) = []"
    "skeleton (bt_priority_groups t) = []" "skeleton (bt_critical_priority t) = []" "skeleton (bt_high_priority t) = []"
    "skeleton (bt_top10_heading t) = []" "skeleton (bt_cultural_protocol t) = []" "skeleton (bt_talking_points t) = []"
    "skeleton (bt_key_ask t) = []" "skeleton (bt_engagement t) = []" "skeleton (bt_best_time t) = []"
    "skeleton (bt_confidential t) = []" "skeleton (bt_platform t) = []" "skeleton (bt_today t) = []"
  using assms by (simp_all add: inert_texts_def)

lemma party_inert [simp]: "skeleton (if escapeHtml p \<noteq> [] then '' * '' @ escapeHtml p else []) = []"
  using escapeHtml_inert [of p] by (simp add: skeleton_def markup_char_def)

lemma reach_inert [simp]: "skeleton (toFixed1 x @ ''% (editorial estimate)'') = []"
  using toFixed1_inert [of x] by (simp add: skeleton_def markup_char_def)

lemma concat_const: "(\<And>x. x \<in> set xs \<Longrightarrow> f x = c) \<Longrightarrow> concat (map f xs) = concat (replicate (length xs) c)"
  by (induction xs) simp_all

lemma talkingPoint_skeleton: "skeleton (talkingPoint p) = skeleton (talkingPoint q)"
  by (simp only: talkingPoint_def skeleton_concat list.map escapeHtml_inert)

lemma points_skeleton: "skeleton (concat (map talkingPoint ps)) = concat (replicate (length ps) (skeleton (talkingPoint [])))"
  using talkingPoint_skeleton by (simp add: comp_def concat_const)

lemma briefRow_skeleton:
  assumes "inert_texts t" and "skeleton a = []" and "skeleton b = []" and "length (shownPoints s) = length (shownPoints s')"
  shows "skeleton (briefRow t a (i, s)) = skeleton (briefRow t b (j, s'))"
  unfolding briefRow_def prod.case skeleton_concat [of "_ # _"] list.map points_skeleton
  by (simp only: inert_textsD [OF assms(1)] assms(2-4) escapeHtml_inert priority_inert reach_inert show_nat_inert)

lemma rows_skeleton:
  assumes "inert_texts t" and "skeleton a = []" and "skeleton b = []"
  shows "list_all2 (\<lambda>s s'. length (shownPoints s) = length (shownPoints s')) xs ys \<Longrightarrow>
    skeleton (concat (map (briefRow t a) (enumerate n xs))) = skeleton (concat (map (briefRow t b) (enumerate n ys)))"
proof (induction arbitrary: n rule: list_all2_induct)
  case (Cons x xs y ys)
  then show ?case using briefRow_skeleton [OF assms Cons.hyps(1)] by simp
qed simp

lemma logo_skeleton:
  assumes "skeleton l = []" and "skeleton l' = []" and "l = [] \<longleftrightarrow> l' = []"
  shows "skeleton (logoHTML l) = skeleton (logoHTML l')"
proof (cases "l = []")
  case False
  then have "l \<noteq> []" "l' \<noteq> []" using assms(3) by simp_all
  then show ?thesis unfolding logoHTML_def by (simp only: if_True not_False_eq_True skeleton_concat list.map assms(1,2))
qed (use assms(3) in simp)

lemma list_all2_same_map: "map f xs = map f ys \<Longrightarrow> list_all2 (\<lambda>x y. f x = f y) xs ys"
  by (simp add: list_all2_conv_all_nth list_eq_iff_nth_eq)

lemma default_colour: "skeleton (safeColor v ''#111827'') = []"
  by (rule safeColor_inert) (simp add: skeleton_def markup_char_def)


definition english :: briefTexts where
  "english = \<lparr>bt_lang = ''en'', bt_title = ''Stakeholder Engagement Brief'', bt_generated = ''Generated'',
     bt_priority_groups = ''Priority Groups'', bt_critical_priority = ''Critical Priority'', bt_high_priority = ''High Priority'',
     bt_top10_heading = ''Top 10 Stakeholder Groups - Engagement Playbook'', bt_cultural_protocol = ''Cultural Protocol'',
     bt_talking_points = ''Talking Points'', bt_key_ask = ''Key Ask'', bt_engagement = ''Engagement'', bt_best_time = ''Best Time'',
     bt_confidential = ''CONFIDENTIAL - For Campaign Use Only'',
     bt_platform = ''INEC Campaign Intelligence Platform * Stakeholder Engagement Engine v6.0'', bt_today = ''Friday'', bt_icon = (\<lambda>_. ''*'')\<rparr>"

definition plain_stakeholder :: stakeholder where
  "plain_stakeholder = \<lparr>sh_id = ''s1'', sh_name = ''Emir'', sh_category = ''Traditional Leaders'', sh_reach_pct = 3, sh_priority = 1,
     sh_engagement_method = One ''visit'', sh_talking_points = None, sh_cultural_protocol = ''Kneel. Wait.'',
     sh_best_engagement_time = ''morning'', sh_key_ask = ''endorse''\<rparr>"

definition hostile_stakeholder :: stakeholder where
  "hostile_stakeholder = plain_stakeholder\<lparr>sh_name := ''<img src=x onerror=alert(1)>'', sh_key_ask := quot @ ''><script>''\<rparr>"

lemma english_inert: "inert_texts english"
  by (simp add: inert_texts_def english_def skeleton_def markup_char_def)

lemma top10_single: "top10_of [s] = [s]"
  by (simp add: top10_of_def sortBy_def)


text \<open>The same for the printed calendar: its markup depends only on the phases of its events.\<close>

lemma printRow_skeleton: "(\<And>d. skeleton (showDay d) = []) \<Longrightarrow> skeleton (printRow showDay e) = skeleton (printRow showDay e')"
  by (simp only: printRow_def skeleton_concat list.map escapeHtml_inert show_int_inert)

lemma printRows_skeleton:
  assumes "\<And>d. skeleton (showDay d) = []" and "length es = length es'"
  shows "skeleton (concat (map (printRow showDay) es)) = skeleton (concat (map (printRow showDay) es'))"
  using assms(2)
proof (induction es es' rule: list_induct2)
  case (Cons e es e' es')
  then show ?case using printRow_skeleton [OF assms(1), where e = e and e' = e'] by simp
qed simp

lemma print_markup_fixed:
  assumes "\<And>d. skeleton (showDay d) = []" and "skeleton today = []" and "skeleton today' = []" and "map ce_phase es = map ce_phase es'"
  shows "skeleton (generatePrintHTML showDay today es name state office) = skeleton (generatePrintHTML showDay today' es' name' state' office')"
proof -
  have "length (filter (\<lambda>e. ce_phase e = ph) es) = length (filter (\<lambda>e. ce_phase e = ph) es')" for ph
    using arg_cong [OF assms(4), of "\<lambda>ps. length (filter (\<lambda>p. p = ph) ps)"] by (simp add: filter_map comp_def)
  note rows = printRows_skeleton [OF assms(1) this]
  have phase: "skeleton (printPhase showDay es ph) = skeleton (printPhase showDay es' ph)" for ph
    unfolding printPhase_def skeleton_concat [of "''<h2><span class='' # _"] list.map by (simp only: rows)
  show ?thesis
    unfolding generatePrintHTML_def skeleton_concat [of "''<!DOCTYPE html><html><head><meta charset='' # _"] list.map
    by (simp only: escapeHtml_inert assms(2,3) list.map concat.simps skeleton_simps phase)
qed

section \<open>The plan of ninety days\<close>

definition planned :: "date \<Rightarrow> calendarEvent \<Rightarrow> bool" where
  "planned start e \<longleftrightarrow>
     1 \<le> ce_day e \<and> ce_day e \<le> 88 \<and> phaseOffset (ce_phase e) < ce_day e \<and>
     start + ce_day e - 1 \<le> ce_date e \<and> ce_date e \<le> start + ce_day e \<and> \<not> is_sunday (ce_date e) \<and>
     1 \<le> ce_week e \<and> ce_week e \<le> 13"

lemma monday: "is_sunday d \<Longrightarrow> \<not> is_sunday (d + 1)"
  unfolding is_sunday_def by presburger

lemma offset_bound: "phaseOffset ph < 88" "0 \<le> phaseOffset ph"
  by (cases ph; simp)+

lemma entry_planned: "planned start (calendarEntry start st k idx s)"
proof -
  let ?ph = "nullish (map_of phaseMap (sh_category s)) Consolidation"
  define day where "day = min (phaseOffset ?ph + (int k * 3 + 1)) 88"
  have day: "1 \<le> day" "day \<le> 88" "phaseOffset ?ph < day" using offset_bound [of ?ph] by (auto simp: day_def)
  then have "1 \<le> (day + 6) div 7" "(day + 6) div 7 \<le> 13" by presburger+
  with day show ?thesis using monday [of "start + day - 1"] by (simp add: planned_def calendarEntry_def Let_def day_def [symmetric])
qed

lemma entry_stakeholder [simp]: "ce_stakeholder (calendarEntry start st k idx s) = s"
  by (simp add: calendarEntry_def Let_def)

lemma schedule_stakeholders: "map ce_stakeholder (scheduleFrom start st c idx ss) = ss"
  by (induction ss arbitrary: c idx) (simp_all add: Let_def)

lemma schedule_planned: "e \<in> set (scheduleFrom start st c idx ss) \<Longrightarrow> planned start e"
  by (induction ss arbitrary: c idx) (auto simp: Let_def entry_planned)

text \<open>C37: the calendar invites exactly the first ten stakeholders of first and the first eight of second priority, once each,
  in the order of their days; every event lies within the first 88 days and after the start of its phase, on its day or,
  when that is a Sunday, on the Monday after it, and never on a Sunday.\<close>

theorem calendar_plan:
  "mset (map ce_stakeholder (generateCalendar ss start st)) =
     mset (take 10 (filter (\<lambda>s. sh_priority s = 1) ss) @ take 8 (filter (\<lambda>s. sh_priority s = 2) ss)) \<and>
   sorted (map ce_day (generateCalendar ss start st)) \<and>
   list_all (\<lambda>e. 1 \<le> ce_day e \<and> ce_day e \<le> 88 \<and> phaseOffset (ce_phase e) < ce_day e \<and>
     start + ce_day e - 1 \<le> ce_date e \<and> ce_date e \<le> start + ce_day e \<and> (ce_date e + 4) mod 7 \<noteq> 0) (generateCalendar ss start st)"
proof (intro conjI)
  show "mset (map ce_stakeholder (generateCalendar ss start st)) =
      mset (take 10 (filter (\<lambda>s. sh_priority s = 1) ss) @ take 8 (filter (\<lambda>s. sh_priority s = 2) ss))"
    by (simp add: generateCalendar_def mset_map) (simp add: mset_map [symmetric] schedule_stakeholders invited_def del: mset_map)
  show "sorted (map ce_day (generateCalendar ss start st))"
    unfolding generateCalendar_def by (rule sorted_sortBy) simp
  show "list_all (\<lambda>e. 1 \<le> ce_day e \<and> ce_day e \<le> 88 \<and> phaseOffset (ce_phase e) < ce_day e \<and>
      start + ce_day e - 1 \<le> ce_date e \<and> ce_date e \<le> start + ce_day e \<and> (ce_date e + 4) mod 7 \<noteq> 0) (generateCalendar ss start st)"
    using schedule_planned by (force simp: list_all_iff generateCalendar_def planned_def is_sunday_def)
qed

text \<open>A phase with more than ten stakeholders runs into the next one: the eleventh meets on day 31, under the heading of
  the days 1 to 30.\<close>

lemma phase_overruns:
  "list_ex (\<lambda>e. ce_phase e = Legitimacy \<and> ce_day e = 31)
     (generateCalendar (replicate 10 plain_stakeholder @ [plain_stakeholder\<lparr>sh_priority := 2\<rparr>]) 0 [])"
  by code_simp

end
