(* ===== verification/Web_Telemetry.thy ===== *)
theory Web_Telemetry
  imports Json_Text
begin

text \<open>
  The error log of the INEC web frontend (\<^verbatim>\<open>src/inec-frontend/src/lib/utils.ts\<close>): what is removed from a message before it is
  sent, and the queue that collects the records into batches. In a production build a record is queued; a batch leaves
  when ten records are waiting, when the timer fires or when the page is hidden. A batch that was handed over counts as
  sent, as in the code, which ignores what becomes of it.
\<close>

section \<open>Removing personal data\<close>

definition word_char :: "char \<Rightarrow> bool" where
  "word_char c \<longleftrightarrow> is_lower c \<or> is_upper c \<or> is_digit c \<or> c = CHR ''_''"

definition is_letter :: "char \<Rightarrow> bool" where
  "is_letter c \<longleftrightarrow> is_lower c \<or> is_upper c"

text \<open>\<open>s.replace(re, r)\<close> with the flag \<open>g\<close>: \<open>m\<close> gives what remains after a match at the start. A match is not empty.\<close>

function replaceAll :: "(string \<Rightarrow> string option) \<Rightarrow> string \<Rightarrow> string \<Rightarrow> string" where
  "replaceAll m r [] = []"
| "replaceAll m r (c # cs) =
     (case m (c # cs) of
        Some rest \<Rightarrow> if length rest \<le> length cs then r @ replaceAll m r rest else c # replaceAll m r cs
      | None \<Rightarrow> c # replaceAll m r cs)"
  by pat_completeness auto
termination
  by (relation "measure (\<lambda>(m, r, s). length s)") auto

text \<open>\<open>[A-Za-z0-9.-]+\.[A-Za-z]{2,}\<close>: the last dot of the run that two letters follow ends the repetition.\<close>

definition domain_char :: "char \<Rightarrow> bool" where
  "domain_char c \<longleftrightarrow> is_letter c \<or> is_digit c \<or> c = CHR ''.'' \<or> c = CHR ''-''"

definition matchDomain :: "string \<Rightarrow> string option" where
  "matchDomain s =
     map_option (\<lambda>k. dropWhile is_letter (drop (k + 1) s))
       (find (\<lambda>k. s ! k = CHR ''.'' \<and> 2 \<le> length (takeWhile is_letter (drop (k + 1) s))) (rev [1..<length (takeWhile domain_char s)]))"

text \<open>\<open>[A-Za-z0-9._%+-]+@\<close> and the domain.\<close>

definition local_char :: "char \<Rightarrow> bool" where
  "local_char c \<longleftrightarrow> is_letter c \<or> is_digit c \<or> c \<in> set ''._%+-''"

definition matchEmail :: "string \<Rightarrow> string option" where
  "matchEmail s =
     (let r = dropWhile local_char s
      in if takeWhile local_char s = [] \<or> take 1 r \<noteq> ''@'' then None else matchDomain (drop 1 r))"

text \<open>\<open>/Bearer\s+\S+/i\<close>.\<close>

definition matchBearer :: "string \<Rightarrow> string option" where
  "matchBearer s =
     (let r = drop 6 s; t = dropWhile is_space r
      in if toLowerCase (take 6 s) = ''bearer'' \<and> takeWhile is_space r \<noteq> [] \<and> t \<noteq> []
         then Some (dropWhile (\<lambda>c. \<not> is_space c) t) else None)"

text \<open>\<open>/\b\d{6,}\b/g\<close>; \<open>w\<close> says whether a word character precedes.\<close>

function replaceNumbers :: "bool \<Rightarrow> string \<Rightarrow> string" where
  "replaceNumbers w [] = []"
| "replaceNumbers w (c # cs) =
     (let ds = takeWhile is_digit (c # cs); rest = dropWhile is_digit (c # cs)
      in if \<not> w \<and> 6 \<le> length ds \<and> (rest = [] \<or> \<not> word_char (hd rest)) then ''[redacted-num]'' @ replaceNumbers True rest
         else c # replaceNumbers (word_char c) cs)"
  by pat_completeness auto
termination
  by (relation "measure (\<lambda>(w, s). length s)") (auto simp: length_dropWhile_le less_Suc_eq_le split: if_splits)

declare replaceNumbers.simps(2) [simp del]

datatype logged = LogText string | LogError string | LogJson json | LogUndefined

fun log_text :: "logged \<Rightarrow> string" where
  "log_text (LogText s) = s"
| "log_text (LogError message) = message"
| "log_text (LogJson v) = stringify v"
| "log_text LogUndefined = ''undefined''"

definition sanitize :: "logged \<Rightarrow> string" where
  "sanitize v =
     take 500 (replaceNumbers False (replaceAll matchBearer ''Bearer [redacted]'' (replaceAll matchEmail ''[redacted-email]'' (log_text v))))"

section \<open>The queue\<close>

record frontendErrorRecord =
  fe_message :: string
  fe_page :: string
  fe_timestamp :: time
  fe_user_agent :: string

text \<open>The queue, the variable \<open>flushTimer\<close>, the timers that were armed and have not fired, and the batches sent. A flush resets the
  variable and leaves the armed timer armed.\<close>

record errorLog =
  lg_queue :: "frontendErrorRecord list"
  lg_flushTimer :: bool
  lg_armed :: nat
  lg_batches :: "frontendErrorRecord list list"

definition no_errors :: errorLog where
  "no_errors = \<lparr>lg_queue = [], lg_flushTimer = False, lg_armed = 0, lg_batches = []\<rparr>"

definition flushErrors :: "errorLog \<Rightarrow> errorLog" where
  "flushErrors l =
     (let l1 = l\<lparr>lg_flushTimer := False\<rparr>
      in if lg_queue l = [] then l1 else l1\<lparr>lg_queue := [], lg_batches := lg_batches l @ [lg_queue l]\<rparr>)"

definition queueError :: "frontendErrorRecord \<Rightarrow> errorLog \<Rightarrow> errorLog" where
  "queueError r l =
     (let l1 = l\<lparr>lg_queue := lg_queue l @ [r]\<rparr>
      in if length (lg_queue l1) \<ge> 10 then flushErrors l1
         else if \<not> lg_flushTimer l1 then l1\<lparr>lg_flushTimer := True, lg_armed := lg_armed l1 + 1\<rparr>
         else l1)"

definition flushTimerFires :: "errorLog \<Rightarrow> errorLog" where
  "flushTimerFires l = (if lg_armed l = 0 then l else flushErrors (l\<lparr>lg_armed := lg_armed l - 1\<rparr>))"

text \<open>\<open>logger.error\<close> in a build for development (\<open>dev\<close>) writes to the console only.\<close>

definition logger_error :: "bool \<Rightarrow> logged list \<Rightarrow> string \<Rightarrow> time \<Rightarrow> string \<Rightarrow> errorLog \<Rightarrow> errorLog" where
  "logger_error dev args fragment now agent l =
     (if dev then l
      else queueError
        \<lparr>fe_message = join '' '' (map sanitize args),
         fe_page =
           (let f = (if take 2 fragment = ''#/'' then drop 2 fragment else if take 1 fragment = ''#'' then drop 1 fragment else fragment);
                p = takeWhile (\<lambda>c. c \<noteq> CHR ''/'' \<and> c \<noteq> CHR ''?'') f
            in if p = [] then ''dashboard'' else p),
         fe_timestamp = now, fe_user_agent = take 200 agent\<rparr> l)"

section \<open>Properties\<close>

text \<open>Everything that happens to the log, with the records queued so far.\<close>

inductive log_run :: "frontendErrorRecord list \<Rightarrow> errorLog \<Rightarrow> bool" where
  start: "log_run [] no_errors"
| logs: "log_run rs l \<Longrightarrow> log_run (rs @ [r]) (queueError r l)"
| timer: "log_run rs l \<Longrightarrow> log_run rs (flushTimerFires l)"
| pagehide: "log_run rs l \<Longrightarrow> log_run rs (flushErrors l)"

definition log_kept :: "frontendErrorRecord list \<Rightarrow> errorLog \<Rightarrow> bool" where
  "log_kept rs l \<longleftrightarrow>
     concat (lg_batches l) @ lg_queue l = rs \<and> length (lg_queue l) < 10 \<and> (lg_queue l \<noteq> [] \<longrightarrow> 0 < lg_armed l) \<and>
     (lg_flushTimer l \<longrightarrow> 0 < lg_armed l)"

lemma flush_kept: "concat (lg_batches l) @ lg_queue l = rs \<Longrightarrow> log_kept rs (flushErrors l)"
  by (auto simp: flushErrors_def log_kept_def Let_def)

lemma queue_kept: "log_kept rs l \<Longrightarrow> log_kept (rs @ [r]) (queueError r l)"
proof -
  assume kept: "log_kept rs l"
  show ?thesis
  proof (cases "length (lg_queue l) \<ge> 9")
    case True
    have "log_kept (rs @ [r]) (flushErrors (l\<lparr>lg_queue := lg_queue l @ [r]\<rparr>))"
      using kept by (intro flush_kept) (auto simp: log_kept_def)
    with True show ?thesis by (simp add: queueError_def)
  next
    case False
    with kept show ?thesis by (auto simp: queueError_def log_kept_def Let_def)
  qed
qed

text \<open>C39: however records arrive, timers fire and pages are hidden, every record is in exactly one place, in the order of
  arrival: in one batch that was sent, or among fewer than ten that wait; and while any waits a timer is armed that will
  send it.\<close>

theorem errors_sent_once:
  assumes "log_run rs l"
  shows "concat (lg_batches l) @ lg_queue l = rs \<and> length (lg_queue l) < 10 \<and> (lg_queue l = [] \<or> 0 < lg_armed l)"
proof -
  from assms have "log_kept rs l"
  proof (induction rule: log_run.induct)
    case start
    then show ?case by (simp add: log_kept_def no_errors_def)
  next
    case (logs rs l r)
    show ?case by (rule queue_kept [OF logs.IH])
  next
    case (timer rs l)
    show ?case
    proof (cases "lg_armed l = 0")
      case False
      have "log_kept rs (flushErrors (l\<lparr>lg_armed := lg_armed l - 1\<rparr>))"
        using timer.IH by (intro flush_kept) (simp add: log_kept_def)
      with False show ?thesis by (simp add: flushTimerFires_def)
    qed (use timer.IH in \<open>simp add: flushTimerFires_def\<close>)
  next
    case (pagehide rs l)
    then show ?case by (intro flush_kept) (simp add: log_kept_def)
  qed
  then show ?thesis by (auto simp: log_kept_def)
qed

lemma sanitize_length: "length (sanitize v) \<le> 500"
  by (simp add: sanitize_def)

text \<open>A number of six digits or more on its own is removed, whatever it is; a number that follows a letter or an underscore is
  kept, however long it is.\<close>

lemma lone_number_removed:
  assumes "list_all is_digit ds" "6 \<le> length ds"
  shows "replaceNumbers False ds = ''[redacted-num]''"
proof -
  have "takeWhile is_digit ds = ds" "dropWhile is_digit ds = []"
    using assms(1) by (auto simp: list_all_iff)
  with assms(2) show ?thesis by (cases ds) (simp_all add: replaceNumbers.simps(2) Let_def)
qed

lemma digits_after_word: "list_all is_digit ds \<Longrightarrow> replaceNumbers True ds = ds"
proof (induction ds)
  case (Cons d ds)
  then have "replaceNumbers (word_char d) ds = ds" by (simp add: word_char_def)
  then show ?case by (subst replaceNumbers.simps(2)) simp
qed simp

lemma joined_number_kept:
  assumes "list_all is_digit ds" "word_char c" "\<not> is_digit c"
  shows "replaceNumbers w (c # ds) = c # ds"
  using assms(2,3) digits_after_word [OF assms(1)] by (subst replaceNumbers.simps(2)) simp

definition demo_record :: frontendErrorRecord where
  "demo_record = \<lparr>fe_message = ''map failed'', fe_page = ''map'', fe_timestamp = 0, fe_user_agent = ''Firefox''\<rparr>"

theorem errors_sent_once_witness:
  "concat (lg_batches (queueError demo_record no_errors)) @ lg_queue (queueError demo_record no_errors) = [demo_record]"
  using errors_sent_once [OF log_run.logs [OF log_run.start, of demo_record]] by simp

end
