(* ===== verification/Spec2Isabelle.thy ===== *)
theory Spec2Isabelle
  imports App_Router Forge_Services Server_Metrics Canvass_Sync Result_Capture Web_Session Field_Workflow Engagement Web_Telemetry
begin

text \<open>
  Verification of the election software in \<open>src/\<close>: the server of the campaign platform
  (\<open>src/campaign-platform/server\<close>, its tables in \<open>src/campaign-platform/drizzle/schema.ts\<close>), the
  offline cores of the phone application, the observers' (\<open>src/inec-mobile/src/lib\<close>) and the
  canvassers' (\<open>src/inec-mobile/lib\<close> with the screens that use it), and the parts of the two web
  clients that hold logic of their own (\<open>src/inec-frontend/src/lib\<close>, \<open>src/campaign-platform/client\<close>).

  \<^bold>\<open>How the program is put together.\<close> The campaign server is a tRPC router over a PostgreSQL database.
  A caller signs in with a password (\<open>_core/localAuth.ts\<close>) and brings the signed session back in a
  cookie (\<open>_core/sdk.ts\<close>, \<open>_core/cookies.ts\<close>). A request passes a guard (\<open>_core/trpc.ts\<close>: session, then
  the caller's role on the campaign the request names, or on the campaign that owns the row it names),
  then a procedure of \<open>routers.ts\<close>, which calls the functions of \<open>db.ts\<close>. Scheduled endpoints and the
  war-room event stream are in \<open>_core/index.ts\<close> and \<open>_core/sse.ts\<close>, the rate limiter in
  \<open>_core/rateLimit.ts\<close>, the clients of the language model, the job service and the object storage in
  \<open>_core/llm.ts\<close>, \<open>_core/heartbeat.ts\<close> and \<open>storage.ts\<close>, the counters in \<open>_core/metrics.ts\<close>. The phone
  application queues reports, check-ins and results in SQLite and drains the queues through a request
  function that keeps a session and a corrected clock; results are captured on a form. Canvassers sign
  in by one-time code; their door knocks, pledges and locations are queued and sent by a manager driven
  by timers, changes of the network and the screen. The INEC web frontend keeps a session in the
  browser, retries its requests, returns the user to the page where a session expired and reports its
  errors in batches. The campaign's web client prints briefs and calendars and exports tables.

  \<^bold>\<open>Theories.\<close>

  \<^item> \<open>Campaign_Prelude\<close>: errors as values, programs as state transformers that return or throw
    (\<open>bindE\<close>, \<open>catchE\<close>, \<open>transactionE\<close>), relations and invariants along programs (\<open>follows\<close>,
    \<open>preserves\<close> and the locale \<open>transition_preorder\<close>), JavaScript string and number functions, tables
    as rows with a sequence, and the locale \<open>table_lens\<close> every table of every state interprets.
  \<^item> \<open>Campaign_Schema\<close>, \<open>Campaign_World\<close>: a record per table of \<open>schema.ts\<close>, with the checks its
    columns and keys make, and the state of the server: the tables, the clock, the limiter's memory,
    the broadcasts and notifications sent, and flags for the services behind it.
  \<^item> \<open>Tenancy\<close>: what a campaign's rows are in every table, and that a statement restricted to one
    campaign leaves the others alone.
  \<^item> \<open>Rate_Limit\<close>, \<open>Access_Control\<close>: the limiter with its two stores; the context of a request, roles
    and guards.
  \<^item> \<open>Session_Auth\<close>, \<open>Local_Auth\<close>: the environment at boot, cookies, signing and verifying sessions, the
    caller of a request; the login and change-password endpoints.
  \<^item> \<open>Voter_Compliance\<close>, \<open>Survey_Panel\<close>, \<open>Polling_Units\<close>, \<open>Outbound\<close>, \<open>War_Room\<close>, \<open>Petitions\<close>, \<open>Finance\<close>,
    \<open>Outreach\<close>, \<open>Planning\<close>, \<open>Team\<close>, \<open>Assistants\<close>: one desk of the campaign each, the functions of
    \<open>db.ts\<close> first and the procedures of \<open>routers.ts\<close> after them, under the names they have there
    (\<open>router.procedure\<close> is \<open>router_procedure\<close>).
  \<^item> \<open>Seed_Data\<close>: \<open>seed.all\<close> with every row it writes.
  \<^item> \<open>War_Room_Stream\<close>: the registry of open event streams and the endpoint that opens them.
  \<^item> \<open>Json_Text\<close>, \<open>Uri_Text\<close>, \<open>LLM_Client\<close>: JSON values and texts, percent encoding, the client of the
    language model.
  \<^item> \<open>Forge_Services\<close>, \<open>Server_Metrics\<close>: the clients of the job service and the storage with the proxy
    that guards it; counters, their rendering and the guard of their endpoint.
  \<^item> \<open>App_Router\<close>: the relation \<open>appRouter\<close> between a caller and what one of the procedures runs, the
    endpoints beside it, and the properties of the whole API.
  \<^item> \<open>Mobile_Session\<close>, \<open>Offline_Outbox\<close>: the request function, session and clock of the phone; its
    queues and their drains.
  \<^item> \<open>Election_Choice\<close>, \<open>Result_Capture\<close>: which election a screen works on; the capture form and its
    submission (\<open>app/result-capture.tsx\<close>).
  \<^item> \<open>Canvass_Store\<close>, \<open>Canvass_Session\<close>, \<open>Canvass_Sync\<close>: the canvasser's database with masked names;
    sign-in, tokens and the separation of the two kinds of users; the synchronisation, as the
    statements of the code and as passes that interleave with everything else.
  \<^item> \<open>Web_Session\<close>, \<open>Web_Telemetry\<close>: the INEC web frontend's requests, session, routing and roles of pages
    (\<open>lib/api.ts\<close>, \<open>lib/auth.tsx\<close>, \<open>App.tsx\<close>, \<open>lib/page-roles.ts\<close>, \<open>lib/gotv-session.tsx\<close>); its error log
    (\<open>lib/utils.ts\<close>).
  \<^item> \<open>Field_Workflow\<close>: the features of the roles, the workflow store and the page that leads through a
    workflow's steps (\<open>store/stakeholder.ts\<close>, \<open>pages/StakeholderWorkflowPage.tsx\<close>).
  \<^item> \<open>Html_Text\<close>, \<open>Engagement\<close>: escaping, checked addresses and colours, CSV; the brief and the calendar of
    the stakeholder desk.

  \<^bold>\<open>State and operations.\<close> An \<open>async\<close> function of the program is a function from its arguments and the
  state to a value or an error together with the state it leaves; statements executed before a throw
  stay executed unless the code runs them in a transaction. A row is a record with the columns of its
  table in the order of the schema; SQL's NULL is \<open>None\<close>. Time stamps are milliseconds since the
  epoch, the clock stands still while a request is served, and integer columns hold 32-bit values:
  an insert that does not fit fails. Money is an exact rational that is rounded when it is stored. The
  browser is a record of its storage, the token in memory, the address and the requests sent.

  \<^bold>\<open>Parameters.\<close> Code that is not in the repository is an argument or a flag of the state: the digests,
  bcrypt, the signatures of sessions, the cookie parser and the OAuth service (with the laws a property
  uses as its hypotheses), the predicates \<open>isEmail\<close> and \<open>isUrl\<close> of the validation library, the language
  model's answers, the job service, the storage, whether the notification service is configured and
  up, whether the limiter's statements succeed, whether the query builder refuses an empty SET or a
  date given as a string, and for the phone and the web frontend the backend as a function from the
  requests sent so far and the next one to its outcome. So are \<open>Date.parse\<close>, the way a locale prints a
  date, the translated labels of the brief and the random numbers of the fixtures.

  \<^bold>\<open>What is shown.\<close> Access: the outcome of every guard, isolation of campaigns under every sequence of
  API calls, unique keys; who is signed in by a login, a bound on guessed passwords, sessions that
  authenticate until they expire. Data protection: no voter without a consent and provenance trail,
  erasure, enrolment on active consent. Money: the statutory and the donor cap, a ledger that mirrors
  the budget. Petitions: one signature per identity. War room: an audit trail that is current, a scan
  that is idempotent, streams whose registry refines the list of open streams within the caps. Team:
  single-use invitations, joining, fixed owners. Limits: the limiter's bound, that it fails closed,
  the assistants' budget, the retry loop of the client. Storage: private objects only for callers who
  are signed in. JSON: values that are read are well-formed and survive printing. Phone: renewal of
  tokens, sessions that survive outages, a bounded clock correction; captured results that reach the
  queue as typed, are never lost, sent only while eligible and delivered by a drain; evidence that is
  verified before it is uploaded; decisions on a batch that match a plain specification. Canvassers:
  records whose status tells the truth under every interleaving, a manager that never gets stuck,
  passes that are the statements of the code when nothing interrupts them and empty the queues when
  the backend accepts, names that leave the cache masked only. Web clients: what a request may do to
  the session, tokens that never reach web storage in production, the return to the page of an expired
  session, errors that are sent once, workflows whose steps are done in order, documents whose markup no stored text can change, the plan of
  the calendar, tables that are read back from CSV. Some theorems show what the code does where it
  differs from what it means to do; they are named as findings.

  \<^bold>\<open>Fuel and termination.\<close> Recursion is structural or comes with a measure. The JSON reader takes
  fuel, one more than the length of the text, since each of its steps consumes a character or ends.

  \<^bold>\<open>Not modelled.\<close> The pages and components of the web clients and the screens of the phone beyond the
  ones named above (they render what the servers answer), the iCal and PDF exports (date formatting
  and a drawing library), translations and map layers, the services in Go, Python and Rust, the legacy
  migrations of the phone's tables other than the ones that park reports and drop unmasked names,
  failures of statements on the phone's database, the exchange of an OAuth authorization code (nothing
  calls it), log lines of the server, and interleavings of two requests inside the statements of one
  on the server: requests run one after another. On the phone the canvassers' passes interleave
  between the answers of the backend.
\<close>

end
